(* ===== verification/Prelude.thy ===== *)
theory Prelude
  imports Complex_Main "HOL-Library.Multiset"
begin

text \<open>
  What every component shares: Go strings as byte lists with the functions of package
  \<open>strings\<close> the sources call, decimal printing, the one error type of the development, and
  small lemmas on association lists and lists. A Go string is a sequence of bytes, as
  \<^typ>\<open>string\<close> is a list of 8-bit characters, so \<open>len\<close> is \<^const>\<open>length\<close>. The case and
  space functions are those of the ASCII range: the Unicode classes beyond it are not modelled.
\<close>

named_theorems prelude_simps \<open>characteristic equations of the prelude's functions\<close>

section \<open>Identifiers\<close>

text \<open>A UUID is used only through equality and the comparison with \<open>uuid.Nil\<close>.\<close>

type_synonym uuid = nat

definition uuid_nil :: uuid where
  "uuid_nil = 0"

section \<open>Characters and trimming\<close>

definition is_space :: "char \<Rightarrow> bool" where
  "is_space c \<longleftrightarrow> c \<in> {CHR '' '', CHR 0x09, CHR 0x0A, CHR 0x0B, CHR 0x0C, CHR 0x0D}"

definition to_lower_char :: "char \<Rightarrow> char" where
  "to_lower_char c =
     (let n = of_char c :: nat in if 65 \<le> n \<and> n \<le> 90 then char_of (n + 32) else c)"

definition to_lower :: "string \<Rightarrow> string" where
  "to_lower s = map to_lower_char s"

definition equal_fold :: "string \<Rightarrow> string \<Rightarrow> bool" where
  "equal_fold a b \<longleftrightarrow> to_lower a = to_lower b"

definition trim_left_by :: "(char \<Rightarrow> bool) \<Rightarrow> string \<Rightarrow> string" where
  "trim_left_by p s = dropWhile p s"

definition trim_right_by :: "(char \<Rightarrow> bool) \<Rightarrow> string \<Rightarrow> string" where
  "trim_right_by p s = rev (dropWhile p (rev s))"

definition trim_space :: "string \<Rightarrow> string" where
  "trim_space s = trim_right_by is_space (trim_left_by is_space s)"

section \<open>Prefixes, suffixes, searching\<close>

fun has_prefix :: "string \<Rightarrow> string \<Rightarrow> bool" where
  "has_prefix s [] = True"
| "has_prefix [] (p # ps) = False"
| "has_prefix (c # s) (p # ps) = (c = p \<and> has_prefix s ps)"

definition has_suffix :: "string \<Rightarrow> string \<Rightarrow> bool" where
  "has_suffix s p = has_prefix (rev s) (rev p)"

definition trim_prefix :: "string \<Rightarrow> string \<Rightarrow> string" where
  "trim_prefix s p = (if has_prefix s p then drop (length p) s else s)"

definition trim_suffix :: "string \<Rightarrow> string \<Rightarrow> string" where
  "trim_suffix s p = (if has_suffix s p then take (length s - length p) s else s)"

text \<open>\<open>strings.Index\<close>: the first position of a substring, \<^const>\<open>None\<close> for Go's \<open>-1\<close>.\<close>

fun index_of :: "string \<Rightarrow> string \<Rightarrow> nat option" where
  "index_of [] p = (if p = [] then Some 0 else None)"
| "index_of (c # s) p =
     (if has_prefix (c # s) p then Some 0 else map_option Suc (index_of s p))"

definition str_contains :: "string \<Rightarrow> string \<Rightarrow> bool" where
  "str_contains s p \<longleftrightarrow> index_of s p \<noteq> None"

fun last_index_char :: "string \<Rightarrow> char \<Rightarrow> nat option" where
  "last_index_char [] c = None"
| "last_index_char (d # s) c =
     (case last_index_char s c of
        Some i \<Rightarrow> Some (Suc i)
      | None \<Rightarrow> if d = c then Some 0 else None)"

text \<open>\<open>strings.ReplaceAll\<close> for a non-empty old string, left to right and without overlap.\<close>

function replace_all :: "string \<Rightarrow> string \<Rightarrow> string \<Rightarrow> string" where
  "replace_all old new s =
     (case s of
        [] \<Rightarrow> []
      | c # t \<Rightarrow>
          if old \<noteq> [] \<and> has_prefix s old then new @ replace_all old new (drop (length old) s)
          else c # replace_all old new t)"
  by pat_completeness auto
termination
  by (relation "measure (\<lambda>(old, new, s). length s)") (auto simp: neq_Nil_conv)

declare replace_all.simps [simp del]

fun join :: "string \<Rightarrow> string list \<Rightarrow> string" where
  "join sep [] = []"
| "join sep [x] = x"
| "join sep (x # y # xs) = x @ sep @ join sep (y # xs)"

text \<open>\<open>strings.Split\<close> on a single-character separator: one more part than separators.\<close>

fun split_char :: "char \<Rightarrow> string \<Rightarrow> string list" where
  "split_char d [] = [[]]"
| "split_char d (c # s) =
     (if c = d then [] # split_char d s
      else (case split_char d s of [] \<Rightarrow> [[c]] | p # ps \<Rightarrow> (c # p) # ps))"

text \<open>\<open>strings.FieldsFunc\<close>: the maximal runs of characters that are not separators.\<close>

function fields_func :: "(char \<Rightarrow> bool) \<Rightarrow> string \<Rightarrow> string list" where
  "fields_func p s =
     (case dropWhile p s of
        [] \<Rightarrow> []
      | c # t \<Rightarrow> (c # takeWhile (\<lambda>x. \<not> p x) t) # fields_func p (dropWhile (\<lambda>x. \<not> p x) t))"
  by pat_completeness auto
termination
proof (relation "measure (\<lambda>(p, s). length s)", goal_cases)
  case 1
  then show ?case by simp
next
  case (2 p s c t)
  have "length (c # t) \<le> length s"
    using length_dropWhile_le [of p s] 2 by simp
  then show ?case
    using length_dropWhile_le [of "\<lambda>x. \<not> p x" t] by simp
qed

declare fields_func.simps [simp del]

section \<open>Printing\<close>

definition digit_char :: "nat \<Rightarrow> char" where
  "digit_char n = char_of (48 + n)"

fun show_nat :: "nat \<Rightarrow> string" where
  "show_nat n = (if n < 10 then [digit_char n] else show_nat (n div 10) @ [digit_char (n mod 10)])"

declare show_nat.simps [simp del]

definition show_int :: "int \<Rightarrow> string" where
  "show_int i = (if i < 0 then CHR ''-'' # show_nat (nat (- i)) else show_nat (nat i))"

text \<open>
  \<open>%.Nf\<close>: the value rounded to \<open>n\<close> decimals, ties to even, with all \<open>n\<close> decimals printed.
\<close>

definition round_half_even :: "rat \<Rightarrow> int" where
  "round_half_even r =
     (let f = \<lfloor>r\<rfloor>; d = r - of_int f in
      if d < 1 / 2 then f else if d > 1 / 2 then f + 1 else if even f then f else f + 1)"

definition pad_zeros :: "nat \<Rightarrow> string \<Rightarrow> string" where
  "pad_zeros n s = replicate (n - length s) (CHR ''0'') @ s"

definition show_fixed :: "nat \<Rightarrow> rat \<Rightarrow> string" where
  "show_fixed n r =
     (let m = nat (round_half_even (\<bar>r\<bar> * 10 ^ n)) in
      (if r < 0 then ''-'' else []) @ show_nat (m div 10 ^ n) @ ''.''
        @ pad_zeros n (show_nat (m mod 10 ^ n)))"

text \<open>\<open>%q\<close> on the printable ASCII range.\<close>

definition quote_char :: "char \<Rightarrow> string" where
  "quote_char c =
     (if c = CHR 0x22 then [CHR 0x5C, CHR 0x22]
      else if c = CHR 0x5C then [CHR 0x5C, CHR 0x5C]
      else if c = CHR 0x0A then [CHR 0x5C, CHR ''n'']
      else if c = CHR 0x09 then [CHR 0x5C, CHR ''t'']
      else if c = CHR 0x0D then [CHR 0x5C, CHR ''r'']
      else [c])"

definition quote :: "string \<Rightarrow> string" where
  "quote s = CHR 0x22 # concat (map quote_char s) @ [CHR 0x22]"

section \<open>Errors\<close>

text \<open>
  A Go error is its tree of wrapped errors: a plain text, a wrapped error with the text in
  front of it, a sentinel, the context's own error, the classified failure of an LLM provider
  (\<open>llm/hosted.go\<close>), and the failure of a whole routing chain (\<open>llm/router.go\<close>).
\<close>

datatype provider_kind =
  ProviderNotConfigured | ProviderAuth | ProviderRateLimited | ProviderUnavailable
| ProviderTimeout | ProviderBadRequest | MalformedResponse

record provider_error =
  pe_provider :: string
  pe_kind :: provider_kind
  pe_status :: nat
  pe_message :: string
  pe_retry_after :: int
  pe_no_retry :: bool

datatype go_err =
  ErrText string
| ErrSentinel string
| ErrWrap string go_err
| ErrAround string go_err string
| ErrCtx string
| ErrProvider provider_error
| ErrOrgChainExhausted nat go_err

fun kind_text :: "provider_kind \<Rightarrow> string" where
  "kind_text ProviderNotConfigured = ''llm provider is not configured''"
| "kind_text ProviderAuth = ''llm provider rejected the credentials''"
| "kind_text ProviderRateLimited = ''llm provider rate limit''"
| "kind_text ProviderUnavailable = ''llm provider unavailable''"
| "kind_text ProviderTimeout = ''llm provider timed out''"
| "kind_text ProviderBadRequest = ''llm provider rejected the request''"
| "kind_text MalformedResponse = ''llm provider returned a malformed response''"

definition provider_error_text :: "provider_error \<Rightarrow> string" where
  "provider_error_text pe =
     pe_provider pe @ '': '' @ kind_text (pe_kind pe)
       @ (if pe_status pe \<noteq> 0 then '' (HTTP '' @ show_nat (pe_status pe) @ '')'' else [])
       @ (if pe_message pe \<noteq> [] then '': '' @ pe_message pe else [])"

definition chain_exhausted_text :: string where
  "chain_exhausted_text = ''llm: every provider in the org's routing chain failed''"

fun err_text :: "go_err \<Rightarrow> string" where
  "err_text (ErrText s) = s"
| "err_text (ErrSentinel s) = s"
| "err_text (ErrWrap s e) = s @ err_text e"
| "err_text (ErrAround s e t) = s @ err_text e @ t"
| "err_text (ErrCtx s) = s"
| "err_text (ErrProvider pe) = provider_error_text pe"
| "err_text (ErrOrgChainExhausted n e) =
     chain_exhausted_text @ '' ('' @ show_nat n @ '' tried): '' @ err_text e"

text \<open>
  \<open>errors.Is\<close> against a sentinel (named by its text), and \<open>errors.As\<close> for a provider error.
  A provider error unwraps to the sentinel of its kind.
\<close>

fun err_is :: "string \<Rightarrow> go_err \<Rightarrow> bool" where
  "err_is s (ErrText t) = False"
| "err_is s (ErrSentinel t) = (s = t)"
| "err_is s (ErrWrap t e) = err_is s e"
| "err_is s (ErrAround t e u) = err_is s e"
| "err_is s (ErrCtx t) = (s = t)"
| "err_is s (ErrProvider pe) = (s = kind_text (pe_kind pe))"
| "err_is s (ErrOrgChainExhausted n e) = (s = chain_exhausted_text \<or> err_is s e)"

fun err_as_provider :: "go_err \<Rightarrow> provider_error option" where
  "err_as_provider (ErrText t) = None"
| "err_as_provider (ErrSentinel t) = None"
| "err_as_provider (ErrWrap t e) = err_as_provider e"
| "err_as_provider (ErrAround t e u) = err_as_provider e"
| "err_as_provider (ErrCtx t) = None"
| "err_as_provider (ErrProvider pe) = Some pe"
| "err_as_provider (ErrOrgChainExhausted n e) = err_as_provider e"

section \<open>Association lists\<close>

definition aput :: "'k \<Rightarrow> 'v \<Rightarrow> ('k \<times> 'v) list \<Rightarrow> ('k \<times> 'v) list" where
  "aput k v m = (k, v) # filter (\<lambda>p. fst p \<noteq> k) m"

definition adel :: "'k \<Rightarrow> ('k \<times> 'v) list \<Rightarrow> ('k \<times> 'v) list" where
  "adel k m = filter (\<lambda>p. fst p \<noteq> k) m"

lemma map_of_filter_neq: "k \<noteq> j \<Longrightarrow> map_of (filter (\<lambda>p. fst p \<noteq> k) m) j = map_of m j"
  by (induction m) auto

lemma map_of_aput [simp, prelude_simps]:
  "map_of (aput k v m) j = (if j = k then Some v else map_of m j)"
  by (simp add: aput_def map_of_filter_neq)

lemma map_of_adel [simp, prelude_simps]:
  "map_of (adel k m) j = (if j = k then None else map_of m j)"
proof (cases "j = k")
  case True
  then show ?thesis
    by (auto simp: adel_def map_of_eq_None_iff)
next
  case False
  then show ?thesis
    by (simp add: adel_def map_of_filter_neq)
qed

section \<open>Lemmas on strings\<close>

lemma has_prefix_append [simp, prelude_simps]: "has_prefix (p @ s) p"
  by (induction p) auto

lemma has_prefix_iff: "has_prefix s p \<longleftrightarrow> (\<exists>t. s = p @ t)"
  by (induction s p rule: has_prefix.induct) auto

lemma has_suffix_iff: "has_suffix s p \<longleftrightarrow> (\<exists>t. s = t @ p)"
proof -
  have "has_suffix s p \<longleftrightarrow> (\<exists>t. rev s = rev p @ t)"
    by (simp add: has_suffix_def has_prefix_iff)
  also have "\<dots> \<longleftrightarrow> (\<exists>t. s = t @ p)"
    by (metis rev_append rev_rev_ident)
  finally show ?thesis .
qed

lemma trim_prefix_append [simp, prelude_simps]: "trim_prefix (p @ s) p = s"
  by (simp add: trim_prefix_def)

lemma length_trim_space_le: "length (trim_space s) \<le> length s"
proof -
  have "length (trim_space s) \<le> length (dropWhile is_space s)"
    by (simp add: trim_space_def trim_left_by_def trim_right_by_def)
       (metis length_dropWhile_le length_rev)
  also have "\<dots> \<le> length s"
    by (rule length_dropWhile_le)
  finally show ?thesis .
qed

lemma show_nat_nonempty [simp]: "show_nat n \<noteq> []"
  by (subst show_nat.simps) simp

section \<open>Lemmas on trimming\<close>

lemma dropWhile_snoc:
  "dropWhile p (xs @ [x]) = (if list_all p xs then (if p x then [] else [x]) else dropWhile p xs @ [x])"
  by (induction xs) auto

lemma trim_space_Cons: "is_space c \<Longrightarrow> trim_space (c # s) = trim_space s"
  by (simp add: trim_space_def trim_left_by_def)

lemma trim_space_snoc: "is_space c \<Longrightarrow> trim_space (s @ [c]) = trim_space s"
  by (auto simp: trim_space_def trim_left_by_def trim_right_by_def dropWhile_snoc list_all_iff
      dropWhile_eq_Nil_conv [THEN iffD2])

lemma trim_space_Nil [simp]: "trim_space [] = []"
  by (simp add: trim_space_def trim_left_by_def trim_right_by_def)

lemma trim_space_single: "is_space c \<Longrightarrow> trim_space [c] = []"
  by (simp add: trim_space_def trim_left_by_def trim_right_by_def)

lemma trim_space_ends: "\<exists>a b. s = a @ trim_space s @ b \<and> list_all is_space a \<and> list_all is_space b"
proof -
  let ?t = "dropWhile is_space s"
  have "s = takeWhile is_space s @ ?t" by simp
  moreover have "?t = trim_space s @ rev (takeWhile is_space (rev ?t))"
    unfolding trim_space_def trim_left_by_def trim_right_by_def
    by (metis rev_append rev_rev_ident takeWhile_dropWhile_id)
  ultimately show ?thesis
    by (intro exI [of _ "takeWhile is_space s"] exI [of _ "rev (takeWhile is_space (rev ?t))"])
       (auto simp: list_all_iff dest: set_takeWhileD)
qed

lemma trim_space_idem [simp]: "trim_space (trim_space s) = trim_space s"
proof -
  have left: "dropWhile is_space (rev (dropWhile is_space (rev t))) = rev (dropWhile is_space (rev t))"
    if "t = [] \<or> \<not> is_space (hd t)" for t
  proof (cases "list_all is_space t")
    case True
    then have "t = []" using that by (cases t) auto
    then show ?thesis by simp
  next
    case False
    then have t: "t \<noteq> []" by auto
    let ?u = "rev (dropWhile is_space (rev t))"
    have "dropWhile is_space (rev t) \<noteq> []"
      using False by (auto simp: dropWhile_eq_Nil_conv list_all_iff)
    moreover have "t = ?u @ rev (takeWhile is_space (rev t))"
      by (metis rev_append rev_rev_ident takeWhile_dropWhile_id)
    ultimately have "?u \<noteq> []" "hd ?u = hd t" by (metis rev_is_Nil_conv, metis hd_append2 rev_is_Nil_conv)
    then show ?thesis using that t by (cases ?u) auto
  qed
  have hd: "dropWhile is_space s = [] \<or> \<not> is_space (hd (dropWhile is_space s))"
    using hd_dropWhile by blast
  show ?thesis
    unfolding trim_space_def trim_left_by_def trim_right_by_def left [OF hd]
    by (simp add: dropWhile_idem)
qed

lemma map_trim_space:
  assumes "\<And>c. is_space (f c) = is_space c"
  shows "map f (trim_space s) = trim_space (map f s)"
  unfolding trim_space_def trim_left_by_def trim_right_by_def
  by (simp only: dropWhile_map rev_map o_def assms)

lemma to_lower_char_code:
  "of_char (to_lower_char c) = (let n = of_char c :: nat in if 65 \<le> n \<and> n \<le> 90 then n + 32 else n)"
  by (auto simp: to_lower_char_def Let_def)

lemma is_space_code: "is_space c \<longleftrightarrow> (of_char c :: nat) \<in> {32, 9, 10, 11, 12, 13}"
proof -
  have "c = d \<longleftrightarrow> (of_char c :: nat) = of_char d" for d by auto
  from this [of "CHR '' ''"] this [of "CHR 0x09"] this [of "CHR 0x0A"] this [of "CHR 0x0B"]
    this [of "CHR 0x0C"] this [of "CHR 0x0D"] show ?thesis
    by (simp only: is_space_def insert_iff empty_iff) simp
qed

lemma to_lower_trim_space: "to_lower (trim_space s) = trim_space (to_lower s)"
  unfolding to_lower_def by (rule map_trim_space) (auto simp: is_space_code to_lower_char_code Let_def)

lemma to_lower_idem [simp]: "to_lower (to_lower s) = to_lower s"
proof -
  have "to_lower_char (to_lower_char c) = to_lower_char c" for c
  proof -
    have "(of_char (to_lower_char (to_lower_char c)) :: nat) = of_char (to_lower_char c)"
      by (auto simp: to_lower_char_code Let_def)
    then show ?thesis by simp
  qed
  then show ?thesis by (simp add: to_lower_def)
qed

section \<open>Logging\<close>

text \<open>An operation on a world, on the same world with a log, and with an event of its own there.\<close>

definition lift_op :: "('w \<Rightarrow> 'a \<times> 'w) \<Rightarrow> 'w \<times> 'e list \<Rightarrow> 'a \<times> ('w \<times> 'e list)" where
  "lift_op f wl = (let (x, w') = f (fst wl) in (x, (w', snd wl)))"

definition log_op :: "('w \<Rightarrow> 'e) \<Rightarrow> ('w \<Rightarrow> 'a \<times> 'w) \<Rightarrow> 'w \<times> 'e list \<Rightarrow> 'a \<times> ('w \<times> 'e list)" where
  "log_op ev f wl = (let (x, w') = f (fst wl) in (x, (w', snd wl @ [ev (fst wl)])))"

lemma snd_lift_op [simp]: "snd (snd (lift_op f wl)) = snd wl"
  by (simp add: lift_op_def split_beta)

lemma snd_log_op [simp]: "snd (snd (log_op ev f wl)) = snd wl @ [ev (fst wl)]"
  by (simp add: log_op_def split_beta)

lemma fst_lift_op [simp]: "fst (lift_op f wl) = fst (f (fst wl))" "fst (snd (lift_op f wl)) = snd (f (fst wl))"
  by (simp_all add: lift_op_def split_beta)

end
