(* ===== verification/GoJson.thy ===== *)
theory GoJson
  imports Prelude
begin

text \<open>
  The part of package \<open>encoding/json\<close> the sources use: JSON values, the decoder from text
  to values, and the way \<open>json.Unmarshal\<close> assigns a value to a Go variable of a given type.
  The decoder is recursive descent with fuel; \<open>parse_json\<close> supplies enough of it for every
  text (\<open>parse_value_no_fuel\<close>), so running out is no outcome of the model. A number is its exact rational value. A Go map is an
  association list.
\<close>

section \<open>Values\<close>

datatype json =
  JNull | JBool bool | JNum rat | JStr string | JArr "json list" | JObj "(string \<times> json) list"

type_synonym obj = "(string \<times> json) list"

section \<open>Decoding text\<close>

datatype 'a pres = POk 'a string | PSyntax | PFuel

definition json_ws :: "char \<Rightarrow> bool" where
  "json_ws c \<longleftrightarrow> c \<in> {CHR '' '', CHR 0x09, CHR 0x0A, CHR 0x0D}"

definition skip_ws :: "string \<Rightarrow> string" where
  "skip_ws s = dropWhile json_ws s"

definition is_digit :: "char \<Rightarrow> bool" where
  "is_digit c \<longleftrightarrow> 48 \<le> (of_char c :: nat) \<and> (of_char c :: nat) \<le> 57"

definition digit_val :: "char \<Rightarrow> nat" where
  "digit_val c = of_char c - 48"

definition digits_val :: "string \<Rightarrow> nat" where
  "digits_val ds = foldl (\<lambda>a d. 10 * a + digit_val d) 0 ds"

definition hex_val :: "char \<Rightarrow> nat option" where
  "hex_val c =
     (let n = of_char c :: nat in
      if 48 \<le> n \<and> n \<le> 57 then Some (n - 48)
      else if 97 \<le> n \<and> n \<le> 102 then Some (n - 87)
      else if 65 \<le> n \<and> n \<le> 70 then Some (n - 55)
      else None)"

definition hex4 :: "char \<Rightarrow> char \<Rightarrow> char \<Rightarrow> char \<Rightarrow> nat option" where
  "hex4 a b c d =
     (case (hex_val a, hex_val b, hex_val c, hex_val d) of
        (Some w, Some x, Some y, Some z) \<Rightarrow> Some (((w * 16 + x) * 16 + y) * 16 + z)
      | _ \<Rightarrow> None)"

definition utf8 :: "nat \<Rightarrow> string" where
  "utf8 n =
     (if n < 128 then [char_of n]
      else if n < 2048 then [char_of (192 + n div 64), char_of (128 + n mod 64)]
      else if n < 65536 then
        [char_of (224 + n div 4096), char_of (128 + n div 64 mod 64), char_of (128 + n mod 64)]
      else
        [char_of (240 + n div 262144), char_of (128 + n div 4096 mod 64),
         char_of (128 + n div 64 mod 64), char_of (128 + n mod 64)])"

fun pcons :: "string \<Rightarrow> string pres \<Rightarrow> string pres" where
  "pcons u (POk t r) = POk (u @ t) r"
| "pcons u PSyntax = PSyntax"
| "pcons u PFuel = PFuel"

definition simple_escape :: "char \<Rightarrow> char option" where
  "simple_escape e =
     (if e = CHR 0x22 then Some (CHR 0x22) else if e = CHR 0x5C then Some (CHR 0x5C)
      else if e = CHR ''/'' then Some (CHR ''/'') else if e = CHR ''b'' then Some (CHR 0x08)
      else if e = CHR ''f'' then Some (CHR 0x0C) else if e = CHR ''n'' then Some (CHR 0x0A)
      else if e = CHR ''r'' then Some (CHR 0x0D) else if e = CHR ''t'' then Some (CHR 0x09)
      else None)"

text \<open>
  What follows a backslash: the bytes it stands for and the rest of the text. A lone surrogate
  is U+FFFD.
\<close>

fun unescape_u :: "nat \<Rightarrow> string \<Rightarrow> string \<times> string" where
  "unescape_u n (b # u # k1 # k2 # k3 # k4 # t) =
     (if 55296 \<le> n \<and> n < 56320 then
        (case hex4 k1 k2 k3 k4 of
           Some m \<Rightarrow>
             if b = CHR 0x5C \<and> u = CHR ''u'' \<and> 56320 \<le> m \<and> m < 57344
             then (utf8 (65536 + (n - 55296) * 1024 + (m - 56320)), t)
             else (utf8 65533, b # u # k1 # k2 # k3 # k4 # t)
         | None \<Rightarrow> (utf8 65533, b # u # k1 # k2 # k3 # k4 # t))
      else (utf8 (if 56320 \<le> n \<and> n < 57344 then 65533 else n), b # u # k1 # k2 # k3 # k4 # t))"
| "unescape_u n t = (utf8 (if 55296 \<le> n \<and> n < 57344 then 65533 else n), t)"

definition unescape :: "string \<Rightarrow> (string \<times> string) option" where
  "unescape s =
     (case s of
        [] \<Rightarrow> None
      | e # t \<Rightarrow>
          (case simple_escape e of
             Some d \<Rightarrow> Some ([d], t)
           | None \<Rightarrow>
               if e \<noteq> CHR ''u'' \<or> length t < 4 then None
               else map_option (\<lambda>n. unescape_u n (drop 4 t))
                      (hex4 (t ! 0) (t ! 1) (t ! 2) (t ! 3))))"

lemma unescape_u_length: "length (snd (unescape_u n s)) \<le> length s"
  by (induction n s rule: unescape_u.induct) (simp_all split: option.split)

lemma unescape_length:
  assumes "unescape s = Some (u, r)"
  shows "length r < length s"
proof (cases s)
  case Nil
  with assms show ?thesis by (simp add: unescape_def)
next
  case (Cons e t)
  show ?thesis
  proof (cases "simple_escape e")
    case None
    with assms Cons obtain n where "unescape_u n (drop 4 t) = (u, r)"
      by (auto simp: unescape_def split: if_splits)
    then have "length r \<le> length t - 4"
      using unescape_u_length [of n "drop 4 t"] by simp
    with Cons show ?thesis by simp
  next
    case (Some d)
    with assms Cons show ?thesis by (auto simp: unescape_def)
  qed
qed

text \<open>The rest of a string literal, after its opening quote.\<close>

function parse_str :: "string \<Rightarrow> string pres" where
  "parse_str s =
     (case s of
        [] \<Rightarrow> PSyntax
      | c # t \<Rightarrow>
          if c = CHR 0x22 then POk [] t
          else if (of_char c :: nat) < 32 then PSyntax
          else if c \<noteq> CHR 0x5C then pcons [c] (parse_str t)
          else (case unescape t of
                  None \<Rightarrow> PSyntax
                | Some (u, r) \<Rightarrow> pcons u (parse_str r)))"
  by pat_completeness auto
termination
  by (relation "measure length") (auto dest: unescape_length)

declare parse_str.simps [simp del]

text \<open>Numbers: \<open>-? (0 | [1-9][0-9]*) (. [0-9]+)? ([eE] [+-]? [0-9]+)?\<close>.\<close>

definition parse_int_part :: "string \<Rightarrow> (string \<times> string) option" where
  "parse_int_part s =
     (case s of
        [] \<Rightarrow> None
      | c # t \<Rightarrow>
          if c = CHR ''0'' then Some ([c], t)
          else if is_digit c then Some (c # takeWhile is_digit t, dropWhile is_digit t)
          else None)"

definition parse_frac :: "string \<Rightarrow> (string \<times> string) option" where
  "parse_frac s =
     (case s of
        c # t \<Rightarrow>
          if c \<noteq> CHR ''.'' then Some ([], s)
          else if takeWhile is_digit t = [] then None
          else Some (takeWhile is_digit t, dropWhile is_digit t)
      | [] \<Rightarrow> Some ([], s))"

definition parse_exp :: "string \<Rightarrow> (int \<times> string) option" where
  "parse_exp s =
     (case s of
        c # t \<Rightarrow>
          if c \<noteq> CHR ''e'' \<and> c \<noteq> CHR ''E'' then Some (0, s)
          else
            (let neg = (case t of d # u \<Rightarrow> d = CHR ''-'' | [] \<Rightarrow> False);
                 t1 = (case t of d # u \<Rightarrow> if d = CHR ''-'' \<or> d = CHR ''+'' then u else t | [] \<Rightarrow> t)
             in if takeWhile is_digit t1 = [] then None
                else Some ((if neg then - int (digits_val (takeWhile is_digit t1))
                            else int (digits_val (takeWhile is_digit t1))),
                           dropWhile is_digit t1))
      | [] \<Rightarrow> Some (0, s))"

definition scale10 :: "int \<Rightarrow> rat" where
  "scale10 e = (if e < 0 then 1 / 10 ^ nat (- e) else 10 ^ nat e)"

definition parse_num :: "string \<Rightarrow> json pres" where
  "parse_num s =
     (let neg = (case s of c # t \<Rightarrow> c = CHR ''-'' | [] \<Rightarrow> False);
          s1 = (case s of c # t \<Rightarrow> if c = CHR ''-'' then t else s | [] \<Rightarrow> s)
      in case parse_int_part s1 of
           None \<Rightarrow> PSyntax
         | Some (ip, s2) \<Rightarrow>
             (case parse_frac s2 of
                None \<Rightarrow> PSyntax
              | Some (fp, s3) \<Rightarrow>
                  (case parse_exp s3 of
                     None \<Rightarrow> PSyntax
                   | Some (e, s4) \<Rightarrow>
                       (let v = (of_nat (digits_val (ip @ fp)) / 10 ^ length fp) * scale10 e
                        in POk (JNum (if neg then - v else v)) s4))))"

fun parse_value :: "nat \<Rightarrow> string \<Rightarrow> json pres"
  and parse_elems :: "nat \<Rightarrow> string \<Rightarrow> json list pres"
  and parse_members :: "nat \<Rightarrow> string \<Rightarrow> (string \<times> json) list pres" where
  "parse_value 0 s = PFuel"
| "parse_value (Suc n) s =
     (case skip_ws s of
        [] \<Rightarrow> PSyntax
      | c # t \<Rightarrow>
          if c = CHR ''{'' then
            (case skip_ws t of
               [] \<Rightarrow> PSyntax
             | d # r \<Rightarrow>
                 if d = CHR ''}'' then POk (JObj []) r
                 else (case parse_members n (d # r) of
                         POk ms r' \<Rightarrow> POk (JObj ms) r' | PSyntax \<Rightarrow> PSyntax | PFuel \<Rightarrow> PFuel))
          else if c = CHR ''['' then
            (case skip_ws t of
               [] \<Rightarrow> PSyntax
             | d # r \<Rightarrow>
                 if d = CHR '']'' then POk (JArr []) r
                 else (case parse_elems n (d # r) of
                         POk vs r' \<Rightarrow> POk (JArr vs) r' | PSyntax \<Rightarrow> PSyntax | PFuel \<Rightarrow> PFuel))
          else if c = CHR 0x22 then
            (case parse_str t of POk u r \<Rightarrow> POk (JStr u) r | PSyntax \<Rightarrow> PSyntax | PFuel \<Rightarrow> PFuel)
          else if has_prefix (c # t) ''true'' then POk (JBool True) (drop 3 t)
          else if has_prefix (c # t) ''false'' then POk (JBool False) (drop 4 t)
          else if has_prefix (c # t) ''null'' then POk JNull (drop 3 t)
          else parse_num (c # t))"
| "parse_elems 0 s = PFuel"
| "parse_elems (Suc n) s =
     (case parse_value n s of
        POk v r \<Rightarrow>
          (case skip_ws r of
             [] \<Rightarrow> PSyntax
           | d # r' \<Rightarrow>
               if d = CHR '']'' then POk [v] r'
               else if d = CHR '','' then
                 (case parse_elems n r' of
                    POk vs r'' \<Rightarrow> POk (v # vs) r'' | PSyntax \<Rightarrow> PSyntax | PFuel \<Rightarrow> PFuel)
               else PSyntax)
      | PSyntax \<Rightarrow> PSyntax
      | PFuel \<Rightarrow> PFuel)"
| "parse_members 0 s = PFuel"
| "parse_members (Suc n) s =
     (case skip_ws s of
        [] \<Rightarrow> PSyntax
      | c # t \<Rightarrow>
          if c \<noteq> CHR 0x22 then PSyntax
          else (case parse_str t of
                  POk k r \<Rightarrow>
                    (case skip_ws r of
                       [] \<Rightarrow> PSyntax
                     | d # r1 \<Rightarrow>
                         if d \<noteq> CHR '':'' then PSyntax
                         else (case parse_value n r1 of
                                 POk v r2 \<Rightarrow>
                                   (case skip_ws r2 of
                                      [] \<Rightarrow> PSyntax
                                    | e # r3 \<Rightarrow>
                                        if e = CHR ''}'' then POk [(k, v)] r3
                                        else if e = CHR '','' then
                                          (case parse_members n r3 of
                                             POk ms r4 \<Rightarrow> POk ((k, v) # ms) r4
                                           | PSyntax \<Rightarrow> PSyntax | PFuel \<Rightarrow> PFuel)
                                        else PSyntax)
                               | PSyntax \<Rightarrow> PSyntax | PFuel \<Rightarrow> PFuel))
                | PSyntax \<Rightarrow> PSyntax | PFuel \<Rightarrow> PFuel))"

text \<open>A whole text is one value with only space around it.\<close>

definition parse_json :: "string \<Rightarrow> json option" where
  "parse_json s =
     (case parse_value (2 * length s + 2) s of
        POk v r \<Rightarrow> if skip_ws r = [] then Some v else None
      | _ \<Rightarrow> None)"

section \<open>The decoder consumes its input and never lacks fuel\<close>

lemma length_skip_ws: "length (skip_ws s) \<le> length s"
  by (simp add: skip_ws_def length_dropWhile_le)

lemma skip_ws_Cons_length: "skip_ws s = c # t \<Longrightarrow> length t < length s"
  using length_skip_ws [of s] by simp

lemma pcons_POk: "pcons u p = POk v r \<Longrightarrow> \<exists>v'. p = POk v' r"
  by (cases p) auto

lemma pcons_PFuel: "pcons u p = PFuel \<Longrightarrow> p = PFuel"
  by (cases p) auto

lemma parse_str_Nil: "parse_str [] = PSyntax"
  by (simp add: parse_str.simps [of "[]"])

lemma parse_str_quote: "parse_str (CHR 0x22 # t) = POk [] t"
  by (simp add: parse_str.simps [of "CHR 0x22 # t"])

lemma parse_str_escape:
  "parse_str (CHR 0x5C # t) =
     (case unescape t of None \<Rightarrow> PSyntax | Some (u, r) \<Rightarrow> pcons u (parse_str r))"
  by (simp add: parse_str.simps [of "CHR 0x5C # t"])

lemma parse_str_plain:
  assumes "c \<noteq> CHR 0x22" and "c \<noteq> CHR 0x5C"
  shows "parse_str (c # t) = (if (of_char c :: nat) < 32 then PSyntax else pcons [c] (parse_str t))"
  using assms by (simp add: parse_str.simps [of "c # t"])

lemma parse_str_result:
  "parse_str s \<noteq> PFuel \<and> (\<forall>v r. parse_str s = POk v r \<longrightarrow> length r < length s)"
proof (induction "length s" arbitrary: s rule: less_induct)
  case less
  have IH: "parse_str t \<noteq> PFuel" "parse_str t = POk v r \<Longrightarrow> length r < length t"
    if "length t < length s" for t v r
    using less that by auto
  show ?case
  proof (cases s)
    case Nil
    then show ?thesis by (simp add: parse_str_Nil)
  next
    case (Cons c t)
    consider (q) "c = CHR 0x22" | (e) "c = CHR 0x5C" | (p) "c \<noteq> CHR 0x22" "c \<noteq> CHR 0x5C"
      by blast
    then show ?thesis
    proof cases
      case q
      with Cons show ?thesis by (simp add: parse_str_quote)
    next
      case e
      show ?thesis
      proof (cases "unescape t")
        case None
        with e Cons show ?thesis by (simp add: parse_str_escape)
      next
        case (Some p)
        obtain u t' where p: "p = (u, t')" by (cases p)
        have "length t' < length t"
          using unescape_length Some p by blast
        with IH [of t'] Some p e Cons show ?thesis
          by (cases "parse_str t'") (auto simp: parse_str_escape)
      qed
    next
      case p
      with IH [of t] Cons show ?thesis
        by (cases "parse_str t") (auto simp: parse_str_plain)
    qed
  qed
qed

lemma parse_str_length: "parse_str s = POk v r \<Longrightarrow> length r < length s"
  using parse_str_result by blast

lemma parse_str_no_fuel: "parse_str s \<noteq> PFuel"
  using parse_str_result by blast

lemma parse_num_no_fuel: "parse_num s \<noteq> PFuel"
  by (simp add: parse_num_def Let_def split: option.split prod.split)

lemma parse_num_length:
  assumes "parse_num s = POk v r"
  shows "length r < length s"
proof -
  define s1 where "s1 = (case s of c # t \<Rightarrow> if c = CHR ''-'' then t else s | [] \<Rightarrow> s)"
  have le1: "length s1 \<le> length s"
    by (simp add: s1_def split: list.split)
  from assms obtain ip s2 fp s3 e where p: "parse_int_part s1 = Some (ip, s2)"
      "parse_frac s2 = Some (fp, s3)" "parse_exp s3 = Some (e, r)"
    by (auto simp: parse_num_def Let_def s1_def [symmetric] split: option.splits prod.splits)
  have "length s2 < length s1"
    using p(1) by (auto simp: parse_int_part_def le_imp_less_Suc length_dropWhile_le
        split: list.splits if_splits)
  moreover have "length s3 \<le> length s2"
    using p(2) by (auto simp: parse_frac_def le_SucI length_dropWhile_le
        split: list.splits if_splits)
  moreover have "length r \<le> length s3"
  proof (cases s3)
    case Nil
    with p(3) show ?thesis by (simp add: parse_exp_def)
  next
    case (Cons c t)
    have "length (dropWhile is_digit t1) \<le> Suc (length t)" if "length t1 \<le> length t" for t1
      using length_dropWhile_le [of is_digit t1] that by simp
    with Cons p(3) show ?thesis
      by (auto simp: parse_exp_def Let_def le_SucI length_dropWhile_le
          split: if_splits list.splits)
  qed
  ultimately show ?thesis using le1 by simp
qed

text \<open>
  With fuel twice the length of the text, plus one for a value and two for the elements of an
  array or the members of an object, the parser decides; and a parsed value is not empty.
\<close>

definition consumes :: "nat \<Rightarrow> nat \<Rightarrow> nat \<Rightarrow> 'a pres \<Rightarrow> bool" where
  "consumes n k l p \<longleftrightarrow>
     (\<forall>v r. p = POk v r \<longrightarrow> length r < l) \<and> (2 * l + k \<le> n \<longrightarrow> p \<noteq> PFuel)"

lemma consumes_POk: "consumes n k l (POk v r) \<longleftrightarrow> length r < l"
  by (simp add: consumes_def)

lemma consumes_PSyntax: "consumes n k l PSyntax"
  by (simp add: consumes_def)

lemma consumes_PFuel: "consumes n k l PFuel \<longleftrightarrow> n < 2 * l + k"
  by (auto simp: consumes_def)

lemmas consumes_simps = consumes_POk consumes_PSyntax consumes_PFuel

lemma skip_ws_parts: "skip_ws s = c # t \<Longrightarrow> Suc (length t) \<le> length s"
  using skip_ws_Cons_length [of s] by simp

lemma consumes_value:
  assumes e: "\<And>s. consumes n 2 (length s) (parse_elems n s)"
    and m: "\<And>s. consumes n 2 (length s) (parse_members n s)"
  shows "consumes (Suc n) 1 (length s) (parse_value (Suc n) s)"
proof (cases "skip_ws s")
  case Nil
  then show ?thesis by (simp add: consumes_simps)
next
  case (Cons c t)
  have ls: "Suc (length t) \<le> length s"
    using skip_ws_parts [OF Cons] .
  have ld: "length (drop k t) < length s" for k
    using ls by simp
  have arr: "consumes (Suc n) 1 (length s) (case skip_ws t of [] \<Rightarrow> PSyntax | d # r \<Rightarrow>
      if d = z then POk (f []) r
      else (case g (d # r) of POk x r' \<Rightarrow> POk (f x) r' | PSyntax \<Rightarrow> PSyntax | PFuel \<Rightarrow> PFuel))"
    if "\<And>s. consumes n 2 (length s) (g s)" for z and f :: "'b list \<Rightarrow> json" and g
  proof (cases "skip_ws t")
    case Nil
    then show ?thesis by (simp add: consumes_simps)
  next
    case (Cons d r)
    have "Suc (length r) \<le> length t" using skip_ws_parts [OF Cons] .
    with ls Cons that [of "d # r"] show ?thesis
      by (cases "g (d # r)") (auto simp: consumes_simps)
  qed
  have str: "consumes (Suc n) 1 (length s)
      (case parse_str t of POk u r \<Rightarrow> POk (JStr u) r | PSyntax \<Rightarrow> PSyntax | PFuel \<Rightarrow> PFuel)"
    using ls parse_str_no_fuel [of t] parse_str_length [of t]
    by (cases "parse_str t") (auto simp: consumes_simps dest: less_trans)
  have num: "consumes (Suc n) 1 (length s) (parse_num (c # t))"
    using ls parse_num_no_fuel [of "c # t"] parse_num_length [of "c # t"]
    by (cases "parse_num (c # t)") (auto simp: consumes_simps dest: less_le_trans)
  show ?thesis
    by (simp add: Cons arr [OF m] arr [OF e] str num consumes_POk ld del: length_drop One_nat_def)
qed

lemma consumes_elems:
  assumes v: "\<And>s. consumes n 1 (length s) (parse_value n s)"
    and e: "\<And>s. consumes n 2 (length s) (parse_elems n s)"
  shows "consumes (Suc n) 2 (length s) (parse_elems (Suc n) s)"
proof (cases "parse_value n s")
  case (POk x r)
  have lr: "length r < length s"
    using v [of s] POk by (simp add: consumes_POk)
  show ?thesis
  proof (cases "skip_ws r")
    case (Cons d r')
    have "Suc (length r') \<le> length r" using skip_ws_parts [OF Cons] .
    with POk Cons lr e [of r'] show ?thesis
      by (cases "parse_elems n r'") (auto simp: consumes_simps)
  qed (simp add: POk consumes_simps)
next
  case PFuel
  then show ?thesis using v [of s] by (simp add: consumes_simps)
qed (simp add: consumes_simps)

lemma consumes_members:
  assumes v: "\<And>s. consumes n 1 (length s) (parse_value n s)"
    and m: "\<And>s. consumes n 2 (length s) (parse_members n s)"
  shows "consumes (Suc n) 2 (length s) (parse_members (Suc n) s)"
proof (cases "\<exists>t k r r1 w r2 e r3. skip_ws s = CHR 0x22 # t \<and> parse_str t = POk k r
    \<and> skip_ws r = CHR '':'' # r1 \<and> parse_value n r1 = POk w r2 \<and> skip_ws r2 = e # r3")
  case True
  then obtain t k r r1 w r2 e r3 where *: "skip_ws s = CHR 0x22 # t" "parse_str t = POk k r"
      "skip_ws r = CHR '':'' # r1" "parse_value n r1 = POk w r2" "skip_ws r2 = e # r3"
    by blast
  have "length t < length s" "length r < length t" "length r1 < length r" "length r2 < length r1"
      "length r3 < length r2"
    using * skip_ws_Cons_length parse_str_length v [of r1] by (auto simp: consumes_POk)
  with * m [of r3] show ?thesis
    by (cases "parse_members n r3") (auto simp: consumes_simps)
next
  case False
  have "parse_value n r1 = PFuel \<Longrightarrow> skip_ws s = c # t \<Longrightarrow> parse_str t = POk k r
      \<Longrightarrow> skip_ws r = d # r1 \<Longrightarrow> n < 2 * length s + 1" for r1 c t k r d
    using v [of r1] skip_ws_Cons_length [of s c t] skip_ws_Cons_length [of r d r1]
      parse_str_length [of t k r] by (simp add: consumes_simps)
  with False show ?thesis
    by (auto simp: consumes_simps parse_str_no_fuel split: list.split pres.split)
qed

lemma parser_consumes:
  "consumes n 1 (length s) (parse_value n s) \<and> consumes n 2 (length t) (parse_elems n t)
     \<and> consumes n 2 (length u) (parse_members n u)"
proof (induction n arbitrary: s t u)
  case 0
  then show ?case by (simp add: consumes_simps)
next
  case (Suc n)
  then show ?case
    by (intro conjI consumes_value consumes_elems consumes_members) auto
qed

lemma parse_value_no_fuel: "parse_value (2 * length s + 2) s \<noteq> PFuel"
proof -
  have "consumes (2 * length s + 2) 1 (length s) (parse_value (2 * length s + 2) s)"
    using parser_consumes by blast
  then show ?thesis by (simp add: consumes_def)
qed

end
