(* ===== verification/LlmTypes.thy ===== *)
theory LlmTypes
  imports GoJson
begin

text \<open>
  The provider-agnostic types of \<open>llm/client.go\<close>, the prompts of \<open>llm/prompt.go\<close> and the
  hosted-provider call of \<open>llm/hosted.go\<close>. A client is a record of functions on a world of any
  type, so that what it answers may depend on everything that happened before: the provider on
  the other side of the network is not modelled. A \<open>context.Context\<close> is the record of the values
  the sources put on it; whether it is cancelled is read from the world.
\<close>

section \<open>Messages, requests, replies\<close>

record tool_call =
  tc_id :: string
  tc_name :: string
  tc_arguments :: "obj option"

record llm_message =
  msg_role :: string
  msg_content :: string
  msg_tool_calls :: "tool_call list"
  msg_tool_call_id :: string

record tool_def =
  td_name :: string
  td_description :: string
  td_parameters :: obj

record gen_request =
  rq_messages :: "llm_message list"
  rq_model :: string
  rq_max_tokens :: int
  rq_num_ctx :: int
  rq_temperature :: rat
  rq_tool_defs :: "tool_def list"
  rq_think :: bool
  rq_json :: bool

record usage =
  us_input :: "int option"
  us_output :: "int option"
  us_total :: "int option"
  us_reasoning :: "int option"

record gen_response =
  rs_content :: string
  rs_finish_reason :: string
  rs_model :: string
  rs_input_tokens :: int
  rs_output_tokens :: int
  rs_tool_calls :: "tool_call list"
  rs_provider_model :: string
  rs_request_id :: string
  rs_usage :: usage

definition role_system :: string where "role_system = ''system''"
definition role_user :: string where "role_user = ''user''"
definition role_assistant :: string where "role_assistant = ''assistant''"
definition role_tool :: string where "role_tool = ''tool''"

definition plain_message :: "string \<Rightarrow> string \<Rightarrow> llm_message" where
  "plain_message r c =
     \<lparr>msg_role = r, msg_content = c, msg_tool_calls = [], msg_tool_call_id = []\<rparr>"

text \<open>\<open>Usage.Reported\<close> and \<open>intOr\<close>.\<close>

definition usage_reported :: "usage \<Rightarrow> bool" where
  "usage_reported u \<longleftrightarrow>
     us_input u \<noteq> None \<or> us_output u \<noteq> None \<or> us_total u \<noteq> None \<or> us_reasoning u \<noteq> None"

definition int_or :: "int option \<Rightarrow> int" where
  "int_or p = (case p of None \<Rightarrow> 0 | Some n \<Rightarrow> n)"

section \<open>Context values and clients\<close>

record run_options =
  ro_skill_slugs :: "string list"
  ro_max_tokens :: int
  ro_max_cost :: rat

record go_ctx =
  cx_provider :: string
  cx_org :: "uuid option"
  cx_tools_org :: "uuid option"
  cx_tools_agent :: "uuid option"
  cx_trace_org :: "uuid option"
  cx_run_options :: "run_options option"
  cx_fallback_available :: bool

definition empty_ctx :: go_ctx where
  "empty_ctx =
     \<lparr>cx_provider = [], cx_org = None, cx_tools_org = None, cx_tools_agent = None,
      cx_trace_org = None, cx_run_options = None, cx_fallback_available = False\<rparr>"

text \<open>
  \<open>llm.Client\<close> with the optional interface \<open>ToolCapableClient\<close>: a client that does not implement
  it is one whose \<open>cl_supports_tools\<close> is \<^const>\<open>None\<close>.
\<close>

record 'w client =
  cl_provider_name :: string
  cl_supports_tools :: "bool option"
  cl_generate :: "go_ctx \<Rightarrow> gen_request \<Rightarrow> 'w \<Rightarrow> (go_err + gen_response) \<times> 'w"

text \<open>\<open>executor.clientSupportsTools\<close>, and the same test in the routers.\<close>

definition client_supports_tools :: "'w client \<Rightarrow> bool" where
  "client_supports_tools c = (cl_supports_tools c = Some True)"

section \<open>Failures of hosted providers\<close>

definition is_content_blocked :: "go_err \<Rightarrow> bool" where
  "is_content_blocked e =
     (case err_as_provider e of
        None \<Rightarrow> False
      | Some pe \<Rightarrow> pe_kind pe = ProviderBadRequest \<and> str_contains (pe_message pe) ''blocked'')"

definition retryable :: "provider_error \<Rightarrow> bool" where
  "retryable pe =
     (if pe_no_retry pe then False
      else pe_kind pe = ProviderRateLimited \<or> pe_kind pe = ProviderUnavailable)"

definition kind_for_status :: "nat \<Rightarrow> provider_kind" where
  "kind_for_status st =
     (if st = 401 \<or> st = 403 then ProviderAuth
      else if st = 429 then ProviderRateLimited
      else if st = 408 then ProviderTimeout
      else if st \<ge> 500 then ProviderUnavailable
      else ProviderBadRequest)"

definition malformed :: "string \<Rightarrow> string \<Rightarrow> provider_error" where
  "malformed provider detail =
     \<lparr>pe_provider = provider, pe_kind = MalformedResponse, pe_status = 0, pe_message = detail,
      pe_retry_after = 0, pe_no_retry = False\<rparr>"

text \<open>
  One HTTP exchange as \<open>doOnce\<close> sees it: no response (and whether it was a timeout), a response
  whose body could not be read, or a status with headers and body. Durations are milliseconds.
\<close>

type_synonym headers = "(string \<times> string) list"

datatype http_outcome =
  HttpSendFailed bool string
| HttpReadFailed nat bool string
| HttpReply nat headers string

definition transport_error :: "string \<Rightarrow> bool \<Rightarrow> nat \<Rightarrow> string \<Rightarrow> provider_error" where
  "transport_error provider timed_out st msg =
     \<lparr>pe_provider = provider,
      pe_kind = (if timed_out then ProviderTimeout else ProviderUnavailable),
      pe_status = st, pe_message = msg, pe_retry_after = 0, pe_no_retry = False\<rparr>"

definition do_once ::
  "('w \<Rightarrow> go_err option) \<Rightarrow> ('r \<Rightarrow> 'w \<Rightarrow> http_outcome \<times> 'w) \<Rightarrow> string \<Rightarrow> (go_err + 'r)
    \<Rightarrow> (nat \<Rightarrow> headers \<Rightarrow> string \<Rightarrow> provider_error) \<Rightarrow> 'w \<Rightarrow> (go_err + string) \<times> 'w" where
  "do_once ctx_err send provider build classify w =
     (case build of
        Inl e \<Rightarrow> (Inl (ErrWrap (provider @ '': build request: '') e), w)
      | Inr req \<Rightarrow>
          (case send req w of
             (HttpSendFailed timed_out msg, w') \<Rightarrow>
               (case ctx_err w' of
                  Some ce \<Rightarrow> (Inl ce, w')
                | None \<Rightarrow> (Inl (ErrProvider (transport_error provider timed_out 0 msg)), w'))
           | (HttpReadFailed st timed_out msg, w') \<Rightarrow>
               (case ctx_err w' of
                  Some ce \<Rightarrow> (Inl ce, w')
                | None \<Rightarrow>
                    (Inl (ErrProvider
                       (transport_error provider timed_out st (''reading response: '' @ msg))), w'))
           | (HttpReply st h body, w') \<Rightarrow>
               if st div 100 \<noteq> 2 then (Inl (ErrProvider (classify st h body)), w')
               else (Inr body, w')))"

record retry_policy =
  rp_attempts :: int
  rp_base :: int
  rp_max :: int

definition default_retry_policy :: retry_policy where
  "default_retry_policy = \<lparr>rp_attempts = 3, rp_base = 1000, rp_max = 20000\<rparr>"

text \<open>
  The wait before the next attempt, \<^const>\<open>None\<close> when the provider asks for more than the policy
  will wait.
\<close>

definition retry_wait :: "retry_policy \<Rightarrow> nat \<Rightarrow> provider_error \<Rightarrow> int option" where
  "retry_wait p attempt pe =
     (if pe_retry_after pe > 0 then
        (if pe_retry_after pe > rp_max p then None
         else Some (min (pe_retry_after pe) (rp_max p)))
      else Some (min (rp_base p * 2 ^ (attempt - 1)) (rp_max p)))"

text \<open>
  \<open>doHosted\<close>: attempt \<open>k\<close> of the loop, with \<open>left\<close> attempts after it. The timer of
  \<open>select\<close> is the argument \<open>sleep\<close>: it returns the context's error when that comes first.
\<close>

fun hosted_attempts ::
  "('w \<Rightarrow> (go_err + string) \<times> 'w) \<Rightarrow> (int \<Rightarrow> 'w \<Rightarrow> go_err option \<times> 'w) \<Rightarrow> retry_policy
    \<Rightarrow> nat \<Rightarrow> nat \<Rightarrow> 'w \<Rightarrow> (go_err + string) \<times> 'w" where
  "hosted_attempts once sleep p k left w =
     (case once w of
        (Inr body, w') \<Rightarrow> (Inr body, w')
      | (Inl perr, w') \<Rightarrow>
          (case err_as_provider perr of
             None \<Rightarrow> (Inl perr, w')
           | Some pe \<Rightarrow>
               if \<not> retryable pe then (Inl perr, w')
               else (case left of
                       0 \<Rightarrow> (Inl perr, w')
                     | Suc left' \<Rightarrow>
                         (case retry_wait p k pe of
                            None \<Rightarrow> (Inl perr, w')
                          | Some d \<Rightarrow>
                              (case sleep d w' of
                                 (Some ce, w'') \<Rightarrow> (Inl ce, w'')
                               | (None, w'') \<Rightarrow>
                                   hosted_attempts once sleep p (Suc k) left' w'')))))"

definition do_hosted ::
  "('w \<Rightarrow> go_err option) \<Rightarrow> ('r \<Rightarrow> 'w \<Rightarrow> http_outcome \<times> 'w)
    \<Rightarrow> (int \<Rightarrow> 'w \<Rightarrow> go_err option \<times> 'w) \<Rightarrow> string \<Rightarrow> retry_policy \<Rightarrow> (go_err + 'r)
    \<Rightarrow> (nat \<Rightarrow> headers \<Rightarrow> string \<Rightarrow> provider_error) \<Rightarrow> 'w \<Rightarrow> (go_err + string) \<times> 'w" where
  "do_hosted ctx_err send sleep provider p build classify w =
     hosted_attempts (do_once ctx_err send provider build classify) sleep p 1
       (nat (max (rp_attempts p) 1) - 1) w"

section \<open>The retry loop\<close>

text \<open>The same effects on a world that also counts the requests sent.\<close>

definition counting :: "('r \<Rightarrow> 'w \<Rightarrow> 'a \<times> 'w) \<Rightarrow> 'r \<Rightarrow> 'w \<times> nat \<Rightarrow> 'a \<times> ('w \<times> nat)" where
  "counting f r wn = (let (x, w') = f r (fst wn) in (x, (w', Suc (snd wn))))"

definition not_counting :: "('r \<Rightarrow> 'w \<Rightarrow> 'a \<times> 'w) \<Rightarrow> 'r \<Rightarrow> 'w \<times> nat \<Rightarrow> 'a \<times> ('w \<times> nat)" where
  "not_counting f r wn = (let (x, w') = f r (fst wn) in (x, (w', snd wn)))"

lemma do_once_counting:
  "do_once ctx_err (counting send) provider build classify wn = (x, wn')
    \<Longrightarrow> snd wn' \<le> Suc (snd wn)"
  by (auto simp: do_once_def counting_def split: sum.splits prod.splits http_outcome.splits
      option.splits if_splits)

declare hosted_attempts.simps [simp del]

lemma hosted_attempts_counting:
  assumes once: "\<And>wn x wn'. once wn = (x, wn') \<Longrightarrow> snd wn' \<le> Suc (snd wn)"
  shows "snd (snd (hosted_attempts once (not_counting sleep) p k left wn)) \<le> snd wn + Suc left"
proof (induction left arbitrary: k wn)
  case 0
  obtain x wn' where "once wn = (x, wn')" by (cases "once wn")
  with once [OF this] show ?case
    by (auto simp: hosted_attempts.simps [of _ _ _ _ 0] split: sum.split option.split)
next
  case (Suc left)
  obtain x wn' where o: "once wn = (x, wn')" by (cases "once wn")
  have le: "snd wn' \<le> Suc (snd wn)" using once [OF o] .
  define y where "y d = fst (sleep d (fst wn'))" for d
  define w2 where "w2 d = snd (sleep d (fst wn'))" for d
  have s: "sleep d (fst wn') = (y d, w2 d)" for d
    by (simp add: y_def w2_def)
  have "snd (snd (hosted_attempts once (not_counting sleep) p (Suc k) left (w2 d, snd wn')))
      \<le> snd wn + Suc (Suc left)" for d
    using Suc.IH [of "Suc k" "(w2 d, snd wn')"] le by simp
  with o le s show ?case
    by (auto simp: hosted_attempts.simps [of _ _ _ _ "Suc left"] not_counting_def [where wn = wn']
        split: sum.split option.split)
qed

lemma hosted_attempts_final:
  assumes "once w = (Inl e, w')"
    and "\<And>pe. err_as_provider e = Some pe \<Longrightarrow> \<not> retryable pe"
  shows "hosted_attempts once sleep p k left w = (Inl e, w')"
  using assms by (subst hosted_attempts.simps) (auto split: option.split)

lemma hosted_waits_bounded:
  "rp_base p \<ge> 0 \<Longrightarrow> rp_max p \<ge> 0 \<Longrightarrow> retry_wait p k pe = Some d \<Longrightarrow> 0 \<le> d \<and> d \<le> rp_max p"
  by (auto simp: retry_wait_def split: if_splits)

text \<open>
  a call to a hosted provider sends at most as many requests as the policy has attempts (one at
  least), whatever the provider answers and however it asks to be retried.
\<close>

lemma hosted_requests_bounded:
  "snd (snd (do_hosted (\<lambda>wn. ctx_err (fst wn)) (counting send) (not_counting sleep) provider p build
     classify (w, 0)))
   \<le> nat (max (rp_attempts p) 1)"
proof -
  have "snd (snd (do_hosted (\<lambda>wn. ctx_err (fst wn)) (counting send) (not_counting sleep) provider p
      build classify (w, 0))) \<le> snd (w, 0::nat) + Suc (nat (max (rp_attempts p) 1) - 1)"
    unfolding do_hosted_def by (rule hosted_attempts_counting) (rule do_once_counting)
  then show ?thesis by simp
qed

text \<open>
  a reply whose status is neither 429 nor a server error is final: the call returns the
  classified error after that single request, with no wait.
\<close>

lemma hosted_client_error_final:
  assumes "build = Inr rq" and "send rq w = (HttpReply st h body, w')"
    and "st div 100 \<noteq> 2" and "st \<noteq> 429" and "st < 500"
    and "\<And>st h b. pe_kind (classify st h b) = kind_for_status st"
  shows "do_hosted ctx_err send sleep provider p build classify w
    = (Inl (ErrProvider (classify st h body)), w')"
proof -
  have "do_once ctx_err send provider build classify w
      = (Inl (ErrProvider (classify st h body)), w')"
    using assms(1-3) by (simp add: do_once_def)
  moreover have "\<not> retryable (classify st h body)"
    using assms(4-6) by (auto simp: retryable_def kind_for_status_def)
  ultimately show ?thesis
    unfolding do_hosted_def by (intro hosted_attempts_final) auto
qed

definition plain_classify :: "nat \<Rightarrow> headers \<Rightarrow> string \<Rightarrow> provider_error" where
  "plain_classify st h b =
     \<lparr>pe_provider = ''p'', pe_kind = kind_for_status st, pe_status = st, pe_message = b,
      pe_retry_after = 0, pe_no_retry = False\<rparr>"

end
