(* ===== verification/Tools.thy ===== *)
theory Tools
  imports LlmTypes
begin

text \<open>
  The tool interface and registry of \<open>tools/tool.go\<close>, and the parts of \<open>model.Agent\<close> and
  \<open>model.Skill\<close> the executor reads. A registry is an association list from names to tools; the
  order in which Go ranges over the map is unspecified, and here that of the list. What a tool does
  is not modelled: \<open>tl_execute\<close> is any function on the world, its timeout included.
\<close>

record 'w tool =
  tl_name :: string
  tl_description :: string
  tl_schema :: "obj option"
  tl_execute :: "go_ctx \<Rightarrow> obj \<Rightarrow> 'w \<Rightarrow> (string \<times> go_err option) \<times> 'w"

type_synonym 'w registry = "(string \<times> 'w tool) list"

definition new_registry :: "'w registry" where
  "new_registry = []"

text \<open>\<open>Register\<close> panics on a duplicate name: \<^const>\<open>None\<close>.\<close>

definition register_tool :: "'w tool \<Rightarrow> 'w registry \<Rightarrow> 'w registry option" where
  "register_tool t reg =
     (if map_of reg (tl_name t) \<noteq> None then None else Some (aput (tl_name t) t reg))"

definition get_tool :: "'w registry \<Rightarrow> string \<Rightarrow> 'w tool option" where
  "get_tool reg n = map_of reg n"

fun subset_registry :: "'w registry \<Rightarrow> string list \<Rightarrow> 'w registry \<Rightarrow> 'w registry" where
  "subset_registry reg [] sub = sub"
| "subset_registry reg (n # ns) sub =
     subset_registry reg ns (case map_of reg n of Some t \<Rightarrow> aput n t sub | None \<Rightarrow> sub)"

definition registry_subset :: "'w registry \<Rightarrow> string list \<Rightarrow> 'w registry" where
  "registry_subset reg allow = subset_registry reg allow new_registry"

definition all_tools :: "'w registry \<Rightarrow> 'w tool list" where
  "all_tools reg = map snd reg"

definition tool_names :: "'w registry \<Rightarrow> string list" where
  "tool_names reg = map fst reg"

record agent =
  ag_id :: uuid
  ag_org :: uuid
  ag_name :: string
  ag_role :: string
  ag_description :: "string option"
  ag_status :: string
  ag_model_provider :: "string option"
  ag_model_name :: "string option"
  ag_system_prompt :: "string option"
  ag_performance :: rat
  ag_engine_type :: string
  ag_metadata :: obj

record skill =
  sk_slug :: string
  sk_description :: "string option"
  sk_kind :: string
  sk_config :: obj

section \<open>Lemmas\<close>

lemma subset_registry_get:
  "map_of (subset_registry reg ns sub) n =
     (if n \<in> set ns \<and> map_of reg n \<noteq> None then map_of reg n else map_of sub n)"
  by (induction reg ns sub rule: subset_registry.induct) (auto split: option.split)

lemma registry_subset_get:
  "get_tool (registry_subset reg ns) n = (if n \<in> set ns then map_of reg n else None)"
  by (auto simp: get_tool_def registry_subset_def new_registry_def subset_registry_get)

lemma registry_subset_submap:
  "get_tool (registry_subset reg ns) n = Some t \<Longrightarrow> map_of reg n = Some t \<and> n \<in> set ns"
  by (simp add: registry_subset_get split: if_splits)

end
