(* ===== verification/Prompts.thy ===== *)
theory Prompts
  imports LlmTypes
begin

text \<open>
  The prompts of \<open>llm/prompt.go\<close>, byte for byte (a character beyond ASCII is its UTF-8 bytes).
  \<open>nl\<close> is a line feed and \<open>dq\<close> a double quote.
\<close>

definition nl :: string where "nl = [CHR 0x0A]"
definition dq :: string where "dq = [CHR 0x22]"

definition react_instructions :: "string" where
  "react_instructions =
     ''## Instructions'' @ nl @ nl
     @ ''You operate in a Reasoning + Acting (ReAct) loop. For every message you receive, ''
     @ ''you MUST respond with a single JSON object and nothing else '' @ [CHR 0xE2] @ [CHR 0x80]
     @ [CHR 0x94] @ '' no markdown, no code fences, '' @ ''no explanations outside the JSON.''
     @ nl @ nl @ ''### Response format when you need to use a tool:'' @ nl @ ''```'' @ nl @ ''{''
     @ dq @ ''thought'' @ dq @ '':'' @ dq @ ''<your reasoning>'' @ dq @ '','' @ dq @ ''action''
     @ dq @ '':'' @ dq @ ''<tool_name>'' @ dq @ '','' @ dq @ ''action_input'' @ dq
     @ '':{<tool parameters>},'' @ dq @ ''final_answer'' @ dq @ '':null}'' @ nl @ ''```'' @ nl
     @ nl @ ''### Response format when you have a final answer:'' @ nl @ ''```'' @ nl @ ''{'' @ dq
     @ ''thought'' @ dq @ '':'' @ dq @ ''<your reasoning>'' @ dq @ '','' @ dq @ ''action'' @ dq
     @ '':null,'' @ dq @ ''action_input'' @ dq @ '':null,'' @ dq @ ''final_answer'' @ dq @ '':''
     @ dq @ ''<complete answer>'' @ dq @ ''}'' @ nl @ ''```'' @ nl @ nl @ ''Rules:'' @ nl
     @ ''- Always start with a '' @ dq @ ''thought'' @ dq @ '' explaining your reasoning.'' @ nl
     @ ''- Only call one tool per response.'' @ nl @ ''- Set '' @ dq @ ''final_answer'' @ dq
     @ '' to null when calling a tool, and set '' @ dq @ ''action'' @ dq @ ''/'' @ dq
     @ ''action_input'' @ dq @ '' to null when providing a final answer.'' @ nl
     @ ''- When you have enough information, provide a complete, helpful final answer.'' @ nl @ nl"

definition tool_specs_text :: "(string \<times> string) list \<Rightarrow> string" where
  "tool_specs_text tools =
     (if tools \<noteq> [] then
        ''## Available Tools'' @ nl @ nl
          @ concat (map (\<lambda>(n, d). ''### '' @ n @ nl @ d @ nl @ nl) tools)
      else
        ''## Available Tools'' @ nl @ nl
        @ ''No tools are available. Reason and answer from your knowledge only.'' @ nl @ nl)"

definition build_react_system_prompt :: "string \<Rightarrow> string \<Rightarrow> string \<Rightarrow> (string \<times> string) list \<Rightarrow> string" where
  "build_react_system_prompt agent_name agent_role agent_prompt tools =
     ''You are '' @ agent_name @ '', an AI agent with the role: '' @ agent_role @ ''.'' @ nl @ nl
     @ (if agent_prompt \<noteq> []
       then ''Additional context about you:'' @ nl @ agent_prompt @ nl @ nl else [])
     @ react_instructions @ tool_specs_text tools"

definition build_native_system_prompt :: "string \<Rightarrow> string \<Rightarrow> string \<Rightarrow> string" where
  "build_native_system_prompt agent_name agent_role agent_prompt =
     ''You are '' @ agent_name @ '', an AI agent with the role: '' @ agent_role @ ''.'' @ nl @ nl
     @ (if agent_prompt \<noteq> []
       then ''Additional context about you:'' @ nl @ agent_prompt @ nl @ nl else [])
     @ ''## Instructions'' @ nl @ nl
     @ ''You have access to a set of tools. Call them when they help you complete the task. ''
     @ ''You may call multiple tools over several turns. ''
     @ ''When you have gathered enough information, respond with your final answer as plain text.''"

definition build_task_user_message :: "string \<Rightarrow> string" where
  "build_task_user_message task =
     ''Task: '' @ task"

definition build_tool_result_message :: "string \<Rightarrow> string \<Rightarrow> string" where
  "build_tool_result_message tool result =
     ''Tool result for '' @ quote tool @ '':'' @ nl @ result"

definition build_planning_prompt :: "string \<Rightarrow> string \<Rightarrow> string \<Rightarrow> string list \<Rightarrow> string" where
  "build_planning_prompt agent_name agent_role goal memories =
     ''You are '' @ agent_name @ '', an AI agent with the role: '' @ agent_role @ ''.'' @ nl @ nl
     @ ''## Task'' @ nl @ nl
     @ ''Break the following goal into a numbered list of concrete execution steps.'' @ nl
     @ ''Each step should be specific enough that it can be executed by calling a single tool or a small chain of tool calls.''
     @ nl @ nl @ ''Goal: '' @ goal @ nl @ nl
     @ (if memories \<noteq> [] then
        ''## Relevant Memory'' @ nl @ nl
          @ concat (map (\<lambda>m. ''- '' @ m @ nl) memories) @ nl
      else [])
     @ ''## Output Format'' @ nl @ nl @ ''Respond with ONLY a JSON object '' @ [CHR 0xE2]
     @ [CHR 0x80] @ [CHR 0x94] @ '' no markdown, no code fences, no explanations.'' @ nl @ ''```''
     @ nl @ ''{'' @ dq @ ''steps'' @ dq @ '':[{'' @ dq @ ''index'' @ dq @ '':0,'' @ dq
     @ ''description'' @ dq @ '':'' @ dq @ ''...'' @ dq @ '','' @ dq @ ''tool_hint'' @ dq @ '':''
     @ dq @ ''optional_tool_name'' @ dq @ ''},{'' @ dq @ ''index'' @ dq @ '':1,'' @ dq
     @ ''description'' @ dq @ '':'' @ dq @ ''...'' @ dq @ ''}]}'' @ nl @ ''```'' @ nl"

definition numbered_steps :: "nat \<Rightarrow> string list \<Rightarrow> string" where
  "numbered_steps k obs =
     concat (map (\<lambda>(i, ob). ''Step '' @ show_nat i @ '': '' @ ob @ nl) (zip [k..<k + length obs] obs))"

definition build_reflection_prompt :: "string \<Rightarrow> string \<Rightarrow> string list \<Rightarrow> string" where
  "build_reflection_prompt agent_name goal observations =
     ''You are '' @ agent_name @ ''.'' @ nl @ nl @ ''## Reflection Task'' @ nl @ nl
     @ ''Review the work done toward the goal below. Summarize:'' @ nl
     @ ''1. What was accomplished'' @ nl @ ''2. Key findings or results'' @ nl
     @ ''3. Any issues or improvements for next time'' @ nl @ nl @ ''Goal: '' @ goal @ nl @ nl
     @ ''## Step Observations'' @ nl @ nl @ numbered_steps 1 observations @ nl
     @ ''Provide a concise reflection as plain text (2-4 sentences).'' @ nl"

definition build_intent_prompt :: "string \<Rightarrow> string list \<Rightarrow> string" where
  "build_intent_prompt user_message actions =
     ''You are an intent classifier for an AI agent platform.'' @ nl @ nl @ ''## Task'' @ nl @ nl
     @ ''Classify the user message into one of the supported actions and extract parameters.''
     @ nl @ nl @ ''User message: '' @ quote user_message @ nl @ nl @ ''## Supported Actions'' @ nl
     @ nl @ concat (map (\<lambda>a. ''- '' @ a @ nl) actions) @ nl @ ''## Output Format'' @ nl
     @ nl @ ''Respond with ONLY a JSON object:'' @ nl @ ''```'' @ nl @ ''{'' @ dq @ ''action''
     @ dq @ '':'' @ dq @ ''<action_name>'' @ dq @ '','' @ dq @ ''parameters'' @ dq @ '':{'' @ dq
     @ ''key'' @ dq @ '':'' @ dq @ ''value'' @ dq @ ''},'' @ dq @ ''confidence'' @ dq @ '':0.9}''
     @ nl @ ''```'' @ nl @ nl @ ''Rules:'' @ nl @ ''- Pick the best matching action.'' @ nl
     @ ''- If no action matches well, use '' @ dq @ ''chat'' @ dq @ '' as the action.'' @ nl
     @ ''- Extract any relevant parameters (agent name, task title, workflow name, etc.).'' @ nl
     @ ''- Confidence should be between 0.0 and 1.0.'' @ nl"

end
