(* ===== verification/LlmRouter.thy ===== *)
theory LlmRouter
  imports LlmTypes
begin

text \<open>
  \<open>llm/router.go\<close>: the registered clients, how a provider name resolves to one, and the fallback
  to self-hosted Ollama when a call fails in a way another provider may survive. The order in which
  Go ranges over the client map is unspecified; here it is the order of the association list, and
  only the text of an error depends on it.
\<close>

record 'w router =
  rt_clients :: "(string \<times> 'w client) list"
  rt_default :: string
  rt_ollama_fallback :: bool
  rt_ollama_model :: string
  rt_ctx_err :: "'w \<Rightarrow> go_err option"

text \<open>\<open>apiRoot\<close> strips trailing slashes and one \<open>/v1\<close>.\<close>

definition api_root :: "string \<Rightarrow> string" where
  "api_root base = trim_suffix (trim_right_by (\<lambda>c. c = CHR ''/'') base) ''/v1''"

record provider_info =
  pi_name :: string
  pi_is_default :: bool

definition registered_providers :: "'w router \<Rightarrow> provider_info list" where
  "registered_providers r =
     map (\<lambda>(n, c). \<lparr>pi_name = n, pi_is_default = (n = rt_default r)\<rparr>) (rt_clients r)"

definition registered_names :: "'w router \<Rightarrow> string list" where
  "registered_names r = map fst (rt_clients r)"

definition wrap_clients :: "('w client \<Rightarrow> 'w client) \<Rightarrow> 'w router \<Rightarrow> 'w router" where
  "wrap_clients wrap r = r\<lparr>rt_clients := map (\<lambda>(n, c). (n, wrap c)) (rt_clients r)\<rparr>"

definition provider_key_env :: "(string \<times> string) list" where
  "provider_key_env =
     [(''openai'', ''OPENAI_API_KEY''), (''claude'', ''CLAUDE_API_KEY''),
      (''gemini'', ''GEMINI_API_KEY'')]"

text \<open>\<open>For\<close>. \<open>%v\<close> of a slice of names is the names between brackets, with a blank between them.\<close>

definition names_text :: "string list \<Rightarrow> string" where
  "names_text ns = ''['' @ join '' '' ns @ '']''"

definition router_for :: "'w router \<Rightarrow> string \<Rightarrow> go_err + 'w client" where
  "router_for r provider =
     (let name = (if provider = [] then rt_default r else provider) in
      case map_of (rt_clients r) name of
        Some c \<Rightarrow> Inr c
      | None \<Rightarrow>
          (case map_of provider_key_env name of
             Some env \<Rightarrow>
               Inl (ErrAround (''llm: provider '' @ quote name @ '': '')
                     (ErrSentinel (kind_text ProviderNotConfigured))
                     ('' '' @ [CHR 0xE2, CHR 0x80, CHR 0x94] @ '' set '' @ env
                       @ '' (registered: '' @ names_text (registered_names r) @ '')''))
           | None \<Rightarrow>
               Inl (ErrText (''llm: unknown provider '' @ quote name @ '' (registered: ''
                     @ names_text (registered_names r) @ '')''))))"

definition normalize_provider :: "string \<Rightarrow> string" where
  "normalize_provider p =
     (let q = to_lower (trim_space p) in if q = ''auto'' then [] else q)"

definition with_provider :: "go_ctx \<Rightarrow> string \<Rightarrow> go_ctx" where
  "with_provider cx provider = cx\<lparr>cx_provider := normalize_provider provider\<rparr>"

definition enable_ollama_fallback :: "string \<Rightarrow> 'w router \<Rightarrow> 'w router" where
  "enable_ollama_fallback model r =
     (if map_of (rt_clients r) ''ollama'' = None then r
      else r\<lparr>rt_ollama_fallback := True, rt_ollama_model := trim_space model\<rparr>)"

definition ollama_fallback_for :: "'w router \<Rightarrow> string \<Rightarrow> go_err \<Rightarrow> 'w \<Rightarrow> 'w client option" where
  "ollama_fallback_for r provider err w =
     (if \<not> rt_ollama_fallback r then None
      else if normalize_provider provider = ''ollama'' then None
      else if err_is chain_exhausted_text err then None
      else if rt_ctx_err r w \<noteq> None then None
      else (case err_as_provider err of
              None \<Rightarrow> None
            | Some pe \<Rightarrow>
                if \<not> (retryable pe \<or> pe_kind pe = ProviderTimeout) then None
                else (case router_for r ''ollama'' of Inl e \<Rightarrow> None | Inr c \<Rightarrow> Some c)))"

text \<open>The calls of \<open>fallbackClient\<close> and \<open>routedClient\<close> share their second half.\<close>

definition generate_or_ollama ::
  "'w router \<Rightarrow> string \<Rightarrow> 'w client \<Rightarrow> go_ctx \<Rightarrow> gen_request \<Rightarrow> 'w
     \<Rightarrow> (go_err + gen_response) \<times> 'w" where
  "generate_or_ollama r provider primary cx req w =
     (case cl_generate primary cx req w of
        (Inr resp, w') \<Rightarrow> (Inr resp, w')
      | (Inl err, w') \<Rightarrow>
          (case ollama_fallback_for r provider err w' of
             Some fb \<Rightarrow> cl_generate fb cx (req\<lparr>rq_model := rt_ollama_model r\<rparr>) w'
           | None \<Rightarrow> (Inl err, w')))"

definition fallback_client :: "'w router \<Rightarrow> 'w client \<Rightarrow> string \<Rightarrow> 'w client" where
  "fallback_client r primary provider =
     \<lparr>cl_provider_name = cl_provider_name primary,
      cl_supports_tools = Some (client_supports_tools primary),
      cl_generate = generate_or_ollama r provider primary\<rparr>"

definition for_with_fallback :: "'w router \<Rightarrow> string \<Rightarrow> go_err + 'w client" where
  "for_with_fallback r provider =
     (case router_for r provider of
        Inl e \<Rightarrow> Inl e
      | Inr c \<Rightarrow>
          if \<not> rt_ollama_fallback r then Inr c
          else (let name = (if provider = [] then rt_default r else provider) in
                if normalize_provider name = ''ollama'' then Inr c
                else Inr (fallback_client r c name)))"

definition routed_provider :: "'w router \<Rightarrow> string \<Rightarrow> go_ctx \<Rightarrow> string" where
  "routed_provider r fallback cx =
     (if cx_provider cx \<noteq> [] then cx_provider cx
      else if fallback \<noteq> [] then fallback
      else rt_default r)"

definition routed_generate ::
  "'w router \<Rightarrow> string \<Rightarrow> go_ctx \<Rightarrow> gen_request \<Rightarrow> 'w \<Rightarrow> (go_err + gen_response) \<times> 'w" where
  "routed_generate r fallback cx req w =
     (let provider = routed_provider r fallback cx in
      case router_for r provider of
        Inl e \<Rightarrow> (Inl e, w)
      | Inr inner \<Rightarrow> generate_or_ollama r provider inner cx req w)"

definition routed :: "'w router \<Rightarrow> string \<Rightarrow> 'w client" where
  "routed r fallback =
     (let f = normalize_provider fallback in
      \<lparr>cl_provider_name = (if f \<noteq> [] then f else rt_default r),
       cl_supports_tools = None,
       cl_generate = routed_generate r f\<rparr>)"

definition default_client :: "'w router \<Rightarrow> 'w client option" where
  "default_client r = (case router_for r [] of Inl e \<Rightarrow> None | Inr c \<Rightarrow> Some c)"

text \<open>Embedders are looked up by the same rule, in their own map.\<close>

definition embedder_for :: "(string \<times> 'e) list \<Rightarrow> string \<Rightarrow> string \<Rightarrow> go_err + 'e" where
  "embedder_for embedders default_name provider =
     (let name = (if provider = [] then default_name else provider) in
      case map_of embedders name of
        Some e \<Rightarrow> Inr e
      | None \<Rightarrow> Inl (ErrText (''llm: unknown or unconfigured embedding provider '' @ quote name
                   @ '' (registered: '' @ names_text (map fst embedders) @ '')'')))"

section \<open>Lemmas\<close>

lemma router_for_in_clients:
  "router_for r p = Inr c \<Longrightarrow> \<exists>n. map_of (rt_clients r) n = Some c"
  by (auto simp: router_for_def Let_def split: option.splits if_splits)

lemma ollama_fallback_for_Some:
  assumes "ollama_fallback_for r p e w = Some c"
  shows "\<not> err_is chain_exhausted_text e \<and> rt_ctx_err r w = None
    \<and> map_of (rt_clients r) ''ollama'' = Some c
    \<and> (\<exists>pe. err_as_provider e = Some pe
          \<and> pe_kind pe \<in> {ProviderRateLimited, ProviderUnavailable, ProviderTimeout})"
  using assms
  by (auto simp: ollama_fallback_for_def retryable_def router_for_def Let_def
      split: if_splits option.splits sum.splits)

end
