(* ===== verification/CostEngine.thy ===== *)
theory CostEngine
  imports Prelude
begin

text \<open>
  \<open>costengine/costengine.go\<close>: the price list and the cost of one call. Prices and costs are
  exact rationals where the code uses 64-bit floats; the catalog is an association list from
  \<open>provider:model\<close> to a price. The mutex only makes each operation atomic.
\<close>

record pricing_entry =
  input_price :: rat
  output_price :: rat
  compute_price :: rat

type_synonym catalog = "(string \<times> pricing_entry) list"

definition catalog_key :: "string \<Rightarrow> string \<Rightarrow> string" where
  "catalog_key provider model = provider @ '':'' @ model"

definition compute_cost :: "pricing_entry \<Rightarrow> int \<Rightarrow> int \<Rightarrow> int \<Rightarrow> rat" where
  "compute_cost e input output latency =
     (if input_price e > 0 \<or> output_price e > 0
      then of_int input / 1000000 * input_price e + of_int output / 1000000 * output_price e
      else 0)
     + (if compute_price e > 0 \<and> latency > 0
        then of_int latency / 1000 * compute_price e else 0)"

text \<open>\<open>Calculate\<close>: the exact model first, then the provider's wildcard entry, then free.\<close>

definition find_entry :: "catalog \<Rightarrow> string \<Rightarrow> string \<Rightarrow> pricing_entry option" where
  "find_entry cat provider model =
     (case map_of cat (catalog_key provider model) of
        Some e \<Rightarrow> Some e
      | None \<Rightarrow> map_of cat (catalog_key provider ''*''))"

definition calculate :: "catalog \<Rightarrow> string \<Rightarrow> string \<Rightarrow> int \<Rightarrow> int \<Rightarrow> int \<Rightarrow> rat" where
  "calculate cat provider model input output latency =
     (case find_entry cat provider model of
        None \<Rightarrow> 0
      | Some e \<Rightarrow>
          (let cost =
             (if input_price e > 0 \<or> output_price e > 0
              then of_int input / 1000000 * input_price e
                   + of_int output / 1000000 * output_price e
              else 0)
           in cost + (if compute_price e > 0 \<and> latency > 0
                      then of_int latency / 1000 * compute_price e else 0)))"

definition register_price :: "string \<Rightarrow> string \<Rightarrow> pricing_entry \<Rightarrow> catalog \<Rightarrow> catalog" where
  "register_price provider model e cat = aput (catalog_key provider model) e cat"

definition calculate_with_override ::
  "pricing_entry option \<Rightarrow> catalog \<Rightarrow> string \<Rightarrow> string \<Rightarrow> int \<Rightarrow> int \<Rightarrow> int \<Rightarrow> rat" where
  "calculate_with_override override cat provider model input output latency =
     (case override of
        Some e \<Rightarrow> compute_cost e input output latency
      | None \<Rightarrow> calculate cat provider model input output latency)"

text \<open>\<open>LoadFromConfigs\<close> pairs keys with entries by position; keys beyond the entries are left.\<close>

fun load_from_configs :: "pricing_entry list \<Rightarrow> string list \<Rightarrow> catalog \<Rightarrow> catalog" where
  "load_from_configs entries [] cat = cat"
| "load_from_configs [] (k # ks) cat = cat"
| "load_from_configs (e # es) (k # ks) cat = load_from_configs es ks (aput k e cat)"

definition known_models :: "catalog \<Rightarrow> string list" where
  "known_models cat = map fst cat"

definition token_price :: "rat \<Rightarrow> rat \<Rightarrow> pricing_entry" where
  "token_price i out = \<lparr>input_price = i, output_price = out, compute_price = 0\<rparr>"

definition default_prices :: catalog where
  "default_prices =
     [(''openai:gpt-4o'', token_price (5/2) 10),
      (''openai:gpt-4o-mini'', token_price (15/100) (6/10)),
      (''openai:gpt-4-turbo'', token_price 10 30),
      (''openai:gpt-3.5-turbo'', token_price (1/2) (3/2)),
      (''claude:claude-sonnet-4-20250514'', token_price 3 15),
      (''claude:claude-3-5-sonnet-20241022'', token_price 3 15),
      (''claude:claude-3-haiku-20240307'', token_price (1/4) (5/4)),
      (''claude:claude-3-5-haiku-20241022'', token_price 1 5),
      (''claude:claude-opus-4-20250514'', token_price 15 75),
      (''ollama:*'', \<lparr>input_price = 0, output_price = 0, compute_price = 0\<rparr>)]"

section \<open>Lemmas\<close>

definition nonneg_entry :: "pricing_entry \<Rightarrow> bool" where
  "nonneg_entry e \<longleftrightarrow> input_price e \<ge> 0 \<and> output_price e \<ge> 0 \<and> compute_price e \<ge> 0"

definition nonneg_catalog :: "catalog \<Rightarrow> bool" where
  "nonneg_catalog cat \<longleftrightarrow> list_all (\<lambda>(k, e). nonneg_entry e) cat"

lemma calculate_entry:
  "find_entry cat p m = Some e \<Longrightarrow> calculate cat p m i out l = compute_cost e i out l"
  by (simp add: calculate_def compute_cost_def Let_def)

lemma calculate_unknown: "find_entry cat p m = None \<Longrightarrow> calculate cat p m i out l = 0"
  by (simp add: calculate_def)

lemma find_entry_in: "find_entry cat p m = Some e \<Longrightarrow> \<exists>k. (k, e) \<in> set cat"
  by (auto simp: find_entry_def split: option.splits dest: map_of_SomeD)

lemma find_entry_nonneg:
  assumes "nonneg_catalog cat" and "find_entry cat p m = Some e"
  shows "nonneg_entry e"
  using assms find_entry_in [OF assms(2)] by (auto simp: nonneg_catalog_def list_all_iff)

lemma scaled_mono:
  fixes i i' :: int and r c :: rat
  assumes "r \<ge> 0" and "i \<le> i'" and "c > 0"
  shows "of_int i / c * r \<le> of_int i' / c * r"
  using assms by (intro mult_right_mono divide_right_mono) auto

lemma compute_cost_mono:
  assumes e: "nonneg_entry e" and le: "i \<le> i'" "out \<le> out'" "l \<le> l'"
  shows "compute_cost e i out l \<le> compute_cost e i' out' l'"
proof -
  define tok where "tok i out = (of_int i / 1000000 * input_price e
      + of_int out / 1000000 * output_price e :: rat)" for i out :: int
  define sec where "sec l = (of_int l / 1000 * compute_price e :: rat)" for l :: int
  have t: "tok i out \<le> tok i' out'"
    unfolding tok_def using e le
    by (intro add_mono scaled_mono) (simp_all add: nonneg_entry_def)
  have s: "sec l \<le> sec l'"
    unfolding sec_def using e le by (intro scaled_mono) (simp_all add: nonneg_entry_def)
  have s0: "sec l' \<ge> 0" if "l' > 0"
    unfolding sec_def using e that by (simp add: nonneg_entry_def)
  have "compute_cost e i out l =
      (if input_price e > 0 \<or> output_price e > 0 then tok i out else 0)
      + (if compute_price e > 0 \<and> l > 0 then sec l else 0)" for i out l
    by (simp add: compute_cost_def tok_def sec_def)
  with t s s0 le show ?thesis by (auto intro!: add_mono)
qed

lemma calculate_mono_lemma:
  assumes "nonneg_catalog cat" and "i \<le> i'" "out \<le> out'" "l \<le> l'"
  shows "calculate cat p m i out l \<le> calculate cat p m i' out' l'"
proof (cases "find_entry cat p m")
  case None
  then show ?thesis by (simp add: calculate_unknown)
next
  case (Some e)
  then show ?thesis
    using compute_cost_mono find_entry_nonneg assms by (simp add: calculate_entry)
qed

lemma nonneg_catalog_aput:
  "nonneg_entry e \<Longrightarrow> nonneg_catalog cat \<Longrightarrow> nonneg_catalog (aput k e cat)"
  by (auto simp: nonneg_catalog_def list_all_iff aput_def)

lemma nonneg_default_prices: "nonneg_catalog default_prices"
  by (simp add: nonneg_catalog_def default_prices_def nonneg_entry_def token_price_def)

end
