(* ===== verification/Sorting.thy ===== *)
theory Sorting
  imports Prelude "HOL-Library.Product_Lexorder" "HOL-Library.List_Lexorder"
begin

text \<open>
  Go's \<open>sort.SliceStable\<close> as insertion sort by the comparison the source passes, and the byte
  order of strings. What a comparison must satisfy for the result to be sorted is the locale
  \<open>weak_order\<close>; every comparison of the sources is an interpretation of it.
\<close>

definition str_less :: "string \<Rightarrow> string \<Rightarrow> bool" where
  "str_less a b \<longleftrightarrow> map (\<lambda>c. of_char c :: nat) a < map of_char b"

fun insort_by :: "('a \<Rightarrow> 'a \<Rightarrow> bool) \<Rightarrow> 'a \<Rightarrow> 'a list \<Rightarrow> 'a list" where
  "insort_by lt x [] = [x]"
| "insort_by lt x (y # ys) = (if lt y x then y # insort_by lt x ys else x # y # ys)"

fun stable_sort :: "('a \<Rightarrow> 'a \<Rightarrow> bool) \<Rightarrow> 'a list \<Rightarrow> 'a list" where
  "stable_sort lt [] = []"
| "stable_sort lt (x # xs) = insort_by lt x (stable_sort lt xs)"

lemma mset_insort_by [simp]: "mset (insort_by lt x ys) = add_mset x (mset ys)"
  by (induction ys) auto

lemma mset_stable_sort [simp]: "mset (stable_sort lt xs) = mset xs"
  by (induction xs) auto

lemma set_stable_sort [simp]: "set (stable_sort lt xs) = set xs"
  by (rule mset_eq_setD) simp

lemma set_insort_by [simp]: "set (insort_by lt x ys) = insert x (set ys)"
  using mset_eq_setD [of "insort_by lt x ys" "x # ys"] by simp

lemma length_stable_sort [simp]: "length (stable_sort lt xs) = length xs"
  by (rule mset_eq_length) simp

lemma stable_sort_eq_Nil [simp]: "stable_sort lt xs = [] \<longleftrightarrow> xs = []"
  using length_stable_sort [of lt xs] by (metis length_0_conv)

lemma char_code_inj: "inj (\<lambda>c. of_char c :: nat)"
  by (rule injI) (metis char_of_char)

lemma str_less_linear: "str_less a b \<or> a = b \<or> str_less b a"
proof -
  have "map (\<lambda>c. of_char c :: nat) a = map of_char b \<Longrightarrow> a = b"
    using char_code_inj by (simp add: inj_map_eq_map)
  then show ?thesis unfolding str_less_def by fastforce
qed

lemma str_less_irrefl [simp]: "\<not> str_less a a"
  by (simp add: str_less_def)

locale weak_order =
  fixes lt :: "'a \<Rightarrow> 'a \<Rightarrow> bool"
  assumes asym: "lt x y \<Longrightarrow> \<not> lt y x"
    and neg_trans: "\<not> lt x y \<Longrightarrow> \<not> lt y z \<Longrightarrow> \<not> lt x z"
begin

lemma insort_by_sorted:
  "sorted_wrt (\<lambda>a b. \<not> lt b a) ys \<Longrightarrow> sorted_wrt (\<lambda>a b. \<not> lt b a) (insort_by lt x ys)"
  by (induction ys) (auto dest: asym neg_trans)

lemma stable_sort_sorted: "sorted_wrt (\<lambda>a b. \<not> lt b a) (stable_sort lt xs)"
  by (induction xs) (auto intro: insort_by_sorted)

lemma stable_sort_hd_min: "y \<in> set xs \<Longrightarrow> \<not> lt y (hd (stable_sort lt xs))"
proof -
  assume "y \<in> set xs"
  then have y: "y \<in> set (stable_sort lt xs)" by simp
  have "sorted_wrt (\<lambda>a b. \<not> lt b a) (stable_sort lt xs)" by (rule stable_sort_sorted)
  with y asym show ?thesis by (cases "stable_sort lt xs") auto
qed

lemma insort_by_stable:
  assumes "P x" and "\<And>y. y \<in> set ys \<Longrightarrow> P y \<Longrightarrow> \<not> lt y x"
  shows "filter P (insort_by lt x ys) = x # filter P ys"
  using assms by (induction ys) auto

lemma insort_by_other: "\<not> P x \<Longrightarrow> filter P (insort_by lt x ys) = filter P ys"
  by (induction ys) auto

text \<open>Elements the comparison does not separate keep their order.\<close>

lemma stable_sort_stable:
  assumes "\<And>x y. P x \<Longrightarrow> P y \<Longrightarrow> \<not> lt x y"
  shows "filter P (stable_sort lt xs) = filter P xs"
proof (induction xs)
  case (Cons x xs)
  show ?case
  proof (cases "P x")
    case True
    with Cons assms show ?thesis by (simp add: insort_by_stable)
  next
    case False
    with Cons show ?thesis by (simp add: insort_by_other)
  qed
qed simp

end

text \<open>A comparison that compares keys of a linear order is a weak order.\<close>

lemma weak_order_key:
  fixes key :: "'a \<Rightarrow> 'k :: linorder"
  assumes "\<And>x y. lt x y \<longleftrightarrow> key x < key y"
  shows "weak_order lt"
  by unfold_locales (auto simp: assms)

lemma pair_less_iff:
  fixes a c :: "'a :: order" and b d :: "'b :: ord"
  shows "(a, b) < (c, d) \<longleftrightarrow> a < c \<or> a = c \<and> b < d"
  by (auto simp: less_prod_def le_less)

interpretation str_order: weak_order str_less
  by (rule weak_order_key [where key = "map (\<lambda>c. of_char c :: nat)"]) (simp add: str_less_def)

end
