(* ===== verification/ModelSelect.thy ===== *)
theory ModelSelect
  imports LlmRouter CostEngine Sorting
begin

text \<open>
  \<open>modelselect\<close>: which provider and model run a task (\<open>selector.go\<close>), the candidates
  (\<open>catalog.go\<close>) and the candidates discovered live (\<open>discovery.go\<close>). The selector's registry is
  the router, its pricer the cost engine's catalog; \<open>sl_dynamic\<close> is what the discovery cache
  holds at the call.
\<close>

section \<open>Candidates\<close>

record candidate =
  cd_provider :: string
  cd_model :: string
  cd_context :: int
  cd_tools :: bool
  cd_quality :: int
  cd_speed :: int

definition mk_candidate :: "string \<Rightarrow> string \<Rightarrow> int \<Rightarrow> bool \<Rightarrow> int \<Rightarrow> int \<Rightarrow> candidate" where
  "mk_candidate p m c t q s =
     \<lparr>cd_provider = p, cd_model = m, cd_context = c, cd_tools = t, cd_quality = q,
      cd_speed = s\<rparr>"

definition default_catalog :: "candidate list" where
  "default_catalog =
     [mk_candidate ''openai'' ''gpt-4o'' 128000 True 8 6,
      mk_candidate ''openai'' ''gpt-4-turbo'' 128000 True 8 4,
      mk_candidate ''openai'' ''gpt-4o-mini'' 128000 True 5 9,
      mk_candidate ''openai'' ''gpt-3.5-turbo'' 16385 True 3 10,
      mk_candidate ''claude'' ''claude-opus-4-20250514'' 200000 True 10 3,
      mk_candidate ''claude'' ''claude-sonnet-4-20250514'' 200000 True 9 6,
      mk_candidate ''claude'' ''claude-3-5-sonnet-20241022'' 200000 True 8 6,
      mk_candidate ''claude'' ''claude-3-5-haiku-20241022'' 200000 True 6 9,
      mk_candidate ''claude'' ''claude-3-haiku-20240307'' 200000 True 4 10,
      mk_candidate ''ollama'' ''llama3:latest'' 8192 False 4 7,
      mk_candidate ''ollama'' ''llama3.1:8b'' 128000 True 4 6,
      mk_candidate ''ollama'' ''qwen3-coder:30b'' 262144 True 6 6]"

definition kind_classify :: string where "kind_classify = ''classify''"
definition kind_summarize :: string where "kind_summarize = ''summarize''"
definition kind_chat :: string where "kind_chat = ''chat''"
definition kind_step :: string where "kind_step = ''step''"
definition kind_code :: string where "kind_code = ''code''"
definition kind_plan :: string where "kind_plan = ''plan''"
definition kind_reflect :: string where "kind_reflect = ''reflect''"

definition min_quality_for :: "string \<Rightarrow> int" where
  "min_quality_for k =
     (if k = kind_classify \<or> k = kind_summarize then 3
      else if k = kind_step \<or> k = kind_reflect then 4
      else if k = kind_chat then 5
      else if k = kind_code then 7
      else if k = kind_plan then 8
      else 4)"

section \<open>Signals, constraints, decisions\<close>

record task_signals =
  sg_kind :: string
  sg_prompt_tokens :: int
  sg_needs_tools :: bool
  sg_max_output :: int
  sg_prior_failures :: int

record select_constraints =
  cn_providers :: "string list"
  cn_models :: "string list"
  cn_max_usd :: rat

definition no_constraints :: select_constraints where
  "no_constraints = \<lparr>cn_providers = [], cn_models = [], cn_max_usd = 0\<rparr>"

record decision =
  dc_provider :: string
  dc_model :: string
  dc_chosen :: candidate
  dc_reason :: string
  dc_fallbacks :: "candidate list"

record 'w selector =
  sl_catalog :: "candidate list"
  sl_registry :: "'w router"
  sl_pricer :: "catalog option"
  sl_dynamic :: "candidate list option"

definition is_auto :: "string \<Rightarrow> bool" where
  "is_auto provider = equal_fold (trim_space provider) ''auto''"

definition response_headroom :: int where
  "response_headroom = 4096"

definition new_selector :: "'w router \<Rightarrow> catalog option \<Rightarrow> candidate list option \<Rightarrow> 'w selector" where
  "new_selector reg pricer cat =
     \<lparr>sl_catalog = (case cat of None \<Rightarrow> default_catalog | Some c \<Rightarrow> c), sl_registry = reg,
      sl_pricer = pricer, sl_dynamic = None\<rparr>"

definition candidate_key :: "candidate \<Rightarrow> string" where
  "candidate_key c = cd_provider c @ '':'' @ cd_model c"

definition has_provider :: "candidate list \<Rightarrow> string \<Rightarrow> bool" where
  "has_provider cs p = list_ex (\<lambda>c. cd_provider c = p) cs"

definition merge_catalogs :: "candidate list \<Rightarrow> candidate list \<Rightarrow> candidate list" where
  "merge_catalogs stat dyn =
     (if dyn = [] then stat
      else dyn @ filter (\<lambda>c. candidate_key c \<notin> set (map candidate_key dyn)
                            \<and> \<not> has_provider dyn (cd_provider c)) stat)"

definition effective_catalog :: "'w selector \<Rightarrow> candidate list" where
  "effective_catalog s =
     (case sl_dynamic s of None \<Rightarrow> sl_catalog s | Some d \<Rightarrow> merge_catalogs (sl_catalog s) d)"

definition fits_context :: "candidate \<Rightarrow> task_signals \<Rightarrow> bool" where
  "fits_context c sg =
     (if sg_prompt_tokens sg \<le> 0 then True
      else (let headroom = (if sg_max_output sg \<le> 0 then response_headroom else sg_max_output sg)
            in cd_context c \<ge> sg_prompt_tokens sg + headroom))"

definition allowed_in :: "string list \<Rightarrow> string \<Rightarrow> bool" where
  "allowed_in xs v = (if xs = [] then True else list_ex (\<lambda>x. equal_fold x v) xs)"

definition tool_capable :: "'w selector \<Rightarrow> candidate \<Rightarrow> bool" where
  "tool_capable s c =
     (if \<not> cd_tools c then False
      else (case router_for (sl_registry s) (cd_provider c) of
              Inl e \<Rightarrow> False
            | Inr cl \<Rightarrow> client_supports_tools cl))"

definition estimate_cost :: "'w selector \<Rightarrow> candidate \<Rightarrow> task_signals \<Rightarrow> rat" where
  "estimate_cost s c sg =
     (case sl_pricer s of
        None \<Rightarrow> 0
      | Some cat \<Rightarrow>
          (let out = (if sg_max_output sg \<le> 0 then response_headroom else sg_max_output sg)
           in calculate cat (cd_provider c) (cd_model c) (sg_prompt_tokens sg) out 0))"

definition is_registered :: "'w selector \<Rightarrow> string \<Rightarrow> bool" where
  "is_registered s p = (p \<in> set (map pi_name (registered_providers (sl_registry s))))"

section \<open>Select\<close>

text \<open>
  The loop over the catalog: each candidate is passed over because its provider is not
  registered, rejected with a reason, or viable at its estimated cost.
\<close>

datatype verdict = NotRegistered string | Rejected string | Viable rat

definition min_quality :: "task_signals \<Rightarrow> int" where
  "min_quality sg = min_quality_for (sg_kind sg) + sg_prior_failures sg"

definition judge :: "'w selector \<Rightarrow> task_signals \<Rightarrow> select_constraints \<Rightarrow> candidate \<Rightarrow> verdict" where
  "judge s sg cn c =
     (let name = cd_provider c @ ''/'' @ cd_model c in
      if \<not> is_registered s (cd_provider c) then
        NotRegistered (''provider '' @ quote (cd_provider c) @ '' is not registered'')
      else if cd_quality c < min_quality sg then
        Rejected (name @ '' quality '' @ show_int (cd_quality c) @ '' is below the bar of ''
          @ show_int (min_quality sg) @ '' for kind '' @ quote (sg_kind sg))
      else if \<not> fits_context c sg then
        Rejected (name @ '' context '' @ show_int (cd_context c) @ '' cannot hold ''
          @ show_int (sg_prompt_tokens sg) @ '' prompt tokens plus headroom'')
      else if \<not> allowed_in (cn_providers cn) (cd_provider c) then
        Rejected (''provider '' @ quote (cd_provider c) @ '' is not permitted by policy'')
      else if \<not> allowed_in (cn_models cn) (cd_model c) then
        Rejected (''model '' @ quote (cd_model c) @ '' is not permitted by policy'')
      else
        (let cost = estimate_cost s c sg in
         if cn_max_usd cn > 0 \<and> cost > cn_max_usd cn then
           Rejected (name @ '' estimated $'' @ show_fixed 4 cost @ '' exceeds the $''
             @ show_fixed 4 (cn_max_usd cn) @ '' cap'')
         else Viable cost))"

fun scan_catalog ::
  "'w selector \<Rightarrow> task_signals \<Rightarrow> select_constraints \<Rightarrow> candidate list \<Rightarrow> string \<Rightarrow> string
     \<Rightarrow> (candidate \<times> rat) list \<Rightarrow> string \<times> string \<times> (candidate \<times> rat) list" where
  "scan_catalog s sg cn [] unavailable last_reject viable = (unavailable, last_reject, viable)"
| "scan_catalog s sg cn (c # cs) unavailable last_reject viable =
     (case judge s sg cn c of
        NotRegistered m \<Rightarrow> scan_catalog s sg cn cs m last_reject viable
      | Rejected m \<Rightarrow> scan_catalog s sg cn cs unavailable m viable
      | Viable cost \<Rightarrow> scan_catalog s sg cn cs unavailable last_reject (viable @ [(c, cost)]))"

definition better :: "'w selector \<Rightarrow> task_signals \<Rightarrow> candidate \<times> rat \<Rightarrow> candidate \<times> rat \<Rightarrow> bool" where
  "better s sg a b =
     (if snd a \<noteq> snd b then snd a < snd b
      else if sg_needs_tools sg \<and> tool_capable s (fst a) \<noteq> tool_capable s (fst b)
      then tool_capable s (fst a)
      else if cd_speed (fst a) \<noteq> cd_speed (fst b) then cd_speed (fst a) > cd_speed (fst b)
      else if cd_quality (fst a) \<noteq> cd_quality (fst b) then cd_quality (fst a) > cd_quality (fst b)
      else if cd_provider (fst a) \<noteq> cd_provider (fst b)
      then str_less (cd_provider (fst a)) (cd_provider (fst b))
      else str_less (cd_model (fst a)) (cd_model (fst b)))"

definition explain :: "candidate \<Rightarrow> rat \<Rightarrow> task_signals \<Rightarrow> int \<Rightarrow> nat \<Rightarrow> string" where
  "explain c cost sg bar n =
     (let kind = (if sg_kind sg = [] then kind_step else sg_kind sg) in
      ''auto: '' @ cd_provider c @ ''/'' @ cd_model c @ '' for '' @ quote kind
      @ '' (quality '' @ show_int (cd_quality c) @ '' >= '' @ show_int bar
      @ (if cost > 0 then '', est $'' @ show_fixed 4 cost else '', no metered cost'')
      @ (if sg_needs_tools sg then '', tool-capable'' else [])
      @ (if sg_prior_failures sg > 0
         then '', escalated after '' @ show_int (sg_prior_failures sg) @ '' failure(s)'' else [])
      @ '', cheapest of '' @ show_nat n @ '')'')"

definition no_candidate_text :: string where
  "no_candidate_text = ''modelselect: no suitable model''"

definition select ::
  "'w selector \<Rightarrow> task_signals \<Rightarrow> select_constraints \<Rightarrow> go_err + decision" where
  "select s sg cn =
     (case scan_catalog s sg cn (effective_catalog s) ''catalog is empty'' [] [] of
        (unavailable, last_reject, viable) \<Rightarrow>
          (case stable_sort (better s sg) viable of
             [] \<Rightarrow>
               Inl (ErrAround [] (ErrSentinel no_candidate_text)
                     ('' for kind '' @ quote (sg_kind sg) @ '': ''
                       @ (if last_reject = [] then unavailable else last_reject)))
           | (best, cost) # rest \<Rightarrow>
               Inr \<lparr>dc_provider = cd_provider best, dc_model = cd_model best, dc_chosen = best,
                    dc_reason = explain best cost sg (min_quality sg) (length viable),
                    dc_fallbacks = map fst rest\<rparr>))"

definition select_larger_context ::
  "'w selector \<Rightarrow> task_signals \<Rightarrow> select_constraints \<Rightarrow> int \<Rightarrow> go_err + decision" where
  "select_larger_context s sg cn min_context = select s (sg\<lparr>sg_prompt_tokens := min_context\<rparr>) cn"

section \<open>Discovered models (discovery.go)\<close>

record model_info =
  mi_provider :: string
  mi_name :: string
  mi_context :: int
  mi_parameter_size :: string
  mi_quantization :: string
  mi_family :: string
  mi_capabilities :: "string list"

definition has_capability :: "model_info \<Rightarrow> string \<Rightarrow> bool" where
  "has_capability m cap = list_ex (\<lambda>c. equal_fold c cap) (mi_capabilities m)"

definition is_embedding_only :: "model_info \<Rightarrow> bool" where
  "is_embedding_only m \<longleftrightarrow> has_capability m ''embedding'' \<and> \<not> has_capability m ''completion''"

definition max_local_quality :: int where
  "max_local_quality = 6"

definition known_quality_speed :: "(string \<times> int \<times> int) list" where
  "known_quality_speed =
     [(''openai:gpt-4o'', 8, 6), (''openai:gpt-4-turbo'', 8, 4), (''openai:gpt-4o-mini'', 5, 9),
      (''openai:gpt-3.5-turbo'', 3, 10), (''claude:claude-opus-4-20250514'', 10, 3),
      (''claude:claude-sonnet-4-20250514'', 9, 6), (''claude:claude-3-5-sonnet-20241022'', 8, 6),
      (''claude:claude-3-5-haiku-20241022'', 6, 9), (''claude:claude-3-haiku-20240307'', 4, 10)]"

text \<open>The regular expression \<open>-a\d+(\.\d+)?b\<close>, matched at the start of a string.\<close>

definition moe_suffix_at :: "string \<Rightarrow> bool" where
  "moe_suffix_at s =
     (has_prefix s ''-a'' \<and>
      (let t = drop 2 s; ds = takeWhile is_digit t; u = dropWhile is_digit t;
           fs = takeWhile is_digit (drop 1 u);
           v = (if has_prefix u ''.'' \<and> fs \<noteq> [] then dropWhile is_digit (drop 1 u) else u)
       in ds \<noteq> [] \<and> has_prefix v ''b''))"

definition is_moe :: "model_info \<Rightarrow> bool" where
  "is_moe m =
     (str_contains (to_lower (mi_family m)) ''moe''
      \<or> list_ex moe_suffix_at (map (\<lambda>i. drop i (to_lower (mi_name m)))
          [0..<length (mi_name m)]))"

text \<open>
  \<open>strconv.ParseFloat\<close> on decimal literals. The other spellings it accepts (hexadecimal,
  underscores, infinities, NaN) are not modelled: they parse to nothing here.
\<close>

definition parse_float :: "string \<Rightarrow> rat option" where
  "parse_float s =
     (let neg = has_prefix s ''-'';
          t = (if has_prefix s ''-'' \<or> has_prefix s ''+'' then drop 1 s else s);
          ip = takeWhile is_digit t; u = dropWhile is_digit t;
          fp = (if has_prefix u ''.'' then takeWhile is_digit (drop 1 u) else []);
          v = (if has_prefix u ''.'' then dropWhile is_digit (drop 1 u) else u)
      in if ip = [] \<and> fp = [] then None
         else (case parse_exp v of
                 Some (e, []) \<Rightarrow>
                   (let r = (of_nat (digits_val (ip @ fp)) / 10 ^ length fp) * scale10 e
                    in Some (if neg then - r else r))
               | _ \<Rightarrow> None))"

definition to_upper_suffix :: "string \<Rightarrow> char \<Rightarrow> char \<Rightarrow> bool" where
  "to_upper_suffix s up lo = (s \<noteq> [] \<and> (last s = up \<or> last s = lo))"

definition parse_parameter_size :: "string \<Rightarrow> rat option" where
  "parse_parameter_size s0 =
     (let s = trim_space s0 in
      if s = [] then None
      else (let p = (if to_upper_suffix s (CHR ''B'') (CHR ''b'') then (butlast s, 1)
                     else if to_upper_suffix s (CHR ''M'') (CHR ''m'') then (butlast s, 1 / 1000)
                     else if to_upper_suffix s (CHR ''K'') (CHR ''k'') then (butlast s, 1 / 1000000)
                     else (s, 1))
            in map_option (\<lambda>v. v * snd p) (parse_float (trim_space (fst p)))))"

definition size_quality_speed :: "rat \<Rightarrow> int \<times> int" where
  "size_quality_speed b =
     (if b < 1 then (1, 10) else if b < 3 then (2, 10) else if b < 8 then (3, 9)
      else if b < 15 then (4, 8) else if b < 35 then (6, 6) else if b < 80 then (7, 4)
      else (8, 2))"

definition quality_speed_for :: "model_info \<Rightarrow> int \<times> int" where
  "quality_speed_for m =
     (case map_of known_quality_speed (mi_provider m @ '':'' @ mi_name m) of
        Some qs \<Rightarrow> qs
      | None \<Rightarrow>
          (case parse_parameter_size (mi_parameter_size m) of
             None \<Rightarrow> (3, 8)
           | Some b \<Rightarrow>
               (let (q, sp) = size_quality_speed b;
                    sp' = (if is_moe m then min (sp + 2) 10 else sp)
                in (if q > max_local_quality then max_local_quality else q, sp'))))"

definition from_model_info :: "model_info \<Rightarrow> int \<Rightarrow> candidate option" where
  "from_model_info m max_context =
     (if mi_name m = [] \<or> is_embedding_only m then None
      else (let cx0 = (if mi_context m \<le> 0 then 4096 else mi_context m);
                cx = (if mi_provider m = ''ollama'' \<and> max_context > 0 \<and> cx0 > max_context
                      then max_context else cx0)
            in Some (mk_candidate (mi_provider m) (mi_name m) cx (has_capability m ''tools'')
                       (fst (quality_speed_for m)) (snd (quality_speed_for m)))))"

definition live_catalog :: "model_info list list \<Rightarrow> int \<Rightarrow> candidate list" where
  "live_catalog cached max_context =
     List.map_filter (\<lambda>m. from_model_info m max_context) (concat cached)"

section \<open>Lemmas\<close>

definition acceptable :: "'w selector \<Rightarrow> task_signals \<Rightarrow> select_constraints \<Rightarrow> candidate \<Rightarrow> bool" where
  "acceptable s sg cn c \<longleftrightarrow>
     is_registered s (cd_provider c) \<and> min_quality sg \<le> cd_quality c \<and> fits_context c sg
     \<and> allowed_in (cn_providers cn) (cd_provider c) \<and> allowed_in (cn_models cn) (cd_model c)
     \<and> (cn_max_usd cn > 0 \<longrightarrow> estimate_cost s c sg \<le> cn_max_usd cn)"

lemma judge_Viable:
  "judge s sg cn c = Viable x \<longleftrightarrow> acceptable s sg cn c \<and> x = estimate_cost s c sg"
  by (auto simp: judge_def acceptable_def Let_def)

lemma scan_catalog_viable:
  "snd (snd (scan_catalog s sg cn cs u l v)) =
     v @ map (\<lambda>c. (c, estimate_cost s c sg)) (filter (acceptable s sg cn) cs)"
proof (induction cs arbitrary: u l v)
  case (Cons c cs)
  show ?case
  proof (cases "judge s sg cn c")
    case (Viable x)
    with judge_Viable [of s sg cn c x] Cons show ?thesis by simp
  next
    case (NotRegistered m)
    with judge_Viable [of s sg cn c "estimate_cost s c sg"] Cons show ?thesis by simp
  next
    case (Rejected m)
    with judge_Viable [of s sg cn c "estimate_cost s c sg"] Cons show ?thesis by simp
  qed
qed simp

definition candidates_for ::
  "'w selector \<Rightarrow> task_signals \<Rightarrow> select_constraints \<Rightarrow> (candidate \<times> rat) list" where
  "candidates_for s sg cn =
     map (\<lambda>c. (c, estimate_cost s c sg)) (filter (acceptable s sg cn) (effective_catalog s))"

definition better_key :: "'w selector \<Rightarrow> task_signals \<Rightarrow> candidate \<times> rat
    \<Rightarrow> rat \<times> bool \<times> int \<times> int \<times> nat list \<times> nat list" where
  "better_key s sg a =
     (snd a, sg_needs_tools sg \<and> \<not> tool_capable s (fst a), - cd_speed (fst a),
      - cd_quality (fst a), map of_char (cd_provider (fst a)), map of_char (cd_model (fst a)))"

lemma map_of_char_eq: "map (\<lambda>c. of_char c :: nat) a = map of_char b \<longleftrightarrow> a = b"
  using char_code_inj by (rule inj_map_eq_map)

lemma better_key: "better s sg a b \<longleftrightarrow> better_key s sg a < better_key s sg b"
  by (auto simp: better_def better_key_def pair_less_iff str_less_def map_of_char_eq
      simp del: less_prod_simp)

lemma weak_order_better: "weak_order (better s sg)"
  by (rule weak_order_key) (rule better_key)

interpretation better: weak_order "better s sg" for s sg
  by (rule weak_order_better)

lemma select_Inr:
  assumes "select s sg cn = Inr d"
  shows "map fst (stable_sort (better s sg) (candidates_for s sg cn))
      = dc_chosen d # dc_fallbacks d"
    and "dc_provider d = cd_provider (dc_chosen d)" and "dc_model d = cd_model (dc_chosen d)"
proof -
  obtain u l v where r: "scan_catalog s sg cn (effective_catalog s) ''catalog is empty'' [] []
      = (u, l, v)"
    by (metis prod_cases3)
  then have "v = candidates_for s sg cn"
    using scan_catalog_viable [of s sg cn "effective_catalog s" "''catalog is empty''" "[]" "[]"]
    by (simp add: candidates_for_def)
  with r assms show "map fst (stable_sort (better s sg) (candidates_for s sg cn))
      = dc_chosen d # dc_fallbacks d"
    "dc_provider d = cd_provider (dc_chosen d)" "dc_model d = cd_model (dc_chosen d)"
    by (auto simp: select_def split: list.splits)
qed

lemma select_Inl:
  "(\<exists>e. select s sg cn = Inl e) \<longleftrightarrow> candidates_for s sg cn = []"
proof -
  obtain u l v where r: "scan_catalog s sg cn (effective_catalog s) ''catalog is empty'' [] []
      = (u, l, v)"
    by (metis prod_cases3)
  then have "v = candidates_for s sg cn"
    using scan_catalog_viable [of s sg cn "effective_catalog s" "''catalog is empty''" "[]" "[]"]
    by (simp add: candidates_for_def)
  with r show ?thesis
    using stable_sort_eq_Nil [of "better s sg" v] by (auto simp: select_def split: list.split)
qed

lemma select_chosen_best:
  assumes "select s sg cn = Inr d"
  shows "acceptable s sg cn (dc_chosen d)" and "dc_chosen d \<in> set (effective_catalog s)"
    and "acceptable s sg cn c \<Longrightarrow> c \<in> set (effective_catalog s)
      \<Longrightarrow> \<not> better s sg (c, estimate_cost s c sg) (dc_chosen d, estimate_cost s (dc_chosen d) sg)"
proof -
  let ?vs = "candidates_for s sg cn"
  let ?ss = "stable_sort (better s sg) ?vs"
  obtain x rest where ss: "?ss = x # rest" and x: "fst x = dc_chosen d"
    using select_Inr(1) [OF assms] by auto
  have "x \<in> set ?vs"
    using ss set_stable_sort [of "better s sg" ?vs] by auto
  with x have x': "x = (dc_chosen d, estimate_cost s (dc_chosen d) sg)"
    "acceptable s sg cn (dc_chosen d)" "dc_chosen d \<in> set (effective_catalog s)"
    by (auto simp: candidates_for_def)
  then show "acceptable s sg cn (dc_chosen d)" "dc_chosen d \<in> set (effective_catalog s)" by auto
  assume "acceptable s sg cn c" "c \<in> set (effective_catalog s)"
  then have "(c, estimate_cost s c sg) \<in> set ?vs"
    by (auto simp: candidates_for_def)
  then have "\<not> better s sg (c, estimate_cost s c sg) (hd ?ss)"
    by (rule better.stable_sort_hd_min)
  with ss x' show "\<not> better s sg (c, estimate_cost s c sg)
      (dc_chosen d, estimate_cost s (dc_chosen d) sg)" by simp
qed

section \<open>Properties\<close>

text \<open>
  C22: when \<open>Select\<close> picks a model it is a catalog entry whose provider is registered, that clears
  the quality bar of the task kind raised by the prior failures, holds the prompt and the
  reply, is permitted by both allowlists and costs no more than the cap; and no other such entry is
  estimated cheaper.
\<close>

theorem select_sound_cheapest:
  assumes "select s sg cn = Inr d"
  shows "dc_chosen d \<in> set (effective_catalog s)
    \<and> dc_provider d = cd_provider (dc_chosen d) \<and> dc_model d = cd_model (dc_chosen d)
    \<and> is_registered s (dc_provider d)
    \<and> min_quality_for (sg_kind sg) + sg_prior_failures sg \<le> cd_quality (dc_chosen d)
    \<and> fits_context (dc_chosen d) sg
    \<and> allowed_in (cn_providers cn) (dc_provider d) \<and> allowed_in (cn_models cn) (dc_model d)
    \<and> (cn_max_usd cn > 0 \<longrightarrow> estimate_cost s (dc_chosen d) sg \<le> cn_max_usd cn)
    \<and> (\<forall>c \<in> set (effective_catalog s). acceptable s sg cn c
         \<longrightarrow> estimate_cost s (dc_chosen d) sg \<le> estimate_cost s c sg)"
proof -
  have le: "estimate_cost s (dc_chosen d) sg \<le> estimate_cost s c sg"
    if "acceptable s sg cn c" "c \<in> set (effective_catalog s)" for c
    using select_chosen_best(3) [OF assms that] by (auto simp: better_def split: if_splits)
  show ?thesis
    using select_chosen_best(1,2) [OF assms] select_Inr(2,3) [OF assms] le
    by (simp add: acceptable_def min_quality_def)
qed

text \<open>
  \<open>Select\<close> fails exactly when no catalog entry is acceptable, and the alternatives it returns
  with its choice are, with the choice, every acceptable entry once, none of them better than one
  before it.
\<close>

lemma select_fallbacks_complete:
  "((\<exists>e. select s sg cn = Inl e) \<longleftrightarrow> (\<forall>c \<in> set (effective_catalog s). \<not> acceptable s sg cn c))
   \<and> (\<forall>d. select s sg cn = Inr d \<longrightarrow>
        mset (dc_chosen d # dc_fallbacks d)
          = mset (filter (acceptable s sg cn) (effective_catalog s))
        \<and> sorted_wrt (\<lambda>a b. \<not> better s sg (b, estimate_cost s b sg) (a, estimate_cost s a sg))
            (dc_chosen d # dc_fallbacks d))"
proof (intro conjI allI impI)
  show "(\<exists>e. select s sg cn = Inl e)
      \<longleftrightarrow> (\<forall>c \<in> set (effective_catalog s). \<not> acceptable s sg cn c)"
    by (auto simp: select_Inl candidates_for_def filter_empty_conv)
next
  fix d assume d: "select s sg cn = Inr d"
  let ?ss = "stable_sort (better s sg) (candidates_for s sg cn)"
  have "mset (map fst ?ss) = mset (map fst (candidates_for s sg cn))" by simp
  also have "\<dots> = mset (filter (acceptable s sg cn) (effective_catalog s))"
    by (simp add: candidates_for_def comp_def)
  finally show "mset (dc_chosen d # dc_fallbacks d)
      = mset (filter (acceptable s sg cn) (effective_catalog s))"
    using select_Inr(1) [OF d] by simp
next
  fix d assume d: "select s sg cn = Inr d"
  let ?ss = "stable_sort (better s sg) (candidates_for s sg cn)"
  have eq: "x = (fst x, estimate_cost s (fst x) sg)" if "x \<in> set ?ss" for x
    using that by (auto simp: candidates_for_def)
  have "sorted_wrt (\<lambda>a b. \<not> better s sg b a) ?ss"
    by (rule better.stable_sort_sorted)
  then have "sorted_wrt (\<lambda>a b. \<not> better s sg (fst b, estimate_cost s (fst b) sg)
      (fst a, estimate_cost s (fst a) sg)) ?ss"
    using eq by (auto elim!: sorted_wrt_mono_rel [rotated])
  then show "sorted_wrt (\<lambda>a b. \<not> better s sg (b, estimate_cost s b sg) (a, estimate_cost s a sg))
      (dc_chosen d # dc_fallbacks d)"
    unfolding select_Inr(1) [OF d, symmetric] by (simp add: sorted_wrt_map)
qed

definition demo_client :: "string \<Rightarrow> unit client" where
  "demo_client p =
     \<lparr>cl_provider_name = p, cl_supports_tools = Some True,
      cl_generate = (\<lambda>cx rq w. (Inl (ErrText ''unused''), w))\<rparr>"

definition demo_router :: "unit router" where
  "demo_router =
     \<lparr>rt_clients = [(''ollama'', demo_client ''ollama''), (''claude'', demo_client ''claude'')],
      rt_default = ''ollama'', rt_ollama_fallback = False, rt_ollama_model = [],
      rt_ctx_err = (\<lambda>w. None)\<rparr>"

definition demo_selector :: "unit selector" where
  "demo_selector = new_selector demo_router None None"

definition demo_signals :: task_signals where
  "demo_signals =
     \<lparr>sg_kind = ''plan'', sg_prompt_tokens = 1000, sg_needs_tools = True, sg_max_output = 0,
      sg_prior_failures = 1\<rparr>"

lemma demo_select:
  "map_sum (\<lambda>e. ()) dc_model (select demo_selector demo_signals no_constraints)
     = Inr ''claude-sonnet-4-20250514''"
  by code_simp

lemma demo_select_Inr: "\<exists>d. select demo_selector demo_signals no_constraints = Inr d"
  using demo_select by (cases "select demo_selector demo_signals no_constraints") auto

theorem select_sound_cheapest_witness:
  "\<exists>d. select demo_selector demo_signals no_constraints = Inr d
     \<and> is_registered demo_selector (dc_provider d) \<and> 9 \<le> cd_quality (dc_chosen d)"
proof -
  obtain d where d: "select demo_selector demo_signals no_constraints = Inr d"
    using demo_select_Inr by blast
  have "min_quality_for (sg_kind demo_signals) + sg_prior_failures demo_signals = 9"
    by (simp add: demo_signals_def min_quality_for_def kind_classify_def kind_summarize_def
        kind_chat_def kind_step_def kind_code_def kind_plan_def kind_reflect_def)
  with d select_sound_cheapest [OF d] show ?thesis by auto
qed

lemma size_quality_bounds: "snd (size_quality_speed b) \<in> {1..10}"
  by (simp add: size_quality_speed_def)

lemma quality_speed_local:
  assumes "map_of known_quality_speed (mi_provider m @ '':'' @ mi_name m) = None"
  shows "fst (quality_speed_for m) \<le> 6 \<and> snd (quality_speed_for m) \<in> {1..10}"
proof (cases "parse_parameter_size (mi_parameter_size m)")
  case None
  with assms show ?thesis by (simp add: quality_speed_for_def)
next
  case (Some b)
  obtain q sp where qs: "size_quality_speed b = (q, sp)" by (cases "size_quality_speed b")
  then have "sp \<in> {1..10}" using size_quality_bounds [of b] by simp
  with assms Some qs show ?thesis
    by (auto simp: quality_speed_for_def max_local_quality_def Let_def)
qed

text \<open>
  a model known only from live discovery is rated at most 6 whatever size it reports, its
  context window on Ollama never exceeds the configured ceiling, and no such candidate is acceptable
  for a planning or coding task, however the task is constrained.
\<close>

lemma discovered_model_bounded:
  assumes "from_model_info m mc = Some c"
    and "map_of known_quality_speed (mi_provider m @ '':'' @ mi_name m) = None"
    and "sg_prior_failures sg \<ge> 0"
  shows "cd_quality c \<le> 6 \<and> cd_speed c \<in> {1..10}
    \<and> (mi_provider m = ''ollama'' \<and> mc > 0 \<longrightarrow> cd_context c \<le> mc)
    \<and> (sg_kind sg \<in> {kind_plan, kind_code} \<longrightarrow> \<not> acceptable s sg cn c)"
proof -
  have q: "cd_quality c \<le> 6" "cd_speed c \<in> {1..10}"
    using assms(1) quality_speed_local [OF assms(2)]
    by (auto simp: from_model_info_def mk_candidate_def Let_def split: if_splits)
  have "mi_provider m = ''ollama'' \<and> mc > 0 \<longrightarrow> cd_context c \<le> mc"
    using assms(1) by (auto simp: from_model_info_def mk_candidate_def Let_def split: if_splits)
  moreover have "min_quality sg \<ge> 7" if "sg_kind sg \<in> {kind_plan, kind_code}"
    using that assms(3)
    by (auto simp: min_quality_def min_quality_for_def kind_classify_def kind_summarize_def
        kind_chat_def kind_step_def kind_code_def kind_plan_def kind_reflect_def)
  ultimately show ?thesis
    using q by (auto simp: acceptable_def)
qed

definition demo_model :: model_info where
  "demo_model =
     \<lparr>mi_provider = ''ollama'', mi_name = ''giant:405b'', mi_context = 1000000,
      mi_parameter_size = ''405B'', mi_quantization = [], mi_family = ''giant'',
      mi_capabilities = [''completion'', ''tools'']\<rparr>"

text \<open>
  in the merged catalog a provider seen by live discovery offers exactly its live models, and
  every other provider exactly its static ones.
\<close>

lemma merge_catalogs_by_provider:
  "filter (\<lambda>c. cd_provider c = p) (merge_catalogs stat dyn) =
     (if has_provider dyn p then filter (\<lambda>c. cd_provider c = p) dyn
      else filter (\<lambda>c. cd_provider c = p \<and> candidate_key c \<notin> set (map candidate_key dyn)) stat)"
proof (cases "dyn = []")
  case True
  then show ?thesis by (simp add: merge_catalogs_def has_provider_def)
next
  case False
  show ?thesis
  proof (cases "has_provider dyn p")
    case True
    with False show ?thesis
      by (auto simp: merge_catalogs_def filter_empty_conv)
  next
    case no: False
    then have "filter (\<lambda>c. cd_provider c = p) dyn = []"
      by (auto simp: has_provider_def list_ex_iff filter_empty_conv)
    with False no show ?thesis
      by (auto simp: merge_catalogs_def intro!: filter_cong)
  qed
qed

end
