(* ===== verification/GoMap.thy ===== *)
theory GoMap
  imports GoJson "HOL-Library.AList"
begin

text \<open>
  Go maps decoded from JSON: \<open>json.Unmarshal\<close> into \<open>any\<close> or \<open>map[string]any\<close>, where a map is an
  association list without duplicate keys (\<open>wf_json\<close>, kept by every operation here). Where Go
  ranges over a map in an unspecified order, the model takes the order of the list.
\<close>

text \<open>
  \<open>json.Unmarshal\<close> into an \<open>any\<close>: a Go map holds the last value of a duplicate key.
\<close>

definition map_put :: "obj \<Rightarrow> string \<times> json \<Rightarrow> obj" where
  "map_put m kv = AList.update (fst kv) (snd kv) m"

definition mk_map :: "obj \<Rightarrow> obj" where
  "mk_map ms = foldl map_put [] ms"

fun to_any :: "json \<Rightarrow> json" where
  "to_any (JArr vs) = JArr (map to_any vs)"
| "to_any (JObj ms) = JObj (mk_map (map (\<lambda>(k, v). (k, to_any v)) ms))"
| "to_any v = v"

text \<open>A Go map has no duplicate keys, at any depth.\<close>

fun wf_json :: "json \<Rightarrow> bool" where
  "wf_json (JArr vs) = list_all wf_json vs"
| "wf_json (JObj ms) \<longleftrightarrow> distinct (map fst ms) \<and> list_all (\<lambda>(k, v). wf_json v) ms"
| "wf_json v = True"

lemma update_new: "k \<notin> set (map fst m) \<Longrightarrow> AList.update k v m = m @ [(k, v)]"
  by (induction m) auto

lemma foldl_map_put_distinct:
  "distinct (map fst (m @ ms)) \<Longrightarrow> foldl map_put m ms = m @ ms"
proof (induction ms arbitrary: m)
  case (Cons kv ms)
  obtain k v where kv: "kv = (k, v)" by (cases kv)
  have "map_put m kv = m @ [kv]"
    using Cons.prems kv by (auto simp: map_put_def update_new)
  with Cons.IH [of "m @ [kv]"] Cons.prems show ?case by simp
qed simp

lemma mk_map_distinct: "distinct (map fst ms) \<Longrightarrow> mk_map ms = ms"
  using foldl_map_put_distinct [of "[]" ms] by (simp add: mk_map_def)

lemma to_any_wf: "wf_json v \<Longrightarrow> to_any v = v"
proof (induction v rule: to_any.induct)
  case (1 vs)
  then show ?case by (auto simp: list_all_iff intro: map_idI)
next
  case (2 ms)
  have m: "map (\<lambda>(k, v). (k, to_any v)) ms = ms"
    using 2 by (auto simp: list_all_iff intro!: map_idI)
  show ?case
    unfolding to_any.simps m using 2 by (simp add: mk_map_distinct)
qed auto

lemma distinct_map_put: "distinct (map fst m) \<Longrightarrow> distinct (map fst (foldl map_put m ms))"
  by (induction ms arbitrary: m) (auto simp: map_put_def distinct_update)

lemma map_put_values:
  "(k, v) \<in> set (foldl map_put m ms) \<Longrightarrow> (k, v) \<in> set m \<or> v \<in> snd ` set ms"
proof (induction ms arbitrary: m)
  case (Cons a ms)
  then have "(k, v) \<in> set (map_put m a) \<or> v \<in> snd ` set ms" by simp
  moreover have "(k, v) \<in> set (map_put m a) \<Longrightarrow> (k, v) \<in> set m \<or> v = snd a"
    unfolding map_put_def by (induction m) (auto split: if_splits)
  ultimately show ?case by auto
qed simp

lemma wf_to_any: "wf_json (to_any v)"
proof (induction v rule: to_any.induct)
  case (1 vs)
  then show ?case by (auto simp: list_all_iff)
next
  case (2 ms)
  have "wf_json v" if "(k, v) \<in> set (mk_map (map (\<lambda>(k, v). (k, to_any v)) ms))" for k v
    using map_put_values [OF that [unfolded mk_map_def]] 2 by force
  then show ?case
    by (auto simp: list_all_iff mk_map_def distinct_map_put)
qed auto

section \<open>Struct fields\<close>

definition json_string :: "json \<Rightarrow> string option" where
  "json_string v = (case v of JStr s \<Rightarrow> Some s | _ \<Rightarrow> None)"

text \<open>
  A struct field takes the values of the members whose name matches it, the last one last. What a
  null does depends on the field's type: it leaves a string or a number, and clears a slice or map.
\<close>

definition member_step ::
  "('a \<Rightarrow> 'a) \<Rightarrow> (json \<Rightarrow> 'a option) \<Rightarrow> string \<Rightarrow> 'a option \<Rightarrow> string \<times> json \<Rightarrow> 'a option" where
  "member_step on_null dec k acc kv =
     (case acc of
        None \<Rightarrow> None
      | Some a \<Rightarrow>
          if equal_fold (fst kv) k then
            (if snd kv = JNull then Some (on_null a) else dec (snd kv))
          else Some a)"

definition jfield :: "('a \<Rightarrow> 'a) \<Rightarrow> (json \<Rightarrow> 'a option) \<Rightarrow> 'a \<Rightarrow> string \<Rightarrow> obj \<Rightarrow> 'a option" where
  "jfield on_null dec zero k ms = foldl (member_step on_null dec k) (Some zero) ms"

definition dec_int :: "json \<Rightarrow> int option" where
  "dec_int v =
     (case v of JNum r \<Rightarrow> if of_int \<lfloor>r\<rfloor> = r then Some \<lfloor>r\<rfloor> else None | _ \<Rightarrow> None)"

definition dec_map :: "json \<Rightarrow> obj option option" where
  "dec_map v = (case to_any v of JObj ms \<Rightarrow> Some (Some ms) | _ \<Rightarrow> None)"

fun opt_all :: "'a option list \<Rightarrow> 'a list option" where
  "opt_all [] = Some []"
| "opt_all (None # xs) = None"
| "opt_all (Some x # xs) = map_option ((#) x) (opt_all xs)"

text \<open>In an array of structs or strings, a null element is the zero value.\<close>

definition dec_list :: "(json \<Rightarrow> 'a option) \<Rightarrow> 'a \<Rightarrow> json \<Rightarrow> 'a list option" where
  "dec_list dec zero v =
     (case v of
        JArr vs \<Rightarrow> opt_all (map (\<lambda>x. if x = JNull then Some zero else dec x) vs)
      | _ \<Rightarrow> None)"

definition str_field :: "string \<Rightarrow> obj \<Rightarrow> string option" where
  "str_field k ms = jfield id json_string [] k ms"

definition int_field :: "string \<Rightarrow> obj \<Rightarrow> int option" where
  "int_field k ms = jfield id dec_int 0 k ms"

definition map_field :: "string \<Rightarrow> obj \<Rightarrow> obj option option" where
  "map_field k ms = jfield (\<lambda>_. None) dec_map None k ms"

definition list_field :: "(json \<Rightarrow> 'a option) \<Rightarrow> 'a \<Rightarrow> string \<Rightarrow> obj \<Rightarrow> 'a list option" where
  "list_field dec zero k ms = jfield (\<lambda>_. []) (dec_list dec zero) [] k ms"

end
