(* ===== verification/Executor.thy ===== *)
theory Executor
  imports Tools Prompts ModelSelect GoMap
begin

text \<open>
  The agent loop of \<open>executor/executor.go\<close> with the choice of a model (\<open>automodel.go\<close>) and the
  pause on a gated tool (\<open>approvals.go\<close>): a run asks the model, runs the tool it names and asks
  again, at most 15 times, on the ReAct path (one JSON object a turn) or with native tool calls.
  Clients, tools, the skill store, the knowledge base and the approval gate are functions on a
  world of any type; logging, streaming and trace labels are left out. Times are milliseconds.
\<close>

section \<open>State and results\<close>

record tool_record =
  tr_name :: string
  tr_input :: "obj option"
  tr_output :: string
  tr_err :: "go_err option"
  tr_duration :: int

record run_result =
  rr_final :: string
  rr_iterations :: int
  rr_total :: int
  rr_input :: int
  rr_output :: int
  rr_latency :: int
  rr_provider :: string
  rr_model :: string
  rr_tool_calls :: "tool_record list"
  rr_err :: "go_err option"
  rr_status :: string
  rr_approval :: uuid
  rr_prior :: nat

definition max_iterations :: int where
  "max_iterations = 15"

definition status_awaiting :: string where
  "status_awaiting = ''awaiting_approval''"

definition error_result :: "go_err \<Rightarrow> run_result" where
  "error_result e =
     \<lparr>rr_final = [], rr_iterations = 0, rr_total = 0, rr_input = 0, rr_output = 0, rr_latency = 0,
      rr_provider = [], rr_model = [], rr_tool_calls = [], rr_err = Some e, rr_status = [],
      rr_approval = uuid_nil, rr_prior = 0\<rparr>"

record 'w loop_state =
  ls_client :: "'w client"
  ls_model :: string
  ls_provider :: string
  ls_registry :: "'w registry"
  ls_tool_defs :: "tool_def list"
  ls_agent :: uuid
  ls_org :: uuid
  ls_exec :: uuid
  ls_agent_tools :: "string list"
  ls_messages :: "llm_message list"
  ls_iteration :: int
  ls_tool_calls :: "tool_record list"
  ls_input :: int
  ls_output :: int
  ls_total :: int
  ls_run_start :: int

text \<open>What an executor is wired with. An optional dependency that is absent is \<^const>\<open>None\<close>.\<close>

record 'w skill_provider =
  sp_list_for_agent :: "go_ctx \<Rightarrow> uuid \<Rightarrow> 'w \<Rightarrow> (go_err + skill list) \<times> 'w"
  sp_list_by_slugs :: "go_ctx \<Rightarrow> uuid \<Rightarrow> string list \<Rightarrow> 'w \<Rightarrow> (go_err + skill list) \<times> 'w"

type_synonym 'w embedder = "go_ctx \<Rightarrow> string list \<Rightarrow> 'w \<Rightarrow> (go_err + rat list list) \<times> 'w"

type_synonym 'w searcher = "go_ctx \<Rightarrow> uuid \<Rightarrow> rat list \<Rightarrow> nat \<Rightarrow> 'w \<Rightarrow> (go_err + string list) \<times> 'w"

record 'w gate =
  gt_requires :: "'w \<Rightarrow> uuid \<Rightarrow> string \<Rightarrow> bool"
  gt_create :: "uuid \<Rightarrow> uuid \<Rightarrow> uuid \<Rightarrow> string \<Rightarrow> obj \<Rightarrow> json \<Rightarrow> 'w \<Rightarrow> (go_err + uuid) \<times> 'w"

record 'w executor =
  ex_router :: "'w router"
  ex_registry :: "'w registry"
  ex_skills :: "'w skill_provider option"
  ex_knowledge :: "'w searcher option"
  ex_embedder :: "'w embedder option"
  ex_gate :: "'w gate option"
  ex_selector :: "'w selector option"
  ex_cost :: "catalog option"
  ex_now :: "'w \<Rightarrow> int"

definition new_executor :: "'w router \<Rightarrow> 'w registry \<Rightarrow> ('w \<Rightarrow> int) \<Rightarrow> 'w executor" where
  "new_executor router reg now =
     \<lparr>ex_router = router, ex_registry = reg, ex_skills = None, ex_knowledge = None,
      ex_embedder = None, ex_gate = None, ex_selector = None, ex_cost = None, ex_now = now\<rparr>"

definition build_result ::
  "'w executor \<Rightarrow> string \<Rightarrow> int \<Rightarrow> 'w loop_state \<Rightarrow> go_err option \<Rightarrow> 'w \<Rightarrow> run_result" where
  "build_result ex final iterations st err w =
     \<lparr>rr_final = final, rr_iterations = iterations, rr_total = ls_total st,
      rr_input = ls_input st, rr_output = ls_output st,
      rr_latency = ex_now ex w - ls_run_start st, rr_provider = ls_provider st,
      rr_model = ls_model st, rr_tool_calls = ls_tool_calls st, rr_err = err, rr_status = [],
      rr_approval = uuid_nil, rr_prior = 0\<rparr>"

section \<open>Policy caps\<close>

definition run_options_from :: "go_ctx \<Rightarrow> run_options" where
  "run_options_from cx =
     (case cx_run_options cx of
        Some ro \<Rightarrow> ro
      | None \<Rightarrow> \<lparr>ro_skill_slugs = [], ro_max_tokens = 0, ro_max_cost = 0\<rparr>)"

definition with_run_options :: "go_ctx \<Rightarrow> run_options \<Rightarrow> go_ctx" where
  "with_run_options cx ro = cx\<lparr>cx_run_options := Some ro\<rparr>"

definition cap_tokens :: "go_ctx \<Rightarrow> int \<Rightarrow> int" where
  "cap_tokens cx def =
     (let limit = ro_max_tokens (run_options_from cx) in
      if limit > 0 \<and> limit < def then limit else def)"

definition cost_cap_exceeded :: "'w executor \<Rightarrow> go_ctx \<Rightarrow> 'w loop_state \<Rightarrow> 'w \<Rightarrow> go_err option" where
  "cost_cap_exceeded ex cx st w =
     (let limit = ro_max_cost (run_options_from cx) in
      if limit \<le> 0 then None
      else (case ex_cost ex of
              None \<Rightarrow> None
            | Some cat \<Rightarrow>
                (let spent = calculate cat (ls_provider st) (ls_model st) (ls_input st)
                               (ls_output st) (ex_now ex w - ls_run_start st)
                 in if spent < limit then None
                    else Some (ErrText (''executor: execution cost cap reached (spent $''
                           @ show_fixed 6 spent @ '' of $'' @ show_fixed 6 limit @ '' limit)'')))))"

section \<open>Skills\<close>

definition obj_string :: "obj \<Rightarrow> string \<Rightarrow> string option" where
  "obj_string m k = (case map_of m k of Some (JStr s) \<Rightarrow> Some s | _ \<Rightarrow> None)"

definition skill_tool_names :: "skill \<Rightarrow> string list" where
  "skill_tool_names s =
     (case obj_string (sk_config s) ''tool'' of Some v \<Rightarrow> if v \<noteq> [] then [v] else [] | None \<Rightarrow> [])
     @ (case map_of (sk_config s) ''tools'' of
          Some (JArr items) \<Rightarrow> filter (\<lambda>n. n \<noteq> []) (List.map_filter json_string items)
        | _ \<Rightarrow> [])"

definition skill_prompt_fragment :: "skill \<Rightarrow> string" where
  "skill_prompt_fragment s =
     (let rest = (case sk_description s of Some d \<Rightarrow> trim_space d | None \<Rightarrow> []) in
      case obj_string (sk_config s) ''prompt'' of
        Some v \<Rightarrow> if trim_space v \<noteq> [] then trim_space v else rest
      | None \<Rightarrow> rest)"

text \<open>Adding a name that is not there yet keeps the order and leaves no duplicates.\<close>

definition add_new :: "string list \<Rightarrow> string \<Rightarrow> string list" where
  "add_new ns n = (if n \<in> set ns then ns else ns @ [n])"

definition merge_skill :: "string list \<Rightarrow> skill \<Rightarrow> string list" where
  "merge_skill merged s =
     (if sk_kind s = ''tool''
      then foldl add_new merged (filter (\<lambda>n. n \<noteq> []) (skill_tool_names s))
      else merged)"

definition skill_patches :: "skill list \<Rightarrow> string list" where
  "skill_patches skills =
     map (\<lambda>s. ''- '' @ skill_prompt_fragment s)
       (filter (\<lambda>s. sk_kind s = ''prompt'' \<and> skill_prompt_fragment s \<noteq> []) skills)"

definition apply_skills :: "string list \<Rightarrow> skill list \<Rightarrow> string list \<times> string" where
  "apply_skills agent_tools skills =
     (foldl merge_skill (foldl add_new [] agent_tools) skills,
      if skill_patches skills \<noteq> []
      then ''## Enabled Skills'' @ nl @ nl @ join nl (skill_patches skills) else [])"

section \<open>Seeding the conversation\<close>

definition seed_messages :: "string \<Rightarrow> string \<Rightarrow> string \<Rightarrow> llm_message list" where
  "seed_messages system knowledge task =
     [plain_message role_system system]
     @ (if knowledge \<noteq> [] then [plain_message role_user knowledge] else [])
     @ [plain_message role_user (build_task_user_message task)]"

definition retrieve_knowledge ::
  "'w executor \<Rightarrow> go_ctx \<Rightarrow> uuid \<Rightarrow> string \<Rightarrow> 'w \<Rightarrow> string \<times> 'w" where
  "retrieve_knowledge ex cx agent task w =
     (case (ex_knowledge ex, ex_embedder ex) of
        (Some srch, Some emb) \<Rightarrow>
          (case emb cx [task] w of
             (Inr (v # vs), w') \<Rightarrow>
               (case srch cx agent v 5 w' of
                  (Inr chunks, w'') \<Rightarrow>
                    (if chunks = [] then ([], w'')
                     else (trim_right_by (\<lambda>c. c = CHR 0x0A)
                             (''Relevant knowledge:'' @ nl
                              @ concat (map (\<lambda>c. if trim_space c = [] then []
                                                 else ''- '' @ trim_space c @ nl) chunks)), w''))
                | (Inl e, w'') \<Rightarrow> ([], w''))
           | (Inr [], w') \<Rightarrow> ([], w')
           | (Inl e, w') \<Rightarrow> ([], w'))
      | _ \<Rightarrow> ([], w))"

definition build_tool_defs :: "'w registry \<Rightarrow> tool_def list option" where
  "build_tool_defs reg =
     (if list_ex (\<lambda>t. tl_schema t = None) (all_tools reg) then None
      else Some (map (\<lambda>t. \<lparr>td_name = tl_name t, td_description = tl_description t,
                        td_parameters = the (tl_schema t)\<rparr>) (all_tools reg)))"

section \<open>Choosing the model (automodel.go)\<close>

record 'w model_choice =
  mc_client :: "'w client"
  mc_provider :: string
  mc_model :: string
  mc_reason :: string

definition or_empty :: "string option \<Rightarrow> string" where
  "or_empty x = (case x of None \<Rightarrow> [] | Some s \<Rightarrow> s)"

definition resolve_model ::
  "'w router \<Rightarrow> 'w selector option \<Rightarrow> agent \<Rightarrow> task_signals \<Rightarrow> go_err + 'w model_choice" where
  "resolve_model router sel agent sg =
     (let provider = or_empty (ag_model_provider agent);
          model = or_empty (ag_model_name agent);
          explicit = (\<lambda>p. (case for_with_fallback router p of
              Inl e \<Rightarrow> Inl (ErrWrap ''executor: resolve LLM client: '' e)
            | Inr c \<Rightarrow> Inr \<lparr>mc_client = c, mc_provider = cl_provider_name c, mc_model = model,
                           mc_reason = []\<rparr>))
      in if is_auto provider then
           (case sel of
              None \<Rightarrow> explicit []
            | Some s \<Rightarrow>
                (case select s sg no_constraints of
                   Inl e \<Rightarrow> Inl (ErrWrap ''executor: auto model selection: '' e)
                 | Inr d \<Rightarrow>
                     (case for_with_fallback router (dc_provider d) of
                        Inl e \<Rightarrow> Inl (ErrWrap (''executor: auto-selected provider ''
                                   @ quote (dc_provider d) @ '': '') e)
                      | Inr c \<Rightarrow> Inr \<lparr>mc_client = c, mc_provider = dc_provider d,
                                     mc_model = dc_model d, mc_reason = dc_reason d\<rparr>)))
         else explicit provider)"

definition estimate_tokens :: "string list \<Rightarrow> int" where
  "estimate_tokens parts = int (sum_list (map length parts) div 4)"

section \<open>Reading a ReAct turn\<close>

record react_response =
  rc_thought :: string
  rc_action :: "string option"
  rc_action_input :: "obj option"
  rc_final_answer :: "string option"

text \<open>
  One member decoded into the struct. A null leaves a string as it is and clears a pointer or a
  map; a value of another type is the decoding error; a second object merges into the map.
\<close>

definition react_member ::
  "react_response option \<Rightarrow> string \<times> json \<Rightarrow> react_response option" where
  "react_member acc kv =
     (case acc of
        None \<Rightarrow> None
      | Some r \<Rightarrow>
          (let k = fst kv; v = snd kv in
           if equal_fold k ''thought'' then
             (case v of JStr s \<Rightarrow> Some (r\<lparr>rc_thought := s\<rparr>) | JNull \<Rightarrow> Some r | _ \<Rightarrow> None)
           else if equal_fold k ''action'' then
             (case v of JStr s \<Rightarrow> Some (r\<lparr>rc_action := Some s\<rparr>)
              | JNull \<Rightarrow> Some (r\<lparr>rc_action := None\<rparr>) | _ \<Rightarrow> None)
           else if equal_fold k ''action_input'' then
             (case v of
                JObj ms \<Rightarrow> Some (r\<lparr>rc_action_input :=
                  Some (foldl map_put (case rc_action_input r of Some m \<Rightarrow> m | None \<Rightarrow> [])
                          (map (\<lambda>(k, v). (k, to_any v)) ms))\<rparr>)
              | JNull \<Rightarrow> Some (r\<lparr>rc_action_input := None\<rparr>) | _ \<Rightarrow> None)
           else if equal_fold k ''final_answer'' then
             (case v of JStr s \<Rightarrow> Some (r\<lparr>rc_final_answer := Some s\<rparr>)
              | JNull \<Rightarrow> Some (r\<lparr>rc_final_answer := None\<rparr>) | _ \<Rightarrow> None)
           else Some r))"

definition decode_react :: "json \<Rightarrow> react_response option" where
  "decode_react v =
     (case v of
        JObj ms \<Rightarrow> foldl react_member
          (Some \<lparr>rc_thought = [], rc_action = None, rc_action_input = None,
                 rc_final_answer = None\<rparr>) ms
      | _ \<Rightarrow> None)"

text \<open>The text between the first opening and the last closing brace, without code fences.\<close>

definition fence :: string where
  "fence = ''```''"

definition strip_fences :: "string \<Rightarrow> string" where
  "strip_fences s =
     trim_space (trim_suffix (trim_prefix (trim_prefix (trim_space s) (fence @ ''json'')) fence)
       fence)"

definition brace_span :: "string \<Rightarrow> string option" where
  "brace_span s =
     (case (index_of s ''{'', last_index_char s (CHR ''}'')) of
        (Some start, Some end_pos) \<Rightarrow>
          if end_pos < start then None else Some (take (end_pos + 1 - start) (drop start s))
      | _ \<Rightarrow> None)"

definition parse_react_response :: "string \<Rightarrow> react_response option" where
  "parse_react_response content =
     (case brace_span (strip_fences content) of
        None \<Rightarrow> None
      | Some s \<Rightarrow> (case parse_json s of None \<Rightarrow> None | Some v \<Rightarrow> decode_react v))"

section \<open>Running a tool\<close>

definition not_available :: "string \<Rightarrow> string" where
  "not_available name = ''Error: tool '' @ quote name @ '' is not available to this agent.''"

definition add_record :: "tool_record \<Rightarrow> 'w loop_state \<Rightarrow> 'w loop_state" where
  "add_record rec st = st\<lparr>ls_tool_calls := ls_tool_calls st @ [rec]\<rparr>"

definition add_message :: "llm_message \<Rightarrow> 'w loop_state \<Rightarrow> 'w loop_state" where
  "add_message m st = st\<lparr>ls_messages := ls_messages st @ [m]\<rparr>"

definition unavailable_record :: "string \<Rightarrow> obj \<Rightarrow> tool_record" where
  "unavailable_record name input =
     \<lparr>tr_name = name, tr_input = Some input, tr_output = [],
      tr_err = Some (ErrText ''tool not available''), tr_duration = 0\<rparr>"

definition execute_tool ::
  "'w executor \<Rightarrow> go_ctx \<Rightarrow> 'w loop_state \<Rightarrow> 'w tool \<Rightarrow> string \<Rightarrow> obj \<Rightarrow> 'w
     \<Rightarrow> (string \<times> 'w loop_state) \<times> 'w" where
  "execute_tool ex cx st tool name input w =
     (case tl_execute tool cx input w of
        ((out, terr), w') \<Rightarrow>
          (let st' = add_record \<lparr>tr_name = name, tr_input = Some input, tr_output = out,
                        tr_err = terr, tr_duration = ex_now ex w' - ex_now ex w\<rparr> st
           in ((case terr of
                  Some e \<Rightarrow> ''Error executing tool: '' @ err_text e
                | None \<Rightarrow> out, st'), w')))"

text \<open>The gate, when it wants a human decision before this tool runs.\<close>

definition gate_for :: "'w executor \<Rightarrow> 'w \<Rightarrow> uuid \<Rightarrow> string \<Rightarrow> 'w gate option" where
  "gate_for ex w agent name =
     (case ex_gate ex of
        Some g \<Rightarrow> if gt_requires g w agent name then Some g else None
      | None \<Rightarrow> None)"

end
