(* ===== verification/ResumeState.thy ===== *)
theory ResumeState
  imports Executor
begin

text \<open>
  The state a paused run is stored with (\<open>executor/approvals.go\<close>): \<open>resumableState\<close> and its parts,
  the conversions from and to the loop's own types, and the JSON encoding as
  \<open>encoding/json\<close> gives it from the struct tags. The bytes are represented by the JSON value they
  denote; a Go string that is not UTF-8, which \<open>json.Marshal\<close> would repair, is outside the model.
\<close>

section \<open>The persisted forms\<close>

record persisted_call =
  pn_id :: string
  pn_name :: string
  pn_arguments :: "obj option"

record persisted_message =
  pm_role :: string
  pm_content :: string
  pm_tool_calls :: "persisted_call list"
  pm_tool_call_id :: string

record persisted_tool_call =
  pt_name :: string
  pt_input :: "obj option"
  pt_output :: string
  pt_error :: string
  pt_duration :: int

record resumable_state =
  zs_mode :: string
  zs_provider :: string
  zs_model :: string
  zs_agent_tools :: "string list"
  zs_messages :: "persisted_message list"
  zs_iteration :: int
  zs_input :: int
  zs_output :: int
  zs_total :: int
  zs_tool_calls :: "persisted_tool_call list"
  zs_pending_tool :: string
  zs_pending_input :: "obj option"
  zs_elapsed :: int
  zs_pending_id :: string
  zs_remaining :: "persisted_call list"

definition to_persisted_calls :: "tool_call list \<Rightarrow> persisted_call list" where
  "to_persisted_calls cs =
     map (\<lambda>c. \<lparr>pn_id = tc_id c, pn_name = tc_name c, pn_arguments = tc_arguments c\<rparr>) cs"

definition from_persisted_calls :: "persisted_call list \<Rightarrow> tool_call list" where
  "from_persisted_calls cs =
     map (\<lambda>c. \<lparr>tc_id = pn_id c, tc_name = pn_name c, tc_arguments = pn_arguments c\<rparr>) cs"

definition to_persisted_messages :: "llm_message list \<Rightarrow> persisted_message list" where
  "to_persisted_messages ms =
     map (\<lambda>m. \<lparr>pm_role = msg_role m, pm_content = msg_content m,
               pm_tool_calls = to_persisted_calls (msg_tool_calls m),
               pm_tool_call_id = msg_tool_call_id m\<rparr>) ms"

definition from_persisted_messages :: "persisted_message list \<Rightarrow> llm_message list" where
  "from_persisted_messages ms =
     map (\<lambda>m. \<lparr>msg_role = pm_role m, msg_content = pm_content m,
               msg_tool_calls = from_persisted_calls (pm_tool_calls m),
               msg_tool_call_id = pm_tool_call_id m\<rparr>) ms"

definition to_persisted_tool_calls :: "tool_record list \<Rightarrow> persisted_tool_call list" where
  "to_persisted_tool_calls rs =
     map (\<lambda>r. \<lparr>pt_name = tr_name r, pt_input = tr_input r, pt_output = tr_output r,
               pt_error = (case tr_err r of None \<Rightarrow> [] | Some e \<Rightarrow> err_text e),
               pt_duration = tr_duration r\<rparr>) rs"

definition from_persisted_tool_calls :: "persisted_tool_call list \<Rightarrow> tool_record list" where
  "from_persisted_tool_calls ps =
     map (\<lambda>p. \<lparr>tr_name = pt_name p, tr_input = pt_input p, tr_output = pt_output p,
               tr_err = (if pt_error p \<noteq> [] then Some (ErrText (pt_error p)) else None),
               tr_duration = pt_duration p\<rparr>) ps"

section \<open>Encoding\<close>

definition enc_map :: "obj option \<Rightarrow> json" where
  "enc_map m = (case m of None \<Rightarrow> JNull | Some ms \<Rightarrow> JObj ms)"

definition enc_int :: "int \<Rightarrow> json" where
  "enc_int i = JNum (of_int i)"

definition omit_empty :: "bool \<Rightarrow> string \<Rightarrow> json \<Rightarrow> obj" where
  "omit_empty c k v = (if c then [] else [(k, v)])"

definition enc_call :: "persisted_call \<Rightarrow> json" where
  "enc_call c =
     JObj [(''id'', JStr (pn_id c)), (''name'', JStr (pn_name c)),
           (''arguments'', enc_map (pn_arguments c))]"

definition enc_message :: "persisted_message \<Rightarrow> json" where
  "enc_message m =
     JObj ([(''role'', JStr (pm_role m)), (''content'', JStr (pm_content m))]
       @ omit_empty (pm_tool_calls m = []) ''tool_calls'' (JArr (map enc_call (pm_tool_calls m)))
       @ omit_empty (pm_tool_call_id m = []) ''tool_call_id'' (JStr (pm_tool_call_id m)))"

definition enc_tool_call :: "persisted_tool_call \<Rightarrow> json" where
  "enc_tool_call p =
     JObj ([(''tool_name'', JStr (pt_name p)), (''input'', enc_map (pt_input p)),
            (''output'', JStr (pt_output p))]
       @ omit_empty (pt_error p = []) ''error'' (JStr (pt_error p))
       @ [(''duration_ms'', enc_int (pt_duration p))])"

definition marshal_state :: "resumable_state \<Rightarrow> json" where
  "marshal_state z =
     JObj (omit_empty (zs_mode z = []) ''mode'' (JStr (zs_mode z))
       @ [(''provider'', JStr (zs_provider z)), (''model_name'', JStr (zs_model z)),
          (''agent_tools'', JArr (map JStr (zs_agent_tools z))),
          (''messages'', JArr (map enc_message (zs_messages z))),
          (''iteration'', enc_int (zs_iteration z)), (''input_tokens'', enc_int (zs_input z)),
          (''output_tokens'', enc_int (zs_output z)), (''total_tokens'', enc_int (zs_total z)),
          (''tool_calls'', JArr (map enc_tool_call (zs_tool_calls z))),
          (''pending_tool'', JStr (zs_pending_tool z)),
          (''pending_input'', enc_map (zs_pending_input z))]
       @ omit_empty (zs_elapsed z = 0) ''elapsed_ms'' (enc_int (zs_elapsed z))
       @ omit_empty (zs_pending_id z = []) ''pending_tool_call_id'' (JStr (zs_pending_id z))
       @ omit_empty (zs_remaining z = []) ''remaining_tool_calls''
           (JArr (map enc_call (zs_remaining z))))"

section \<open>Decoding\<close>

definition zero_call :: persisted_call where
  "zero_call = \<lparr>pn_id = [], pn_name = [], pn_arguments = None\<rparr>"

definition dec_call :: "json \<Rightarrow> persisted_call option" where
  "dec_call v =
     (case v of
        JObj ms \<Rightarrow>
          (case (str_field ''id'' ms, str_field ''name'' ms, map_field ''arguments'' ms) of
             (Some i, Some n, Some a) \<Rightarrow> Some \<lparr>pn_id = i, pn_name = n, pn_arguments = a\<rparr>
           | _ \<Rightarrow> None)
      | _ \<Rightarrow> None)"

definition zero_message :: persisted_message where
  "zero_message = \<lparr>pm_role = [], pm_content = [], pm_tool_calls = [], pm_tool_call_id = []\<rparr>"

definition dec_message :: "json \<Rightarrow> persisted_message option" where
  "dec_message v =
     (case v of
        JObj ms \<Rightarrow>
          (case (str_field ''role'' ms, str_field ''content'' ms,
                 list_field dec_call zero_call ''tool_calls'' ms, str_field ''tool_call_id'' ms) of
             (Some r, Some c, Some t, Some i) \<Rightarrow>
               Some \<lparr>pm_role = r, pm_content = c, pm_tool_calls = t, pm_tool_call_id = i\<rparr>
           | _ \<Rightarrow> None)
      | _ \<Rightarrow> None)"

definition zero_tool_call :: persisted_tool_call where
  "zero_tool_call =
     \<lparr>pt_name = [], pt_input = None, pt_output = [], pt_error = [], pt_duration = 0\<rparr>"

definition dec_tool_call :: "json \<Rightarrow> persisted_tool_call option" where
  "dec_tool_call v =
     (case v of
        JObj ms \<Rightarrow>
          (case (str_field ''tool_name'' ms, map_field ''input'' ms, str_field ''output'' ms,
                 str_field ''error'' ms, int_field ''duration_ms'' ms) of
             (Some n, Some i, Some out, Some e, Some d) \<Rightarrow>
               Some \<lparr>pt_name = n, pt_input = i, pt_output = out, pt_error = e, pt_duration = d\<rparr>
           | _ \<Rightarrow> None)
      | _ \<Rightarrow> None)"

definition zero_state :: resumable_state where
  "zero_state =
     \<lparr>zs_mode = [], zs_provider = [], zs_model = [], zs_agent_tools = [], zs_messages = [],
      zs_iteration = 0, zs_input = 0, zs_output = 0, zs_total = 0, zs_tool_calls = [],
      zs_pending_tool = [], zs_pending_input = None, zs_elapsed = 0, zs_pending_id = [],
      zs_remaining = []\<rparr>"

definition unmarshal_state :: "json \<Rightarrow> resumable_state option" where
  "unmarshal_state v =
     (case v of
        JObj ms \<Rightarrow>
          (case (str_field ''mode'' ms, str_field ''provider'' ms, str_field ''model_name'' ms,
                 list_field json_string [] ''agent_tools'' ms,
                 list_field dec_message zero_message ''messages'' ms) of
             (Some mode, Some prov, Some model, Some tools, Some msgs) \<Rightarrow>
               (case (int_field ''iteration'' ms, int_field ''input_tokens'' ms,
                      int_field ''output_tokens'' ms, int_field ''total_tokens'' ms,
                      list_field dec_tool_call zero_tool_call ''tool_calls'' ms) of
                  (Some it, Some i, Some out, Some tot, Some tcs) \<Rightarrow>
                    (case (str_field ''pending_tool'' ms, map_field ''pending_input'' ms,
                           int_field ''elapsed_ms'' ms, str_field ''pending_tool_call_id'' ms,
                           list_field dec_call zero_call ''remaining_tool_calls'' ms) of
                       (Some pt, Some pinp, Some el, Some pid, Some rem) \<Rightarrow>
                         Some \<lparr>zs_mode = mode, zs_provider = prov, zs_model = model,
                               zs_agent_tools = tools, zs_messages = msgs, zs_iteration = it,
                               zs_input = i, zs_output = out, zs_total = tot,
                               zs_tool_calls = tcs, zs_pending_tool = pt,
                               zs_pending_input = pinp, zs_elapsed = el, zs_pending_id = pid,
                               zs_remaining = rem\<rparr>
                     | _ \<Rightarrow> None)
                | _ \<Rightarrow> None)
           | _ \<Rightarrow> None)
      | JNull \<Rightarrow> Some zero_state
      | _ \<Rightarrow> None)"

section \<open>Lemmas\<close>

text \<open>A nil map or a well-formed one.\<close>

definition wf_map :: "obj option \<Rightarrow> bool" where
  "wf_map m = (case m of None \<Rightarrow> True | Some ms \<Rightarrow> wf_json (JObj ms))"

lemma dec_map_enc: "wf_map (Some ms) \<Longrightarrow> dec_map (JObj ms) = Some (Some ms)"
  using to_any_wf [of "JObj ms"] by (simp add: dec_map_def wf_map_def)

lemma dec_int_enc [simp]: "dec_int (enc_int i) = Some i"
  by (simp add: dec_int_def enc_int_def)

lemma enc_int_not_null [simp]: "enc_int i \<noteq> JNull"
  by (simp add: enc_int_def)

lemma dec_list_enc:
  assumes "\<And>x. x \<in> set xs \<Longrightarrow> dec (enc x) = Some x \<and> enc x \<noteq> JNull"
  shows "dec_list dec zero (JArr (map enc xs)) = Some xs"
proof -
  have "opt_all (map (\<lambda>x. if x = JNull then Some zero else dec x) (map enc xs)) = Some xs"
    using assms by (induction xs) auto
  then show ?thesis by (simp add: dec_list_def)
qed

text \<open>
  One field of an encoded struct: members of other names are passed over, an omitted field is its
  zero value.
\<close>

lemma foldl_member_skip:
  "list_all (\<lambda>kv. \<not> equal_fold (fst kv) k) ms \<Longrightarrow> foldl (member_step nul dec k) acc ms = acc"
  by (induction ms arbitrary: acc) (auto simp: member_step_def split: option.split)

lemma jfield_split:
  assumes "list_all (\<lambda>kv. \<not> equal_fold (fst kv) k) pre"
    and "list_all (\<lambda>kv. \<not> equal_fold (fst kv) k) post"
  shows "jfield nul dec zero k (pre @ (k, v) # post) = (if v = JNull then Some (nul zero) else dec v)"
  using assms by (simp add: jfield_def foldl_member_skip member_step_def equal_fold_def)

lemma jfield_absent:
  "list_all (\<lambda>kv. \<not> equal_fold (fst kv) k) ms \<Longrightarrow> jfield nul dec zero k ms = Some zero"
  by (simp add: jfield_def foldl_member_skip)

lemma lower_keys:
  "to_lower ''id'' = ''id''"
  "to_lower ''name'' = ''name''"
  "to_lower ''arguments'' = ''arguments''"
  "to_lower ''role'' = ''role''"
  "to_lower ''content'' = ''content''"
  "to_lower ''tool_calls'' = ''tool_calls''"
  "to_lower ''tool_call_id'' = ''tool_call_id''"
  "to_lower ''tool_name'' = ''tool_name''"
  "to_lower ''input'' = ''input''"
  "to_lower ''output'' = ''output''"
  "to_lower ''error'' = ''error''"
  "to_lower ''duration_ms'' = ''duration_ms''"
  "to_lower ''mode'' = ''mode''"
  "to_lower ''provider'' = ''provider''"
  "to_lower ''model_name'' = ''model_name''"
  "to_lower ''agent_tools'' = ''agent_tools''"
  "to_lower ''messages'' = ''messages''"
  "to_lower ''iteration'' = ''iteration''"
  "to_lower ''input_tokens'' = ''input_tokens''"
  "to_lower ''output_tokens'' = ''output_tokens''"
  "to_lower ''total_tokens'' = ''total_tokens''"
  "to_lower ''pending_tool'' = ''pending_tool''"
  "to_lower ''pending_input'' = ''pending_input''"
  "to_lower ''elapsed_ms'' = ''elapsed_ms''"
  "to_lower ''pending_tool_call_id'' = ''pending_tool_call_id''"
  "to_lower ''remaining_tool_calls'' = ''remaining_tool_calls''"
  by code_simp+

lemma member_step_other: "\<not> equal_fold k' k \<Longrightarrow> member_step nul dec k acc (k', v) = acc"
  by (simp add: member_step_def split: option.split)

lemma member_step_same:
  "member_step nul dec k (Some a) (k, v) = (if v = JNull then Some (nul a) else dec v)"
  by (simp add: member_step_def equal_fold_def)

lemma foldl_omit_other:
  "\<not> equal_fold k' k \<Longrightarrow> foldl (member_step nul dec k) acc (omit_empty c k' v) = acc"
  by (simp add: omit_empty_def member_step_other)

lemma foldl_omit_same:
  "foldl (member_step nul dec k) (Some a) (omit_empty c k v)
     = (if c then Some a else if v = JNull then Some (nul a) else dec v)"
  by (simp add: omit_empty_def member_step_same)

lemmas field_simps_enc = jfield_def str_field_def int_field_def map_field_def list_field_def
  member_step_other member_step_same foldl_omit_other foldl_omit_same equal_fold_def lower_keys
  json_string_def

definition wf_call :: "persisted_call \<Rightarrow> bool" where
  "wf_call c = wf_map (pn_arguments c)"

definition wf_message :: "persisted_message \<Rightarrow> bool" where
  "wf_message m = list_all wf_call (pm_tool_calls m)"

definition wf_tool_call :: "persisted_tool_call \<Rightarrow> bool" where
  "wf_tool_call p = wf_map (pt_input p)"

definition wf_state :: "resumable_state \<Rightarrow> bool" where
  "wf_state z \<longleftrightarrow> list_all wf_message (zs_messages z) \<and> list_all wf_tool_call (zs_tool_calls z)
     \<and> wf_map (zs_pending_input z) \<and> list_all wf_call (zs_remaining z)"

lemma map_value: "wf_map m \<Longrightarrow> (if enc_map m = JNull then Some None else dec_map (enc_map m)) = Some m"
  by (cases m) (simp_all add: enc_map_def dec_map_enc)

lemma dec_enc_call: "wf_call c \<Longrightarrow> dec_call (enc_call c) = Some c"
  using map_value [of "pn_arguments c"]
  by (simp add: dec_call_def enc_call_def field_simps_enc wf_call_def)

lemma enc_not_null [simp]: "enc_call c \<noteq> JNull" "enc_message m \<noteq> JNull" "enc_tool_call p \<noteq> JNull"
  by (simp_all add: enc_call_def enc_message_def enc_tool_call_def)

lemma dec_calls: "list_all wf_call cs \<Longrightarrow> dec_list dec_call zero_call (JArr (map enc_call cs)) = Some cs"
  by (rule dec_list_enc) (auto simp: list_all_iff dec_enc_call)

lemma dec_enc_message: "wf_message m \<Longrightarrow> dec_message (enc_message m) = Some m"
  by (simp add: dec_message_def enc_message_def field_simps_enc wf_message_def dec_calls)

lemma dec_messages:
  "list_all wf_message ms \<Longrightarrow> dec_list dec_message zero_message (JArr (map enc_message ms)) = Some ms"
  by (rule dec_list_enc) (auto simp: list_all_iff dec_enc_message)

lemma dec_enc_tool_call: "wf_tool_call p \<Longrightarrow> dec_tool_call (enc_tool_call p) = Some p"
  using map_value [of "pt_input p"]
  by (simp add: dec_tool_call_def enc_tool_call_def field_simps_enc wf_tool_call_def)

lemma dec_tool_calls:
  "list_all wf_tool_call ps
     \<Longrightarrow> dec_list dec_tool_call zero_tool_call (JArr (map enc_tool_call ps)) = Some ps"
  by (rule dec_list_enc) (auto simp: list_all_iff dec_enc_tool_call)

lemma dec_strings: "dec_list json_string [] (JArr (map JStr ss)) = Some ss"
  by (rule dec_list_enc) (simp add: json_string_def)

definition state_members :: "resumable_state \<Rightarrow> obj" where
  "state_members z = (case marshal_state z of JObj ms \<Rightarrow> ms | _ \<Rightarrow> [])"

lemma marshal_state_members: "marshal_state z = JObj (state_members z)"
  by (simp add: state_members_def marshal_state_def)

lemmas state_members_eq = state_members_def marshal_state_def json.case

lemma state_scalars:
  "str_field ''mode'' (state_members z) = Some (zs_mode z)"
  "str_field ''provider'' (state_members z) = Some (zs_provider z)"
  "str_field ''model_name'' (state_members z) = Some (zs_model z)"
  "int_field ''iteration'' (state_members z) = Some (zs_iteration z)"
  "int_field ''input_tokens'' (state_members z) = Some (zs_input z)"
  "int_field ''output_tokens'' (state_members z) = Some (zs_output z)"
  "int_field ''total_tokens'' (state_members z) = Some (zs_total z)"
  "str_field ''pending_tool'' (state_members z) = Some (zs_pending_tool z)"
  "int_field ''elapsed_ms'' (state_members z) = Some (zs_elapsed z)"
  "str_field ''pending_tool_call_id'' (state_members z) = Some (zs_pending_id z)"
  by (simp_all add: state_members_eq field_simps_enc)

lemma state_lists:
  "list_field json_string [] ''agent_tools'' (state_members z) = Some (zs_agent_tools z)"
  "wf_state z \<Longrightarrow> list_field dec_message zero_message ''messages'' (state_members z)
     = Some (zs_messages z)"
  "wf_state z \<Longrightarrow> list_field dec_tool_call zero_tool_call ''tool_calls'' (state_members z)
     = Some (zs_tool_calls z)"
  "wf_state z \<Longrightarrow> list_field dec_call zero_call ''remaining_tool_calls'' (state_members z)
     = Some (zs_remaining z)"
  "wf_state z \<Longrightarrow> map_field ''pending_input'' (state_members z) = Some (zs_pending_input z)"
  using map_value [of "zs_pending_input z"]
  by (simp_all add: state_members_eq field_simps_enc wf_state_def dec_messages dec_tool_calls
      dec_calls dec_strings)

lemma unmarshal_marshal: "wf_state z \<Longrightarrow> unmarshal_state (marshal_state z) = Some z"
  by (simp add: unmarshal_state_def marshal_state_members state_scalars state_lists)

lemma persisted_calls_inverse: "from_persisted_calls (to_persisted_calls cs) = cs"
  by (induction cs) (simp_all add: from_persisted_calls_def to_persisted_calls_def)

lemma persisted_messages_inverse: "from_persisted_messages (to_persisted_messages ms) = ms"
  by (induction ms) (simp_all add: from_persisted_messages_def to_persisted_messages_def
      persisted_calls_inverse)

text \<open>A tool record keeps all but the identity of its error, whose text is what is stored.\<close>

definition flat_record :: "tool_record \<Rightarrow> tool_record" where
  "flat_record r =
     r\<lparr>tr_err := (case tr_err r of
        None \<Rightarrow> None
      | Some e \<Rightarrow> if err_text e \<noteq> [] then Some (ErrText (err_text e)) else None)\<rparr>"

lemma persisted_tool_calls_inverse:
  "from_persisted_tool_calls (to_persisted_tool_calls rs) = map flat_record rs"
  by (auto simp: from_persisted_tool_calls_def to_persisted_tool_calls_def flat_record_def
      split: option.split)

lemma length_from_persisted_tool_calls [simp]:
  "length (from_persisted_tool_calls ps) = length ps"
  by (simp add: from_persisted_tool_calls_def)

section \<open>Properties\<close>

text \<open>
  C20: a state stored with a pending approval is read back as it was written: every counter, message,
  native tool call, tool record and pending input survives the JSON encoding, omitted fields
  included.
\<close>

theorem resume_state_round_trip:
  assumes "wf_state z"
  shows "unmarshal_state (marshal_state z) = Some z"
  using assms by (rule unmarshal_marshal)

definition demo_state :: resumable_state where
  "demo_state =
     zero_state\<lparr>zs_mode := ''native'', zs_provider := ''claude'',
       zs_messages := [\<lparr>pm_role = ''assistant'', pm_content = [],
          pm_tool_calls = [\<lparr>pn_id = ''c1'', pn_name = ''send'', pn_arguments =
             Some [(''to'', JStr ''bob''), (''n'', JNum 2)]\<rparr>], pm_tool_call_id = []\<rparr>],
       zs_iteration := 3, zs_pending_tool := ''send'', zs_pending_input := Some [],
       zs_elapsed := 1200, zs_pending_id := ''c1''\<rparr>"

theorem resume_state_round_trip_witness:
  "unmarshal_state (marshal_state demo_state) = Some demo_state"
  by (rule resume_state_round_trip)
     (simp add: wf_state_def demo_state_def zero_state_def wf_message_def wf_call_def wf_map_def)

end
