(* ===== verification/AgentLoop.thy ===== *)
theory AgentLoop
  imports ResumeState
begin

text \<open>
  The two agent loops, \<open>Run\<close>, and the resumption of a paused run (\<open>executor/executor.go\<close>,
  \<open>executor/approvals.go\<close>). A turn of a loop either ends the run with a result or leaves the state
  for the next turn; \<open>turns\<close> is the \<open>for\<close> statement both loops share.
\<close>

section \<open>Pausing\<close>

definition loop_mode :: "'w loop_state \<Rightarrow> string" where
  "loop_mode st = (if ls_tool_defs st \<noteq> [] then ''native'' else ''react'')"

record pending_call =
  pg_id :: string
  pg_name :: string
  pg_input :: obj

definition snapshot ::
  "'w executor \<Rightarrow> 'w loop_state \<Rightarrow> pending_call \<Rightarrow> tool_call list \<Rightarrow> 'w \<Rightarrow> resumable_state" where
  "snapshot ex st p remaining w =
     \<lparr>zs_mode = loop_mode st, zs_provider = ls_provider st, zs_model = ls_model st,
      zs_agent_tools = ls_agent_tools st, zs_messages = to_persisted_messages (ls_messages st),
      zs_iteration = ls_iteration st, zs_input = ls_input st, zs_output = ls_output st,
      zs_total = ls_total st, zs_tool_calls = to_persisted_tool_calls (ls_tool_calls st),
      zs_pending_tool = pg_name p, zs_pending_input = Some (pg_input p),
      zs_elapsed = ex_now ex w - ls_run_start st, zs_pending_id = pg_id p,
      zs_remaining = to_persisted_calls remaining\<rparr>"

text \<open>
  \<open>pauseForApproval\<close>. The gate is there: it is what said that the tool needs approval. Encoding a
  snapshot cannot fail, so the code's branch for that has no counterpart.
\<close>

definition pause_for_approval ::
  "'w executor \<Rightarrow> 'w gate \<Rightarrow> 'w loop_state \<Rightarrow> pending_call \<Rightarrow> tool_call list \<Rightarrow> 'w
     \<Rightarrow> run_result \<times> 'w" where
  "pause_for_approval ex g st p remaining w =
     (case gt_create g (ls_exec st) (ls_agent st) (ls_org st) (pg_name p) (pg_input p)
             (marshal_state (snapshot ex st p remaining w)) w of
        (Inl e, w') \<Rightarrow>
          (build_result ex [] (ls_iteration st) st
             (Some (ErrWrap ''executor: create pending approval: '' e)) w', w')
      | (Inr approval, w') \<Rightarrow>
          ((build_result ex [] (ls_iteration st) st None w')
             \<lparr>rr_status := status_awaiting, rr_approval := approval\<rparr>, w'))"

section \<open>Turns\<close>

function turns ::
  "(int \<Rightarrow> 's \<Rightarrow> 'w \<Rightarrow> ('r + 's) \<times> 'w) \<Rightarrow> ('s \<Rightarrow> 'w \<Rightarrow> 'r) \<Rightarrow> int \<Rightarrow> 's \<Rightarrow> 'w \<Rightarrow> 'r \<times> 'w" where
  "turns turn exceeded k st w =
     (if k > max_iterations then (exceeded st w, w)
      else (case turn k st w of
              (Inl r, w') \<Rightarrow> (r, w')
            | (Inr st', w') \<Rightarrow> turns turn exceeded (k + 1) st' w'))"
  by pat_completeness auto
termination
  by (relation "measure (\<lambda>(turn, exceeded, k, st, w). nat (max_iterations + 1 - k))") auto

declare turns.simps [simp del]

definition iterations_exceeded :: "'w executor \<Rightarrow> 'w loop_state \<Rightarrow> 'w \<Rightarrow> run_result" where
  "iterations_exceeded ex st w =
     build_result ex [] max_iterations st
       (Some (ErrText (''executor: exceeded maximum iterations ('' @ show_int max_iterations
         @ '') without a final answer''))) w"

text \<open>
  What the two loops do first: the cost cap, then the model call with the call site's 4096 tokens
  tightened by the policy, then the metering.
\<close>

definition model_request :: "go_ctx \<Rightarrow> 'w loop_state \<Rightarrow> gen_request" where
  "model_request cx st =
     \<lparr>rq_messages = ls_messages st, rq_model = ls_model st, rq_max_tokens = cap_tokens cx 4096,
      rq_num_ctx = 0, rq_temperature = 2 / 10, rq_tool_defs = ls_tool_defs st, rq_think = False,
      rq_json = False\<rparr>"

definition meter :: "gen_response \<Rightarrow> 'w loop_state \<Rightarrow> 'w loop_state" where
  "meter resp st =
     st\<lparr>ls_input := ls_input st + rs_input_tokens resp,
        ls_output := ls_output st + rs_output_tokens resp,
        ls_total := ls_total st + (rs_input_tokens resp + rs_output_tokens resp)\<rparr>"

definition ask_model ::
  "'w executor \<Rightarrow> go_ctx \<Rightarrow> int \<Rightarrow> 'w loop_state \<Rightarrow> 'w
     \<Rightarrow> (run_result + gen_response \<times> 'w loop_state) \<times> 'w" where
  "ask_model ex cx k st w =
     (case cost_cap_exceeded ex cx st w of
        Some e \<Rightarrow> (Inl (build_result ex [] (k - 1) st (Some e) w), w)
      | None \<Rightarrow>
          (case cl_generate (ls_client st) cx (model_request cx st) w of
             (Inl e, w') \<Rightarrow>
               (Inl (build_result ex [] k st
                  (Some (ErrWrap (''executor: LLM generate (iteration '' @ show_int k @ ''): '') e))
                  w'), w')
           | (Inr resp, w') \<Rightarrow> (Inr (resp, meter resp st), w')))"

section \<open>The ReAct loop\<close>

text \<open>The tool call of a parsed turn.\<close>

definition react_call ::
  "'w executor \<Rightarrow> go_ctx \<Rightarrow> int \<Rightarrow> 'w loop_state \<Rightarrow> string \<Rightarrow> obj \<Rightarrow> 'w
     \<Rightarrow> (run_result + 'w loop_state) \<times> 'w" where
  "react_call ex cx k st name input w =
     (case get_tool (ls_registry st) name of
        None \<Rightarrow>
          (Inr (add_record (unavailable_record name input)
             (add_message (plain_message role_user
                (build_tool_result_message name (not_available name))) st)), w)
      | Some tool \<Rightarrow>
          (case gate_for ex w (ls_agent st) name of
             Some g \<Rightarrow>
               (case pause_for_approval ex g (st\<lparr>ls_iteration := k\<rparr>)
                       \<lparr>pg_id = [], pg_name = name, pg_input = input\<rparr> [] w of
                  (r, w') \<Rightarrow> (Inl r, w'))
           | None \<Rightarrow>
               (case execute_tool ex cx st tool name input w of
                  ((msg, st'), w') \<Rightarrow>
                    (Inr (add_message (plain_message role_user
                            (build_tool_result_message name msg)) st'), w'))))"

definition react_answer ::
  "'w executor \<Rightarrow> go_ctx \<Rightarrow> int \<Rightarrow> string \<Rightarrow> 'w loop_state \<Rightarrow> 'w
     \<Rightarrow> (run_result + 'w loop_state) \<times> 'w" where
  "react_answer ex cx k content st w =
     (case parse_react_response content of
        None \<Rightarrow> (Inl (build_result ex content k st None w), w)
      | Some p \<Rightarrow>
          (case rc_final_answer p of
             Some (c # cs) \<Rightarrow> (Inl (build_result ex (c # cs) k st None w), w)
           | _ \<Rightarrow>
               (case rc_action p of
                  Some (a # as) \<Rightarrow>
                    react_call ex cx k st (a # as)
                      (case rc_action_input p of Some m \<Rightarrow> m | None \<Rightarrow> []) w
                | _ \<Rightarrow> (Inl (build_result ex (rc_thought p) k st None w), w))))"

definition react_turn ::
  "'w executor \<Rightarrow> go_ctx \<Rightarrow> int \<Rightarrow> 'w loop_state \<Rightarrow> 'w \<Rightarrow> (run_result + 'w loop_state) \<times> 'w" where
  "react_turn ex cx k st w =
     (case ask_model ex cx k st w of
        (Inl r, w') \<Rightarrow> (Inl r, w')
      | (Inr (resp, st'), w') \<Rightarrow>
          react_answer ex cx k (rs_content resp)
            (add_message (plain_message role_assistant (rs_content resp)) st') w')"

definition react_loop ::
  "'w executor \<Rightarrow> go_ctx \<Rightarrow> 'w loop_state \<Rightarrow> 'w \<Rightarrow> run_result \<times> 'w" where
  "react_loop ex cx st w =
     turns (react_turn ex cx) (iterations_exceeded ex) (ls_iteration st + 1) st w"

section \<open>The native loop\<close>

definition tool_message :: "string \<Rightarrow> string \<Rightarrow> llm_message" where
  "tool_message i c =
     \<lparr>msg_role = role_tool, msg_content = c, msg_tool_calls = [], msg_tool_call_id = i\<rparr>"

fun run_native_calls ::
  "'w executor \<Rightarrow> go_ctx \<Rightarrow> 'w loop_state \<Rightarrow> tool_call list \<Rightarrow> 'w
     \<Rightarrow> (run_result + 'w loop_state) \<times> 'w" where
  "run_native_calls ex cx st [] w = (Inr st, w)"
| "run_native_calls ex cx st (tc # tcs) w =
     (let input = (case tc_arguments tc of Some m \<Rightarrow> m | None \<Rightarrow> []) in
      case get_tool (ls_registry st) (tc_name tc) of
        None \<Rightarrow>
          run_native_calls ex cx
            (add_record (unavailable_record (tc_name tc) input)
               (add_message (tool_message (tc_id tc) (not_available (tc_name tc))) st)) tcs w
      | Some tool \<Rightarrow>
          (case gate_for ex w (ls_agent st) (tc_name tc) of
             Some g \<Rightarrow>
               (case pause_for_approval ex g st
                       \<lparr>pg_id = tc_id tc, pg_name = tc_name tc, pg_input = input\<rparr> tcs w of
                  (r, w') \<Rightarrow> (Inl r, w'))
           | None \<Rightarrow>
               (case execute_tool ex cx st tool (tc_name tc) input w of
                  ((msg, st'), w') \<Rightarrow>
                    run_native_calls ex cx (add_message (tool_message (tc_id tc) msg) st') tcs w')))"

definition native_turn ::
  "'w executor \<Rightarrow> go_ctx \<Rightarrow> int \<Rightarrow> 'w loop_state \<Rightarrow> 'w \<Rightarrow> (run_result + 'w loop_state) \<times> 'w" where
  "native_turn ex cx k st w =
     (case ask_model ex cx k st w of
        (Inl r, w') \<Rightarrow> (Inl r, w')
      | (Inr (resp, st'), w') \<Rightarrow>
          if rs_tool_calls resp = [] then (Inl (build_result ex (rs_content resp) k st' None w'), w')
          else run_native_calls ex cx
                 ((add_message \<lparr>msg_role = role_assistant, msg_content = rs_content resp,
                      msg_tool_calls = rs_tool_calls resp, msg_tool_call_id = []\<rparr> st')
                    \<lparr>ls_iteration := k\<rparr>)
                 (rs_tool_calls resp) w')"

definition native_loop ::
  "'w executor \<Rightarrow> go_ctx \<Rightarrow> 'w loop_state \<Rightarrow> 'w \<Rightarrow> run_result \<times> 'w" where
  "native_loop ex cx st w =
     turns (native_turn ex cx) (iterations_exceeded ex) (ls_iteration st + 1) st w"

section \<open>Run\<close>

text \<open>Folding in skills: a failing store or no skill leaves tools and prompt as they are.\<close>

definition fold_skills ::
  "(go_err + skill list) \<Rightarrow> string list \<Rightarrow> string \<Rightarrow> string list \<times> string" where
  "fold_skills found tools prompt =
     (case found of
        Inl e \<Rightarrow> (tools, prompt)
      | Inr skills \<Rightarrow>
          if skills = [] then (tools, prompt)
          else (let (tools', patch) = apply_skills tools skills
                in (tools', if patch \<noteq> [] then trim_space (prompt @ nl @ nl @ patch) else prompt)))"

definition load_skills ::
  "'w executor \<Rightarrow> go_ctx \<Rightarrow> agent \<Rightarrow> string list \<Rightarrow> string \<Rightarrow> 'w
     \<Rightarrow> (string list \<times> string) \<times> 'w" where
  "load_skills ex cx agent tools prompt w =
     (case ex_skills ex of
        None \<Rightarrow> ((tools, prompt), w)
      | Some sp \<Rightarrow>
          (case sp_list_for_agent sp cx (ag_id agent) w of
             (found, w1) \<Rightarrow>
               (let tp = fold_skills found tools prompt;
                    slugs = ro_skill_slugs (run_options_from cx)
                in if slugs = [] then (tp, w1)
                   else (case sp_list_by_slugs sp cx (ag_org agent) slugs w1 of
                           (found2, w2) \<Rightarrow> (fold_skills found2 (fst tp) (snd tp), w2)))))"

definition run_ctx :: "go_ctx \<Rightarrow> uuid \<Rightarrow> uuid \<Rightarrow> go_ctx" where
  "run_ctx cx org agent =
     cx\<lparr>cx_tools_org := Some org, cx_tools_agent := Some agent, cx_trace_org := Some org\<rparr>"

definition fresh_state ::
  "'w model_choice \<Rightarrow> 'w registry \<Rightarrow> tool_def list \<Rightarrow> agent \<Rightarrow> uuid \<Rightarrow> string list
     \<Rightarrow> llm_message list \<Rightarrow> int \<Rightarrow> 'w loop_state" where
  "fresh_state choice reg defs agent exec tools messages start =
     \<lparr>ls_client = mc_client choice, ls_model = mc_model choice, ls_provider = mc_provider choice,
      ls_registry = reg, ls_tool_defs = defs, ls_agent = ag_id agent, ls_org = ag_org agent,
      ls_exec = exec, ls_agent_tools = tools, ls_messages = messages, ls_iteration = 0,
      ls_tool_calls = [], ls_input = 0, ls_output = 0, ls_total = 0, ls_run_start = start\<rparr>"

definition run_agent ::
  "'w executor \<Rightarrow> go_ctx \<Rightarrow> uuid \<Rightarrow> agent \<Rightarrow> string \<Rightarrow> string list \<Rightarrow> 'w \<Rightarrow> run_result \<times> 'w" where
  "run_agent ex cx0 exec agent task agent_tools w =
     (let cx = run_ctx cx0 (ag_org agent) (ag_id agent) in
      case load_skills ex cx agent agent_tools (or_empty (ag_system_prompt agent)) w of
        ((tools, prompt), w1) \<Rightarrow>
          (let reg = registry_subset (ex_registry ex) tools;
               specs = map (\<lambda>t. (tl_name t, tl_description t)) (all_tools reg);
               system = build_react_system_prompt (ag_name agent) (ag_role agent) prompt specs
           in case resolve_model (ex_router ex) (ex_selector ex) agent
                     \<lparr>sg_kind = kind_step, sg_prompt_tokens = estimate_tokens [system, task],
                      sg_needs_tools = (specs \<noteq> []), sg_max_output = 0,
                      sg_prior_failures = 0\<rparr> of
                Inl e \<Rightarrow> (error_result e, w1)
              | Inr choice \<Rightarrow>
                  (case retrieve_knowledge ex cx (ag_id agent) task w1 of
                     (knowledge, w2) \<Rightarrow>
                       (let native = (case build_tool_defs reg of
                              None \<Rightarrow> []
                            | Some defs \<Rightarrow>
                                if client_supports_tools (mc_client choice) then defs else [])
                        in if native \<noteq> [] then
                             native_loop ex cx
                               (fresh_state choice reg native agent exec tools
                                  (seed_messages (build_native_system_prompt (ag_name agent)
                                     (ag_role agent) prompt) knowledge task)
                                  (ex_now ex w2)) w2
                           else
                             react_loop ex cx
                               (fresh_state choice reg [] agent exec tools
                                  (seed_messages system knowledge task) (ex_now ex w2)) w2))))"

section \<open>Resume\<close>

record approval =
  ap_id :: uuid
  ap_org :: uuid
  ap_exec :: uuid
  ap_agent :: uuid
  ap_tool :: string
  ap_status :: string
  ap_reason :: "string option"
  ap_decided_by :: "uuid option"
  ap_resumed_at :: "int option"
  ap_resume_state :: json
  ap_decider_name :: string

definition rejection_message :: "(uuid \<Rightarrow> string) \<Rightarrow> approval \<Rightarrow> string" where
  "rejection_message uuid_text a =
     (let who = (if ap_decider_name a \<noteq> [] then ap_decider_name a
                 else (case ap_decided_by a of
                         Some u \<Rightarrow> uuid_text u
                       | None \<Rightarrow> ''a human reviewer''))
      in ''Action rejected by '' @ who @ '': '' @ or_empty (ap_reason a))"

definition run_approved_tool ::
  "'w executor \<Rightarrow> go_ctx \<Rightarrow> 'w loop_state \<Rightarrow> pending_call \<Rightarrow> 'w
     \<Rightarrow> (string \<times> 'w loop_state) \<times> 'w" where
  "run_approved_tool ex cx st p w =
     (case get_tool (ls_registry st) (pg_name p) of
        None \<Rightarrow>
          ((not_available (pg_name p), add_record (unavailable_record (pg_name p) (pg_input p)) st), w)
      | Some tool \<Rightarrow> execute_tool ex cx st tool (pg_name p) (pg_input p) w)"

text \<open>What is fed back for the pending call: the tool's output, or the rejection.\<close>

definition pending_content ::
  "'w executor \<Rightarrow> (uuid \<Rightarrow> string) \<Rightarrow> go_ctx \<Rightarrow> approval \<Rightarrow> 'w loop_state \<Rightarrow> pending_call \<Rightarrow> 'w
     \<Rightarrow> (string \<times> 'w loop_state) \<times> 'w" where
  "pending_content ex uuid_text cx a st p w =
     (if ap_status a = ''approved'' then run_approved_tool ex cx st p w
      else ((rejection_message uuid_text a, st), w))"

definition restored_state ::
  "'w executor \<Rightarrow> 'w client \<Rightarrow> approval \<Rightarrow> resumable_state \<Rightarrow> 'w \<Rightarrow> 'w loop_state" where
  "restored_state ex client a z w =
     \<lparr>ls_client = client, ls_model = zs_model z, ls_provider = cl_provider_name client,
      ls_registry = registry_subset (ex_registry ex) (zs_agent_tools z), ls_tool_defs = [],
      ls_agent = ap_agent a, ls_org = ap_org a, ls_exec = ap_exec a,
      ls_agent_tools = zs_agent_tools z,
      ls_messages = from_persisted_messages (zs_messages z), ls_iteration = zs_iteration z,
      ls_tool_calls = from_persisted_tool_calls (zs_tool_calls z), ls_input = zs_input z,
      ls_output = zs_output z, ls_total = zs_total z,
      ls_run_start = ex_now ex w - zs_elapsed z\<rparr>"

definition pending_of :: "resumable_state \<Rightarrow> pending_call" where
  "pending_of z =
     \<lparr>pg_id = zs_pending_id z, pg_name = zs_pending_tool z,
      pg_input = (case zs_pending_input z of Some m \<Rightarrow> m | None \<Rightarrow> [])\<rparr>"

definition resume_native ::
  "'w executor \<Rightarrow> (uuid \<Rightarrow> string) \<Rightarrow> go_ctx \<Rightarrow> approval \<Rightarrow> resumable_state \<Rightarrow> 'w loop_state \<Rightarrow> 'w
     \<Rightarrow> run_result \<times> 'w" where
  "resume_native ex uuid_text cx a z st w =
     (let defs = (case build_tool_defs (ls_registry st) of None \<Rightarrow> [] | Some d \<Rightarrow> d) in
      if defs = [] \<or> \<not> client_supports_tools (ls_client st) then
        (build_result ex [] (ls_iteration st) st
           (Some (ErrText (''executor: resume: run paused on the native tool-calling path, but provider ''
              @ quote (zs_provider z) @ '' no longer supports it''))) w, w)
      else (case pending_content ex uuid_text cx a (st\<lparr>ls_tool_defs := defs\<rparr>) (pending_of z) w of
              ((content, st'), w') \<Rightarrow>
                (case run_native_calls ex cx
                        (add_message (tool_message (zs_pending_id z) content) st')
                        (from_persisted_calls (zs_remaining z)) w' of
                   (Inl r, w'') \<Rightarrow> (r, w'')
                 | (Inr st'', w'') \<Rightarrow> native_loop ex cx st'' w'')))"

definition resume_react ::
  "'w executor \<Rightarrow> (uuid \<Rightarrow> string) \<Rightarrow> go_ctx \<Rightarrow> approval \<Rightarrow> resumable_state \<Rightarrow> 'w loop_state \<Rightarrow> 'w
     \<Rightarrow> run_result \<times> 'w" where
  "resume_react ex uuid_text cx a z st w =
     (case pending_content ex uuid_text cx a st (pending_of z) w of
        ((content, st'), w') \<Rightarrow>
          react_loop ex cx
            (add_message (plain_message role_user
               (build_tool_result_message (zs_pending_tool z) content)) st') w')"

definition resume_inner ::
  "'w executor \<Rightarrow> (uuid \<Rightarrow> string) \<Rightarrow> go_ctx \<Rightarrow> approval \<Rightarrow> resumable_state \<Rightarrow> 'w
     \<Rightarrow> run_result \<times> 'w" where
  "resume_inner ex uuid_text cx0 a z w =
     (let cx = run_ctx cx0 (ap_org a) (ap_agent a) in
      case for_with_fallback (ex_router ex) (zs_provider z) of
        Inl e \<Rightarrow> (error_result (ErrWrap ''executor: resume: resolve LLM client: '' e), w)
      | Inr client \<Rightarrow>
          (let st = restored_state ex client a z w in
           if zs_mode z = ''native'' then resume_native ex uuid_text cx a z st w
           else resume_react ex uuid_text cx a z st w))"

definition resume_run ::
  "'w executor \<Rightarrow> (uuid \<Rightarrow> string) \<Rightarrow> go_ctx \<Rightarrow> approval \<Rightarrow> 'w \<Rightarrow> run_result \<times> 'w" where
  "resume_run ex uuid_text cx a w =
     (case unmarshal_state (ap_resume_state a) of
        None \<Rightarrow> (error_result (ErrText ''executor: resume: unmarshal resume state''), w)
      | Some z \<Rightarrow>
          (case resume_inner ex uuid_text cx a z w of
             (r, w') \<Rightarrow>
               (r\<lparr>rr_prior := min (length (zs_tool_calls z)) (length (rr_tool_calls r))\<rparr>, w')))"

end
