(* ===== verification/LoopProps.thy ===== *)
theory LoopProps
  imports AgentLoop
begin

text \<open>
  What the agent loops keep. \<open>turns_rule\<close> is the induction over the turns of a loop; the
  locale \<open>agent_world\<close> states what a run does to the world: an invariant that every model call,
  every ungated tool call and every other effect of the executor keeps is kept by a whole run, with
  at most two model calls a turn. The properties follow by instrumenting an executor with a log of
  what it does and interpreting the locale on the instrumented executor.
\<close>

section \<open>Induction over the turns\<close>

lemma turns_rule:
  assumes cont: "\<And>k s w s' w'. k \<le> max_iterations \<Longrightarrow> Inv k s w \<Longrightarrow> turn k s w = (Inr s', w')
      \<Longrightarrow> Inv (k + 1) s' w'"
    and stop: "\<And>k s w r w'. k \<le> max_iterations \<Longrightarrow> Inv k s w \<Longrightarrow> turn k s w = (Inl r, w')
      \<Longrightarrow> Post r w'"
    and limit: "\<And>k s w. k > max_iterations \<Longrightarrow> Inv k s w \<Longrightarrow> Post (exceeded s w) w"
    and start: "Inv k s w"
    and result: "turns turn exceeded k s w = (r, w')"
  shows "Post r w'"
  using start result
proof (induction "nat (max_iterations + 1 - k)" arbitrary: k s w)
  case 0
  then show ?case
    using limit [of k s w] by (auto simp: turns.simps [of turn])
next
  case (Suc n)
  then have le: "k \<le> max_iterations" and n: "n = nat (max_iterations + 1 - (k + 1))" by auto
  obtain x w1 where x: "turn k s w = (x, w1)" by (cases "turn k s w")
  show ?case
  proof (cases x)
    case (Inl r1)
    with Suc.prems le x stop [of k s w r1 w1] show ?thesis
      by (simp add: turns.simps [of turn _ k])
  next
    case (Inr s1)
    then have "Inv (k + 1) s1 w1"
      using cont [of k s w s1 w1] Suc.prems le x by simp
    moreover have "turns turn exceeded (k + 1) s1 w1 = (r, w')"
      using Suc.prems(2) le x Inr by (simp add: turns.simps [of turn _ k])
    ultimately show ?thesis
      using Suc.hyps(1) [OF n] by blast
  qed
qed

section \<open>What a run does to the world\<close>

locale agent_world =
  fixes ex :: "'w executor" and agent :: uuid and I :: "nat \<Rightarrow> 'w \<Rightarrow> bool"
    and ok :: "gen_request \<Rightarrow> bool"
  assumes mono: "I m w \<Longrightarrow> m \<le> n \<Longrightarrow> I n w"
    and remodel: "ok rq \<Longrightarrow> ok (rq\<lparr>rq_model := mdl\<rparr>)"
    and model: "map_of (rt_clients (ex_router ex)) p = Some c \<Longrightarrow> ok rq \<Longrightarrow> I n w
      \<Longrightarrow> I (Suc n) (snd (cl_generate c cx rq w))"
    and tool: "map_of (ex_registry ex) name = Some t \<Longrightarrow> gate_for ex w agent name = None \<Longrightarrow> I n w
      \<Longrightarrow> I n (snd (tl_execute t cx inp w))"
    and pending: "ex_gate ex = Some g \<Longrightarrow> I n w \<Longrightarrow> I n (snd (gt_create g e a ob name inp js w))"
    and skills: "ex_skills ex = Some sp \<Longrightarrow> I n w \<Longrightarrow> I n (snd (sp_list_for_agent sp cx a w))"
    and slugs: "ex_skills ex = Some sp \<Longrightarrow> I n w \<Longrightarrow> I n (snd (sp_list_by_slugs sp cx a ss w))"
    and embedding: "ex_embedder ex = Some em \<Longrightarrow> I n w \<Longrightarrow> I n (snd (em cx ts w))"
    and searching: "ex_knowledge ex = Some kn \<Longrightarrow> I n w \<Longrightarrow> I n (snd (kn cx a v kk w))"
begin

definition good_client :: "'w client \<Rightarrow> bool" where
  "good_client c \<longleftrightarrow> (\<forall>n w cx rq. ok rq \<longrightarrow> I n w \<longrightarrow> I (n + 2) (snd (cl_generate c cx rq w)))"

text \<open>A context whose calls are all admissible.\<close>

definition asks :: "go_ctx \<Rightarrow> bool" where
  "asks cx \<longleftrightarrow> (\<forall>st :: 'w loop_state. ok (model_request cx st))"

definition good_state :: "'w loop_state \<Rightarrow> bool" where
  "good_state st \<longleftrightarrow> good_client (ls_client st) \<and> ls_agent st = agent
     \<and> (\<forall>name t. get_tool (ls_registry st) name = Some t \<longrightarrow> map_of (ex_registry ex) name = Some t)"

lemma good_updates [simp]:
  "good_state (add_record r st) = good_state st"
  "good_state (add_message m st) = good_state st"
  "good_state (meter resp st) = good_state st"
  "good_state (st\<lparr>ls_iteration := k\<rparr>) = good_state st"
  "good_state (st\<lparr>ls_tool_defs := ds\<rparr>) = good_state st"
  "ls_iteration (add_message m st) = ls_iteration st"
  by (simp_all add: good_state_def add_record_def add_message_def meter_def)

lemma one_more: "I (Suc n) w \<Longrightarrow> I (Suc (Suc n)) w"
  by (erule mono) simp

lemma registered_good: "map_of (rt_clients (ex_router ex)) p = Some c \<Longrightarrow> good_client c"
  by (auto simp: good_client_def intro!: one_more model)

lemma resolved_good:
  assumes "for_with_fallback (ex_router ex) p = Inr c"
  shows "good_client c"
proof -
  obtain q c0 where c0: "map_of (rt_clients (ex_router ex)) q = Some c0"
      and c: "c = c0 \<or> (\<exists>name. c = fallback_client (ex_router ex) c0 name)"
    using assms
    by (auto simp: for_with_fallback_def Let_def split: sum.splits if_splits
        dest!: router_for_in_clients)
  have "I (n + 2) (snd (generate_or_ollama (ex_router ex) name c0 cx rq w))"
    if w: "I n w" and rq: "ok rq" for n name cx rq w
  proof -
    obtain x w1 where x: "cl_generate c0 cx rq w = (x, w1)" by (cases "cl_generate c0 cx rq w")
    then have 1: "I (Suc n) w1" using model [OF c0 rq w, of cx] by simp
    then have 2: "I (n + 2) w1" by (rule mono) simp
    show ?thesis
    proof (cases x)
      case (Inr resp)
      with x 2 show ?thesis by (simp add: generate_or_ollama_def)
    next
      case (Inl e)
      show ?thesis
      proof (cases "ollama_fallback_for (ex_router ex) name e w1")
        case None
        with Inl x 2 show ?thesis by (simp add: generate_or_ollama_def)
      next
        case (Some fb)
        then have "map_of (rt_clients (ex_router ex)) ''ollama'' = Some fb"
          using ollama_fallback_for_Some [OF Some] by simp
        from model [OF this remodel [OF rq] 1] Inl Some x show ?thesis
          by (simp add: generate_or_ollama_def)
      qed
    qed
  qed
  with c registered_good [OF c0] show ?thesis
    by (auto simp: good_client_def fallback_client_def)
qed

lemma ask_model_keeps:
  "asks cx \<Longrightarrow> good_state st \<Longrightarrow> I n w \<Longrightarrow> ask_model ex cx k st w = (x, w') \<Longrightarrow>
     I (n + 2) w' \<and> (\<forall>resp st'. x = Inr (resp, st') \<longrightarrow> good_state st')"
proof -
  assume cx: "asks cx" and st: "good_state st" and w: "I n w" and a: "ask_model ex cx k st w = (x, w')"
  have "I (n + 2) w" using w by (rule mono) simp
  moreover have "I (n + 2) (snd (cl_generate (ls_client st) cx (model_request cx st) w))"
    using cx st w by (auto simp: asks_def good_state_def good_client_def)
  ultimately show ?thesis
    using a st by (auto simp: ask_model_def split: option.splits prod.splits sum.splits)
qed

lemma execute_tool_keeps:
  assumes "good_state st" and "I n w" and "get_tool (ls_registry st) name = Some t"
    and "gate_for ex w (ls_agent st) name = None"
    and "execute_tool ex cx st t name inp w = ((msg, st'), w')"
  shows "I n w' \<and> good_state st'"
proof -
  have "I n (snd (tl_execute t cx inp w))"
    using assms by (intro tool [of name]) (auto simp: good_state_def)
  with assms show ?thesis
    by (auto simp: execute_tool_def Let_def split: prod.splits)
qed

lemma gate_for_gate: "gate_for ex w a name = Some g \<Longrightarrow> ex_gate ex = Some g"
  by (auto simp: gate_for_def split: option.splits if_splits)

lemma pause_keeps:
  assumes "gate_for ex w a name = Some g" and "I n w"
    and "pause_for_approval ex g st p tcs w = (r, w')"
  shows "I n w'"
proof -
  have "I n (snd (gt_create g (ls_exec st) (ls_agent st) (ls_org st) (pg_name p) (pg_input p)
      (marshal_state (snapshot ex st p tcs w)) w))"
    using pending gate_for_gate assms(1,2) by blast
  with assms(3) show ?thesis
    by (auto simp: pause_for_approval_def split: prod.splits sum.splits)
qed

text \<open>A step that ends the run or goes on in a good state, having kept the invariant.\<close>

definition keeps :: "nat \<Rightarrow> ('r + 'w loop_state) \<times> 'w \<Rightarrow> bool" where
  "keeps n p \<longleftrightarrow> I n (snd p) \<and> (\<forall>st. fst p = Inr st \<longrightarrow> good_state st)"

lemma keeps_simps [simp]:
  "keeps n (Inl r, w) = I n w"
  "keeps n (Inr st, w) = (I n w \<and> good_state st)"
  by (simp_all add: keeps_def)

lemma react_call_keeps:
  assumes "good_state st" and "I n w"
  shows "keeps n (react_call ex cx k st name inp w)"
proof (cases "get_tool (ls_registry st) name")
  case None
  with assms show ?thesis by (simp add: react_call_def)
next
  case (Some t)
  show ?thesis
  proof (cases "gate_for ex w (ls_agent st) name")
    case None
    obtain msg st' w' where e: "execute_tool ex cx st t name inp w = ((msg, st'), w')"
      by (metis prod.exhaust)
    from execute_tool_keeps [OF assms Some None e] e Some None show ?thesis
      by (simp add: react_call_def)
  next
    case (Some g)
    obtain r w' where p: "pause_for_approval ex g (st\<lparr>ls_iteration := k\<rparr>)
        \<lparr>pg_id = [], pg_name = name, pg_input = inp\<rparr> [] w = (r, w')"
      by (metis prod.exhaust)
    from pause_keeps [OF Some assms(2) p] p Some \<open>get_tool (ls_registry st) name = Some t\<close>
    show ?thesis by (simp add: react_call_def)
  qed
qed

lemma react_answer_keeps:
  assumes "good_state st" and "I n w"
  shows "keeps n (react_answer ex cx k content st w)"
proof (cases "parse_react_response content")
  case None
  with assms show ?thesis by (simp add: react_answer_def)
next
  case (Some p)
  show ?thesis
    unfolding react_answer_def Some option.case
    using assms react_call_keeps [OF assms]
    by (cases "rc_final_answer p"; cases "rc_action p")
       (simp_all split: list.split)
qed

lemma react_turn_keeps:
  assumes "asks cx" and "good_state st" and "I n w"
  shows "keeps (n + 2) (react_turn ex cx k st w)"
proof -
  obtain y w1 where y: "ask_model ex cx k st w = (y, w1)" by (cases "ask_model ex cx k st w")
  from ask_model_keeps [OF assms y]
  have k: "I (n + 2) w1" "\<And>resp st'. y = Inr (resp, st') \<Longrightarrow> good_state st'" by auto
  show ?thesis
  proof (cases y)
    case (Inl r)
    with y k show ?thesis by (simp add: react_turn_def)
  next
    case (Inr rs)
    obtain resp st' where rs: "rs = (resp, st')" by (cases rs)
    have "keeps (n + 2) (react_answer ex cx k (rs_content resp)
        (add_message (plain_message role_assistant (rs_content resp)) st') w1)"
      using k Inr rs by (intro react_answer_keeps) auto
    with y Inr rs show ?thesis by (simp add: react_turn_def)
  qed
qed

lemma native_calls_keeps:
  "good_state st \<Longrightarrow> I n w \<Longrightarrow> keeps n (run_native_calls ex cx st tcs w)"
proof (induction tcs arbitrary: st w)
  case Nil
  then show ?case by simp
next
  case (Cons tc tcs)
  define inp where "inp = (case tc_arguments tc of Some m \<Rightarrow> m | None \<Rightarrow> [])"
  show ?case
  proof (cases "get_tool (ls_registry st) (tc_name tc)")
    case None
    with Cons show ?thesis by (simp add: Let_def)
  next
    case (Some t)
    show ?thesis
    proof (cases "gate_for ex w (ls_agent st) (tc_name tc)")
      case None
      obtain msg st' w' where e: "execute_tool ex cx st t (tc_name tc) inp w = ((msg, st'), w')"
        by (metis prod.exhaust)
      from execute_tool_keeps [OF Cons.prems Some None e]
      have "keeps n (run_native_calls ex cx (add_message (tool_message (tc_id tc) msg) st') tcs w')"
        by (intro Cons.IH) auto
      with e Some None show ?thesis by (simp add: Let_def inp_def [symmetric])
    next
      case (Some g)
      obtain r w' where p: "pause_for_approval ex g st
          \<lparr>pg_id = tc_id tc, pg_name = tc_name tc, pg_input = inp\<rparr> tcs w = (r, w')"
        by (metis prod.exhaust)
      from pause_keeps [OF Some Cons.prems(2) p] p Some
        \<open>get_tool (ls_registry st) (tc_name tc) = Some t\<close>
      show ?thesis by (simp add: Let_def inp_def [symmetric])
    qed
  qed
qed

lemma native_turn_keeps:
  assumes "asks cx" and "good_state st" and "I n w"
  shows "keeps (n + 2) (native_turn ex cx k st w)"
proof -
  obtain y w1 where y: "ask_model ex cx k st w = (y, w1)" by (cases "ask_model ex cx k st w")
  from ask_model_keeps [OF assms y]
  have k: "I (n + 2) w1" "\<And>resp st'. y = Inr (resp, st') \<Longrightarrow> good_state st'" by auto
  show ?thesis
  proof (cases y)
    case (Inl r)
    with y k show ?thesis by (simp add: native_turn_def)
  next
    case (Inr rs)
    obtain resp st' where rs: "rs = (resp, st')" by (cases rs)
    show ?thesis
      using y k Inr rs native_calls_keeps [of _ "n + 2" w1 cx "rs_tool_calls resp"]
      by (simp add: native_turn_def)
  qed
qed

lemma turns_keep:
  assumes turn: "\<And>k n st w. good_state st \<Longrightarrow> I n w \<Longrightarrow> keeps (n + 2) (turn k st w)"
    and start: "good_state st" "I n w"
  shows "I (n + 2 * nat (16 - k)) (snd (turns turn ec k st w))"
proof -
  let ?N = "n + 2 * nat (16 - k)"
  define Inv where "Inv j s v \<longleftrightarrow> good_state s \<and> (\<exists>m. I m v \<and> m + 2 * nat (16 - j) \<le> ?N)"
    for j :: int and s v
  have step: "\<exists>m. keeps m (turn j s v) \<and> m + 2 * nat (16 - (j + 1)) \<le> ?N"
    if inv: "Inv j s v" and j: "j \<le> max_iterations" for j s v
  proof -
    obtain m where m: "I m v" "m + 2 * nat (16 - j) \<le> ?N"
      using inv by (auto simp: Inv_def)
    have "nat (16 - j) = Suc (nat (16 - (j + 1)))"
      using j by (simp add: max_iterations_def)
    then have "m + 2 + 2 * nat (16 - (j + 1)) \<le> ?N" using m(2) by simp
    moreover have "keeps (m + 2) (turn j s v)"
      using inv m(1) by (intro turn) (auto simp: Inv_def)
    ultimately show ?thesis by blast
  qed
  obtain r w' where r: "turns turn ec k st w = (r, w')" by (cases "turns turn ec k st w")
  have "I ?N w'"
  proof (rule turns_rule [where turn = turn and exceeded = ec and Inv = Inv
        and Post = "\<lambda>r v. I ?N v", OF _ _ _ _ r])
    show "Inv (j + 1) s' v'" if "j \<le> max_iterations" "Inv j s v" "turn j s v = (Inr s', v')"
      for j s v s' v'
      using step [OF that(2,1)] that(3) by (auto simp: Inv_def)
    show "I ?N v'" if "j \<le> max_iterations" "Inv j s v" "turn j s v = (Inl x, v')"
      for j s v x v'
      using step [OF that(2,1)] that(3) by (auto elim: mono)
    show "I ?N v" if "j > max_iterations" "Inv j s v" for j s v
      using that by (auto simp: Inv_def elim: mono)
    show "Inv k st w"
      using start by (auto simp: Inv_def intro!: exI [of _ n])
  qed
  with r show ?thesis by simp
qed

lemma react_loop_keeps:
  assumes "asks cx" and "good_state st" and "I n w" and "n + 2 * nat (15 - ls_iteration st) \<le> m"
  shows "I m (snd (react_loop ex cx st w))"
  unfolding react_loop_def
  by (rule mono [OF turns_keep [OF react_turn_keeps [OF assms(1)] assms(2,3)]]) (use assms(4) in simp_all)

lemma native_loop_keeps:
  assumes "asks cx" and "good_state st" and "I n w" and "n + 2 * nat (15 - ls_iteration st) \<le> m"
  shows "I m (snd (native_loop ex cx st w))"
  unfolding native_loop_def
  by (rule mono [OF turns_keep [OF native_turn_keeps [OF assms(1)] assms(2,3)]]) (use assms(4) in simp_all)

lemma load_skills_keeps:
  "I n w \<Longrightarrow> I n (snd (load_skills ex cx a tools prompt w))"
  using skills slugs
  by (auto simp: load_skills_def Let_def split: option.split prod.split) (metis snd_conv)+

lemma retrieve_knowledge_keeps:
  assumes "I n w"
  shows "I n (snd (retrieve_knowledge ex cx a task w))"
proof (cases "ex_knowledge ex = None \<or> ex_embedder ex = None")
  case True
  with assms show ?thesis by (auto simp: retrieve_knowledge_def split: option.split)
next
  case False
  then obtain srch emb where s: "ex_knowledge ex = Some srch" "ex_embedder ex = Some emb" by auto
  obtain x w1 where x: "emb cx [task] w = (x, w1)" by (cases "emb cx [task] w")
  then have 1: "I n w1" using embedding [OF s(2) assms, of cx "[task]"] by simp
  have "I n w2" if "srch cx a v 5 w1 = (y, w2)" for v y w2
    using searching [OF s(1) 1, of cx a v 5] that by simp
  with s x 1 show ?thesis
    by (auto simp: retrieve_knowledge_def split: sum.split list.split prod.split)
qed

lemma resolve_model_good:
  "resolve_model (ex_router ex) sel ag sg = Inr ch \<Longrightarrow> good_client (mc_client ch)"
  by (auto simp: resolve_model_def Let_def split: if_splits sum.splits option.splits
      intro: resolved_good)

lemma fresh_iteration [simp]: "ls_iteration (fresh_state ch reg ds ag e tools ms t) = 0"
  by (simp add: fresh_state_def)

lemma fresh_good:
  assumes "good_client (mc_client ch)" and "ag_id ag = agent"
  shows "good_state (fresh_state ch (registry_subset (ex_registry ex) tools) ds ag e tools ms t)"
  using assms by (simp add: good_state_def fresh_state_def registry_subset_get)

lemma run_keeps:
  assumes "I n w" and "ag_id ag = agent" and "asks (run_ctx cx (ag_org ag) (ag_id ag))"
  shows "I (n + 30) (snd (run_agent ex cx e ag task tools w))"
proof -
  let ?cx = "run_ctx cx (ag_org ag) (ag_id ag)"
  obtain ts prompt w1 where l: "load_skills ex ?cx ag tools (or_empty (ag_system_prompt ag)) w
      = ((ts, prompt), w1)"
    by (metis prod.exhaust)
  have w1: "I n w1"
    using load_skills_keeps [OF assms(1), of ?cx ag tools "or_empty (ag_system_prompt ag)"] l by simp
  have kn: "I n (snd (retrieve_knowledge ex ?cx (ag_id ag) task w1))"
    using w1 by (rule retrieve_knowledge_keeps)
  have w1': "I (n + 30) w1"
    using w1 by (rule mono) simp
  show ?thesis
    unfolding run_agent_def l Let_def prod.case
    using w1' kn
    by (auto split: sum.split prod.split option.split
        intro!: react_loop_keeps native_loop_keeps fresh_good assms(2,3)
        dest: resolve_model_good)
qed

lemma pending_content_good:
  assumes "good_state st" and "pending_content ex ut cx a st p w = ((content, st'), w')"
  shows "good_state st' \<and> ls_iteration st' = ls_iteration st"
  using assms
  by (auto simp: pending_content_def run_approved_tool_def execute_tool_def Let_def
      add_record_def good_state_def split: if_splits option.splits prod.splits)

lemma restored_good:
  "good_client c \<Longrightarrow> ap_agent a = agent \<Longrightarrow> good_state (restored_state ex c a z w)"
  by (simp add: good_state_def restored_state_def registry_subset_get)

lemma native_calls_iteration:
  "run_native_calls ex cx st tcs w = (Inr st', w') \<Longrightarrow> ls_iteration st' = ls_iteration st"
  by (induction tcs arbitrary: st w)
     (auto simp: Let_def execute_tool_def add_record_def add_message_def
      split: option.splits prod.splits)

lemma resume_react_keeps:
  assumes cx: "asks cx" and st: "good_state st"
    and after: "\<And>cx st content st' w'. good_state st
      \<Longrightarrow> pending_content ex ut cx a st (pending_of z) w = ((content, st'), w') \<Longrightarrow> I n w'"
  shows "I (n + 2 * nat (15 - ls_iteration st)) (snd (resume_react ex ut cx a z st w))"
proof -
  obtain content st' w' where p: "pending_content ex ut cx a st (pending_of z) w
      = ((content, st'), w')"
    by (metis prod.exhaust)
  from after [OF st p] pending_content_good [OF st p] show ?thesis
    by (auto simp: resume_react_def p intro!: react_loop_keeps cx)
qed

lemma resume_native_keeps:
  assumes cx: "asks cx" and st: "good_state st" and w: "I n w"
    and after: "\<And>cx st content st' w'. good_state st
      \<Longrightarrow> pending_content ex ut cx a st (pending_of z) w = ((content, st'), w') \<Longrightarrow> I n w'"
  shows "I (n + 2 * nat (15 - ls_iteration st)) (snd (resume_native ex ut cx a z st w))"
proof -
  let ?N = "n + 2 * nat (15 - ls_iteration st)"
  define defs where "defs = (case build_tool_defs (ls_registry st) of None \<Rightarrow> [] | Some d \<Rightarrow> d)"
  let ?st = "st\<lparr>ls_tool_defs := defs\<rparr>"
  have st1: "good_state ?st" using st by simp
  obtain content st' w' where p: "pending_content ex ut cx a ?st (pending_of z) w
      = ((content, st'), w')"
    by (metis prod.exhaust)
  have w': "I n w'" and st': "good_state st'" "ls_iteration st' = ls_iteration st"
    using after [OF st1 p] pending_content_good [OF st1 p] by auto
  let ?m = "add_message (tool_message (zs_pending_id z) content) st'"
  let ?cs = "from_persisted_calls (zs_remaining z)"
  obtain x w2 where x: "run_native_calls ex cx ?m ?cs w' = (x, w2)"
    by (cases "run_native_calls ex cx ?m ?cs w'")
  have k: "keeps n (x, w2)"
    using native_calls_keeps [of ?m n w' cx ?cs] st' w' x by simp
  have m: "I ?N v" if "I n v" for v
    using that by (rule mono) simp
  have "I ?N (snd (case (x, w2) of (Inl r, v) \<Rightarrow> (r, v) | (Inr s, v) \<Rightarrow> native_loop ex cx s v))"
  proof (cases x)
    case (Inl r)
    with k m show ?thesis by simp
  next
    case (Inr s)
    have "ls_iteration s = ls_iteration st"
      using native_calls_iteration [of cx ?m ?cs w' s w2] x Inr st' by (simp add: add_message_def)
    with k Inr show ?thesis by (auto intro!: native_loop_keeps cx)
  qed
  then show ?thesis
    using m [OF w] by (simp add: resume_native_def defs_def [symmetric] p x Let_def)
qed

lemma resume_keeps:
  assumes w: "I n w" and a: "ap_agent a = agent" and cx: "asks (run_ctx cx (ap_org a) (ap_agent a))"
    and after: "\<And>cx st content st' w'. good_state st
      \<Longrightarrow> pending_content ex ut cx a st (pending_of z) w = ((content, st'), w') \<Longrightarrow> I n w'"
  shows "I (n + 2 * nat (15 - zs_iteration z)) (snd (resume_inner ex ut cx a z w))"
proof (cases "for_with_fallback (ex_router ex) (zs_provider z)")
  case (Inl e)
  with w show ?thesis by (auto simp: resume_inner_def elim: mono)
next
  case (Inr c)
  have it: "ls_iteration (restored_state ex c a z w) = zs_iteration z"
    by (simp add: restored_state_def)
  let ?st = "restored_state ex c a z w" and ?cx = "run_ctx cx (ap_org a) (ap_agent a)"
  have st: "good_state ?st"
    using resolved_good [OF Inr] a by (rule restored_good)
  have "I (n + 2 * nat (15 - ls_iteration ?st)) (snd (resume_react ex ut ?cx a z ?st w))"
    using cx st after by (rule resume_react_keeps)
  moreover have "I (n + 2 * nat (15 - ls_iteration ?st)) (snd (resume_native ex ut ?cx a z ?st w))"
    using cx st w after by (rule resume_native_keeps)
  ultimately show ?thesis
    unfolding it by (simp add: resume_inner_def Inr Let_def)
qed

end

end
