(* ===== verification/RunLog.thy ===== *)
theory RunLog
  imports LoopProps
begin

text \<open>
  Any executor can be made to log what it does: \<open>instrument\<close> is the same executor on a world that
  also records every model call and every tool call, the latter with the gate's word at that
  moment. The locale of \<open>LoopProps\<close> interpreted on it gives the properties of a run.
\<close>

text \<open>A model call is logged with the number of tokens it asks for.\<close>

datatype event = EvModel int | EvTool string bool

definition logged_client :: "'w client \<Rightarrow> ('w \<times> event list) client" where
  "logged_client c =
     \<lparr>cl_provider_name = cl_provider_name c, cl_supports_tools = cl_supports_tools c,
      cl_generate = (\<lambda>cx rq. log_op (\<lambda>w. EvModel (rq_max_tokens rq)) (cl_generate c cx rq))\<rparr>"

definition logged_router :: "'w router \<Rightarrow> ('w \<times> event list) router" where
  "logged_router r =
     \<lparr>rt_clients = map (\<lambda>(n, c). (n, logged_client c)) (rt_clients r), rt_default = rt_default r,
      rt_ollama_fallback = rt_ollama_fallback r, rt_ollama_model = rt_ollama_model r,
      rt_ctx_err = (\<lambda>wl. rt_ctx_err r (fst wl))\<rparr>"

definition logged_tool :: "'w executor \<Rightarrow> uuid \<Rightarrow> string \<Rightarrow> 'w tool \<Rightarrow> ('w \<times> event list) tool" where
  "logged_tool ex agent n t =
     \<lparr>tl_name = tl_name t, tl_description = tl_description t, tl_schema = tl_schema t,
      tl_execute = (\<lambda>cx inp. log_op (\<lambda>w. EvTool n (gate_for ex w agent n \<noteq> None))
                                (tl_execute t cx inp))\<rparr>"

definition logged_gate :: "'w gate \<Rightarrow> ('w \<times> event list) gate" where
  "logged_gate g =
     \<lparr>gt_requires = (\<lambda>wl. gt_requires g (fst wl)),
      gt_create = (\<lambda>e a ob n inp js. lift_op (gt_create g e a ob n inp js))\<rparr>"

definition logged_skills :: "'w skill_provider \<Rightarrow> ('w \<times> event list) skill_provider" where
  "logged_skills sp =
     \<lparr>sp_list_for_agent = (\<lambda>cx a. lift_op (sp_list_for_agent sp cx a)),
      sp_list_by_slugs = (\<lambda>cx a ss. lift_op (sp_list_by_slugs sp cx a ss))\<rparr>"

definition logged_selector :: "'w selector \<Rightarrow> ('w \<times> event list) selector" where
  "logged_selector s =
     \<lparr>sl_catalog = sl_catalog s, sl_registry = logged_router (sl_registry s),
      sl_pricer = sl_pricer s, sl_dynamic = sl_dynamic s\<rparr>"

definition instrument :: "uuid \<Rightarrow> 'w executor \<Rightarrow> ('w \<times> event list) executor" where
  "instrument agent ex =
     \<lparr>ex_router = logged_router (ex_router ex),
      ex_registry = map (\<lambda>(n, t). (n, logged_tool ex agent n t)) (ex_registry ex),
      ex_skills = map_option logged_skills (ex_skills ex),
      ex_knowledge = map_option (\<lambda>f cx a v k. lift_op (f cx a v k)) (ex_knowledge ex),
      ex_embedder = map_option (\<lambda>f cx ts. lift_op (f cx ts)) (ex_embedder ex),
      ex_gate = map_option logged_gate (ex_gate ex),
      ex_selector = map_option logged_selector (ex_selector ex),
      ex_cost = ex_cost ex, ex_now = (\<lambda>wl. ex_now ex (fst wl))\<rparr>"

fun is_gated_run :: "event \<Rightarrow> bool" where
  "is_gated_run (EvModel k) = False"
| "is_gated_run (EvTool n g) = g"

definition gated_runs :: "event list \<Rightarrow> event list" where
  "gated_runs l = filter is_gated_run l"

fun tokens_asked :: "event list \<Rightarrow> int list" where
  "tokens_asked [] = []"
| "tokens_asked (EvModel k # l) = k # tokens_asked l"
| "tokens_asked (EvTool n g # l) = tokens_asked l"

definition model_calls :: "event list \<Rightarrow> nat" where
  "model_calls l = length (tokens_asked l)"

text \<open>
  The gated runs so far are one of \<open>base\<close>, and the model calls at most \<open>n\<close>, none of them for more
  than \<open>cap\<close> tokens.
\<close>

definition run_within :: "event list set \<Rightarrow> int \<Rightarrow> nat \<Rightarrow> 'w \<times> event list \<Rightarrow> bool" where
  "run_within base cap n wl \<longleftrightarrow>
     gated_runs (snd wl) \<in> base \<and> model_calls (snd wl) \<le> n \<and> set (tokens_asked (snd wl)) \<subseteq> {..cap}"

lemma tokens_asked_append [simp]: "tokens_asked (l @ l') = tokens_asked l @ tokens_asked l'"
  by (induction l rule: tokens_asked.induct) simp_all

lemma run_within_lift: "run_within base cap n wl \<Longrightarrow> run_within base cap n (snd (lift_op f wl))"
  by (simp add: run_within_def lift_op_def split_beta)

lemma run_within_model:
  "run_within base cap n wl \<Longrightarrow> k \<le> cap \<Longrightarrow> run_within base cap (Suc n) (snd (log_op (\<lambda>w. EvModel k) f wl))"
  by (simp add: run_within_def log_op_def split_beta gated_runs_def model_calls_def)

lemma run_within_tool:
  "run_within base cap n wl \<Longrightarrow> \<not> g (fst wl)
     \<Longrightarrow> run_within base cap n (snd (log_op (\<lambda>w. EvTool name (g w)) f wl))"
  by (simp add: run_within_def log_op_def split_beta gated_runs_def model_calls_def)

lemma instrument_simps:
  "ex_router (instrument agent ex) = logged_router (ex_router ex)"
  "ex_registry (instrument agent ex)
     = map (\<lambda>(n, t). (n, logged_tool ex agent n t)) (ex_registry ex)"
  "ex_skills (instrument agent ex) = map_option logged_skills (ex_skills ex)"
  "ex_knowledge (instrument agent ex)
     = map_option (\<lambda>f cx a v k. lift_op (f cx a v k)) (ex_knowledge ex)"
  "ex_embedder (instrument agent ex) = map_option (\<lambda>f cx ts. lift_op (f cx ts)) (ex_embedder ex)"
  "ex_gate (instrument agent ex) = map_option logged_gate (ex_gate ex)"
  by (simp_all add: instrument_def)

lemma gate_for_instrument:
  "gate_for (instrument agent ex) wl a n = map_option logged_gate (gate_for ex (fst wl) a n)"
  by (simp add: gate_for_def instrument_simps logged_gate_def split: option.split)

lemma map_of_logged:
  "map_of (map (\<lambda>(n, x). (n, f n x)) xs) k = map_option (f k) (map_of xs k)"
  by (induction xs) auto

interpretation logged: agent_world "instrument agent ex" agent "run_within base cap"
    "\<lambda>rq. rq_max_tokens rq \<le> cap"
  for agent :: uuid and ex :: "'w executor" and base :: "event list set" and cap :: int
proof unfold_locales
  show "run_within base cap n w" if "run_within base cap m w" "m \<le> n" for m n and w :: "'w \<times> event list"
    using that by (simp add: run_within_def)
qed (auto simp: instrument_simps logged_router_def map_of_logged logged_client_def logged_tool_def
      logged_gate_def logged_skills_def gate_for_instrument
      intro!: run_within_lift run_within_model run_within_tool)

lemma asks_cap: "cap_tokens cx 4096 \<le> cap \<Longrightarrow> logged.asks TYPE('w) cap cx"
  by (simp add: logged.asks_def model_request_def)

lemma cap_tokens_run_ctx [simp]: "cap_tokens (run_ctx cx ob a) n = cap_tokens cx n"
  by (simp add: cap_tokens_def run_ctx_def run_options_from_def)

text \<open>
  Resuming a paused run: what happens to the pending call itself, on the instrumented executor.
\<close>

lemma get_tool_instrument:
  assumes "logged.good_state agent ex base cap st"
    and "get_tool (ls_registry st) n = Some t"
  shows "\<exists>t0. t = logged_tool ex agent n t0"
proof -
  have "map_of (ex_registry (instrument agent ex)) n = Some t"
    using assms by (simp add: logged.good_state_def)
  then show ?thesis by (auto simp: instrument_simps map_of_logged)
qed

lemma pending_runs:
  assumes "logged.good_state agent ex base cap st"
    and "pending_content (instrument agent ex) ut cx a st p (w, []) = ((content, st'), w')"
  shows "model_calls (snd w') = 0 \<and> (gated_runs (snd w') = []
    \<or> ap_status a = ''approved'' \<and> gated_runs (snd w') = [EvTool (pg_name p) True])"
  using assms get_tool_instrument [OF assms(1), of "pg_name p"]
  by (auto simp: pending_content_def run_approved_tool_def execute_tool_def logged_tool_def
      log_op_def gated_runs_def model_calls_def Let_def split: if_splits option.splits prod.splits)

text \<open>The gated runs a resumption may log.\<close>

definition may_run :: "approval \<Rightarrow> resumable_state \<Rightarrow> event list set" where
  "may_run a z = (if ap_status a = ''approved'' then {[], [EvTool (zs_pending_tool z) True]} else {[]})"

lemma resume_within:
  assumes "cap_tokens cx 4096 \<le> cap"
  shows "run_within (may_run a z) cap (2 * nat (15 - zs_iteration z))
    (snd (resume_inner (instrument (ap_agent a) ex) ut cx a z (w, [])))"
proof -
  let ?ex = "instrument (ap_agent a) ex"
  have start: "run_within (may_run a z) cap 0 (w, [])"
    by (simp add: run_within_def may_run_def gated_runs_def model_calls_def)
  have "run_within (may_run a z) cap (0 + 2 * nat (15 - zs_iteration z)) (snd (resume_inner ?ex ut cx a z (w, [])))"
  proof (rule logged.resume_keeps [OF start refl asks_cap])
    fix cx st content st' w'
    assume "logged.good_state (ap_agent a) ex (may_run a z) cap st"
      and "pending_content ?ex ut cx a st (pending_of z) (w, []) = ((content, st'), w')"
    from pending_runs [OF this] show "run_within (may_run a z) cap 0 w'"
      by (auto simp: run_within_def may_run_def pending_of_def model_calls_def)
  qed (simp add: assms)
  then show ?thesis by simp
qed

section \<open>Properties\<close>

text \<open>
  C1: a run never executes a tool the approval gate wants a human to decide on, at the moment of the
  call, and makes at most 30 model calls: 15 turns, each with at most one fallback call. It holds for
  every executor, agent, task, tool list and world, whatever the model answers.
\<close>

theorem run_never_executes_gated_tool:
  "gated_runs (snd (snd (run_agent (instrument (ag_id ag) ex) cx e ag task tools (w, [])))) = []
   \<and> model_calls (snd (snd (run_agent (instrument (ag_id ag) ex) cx e ag task tools (w, [])))) \<le> 30"
proof -
  have "run_within {[]} (cap_tokens cx 4096) 0 (w, [])"
    by (simp add: run_within_def gated_runs_def model_calls_def)
  from logged.run_keeps [OF this refl asks_cap] show ?thesis
    by (simp add: run_within_def)
qed

text \<open>
  C21: every model call of a run, the fallback calls included, asks for at most 4096 tokens, and for no
  more than the policy's cap when its context carries one; so does every call of a resumed run.
\<close>

theorem request_tokens_capped:
  "set (tokens_asked (snd (snd (run_agent (instrument (ag_id ag) ex) cx e ag task tools (w, [])))))
     \<subseteq> {..(let cap = ro_max_tokens (run_options_from cx) in if cap > 0 then min cap 4096 else 4096)}
   \<and> set (tokens_asked (snd (snd (resume_run (instrument (ap_agent a) ex) ut cx a (w, [])))))
     \<subseteq> {..(let cap = ro_max_tokens (run_options_from cx) in if cap > 0 then min cap 4096 else 4096)}"
proof -
  let ?cap = "cap_tokens cx 4096"
  have cap: "?cap = (let cap = ro_max_tokens (run_options_from cx) in if cap > 0 then min cap 4096 else 4096)"
    by (simp add: cap_tokens_def Let_def min_def)
  have start: "run_within {[]} ?cap 0 (w, [])"
    by (simp add: run_within_def gated_runs_def model_calls_def)
  from logged.run_keeps [OF start refl asks_cap] have
    "set (tokens_asked (snd (snd (run_agent (instrument (ag_id ag) ex) cx e ag task tools (w, []))))) \<subseteq> {..?cap}"
    by (simp add: run_within_def)
  moreover have "set (tokens_asked (snd (snd (resume_run (instrument (ap_agent a) ex) ut cx a (w, []))))) \<subseteq> {..?cap}"
  proof (cases "unmarshal_state (ap_resume_state a)")
    case None
    then show ?thesis by (simp add: resume_run_def)
  next
    case (Some z)
    from resume_within [of cx ?cap a z ex ut w] have
      "set (tokens_asked (snd (snd (resume_inner (instrument (ap_agent a) ex) ut cx a z (w, []))))) \<subseteq> {..?cap}"
      by (simp add: run_within_def)
    then show ?thesis by (auto simp: resume_run_def Some split: prod.split)
  qed
  ultimately show ?thesis unfolding cap by blast
qed

text \<open>
  C2: resuming a paused run executes no gated tool but the pending one, that one at most once and
  only when the decision was approved; a rejected run executes none. The model calls of the run
  stay within the turns the pause left.
\<close>

theorem resume_executes_only_approved:
  "let l = snd (snd (resume_run (instrument (ap_agent a) ex) ut cx a (w, []))) in
   case unmarshal_state (ap_resume_state a) of
     None \<Rightarrow> gated_runs l = [] \<and> model_calls l = 0
   | Some z \<Rightarrow>
       (gated_runs l = []
        \<or> ap_status a = ''approved'' \<and> gated_runs l = [EvTool (zs_pending_tool z) True])
       \<and> model_calls l \<le> 2 * nat (15 - zs_iteration z)"
proof (cases "unmarshal_state (ap_resume_state a)")
  case None
  then show ?thesis
    by (simp add: resume_run_def gated_runs_def model_calls_def)
next
  case (Some z)
  from resume_within [of cx "cap_tokens cx 4096" a z ex ut w] show ?thesis
    by (auto simp: resume_run_def Some Let_def run_within_def may_run_def split: prod.split if_splits)
qed

end
