(* ===== verification/RunResults.thy ===== *)
theory RunResults
  imports LoopProps
begin

text \<open>
  What the result of a run says: the metering adds up, the iterations stay within the cap, a paused
  run carries no error and no answer; what the policy caps do to a call; and that a paused state is
  restored as it was.
\<close>

section \<open>Metering and status\<close>

definition balanced :: "'w loop_state \<Rightarrow> bool" where
  "balanced st \<longleftrightarrow> ls_total st = ls_input st + ls_output st"

definition sound_result :: "run_result \<Rightarrow> bool" where
  "sound_result r \<longleftrightarrow> rr_total r = rr_input r + rr_output r
     \<and> 0 \<le> rr_iterations r \<and> rr_iterations r \<le> 15
     \<and> (rr_status r = [] \<or> rr_status r = status_awaiting \<and> rr_err r = None \<and> rr_final r = [])"

lemma balanced_updates [simp]:
  "balanced (add_record r st) = balanced st"
  "balanced (add_message m st) = balanced st"
  "balanced (st\<lparr>ls_iteration := k\<rparr>) = balanced st"
  "balanced (st\<lparr>ls_tool_defs := ds\<rparr>) = balanced st"
  "balanced st \<Longrightarrow> balanced (meter resp st)"
  by (simp_all add: balanced_def add_record_def add_message_def meter_def)

lemma sound_build [simp]:
  "sound_result (build_result ex s k st e w) \<longleftrightarrow> balanced st \<and> 0 \<le> k \<and> k \<le> 15"
  by (simp add: sound_result_def build_result_def balanced_def)

lemma sound_pause:
  "balanced st \<Longrightarrow> 0 \<le> ls_iteration st \<Longrightarrow> ls_iteration st \<le> 15
    \<Longrightarrow> pause_for_approval ex g st p tcs w = (r, w') \<Longrightarrow> sound_result r"
  by (auto simp: pause_for_approval_def sound_result_def build_result_def balanced_def
      split: prod.splits sum.splits)

lemma execute_tool_state:
  "execute_tool ex cx st t name inp w = ((msg, st'), w')
    \<Longrightarrow> balanced st' = balanced st \<and> ls_iteration st' = ls_iteration st"
  by (auto simp: execute_tool_def Let_def add_record_def balanced_def split: prod.splits)

text \<open>A step that ends with a sound result or goes on with balanced metering.\<close>

definition sound_step :: "(run_result + 'w loop_state) \<times> 'w \<Rightarrow> bool" where
  "sound_step p = (case fst p of Inl r \<Rightarrow> sound_result r | Inr st \<Rightarrow> balanced st)"

lemma sound_step_simps [simp]:
  "sound_step (Inl r, w) = sound_result r"
  "sound_step (Inr st, w) = balanced st"
  by (simp_all add: sound_step_def)

lemma react_call_sound:
  assumes "balanced st" and "1 \<le> k" and "k \<le> 15"
  shows "sound_step (react_call ex cx k st name inp w)"
proof (cases "get_tool (ls_registry st) name")
  case None
  with assms show ?thesis by (simp add: react_call_def)
next
  case (Some t)
  obtain msg st' w' where e: "execute_tool ex cx st t name inp w = ((msg, st'), w')"
    by (metis prod.exhaust)
  have "sound_result r" if "pause_for_approval ex g (st\<lparr>ls_iteration := k\<rparr>) p [] w = (r, w2)"
    for g p r w2
    using sound_pause [OF _ _ _ that] assms by simp
  with Some e execute_tool_state [OF e] assms show ?thesis
    by (auto simp: react_call_def split: option.split prod.split)
qed

lemma ask_model_sound:
  "balanced st \<Longrightarrow> 1 \<le> k \<Longrightarrow> k \<le> 15 \<Longrightarrow> ask_model ex cx k st w = (x, w') \<Longrightarrow>
    (case x of Inl r \<Rightarrow> sound_result r | Inr (resp, st') \<Rightarrow> balanced st')"
  by (auto simp: ask_model_def split: option.splits prod.splits sum.splits)

lemma react_answer_sound:
  assumes "balanced st" and "1 \<le> k" and "k \<le> 15"
  shows "sound_step (react_answer ex cx k content st w)"
proof (cases "parse_react_response content")
  case None
  with assms show ?thesis by (simp add: react_answer_def)
next
  case (Some p)
  show ?thesis
    unfolding react_answer_def Some option.case
    using assms react_call_sound [OF assms]
    by (cases "rc_final_answer p"; cases "rc_action p") (simp_all split: list.split)
qed

lemma react_turn_sound:
  assumes "balanced st" and "1 \<le> k" and "k \<le> 15"
  shows "sound_step (react_turn ex cx k st w)"
proof -
  obtain y w1 where y: "ask_model ex cx k st w = (y, w1)" by (cases "ask_model ex cx k st w")
  from ask_model_sound [OF assms y] y assms show ?thesis
    by (auto simp: react_turn_def split: sum.splits intro!: react_answer_sound)
qed

lemma native_calls_sound:
  "balanced st \<Longrightarrow> 0 \<le> ls_iteration st \<Longrightarrow> ls_iteration st \<le> 15
    \<Longrightarrow> sound_step (run_native_calls ex cx st tcs w)"
proof (induction tcs arbitrary: st w)
  case (Cons tc tcs)
  define inp where "inp = (case tc_arguments tc of Some m \<Rightarrow> m | None \<Rightarrow> [])"
  show ?case
  proof (cases "get_tool (ls_registry st) (tc_name tc)")
    case None
    with Cons show ?thesis
      by (simp add: Let_def add_record_def add_message_def balanced_def)
  next
    case (Some t)
    obtain msg st' w' where e: "execute_tool ex cx st t (tc_name tc) inp w = ((msg, st'), w')"
      by (metis prod.exhaust)
    have "sound_step (run_native_calls ex cx (add_message (tool_message (tc_id tc) msg) st') tcs w')"
      using execute_tool_state [OF e] Cons.prems
      by (intro Cons.IH) (simp_all add: add_message_def balanced_def)
    moreover have "sound_result r" if "pause_for_approval ex g st p tcs w = (r, w2)" for g p r w2
      using sound_pause [OF Cons.prems that] .
    ultimately show ?thesis
      using Some e by (auto simp: Let_def inp_def [symmetric] split: option.split prod.split)
  qed
qed simp

lemma native_turn_sound:
  assumes "balanced st" and "1 \<le> k" and "k \<le> 15"
  shows "sound_step (native_turn ex cx k st w)"
proof -
  obtain y w1 where y: "ask_model ex cx k st w = (y, w1)" by (cases "ask_model ex cx k st w")
  from ask_model_sound [OF assms y] y assms show ?thesis
    by (auto simp: native_turn_def split: sum.splits intro!: native_calls_sound)
qed

lemma turns_sound:
  assumes turn: "\<And>k st w. balanced st \<Longrightarrow> 1 \<le> k \<Longrightarrow> k \<le> 15 \<Longrightarrow> sound_step (turn k st w)"
    and st: "balanced st" "1 \<le> k"
  shows "sound_result (fst (turns turn (iterations_exceeded ex) k st w))"
proof -
  obtain r w' where r: "turns turn (iterations_exceeded ex) k st w = (r, w')"
    by (cases "turns turn (iterations_exceeded ex) k st w")
  have "sound_result r"
  proof (rule turns_rule [where turn = turn and exceeded = "iterations_exceeded ex"
        and Inv = "\<lambda>j s v. balanced s \<and> 1 \<le> j" and Post = "\<lambda>r v. sound_result r", OF _ _ _ _ r])
    show "balanced s' \<and> 1 \<le> j + 1" if "j \<le> max_iterations" "balanced s \<and> 1 \<le> j"
        "turn j s v = (Inr s', v')" for j s v s' v'
      using turn [of s j v] that by (simp add: max_iterations_def)
    show "sound_result x" if "j \<le> max_iterations" "balanced s \<and> 1 \<le> j"
        "turn j s v = (Inl x, v')" for j s v x v'
      using turn [of s j v] that by (simp add: max_iterations_def)
    show "sound_result (iterations_exceeded ex s v)" if "balanced s \<and> 1 \<le> j" for j s v
      using that by (simp add: iterations_exceeded_def max_iterations_def)
  qed (use st in simp)
  with r show ?thesis by simp
qed

lemma react_loop_sound:
  "balanced st \<Longrightarrow> 0 \<le> ls_iteration st \<Longrightarrow> sound_result (fst (react_loop ex cx st w))"
  unfolding react_loop_def by (rule turns_sound [OF react_turn_sound]) auto

lemma native_loop_sound:
  "balanced st \<Longrightarrow> 0 \<le> ls_iteration st \<Longrightarrow> sound_result (fst (native_loop ex cx st w))"
  unfolding native_loop_def by (rule turns_sound [OF native_turn_sound]) auto

lemma sound_error [simp]: "sound_result (error_result e)"
  by (simp add: sound_result_def error_result_def)

lemma fresh_sound [simp]:
  "balanced (fresh_state ch reg ds ag e ts ms t)"
  "ls_iteration (fresh_state ch reg ds ag e ts ms t) = 0"
  by (simp_all add: balanced_def fresh_state_def)

section \<open>Properties of a run's result\<close>

text \<open>
  C18: whatever happens in a run, the tokens it reports add up to those it reports for input and
  output, it reports at most 15 iterations, and it is either finished or awaiting approval with
  neither an error nor an answer.
\<close>

theorem run_result_sound:
  "sound_result (fst (run_agent ex cx e ag task tools w))"
  by (auto simp: run_agent_def Let_def split: prod.split sum.split option.split
      intro!: react_loop_sound native_loop_sound)

lemma pending_content_balanced:
  "pending_content ex ut cx a st p w = ((content, st'), w')
    \<Longrightarrow> balanced st' = balanced st \<and> ls_iteration st' = ls_iteration st"
  by (auto simp: pending_content_def run_approved_tool_def execute_tool_def Let_def add_record_def
      balanced_def split: if_splits option.splits prod.splits)

lemma run_native_calls_iteration:
  "run_native_calls ex cx st tcs w = (Inr st', w') \<Longrightarrow> ls_iteration st' = ls_iteration st"
  by (induction tcs arbitrary: st w)
     (auto simp: Let_def execute_tool_def add_record_def add_message_def
      split: option.splits prod.splits)

lemma resume_react_sound:
  assumes "balanced st" and "0 \<le> ls_iteration st"
  shows "sound_result (fst (resume_react ex ut cx a z st w))"
  using assms
  by (auto simp: resume_react_def split: prod.split dest!: pending_content_balanced
      intro!: react_loop_sound)
     (simp add: add_message_def)

lemma resume_native_sound:
  assumes st: "balanced st" "0 \<le> ls_iteration st" "ls_iteration st \<le> 15"
  shows "sound_result (fst (resume_native ex ut cx a z st w))"
proof -
  define defs where "defs = (case build_tool_defs (ls_registry st) of None \<Rightarrow> [] | Some d \<Rightarrow> d)"
  obtain content st' w' where p: "pending_content ex ut cx a (st\<lparr>ls_tool_defs := defs\<rparr>)
      (pending_of z) w = ((content, st'), w')"
    by (metis prod.exhaust)
  let ?m = "add_message (tool_message (zs_pending_id z) content) st'"
  let ?cs = "from_persisted_calls (zs_remaining z)"
  obtain x w2 where x: "run_native_calls ex cx ?m ?cs w' = (x, w2)"
    by (cases "run_native_calls ex cx ?m ?cs w'")
  have m: "balanced ?m" "ls_iteration ?m = ls_iteration st"
    using pending_content_balanced [OF p] st by (simp_all add: add_message_def balanced_def)
  have s: "sound_step (x, w2)"
    using native_calls_sound [of ?m ex cx ?cs w'] m st x by simp
  have "sound_result (fst (case (x, w2) of (Inl r, v) \<Rightarrow> (r, v) | (Inr s, v) \<Rightarrow> native_loop ex cx s v))"
  proof (cases x)
    case (Inr st2)
    with run_native_calls_iteration [of ex cx ?m ?cs w' st2 w2] x m st s show ?thesis
      by (auto intro!: native_loop_sound)
  qed (use s in simp)
  then show ?thesis
    using st by (simp add: resume_native_def defs_def [symmetric] p x Let_def)
qed

text \<open>
  metering is cumulative across a pause: resuming from a stored state whose totals add up gives
  a result whose totals add up, within the same cap of 15 iterations, and whose already persisted tool
  calls are a prefix length of those it reports.
\<close>

lemma resume_result_sound:
  assumes "unmarshal_state (ap_resume_state a) = Some z"
    and "zs_total z = zs_input z + zs_output z"
    and "0 \<le> zs_iteration z" and "zs_iteration z \<le> 15"
  shows "sound_result (fst (resume_run ex ut cx a w))
    \<and> rr_prior (fst (resume_run ex ut cx a w)) \<le> length (rr_tool_calls (fst (resume_run ex ut cx a w)))"
proof -
  let ?st = "\<lambda>c. restored_state ex c a z w"
  have st: "balanced (?st c)" "ls_iteration (?st c) = zs_iteration z" for c
    using assms(2) by (simp_all add: balanced_def restored_state_def)
  have "sound_result (fst (resume_inner ex ut cx a z w))"
    using assms(3,4) st
    by (auto simp: resume_inner_def Let_def split: sum.split
        intro!: resume_react_sound resume_native_sound)
  then show ?thesis
    by (auto simp: resume_run_def assms(1) sound_result_def split: prod.split)
qed

definition plain_reply :: "string \<Rightarrow> int \<Rightarrow> int \<Rightarrow> gen_response" where
  "plain_reply s i out =
     \<lparr>rs_content = s, rs_finish_reason = ''stop'', rs_model = [], rs_input_tokens = i,
      rs_output_tokens = out, rs_tool_calls = [], rs_provider_model = [], rs_request_id = [],
      rs_usage = \<lparr>us_input = Some i, us_output = Some out, us_total = None, us_reasoning = None\<rparr>\<rparr>"

definition demo_llm :: "nat client" where
  "demo_llm =
     \<lparr>cl_provider_name = ''ollama'', cl_supports_tools = None,
      cl_generate = (\<lambda>cx rq w. (Inr (plain_reply ''done'' 7 5), Suc w))\<rparr>"

definition demo_tool :: "nat tool" where
  "demo_tool =
     \<lparr>tl_name = ''send'', tl_description = ''sends a mail'', tl_schema = None,
      tl_execute = (\<lambda>cx inp w. ((''sent'', None), w + 100))\<rparr>"

definition demo_gate :: "nat gate" where
  "demo_gate =
     \<lparr>gt_requires = (\<lambda>w a n. n = ''send''), gt_create = (\<lambda>e a ob n inp js w. (Inr 77, Suc w))\<rparr>"

definition demo_executor :: "nat executor" where
  "demo_executor =
     (new_executor \<lparr>rt_clients = [(''ollama'', demo_llm)], rt_default = ''ollama'',
        rt_ollama_fallback = False, rt_ollama_model = [], rt_ctx_err = (\<lambda>w. None)\<rparr>
        [(''send'', demo_tool)] int)\<lparr>ex_gate := Some demo_gate\<rparr>"

definition demo_paused :: resumable_state where
  "demo_paused =
     zero_state\<lparr>zs_mode := ''react'', zs_provider := ''ollama'', zs_agent_tools := [''send''],
       zs_iteration := 2, zs_input := 10, zs_output := 4, zs_total := 14,
       zs_pending_tool := ''send'', zs_pending_input := Some []\<rparr>"

definition demo_approval :: approval where
  "demo_approval =
     \<lparr>ap_id = 77, ap_org = 1, ap_exec = 2, ap_agent = 3, ap_tool = ''send'',
      ap_status = ''approved'', ap_reason = None, ap_decided_by = Some 9, ap_resumed_at = None,
      ap_resume_state = marshal_state demo_paused, ap_decider_name = []\<rparr>"

lemma demo_unmarshal: "unmarshal_state (ap_resume_state demo_approval) = Some demo_paused"
  unfolding demo_approval_def approval.select_convs
  by (rule unmarshal_marshal)
     (simp add: wf_state_def demo_paused_def zero_state_def wf_map_def)

section \<open>Policy caps\<close>

lemma spent_stops:
  assumes "ex_cost ex = Some cat" and "ro_max_cost (run_options_from cx) > 0"
    and "ro_max_cost (run_options_from cx)
      \<le> calculate cat (ls_provider st) (ls_model st) (ls_input st) (ls_output st)
          (ex_now ex w - ls_run_start st)"
  shows "\<exists>e. ask_model ex cx k st w = (Inl (build_result ex [] (k - 1) st (Some e) w), w)"
  using assms by (auto simp: ask_model_def cost_cap_exceeded_def Let_def)

text \<open>
  once the spend priced by the cost engine has reached the policy's cap, the next turn of either
  loop ends the run with an error and the result so far: no model is called, no tool runs, the world
  is unchanged.
\<close>

lemma cost_cap_stops_run:
  assumes "ex_cost ex = Some cat" and "ro_max_cost (run_options_from cx) > 0"
    and "ro_max_cost (run_options_from cx)
      \<le> calculate cat (ls_provider st) (ls_model st) (ls_input st) (ls_output st)
          (ex_now ex w - ls_run_start st)"
    and "ls_iteration st < max_iterations"
  shows "\<exists>e. react_loop ex cx st w = (build_result ex [] (ls_iteration st) st (Some e) w, w)
    \<and> native_loop ex cx st w = (build_result ex [] (ls_iteration st) st (Some e) w, w)"
proof -
  obtain e where "ask_model ex cx (ls_iteration st + 1) st w
      = (Inl (build_result ex [] (ls_iteration st) st (Some e) w), w)"
    using spent_stops [OF assms(1-3), of "ls_iteration st + 1"] by auto
  then show ?thesis
    using assms(4)
    by (auto simp: react_loop_def native_loop_def turns.simps [of _ _ "ls_iteration st + 1"]
        react_turn_def native_turn_def)
qed

definition demo_spent :: "nat loop_state" where
  "demo_spent =
     (restored_state demo_executor demo_llm demo_approval demo_paused 0)
       \<lparr>ls_provider := ''openai'', ls_model := ''gpt-4o'', ls_input := 1000000\<rparr>"

definition demo_cap_ctx :: go_ctx where
  "demo_cap_ctx =
     with_run_options empty_ctx \<lparr>ro_skill_slugs = [], ro_max_tokens = 0, ro_max_cost = 2\<rparr>"

lemma demo_price: "find_entry default_prices ''openai'' ''gpt-4o'' = Some (token_price (5/2) 10)"
  by (simp add: find_entry_def default_prices_def catalog_key_def)

section \<open>A pause and its resumption\<close>

definition wf_loop :: "'w loop_state \<Rightarrow> bool" where
  "wf_loop st \<longleftrightarrow>
     list_all (\<lambda>m. list_all (\<lambda>c. wf_map (tc_arguments c)) (msg_tool_calls m)) (ls_messages st)
     \<and> list_all (\<lambda>r. wf_map (tr_input r)) (ls_tool_calls st)"

lemma wf_snapshot:
  assumes "wf_loop st" and "wf_map (Some (pg_input p))"
    and "list_all (\<lambda>c. wf_map (tc_arguments c)) rest"
  shows "wf_state (snapshot ex st p rest w)"
  using assms
  by (auto simp: wf_state_def snapshot_def wf_loop_def to_persisted_messages_def
      to_persisted_calls_def to_persisted_tool_calls_def list_all_iff wf_message_def wf_call_def
      wf_tool_call_def)

text \<open>
  C4: a run paused on a gated tool is resumed in the state it was paused in: the stored state decodes,
  names the pending call and the native calls after it, and restores the conversation, the counters,
  the tools and the iteration; tool errors keep their text, and the clock starts so that the time a
  human took is not counted.
\<close>

theorem paused_run_restored:
  assumes "wf_loop st" and "wf_map (Some (pg_input p))"
    and "list_all (\<lambda>c. wf_map (tc_arguments c)) rest"
    and "ls_registry st = registry_subset (ex_registry ex) (ls_agent_tools st)"
    and "cl_provider_name (ls_client st) = ls_provider st"
    and "ap_agent a = ls_agent st" and "ap_org a = ls_org st" and "ap_exec a = ls_exec st"
  shows "\<exists>z. unmarshal_state (marshal_state (snapshot ex st p rest w0)) = Some z
    \<and> zs_mode z = loop_mode st \<and> pending_of z = p \<and> from_persisted_calls (zs_remaining z) = rest
    \<and> restored_state ex (ls_client st) a z w =
        st\<lparr>ls_tool_defs := [], ls_tool_calls := map flat_record (ls_tool_calls st),
           ls_run_start := ex_now ex w - (ex_now ex w0 - ls_run_start st)\<rparr>"
proof (intro exI conjI)
  show "unmarshal_state (marshal_state (snapshot ex st p rest w0)) = Some (snapshot ex st p rest w0)"
    using assms(1-3) by (intro unmarshal_marshal wf_snapshot)
  show "restored_state ex (ls_client st) a (snapshot ex st p rest w0) w =
        st\<lparr>ls_tool_defs := [], ls_tool_calls := map flat_record (ls_tool_calls st),
           ls_run_start := ex_now ex w - (ex_now ex w0 - ls_run_start st)\<rparr>"
    using assms(4-8)
    by (simp add: restored_state_def snapshot_def persisted_messages_inverse
        persisted_tool_calls_inverse)
qed (simp_all add: snapshot_def pending_of_def persisted_calls_inverse)

definition demo_running :: "nat loop_state" where
  "demo_running = restored_state demo_executor demo_llm demo_approval demo_paused 0"

definition demo_call :: pending_call where
  "demo_call = \<lparr>pg_id = [], pg_name = ''send'', pg_input = []\<rparr>"

lemma demo_running_simps:
  "ls_client demo_running = demo_llm" "ls_iteration demo_running = 2"
  "ls_provider demo_running = ''ollama''" "ls_agent demo_running = 3" "ls_org demo_running = 1"
  "ls_exec demo_running = 2"
  "ls_registry demo_running = registry_subset (ex_registry demo_executor) (ls_agent_tools demo_running)"
  by (simp_all add: demo_running_def restored_state_def demo_paused_def demo_approval_def
      demo_llm_def)

lemma demo_running_wf: "wf_loop demo_running"
  by (simp add: wf_loop_def demo_running_def restored_state_def demo_paused_def zero_state_def
      from_persisted_messages_def from_persisted_tool_calls_def)

theorem paused_run_restored_witness:
  "\<exists>z. unmarshal_state (marshal_state (snapshot demo_executor demo_running demo_call [] 5)) = Some z
     \<and> ls_iteration (restored_state demo_executor demo_llm demo_approval z 900) = 2"
proof -
  obtain z where z: "unmarshal_state (marshal_state (snapshot demo_executor demo_running demo_call
      [] 5)) = Some z"
      "restored_state demo_executor (ls_client demo_running) demo_approval z 900 =
        demo_running\<lparr>ls_tool_defs := [], ls_tool_calls := map flat_record (ls_tool_calls demo_running),
           ls_run_start := ex_now demo_executor 900
             - (ex_now demo_executor 5 - ls_run_start demo_running)\<rparr>"
    using paused_run_restored [OF demo_running_wf, of demo_call "[]" demo_executor demo_approval 5 900]
    by (auto simp: demo_running_simps demo_call_def wf_map_def demo_approval_def demo_llm_def)
  have "ls_iteration (restored_state demo_executor (ls_client demo_running) demo_approval z 900) = 2"
    unfolding z(2) by (simp add: demo_running_simps)
  with z(1) show ?thesis by (auto simp: demo_running_simps)
qed

end
