(* ===== verification/EngineRouter.thy ===== *)
theory EngineRouter
  imports AgentLoop
begin

text \<open>
  \<open>engine/router.go\<close>: which runtime executes an agent, and the refusal of the Python sidecars, which
  cannot pause, to run an agent that may use a gated tool. A runner is any function with the
  signature of \<open>Runner.Run\<close>; the executor's \<open>run_agent\<close> is one.
\<close>

type_synonym 'w runner =
  "go_ctx \<Rightarrow> uuid \<Rightarrow> agent \<Rightarrow> string \<Rightarrow> string list \<Rightarrow> 'w \<Rightarrow> run_result \<times> 'w"

definition engine_go_native :: string where "engine_go_native = ''go_native''"
definition engine_langchain :: string where "engine_langchain = ''langchain''"
definition engine_langgraph :: string where "engine_langgraph = ''langgraph''"

type_synonym 'w tool_gate = "'w \<Rightarrow> uuid \<Rightarrow> string \<Rightarrow> bool"

record 'w engine_router =
  er_go_native :: "'w runner"
  er_langchain :: "'w runner option"
  er_langgraph :: "'w runner option"
  er_gate :: "'w tool_gate option"

definition unavailable_runner :: "string \<Rightarrow> 'w runner" where
  "unavailable_runner engine cx e ag task tools w =
     (error_result (ErrText (''engine '' @ quote engine
        @ '' is not available: Python sidecar not configured'')), w)"

fun first_gated :: "'w tool_gate \<Rightarrow> 'w \<Rightarrow> uuid \<Rightarrow> string list \<Rightarrow> string option" where
  "first_gated gate w agent [] = None"
| "first_gated gate w agent (n # ns) = (if gate w agent n then Some n else first_gated gate w agent ns)"

definition gated_sidecar_runner :: "string \<Rightarrow> 'w runner \<Rightarrow> 'w tool_gate \<Rightarrow> 'w runner" where
  "gated_sidecar_runner engine inner gate cx e ag task tools w =
     (case first_gated gate w (ag_id ag) tools of
        Some name \<Rightarrow>
          (error_result (ErrText (''engine '' @ quote engine @ '' cannot run this agent: tool ''
             @ quote name @ '' requires human approval, which only the '' @ quote engine_go_native
             @ '' engine supports; run the agent on '' @ quote engine_go_native)), w)
      | None \<Rightarrow> inner cx e ag task tools w)"

definition guard_runner :: "'w engine_router \<Rightarrow> string \<Rightarrow> 'w runner \<Rightarrow> 'w runner" where
  "guard_runner r engine inner =
     (case er_gate r of None \<Rightarrow> inner | Some g \<Rightarrow> gated_sidecar_runner engine inner g)"

definition runner_for :: "'w engine_router \<Rightarrow> string \<Rightarrow> 'w runner" where
  "runner_for r engine =
     (if engine = engine_langchain then
        (case er_langchain r of Some x \<Rightarrow> guard_runner r engine x | None \<Rightarrow> unavailable_runner engine)
      else if engine = engine_langgraph then
        (case er_langgraph r of Some x \<Rightarrow> guard_runner r engine x | None \<Rightarrow> unavailable_runner engine)
      else er_go_native r)"

definition resolve_engine :: "agent \<Rightarrow> string option \<Rightarrow> string \<Rightarrow> string" where
  "resolve_engine ag request step =
     (if request \<noteq> None \<and> the request \<noteq> [] then the request
      else if step \<noteq> [] then step
      else if ag_engine_type ag \<noteq> [] then ag_engine_type ag
      else engine_go_native)"

lemma first_gated_None: "first_gated g w a ns = None \<longleftrightarrow> (\<forall>n \<in> set ns. \<not> g w a n)"
  by (induction ns) auto

lemma first_gated_Some: "first_gated g w a ns = Some n \<Longrightarrow> n \<in> set ns \<and> g w a n"
  by (induction ns) (auto split: if_splits)

text \<open>
  with a gate configured, a sidecar engine is never started for an agent that may use a gated
  tool: the run ends with an error and the world is unchanged, whichever sidecar it is and whatever it
  would have done.
\<close>

lemma sidecar_refuses_gated:
  assumes "er_gate r = Some g" and "n \<in> set tools" and "g w (ag_id ag) n"
    and "engine = engine_langchain \<or> engine = engine_langgraph"
  shows "snd (runner_for r engine cx e ag task tools w) = w
    \<and> rr_err (fst (runner_for r engine cx e ag task tools w)) \<noteq> None"
proof -
  obtain m where m: "first_gated g w (ag_id ag) tools = Some m"
    using first_gated_None [of g w "ag_id ag" tools] assms(2,3) by (cases "first_gated g w (ag_id ag) tools") auto
  show ?thesis
    using assms(1,4)
    by (auto simp: runner_for_def guard_runner_def gated_sidecar_runner_def m unavailable_runner_def
        error_result_def split: option.split)
qed

definition demo_agent :: agent where
  "demo_agent =
     \<lparr>ag_id = 3, ag_org = 1, ag_name = ''Ann'', ag_role = ''clerk'', ag_description = None,
      ag_status = ''idle'', ag_model_provider = None, ag_model_name = None,
      ag_system_prompt = None, ag_performance = 0, ag_engine_type = [], ag_metadata = []\<rparr>"

end
