(* ===== verification/Governance.thy ===== *)
theory Governance
  imports LlmTypes CostEngine
begin

text \<open>
  \<open>service/governance_service.go\<close>: whether an execution may start, what one may spend, and what is
  recorded when it ends. The repositories are what their queries return at the call; a query that
  fails is the \<^const>\<open>Inl\<close> of its result (the policy lookups drop their errors, so they return at most
  a policy). Writes are returned: rollups and alerts, in order.
\<close>

record policy =
  py_max_tokens :: "int option"
  py_models :: "string list"
  py_providers :: "string list"
  py_max_cost :: "rat option"
  py_per_day :: "int option"
  py_per_hour :: "int option"

record budget =
  bg_id :: uuid
  bg_period :: string
  bg_soft :: "rat option"
  bg_hard :: "rat option"
  bg_threshold :: rat
  bg_enabled :: bool

record gov_store =
  gv_agent_policy :: "uuid \<Rightarrow> uuid \<Rightarrow> policy option"
  gv_org_policy :: "uuid \<Rightarrow> policy option"
  gv_recent :: "uuid \<Rightarrow> int \<Rightarrow> go_err + int"
  gv_budgets :: "uuid \<Rightarrow> go_err + budget list"
  gv_spend :: "uuid \<Rightarrow> string \<Rightarrow> go_err + rat"

definition policy_blocked_text :: string where
  "policy_blocked_text = ''execution blocked by policy''"

definition budget_exceeded_text :: string where
  "budget_exceeded_text = ''budget limit exceeded''"

definition resolve_policy :: "gov_store \<Rightarrow> uuid \<Rightarrow> uuid \<Rightarrow> policy option" where
  "resolve_policy g org agent =
     (case gv_agent_policy g org agent of Some p \<Rightarrow> Some p | None \<Rightarrow> gv_org_policy g org)"

definition blocked :: "string \<Rightarrow> go_err" where
  "blocked reason = ErrAround [] (ErrSentinel policy_blocked_text) ('': '' @ reason)"

definition hour_ms :: int where "hour_ms = 3600000"

definition rate_limit :: "gov_store \<Rightarrow> uuid \<Rightarrow> int \<Rightarrow> string \<Rightarrow> int option \<Rightarrow> go_err option" where
  "rate_limit g agent window name cap =
     (case cap of
        None \<Rightarrow> None
      | Some n \<Rightarrow>
          (case gv_recent g agent window of
             Inl e \<Rightarrow> None
           | Inr seen \<Rightarrow>
               if seen \<ge> n then
                 Some (blocked (name @ '' execution limit ('' @ show_int n @ '') reached''))
               else None))"

definition check_policy :: "gov_store \<Rightarrow> uuid \<Rightarrow> policy \<Rightarrow> string \<Rightarrow> string \<Rightarrow> go_err option" where
  "check_policy g agent p provider model =
     (if py_providers p \<noteq> [] \<and> provider \<noteq> [] \<and> provider \<notin> set (py_providers p) then
        Some (blocked (''provider '' @ quote provider @ '' is not allowed''))
      else if py_models p \<noteq> [] \<and> model \<noteq> [] \<and> model \<notin> set (py_models p) then
        Some (blocked (''model '' @ quote model @ '' is not allowed''))
      else (case rate_limit g agent hour_ms ''hourly'' (py_per_hour p) of
              Some e \<Rightarrow> Some e
            | None \<Rightarrow> rate_limit g agent (24 * hour_ms) ''daily'' (py_per_day p)))"

fun check_budgets :: "gov_store \<Rightarrow> uuid \<Rightarrow> budget list \<Rightarrow> go_err option" where
  "check_budgets g org [] = None"
| "check_budgets g org (b # bs) =
     (if \<not> bg_enabled b then check_budgets g org bs
      else (case bg_hard b of
              None \<Rightarrow> check_budgets g org bs
            | Some cap \<Rightarrow>
                (case gv_spend g org (bg_period b) of
                   Inl e \<Rightarrow> check_budgets g org bs
                 | Inr spend \<Rightarrow>
                     if spend \<ge> cap then
                       Some (ErrAround [] (ErrSentinel budget_exceeded_text)
                         ('': '' @ bg_period b @ '' budget $'' @ show_fixed 2 cap
                           @ '' exceeded (spent $'' @ show_fixed 2 spend @ '')''))
                     else check_budgets g org bs)))"

definition enforce_policy ::
  "gov_store \<Rightarrow> uuid \<Rightarrow> uuid \<Rightarrow> string \<Rightarrow> string \<Rightarrow> go_err option" where
  "enforce_policy g org agent provider model =
     (case (case resolve_policy g org agent of
              None \<Rightarrow> None | Some p \<Rightarrow> check_policy g agent p provider model) of
        Some e \<Rightarrow> Some e
      | None \<Rightarrow>
          (case gv_budgets g org of
             Inl e \<Rightarrow> None
           | Inr bs \<Rightarrow> check_budgets g org bs))"

definition max_tokens_per_exec :: "gov_store \<Rightarrow> uuid \<Rightarrow> uuid \<Rightarrow> int" where
  "max_tokens_per_exec g org agent =
     (case resolve_policy g org agent of
        None \<Rightarrow> 0
      | Some p \<Rightarrow> (case py_max_tokens p of None \<Rightarrow> 0 | Some n \<Rightarrow> if n \<le> 0 then 0 else n))"

definition max_cost_per_exec :: "gov_store \<Rightarrow> uuid \<Rightarrow> uuid \<Rightarrow> rat" where
  "max_cost_per_exec g org agent =
     (case resolve_policy g org agent of
        None \<Rightarrow> 0
      | Some p \<Rightarrow> (case py_max_cost p of None \<Rightarrow> 0 | Some c \<Rightarrow> if c \<le> 0 then 0 else c))"

section \<open>Recording usage\<close>

record usage_exec =
  ue_id :: uuid
  ue_agent :: uuid
  ue_org :: uuid
  ue_total :: int
  ue_input :: int
  ue_output :: int
  ue_latency :: int
  ue_failed :: bool
  ue_provider :: "string option"
  ue_model :: "string option"

record rollup =
  ru_org :: uuid
  ru_agent :: uuid
  ru_provider :: string
  ru_model :: string
  ru_period :: string
  ru_start :: int
  ru_execs :: int
  ru_input :: int
  ru_output :: int
  ru_total :: int
  ru_cost :: rat
  ru_latency :: int
  ru_errors :: int

datatype alert_type = HardLimit | SoftLimit | Threshold

record alert =
  al_budget :: uuid
  al_type :: alert_type
  al_spend :: rat
  al_limit :: rat

definition usage_cost :: "catalog \<Rightarrow> usage_exec \<Rightarrow> rat" where
  "usage_cost cat u =
     calculate cat (case ue_provider u of None \<Rightarrow> [] | Some s \<Rightarrow> s)
       (case ue_model u of None \<Rightarrow> [] | Some s \<Rightarrow> s) (ue_input u) (ue_output u) (ue_latency u)"

definition usage_rollup :: "catalog \<Rightarrow> usage_exec \<Rightarrow> string \<Rightarrow> int \<Rightarrow> rollup" where
  "usage_rollup cat u period start =
     \<lparr>ru_org = ue_org u, ru_agent = ue_agent u,
      ru_provider = (case ue_provider u of None \<Rightarrow> [] | Some s \<Rightarrow> s),
      ru_model = (case ue_model u of None \<Rightarrow> [] | Some s \<Rightarrow> s), ru_period = period,
      ru_start = start, ru_execs = 1, ru_input = ue_input u, ru_output = ue_output u,
      ru_total = ue_total u, ru_cost = usage_cost cat u, ru_latency = ue_latency u,
      ru_errors = (if ue_failed u then 1 else 0)\<rparr>"

definition budget_alerts :: "gov_store \<Rightarrow> uuid \<Rightarrow> budget \<Rightarrow> alert list" where
  "budget_alerts g org b =
     (if \<not> bg_enabled b then []
      else (case gv_spend g org (bg_period b) of
              Inl e \<Rightarrow> []
            | Inr spend \<Rightarrow>
                (case bg_hard b of
                   Some cap \<Rightarrow> if spend \<ge> cap then
                     [\<lparr>al_budget = bg_id b, al_type = HardLimit, al_spend = spend, al_limit = cap\<rparr>] else []
                 | None \<Rightarrow> [])
                @ (case bg_soft b of
                     Some cap \<Rightarrow> if spend \<ge> cap then
                       [\<lparr>al_budget = bg_id b, al_type = SoftLimit, al_spend = spend, al_limit = cap\<rparr>] else []
                   | None \<Rightarrow> [])
                @ (case bg_hard b of
                     Some cap \<Rightarrow>
                       if bg_threshold b > 0 \<and> spend \<ge> cap * bg_threshold b then
                         [\<lparr>al_budget = bg_id b, al_type = Threshold, al_spend = spend,
                           al_limit = cap * bg_threshold b\<rparr>] else []
                   | None \<Rightarrow> [])))"

definition check_budget_thresholds :: "gov_store \<Rightarrow> uuid \<Rightarrow> alert list" where
  "check_budget_thresholds g org =
     (case gv_budgets g org of Inl e \<Rightarrow> [] | Inr bs \<Rightarrow> concat (map (budget_alerts g org) bs))"

text \<open>\<open>now\<close> is in milliseconds; the period starts are the UTC hour and day it falls in.\<close>

definition record_usage ::
  "catalog \<Rightarrow> gov_store \<Rightarrow> usage_exec \<Rightarrow> int \<Rightarrow> rat \<times> rollup list \<times> alert list" where
  "record_usage cat g u now =
     (usage_cost cat u,
      [usage_rollup cat u ''hourly'' (now - now mod hour_ms),
       usage_rollup cat u ''daily'' (now - now mod (24 * hour_ms))],
      check_budget_thresholds g (ue_org u))"

definition new_budget ::
  "string \<Rightarrow> rat option \<Rightarrow> rat option \<Rightarrow> rat option \<Rightarrow> bool option \<Rightarrow> budget" where
  "new_budget period soft hard threshold enabled =
     \<lparr>bg_id = uuid_nil, bg_period = period, bg_soft = soft, bg_hard = hard,
      bg_threshold = (case threshold of None \<Rightarrow> 8 / 10 | Some t \<Rightarrow> t),
      bg_enabled = (case enabled of None \<Rightarrow> True | Some b \<Rightarrow> b)\<rparr>"

section \<open>Properties\<close>

lemma check_budgets_None:
  "check_budgets g org bs = None \<longleftrightarrow>
     (\<forall>b \<in> set bs. \<forall>cap spend. bg_enabled b \<and> bg_hard b = Some cap
        \<and> gv_spend g org (bg_period b) = Inr spend \<longrightarrow> spend < cap)"
  by (induction bs) (auto split: option.splits sum.splits if_splits)

lemma rate_limit_None:
  "rate_limit g agent w n cap = None \<longleftrightarrow>
     (\<forall>k c. cap = Some k \<and> gv_recent g agent w = Inr c \<longrightarrow> c < k)"
  by (auto simp: rate_limit_def split: option.splits sum.splits)

text \<open>
  C16: an execution is admitted exactly when the resolved policy (the agent's, else the organisation's)
  permits the provider and the model it names, neither rate limit is reached, and the spend of every
  enabled budget with a hard limit is below it; a count or a spend that cannot be read does not block.
\<close>

theorem enforce_policy_admits:
  assumes "gv_budgets g org = Inr bs"
  shows "enforce_policy g org agent provider model = None \<longleftrightarrow>
    (\<forall>p. resolve_policy g org agent = Some p \<longrightarrow>
       (py_providers p = [] \<or> provider = [] \<or> provider \<in> set (py_providers p))
       \<and> (py_models p = [] \<or> model = [] \<or> model \<in> set (py_models p))
       \<and> (\<forall>k c. py_per_hour p = Some k \<and> gv_recent g agent hour_ms = Inr c \<longrightarrow> c < k)
       \<and> (\<forall>k c. py_per_day p = Some k \<and> gv_recent g agent (24 * hour_ms) = Inr c \<longrightarrow> c < k))
    \<and> (\<forall>b \<in> set bs. \<forall>cap spend. bg_enabled b \<and> bg_hard b = Some cap
        \<and> gv_spend g org (bg_period b) = Inr spend \<longrightarrow> spend < cap)"
proof (cases "resolve_policy g org agent")
  case None
  then show ?thesis
    using assms by (simp add: enforce_policy_def check_budgets_None)
next
  case (Some p)
  then show ?thesis
    using assms rate_limit_None [of g agent hour_ms "''hourly''" "py_per_hour p"]
      rate_limit_None [of g agent "24 * hour_ms" "''daily''" "py_per_day p"]
      check_budgets_None [of g org bs]
    by (auto simp: enforce_policy_def check_policy_def split: option.splits if_splits)
qed

definition demo_policy :: policy where
  "demo_policy =
     \<lparr>py_max_tokens = None, py_models = [], py_providers = [''ollama''], py_max_cost = Some 1,
      py_per_day = Some 10, py_per_hour = None\<rparr>"

definition demo_gov :: gov_store where
  "demo_gov =
     \<lparr>gv_agent_policy = (\<lambda>ob a. None), gv_org_policy = (\<lambda>ob. Some demo_policy),
      gv_recent = (\<lambda>a w. Inr 3), gv_budgets = (\<lambda>ob. Inr [new_budget ''monthly'' None (Some 100) None None]),
      gv_spend = (\<lambda>ob p. Inr 42)\<rparr>"

theorem enforce_policy_admits_witness:
  "enforce_policy demo_gov 1 2 ''ollama'' [] = None
   \<and> enforce_policy demo_gov 1 2 ''openai'' [] \<noteq> None"
proof -
  have "gv_budgets demo_gov 1 = Inr [new_budget ''monthly'' None (Some 100) None None]"
    by (simp add: demo_gov_def)
  from enforce_policy_admits [OF this, of 2 "''ollama''" "[]"]
    enforce_policy_admits [OF this, of 2 "''openai''" "[]"]
  show ?thesis
    by (simp add: demo_gov_def demo_policy_def resolve_policy_def new_budget_def)
qed

text \<open>
  an agent that names no provider passes every provider allowlist: with provider and model empty
  the policy's lists are never consulted, though the run then uses the server's default provider.
\<close>

lemma allowlist_skipped_without_provider:
  "check_policy g agent (p\<lparr>py_providers := ps, py_models := ms\<rparr>) [] []
     = check_policy g agent (p\<lparr>py_providers := [], py_models := []\<rparr>) [] []"
  by (simp add: check_policy_def split: option.split)

text \<open>
  A finished run adds exactly one execution to its hourly and one to its daily rollup, each with
  the same cost as the one stored with the execution, and the period it is counted in contains the
  moment it was recorded.
\<close>

lemma usage_recorded_once_per_period:
  "case record_usage cat g u now of (cost, rollups, alerts) \<Rightarrow>
     map ru_period rollups = [''hourly'', ''daily''] \<and> (\<forall>r \<in> set rollups. ru_execs r = 1 \<and> ru_cost r = cost
       \<and> ru_total r = ue_total u \<and> ru_start r \<le> now \<and> now < ru_start r + 24 * hour_ms)"
proof -
  have "now mod hour_ms \<ge> 0" "now mod hour_ms < hour_ms" "now mod (24 * hour_ms) \<ge> 0"
    "now mod (24 * hour_ms) < 24 * hour_ms"
    by (simp_all add: hour_ms_def)
  then show ?thesis
    by (simp add: record_usage_def usage_rollup_def hour_ms_def)
qed

end
