(* ===== verification/ExecStore.thy ===== *)
theory ExecStore
  imports AgentLoop
begin

text \<open>
  \<open>repository/execution_repository.go\<close>: the table of agent executions and of their tool calls, with
  the UPDATE statements of the source as functions on it (the guard of a statement is its WHERE
  clause, an UPDATE that matches no row changes nothing). The database's own failures are not part
  of the table: the services that handle them take them as arguments.
\<close>

record execution =
  xe_agent :: uuid
  xe_org :: uuid
  xe_prompt :: string
  xe_output :: "string option"
  xe_status :: string
  xe_error :: "string option"
  xe_total :: int
  xe_input :: int
  xe_out :: int
  xe_latency :: int
  xe_cost :: rat
  xe_model :: "string option"
  xe_provider :: "string option"
  xe_iterations :: int
  xe_engine :: string
  xe_started :: "int option"
  xe_completed :: "int option"

record tool_row =
  tw_exec :: uuid
  tw_name :: string
  tw_input :: "obj option"
  tw_output :: "string option"
  tw_error :: "string option"
  tw_duration :: int

record exec_db =
  xd_execs :: "uuid \<Rightarrow> execution option"
  xd_calls :: "tool_row list"

definition st_pending :: string where "st_pending = ''pending''"
definition st_running :: string where "st_running = ''running''"
definition st_completed :: string where "st_completed = ''completed''"
definition st_failed :: string where "st_failed = ''failed''"
definition st_cancelled :: string where "st_cancelled = ''cancelled''"
definition st_awaiting :: string where "st_awaiting = ''awaiting_approval''"

lemmas status_defs = st_pending_def st_running_def st_completed_def st_failed_def st_cancelled_def
  st_awaiting_def status_awaiting_def

definition update_exec :: "uuid \<Rightarrow> (execution \<Rightarrow> execution) \<Rightarrow> exec_db \<Rightarrow> exec_db" where
  "update_exec i f db = db\<lparr>xd_execs := (xd_execs db)(i := map_option f (xd_execs db i))\<rparr>"

definition create_exec :: "uuid \<Rightarrow> uuid \<Rightarrow> uuid \<Rightarrow> string \<Rightarrow> string \<Rightarrow> exec_db \<Rightarrow> exec_db" where
  "create_exec i agent org prompt engine db =
     db\<lparr>xd_execs := (xd_execs db)(i \<mapsto>
       \<lparr>xe_agent = agent, xe_org = org, xe_prompt = prompt, xe_output = None, xe_status = st_pending,
        xe_error = None, xe_total = 0, xe_input = 0, xe_out = 0, xe_latency = 0, xe_cost = 0,
        xe_model = None, xe_provider = None, xe_iterations = 0,
        xe_engine = (if engine = [] then ''go_native'' else engine), xe_started = None,
        xe_completed = None\<rparr>)\<rparr>"

definition mark_started :: "uuid \<Rightarrow> int \<Rightarrow> exec_db \<Rightarrow> exec_db" where
  "mark_started i now = update_exec i (\<lambda>x. x\<lparr>xe_status := st_running, xe_started := Some now\<rparr>)"

definition mark_completed :: "uuid \<Rightarrow> string \<Rightarrow> int \<Rightarrow> int \<Rightarrow> int \<Rightarrow> exec_db \<Rightarrow> exec_db" where
  "mark_completed i output tot its now =
     update_exec i (\<lambda>x. x\<lparr>xe_status := st_completed, xe_output := Some output, xe_total := tot,
       xe_iterations := its, xe_completed := Some now\<rparr>)"

definition mark_failed :: "uuid \<Rightarrow> string \<Rightarrow> int \<Rightarrow> int \<Rightarrow> int \<Rightarrow> exec_db \<Rightarrow> exec_db" where
  "mark_failed i msg tot its now =
     update_exec i (\<lambda>x. x\<lparr>xe_status := st_failed, xe_error := Some msg, xe_total := tot,
       xe_iterations := its, xe_completed := Some now\<rparr>)"

definition mark_cancelled :: "uuid \<Rightarrow> int \<Rightarrow> exec_db \<Rightarrow> exec_db" where
  "mark_cancelled i now =
     update_exec i (\<lambda>x. if xe_status x \<in> {st_pending, st_running, st_awaiting}
       then x\<lparr>xe_status := st_cancelled, xe_error := Some ''cancelled by user'',
              xe_completed := Some now\<rparr> else x)"

definition mark_awaiting :: "uuid \<Rightarrow> int \<Rightarrow> int \<Rightarrow> exec_db \<Rightarrow> exec_db" where
  "mark_awaiting i tot its =
     update_exec i (\<lambda>x. x\<lparr>xe_status := st_awaiting, xe_output := None, xe_error := None,
       xe_total := tot, xe_iterations := its, xe_completed := None\<rparr>)"

definition mark_resuming :: "uuid \<Rightarrow> exec_db \<Rightarrow> bool \<times> exec_db" where
  "mark_resuming i db =
     (case xd_execs db i of
        Some x \<Rightarrow>
          if xe_status x \<in> {st_awaiting, st_running}
          then (True, update_exec i (\<lambda>x. x\<lparr>xe_status := st_running\<rparr>) db) else (False, db)
      | None \<Rightarrow> (False, db))"

definition update_cost_fields ::
  "uuid \<Rightarrow> int \<Rightarrow> int \<Rightarrow> int \<Rightarrow> rat \<Rightarrow> string \<Rightarrow> string \<Rightarrow> exec_db \<Rightarrow> exec_db" where
  "update_cost_fields i inp out latency cost model provider =
     update_exec i (\<lambda>x. x\<lparr>xe_input := inp, xe_out := out, xe_latency := latency,
       xe_cost := cost, xe_model := Some model, xe_provider := Some provider\<rparr>)"

definition record_tool_call :: "tool_row \<Rightarrow> exec_db \<Rightarrow> exec_db" where
  "record_tool_call r db = db\<lparr>xd_calls := xd_calls db @ [r]\<rparr>"

definition load_tool_calls :: "uuid \<Rightarrow> exec_db \<Rightarrow> tool_row list" where
  "load_tool_calls i db = filter (\<lambda>r. tw_exec r = i) (xd_calls db)"

definition new_tool_calls :: "run_result \<Rightarrow> tool_record list" where
  "new_tool_calls r =
     drop (if rr_prior r > length (rr_tool_calls r) then 0 else rr_prior r) (rr_tool_calls r)"

definition row_of :: "uuid \<Rightarrow> tool_record \<Rightarrow> tool_row" where
  "row_of i t =
     \<lparr>tw_exec = i, tw_name = tr_name t, tw_input = tr_input t,
      tw_output = (if tr_output t \<noteq> [] then Some (tr_output t) else None),
      tw_error = map_option err_text (tr_err t), tw_duration = tr_duration t\<rparr>"

definition persist_result :: "uuid \<Rightarrow> run_result \<Rightarrow> int \<Rightarrow> exec_db \<Rightarrow> exec_db" where
  "persist_result i r now db =
     fold (\<lambda>t. record_tool_call (row_of i t)) (new_tool_calls r)
       (if rr_status r = status_awaiting \<and> rr_err r = None
        then mark_awaiting i (rr_total r) (rr_iterations r) db
        else (case rr_err r of
                Some e \<Rightarrow> mark_failed i (err_text e) (rr_total r) (rr_iterations r) now db
              | None \<Rightarrow> mark_completed i (rr_final r) (rr_total r) (rr_iterations r) now db))"

definition exec_status :: "uuid \<Rightarrow> exec_db \<Rightarrow> string option" where
  "exec_status i db = map_option xe_status (xd_execs db i)"

section \<open>Lemmas\<close>

lemma fold_record_calls:
  "fold (\<lambda>t. record_tool_call (row_of i t)) ts db
     = db\<lparr>xd_calls := xd_calls db @ map (row_of i) ts\<rparr>"
  by (induction ts arbitrary: db) (simp_all add: record_tool_call_def)

lemma update_exec_simps [simp]:
  "xd_execs (update_exec i f db) j = (if j = i then map_option f (xd_execs db i) else xd_execs db j)"
  "xd_calls (update_exec i f db) = xd_calls db"
  by (simp_all add: update_exec_def)

lemma marks_calls [simp]:
  "xd_calls (mark_completed i out t n now db) = xd_calls db"
  "xd_calls (mark_failed i e t n now db) = xd_calls db"
  "xd_calls (mark_awaiting i t n db) = xd_calls db"
  "xd_calls (mark_cancelled i now db) = xd_calls db"
  "xd_calls (snd (mark_resuming i db)) = xd_calls db"
  by (simp_all add: mark_completed_def mark_failed_def mark_awaiting_def mark_cancelled_def
      mark_resuming_def split: option.split)

lemma persist_calls:
  "xd_calls (persist_result i r now db) = xd_calls db @ map (row_of i) (new_tool_calls r)"
  by (simp add: persist_result_def fold_record_calls split: option.split)

lemma persist_status:
  "xd_execs db i = Some x \<Longrightarrow> exec_status i (persist_result i r now db) =
     Some (if rr_status r = status_awaiting \<and> rr_err r = None then st_awaiting
           else if rr_err r \<noteq> None then st_failed else st_completed)"
  by (auto simp: exec_status_def persist_result_def fold_record_calls mark_awaiting_def
      mark_failed_def mark_completed_def split: option.split)

text \<open>What is stored of a tool record does not see the flattening of its error.\<close>

lemma row_of_flat:
  "(case tr_err t of Some e \<Rightarrow> err_text e \<noteq> [] | None \<Rightarrow> True)
     \<Longrightarrow> row_of i (flat_record t) = row_of i t"
  by (auto simp: row_of_def flat_record_def split: option.splits)

section \<open>Properties\<close>

text \<open>
  a run paused for approval is stored as awaiting approval with neither output nor completion
  time, never as completed with an empty output; a failed run keeps its error; otherwise the
  answer is stored. Other executions are untouched.
\<close>

lemma persist_result_outcome:
  assumes "xd_execs db i = Some x"
  shows "(rr_status r = status_awaiting \<and> rr_err r = None \<longrightarrow>
      (\<exists>y. xd_execs (persist_result i r now db) i = Some y \<and> xe_status y = st_awaiting
         \<and> xe_output y = None \<and> xe_completed y = None))
    \<and> (\<forall>e. rr_err r = Some e \<longrightarrow>
      (\<exists>y. xd_execs (persist_result i r now db) i = Some y \<and> xe_status y = st_failed
         \<and> xe_error y = Some (err_text e)))
    \<and> (rr_status r = [] \<and> rr_err r = None \<longrightarrow>
      (\<exists>y. xd_execs (persist_result i r now db) i = Some y \<and> xe_status y = st_completed
         \<and> xe_output y = Some (rr_final r)))
    \<and> (\<forall>j. j \<noteq> i \<longrightarrow> xd_execs (persist_result i r now db) j = xd_execs db j)"
  using assms
  by (auto simp: persist_result_def fold_record_calls mark_awaiting_def mark_failed_def
      mark_completed_def status_awaiting_def split: option.splits)

definition demo_db :: exec_db where
  "demo_db = mark_started 5 10 (create_exec 5 3 1 ''hi'' [] \<lparr>xd_execs = (\<lambda>_. None), xd_calls = []\<rparr>)"

definition paused_result :: run_result where
  "paused_result =
     (error_result (ErrText []))\<lparr>rr_err := None, rr_status := status_awaiting, rr_approval := 9,
        rr_tool_calls := [\<lparr>tr_name = ''read'', tr_input = None, tr_output = ''x'', tr_err = None,
          tr_duration = 4\<rparr>]\<rparr>"

definition resumed_result :: run_result where
  "resumed_result =
     paused_result\<lparr>rr_status := [], rr_final := ''ok'', rr_prior := 1,
        rr_tool_calls := rr_tool_calls paused_result
          @ [\<lparr>tr_name = ''send'', tr_input = None, tr_output = [],
              tr_err = Some (ErrText ''refused''), tr_duration = 7\<rparr>]\<rparr>"

lemma demo_db_row: "\<exists>x. xd_execs demo_db 5 = Some x"
  by (simp add: demo_db_def mark_started_def create_exec_def)

text \<open>
  across a pause and its resumption every tool call of the run is stored exactly once, in order:
  the paused result stores the calls so far, the resumed one those after them.
\<close>

lemma tool_calls_stored_once:
  assumes "rr_prior r1 = 0" and "rr_prior r2 = length (rr_tool_calls r1)"
    and "map (row_of i) (take (length (rr_tool_calls r1)) (rr_tool_calls r2))
      = map (row_of i) (rr_tool_calls r1)"
    and "length (rr_tool_calls r1) \<le> length (rr_tool_calls r2)"
  shows "xd_calls (persist_result i r2 t2 (persist_result i r1 t1 db))
    = xd_calls db @ map (row_of i) (rr_tool_calls r2)"
proof -
  have "map (row_of i) (rr_tool_calls r2)
      = map (row_of i) (take (length (rr_tool_calls r1)) (rr_tool_calls r2))
        @ map (row_of i) (drop (length (rr_tool_calls r1)) (rr_tool_calls r2))"
    by (metis append_take_drop_id map_append)
  then show ?thesis
    using assms by (simp add: persist_calls new_tool_calls_def)
qed

text \<open>
  a cancellation does not stick: the outcome of a run that was still going when it was cancelled
  overwrites the cancelled status, because the statements that record an outcome have no guard.
\<close>

lemma cancelled_execution_overwritten:
  assumes "exec_status i db = Some st_running" and "rr_err r = None" and "rr_status r = []"
  shows "exec_status i (mark_cancelled i t1 db) = Some st_cancelled
    \<and> exec_status i (persist_result i r t2 (mark_cancelled i t1 db)) = Some st_completed"
proof -
  obtain x where x: "xd_execs db i = Some x" "xe_status x = st_running"
    using assms(1) by (auto simp: exec_status_def)
  then have c: "exec_status i (mark_cancelled i t1 db) = Some st_cancelled"
    by (simp add: exec_status_def mark_cancelled_def)
  obtain y where "xd_execs (mark_cancelled i t1 db) i = Some y"
    using x by (simp add: mark_cancelled_def)
  from persist_status [OF this, of r t2] c assms(2,3) show ?thesis
    by (simp add: status_awaiting_def)
qed

end
