(* ===== verification/ExecService.thy ===== *)
theory ExecService
  imports EngineRouter Governance ExecStore
begin

text \<open>
  \<open>service/execution_service.go\<close>: how an execution is admitted, started, run, stored and cancelled.
  The state a request acts on is \<open>exec_sys\<close>: the tables the service writes and the world its
  runners act on. A runner acts on the whole of it, so whatever happens while an agent runs (a
  cancellation, a created approval) is part of the runner's effect. \<open>sv_fault\<close> names the error a
  repository call returns in a state; the source drops some of those errors and returns others.
\<close>

record exec_request =
  rq_prompt :: string
  rq_provider :: "string option"
  rq_model :: "string option"
  rq_engine :: "string option"
  rq_skills :: "string list"

record 'w exec_sys =
  xs_db :: exec_db
  xs_rollups :: "rollup list"
  xs_alerts :: "alert list"
  xs_agents :: "uuid \<Rightarrow> agent option"
  xs_tools :: "uuid \<Rightarrow> string list"
  xs_world :: 'w

record 'w exec_service =
  sv_router :: "'w exec_sys engine_router"
  sv_gov :: "('w exec_sys \<Rightarrow> gov_store) option"
  sv_prices :: catalog
  sv_now :: "'w exec_sys \<Rightarrow> int"
  sv_fresh :: "'w exec_sys \<Rightarrow> uuid"
  sv_fault :: "'w exec_sys \<Rightarrow> string \<Rightarrow> go_err option"

record started_exec =
  se_id :: uuid
  se_agent :: agent
  se_org :: uuid
  se_agent_id :: uuid
  se_started :: int
  se_request :: exec_request
  se_tools :: "string list"
  se_engine :: string
  se_max_tokens :: int
  se_max_cost :: rat

record stored_exec =
  so_id :: uuid
  so_exec :: execution
  so_calls :: "tool_row list"
  so_pending :: "uuid option"

definition agent_not_found :: go_err where
  "agent_not_found = ErrSentinel ''agent not found''"

definition execution_not_found :: go_err where
  "execution_not_found = ErrSentinel ''execution not found''"

text \<open>A statement whose error the caller drops: it takes effect unless it fails.\<close>

definition try_write ::
  "'w exec_service \<Rightarrow> string \<Rightarrow> ('w exec_sys \<Rightarrow> 'w exec_sys) \<Rightarrow> 'w exec_sys \<Rightarrow> 'w exec_sys" where
  "try_write sv op f s = (case sv_fault sv s op of Some e \<Rightarrow> s | None \<Rightarrow> f s)"

definition set_agent_status :: "uuid \<Rightarrow> string \<Rightarrow> 'w exec_sys \<Rightarrow> 'w exec_sys" where
  "set_agent_status a status s =
     s\<lparr>xs_agents := (xs_agents s)(a := map_option (\<lambda>x. x\<lparr>ag_status := status\<rparr>) (xs_agents s a))\<rparr>"

definition on_db :: "(exec_db \<Rightarrow> exec_db) \<Rightarrow> 'w exec_sys \<Rightarrow> 'w exec_sys" where
  "on_db f s = s\<lparr>xs_db := f (xs_db s)\<rparr>"

section \<open>Admission\<close>

definition effective_agent :: "agent \<Rightarrow> exec_request \<Rightarrow> agent" where
  "effective_agent ag req =
     (case rq_provider req of
        Some p \<Rightarrow>
          if p \<noteq> [] then
            (let ag' = ag\<lparr>ag_model_provider := Some p\<rparr>
             in (case rq_model req of
                   Some m \<Rightarrow> if m \<noteq> [] then ag'\<lparr>ag_model_name := Some m\<rparr> else ag'
                 | None \<Rightarrow> ag'))
          else ag
      | None \<Rightarrow> ag)"

text \<open>The policy check of \<open>begin\<close> and the caps resolved beside it.\<close>

definition admission ::
  "'w exec_service \<Rightarrow> uuid \<Rightarrow> uuid \<Rightarrow> agent \<Rightarrow> 'w exec_sys \<Rightarrow> go_err + int \<times> rat" where
  "admission sv org aid ag s =
     (case sv_gov sv of
        None \<Rightarrow> Inr (0, 0)
      | Some g \<Rightarrow>
          (case enforce_policy (g s) org aid (or_empty (ag_model_provider ag))
                  (or_empty (ag_model_name ag)) of
             Some e \<Rightarrow> Inl e
           | None \<Rightarrow> Inr (max_tokens_per_exec (g s) org aid, max_cost_per_exec (g s) org aid)))"

definition agent_tools :: "'w exec_service \<Rightarrow> uuid \<Rightarrow> 'w exec_sys \<Rightarrow> string list" where
  "agent_tools sv aid s =
     (case sv_fault sv s ''toolPermRepo.ListByAgent'' of Some e \<Rightarrow> [] | None \<Rightarrow> xs_tools s aid)"

definition begin_exec ::
  "'w exec_service \<Rightarrow> uuid \<Rightarrow> uuid \<Rightarrow> exec_request \<Rightarrow> 'w exec_sys
    \<Rightarrow> (go_err + started_exec) \<times> 'w exec_sys" where
  "begin_exec sv org aid req s =
     (case sv_fault sv s ''agentRepo.FindByID'' of
        Some e \<Rightarrow> (Inl (ErrWrap ''execution_svc: find agent: '' e), s)
      | None \<Rightarrow>
     (case xs_agents s aid of
        None \<Rightarrow> (Inl agent_not_found, s)
      | Some found \<Rightarrow>
     if ag_org found \<noteq> org then (Inl agent_not_found, s)
     else
       (let ag = effective_agent found req in
        case admission sv org aid ag s of
          Inl e \<Rightarrow> (Inl e, s)
        | Inr (max_tokens, max_cost) \<Rightarrow>
            (let engine = resolve_engine ag (rq_engine req) [];
                 tools = agent_tools sv aid s;
                 i = sv_fresh sv s
             in case sv_fault sv s ''execRepo.Create'' of
                  Some e \<Rightarrow> (Inl (ErrWrap ''execution_svc: create execution record: '' e), s)
                | None \<Rightarrow>
                    (let s1 = on_db (create_exec i aid org (rq_prompt req) engine) s;
                         s2 = try_write sv ''execRepo.MarkStarted''
                                (on_db (mark_started i (sv_now sv s1))) s1;
                         s3 = try_write sv ''agentRepo.UpdateStatus'' (set_agent_status aid ''active'') s2
                     in (Inr \<lparr>se_id = i, se_agent = ag, se_org = org, se_agent_id = aid,
                           se_started = sv_now sv s2, se_request = req, se_tools = tools, se_engine = engine, se_max_tokens = max_tokens,
                           se_max_cost = max_cost\<rparr>, s3))))))"

section \<open>Storing an outcome\<close>

definition usage_of :: "uuid \<Rightarrow> uuid \<Rightarrow> uuid \<Rightarrow> run_result \<Rightarrow> usage_exec" where
  "usage_of i aid org r =
     \<lparr>ue_id = i, ue_agent = aid, ue_org = org, ue_total = rr_total r, ue_input = rr_input r,
      ue_output = rr_output r, ue_latency = rr_latency r, ue_failed = (rr_err r \<noteq> None),
      ue_provider = (if rr_provider r \<noteq> [] then Some (rr_provider r) else None),
      ue_model = (if rr_model r \<noteq> [] then Some (rr_model r) else None)\<rparr>"

text \<open>\<open>RecordUsage\<close> on the tables: the cost fields, the two rollups, then the alerts.\<close>

definition apply_usage ::
  "'w exec_service \<Rightarrow> ('w exec_sys \<Rightarrow> gov_store) \<Rightarrow> usage_exec \<Rightarrow> 'w exec_sys \<Rightarrow> rat \<times> 'w exec_sys" where
  "apply_usage sv g u s =
     (let cost = usage_cost (sv_prices sv) u;
          s1 = try_write sv ''execRepo.UpdateCostFields''
                 (on_db (update_cost_fields (ue_id u) (ue_input u) (ue_output u) (ue_latency u) cost
                    (or_empty (ue_model u)) (or_empty (ue_provider u)))) s;
          rollups = fst (snd (record_usage (sv_prices sv) (g s1) u (sv_now sv s1)));
          s2 = fold (\<lambda>ro. try_write sv (''usageRepo.UpsertRollup:'' @ ru_period ro)
                 (\<lambda>t. t\<lparr>xs_rollups := xs_rollups t @ [ro]\<rparr>)) rollups s1
      in (cost, s2\<lparr>xs_alerts := xs_alerts s2 @ check_budget_thresholds (g s2) (ue_org u)\<rparr>))"

definition read_exec ::
  "'w exec_service \<Rightarrow> uuid \<Rightarrow> 'w exec_sys \<Rightarrow> go_err + stored_exec" where
  "read_exec sv i s =
     (case sv_fault sv s ''execRepo.GetByID'' of
        Some e \<Rightarrow> Inl e
      | None \<Rightarrow>
          (case xd_execs (xs_db s) i of
             None \<Rightarrow> Inl (ErrText ''execution_repo: get by id: no rows in result set'')
           | Some x \<Rightarrow> Inr \<lparr>so_id = i, so_exec = x, so_calls = load_tool_calls i (xs_db s), so_pending = None\<rparr>))"

definition is_paused :: "run_result \<Rightarrow> bool" where
  "is_paused r \<longleftrightarrow> rr_status r = status_awaiting \<and> rr_err r = None"

text \<open>The stored row, completed with the figures in hand.\<close>

definition merge_stored :: "run_result \<Rightarrow> rat \<Rightarrow> stored_exec \<Rightarrow> stored_exec" where
  "merge_stored r cost so =
     (let x = so_exec so;
          x = (if xe_latency x = 0 then x\<lparr>xe_latency := rr_latency r\<rparr> else x);
          x = (if xe_input x = 0 \<and> xe_out x = 0
               then x\<lparr>xe_input := rr_input r, xe_out := rr_output r\<rparr> else x);
          x = (if xe_cost x = 0 then x\<lparr>xe_cost := cost\<rparr> else x)
      in if is_paused r
         then so\<lparr>so_exec := x\<lparr>xe_status := st_awaiting\<rparr>, so_pending := Some (rr_approval r)\<rparr>
         else so\<lparr>so_exec := x\<rparr>)"

text \<open>What is returned when the row cannot be read back.\<close>

definition fallback_stored :: "run_result \<Rightarrow> rat \<Rightarrow> int \<Rightarrow> stored_exec \<Rightarrow> stored_exec" where
  "fallback_stored r cost now base =
     (let x = so_exec base;
          b = (if is_paused r
               then base\<lparr>so_exec := x\<lparr>xe_status := st_awaiting\<rparr>, so_pending := Some (rr_approval r)\<rparr>
               else (case rr_err r of
                  Some e \<Rightarrow> base\<lparr>so_exec := x\<lparr>xe_status := st_failed, xe_error := Some (err_text e),
                                 xe_completed := Some now\<rparr>\<rparr>
                | None \<Rightarrow> base\<lparr>so_exec := x\<lparr>xe_status := st_completed, xe_output := Some (rr_final r),
                                 xe_completed := Some now\<rparr>\<rparr>))
      in b\<lparr>so_exec := (so_exec b)\<lparr>xe_total := rr_total r, xe_input := rr_input r,
            xe_out := rr_output r, xe_latency := rr_latency r, xe_iterations := rr_iterations r,
            xe_cost := cost\<rparr>\<rparr>)"

definition persist_outcome ::
  "'w exec_service \<Rightarrow> uuid \<Rightarrow> stored_exec \<Rightarrow> run_result \<Rightarrow> 'w exec_sys \<Rightarrow> stored_exec \<times> 'w exec_sys" where
  "persist_outcome sv i base r s =
     (let aid = xe_agent (so_exec base);
          org = xe_org (so_exec base);
          s1 = try_write sv ''agentRepo.UpdateStatus'' (set_agent_status aid ''idle'') s;
          s2 = try_write sv ''execRepo.PersistResult''
                 (on_db (persist_result i r (sv_now sv s1))) s1;
          (cost, s3) = (case sv_gov sv of
              Some g \<Rightarrow> if is_paused r then (0, s2) else apply_usage sv g (usage_of i aid org r) s2
            | None \<Rightarrow> (0, s2))
      in (case read_exec sv i s3 of
            Inr so \<Rightarrow> merge_stored r cost so
          | Inl e \<Rightarrow> fallback_stored r cost (sv_now sv s3) base, s3))"

section \<open>Requests\<close>

definition run_context :: "started_exec \<Rightarrow> go_ctx \<Rightarrow> go_ctx" where
  "run_context st cx =
     (if rq_skills (se_request st) \<noteq> [] \<or> se_max_tokens st > 0 \<or> se_max_cost st > 0
      then with_run_options cx
             \<lparr>ro_skill_slugs = rq_skills (se_request st), ro_max_tokens = se_max_tokens st,
              ro_max_cost = se_max_cost st\<rparr>
      else cx)"

text \<open>\<open>base\<close>, as \<open>begin\<close> leaves the record it created.\<close>

definition started_record :: "started_exec \<Rightarrow> stored_exec" where
  "started_record st =
     \<lparr>so_id = se_id st, so_exec = \<lparr>xe_agent = se_agent_id st, xe_org = se_org st,
        xe_prompt = rq_prompt (se_request st), xe_output = None, xe_status = st_running,
        xe_error = None, xe_total = 0, xe_input = 0, xe_out = 0, xe_latency = 0, xe_cost = 0,
        xe_model = None, xe_provider = None, xe_iterations = 0, xe_engine = se_engine st,
        xe_started = Some (se_started st), xe_completed = None\<rparr>, so_calls = [], so_pending = None\<rparr>"

definition measured :: "int \<Rightarrow> run_result \<Rightarrow> run_result" where
  "measured elapsed r = (if rr_latency r \<le> 0 then r\<lparr>rr_latency := elapsed\<rparr> else r)"

definition finish_exec ::
  "'w exec_service \<Rightarrow> go_ctx \<Rightarrow> started_exec \<Rightarrow> 'w exec_sys \<Rightarrow> stored_exec \<times> 'w exec_sys" where
  "finish_exec sv cx st s =
     (let (r, s') = runner_for (sv_router sv) (se_engine st) (run_context st cx) (se_id st)
                      (se_agent st) (rq_prompt (se_request st)) (se_tools st) s
      in persist_outcome sv (se_id st) (started_record st)
           (measured (sv_now sv s' - sv_now sv s) r) s')"

text \<open>\<open>Execute\<close>; \<open>Start\<close> is \<open>begin_exec\<close> with \<open>finish_exec\<close> later, on another goroutine.\<close>

definition execute_request ::
  "'w exec_service \<Rightarrow> go_ctx \<Rightarrow> uuid \<Rightarrow> uuid \<Rightarrow> exec_request \<Rightarrow> 'w exec_sys
    \<Rightarrow> (go_err + stored_exec) \<times> 'w exec_sys" where
  "execute_request sv cx org aid req s =
     (case begin_exec sv org aid req s of
        (Inl e, s') \<Rightarrow> (Inl e, s')
      | (Inr st, s') \<Rightarrow> (let (so, s'') = finish_exec sv cx st s' in (Inr so, s'')))"

definition resuming_exec ::
  "'w exec_service \<Rightarrow> uuid \<Rightarrow> 'w exec_sys \<Rightarrow> (go_err + bool) \<times> 'w exec_sys" where
  "resuming_exec sv i s =
     (case sv_fault sv s ''execRepo.MarkResuming'' of
        Some e \<Rightarrow> (Inl e, s)
      | None \<Rightarrow> (let (ok, db) = mark_resuming i (xs_db s) in (Inr ok, s\<lparr>xs_db := db\<rparr>)))"

definition complete_resumed ::
  "'w exec_service \<Rightarrow> uuid \<Rightarrow> run_result \<Rightarrow> 'w exec_sys \<Rightarrow> (go_err + stored_exec) \<times> 'w exec_sys" where
  "complete_resumed sv i r s =
     (case read_exec sv i s of
        Inl e \<Rightarrow> (Inl (ErrWrap ''execution_svc: complete resumed: '' e), s)
      | Inr base \<Rightarrow> (let (so, s') = persist_outcome sv i base r s in (Inr so, s')))"

definition cancel_exec ::
  "'w exec_service \<Rightarrow> uuid \<Rightarrow> uuid \<Rightarrow> 'w exec_sys \<Rightarrow> (go_err + stored_exec) \<times> 'w exec_sys" where
  "cancel_exec sv org i s =
     (case read_exec sv i s of
        Inl e \<Rightarrow> (Inl (ErrWrap ''execution_svc: cancel: '' e), s)
      | Inr so \<Rightarrow>
          if xe_org (so_exec so) \<noteq> org then (Inl execution_not_found, s)
          else if xe_status (so_exec so) \<in> {st_completed, st_failed, st_cancelled} then (Inr so, s)
          else (case sv_fault sv s ''execRepo.MarkCancelled'' of
                  Some e \<Rightarrow> (Inl e, s)
                | None \<Rightarrow>
                    (let s' = on_db (mark_cancelled i (sv_now sv s)) s
                     in (read_exec sv i s', s'))))"

section \<open>Lemmas\<close>

text \<open>What the calls of a service leave alone.\<close>

lemma try_write_ok [simp]: "sv_fault sv s op = None \<Longrightarrow> try_write sv op f s = f s"
  by (simp add: try_write_def)

lemma try_write_cases: "try_write sv op f s = f s \<or> try_write sv op f s = s"
  by (simp add: try_write_def split: option.split)

lemma try_write_keeps: "P s \<Longrightarrow> P (f s) \<Longrightarrow> P (try_write sv op f s)"
  by (simp add: try_write_def split: option.split)

lemma on_db_simps [simp]:
  "xs_db (on_db f s) = f (xs_db s)" "xs_rollups (on_db f s) = xs_rollups s"
  "xs_alerts (on_db f s) = xs_alerts s" "xs_agents (on_db f s) = xs_agents s"
  "xs_tools (on_db f s) = xs_tools s" "xs_world (on_db f s) = xs_world s"
  by (simp_all add: on_db_def)

lemma set_agent_status_simps [simp]:
  "xs_db (set_agent_status a st s) = xs_db s" "xs_rollups (set_agent_status a st s) = xs_rollups s"
  "xs_alerts (set_agent_status a st s) = xs_alerts s" "xs_world (set_agent_status a st s) = xs_world s"
  by (simp_all add: set_agent_status_def)

lemma effective_agent_id [simp]:
  "ag_id (effective_agent ag req) = ag_id ag" "ag_org (effective_agent ag req) = ag_org ag"
  by (simp_all add: effective_agent_def Let_def split: option.split)

lemma begin_exec_cases:
  obtains (refused) e where "begin_exec sv org aid req s = (Inl e, s)"
  | (started) st s' found where "begin_exec sv org aid req s = (Inr st, s')"
      and "xs_agents s aid = Some found" and "ag_org found = org"
      and "admission sv org aid (effective_agent found req) s = Inr (se_max_tokens st, se_max_cost st)"
      and "se_agent st = effective_agent found req" and "se_id st = sv_fresh sv s"
      and "se_request st = req" and "se_agent_id st = aid" and "se_org st = org"
      and "s' = try_write sv ''agentRepo.UpdateStatus'' (set_agent_status aid ''active'')
             (try_write sv ''execRepo.MarkStarted''
                (on_db (mark_started (se_id st)
                   (sv_now sv (on_db (create_exec (se_id st) aid org (rq_prompt req) (se_engine st)) s))))
                (on_db (create_exec (se_id st) aid org (rq_prompt req) (se_engine st)) s))"
proof (cases "sv_fault sv s ''agentRepo.FindByID''")
  case None
  show ?thesis
  proof (cases "xs_agents s aid")
    case (Some found)
    show ?thesis
    proof (cases "ag_org found = org")
      case org: True
      show ?thesis
      proof (cases "admission sv org aid (effective_agent found req) s")
        case (Inl e)
        with None Some org show ?thesis by (intro refused) (simp add: begin_exec_def)
      next
        case (Inr caps)
        obtain t c where caps: "caps = (t, c)" by (cases caps)
        show ?thesis
        proof (cases "sv_fault sv s ''execRepo.Create''")
          case (Some e)
          with None \<open>xs_agents s aid = Some found\<close> org Inr caps show ?thesis
            by (intro refused) (simp add: begin_exec_def Let_def)
        next
          case create: None
          let ?ag = "effective_agent found req"
          let ?i = "sv_fresh sv s" and ?engine = "resolve_engine ?ag (rq_engine req) []"
          let ?s1 = "on_db (create_exec ?i aid org (rq_prompt req) ?engine) s"
          let ?s2 = "try_write sv ''execRepo.MarkStarted'' (on_db (mark_started ?i (sv_now sv ?s1))) ?s1"
          let ?st = "\<lparr>se_id = ?i, se_agent = ?ag, se_org = org, se_agent_id = aid,
            se_started = sv_now sv ?s2, se_request = req, se_tools = agent_tools sv aid s,
            se_engine = ?engine, se_max_tokens = t, se_max_cost = c\<rparr>"
          have "begin_exec sv org aid req s
              = (Inr ?st, try_write sv ''agentRepo.UpdateStatus'' (set_agent_status aid ''active'') ?s2)"
            using create None Some org Inr caps by (simp add: begin_exec_def Let_def)
          then show ?thesis
            by (rule started [OF _ Some org]) (simp_all add: Inr caps)
        qed
      qed
    next
      case False
      with None Some show ?thesis by (intro refused) (simp add: begin_exec_def)
    qed
  next
    case N: None
    with None show ?thesis by (intro refused) (simp add: begin_exec_def)
  qed
next
  case (Some e)
  then show ?thesis by (intro refused) (simp add: begin_exec_def)
qed

lemma persist_result_row:
  "xd_execs db i = Some x \<Longrightarrow> \<exists>y. xd_execs (persist_result i r now db) i = Some y
     \<and> xe_agent y = xe_agent x \<and> xe_org y = xe_org x"
  by (auto simp: persist_result_def fold_record_calls mark_awaiting_def mark_failed_def
      mark_completed_def split: option.splits)

lemma apply_usage_ok:
  assumes "\<forall>s op. sv_fault sv s op = None" and "xd_execs (xs_db s) (ue_id u) = Some x"
  shows "\<exists>h d y. fst (apply_usage sv g u s) = usage_cost (sv_prices sv) u
    \<and> xs_rollups (snd (apply_usage sv g u s))
        = xs_rollups s @ [usage_rollup (sv_prices sv) u ''hourly'' h, usage_rollup (sv_prices sv) u ''daily'' d]
    \<and> xd_execs (xs_db (snd (apply_usage sv g u s))) (ue_id u) = Some y
    \<and> xe_cost y = usage_cost (sv_prices sv) u"
  using assms
  by (auto simp: apply_usage_def record_usage_def Let_def update_cost_fields_def)

lemma merge_stored_pending:
  "so_pending so = None \<Longrightarrow>
    so_pending (merge_stored r c so) = (if is_paused r then Some (rr_approval r) else None)"
  by (simp add: merge_stored_def Let_def)

lemma merge_stored_cost:
  "xe_cost (so_exec so) = c \<Longrightarrow> xe_cost (so_exec (merge_stored r c so)) = c"
  by (simp add: merge_stored_def Let_def)

lemma persist_paused:
  assumes "is_paused r"
  shows "case persist_outcome sv i base r s of (so, s') \<Rightarrow>
    xs_rollups s' = xs_rollups s \<and> xs_alerts s' = xs_alerts s
    \<and> so_pending so = Some (rr_approval r) \<and> xe_status (so_exec so) = st_awaiting"
proof -
  define s1 where "s1 = try_write sv ''agentRepo.UpdateStatus'' (set_agent_status (xe_agent (so_exec base)) ''idle'') s"
  define s2 where "s2 = try_write sv ''execRepo.PersistResult'' (on_db (persist_result i r (sv_now sv s1))) s1"
  have s1: "xs_rollups s1 = xs_rollups s \<and> xs_alerts s1 = xs_alerts s"
    by (simp add: s1_def try_write_def split: option.split)
  have s2: "xs_rollups s2 = xs_rollups s \<and> xs_alerts s2 = xs_alerts s"
    by (simp add: s2_def s1 try_write_def split: option.split)
  have "persist_outcome sv i base r s = (case read_exec sv i s2 of
      Inr so \<Rightarrow> merge_stored r 0 so | Inl e \<Rightarrow> fallback_stored r 0 (sv_now sv s2) base, s2)"
    using assms unfolding persist_outcome_def Let_def s1_def [symmetric] s2_def [symmetric]
    by (cases "sv_gov sv") simp_all
  then show ?thesis
    using s2 assms
    by (simp add: merge_stored_def fallback_stored_def Let_def split: prod.split sum.split)
qed

lemma persist_finished:
  assumes ok: "\<forall>s op. sv_fault sv s op = None" and g: "sv_gov sv = Some g"
    and fin: "\<not> is_paused r" and x: "xd_execs (xs_db s) i = Some x"
    and u: "u = usage_of i (xe_agent (so_exec base)) (xe_org (so_exec base)) r"
  shows "case persist_outcome sv i base r s of (so, s') \<Rightarrow>
    \<exists>h d. xs_rollups s' = xs_rollups s
        @ [usage_rollup (sv_prices sv) u ''hourly'' h, usage_rollup (sv_prices sv) u ''daily'' d]
      \<and> so_pending so = None \<and> xe_cost (so_exec so) = usage_cost (sv_prices sv) u"
proof -
  define s1 where "s1 = set_agent_status (xe_agent (so_exec base)) ''idle'' s"
  define s2 where "s2 = on_db (persist_result i r (sv_now sv s1)) s1"
  obtain y where "xd_execs (xs_db s2) i = Some y"
    using persist_result_row [OF x, of r] by (auto simp: s2_def s1_def)
  then have "xd_execs (xs_db s2) (ue_id u) = Some y"
    by (simp add: u usage_of_def)
  from apply_usage_ok [OF ok this, of g] obtain h d z where a:
    "fst (apply_usage sv g u s2) = usage_cost (sv_prices sv) u"
    "xs_rollups (snd (apply_usage sv g u s2)) = xs_rollups s2
       @ [usage_rollup (sv_prices sv) u ''hourly'' h, usage_rollup (sv_prices sv) u ''daily'' d]"
    "xd_execs (xs_db (snd (apply_usage sv g u s2))) i = Some z" "xe_cost z = usage_cost (sv_prices sv) u"
    by (auto simp: u usage_of_def)
  define c where "c = usage_cost (sv_prices sv) u"
  define s3 where "s3 = snd (apply_usage sv g u s2)"
  have ap: "apply_usage sv g u s2 = (c, s3)"
    using a(1) by (simp add: c_def s3_def prod_eq_iff)
  have rd: "read_exec sv i s3 = Inr \<lparr>so_id = i, so_exec = z, so_calls = load_tool_calls i (xs_db s3), so_pending = None\<rparr>"
    using ok a(3) by (simp add: read_exec_def s3_def)
  have "persist_outcome sv i base r s
      = (merge_stored r c \<lparr>so_id = i, so_exec = z, so_calls = load_tool_calls i (xs_db s3), so_pending = None\<rparr>, s3)"
    using ok g fin ap rd by (simp add: persist_outcome_def Let_def s1_def s2_def u)
  moreover have "xs_rollups s3 = xs_rollups s
      @ [usage_rollup (sv_prices sv) u ''hourly'' h, usage_rollup (sv_prices sv) u ''daily'' d]"
    using a(2) by (simp add: s3_def s2_def s1_def)
  ultimately show ?thesis
    using fin a(4) by (auto simp: merge_stored_pending merge_stored_cost c_def)
qed

section \<open>Properties\<close>

text \<open>
  C15: no execution starts without being admitted. A request is either refused, and then nothing at
  all has changed, or the agent is one of the requesting organisation, the policy and the budgets
  admit the provider and model it will run with, the caps of the policy are those the run is given,
  and a pending or running record of it is stored.
\<close>

theorem begin_exec_admitted:
  "case begin_exec sv org aid req s of
     (Inl e, s') \<Rightarrow> s' = s
   | (Inr st, s') \<Rightarrow>
       (\<exists>found. xs_agents s aid = Some found \<and> ag_org found = org
          \<and> se_agent st = effective_agent found req)
       \<and> (case sv_gov sv of
            None \<Rightarrow> se_max_tokens st = 0 \<and> se_max_cost st = 0
          | Some g \<Rightarrow>
              enforce_policy (g s) org aid (or_empty (ag_model_provider (se_agent st)))
                (or_empty (ag_model_name (se_agent st))) = None
              \<and> se_max_tokens st = max_tokens_per_exec (g s) org aid
              \<and> se_max_cost st = max_cost_per_exec (g s) org aid)
       \<and> exec_status (se_id st) (xs_db s') \<in> {Some st_pending, Some st_running}"
proof (cases rule: begin_exec_cases [of sv org aid req s])
  case (refused e)
  then show ?thesis by simp
next
  case (started st s' found)
  let ?s1 = "on_db (create_exec (se_id st) aid org (rq_prompt req) (se_engine st)) s"
  let ?P = "\<lambda>t. exec_status (se_id st) (xs_db t) \<in> {Some st_pending, Some st_running}"
  have "?P ?s1"
    by (simp add: exec_status_def create_exec_def)
  moreover have "?P (on_db (mark_started (se_id st) (sv_now sv ?s1)) ?s1)"
    by (simp add: exec_status_def create_exec_def mark_started_def)
  ultimately have p2: "?P (try_write sv ''execRepo.MarkStarted''
      (on_db (mark_started (se_id st) (sv_now sv ?s1))) ?s1)"
    by (rule try_write_keeps [where P = ?P])
  have "?P s'"
    unfolding started(10)
    by (rule try_write_keeps [where P = ?P, OF p2]) (simp only: set_agent_status_simps p2)
  moreover have "case sv_gov sv of None \<Rightarrow> se_max_tokens st = 0 \<and> se_max_cost st = 0
      | Some g \<Rightarrow>
          enforce_policy (g s) org aid (or_empty (ag_model_provider (se_agent st)))
            (or_empty (ag_model_name (se_agent st))) = None
          \<and> se_max_tokens st = max_tokens_per_exec (g s) org aid
          \<and> se_max_cost st = max_cost_per_exec (g s) org aid"
    using started(4,5) by (simp add: admission_def split: option.splits)
  ultimately show ?thesis
    using started(1,2,3,5) by simp
qed

text \<open>
  C19: usage is metered once over a pause. A run stored as paused adds nothing to the usage rollups
  and raises no alert; when the resumed run is stored, at any later time, one hourly and one daily
  rollup with the cumulative figures are added, and the execution returned carries their cost.
\<close>

theorem paused_run_metered_once:
  assumes "\<forall>s op. sv_fault sv s op = None" and "sv_gov sv = Some g"
    and "is_paused r1" and "\<not> is_paused r2" and "xd_execs (xs_db s') i = Some x"
  shows "(case persist_outcome sv i base r1 s of (so, s1) \<Rightarrow>
      xs_rollups s1 = xs_rollups s \<and> xs_alerts s1 = xs_alerts s
      \<and> so_pending so = Some (rr_approval r1) \<and> xe_status (so_exec so) = st_awaiting)
    \<and> (case complete_resumed sv i r2 s' of (res, s2) \<Rightarrow>
      \<exists>so h d. res = Inr so \<and> so_pending so = None
        \<and> xe_cost (so_exec so) = usage_cost (sv_prices sv) (usage_of i (xe_agent x) (xe_org x) r2)
        \<and> xs_rollups s2 = xs_rollups s'
            @ [usage_rollup (sv_prices sv) (usage_of i (xe_agent x) (xe_org x) r2) ''hourly'' h,
               usage_rollup (sv_prices sv) (usage_of i (xe_agent x) (xe_org x) r2) ''daily'' d])"
proof -
  define b where "b = \<lparr>so_id = i, so_exec = x, so_calls = load_tool_calls i (xs_db s'), so_pending = None\<rparr>"
  have "read_exec sv i s' = Inr b"
    using assms(1,5) by (simp add: read_exec_def b_def)
  then have c: "complete_resumed sv i r2 s' = (let (so, s2) = persist_outcome sv i b r2 s' in (Inr so, s2))"
    by (simp add: complete_resumed_def)
  have bx: "so_exec b = x" by (simp add: b_def)
  show ?thesis
    using persist_paused [OF assms(3), where sv = sv and i = i and base = base and s = s]
      persist_finished [OF assms(1,2,4,5) refl, where base = b] unfolding c bx
    by (auto split: prod.split)
qed

definition demo_sys :: "unit exec_sys" where
  "demo_sys = \<lparr>xs_db = demo_db, xs_rollups = [], xs_alerts = [], xs_agents = (\<lambda>_. None),
     xs_tools = (\<lambda>_. []), xs_world = ()\<rparr>"

definition demo_service :: "unit exec_service" where
  "demo_service = \<lparr>sv_router = \<lparr>er_go_native = (\<lambda>cx e ag task tools w. (resumed_result, w)),
       er_langchain = None, er_langgraph = None, er_gate = None\<rparr>,
     sv_gov = Some (\<lambda>s. demo_gov), sv_prices = [], sv_now = (\<lambda>s. 7200000), sv_fresh = (\<lambda>s. 5),
     sv_fault = (\<lambda>s op. None)\<rparr>"

theorem paused_run_metered_once_witness:
  "map ru_period (xs_rollups (snd (complete_resumed demo_service 5 resumed_result demo_sys)))
     = [''hourly'', ''daily'']"
proof -
  obtain x where x: "xd_execs (xs_db demo_sys) 5 = Some x"
    using demo_db_row by (auto simp: demo_sys_def)
  have ok: "\<forall>s op. sv_fault demo_service s op = None" and g: "sv_gov demo_service = Some (\<lambda>s. demo_gov)"
    by (simp_all add: demo_service_def)
  have p: "is_paused paused_result" and f: "\<not> is_paused resumed_result"
    by (simp_all add: is_paused_def paused_result_def resumed_result_def error_result_def status_awaiting_def)
  have e: "xs_rollups demo_sys = []" by (simp add: demo_sys_def)
  from paused_run_metered_once [OF ok g p f x, THEN conjunct2] have
    "\<exists>h d u. xs_rollups (snd (complete_resumed demo_service 5 resumed_result demo_sys)) = []
       @ [usage_rollup (sv_prices demo_service) u ''hourly'' h, usage_rollup (sv_prices demo_service) u ''daily'' d]"
    unfolding e by (auto split: prod.splits)
  then show ?thesis by (auto simp: usage_rollup_def)
qed

text \<open>
  A cancellation only ever reaches an execution of the caller's organisation that has not ended:
  the row of another organisation's execution, and of one that has completed, failed or been
  cancelled, is left as it is, and a pending, running or paused one becomes cancelled.
\<close>

lemma cancel_exec_effect:
  assumes "\<forall>s op. sv_fault sv s op = None" and "xd_execs (xs_db s) i = Some x"
  shows "(xe_org x \<noteq> org \<longrightarrow> cancel_exec sv org i s = (Inl execution_not_found, s))
    \<and> (xe_org x = org \<and> xe_status x \<in> {st_completed, st_failed, st_cancelled} \<longrightarrow>
        snd (cancel_exec sv org i s) = s
        \<and> (\<exists>so. fst (cancel_exec sv org i s) = Inr so \<and> so_exec so = x))
    \<and> (xe_org x = org \<and> xe_status x \<in> {st_pending, st_running, st_awaiting} \<longrightarrow>
        exec_status i (xs_db (snd (cancel_exec sv org i s))) = Some st_cancelled
        \<and> (\<exists>so. fst (cancel_exec sv org i s) = Inr so \<and> xe_status (so_exec so) = st_cancelled))"
  using assms
  by (auto simp: cancel_exec_def read_exec_def exec_status_def mark_cancelled_def status_defs)

end
