(* ===== verification/ApprovalStore.thy ===== *)
theory ApprovalStore
  imports ExecStore
begin

text \<open>
  \<open>repository/approval_repository.go\<close>: the table of approvals and of the per-agent gate rules. A
  statement is a function on the table; its WHERE clause is its guard. Times are milliseconds.
\<close>

record appr_row =
  aw_org :: uuid
  aw_exec :: uuid
  aw_agent :: uuid
  aw_tool :: string
  aw_input :: obj
  aw_status :: string
  aw_reason :: "string option"
  aw_resume_state :: json
  aw_requested_at :: int
  aw_decided_by :: "uuid option"
  aw_decided_at :: "int option"
  aw_resumed_at :: "int option"
  aw_claimed_at :: "int option"

record appr_db =
  ad_rows :: "(uuid \<times> appr_row) list"
  ad_rules :: "(uuid \<times> string) list"

definition ap_pending :: string where "ap_pending = ''pending''"
definition ap_approved :: string where "ap_approved = ''approved''"
definition ap_rejected :: string where "ap_rejected = ''rejected''"

definition not_found_text :: string where "not_found_text = ''approval not found''"
definition already_decided_text :: string where "already_decided_text = ''approval already decided''"

definition find_row :: "uuid \<Rightarrow> appr_db \<Rightarrow> appr_row option" where
  "find_row i db = map_of (ad_rows db) i"

definition update_row :: "uuid \<Rightarrow> (appr_row \<Rightarrow> appr_row) \<Rightarrow> appr_db \<Rightarrow> appr_db" where
  "update_row i f db =
     db\<lparr>ad_rows := map (\<lambda>(j, r). (j, if j = i then f r else r)) (ad_rows db)\<rparr>"

text \<open>\<open>Create\<close>; the id is fresh (\<open>uuid.New\<close>).\<close>

definition create_approval ::
  "uuid \<Rightarrow> uuid \<Rightarrow> uuid \<Rightarrow> uuid \<Rightarrow> string \<Rightarrow> obj \<Rightarrow> json \<Rightarrow> int \<Rightarrow> appr_db \<Rightarrow> appr_db" where
  "create_approval i org exec agent tool input state now db =
     db\<lparr>ad_rows := ad_rows db @
       [(i, \<lparr>aw_org = org, aw_exec = exec, aw_agent = agent, aw_tool = tool, aw_input = input,
             aw_status = ap_pending, aw_reason = None, aw_resume_state = state,
             aw_requested_at = now, aw_decided_by = None, aw_decided_at = None,
             aw_resumed_at = None, aw_claimed_at = None\<rparr>)]\<rparr>"

definition list_by_org :: "uuid \<Rightarrow> string \<Rightarrow> appr_db \<Rightarrow> (uuid \<times> appr_row) list" where
  "list_by_org org status db =
     stable_sort (\<lambda>x y. aw_requested_at (snd x) > aw_requested_at (snd y))
       (filter (\<lambda>(i, r). aw_org r = org \<and> (status = [] \<or> aw_status r = status)) (ad_rows db))"

definition update_decision ::
  "uuid \<Rightarrow> string \<Rightarrow> string \<Rightarrow> uuid \<Rightarrow> int \<Rightarrow> appr_db \<Rightarrow> go_err option \<times> appr_db" where
  "update_decision i status reason by now db =
     (case find_row i db of
        None \<Rightarrow> (Some (ErrSentinel not_found_text), db)
      | Some r \<Rightarrow>
          if aw_status r = ap_pending then
            (None, update_row i (\<lambda>r. r\<lparr>aw_status := status,
               aw_reason := (if reason \<noteq> [] then Some reason else None),
               aw_decided_by := Some by, aw_decided_at := Some now\<rparr>) db)
          else (Some (ErrSentinel already_decided_text), db))"

definition claimable :: "int \<Rightarrow> int \<Rightarrow> appr_row \<Rightarrow> bool" where
  "claimable stale now r \<longleftrightarrow>
     aw_status r \<noteq> ap_pending \<and> aw_resumed_at r = None
     \<and> (case aw_claimed_at r of None \<Rightarrow> True | Some c \<Rightarrow> c < now - stale)"

definition claim_resume :: "uuid \<Rightarrow> int \<Rightarrow> int \<Rightarrow> appr_db \<Rightarrow> bool \<times> appr_db" where
  "claim_resume i stale now db =
     (case find_row i db of
        Some r \<Rightarrow>
          if claimable stale now r
          then (True, update_row i (\<lambda>r. r\<lparr>aw_claimed_at := Some now\<rparr>) db) else (False, db)
      | None \<Rightarrow> (False, db))"

definition mark_resumed :: "uuid \<Rightarrow> int \<Rightarrow> appr_db \<Rightarrow> appr_db" where
  "mark_resumed i now = update_row i (\<lambda>r. r\<lparr>aw_resumed_at := Some now\<rparr>)"

definition list_unresumed :: "int \<Rightarrow> nat \<Rightarrow> int \<Rightarrow> appr_db \<Rightarrow> (uuid \<times> appr_row) list" where
  "list_unresumed stale n now db =
     take n (stable_sort (\<lambda>x y. aw_decided_at (snd x) \<noteq> None \<and>
         (case aw_decided_at (snd y) of None \<Rightarrow> True | Some d \<Rightarrow> the (aw_decided_at (snd x)) < d))
       (filter (\<lambda>(i, r). claimable stale now r) (ad_rows db)))"

definition is_gated :: "uuid \<Rightarrow> string \<Rightarrow> appr_db \<Rightarrow> bool" where
  "is_gated agent tool db \<longleftrightarrow> (agent, tool) \<in> set (ad_rules db)"

definition list_rules :: "uuid \<Rightarrow> appr_db \<Rightarrow> string list" where
  "list_rules agent db =
     stable_sort str_less (map snd (filter (\<lambda>p. fst p = agent) (ad_rules db)))"

text \<open>\<open>SetRules\<close> in one transaction; a name given twice is inserted once.\<close>

definition set_rules :: "uuid \<Rightarrow> string list \<Rightarrow> appr_db \<Rightarrow> appr_db" where
  "set_rules agent tools db =
     db\<lparr>ad_rules := filter (\<lambda>p. fst p \<noteq> agent) (ad_rules db)
         @ map (\<lambda>n. (agent, n)) (foldl add_new [] tools)\<rparr>"

section \<open>Lemmas\<close>

lemma map_of_map_rows:
  "map_of (map (\<lambda>(j, r). (j, if j = i then f r else r)) rows) k
     = (if k = i then map_option f (map_of rows k) else map_of rows k)"
  by (induction rows) auto

lemma find_update_row [simp]:
  "find_row k (update_row i f db)
     = (if k = i then map_option f (find_row i db) else find_row k db)"
  by (simp add: find_row_def update_row_def map_of_map_rows)

lemma set_add_new [simp]: "set (foldl add_new ns xs) = set ns \<union> set xs"
  by (induction xs arbitrary: ns) (auto simp: add_new_def)

lemma distinct_add_new [simp]: "distinct ns \<Longrightarrow> distinct (foldl add_new ns xs)"
  by (induction xs arbitrary: ns) (auto simp: add_new_def)

lemma claim_resume_True:
  "claim_resume i stale now db = (True, db') \<longleftrightarrow>
     (\<exists>r. find_row i db = Some r \<and> claimable stale now r
        \<and> db' = update_row i (\<lambda>r. r\<lparr>aw_claimed_at := Some now\<rparr>) db)"
  by (auto simp: claim_resume_def split: option.splits)

lemma claim_resume_False: "claim_resume i stale now db = (False, db') \<Longrightarrow> db' = db"
  by (auto simp: claim_resume_def split: option.splits if_splits)

lemma list_unresumed_claimable:
  "(i, r) \<in> set (list_unresumed stale n now db) \<Longrightarrow> claimable stale now r"
  unfolding list_unresumed_def by (drule in_set_takeD) auto

section \<open>Properties\<close>

text \<open>Of two decisions on one approval exactly the first is recorded.\<close>

lemma first_decision_wins:
  assumes "find_row i db = Some r" and "aw_status r = ap_pending"
    and "s1 \<in> {ap_approved, ap_rejected}"
    and "update_decision i s1 r1 u1 t1 db = (e1, db1)"
    and "update_decision i s2 r2 u2 t2 db1 = (e2, db2)"
  shows "e1 = None \<and> e2 = Some (ErrSentinel already_decided_text) \<and> db2 = db1
    \<and> (\<exists>r'. find_row i db1 = Some r' \<and> aw_status r' = s1 \<and> aw_decided_by r' = Some u1
         \<and> aw_decided_at r' = Some t1)"
  using assms
  by (auto simp: update_decision_def ap_pending_def ap_approved_def ap_rejected_def)

definition demo_appr_db :: appr_db where
  "demo_appr_db = create_approval 7 1 5 3 ''send'' [] JNull 10 \<lparr>ad_rows = [], ad_rules = []\<rparr>"

text \<open>
  after \<open>SetRules\<close> an agent's gate rules are exactly the given tools, each once and in order of
  name, and no other agent's rules have changed.
\<close>

lemma set_rules_exact:
  "set (list_rules agent (set_rules agent tools db)) = set tools
   \<and> distinct (list_rules agent (set_rules agent tools db))
   \<and> sorted_wrt (\<lambda>a b. \<not> str_less b a) (list_rules agent (set_rules agent tools db))
   \<and> (\<forall>a n. is_gated a n (set_rules agent tools db)
        \<longleftrightarrow> (if a = agent then n \<in> set tools else is_gated a n db))"
proof -
  let ?db = "set_rules agent tools db"
  have m: "map snd (filter (\<lambda>p. fst p = agent) (ad_rules ?db)) = foldl add_new [] tools"
    by (simp add: set_rules_def filter_map comp_def)
  have "distinct (list_rules agent ?db)"
    unfolding list_rules_def m
    by (metis distinct_add_new distinct.simps(1) mset_eq_imp_distinct_iff mset_stable_sort)
  moreover have "set (list_rules agent ?db) = set tools"
    unfolding list_rules_def m by simp
  moreover have "is_gated a n ?db \<longleftrightarrow> (if a = agent then n \<in> set tools else is_gated a n db)" for a n
    by (auto simp: is_gated_def set_rules_def)
  ultimately show ?thesis
    by (simp add: list_rules_def str_order.stable_sort_sorted)
qed

end
