(* ===== verification/ApprovalService.thy ===== *)
theory ApprovalService
  imports ExecService ApprovalStore
begin

text \<open>
  \<open>service/approval_service.go\<close>: the approval gate of the executor, the decision of a human and the
  resumption of the paused run. The approvals table is the first component of the world the
  execution service acts on, so a run's gate writes to it and a resumed run may pause again.
\<close>

type_synonym 'w sys = "(appr_db \<times> 'w) exec_sys"

definition approvals :: "'w sys \<Rightarrow> appr_db" where
  "approvals s = fst (xs_world s)"

definition on_approvals :: "(appr_db \<Rightarrow> appr_db) \<Rightarrow> 'w sys \<Rightarrow> 'w sys" where
  "on_approvals f s = s\<lparr>xs_world := (f (fst (xs_world s)), snd (xs_world s))\<rparr>"

text \<open>
  \<open>as_sync\<close> is \<open>SyncFromExecution\<close> of the task-run service; \<open>as_user\<close> is the user repository, with a
  user's full name and email.
\<close>

record 'w approval_service =
  as_exec :: "(appr_db \<times> 'w) exec_service"
  as_executor :: "'w sys executor"
  as_sync :: "(stored_exec \<Rightarrow> 'w sys \<Rightarrow> 'w sys) option"
  as_user :: "('w sys \<Rightarrow> uuid \<Rightarrow> (string \<times> string) option) option"
  as_uuid_text :: "uuid \<Rightarrow> string"

definition resume_timeout :: int where "resume_timeout = 900000"
definition resume_stale :: int where "resume_stale = 2 * resume_timeout"
definition persist_timeout :: int where "persist_timeout = 30000"
definition recovery_batch :: nat where "recovery_batch = 50"

abbreviation as_fault :: "'w approval_service \<Rightarrow> 'w sys \<Rightarrow> string \<Rightarrow> go_err option" where
  "as_fault a \<equiv> sv_fault (as_exec a)"

abbreviation as_now :: "'w approval_service \<Rightarrow> 'w sys \<Rightarrow> int" where
  "as_now a \<equiv> sv_now (as_exec a)"

section \<open>The gate\<close>

definition requires_approval :: "'w approval_service \<Rightarrow> 'w sys \<Rightarrow> uuid \<Rightarrow> string \<Rightarrow> bool" where
  "requires_approval a s agent tool =
     (case as_fault a s ''approvalRepo.IsGated'' of
        Some e \<Rightarrow> False
      | None \<Rightarrow> is_gated agent tool (approvals s))"

definition create_pending ::
  "'w approval_service \<Rightarrow> uuid \<Rightarrow> uuid \<Rightarrow> uuid \<Rightarrow> string \<Rightarrow> obj \<Rightarrow> json \<Rightarrow> 'w sys
    \<Rightarrow> (go_err + uuid) \<times> 'w sys" where
  "create_pending a exec agent org tool input state s =
     (case as_fault a s ''approvalRepo.Create'' of
        Some e \<Rightarrow> (Inl (ErrWrap ''approval_svc: create pending: '' e), s)
      | None \<Rightarrow>
          (let i = sv_fresh (as_exec a) s
           in (Inr i, on_approvals (create_approval i org exec agent tool input state (as_now a s)) s)))"

definition approval_gate :: "'w approval_service \<Rightarrow> 'w sys gate" where
  "approval_gate a = \<lparr>gt_requires = requires_approval a, gt_create = create_pending a\<rparr>"

section \<open>Deciding\<close>

definition get_approval :: "'w approval_service \<Rightarrow> uuid \<Rightarrow> 'w sys \<Rightarrow> go_err + appr_row" where
  "get_approval a i s =
     (case as_fault a s ''approvalRepo.FindByID'' of
        Some e \<Rightarrow> Inl e
      | None \<Rightarrow>
          (case find_row i (approvals s) of
             None \<Rightarrow> Inl (ErrSentinel not_found_text)
           | Some r \<Rightarrow> Inr r))"

text \<open>
  \<open>Decide\<close>. The middle component is the approval whose resumption is started on another goroutine.
\<close>

definition decide ::
  "'w approval_service \<Rightarrow> uuid \<Rightarrow> uuid \<Rightarrow> string \<Rightarrow> string \<Rightarrow> 'w sys
    \<Rightarrow> (go_err + appr_row) \<times> (uuid \<times> appr_row) option \<times> 'w sys" where
  "decide a i decider decision reason s =
     (case get_approval a i s of
        Inl e \<Rightarrow>
          (Inl (if err_is not_found_text e then e else ErrWrap ''approval_svc: find: '' e), None, s)
      | Inr r \<Rightarrow>
     if aw_status r \<noteq> ap_pending then (Inl (ErrSentinel already_decided_text), None, s)
     else
       (let status = (if decision = ''reject'' then ap_rejected else ap_approved) in
        case as_fault a s ''approvalRepo.UpdateDecision'' of
          Some e \<Rightarrow> (Inl (ErrWrap ''approval_svc: update decision: '' e), None, s)
        | None \<Rightarrow>
            (case update_decision i status reason decider (as_now a s) (approvals s) of
               (Some e, db) \<Rightarrow> (Inl e, None, s)
             | (None, db) \<Rightarrow>
                 (let s' = on_approvals (\<lambda>_. db) s in
                  case get_approval a i s' of
                    Inl e \<Rightarrow> (Inl (ErrWrap ''approval_svc: reload: '' e), None, s')
                  | Inr r' \<Rightarrow> (Inr r', Some (i, r'), s')))))"

section \<open>Resuming\<close>

definition decider_name :: "'w approval_service \<Rightarrow> uuid option \<Rightarrow> 'w sys \<Rightarrow> string" where
  "decider_name a decider s =
     (case as_user a of
        None \<Rightarrow> []
      | Some users \<Rightarrow>
          (case users s (case decider of Some u \<Rightarrow> u | None \<Rightarrow> uuid_nil) of
             None \<Rightarrow> []
           | Some (full, email) \<Rightarrow> if full \<noteq> [] then full else email))"

definition approval_of :: "uuid \<Rightarrow> appr_row \<Rightarrow> string \<Rightarrow> approval" where
  "approval_of i r name =
     \<lparr>ap_id = i, ap_org = aw_org r, ap_exec = aw_exec r, ap_agent = aw_agent r, ap_tool = aw_tool r,
      ap_status = aw_status r, ap_reason = aw_reason r, ap_decided_by = aw_decided_by r,
      ap_resumed_at = aw_resumed_at r, ap_resume_state = aw_resume_state r, ap_decider_name = name\<rparr>"

definition sync_run :: "'w approval_service \<Rightarrow> stored_exec \<Rightarrow> 'w sys \<Rightarrow> 'w sys" where
  "sync_run a so s = (case as_sync a of None \<Rightarrow> s | Some f \<Rightarrow> f so s)"

definition finish_resume :: "'w approval_service \<Rightarrow> uuid \<Rightarrow> 'w sys \<Rightarrow> 'w sys" where
  "finish_resume a i s =
     (case as_fault a s ''approvalRepo.MarkResumed'' of
        Some e \<Rightarrow> s
      | None \<Rightarrow> on_approvals (mark_resumed i (as_now a s)) s)"

text \<open>
  What is left of a resumption once it is claimed and the execution is running again. The context
  is a fresh one: it carries none of the values of the request that started the run.
\<close>

definition resume_claimed :: "'w approval_service \<Rightarrow> uuid \<Rightarrow> appr_row \<Rightarrow> 'w sys \<Rightarrow> 'w sys" where
  "resume_claimed a i r s =
     (let s1 = (case read_exec (as_exec a) (aw_exec r) s of Inr so \<Rightarrow> sync_run a so s | Inl e \<Rightarrow> s);
          ap = approval_of i r (decider_name a (aw_decided_by r) s1);
          (result, s2) = resume_run (as_executor a) (as_uuid_text a) empty_ctx ap s1;
          s3 = (case complete_resumed (as_exec a) (aw_exec r) result s2 of
                  (Inl e, t) \<Rightarrow> t
                | (Inr so, t) \<Rightarrow> sync_run a so t)
      in finish_resume a i s3)"

definition resume_decided :: "'w approval_service \<Rightarrow> uuid \<Rightarrow> appr_row \<Rightarrow> 'w sys \<Rightarrow> 'w sys" where
  "resume_decided a i r s =
     (case as_fault a s ''approvalRepo.ClaimResume'' of
        Some e \<Rightarrow> s
      | None \<Rightarrow>
     (case claim_resume i resume_stale (as_now a s) (approvals s) of
        (False, db) \<Rightarrow> s
      | (True, db) \<Rightarrow>
          (let s1 = on_approvals (\<lambda>_. db) s in
           case resuming_exec (as_exec a) (aw_exec r) s1 of
             (Inl e, s2) \<Rightarrow> s2
           | (Inr ok, s2) \<Rightarrow>
               if ok then resume_claimed a i r s2 else finish_resume a i s2)))"

text \<open>The approvals one recovery pass starts a resumption for.\<close>

definition recover_unresumed :: "'w approval_service \<Rightarrow> 'w sys \<Rightarrow> (uuid \<times> appr_row) list" where
  "recover_unresumed a s =
     (case as_fault a s ''approvalRepo.ListUnresumed'' of
        Some e \<Rightarrow> []
      | None \<Rightarrow> list_unresumed resume_stale recovery_batch (as_now a s) (approvals s))"

section \<open>Lemmas\<close>

lemma on_approvals_simps [simp]:
  "approvals (on_approvals f s) = f (approvals s)" "xs_db (on_approvals f s) = xs_db s"
  "xs_rollups (on_approvals f s) = xs_rollups s"
  by (simp_all add: approvals_def on_approvals_def)

lemma on_db_approvals [simp]: "approvals (on_db f s) = approvals s"
  by (simp add: approvals_def)

lemma decide_cases:
  obtains (refused) e where "decide a i decider decision reason s = (Inl e, None, s)"
  | (decided) r db x where "find_row i (approvals s) = Some r" and "aw_status r = ap_pending"
      and "update_decision i (if decision = ''reject'' then ap_rejected else ap_approved) reason
             decider (as_now a s) (approvals s) = (None, db)"
      and "decide a i decider decision reason s = (fst x, snd x, on_approvals (\<lambda>_. db) s)"
      and "x = (case get_approval a i (on_approvals (\<lambda>_. db) s) of
              Inl e \<Rightarrow> (Inl (ErrWrap ''approval_svc: reload: '' e), None)
            | Inr r' \<Rightarrow> (Inr r', Some (i, r')))"
proof (cases "get_approval a i s")
  case (Inl e)
  then show ?thesis by (intro refused) (simp add: decide_def)
next
  case (Inr r)
  then have r: "find_row i (approvals s) = Some r"
    by (simp add: get_approval_def split: option.splits)
  show ?thesis
  proof (cases "aw_status r = ap_pending")
    case pending: True
    let ?u = "update_decision i (if decision = ''reject'' then ap_rejected else ap_approved) reason
      decider (as_now a s) (approvals s)"
    have "fst ?u = None"
      using r pending by (simp add: update_decision_def)
    then obtain db where u: "?u = (None, db)" by (cases ?u) simp
    show ?thesis
    proof (cases "as_fault a s ''approvalRepo.UpdateDecision''")
      case (Some e)
      with Inr pending show ?thesis by (intro refused) (simp add: decide_def Let_def)
    next
      case None
      show ?thesis
        by (rule decided [OF r pending u _ refl])
           (simp add: decide_def Let_def Inr pending None u split: sum.split)
    qed
  next
    case False
    with Inr show ?thesis by (intro refused) (simp add: decide_def)
  qed
qed

section \<open>Properties\<close>

text \<open>
  C13: a decision is recorded once, and never lost. Either it is refused, nothing has changed and no
  resumption is started; or the approval was pending and now carries the decision, its reason and
  its decider, a resumption is started for exactly that record, and if it could not be started
  because the record was not read back, the approval is one that recovery will resume.
\<close>

theorem decide_records_and_resumes:
  assumes "decide a i decider decision reason s = (res, spawned, s')"
  shows "(\<exists>e. res = Inl e) \<and> spawned = None \<and> s' = s
    \<or> (\<exists>r r'. find_row i (approvals s) = Some r \<and> aw_status r = ap_pending
        \<and> find_row i (approvals s') = Some r'
        \<and> r' = r\<lparr>aw_status := (if decision = ''reject'' then ap_rejected else ap_approved),
              aw_reason := (if reason \<noteq> [] then Some reason else None),
              aw_decided_by := Some decider, aw_decided_at := Some (as_now a s)\<rparr>
        \<and> (res = Inr r' \<and> spawned = Some (i, r') \<or> (\<exists>e. res = Inl e) \<and> spawned = None)
        \<and> (aw_claimed_at r = None \<and> aw_resumed_at r = None \<longrightarrow>
             claimable resume_stale (as_now a s') r'))"
proof (cases rule: decide_cases [of a i decider decision reason s])
  case (refused e)
  then have "res = Inl e \<and> spawned = None \<and> s' = s" using assms by simp
  then show ?thesis by blast
next
  case (decided r db x)
  let ?st = "if decision = ''reject'' then ap_rejected else ap_approved"
  let ?f = "\<lambda>r. r\<lparr>aw_status := ?st, aw_reason := (if reason \<noteq> [] then Some reason else None),
    aw_decided_by := Some decider, aw_decided_at := Some (as_now a s)\<rparr>"
  have db: "db = update_row i ?f (approvals s)"
    using decided(1,2,3) by (simp add: update_decision_def)
  have s': "s' = on_approvals (\<lambda>_. db) s" and x: "res = fst x" "spawned = snd x"
    using assms decided(4) by auto
  have r': "find_row i (approvals s') = Some (?f r)"
    by (simp add: s' db decided(1))
  have "res = Inr (?f r) \<and> spawned = Some (i, ?f r) \<or> (\<exists>e. res = Inl e) \<and> spawned = None"
    using r' x decided(5) s' by (simp add: get_approval_def split: option.split)
  moreover have "?st \<noteq> ap_pending"
    by (simp add: ap_rejected_def ap_approved_def ap_pending_def)
  then have "aw_claimed_at r = None \<and> aw_resumed_at r = None \<longrightarrow>
      claimable resume_stale (as_now a s') (?f r)"
    by (simp add: claimable_def)
  ultimately show ?thesis
    using decided(1,2) r' by blast
qed

definition demo_approval_service :: "unit approval_service" where
  "demo_approval_service =
     \<lparr>as_exec = \<lparr>sv_router = \<lparr>er_go_native = (\<lambda>cx e ag task tools w. (resumed_result, w)),
          er_langchain = None, er_langgraph = None, er_gate = None\<rparr>,
        sv_gov = None, sv_prices = [], sv_now = (\<lambda>s. 100), sv_fresh = (\<lambda>s. 8),
        sv_fault = (\<lambda>s op. None)\<rparr>,
      as_executor = new_executor \<lparr>rt_clients = [], rt_default = [], rt_ollama_fallback = False,
        rt_ollama_model = [], rt_ctx_err = (\<lambda>w. None)\<rparr> [] (\<lambda>s. 100),
      as_sync = None, as_user = None, as_uuid_text = show_nat\<rparr>"

definition demo_appr_sys :: "unit sys" where
  "demo_appr_sys = \<lparr>xs_db = demo_db, xs_rollups = [], xs_alerts = [], xs_agents = (\<lambda>_. None),
     xs_tools = (\<lambda>_. []), xs_world = (demo_appr_db, ())\<rparr>"

theorem decide_records_and_resumes_witness:
  "\<exists>r'. find_row 7 (approvals (snd (snd (decide demo_approval_service 7 20 ''reject'' [] demo_appr_sys)))) = Some r'
     \<and> aw_status r' = ap_rejected"
proof -
  obtain res sp s' where d: "decide demo_approval_service 7 20 ''reject'' [] demo_appr_sys = (res, sp, s')"
    by (cases "decide demo_approval_service 7 20 ''reject'' [] demo_appr_sys") auto
  have "\<exists>r. res = Inr r"
    using d by (auto simp: decide_def get_approval_def demo_approval_service_def demo_appr_sys_def
        approvals_def on_approvals_def demo_appr_db_def create_approval_def find_row_def
        update_decision_def update_row_def Let_def)
  with decide_records_and_resumes [OF d] d show ?thesis by auto
qed

text \<open>
  C14: a resumption runs at most one at a time and never a run that is over. When the approval is not
  claimable (undecided, resumed, or claimed within the stale window) nothing happens; when the
  execution is no longer paused or running, as after a cancellation, the run is not resumed and only
  the approval is closed; and once a resumption has ended the approval is never claimable again.
\<close>

theorem resume_decided_exclusive:
  assumes "\<forall>s op. as_fault a s op = None" and "find_row i (approvals s) = Some row"
  shows "(\<not> claimable resume_stale (as_now a s) row \<longrightarrow> resume_decided a i r s = s)
    \<and> (claimable resume_stale (as_now a s) row
        \<and> exec_status (aw_exec r) (xs_db s) \<notin> {Some st_awaiting, Some st_running} \<longrightarrow>
        xs_db (resume_decided a i r s) = xs_db s \<and> xs_rollups (resume_decided a i r s) = xs_rollups s)
    \<and> (claimable resume_stale (as_now a s) row \<longrightarrow>
        (\<forall>row' stale now. find_row i (approvals (resume_decided a i r s)) = Some row' \<longrightarrow>
          \<not> claimable stale now row'))"
proof -
  let ?f = "\<lambda>r. r\<lparr>aw_claimed_at := Some (as_now a s)\<rparr>"
  have fin: "find_row i (approvals (finish_resume a i t)) = Some row' \<Longrightarrow> \<not> claimable stale now row'"
    for t row' stale now
    using assms(1) by (auto simp: finish_resume_def mark_resumed_def claimable_def)
  show ?thesis
  proof (cases "claimable resume_stale (as_now a s) row")
    case False
    with assms show ?thesis by (simp add: resume_decided_def claim_resume_def)
  next
    case True
    define s1 where "s1 = on_approvals (\<lambda>_. update_row i ?f (approvals s)) s"
    obtain ok s2 where m: "resuming_exec (as_exec a) (aw_exec r) s1 = (Inr ok, s2)"
      using assms(1) by (cases "mark_resuming (aw_exec r) (xs_db s1)") (simp add: resuming_exec_def)
    have r: "resume_decided a i r s = (if ok then resume_claimed a i r s2 else finish_resume a i s2)"
      using assms True m by (simp add: resume_decided_def claim_resume_def s1_def)
    define u1 where
      "u1 = (case read_exec (as_exec a) (aw_exec r) s2 of Inr so \<Rightarrow> sync_run a so s2 | Inl e \<Rightarrow> s2)"
    obtain result u2 where run: "resume_run (as_executor a) (as_uuid_text a) empty_ctx
        (approval_of i r (decider_name a (aw_decided_by r) u1)) u1 = (result, u2)"
      by fastforce
    obtain t where t: "resume_claimed a i r s2 = finish_resume a i t"
      unfolding resume_claimed_def Let_def u1_def [symmetric] run prod.case by blast
    have "\<not> ok \<and> xs_db s2 = xs_db s \<and> xs_rollups s2 = xs_rollups s"
      if "exec_status (aw_exec r) (xs_db s) \<notin> {Some st_awaiting, Some st_running}"
      using m that assms(1)
      by (auto simp: resuming_exec_def mark_resuming_def s1_def exec_status_def split: option.splits if_splits)
    moreover have "xs_db (finish_resume a i u) = xs_db u \<and> xs_rollups (finish_resume a i u) = xs_rollups u" for u
      using assms(1) by (simp add: finish_resume_def)
    ultimately show ?thesis
      using True fin r t by (metis (full_types))
  qed
qed

theorem resume_decided_exclusive_witness:
  "resume_decided demo_approval_service 7 (the (find_row 7 demo_appr_db)) demo_appr_sys = demo_appr_sys"
proof -
  define row where "row = the (find_row 7 demo_appr_db)"
  have row: "find_row 7 (approvals demo_appr_sys) = Some row" "aw_status row = ap_pending"
    by (simp_all add: row_def demo_appr_sys_def approvals_def demo_appr_db_def create_approval_def
        find_row_def)
  have ok: "\<forall>s op. as_fault demo_approval_service s op = None"
    by (simp add: demo_approval_service_def)
  from resume_decided_exclusive [OF ok row(1), of "the (find_row 7 demo_appr_db)"] row(2) show ?thesis
    by (simp add: claimable_def)
qed

text \<open>
  the caps of a policy end with the first segment of a run. The context a run is started with
  holds the policy's caps, so its calls are limited to the token cap; the context its resumption
  gets holds none: no call is limited and the spend check never ends the run, for any executor,
  loop state and world, whatever the policy.
\<close>

lemma resumed_run_uncapped:
  assumes "se_max_tokens st > 0" and "se_max_tokens st < n" and "se_max_cost st > 0"
  shows "cap_tokens (run_ctx (run_context st cx) org agent) n = se_max_tokens st
    \<and> ro_max_cost (run_options_from (run_ctx (run_context st cx) org agent)) = se_max_cost st
    \<and> cap_tokens (run_ctx empty_ctx org agent) n = n
    \<and> cost_cap_exceeded ex (run_ctx empty_ctx org agent) ls w = None"
  using assms
  by (simp add: run_context_def cap_tokens_def run_ctx_def with_run_options_def run_options_from_def
      cost_cap_exceeded_def empty_ctx_def Let_def)

definition demo_started :: started_exec where
  "demo_started =
     \<lparr>se_id = 5, se_agent = demo_agent, se_org = 1, se_agent_id = 3, se_started = 10,
      se_request = \<lparr>rq_prompt = ''hi'', rq_provider = None, rq_model = None, rq_engine = None,
        rq_skills = []\<rparr>, se_tools = [], se_engine = engine_go_native, se_max_tokens = 100,
      se_max_cost = 1\<rparr>"

end
