(* ===== verification/ApprovalRecovery.thy ===== *)
theory ApprovalRecovery
  imports ApprovalService
begin

text \<open>
  The approval flow under concurrency: any number of deciders, resume workers and recovery passes, on
  any number of replicas, over one approvals table. A worker is a goroutine of
  \<open>resumeInBackground\<close>; its database calls are the statements of the repository, each one atomic
  step. A worker may die at any point (a panic, a killed process), a write may fail. Time passes
  only while every live worker is within its timeouts: \<open>resume_timeout\<close> for the run and
  \<open>persist_timeout\<close> for writing its outcome, which is what the contexts of the source enforce.
  \<open>rs_started\<close> and \<open>rs_lost\<close> are ghosts: how often the run of an approval was resumed, and how often
  the worker running it ended without marking it resumed.
\<close>

datatype worker_phase = Spawned | Claimed int | Running int

record worker =
  wk_approval :: uuid
  wk_phase :: worker_phase
  wk_spawned :: int

record recovery_sys =
  rs_now :: int
  rs_db :: appr_db
  rs_workers :: "worker list"
  rs_started :: "uuid \<Rightarrow> nat"
  rs_lost :: "uuid \<Rightarrow> nat"

definition spawn_worker :: "int \<Rightarrow> uuid \<Rightarrow> worker" where
  "spawn_worker now i = \<lparr>wk_approval = i, wk_phase = Spawned, wk_spawned = now\<rparr>"

definition worker_deadline :: "worker \<Rightarrow> int" where
  "worker_deadline k = wk_spawned k + resume_timeout + persist_timeout"

fun lost_of :: "worker \<Rightarrow> (uuid \<Rightarrow> nat) \<Rightarrow> uuid \<Rightarrow> nat" where
  "lost_of k lost =
     (case wk_phase k of
        Running c \<Rightarrow> lost(wk_approval k := Suc (lost (wk_approval k)))
      | _ \<Rightarrow> lost)"

text \<open>
  The steps. \<open>claim\<close>, \<open>start\<close>, \<open>skip\<close>, \<open>finish\<close> are those of \<open>resumeDecided\<close> in its order.
\<close>

inductive recovery_step :: "recovery_sys \<Rightarrow> recovery_sys \<Rightarrow> bool" where
  create: "find_row i (rs_db s) = None \<Longrightarrow>
     recovery_step s (s\<lparr>rs_db := create_approval i org exec agent tool input state (rs_now s) (rs_db s)\<rparr>)"
| decide: "status \<in> {ap_approved, ap_rejected} \<Longrightarrow>
     update_decision i status reason decider (rs_now s) (rs_db s) = (None, db) \<Longrightarrow>
     recovery_step s (s\<lparr>rs_db := db, rs_workers := spawn_worker (rs_now s) i # rs_workers s\<rparr>)"
| recover:
    "recovery_step s (s\<lparr>rs_workers :=
       map (spawn_worker (rs_now s) \<circ> fst) (list_unresumed resume_stale recovery_batch (rs_now s) (rs_db s))
       @ rs_workers s\<rparr>)"
| claim: "rs_workers s = ks @ k # ks' \<Longrightarrow> wk_phase k = Spawned \<Longrightarrow>
     claim_resume (wk_approval k) resume_stale (rs_now s) (rs_db s) = (True, db) \<Longrightarrow>
     recovery_step s (s\<lparr>rs_db := db,
       rs_workers := ks @ k\<lparr>wk_phase := Claimed (rs_now s)\<rparr> # ks'\<rparr>)"
| no_claim: "rs_workers s = ks @ k # ks' \<Longrightarrow> wk_phase k = Spawned \<Longrightarrow>
     claim_resume (wk_approval k) resume_stale (rs_now s) (rs_db s) = (False, db) \<Longrightarrow>
     recovery_step s (s\<lparr>rs_db := db, rs_workers := ks @ ks'\<rparr>)"
| start: "rs_workers s = ks @ k # ks' \<Longrightarrow> wk_phase k = Claimed c \<Longrightarrow>
     recovery_step s (s\<lparr>rs_workers := ks @ k\<lparr>wk_phase := Running c\<rparr> # ks',
       rs_started := (rs_started s)(wk_approval k := Suc (rs_started s (wk_approval k)))\<rparr>)"
| skip: "rs_workers s = ks @ k # ks' \<Longrightarrow> wk_phase k = Claimed c \<Longrightarrow>
     recovery_step s (s\<lparr>rs_db := mark_resumed (wk_approval k) (rs_now s) (rs_db s),
       rs_workers := ks @ ks'\<rparr>)"
| finish: "rs_workers s = ks @ k # ks' \<Longrightarrow> wk_phase k = Running c \<Longrightarrow>
     recovery_step s (s\<lparr>rs_db := mark_resumed (wk_approval k) (rs_now s) (rs_db s),
       rs_workers := ks @ ks'\<rparr>)"
| die: "rs_workers s = ks @ k # ks' \<Longrightarrow>
     recovery_step s (s\<lparr>rs_workers := ks @ ks', rs_lost := lost_of k (rs_lost s)\<rparr>)"
| tick: "d \<ge> 0 \<Longrightarrow> (\<forall>k \<in> set (rs_workers s). rs_now s + d \<le> worker_deadline k) \<Longrightarrow>
     recovery_step s (s\<lparr>rs_now := rs_now s + d\<rparr>)"

inductive_cases recovery_stepE: "recovery_step s t"

definition initial_recovery :: "int \<Rightarrow> recovery_sys" where
  "initial_recovery now =
     \<lparr>rs_now = now, rs_db = \<lparr>ad_rows = [], ad_rules = []\<rparr>, rs_workers = [],
      rs_started = (\<lambda>_. 0), rs_lost = (\<lambda>_. 0)\<rparr>"

inductive recovery_reachable :: "recovery_sys \<Rightarrow> bool" where
  init: "recovery_reachable (initial_recovery now)"
| step: "recovery_reachable s \<Longrightarrow> recovery_step s t \<Longrightarrow> recovery_reachable t"

section \<open>The invariant\<close>

definition holds_claim :: "uuid \<Rightarrow> worker \<Rightarrow> bool" where
  "holds_claim i k \<longleftrightarrow> wk_approval k = i \<and> wk_phase k \<noteq> Spawned"

definition runs_resume :: "uuid \<Rightarrow> worker \<Rightarrow> bool" where
  "runs_resume i k \<longleftrightarrow> wk_approval k = i \<and> (\<exists>c. wk_phase k = Running c)"

fun claim_time :: "worker_phase \<Rightarrow> int option" where
  "claim_time Spawned = None"
| "claim_time (Claimed c) = Some c"
| "claim_time (Running c) = Some c"

text \<open>
  For one approval \<open>i\<close>: at most one worker holds its claim; the row of a held claim carries that
  claim, is decided and not resumed; starts are accounted for by losses, the running worker and the
  row's end; an undecided approval has no claim, no end and no start.
\<close>

definition row_resumed :: "uuid \<Rightarrow> appr_db \<Rightarrow> bool" where
  "row_resumed i db = (case find_row i db of Some r \<Rightarrow> aw_resumed_at r \<noteq> None | None \<Rightarrow> False)"

definition row_claim :: "uuid \<Rightarrow> appr_db \<Rightarrow> int option" where
  "row_claim i db = (case find_row i db of Some r \<Rightarrow> aw_claimed_at r | None \<Rightarrow> None)"

definition row_decided :: "uuid \<Rightarrow> appr_db \<Rightarrow> bool" where
  "row_decided i db = (case find_row i db of Some r \<Rightarrow> aw_status r \<noteq> ap_pending | None \<Rightarrow> False)"

definition holders :: "uuid \<Rightarrow> worker list \<Rightarrow> worker list" where
  "holders i ks = filter (holds_claim i) ks"

definition runners :: "uuid \<Rightarrow> worker list \<Rightarrow> nat" where
  "runners i ks = length (filter (runs_resume i) ks)"

definition approval_inv :: "uuid \<Rightarrow> recovery_sys \<Rightarrow> bool" where
  "approval_inv i s \<longleftrightarrow>
     length (holders i (rs_workers s)) \<le> 1
     \<and> (\<forall>k \<in> set (holders i (rs_workers s)).
          row_decided i (rs_db s) \<and> \<not> row_resumed i (rs_db s)
          \<and> row_claim i (rs_db s) = claim_time (wk_phase k)
          \<and> (\<forall>c. claim_time (wk_phase k) = Some c \<longrightarrow> wk_spawned k \<le> c))
     \<and> rs_started s i \<le> rs_lost s i + runners i (rs_workers s) + of_bool (row_resumed i (rs_db s))
     \<and> (\<not> row_decided i (rs_db s) \<longrightarrow>
          row_claim i (rs_db s) = None \<and> \<not> row_resumed i (rs_db s) \<and> rs_started s i = 0)"

definition workers_in_time :: "recovery_sys \<Rightarrow> bool" where
  "workers_in_time s \<longleftrightarrow>
     (\<forall>k \<in> set (rs_workers s). wk_spawned k \<le> rs_now s \<and> rs_now s \<le> worker_deadline k)"

lemma holders_simps [simp]:
  "holders i [] = []"
  "holders i (k # ks) = (if holds_claim i k then k # holders i ks else holders i ks)"
  "holders i (ks @ ks') = holders i ks @ holders i ks'"
  by (simp_all add: holders_def)

lemma runners_simps [simp]:
  "runners i [] = 0"
  "runners i (k # ks) = of_bool (runs_resume i k) + runners i ks"
  "runners i (ks @ ks') = runners i ks + runners i ks'"
  by (simp_all add: runners_def)

lemma spawned_inert [simp]:
  "holders i (map (spawn_worker now \<circ> f) xs) = []"
  "runners i (map (spawn_worker now \<circ> f) xs) = 0"
  "\<not> holds_claim i (spawn_worker now j)" "\<not> runs_resume i (spawn_worker now j)"
  by (induction xs) (simp_all add: spawn_worker_def holds_claim_def runs_resume_def)

lemma row_simps [simp]:
  "row_resumed i (mark_resumed j t db)
     = (if i = j then find_row i db \<noteq> None else row_resumed i db)"
  "row_claim i (mark_resumed j t db) = row_claim i db"
  "row_decided i (mark_resumed j t db) = row_decided i db"
  by (simp_all add: mark_resumed_def row_resumed_def row_claim_def row_decided_def split: option.split)

lemma row_decided_exists: "row_decided i db \<Longrightarrow> \<exists>r. find_row i db = Some r"
  by (simp add: row_decided_def split: option.splits)

lemma row_create [simp]:
  assumes "find_row j db = None"
  shows "row_resumed i (create_approval j org e ag tool inp st now db) = row_resumed i db"
    and "row_claim i (create_approval j org e ag tool inp st now db) = row_claim i db"
    and "row_decided i (create_approval j org e ag tool inp st now db) = row_decided i db"
  using assms
  by (auto simp: create_approval_def row_resumed_def row_claim_def row_decided_def find_row_def
      map_add_def ap_pending_def split: option.splits)

lemma row_claimed:
  assumes "claim_resume j stale now db = (True, db')"
  shows "row_resumed i db' = row_resumed i db" "row_decided i db' = row_decided i db"
    "row_claim i db' = (if i = j then Some now else row_claim i db)"
    "row_decided j db" "\<not> row_resumed j db"
    "row_claim j db = None \<or> (\<exists>c. row_claim j db = Some c \<and> c < now - stale)"
proof -
  obtain r where r: "find_row j db = Some r" "claimable stale now r"
    and db': "db' = update_row j (\<lambda>r. r\<lparr>aw_claimed_at := Some now\<rparr>) db"
    using assms by (auto simp: claim_resume_True)
  show "row_resumed i db' = row_resumed i db" "row_decided i db' = row_decided i db"
    "row_claim i db' = (if i = j then Some now else row_claim i db)"
    using r(1) by (simp_all add: db' row_resumed_def row_decided_def row_claim_def)
  show "row_decided j db" "\<not> row_resumed j db"
    using r by (simp_all add: row_resumed_def row_decided_def claimable_def)
  show "row_claim j db = None \<or> (\<exists>c. row_claim j db = Some c \<and> c < now - stale)"
    using r by (simp add: row_claim_def claimable_def split: option.splits)
qed

lemma row_update_decision:
  assumes "update_decision j st rsn by now db = (None, db')" and "st \<noteq> ap_pending"
  shows "row_resumed i db' = row_resumed i db" "row_claim i db' = row_claim i db"
    "row_decided i db' = (i = j \<or> row_decided i db)" "\<not> row_decided j db"
proof -
  obtain r where r: "find_row j db = Some r" "aw_status r = ap_pending"
    using assms(1) by (simp add: update_decision_def split: option.splits if_splits)
  define f :: "appr_row \<Rightarrow> appr_row" where "f = (\<lambda>r. r\<lparr>aw_status := st, aw_reason := (if rsn \<noteq> [] then Some rsn else None),
               aw_decided_by := Some by, aw_decided_at := Some now\<rparr>)"
  have f: "aw_resumed_at (f r) = aw_resumed_at r" "aw_claimed_at (f r) = aw_claimed_at r"
    "aw_status (f r) = st" for r
    by (simp_all add: f_def)
  have "db' = update_row j f db"
    using assms(1) r by (simp add: update_decision_def f_def)
  then show "row_resumed i db' = row_resumed i db" "row_claim i db' = row_claim i db"
    "row_decided i db' = (i = j \<or> row_decided i db)" "\<not> row_decided j db"
    using r assms(2) by (simp_all add: row_resumed_def row_decided_def row_claim_def f)
qed

lemma row_decided_update:
  assumes "update_decision j st rsn by now db = (None, db')" and "row_decided i db"
  shows "find_row i db' = find_row i db"
proof -
  obtain r where r: "find_row j db = Some r" "aw_status r = ap_pending"
    using assms(1) by (simp add: update_decision_def split: option.splits if_splits)
  with assms(2) have "i \<noteq> j" by (auto simp: row_decided_def)
  with assms(1) r show ?thesis by (auto simp: update_decision_def)
qed

section \<open>Preservation\<close>

lemma holders_length_le:
  "length (holders i (ks @ ks')) \<le> length (holders i (ks @ k # ks'))"
  "set (holders i (ks @ ks')) \<subseteq> set (holders i (ks @ k # ks'))"
  by auto

lemma holders_unique:
  assumes "length (holders i (ks @ k # ks')) \<le> 1" and "holds_claim i k"
  shows "holders i ks = []" "holders i ks' = []"
  using assms by simp_all

lemma runs_holds: "runs_resume i k \<Longrightarrow> holds_claim i k"
  by (auto simp: runs_resume_def holds_claim_def)

lemma runners_le_holders: "runners i ks \<le> length (holders i ks)"
  by (induction ks) (auto simp: runs_holds)

text \<open>A claim is never taken over from a live worker: its claim is younger than the stale window.\<close>

lemma live_claim_not_stale:
  assumes "approval_inv i s" and "workers_in_time s" and "k \<in> set (rs_workers s)" and "holds_claim i k"
    and "claim_resume i resume_stale (rs_now s) (rs_db s) = (True, db)"
  shows False
proof -
  have k: "k \<in> set (holders i (rs_workers s))"
    using assms(3,4) by (simp add: holders_def)
  obtain c where c: "claim_time (wk_phase k) = Some c"
    using assms(4) by (cases "wk_phase k") (auto simp: holds_claim_def)
  have "row_claim i (rs_db s) = Some c" "wk_spawned k \<le> c"
    using assms(1) k c by (auto simp: approval_inv_def)
  moreover have "rs_now s \<le> wk_spawned k + resume_timeout + persist_timeout"
    using assms(2,3) by (auto simp: workers_in_time_def worker_deadline_def)
  ultimately show False
    using row_claimed(6) [OF assms(5)]
    by (auto simp: resume_stale_def resume_timeout_def persist_timeout_def)
qed

lemma workers_in_time_step:
  assumes "recovery_step s t" and "workers_in_time s"
  shows "workers_in_time t"
  using assms
proof (cases rule: recovery_step.cases)
  case (tick d)
  with assms(2) show ?thesis by (auto simp: workers_in_time_def)
qed (auto simp: workers_in_time_def worker_deadline_def spawn_worker_def resume_timeout_def
      persist_timeout_def)

lemma approval_inv_remove:
  assumes inv: "approval_inv i s" and ws: "rs_workers s = ks @ k # ks'"
    and "rs_lost s i + of_bool (runs_resume i k) \<le> lost i"
  shows "approval_inv i (s\<lparr>rs_workers := ks @ ks', rs_lost := lost\<rparr>)"
  using assms holders_length_le [of i ks ks' k]
  by (auto simp: approval_inv_def split: if_splits)

lemma approval_inv_resumed:
  assumes inv: "approval_inv i s" and ws: "rs_workers s = ks @ k # ks'" and c: "holds_claim (wk_approval k) k"
  shows "approval_inv i (s\<lparr>rs_db := mark_resumed (wk_approval k) t (rs_db s), rs_workers := ks @ ks'\<rparr>)"
proof (cases "wk_approval k = i")
  case True
  have h: "holds_claim i k" and le: "length (holders i (ks @ k # ks')) \<le> 1"
    using inv ws c True by (auto simp: approval_inv_def)
  have e: "holders i ks = []" "holders i ks' = []"
    using holders_unique [OF le h] by auto
  have k: "k \<in> set (holders i (rs_workers s))"
    using ws h by simp
  have dec: "row_decided i (rs_db s)" and nr: "\<not> row_resumed i (rs_db s)"
    using inv k by (auto simp: approval_inv_def)
  obtain r where "find_row i (rs_db s) = Some r"
    using row_decided_exists [OF dec] by blast
  moreover have "runners i ks = 0" "runners i ks' = 0"
    using runners_le_holders [of i ks] runners_le_holders [of i ks'] e by simp_all
  moreover have "rs_started s i \<le> rs_lost s i + 1"
    using inv ws calculation nr by (simp add: approval_inv_def of_bool_def split: if_splits)
  ultimately show ?thesis
    using inv dec True e by (simp add: approval_inv_def)
next
  case False
  then have "\<not> holds_claim i k" "\<not> runs_resume i k"
    by (auto simp: holds_claim_def runs_resume_def)
  with inv ws False show ?thesis by (simp add: approval_inv_def)
qed

lemma approval_inv_step:
  assumes step: "recovery_step s t" and inv: "approval_inv i s" and time: "workers_in_time s"
  shows "approval_inv i t"
  using step
proof (cases rule: recovery_step.cases)
  case (create j org exec agent tool input state)
  with inv show ?thesis by (simp add: approval_inv_def)
next
  case (decide status j reason decider db)
  have st: "status \<noteq> ap_pending"
    using decide(2) by (auto simp: ap_pending_def ap_approved_def ap_rejected_def)
  note row = row_update_decision [OF decide(3) st]
  show ?thesis
    using inv row(4) unfolding decide(1) by (auto simp: approval_inv_def row(1,2,3))
next
  case recover
  with inv show ?thesis by (simp add: approval_inv_def)
next
  case (claim ks k ks' db)
  note row = row_claimed [OF claim(4)]
  show ?thesis
  proof (cases "wk_approval k = i")
    case True
    have none: "holders i (rs_workers s) = []"
      using live_claim_not_stale [OF inv time _ _ claim(4) [unfolded True]]
      by (fastforce simp: holders_def filter_empty_conv)
    have "wk_spawned k \<le> rs_now s"
      using time claim(2) by (auto simp: workers_in_time_def)
    moreover have "runs_resume i (k\<lparr>wk_phase := Claimed (rs_now s)\<rparr>) = False" "runs_resume i k = False"
      using claim(3) by (simp_all add: runs_resume_def)
    ultimately show ?thesis
      using inv none row True claim(2) unfolding claim(1)
      by (simp add: approval_inv_def holds_claim_def split: if_splits)
  next
    case False
    then have "\<not> holds_claim i k" "\<not> holds_claim i (k\<lparr>wk_phase := Claimed (rs_now s)\<rparr>)"
      "\<not> runs_resume i k" "\<not> runs_resume i (k\<lparr>wk_phase := Claimed (rs_now s)\<rparr>)"
      by (auto simp: holds_claim_def runs_resume_def)
    with False show ?thesis
      using inv row(1,2,3) [of i] claim(2) unfolding claim(1) by (simp add: approval_inv_def)
  qed
next
  case (no_claim ks k ks' db)
  have "db = rs_db s"
    using claim_resume_False [OF no_claim(4)] .
  moreover have "\<not> runs_resume i k"
    using no_claim(3) by (simp add: runs_resume_def)
  ultimately show ?thesis
    using approval_inv_remove [OF inv no_claim(2), of "rs_lost s"] unfolding no_claim(1) by simp
next
  case (start ks k ks' c)
  have "holds_claim j (k\<lparr>wk_phase := Running c\<rparr>) = holds_claim j k" for j
    using start(3) by (simp add: holds_claim_def)
  moreover have "\<not> runs_resume i k" "runs_resume i (k\<lparr>wk_phase := Running c\<rparr>) = (wk_approval k = i)"
    using start(3) by (simp_all add: runs_resume_def)
  moreover have "row_decided i (rs_db s)" if "wk_approval k = i"
    using inv start(2,3) that by (auto simp: approval_inv_def holds_claim_def)
  ultimately show ?thesis
    using inv start(2,3) unfolding start(1)
    by (auto simp: approval_inv_def)
next
  case (skip ks k ks' c)
  show ?thesis
    unfolding skip(1) using skip(3) by (intro approval_inv_resumed [OF inv skip(2)]) (simp add: holds_claim_def)
next
  case (finish ks k ks' c)
  show ?thesis
    unfolding finish(1) using finish(3)
    by (intro approval_inv_resumed [OF inv finish(2)]) (simp add: holds_claim_def)
next
  case (die ks k ks')
  show ?thesis
    unfolding die(1)
    by (intro approval_inv_remove [OF inv die(2)])
       (auto simp: runs_resume_def split: worker_phase.split)
next
  case (tick d)
  with inv show ?thesis by (simp add: approval_inv_def)
qed

lemma reachable_inv:
  assumes "recovery_reachable s"
  shows "approval_inv i s \<and> workers_in_time s"
  using assms
proof induction
  case (init now)
  then show ?case
    by (simp add: initial_recovery_def approval_inv_def workers_in_time_def row_resumed_def
        row_claim_def row_decided_def find_row_def)
next
  case (step s t)
  then show ?case using approval_inv_step workers_in_time_step by blast
qed

definition same_decision :: "appr_row \<Rightarrow> appr_row \<Rightarrow> bool" where
  "same_decision r r' \<longleftrightarrow>
     aw_status r' = aw_status r \<and> aw_reason r' = aw_reason r \<and> aw_decided_by r' = aw_decided_by r
     \<and> aw_decided_at r' = aw_decided_at r \<and> aw_resume_state r' = aw_resume_state r
     \<and> (aw_resumed_at r \<noteq> None \<longrightarrow> aw_resumed_at r' \<noteq> None)"

lemma decision_kept_step:
  assumes "recovery_step s t" and r: "find_row i (rs_db s) = Some r" and "aw_status r \<noteq> ap_pending"
  shows "\<exists>r'. find_row i (rs_db t) = Some r' \<and> same_decision r r'"
  using assms(1)
proof (cases rule: recovery_step.cases)
  case (create j org exec agent tool input state)
  with r show ?thesis
    by (simp add: create_approval_def find_row_def same_decision_def)
next
  case (decide status j reason decider db)
  have "row_decided i (rs_db s)" using assms(2,3) by (simp add: row_decided_def)
  from row_decided_update [OF decide(3) this] decide(1) r show ?thesis
    by (simp add: same_decision_def)
next
  case (claim ks k ks' db)
  from claim(4) obtain r2 where
    "db = update_row (wk_approval k) (\<lambda>r. r\<lparr>aw_claimed_at := Some (rs_now s)\<rparr>) (rs_db s)"
    by (auto simp: claim_resume_True)
  with claim(1) r show ?thesis
    by (cases "i = wk_approval k") (simp_all add: same_decision_def)
next
  case (no_claim ks k ks' db)
  with claim_resume_False [OF no_claim(4)] r show ?thesis by (simp add: same_decision_def)
next
  case (skip ks k ks' c)
  with r show ?thesis by (cases "i = wk_approval k") (simp_all add: mark_resumed_def same_decision_def)
next
  case (finish ks k ks' c)
  with r show ?thesis by (cases "i = wk_approval k") (simp_all add: mark_resumed_def same_decision_def)
qed (use r in \<open>simp_all add: same_decision_def\<close>)

section \<open>Properties\<close>

text \<open>
  C3: under any interleaving of deciders, workers, recovery passes, crashes and failed writes, at most
  one worker at a time runs the resumption of an approval; a run is resumed at most once, and once
  more only for each worker that ended without marking it resumed; and only a decided one is.
\<close>

theorem resumed_at_most_once:
  assumes "recovery_reachable s"
  shows "length (filter (runs_resume i) (rs_workers s)) \<le> 1
    \<and> rs_started s i \<le> rs_lost s i + 1
    \<and> (rs_started s i > 0 \<longrightarrow> row_decided i (rs_db s))"
proof -
  have inv: "approval_inv i s" using reachable_inv [OF assms] by blast
  then have "runners i (rs_workers s) \<le> 1"
    using runners_le_holders [of i "rs_workers s"] by (simp add: approval_inv_def)
  moreover have "runners i (rs_workers s) = 0" if "row_resumed i (rs_db s)"
    using inv that runners_le_holders [of i "rs_workers s"]
    by (cases "holders i (rs_workers s)") (auto simp: approval_inv_def)
  ultimately show ?thesis
    using inv by (cases "row_resumed i (rs_db s)") (auto simp: approval_inv_def runners_def)
qed

definition demo_decided :: appr_db where
  "demo_decided = snd (update_decision 7 ap_approved [] 20 0 demo_appr_db)"

lemma demo_resume_reachable:
  "\<exists>s. recovery_reachable s \<and> rs_started s 7 = 1 \<and> runners 7 (rs_workers s) = 1"
proof -
  let ?s0 = "initial_recovery 0"
  let ?s1 = "?s0\<lparr>rs_db := create_approval 7 1 5 3 ''send'' [] JNull 0 (rs_db ?s0)\<rparr>"
  have 1: "recovery_step ?s0 ?s1"
    using recovery_step.create [of 7 ?s0 1 5 3 "''send''" "[]" JNull]
    by (simp add: initial_recovery_def find_row_def)
  obtain db where d: "update_decision 7 ap_approved [] 20 0 (rs_db ?s1) = (None, db)"
    by (simp add: initial_recovery_def update_decision_def create_approval_def find_row_def)
  let ?s2 = "?s1\<lparr>rs_db := db, rs_workers := spawn_worker 0 7 # rs_workers ?s1\<rparr>"
  have 2: "recovery_step ?s1 ?s2"
    using recovery_step.decide [of ap_approved 7 "[]" 20 ?s1 db] d by (simp add: initial_recovery_def)
  have "row_claim 7 (rs_db ?s1) = None" "\<not> row_resumed 7 (rs_db ?s1)"
    by (simp_all add: initial_recovery_def create_approval_def row_claim_def row_resumed_def find_row_def)
  with row_update_decision [OF d] have "row_claim 7 db = None" "\<not> row_resumed 7 db" "row_decided 7 db"
    by (simp_all add: ap_approved_def ap_pending_def)
  then obtain db' where c: "claim_resume 7 resume_stale 0 db = (True, db')"
    by (auto simp: claim_resume_def row_claim_def row_resumed_def row_decided_def claimable_def
        split: option.splits)
  let ?k = "spawn_worker 0 7"
  let ?s3 = "?s2\<lparr>rs_db := db', rs_workers := [?k\<lparr>wk_phase := Claimed 0\<rparr>]\<rparr>"
  have 3: "recovery_step ?s2 ?s3"
    using recovery_step.claim [of ?s2 "[]" ?k "[]" db'] c
    by (simp add: initial_recovery_def spawn_worker_def)
  let ?s4 = "?s3\<lparr>rs_workers := [?k\<lparr>wk_phase := Running 0\<rparr>], rs_started := (rs_started ?s3)(7 := 1)\<rparr>"
  have 4: "recovery_step ?s3 ?s4"
    using recovery_step.start [of ?s3 "[]" "?k\<lparr>wk_phase := Claimed 0\<rparr>" "[]" 0]
    by (simp add: initial_recovery_def spawn_worker_def)
  have "recovery_reachable ?s4"
    by (rule recovery_reachable.step [OF recovery_reachable.step [OF recovery_reachable.step
          [OF recovery_reachable.step [OF recovery_reachable.init 1] 2] 3] 4])
  moreover have "runs_resume 7 (?k\<lparr>wk_phase := Running 0\<rparr>)"
    by (simp add: runs_resume_def spawn_worker_def)
  ultimately show ?thesis by (intro exI [of _ ?s4]) simp
qed

theorem resumed_at_most_once_witness:
  "\<exists>s. recovery_reachable s \<and> rs_started s 7 = 1 \<and> row_decided 7 (rs_db s)"
proof -
  obtain s where "recovery_reachable s" "rs_started s 7 = 1"
    using demo_resume_reachable by blast
  with resumed_at_most_once [of s 7] show ?thesis by auto
qed

text \<open>
  a decision is final: whatever happens after it, the approval keeps its status, reason, decider,
  time of decision and stored state, and once resumed it stays resumed.
\<close>

lemma decision_is_final:
  assumes "recovery_step\<^sup>*\<^sup>* s t" and "find_row i (rs_db s) = Some r" and "aw_status r \<noteq> ap_pending"
  shows "\<exists>r'. find_row i (rs_db t) = Some r' \<and> same_decision r r'"
  using assms(1)
proof induction
  case base
  then show ?case using assms(2) by (simp add: same_decision_def)
next
  case (step u t)
  then obtain r' where r': "find_row i (rs_db u) = Some r'" "same_decision r r'" by blast
  then have "aw_status r' \<noteq> ap_pending" using assms(3) by (simp add: same_decision_def)
  from decision_kept_step [OF step(2) r'(1) this] r'(2) show ?case
    by (auto simp: same_decision_def)
qed

lemma demo_decided_row: "\<exists>r. find_row 7 demo_decided = Some r \<and> aw_status r = ap_approved"
  by (simp add: demo_decided_def demo_appr_db_def create_approval_def update_decision_def find_row_def
      update_row_def)

end
