(* ===== verification/Workflow.thy ===== *)
theory Workflow
  imports ExecService
begin

text \<open>
  \<open>workflow/dag.go\<close>: the engine that runs the steps of a workflow along their dependencies, and what
  \<open>service/workflow_service.go\<close> and \<open>repository/workflow_repository.go\<close> store of a workflow and of a
  run. \<open>Execute\<close> is a loop that starts goroutines; its state and theirs are \<open>dag_state\<close>, and each
  transition of \<open>dag_step\<close> is what one of them does between two accesses to shared state (the
  channel of ready steps, the outputs and the counters under the mutex).
\<close>

record wf_step =
  ws_id :: uuid
  ws_name :: string
  ws_agent :: uuid
  ws_template :: string
  ws_depends :: "string list"
  ws_engine :: string

section \<open>Storing a workflow\<close>

text \<open>
  \<open>insertSteps\<close>: every dependency must name a step of the workflow, and the primary key of
  \<open>workflow_step_deps\<close> refuses a step that lists one twice. Nothing else is checked of the graph, and
  nothing of the names: neither the code nor the schema of \<open>workflow_steps\<close> asks them to differ. Among
  rows of one name the lookup is taken to return the same row each time.
\<close>

fun insert_deps :: "string list \<Rightarrow> string list \<Rightarrow> string list \<Rightarrow> go_err option" where
  "insert_deps names linked [] = None"
| "insert_deps names linked (d # ds) =
     (if d \<notin> set names then
        Some (ErrWrap (''workflow_repo: resolve dependency step '' @ quote d @ '': '')
                    (ErrText ''no rows in result set''))
      else if d \<in> set linked then
        Some (ErrWrap ''workflow_repo: insert step dependency: ''
                    (ErrText ''duplicate key value violates unique constraint''))
      else insert_deps names (d # linked) ds)"

fun insert_links :: "string list \<Rightarrow> wf_step list \<Rightarrow> go_err option" where
  "insert_links names [] = None"
| "insert_links names (s # ss) =
     (case insert_deps names [] (ws_depends s) of
        Some e \<Rightarrow> Some e
      | None \<Rightarrow> insert_links names ss)"

definition insert_steps :: "wf_step list \<Rightarrow> go_err + wf_step list" where
  "insert_steps steps =
     (case insert_links (map ws_name steps) steps of Some e \<Rightarrow> Inl e | None \<Rightarrow> Inr steps)"

section \<open>Rendering a prompt\<close>

text \<open>
  \<open>renderTemplate\<close> ranges over two maps; the order of a range is the list's. \<open>show_any\<close> is the text
  \<open>fmt\<close> gives a value.
\<close>

definition input_marker :: "string \<Rightarrow> string" where
  "input_marker k = ''{{.Input.'' @ k @ ''}}''"

definition output_marker :: "string \<Rightarrow> string" where
  "output_marker n = ''{{.Outputs.'' @ n @ ''}}''"

definition render_template ::
  "(json \<Rightarrow> string) \<Rightarrow> string \<Rightarrow> obj \<Rightarrow> (string \<times> string) list \<Rightarrow> string" where
  "render_template show_any tmpl input outputs =
     fold (\<lambda>(n, out) t. replace_all t (output_marker n) out) outputs
       (fold (\<lambda>(k, v) t. replace_all t (input_marker k) (show_any v)) input tmpl)"

section \<open>What a step does\<close>

record 'w dag_env =
  de_resolve :: "uuid \<Rightarrow> 'w \<Rightarrow> (go_err + agent) \<times> 'w"
  de_tools :: "uuid \<Rightarrow> 'w \<Rightarrow> (go_err + string list) \<times> 'w"
  de_started :: "uuid \<Rightarrow> agent \<Rightarrow> wf_step \<Rightarrow> string \<Rightarrow> 'w \<Rightarrow> 'w"
  de_completed :: "uuid \<Rightarrow> run_result \<Rightarrow> 'w \<Rightarrow> 'w"
  de_launch :: "(agent \<Rightarrow> string \<Rightarrow> obj \<Rightarrow> 'w \<Rightarrow> (go_err + string) option \<times> 'w) option"
  de_router :: "'w engine_router"
  de_fresh :: "'w \<Rightarrow> uuid"

definition step_error :: "wf_step \<Rightarrow> string \<Rightarrow> go_err \<Rightarrow> go_err" where
  "step_error s what e = ErrWrap (''step '' @ quote (ws_name s) @ '': '' @ what) e"

definition launch_result :: "go_err + string \<Rightarrow> run_result" where
  "launch_result lr =
     (case lr of
        Inl e \<Rightarrow> error_result e
      | Inr out \<Rightarrow> (error_result (ErrText []))\<lparr>rr_err := None, rr_final := out\<rparr>)"

definition engine_step ::
  "'w dag_env \<Rightarrow> go_ctx \<Rightarrow> wf_step \<Rightarrow> agent \<Rightarrow> uuid \<Rightarrow> string \<Rightarrow> string list \<Rightarrow> 'w
    \<Rightarrow> (go_err + string) \<times> 'w" where
  "engine_step env cx s ag i prompt tools w =
     (let (res, w1) = runner_for (de_router env) (resolve_engine ag None (ws_engine s)) cx i ag prompt tools w;
          w2 = de_completed env i res w1
      in (case rr_err res of
            Some e \<Rightarrow> Inl (step_error s ''agent execution failed: '' e)
          | None \<Rightarrow> Inr (rr_final res), w2))"

text \<open>
  The body of a step's goroutine from the rendered prompt to its output or error. The builtin
  launcher is \<^const>\<open>None\<close> when it does not handle the agent.
\<close>

definition run_step ::
  "'w dag_env \<Rightarrow> go_ctx \<Rightarrow> obj \<Rightarrow> wf_step \<Rightarrow> string \<Rightarrow> 'w \<Rightarrow> (go_err + string) \<times> 'w" where
  "run_step env cx input s prompt w =
     (case de_resolve env (ws_agent s) w of
        (Inl e, w1) \<Rightarrow> (Inl (step_error s ''resolve agent: '' e), w1)
      | (Inr ag, w1) \<Rightarrow>
          (let (tr, w2) = de_tools env (ws_agent s) w1;
               tools = (case tr of Inl e \<Rightarrow> [] | Inr ts \<Rightarrow> ts);
               i = de_fresh env w2;
               w3 = de_started env i ag s prompt w2
           in case de_launch env of
                None \<Rightarrow> engine_step env cx s ag i prompt tools w3
              | Some launch \<Rightarrow>
                  (case launch ag prompt input w3 of
                     (None, w4) \<Rightarrow> engine_step env cx s ag i prompt tools w4
                   | (Some lr, w4) \<Rightarrow>
                       (case lr of
                          Inl e \<Rightarrow> Inl (step_error s ''specialist launch failed: '' e)
                        | Inr out \<Rightarrow> Inr out,
                        de_completed env i (launch_result lr) w4))))"

section \<open>The scheduler\<close>

definition by_name :: "wf_step list \<Rightarrow> string \<Rightarrow> wf_step option" where
  "by_name steps = map_of (rev (map (\<lambda>s. (ws_name s, s)) steps))"

text \<open>\<open>dependents[dep]\<close>: a step once for each time it lists the dependency.\<close>

definition dependents :: "wf_step list \<Rightarrow> string \<Rightarrow> string list" where
  "dependents steps d =
     concat (map (\<lambda>s. map (\<lambda>_. ws_name s) (filter (\<lambda>x. x = d) (ws_depends s))) steps)"

definition initial_pending :: "wf_step list \<Rightarrow> string \<Rightarrow> int" where
  "initial_pending steps =
     foldl (\<lambda>m s. m(ws_name s := int (length (ws_depends s)))) (\<lambda>_. 0) steps"

fun unblock :: "string list \<Rightarrow> (string \<Rightarrow> int) \<times> string list \<Rightarrow> (string \<Rightarrow> int) \<times> string list" where
  "unblock [] pr = pr"
| "unblock (n # ns) (pending, ready) =
     unblock ns (pending(n := pending n - 1),
       if pending n - 1 = 0 then ready @ [n] else ready)"

text \<open>
  A step's goroutine: started; with its copy of the outputs; with its output or error in hand; and,
  that recorded, about to unblock its dependents.
\<close>

datatype dag_task =
    Started wf_step
  | Rendered wf_step "string \<rightharpoonup> string"
  | Answered wf_step "go_err + string"
  | Recorded wf_step

fun task_step :: "dag_task \<Rightarrow> wf_step" where
  "task_step (Started s) = s"
| "task_step (Rendered s m) = s"
| "task_step (Answered s r) = s"
| "task_step (Recorded s) = s"

record dag_state =
  dg_ready :: "string list"
  dg_pending :: "string \<Rightarrow> int"
  dg_outputs :: "string \<rightharpoonup> string"
  dg_errs :: "go_err list"
  dg_remaining :: nat
  dg_tasks :: "dag_task list"
  dg_cancelled :: bool
  dg_launched :: "string list"
  dg_done :: "string list"
  dg_seen :: "(wf_step \<times> (string \<rightharpoonup> string)) list"

text \<open>The last three components are ghosts: the history of starts, of ends and of copies.\<close>

definition dag_init :: "wf_step list \<Rightarrow> dag_state" where
  "dag_init steps =
     \<lparr>dg_ready = map ws_name (filter (\<lambda>s. ws_depends s = []) steps),
      dg_pending = initial_pending steps, dg_outputs = Map.empty, dg_errs = [],
      dg_remaining = length steps, dg_tasks = [], dg_cancelled = False, dg_launched = [],
      dg_done = [], dg_seen = []\<rparr>"

definition dag_unblock :: "wf_step list \<Rightarrow> string \<Rightarrow> dag_state \<Rightarrow> dag_state" where
  "dag_unblock steps n st =
     (let pr = unblock (dependents steps n) (dg_pending st, dg_ready st)
      in st\<lparr>dg_pending := fst pr, dg_ready := snd pr\<rparr>)"

text \<open>
  An outcome \<open>outcome s m r\<close> is one that a run of step \<open>s\<close>, its prompt rendered from the copy \<open>m\<close>, can
  have. \<open>cancel\<close> is the context's end, which the loop sees only while steps are not yet started.
\<close>

inductive dag_step ::
  "(wf_step \<Rightarrow> (string \<rightharpoonup> string) \<Rightarrow> go_err + string \<Rightarrow> bool) \<Rightarrow> wf_step list \<Rightarrow> dag_state \<Rightarrow> dag_state \<Rightarrow> bool"
  for outcome steps where
  launch: "\<not> dg_cancelled st \<Longrightarrow> dg_remaining st > 0 \<Longrightarrow> dg_ready st = n # ns \<Longrightarrow>
     by_name steps n = Some s \<Longrightarrow>
     dag_step outcome steps st (st\<lparr>dg_ready := ns, dg_remaining := dg_remaining st - 1,
       dg_tasks := dg_tasks st @ [Started s], dg_launched := dg_launched st @ [n]\<rparr>)"
| copy: "dg_tasks st = ts @ Started s # ts' \<Longrightarrow>
     dag_step outcome steps st (st\<lparr>dg_tasks := ts @ Rendered s (dg_outputs st) # ts',
       dg_seen := (s, dg_outputs st) # dg_seen st\<rparr>)"
| answer: "dg_tasks st = ts @ Rendered s m # ts' \<Longrightarrow> outcome s m r \<Longrightarrow>
     dag_step outcome steps st (st\<lparr>dg_tasks := ts @ Answered s r # ts'\<rparr>)"
| record_error: "dg_tasks st = ts @ Answered s (Inl e) # ts' \<Longrightarrow>
     dag_step outcome steps st (st\<lparr>dg_tasks := ts @ Recorded s # ts', dg_errs := dg_errs st @ [e]\<rparr>)"
| record_output: "dg_tasks st = ts @ Answered s (Inr out) # ts' \<Longrightarrow>
     dag_step outcome steps st (st\<lparr>dg_tasks := ts @ Recorded s # ts',
       dg_outputs := (dg_outputs st)(ws_name s \<mapsto> out)\<rparr>)"
| finish: "dg_tasks st = ts @ Recorded s # ts' \<Longrightarrow>
     dag_step outcome steps st
       (dag_unblock steps (ws_name s) (st\<lparr>dg_tasks := ts @ ts', dg_done := ws_name s # dg_done st\<rparr>))"
| cancel: "dg_remaining st > 0 \<Longrightarrow>
     dag_step outcome steps st (st\<lparr>dg_cancelled := True\<rparr>)"

inductive_cases dag_stepE: "dag_step outcome steps st st'"

text \<open>
  What \<open>Execute\<close> returns: nothing while it is in its loop or waits for its goroutines, the outputs
  and the context's error once cancelled, else the outputs with the collected errors.
\<close>

definition dag_result :: "string \<Rightarrow> go_err \<Rightarrow> dag_state \<Rightarrow> ((string \<rightharpoonup> string) \<times> go_err option) option" where
  "dag_result name ctx_err st =
     (if dg_cancelled st then Some (dg_outputs st, Some ctx_err)
      else if dg_remaining st > 0 \<or> dg_tasks st \<noteq> [] then None
      else if dg_errs st = [] then Some (dg_outputs st, None)
      else Some (dg_outputs st, Some (ErrText (''workflow '' @ quote name @ '' encountered errors: ''
             @ join ''; '' (map err_text (dg_errs st))))))"

section \<open>A run's record\<close>

record wf_run =
  wr_status :: string
  wr_outputs :: "string \<rightharpoonup> string"
  wr_error :: "string option"
  wr_completed :: "int option"

text \<open>\<open>runAsync\<close> after \<open>Execute\<close> has returned.\<close>

definition complete_run :: "int \<Rightarrow> (string \<rightharpoonup> string) \<times> go_err option \<Rightarrow> wf_run \<Rightarrow> wf_run" where
  "complete_run now res run =
     (let run = run\<lparr>wr_completed := Some now, wr_outputs := fst res\<rparr>
      in (case snd res of
            Some e \<Rightarrow> run\<lparr>wr_status := ''failed'', wr_error := Some (err_text e)\<rparr>
          | None \<Rightarrow> run\<lparr>wr_status := ''completed''\<rparr>))"

text \<open>\<open>Execute\<close> of the service: the run it records before the engine starts.\<close>

record workflow =
  wf_org :: uuid
  wf_name :: string
  wf_steps :: "wf_step list"

definition execute_workflow ::
  "(uuid \<Rightarrow> string) \<Rightarrow> (uuid \<Rightarrow> workflow option) \<Rightarrow> go_err option \<Rightarrow> uuid \<Rightarrow> uuid \<Rightarrow> go_err + workflow \<times> wf_run" where
  "execute_workflow uuid_text store create_fault wid org =
     (case store wid of
        None \<Rightarrow> Inl (ErrWrap ''workflow_svc: load workflow: '' (ErrText ''no rows in result set''))
      | Some flow \<Rightarrow>
          if wf_org flow \<noteq> org then
            Inl (ErrText (''workflow_svc: workflow '' @ uuid_text wid @ '' is not in this org''))
          else (case create_fault of
                  Some e \<Rightarrow> Inl (ErrWrap ''workflow_svc: create run record: '' e)
                | None \<Rightarrow> Inr (flow, \<lparr>wr_status = ''running'', wr_outputs = Map.empty, wr_error = None,
                                 wr_completed = None\<rparr>)))"

text \<open>The engine's persister on the executions table.\<close>

definition dag_started :: "uuid \<Rightarrow> agent \<Rightarrow> uuid \<Rightarrow> string \<Rightarrow> int \<Rightarrow> exec_db \<Rightarrow> exec_db" where
  "dag_started i ag org prompt now db =
     mark_started i now (create_exec i (ag_id ag) org prompt [] db)"

definition dag_completed :: "uuid \<Rightarrow> run_result \<Rightarrow> int \<Rightarrow> exec_db \<Rightarrow> exec_db" where
  "dag_completed i r now db = persist_result i r now db"

section \<open>Lemmas\<close>

lemma insert_deps_iff:
  "insert_deps names linked ds = None
     \<longleftrightarrow> set ds \<subseteq> set names \<and> distinct ds \<and> set ds \<inter> set linked = {}"
  by (induction ds arbitrary: linked) auto

lemma insert_links_iff:
  "insert_links names ss = None
     \<longleftrightarrow> (\<forall>s \<in> set ss. set (ws_depends s) \<subseteq> set names \<and> distinct (ws_depends s))"
proof (induction ss)
  case (Cons s ss)
  then show ?case
    using insert_deps_iff [of names "[]" "ws_depends s"] by (auto split: option.split)
qed simp

lemma insert_steps_iff:
  "insert_steps steps = Inr steps
     \<longleftrightarrow> (\<forall>s \<in> set steps. set (ws_depends s) \<subseteq> ws_name ` set steps \<and> distinct (ws_depends s))"
  using insert_links_iff [of "map ws_name steps" steps] by (auto simp: insert_steps_def split: option.split)

text \<open>The steps of a name. The engine's maps keep the last of them; \<open>sole\<close> says that there is one only.\<close>

definition named :: "wf_step list \<Rightarrow> string \<Rightarrow> wf_step list" where
  "named steps n = filter (\<lambda>s. ws_name s = n) steps"

definition sole :: "wf_step list \<Rightarrow> string \<Rightarrow> bool" where
  "sole steps n \<longleftrightarrow> count_list (map ws_name steps) n = 1"

lemma length_named: "length (named steps n) = count_list (map ws_name steps) n"
  by (induction steps) (auto simp: named_def)

lemma named_sole: "sole steps (ws_name s) \<Longrightarrow> s \<in> set steps \<Longrightarrow> named steps (ws_name s) = [s]"
proof -
  assume "sole steps (ws_name s)" "s \<in> set steps"
  then have "length (named steps (ws_name s)) = 1" "s \<in> set (named steps (ws_name s))"
    by (simp_all add: length_named sole_def) (simp add: named_def)
  then show ?thesis by (cases "named steps (ws_name s)") auto
qed

lemma sole_distinct: "distinct (map ws_name steps) \<Longrightarrow> n \<in> ws_name ` set steps \<Longrightarrow> sole steps n"
  unfolding sole_def by (induction steps) auto

lemma sole_named: "sole steps n \<Longrightarrow> \<exists>s \<in> set steps. ws_name s = n"
  by (metis count_notin image_iff list.set_map sole_def zero_neq_one)

lemma by_name_named: "by_name steps n = (if named steps n = [] then None else Some (last (named steps n)))"
proof (induction steps rule: rev_induct)
  case (snoc s steps)
  then show ?case by (simp add: by_name_def named_def)
qed (simp add: by_name_def named_def)

lemma by_name_sole: "sole steps (ws_name s) \<Longrightarrow> s \<in> set steps \<Longrightarrow> by_name steps (ws_name s) = Some s"
  by (simp add: by_name_named named_sole)

lemma by_name_Some: "by_name steps n = Some s \<Longrightarrow> s \<in> set steps \<and> ws_name s = n"
  by (auto simp: by_name_def dest!: map_of_SomeD)

lemma initial_pending_named:
  "initial_pending steps n
     = (if named steps n = [] then 0 else int (length (ws_depends (last (named steps n)))))"
proof (induction steps rule: rev_induct)
  case (snoc s steps)
  then show ?case by (simp add: initial_pending_def named_def)
qed (simp add: initial_pending_def named_def)

text \<open>Unblocking counts every listing down, and makes a name ready when its count passes zero.\<close>

lemma unblock_spec:
  "\<exists>new. unblock ds (p, r) = (\<lambda>n. p n - int (count_list ds n), r @ new)
     \<and> (\<forall>n. count_list new n = (if 0 < p n \<and> p n \<le> int (count_list ds n) then 1 else 0))"
proof (induction ds arbitrary: p r)
  case Nil
  then show ?case by auto
next
  case (Cons d ds)
  let ?p = "p(d := p d - 1)" and ?r = "if p d - 1 = 0 then r @ [d] else r"
  from Cons.IH [of ?p ?r] obtain new where
    new: "unblock ds (?p, ?r) = (\<lambda>n. ?p n - int (count_list ds n), ?r @ new)"
      "\<forall>n. count_list new n = (if 0 < ?p n \<and> ?p n \<le> int (count_list ds n) then 1 else 0)"
    by blast
  have "(\<lambda>n. ?p n - int (count_list ds n)) = (\<lambda>n. p n - int (count_list (d # ds) n))"
    by (auto simp: fun_eq_iff)
  moreover have "count_list ((if p d - 1 = 0 then [d] else []) @ new) n
      = (if 0 < p n \<and> p n \<le> int (count_list (d # ds) n) then 1 else 0)" for n
    using new(2) [rule_format, of n] by (cases "n = d") auto
  ultimately show ?case
    using new(1) by (intro exI [of _ "(if p d - 1 = 0 then [d] else []) @ new"]) auto
qed

lemma count_list_const: "count_list (map (\<lambda>_. c) xs) n = (if n = c then length xs else 0)"
  by (induction xs) auto

lemma length_filter_eq_count: "length (filter (\<lambda>x. x = d) xs) = count_list xs d"
  by (induction xs) auto

lemma count_dependents:
  "count_list (dependents steps d) n = sum_list (map (\<lambda>s. count_list (ws_depends s) d) (named steps n))"
  by (induction steps) (simp_all add: dependents_def named_def count_list_const length_filter_eq_count)

text \<open>How often the ends recorded in \<open>ends\<close> have counted a step's dependencies down.\<close>

definition fed :: "string list \<Rightarrow> wf_step \<Rightarrow> nat" where
  "fed ends s = sum_list (map (count_list ends) (ws_depends s))"

lemma fed_Nil [simp]: "fed [] s = 0"
  by (simp add: fed_def)

lemma fed_Cons: "fed (d # ends) s = fed ends s + count_list (ws_depends s) d"
proof -
  have "sum_list (map (count_list (d # ends)) ds) = sum_list (map (count_list ends) ds) + count_list ds d"
    for ds by (induction ds) auto
  then show ?thesis by (simp add: fed_def)
qed

lemma fed_all:
  assumes "int (length (ws_depends s)) \<le> int (fed ends s)"
    and "\<forall>d \<in> set (ws_depends s). count_list ends d \<le> 1"
  shows "set (ws_depends s) \<subseteq> set ends"
proof -
  have "\<forall>d \<in> set ds. count_list ends d \<le> 1 \<Longrightarrow> sum_list (map (count_list ends) ds) \<le> length ds
      \<and> (length ds \<le> sum_list (map (count_list ends) ds) \<longrightarrow> set ds \<subseteq> set ends)" for ds
  proof (induction ds)
    case (Cons d ds)
    then show ?case by (cases "d \<in> set ends") auto
  qed simp
  with assms show ?thesis by (simp add: fed_def)
qed

lemma fed_full:
  assumes "set (ws_depends s) \<subseteq> set ends"
  shows "length (ws_depends s) \<le> fed ends s"
proof -
  have "set ds \<subseteq> set ends \<Longrightarrow> length ds \<le> sum_list (map (count_list ends) ds)" for ds
  proof (induction ds)
    case (Cons d ds)
    moreover have "count_list ends d \<noteq> 0" using Cons.prems by (simp add: count_list_0_iff)
    ultimately show ?case by simp
  qed simp
  with assms show ?thesis by (simp add: fed_def)
qed

text \<open>Two lists, one nowhere counting more than the other.\<close>

lemma count_length_eq:
  assumes "\<forall>n. count_list xs n \<le> count_list ys n" and "length xs = length ys"
  shows "count_list xs n = count_list ys n"
proof (rule ccontr)
  assume "count_list xs n \<noteq> count_list ys n"
  with assms(1) have lt: "count_list xs n < count_list ys n" by (simp add: order_le_neq_trans)
  let ?X = "set xs \<union> set ys"
  have "n \<in> ?X" using lt by (metis UnI2 count_notin not_less_zero)
  then have "sum (count_list xs) ?X < sum (count_list ys) ?X"
    using assms(1) lt by (intro sum_strict_mono_ex1) auto
  moreover have "sum (count_list zs) ?X = length zs" if "set zs \<subseteq> ?X" for zs
    using that by (rule sum_count_set) simp
  ultimately show False using assms(2) by simp
qed

end
