(* ===== verification/WorkflowProps.thy ===== *)
theory WorkflowProps
  imports Workflow
begin

text \<open>
  What every state of the workflow engine keeps, whatever the order its goroutines run in, and what
  follows: dependencies are respected, an acyclic workflow ends, a cyclic one never does.
\<close>

section \<open>The invariant\<close>

definition dag_reachable ::
  "(wf_step \<Rightarrow> (string \<rightharpoonup> string) \<Rightarrow> go_err + string \<Rightarrow> bool) \<Rightarrow> wf_step list \<Rightarrow> dag_state \<Rightarrow> bool" where
  "dag_reachable outcome steps st \<longleftrightarrow> (dag_step outcome steps)\<^sup>*\<^sup>* (dag_init steps) st"

abbreviation task_name :: "dag_task \<Rightarrow> string" where
  "task_name t \<equiv> ws_name (task_step t)"

text \<open>
  A name is started at most as often as there are steps of it. A step alone with its name waits for
  as many ends as it has dependencies, and is started or ready exactly when they have come.
\<close>

definition order_inv :: "wf_step list \<Rightarrow> dag_state \<Rightarrow> bool" where
  "order_inv steps st \<longleftrightarrow>
     (\<forall>n. count_list (dg_launched st @ dg_ready st) n + (if 0 < dg_pending st n then 1 else 0)
            \<le> count_list (map ws_name steps) n)
     \<and> (\<forall>s \<in> set steps. sole steps (ws_name s) \<longrightarrow>
          dg_pending st (ws_name s) = int (length (ws_depends s)) - int (fed (dg_done st) s)
          \<and> (ws_name s \<in> set (dg_launched st @ dg_ready st) \<longleftrightarrow> dg_pending st (ws_name s) \<le> 0))
     \<and> dg_remaining st + length (dg_launched st) = length steps"

definition task_inv :: "wf_step list \<Rightarrow> dag_state \<Rightarrow> bool" where
  "task_inv steps st \<longleftrightarrow>
     (\<forall>n. count_list (map task_name (dg_tasks st) @ dg_done st) n = count_list (dg_launched st) n)
     \<and> (\<forall>t \<in> set (dg_tasks st). by_name steps (task_name t) = Some (task_step t))"

definition apart :: "wf_step list \<Rightarrow> wf_step \<Rightarrow> bool" where
  "apart steps s \<longleftrightarrow> sole steps (ws_name s) \<and> (\<forall>d \<in> set (ws_depends s). sole steps d)"

definition output_inv :: "wf_step list \<Rightarrow> dag_state \<Rightarrow> bool" where
  "output_inv steps st \<longleftrightarrow>
     (\<forall>(s, m) \<in> set (dg_seen st). s \<in> set steps \<and> (apart steps s \<longrightarrow>
        set (ws_depends s) \<subseteq> set (dg_done st) \<and> (\<forall>d \<in> set (ws_depends s). m d = dg_outputs st d)))"

definition dag_inv :: "wf_step list \<Rightarrow> dag_state \<Rightarrow> bool" where
  "dag_inv steps st \<longleftrightarrow> order_inv steps st \<and> task_inv steps st \<and> output_inv steps st"

lemma launched_count: "order_inv steps st \<Longrightarrow> count_list (dg_launched st) n \<le> count_list (map ws_name steps) n"
  unfolding order_inv_def by (metis add_leD1 count_list_append)

lemma done_count: "task_inv steps st \<Longrightarrow> count_list (dg_done st) n \<le> count_list (dg_launched st) n"
  unfolding task_inv_def by (metis add.commute count_list_append le_add1)

lemma done_launched: "task_inv steps st \<Longrightarrow> set (dg_done st) \<subseteq> set (dg_launched st)"
  using done_count [of steps st] by (metis count_list_0_iff le_zero_eq subsetI)

lemma launched_deps_done:
  assumes inv: "order_inv steps st" "task_inv steps st" and s: "s \<in> set steps" "apart steps s"
    and l: "ws_name s \<in> set (dg_launched st)"
  shows "set (ws_depends s) \<subseteq> set (dg_done st)"
proof (rule fed_all)
  show "int (length (ws_depends s)) \<le> int (fed (dg_done st) s)"
    using inv(1) s l by (auto simp: order_inv_def apart_def)
  show "\<forall>d \<in> set (ws_depends s). count_list (dg_done st) d \<le> 1"
    using done_count [OF inv(2)] launched_count [OF inv(1)] s(2)
    by (metis apart_def le_trans sole_def)
qed

lemma task_launched:
  assumes "task_inv steps st" and "t \<in> set (dg_tasks st)"
  shows "task_step t \<in> set steps \<and> task_name t \<in> set (dg_launched st)"
proof -
  have "count_list (map task_name (dg_tasks st)) (task_name t) \<noteq> 0"
    using assms(2) by (simp add: count_list_0_iff)
  then have "count_list (dg_launched st) (task_name t) \<noteq> 0"
    using assms(1) unfolding task_inv_def by (metis add_is_0 count_list_append)
  with assms show ?thesis
    by (auto simp: task_inv_def count_list_0_iff dest: by_name_Some)
qed

text \<open>The goroutine of a step alone with its name runs before that name is done.\<close>

lemma task_not_done:
  assumes "order_inv steps st" and "task_inv steps st" and "t \<in> set (dg_tasks st)"
    and "sole steps (task_name t)"
  shows "task_name t \<notin> set (dg_done st)"
proof -
  have "count_list (map task_name (dg_tasks st)) (task_name t) \<noteq> 0"
    using assms(3) by (simp add: count_list_0_iff)
  moreover have "count_list (map task_name (dg_tasks st)) (task_name t)
      + count_list (dg_done st) (task_name t) \<le> 1"
    using launched_count [OF assms(1), of "task_name t"] assms(2,4)
    by (simp add: task_inv_def sole_def)
  ultimately show ?thesis by (simp add: count_list_0_iff [symmetric])
qed

lemma count_roots:
  "count_list (map ws_name (filter (\<lambda>s. ws_depends s = []) steps)) n
     = length (filter (\<lambda>s. ws_depends s = []) (named steps n))"
  by (induction steps) (auto simp: named_def)

lemma dag_inv_init: "dag_inv steps (dag_init steps)"
proof -
  have "count_list (dg_launched (dag_init steps) @ dg_ready (dag_init steps)) n
      + (if 0 < initial_pending steps n then 1 else 0) \<le> count_list (map ws_name steps) n" for n
  proof (cases "0 < initial_pending steps n")
    case True
    then have "named steps n \<noteq> []" "ws_depends (last (named steps n)) \<noteq> []"
      by (auto simp: initial_pending_named split: if_splits)
    then have "length (filter (\<lambda>s. ws_depends s = []) (named steps n)) < length (named steps n)"
      by (intro length_filter_less [of "last (named steps n)"]) simp_all
    with True show ?thesis by (simp add: dag_init_def count_roots length_named)
  next
    case False
    then show ?thesis
      using length_filter_le [of "\<lambda>s. ws_depends s = []" "named steps n"]
      by (simp add: dag_init_def count_roots length_named)
  qed
  moreover have "initial_pending steps (ws_name s) = int (length (ws_depends s))
      \<and> (ws_name s \<in> set (dg_ready (dag_init steps)) \<longleftrightarrow> initial_pending steps (ws_name s) \<le> 0)"
    if "s \<in> set steps" "sole steps (ws_name s)" for s
  proof -
    have "count_list (dg_ready (dag_init steps)) (ws_name s) = (if ws_depends s = [] then 1 else 0)"
      using that by (simp add: dag_init_def count_roots named_sole)
    then have "ws_name s \<in> set (dg_ready (dag_init steps)) \<longleftrightarrow> ws_depends s = []"
      by (metis count_list_0_iff zero_neq_one)
    with that show ?thesis by (simp add: initial_pending_named named_sole)
  qed
  ultimately show ?thesis
    by (simp add: dag_inv_def order_inv_def task_inv_def output_inv_def dag_init_def)
qed

text \<open>A step that only moves one goroutine on keeps what is known of the order and of the tasks.\<close>

lemma task_moves:
  assumes "dg_tasks st = ts @ t # ts'" and "dag_inv steps st" and "task_step u = task_step t"
    and "dg_ready st' = dg_ready st" and "dg_pending st' = dg_pending st"
    and "dg_launched st' = dg_launched st" and "dg_done st' = dg_done st"
    and "dg_remaining st' = dg_remaining st" and "dg_tasks st' = ts @ u # ts'"
  shows "order_inv steps st' \<and> task_inv steps st'"
  using assms by (simp add: dag_inv_def order_inv_def task_inv_def)

lemma order_inv_finish:
  assumes inv: "order_inv steps st"
  shows "order_inv steps (dag_unblock steps n (st\<lparr>dg_tasks := ts, dg_done := n # dg_done st\<rparr>))"
proof -
  let ?ds = "dependents steps n" and ?p = "dg_pending st"
  from unblock_spec [of ?ds ?p "dg_ready st"] obtain new where
    new: "unblock ?ds (?p, dg_ready st) = (\<lambda>m. ?p m - int (count_list ?ds m), dg_ready st @ new)"
      "\<And>m. count_list new m = (if 0 < ?p m \<and> ?p m \<le> int (count_list ?ds m) then 1 else 0)"
    by blast
  have "count_list (dg_launched st @ dg_ready st @ new) m
      + (if 0 < ?p m - int (count_list ?ds m) then 1 else 0) \<le> count_list (map ws_name steps) m" for m
  proof -
    have "count_list (dg_launched st) m + count_list (dg_ready st) m + (if 0 < ?p m then 1 else 0)
        \<le> count_list (map ws_name steps) m"
      using inv by (simp add: order_inv_def del: of_nat_add)
    with new(2) [of m] show ?thesis by (cases "0 < ?p m") auto
  qed
  moreover have "?p (ws_name s) - int (count_list ?ds (ws_name s))
        = int (length (ws_depends s)) - int (fed (n # dg_done st) s)
      \<and> (ws_name s \<in> set (dg_launched st @ dg_ready st @ new)
          \<longleftrightarrow> ?p (ws_name s) - int (count_list ?ds (ws_name s)) \<le> 0)"
    if s: "s \<in> set steps" "sole steps (ws_name s)" for s
  proof -
    have d: "count_list ?ds (ws_name s) = count_list (ws_depends s) n"
      using s by (simp add: count_dependents named_sole)
    have "ws_name s \<in> set new \<longleftrightarrow> 0 < ?p (ws_name s) \<and> ?p (ws_name s) \<le> int (count_list ?ds (ws_name s))"
      using new(2) [of "ws_name s"] by (metis count_list_0_iff zero_neq_one)
    with inv s d show ?thesis
      by (auto simp: order_inv_def fed_Cons)
  qed
  ultimately show ?thesis
    using inv new(1) by (simp add: order_inv_def dag_unblock_def Let_def)
qed

lemma dag_inv_step:
  assumes step: "dag_step outcome steps st st'" and inv: "dag_inv steps st"
  shows "dag_inv steps st'"
  using step
proof (cases rule: dag_step.cases)
  case (launch n ns s)
  have s: "by_name steps n = Some s" "ws_name s = n"
    using launch(5) by_name_Some [OF launch(5)] by auto
  have "order_inv steps st'" "output_inv steps st'"
    using inv launch(1-4) by (auto simp: dag_inv_def order_inv_def output_inv_def)
  moreover have "task_inv steps st'"
    using inv launch(1) s by (auto simp: dag_inv_def task_inv_def)
  ultimately show ?thesis by (simp add: dag_inv_def)
next
  case (copy ts s ts')
  have t: "s \<in> set steps" "ws_name s \<in> set (dg_launched st)"
    using task_launched [of steps st "Started s"] inv copy(2) by (auto simp: dag_inv_def)
  then have "apart steps s \<Longrightarrow> set (ws_depends s) \<subseteq> set (dg_done st)"
    using launched_deps_done [OF _ _ t(1) _ t(2)] inv by (simp add: dag_inv_def)
  moreover have "order_inv steps st' \<and> task_inv steps st'"
    by (rule task_moves [OF copy(2) inv, of "Rendered s (dg_outputs st)"]) (simp_all add: copy(1))
  ultimately show ?thesis
    using inv t copy(1) by (simp add: dag_inv_def output_inv_def)
next
  case (answer ts s m ts' r)
  have "order_inv steps st' \<and> task_inv steps st'"
    by (rule task_moves [OF answer(2) inv, of "Answered s r"]) (simp_all add: answer(1))
  with inv answer(1) show ?thesis by (simp add: dag_inv_def output_inv_def)
next
  case (record_error ts s e ts')
  have "order_inv steps st' \<and> task_inv steps st'"
    by (rule task_moves [OF record_error(2) inv, of "Recorded s"]) (simp_all add: record_error(1))
  with inv record_error(1) show ?thesis by (simp add: dag_inv_def output_inv_def)
next
  case (record_output ts s out ts')
  have "order_inv steps st' \<and> task_inv steps st'"
    by (rule task_moves [OF record_output(2) inv, of "Recorded s"]) (simp_all add: record_output(1))
  moreover have "ws_name s \<notin> set (dg_done st)" if "sole steps (ws_name s)"
    using task_not_done [of steps st "Answered s (Inr out)"] that inv record_output(2)
    by (auto simp: dag_inv_def)
  then have "output_inv steps st'"
    using inv record_output(1) unfolding dag_inv_def output_inv_def apart_def
    by (clarsimp split: prod.splits) (metis (no_types, lifting) case_prodD subsetD)
  ultimately show ?thesis by (simp add: dag_inv_def)
next
  case (finish ts s ts')
  have "order_inv steps st'"
    unfolding finish(1) using inv by (intro order_inv_finish) (simp add: dag_inv_def)
  moreover have "count_list (map task_name (ts @ ts') @ ws_name s # dg_done st) n
      = count_list (map task_name (dg_tasks st) @ dg_done st) n" for n
    by (simp add: finish(2))
  then have "task_inv steps st'"
    using inv finish unfolding dag_inv_def task_inv_def by (simp add: dag_unblock_def Let_def)
  moreover have "output_inv steps st'"
    using inv finish(1) by (fastforce simp: dag_inv_def output_inv_def dag_unblock_def Let_def)
  ultimately show ?thesis by (simp add: dag_inv_def)
next
  case cancel
  with inv show ?thesis by (simp add: dag_inv_def order_inv_def task_inv_def output_inv_def)
qed

lemma dag_inv_steps: "(dag_step outcome steps)\<^sup>*\<^sup>* st st' \<Longrightarrow> dag_inv steps st \<Longrightarrow> dag_inv steps st'"
  by (induction rule: rtranclp_induct) (auto intro: dag_inv_step)

lemma dag_reachable_inv: "dag_reachable outcome steps st \<Longrightarrow> dag_inv steps st"
  unfolding dag_reachable_def by (rule dag_inv_steps [OF _ dag_inv_init])

section \<open>Progress and termination\<close>

text \<open>What is left to do: five transitions for a step not yet started.\<close>

fun task_weight :: "dag_task \<Rightarrow> nat" where
  "task_weight (Started s) = 4"
| "task_weight (Rendered s m) = 3"
| "task_weight (Answered s r) = 2"
| "task_weight (Recorded s) = 1"

definition dag_measure :: "dag_state \<Rightarrow> nat" where
  "dag_measure st = 5 * dg_remaining st + sum_list (map task_weight (dg_tasks st))"

lemma dag_measure_step:
  assumes "dag_step outcome steps st st'"
  shows "dg_cancelled st' \<or> dag_measure st = Suc (dag_measure st')"
  using assms
proof (cases rule: dag_step.cases)
  case (launch n ns s)
  then show ?thesis by (cases "dg_remaining st") (simp_all add: dag_measure_def)
qed (simp_all add: dag_measure_def dag_unblock_def Let_def)

lemma dag_cancelled_step: "dag_step outcome steps st st' \<Longrightarrow> dg_cancelled st \<Longrightarrow> dg_cancelled st'"
  by (induction rule: dag_step.induct) (simp_all add: dag_unblock_def Let_def)

lemma dag_measure_steps:
  assumes "((dag_step outcome steps) ^^ k) st st'" and "\<not> dg_cancelled st'"
  shows "dag_measure st = k + dag_measure st'"
  using assms
proof (induction k arbitrary: st')
  case (Suc k)
  then obtain u where u: "((dag_step outcome steps) ^^ k) st u" "dag_step outcome steps u st'" by auto
  then have "\<not> dg_cancelled u" using Suc.prems(2) dag_cancelled_step by blast
  from Suc.IH [OF u(1) this] dag_measure_step [OF u(2)] Suc.prems(2) show ?case by simp
qed simp

definition acyclic_steps :: "wf_step list \<Rightarrow> bool" where
  "acyclic_steps steps \<longleftrightarrow>
     (\<exists>rank :: string \<Rightarrow> nat. \<forall>s \<in> set steps. \<forall>d \<in> set (ws_depends s).
        d \<in> ws_name ` set steps \<and> rank d < rank (ws_name s))"

definition dag_finished :: "dag_state \<Rightarrow> bool" where
  "dag_finished st \<longleftrightarrow> dg_remaining st = 0 \<and> dg_tasks st = []"

lemma all_done:
  assumes inv: "dag_inv steps st" and fin: "dag_finished st"
  shows "set (dg_done st) = ws_name ` set steps"
proof -
  have "count_list (dg_launched st) n = count_list (map ws_name steps) n" for n
    using launched_count [of steps st] inv fin
    by (intro count_length_eq) (auto simp: dag_inv_def order_inv_def dag_finished_def)
  moreover have "count_list (dg_done st) n = count_list (dg_launched st) n" for n
    using inv fin by (simp add: dag_inv_def task_inv_def dag_finished_def)
  ultimately show ?thesis
    by (intro set_eqI) (metis count_list_0_iff list.set_map)
qed

lemma ready_when_idle:
  assumes dist: "distinct (map ws_name steps)" and ac: "acyclic_steps steps" and inv: "dag_inv steps st"
    and idle: "dg_tasks st = []" and left: "dg_remaining st > 0"
  shows "dg_ready st \<noteq> []"
proof
  assume none: "dg_ready st = []"
  obtain rank :: "string \<Rightarrow> nat" where rank: "\<And>s d. s \<in> set steps \<Longrightarrow> d \<in> set (ws_depends s) \<Longrightarrow>
      d \<in> ws_name ` set steps \<and> rank d < rank (ws_name s)"
    using ac by (auto simp: acyclic_steps_def)
  have l: "count_list (dg_done st) n = count_list (dg_launched st) n" for n
    using inv idle by (simp add: dag_inv_def task_inv_def)
  then have l': "set (dg_done st) = set (dg_launched st)"
    by (intro set_eqI) (metis count_list_0_iff)
  have "s \<in> set steps \<Longrightarrow> ws_name s \<in> set (dg_done st)" for s
  proof (induction "rank (ws_name s)" arbitrary: s rule: less_induct)
    case less
    have "set (ws_depends s) \<subseteq> set (dg_done st)"
    proof
      fix d
      assume d: "d \<in> set (ws_depends s)"
      then obtain t where "t \<in> set steps" "d = ws_name t" "rank (ws_name t) < rank (ws_name s)"
        using rank [OF less.prems d] by auto
      with less.hyps show "d \<in> set (dg_done st)" by blast
    qed
    then have "length (ws_depends s) \<le> fed (dg_done st) s" by (rule fed_full)
    moreover have "sole steps (ws_name s)" using dist less.prems by (simp add: sole_distinct)
    ultimately show ?case
      using inv less.prems none l' by (auto simp: dag_inv_def order_inv_def)
  qed
  then have "ws_name ` set steps \<subseteq> set (dg_launched st)"
    using l' by auto
  then have "length steps \<le> length (dg_launched st)"
    using dist by (metis card_length card_mono distinct_card finite_set length_map order_trans set_map)
  with inv left show False by (simp add: dag_inv_def order_inv_def)
qed

lemma task_progress:
  assumes total: "\<And>s m. \<exists>r. outcome s m r" and go: "\<not> dg_cancelled st" and t: "dg_tasks st = t # ts"
  shows "\<exists>st'. dag_step outcome steps st st' \<and> \<not> dg_cancelled st'"
proof -
  have e: "dg_tasks st = [] @ t # ts" by (simp add: t)
  show ?thesis
  proof (cases t)
    case (Started s)
    with e dag_step.copy [of st "[]" s ts outcome steps] go show ?thesis by fastforce
  next
    case (Rendered s m)
    obtain r where "outcome s m r" using total by blast
    with Rendered e dag_step.answer [of st "[]" s m ts outcome r steps] go show ?thesis by fastforce
  next
    case (Answered s r)
    show ?thesis
    proof (cases r)
      case (Inl x)
      with Answered e dag_step.record_error [of st "[]" s x ts outcome steps] go
      show ?thesis by fastforce
    next
      case (Inr x)
      with Answered e dag_step.record_output [of st "[]" s x ts outcome steps] go
      show ?thesis by fastforce
    qed
  next
    case (Recorded s)
    with e dag_step.finish [of st "[]" s ts outcome steps] go
    show ?thesis by (fastforce simp: dag_unblock_def Let_def)
  qed
qed

lemma dag_progress:
  assumes dist: "distinct (map ws_name steps)" and ac: "acyclic_steps steps" and inv: "dag_inv steps st"
    and total: "\<And>s m. \<exists>r. outcome s m r" and go: "\<not> dg_cancelled st" "\<not> dag_finished st"
  shows "\<exists>st'. dag_step outcome steps st st' \<and> \<not> dg_cancelled st'"
proof (cases "dg_tasks st")
  case Nil
  with go have left: "dg_remaining st > 0" by (simp add: dag_finished_def)
  obtain n ns where r: "dg_ready st = n # ns"
    using ready_when_idle [OF dist ac inv Nil left] by (cases "dg_ready st") auto
  have "count_list (dg_launched st @ dg_ready st) n \<le> count_list (map ws_name steps) n"
    using inv unfolding dag_inv_def order_inv_def by (metis add_leD1)
  with r have "count_list (map ws_name steps) n \<noteq> 0" by auto
  then obtain s where "by_name steps n = Some s"
    by (auto simp: by_name_named length_named [symmetric])
  with dag_step.launch [OF go(1) left r] go(1) show ?thesis by fastforce
next
  case (Cons t ts)
  show ?thesis by (rule task_progress [OF total go(1) Cons])
qed

section \<open>Single runs\<close>

text \<open>The goroutine of a step from its start to its end, with nothing running beside it.\<close>

lemma run_task:
  assumes "dg_tasks st = [Started s]" and "outcome s (dg_outputs st) (Inr out)"
  shows "(dag_step outcome steps)\<^sup>*\<^sup>* st (dag_unblock steps (ws_name s)
    (st\<lparr>dg_tasks := [], dg_outputs := (dg_outputs st)(ws_name s \<mapsto> out),
        dg_done := ws_name s # dg_done st, dg_seen := (s, dg_outputs st) # dg_seen st\<rparr>))"
proof -
  let ?a = "st\<lparr>dg_tasks := [Rendered s (dg_outputs st)], dg_seen := (s, dg_outputs st) # dg_seen st\<rparr>"
  let ?b = "?a\<lparr>dg_tasks := [Answered s (Inr out)]\<rparr>"
  let ?c = "?b\<lparr>dg_tasks := [Recorded s], dg_outputs := (dg_outputs st)(ws_name s \<mapsto> out)\<rparr>"
  have "dag_step outcome steps st ?a"
    using dag_step.copy [of st "[]" s "[]"] assms(1) by simp
  moreover have "dag_step outcome steps ?a ?b"
    using dag_step.answer [of ?a "[]" s "dg_outputs st" "[]" outcome "Inr out"] assms(2) by simp
  moreover have "dag_step outcome steps ?b ?c"
    using dag_step.record_output [of ?b "[]" s out "[]"] by simp
  moreover have "dag_step outcome steps ?c (dag_unblock steps (ws_name s)
      (?c\<lparr>dg_tasks := [], dg_done := ws_name s # dg_done st\<rparr>))"
    using dag_step.finish [of ?c "[]" s "[]"] by simp
  ultimately have "(dag_step outcome steps)\<^sup>*\<^sup>* st (dag_unblock steps (ws_name s)
      (?c\<lparr>dg_tasks := [], dg_done := ws_name s # dg_done st\<rparr>))"
    by (meson converse_rtranclp_into_rtranclp r_into_rtranclp)
  moreover have "?c\<lparr>dg_tasks := [], dg_done := ws_name s # dg_done st\<rparr>
      = st\<lparr>dg_tasks := [], dg_outputs := (dg_outputs st)(ws_name s \<mapsto> out),
        dg_done := ws_name s # dg_done st, dg_seen := (s, dg_outputs st) # dg_seen st\<rparr>"
    by (rule dag_state.equality) simp_all
  ultimately show ?thesis by (simp only:)
qed

text \<open>The loop takes a prefix of the ready names before any of the goroutines moves.\<close>

lemma launch_prefix:
  assumes "dg_ready st = ns @ rest" and "\<forall>n \<in> set ns. by_name steps n \<noteq> None"
    and "length ns \<le> dg_remaining st" and "\<not> dg_cancelled st"
  shows "\<exists>st'. (dag_step outcome steps)\<^sup>*\<^sup>* st st' \<and> dg_ready st' = rest \<and> dg_done st' = dg_done st
    \<and> \<not> dg_cancelled st' \<and> dg_remaining st' = dg_remaining st - length ns"
  using assms
proof (induction ns arbitrary: st)
  case (Cons n ns)
  then obtain s where s: "by_name steps n = Some s" by auto
  let ?u = "st\<lparr>dg_ready := ns @ rest, dg_remaining := dg_remaining st - 1,
       dg_tasks := dg_tasks st @ [Started s], dg_launched := dg_launched st @ [n]\<rparr>"
  have u: "dag_step outcome steps st ?u"
    using Cons.prems s by (intro dag_step.launch) auto
  have "\<exists>st'. (dag_step outcome steps)\<^sup>*\<^sup>* ?u st' \<and> dg_ready st' = rest \<and> dg_done st' = dg_done ?u
    \<and> \<not> dg_cancelled st' \<and> dg_remaining st' = dg_remaining ?u - length ns"
    using Cons.prems by (intro Cons.IH) auto
  then obtain st' where "(dag_step outcome steps)\<^sup>*\<^sup>* ?u st'" "dg_ready st' = rest"
    "dg_done st' = dg_done st" "\<not> dg_cancelled st'" "dg_remaining st' = dg_remaining st - length (n # ns)"
    by auto
  with u show ?case by (intro exI [of _ st']) (simp add: converse_rtranclp_into_rtranclp)
qed auto

lemma root_launched_early:
  assumes "s \<in> set steps" and "ws_depends s = []" and "by_name steps (ws_name s) = Some t"
  shows "\<exists>st. dag_reachable outcome steps st \<and> Started t \<in> set (dg_tasks st) \<and> dg_done st = []"
proof -
  let ?roots = "filter (\<lambda>s. ws_depends s = []) steps"
  have "ws_name s \<in> set (map ws_name ?roots)" using assms(1,2) by auto
  then obtain ns rest where r: "map ws_name ?roots = ns @ ws_name s # rest"
    by (meson split_list)
  then have "length ns + Suc (length rest) \<le> length steps"
    using length_filter_le [of "\<lambda>s. ws_depends s = []" steps]
    by (metis length_append length_Cons length_map)
  moreover have "\<forall>n \<in> set ns. by_name steps n \<noteq> None"
  proof
    fix n
    assume "n \<in> set ns"
    then have "n \<in> set (map ws_name ?roots)" using r by simp
    then show "by_name steps n \<noteq> None"
      by (auto simp: by_name_named named_def filter_empty_conv)
  qed
  ultimately obtain st where st: "(dag_step outcome steps)\<^sup>*\<^sup>* (dag_init steps) st"
    "dg_ready st = ws_name s # rest" "dg_done st = []" "\<not> dg_cancelled st" "0 < dg_remaining st"
    using launch_prefix [of "dag_init steps" ns "ws_name s # rest" steps outcome] r
    by (auto simp: dag_init_def)
  from dag_step.launch [OF st(4,5,2) assms(3), of outcome] st(1,3) show ?thesis
    unfolding dag_reachable_def
    by (intro exI [of _ "st\<lparr>dg_ready := rest, dg_remaining := dg_remaining st - 1,
       dg_tasks := dg_tasks st @ [Started t], dg_launched := dg_launched st @ [ws_name s]\<rparr>"])
      (simp add: rtranclp.rtrancl_into_rtrancl)
qed

section \<open>Properties\<close>

text \<open>
  C7: whatever order the goroutines of a workflow run in, a name is started at most as often as there
  are steps of it. A step that shares neither its own name nor that of a dependency with another step
  (\<open>apart\<close>) starts only after every step it depends on has ended, and the outputs its prompt is rendered
  from are, for those steps, the ones the workflow ends with. What names shared by several steps lead
  to is lemma \<open>shared_name_misdirects\<close> below.
\<close>

theorem dag_respects_dependencies:
  assumes "dag_reachable outcome steps st"
  shows "(\<forall>n. count_list (dg_launched st) n \<le> count_list (map ws_name steps) n)
    \<and> (\<forall>s \<in> set steps. apart steps s \<and> ws_name s \<in> set (dg_launched st) \<longrightarrow>
         set (ws_depends s) \<subseteq> set (dg_done st))
    \<and> (\<forall>(s, m) \<in> set (dg_seen st). apart steps s \<longrightarrow> (\<forall>d \<in> set (ws_depends s). m d = dg_outputs st d))"
proof -
  have inv: "order_inv steps st" "task_inv steps st" "output_inv steps st"
    using dag_reachable_inv [OF assms] by (simp_all add: dag_inv_def)
  moreover have "\<forall>s \<in> set steps. apart steps s \<and> ws_name s \<in> set (dg_launched st) \<longrightarrow>
      set (ws_depends s) \<subseteq> set (dg_done st)"
    using launched_deps_done [OF inv(1,2)] by blast
  ultimately show ?thesis
    using launched_count [OF inv(1)] unfolding output_inv_def by fast
qed

definition demo_wf_step :: "string \<Rightarrow> string list \<Rightarrow> wf_step" where
  "demo_wf_step n ds =
     \<lparr>ws_id = 1, ws_name = n, ws_agent = 3, ws_template = [], ws_depends = ds, ws_engine = []\<rparr>"

definition demo_chain :: "wf_step list" where
  "demo_chain = [demo_wf_step ''b'' [''a''], demo_wf_step ''a'' []]"

definition demo_started_chain :: dag_state where
  "demo_started_chain =
     (dag_init demo_chain)\<lparr>dg_ready := [], dg_remaining := 1,
        dg_tasks := [Started (demo_wf_step ''a'' [])], dg_launched := [''a'']\<rparr>"

lemma demo_chain_distinct: "distinct (map ws_name demo_chain)"
  by (simp add: demo_chain_def demo_wf_step_def)

lemma demo_chain_launch: "dag_step outcome demo_chain (dag_init demo_chain) demo_started_chain"
proof -
  have "by_name demo_chain ''a'' = Some (demo_wf_step ''a'' [])"
    by (simp add: by_name_def demo_chain_def demo_wf_step_def)
  with dag_step.launch [of "dag_init demo_chain" "''a''" "[]" demo_chain "demo_wf_step ''a'' []" outcome]
  show ?thesis
    by (simp add: demo_started_chain_def dag_init_def demo_chain_def demo_wf_step_def)
qed

text \<open>The chain once its first step has ended with the output \<open>x\<close> and its second has started.\<close>

definition demo_second_chain :: dag_state where
  "demo_second_chain =
     \<lparr>dg_ready = [], dg_pending = (initial_pending demo_chain)(''b'' := 0), dg_outputs = [''a'' \<mapsto> ''x''],
      dg_errs = [], dg_remaining = 0, dg_tasks = [Started (demo_wf_step ''b'' [''a''])],
      dg_cancelled = False, dg_launched = [''a'', ''b''], dg_done = [''a''],
      dg_seen = [(demo_wf_step ''a'' [], Map.empty)]\<rparr>"

lemma demo_second_reachable: "dag_reachable (\<lambda>s m r. True) demo_chain demo_second_chain"
proof -
  let ?o = "\<lambda>s m r. True" and ?a = "demo_wf_step ''a'' []"
  have b: "by_name demo_chain ''b'' = Some (demo_wf_step ''b'' [''a''])"
    by (simp add: by_name_def demo_chain_def demo_wf_step_def)
  have t: "dg_tasks demo_started_chain = [Started ?a]" by (simp add: demo_started_chain_def)
  let ?d = "dag_unblock demo_chain (ws_name ?a) (demo_started_chain\<lparr>dg_tasks := [],
      dg_outputs := (dg_outputs demo_started_chain)(ws_name ?a \<mapsto> ''x''),
      dg_done := ws_name ?a # dg_done demo_started_chain,
      dg_seen := (?a, dg_outputs demo_started_chain) # dg_seen demo_started_chain\<rparr>)"
  have r: "(dag_step ?o demo_chain)\<^sup>*\<^sup>* demo_started_chain ?d"
    by (rule run_task [of demo_started_chain ?a ?o "''x''", OF t TrueI])
  have ready: "dg_ready ?d = [''b'']"
    by (simp add: dag_unblock_def Let_def demo_started_chain_def dag_init_def dependents_def
        initial_pending_def demo_chain_def demo_wf_step_def)
  have "dag_step ?o demo_chain ?d (?d\<lparr>dg_ready := [], dg_remaining := dg_remaining ?d - 1,
       dg_tasks := dg_tasks ?d @ [Started (demo_wf_step ''b'' [''a''])],
       dg_launched := dg_launched ?d @ [''b'']\<rparr>)"
    by (rule dag_step.launch [OF _ _ ready b])
      (simp_all add: dag_unblock_def Let_def demo_started_chain_def dag_init_def)
  also have "?d\<lparr>dg_ready := [], dg_remaining := dg_remaining ?d - 1,
       dg_tasks := dg_tasks ?d @ [Started (demo_wf_step ''b'' [''a''])],
       dg_launched := dg_launched ?d @ [''b'']\<rparr> = demo_second_chain"
    by (simp add: dag_unblock_def Let_def demo_started_chain_def dag_init_def dependents_def
        initial_pending_def demo_chain_def demo_wf_step_def demo_second_chain_def)
  finally show ?thesis
    unfolding dag_reachable_def using demo_chain_launch [of ?o] r
    by (meson converse_rtranclp_into_rtranclp rtranclp.rtrancl_into_rtrancl)
qed

theorem dag_respects_dependencies_witness:
  "apart demo_chain (demo_wf_step ''b'' [''a''])
   \<and> ws_name (demo_wf_step ''b'' [''a'']) \<in> set (dg_launched demo_second_chain)
   \<and> set (ws_depends (demo_wf_step ''b'' [''a''])) \<subseteq> set (dg_done demo_second_chain)"
proof -
  have "demo_wf_step ''b'' [''a''] \<in> set demo_chain" by (simp add: demo_chain_def)
  moreover have "apart demo_chain (demo_wf_step ''b'' [''a''])"
    by (simp add: apart_def sole_def demo_chain_def demo_wf_step_def)
  moreover have "ws_name (demo_wf_step ''b'' [''a'']) \<in> set (dg_launched demo_second_chain)"
    by (simp add: demo_wf_step_def demo_second_chain_def)
  ultimately show ?thesis
    using dag_respects_dependencies [OF demo_second_reachable] by blast
qed

text \<open>
  Nothing makes the names of a workflow's steps differ, and the engine's maps keep the last step of
  a name. So when a step without dependencies comes before another step of its name, whatever the
  latter depends on, the former is never run, and the latter can be started before anything has ended,
  whether or not it depends on other steps. Storing such a workflow is accepted like any other.
\<close>

lemma shared_name_misdirects:
  assumes "steps = xs @ s # ys @ t # zs" and "ws_name t = ws_name s" and "ws_name s \<notin> ws_name ` set zs"
    and "ws_depends s = []" and "s \<noteq> t"
    and "\<forall>u \<in> set steps. set (ws_depends u) \<subseteq> ws_name ` set steps \<and> distinct (ws_depends u)"
  shows "insert_steps steps = Inr steps
    \<and> (\<forall>st. dag_reachable outcome steps st \<longrightarrow> s \<notin> task_step ` set (dg_tasks st))
    \<and> (\<exists>st. dag_reachable outcome steps st \<and> Started t \<in> set (dg_tasks st) \<and> dg_done st = [])"
proof -
  have "named steps (ws_name s) = named xs (ws_name s) @ s # named ys (ws_name s) @ [t]"
    using assms(1-3) by (auto simp: named_def filter_empty_conv image_iff)
  then have last: "by_name steps (ws_name s) = Some t"
    by (simp add: by_name_named)
  have "s \<notin> task_step ` set (dg_tasks st)" if "dag_reachable outcome steps st" for st
    using dag_reachable_inv [OF that] last assms(5) by (auto simp: dag_inv_def task_inv_def)
  moreover have "s \<in> set steps" using assms(1) by simp
  ultimately show ?thesis
    using root_launched_early [OF _ assms(4) last] assms(6) insert_steps_iff [of steps] by blast
qed

definition demo_shared :: "wf_step list" where
  "demo_shared = [demo_wf_step ''a'' [], demo_wf_step ''a'' [''b''], demo_wf_step ''b'' []]"

lemma shared_name_example:
  "insert_steps demo_shared = Inr demo_shared
   \<and> (\<exists>st. dag_reachable (\<lambda>s m r. True) demo_shared st
         \<and> Started (demo_wf_step ''a'' [''b'']) \<in> set (dg_tasks st) \<and> dg_done st = [])"
proof -
  have 1: "demo_shared = [] @ demo_wf_step ''a'' [] # [] @ demo_wf_step ''a'' [''b''] # [demo_wf_step ''b'' []]"
    by (simp add: demo_shared_def)
  have 2: "ws_name (demo_wf_step ''a'' [''b'']) = ws_name (demo_wf_step ''a'' [])"
    "ws_name (demo_wf_step ''a'' []) \<notin> ws_name ` set [demo_wf_step ''b'' []]"
    "ws_depends (demo_wf_step ''a'' []) = []" "demo_wf_step ''a'' [] \<noteq> demo_wf_step ''a'' [''b'']"
    by (simp_all add: demo_wf_step_def)
  have 3: "\<forall>u \<in> set demo_shared. set (ws_depends u) \<subseteq> ws_name ` set demo_shared \<and> distinct (ws_depends u)"
    by (simp add: demo_shared_def demo_wf_step_def)
  from shared_name_misdirects [OF 1 2 3] show ?thesis by blast
qed

text \<open>
  C8: an acyclic workflow whose steps' names differ ends, when the runs of its steps return: as long as
  its context lives, it takes at most five transitions a step, it is never stuck before every goroutine
  has ended, and when it ends every step has run. Nothing enforces that the names differ.
\<close>

theorem acyclic_workflow_ends:
  assumes "distinct (map ws_name steps)" and "acyclic_steps steps"
    and "\<forall>s m. \<exists>r. outcome s m r"
    and "((dag_step outcome steps) ^^ k) (dag_init steps) st" and "\<not> dg_cancelled st"
  shows "k \<le> 5 * length steps
    \<and> (if dag_finished st then set (dg_done st) = ws_name ` set steps
       else \<exists>st'. dag_step outcome steps st st' \<and> \<not> dg_cancelled st')"
proof -
  have "(dag_step outcome steps)\<^sup>*\<^sup>* (dag_init steps) st"
    using assms(4) by (rule relpowp_imp_rtranclp)
  then have inv: "dag_inv steps st"
    by (rule dag_inv_steps [OF _ dag_inv_init])
  have "dag_measure (dag_init steps) = 5 * length steps"
    by (simp add: dag_measure_def dag_init_def)
  with dag_measure_steps [OF assms(4,5)] have "k \<le> 5 * length steps" by simp
  moreover have "\<exists>st'. dag_step outcome steps st st' \<and> \<not> dg_cancelled st'" if "\<not> dag_finished st"
    by (rule dag_progress [OF assms(1,2) inv _ assms(5) that]) (use assms(3) in blast)
  ultimately show ?thesis
    using all_done [OF inv] by auto
qed

theorem acyclic_workflow_ends_witness:
  "\<exists>st. dag_step (\<lambda>s m r. True) demo_chain demo_started_chain st"
proof -
  have "\<forall>s \<in> set demo_chain. \<forall>d \<in> set (ws_depends s). d \<in> ws_name ` set demo_chain
      \<and> (if d = ''b'' then 1 else 0) < (if ws_name s = ''b'' then 1 else 0 :: nat)"
    by (simp add: demo_chain_def demo_wf_step_def)
  then have ac: "acyclic_steps demo_chain"
    unfolding acyclic_steps_def by (intro exI [of _ "\<lambda>n. if n = ''b'' then 1 else 0"])
  have 1: "((dag_step (\<lambda>s m r. True) demo_chain) ^^ 1) (dag_init demo_chain) demo_started_chain"
    using demo_chain_launch by (simp add: eq_OO)
  have 2: "\<not> dg_cancelled demo_started_chain" "\<not> dag_finished demo_started_chain"
    by (simp_all add: demo_started_chain_def dag_init_def dag_finished_def)
  from acyclic_workflow_ends [OF demo_chain_distinct ac _ 1 2(1)] 2(2) show ?thesis by auto
qed

text \<open>
  C27: a workflow with a dependency cycle never ends: let every step with a name in \<open>C\<close> depend on one
  in \<open>C\<close>, and share neither its name nor a dependency's with another step. Then storing the workflow is
  accepted whenever its dependencies name steps and no step lists one twice, the steps of \<open>C\<close> never
  start, and the loop keeps waiting for them: \<open>Execute\<close> returns nothing unless its context ends (the one
  a run gets never does).
\<close>

theorem cyclic_workflow_never_ends:
  assumes "dag_reachable outcome steps st" and "\<not> dg_cancelled st"
    and "s \<in> set steps" and "ws_name s \<in> C"
    and "\<forall>s \<in> set steps. ws_name s \<in> C \<longrightarrow> apart steps s \<and> set (ws_depends s) \<inter> C \<noteq> {}"
    and "\<forall>s \<in> set steps. set (ws_depends s) \<subseteq> ws_name ` set steps \<and> distinct (ws_depends s)"
  shows "insert_steps steps = Inr steps
    \<and> ws_name s \<notin> set (dg_launched st) \<and> dg_remaining st > 0 \<and> dag_result name ctx_err st = None"
proof -
  have held: "set (dg_done st') \<inter> C = {} \<Longrightarrow> dag_inv steps st' \<Longrightarrow> set (dg_launched st') \<inter> C = {}" for st'
  proof (rule ccontr)
    assume ended: "set (dg_done st') \<inter> C = {}" and inv: "dag_inv steps st'"
      and "set (dg_launched st') \<inter> C \<noteq> {}"
    then obtain n where n: "n \<in> set (dg_launched st')" "n \<in> C" by blast
    then have "count_list (map ws_name steps) n \<noteq> 0"
      using launched_count [of steps st' n] inv unfolding dag_inv_def
      by (metis count_list_0_iff le_zero_eq)
    then obtain t where t: "t \<in> set steps" "ws_name t = n" by (auto simp: count_list_0_iff)
    then have "set (ws_depends t) \<subseteq> set (dg_done st')"
      using launched_deps_done [of steps st' t] inv assms(5) n by (auto simp: dag_inv_def)
    with assms(5) t n(2) ended show False by blast
  qed
  have "(dag_step outcome steps)\<^sup>*\<^sup>* (dag_init steps) st"
    using assms(1) by (simp add: dag_reachable_def)
  then have "dag_inv steps st \<and> set (dg_done st) \<inter> C = {}"
  proof induction
    case base
    show ?case using dag_inv_init by (simp add: dag_init_def)
  next
    case (step u v)
    then have v: "dag_inv steps v" and l: "set (dg_launched u) \<inter> C = {}" and u: "task_inv steps u"
      using dag_inv_step held by (blast, blast, simp add: dag_inv_def)
    have "set (dg_done v) \<subseteq> set (dg_launched u) \<union> set (dg_done u)"
      using step(2)
    proof (cases rule: dag_step.cases)
      case (finish ts s ts')
      with task_launched [OF u, of "Recorded s"] show ?thesis
        by (auto simp: dag_unblock_def Let_def)
    qed auto
    with v l step(3) show ?case by blast
  qed
  then have inv: "dag_inv steps st" and l: "set (dg_launched st) \<inter> C = {}"
    using held by blast+
  have "dg_remaining st \<noteq> 0"
  proof
    assume "dg_remaining st = 0"
    then have "count_list (dg_launched st) (ws_name s) = count_list (map ws_name steps) (ws_name s)"
      using inv launched_count [of steps st]
      by (intro count_length_eq) (auto simp: dag_inv_def order_inv_def)
    moreover have "ws_name s \<notin> set (dg_launched st)" using l assms(4) by blast
    ultimately have "ws_name s \<notin> set (map ws_name steps)" by (metis count_list_0_iff)
    with assms(3) show False by simp
  qed
  then show ?thesis
    using l assms(2,4,6) insert_steps_iff [of steps] by (auto simp: dag_result_def)
qed

definition demo_cycle :: "wf_step list" where
  "demo_cycle = [demo_wf_step ''a'' [''b''], demo_wf_step ''b'' [''a'']]"

theorem cyclic_workflow_never_ends_witness:
  "insert_steps demo_cycle = Inr demo_cycle
   \<and> dag_result ''w'' (ErrText []) (dag_init demo_cycle) = None"
proof -
  have 1: "\<not> dg_cancelled (dag_init demo_cycle)" "demo_wf_step ''a'' [''b''] \<in> set demo_cycle"
    by (simp_all add: demo_cycle_def demo_wf_step_def dag_init_def)
  have 2: "dag_reachable (\<lambda>s m r. True) demo_cycle (dag_init demo_cycle)"
    by (simp add: dag_reachable_def)
  have 3: "ws_name (demo_wf_step ''a'' [''b'']) \<in> {''a'', ''b''}"
    "\<forall>s \<in> set demo_cycle. ws_name s \<in> {''a'', ''b''} \<longrightarrow>
       apart demo_cycle s \<and> set (ws_depends s) \<inter> {''a'', ''b''} \<noteq> {}"
    "\<forall>s \<in> set demo_cycle. set (ws_depends s) \<subseteq> ws_name ` set demo_cycle \<and> distinct (ws_depends s)"
    by (simp_all add: demo_cycle_def demo_wf_step_def apart_def sole_def)
  from cyclic_workflow_never_ends [OF 2 1 3] show ?thesis by blast
qed

text \<open>
  a step whose agent paused for approval counts as done: the engine takes its empty answer for the
  step's output and starts the steps that depend on it, while the execution is stored as awaiting
  approval.
\<close>

lemma paused_step_counts_as_done:
  assumes "de_resolve env (ws_agent s) w = (Inr ag, w1)" and "de_launch env = None"
    and "\<And>cx i ag p ts w. fst (runner_for (de_router env) engine cx i ag p ts w) = r"
    and "engine = resolve_engine ag None (ws_engine s)"
    and "is_paused r" and "rr_final r = []"
  shows "fst (run_step env cx input s prompt w) = Inr []
    \<and> (\<forall>i now db x. xd_execs db i = Some x \<longrightarrow>
        exec_status i (dag_completed i r now db) = Some st_awaiting)"
proof -
  have "fst (engine_step env cx s ag i prompt ts w') = Inr []" for i ts w'
  proof -
    obtain w2 where "runner_for (de_router env) engine cx i ag prompt ts w' = (r, w2)"
      using assms(3) [of cx i ag prompt ts w'] by (metis prod.collapse)
    then show ?thesis
      using assms(4-6) by (simp add: engine_step_def is_paused_def Let_def)
  qed
  then have "fst (run_step env cx input s prompt w) = Inr []"
    using assms(1,2) by (simp add: run_step_def Let_def split: prod.split)
  moreover have "xd_execs db i = Some x \<Longrightarrow> exec_status i (dag_completed i r now db) = Some st_awaiting"
    for i now db x
    using persist_status [of db i x r now] assms(5) by (simp add: dag_completed_def is_paused_def)
  ultimately show ?thesis by blast
qed

definition demo_dag_env :: "unit dag_env" where
  "demo_dag_env =
     \<lparr>de_resolve = (\<lambda>a w. (Inr demo_agent, w)), de_tools = (\<lambda>a w. (Inr [], w)),
      de_started = (\<lambda>i ag s p w. w), de_completed = (\<lambda>i r w. w), de_launch = None,
      de_router = \<lparr>er_go_native = (\<lambda>cx e ag task tools w. (paused_result, w)), er_langchain = None,
        er_langgraph = None, er_gate = None\<rparr>, de_fresh = (\<lambda>w. 4)\<rparr>"

end
