(* ===== verification/Autonomous.thy ===== *)
theory Autonomous
  imports ResumeState AgentLoop
begin

text \<open>
  \<open>executor/autonomous.go\<close>: the plan, act, observe, reflect loop of a goal, and the table of goals it
  keeps its progress in (\<open>repository/goal_repository.go\<close>). The table is the first component of the
  world; the executor, the memory and the model clients act on the whole of it. A statement that
  fails changes nothing and its error is dropped, as in the source.
\<close>

record plan_step =
  ps_index :: int
  ps_description :: string
  ps_tool_hint :: string
  ps_completed :: bool
  ps_output :: string

record goal =
  gl_agent :: uuid
  gl_org :: uuid
  gl_session :: "uuid option"
  gl_text :: string
  gl_plan :: "plan_step list"
  gl_status :: string
  gl_reflection :: "string option"
  gl_iterations :: int
  gl_max_iter :: int
  gl_error :: "string option"
  gl_started :: "int option"
  gl_completed :: "int option"

type_synonym goal_db = "uuid \<Rightarrow> goal option"

type_synonym 'w goal_world = "goal_db \<times> 'w"

definition gs_pending :: string where "gs_pending = ''pending''"
definition gs_planning :: string where "gs_planning = ''planning''"
definition gs_executing :: string where "gs_executing = ''executing''"
definition gs_reflecting :: string where "gs_reflecting = ''reflecting''"
definition gs_completed :: string where "gs_completed = ''completed''"
definition gs_failed :: string where "gs_failed = ''failed''"

definition max_goal_iterations :: int where "max_goal_iterations = 5"

record 'w goal_env =
  ge_base :: "'w goal_world executor"
  ge_router :: "'w goal_world router"
  ge_selector :: "'w goal_world selector option"
  ge_search :: "uuid \<Rightarrow> string \<Rightarrow> nat \<Rightarrow> 'w goal_world \<Rightarrow> (go_err + string list) \<times> 'w goal_world"
  ge_append :: "uuid \<Rightarrow> uuid \<Rightarrow> string \<Rightarrow> string \<Rightarrow> 'w goal_world \<Rightarrow> 'w goal_world"
  ge_fault :: "'w goal_world \<Rightarrow> string \<Rightarrow> go_err option"
  ge_ctx_err :: "'w goal_world \<Rightarrow> go_err option"
  ge_fresh :: "'w goal_world \<Rightarrow> uuid"

section \<open>The table of goals\<close>

definition goal_update ::
  "'w goal_env \<Rightarrow> string \<Rightarrow> uuid \<Rightarrow> (goal \<Rightarrow> goal) \<Rightarrow> 'w goal_world \<Rightarrow> 'w goal_world" where
  "goal_update env op i f w =
     (case ge_fault env w op of
        Some e \<Rightarrow> w
      | None \<Rightarrow> ((fst w)(i := map_option f (fst w i)), snd w))"

definition goal_now :: "'w goal_env \<Rightarrow> 'w goal_world \<Rightarrow> int" where
  "goal_now env w = ex_now (ge_base env) w"

definition update_status :: "'w goal_env \<Rightarrow> uuid \<Rightarrow> string \<Rightarrow> 'w goal_world \<Rightarrow> 'w goal_world" where
  "update_status env i st = goal_update env ''UpdateStatus'' i (\<lambda>g. g\<lparr>gl_status := st\<rparr>)"

definition update_plan :: "'w goal_env \<Rightarrow> uuid \<Rightarrow> plan_step list \<Rightarrow> 'w goal_world \<Rightarrow> 'w goal_world" where
  "update_plan env i plan = goal_update env ''UpdatePlan'' i (\<lambda>g. g\<lparr>gl_plan := plan\<rparr>)"

definition goal_started :: "'w goal_env \<Rightarrow> uuid \<Rightarrow> 'w goal_world \<Rightarrow> 'w goal_world" where
  "goal_started env i w =
     goal_update env ''MarkStarted'' i
       (\<lambda>g. g\<lparr>gl_status := gs_executing, gl_started := Some (goal_now env w)\<rparr>) w"

definition goal_completed :: "'w goal_env \<Rightarrow> uuid \<Rightarrow> string \<Rightarrow> 'w goal_world \<Rightarrow> 'w goal_world" where
  "goal_completed env i reflection w =
     goal_update env ''MarkCompleted'' i
       (\<lambda>g. g\<lparr>gl_status := gs_completed, gl_reflection := Some reflection,
              gl_completed := Some (goal_now env w)\<rparr>) w"

definition goal_failed :: "'w goal_env \<Rightarrow> uuid \<Rightarrow> string \<Rightarrow> 'w goal_world \<Rightarrow> 'w goal_world" where
  "goal_failed env i msg w =
     goal_update env ''MarkFailed'' i
       (\<lambda>g. g\<lparr>gl_status := gs_failed, gl_error := Some msg,
              gl_completed := Some (goal_now env w)\<rparr>) w"

definition increment_iteration :: "'w goal_env \<Rightarrow> uuid \<Rightarrow> 'w goal_world \<Rightarrow> 'w goal_world" where
  "increment_iteration env i =
     goal_update env ''IncrementIteration'' i (\<lambda>g. g\<lparr>gl_iterations := gl_iterations g + 1\<rparr>)"

text \<open>\<open>CreateGoal\<close> of the goal service, up to the row it inserts.\<close>

definition new_goal :: "uuid \<Rightarrow> uuid \<Rightarrow> string \<Rightarrow> uuid option \<Rightarrow> int \<Rightarrow> goal" where
  "new_goal agent org txt session max_iter =
     \<lparr>gl_agent = agent, gl_org = org, gl_session = session, gl_text = txt, gl_plan = [],
      gl_status = gs_pending, gl_reflection = None, gl_iterations = 0,
      gl_max_iter = (if max_iter \<le> 0 then max_goal_iterations else max_iter), gl_error = None,
      gl_started = None, gl_completed = None\<rparr>"

section \<open>Planning\<close>

definition cut_text :: "string \<Rightarrow> nat \<Rightarrow> string" where
  "cut_text s n = (if length s \<le> n then s else take n s @ ''...'')"

text \<open>\<open>extractJSON\<close>.\<close>

definition extract_json :: "string \<Rightarrow> string" where
  "extract_json s =
     (let t = strip_fences s in (case brace_span t of Some u \<Rightarrow> u | None \<Rightarrow> t))"

definition dec_bool :: "json \<Rightarrow> bool option" where
  "dec_bool v = (case v of JBool b \<Rightarrow> Some b | _ \<Rightarrow> None)"

definition zero_plan_step :: plan_step where
  "zero_plan_step =
     \<lparr>ps_index = 0, ps_description = [], ps_tool_hint = [], ps_completed = False, ps_output = []\<rparr>"

definition dec_plan_step :: "json \<Rightarrow> plan_step option" where
  "dec_plan_step v =
     (case v of
        JObj ms \<Rightarrow>
          (case (int_field ''index'' ms, str_field ''description'' ms, str_field ''tool_hint'' ms,
                 jfield id dec_bool False ''completed'' ms, str_field ''output'' ms) of
             (Some i, Some d, Some h, Some c, Some out) \<Rightarrow>
               Some \<lparr>ps_index = i, ps_description = d, ps_tool_hint = h, ps_completed = c, ps_output = out\<rparr>
           | _ \<Rightarrow> None)
      | _ \<Rightarrow> None)"

text \<open>The steps of a plan response; \<^const>\<open>None\<close> when it does not unmarshal.\<close>

definition dec_plan :: "json \<Rightarrow> plan_step list option" where
  "dec_plan v =
     (case v of
        JObj ms \<Rightarrow> list_field dec_plan_step zero_plan_step ''steps'' ms
      | JNull \<Rightarrow> Some []
      | _ \<Rightarrow> None)"

definition single_step :: "string \<Rightarrow> plan_step list" where
  "single_step txt = [zero_plan_step\<lparr>ps_description := txt\<rparr>]"

definition read_plan :: "string \<Rightarrow> string \<Rightarrow> plan_step list" where
  "read_plan txt content =
     (case parse_json (extract_json content) of
        None \<Rightarrow> single_step txt
      | Some v \<Rightarrow> (case dec_plan v of None \<Rightarrow> single_step txt
                | Some steps \<Rightarrow> if steps = [] then single_step txt else steps))"

definition ask_once ::
  "'w goal_env \<Rightarrow> go_ctx \<Rightarrow> agent \<Rightarrow> string \<Rightarrow> string \<Rightarrow> int \<Rightarrow> rat \<Rightarrow> string \<Rightarrow> 'w goal_world
    \<Rightarrow> (go_err + gen_response) \<times> 'w goal_world" where
  "ask_once env cx ag kind prompt out temp what w =
     (case resolve_model (ge_router env) (ge_selector env) ag
             \<lparr>sg_kind = kind, sg_prompt_tokens = estimate_tokens [prompt], sg_needs_tools = False,
              sg_max_output = out, sg_prior_failures = 0\<rparr> of
        Inl e \<Rightarrow> (Inl e, w)
      | Inr choice \<Rightarrow>
          (case cl_generate (mc_client choice) cx
                  \<lparr>rq_messages = [plain_message role_user prompt], rq_model = mc_model choice,
                   rq_max_tokens = cap_tokens cx out, rq_num_ctx = 0, rq_temperature = temp,
                   rq_tool_defs = [], rq_think = False, rq_json = False\<rparr> w of
             (Inl e, w') \<Rightarrow> (Inl (ErrWrap what e), w')
           | (Inr resp, w') \<Rightarrow> (Inr resp, w')))"

definition generate_plan ::
  "'w goal_env \<Rightarrow> go_ctx \<Rightarrow> agent \<Rightarrow> string \<Rightarrow> string list \<Rightarrow> 'w goal_world
    \<Rightarrow> (go_err + plan_step list) \<times> 'w goal_world" where
  "generate_plan env cx ag txt memories w =
     (case ask_once env cx ag kind_plan (build_planning_prompt (ag_name ag) (ag_role ag) txt memories)
             2048 (3 / 10) ''autonomous: plan generation: '' w of
        (Inl e, w') \<Rightarrow> (Inl e, w')
      | (Inr resp, w') \<Rightarrow> (Inr (read_plan txt (rs_content resp)), w'))"

definition generate_reflection ::
  "'w goal_env \<Rightarrow> go_ctx \<Rightarrow> agent \<Rightarrow> string \<Rightarrow> string list \<Rightarrow> 'w goal_world
    \<Rightarrow> (go_err + string) \<times> 'w goal_world" where
  "generate_reflection env cx ag txt observations w =
     (case ask_once env cx ag kind_reflect (build_reflection_prompt (ag_name ag) txt observations)
             1024 (4 / 10) ''autonomous: reflection generation: '' w of
        (Inl e, w') \<Rightarrow> (Inl e, w')
      | (Inr resp, w') \<Rightarrow> (Inr (trim_space (rs_content resp)), w'))"

section \<open>Acting\<close>

fun observed :: "nat \<Rightarrow> string list \<Rightarrow> string" where
  "observed k [] = []"
| "observed k (obs # rest) =
     ''  Step '' @ show_nat k @ '': '' @ cut_text obs 500 @ nl @ observed (Suc k) rest"

definition build_step_prompt :: "string \<Rightarrow> plan_step \<Rightarrow> string list \<Rightarrow> string" where
  "build_step_prompt txt step prior =
     ''You are working toward the goal: '' @ quote txt @ nl @ nl
     @ ''Current step ('' @ show_int (ps_index step + 1) @ ''): '' @ ps_description step @ nl
     @ (if ps_tool_hint step \<noteq> [] then ''Suggested tool: '' @ ps_tool_hint step @ nl else [])
     @ (if prior \<noteq> [] then nl @ ''Previous step results:'' @ nl @ observed 1 prior else [])
     @ nl @ ''Execute this step and provide the result.''"

definition observation_of :: "run_result \<Rightarrow> string" where
  "observation_of r = (case rr_err r of Some e \<Rightarrow> ''Error: '' @ err_text e | None \<Rightarrow> rr_final r)"

record goal_result =
  gr_plan :: "plan_step list"
  gr_observations :: "string list"
  gr_reflection :: string
  gr_iterations :: nat
  gr_err :: "go_err option"

definition failed_goal :: "plan_step list \<Rightarrow> string list \<Rightarrow> go_err \<Rightarrow> goal_result" where
  "failed_goal plan observations e =
     \<lparr>gr_plan = plan, gr_observations = observations, gr_reflection = [], gr_iterations = 0,
      gr_err = Some e\<rparr>"

text \<open>
  The loop over the plan: \<open>steps\<close> are the steps still to run, the first of them number \<open>k\<close>. The
  range of the source copies each step before the loop updates the plan.
\<close>

fun act_steps ::
  "'w goal_env \<Rightarrow> go_ctx \<Rightarrow> uuid \<Rightarrow> string \<Rightarrow> agent \<Rightarrow> string list \<Rightarrow> nat \<Rightarrow> plan_step list
    \<Rightarrow> plan_step list \<Rightarrow> string list \<Rightarrow> 'w goal_world
    \<Rightarrow> (goal_result + plan_step list \<times> string list) \<times> 'w goal_world" where
  "act_steps env cx i txt ag tools k [] plan obs w = (Inr (plan, obs), w)"
| "act_steps env cx i txt ag tools k (step # steps) plan obs w =
     (case ge_ctx_err env w of
        Some e \<Rightarrow>
          (Inl (failed_goal plan obs e), goal_failed env i ''context cancelled'' w)
      | None \<Rightarrow>
          (let w1 = increment_iteration env i w;
               (r, w2) = run_agent (ge_base env) cx (ge_fresh env w1) ag
                           (build_step_prompt txt step obs) tools w1;
               o1 = observation_of r;
               plan' = plan[k := (plan ! k)\<lparr>ps_completed := True, ps_output := cut_text o1 2000\<rparr>];
               w3 = update_plan env i plan' w2;
               w4 = ge_append env (ag_id ag) (ag_org ag) o1
                      (''Step '' @ show_nat (Suc k) @ '' of goal '' @ quote (cut_text txt 100) @ '': ''
                        @ ps_description step) w3
           in act_steps env cx i txt ag tools (Suc k) steps plan' (obs @ [o1]) w4))"

definition fallback_reflection :: string where
  "fallback_reflection = ''Reflection could not be generated. Steps were executed successfully.''"

definition reflect_goal ::
  "'w goal_env \<Rightarrow> go_ctx \<Rightarrow> uuid \<Rightarrow> string \<Rightarrow> agent \<Rightarrow> plan_step list \<Rightarrow> string list \<Rightarrow> 'w goal_world
    \<Rightarrow> goal_result \<times> 'w goal_world" where
  "reflect_goal env cx i txt ag plan obs w =
     (let w1 = update_status env i gs_reflecting w;
          (rf, w2) = generate_reflection env cx ag txt obs w1;
          reflection = (case rf of Inr t \<Rightarrow> t | Inl e \<Rightarrow> fallback_reflection)
      in (\<lparr>gr_plan = plan, gr_observations = obs, gr_reflection = reflection,
           gr_iterations = length plan, gr_err = None\<rparr>, goal_completed env i reflection w2))"

definition act_goal ::
  "'w goal_env \<Rightarrow> go_ctx \<Rightarrow> uuid \<Rightarrow> string \<Rightarrow> agent \<Rightarrow> string list \<Rightarrow> plan_step list \<Rightarrow> 'w goal_world
    \<Rightarrow> goal_result \<times> 'w goal_world" where
  "act_goal env cx i txt ag tools plan w =
     (let w1 = goal_started env i (update_plan env i plan w) in
      case act_steps env cx i txt ag tools 0 plan plan [] w1 of
        (Inl r, w2) \<Rightarrow> (r, w2)
      | (Inr (plan', obs), w2) \<Rightarrow> reflect_goal env cx i txt ag plan' obs w2)"

definition run_goal ::
  "'w goal_env \<Rightarrow> go_ctx \<Rightarrow> uuid \<Rightarrow> agent \<Rightarrow> string list \<Rightarrow> 'w goal_world \<Rightarrow> goal_result \<times> 'w goal_world" where
  "run_goal env cx0 i ag tools w =
     (let cx = cx0\<lparr>cx_trace_org := Some (ag_org ag)\<rparr> in
      case ge_fault env w ''GetByID'' of
        Some e \<Rightarrow> (failed_goal [] [] (ErrWrap ''autonomous: load goal: '' e), w)
      | None \<Rightarrow>
     (case fst w i of
        None \<Rightarrow>
          (failed_goal [] [] (ErrWrap ''autonomous: load goal: ''
             (ErrText ''goal_repo: get_by_id: no rows in result set'')), w)
      | Some g \<Rightarrow>
          (let w1 = update_status env i gs_planning w;
               (found, w2) = ge_search env (ag_id ag) (gl_text g) 5 w1;
               memories = (case found of Inr ms \<Rightarrow> ms | Inl e \<Rightarrow> [])
           in case generate_plan env cx ag (gl_text g) memories w2 of
                (Inl e, w3) \<Rightarrow>
                  (failed_goal [] [] e, goal_failed env i (''planning failed: '' @ err_text e) w3)
              | (Inr plan, w3) \<Rightarrow> act_goal env cx i (gl_text g) ag tools plan w3)))"

section \<open>Lemmas\<close>

lemma read_plan_nonempty: "read_plan txt content \<noteq> []"
  by (simp add: read_plan_def single_step_def split: option.split)

lemma goal_failed_status:
  "ge_fault env w ''MarkFailed'' = None \<Longrightarrow> fst (goal_failed env i msg w) i = Some g
     \<Longrightarrow> gl_status g = gs_failed \<and> gl_error g = Some msg"
  by (auto simp: goal_failed_def goal_update_def)

lemma goal_completed_status:
  "ge_fault env w ''MarkCompleted'' = None \<Longrightarrow> fst (goal_completed env i rfl w) i = Some g
     \<Longrightarrow> gl_status g = gs_completed \<and> gl_reflection g = Some rfl"
  by (auto simp: goal_completed_def goal_update_def)

text \<open>A turn of the loop, its effects named.\<close>

lemma act_steps_Cons:
  assumes "ge_ctx_err env w = None"
  obtains r w4 where
    "r = fst (run_agent (ge_base env) cx (ge_fresh env (increment_iteration env i w)) ag
        (build_step_prompt txt step obs) tools (increment_iteration env i w))"
    "act_steps env cx i txt ag tools k (step # steps) plan obs w
      = act_steps env cx i txt ag tools (Suc k) steps
          (plan[k := (plan ! k)\<lparr>ps_completed := True, ps_output := cut_text (observation_of r) 2000\<rparr>])
          (obs @ [observation_of r]) w4"
proof -
  obtain r w2 where run: "run_agent (ge_base env) cx (ge_fresh env (increment_iteration env i w)) ag
      (build_step_prompt txt step obs) tools (increment_iteration env i w) = (r, w2)"
    by (metis surj_pair)
  show ?thesis
    by (rule that [of r]) (simp_all add: assms run Let_def)
qed

lemma act_steps_marks:
  assumes "act_steps env cx i txt ag tools k steps plan obs w = (Inr (plan', obs'), w')"
    and "length plan = k + length steps" and "\<forall>j < k. ps_completed (plan ! j)"
  shows "length plan' = length plan \<and> (\<forall>j < length plan. ps_completed (plan' ! j)
      \<and> ps_description (plan' ! j) = ps_description (plan ! j)) \<and> length obs' = length obs + length steps"
  using assms
proof (induction steps arbitrary: k plan obs w)
  case Nil
  then show ?case by auto
next
  case (Cons step steps)
  show ?case
  proof (cases "ge_ctx_err env w")
    case (Some e)
    with Cons.prems(1) show ?thesis by simp
  next
    case None
    then obtain r w4 where
      "act_steps env cx i txt ag tools k (step # steps) plan obs w
        = act_steps env cx i txt ag tools (Suc k) steps
            (plan[k := (plan ! k)\<lparr>ps_completed := True, ps_output := cut_text (observation_of r) 2000\<rparr>])
            (obs @ [observation_of r]) w4"
      by (rule act_steps_Cons)
    with Cons.prems have next_step: "act_steps env cx i txt ag tools (Suc k) steps
        (plan[k := (plan ! k)\<lparr>ps_completed := True, ps_output := cut_text (observation_of r) 2000\<rparr>])
        (obs @ [observation_of r]) w4 = (Inr (plan', obs'), w')" by simp
    have "\<forall>j < Suc k. ps_completed (plan[k := (plan ! k)\<lparr>ps_completed := True,
        ps_output := cut_text (observation_of r) 2000\<rparr>] ! j)"
      using Cons.prems(2,3) by (auto simp: nth_list_update less_Suc_eq)
    from Cons.IH [OF next_step _ this] Cons.prems(2) show ?thesis
      by (auto simp: nth_list_update split: if_splits)
  qed
qed

lemma act_steps_failed:
  assumes "act_steps env cx i txt ag tools k steps plan obs w = (Inl r, w')"
  shows "\<exists>p obs' e v. r = failed_goal p obs' e \<and> w' = goal_failed env i ''context cancelled'' v"
  using assms
proof (induction steps arbitrary: k plan obs w)
  case (Cons step steps)
  show ?case
  proof (cases "ge_ctx_err env w")
    case (Some e)
    with Cons.prems have "r = failed_goal plan obs e" "w' = goal_failed env i ''context cancelled'' w"
      by simp_all
    then show ?thesis by blast
  next
    case None
    then obtain r2 w4 where
      "act_steps env cx i txt ag tools k (step # steps) plan obs w
        = act_steps env cx i txt ag tools (Suc k) steps
            (plan[k := (plan ! k)\<lparr>ps_completed := True, ps_output := cut_text (observation_of r2) 2000\<rparr>])
            (obs @ [observation_of r2]) w4"
      by (rule act_steps_Cons)
    with Cons show ?thesis by metis
  qed
qed simp

lemma reflect_goal_outcome:
  assumes "\<forall>w op. ge_fault env w op = None"
    and "reflect_goal env cx i txt ag plan obs w = (r, w')"
  shows "gr_err r = None \<and> gr_plan r = plan \<and> gr_observations r = obs \<and> gr_iterations r = length plan
    \<and> (\<forall>g. fst w' i = Some g \<longrightarrow> gl_status g = gs_completed \<and> gl_reflection g = Some (gr_reflection r))"
proof -
  obtain rf w2 where g: "generate_reflection env cx ag txt obs (update_status env i gs_reflecting w) = (rf, w2)"
    by (metis surj_pair)
  define t where "t = (case rf of Inr t \<Rightarrow> t | Inl e \<Rightarrow> fallback_reflection)"
  have "r = \<lparr>gr_plan = plan, gr_observations = obs, gr_reflection = t,
      gr_iterations = length plan, gr_err = None\<rparr>" "w' = goal_completed env i t w2"
    using assms(2) g by (simp_all add: reflect_goal_def Let_def t_def)
  moreover have "ge_fault env w2 ''MarkCompleted'' = None" using assms(1) by blast
  ultimately show ?thesis by (auto dest: goal_completed_status)
qed

lemma act_goal_outcome:
  assumes ok: "\<forall>w op. ge_fault env w op = None"
    and act: "act_goal env cx i txt ag tools plan w = (r, w')"
  shows "if gr_err r = None
    then length (gr_plan r) = length plan \<and> length (gr_observations r) = length plan
      \<and> gr_iterations r = length plan \<and> (\<forall>s \<in> set (gr_plan r). ps_completed s)
      \<and> (\<forall>g. fst w' i = Some g \<longrightarrow> gl_status g = gs_completed)
    else \<forall>g. fst w' i = Some g \<longrightarrow> gl_status g = gs_failed"
proof -
  obtain x w2 where x: "act_steps env cx i txt ag tools 0 plan plan []
      (goal_started env i (update_plan env i plan w)) = (x, w2)"
    by (metis surj_pair)
  show ?thesis
  proof (cases x)
    case (Inl r2)
    from act_steps_failed [OF x [unfolded Inl]] obtain p obs e v where
      "r2 = failed_goal p obs e" "w2 = goal_failed env i ''context cancelled'' v"
      by blast
    moreover have "r = r2" "w' = w2"
      using act x Inl by (simp_all add: act_goal_def)
    moreover have "ge_fault env v ''MarkFailed'' = None" using ok by blast
    ultimately show ?thesis
      by (auto simp: failed_goal_def dest: goal_failed_status)
  next
    case (Inr y)
    obtain plan' obs where y: "y = (plan', obs)" by (cases y)
    have m: "length plan' = length plan" "\<forall>j < length plan. ps_completed (plan' ! j)"
      "length obs = length plan"
      using act_steps_marks [OF x [unfolded Inr y]] by simp_all
    have "reflect_goal env cx i txt ag plan' obs w2 = (r, w')"
      using act x Inr y by (simp add: act_goal_def)
    from reflect_goal_outcome [OF ok this] m show ?thesis
      by (auto simp: in_set_conv_nth)
  qed
qed

lemma act_steps_all_fail:
  assumes live: "\<forall>w. ge_ctx_err env w = None"
    and bad: "\<forall>e p w. rr_err (fst (run_agent (ge_base env) cx e ag p tools w)) \<noteq> None"
  shows "\<exists>plan' obs' w'. act_steps env cx i txt ag tools k steps plan obs w = (Inr (plan', obs @ obs'), w')
    \<and> (\<forall>t \<in> set obs'. take 7 t = ''Error: '')"
proof (induction steps arbitrary: k plan obs w)
  case Nil
  then show ?case by auto
next
  case (Cons step steps)
  have "ge_ctx_err env w = None" using live by blast
  then obtain r w4 where r: "r = fst (run_agent (ge_base env) cx (ge_fresh env (increment_iteration env i w)) ag
        (build_step_prompt txt step obs) tools (increment_iteration env i w))"
    and go: "act_steps env cx i txt ag tools k (step # steps) plan obs w
      = act_steps env cx i txt ag tools (Suc k) steps
          (plan[k := (plan ! k)\<lparr>ps_completed := True, ps_output := cut_text (observation_of r) 2000\<rparr>])
          (obs @ [observation_of r]) w4"
    by (rule act_steps_Cons)
  have "rr_err r \<noteq> None" using bad by (simp add: r del: split_paired_All)
  then have o: "take 7 (observation_of r) = ''Error: ''"
    by (auto simp: observation_of_def)
  define plan2 where
    "plan2 = plan[k := (plan ! k)\<lparr>ps_completed := True, ps_output := cut_text (observation_of r) 2000\<rparr>]"
  from Cons.IH [of "Suc k" plan2 "obs @ [observation_of r]" w4] obtain plan' obs' w' where
    "act_steps env cx i txt ag tools (Suc k) steps plan2 (obs @ [observation_of r]) w4
      = (Inr (plan', (obs @ [observation_of r]) @ obs'), w')" "\<forall>t \<in> set obs'. take 7 t = ''Error: ''"
    by blast
  with go o show ?case
    by (intro exI [of _ plan'] exI [of _ "observation_of r # obs'"] exI [of _ w'])
       (simp add: plan2_def)
qed

definition no_models :: "nat goal_world router" where
  "no_models = \<lparr>rt_clients = [], rt_default = ''ollama'', rt_ollama_fallback = False,
     rt_ollama_model = [], rt_ctx_err = (\<lambda>w. None)\<rparr>"

definition demo_goal_env :: "nat goal_env" where
  "demo_goal_env =
     \<lparr>ge_base = new_executor no_models [] (\<lambda>w. 5),
      ge_router = no_models,
      ge_selector = None, ge_search = (\<lambda>a t n w. (Inr [], w)), ge_append = (\<lambda>a ob c s w. w),
      ge_fault = (\<lambda>w op. None), ge_ctx_err = (\<lambda>w. None), ge_fresh = (\<lambda>w. 6)\<rparr>"

definition goal_agent :: agent where
  "goal_agent =
     \<lparr>ag_id = 3, ag_org = 1, ag_name = ''Ann'', ag_role = ''clerk'', ag_description = None,
      ag_status = ''idle'', ag_model_provider = None, ag_model_name = None,
      ag_system_prompt = None, ag_performance = 0, ag_engine_type = [], ag_metadata = []\<rparr>"

definition demo_goal_world :: "nat goal_world" where
  "demo_goal_world = ([4 \<mapsto> new_goal 3 1 ''tidy'' None 0], 0)"

lemma demo_goal_ok: "\<forall>w op. ge_fault demo_goal_env w op = None" "\<forall>w. ge_ctx_err demo_goal_env w = None"
  by (simp_all add: demo_goal_env_def)

lemma demo_unresolved: "\<exists>e. resolve_model no_models None goal_agent sg = Inl e"
proof -
  have "\<exists>e. for_with_fallback no_models [] = Inl e"
    by (auto simp: for_with_fallback_def router_for_def no_models_def Let_def split: option.split)
  moreover have "\<not> is_auto []"
    by (simp add: is_auto_def equal_fold_def trim_space_def trim_left_by_def trim_right_by_def to_lower_def)
  ultimately show ?thesis
    by (auto simp: resolve_model_def goal_agent_def or_empty_def Let_def)
qed

lemma demo_runs_fail:
  "\<forall>e p w. rr_err (fst (run_agent (ge_base demo_goal_env) cx e goal_agent p [] w)) \<noteq> None"
proof (intro allI)
  fix e p and w :: "nat goal_world"
  have base: "ex_skills (ge_base demo_goal_env) = None" "ex_router (ge_base demo_goal_env) = no_models"
    "ex_selector (ge_base demo_goal_env) = None"
    by (simp_all add: demo_goal_env_def new_executor_def)
  define ex where "ex = ge_base demo_goal_env"
  obtain x where "resolve_model no_models None goal_agent
      \<lparr>sg_kind = kind_step, sg_prompt_tokens = estimate_tokens
         [build_react_system_prompt (ag_name goal_agent) (ag_role goal_agent)
            (or_empty (ag_system_prompt goal_agent))
            (map (\<lambda>t. (tl_name t, tl_description t)) (all_tools (registry_subset (ex_registry ex) []))), p],
       sg_needs_tools = (map (\<lambda>t. (tl_name t, tl_description t))
          (all_tools (registry_subset (ex_registry ex) [])) \<noteq> []),
       sg_max_output = 0, sg_prior_failures = 0\<rparr> = Inl x"
    using demo_unresolved by blast
  then have "run_agent ex cx e goal_agent p [] w = (error_result x, w)"
    using base unfolding run_agent_def Let_def load_skills_def ex_def [symmetric] by simp
  then show "rr_err (fst (run_agent (ge_base demo_goal_env) cx e goal_agent p [] w)) \<noteq> None"
    by (simp add: ex_def error_result_def)
qed

section \<open>Properties\<close>

text \<open>
  a goal is settled when its run ends: its row is completed when no error is returned, and then
  every step of the plan is marked completed with one observation each; otherwise it is failed. This
  is so whatever the planner, the executor and the tools do.
\<close>

lemma run_goal_settles:
  assumes "\<forall>w op. ge_fault env w op = None" and "fst w i = Some g0"
    and "run_goal env cx i ag tools w = (r, w')"
  shows "if gr_err r = None
    then gr_plan r \<noteq> [] \<and> length (gr_observations r) = length (gr_plan r)
      \<and> gr_iterations r = length (gr_plan r) \<and> (\<forall>s \<in> set (gr_plan r). ps_completed s)
      \<and> (\<forall>g. fst w' i = Some g \<longrightarrow> gl_status g = gs_completed)
    else \<forall>g. fst w' i = Some g \<longrightarrow> gl_status g = gs_failed"
proof -
  define cx1 where "cx1 = cx\<lparr>cx_trace_org := Some (ag_org ag)\<rparr>"
  obtain found w2 where s: "ge_search env (ag_id ag) (gl_text g0) 5 (update_status env i gs_planning w) = (found, w2)"
    by (metis surj_pair)
  define ms where "ms = (case found of Inr ms \<Rightarrow> ms | Inl e \<Rightarrow> [])"
  obtain x w3 where p: "generate_plan env cx1 ag (gl_text g0) ms w2 = (x, w3)"
    by (metis surj_pair)
  have run: "(r, w') = (case x of
      Inl e \<Rightarrow> (failed_goal [] [] e, goal_failed env i (''planning failed: '' @ err_text e) w3)
    | Inr plan \<Rightarrow> act_goal env cx1 i (gl_text g0) ag tools plan w3)"
    using assms(3) s p assms(1) [rule_format, of w "''GetByID''"] assms(2)
    by (cases x) (simp_all add: run_goal_def Let_def cx1_def ms_def del: split_paired_All)
  show ?thesis
  proof (cases x)
    case (Inl e)
    have "ge_fault env w3 ''MarkFailed'' = None" using assms(1) by blast
    with run Inl show ?thesis by (auto simp: failed_goal_def dest: goal_failed_status)
  next
    case (Inr plan)
    have "plan \<noteq> []"
      using p Inr read_plan_nonempty by (auto simp: generate_plan_def split: prod.splits sum.splits)
    with run Inr act_goal_outcome [OF assms(1), of cx1 i "gl_text g0" ag tools plan w3 r w']
    show ?thesis by (auto split: if_splits)
  qed
qed

text \<open>
  the failure of a goal's steps does not fail the goal: when every run of the executor ends with
  an error, the plan is still carried out to its last step, however long it is, every step is marked
  completed with an error for its output, no error is returned and the goal is stored as completed.
\<close>

lemma failed_steps_complete_goal:
  assumes "\<forall>w op. ge_fault env w op = None" and "\<forall>w. ge_ctx_err env w = None"
    and "\<forall>e p w. rr_err (fst (run_agent (ge_base env) cx e ag p tools w)) \<noteq> None"
    and "act_goal env cx i txt ag tools plan w = (r, w')"
  shows "gr_err r = None \<and> gr_iterations r = length plan
    \<and> (\<forall>s \<in> set (gr_plan r). ps_completed s)
    \<and> (\<forall>t \<in> set (gr_observations r). take 7 t = ''Error: '')
    \<and> (\<forall>g. fst w' i = Some g \<longrightarrow> gl_status g = gs_completed)"
proof -
  obtain plan' obs' w2 where a: "act_steps env cx i txt ag tools 0 plan plan []
      (goal_started env i (update_plan env i plan w)) = (Inr (plan', obs'), w2)"
    and e: "\<forall>t \<in> set obs'. take 7 t = ''Error: ''"
    using act_steps_all_fail [OF assms(2,3), of i "txt" 0 plan plan "[]"] by fastforce
  have "reflect_goal env cx i txt ag plan' obs' w2 = (r, w')"
    using assms(4) a by (simp add: act_goal_def)
  from reflect_goal_outcome [OF assms(1) this] act_goal_outcome [OF assms(1,4)] e
  show ?thesis by (simp split: if_splits)
qed

text \<open>
  a goal whose context ends between two steps is not marked failed: the statement that would mark
  it runs on the ended context and fails, so the row keeps the status it had.
\<close>

lemma cancelled_goal_keeps_status:
  assumes "ge_ctx_err env w = Some e" and "ge_fault env w ''MarkFailed'' = Some e" and "steps \<noteq> []"
  shows "act_steps env cx i txt ag tools k steps plan obs w = (Inl (failed_goal plan obs e), w)"
  using assms by (cases steps) (simp_all add: goal_failed_def goal_update_def)

end
