(* ===== verification/OrgRoute.thy ===== *)
theory OrgRoute
  imports LlmRouter
begin

text \<open>
  \<open>orgroute/orgroute.go\<close>: an organisation's own provider configs with an ordered fallback chain,
  in front of the server's providers. The resolver's two caches are a state that is passed along;
  the store is what its queries return in a world. Constructing a client for a config is the code's
  \<open>Options.Build\<close>: \<open>build_client\<close> is the default one up to the provider constructors, of which it
  returns the choice and the arguments.
\<close>

record provider_config =
  pc_id :: uuid
  pc_name :: string
  pc_type :: string
  pc_base_url :: string
  pc_api_key :: string
  pc_default_model :: string
  pc_updated_at :: int

record route_step =
  rs_config_id :: uuid
  rs_step_model :: string

record org_routing =
  og_enabled :: bool
  og_mode :: string
  og_chain :: "route_step list"

record 'w chain_step =
  ch_config_id :: uuid
  ch_name :: string
  ch_type :: string
  ch_model :: string
  ch_client :: "'w client"

record 'w cached_chain =
  cc_steps :: "'w chain_step list"
  cc_agent_first :: bool
  cc_expires :: int

record 'w resolver_cache =
  rv_chains :: "(uuid \<times> 'w cached_chain) list"
  rv_clients :: "(uuid \<times> int \<times> 'w client) list"

record 'w resolver =
  rz_get :: "'w \<Rightarrow> uuid \<Rightarrow> go_err + org_routing option"
  rz_list :: "'w \<Rightarrow> uuid \<Rightarrow> go_err + provider_config list"
  rz_build :: "provider_config \<Rightarrow> go_err + 'w client"
  rz_decorate :: "('w client \<Rightarrow> 'w client) option"
  rz_ttl :: int
  rz_now :: "'w \<Rightarrow> int"
  rz_ctx_err :: "'w \<Rightarrow> go_err option"

section \<open>Resolving a chain\<close>

definition new_ttl :: "int \<Rightarrow> int" where
  "new_ttl ttl = (if ttl \<le> 0 then 30000 else ttl)"

definition empty_cache :: "'w resolver_cache" where
  "empty_cache = \<lparr>rv_chains = [], rv_clients = []\<rparr>"

definition invalidate :: "uuid \<Rightarrow> 'w resolver_cache \<Rightarrow> 'w resolver_cache" where
  "invalidate org k = k\<lparr>rv_chains := adel org (rv_chains k)\<rparr>"

text \<open>\<open>client\<close>: the cached client unless the config changed since it was built.\<close>

definition resolver_client ::
  "'w resolver \<Rightarrow> provider_config \<Rightarrow> 'w resolver_cache
     \<Rightarrow> (go_err + 'w client) \<times> 'w resolver_cache" where
  "resolver_client r cfg k =
     (let rebuild =
        (case rz_build r cfg of
           Inl e \<Rightarrow> (Inl e, k)
         | Inr built0 \<Rightarrow>
             (let built = (case rz_decorate r of None \<Rightarrow> built0 | Some d \<Rightarrow> d built0)
              in (Inr built,
                  k\<lparr>rv_clients := aput (pc_id cfg) (pc_updated_at cfg, built) (rv_clients k)\<rparr>)))
      in case map_of (rv_clients k) (pc_id cfg) of
           Some (upd, c) \<Rightarrow> if upd = pc_updated_at cfg then (Inr c, k) else rebuild
         | None \<Rightarrow> rebuild)"

fun resolve_steps ::
  "'w resolver \<Rightarrow> (uuid \<Rightarrow> provider_config option) \<Rightarrow> route_step list \<Rightarrow> 'w resolver_cache
     \<Rightarrow> 'w chain_step list \<times> 'w resolver_cache" where
  "resolve_steps r by_id [] k = ([], k)"
| "resolve_steps r by_id (p # ps) k =
     (case by_id (rs_config_id p) of
        None \<Rightarrow> resolve_steps r by_id ps k
      | Some cfg \<Rightarrow>
          (case resolver_client r cfg k of
             (Inl e, k') \<Rightarrow> resolve_steps r by_id ps k'
           | (Inr c, k') \<Rightarrow>
               (let m = (if trim_space (rs_step_model p) = [] then pc_default_model cfg
                         else trim_space (rs_step_model p));
                    (rest, k'') = resolve_steps r by_id ps k'
                in (\<lparr>ch_config_id = pc_id cfg, ch_name = pc_name cfg, ch_type = pc_type cfg,
                     ch_model = m, ch_client = c\<rparr> # rest, k''))))"

text \<open>A later config with the same id replaces an earlier one, as in the Go map.\<close>

definition resolve_chain ::
  "'w resolver \<Rightarrow> uuid \<Rightarrow> org_routing option \<Rightarrow> 'w \<Rightarrow> 'w resolver_cache
     \<Rightarrow> (go_err + 'w chain_step list) \<times> 'w resolver_cache" where
  "resolve_chain r org routing w k =
     (if (case routing of Some g \<Rightarrow> \<not> og_enabled g | None \<Rightarrow> False) then (Inr [], k)
      else (case rz_list r w org of
              Inl e \<Rightarrow> (Inl e, k)
            | Inr configs \<Rightarrow>
                if configs = [] then (Inr [], k)
                else (let by_id = map_of (rev (map (\<lambda>c. (pc_id c, c)) configs));
                          plan = (case routing of
                                    Some g \<Rightarrow> if og_chain g \<noteq> [] then og_chain g
                                      else map (\<lambda>c. \<lparr>rs_config_id = pc_id c, rs_step_model = []\<rparr>) configs
                                  | None \<Rightarrow> map (\<lambda>c. \<lparr>rs_config_id = pc_id c, rs_step_model = []\<rparr>) configs);
                          (steps, k') = resolve_steps r by_id plan k
                      in (Inr steps, k'))))"

definition org_chain ::
  "'w resolver \<Rightarrow> uuid \<Rightarrow> 'w \<Rightarrow> 'w resolver_cache
     \<Rightarrow> (go_err + 'w cached_chain) \<times> 'w resolver_cache" where
  "org_chain r org w k =
     (let reread =
        (case rz_get r w org of
           Inl e \<Rightarrow> (Inl e, k)
         | Inr routing \<Rightarrow>
             (case resolve_chain r org routing w k of
                (Inl e, k') \<Rightarrow> (Inl e, k')
              | (Inr steps, k') \<Rightarrow>
                  (let c = \<lparr>cc_steps = steps,
                            cc_agent_first = (case routing of Some g \<Rightarrow> og_mode g = ''fallback''
                                              | None \<Rightarrow> False),
                            cc_expires = rz_now r w + rz_ttl r\<rparr>
                   in (Inr c, k'\<lparr>rv_chains := aput org c (rv_chains k')\<rparr>))))
      in case map_of (rv_chains k) org of
           Some c \<Rightarrow> if rz_now r w < cc_expires c then (Inr c, k) else reread
         | None \<Rightarrow> reread)"

section \<open>Generating\<close>

text \<open>\<open>Resolver.Generate\<close>: \<open>tot\<close> is the length of the chain, \<open>lst\<close> the last error.\<close>

fun chain_hops ::
  "('w \<Rightarrow> go_err option) \<Rightarrow> go_ctx \<Rightarrow> nat \<Rightarrow> go_err \<Rightarrow> 'w chain_step list \<Rightarrow> gen_request \<Rightarrow> 'w
     \<Rightarrow> (go_err + gen_response) \<times> 'w" where
  "chain_hops ctx_err cx tot lst [] req w = (Inl (ErrOrgChainExhausted tot lst), w)"
| "chain_hops ctx_err cx tot lst (s # ss) req w =
     (case cl_generate (ch_client s) cx (req\<lparr>rq_model := ch_model s\<rparr>) w of
        (Inr resp, w') \<Rightarrow> (Inr resp, w')
      | (Inl err, w') \<Rightarrow>
          if ctx_err w' \<noteq> None then (Inl err, w')
          else chain_hops ctx_err cx tot err ss req w')"

definition chain_generate ::
  "('w \<Rightarrow> go_err option) \<Rightarrow> go_ctx \<Rightarrow> 'w chain_step list \<Rightarrow> gen_request \<Rightarrow> 'w
     \<Rightarrow> (go_err + gen_response) \<times> 'w" where
  "chain_generate ctx_err cx steps req w =
     chain_hops ctx_err cx (length steps) (ErrText ''%!w(<nil>)'') steps req w"

definition non_nil :: "uuid option \<Rightarrow> uuid option" where
  "non_nil x = (case x of Some i \<Rightarrow> if i \<noteq> uuid_nil then Some i else None | None \<Rightarrow> None)"

definition org_from_context :: "go_ctx \<Rightarrow> uuid option" where
  "org_from_context cx =
     (case non_nil (cx_org cx) of
        Some i \<Rightarrow> Some i
      | None \<Rightarrow>
          (case non_nil (cx_tools_org cx) of
             Some j \<Rightarrow> Some j
           | None \<Rightarrow> non_nil (cx_trace_org cx)))"

definition org_client_generate ::
  "'w resolver \<Rightarrow> 'w client \<Rightarrow> go_ctx \<Rightarrow> gen_request \<Rightarrow> 'w \<Rightarrow> 'w resolver_cache
     \<Rightarrow> ((go_err + gen_response) \<times> 'w) \<times> 'w resolver_cache" where
  "org_client_generate r inner cx req w k =
     (case org_from_context cx of
        None \<Rightarrow> (cl_generate inner cx req w, k)
      | Some org \<Rightarrow>
          (case org_chain r org w k of
             (Inl e, k') \<Rightarrow> (cl_generate inner cx req w, k')
           | (Inr chain, k') \<Rightarrow>
               if cc_steps chain = [] then (cl_generate inner cx req w, k')
               else if cc_agent_first chain then
                 (case cl_generate inner (cx\<lparr>cx_fallback_available := True\<rparr>) req w of
                    (Inr resp, w') \<Rightarrow> ((Inr resp, w'), k')
                  | (Inl err, w') \<Rightarrow>
                      if rz_ctx_err r w' \<noteq> None then ((Inl err, w'), k')
                      else (chain_generate (rz_ctx_err r) cx (cc_steps chain) req w', k'))
               else (chain_generate (rz_ctx_err r) cx (cc_steps chain) req w, k')))"

section \<open>Constructing clients\<close>

datatype client_spec =
  OpenAISpec string string string
| CompatibleSpec string string string string
| ClaudeSpec string string string
| GeminiSpec string string string
| OllamaSpec string string

definition default_base_url :: "string \<Rightarrow> string" where
  "default_base_url p =
     (if p = ''mistral'' then ''https://api.mistral.ai''
      else if p = ''grok'' then ''https://api.x.ai'' else [])"

definition unsupported_provider_text :: string where
  "unsupported_provider_text = ''orgroute: unsupported provider_type''"

definition build_client :: "(uuid \<Rightarrow> string) \<Rightarrow> provider_config \<Rightarrow> go_err + client_spec" where
  "build_client uuid_text cfg =
     (let base0 = trim_right_by (\<lambda>c. c = CHR ''/'') (trim_space (pc_base_url cfg));
          pt = to_lower (trim_space (pc_type cfg));
          no_key = (\<lambda>name. Inl (ErrText (''orgroute: '' @ name @ '' config ''
                      @ uuid_text (pc_id cfg) @ '' has no api_key'')))
      in if base0 \<noteq> [] \<and> \<not> has_prefix base0 ''http://'' \<and> \<not> has_prefix base0 ''https://'' then
           Inl (ErrText (''orgroute: base_url must be http(s): '' @ quote (pc_base_url cfg)))
         else if pt = ''openai'' then
           (let base = trim_suffix (if base0 = [] then ''https://api.openai.com'' else base0) ''/v1''
            in if pc_api_key cfg = [] then no_key ''openai''
               else Inr (OpenAISpec base (pc_api_key cfg) (pc_default_model cfg)))
         else if pt = ''mistral'' \<or> pt = ''grok'' then
           (let base = (if base0 = [] then default_base_url pt else base0)
            in if pc_api_key cfg = [] then no_key pt
               else Inr (CompatibleSpec pt (trim_suffix base ''/v1'') (pc_api_key cfg)
                           (pc_default_model cfg)))
         else if pt = ''claude'' then
           (if pc_api_key cfg = [] then no_key ''claude''
            else Inr (ClaudeSpec (trim_suffix base0 ''/v1'') (pc_api_key cfg) (pc_default_model cfg)))
         else if pt = ''gemini'' then
           (if pc_api_key cfg = [] then no_key ''gemini''
            else Inr (GeminiSpec base0 (pc_api_key cfg) (pc_default_model cfg)))
         else if pt = ''ollama'' then
           (if base0 = [] then
              Inl (ErrText (''orgroute: ollama config '' @ uuid_text (pc_id cfg)
                    @ '' has no base_url''))
            else Inr (OllamaSpec base0 (pc_default_model cfg)))
         else Inl (ErrAround [] (ErrSentinel unsupported_provider_text)
                    ('' '' @ quote (pc_type cfg))))"

section \<open>Lemmas\<close>

lemma chain_hops_Inl:
  assumes "chain_hops ctx_err cx n lst ss req w = (Inl e, w')"
  shows "ctx_err w' \<noteq> None \<or> (\<exists>e'. e = ErrOrgChainExhausted n e')"
  using assms
proof (induction ss arbitrary: lst w)
  case (Cons s ss)
  then show ?case
    by (cases "cl_generate (ch_client s) cx (req\<lparr>rq_model := ch_model s\<rparr>) w")
       (auto split: sum.splits if_splits)
qed auto

lemma chain_hops_first:
  assumes "\<And>s x. s \<in> set pre \<Longrightarrow> \<exists>e x'. cl_generate (ch_client s) cx (req\<lparr>rq_model := ch_model s\<rparr>) x
      = (Inl e, x') \<and> ctx_err x' = None"
  shows "\<exists>x lst'. chain_hops ctx_err cx n lst (pre @ ss) req w = chain_hops ctx_err cx n lst' ss req x
    \<and> (pre = [] \<longrightarrow> lst' = lst)"
  using assms
proof (induction pre arbitrary: lst w)
  case (Cons s pre)
  obtain e x where "cl_generate (ch_client s) cx (req\<lparr>rq_model := ch_model s\<rparr>) w = (Inl e, x)"
      "ctx_err x = None"
    using Cons.prems by fastforce
  with Cons.IH [of e x] Cons.prems show ?case by auto
qed auto

text \<open>The step a hop of the plan gives when its config is active.\<close>

definition step_of :: "(uuid \<Rightarrow> provider_config option) \<Rightarrow> route_step \<Rightarrow> 'w chain_step \<Rightarrow> bool" where
  "step_of by_id p s \<longleftrightarrow>
     (\<exists>cfg. by_id (rs_config_id p) = Some cfg \<and> ch_config_id s = pc_id cfg
        \<and> ch_name s = pc_name cfg
        \<and> ch_model s = (if trim_space (rs_step_model p) = [] then pc_default_model cfg
                        else trim_space (rs_step_model p)))"

lemma resolve_steps_active:
  "(steps, k') = resolve_steps r by_id ps k \<Longrightarrow> s \<in> set steps \<Longrightarrow> \<exists>p \<in> set ps. step_of by_id p s"
proof (induction ps arbitrary: k steps k')
  case (Cons p ps)
  show ?case
  proof (cases "by_id (rs_config_id p)")
    case None
    with Cons show ?thesis by auto
  next
    case (Some cfg)
    obtain x k1 where x: "resolver_client r cfg k = (x, k1)" by (cases "resolver_client r cfg k")
    obtain rest k2 where rest: "resolve_steps r by_id ps k1 = (rest, k2)"
      by (cases "resolve_steps r by_id ps k1")
    show ?thesis
    proof (cases x)
      case (Inl e)
      with Some x rest Cons.prems Cons.IH [of rest k2 k1] show ?thesis by auto
    next
      case (Inr c)
      define s0 where "s0 = \<lparr>ch_config_id = pc_id cfg, ch_name = pc_name cfg, ch_type = pc_type cfg,
          ch_model = (if trim_space (rs_step_model p) = [] then pc_default_model cfg
                      else trim_space (rs_step_model p)), ch_client = c\<rparr>"
      have "step_of by_id p s0"
        using Some by (auto simp: step_of_def s0_def)
      moreover have "steps = s0 # rest"
        using Inr Some x rest Cons.prems(1) by (simp add: s0_def Let_def)
      ultimately show ?thesis
        using Cons.prems(2) Cons.IH [of rest k2 k1] rest by auto
    qed
  qed
qed simp

lemma chain_generate_Inl:
  assumes "chain_generate ctx_err cx ss req w = (Inl e, w')"
  shows "ctx_err w' \<noteq> None \<or> (\<exists>e'. e = ErrOrgChainExhausted (length ss) e')"
  using assms unfolding chain_generate_def by (rule chain_hops_Inl)

section \<open>Properties\<close>

text \<open>
  the first hop that answers is the one that answers the call: when every hop before it fails
  with the context still live, the chain returns its reply, whatever hops come after it.
\<close>

lemma chain_first_success:
  assumes fails: "\<And>s x. s \<in> set pre \<Longrightarrow>
      \<exists>e x'. cl_generate (ch_client s) cx (req\<lparr>rq_model := ch_model s\<rparr>) x = (Inl e, x')
        \<and> ctx_err x' = None"
    and answers: "\<And>x. \<exists>x'. cl_generate (ch_client h) cx (req\<lparr>rq_model := ch_model h\<rparr>) x
        = (Inr resp, x')"
  shows "fst (chain_generate ctx_err cx (pre @ h # post) req w) = Inr resp"
proof -
  obtain x lst where
    "chain_generate ctx_err cx (pre @ h # post) req w
      = chain_hops ctx_err cx (length (pre @ h # post)) lst (h # post) req x"
    using chain_hops_first [of pre cx req ctx_err "length (pre @ h # post)" _ "h # post" w] fails
    unfolding chain_generate_def by blast
  moreover obtain x' where "cl_generate (ch_client h) cx (req\<lparr>rq_model := ch_model h\<rparr>) x
      = (Inr resp, x')"
    using answers by blast
  ultimately show ?thesis by simp
qed

text \<open>
  the platform's Ollama is never an extra hop of an organisation's chain: whatever error a
  chain ends with, the router's fallback does not apply to it.
\<close>

lemma chain_never_falls_back:
  assumes "chain_generate (rt_ctx_err r) cx steps req w = (Inl e, w')"
  shows "ollama_fallback_for r provider e w' = None"
  using chain_generate_Inl [OF assms] by (auto simp: ollama_fallback_for_def)

text \<open>
  every hop of a resolved chain is one of the organisation's active configs, with the model the
  chain names or else the config's default; a disabled routing gives the empty chain.
\<close>

lemma resolve_chain_active:
  assumes "resolve_chain r org routing w k = (Inr steps, k')"
    and "s \<in> set steps"
  shows "\<exists>configs cfg. rz_list r w org = Inr configs \<and> cfg \<in> set configs
      \<and> ch_config_id s = pc_id cfg \<and> ch_name s = pc_name cfg
      \<and> (\<forall>g. routing = Some g \<longrightarrow> og_enabled g)"
proof -
  from assms obtain configs plan where c: "rz_list r w org = Inr configs"
    and en: "\<forall>g. routing = Some g \<longrightarrow> og_enabled g"
    and st: "resolve_steps r (map_of (rev (map (\<lambda>c. (pc_id c, c)) configs))) plan k = (steps, k')"
    by (auto simp: resolve_chain_def Let_def split: if_splits sum.splits option.splits prod.splits)
  obtain p where "step_of (map_of (rev (map (\<lambda>c. (pc_id c, c)) configs))) p s"
    using resolve_steps_active [OF st [symmetric] assms(2)] by blast
  then obtain cfg where "map_of (rev (map (\<lambda>c. (pc_id c, c)) configs)) (rs_config_id p) = Some cfg"
      "ch_config_id s = pc_id cfg" "ch_name s = pc_name cfg"
    by (auto simp: step_of_def)
  then show ?thesis
    using c en by (auto dest!: map_of_SomeD)
qed

section \<open>Witnesses\<close>

definition failing_client :: "nat client" where
  "failing_client =
     \<lparr>cl_provider_name = ''busy'', cl_supports_tools = None,
      cl_generate = (\<lambda>cx rq w. (Inl (ErrProvider (transport_error ''busy'' False 0 ''refused'')),
        Suc w))\<rparr>"

definition empty_usage :: usage where
  "empty_usage = \<lparr>us_input = None, us_output = None, us_total = None, us_reasoning = None\<rparr>"

definition text_reply :: "string \<Rightarrow> int \<Rightarrow> int \<Rightarrow> gen_response" where
  "text_reply s i out =
     \<lparr>rs_content = s, rs_finish_reason = ''stop'', rs_model = [], rs_input_tokens = i,
      rs_output_tokens = out, rs_tool_calls = [], rs_provider_model = [], rs_request_id = [],
      rs_usage = empty_usage\<rparr>"

definition answering_client :: "nat client" where
  "answering_client =
     \<lparr>cl_provider_name = ''good'', cl_supports_tools = None,
      cl_generate = (\<lambda>cx rq w. (Inr (text_reply (rq_model rq) 3 4), Suc w))\<rparr>"

definition demo_step :: "string \<Rightarrow> nat client \<Rightarrow> nat chain_step" where
  "demo_step m c = \<lparr>ch_config_id = 1, ch_name = m, ch_type = ''openai'', ch_model = m, ch_client = c\<rparr>"

definition demo_request :: gen_request where
  "demo_request =
     \<lparr>rq_messages = [], rq_model = ''x'', rq_max_tokens = 10, rq_num_ctx = 0, rq_temperature = 0,
      rq_tool_defs = [], rq_think = False, rq_json = False\<rparr>"

definition ollama_router :: "nat router" where
  "ollama_router =
     \<lparr>rt_clients = [(''ollama'', answering_client)], rt_default = ''ollama'',
      rt_ollama_fallback = True, rt_ollama_model = [], rt_ctx_err = (\<lambda>w. None)\<rparr>"

definition demo_resolver :: "nat resolver" where
  "demo_resolver =
     \<lparr>rz_get = (\<lambda>w org. Inr None),
      rz_list = (\<lambda>w org. Inr [\<lparr>pc_id = 7, pc_name = ''main'', pc_type = ''openai'',
        pc_base_url = [], pc_api_key = ''k'', pc_default_model = ''gpt'', pc_updated_at = 1\<rparr>]),
      rz_build = (\<lambda>cfg. Inr answering_client), rz_decorate = None, rz_ttl = 30000,
      rz_now = (\<lambda>w. int w), rz_ctx_err = (\<lambda>w. None)\<rparr>"

end
