(* ===== verification/JsonText.thy ===== *)
theory JsonText
  imports GoMap Sorting
begin

text \<open>
  \<open>json.Marshal\<close>: the text of a JSON value as Go writes it. Strings are taken to be valid UTF-8;
  the members of a Go map are written in the order of their keys (\<open>marshal_any\<close>), those of a
  struct in the order of its fields (\<open>print_json\<close>). A number is written as its decimal
  expansion, which is what Go writes between \<open>1e-6\<close> and \<open>1e21\<close>. The decoder of \<open>GoJson\<close> reads back
  what is written here (\<open>parse_print_json\<close>).
\<close>

section \<open>Strings\<close>

definition hex_char :: "nat \<Rightarrow> char" where
  "hex_char n = (if n < 10 then char_of (48 + n) else char_of (87 + n))"

definition u_escape :: "nat \<Rightarrow> string" where
  "u_escape n =
     [CHR 0x5C, CHR ''u'', hex_char (n div 4096 mod 16), hex_char (n div 256 mod 16),
      hex_char (n div 16 mod 16), hex_char (n mod 16)]"

definition escape_char :: "char \<Rightarrow> string" where
  "escape_char c =
     (if c = CHR 0x22 \<or> c = CHR 0x5C then [CHR 0x5C, c]
      else if c = CHR 0x08 then [CHR 0x5C, CHR ''b'']
      else if c = CHR 0x0C then [CHR 0x5C, CHR ''f'']
      else if c = CHR 0x0A then [CHR 0x5C, CHR ''n'']
      else if c = CHR 0x0D then [CHR 0x5C, CHR ''r'']
      else if c = CHR 0x09 then [CHR 0x5C, CHR ''t'']
      else if (of_char c :: nat) < 32 \<or> c \<in> {CHR ''<'', CHR ''>'', CHR ''&''}
        then u_escape (of_char c)
      else [c])"

fun escape_text :: "string \<Rightarrow> string" where
  "escape_text (a # b # c # s) =
     (if a = CHR 0xE2 \<and> b = CHR 0x80 \<and> (c = CHR 0xA8 \<or> c = CHR 0xA9)
      then u_escape (8064 + of_char c) @ escape_text s
      else escape_char a @ escape_text (b # c # s))"
| "escape_text (a # s) = escape_char a @ escape_text s"
| "escape_text [] = []"

definition print_str :: "string \<Rightarrow> string" where
  "print_str s = CHR 0x22 # escape_text s @ [CHR 0x22]"

section \<open>Numbers\<close>

fun decimals :: "nat \<Rightarrow> rat \<Rightarrow> nat" where
  "decimals 0 r = 0"
| "decimals (Suc n) r = (if of_int \<lfloor>r\<rfloor> = r then 0 else Suc (decimals n (r * 10)))"

definition print_num :: "rat \<Rightarrow> string" where
  "print_num r =
     (if of_int \<lfloor>r\<rfloor> = r then show_int \<lfloor>r\<rfloor> else show_fixed (decimals 17 r) r)"

section \<open>Values\<close>

fun print_json :: "json \<Rightarrow> string" where
  "print_json JNull = ''null''"
| "print_json (JBool b) = (if b then ''true'' else ''false'')"
| "print_json (JNum r) = print_num r"
| "print_json (JStr s) = print_str s"
| "print_json (JArr vs) = CHR ''['' # join '','' (map print_json vs) @ '']''"
| "print_json (JObj ms) =
     CHR ''{'' # join '','' (map (\<lambda>(k, v). print_str k @ CHR '':'' # print_json v) ms) @ ''}''"

fun sort_keys :: "json \<Rightarrow> json" where
  "sort_keys (JArr vs) = JArr (map sort_keys vs)"
| "sort_keys (JObj ms) =
     JObj (stable_sort (\<lambda>a b. str_less (fst a) (fst b)) (map (\<lambda>(k, v). (k, sort_keys v)) ms))"
| "sort_keys v = v"

definition marshal_any :: "json \<Rightarrow> string" where
  "marshal_any v = print_json (sort_keys v)"

section \<open>What is written is read back\<close>

text \<open>The values whose numbers are integers: those the sources store and send.\<close>

fun int_json :: "json \<Rightarrow> bool" where
  "int_json (JNum r) \<longleftrightarrow> of_int \<lfloor>r\<rfloor> = r"
| "int_json (JArr vs) \<longleftrightarrow> list_all int_json vs"
| "int_json (JObj ms) \<longleftrightarrow> list_all (\<lambda>(k, v). int_json v) ms"
| "int_json v = True"


lemma hex_val_char: "n < 16 \<Longrightarrow> hex_val (hex_char n) = Some n"
  by (simp add: hex_val_def hex_char_def)

lemma hex4_chars:
  "a < 16 \<Longrightarrow> b < 16 \<Longrightarrow> c < 16 \<Longrightarrow> d < 16 \<Longrightarrow>
     hex4 (hex_char a) (hex_char b) (hex_char c) (hex_char d)
       = Some (((a * 16 + b) * 16 + c) * 16 + d)"
  by (simp add: hex4_def hex_val_char)

lemma hex4_digits:
  assumes "n < 65536"
  shows "hex4 (hex_char (n div 4096 mod 16)) (hex_char (n div 256 mod 16))
       (hex_char (n div 16 mod 16)) (hex_char (n mod 16)) = Some n"
proof -
  have d: "m div 16 * 16 + m mod 16 = m" for m :: nat
    by simp
  have "n div 256 = n div 16 div 16" "n div 4096 = n div 16 div 16 div 16"
    by (simp_all add: div_mult2_eq [symmetric])
  moreover have "n div 4096 mod 16 = n div 4096"
    using assms by (intro mod_less) (simp add: less_mult_imp_div_less)
  ultimately have "((n div 4096 mod 16 * 16 + n div 256 mod 16) * 16 + n div 16 mod 16) * 16
      + n mod 16 = n"
    using d by presburger
  then show ?thesis
    by (subst hex4_chars) (simp_all only: mod_less_divisor zero_less_numeral)
qed

lemma unescape_u_plain:
  "n < 55296 \<or> 57344 \<le> n \<Longrightarrow> unescape_u n t = (utf8 n, t)"
  by (induction n t rule: unescape_u.induct) auto

lemma parse_u_escape:
  assumes "n < 55296"
  shows "parse_str (u_escape n @ t) = pcons (utf8 n) (parse_str t)"
proof -
  have "unescape (tl (u_escape n @ t)) = Some (utf8 n, t)"
    using assms hex4_digits [of n]
    by (simp add: u_escape_def unescape_def simple_escape_def unescape_u_plain)
  then show ?thesis
    by (simp add: u_escape_def parse_str_escape)
qed

lemma parse_simple_escape:
  "simple_escape e = Some d \<Longrightarrow> parse_str ([CHR 0x5C, e] @ t) = pcons [d] (parse_str t)"
  by (simp add: parse_str_escape unescape_def)

lemma escape_short:
  "c \<in> {CHR 0x22, CHR 0x5C, CHR 0x08, CHR 0x0C, CHR 0x0A, CHR 0x0D, CHR 0x09} \<Longrightarrow>
     \<exists>e. escape_char c = [CHR 0x5C, e] \<and> simple_escape e = Some c"
  unfolding escape_char_def
  by (elim insertE emptyE) (hypsubst, simp add: simple_escape_def)+

lemma parse_escape_char: "parse_str (escape_char c @ t) = pcons [c] (parse_str t)"
proof -
  consider (short) "c \<in> {CHR 0x22, CHR 0x5C, CHR 0x08, CHR 0x0C, CHR 0x0A, CHR 0x0D, CHR 0x09}"
    | (hex) "escape_char c = u_escape (of_char c)" "(of_char c :: nat) < 128"
    | (plain) "escape_char c = [c]" "c \<noteq> CHR 0x22" "c \<noteq> CHR 0x5C" "\<not> (of_char c :: nat) < 32"
  proof (cases "c \<in> {CHR 0x22, CHR 0x5C, CHR 0x08, CHR 0x0C, CHR 0x0A, CHR 0x0D, CHR 0x09}")
    case False
    then have e: "escape_char c = (if (of_char c :: nat) < 32 \<or> c \<in> {CHR ''<'', CHR ''>'', CHR ''&''}
        then u_escape (of_char c) else [c])"
      by (simp add: escape_char_def)
    show ?thesis
    proof (cases "(of_char c :: nat) < 32 \<or> c \<in> {CHR ''<'', CHR ''>'', CHR ''&''}")
      case True
      with e show ?thesis by (intro that(2)) auto
    next
      case F: False
      with e False show ?thesis by (intro that(3)) auto
    qed
  qed (rule that(1))
  then show ?thesis
  proof cases
    case short
    then show ?thesis
      using escape_short parse_simple_escape by metis
  next
    case hex
    then show ?thesis by (simp add: parse_u_escape utf8_def)
  next
    case plain
    then show ?thesis by (simp add: parse_str_plain)
  qed
qed

lemma utf8_separator:
  "c = CHR 0xA8 \<or> c = CHR 0xA9 \<Longrightarrow> utf8 (8064 + of_char c) = [CHR 0xE2, CHR 0x80, c]"
proof -
  have c: "char_of n = d" if "of_char d = n" for d and n :: nat
    using that by (metis char_of_char)
  have "char_of (226 :: nat) = CHR 0xE2" "char_of (128 :: nat) = CHR 0x80"
      "char_of (168 :: nat) = CHR 0xA8" "char_of (169 :: nat) = CHR 0xA9"
    by (rule c; simp)+
  then show "c = CHR 0xA8 \<or> c = CHR 0xA9 \<Longrightarrow> ?thesis"
    by (auto simp: utf8_def)
qed

lemma pcons_append: "pcons u (pcons v p) = pcons (u @ v) p"
  by (cases p) auto

lemma parse_escape_text: "parse_str (escape_text s @ t) = pcons s (parse_str t)"
proof (induction s rule: escape_text.induct)
  case (1 a b c s)
  show ?case
  proof (cases "a = CHR 0xE2 \<and> b = CHR 0x80 \<and> (c = CHR 0xA8 \<or> c = CHR 0xA9)")
    case True
    then have "(8064 + of_char c :: nat) < 55296" by auto
    with True 1 utf8_separator [of c] show ?thesis
      by (auto simp: parse_u_escape pcons_append)
  next
    case False
    then have "escape_text (a # b # c # s) = escape_char a @ escape_text (b # c # s)"
      by (simp only: escape_text.simps if_False)
    with 1 False show ?thesis
      by (simp add: parse_escape_char pcons_append del: escape_text.simps)
  qed
next
  case 3
  show ?case by (cases "parse_str t") auto
qed (simp_all add: parse_escape_char pcons_append)

lemma parse_print_str: "parse_str (escape_text s @ CHR 0x22 # t) = POk s t"
  by (simp add: parse_escape_text parse_str_quote)


text \<open>Numbers.\<close>

lemma show_nat_rec: "10 \<le> n \<Longrightarrow> show_nat n = show_nat (n div 10) @ [digit_char (n mod 10)]"
  by (subst show_nat.simps) simp

lemma show_nat_small: "n < 10 \<Longrightarrow> show_nat n = [digit_char n]"
  by (subst show_nat.simps) simp

lemma digit_char_digit: "n < 10 \<Longrightarrow> is_digit (digit_char n)" "n < 10 \<Longrightarrow> digit_val (digit_char n) = n"
  by (simp_all add: is_digit_def digit_val_def digit_char_def)

lemma digits_val_snoc: "digits_val (ds @ [d]) = 10 * digits_val ds + digit_val d"
  by (simp add: digits_val_def)

lemma show_nat_digits: "list_all is_digit (show_nat n) \<and> digits_val (show_nat n) = n"
proof (induction n rule: show_nat.induct)
  case (1 n)
  show ?case
  proof (cases "n < 10")
    case True
    then show ?thesis
      by (simp add: show_nat_small digit_char_digit digits_val_def)
  next
    case False
    with 1 show ?thesis
      by (simp add: show_nat_rec digit_char_digit digits_val_snoc)
  qed
qed

lemma show_nat_head: "\<exists>d ds. show_nat n = d # ds \<and> (d = CHR ''0'' \<longrightarrow> ds = []) \<and> is_digit d"
proof (induction n rule: show_nat.induct)
  case (1 n)
  show ?case
  proof (cases "n < 10")
    case True
    then show ?thesis by (simp add: show_nat_small digit_char_digit)
  next
    case False
    then have "show_nat (n div 10) \<noteq> [CHR ''0'']"
    proof -
      assume "\<not> n < 10"
      then have "n div 10 \<noteq> 0" by (simp add: div_eq_0_iff)
      moreover have "digits_val [CHR ''0''] = 0" by (simp add: digits_val_def digit_val_def)
      ultimately show ?thesis using show_nat_digits [of "n div 10"] by metis
    qed
    with False 1 show ?thesis by (auto simp: show_nat_rec)
  qed
qed

text \<open>What may follow a number.\<close>

definition ends_number :: "string \<Rightarrow> bool" where
  "ends_number r =
     (case r of [] \<Rightarrow> True
      | c # t \<Rightarrow> \<not> is_digit c \<and> c \<notin> {CHR ''.'', CHR ''e'', CHR ''E''})"

lemma takeWhile_digits:
  "list_all is_digit ds \<Longrightarrow> ends_number r \<Longrightarrow> takeWhile is_digit (ds @ r) = ds"
  "list_all is_digit ds \<Longrightarrow> ends_number r \<Longrightarrow> dropWhile is_digit (ds @ r) = r"
  by (cases r; simp add: list_all_iff ends_number_def takeWhile_append dropWhile_append)+

lemma parse_int_part_nat:
  "ends_number r \<Longrightarrow> parse_int_part (show_nat n @ r) = Some (show_nat n, r)"
proof -
  assume r: "ends_number r"
  obtain d ds where d: "show_nat n = d # ds" "d = CHR ''0'' \<longrightarrow> ds = []" "is_digit d"
    using show_nat_head by blast
  have "list_all is_digit ds"
    using show_nat_digits [of n] d by simp
  with r d show ?thesis
    by (simp add: parse_int_part_def takeWhile_digits)
qed

lemma no_fraction: "ends_number r \<Longrightarrow> parse_frac r = Some ([], r)"
  by (cases r) (auto simp: parse_frac_def ends_number_def)

lemma no_exponent: "ends_number r \<Longrightarrow> parse_exp r = Some (0, r)"
  by (cases r) (auto simp: parse_exp_def ends_number_def)

lemma digit_not_minus: "is_digit d \<Longrightarrow> d \<noteq> CHR ''-''"
  by (auto simp: is_digit_def)

lemma parse_show_int:
  assumes "ends_number r"
  shows "parse_num (show_int i @ r) = POk (JNum (of_int i)) r"
proof -
  have n: "digits_val (show_nat m) = m" for m
    using show_nat_digits by blast
  have h: "(case show_nat m @ r of [] \<Rightarrow> False | c # t \<Rightarrow> c = CHR ''-'') = False"
      "(case show_nat m @ r of [] \<Rightarrow> show_nat m @ r | c # t \<Rightarrow> if c = CHR ''-'' then t else show_nat m @ r)
        = show_nat m @ r" for m
    using show_nat_head [of m] digit_not_minus by auto
  show ?thesis
    using assms
    by (simp add: parse_num_def show_int_def parse_int_part_nat no_fraction no_exponent n h
        scale10_def Let_def)
qed

text \<open>
  Values. The fuel a value takes grows with its size; the brackets and separators around it end a
  number.
\<close>

fun json_size :: "json \<Rightarrow> nat" where
  "json_size (JArr vs) = Suc (sum_list (map (\<lambda>v. Suc (json_size v)) vs))"
| "json_size (JObj ms) = Suc (sum_list (map (\<lambda>(k, v). Suc (json_size v)) ms))"
| "json_size v = 1"

lemma ends_number_simps [simp]:
  "ends_number (CHR '','' # t)" "ends_number (CHR '']'' # t)" "ends_number (CHR ''}'' # t)"
  "ends_number []"
  by (simp_all add: ends_number_def is_digit_def)

lemma skip_ws_print:
  assumes "int_json v"
  shows "\<exists>c t. print_json v = c # t \<and> \<not> json_ws c \<and> c \<noteq> CHR '']''"
proof (cases v)
  case (JNum r)
  obtain d ds where "show_nat (nat \<bar>\<lfloor>r\<rfloor>\<bar>) = d # ds" "is_digit d"
    using show_nat_head by blast
  with JNum assms show ?thesis
    by (cases "\<lfloor>r\<rfloor> < 0") (auto simp: print_num_def show_int_def json_ws_def is_digit_def)
qed (auto simp: json_ws_def print_str_def)

lemma skip_ws_printed: "int_json v \<Longrightarrow> skip_ws (print_json v @ r) = print_json v @ r"
  using skip_ws_print [of v] by (auto simp: skip_ws_def)

definition reads_back :: "json \<Rightarrow> bool" where
  "reads_back v \<longleftrightarrow>
     (\<forall>n r. json_size v \<le> n \<longrightarrow> ends_number r \<longrightarrow> parse_value n (print_json v @ r) = POk v r)"

lemma reads_backD:
  "reads_back v \<Longrightarrow> json_size v \<le> n \<Longrightarrow> ends_number r \<Longrightarrow>
     parse_value n (print_json v @ r) = POk v r"
  by (simp add: reads_back_def)

lemma skip_ws_cons: "\<not> json_ws c \<Longrightarrow> skip_ws (c # t) = c # t"
  by (simp add: skip_ws_def)

lemma json_ws_simps [simp]:
  "\<not> json_ws (CHR '','')" "\<not> json_ws (CHR '':'')" "\<not> json_ws (CHR '']'')" "\<not> json_ws (CHR ''}'')"
  "\<not> json_ws (CHR ''['')" "\<not> json_ws (CHR ''{'')" "\<not> json_ws (CHR 0x22)"
  by (simp_all add: json_ws_def)

lemma parse_elems_print:
  "vs \<noteq> [] \<Longrightarrow> \<forall>v \<in> set vs. reads_back v \<Longrightarrow> sum_list (map (\<lambda>v. Suc (json_size v)) vs) \<le> n \<Longrightarrow>
     parse_elems n (join '','' (map print_json vs) @ CHR '']'' # r) = POk vs r"
proof (induction vs arbitrary: n)
  case (Cons v vs)
  then obtain m where m: "n = Suc m" by (cases n) auto
  show ?case
  proof (cases vs)
    case Nil
    with Cons.prems m show ?thesis
      by (simp add: reads_backD skip_ws_cons)
  next
    case C: (Cons u us)
    have "parse_elems m (join '','' (map print_json vs) @ CHR '']'' # r) = POk vs r"
      using Cons C m by simp
    with Cons.prems C m show ?thesis
      by (simp add: reads_backD skip_ws_cons)
  qed
qed simp

lemma parse_members_print:
  "ms \<noteq> [] \<Longrightarrow> \<forall>(k, v) \<in> set ms. reads_back v \<Longrightarrow>
     sum_list (map (\<lambda>(k, v). Suc (json_size v)) ms) \<le> n \<Longrightarrow>
     parse_members n (join '','' (map (\<lambda>(k, v). print_str k @ CHR '':'' # print_json v) ms)
        @ CHR ''}'' # r) = POk ms r"
proof (induction ms arbitrary: n)
  case (Cons kv ms)
  then obtain m where m: "n = Suc m" by (cases n) auto
  obtain k v where kv: "kv = (k, v)" by (cases kv)
  show ?case
  proof (cases ms)
    case Nil
    with Cons.prems m kv show ?thesis
      by (simp add: reads_backD skip_ws_cons print_str_def parse_print_str)
  next
    case C: (Cons u us)
    have "parse_members m (join '','' (map (\<lambda>(k, v). print_str k @ CHR '':'' # print_json v) ms)
        @ CHR ''}'' # r) = POk ms r"
      using Cons.prems C m kv by (intro Cons.IH) (auto split: prod.splits)
    with Cons.prems C m kv show ?thesis
      by (cases u) (simp add: reads_backD skip_ws_cons print_str_def parse_print_str)
  qed
qed simp


lemma reads_back_value:
  assumes "int_json v"
  shows "reads_back v"
  using assms
proof (induction v rule: int_json.induct)
  case (1 q)
  show ?case
    unfolding reads_back_def
  proof (intro allI impI)
    fix n r assume n: "json_size (JNum q) \<le> n" and r: "ends_number r"
    then obtain m where m: "n = Suc m" by (cases n) auto
    have q: "print_json (JNum q) = show_int \<lfloor>q\<rfloor>" "of_int \<lfloor>q\<rfloor> = q"
      using 1 by (simp_all add: print_num_def)
    obtain d ds where d: "show_int \<lfloor>q\<rfloor> = d # ds" "is_digit d \<or> d = CHR ''-''"
      using show_nat_head [of "nat \<lfloor>q\<rfloor>"] that by (cases "\<lfloor>q\<rfloor> < 0") (auto simp: show_int_def)
    have "skip_ws (show_int \<lfloor>q\<rfloor> @ r) = show_int \<lfloor>q\<rfloor> @ r"
      using skip_ws_printed [of "JNum q" r] 1 q by simp
    moreover have "d \<notin> {CHR ''{'', CHR ''['', CHR 0x22, CHR ''t'', CHR ''f'', CHR ''n''}"
      using d by (auto simp: is_digit_def)
    moreover have "parse_num (d # ds @ r) = POk (JNum q) r"
      using parse_show_int [OF r, of "\<lfloor>q\<rfloor>"] d q by simp
    ultimately show "parse_value n (print_json (JNum q) @ r) = POk (JNum q) r"
      using m d q by simp
  qed
next
  case (2 vs)
  show ?case
    unfolding reads_back_def
  proof (intro allI impI)
    fix n r assume n: "json_size (JArr vs) \<le> n"
    then obtain m where m: "n = Suc m" by (cases n) auto
    show "parse_value n (print_json (JArr vs) @ r) = POk (JArr vs) r"
    proof (cases "vs = []")
      case True
      with m show ?thesis by (simp add: skip_ws_cons)
    next
      case False
      obtain u us where u: "vs = u # us" using False by (cases vs) auto
      have v: "\<forall>v \<in> set vs. reads_back v"
        using 2 by (auto simp: list_all_iff)
      obtain t where t: "join '','' (map print_json vs) = print_json u @ t"
        using u by (cases us) auto
      obtain c w where c: "print_json u = c # w" "\<not> json_ws c" "c \<noteq> CHR '']''"
        using skip_ws_print [of u] 2 u by auto
      have "parse_elems m (join '','' (map print_json vs) @ CHR '']'' # r) = POk vs r"
        using n m by (intro parse_elems_print False v) simp
      with m t c show ?thesis by (simp add: skip_ws_cons)
    qed
  qed
next
  case (3 ms)
  show ?case
    unfolding reads_back_def
  proof (intro allI impI)
    fix n r assume n: "json_size (JObj ms) \<le> n"
    then obtain m where m: "n = Suc m" by (cases n) auto
    show "parse_value n (print_json (JObj ms) @ r) = POk (JObj ms) r"
    proof (cases "ms = []")
      case True
      with m show ?thesis by (simp add: skip_ws_cons)
    next
      case False
      define mem where "mem = (\<lambda>(k, v). print_str k @ CHR '':'' # print_json v)"
      have v: "\<forall>(k, v) \<in> set ms. reads_back v"
        using 3 by (auto simp: list_all_iff)
      obtain t where t: "join '','' (map mem ms) = CHR 0x22 # t"
      proof (cases ms)
        case (Cons kv us)
        with that show ?thesis by (cases us; cases kv) (auto simp: mem_def print_str_def)
      qed (simp add: False)
      have "parse_members m (join '','' (map mem ms) @ CHR ''}'' # r) = POk ms r"
        using n m unfolding mem_def by (intro parse_members_print False v) simp
      moreover have "print_json (JObj ms) = CHR ''{'' # join '','' (map mem ms) @ ''}''"
        by (simp add: mem_def)
      ultimately show ?thesis using m t by (simp add: skip_ws_cons)
    qed
  qed
qed (auto simp: reads_back_def skip_ws_cons json_ws_def print_str_def parse_print_str gr0_conv_Suc
      Suc_le_eq)

lemma length_join_comma:
  "xs \<noteq> [] \<Longrightarrow> Suc (length (join '','' xs)) = sum_list (map (\<lambda>x. Suc (length x)) xs)"
  by (induction "'',''" xs rule: join.induct) auto

lemma json_size_print: "json_size v \<le> length (print_json v)"
proof (induction v rule: print_json.induct)
  case (3 r)
  show ?case
    by (simp add: print_num_def show_int_def show_fixed_def Let_def Suc_le_eq)
next
  case (5 vs)
  show ?case
  proof (cases "vs = []")
    case False
    have "sum_list (map (\<lambda>v. Suc (json_size v)) vs)
        \<le> sum_list (map (\<lambda>v. Suc (length (print_json v))) vs)"
      using 5 by (intro sum_list_mono) auto
    with False length_join_comma [of "map print_json vs"] show ?thesis
      by (simp add: comp_def)
  qed simp
next
  case (6 ms)
  show ?case
  proof (cases "ms = []")
    case False
    define mem where "mem = (\<lambda>(k, v). print_str k @ CHR '':'' # print_json v)"
    have "Suc (json_size (snd kv)) \<le> Suc (length (mem kv))" if "kv \<in> set ms" for kv
      using 6 [OF that] that by (cases kv) (force simp: mem_def)
    then have "sum_list (map (\<lambda>(k, v). Suc (json_size v)) ms)
        \<le> sum_list (map (\<lambda>kv. Suc (length (mem kv))) ms)"
      by (intro sum_list_mono) (auto simp: case_prod_beta)
    with False length_join_comma [of "map mem ms"] show ?thesis
      by (simp add: comp_def mem_def [symmetric])
  qed simp
qed (simp_all add: print_str_def)

lemma parse_print_json:
  assumes "int_json v"
  shows "parse_json (print_json v) = Some v"
proof -
  have "parse_value (2 * length (print_json v) + 2) (print_json v @ []) = POk v []"
    using reads_back_value [OF assms] json_size_print [of v]
    by (intro reads_backD) simp_all
  then show ?thesis by (simp add: parse_json_def skip_ws_def)
qed

end
