(* ===== verification/GoEncoding.thy ===== *)
theory GoEncoding
  imports GoJson
begin

text \<open>
  Two encodings of the Go standard library the sources rely on: base64 with padding
  (\<open>base64.StdEncoding\<close>) and time stamps in the form of RFC 3339 (\<open>time.Parse\<close> with
  \<open>time.RFC3339\<close>), read as Unix seconds.
\<close>

section \<open>Base64\<close>

definition b64_char :: "nat \<Rightarrow> char" where
  "b64_char n =
     (if n < 26 then char_of (65 + n) else if n < 52 then char_of (71 + n)
      else if n < 62 then char_of (n - 4) else if n = 62 then CHR ''+'' else CHR ''/'')"

definition b64_val :: "char \<Rightarrow> nat option" where
  "b64_val c =
     (let n = of_char c :: nat in
      if 65 \<le> n \<and> n \<le> 90 then Some (n - 65)
      else if 97 \<le> n \<and> n \<le> 122 then Some (n - 71)
      else if 48 \<le> n \<and> n \<le> 57 then Some (n + 4)
      else if c = CHR ''+'' then Some 62
      else if c = CHR ''/'' then Some 63
      else None)"

fun b64_encode :: "string \<Rightarrow> string" where
  "b64_encode (a # b # c # s) =
     (let x = of_char a :: nat; y = of_char b; z = of_char c
      in [b64_char (x div 4), b64_char (x mod 4 * 16 + y div 16),
          b64_char (y mod 16 * 4 + z div 64), b64_char (z mod 64)] @ b64_encode s)"
| "b64_encode [a, b] =
     (let x = of_char a :: nat; y = of_char b
      in [b64_char (x div 4), b64_char (x mod 4 * 16 + y div 16), b64_char (y mod 16 * 4),
          CHR ''=''])"
| "b64_encode [a] =
     (let x = of_char a :: nat
      in [b64_char (x div 4), b64_char (x mod 4 * 16), CHR ''='', CHR ''=''])"
| "b64_encode [] = []"

text \<open>
  Decoding drops line breaks, takes four characters at a time and allows padding only in the last
  group.
\<close>

fun b64_groups :: "string \<Rightarrow> string option" where
  "b64_groups [] = Some []"
| "b64_groups (a # b # c # d # s) =
     (case (b64_val a, b64_val b) of
        (Some w, Some x) \<Rightarrow>
          if c = CHR ''='' then
            (if d = CHR ''='' \<and> s = [] then Some [char_of (w * 4 + x div 16)] else None)
          else
            (case b64_val c of
               None \<Rightarrow> None
             | Some y \<Rightarrow>
                 if d = CHR ''='' then
                   (if s = [] then Some [char_of (w * 4 + x div 16), char_of (x mod 16 * 16 + y div 4)]
                    else None)
                 else
                   (case (b64_val d, b64_groups s) of
                      (Some z, Some t) \<Rightarrow>
                        Some ([char_of (w * 4 + x div 16), char_of (x mod 16 * 16 + y div 4),
                               char_of (y mod 4 * 64 + z)] @ t)
                    | _ \<Rightarrow> None))
      | _ \<Rightarrow> None)"
| "b64_groups s = None"

definition b64_decode :: "string \<Rightarrow> string option" where
  "b64_decode s = b64_groups (filter (\<lambda>c. c \<noteq> CHR 0x0A \<and> c \<noteq> CHR 0x0D) s)"

section \<open>Time stamps\<close>

text \<open>The days from 1970-01-01 to a date of the Gregorian calendar.\<close>

definition leap_year :: "int \<Rightarrow> bool" where
  "leap_year y \<longleftrightarrow> y mod 4 = 0 \<and> (y mod 100 \<noteq> 0 \<or> y mod 400 = 0)"

definition days_in_month :: "int \<Rightarrow> int \<Rightarrow> int" where
  "days_in_month y m =
     (if m = 2 then (if leap_year y then 29 else 28)
      else if m \<in> {4, 6, 9, 11} then 30 else 31)"

definition days_from_civil :: "int \<Rightarrow> int \<Rightarrow> int \<Rightarrow> int" where
  "days_from_civil y m d =
     (let y1 = (if m \<le> 2 then y - 1 else y); m1 = (m + 9) mod 12
      in 365 * y1 + y1 div 4 - y1 div 100 + y1 div 400 + (153 * m1 + 2) div 5 + d - 1 - 719468)"

text \<open>A number of exactly \<open>n\<close> digits in front of a text.\<close>

definition fixed_digits :: "nat \<Rightarrow> string \<Rightarrow> (int \<times> string) option" where
  "fixed_digits n s =
     (if length s \<ge> n \<and> list_all is_digit (take n s)
      then Some (int (digits_val (take n s)), drop n s) else None)"

definition expect :: "char \<Rightarrow> string \<Rightarrow> string option" where
  "expect c s = (case s of d # t \<Rightarrow> if c = d then Some t else None | [] \<Rightarrow> None)"

definition skip_fraction :: "string \<Rightarrow> string option" where
  "skip_fraction s =
     (case s of
        c # t \<Rightarrow>
          if c = CHR ''.'' \<or> c = CHR '',''
          then (if takeWhile is_digit t = [] then None else Some (dropWhile is_digit t))
          else Some s
      | [] \<Rightarrow> Some s)"

definition zone_offset :: "string \<Rightarrow> int option" where
  "zone_offset s =
     (case s of
        [] \<Rightarrow> None
      | c # t \<Rightarrow>
          if c = CHR ''Z'' then (if t = [] then Some 0 else None)
          else if c = CHR ''+'' \<or> c = CHR ''-'' then
            (case fixed_digits 2 t of
               None \<Rightarrow> None
             | Some (h, u) \<Rightarrow>
                 (case Option.bind (expect (CHR '':'') u) (fixed_digits 2) of
                    Some (m, []) \<Rightarrow>
                      if h \<le> 24 \<and> m < 60
                      then Some ((if c = CHR ''-'' then - 1 else 1) * (h * 3600 + m * 60)) else None
                  | _ \<Rightarrow> None))
          else None)"

definition date_part :: "string \<Rightarrow> (int \<times> string) option" where
  "date_part s =
     Option.bind (fixed_digits 4 s) (\<lambda>(y, s1).
     Option.bind (expect (CHR ''-'') s1) (\<lambda>s2.
     Option.bind (fixed_digits 2 s2) (\<lambda>(m, s3).
     Option.bind (expect (CHR ''-'') s3) (\<lambda>s4.
     Option.bind (fixed_digits 2 s4) (\<lambda>(d, s5).
       if 1 \<le> m \<and> m \<le> 12 \<and> 1 \<le> d \<and> d \<le> days_in_month y m
       then Some (days_from_civil y m d, s5) else None)))))"

definition clock_part :: "string \<Rightarrow> (int \<times> string) option" where
  "clock_part s =
     Option.bind (fixed_digits 2 s) (\<lambda>(h, s1).
     Option.bind (expect (CHR '':'') s1) (\<lambda>s2.
     Option.bind (fixed_digits 2 s2) (\<lambda>(m, s3).
     Option.bind (expect (CHR '':'') s3) (\<lambda>s4.
     Option.bind (fixed_digits 2 s4) (\<lambda>(sec, s5).
       if h < 24 \<and> m < 60 \<and> sec < 60
       then map_option (\<lambda>r. (h * 3600 + m * 60 + sec, r)) (skip_fraction s5) else None)))))"

definition parse_rfc3339 :: "string \<Rightarrow> int option" where
  "parse_rfc3339 s =
     Option.bind (date_part s) (\<lambda>(day, s1).
     Option.bind (expect (CHR ''T'') s1) (\<lambda>s2.
     Option.bind (clock_part s2) (\<lambda>(secs, s3).
     map_option (\<lambda>z. day * 86400 + secs - z) (zone_offset s3))))"

section \<open>Decoding is the inverse of encoding\<close>

lemma b64_val_char: "n < 64 \<Longrightarrow> b64_val (b64_char n) = Some n"
  by (cases "n < 52") (auto simp: b64_val_def b64_char_def Let_def)

lemma b64_char_not_eq: "n < 64 \<Longrightarrow> b64_char n \<noteq> CHR ''=''"
  using b64_val_char [of n] by (auto simp: b64_val_def)

lemma byte_less: "(of_char c :: nat) < 256"
  by simp

lemma b64_step:
  fixes x y z :: nat
  assumes "y < 256" "z < 256"
  shows "(x mod 4 * 16 + y div 16) div 16 = x mod 4" "(x mod 4 * 16 + y div 16) mod 16 = y div 16"
    "(y mod 16 * 4 + z div 64) div 4 = y mod 16" "(y mod 16 * 4 + z div 64) mod 4 = z div 64"
proof -
  have "y div 16 < 16" "z div 64 < 4" using assms by (simp_all add: less_mult_imp_div_less)
  then show "(x mod 4 * 16 + y div 16) div 16 = x mod 4" "(x mod 4 * 16 + y div 16) mod 16 = y div 16"
    "(y mod 16 * 4 + z div 64) div 4 = y mod 16" "(y mod 16 * 4 + z div 64) mod 4 = z div 64"
    by simp_all
qed

lemma b64_digit_bounds:
  fixes x y z :: nat
  assumes "x < 256" "y < 256" "z < 256"
  shows "x div 4 < 64" "x mod 4 * 16 + y div 16 < 64" "y mod 16 * 4 + z div 64 < 64" "z mod 64 < 64"
    "x mod 4 * 16 < 64" "y mod 16 * 4 < 64"
proof -
  have "x mod 4 < 4" "y mod 16 < 16" "y div 16 < 16" "z div 64 < 4" "x div 4 < 64"
    using assms by (simp_all add: less_mult_imp_div_less)
  then show "x div 4 < 64" "x mod 4 * 16 + y div 16 < 64" "y mod 16 * 4 + z div 64 < 64"
    "z mod 64 < 64" "x mod 4 * 16 < 64" "y mod 16 * 4 < 64"
    by simp_all
qed

lemma b64_groups_encode: "b64_groups (b64_encode s) = Some s"
proof (induction s rule: b64_encode.induct)
  case (1 a b c s)
  note bs = byte_less [of a] byte_less [of b] byte_less [of c]
  show ?case
    using 1 b64_digit_bounds [OF bs] b64_step [OF bs(2,3)]
    by (simp add: Let_def b64_val_char b64_char_not_eq)
next
  case (2 a b)
  note bs = byte_less [of a] byte_less [of b] byte_less [of b]
  show ?case
    using b64_digit_bounds [OF bs] b64_step [OF bs(2,3)]
    by (simp add: Let_def b64_val_char b64_char_not_eq)
next
  case (3 a)
  note bs = byte_less [of a] byte_less [of a] byte_less [of a]
  show ?case
    using b64_digit_bounds [OF bs]
    by (simp add: Let_def b64_val_char b64_char_not_eq)
qed simp

lemma b64_char_no_break: "n < 64 \<Longrightarrow> b64_char n \<noteq> CHR 0x0A \<and> b64_char n \<noteq> CHR 0x0D"
  using b64_val_char [of n] by (auto simp: b64_val_def)

lemma b64_encode_no_break: "c \<in> set (b64_encode s) \<Longrightarrow> c \<noteq> CHR 0x0A \<and> c \<noteq> CHR 0x0D"
proof (induction s rule: b64_encode.induct)
  case (1 a b d s)
  with b64_digit_bounds [OF byte_less [of a] byte_less [of b] byte_less [of d]]
  show ?case by (auto simp: Let_def b64_char_no_break)
next
  case (2 a b)
  with b64_digit_bounds [OF byte_less [of a] byte_less [of b] byte_less [of b]]
  show ?case by (auto simp: Let_def b64_char_no_break)
next
  case (3 a)
  with b64_digit_bounds [OF byte_less [of a] byte_less [of a] byte_less [of a]]
  show ?case by (auto simp: Let_def b64_char_no_break)
qed simp

lemma b64_decode_encode: "b64_decode (b64_encode s) = Some s"
proof -
  have "filter (\<lambda>c. c \<noteq> CHR 0x0A \<and> c \<noteq> CHR 0x0D) (b64_encode s) = b64_encode s"
    using b64_encode_no_break [of _ s] by (simp add: filter_id_conv)
  then show ?thesis by (simp only: b64_decode_def b64_groups_encode)
qed

end
