(* ===== verification/SecretsEnv.thy ===== *)
theory SecretsEnv
  imports JsonText GoEncoding
begin

text \<open>
  What the secrets rotation (package \<open>secretsrot\<close>) runs in: its configuration, the requests it
  makes and the environment that answers them. The network is a parameter: \<open>rt_http\<close> answers a
  request with a status and the text of a body, or with the error of the transport (packages
  \<open>net/http\<close>, \<open>net/url\<close> and \<open>crypto/tls\<close>, an unusable address included). Every request the
  rotation makes, to Vault, a cluster, GitHub or Ring Promoter, goes through it.
\<close>

section \<open>Requests and the environment\<close>

datatype service = ToVault | ToKube | ToGitHub | ToPromoter

record http_req =
  hq_to :: service
  hq_method :: string
  hq_url :: string
  hq_headers :: "(string \<times> string) list"
  hq_body :: "json option"

record http_resp =
  hr_status :: nat
  hr_body :: string

text \<open>One phase of a run, as the page of the run shows it.\<close>

record rot_phase =
  ph_key :: string
  ph_label :: string
  ph_status :: string
  ph_message :: string

text \<open>
  What the YAML decoder makes of a kubeconfig; an \<open>exec\<close> or \<open>auth-provider\<close> entry is only looked
  at for its presence.
\<close>

record kube_cluster =
  ku_name :: string
  ku_server :: string
  ku_ca_file :: string
  ku_ca_data :: string
  ku_insecure :: bool
  ku_tls_name :: string

record kube_user =
  kv_name :: string
  kv_cert_file :: string
  kv_cert_data :: string
  kv_key_file :: string
  kv_key_data :: string
  kv_token :: string
  kv_token_file :: string
  kv_exec :: bool
  kv_auth_provider :: bool

record kubeconfig =
  kf_current :: string
  kf_clusters :: "kube_cluster list"
  kf_users :: "kube_user list"
  kf_contexts :: "(string \<times> string \<times> string) list"

text \<open>
  What a run uses beyond its own code: the network, the random bytes of \<open>generateSecret\<close>, the clock
  (\<open>rt_now\<close> in Unix seconds), waiting for a number of seconds unless the context ends first
  (\<open>rt_wait\<close>), how many times a loop polls before its deadline has passed (\<open>rt_polls\<close>: every poll
  waits, so the deadline passes after finitely many), environment variables and files (an error
  says whether the file does not exist), the YAML decoder, the checks of certificates and keys,
  the libsodium sealed box and the callback that stores a phase.
\<close>

record 'w rot_env =
  rt_http :: "http_req \<Rightarrow> 'w \<Rightarrow> (go_err + http_resp) \<times> 'w"
  rt_random :: "'w \<Rightarrow> string \<times> 'w"
  rt_now :: "'w \<Rightarrow> int \<times> 'w"
  rt_wait :: "int \<Rightarrow> 'w \<Rightarrow> go_err option \<times> 'w"
  rt_polls :: "'w \<Rightarrow> nat \<times> 'w"
  rt_getenv :: "string \<Rightarrow> string"
  rt_read_file :: "string \<Rightarrow> (bool \<times> go_err) + string"
  rt_yaml :: "string \<Rightarrow> go_err + kubeconfig"
  rt_ca_ok :: "string \<Rightarrow> bool"
  rt_key_pair :: "string \<Rightarrow> string \<Rightarrow> go_err option"
  rt_seal :: "string \<Rightarrow> string \<Rightarrow> 'w \<Rightarrow> (go_err + string) \<times> 'w"
  rt_on_phase :: "rot_phase \<Rightarrow> 'w \<Rightarrow> 'w"

text \<open>
  The timing fields of the configuration are not set outside tests: the model has their defaults.
\<close>

record rot_config =
  cf_addr :: string
  cf_token :: string
  cf_namespace :: string
  cf_ui_login :: string
  cf_docs_url :: string
  cf_kubeconfig_dir :: string
  cf_github_token :: string
  cf_github_api :: string
  cf_rp_url :: string
  cf_rp_token :: string
  cf_rp_prod_password :: string

definition default_ui_login :: string where
  "default_ui_login = ''https://vault.workstation.co.uk/login''"

definition default_docs_url :: string where
  "default_docs_url = ''https://www.wslvault.org/''"

definition client_enabled :: "rot_config \<Rightarrow> bool" where
  "client_enabled cfg \<longleftrightarrow> cf_addr cfg \<noteq> [] \<and> cf_token cfg \<noteq> []"

definition ui_login :: "rot_config \<Rightarrow> string" where
  "ui_login cfg = (if cf_ui_login cfg \<noteq> [] then cf_ui_login cfg else default_ui_login)"

definition docs_url :: "rot_config \<Rightarrow> string" where
  "docs_url cfg = (if cf_docs_url cfg \<noteq> [] then cf_docs_url cfg else default_docs_url)"

definition trim_slashes :: "string \<Rightarrow> string" where
  "trim_slashes s = trim_right_by (\<lambda>c. c = CHR ''/'') (trim_left_by (\<lambda>c. c = CHR ''/'') s)"

text \<open>\<open>LoadConfig\<close>: the first variable that is not blank, or the default.\<close>

fun first_non_empty :: "string list \<Rightarrow> string" where
  "first_non_empty [] = []"
| "first_non_empty (v # vs) = (if trim_space v \<noteq> [] then trim_space v else first_non_empty vs)"

definition trim_url :: "string \<Rightarrow> string" where
  "trim_url s = trim_right_by (\<lambda>c. c = CHR ''/'') s"

definition load_config :: "(string \<Rightarrow> string) \<Rightarrow> rot_config" where
  "load_config getenv =
     \<lparr>cf_addr = trim_url (trim_space (first_non_empty
        [getenv ''SECRETS_VAULT_ADDR'', getenv ''WSLVAULT_ADDR'', getenv ''VAULT_ADDR'',
         ''https://vault.workstation.co.uk''])),
      cf_token = trim_space (first_non_empty
        [getenv ''SECRETS_VAULT_TOKEN'', getenv ''WSLVAULT_TOKEN'', getenv ''VAULT_TOKEN'']),
      cf_namespace = trim_space (first_non_empty
        [getenv ''SECRETS_VAULT_NAMESPACE'', getenv ''VAULT_NAMESPACE'', getenv ''WSLVAULT_TENANT'']),
      cf_ui_login = default_ui_login, cf_docs_url = default_docs_url,
      cf_kubeconfig_dir = first_non_empty
        [getenv ''SECRETS_ROT_KUBECONFIG_DIR'', ''/etc/secretsrot/kube''],
      cf_github_token = trim_space (getenv ''SECRETS_ROT_GITHUB_TOKEN''),
      cf_github_api = trim_url (first_non_empty
        [getenv ''SECRETS_ROT_GITHUB_API'', ''https://api.github.com'']),
      cf_rp_url = trim_url (first_non_empty [getenv ''RP_URL'', ''https://rp.workstation.co.uk'']),
      cf_rp_token = trim_space (getenv ''RP_API_TOKEN''),
      cf_rp_prod_password = trim_space (getenv ''RP_PROD_PASSWORD'')\<rparr>"

text \<open>An over-long text is cut and an ellipsis put behind it.\<close>

definition cut_at :: "nat \<Rightarrow> string \<Rightarrow> string" where
  "cut_at n s =
     (if length s > n then take n s @ [CHR 0xE2, CHR 0x80, CHR 0xA6] else s)"

section \<open>Chaining fallible steps\<close>

definition ebind ::
  "(go_err + 'a) \<times> 's \<Rightarrow> ('a \<Rightarrow> 's \<Rightarrow> (go_err + 'b) \<times> 's) \<Rightarrow> (go_err + 'b) \<times> 's" where
  "ebind m f = (case m of (Inl e, s) \<Rightarrow> (Inl e, s) | (Inr a, s) \<Rightarrow> f a s)"

lemma ebind_simps [simp]:
  "ebind (Inl e, s) f = (Inl e, s)"
  "ebind (Inr a, s) f = f a s"
  by (simp_all add: ebind_def)

end
