(* ===== verification/SecretsKube.thy ===== *)
theory SecretsKube
  imports SecretsEnv
begin

text \<open>
  The small Kubernetes client of the secrets rotation (\<open>secretsrot/kube.go\<close>): which kubeconfig a
  cluster name stands for and what is accepted of it, the metadata of Secrets and ExternalSecrets,
  the merge patch of a Secret and which Deployments refer to a Secret. The text of a decoding error
  of \<open>encoding/json\<close> is not modelled.
\<close>

section \<open>Names and paths\<close>

definition lower_or_digit :: "char \<Rightarrow> bool" where
  "lower_or_digit c \<longleftrightarrow> (let n = of_char c :: nat in 97 \<le> n \<and> n \<le> 122) \<or> is_digit c"

definition upper_letter :: "char \<Rightarrow> bool" where
  "upper_letter c \<longleftrightarrow> (let n = of_char c :: nat in 65 \<le> n \<and> n \<le> 90)"

definition valid_cluster_name :: "string \<Rightarrow> bool" where
  "valid_cluster_name name \<longleftrightarrow>
     length name \<le> 63 \<and> name \<noteq> [] \<and> list_all (\<lambda>c. lower_or_digit c \<or> c = CHR ''-'') name"

definition to_upper_char :: "char \<Rightarrow> char" where
  "to_upper_char c =
     (let n = of_char c :: nat in if 97 \<le> n \<and> n \<le> 122 then char_of (n - 32) else c)"

definition kubeconfig_env_name :: "string \<Rightarrow> string" where
  "kubeconfig_env_name cluster =
     ''SECRETS_ROT_KUBECONFIG_''
     @ map (\<lambda>c. to_upper_char (if c = CHR ''-'' then CHR ''_'' else c)) cluster"

text \<open>\<open>url.PathEscape\<close>.\<close>

definition upper_hex :: "nat \<Rightarrow> char" where
  "upper_hex n = (if n < 10 then char_of (48 + n) else char_of (55 + n))"

definition path_escape :: "string \<Rightarrow> string" where
  "path_escape s =
     concat (map (\<lambda>c.
       if lower_or_digit c \<or> upper_letter c \<or> c \<in> set ''-_.~$&+=:@'' then [c]
       else [CHR ''%'', upper_hex (of_char c div 16), upper_hex (of_char c mod 16)]) s)"

text \<open>\<open>http.StatusText\<close> for the statuses that are errors here.\<close>

definition status_texts :: "(nat \<times> string) list" where
  "status_texts =
     [(300, ''Multiple Choices''), (301, ''Moved Permanently''), (302, ''Found''),
      (303, ''See Other''), (304, ''Not Modified''), (305, ''Use Proxy''),
      (307, ''Temporary Redirect''), (308, ''Permanent Redirect''), (400, ''Bad Request''),
      (401, ''Unauthorized''), (402, ''Payment Required''), (403, ''Forbidden''),
      (404, ''Not Found''), (405, ''Method Not Allowed''), (406, ''Not Acceptable''),
      (407, ''Proxy Authentication Required''), (408, ''Request Timeout''), (409, ''Conflict''),
      (410, ''Gone''), (411, ''Length Required''), (412, ''Precondition Failed''),
      (413, ''Request Entity Too Large''), (414, ''Request URI Too Long''),
      (415, ''Unsupported Media Type''), (416, ''Requested Range Not Satisfiable''),
      (417, ''Expectation Failed''), (418, ''I'' @ [CHR 0x27] @ ''m a teapot''),
      (421, ''Misdirected Request''), (422, ''Unprocessable Entity''), (423, ''Locked''),
      (424, ''Failed Dependency''), (425, ''Too Early''), (426, ''Upgrade Required''),
      (428, ''Precondition Required''), (429, ''Too Many Requests''),
      (431, ''Request Header Fields Too Large''), (451, ''Unavailable For Legal Reasons''),
      (500, ''Internal Server Error''), (501, ''Not Implemented''), (502, ''Bad Gateway''),
      (503, ''Service Unavailable''), (504, ''Gateway Timeout''),
      (505, ''HTTP Version Not Supported''), (506, ''Variant Also Negotiates''),
      (507, ''Insufficient Storage''), (508, ''Loop Detected''), (510, ''Not Extended''),
      (511, ''Network Authentication Required'')]"

definition status_text :: "nat \<Rightarrow> string" where
  "status_text code = (case map_of status_texts code of Some t \<Rightarrow> t | None \<Rightarrow> [])"

section \<open>The kubeconfig\<close>

record kube_client =
  kc_server :: string
  kc_token :: string
  kc_tls_name :: string
  kc_insecure :: bool
  kc_ca :: string
  kc_cert :: string
  kc_key :: string

definition load_kubeconfig :: "'w rot_env \<Rightarrow> string \<Rightarrow> string \<Rightarrow> go_err + string" where
  "load_kubeconfig env dir0 cluster =
     (if \<not> valid_cluster_name cluster
      then Inl (ErrText (''invalid cluster name '' @ quote cluster @ '' (allowed: a-z 0-9 -)''))
      else
        (let v = rt_getenv env (kubeconfig_env_name cluster)
         in if trim_space v \<noteq> [] then Inr v
            else
              (let dir = (if dir0 = [] then ''/etc/secretsrot/kube'' else dir0);
                   fail = (\<lambda>e. Inl (ErrWrap (''read kubeconfig for '' @ cluster @ '': '') e));
                   none = Inl (ErrText (''no kubeconfig for cluster '' @ quote cluster @ '': set ''
                            @ kubeconfig_env_name cluster @ '' or mount '' @ dir @ ''/'' @ cluster))
               in case rt_read_file env (dir @ ''/'' @ cluster) of
                    Inr b \<Rightarrow> Inr b
                  | Inl (missing, e) \<Rightarrow>
                      if \<not> missing then fail e
                      else (case rt_read_file env (dir @ ''/'' @ cluster @ ''.yaml'') of
                              Inr b \<Rightarrow> Inr b
                            | Inl (missing2, e2) \<Rightarrow> if \<not> missing2 then fail e2 else none))))"

definition data_or_file :: "'w rot_env \<Rightarrow> string \<Rightarrow> string \<Rightarrow> go_err + string" where
  "data_or_file env data file =
     (if trim_space data \<noteq> [] then
        (case b64_decode (trim_space data) of
           None \<Rightarrow> Inl (ErrText ''invalid base64'')
         | Some b \<Rightarrow> Inr b)
      else if file \<noteq> [] then
        (case rt_read_file env file of Inl (_, e) \<Rightarrow> Inl e | Inr b \<Rightarrow> Inr b)
      else Inr [])"

text \<open>
  The clusters and users of the chosen names in the order of the file: a later one of the same
  name overrides an earlier one, except that what it leaves empty stays.
\<close>

definition use_cluster ::
  "'w rot_env \<Rightarrow> string \<Rightarrow> kube_cluster \<Rightarrow> bool \<times> kube_client \<Rightarrow> go_err + bool \<times> kube_client" where
  "use_cluster env name c acc =
     (if ku_name c \<noteq> name then Inr acc
      else
        (let k = (snd acc)\<lparr>kc_server := trim_right_by (\<lambda>x. x = CHR ''/'') (ku_server c),
                           kc_tls_name := ku_tls_name c,
                           kc_insecure := (kc_insecure (snd acc) \<or> ku_insecure c)\<rparr>
         in case data_or_file env (ku_ca_data c) (ku_ca_file c) of
              Inl e \<Rightarrow> Inl (ErrWrap ''certificate-authority: '' e)
            | Inr pem \<Rightarrow>
                if pem = [] then Inr (True, k)
                else if rt_ca_ok env pem then Inr (True, k\<lparr>kc_ca := pem\<rparr>)
                else Inl (ErrText ''certificate-authority-data holds no PEM certificates'')))"

definition plugin_refused :: "string \<Rightarrow> string \<Rightarrow> go_err" where
  "plugin_refused user what =
     ErrText (''user '' @ quote user @ '' uses an '' @ what
       @ '' plugin, which is not supported; use a client certificate or a ServiceAccount token'')"

definition user_token :: "'w rot_env \<Rightarrow> kube_user \<Rightarrow> go_err + string" where
  "user_token env u =
     (if trim_space (kv_token u) = [] \<and> kv_token_file u \<noteq> [] then
        (case rt_read_file env (kv_token_file u) of
           Inl (_, e) \<Rightarrow> Inl (ErrWrap ''tokenFile: '' e)
         | Inr b \<Rightarrow> Inr (trim_space b))
      else Inr (trim_space (kv_token u)))"

definition use_user ::
  "'w rot_env \<Rightarrow> string \<Rightarrow> kube_user \<Rightarrow> bool \<times> kube_client \<Rightarrow> go_err + bool \<times> kube_client" where
  "use_user env name u acc =
     (if kv_name u \<noteq> name then Inr acc
      else if kv_exec u then Inl (plugin_refused name ''exec credential'')
      else if kv_auth_provider u then Inl (plugin_refused name ''auth-provider'')
      else
        (case data_or_file env (kv_cert_data u) (kv_cert_file u) of
           Inl e \<Rightarrow> Inl (ErrWrap ''client-certificate: '' e)
         | Inr cert \<Rightarrow>
             (case data_or_file env (kv_key_data u) (kv_key_file u) of
                Inl e \<Rightarrow> Inl (ErrWrap ''client-key: '' e)
              | Inr key \<Rightarrow>
                  (let pair = (cert \<noteq> [] \<or> key \<noteq> [])
                   in case (if pair then rt_key_pair env cert key else None) of
                        Some e \<Rightarrow> Inl (ErrWrap ''client certificate/key: '' e)
                      | None \<Rightarrow>
                          (let k = (if pair then (snd acc)\<lparr>kc_cert := cert, kc_key := key\<rparr>
                                    else snd acc)
                           in case user_token env u of
                                Inl e \<Rightarrow> Inl e
                              | Inr t \<Rightarrow> Inr (True, k\<lparr>kc_token := t\<rparr>))))))"

fun fold_e :: "('a \<Rightarrow> 'b \<Rightarrow> go_err + 'b) \<Rightarrow> 'a list \<Rightarrow> 'b \<Rightarrow> go_err + 'b" where
  "fold_e f [] b = Inr b"
| "fold_e f (x # xs) b = (case f x b of Inl e \<Rightarrow> Inl e | Inr b' \<Rightarrow> fold_e f xs b')"

definition context_name :: "kubeconfig \<Rightarrow> go_err + string" where
  "context_name f =
     (if kf_current f \<noteq> [] then Inr (kf_current f)
      else (case kf_contexts f of
              [(n, _, _)] \<Rightarrow> Inr n
            | cs \<Rightarrow> Inl (ErrText (''current-context is empty and there are ''
                       @ show_nat (length cs) @ '' contexts''))))"

definition no_client :: kube_client where
  "no_client =
     \<lparr>kc_server = [], kc_token = [], kc_tls_name = [], kc_insecure = False, kc_ca = [],
      kc_cert = [], kc_key = []\<rparr>"

definition parse_kubeconfig :: "'w rot_env \<Rightarrow> string \<Rightarrow> go_err + kube_client" where
  "parse_kubeconfig env raw =
     (case rt_yaml env raw of
        Inl e \<Rightarrow> Inl (ErrWrap ''parse: '' e)
      | Inr f \<Rightarrow>
          (case context_name f of
             Inl e \<Rightarrow> Inl e
           | Inr ctx \<Rightarrow>
               (case map_of (kf_contexts f) ctx of
                  None \<Rightarrow> Inl (ErrText (''context '' @ quote ctx @ '' not found''))
                | Some (cluster, user) \<Rightarrow>
                    (case fold_e (use_cluster env cluster) (kf_clusters f) (False, no_client) of
                       Inl e \<Rightarrow> Inl e
                     | Inr (found, k) \<Rightarrow>
                         if \<not> found
                         then Inl (ErrText (''cluster '' @ quote cluster @ '' not found''))
                         else if kc_server k = []
                         then Inl (ErrText (''cluster '' @ quote cluster @ '' has no server''))
                         else
                           (case fold_e (use_user env user) (kf_users f) (False, k) of
                              Inl e \<Rightarrow> Inl e
                            | Inr (found2, k2) \<Rightarrow>
                                if \<not> found2 \<and> user \<noteq> []
                                then Inl (ErrText (''user '' @ quote user @ '' not found''))
                                else Inr k2)))))"

definition kube_client_for :: "'w rot_env \<Rightarrow> string \<Rightarrow> string \<Rightarrow> go_err + kube_client" where
  "kube_client_for env dir cluster =
     (case load_kubeconfig env dir cluster of
        Inl e \<Rightarrow> Inl e
      | Inr raw \<Rightarrow>
          (case parse_kubeconfig env raw of
             Inl e \<Rightarrow> Inl (ErrWrap (''kubeconfig '' @ cluster @ '': '') e)
           | Inr k \<Rightarrow> Inr k))"

section \<open>One request\<close>

definition kube_not_found :: string where
  "kube_not_found = ''not found''"

definition decode_error :: go_err where
  "decode_error = ErrWrap ''decode: '' (ErrText ''json'')"

text \<open>
  \<open>KubeClient.do\<close>: the body of a reply below 300; the caller decodes it. An empty body is not
  decoded. \<open>message_of\<close> reads the \<open>message\<close> of an error reply.
\<close>

definition message_of :: "string \<Rightarrow> string \<Rightarrow> string" where
  "message_of field raw =
     (case parse_json raw of
        Some (JObj ms) \<Rightarrow> (case str_field field ms of Some s \<Rightarrow> s | None \<Rightarrow> [])
      | _ \<Rightarrow> [])"

definition kube_headers :: "kube_client \<Rightarrow> string \<Rightarrow> bool \<Rightarrow> (string \<times> string) list" where
  "kube_headers k content_type with_body =
     [(''Accept'', ''application/json'')]
     @ (if with_body then [(''Content-Type'', content_type)] else [])
     @ (if kc_token k \<noteq> [] then [(''Authorization'', ''Bearer '' @ kc_token k)] else [])"

definition kube_do ::
  "'w rot_env \<Rightarrow> kube_client \<Rightarrow> string \<Rightarrow> string \<Rightarrow> string \<Rightarrow> json option \<Rightarrow> 'w
     \<Rightarrow> (go_err + string) \<times> 'w" where
  "kube_do env k method path content_type body w =
     (case rt_http env \<lparr>hq_to = ToKube, hq_method = method, hq_url = kc_server k @ path,
                        hq_headers = kube_headers k content_type (body \<noteq> None),
                        hq_body = body\<rparr> w of
        (Inl e, w1) \<Rightarrow> (Inl e, w1)
      | (Inr resp, w1) \<Rightarrow>
          (let raw = take 4194304 (hr_body resp); code = hr_status resp
           in if code = 404 then (Inl (ErrSentinel kube_not_found), w1)
              else if code \<ge> 300 then
                (let m = message_of ''message'' raw;
                     msg = (if m = [] then status_text code else m)
                 in (Inl (ErrText (''kubernetes HTTP '' @ show_nat code @ '': '' @ cut_at 240 msg)),
                     w1))
              else (Inr raw, w1)))"

text \<open>Decoding a body into a struct: an empty body leaves the zero value.\<close>

definition decode_body :: "(json \<Rightarrow> 'a option) \<Rightarrow> 'a \<Rightarrow> string \<Rightarrow> go_err + 'a" where
  "decode_body dec zero raw =
     (if raw = [] then Inr zero
      else (case Option.bind (parse_json raw) (\<lambda>v. if v = JNull then Some zero else dec v) of
              Some x \<Rightarrow> Inr x
            | None \<Rightarrow> Inl decode_error))"

section \<open>Secrets\<close>

record secret_info =
  si_exists :: bool
  si_resource_version :: string
  si_helm :: bool

text \<open>A map of strings: a null is the empty string, a later member overrides.\<close>

definition dec_string_map :: "json \<Rightarrow> (string \<times> string) list option" where
  "dec_string_map v =
     (case v of
        JObj ms \<Rightarrow>
          foldl (\<lambda>acc kv. case (acc, snd kv) of
                   (Some m, JStr s) \<Rightarrow> Some (aput (fst kv) s m)
                 | (Some m, JNull) \<Rightarrow> Some (aput (fst kv) [] m)
                 | _ \<Rightarrow> None) (Some []) ms
      | _ \<Rightarrow> None)"

definition sub_struct :: "(obj \<Rightarrow> 'a option) \<Rightarrow> 'a \<Rightarrow> string \<Rightarrow> obj \<Rightarrow> 'a option" where
  "sub_struct dec zero k ms =
     jfield id (\<lambda>v. case v of JObj fs \<Rightarrow> dec fs | _ \<Rightarrow> None) zero k ms"

definition string_map_field :: "string \<Rightarrow> obj \<Rightarrow> (string \<times> string) list option" where
  "string_map_field k ms = jfield (\<lambda>_. []) dec_string_map [] k ms"

definition dec_metadata :: "obj \<Rightarrow> secret_info option" where
  "dec_metadata fs =
     (case (str_field ''resourceVersion'' fs, string_map_field ''labels'' fs,
            string_map_field ''annotations'' fs) of
        (Some rv, Some labels, Some annotations) \<Rightarrow>
          Some \<lparr>si_exists = True, si_resource_version = rv,
                si_helm = (map_of labels ''app.kubernetes.io/managed-by'' = Some ''Helm''
                   \<or> map_of annotations ''meta.helm.sh/release-name'' \<notin> {None, Some []})\<rparr>
      | _ \<Rightarrow> None)"

definition empty_info :: secret_info where
  "empty_info = \<lparr>si_exists = True, si_resource_version = [], si_helm = False\<rparr>"

definition dec_object_meta :: "json \<Rightarrow> secret_info option" where
  "dec_object_meta v =
     (case v of JObj ms \<Rightarrow> sub_struct dec_metadata empty_info ''metadata'' ms | _ \<Rightarrow> None)"

definition secret_path :: "string \<Rightarrow> string \<Rightarrow> string" where
  "secret_path ns name =
     ''/api/v1/namespaces/'' @ path_escape ns @ ''/secrets/'' @ path_escape name"

definition get_secret_info ::
  "'w rot_env \<Rightarrow> kube_client \<Rightarrow> string \<Rightarrow> string \<Rightarrow> 'w \<Rightarrow> (go_err + secret_info) \<times> 'w" where
  "get_secret_info env k ns name w =
     (case kube_do env k ''GET'' (secret_path ns name) [] None w of
        (Inl e, w1) \<Rightarrow>
          if err_is kube_not_found e
          then (Inr (empty_info\<lparr>si_exists := False\<rparr>), w1)
          else (Inl e, w1)
      | (Inr raw, w1) \<Rightarrow> (decode_body dec_object_meta empty_info raw, w1))"

text \<open>The resource version of a Secret, empty when it is missing.\<close>

definition secret_resource_version ::
  "'w rot_env \<Rightarrow> kube_client \<Rightarrow> string \<Rightarrow> string \<Rightarrow> 'w \<Rightarrow> (go_err + string) \<times> 'w" where
  "secret_resource_version env k ns name w =
     (case kube_do env k ''GET'' (secret_path ns name) [] None w of
        (Inl e, w1) \<Rightarrow> if err_is kube_not_found e then (Inr [], w1) else (Inl e, w1)
      | (Inr raw, w1) \<Rightarrow>
          (case decode_body dec_object_meta empty_info raw of
             Inl e \<Rightarrow> (Inl e, w1)
           | Inr m \<Rightarrow> (Inr (si_resource_version m), w1)))"

text \<open>The JSON merge patch that sets the given keys and no other.\<close>

definition secret_patch_body :: "(string \<times> string) list \<Rightarrow> json" where
  "secret_patch_body values =
     JObj [(''data'', JObj (map (\<lambda>(k, v). (k, JStr (b64_encode v))) values))]"

definition patch_secret_keys ::
  "'w rot_env \<Rightarrow> kube_client \<Rightarrow> string \<Rightarrow> string \<Rightarrow> (string \<times> string) list \<Rightarrow> 'w
     \<Rightarrow> (go_err + string) \<times> 'w" where
  "patch_secret_keys env k ns name values w =
     (case kube_do env k ''PATCH'' (secret_path ns name) ''application/merge-patch+json''
             (Some (secret_patch_body values)) w of
        (Inl e, w1) \<Rightarrow>
          if err_is kube_not_found e
          then (Inl (ErrText (''secret '' @ ns @ ''/'' @ name @ '' not found'')), w1)
          else (Inl e, w1)
      | (Inr raw, w1) \<Rightarrow>
          (case decode_body dec_object_meta empty_info raw of
             Inl e \<Rightarrow> (Inl e, w1)
           | Inr m \<Rightarrow> (Inr (si_resource_version m), w1)))"


section \<open>External secrets\<close>

record eso_condition =
  ec_type :: string
  ec_status :: string
  ec_reason :: string
  ec_message :: string

record external_secret =
  es_name :: string
  es_target :: string
  es_refresh_time :: string
  es_conditions :: "eso_condition list"

definition no_condition :: eso_condition where
  "no_condition = \<lparr>ec_type = [], ec_status = [], ec_reason = [], ec_message = []\<rparr>"

definition dec_condition :: "json \<Rightarrow> eso_condition option" where
  "dec_condition v =
     (case v of
        JObj ms \<Rightarrow>
          (case (str_field ''type'' ms, str_field ''status'' ms, str_field ''reason'' ms,
                 str_field ''message'' ms) of
             (Some t, Some s, Some r, Some m) \<Rightarrow>
               Some \<lparr>ec_type = t, ec_status = s, ec_reason = r, ec_message = m\<rparr>
           | _ \<Rightarrow> None)
      | _ \<Rightarrow> None)"

definition no_external_secret :: external_secret where
  "no_external_secret = \<lparr>es_name = [], es_target = [], es_refresh_time = [], es_conditions = []\<rparr>"

definition dec_external_secret :: "json \<Rightarrow> external_secret option" where
  "dec_external_secret v =
     (case v of
        JObj ms \<Rightarrow>
          (case (sub_struct (str_field ''name'') [] ''metadata'' ms,
                 sub_struct (sub_struct (str_field ''name'') [] ''target'') [] ''spec'' ms,
                 sub_struct (\<lambda>fs. case (str_field ''refreshTime'' fs,
                                        list_field dec_condition no_condition ''conditions'' fs) of
                                    (Some t, Some cs) \<Rightarrow> Some (t, cs) | _ \<Rightarrow> None)
                   ([], []) ''status'' ms) of
             (Some n, Some t, Some (r, cs)) \<Rightarrow>
               Some \<lparr>es_name = n, es_target = t, es_refresh_time = r, es_conditions = cs\<rparr>
           | _ \<Rightarrow> None)
      | _ \<Rightarrow> None)"

definition target_name :: "external_secret \<Rightarrow> string" where
  "target_name e = (if es_target e \<noteq> [] then es_target e else es_name e)"

definition eso_versions :: "string list" where
  "eso_versions = [''v1beta1'', ''v1'']"

definition es_path :: "string \<Rightarrow> string \<Rightarrow> string \<Rightarrow> string" where
  "es_path version ns name =
     ''/apis/external-secrets.io/'' @ version @ ''/namespaces/'' @ path_escape ns
       @ ''/externalsecrets/'' @ path_escape name"

definition no_eso :: string where
  "no_eso = ''External Secrets Operator not found''"

text \<open>
  The API versions in order; when none serves the object, whether the operator is there at all.
\<close>

fun try_versions ::
  "'w rot_env \<Rightarrow> kube_client \<Rightarrow> string list \<Rightarrow> string \<Rightarrow> string \<Rightarrow> 'w
     \<Rightarrow> (go_err + (external_secret \<times> string)) \<times> 'w" where
  "try_versions env k [] ns name w =
     (case kube_do env k ''GET'' ''/apis/external-secrets.io'' [] None w of
        (Inl e, w1) \<Rightarrow>
          (Inl (if err_is kube_not_found e then ErrSentinel no_eso
                else ErrText (''externalsecret '' @ ns @ ''/'' @ name @ '' not found'')), w1)
      | (Inr _, w1) \<Rightarrow> (Inl (ErrText (''externalsecret '' @ ns @ ''/'' @ name @ '' not found'')), w1))"
| "try_versions env k (v # vs) ns name w =
     (case kube_do env k ''GET'' (es_path v ns name) [] None w of
        (Inl e, w1) \<Rightarrow>
          if err_is kube_not_found e then try_versions env k vs ns name w1 else (Inl e, w1)
      | (Inr raw, w1) \<Rightarrow>
          (case decode_body dec_external_secret no_external_secret raw of
             Inl e \<Rightarrow> (Inl e, w1)
           | Inr es \<Rightarrow> (Inr (es, v), w1)))"

definition get_external_secret ::
  "'w rot_env \<Rightarrow> kube_client \<Rightarrow> string \<Rightarrow> string \<Rightarrow> 'w
     \<Rightarrow> (go_err + (external_secret \<times> string)) \<times> 'w" where
  "get_external_secret env k ns name = try_versions env k eso_versions ns name"

definition annotate_force_sync ::
  "'w rot_env \<Rightarrow> kube_client \<Rightarrow> string \<Rightarrow> string \<Rightarrow> string \<Rightarrow> int \<Rightarrow> 'w \<Rightarrow> go_err option \<times> 'w" where
  "annotate_force_sync env k version ns name ts w =
     (case kube_do env k ''PATCH'' (es_path version ns name) ''application/merge-patch+json''
             (Some (JObj [(''metadata'', JObj [(''annotations'',
                      JObj [(''force-sync'', JStr (show_int ts))])])])) w of
        (Inl e, w1) \<Rightarrow>
          (Some (if err_is kube_not_found e
                 then ErrText (''externalsecret '' @ ns @ ''/'' @ name @ '' not found'') else e), w1)
      | (Inr _, w1) \<Rightarrow> (None, w1))"

section \<open>Which Deployments refer to a Secret\<close>

text \<open>The Secret names of a pod template: \<open>envFrom\<close>, \<open>secretKeyRef\<close>, secret and projected volumes.\<close>

definition dec_struct :: "(obj \<Rightarrow> 'a option) \<Rightarrow> json \<Rightarrow> 'a option" where
  "dec_struct dec v = (case v of JObj ms \<Rightarrow> dec ms | _ \<Rightarrow> None)"

text \<open>A pointer to a struct: a null is no struct.\<close>

definition ptr_field :: "(obj \<Rightarrow> 'a option) \<Rightarrow> string \<Rightarrow> obj \<Rightarrow> 'a option option" where
  "ptr_field dec k ms =
     jfield (\<lambda>_. None) (\<lambda>v. map_option Some (dec_struct dec v)) None k ms"

definition names_of_container :: "obj \<Rightarrow> string list option" where
  "names_of_container ms =
     (case (list_field (dec_struct (ptr_field (str_field ''name'') ''secretRef'')) None ''envFrom'' ms,
            list_field (dec_struct (\<lambda>fs. ptr_field (ptr_field (str_field ''name'') ''secretKeyRef'')
                          ''valueFrom'' fs)) None ''env'' ms) of
        (Some froms, Some envs) \<Rightarrow>
          Some (filter (\<lambda>n. n \<noteq> [])
            (List.map_filter id froms @ List.map_filter id (List.map_filter id envs)))
      | _ \<Rightarrow> None)"

definition names_of_volume :: "obj \<Rightarrow> string list option" where
  "names_of_volume ms =
     (case (ptr_field (str_field ''secretName'') ''secret'' ms,
            ptr_field (list_field (dec_struct (ptr_field (str_field ''name'') ''secret'')) None
              ''sources'') ''projected'' ms) of
        (Some secret, Some projected) \<Rightarrow>
          Some (filter (\<lambda>n. n \<noteq> [])
            ((case secret of Some n \<Rightarrow> [n] | None \<Rightarrow> [])
             @ (case projected of Some ss \<Rightarrow> List.map_filter id ss | None \<Rightarrow> [])))
      | _ \<Rightarrow> None)"

definition names_of_pod :: "obj \<Rightarrow> string list option" where
  "names_of_pod ms =
     (case (list_field (dec_struct names_of_container) [] ''containers'' ms,
            list_field (dec_struct names_of_container) [] ''initContainers'' ms,
            list_field (dec_struct names_of_volume) [] ''volumes'' ms) of
        (Some cs, Some ics, Some vs) \<Rightarrow> Some (concat cs @ concat ics @ concat vs)
      | _ \<Rightarrow> None)"

definition dec_deployment :: "json \<Rightarrow> (string \<times> string list) option" where
  "dec_deployment v =
     (case v of
        JObj ms \<Rightarrow>
          (case (sub_struct (str_field ''name'') [] ''metadata'' ms,
                 sub_struct (sub_struct (sub_struct names_of_pod [] ''spec'') [] ''template'') []
                   ''spec'' ms) of
             (Some n, Some names) \<Rightarrow> Some (n, names)
           | _ \<Rightarrow> None)
      | _ \<Rightarrow> None)"

definition dec_deployments :: "json \<Rightarrow> (string \<times> string list) list option" where
  "dec_deployments v =
     (case v of JObj ms \<Rightarrow> list_field dec_deployment ([], []) ''items'' ms | _ \<Rightarrow> None)"

definition secret_consumers ::
  "'w rot_env \<Rightarrow> kube_client \<Rightarrow> string \<Rightarrow> string list \<Rightarrow> 'w \<Rightarrow> (go_err + string list) \<times> 'w" where
  "secret_consumers env k ns secrets w =
     (let fail = (\<lambda>e. Inl (ErrWrap (''list deployments in '' @ ns @ '': '') e))
      in case kube_do env k ''GET'' (''/apis/apps/v1/namespaces/'' @ path_escape ns @ ''/deployments'')
                [] None w of
           (Inl e, w1) \<Rightarrow> if err_is kube_not_found e then (Inr [], w1) else (fail e, w1)
         | (Inr raw, w1) \<Rightarrow>
             (case decode_body dec_deployments [] raw of
                Inl e \<Rightarrow> (fail e, w1)
              | Inr ds \<Rightarrow>
                  (Inr (stable_sort str_less
                     (map fst (filter (\<lambda>(n, names). \<exists>s \<in> set secrets. s \<in> set names) ds))), w1)))"

end
