(* ===== verification/SecretsTargets.thy ===== *)
theory SecretsTargets
  imports SecretsKube
begin

text \<open>
  The two other services a rotation pushes to: GitHub Actions secrets (\<open>secretsrot/github.go\<close>),
  whose values are sealed before they leave, and Ring Promoter (\<open>secretsrot/ringpromoter.go\<close>),
  which restarts the rings whose pods use the rotated secrets.
\<close>

section \<open>Names of GitHub\<close>

definition repo_char :: "char \<Rightarrow> bool" where
  "repo_char c \<longleftrightarrow> upper_letter c \<or> lower_or_digit c \<or> c \<in> set ''_.-''"

text \<open>\<open>owner/name\<close>: exactly one slash, and neither side empty.\<close>

definition valid_github_repo :: "string \<Rightarrow> bool" where
  "valid_github_repo s \<longleftrightarrow>
     (case split_char (CHR ''/'') s of
        [a, b] \<Rightarrow> a \<noteq> [] \<and> b \<noteq> [] \<and> list_all repo_char a \<and> list_all repo_char b
      | _ \<Rightarrow> False)"

definition valid_github_env :: "string \<Rightarrow> bool" where
  "valid_github_env s \<longleftrightarrow>
     1 \<le> length s \<and> length s \<le> 255 \<and> list_all (\<lambda>c. repo_char c \<or> c = CHR '' '') s"

definition secret_name_char :: "char \<Rightarrow> bool" where
  "secret_name_char c \<longleftrightarrow> upper_letter c \<or> is_digit c \<or> c = CHR ''_''"

text \<open>
  The default name for a Vault key, rune by rune: a continuation byte of UTF-8 belongs to the rune
  before it.
\<close>

definition is_continuation :: "char \<Rightarrow> bool" where
  "is_continuation c \<longleftrightarrow> (let n = of_char c :: nat in 128 \<le> n \<and> n < 192)"

definition github_secret_name :: "string \<Rightarrow> string" where
  "github_secret_name key =
     map (\<lambda>c. let u = to_upper_char c in if secret_name_char u then u else CHR ''_'')
       (filter (\<lambda>c. \<not> is_continuation c) key)"

definition valid_github_secret_name :: "string \<Rightarrow> go_err option" where
  "valid_github_secret_name name =
     (if \<not> (list_all secret_name_char name \<and> name \<noteq> [] \<and> \<not> is_digit (hd name))
      then Some (ErrText (''invalid GitHub secret name '' @ quote name
                  @ '' (A-Z, 0-9, _; not starting with a digit)''))
      else if has_prefix name ''GITHUB_''
      then Some (ErrText (''invalid GitHub secret name '' @ quote name
                  @ '' (GITHUB_ prefix is reserved)''))
      else None)"

section \<open>GitHub\<close>

record github_client =
  gc_api :: string
  gc_token :: string

definition new_github_client :: "string \<Rightarrow> string \<Rightarrow> github_client" where
  "new_github_client api token =
     \<lparr>gc_api = trim_right_by (\<lambda>c. c = CHR ''/'') (if api = [] then ''https://api.github.com'' else api),
      gc_token = token\<rparr>"

definition github_do ::
  "'w rot_env \<Rightarrow> github_client \<Rightarrow> string \<Rightarrow> string \<Rightarrow> json option \<Rightarrow> 'w
     \<Rightarrow> (go_err + string) \<times> 'w" where
  "github_do env g method path body w =
     (case rt_http env
             \<lparr>hq_to = ToGitHub, hq_method = method, hq_url = gc_api g @ path,
              hq_headers = [(''Accept'', ''application/vnd.github+json''),
                            (''X-GitHub-Api-Version'', ''2022-11-28''),
                            (''Authorization'', ''Bearer '' @ gc_token g)]
                @ (if body \<noteq> None then [(''Content-Type'', ''application/json'')] else []),
              hq_body = body\<rparr> w of
        (Inl e, w1) \<Rightarrow> (Inl e, w1)
      | (Inr resp, w1) \<Rightarrow>
          (let raw = take 1048576 (hr_body resp); code = hr_status resp
           in if code \<ge> 300 then
                (let m = message_of ''message'' raw
                 in (Inl (ErrText (''github HTTP '' @ show_nat code @ '': ''
                           @ (if m = [] then status_text code else m))), w1))
              else (Inr raw, w1)))"

definition decode_reply :: "string \<Rightarrow> (obj \<Rightarrow> 'a option) \<Rightarrow> 'a \<Rightarrow> string \<Rightarrow> go_err + 'a" where
  "decode_reply who dec zero raw =
     (case decode_body (dec_struct dec) zero raw of
        Inl e \<Rightarrow> Inl (ErrWrap (who @ '' '') e)
      | Inr x \<Rightarrow> Inr x)"

text \<open>Where the secrets are: of the repository, or of an environment by the repository's id.\<close>

definition secrets_base ::
  "'w rot_env \<Rightarrow> github_client \<Rightarrow> string \<Rightarrow> string \<Rightarrow> 'w \<Rightarrow> (go_err + string) \<times> 'w" where
  "secrets_base env g repo environment w =
     (if environment = [] then (Inr (''/repos/'' @ repo @ ''/actions/secrets''), w)
      else
        (case github_do env g ''GET'' (''/repos/'' @ repo) None w of
           (Inl e, w1) \<Rightarrow> (Inl (ErrWrap ''resolve repository id: '' e), w1)
         | (Inr raw, w1) \<Rightarrow>
             (case decode_reply ''github'' (int_field ''id'') 0 raw of
                Inl e \<Rightarrow> (Inl (ErrWrap ''resolve repository id: '' e), w1)
              | Inr i \<Rightarrow>
                  if i = 0
                  then (Inl (ErrText (''resolve repository id: empty id for '' @ repo)), w1)
                  else (Inr (''/repositories/'' @ show_int i @ ''/environments/''
                             @ path_escape environment @ ''/secrets''), w1))))"

definition seal_secret ::
  "'w rot_env \<Rightarrow> string \<Rightarrow> string \<Rightarrow> 'w \<Rightarrow> (go_err + string) \<times> 'w" where
  "seal_secret env public_key value w =
     (case b64_decode public_key of
        None \<Rightarrow> (Inl (ErrText ''invalid GitHub public key''), w)
      | Some pk \<Rightarrow>
          if length pk \<noteq> 32 then (Inl (ErrText ''invalid GitHub public key''), w)
          else (case rt_seal env pk value w of
                  (Inl e, w1) \<Rightarrow> (Inl e, w1)
                | (Inr sealed, w1) \<Rightarrow> (Inr (b64_encode sealed), w1)))"

text \<open>The names written so far, and the error that stopped it.\<close>

fun put_each ::
  "'w rot_env \<Rightarrow> github_client \<Rightarrow> string \<Rightarrow> string \<Rightarrow> string \<Rightarrow> (string \<times> string) list
     \<Rightarrow> string list \<Rightarrow> 'w \<Rightarrow> (string list \<times> go_err option) \<times> 'w" where
  "put_each env g base key_id key values [] w = (([], None), w)"
| "put_each env g base key_id key values (n # ns) w =
     (case seal_secret env key (case map_of values n of Some v \<Rightarrow> v | None \<Rightarrow> []) w of
        (Inl e, w1) \<Rightarrow> (([], Some e), w1)
      | (Inr enc, w1) \<Rightarrow>
          (case github_do env g ''PUT'' (base @ ''/'' @ path_escape n)
                  (Some (JObj [(''encrypted_value'', JStr enc), (''key_id'', JStr key_id)])) w1 of
             (Inl e, w2) \<Rightarrow> (([], Some (ErrWrap (''put '' @ n @ '': '') e)), w2)
           | (Inr _, w2) \<Rightarrow>
               (case put_each env g base key_id key values ns w2 of
                  ((written, err), w3) \<Rightarrow> ((n # written, err), w3))))"

definition put_secrets ::
  "'w rot_env \<Rightarrow> github_client \<Rightarrow> string \<Rightarrow> string \<Rightarrow> (string \<times> string) list \<Rightarrow> string list \<Rightarrow> 'w
     \<Rightarrow> (string list \<times> go_err option) \<times> 'w" where
  "put_secrets env g repo environment values order w =
     (case secrets_base env g repo environment w of
        (Inl e, w1) \<Rightarrow> (([], Some e), w1)
      | (Inr base, w1) \<Rightarrow>
          (case github_do env g ''GET'' (base @ ''/public-key'') None w1 of
             (Inl e, w2) \<Rightarrow> (([], Some (ErrWrap ''public key: '' e)), w2)
           | (Inr raw, w2) \<Rightarrow>
               (case decode_reply ''github''
                       (\<lambda>ms. case (str_field ''key_id'' ms, str_field ''key'' ms) of
                               (Some i, Some k) \<Rightarrow> Some (i, k) | _ \<Rightarrow> None) ([], []) raw of
                  Inl e \<Rightarrow> (([], Some (ErrWrap ''public key: '' e)), w2)
                | Inr (key_id, key) \<Rightarrow> put_each env g base key_id key values order w2)))"

section \<open>Ring Promoter\<close>

definition promoter_base :: "rot_config \<Rightarrow> string" where
  "promoter_base cfg =
     trim_right_by (\<lambda>c. c = CHR ''/'')
       (if cf_rp_url cfg = [] then ''https://rp.workstation.co.uk'' else cf_rp_url cfg)"

definition promoter_do ::
  "'w rot_env \<Rightarrow> rot_config \<Rightarrow> string \<Rightarrow> string \<Rightarrow> json option \<Rightarrow> 'w
     \<Rightarrow> (go_err + (nat \<times> string)) \<times> 'w" where
  "promoter_do env cfg method path body w =
     (case rt_http env
             \<lparr>hq_to = ToPromoter, hq_method = method, hq_url = promoter_base cfg @ path,
              hq_headers = [(''Authorization'', ''Bearer '' @ cf_rp_token cfg),
                            (''Accept'', ''application/json''),
                            (''X-Actor'', ''jobshout-secrets-rotation'')]
                @ (if body \<noteq> None then [(''Content-Type'', ''application/json'')] else []),
              hq_body = body\<rparr> w of
        (Inl e, w1) \<Rightarrow> (Inl e, w1)
      | (Inr resp, w1) \<Rightarrow>
          (let raw = take 1048576 (hr_body resp); code = hr_status resp
           in if code \<ge> 300 then
                (let m = message_of ''error'' raw
                 in (Inl (ErrText (''ring promoter HTTP '' @ show_nat code @ '': ''
                           @ cut_at 240 (if m = [] then status_text code else m))), w1))
              else (Inr (code, raw), w1)))"

text \<open>The production password goes with a restart of the ring \<open>prod\<close> and with no other.\<close>

definition start_restart ::
  "'w rot_env \<Rightarrow> rot_config \<Rightarrow> string \<Rightarrow> string \<Rightarrow> string \<Rightarrow> string list \<Rightarrow> 'w
     \<Rightarrow> (go_err + string) \<times> 'w" where
  "start_restart env cfg app ring reason deployments w =
     (let body = JObj ([(''reason'', JStr reason)]
            @ (if ring = ''prod'' \<and> cf_rp_prod_password cfg \<noteq> []
               then [(''password'', JStr (cf_rp_prod_password cfg))] else [])
            @ (if deployments \<noteq> [] then [(''deployments'', JArr (map JStr deployments))] else []))
      in case promoter_do env cfg ''POST''
                (''/api/apps/'' @ path_escape app @ ''/rings/'' @ path_escape ring
                   @ ''/restart?async=1'') (Some body) w of
           (Inl e, w1) \<Rightarrow> (Inl e, w1)
         | (Inr (code, raw), w1) \<Rightarrow>
             (case decode_reply ''ring promoter'' (str_field ''job_id'') [] raw of
                Inl e \<Rightarrow> (Inl e, w1)
              | Inr job \<Rightarrow>
                  if code \<noteq> 202 \<or> job = []
                  then (Inl (ErrText (''ring promoter restart '' @ ring
                              @ '': expected 202 with job_id, got HTTP '' @ show_nat code)), w1)
                  else (Inr job, w1)))"

definition job_terminal :: "string \<Rightarrow> bool \<times> bool" where
  "job_terminal status =
     (let s = to_lower status
      in if s \<in> {''success'', ''succeeded'', ''completed''} then (True, True)
         else if s \<in> {''failed'', ''failure'', ''error'', ''cancelled'', ''canceled''} then (True, False)
         else (False, False))"

definition dec_job :: "obj \<Rightarrow> (string \<times> string) option" where
  "dec_job ms =
     (case (str_field ''status'' ms, str_field ''error'' ms) of
        (Some s, Some e) \<Rightarrow> Some (s, e) | _ \<Rightarrow> None)"

definition job_failure :: "string \<Rightarrow> string \<Rightarrow> string \<Rightarrow> go_err" where
  "job_failure job status err =
     ErrText (''job '' @ job @ '' '' @ status @ (if err \<noteq> [] then '': '' @ cut_at 240 err else []))"

text \<open>\<open>WaitJob\<close>: \<open>n\<close> more polls fit before the deadline.\<close>

fun poll_job ::
  "'w rot_env \<Rightarrow> rot_config \<Rightarrow> string \<Rightarrow> string \<Rightarrow> nat \<Rightarrow> 'w \<Rightarrow> go_err option \<times> 'w" where
  "poll_job env cfg app job n w =
     (case promoter_do env cfg ''GET'' (''/api/apps/'' @ path_escape app @ ''/jobs/'' @ path_escape job)
             None w of
        (Inl e, w1) \<Rightarrow> (Some e, w1)
      | (Inr (code, raw), w1) \<Rightarrow>
          (case decode_reply ''ring promoter'' dec_job ([], []) raw of
             Inl e \<Rightarrow> (Some e, w1)
           | Inr (status, err) \<Rightarrow>
               if job_terminal status = (True, True) then (None, w1)
               else if job_terminal status = (True, False)
               then (Some (job_failure job status err), w1)
               else
                 (case n of
                    0 \<Rightarrow> (Some (ErrText (''job '' @ job @ '' still '' @ quote status
                              @ '' after 20m0s'')), w1)
                  | Suc m \<Rightarrow>
                      (case rt_wait env 5 w1 of
                         (Some e, w2) \<Rightarrow> (Some e, w2)
                       | (None, w2) \<Rightarrow> poll_job env cfg app job m w2))))"

declare poll_job.simps [simp del]

definition wait_job ::
  "'w rot_env \<Rightarrow> rot_config \<Rightarrow> string \<Rightarrow> string \<Rightarrow> 'w \<Rightarrow> go_err option \<times> 'w" where
  "wait_job env cfg app job w =
     (case rt_polls env w of (n, w1) \<Rightarrow> poll_job env cfg app job n w1)"

text \<open>A ring is an object with a name, or its name alone.\<close>

definition ring_name :: "json \<Rightarrow> string" where
  "ring_name v =
     (case v of
        JStr s \<Rightarrow> s
      | JObj ms \<Rightarrow> (case str_field ''name'' ms of Some n \<Rightarrow> n | None \<Rightarrow> [])
      | _ \<Rightarrow> [])"

definition dec_ring :: "json \<Rightarrow> (string \<times> bool) option" where
  "dec_ring v =
     (case v of
        JObj ms \<Rightarrow>
          (case jfield id (\<lambda>b. case b of JBool h \<Rightarrow> Some h | _ \<Rightarrow> None) False ''healthy'' ms of
             Some h \<Rightarrow>
               Some (case jfield (\<lambda>_. JNull) Some JNull ''ring'' ms of
                       Some r \<Rightarrow> ring_name r | None \<Rightarrow> [], h)
           | None \<Rightarrow> None)
      | _ \<Rightarrow> None)"

definition ring_healthy ::
  "'w rot_env \<Rightarrow> rot_config \<Rightarrow> string \<Rightarrow> string \<Rightarrow> 'w \<Rightarrow> (go_err + bool) \<times> 'w" where
  "ring_healthy env cfg app ring w =
     (case promoter_do env cfg ''GET'' (''/api/apps/'' @ path_escape app @ ''/rings'') None w of
        (Inl e, w1) \<Rightarrow> (Inl e, w1)
      | (Inr (code, raw), w1) \<Rightarrow>
          (case decode_reply ''ring promoter'' (list_field dec_ring ([], False) ''rings'') [] raw of
             Inl e \<Rightarrow> (Inl e, w1)
           | Inr rings \<Rightarrow>
               (case map_of rings ring of
                  Some h \<Rightarrow> (Inr h, w1)
                | None \<Rightarrow> (Inl (ErrText (''ring '' @ ring @ '' not reported by ring promoter'')), w1))))"

end
