(* ===== verification/SecretsPropagation.thy ===== *)
theory SecretsPropagation
  imports SecretsTargets
begin

text \<open>
  What a rotation pushes beyond Vault (\<open>secretsrot/propagate.go\<close>, the fields and their checks): the
  raw fields of a launch are parsed into names that are valid, the configured phases are put in
  order, and the plan describes them.
\<close>

section \<open>The configuration of a propagation\<close>

type_synonym namespaced = "string \<times> string"

definition show_nn :: "namespaced \<Rightarrow> string" where
  "show_nn n = fst n @ ''/'' @ snd n"

record propagation =
  pp_source :: string
  pp_cluster :: string
  pp_external :: "namespaced list"
  pp_k8s :: "namespaced list"
  pp_github_repo :: string
  pp_github_env :: string
  pp_github_names :: "(string \<times> string) list"
  pp_app :: string
  pp_rings :: "string list"
  pp_deployments :: "string list"

record propagation_input =
  pi_source :: string
  pi_cluster :: string
  pi_external :: string
  pi_k8s :: string
  pi_github_repo :: string
  pi_github_env :: string
  pi_github_names :: string
  pi_rp_app :: string
  pi_rp_rings :: string
  pi_rp_deployments :: string

definition phase_k8s :: string where "phase_k8s = ''k8s_secret''"
definition phase_external :: string where "phase_external = ''external_secret''"
definition phase_github :: string where "phase_github = ''github_secrets''"
definition phase_rings :: string where "phase_rings = ''ring_restart''"

section \<open>Parsing\<close>

text \<open>\<open>^[a-z0-9]([-a-z0-9.]*[a-z0-9])?$\<close>\<close>

definition valid_dns :: "string \<Rightarrow> bool" where
  "valid_dns s \<longleftrightarrow>
     s \<noteq> [] \<and> lower_or_digit (hd s) \<and> lower_or_digit (last s)
     \<and> list_all (\<lambda>c. lower_or_digit c \<or> c = CHR ''-'' \<or> c = CHR ''.'') s"

text \<open>\<open>^[a-z0-9][a-z0-9_.-]*$\<close>\<close>

definition valid_rp_name :: "string \<Rightarrow> bool" where
  "valid_rp_name s \<longleftrightarrow>
     s \<noteq> [] \<and> lower_or_digit (hd s) \<and> list_all (\<lambda>c. lower_or_digit c \<or> c \<in> set ''_.-'') s"

text \<open>The items of a list in their order, each once.\<close>

fun keep_new :: "string list \<Rightarrow> string list \<Rightarrow> string list" where
  "keep_new seen [] = []"
| "keep_new seen (p # ps) =
     (let q = trim_space p in
      if q = [] \<or> q \<in> set seen then keep_new seen ps else q # keep_new (q # seen) ps)"

definition list_separator :: "char \<Rightarrow> bool" where
  "list_separator c \<longleftrightarrow> c \<in> {CHR '','', CHR '';'', CHR 0x0A, CHR '' '', CHR 0x09}"

definition split_list :: "string \<Rightarrow> string list" where
  "split_list raw = keep_new [] (fields_func list_separator raw)"

text \<open>\<open>strings.Cut\<close> at a character.\<close>

definition cut_char :: "char \<Rightarrow> string \<Rightarrow> (string \<times> string) option" where
  "cut_char c s =
     (if c \<in> set s then Some (takeWhile (\<lambda>x. x \<noteq> c) s, tl (dropWhile (\<lambda>x. x \<noteq> c) s)) else None)"

definition parse_item :: "string \<Rightarrow> string \<Rightarrow> go_err + namespaced" where
  "parse_item field item =
     (let bad = Inl (ErrText (field @ '': '' @ quote item @ '' is not namespace/name''))
      in case cut_char (CHR ''/'') item of
           None \<Rightarrow> bad
         | Some (ns, name) \<Rightarrow>
             if valid_dns ns \<and> valid_dns name \<and> length ns \<le> 63 \<and> length name \<le> 253
             then Inr (ns, name) else bad)"

fun traverse :: "('a \<Rightarrow> go_err + 'b) \<Rightarrow> 'a list \<Rightarrow> go_err + 'b list" where
  "traverse f [] = Inr []"
| "traverse f (x # xs) =
     (case f x of
        Inl e \<Rightarrow> Inl e
      | Inr y \<Rightarrow> (case traverse f xs of Inl e \<Rightarrow> Inl e | Inr ys \<Rightarrow> Inr (y # ys)))"

definition parse_namespaced :: "string \<Rightarrow> string \<Rightarrow> go_err + namespaced list" where
  "parse_namespaced field raw = traverse (parse_item field) (split_list raw)"

definition parse_pair :: "string \<Rightarrow> go_err + (string \<times> string)" where
  "parse_pair pair =
     (let bad = Inl (ErrText (''github_secret_names: '' @ quote pair @ '' is not key=SECRET_NAME''))
      in case cut_char (CHR ''='') pair of
           None \<Rightarrow> bad
         | Some (k0, v0) \<Rightarrow>
             (let k = trim_space k0; v = trim_space v0
              in if k = [] \<or> v = [] then bad
                 else (case valid_github_secret_name v of
                         Some e \<Rightarrow> Inl (ErrWrap ''github_secret_names: '' e)
                       | None \<Rightarrow> Inr (k, v))))"

text \<open>A later pair of the same key overrides.\<close>

definition parse_github_names :: "string \<Rightarrow> go_err + (string \<times> string) list" where
  "parse_github_names raw =
     (case traverse parse_pair (split_list raw) of
        Inl e \<Rightarrow> Inl e
      | Inr kvs \<Rightarrow> Inr (foldl (\<lambda>m kv. aput (fst kv) (snd kv) m) [] kvs))"

definition check_all :: "(string \<Rightarrow> bool) \<Rightarrow> string \<Rightarrow> string list \<Rightarrow> go_err option" where
  "check_all ok what xs =
     map_option (\<lambda>x. ErrText (what @ '' '' @ quote x)) (find (\<lambda>x. \<not> ok x) xs)"

text \<open>The checks in the order of the source; the first that fails is the error.\<close>

definition guard :: "bool \<Rightarrow> string \<Rightarrow> go_err + 'a \<Rightarrow> go_err + 'a" where
  "guard bad msg k = (if bad then Inl (ErrText msg) else k)"

definition parse_k8s_fields ::
  "propagation_input \<Rightarrow> propagation \<Rightarrow> go_err + propagation" where
  "parse_k8s_fields inp p =
     guard (pp_cluster p \<noteq> [] \<and> \<not> valid_cluster_name (pp_cluster p))
       (''cluster '' @ quote (pp_cluster p) @ '': use the kubeconfig name (a-z, 0-9, -)'')
     (case parse_namespaced ''external_secrets'' (pi_external inp) of
        Inl e \<Rightarrow> Inl e
      | Inr es \<Rightarrow>
          (case parse_namespaced ''k8s_secrets'' (pi_k8s inp) of
             Inl e \<Rightarrow> Inl e
           | Inr ks \<Rightarrow>
               guard ((es \<noteq> [] \<or> ks \<noteq> []) \<and> pp_cluster p = [])
                 ''cluster is required for external_secrets / k8s_secrets''
               (Inr (p\<lparr>pp_external := es, pp_k8s := ks\<rparr>))))"

definition parse_github_fields ::
  "propagation_input \<Rightarrow> propagation \<Rightarrow> go_err + propagation" where
  "parse_github_fields inp p =
     guard (pp_github_repo p \<noteq> [] \<and> \<not> valid_github_repo (pp_github_repo p))
       ''github_repo must be owner/name''
     (guard (pp_github_env p \<noteq> [] \<and> \<not> valid_github_env (pp_github_env p))
       (''github_environment '' @ quote (pp_github_env p) @ '' is not a valid environment name'')
     (case parse_github_names (pi_github_names inp) of
        Inl e \<Rightarrow> Inl e
      | Inr names \<Rightarrow>
          guard ((pp_github_env p \<noteq> [] \<or> names \<noteq> []) \<and> pp_github_repo p = [])
            ''github_repo is required for github_environment / github_secret_names''
          (Inr (p\<lparr>pp_github_names := names\<rparr>))))"

definition parse_ring_fields ::
  "propagation_input \<Rightarrow> propagation \<Rightarrow> go_err + propagation" where
  "parse_ring_fields inp p =
     (let rings = split_list (pi_rp_rings inp); ds = split_list (pi_rp_deployments inp)
      in case check_all valid_rp_name ''rp_rings: invalid ring'' rings of
           Some e \<Rightarrow> Inl e
         | None \<Rightarrow>
             (case check_all valid_dns ''rp_deployments: invalid deployment'' ds of
                Some e \<Rightarrow> Inl e
              | None \<Rightarrow>
                  guard (ds \<noteq> [] \<and> rings = []) ''rp_deployments requires rp_rings''
                  (let app = (if rings \<noteq> [] \<and> pp_app p = [] then ''jobshout'' else pp_app p)
                   in guard (app \<noteq> [] \<and> \<not> valid_rp_name app) (''rp_app: invalid app '' @ quote app)
                      (Inr (p\<lparr>pp_app := app, pp_rings := rings, pp_deployments := ds\<rparr>)))))"

definition check_source :: "propagation \<Rightarrow> go_err + propagation" where
  "check_source p =
     (if pp_source p = ''github'' then
        guard (pp_github_repo p = []) ''source=github requires github_repo''
        (guard (pp_external p \<noteq> [])
          ''external_secrets read from Vault; they cannot be used with source=github'' (Inr p))
      else Inr p)"

definition parse_propagation :: "propagation_input \<Rightarrow> go_err + propagation" where
  "parse_propagation inp =
     (let src = to_lower (trim_space (pi_source inp));
          p = \<lparr>pp_source = (if src = [] then ''vault'' else src),
               pp_cluster = trim_space (pi_cluster inp), pp_external = [], pp_k8s = [],
               pp_github_repo = trim_space (pi_github_repo inp),
               pp_github_env = trim_space (pi_github_env inp), pp_github_names = [],
               pp_app = trim_space (pi_rp_app inp), pp_rings = [], pp_deployments = []\<rparr>
      in guard (pp_source p \<noteq> ''vault'' \<and> pp_source p \<noteq> ''github'') ''source must be vault or github''
         (case parse_k8s_fields inp p of
            Inl e \<Rightarrow> Inl e
          | Inr p1 \<Rightarrow>
              (case parse_github_fields inp p1 of
                 Inl e \<Rightarrow> Inl e
               | Inr p2 \<Rightarrow>
                   (case parse_ring_fields inp p2 of
                      Inl e \<Rightarrow> Inl e
                    | Inr p3 \<Rightarrow> check_source p3))))"

section \<open>Phases\<close>

definition has_targets :: "propagation \<Rightarrow> bool" where
  "has_targets p \<longleftrightarrow>
     pp_k8s p \<noteq> [] \<or> pp_external p \<noteq> [] \<or> pp_github_repo p \<noteq> [] \<or> pp_rings p \<noteq> []"

definition phase_order :: "propagation \<Rightarrow> string list" where
  "phase_order p =
     (if pp_source p = ''github'' \<and> pp_github_repo p \<noteq> [] then [phase_github] else [])
     @ (if pp_k8s p \<noteq> [] then [phase_k8s] else [])
     @ (if pp_external p \<noteq> [] then [phase_external] else [])
     @ (if pp_source p \<noteq> ''github'' \<and> pp_github_repo p \<noteq> [] then [phase_github] else [])
     @ (if pp_rings p \<noteq> [] then [phase_rings] else [])"

definition pending_phase :: "string \<Rightarrow> string \<Rightarrow> rot_phase" where
  "pending_phase key label =
     \<lparr>ph_key = key, ph_label = label, ph_status = ''pending'', ph_message = []\<rparr>"

definition phase_label :: "string \<Rightarrow> string" where
  "phase_label key =
     (if key = phase_k8s then ''Patch Kubernetes Secrets''
      else if key = phase_external then ''Force-sync ExternalSecrets''
      else if key = phase_github then ''Update GitHub Actions secrets''
      else if key = phase_rings then ''Restart rings (Ring Promoter)''
      else [])"

definition propagation_phases :: "propagation \<Rightarrow> rot_phase list" where
  "propagation_phases p = map (\<lambda>k. pending_phase k (phase_label k)) (phase_order p)"

definition github_target :: "propagation \<Rightarrow> string" where
  "github_target p =
     (if pp_github_env p \<noteq> [] then pp_github_repo p @ ''@'' @ pp_github_env p else pp_github_repo p)"

definition secret_name_for :: "propagation \<Rightarrow> string \<Rightarrow> go_err + (string \<times> string)" where
  "secret_name_for p k =
     (let mapped = (case map_of (pp_github_names p) k of Some n \<Rightarrow> n | None \<Rightarrow> []);
          name = (if mapped = [] then github_secret_name k else mapped)
      in case valid_github_secret_name name of
           Some e \<Rightarrow> Inl (ErrAround (''key '' @ quote k @ '': '') e '' (set github_secret_names)'')
         | None \<Rightarrow> Inr (k, name))"

definition github_names :: "propagation \<Rightarrow> string list \<Rightarrow> go_err + (string \<times> string) list" where
  "github_names p keys = traverse (secret_name_for p) keys"

definition phase_plan :: "propagation \<Rightarrow> string list \<Rightarrow> string \<Rightarrow> string list" where
  "phase_plan p keys ph =
     (let key_list = (if join '','' keys = [] then ''(rotated keys)'' else join '','' keys)
      in if ph = phase_k8s then
           map (\<lambda>s. ''Patch Secret '' @ show_nn s @ '' on '' @ pp_cluster p @ '': merge keys ''
                  @ key_list @ '' (other keys untouched)'') (pp_k8s p)
         else if ph = phase_external then
           map (\<lambda>s. ''Annotate ExternalSecret '' @ show_nn s @ '' on '' @ pp_cluster p
                  @ '' with force-sync; wait for Ready and a new target Secret revision'')
             (pp_external p)
         else if ph = phase_github then
           (if keys = []
            then [''Seal and PUT a GitHub Actions secret per rotated key (KEY upper-cased unless mapped) on ''
                  @ github_target p]
            else (case github_names p keys of
                    Inl e \<Rightarrow> [''GitHub Actions secrets on '' @ github_target p @ '': '' @ err_text e]
                  | Inr names \<Rightarrow>
                      [''Seal and PUT GitHub Actions secrets '' @ join '','' (map snd names)
                       @ '' on '' @ github_target p]))
         else if ph = phase_rings then
           (let which = (if pp_deployments p \<noteq> [] then join '','' (pp_deployments p)
                         else if pp_k8s p = [] \<and> pp_external p = []
                         then ''Ring Promoter default deployments''
                         else ''Deployments in namespace <ring> that reference a rotated Secret'')
            in map (\<lambda>r. ''Ring Promoter: restart '' @ pp_app p @ ''/'' @ r @ '' ('' @ which
                      @ ''), wait for the job and ring health'') (pp_rings p))
         else [])"

definition plan_steps :: "propagation \<Rightarrow> string list \<Rightarrow> string list" where
  "plan_steps p keys = concat (map (phase_plan p keys) (phase_order p))"

section \<open>Credentials\<close>

text \<open>\<open>checkCredentials\<close>: the client of the cluster, and what is missing on the server.\<close>

definition check_credentials ::
  "'w rot_env \<Rightarrow> rot_config \<Rightarrow> propagation \<Rightarrow> kube_client option \<times> string list" where
  "check_credentials env cfg p =
     (let (kube, kube_problems) =
            (if pp_k8s p \<noteq> [] \<or> pp_external p \<noteq> [] then
               (case kube_client_for env (cf_kubeconfig_dir cfg) (pp_cluster p) of
                  Inl e \<Rightarrow> (None, [err_text e])
                | Inr k \<Rightarrow> (Some k, []))
             else (None, []))
      in (kube, kube_problems
           @ (if pp_github_repo p \<noteq> [] \<and> cf_github_token cfg = []
              then [''SECRETS_ROT_GITHUB_TOKEN is not set''] else [])
           @ (if pp_rings p \<noteq> [] \<and> cf_rp_token cfg = [] then [''RP_API_TOKEN is not set''] else [])
           @ concat (map (\<lambda>r. if r = ''prod'' \<and> cf_rp_prod_password cfg = []
                 then [''RP_PROD_PASSWORD is not set (Ring Promoter requires it for ring prod)'']
                 else []) (pp_rings p))))"

end
