(* ===== verification/SecretsVault.thy ===== *)
theory SecretsVault
  imports SecretsEnv
begin

text \<open>
  The Vault client of the secrets rotation (\<open>secretsrot/client.go\<close>): reading, writing, deleting and
  restoring versions of a KV v2 secret, its metadata, and the rotation of a transit key.
\<close>

section \<open>One request\<close>

text \<open>
  \<open>Client.do\<close>: the status (0 when there is none), the error, and what \<open>json.Unmarshal\<close> makes of
  the body as a map. A status of 400 and above other than 404 is an error.
\<close>

definition body_map :: "string \<Rightarrow> obj" where
  "body_map raw =
     (case parse_json raw of
        Some v \<Rightarrow> (case to_any v of JObj ms \<Rightarrow> ms | _ \<Rightarrow> [])
      | None \<Rightarrow> [])"

definition vault_headers :: "rot_config \<Rightarrow> bool \<Rightarrow> (string \<times> string) list" where
  "vault_headers cfg with_body =
     (if with_body then [(''Content-Type'', ''application/json'')] else [])
     @ (if cf_token cfg \<noteq> [] then [(''X-Vault-Token'', cf_token cfg)] else [])
     @ (if cf_namespace cfg \<noteq> []
        then [(''X-Vault-Namespace'', cf_namespace cfg), (''X-Tenant-Id'', cf_namespace cfg)]
        else [])"

definition vault_req :: "rot_config \<Rightarrow> string \<Rightarrow> string \<Rightarrow> json option \<Rightarrow> http_req" where
  "vault_req cfg method path body =
     \<lparr>hq_to = ToVault, hq_method = method, hq_url = cf_addr cfg @ path,
      hq_headers = vault_headers cfg (body \<noteq> None), hq_body = body\<rparr>"

definition vault_do ::
  "'w rot_env \<Rightarrow> rot_config \<Rightarrow> string \<Rightarrow> string \<Rightarrow> json option \<Rightarrow> 'w
     \<Rightarrow> (nat \<times> go_err option \<times> obj) \<times> 'w" where
  "vault_do env cfg method path body w =
     (if cf_addr cfg = [] then ((0, Some (ErrText ''vault address not configured''), []), w)
      else
        (case rt_http env (vault_req cfg method path body) w of
           (Inl e, w1) \<Rightarrow> ((0, Some e, []), w1)
         | (Inr resp, w1) \<Rightarrow>
             (let raw = take 1048576 (hr_body resp); out = body_map raw; code = hr_status resp
              in if code \<ge> 400 \<and> code \<noteq> 404
                 then ((code,
                        Some (ErrText (''vault HTTP '' @ show_nat code @ '': ''
                                @ cut_at 240 (trim_space raw))),
                        out), w1)
                 else ((code, None, out), w1))))"

section \<open>Reading a KV v2 reply\<close>

record secret_meta =
  sm_version :: int
  sm_created :: string
  sm_keys :: "string list"
  sm_destroyed :: bool
  sm_versions :: obj

definition no_meta :: secret_meta where
  "no_meta = \<lparr>sm_version = 0, sm_created = [], sm_keys = [], sm_destroyed = False, sm_versions = []\<rparr>"

text \<open>A JSON number decoded into \<open>any\<close> is a float64; \<open>int\<close> drops its fraction.\<close>

definition as_int :: "json option \<Rightarrow> int option" where
  "as_int v =
     (case v of Some (JNum r) \<Rightarrow> Some (if r < 0 then \<lceil>r\<rceil> else \<lfloor>r\<rfloor>) | _ \<Rightarrow> None)"

definition obj_field :: "string \<Rightarrow> obj \<Rightarrow> obj option" where
  "obj_field k m = (case map_of m k of Some (JObj ms) \<Rightarrow> Some ms | _ \<Rightarrow> None)"

definition meta_of :: "obj \<Rightarrow> secret_meta \<Rightarrow> secret_meta" where
  "meta_of m meta =
     meta\<lparr>sm_version := (case as_int (map_of m ''version'') of Some v \<Rightarrow> v | None \<Rightarrow> sm_version meta),
          sm_created := (case map_of m ''created_time'' of Some (JStr t) \<Rightarrow> t
                         | _ \<Rightarrow> sm_created meta),
          sm_destroyed := (case map_of m ''destroyed'' of Some (JBool b) \<Rightarrow> b
                           | _ \<Rightarrow> sm_destroyed meta)\<rparr>"

definition parse_kv2 :: "obj \<Rightarrow> obj \<times> secret_meta" where
  "parse_kv2 raw =
     (case obj_field ''data'' raw of
        None \<Rightarrow> ([], no_meta)
      | Some inner \<Rightarrow>
          (let data = (case obj_field ''data'' inner of Some d \<Rightarrow> d | None \<Rightarrow> []);
               meta1 = no_meta\<lparr>sm_keys := map fst data\<rparr>;
               meta2 = (case obj_field ''metadata'' inner of Some m \<Rightarrow> meta_of m meta1
                        | None \<Rightarrow> meta1);
               meta3 = (if sm_version meta2 = 0
                        then meta2\<lparr>sm_version := (case as_int (map_of inner ''version'') of
                               Some v \<Rightarrow> v | None \<Rightarrow> 0)\<rparr>
                        else meta2)
           in (data, meta3)))"

section \<open>Operations\<close>

definition secret_not_found :: string where
  "secret_not_found = ''secret not found''"

definition not_found_at :: "string \<Rightarrow> string \<Rightarrow> go_err" where
  "not_found_at mount path =
     ErrAround [] (ErrSentinel secret_not_found) ('' at '' @ mount @ ''/'' @ path)"

definition data_path :: "string \<Rightarrow> string \<Rightarrow> string" where
  "data_path mount path = ''/v1/'' @ trim_slashes mount @ ''/data/'' @ trim_slashes path"

definition read_kv2 ::
  "'w rot_env \<Rightarrow> rot_config \<Rightarrow> string \<Rightarrow> string \<Rightarrow> int \<Rightarrow> 'w
     \<Rightarrow> (go_err + (obj \<times> secret_meta)) \<times> 'w" where
  "read_kv2 env cfg mount path version w =
     (let q = (if version > 0 then ''?version='' @ show_int version else [])
      in case vault_do env cfg ''GET'' (data_path mount path @ q) None w of
           ((code, err, raw), w1) \<Rightarrow>
             (case err of
                Some e \<Rightarrow> (Inl e, w1)
              | None \<Rightarrow>
                  if code = 404
                  then (Inl (not_found_at (trim_slashes mount) (trim_slashes path)), w1)
                  else if code \<ge> 300
                  then (Inl (ErrText (''read failed: HTTP '' @ show_nat code)), w1)
                  else (Inr (parse_kv2 raw), w1)))"

definition write_body :: "obj \<Rightarrow> int \<Rightarrow> json" where
  "write_body data cas =
     JObj ((''data'', JObj data)
       # (if cas > 0 then [(''options'', JObj [(''cas'', JNum (of_int cas))])] else []))"

definition write_kv2 ::
  "'w rot_env \<Rightarrow> rot_config \<Rightarrow> string \<Rightarrow> string \<Rightarrow> obj \<Rightarrow> int \<Rightarrow> 'w
     \<Rightarrow> (go_err + secret_meta) \<times> 'w" where
  "write_kv2 env cfg mount path data cas w =
     (case vault_do env cfg ''POST'' (data_path mount path) (Some (write_body data cas)) w of
        ((code, err, raw), w1) \<Rightarrow>
          (case err of
             Some e \<Rightarrow> (Inl e, w1)
           | None \<Rightarrow>
               if code \<ge> 300 then (Inl (ErrText (''write failed: HTTP '' @ show_nat code)), w1)
               else
                 (let meta = snd (parse_kv2 raw)
                  in (Inr (if sm_version meta = 0
                           then meta\<lparr>sm_version :=
                                  (case obj_field ''data'' raw of
                                     Some m \<Rightarrow> (case as_int (map_of m ''version'') of
                                                  Some v \<Rightarrow> v | None \<Rightarrow> 0)
                                   | None \<Rightarrow> 0)\<rparr>
                           else meta), w1))))"

text \<open>A request of which only success counts: soft-delete, undelete, rotation of a transit key.\<close>

definition vault_command ::
  "'w rot_env \<Rightarrow> rot_config \<Rightarrow> string \<Rightarrow> string \<Rightarrow> json option \<Rightarrow> 'w \<Rightarrow> go_err option \<times> 'w" where
  "vault_command env cfg what path body w =
     (case vault_do env cfg ''POST'' path body w of
        ((code, err, raw), w1) \<Rightarrow>
          (case err of
             Some e \<Rightarrow> (Some e, w1)
           | None \<Rightarrow>
               if code \<ge> 300
               then (Some (ErrText (what @ '' failed: HTTP '' @ show_nat code)), w1)
               else (None, w1)))"

definition versions_body :: "int list \<Rightarrow> json" where
  "versions_body vs = JObj [(''versions'', JArr (map (\<lambda>v. JNum (of_int v)) vs))]"

definition soft_delete_versions ::
  "'w rot_env \<Rightarrow> rot_config \<Rightarrow> string \<Rightarrow> string \<Rightarrow> int list \<Rightarrow> 'w \<Rightarrow> go_err option \<times> 'w" where
  "soft_delete_versions env cfg mount path vs =
     vault_command env cfg ''soft-delete''
       (''/v1/'' @ trim_slashes mount @ ''/delete/'' @ trim_slashes path) (Some (versions_body vs))"

definition undelete_versions ::
  "'w rot_env \<Rightarrow> rot_config \<Rightarrow> string \<Rightarrow> string \<Rightarrow> int list \<Rightarrow> 'w \<Rightarrow> go_err option \<times> 'w" where
  "undelete_versions env cfg mount path vs =
     vault_command env cfg ''undelete''
       (''/v1/'' @ trim_slashes mount @ ''/undelete/'' @ trim_slashes path) (Some (versions_body vs))"

definition rotate_transit_key ::
  "'w rot_env \<Rightarrow> rot_config \<Rightarrow> string \<Rightarrow> string \<Rightarrow> 'w \<Rightarrow> go_err option \<times> 'w" where
  "rotate_transit_key env cfg mount name =
     vault_command env cfg ''transit rotate''
       (''/v1/'' @ trim_slashes mount @ ''/keys/'' @ trim_slashes name @ ''/rotate'') None"

text \<open>
  \<open>MetadataKV2\<close>: WSLVault has no metadata endpoint, so a 404 there is decided by the data itself;
  only a 404 of the data means that the secret is absent.
\<close>

definition metadata_kv2 ::
  "'w rot_env \<Rightarrow> rot_config \<Rightarrow> string \<Rightarrow> string \<Rightarrow> 'w \<Rightarrow> (go_err + secret_meta) \<times> 'w" where
  "metadata_kv2 env cfg mount path w =
     (let m = trim_slashes mount; p = trim_slashes path
      in case vault_do env cfg ''GET'' (''/v1/'' @ m @ ''/metadata/'' @ p) None w of
           ((code, err, raw), w1) \<Rightarrow>
             (case err of
                Some e \<Rightarrow> (Inl e, w1)
              | None \<Rightarrow>
                  if code = 404 then
                    (case read_kv2 env cfg m p 0 w1 of
                       (Inl e, w2) \<Rightarrow>
                         (Inl (if err_is secret_not_found e then not_found_at m p else e), w2)
                     | (Inr dm, w2) \<Rightarrow> (Inr (snd dm), w2))
                  else if code \<ge> 300
                  then (Inl (ErrText (''metadata failed: HTTP '' @ show_nat code)), w1)
                  else
                    (Inr (case obj_field ''data'' raw of
                            None \<Rightarrow> no_meta
                          | Some d \<Rightarrow>
                              no_meta\<lparr>sm_version := (case as_int (map_of d ''current_version'') of
                                          Some v \<Rightarrow> v | None \<Rightarrow> 0),
                                      sm_versions := (case obj_field ''versions'' d of
                                          Some vs \<Rightarrow> vs | None \<Rightarrow> [])\<rparr>), w1)))"

text \<open>\<open>Health\<close>: a status makes the call succeed, an error status included.\<close>

definition health ::
  "'w rot_env \<Rightarrow> rot_config \<Rightarrow> 'w \<Rightarrow> (go_err + obj) \<times> 'w" where
  "health env cfg w =
     (case vault_do env cfg ''GET'' ''/v1/sys/health'' None w of
        ((code, err, raw), w1) \<Rightarrow>
          (case err of
             Some e \<Rightarrow> if code = 0 then (Inl e, w1)
                       else (Inr (map_put raw (''http_status'', JNum (of_nat code))), w1)
           | None \<Rightarrow> (Inr (map_put raw (''http_status'', JNum (of_nat code))), w1)))"

definition detect_provider :: "string \<Rightarrow> obj \<Rightarrow> string" where
  "detect_provider addr h =
     (let a = to_lower addr
      in if str_contains a ''workstation.co.uk'' \<or> str_contains a ''wslvault'' then ''wslvault''
         else if map_of h ''replication_lag'' \<noteq> None then ''wslvault''
         else ''hashicorp'')"

end
