(* ===== verification/SecretsPropagator.thy ===== *)
theory SecretsPropagator
  imports SecretsPropagation SecretsVault
begin

text \<open>
  The run of a propagation (\<open>secretsrot/propagate.go\<close>, \<open>propagator\<close>): patching Kubernetes Secrets,
  forcing ExternalSecrets to re-sync, writing GitHub Actions secrets and restarting rings, in the
  order of the phases, until one fails. Texts that are stored are scrubbed of the values.
\<close>

section \<open>The state of a run\<close>

record rot_opts =
  op_mode :: string
  op_provider :: string
  op_addr :: string
  op_token :: string
  op_namespace :: string
  op_mount :: string
  op_path :: string
  op_engine :: string
  op_keys :: "string list"
  op_grace :: int
  op_retire :: bool
  op_dry :: bool
  op_new :: obj
  op_prop :: propagation
  op_run_id :: string

record rot_target =
  tg_kind :: string
  tg_name :: string
  tg_status :: string
  tg_rv :: string
  tg_job :: string
  tg_message :: string

record rot_summary =
  sy_source :: string
  sy_cluster :: string
  sy_version :: int
  sy_targets :: "rot_target list"

record rot_result =
  rz_ui_login :: string
  rz_docs :: string
  rz_mount :: string
  rz_path :: string
  rz_engine :: string
  rz_window :: int
  rz_zero_downtime :: bool
  rz_strategy :: string
  rz_warnings :: "string list"
  rz_plan :: "string list"
  rz_keys :: "string list"
  rz_previous :: int
  rz_current :: int
  rz_rolled_back :: int
  rz_retired :: bool
  rz_propagation :: "rot_summary option"

record rot_out =
  ro_detected :: string
  ro_phases :: "rot_phase list"
  ro_result :: rot_result

record 'w rot_state =
  rn_world :: 'w
  rn_out :: rot_out
  rn_eso_rv :: "(string \<times> string) list"
  rn_eso_target :: "(string \<times> string) list"
  rn_redact :: "string list"

definition lift_world :: "('w \<Rightarrow> 'a \<times> 'w) \<Rightarrow> 'w rot_state \<Rightarrow> 'a \<times> 'w rot_state" where
  "lift_world f st = (case f (rn_world st) of (x, w) \<Rightarrow> (x, st\<lparr>rn_world := w\<rparr>))"

text \<open>The state of the first phase of that key; the callback stores it.\<close>

fun put_phase :: "string \<Rightarrow> string \<Rightarrow> string \<Rightarrow> rot_phase list \<Rightarrow> rot_phase list" where
  "put_phase key status msg [] = []"
| "put_phase key status msg (p # ps) =
     (if ph_key p = key then p\<lparr>ph_status := status, ph_message := msg\<rparr> # ps
      else p # put_phase key status msg ps)"

definition set_phase ::
  "'w rot_env \<Rightarrow> string \<Rightarrow> string \<Rightarrow> string \<Rightarrow> 'w rot_state \<Rightarrow> 'w rot_state" where
  "set_phase env key status msg st =
     (let phases = put_phase key status msg (ro_phases (rn_out st));
          st1 = st\<lparr>rn_out := (rn_out st)\<lparr>ro_phases := phases\<rparr>\<rparr>
      in case find (\<lambda>p. ph_key p = key) phases of
           Some p \<Rightarrow> st1\<lparr>rn_world := rt_on_phase env p (rn_world st)\<rparr>
         | None \<Rightarrow> st1)"

definition upd_result :: "(rot_result \<Rightarrow> rot_result) \<Rightarrow> 'w rot_state \<Rightarrow> 'w rot_state" where
  "upd_result f st = st\<lparr>rn_out := (rn_out st)\<lparr>ro_result := f (ro_result (rn_out st))\<rparr>\<rparr>"

definition warn :: "string \<Rightarrow> 'w rot_state \<Rightarrow> 'w rot_state" where
  "warn msg = upd_result (\<lambda>r. r\<lparr>rz_warnings := rz_warnings r @ [msg]\<rparr>)"

section \<open>Scrubbing\<close>

definition redacted :: string where
  "redacted = ''[redacted]''"

text \<open>The values and their base64, but no value shorter than four bytes.\<close>

definition redact_list :: "(string \<times> string) list \<Rightarrow> string list" where
  "redact_list values =
     concat (map (\<lambda>(k, v). if length v < 4 then [] else [v, b64_encode v]) values)"

definition scrub :: "string list \<Rightarrow> string \<Rightarrow> string" where
  "scrub secrets s = foldl (\<lambda>t v. replace_all v redacted t) s secrets"

definition pset ::
  "'w rot_env \<Rightarrow> string \<Rightarrow> string \<Rightarrow> string \<Rightarrow> 'w rot_state \<Rightarrow> 'w rot_state" where
  "pset env key status msg st = set_phase env key status (scrub (rn_redact st) msg) st"

definition summary :: "propagation \<Rightarrow> 'w rot_state \<Rightarrow> rot_summary" where
  "summary p st =
     (case rz_propagation (ro_result (rn_out st)) of
        Some s \<Rightarrow> s
      | None \<Rightarrow> \<lparr>sy_source = pp_source p, sy_cluster = pp_cluster p, sy_version = 0, sy_targets = []\<rparr>)"

definition put_summary :: "rot_summary \<Rightarrow> 'w rot_state \<Rightarrow> 'w rot_state" where
  "put_summary s = upd_result (\<lambda>r. r\<lparr>rz_propagation := Some s\<rparr>)"

definition target :: "string \<Rightarrow> string \<Rightarrow> string \<Rightarrow> rot_target" where
  "target kind name status =
     \<lparr>tg_kind = kind, tg_name = name, tg_status = status, tg_rv = [], tg_job = [], tg_message = []\<rparr>"

definition add_target :: "propagation \<Rightarrow> rot_target \<Rightarrow> 'w rot_state \<Rightarrow> 'w rot_state" where
  "add_target p t st =
     (let s = summary p st
      in put_summary
           (s\<lparr>sy_targets := sy_targets s @ [t\<lparr>tg_message := scrub (rn_redact st) (tg_message t)\<rparr>]\<rparr>) st)"

definition add_targets :: "propagation \<Rightarrow> rot_target list \<Rightarrow> 'w rot_state \<Rightarrow> 'w rot_state" where
  "add_targets p ts st = foldl (\<lambda>s t. add_target p t s) st ts"

section \<open>The propagator\<close>

record propagator =
  pg_cfg :: rot_config
  pg_opt :: rot_opts
  pg_kube :: "kube_client option"

abbreviation pg_prop :: "propagator \<Rightarrow> propagation" where
  "pg_prop pr \<equiv> op_prop (pg_opt pr)"

text \<open>A method of the nil client panics.\<close>

definition nil_client :: go_err where
  "nil_client = ErrText ''runtime error: invalid memory address or nil pointer dereference''"

definition with_kube ::
  "propagator \<Rightarrow> (kube_client \<Rightarrow> 'w \<Rightarrow> (go_err + 'a) \<times> 'w) \<Rightarrow> 'w \<Rightarrow> (go_err + 'a) \<times> 'w" where
  "with_kube pr f w = (case pg_kube pr of None \<Rightarrow> (Inl nil_client, w) | Some k \<Rightarrow> f k w)"

text \<open>A Secret that is missing or that Helm owns is not patched.\<close>

definition check_patchable ::
  "'w rot_env \<Rightarrow> propagator \<Rightarrow> namespaced \<Rightarrow> 'w \<Rightarrow> (go_err + unit) \<times> 'w" where
  "check_patchable env pr s w =
     (case with_kube pr (\<lambda>k. get_secret_info env k (fst s) (snd s)) w of
        (Inl e, w1) \<Rightarrow> (Inl (ErrWrap (''secret '' @ show_nn s @ '': '') e), w1)
      | (Inr info, w1) \<Rightarrow>
          if \<not> si_exists info
          then (Inl (ErrText (''secret '' @ show_nn s @ '' not found on cluster ''
                      @ pp_cluster (pg_prop pr))), w1)
          else if si_helm info
          then (Inl (ErrText (''secret '' @ show_nn s
                      @ '' is Helm-managed; a helm upgrade would overwrite a direct patch. ''
                      @ ''Change the chart values / Vault source instead, or move the keys to ''
                      @ ''an extraSecretRefs Secret'')), w1)
          else (Inr (), w1))"

definition eso_err :: "propagator \<Rightarrow> namespaced \<Rightarrow> go_err \<Rightarrow> go_err" where
  "eso_err pr es e =
     (if err_is no_eso e
      then ErrText (''External Secrets Operator not found on cluster '' @ pp_cluster (pg_prop pr)
             @ '' (ExternalSecret '' @ show_nn es @ '')'')
      else e)"

text \<open>\<open>precheck\<close>: only reads; one problem per failed check.\<close>

fun precheck_k8s ::
  "'w rot_env \<Rightarrow> propagator \<Rightarrow> namespaced list \<Rightarrow> 'w rot_state \<Rightarrow> string list \<times> 'w rot_state" where
  "precheck_k8s env pr [] st = ([], st)"
| "precheck_k8s env pr (s # ss) st =
     (case lift_world (check_patchable env pr s) st of
        (r, st1) \<Rightarrow>
          (case precheck_k8s env pr ss st1 of
             (ps, st2) \<Rightarrow> ((case r of Inl e \<Rightarrow> [err_text e] | Inr _ \<Rightarrow> []) @ ps, st2)))"

definition precheck_one ::
  "'w rot_env \<Rightarrow> propagator \<Rightarrow> namespaced \<Rightarrow> 'w rot_state \<Rightarrow> string list \<times> 'w rot_state" where
  "precheck_one env pr es st =
     (case lift_world (with_kube pr (\<lambda>k. get_external_secret env k (fst es) (snd es))) st of
        (Inl e, st1) \<Rightarrow> ([err_text (eso_err pr es e)], st1)
      | (Inr (obj, _), st1) \<Rightarrow>
          (let tn = target_name obj;
               st2 = st1\<lparr>rn_eso_target := aput (show_nn es) tn (rn_eso_target st1)\<rparr>
           in case lift_world (with_kube pr (\<lambda>k. secret_resource_version env k (fst es) tn)) st2 of
                (Inl e, st3) \<Rightarrow>
                  ([''externalsecret '' @ show_nn es @ '' target: '' @ err_text e], st3)
              | (Inr rv, st3) \<Rightarrow>
                  ([], st3\<lparr>rn_eso_rv := aput (show_nn es) rv (rn_eso_rv st3)\<rparr>)))"

fun precheck_eso ::
  "'w rot_env \<Rightarrow> propagator \<Rightarrow> namespaced list \<Rightarrow> 'w rot_state \<Rightarrow> string list \<times> 'w rot_state" where
  "precheck_eso env pr [] st = ([], st)"
| "precheck_eso env pr (s # ss) st =
     (case precheck_one env pr s st of
        (ps, st1) \<Rightarrow> (case precheck_eso env pr ss st1 of (qs, st2) \<Rightarrow> (ps @ qs, st2)))"

definition precheck ::
  "'w rot_env \<Rightarrow> propagator \<Rightarrow> 'w rot_state \<Rightarrow> string list \<times> 'w rot_state" where
  "precheck env pr st =
     (if pg_kube pr = None then ([], st)
      else
        (case precheck_k8s env pr (pp_k8s (pg_prop pr)) st of
           (ps, st1) \<Rightarrow>
             (case precheck_eso env pr (pp_external (pg_prop pr))
                     (st1\<lparr>rn_eso_rv := [], rn_eso_target := []\<rparr>) of
                (qs, st2) \<Rightarrow> (ps @ qs, st2))))"

section \<open>Kubernetes Secrets\<close>

definition join_nn :: "namespaced list \<Rightarrow> string" where
  "join_nn ss = join '','' (map show_nn ss)"

text \<open>A failing target is recorded, its phase fails and the error carries its name.\<close>

definition fail_target ::
  "'w rot_env \<Rightarrow> propagator \<Rightarrow> string \<Rightarrow> string \<Rightarrow> go_err \<Rightarrow> 'w rot_state
     \<Rightarrow> go_err option \<times> 'w rot_state" where
  "fail_target env pr phase name e st =
     (let st1 = add_target (pg_prop pr) ((target phase name ''failed'')\<lparr>tg_message := err_text e\<rparr>) st;
          st2 = pset env phase ''failed'' (name @ '': '' @ err_text e) st1
      in (Some (ErrWrap (name @ '': '') e), st2))"

definition patch_one ::
  "'w rot_env \<Rightarrow> propagator \<Rightarrow> (string \<times> string) list \<Rightarrow> namespaced \<Rightarrow> 'w rot_state
     \<Rightarrow> (go_err + string) \<times> 'w rot_state" where
  "patch_one env pr values s st =
     ebind (lift_world (check_patchable env pr s) st)
       (\<lambda>_. lift_world (with_kube pr (\<lambda>k. patch_secret_keys env k (fst s) (snd s) values)))"

fun patch_each ::
  "'w rot_env \<Rightarrow> propagator \<Rightarrow> (string \<times> string) list \<Rightarrow> namespaced list \<Rightarrow> 'w rot_state
     \<Rightarrow> go_err option \<times> 'w rot_state" where
  "patch_each env pr values [] st = (None, st)"
| "patch_each env pr values (s # ss) st =
     (case patch_one env pr values s st of
        (Inl e, st1) \<Rightarrow> fail_target env pr phase_k8s (show_nn s) e st1
      | (Inr rv, st1) \<Rightarrow>
          patch_each env pr values ss
            (add_target (pg_prop pr) ((target phase_k8s (show_nn s) ''completed'')\<lparr>tg_rv := rv\<rparr>) st1))"

definition run_k8s ::
  "'w rot_env \<Rightarrow> propagator \<Rightarrow> (string \<times> string) list \<Rightarrow> string list \<Rightarrow> 'w rot_state
     \<Rightarrow> go_err option \<times> 'w rot_state" where
  "run_k8s env pr values keys st =
     (let p = pg_prop pr; ss = pp_k8s p;
          st1 = pset env phase_k8s ''active''
                  (''Patching '' @ show_nat (length ss) @ '' Secret(s) on '' @ pp_cluster p) st
      in if op_dry (pg_opt pr) then
           (None, pset env phase_k8s ''completed''
              (''Dry-run: would merge keys '' @ join '','' keys @ '' into '' @ join_nn ss)
              (add_targets p (map (\<lambda>s. target phase_k8s (show_nn s) ''dry_run'') ss) st1))
         else
           (case patch_each env pr values ss st1 of
              (Some e, st2) \<Rightarrow> (Some e, st2)
            | (None, st2) \<Rightarrow>
                (None, pset env phase_k8s ''completed''
                   (''Merged keys '' @ join '','' keys @ '' into '' @ join_nn ss) st2)))"


section \<open>External secrets\<close>

text \<open>The last \<open>Ready\<close> condition: whether it is true, and what it says.\<close>

definition ready_state :: "external_secret \<Rightarrow> bool \<times> string" where
  "ready_state es =
     foldl (\<lambda>acc c. if ec_type c = ''Ready''
              then (ec_status c = ''True'', trim_space (ec_reason c @ '' '' @ ec_message c)) else acc)
       (False, []) (es_conditions es)"

definition show_bool :: "bool \<Rightarrow> string" where
  "show_bool b = (if b then ''true'' else ''false'')"

text \<open>
  The poll of \<open>syncExternalSecret\<close>: the object must be ready, refreshed since the annotation, and
  (where a change is required) its target Secret must have a new resource version. \<open>n\<close> more polls
  fit before the deadline.
\<close>

fun poll_sync ::
  "'w rot_env \<Rightarrow> kube_client \<Rightarrow> namespaced \<Rightarrow> string \<Rightarrow> string \<Rightarrow> int \<Rightarrow> bool \<Rightarrow> nat \<Rightarrow> 'w
     \<Rightarrow> (go_err + string) \<times> 'w" where
  "poll_sync env k s tn baseline ts require n w =
     ebind (get_external_secret env k (fst s) (snd s) w) (\<lambda>(es, _) w1.
     ebind (secret_resource_version env k (fst s) tn w1) (\<lambda>rv w2.
       let (ready, msg) = ready_state es;
           refreshed = (case parse_rfc3339 (es_refresh_time es) of Some t \<Rightarrow> t \<ge> ts | None \<Rightarrow> False);
           changed = (\<not> require \<or> rv \<noteq> [] \<and> rv \<noteq> baseline)
       in if ready \<and> refreshed \<and> changed then (Inr rv, w2)
          else
            (case n of
               0 \<Rightarrow>
                 (Inl (ErrText (''not synced within 2m0s (ready='' @ show_bool ready @ '' refreshed=''
                    @ show_bool refreshed @ '' secret '' @ tn @ '' changed='' @ show_bool changed
                    @ ''; '' @ cut_at 200 msg @ '')'')), w2)
             | Suc m \<Rightarrow>
                 (case rt_wait env 2 w2 of
                    (Some e, w3) \<Rightarrow> (Inl e, w3)
                  | (None, w3) \<Rightarrow> poll_sync env k s tn baseline ts require m w3))))"

declare poll_sync.simps [simp del]

definition force_sync ::
  "'w rot_env \<Rightarrow> kube_client \<Rightarrow> namespaced \<Rightarrow> string \<Rightarrow> string \<Rightarrow> string \<Rightarrow> bool \<Rightarrow> 'w
     \<Rightarrow> (go_err + string) \<times> 'w" where
  "force_sync env k s version tn baseline require w =
     (case rt_now env w of
        (ts, w1) \<Rightarrow>
          (case annotate_force_sync env k version (fst s) (snd s) ts w1 of
             (Some e, w2) \<Rightarrow> (Inl e, w2)
           | (None, w2) \<Rightarrow>
               (case rt_polls env w2 of
                  (n, w3) \<Rightarrow> poll_sync env k s tn baseline ts require n w3)))"

definition sync_one ::
  "'w rot_env \<Rightarrow> propagator \<Rightarrow> bool \<Rightarrow> namespaced \<Rightarrow> 'w rot_state
     \<Rightarrow> (go_err + string) \<times> 'w rot_state" where
  "sync_one env pr require s st =
     (case pg_kube pr of
        None \<Rightarrow> (Inl nil_client, st)
      | Some k \<Rightarrow>
          (case lift_world (get_external_secret env k (fst s) (snd s)) st of
             (Inl e, st1) \<Rightarrow> (Inl (eso_err pr s e), st1)
           | (Inr (obj, version), st1) \<Rightarrow>
               (let tn = target_name obj;
                    st2 = st1\<lparr>rn_eso_target := aput (show_nn s) tn (rn_eso_target st1)\<rparr>
                in case map_of (rn_eso_rv st2) (show_nn s) of
                     Some baseline \<Rightarrow>
                       lift_world (force_sync env k s version tn baseline require) st2
                   | None \<Rightarrow>
                       ebind (lift_world (secret_resource_version env k (fst s) tn) st2)
                         (\<lambda>baseline.
                            lift_world (force_sync env k s version tn baseline require)))))"

fun sync_each ::
  "'w rot_env \<Rightarrow> propagator \<Rightarrow> bool \<Rightarrow> namespaced list \<Rightarrow> 'w rot_state
     \<Rightarrow> go_err option \<times> 'w rot_state" where
  "sync_each env pr require [] st = (None, st)"
| "sync_each env pr require (s # ss) st =
     (case sync_one env pr require s st of
        (Inl e, st1) \<Rightarrow> fail_target env pr phase_external (show_nn s) e st1
      | (Inr rv, st1) \<Rightarrow>
          sync_each env pr require ss
            (add_target (pg_prop pr)
               ((target phase_external (show_nn s) ''completed'')\<lparr>tg_rv := rv\<rparr>) st1))"

definition run_external ::
  "'w rot_env \<Rightarrow> propagator \<Rightarrow> bool \<Rightarrow> 'w rot_state \<Rightarrow> go_err option \<times> 'w rot_state" where
  "run_external env pr require st =
     (let p = pg_prop pr; ss = pp_external p;
          st1 = pset env phase_external ''active''
                  (''Force-syncing '' @ show_nat (length ss) @ '' ExternalSecret(s) on ''
                     @ pp_cluster p) st
      in if op_dry (pg_opt pr) then
           (None, pset env phase_external ''completed''
              (''Dry-run: would annotate force-sync and wait for '' @ join_nn ss)
              (add_targets p (map (\<lambda>s. target phase_external (show_nn s) ''dry_run'') ss) st1))
         else
           (case sync_each env pr require ss st1 of
              (Some e, st2) \<Rightarrow> (Some e, st2)
            | (None, st2) \<Rightarrow>
                (None, pset env phase_external ''completed'' (''Synced '' @ join_nn ss) st2)))"

section \<open>GitHub Actions secrets\<close>

definition value_of :: "(string \<times> string) list \<Rightarrow> string \<Rightarrow> string" where
  "value_of m k = (case map_of m k of Some v \<Rightarrow> v | None \<Rightarrow> [])"

definition run_github ::
  "'w rot_env \<Rightarrow> propagator \<Rightarrow> (string \<times> string) list \<Rightarrow> string list \<Rightarrow> 'w rot_state
     \<Rightarrow> go_err option \<times> 'w rot_state" where
  "run_github env pr values keys st =
     (let p = pg_prop pr; tgt = github_target p; cfg = pg_cfg pr;
          st1 = pset env phase_github ''active'' (''Updating GitHub Actions secrets on '' @ tgt) st
      in case github_names p keys of
           Inl e \<Rightarrow> (Some e, pset env phase_github ''failed'' (err_text e) st1)
         | Inr names \<Rightarrow>
             (let by_name = foldl (\<lambda>m k. aput (value_of names k) (value_of values k) m) [] keys;
                  order = map (value_of names) keys;
                  row = (\<lambda>status n. target ''github_secret'' (tgt @ ''/'' @ n) status)
              in if op_dry (pg_opt pr) then
                   (None, pset env phase_github ''completed''
                      (''Dry-run: would seal and PUT '' @ join '','' order @ '' on '' @ tgt)
                      (add_targets p (map (row ''dry_run'') order) st1))
                 else
                   (case lift_world (put_secrets env
                            (new_github_client (cf_github_api cfg) (cf_github_token cfg))
                            (pp_github_repo p) (pp_github_env p) by_name order) st1 of
                      ((written, err), st2) \<Rightarrow>
                        (let st3 = add_targets p (map (row ''completed'') written) st2
                         in case err of
                              None \<Rightarrow>
                                (None, pset env phase_github ''completed''
                                   (''Updated '' @ join '','' written @ '' on '' @ tgt) st3)
                            | Some e \<Rightarrow>
                                (Some e, pset env phase_github ''failed'' (err_text e)
                                   (add_targets p
                                      (map (\<lambda>n. (row ''failed'' n)\<lparr>tg_message := err_text e\<rparr>)
                                         (filter (\<lambda>n. n \<notin> set written) order)) st3))))))"

section \<open>Rings\<close>

text \<open>
  What to restart in a ring: the configured Deployments; without a cluster, what Ring Promoter
  restarts by default; otherwise the Deployments that refer to a Secret of the namespace that this
  run changed, and nothing when there is none (\<open>Inl\<close> the reason).
\<close>

definition affected_secrets :: "propagation \<Rightarrow> (string \<times> string) list \<Rightarrow> string \<Rightarrow> string list" where
  "affected_secrets p eso_target ring =
     remdups (map snd (filter (\<lambda>s. fst s = ring) (pp_k8s p))
       @ map (\<lambda>es. let t = value_of eso_target (show_nn es) in if t \<noteq> [] then t else snd es)
           (filter (\<lambda>es. fst es = ring) (pp_external p)))"

definition ring_deployments ::
  "'w rot_env \<Rightarrow> propagator \<Rightarrow> string \<Rightarrow> 'w rot_state
     \<Rightarrow> (go_err + (string + string list)) \<times> 'w rot_state" where
  "ring_deployments env pr ring st =
     (let p = pg_prop pr in
      if pp_deployments p \<noteq> [] then (Inr (Inr (pp_deployments p)), st)
      else
        (case pg_kube pr of
           None \<Rightarrow> (Inr (Inr []), st)
         | Some k \<Rightarrow>
             (let affected = affected_secrets p (rn_eso_target st) ring in
              if affected = []
              then (Inr (Inl (''no rotated Secret in namespace '' @ ring @ ''; not restarted'')), st)
              else
                ebind (lift_world (secret_consumers env k ring affected) st) (\<lambda>consumers st1.
                  (Inr (if consumers = []
                        then Inl (''no Deployment in '' @ ring @ '' references ''
                               @ join '','' (stable_sort str_less affected) @ ''; not restarted'')
                        else Inr consumers), st1)))))"

definition ring_target :: "propagation \<Rightarrow> string \<Rightarrow> string" where
  "ring_target p r = pp_app p @ ''/'' @ r"

definition fail_ring ::
  "'w rot_env \<Rightarrow> propagator \<Rightarrow> string \<Rightarrow> string list \<Rightarrow> string \<Rightarrow> go_err \<Rightarrow> 'w rot_state
     \<Rightarrow> go_err option \<times> 'w rot_state" where
  "fail_ring env pr r rest job e st =
     (let p = pg_prop pr; name = ring_target p r;
          st1 = add_target p
                  ((target ''ring'' name ''failed'')\<lparr>tg_job := job, tg_message := err_text e\<rparr>) st;
          st2 = add_targets p (map (\<lambda>x. (target ''ring'' (ring_target p x) ''skipped'')
                  \<lparr>tg_message := ''earlier ring failed''\<rparr>) rest) st1
      in (Some (ErrWrap (name @ '': '') e),
          pset env phase_rings ''failed'' (name @ '': '' @ err_text e) st2))"

text \<open>One ring: restart it, wait for the job, check its health. \<open>Inl\<close> the job and the error.\<close>

definition restart_ring ::
  "'w rot_env \<Rightarrow> propagator \<Rightarrow> string \<Rightarrow> string \<Rightarrow> string list \<Rightarrow> 'w
     \<Rightarrow> ((string \<times> go_err) + string) \<times> 'w" where
  "restart_ring env pr reason r deployments w =
     (let cfg = pg_cfg pr; app = pp_app (pg_prop pr) in
      case start_restart env cfg app r reason deployments w of
        (Inl e, w1) \<Rightarrow> (Inl ([], e), w1)
      | (Inr job, w1) \<Rightarrow>
          (case wait_job env cfg app job w1 of
             (Some e, w2) \<Rightarrow> (Inl (job, e), w2)
           | (None, w2) \<Rightarrow>
               (case ring_healthy env cfg app r w2 of
                  (Inl e, w3) \<Rightarrow> (Inl (job, e), w3)
                | (Inr healthy, w3) \<Rightarrow>
                    (if healthy then Inr job
                     else Inl (job, ErrText ''ring reported unhealthy after restart''), w3))))"

text \<open>The marks of the messages beyond ASCII.\<close>

definition middle_dot :: string where
  "middle_dot = [CHR '' '', CHR 0xC2, CHR 0xB7, CHR '' '']"

definition right_arrow :: string where
  "right_arrow = [CHR 0xE2, CHR 0x86, CHR 0x92]"

definition em_dash :: string where
  "em_dash = [CHR '' '', CHR 0xE2, CHR 0x80, CHR 0x94, CHR '' '']"

fun restart_each ::
  "'w rot_env \<Rightarrow> propagator \<Rightarrow> string \<Rightarrow> nat \<Rightarrow> nat \<Rightarrow> string list \<Rightarrow> string list \<Rightarrow> 'w rot_state
     \<Rightarrow> (go_err option \<times> string list) \<times> 'w rot_state" where
  "restart_each env pr reason i cnt notes [] st = ((None, notes), st)"
| "restart_each env pr reason i cnt notes (r # rs) st =
     (let p = pg_prop pr; name = ring_target p r;
          st1 = pset env phase_rings ''active''
                  (''Restarting '' @ name @ '' ('' @ show_nat (Suc i) @ ''/'' @ show_nat cnt @ '')'') st
      in case ring_deployments env pr r st1 of
           (Inl e, st2) \<Rightarrow>
             (case fail_ring env pr r rs [] e st2 of (err, st3) \<Rightarrow> ((err, notes), st3))
         | (Inr (Inl skip), st2) \<Rightarrow>
             restart_each env pr reason (Suc i) cnt (notes @ [r @ '': '' @ skip]) rs
               (add_target p ((target ''ring'' name ''skipped'')\<lparr>tg_message := skip\<rparr>) st2)
         | (Inr (Inr ds), st2) \<Rightarrow>
             (case lift_world (restart_ring env pr reason r ds) st2 of
                (Inl (job, e), st3) \<Rightarrow>
                  (case fail_ring env pr r rs job e st3 of (err, st4) \<Rightarrow> ((err, notes), st4))
              | (Inr job, st3) \<Rightarrow>
                  (let msg = (if ds \<noteq> [] then ''restarted '' @ join '','' ds
                              else ''restarted Ring Promoter default deployments'')
                   in restart_each env pr reason (Suc i) cnt
                        (notes @ [r @ '': '' @ msg @ '' (healthy)'']) rs
                        (add_target p ((target ''ring'' name ''completed'')
                           \<lparr>tg_job := job, tg_message := msg\<rparr>) st3))))"

definition run_rings ::
  "'w rot_env \<Rightarrow> propagator \<Rightarrow> 'w rot_state \<Rightarrow> go_err option \<times> 'w rot_state" where
  "run_rings env pr st =
     (let p = pg_prop pr; opt = pg_opt pr; rings = pp_rings p;
          st1 = pset env phase_rings ''active''
                  (''Restarting '' @ pp_app p @ '' rings '' @ join right_arrow rings) st
      in if op_dry opt then
           (None, pset env phase_rings ''completed''
              (''Dry-run: would restart '' @ pp_app p @ '' rings '' @ join '','' rings @ '' in order'')
              (add_targets p (map (\<lambda>r. target ''ring'' (ring_target p r) ''dry_run'') rings) st1))
         else
           (case restart_each env pr
                   (trim_space (''secrets rotation '' @ op_run_id opt @ '' '' @ op_mount opt @ ''/''
                      @ op_path opt)) 0 (length rings) [] rings st1 of
              ((Some e, _), st2) \<Rightarrow> (Some e, st2)
            | ((None, notes), st2) \<Rightarrow>
                (None, pset env phase_rings ''completed''
                   (pp_app p @ middle_dot @ join middle_dot notes) st2)))"

section \<open>All phases\<close>

definition propagation_failure :: "propagator \<Rightarrow> string list \<Rightarrow> string \<Rightarrow> go_err \<Rightarrow> int \<Rightarrow> go_err" where
  "propagation_failure pr redact phase e version =
     ErrText (''propagation failed at '' @ phase @ '': '' @ scrub redact (err_text e) @ ''. ''
       @ (if pp_source (pg_prop pr) = ''github''
          then ''New values were generated for source=github but are stored nowhere else; ''
               @ ''re-run mode=rotate to push a fresh set.''
          else ''Vault '' @ op_mount (pg_opt pr) @ ''/'' @ op_path (pg_opt pr) @ '' is at version ''
               @ show_int version
               @ ''. Re-run mode=verify with the same targets to re-propagate that version.''))"

definition run_phase ::
  "'w rot_env \<Rightarrow> propagator \<Rightarrow> (string \<times> string) list \<Rightarrow> bool \<Rightarrow> string \<Rightarrow> 'w rot_state
     \<Rightarrow> go_err option \<times> 'w rot_state" where
  "run_phase env pr values require phase st =
     (let keys = stable_sort str_less (map fst values) in
      if phase = phase_k8s then run_k8s env pr values keys st
      else if phase = phase_external then run_external env pr require st
      else if phase = phase_github then run_github env pr values keys st
      else if phase = phase_rings then run_rings env pr st
      else (None, st))"

fun run_phases ::
  "'w rot_env \<Rightarrow> propagator \<Rightarrow> (string \<times> string) list \<Rightarrow> int \<Rightarrow> bool \<Rightarrow> string list
     \<Rightarrow> 'w rot_state \<Rightarrow> go_err option \<times> 'w rot_state" where
  "run_phases env pr values version require [] st = (None, st)"
| "run_phases env pr values version require (ph # phs) st =
     (case run_phase env pr values require ph st of
        (Some e, st1) \<Rightarrow> (Some (propagation_failure pr (rn_redact st1) ph e version), st1)
      | (None, st1) \<Rightarrow> run_phases env pr values version require phs st1)"

definition propagate ::
  "'w rot_env \<Rightarrow> propagator \<Rightarrow> (string \<times> string) list \<Rightarrow> int \<Rightarrow> bool \<Rightarrow> 'w rot_state
     \<Rightarrow> go_err option \<times> 'w rot_state" where
  "propagate env pr values version require st =
     (let st1 = st\<lparr>rn_redact := redact_list values\<rparr>;
          st2 = put_summary ((summary (pg_prop pr) st1)\<lparr>sy_version := version\<rparr>) st1
      in run_phases env pr values version require (phase_order (pg_prop pr)) st2)"

end
