(* ===== verification/SecretsRotate.thy ===== *)
theory SecretsRotate
  imports SecretsPropagator
begin

text \<open>
  The secrets rotation itself (\<open>secretsrot/rotate.go\<close>, \<open>secretsrot/phases.go\<close>): \<open>Execute\<close> checks a
  launch, then plans, verifies, rolls back or rotates a secret and propagates the values. The new
  secret is written next to the old version, which is retired last.
\<close>

section \<open>Launch checks and phases\<close>

definition validate_propagation :: "rot_opts \<Rightarrow> go_err option" where
  "validate_propagation opt =
     (let p = op_prop opt in
      if pp_source p = ''github'' then
        (if op_mode opt \<noteq> ''plan'' \<and> op_mode opt \<noteq> ''rotate''
         then Some (ErrText (''source=github supports plan and rotate only (GitHub secrets cannot be ''
                     @ ''read back for verify/rollback)''))
         else if op_keys opt = []
         then Some (ErrText ''source=github requires keys (the secret names to generate)'')
         else if pp_github_repo p = []
         then Some (ErrText ''source=github requires github_repo'')
         else None)
      else if has_targets p \<and> op_engine opt \<noteq> ''kv2''
      then Some (ErrText ''propagation targets require engine=kv2'')
      else None)"

definition default_phases :: "string \<Rightarrow> string \<Rightarrow> rot_phase list" where
  "default_phases mode engine =
     (if mode = ''plan'' then
        [pending_phase ''preflight'' ''Preflight'', pending_phase ''inventory'' ''Inventory'',
         pending_phase ''plan'' ''Build plan'']
      else if mode = ''verify'' then
        [pending_phase ''preflight'' ''Preflight'', pending_phase ''read'' ''Read current'',
         pending_phase ''verify'' ''Verify'']
      else if mode = ''rollback'' then
        [pending_phase ''preflight'' ''Preflight'', pending_phase ''read'' ''Read current'',
         pending_phase ''rollback'' ''Restore previous'', pending_phase ''verify'' ''Verify'']
      else if engine = ''transit'' then
        [pending_phase ''preflight'' ''Preflight'', pending_phase ''rotate'' ''Rotate transit key'',
         pending_phase ''verify'' ''Verify'', pending_phase ''audit'' ''Audit'']
      else
        [pending_phase ''preflight'' ''Preflight'', pending_phase ''read'' ''Read current version'',
         pending_phase ''write_new'' ''Write new version (N+1)'',
         pending_phase ''dual_window'' ''Dual-read window'',
         pending_phase ''verify'' ''Verify new version'',
         pending_phase ''retire_old'' ''Retire old version'', pending_phase ''audit'' ''Audit''])"

text \<open>The propagation phases go before \<open>retire_old\<close>, or to the end where there is none.\<close>

fun insert_before :: "string \<Rightarrow> rot_phase list \<Rightarrow> rot_phase list \<Rightarrow> rot_phase list" where
  "insert_before key extra [] = extra"
| "insert_before key extra (p # ps) =
     (if ph_key p = key then extra @ p # ps else p # insert_before key extra ps)"

definition build_phases :: "rot_opts \<Rightarrow> rot_phase list" where
  "build_phases opt =
     (let p = op_prop opt in
      if pp_source p = ''github'' then
        (if op_mode opt = ''plan''
         then [pending_phase ''preflight'' ''Preflight'', pending_phase ''plan'' ''Build plan'']
         else [pending_phase ''preflight'' ''Preflight'', pending_phase ''generate'' ''Generate new values'']
              @ propagation_phases p @ [pending_phase ''audit'' ''Audit''])
      else
        (let base = default_phases (op_mode opt) (op_engine opt)
         in if \<not> has_targets p \<or> op_mode opt = ''plan'' then base
            else insert_before ''retire_old'' (propagation_phases p) base))"

definition skip_pending :: "'w rot_env \<Rightarrow> string \<Rightarrow> 'w rot_state \<Rightarrow> 'w rot_state" where
  "skip_pending env reason st =
     foldl (\<lambda>s p. if ph_status p = ''pending'' then set_phase env (ph_key p) ''skipped'' reason s else s)
       st (ro_phases (rn_out st))"

definition keys_for :: "string list \<Rightarrow> obj \<Rightarrow> string list" where
  "keys_for requested data =
     (if requested \<noteq> [] then requested else stable_sort str_less (map fst data))"

definition key_only_values :: "string list \<Rightarrow> (string \<times> string) list" where
  "key_only_values keys = foldl (\<lambda>m k. aput k [] m) [] keys"

definition value_text :: "json \<Rightarrow> string" where
  "value_text v = (case v of JStr s \<Rightarrow> s | _ \<Rightarrow> marshal_any v)"

definition string_values :: "obj \<Rightarrow> string list \<Rightarrow> (string \<times> string) list" where
  "string_values src keys =
     foldl (\<lambda>m k. case map_of src k of Some v \<Rightarrow> aput k (value_text v) m | None \<Rightarrow> m) [] keys"

definition strategy_for :: "string \<Rightarrow> string" where
  "strategy_for engine =
     (if engine = ''transit''
      then ''Rotate transit key; previous key versions remain for decrypt (zero downtime).''
      else if engine = ''database''
      then ''Issue new dynamic lease, cut consumers over, revoke old lease after grace.''
      else ''KV v2 dual-version window: write N+1, keep N readable, soft-delete N after grace.'')"

text \<open>\<open>ParseKeys\<close>: a semicolon separates like a comma.\<close>

definition parse_keys :: "string \<Rightarrow> string list" where
  "parse_keys raw =
     keep_new [] (fields_func (\<lambda>c. c \<in> {CHR '','', CHR '' '', CHR 0x0A, CHR 0x09})
       (map (\<lambda>c. if c = CHR '';'' then CHR '','' else c) raw))"

definition parse_new_secret :: "string \<Rightarrow> go_err + obj" where
  "parse_new_secret raw =
     (let s = trim_space raw in
      if s = [] then Inr []
      else (case parse_json s of
              Some (JObj ms) \<Rightarrow> (case to_any (JObj ms) of JObj m \<Rightarrow> Inr m | _ \<Rightarrow> Inr [])
            | Some JNull \<Rightarrow> Inr []
            | _ \<Rightarrow> Inl (ErrWrap ''new_secret_json: '' (ErrText ''json''))))"

definition validate_launch :: "rot_opts \<Rightarrow> go_err option" where
  "validate_launch opt =
     validate_propagation (if op_engine opt = [] then opt\<lparr>op_engine := ''kv2''\<rparr> else opt)"

section \<open>Plan\<close>

definition plan_kv2 :: "rot_opts \<Rightarrow> int \<Rightarrow> string list" where
  "plan_kv2 opt version =
     [''Read current version '' @ show_int version @ '' at '' @ op_mount opt @ ''/data/'' @ op_path opt,
      ''Generate new values for selected keys (never log plaintext)'',
      ''Write version '' @ show_int (version + 1) @ '' with check-and-set cas='' @ show_int version,
      ''Hold dual-read window '' @ show_int (op_grace opt) @ ''s (KV keeps prior versions readable)'',
      ''Verify GET latest returns new version'',
      (if op_retire opt then ''Soft-delete version '' @ show_int version @ '' after grace''
       else ''Keep prior version (retire_old=false)'')]"

text \<open>The steps of the engine, after the inventory.\<close>

definition inventory ::
  "'w rot_env \<Rightarrow> rot_config \<Rightarrow> rot_opts \<Rightarrow> 'w rot_state \<Rightarrow> (go_err + string list) \<times> 'w rot_state" where
  "inventory env cfg opt st =
     (if op_engine opt = ''transit'' then
        (Inr [''POST /v1/'' @ op_mount opt @ ''/keys/'' @ op_path opt @ ''/rotate'',
              ''Confirm encrypt uses latest key version; decrypt still accepts older versions'',
              ''No consumer restart required for decrypt-only workloads''],
         set_phase env ''inventory'' ''completed'' (''Transit key '' @ op_path opt) st)
      else if op_engine opt = ''database'' then
        (Inr [''Create new dynamic credentials (lease)'',
              ''Update application ExternalSecret / env to new lease'',
              ''Wait grace ('' @ show_int (op_grace opt) @ ''s) for connection drain'',
              ''Revoke previous lease''],
         set_phase env ''inventory'' ''completed'' ''Database engine plan (manual consumer cutover)'' st)
      else
        (case lift_world (metadata_kv2 env cfg (op_mount opt) (op_path opt)) st of
           (Inl e, st1) \<Rightarrow>
             if err_is secret_not_found e then
               (Inr [''Create KV v2 secret at '' @ op_mount opt @ ''/data/'' @ op_path opt
                       @ '' (version 1)'',
                     ''Configure consumers to read latest version''],
                set_phase env ''inventory'' ''completed''
                  (''Path not yet present'' @ em_dash @ ''create on first rotate'') (warn (err_text e) st1))
             else
               (Inl e, set_phase env ''inventory'' ''failed''
                         (''Could not read '' @ op_path opt @ '': '' @ err_text e) st1)
         | (Inr meta, st1) \<Rightarrow>
             (Inr (plan_kv2 opt (sm_version meta)),
              set_phase env ''inventory'' ''completed'' (''Current version '' @ show_int (sm_version meta))
                (upd_result (\<lambda>r. r\<lparr>rz_current := sm_version meta, rz_previous := sm_version meta\<rparr>)
                   st1))))"

definition run_plan ::
  "'w rot_env \<Rightarrow> rot_config \<Rightarrow> rot_opts \<Rightarrow> 'w rot_state \<Rightarrow> go_err option \<times> 'w rot_state" where
  "run_plan env cfg opt st =
     (case inventory env cfg opt (set_phase env ''inventory'' ''active'' ''Reading metadata'' st) of
        (Inl e, st1) \<Rightarrow> (Some e, st1)
      | (Inr steps0, st1) \<Rightarrow>
          (let steps = steps0 @ (if has_targets (op_prop opt)
                                 then plan_steps (op_prop opt) (op_keys opt) else []);
               st2 = upd_result (\<lambda>r. r\<lparr>rz_plan := steps\<rparr>) st1
           in (None, set_phase env ''plan'' ''completed''
                 (show_nat (length steps) @ '' steps'' @ middle_dot
                    @ rz_strategy (ro_result (rn_out st2))) st2)))"

section \<open>Verify\<close>

text \<open>A propagation that fails skips the phases that were still to come.\<close>

definition propagate_or_skip ::
  "'w rot_env \<Rightarrow> propagator option \<Rightarrow> (string \<times> string) list \<Rightarrow> int \<Rightarrow> bool \<Rightarrow> 'w rot_state
     \<Rightarrow> go_err option \<times> 'w rot_state" where
  "propagate_or_skip env pr values version require st =
     (case pr of
        None \<Rightarrow> (None, st)
      | Some p \<Rightarrow>
          (case propagate env p values version require st of
             (Some e, st1) \<Rightarrow> (Some e, skip_pending env ''Not run: propagation failed'' st1)
           | (None, st1) \<Rightarrow> (None, st1)))"

definition propagate_dry ::
  "'w rot_env \<Rightarrow> propagator option \<Rightarrow> (string \<times> string) list \<Rightarrow> int \<Rightarrow> 'w rot_state
     \<Rightarrow> go_err option \<times> 'w rot_state" where
  "propagate_dry env pr values version st =
     (case pr of None \<Rightarrow> (None, st) | Some p \<Rightarrow> propagate env p values version True st)"

definition run_verify ::
  "'w rot_env \<Rightarrow> rot_config \<Rightarrow> rot_opts \<Rightarrow> propagator option \<Rightarrow> 'w rot_state
     \<Rightarrow> go_err option \<times> 'w rot_state" where
  "run_verify env cfg opt pr st0 =
     (let st = set_phase env ''read'' ''active'' ''Reading secret metadata'' st0 in
      if op_engine opt = ''transit'' then
        (None,
         set_phase env ''verify'' ''completed'' ''Use vault UI/CLI for transit key versions''
           (set_phase env ''read'' ''skipped'' ''Transit verify is key-existence only in this agent'' st))
      else
        (case lift_world (read_kv2 env cfg (op_mount opt) (op_path opt) 0) st of
           (Inl e, st1) \<Rightarrow> (Some e, set_phase env ''read'' ''failed'' (err_text e) st1)
         | (Inr (data, meta), st1) \<Rightarrow>
             (let st2 = upd_result (\<lambda>r. r\<lparr>rz_current := sm_version meta, rz_keys := sm_keys meta\<rparr>) st1;
                  st3 = set_phase env ''read'' ''completed''
                          (''Version '' @ show_int (sm_version meta) @ middle_dot
                             @ show_nat (length data) @ '' keys'') st2;
                  st4 = set_phase env ''verify'' ''completed'' ''Latest version readable'' st3
              in propagate_or_skip env pr (string_values data (keys_for (op_keys opt) data))
                   (sm_version meta) False st4)))"

section \<open>Rollback\<close>

text \<open>The contents of the previous version; a version that cannot be read is undeleted first.\<close>

definition read_previous ::
  "'w rot_env \<Rightarrow> rot_config \<Rightarrow> rot_opts \<Rightarrow> int \<Rightarrow> 'w \<Rightarrow> (go_err + obj) \<times> 'w" where
  "read_previous env cfg opt prev w =
     (case read_kv2 env cfg (op_mount opt) (op_path opt) prev w of
        (Inr (data, _), w1) \<Rightarrow> (Inr data, w1)
      | (Inl _, w1) \<Rightarrow>
          (case undelete_versions env cfg (op_mount opt) (op_path opt) [prev] w1 of
             (_, w2) \<Rightarrow>
               (case read_kv2 env cfg (op_mount opt) (op_path opt) prev w2 of
                  (Inr (data, _), w3) \<Rightarrow> (Inr data, w3)
                | (Inl e, w3) \<Rightarrow> (Inl e, w3))))"

definition restore_previous ::
  "'w rot_env \<Rightarrow> rot_config \<Rightarrow> rot_opts \<Rightarrow> propagator option \<Rightarrow> int \<Rightarrow> int \<Rightarrow> 'w rot_state
     \<Rightarrow> go_err option \<times> 'w rot_state" where
  "restore_previous env cfg opt pr current prev st =
     (case lift_world (read_previous env cfg opt prev) st of
        (Inl e, st1) \<Rightarrow> (Some e, set_phase env ''rollback'' ''failed'' (err_text e) st1)
      | (Inr old, st1) \<Rightarrow>
          (case lift_world (write_kv2 env cfg (op_mount opt) (op_path opt) old current) st1 of
             (Inl e, st2) \<Rightarrow> (Some e, set_phase env ''rollback'' ''failed'' (err_text e) st2)
           | (Inr meta, st2) \<Rightarrow>
               (let st3 = upd_result (\<lambda>r. r\<lparr>rz_rolled_back := prev, rz_current := sm_version meta,
                                            rz_previous := current\<rparr>) st2;
                    st4 = set_phase env ''rollback'' ''completed''
                            (''Wrote version '' @ show_int (sm_version meta) @ '' from contents of ''
                               @ show_int prev) st3;
                    st5 = set_phase env ''verify'' ''completed'' ''Rollback applied as new latest version'' st4
                in propagate_or_skip env pr (string_values old (keys_for (op_keys opt) old))
                     (sm_version meta) True st5)))"

definition run_rollback ::
  "'w rot_env \<Rightarrow> rot_config \<Rightarrow> rot_opts \<Rightarrow> propagator option \<Rightarrow> 'w rot_state
     \<Rightarrow> go_err option \<times> 'w rot_state" where
  "run_rollback env cfg opt pr st =
     (if op_engine opt \<noteq> ''kv2'' then
        (Some (ErrText ''rollback supports kv2 only''),
         set_phase env ''read'' ''failed'' ''Rollback currently supports KV v2 only'' st)
      else
        (case lift_world (read_kv2 env cfg (op_mount opt) (op_path opt) 0)
                (set_phase env ''read'' ''active'' ''Reading current version'' st) of
           (Inl e, st1) \<Rightarrow> (Some e, set_phase env ''read'' ''failed'' (err_text e) st1)
         | (Inr (cur, meta), st1) \<Rightarrow>
             (let st2 = upd_result (\<lambda>r. r\<lparr>rz_current := sm_version meta\<rparr>) st1;
                  prev = sm_version meta - 1
              in if prev < 1 then
                   (Some (ErrText ''no previous version''),
                    set_phase env ''read'' ''failed'' ''No previous version to roll back to'' st2)
                 else
                   (let st3 = set_phase env ''read'' ''completed''
                                (''Current '' @ show_int (sm_version meta) @ '' '' @ right_arrow @ '' restore ''
                                   @ show_int prev) st2;
                        st4 = set_phase env ''rollback'' ''active''
                                ''Reading previous version and writing as latest'' st3
                    in if op_dry opt then
                         (let st5 = set_phase env ''rollback'' ''completed''
                                      (''Dry-run: would restore version '' @ show_int prev) st4;
                              st6 = upd_result (\<lambda>r. r\<lparr>rz_rolled_back := prev\<rparr>) st5;
                              st7 = set_phase env ''verify'' ''skipped'' ''Dry-run'' st6
                          in propagate_dry env pr (key_only_values (keys_for (op_keys opt) cur))
                               (sm_version meta + 1) st7)
                       else restore_previous env cfg opt pr (sm_version meta) prev st4))))"


section \<open>Rotate\<close>

definition rotate_transit ::
  "'w rot_env \<Rightarrow> rot_config \<Rightarrow> rot_opts \<Rightarrow> 'w rot_state \<Rightarrow> go_err option \<times> 'w rot_state" where
  "rotate_transit env cfg opt st0 =
     (let st = set_phase env ''rotate'' ''active'' ''Rotating transit key'' st0 in
      if op_dry opt then
        (None,
         set_phase env ''audit'' ''completed'' ''Dry-run audit''
           (set_phase env ''verify'' ''skipped'' ''Dry-run''
              (set_phase env ''rotate'' ''completed''
                 (''Dry-run: would rotate '' @ op_mount opt @ ''/keys/'' @ op_path opt) st)))
      else
        (case lift_world (rotate_transit_key env cfg (op_mount opt) (op_path opt)) st of
           (Some e, st1) \<Rightarrow> (Some e, set_phase env ''rotate'' ''failed'' (err_text e) st1)
         | (None, st1) \<Rightarrow>
             (None,
              set_phase env ''audit'' ''completed'' ''Recorded without plaintext''
                (set_phase env ''verify'' ''completed'' ''Zero-downtime transit rotate OK''
                   (set_phase env ''rotate'' ''completed''
                      ''Transit key rotated; old versions remain for decrypt'' st1)))))"

text \<open>The keys to rotate: those asked for, or every key with a string, or three defaults.\<close>

definition rotation_keys :: "string list \<Rightarrow> obj \<Rightarrow> string list" where
  "rotation_keys requested cur =
     (if requested \<noteq> [] then requested
      else
        (let ks = map fst (filter (\<lambda>(k, v). case v of JStr _ \<Rightarrow> True | _ \<Rightarrow> False) cur)
         in if ks = [] then [''password'', ''token'', ''api_key''] else ks))"

fun generate_each :: "'w rot_env \<Rightarrow> string list \<Rightarrow> obj \<Rightarrow> 'w \<Rightarrow> obj \<times> 'w" where
  "generate_each env [] m w = (m, w)"
| "generate_each env (k # ks) m w =
     (case rt_random env w of (v, w1) \<Rightarrow> generate_each env ks (map_put m (k, JStr v)) w1)"

text \<open>The next contents and the keys that change: the given values, or a new one for every key.\<close>

definition next_secret ::
  "'w rot_env \<Rightarrow> rot_opts \<Rightarrow> obj \<Rightarrow> 'w \<Rightarrow> (obj \<times> string list) \<times> 'w" where
  "next_secret env opt cur w =
     (let keys = rotation_keys (op_keys opt) cur in
      if op_new opt \<noteq> []
      then ((foldl map_put cur (op_new opt),
             foldl (\<lambda>ks kv. if fst kv \<in> set ks then ks else ks @ [fst kv]) keys (op_new opt)), w)
      else (case generate_each env keys cur w of (m, w1) \<Rightarrow> ((m, keys), w1)))"

text \<open>
  The secret as it is read before a rotation. Any error of the read, not only that the secret is
  absent, starts from an empty secret of version 0.
\<close>

definition read_current ::
  "'w rot_env \<Rightarrow> rot_config \<Rightarrow> rot_opts \<Rightarrow> 'w rot_state \<Rightarrow> (obj \<times> int) \<times> 'w rot_state" where
  "read_current env cfg opt st =
     (case lift_world (read_kv2 env cfg (op_mount opt) (op_path opt) 0) st of
        (Inl e, st1) \<Rightarrow>
          (([], 0), set_phase env ''read'' ''completed''
                      (''Path empty'' @ em_dash @ ''will create version 1'')
                      (warn (''creating new path: '' @ err_text e) st1))
      | (Inr (cur, meta), st1) \<Rightarrow>
          ((cur, sm_version meta),
           set_phase env ''read'' ''completed''
             (''Version '' @ show_int (sm_version meta) @ middle_dot @ ''keys ''
                @ join '','' (sm_keys meta))
             (upd_result (\<lambda>r. r\<lparr>rz_previous := sm_version meta, rz_current := sm_version meta\<rparr>) st1)))"

definition rotate_dry ::
  "'w rot_env \<Rightarrow> rot_opts \<Rightarrow> propagator option \<Rightarrow> string list \<Rightarrow> int \<Rightarrow> 'w rot_state
     \<Rightarrow> go_err option \<times> 'w rot_state" where
  "rotate_dry env opt pr keys version st =
     (let st1 = set_phase env ''write_new'' ''completed''
                  (''Dry-run: would write version '' @ show_int (version + 1) @ '' rotating ''
                     @ join '','' keys) st;
          st2 = set_phase env ''dual_window'' ''completed''
                  (''Dry-run dual window '' @ show_int (op_grace opt) @ ''s'') st1;
          st3 = set_phase env ''verify'' ''skipped'' ''Dry-run'' st2
      in case propagate_dry env pr (key_only_values keys) (version + 1) st3 of
           (Some e, st4) \<Rightarrow> (Some e, st4)
         | (None, st4) \<Rightarrow>
             (let st5 = (if op_retire opt \<and> version > 0
                         then set_phase env ''retire_old'' ''completed''
                                (''Dry-run: would soft-delete version '' @ show_int version) st4
                         else set_phase env ''retire_old'' ''skipped''
                                ''retire_old=false or no prior version'' st4)
              in (None, upd_result (\<lambda>r. r\<lparr>rz_current := version + 1\<rparr>)
                          (set_phase env ''audit'' ''completed'' ''Dry-run complete'' st5))))"

text \<open>The last step: soft-delete the old version. A failure is a warning, the new secret is live.\<close>

definition retire_old ::
  "'w rot_env \<Rightarrow> rot_config \<Rightarrow> rot_opts \<Rightarrow> int \<Rightarrow> 'w rot_state \<Rightarrow> 'w rot_state" where
  "retire_old env cfg opt version st =
     (if op_retire opt \<and> version > 0 then
        (case lift_world (soft_delete_versions env cfg (op_mount opt) (op_path opt) [version])
                (set_phase env ''retire_old'' ''active''
                   (''Soft-deleting version '' @ show_int version) st) of
           (Some e, st1) \<Rightarrow>
             set_phase env ''retire_old'' ''failed'' (err_text e) (warn (''retire: '' @ err_text e) st1)
         | (None, st1) \<Rightarrow>
             set_phase env ''retire_old'' ''completed'' (''Soft-deleted version '' @ show_int version)
               (upd_result (\<lambda>r. r\<lparr>rz_retired := True\<rparr>) st1))
      else set_phase env ''retire_old'' ''skipped'' ''Keeping prior version for extra safety'' st)"

text \<open>The dual-read window: both versions are readable while consumers reload.\<close>

definition dual_window ::
  "'w rot_env \<Rightarrow> rot_opts \<Rightarrow> 'w rot_state \<Rightarrow> go_err option \<times> 'w rot_state" where
  "dual_window env opt st0 =
     (let st = set_phase env ''dual_window'' ''active''
                 (''Holding '' @ show_int (op_grace opt) @ ''s dual-read window'') st0
      in case (if op_grace opt > 0 then lift_world (rt_wait env (op_grace opt)) st else (None, st)) of
           (Some e, st1) \<Rightarrow>
             (Some e, set_phase env ''dual_window'' ''failed'' ''cancelled during dual window'' st1)
         | (None, st1) \<Rightarrow>
             (None, set_phase env ''dual_window'' ''completed''
                      ''Dual window elapsed; both versions were valid'' st1))"

definition verify_latest ::
  "'w rot_env \<Rightarrow> rot_config \<Rightarrow> rot_opts \<Rightarrow> 'w rot_state \<Rightarrow> go_err option \<times> 'w rot_state" where
  "verify_latest env cfg opt st0 =
     (case lift_world (read_kv2 env cfg (op_mount opt) (op_path opt) 0)
             (set_phase env ''verify'' ''active'' ''Reading latest'' st0) of
        (Inl e, st1) \<Rightarrow> (Some e, set_phase env ''verify'' ''failed'' (err_text e) st1)
      | (Inr (_, meta), st1) \<Rightarrow>
          (let st2 = (if sm_version meta > 0
                      then upd_result (\<lambda>r. r\<lparr>rz_current := sm_version meta\<rparr>) st1 else st1)
           in (None, set_phase env ''verify'' ''completed''
                 (''Latest version '' @ show_int (rz_current (ro_result (rn_out st2))) @ '' OK'') st2)))"

definition write_next ::
  "'w rot_env \<Rightarrow> rot_config \<Rightarrow> rot_opts \<Rightarrow> obj \<Rightarrow> int \<Rightarrow> 'w rot_state
     \<Rightarrow> go_err option \<times> 'w rot_state" where
  "write_next env cfg opt data version st =
     (case lift_world (write_kv2 env cfg (op_mount opt) (op_path opt) data version) st of
        (Inl e, st1) \<Rightarrow> (Some e, set_phase env ''write_new'' ''failed'' (err_text e) st1)
      | (Inr meta, st1) \<Rightarrow>
          (let now_at = (if sm_version meta = 0 then version + 1 else sm_version meta);
               st2 = upd_result (\<lambda>r. r\<lparr>rz_current := now_at\<rparr>) st1
           in (None, set_phase env ''write_new'' ''completed''
                 (''Wrote version '' @ show_int now_at @ '' (prior '' @ show_int version
                    @ '' still readable)'') st2)))"

definition rotate_live ::
  "'w rot_env \<Rightarrow> rot_config \<Rightarrow> rot_opts \<Rightarrow> propagator option \<Rightarrow> obj \<Rightarrow> string list \<Rightarrow> int
     \<Rightarrow> 'w rot_state \<Rightarrow> go_err option \<times> 'w rot_state" where
  "rotate_live env cfg opt pr data keys version st =
     (case write_next env cfg opt data version st of
        (Some e, st1) \<Rightarrow> (Some e, st1)
      | (None, st1) \<Rightarrow>
          (case dual_window env opt st1 of
             (Some e, st2) \<Rightarrow> (Some e, st2)
           | (None, st2) \<Rightarrow>
               (case verify_latest env cfg opt st2 of
                  (Some e, st3) \<Rightarrow> (Some e, st3)
                | (None, st3) \<Rightarrow>
                    (case propagate_or_skip env pr (string_values data keys)
                            (rz_current (ro_result (rn_out st3))) True st3 of
                       (Some e, st4) \<Rightarrow> (Some e, st4)
                     | (None, st4) \<Rightarrow>
                         (None,
                          set_phase env ''audit'' ''completed''
                            ''Rotation recorded without plaintext secret values''
                            (retire_old env cfg opt version st4))))))"

definition rotate_kv2 ::
  "'w rot_env \<Rightarrow> rot_config \<Rightarrow> rot_opts \<Rightarrow> propagator option \<Rightarrow> 'w rot_state
     \<Rightarrow> go_err option \<times> 'w rot_state" where
  "rotate_kv2 env cfg opt pr st =
     (case read_current env cfg opt (set_phase env ''read'' ''active'' ''Reading current secret'' st) of
        ((cur, version), st1) \<Rightarrow>
          (case lift_world (next_secret env opt cur) st1 of
             ((data, keys), st2) \<Rightarrow>
               (let st3 = set_phase env ''write_new'' ''active'' ''Writing next version''
                            (upd_result (\<lambda>r. r\<lparr>rz_keys := keys\<rparr>) st2)
                in if op_dry opt then rotate_dry env opt pr keys version st3
                   else rotate_live env cfg opt pr data keys version st3)))"

definition run_rotate ::
  "'w rot_env \<Rightarrow> rot_config \<Rightarrow> rot_opts \<Rightarrow> propagator option \<Rightarrow> 'w rot_state
     \<Rightarrow> go_err option \<times> 'w rot_state" where
  "run_rotate env cfg opt pr st =
     (if op_engine opt = ''transit'' then rotate_transit env cfg opt st
      else if op_engine opt = ''database'' then
        (case run_plan env cfg opt
                (set_phase env ''read'' ''skipped'' ''Database rotation is plan-assisted'' st) of
           (Some e, st1) \<Rightarrow> (Some e, st1)
         | (None, st1) \<Rightarrow>
             (None,
              set_phase env ''audit'' ''completed'' ''See plan_steps''
                (set_phase env ''retire_old'' ''skipped'' ''Revoke old lease after cutover''
                   (set_phase env ''verify'' ''skipped'' []
                      (set_phase env ''dual_window'' ''skipped'' ''Use grace from lease TTL''
                         (set_phase env ''write_new'' ''skipped''
                            (''Configure DB engine + consumer cutover via vault UI: '' @ ui_login cfg)
                            st1))))))
      else rotate_kv2 env cfg opt pr st)"

section \<open>GitHub as the source of truth\<close>

fun github_values ::
  "'w rot_env \<Rightarrow> obj \<Rightarrow> string list \<Rightarrow> (string \<times> string) list \<Rightarrow> 'w \<Rightarrow> (string \<times> string) list \<times> 'w" where
  "github_values env new [] m w = (m, w)"
| "github_values env new (k # ks) m w =
     (case map_of new k of
        Some v \<Rightarrow> github_values env new ks (aput k (value_text v) m) w
      | None \<Rightarrow> (case rt_random env w of (v, w1) \<Rightarrow> github_values env new ks (aput k v m) w1))"

definition rotate_github ::
  "'w rot_env \<Rightarrow> rot_opts \<Rightarrow> propagator option \<Rightarrow> 'w rot_state \<Rightarrow> go_err option \<times> 'w rot_state" where
  "rotate_github env opt pr st0 =
     (case lift_world (github_values env (op_new opt) (op_keys opt) [])
             (set_phase env ''generate'' ''active'' ''Generating new values in memory'' st0) of
        (generated, st1) \<Rightarrow>
          (let st2 = upd_result (\<lambda>r. r\<lparr>rz_keys := op_keys opt\<rparr>) st1;
               names = join '','' (op_keys opt);
               st3 = set_phase env ''generate'' ''completed''
                       (if op_dry opt then ''Dry-run: would generate '' @ names
                        else ''Generated '' @ show_nat (length generated) @ '' value(s) for '' @ names
                               @ '' (memory only)'') st2;
               values = (if op_dry opt then key_only_values (op_keys opt) else generated)
           in case propagate_or_skip env pr values 0 True st3 of
                (Some e, st4) \<Rightarrow> (Some e, st4)
              | (None, st4) \<Rightarrow>
                  (None, set_phase env ''audit'' ''completed''
                     (if op_dry opt then ''Dry-run complete''
                      else ''Rotation recorded without plaintext secret values'') st4)))"

definition plan_github ::
  "'w rot_env \<Rightarrow> rot_opts \<Rightarrow> 'w rot_state \<Rightarrow> go_err option \<times> 'w rot_state" where
  "plan_github env opt st =
     (let steps = (''Generate new values for '' @ join '','' (op_keys opt)
                     @ '' in memory (Vault is not read or written)'')
                  # plan_steps (op_prop opt) (op_keys opt);
          st1 = upd_result (\<lambda>r. r\<lparr>rz_plan := steps, rz_keys := op_keys opt\<rparr>) st
      in (None, set_phase env ''plan'' ''completed''
            (show_nat (length steps) @ '' steps'' @ middle_dot @ ''source github'') st1))"

section \<open>Execute\<close>

definition with_defaults :: "rot_opts \<Rightarrow> rot_opts" where
  "with_defaults opt =
     opt\<lparr>op_mount := (if op_mount opt = [] then ''secret'' else op_mount opt),
         op_engine := (if op_engine opt = [] then ''kv2'' else op_engine opt),
         op_grace := (if op_grace opt < 0 then 300 else op_grace opt),
         op_prop := (if pp_source (op_prop opt) = []
                     then (op_prop opt)\<lparr>pp_source := ''vault''\<rparr> else op_prop opt)\<rparr>"

definition run_config :: "rot_config \<Rightarrow> rot_opts \<Rightarrow> rot_config" where
  "run_config cfg opt =
     cfg\<lparr>cf_addr := (if trim_space (op_addr opt) \<noteq> []
                     then trim_right_by (\<lambda>c. c = CHR ''/'') (trim_space (op_addr opt)) else cf_addr cfg),
         cf_token := (if trim_space (op_token opt) \<noteq> [] then trim_space (op_token opt)
                      else cf_token cfg),
         cf_namespace := (if trim_space (op_namespace opt) \<noteq> [] then trim_space (op_namespace opt)
                          else cf_namespace cfg)\<rparr>"

definition first_state :: "rot_config \<Rightarrow> rot_opts \<Rightarrow> 'w \<Rightarrow> 'w rot_state" where
  "first_state cfg opt w =
     \<lparr>rn_world = w,
      rn_out = \<lparr>ro_detected = [], ro_phases = build_phases opt,
        ro_result = \<lparr>rz_ui_login = ui_login cfg, rz_docs = docs_url cfg, rz_mount = op_mount opt,
          rz_path = op_path opt, rz_engine = op_engine opt, rz_window = op_grace opt,
          rz_zero_downtime = True, rz_strategy = strategy_for (op_engine opt), rz_warnings = [],
          rz_plan = [], rz_keys = [], rz_previous = 0, rz_current = 0, rz_rolled_back = 0,
          rz_retired = False, rz_propagation = None\<rparr>\<rparr>,
      rn_eso_rv = [], rn_eso_target = [], rn_redact = []\<rparr>"

definition only_reports :: "rot_opts \<Rightarrow> bool" where
  "only_reports opt \<longleftrightarrow> op_dry opt \<or> op_mode opt = ''plan''"

definition warn_all :: "string list \<Rightarrow> 'w rot_state \<Rightarrow> 'w rot_state" where
  "warn_all ps st = foldl (\<lambda>s p. warn (''propagation: '' @ p) s) st ps"

text \<open>
  The checks before anything is written: credentials, then the clusters. A dry run or a plan
  reports what it finds, a live run stops.
\<close>

definition report_or_stop ::
  "'w rot_env \<Rightarrow> rot_opts \<Rightarrow> string \<Rightarrow> string list \<Rightarrow> 'w rot_state
     \<Rightarrow> go_err option \<times> 'w rot_state" where
  "report_or_stop env opt what problems st =
     (if problems = [] then (None, st)
      else if only_reports opt then (None, warn_all problems st)
      else
        (let msg = what @ join ''; '' problems
         in (Some (ErrText msg), set_phase env ''preflight'' ''failed'' msg st)))"

definition preflight_targets ::
  "'w rot_env \<Rightarrow> rot_config \<Rightarrow> rot_opts \<Rightarrow> 'w rot_state
     \<Rightarrow> (go_err + propagator option) \<times> 'w rot_state" where
  "preflight_targets env cfg opt st =
     (if \<not> has_targets (op_prop opt) then (Inr None, st)
      else
        (let (kube, problems) = check_credentials env cfg (op_prop opt);
             pr = \<lparr>pg_cfg = cfg, pg_opt = opt, pg_kube = kube\<rparr>
         in case report_or_stop env opt ''Propagation credentials missing: '' problems st of
              (Some e, st1) \<Rightarrow> (Inl e, st1)
            | (None, st1) \<Rightarrow>
                (case precheck env pr st1 of
                   (found, st2) \<Rightarrow>
                     (case report_or_stop env opt
                             ''Propagation precheck failed (nothing written): '' found st2 of
                        (Some e, st3) \<Rightarrow> (Inl e, st3)
                      | (None, st3) \<Rightarrow> (Inr (Some pr), st3)))))"

definition github_strategy :: string where
  "github_strategy =
     ''GitHub Actions secrets are the source of truth: generate in memory, seal and PUT; Vault is ''
     @ ''not read or written.''"

definition execute_github ::
  "'w rot_env \<Rightarrow> rot_opts \<Rightarrow> propagator option \<Rightarrow> 'w rot_state \<Rightarrow> go_err option \<times> 'w rot_state" where
  "execute_github env opt pr st =
     (let st1 = upd_result (\<lambda>r. r\<lparr>rz_engine := ''github'', rz_strategy := github_strategy\<rparr>)
                  (st\<lparr>rn_out := (rn_out st)\<lparr>ro_detected := ''github''\<rparr>\<rparr>);
          st2 = set_phase env ''preflight'' ''completed''
                  (''Source github'' @ middle_dot @ github_target (op_prop opt)) st1
      in if op_mode opt = ''plan'' then plan_github env opt st2 else rotate_github env opt pr st2)"

definition execute_mode ::
  "'w rot_env \<Rightarrow> rot_config \<Rightarrow> rot_opts \<Rightarrow> propagator option \<Rightarrow> 'w rot_state
     \<Rightarrow> go_err option \<times> 'w rot_state" where
  "execute_mode env cfg opt pr st =
     (if op_mode opt = ''plan'' then run_plan env cfg opt st
      else if op_mode opt = ''verify'' then run_verify env cfg opt pr st
      else if op_mode opt = ''rollback'' then run_rollback env cfg opt pr st
      else if op_mode opt = ''rotate'' then run_rotate env cfg opt pr st
      else (Some (ErrText (''unknown mode '' @ quote (op_mode opt))), st))"

definition execute_vault ::
  "'w rot_env \<Rightarrow> rot_config \<Rightarrow> rot_opts \<Rightarrow> propagator option \<Rightarrow> 'w rot_state
     \<Rightarrow> go_err option \<times> 'w rot_state" where
  "execute_vault env cfg opt pr st0 =
     (case lift_world (health env cfg)
             (set_phase env ''preflight'' ''active'' ''Checking vault reachability'' st0) of
        (h, st1) \<Rightarrow>
          (let prov = (if op_provider opt = [] \<or> op_provider opt = ''auto''
                       then detect_provider (cf_addr cfg) (case h of Inr m \<Rightarrow> m | Inl _ \<Rightarrow> [])
                       else op_provider opt);
               st2 = st1\<lparr>rn_out := (rn_out st1)\<lparr>ro_detected := prov\<rparr>\<rparr>;
               st3 = (case h of Inl e \<Rightarrow> warn (''sys/health: '' @ err_text e) st2 | Inr _ \<Rightarrow> st2)
           in case (h, client_enabled cfg) of
                (Inl e, False) \<Rightarrow>
                  (Some (ErrWrap ''vault not configured: '' e),
                   set_phase env ''preflight'' ''failed''
                     ''Vault not configured: set SECRETS_VAULT_TOKEN (or VAULT_TOKEN) and address'' st2)
              | _ \<Rightarrow>
                  if \<not> client_enabled cfg \<and> op_mode opt \<noteq> ''plan'' then
                    (Some (ErrText (''vault token required for mode '' @ op_mode opt)),
                     set_phase env ''preflight'' ''failed'' ''Missing vault token'' st3)
                  else
                    execute_mode env cfg opt pr
                      (set_phase env ''preflight'' ''completed''
                         (''Provider '' @ prov @ middle_dot @ cf_addr cfg) st3)))"

text \<open>\<open>Execute\<close>; no outcome when the path is missing.\<close>

definition execute ::
  "'w rot_env \<Rightarrow> rot_config \<Rightarrow> rot_opts \<Rightarrow> 'w \<Rightarrow> (go_err option \<times> rot_out option) \<times> 'w" where
  "execute env cfg0 opt0 w =
     (let opt = with_defaults opt0; cfg = run_config cfg0 opt in
      if op_path opt = [] then ((Some (ErrText ''path is required''), None), w)
      else
        (let st = first_state cfg opt w;
             finish = (\<lambda>(err, s). ((err, Some (rn_out s)), rn_world s))
         in case validate_propagation opt of
              Some e \<Rightarrow> finish (Some e, set_phase env ''preflight'' ''failed'' (err_text e) st)
            | None \<Rightarrow>
                (case preflight_targets env cfg opt st of
                   (Inl e, st1) \<Rightarrow> finish (Some e, st1)
                 | (Inr pr, st1) \<Rightarrow>
                     if pp_source (op_prop opt) = ''github''
                     then finish (execute_github env opt pr st1)
                     else finish (execute_vault env cfg opt pr st1))))"

end
