(* ===== verification/SecretsWorld.thy ===== *)
theory SecretsWorld
  imports SecretsRotate
begin

text \<open>
  What a rotation does to the world. The locale \<open>rot_world\<close> has an invariant that every admissible
  request keeps and every other effect of a run; it is kept by every operation whose requests are
  admissible. Instrumented with a log of its requests (\<open>logged\<close>), an environment becomes an
  interpretation for any invariant of the log.
\<close>

section \<open>Logged environments\<close>

type_synonym http_entry = "http_req \<times> (go_err + http_resp)"

definition lift_log :: "('w \<Rightarrow> 'a \<times> 'w) \<Rightarrow> 'w \<times> http_entry list \<Rightarrow> 'a \<times> ('w \<times> http_entry list)" where
  "lift_log f wl = (case f (fst wl) of (x, w) \<Rightarrow> (x, (w, snd wl)))"

definition logged_http ::
  "(http_req \<Rightarrow> 'w \<Rightarrow> (go_err + http_resp) \<times> 'w) \<Rightarrow> http_req \<Rightarrow> 'w \<times> http_entry list
     \<Rightarrow> (go_err + http_resp) \<times> ('w \<times> http_entry list)" where
  "logged_http f q wl = (case f q (fst wl) of (r, w) \<Rightarrow> (r, (w, snd wl @ [(q, r)])))"

definition logged_env :: "'w rot_env \<Rightarrow> ('w \<times> http_entry list) rot_env" where
  "logged_env env =
     \<lparr>rt_http = logged_http (rt_http env), rt_random = lift_log (rt_random env),
      rt_now = lift_log (rt_now env), rt_wait = (\<lambda>s. lift_log (rt_wait env s)),
      rt_polls = lift_log (rt_polls env), rt_getenv = rt_getenv env,
      rt_read_file = rt_read_file env, rt_yaml = rt_yaml env, rt_ca_ok = rt_ca_ok env,
      rt_key_pair = rt_key_pair env, rt_seal = (\<lambda>k v. lift_log (rt_seal env k v)),
      rt_on_phase = (\<lambda>p wl. (rt_on_phase env p (fst wl), snd wl))\<rparr>"

section \<open>Rules for the branches of an operation\<close>

lemma keeps_sum:
  assumes "P (snd m)"
    and "\<And>e s. m = (Inl e, s) \<Longrightarrow> P s \<Longrightarrow> P (snd (f e s))"
    and "\<And>a s. m = (Inr a, s) \<Longrightarrow> P s \<Longrightarrow> P (snd (g a s))"
  shows "P (snd (case m of (Inl e, s) \<Rightarrow> f e s | (Inr a, s) \<Rightarrow> g a s))"
  using assms by (cases m; cases "fst m") auto

lemma keeps_option:
  assumes "P (snd m)"
    and "\<And>e s. m = (Some e, s) \<Longrightarrow> P s \<Longrightarrow> P (snd (f e s))"
    and "\<And>s. m = (None, s) \<Longrightarrow> P s \<Longrightarrow> P (snd (g s))"
  shows "P (snd (case m of (Some e, s) \<Rightarrow> f e s | (None, s) \<Rightarrow> g s))"
  using assms by (cases m; cases "fst m") auto

lemma keeps_pair:
  assumes "P (snd m)" and "\<And>a s. m = (a, s) \<Longrightarrow> P s \<Longrightarrow> P (snd (f a s))"
  shows "P (snd (case m of (a, s) \<Rightarrow> f a s))"
  using assms by (cases m) auto

lemma keeps_ebind:
  assumes "P (snd m)" and "\<And>a s. m = (Inr a, s) \<Longrightarrow> P s \<Longrightarrow> P (snd (f a s))"
  shows "P (snd (ebind m f))"
  using assms by (cases m; cases "fst m") auto

section \<open>Which request an operation makes\<close>

lemma read_kv2_world:
  "snd (read_kv2 env cfg m p v w)
     = snd (vault_do env cfg ''GET''
         (data_path m p @ (if v > 0 then ''?version='' @ show_int v else [])) None w)"
  by (simp add: read_kv2_def Let_def split: prod.split option.split)

lemma write_kv2_world:
  "snd (write_kv2 env cfg m p d c w)
     = snd (vault_do env cfg ''POST'' (data_path m p) (Some (write_body d c)) w)"
  by (simp add: write_kv2_def Let_def split: prod.split option.split)

lemma vault_command_world:
  "snd (vault_command env cfg what p b w) = snd (vault_do env cfg ''POST'' p b w)"
  by (simp add: vault_command_def split: prod.split option.split)

lemma health_world:
  "snd (health env cfg w) = snd (vault_do env cfg ''GET'' ''/v1/sys/health'' None w)"
  by (simp add: health_def split: prod.split option.split)

section \<open>What keeps an invariant\<close>

locale rot_world =
  fixes env :: "'w rot_env" and I :: "'w \<Rightarrow> bool" and ok :: "http_req \<Rightarrow> bool"
  assumes http: "ok q \<Longrightarrow> I w \<Longrightarrow> I (snd (rt_http env q w))"
    and random: "I w \<Longrightarrow> I (snd (rt_random env w))"
    and clock: "I w \<Longrightarrow> I (snd (rt_now env w))"
    and waiting: "I w \<Longrightarrow> I (snd (rt_wait env s w))"
    and polls: "I w \<Longrightarrow> I (snd (rt_polls env w))"
    and seal: "I w \<Longrightarrow> I (snd (rt_seal env k v w))"
    and callback: "I w \<Longrightarrow> I (rt_on_phase env p w)"
begin

definition J :: "'w rot_state \<Rightarrow> bool" where
  "J st \<longleftrightarrow> I (rn_world st)"

lemma J_updates [simp]:
  "J (upd_result f st) = J st" "J (warn m st) = J st" "J (put_summary s st) = J st"
  "J (add_target p t st) = J st" "J (st\<lparr>rn_eso_rv := a\<rparr>) = J st"
  "J (st\<lparr>rn_eso_target := b\<rparr>) = J st" "J (st\<lparr>rn_redact := c\<rparr>) = J st"
  "J (st\<lparr>rn_out := d\<rparr>) = J st"
  by (simp_all add: J_def upd_result_def warn_def put_summary_def add_target_def Let_def)

lemma J_add_targets [simp]: "J (add_targets p ts st) = J st"
  by (induction ts arbitrary: st) (simp_all add: add_targets_def)

lemma J_warn_all [simp]: "J (warn_all ps st) = J st"
  by (induction ps arbitrary: st) (simp_all add: warn_all_def)

lemma set_phase_keeps [simp, intro]: "J st \<Longrightarrow> J (set_phase env k s m st)"
  by (auto simp: set_phase_def J_def Let_def callback split: option.split)

lemma pset_keeps [simp, intro]: "J st \<Longrightarrow> J (pset env k s m st)"
  by (simp add: pset_def)

lemma skip_pending_keeps [simp, intro]: "J st \<Longrightarrow> J (skip_pending env r st)"
proof -
  have "J s \<Longrightarrow> J (foldl (\<lambda>s p. if ph_status p = ''pending'' then set_phase env (ph_key p) ''skipped'' r s
      else s) s ps)" for s ps
    by (induction ps arbitrary: s) auto
  then show "J st \<Longrightarrow> J (skip_pending env r st)"
    by (simp add: skip_pending_def)
qed

lemma lift_world_keeps [intro]:
  "(\<And>w. I w \<Longrightarrow> I (snd (f w))) \<Longrightarrow> J st \<Longrightarrow> J (snd (lift_world f st))"
  by (simp add: lift_world_def J_def split: prod.split) (metis snd_conv)

lemmas I_sum = keeps_sum [where P = I]
lemmas I_option = keeps_option [where P = I]
lemmas I_pair = keeps_pair [where P = I]
lemmas I_ebind = keeps_ebind [where P = I]
lemmas J_sum = keeps_sum [where P = J]
lemmas J_option = keeps_option [where P = J]
lemmas J_pair = keeps_pair [where P = J]
lemmas J_ebind = keeps_ebind [where P = J]

section \<open>Vault\<close>

lemma vault_do_keeps:
  assumes "ok (vault_req cfg m p b)" and "I w"
  shows "I (snd (vault_do env cfg m p b w))"
proof -
  obtain r w1 where r: "rt_http env (vault_req cfg m p b) w = (r, w1)"
    by (cases "rt_http env (vault_req cfg m p b) w")
  then have "I w1" using http [OF assms] by simp
  with r assms show ?thesis
    by (cases r) (simp_all add: vault_do_def Let_def)
qed

definition reads_ok :: bool where
  "reads_ok \<longleftrightarrow> (\<forall>q. hq_method q = ''GET'' \<longrightarrow> ok q)"

lemma vault_get_keeps:
  "reads_ok \<Longrightarrow> I w \<Longrightarrow> I (snd (vault_do env cfg ''GET'' p b w))"
  by (rule vault_do_keeps) (simp_all add: reads_ok_def vault_req_def)

lemma read_kv2_keeps: "reads_ok \<Longrightarrow> I w \<Longrightarrow> I (snd (read_kv2 env cfg m p v w))"
  by (simp add: read_kv2_world vault_get_keeps)

lemma write_kv2_keeps:
  "ok (vault_req cfg ''POST'' (data_path m p) (Some (write_body d c))) \<Longrightarrow> I w
     \<Longrightarrow> I (snd (write_kv2 env cfg m p d c w))"
  by (simp add: write_kv2_world vault_do_keeps)

lemma vault_command_keeps:
  "ok (vault_req cfg ''POST'' p b) \<Longrightarrow> I w \<Longrightarrow> I (snd (vault_command env cfg what p b w))"
  by (simp add: vault_command_world vault_do_keeps)

lemma health_keeps: "reads_ok \<Longrightarrow> I w \<Longrightarrow> I (snd (health env cfg w))"
  by (simp add: health_world vault_get_keeps)

lemma metadata_kv2_keeps:
  assumes "reads_ok" and "I w"
  shows "I (snd (metadata_kv2 env cfg m p w))"
  unfolding metadata_kv2_def Let_def
  by (rule I_pair) (use assms in \<open>auto intro!: I_sum vault_get_keeps read_kv2_keeps split: option.split\<close>)

section \<open>Clusters\<close>

definition kube_reads_ok :: bool where
  "kube_reads_ok \<longleftrightarrow> (\<forall>q. hq_to q = ToKube \<longrightarrow> hq_method q = ''GET'' \<longrightarrow> ok q)"

definition pushes_ok :: bool where
  "pushes_ok \<longleftrightarrow> (\<forall>q. hq_to q \<noteq> ToVault \<longrightarrow> ok q)"

lemma kube_reads_okI: "reads_ok \<Longrightarrow> kube_reads_ok" "pushes_ok \<Longrightarrow> kube_reads_ok"
  by (simp_all add: reads_ok_def kube_reads_ok_def pushes_ok_def)

lemma kube_do_keeps:
  assumes "\<And>q. hq_to q = ToKube \<Longrightarrow> hq_method q = m \<Longrightarrow> hq_url q = kc_server k @ p \<Longrightarrow>
      hq_body q = b \<Longrightarrow> ok q" and "I w"
  shows "I (snd (kube_do env k m p ct b w))"
  unfolding kube_do_def
  by (rule I_sum) (use assms http in \<open>auto simp: Let_def\<close>)

lemma kube_get_keeps: "kube_reads_ok \<Longrightarrow> I w \<Longrightarrow> I (snd (kube_do env k ''GET'' p ct b w))"
  by (rule kube_do_keeps) (simp_all add: kube_reads_ok_def)

lemma get_secret_info_keeps: "kube_reads_ok \<Longrightarrow> I w \<Longrightarrow> I (snd (get_secret_info env k ns n w))"
  unfolding get_secret_info_def
  by (rule I_sum) (auto intro: kube_get_keeps)

lemma secret_resource_version_keeps:
  "kube_reads_ok \<Longrightarrow> I w \<Longrightarrow> I (snd (secret_resource_version env k ns n w))"
  unfolding secret_resource_version_def
  by (rule I_sum) (auto intro: kube_get_keeps split: sum.split)

lemma try_versions_keeps: "kube_reads_ok \<Longrightarrow> I w \<Longrightarrow> I (snd (try_versions env k vs ns n w))"
proof (induction vs arbitrary: w)
  case Nil
  then show ?case
    unfolding try_versions.simps by (intro I_sum) (auto intro: kube_get_keeps)
next
  case (Cons v vs)
  then show ?case
    unfolding try_versions.simps by (intro I_sum) (auto intro: kube_get_keeps split: sum.split)
qed

lemma get_external_secret_keeps:
  "kube_reads_ok \<Longrightarrow> I w \<Longrightarrow> I (snd (get_external_secret env k ns n w))"
  by (simp add: get_external_secret_def try_versions_keeps)

lemma secret_consumers_keeps: "kube_reads_ok \<Longrightarrow> I w \<Longrightarrow> I (snd (secret_consumers env k ns ss w))"
  unfolding secret_consumers_def Let_def
  by (rule I_sum) (auto intro: kube_get_keeps split: sum.split)

lemma with_kube_keeps:
  "(\<And>k w. I w \<Longrightarrow> I (snd (f k w))) \<Longrightarrow> I w \<Longrightarrow> I (snd (with_kube pr f w))"
  by (simp add: with_kube_def split: option.split)

lemma check_patchable_keeps: "kube_reads_ok \<Longrightarrow> I w \<Longrightarrow> I (snd (check_patchable env pr s w))"
  unfolding check_patchable_def
  by (rule I_sum) (auto intro: with_kube_keeps get_secret_info_keeps)

lemma precheck_k8s_keeps: "kube_reads_ok \<Longrightarrow> J st \<Longrightarrow> J (snd (precheck_k8s env pr ss st))"
proof (induction ss arbitrary: st)
  case (Cons s ss)
  show ?case
    unfolding precheck_k8s.simps
    by (intro J_pair lift_world_keeps check_patchable_keeps Cons) simp_all
qed simp

lemma precheck_one_keeps:
  assumes r: "kube_reads_ok" and st: "J st"
  shows "J (snd (precheck_one env pr s st))"
proof -
  have target: "J s2 \<Longrightarrow> J (snd (lift_world (with_kube pr
      (\<lambda>k. secret_resource_version env k (fst s) tn)) s2))" for s2 tn
    by (intro lift_world_keeps with_kube_keeps secret_resource_version_keeps r)
  have object: "J (snd (lift_world (with_kube pr
      (\<lambda>k. get_external_secret env k (fst s) (snd s))) st))"
    by (intro lift_world_keeps with_kube_keeps get_external_secret_keeps r st)
  show ?thesis
    unfolding precheck_one_def
    apply (rule J_sum [OF object])
     apply simp
    subgoal for a s1 by (cases a) (auto simp: Let_def intro!: J_sum target)
    done
qed

lemma precheck_eso_keeps: "kube_reads_ok \<Longrightarrow> J st \<Longrightarrow> J (snd (precheck_eso env pr ss st))"
proof (induction ss arbitrary: st)
  case (Cons s ss)
  show ?case
    unfolding precheck_eso.simps by (intro J_pair precheck_one_keeps Cons) simp_all
qed simp

lemma precheck_keeps: "kube_reads_ok \<Longrightarrow> J st \<Longrightarrow> J (snd (precheck env pr st))"
  unfolding precheck_def
  by (auto intro!: J_pair precheck_k8s_keeps precheck_eso_keeps simp del: J_updates
      simp add: J_updates)

section \<open>Propagation\<close>

lemma kube_push_keeps: "pushes_ok \<Longrightarrow> I w \<Longrightarrow> I (snd (kube_do env k m p ct b w))"
  by (rule kube_do_keeps) (simp_all add: pushes_ok_def)

lemma github_do_keeps: "pushes_ok \<Longrightarrow> I w \<Longrightarrow> I (snd (github_do env g m p b w))"
  unfolding github_do_def
  by (rule I_sum) (auto simp: Let_def pushes_ok_def intro!: http)

lemma promoter_do_keeps: "pushes_ok \<Longrightarrow> I w \<Longrightarrow> I (snd (promoter_do env cfg m p b w))"
  unfolding promoter_do_def
  by (rule I_sum) (auto simp: Let_def pushes_ok_def intro!: http)

lemma fail_target_keeps [simp, intro]: "J st \<Longrightarrow> J (snd (fail_target env pr ph n e st))"
  by (auto simp: fail_target_def Let_def)

lemma fail_ring_keeps [simp, intro]: "J st \<Longrightarrow> J (snd (fail_ring env pr r rest job e st))"
  by (auto simp: fail_ring_def Let_def)

lemma patch_one_keeps: "pushes_ok \<Longrightarrow> J st \<Longrightarrow> J (snd (patch_one env pr values s st))"
  unfolding patch_one_def patch_secret_keys_def
  by (intro J_ebind lift_world_keeps check_patchable_keeps with_kube_keeps)
     (auto simp: kube_reads_okI intro!: I_sum kube_push_keeps split: sum.split)

lemma patch_each_keeps: "pushes_ok \<Longrightarrow> J st \<Longrightarrow> J (snd (patch_each env pr values ss st))"
proof (induction ss arbitrary: st)
  case (Cons s ss)
  show ?case
    unfolding patch_each.simps by (intro J_sum patch_one_keeps Cons fail_target_keeps) simp_all
qed simp

lemma poll_sync_keeps:
  assumes p: "pushes_ok"
  shows "I w \<Longrightarrow> I (snd (poll_sync env k s tn b ts q n w))"
proof (induction n arbitrary: w)
  case 0
  show ?case
    apply (subst poll_sync.simps)
    apply (rule I_ebind [OF get_external_secret_keeps [OF kube_reads_okI(2) [OF p] 0]])
    subgoal for a w1
      by (cases a) (auto simp: Let_def split: prod.split
          intro!: I_ebind secret_resource_version_keeps kube_reads_okI(2) [OF p])
    done
next
  case (Suc n)
  have rest: "I w2 \<Longrightarrow> I (snd (case rt_wait env 2 w2 of (Some e, w3) \<Rightarrow> (Inl e, w3)
      | (None, w3) \<Rightarrow> poll_sync env k s tn b ts q n w3))" for w2
    by (intro I_option waiting Suc) simp_all
  show ?case
    apply (subst poll_sync.simps)
    apply (rule I_ebind [OF get_external_secret_keeps [OF kube_reads_okI(2) [OF p] Suc.prems]])
    subgoal for a w1
      apply (cases a, simp)
      apply (rule I_ebind [OF secret_resource_version_keeps [OF kube_reads_okI(2) [OF p]]])
       apply assumption
      apply (simp add: Let_def rest split: prod.split)
      done
    done
qed

lemma annotate_force_sync_keeps:
  "pushes_ok \<Longrightarrow> I w \<Longrightarrow> I (snd (annotate_force_sync env k v ns n ts w))"
  unfolding annotate_force_sync_def by (rule I_sum) (auto intro: kube_push_keeps)

lemma force_sync_keeps:
  assumes p: "pushes_ok" and w: "I w"
  shows "I (snd (force_sync env k s v tn b q w))"
  unfolding force_sync_def
  by (intro I_pair I_option clock polls w annotate_force_sync_keeps poll_sync_keeps p) simp_all

lemma sync_one_keeps:
  assumes p: "pushes_ok" and st: "J st"
  shows "J (snd (sync_one env pr q s st))"
proof (cases "pg_kube pr")
  case (Some k)
  have object: "J (snd (lift_world (get_external_secret env k (fst s) (snd s)) st))"
    by (intro lift_world_keeps get_external_secret_keeps kube_reads_okI(2) p st)
  show ?thesis
    unfolding sync_one_def Some option.case
    apply (rule J_sum [OF object])
     apply simp
    subgoal for a s1
      using p by (cases a) (auto simp: Let_def kube_reads_okI split: option.split
          intro!: J_ebind lift_world_keeps force_sync_keeps secret_resource_version_keeps)
    done
qed (simp add: sync_one_def st)

lemma sync_each_keeps: "pushes_ok \<Longrightarrow> J st \<Longrightarrow> J (snd (sync_each env pr q ss st))"
proof (induction ss arbitrary: st)
  case (Cons s ss)
  show ?case
    unfolding sync_each.simps by (intro J_sum sync_one_keeps Cons fail_target_keeps) simp_all
qed simp

lemma put_each_keeps:
  assumes p: "pushes_ok"
  shows "I w \<Longrightarrow> I (snd (put_each env g b i k vs ns w))"
proof (induction ns arbitrary: w)
  case (Cons n ns)
  have sealed: "I (snd (seal_secret env k v w))" if "I w" for v w
    unfolding seal_secret_def using that
    by (auto split: option.split intro!: I_sum seal)
  have rest: "I (snd (case put_each env g b i k vs ns w2 of
      ((written, err), w3) \<Rightarrow> ((n # written, err), w3)))" if "I w2" for w2
    using Cons.IH [OF that] by (simp split: prod.split) (metis snd_conv)
  show ?case
    unfolding put_each.simps
    by (intro I_sum sealed Cons.prems github_do_keeps p) (simp_all add: rest)
qed simp

lemma put_secrets_keeps:
  assumes p: "pushes_ok" and w: "I w"
  shows "I (snd (put_secrets env g r e vs ord w))"
proof -
  have base: "I (snd (secrets_base env g r e w))"
    unfolding secrets_base_def using w
    by (auto intro!: I_sum github_do_keeps p split: sum.split)
  show ?thesis
    unfolding put_secrets_def
    apply (rule I_sum [OF base])
     apply simp
    apply (rule I_sum)
      apply (rule github_do_keeps [OF p])
      apply assumption
     apply simp
    apply (auto split: sum.split intro: put_each_keeps p)
    done
qed

lemma poll_job_keeps: "pushes_ok \<Longrightarrow> I w \<Longrightarrow> I (snd (poll_job env cfg a j n w))"
proof (induction n arbitrary: w)
  case 0
  then show ?case
    apply (subst poll_job.simps)
    apply (rule I_sum)
      apply (erule promoter_do_keeps, assumption)
     apply (auto split: sum.split)
    done
next
  case (Suc n)
  show ?case
    apply (subst poll_job.simps)
    apply (rule I_sum)
      apply (rule promoter_do_keeps [OF Suc.prems])
     apply (auto split: sum.split intro!: I_option waiting Suc)
    done
qed

lemma restart_ring_keeps:
  assumes p: "pushes_ok" and w: "I w"
  shows "I (snd (restart_ring env pr why r ds w))"
proof -
  have start: "I (snd (start_restart env cfg a r why ds w))" for cfg a
    unfolding start_restart_def Let_def
    by (rule I_sum) (auto intro!: promoter_do_keeps p w split: sum.split)
  have job: "I w' \<Longrightarrow> I (snd (wait_job env cfg a j w'))" for cfg a j w'
    unfolding wait_job_def by (auto intro!: I_pair polls poll_job_keeps p)
  have health: "I w' \<Longrightarrow> I (snd (ring_healthy env cfg a r w'))" for cfg a w'
    unfolding ring_healthy_def
    by (rule I_sum) (auto intro!: promoter_do_keeps p split: sum.split option.split)
  show ?thesis
    unfolding restart_ring_def Let_def
    by (intro I_sum I_option start job health) simp_all
qed

lemma ring_deployments_keeps:
  "pushes_ok \<Longrightarrow> J st \<Longrightarrow> J (snd (ring_deployments env pr r st))"
  unfolding ring_deployments_def Let_def
  by (auto simp: kube_reads_okI split: option.split
      intro!: J_ebind lift_world_keeps secret_consumers_keeps)

lemma restart_each_keeps:
  assumes p: "pushes_ok"
  shows "J st \<Longrightarrow> J (snd (restart_each env pr why i cnt nts rs st))"
proof (induction rs arbitrary: i nts st)
  case (Cons r rs)
  define st1 where "st1 = pset env phase_rings ''active'' (''Restarting '' @ ring_target (pg_prop pr) r
      @ '' ('' @ show_nat (Suc i) @ ''/'' @ show_nat cnt @ '')'') st"
  have failed: "J (snd (case fail_ring env pr r rs job e s of (err, s') \<Rightarrow> ((err, nts), s')))"
    if "J s" for job e s
    using that by (auto intro!: J_pair)
  have deps: "J (snd (ring_deployments env pr r st1))"
    unfolding st1_def by (intro ring_deployments_keeps p pset_keeps Cons.prems)
  show ?case
    unfolding restart_each.simps Let_def st1_def [symmetric]
    apply (rule J_sum [OF deps])
     apply (erule failed)
    subgoal for a s1
      apply (cases a)
       apply (simp add: Cons.IH)
      apply (simp only: sum.case)
      apply (rule J_sum)
        apply (rule lift_world_keeps [OF restart_ring_keeps [OF p]], assumption, assumption)
      subgoal for ds e s2 by (cases e) (simp add: failed)
      subgoal by (simp add: Cons.IH del: if_split_asm)
      done
    done
qed simp

definition pushes :: "propagator \<Rightarrow> bool" where
  "pushes pr \<longleftrightarrow> op_dry (pg_opt pr) \<or> pushes_ok"

lemma run_phase_keeps:
  assumes "pushes pr" and "J st"
  shows "J (snd (run_phase env pr values q ph st))"
proof -
  have 1: "J (snd (run_k8s env pr values keys st))" for keys
    using assms unfolding run_k8s_def Let_def pushes_def
    by (auto intro!: J_option patch_each_keeps)
  have 2: "J (snd (run_external env pr q st))"
    using assms unfolding run_external_def Let_def pushes_def
    by (auto intro!: J_option sync_each_keeps)
  have 3: "J (snd (run_github env pr values keys st))" for keys
  proof (cases "github_names (pg_prop pr) keys")
    case (Inl e)
    with assms show ?thesis by (simp add: run_github_def Let_def)
  next
    case (Inr names)
    have put: "J (snd (lift_world (put_secrets env g r e vs ord) st1))" if "J st1" "pushes_ok"
      for g r e vs ord st1
      using that by (intro lift_world_keeps put_secrets_keeps)
    show ?thesis
    proof (cases "op_dry (pg_opt pr)")
      case True
      with Inr assms show ?thesis by (simp add: run_github_def Let_def)
    next
      case False
      with assms have "pushes_ok" by (simp add: pushes_def)
      then show ?thesis
        unfolding run_github_def Let_def Inr sum.case if_not_P [OF False]
        by (intro J_pair put) (auto simp: assms split: prod.split option.split)
    qed
  qed
  have 4: "J (snd (run_rings env pr st))"
  proof (cases "op_dry (pg_opt pr)")
    case True
    with assms show ?thesis by (simp add: run_rings_def Let_def)
  next
    case False
    with assms have p: "pushes_ok" by (simp add: pushes_def)
    show ?thesis
      unfolding run_rings_def Let_def if_not_P [OF False]
      apply (rule J_pair)
       apply (rule restart_each_keeps [OF p])
       apply (simp add: assms)
      subgoal for a s by (cases a; cases "fst a") auto
      done
  qed
  show ?thesis
    unfolding run_phase_def Let_def using 1 2 3 4 assms by simp
qed

lemma run_phases_keeps:
  "pushes pr \<Longrightarrow> J st \<Longrightarrow> J (snd (run_phases env pr values v q phs st))"
proof (induction phs arbitrary: st)
  case (Cons ph phs)
  show ?case
    unfolding run_phases.simps by (intro J_option run_phase_keeps Cons) simp_all
qed simp

lemma propagate_keeps: "pushes pr \<Longrightarrow> J st \<Longrightarrow> J (snd (propagate env pr values v q st))"
  by (simp add: propagate_def Let_def run_phases_keeps)

lemma propagate_or_skip_keeps:
  "(\<And>p. pr = Some p \<Longrightarrow> pushes p) \<Longrightarrow> J st \<Longrightarrow> J (snd (propagate_or_skip env pr values v q st))"
  unfolding propagate_or_skip_def
  by (auto split: option.split intro!: J_option propagate_keeps)

lemma propagate_dry_keeps:
  "(\<And>p. pr = Some p \<Longrightarrow> pushes p) \<Longrightarrow> J st \<Longrightarrow> J (snd (propagate_dry env pr values v st))"
  unfolding propagate_dry_def
  by (auto split: option.split intro!: propagate_keeps)

section \<open>The modes of a run\<close>

lemma generate_each_keeps: "I w \<Longrightarrow> I (snd (generate_each env ks m w))"
proof (induction ks arbitrary: m w)
  case (Cons k ks)
  show ?case unfolding generate_each.simps by (intro I_pair random Cons)
qed simp

lemma next_secret_keeps: "I w \<Longrightarrow> I (snd (next_secret env opt cur w))"
  unfolding next_secret_def Let_def
  by (auto intro!: generate_each_keeps I_pair)

lemma github_values_keeps: "I w \<Longrightarrow> I (snd (github_values env new ks m w))"
proof (induction ks arbitrary: m w)
  case (Cons k ks)
  have "I (snd (case rt_random env w of (v, w1) \<Rightarrow> github_values env new ks (aput k v m) w1))"
    by (intro I_pair random Cons)
  then show ?case using Cons by (simp split: option.split)
qed simp

lemma inventory_keeps: "reads_ok \<Longrightarrow> J st \<Longrightarrow> J (snd (inventory env cfg opt st))"
  unfolding inventory_def
  by (auto intro!: J_sum lift_world_keeps metadata_kv2_keeps)

lemma run_plan_keeps: "reads_ok \<Longrightarrow> J st \<Longrightarrow> J (snd (run_plan env cfg opt st))"
  unfolding run_plan_def
  by (intro J_sum inventory_keeps set_phase_keeps) (auto simp: Let_def)

lemma run_verify_keeps:
  assumes r: "reads_ok" and p: "\<And>p. pr = Some p \<Longrightarrow> pushes p" and st: "J st"
  shows "J (snd (run_verify env cfg opt pr st))"
proof -
  have read: "J (snd (lift_world (read_kv2 env cfg m q 0) s))" if "J s" for m q s
    using that by (intro lift_world_keeps read_kv2_keeps r)
  show ?thesis
  proof (cases "op_engine opt = ''transit''")
    case False
    show ?thesis
      unfolding run_verify_def Let_def if_not_P [OF False]
      apply (rule J_sum)
        apply (rule read)
        apply (simp add: st)
       apply simp
      subgoal for a s by (cases a) (simp add: propagate_or_skip_keeps p)
      done
  qed (simp add: run_verify_def Let_def st)
qed

lemma rotate_dry_keeps:
  assumes "\<And>p. pr = Some p \<Longrightarrow> pushes p" and "J st"
  shows "J (snd (rotate_dry env opt pr keys v st))"
  unfolding rotate_dry_def Let_def
  by (intro J_option propagate_dry_keeps assms set_phase_keeps) (auto simp: assms)

lemma read_current_keeps: "reads_ok \<Longrightarrow> J st \<Longrightarrow> J (snd (read_current env cfg opt st))"
  unfolding read_current_def
  by (intro J_sum lift_world_keeps read_kv2_keeps) auto

lemma plan_github_keeps: "J st \<Longrightarrow> J (snd (plan_github env opt st))"
  by (simp add: plan_github_def Let_def)

lemma rotate_github_keeps:
  assumes "\<And>p. pr = Some p \<Longrightarrow> pushes p" and "J st"
  shows "J (snd (rotate_github env opt pr st))"
  unfolding rotate_github_def Let_def
  apply (rule J_pair)
   apply (intro lift_world_keeps github_values_keeps set_phase_keeps assms, assumption)
  apply (intro J_option propagate_or_skip_keeps assms set_phase_keeps)
    apply auto
  done

lemma run_rollback_dry_keeps:
  assumes r: "reads_ok" and d: "op_dry opt" and p: "\<And>p. pr = Some p \<Longrightarrow> pushes p" and st: "J st"
  shows "J (snd (run_rollback env cfg opt pr st))"
proof -
  have read: "J (snd (lift_world (read_kv2 env cfg m q 0) s))" if "J s" for m q s
    using that by (intro lift_world_keeps read_kv2_keeps r)
  show ?thesis
  proof (cases "op_engine opt = ''kv2''")
    case True
    show ?thesis
      unfolding run_rollback_def Let_def if_P [OF d] not_not True
      apply (simp only: simp_thms if_False)
      apply (rule J_sum)
        apply (rule read)
        apply (simp add: st)
       apply simp
      subgoal for a s by (cases a) (simp add: propagate_dry_keeps p)
      done
  qed (simp add: run_rollback_def st)
qed

lemma rotate_transit_dry_keeps: "op_dry opt \<Longrightarrow> J st \<Longrightarrow> J (snd (rotate_transit env cfg opt st))"
  by (simp add: rotate_transit_def Let_def)

lemma rotate_kv2_dry_keeps:
  assumes r: "reads_ok" and d: "op_dry opt" and p: "\<And>p. pr = Some p \<Longrightarrow> pushes p" and st: "J st"
  shows "J (snd (rotate_kv2 env cfg opt pr st))"
  unfolding rotate_kv2_def Let_def if_P [OF d]
  apply (rule J_pair)
   apply (simp add: read_current_keeps r st)
  subgoal for a s
    apply (cases a, simp only: prod.case)
    apply (rule J_pair)
     apply (rule lift_world_keeps [OF next_secret_keeps], assumption, assumption)
    subgoal for cur v b s' by (cases b) (simp add: rotate_dry_keeps p)
    done
  done

lemma run_rotate_dry_keeps:
  assumes r: "reads_ok" and d: "op_dry opt" and p: "\<And>p. pr = Some p \<Longrightarrow> pushes p" and st: "J st"
  shows "J (snd (run_rotate env cfg opt pr st))"
proof -
  have "J (snd (case run_plan env cfg opt s of (Some e, s1) \<Rightarrow> (Some e, s1) | (None, s1) \<Rightarrow> (None, f s1)))"
    if "J s" "\<And>s. J s \<Longrightarrow> J (f s)" for s f
    using that by (intro J_option run_plan_keeps r) simp_all
  then show ?thesis
    using assms by (simp add: run_rotate_def rotate_transit_dry_keeps rotate_kv2_dry_keeps)
qed

lemma execute_mode_reports_keeps:
  assumes "reads_ok" "only_reports opt" "\<And>p. pr = Some p \<Longrightarrow> pg_opt p = opt" "J st"
  shows "J (snd (execute_mode env cfg opt pr st))"
proof (cases "op_mode opt = ''plan''")
  case True
  with assms show ?thesis by (simp add: execute_mode_def run_plan_keeps)
next
  case False
  with assms have "op_dry opt" "\<And>p. pr = Some p \<Longrightarrow> pushes p"
    by (auto simp: only_reports_def pushes_def)
  with assms show ?thesis
    by (simp add: execute_mode_def run_plan_keeps run_verify_keeps run_rollback_dry_keeps
        run_rotate_dry_keeps)
qed

lemma execute_vault_keeps:
  assumes r: "reads_ok" and st: "J st"
    and mode: "\<And>s. J s \<Longrightarrow> J (snd (execute_mode env cfg opt pr s))"
  shows "J (snd (execute_vault env cfg opt pr st))"
  unfolding execute_vault_def Let_def
  apply (rule J_pair)
   apply (rule lift_world_keeps [OF health_keeps [OF r]], assumption, simp add: st)
  subgoal for h s by (cases h) (auto simp: mode split: bool.split)
  done

lemma execute_github_reports_keeps:
  assumes "only_reports opt" "\<And>p. pr = Some p \<Longrightarrow> pg_opt p = opt" "J st"
  shows "J (snd (execute_github env opt pr st))"
proof (cases "op_mode opt = ''plan''")
  case True
  with assms show ?thesis by (simp add: execute_github_def Let_def plan_github_keeps)
next
  case False
  with assms have "\<And>p. pr = Some p \<Longrightarrow> pushes p" by (auto simp: only_reports_def pushes_def)
  with assms False show ?thesis
    by (simp add: execute_github_def Let_def rotate_github_keeps)
qed

lemma report_or_stop_keeps [intro]: "J st \<Longrightarrow> J (snd (report_or_stop env opt what ps st))"
  by (simp add: report_or_stop_def Let_def)

lemma preflight_targets_keeps:
  assumes r: "kube_reads_ok" and st: "J st"
  shows "J (snd (preflight_targets env cfg opt st))"
proof (cases "has_targets (op_prop opt)")
  case True
  obtain kube problems where c: "check_credentials env cfg (op_prop opt) = (kube, problems)"
    by (cases "check_credentials env cfg (op_prop opt)")
  show ?thesis
    unfolding preflight_targets_def Let_def c
    using True
    by simp (intro J_option J_pair report_or_stop_keeps precheck_keeps r st; simp)
qed (simp add: preflight_targets_def st)

end

lemma preflight_targets_opt:
  "preflight_targets env cfg opt st = (Inr (Some p), st') \<Longrightarrow> pg_opt p = opt \<and> pg_cfg p = cfg"
  by (auto simp: preflight_targets_def Let_def split: if_splits prod.splits option.splits)

context rot_world begin

lemma execute_reports_keeps:
  assumes r: "reads_ok" and o: "only_reports (with_defaults opt)" and w: "I w"
  shows "I (snd (execute env cfg opt w))"
proof -
  define opt' where "opt' = with_defaults opt"
  define cfg' where "cfg' = run_config cfg opt'"
  define st where "st = first_state cfg' opt' w"
  have st: "J st" using w by (simp add: st_def J_def first_state_def)
  obtain x s1 where x: "preflight_targets env cfg' opt' st = (x, s1)"
    by (cases "preflight_targets env cfg' opt' st")
  have s1: "J s1" using preflight_targets_keeps [OF kube_reads_okI(1) [OF r] st, of cfg' opt'] x by simp
  have run: "J (snd (execute_github env opt' pr s1))" "J (snd (execute_vault env cfg' opt' pr s1))"
    if "x = Inr pr" for pr
  proof -
    have p: "pg_opt p = opt'" if "pr = Some p" for p
      using preflight_targets_opt x \<open>x = Inr pr\<close> that by blast
    show "J (snd (execute_github env opt' pr s1))"
      using o s1 p unfolding opt'_def by (intro execute_github_reports_keeps) auto
    show "J (snd (execute_vault env cfg' opt' pr s1))"
      using o p unfolding opt'_def
      by (intro execute_vault_keeps r s1 execute_mode_reports_keeps) auto
  qed
  have world: "I (rn_world s) = J s" for s by (simp add: J_def)
  show ?thesis
    unfolding execute_def Let_def opt'_def [symmetric] cfg'_def [symmetric] st_def [symmetric] x
    using w st s1 run
    by (auto simp: world split: option.split sum.split prod.split
        dest: set_phase_keeps [of st "''preflight''" "''failed''"])
qed

end

section \<open>Whatever the requests\<close>

context rot_world begin

definition all_ok :: bool where
  "all_ok \<longleftrightarrow> (\<forall>q. ok q)"

lemma all_okD: "all_ok \<Longrightarrow> ok q" "all_ok \<Longrightarrow> reads_ok" "all_ok \<Longrightarrow> pushes pr"
  by (simp_all add: all_ok_def reads_ok_def pushes_def pushes_ok_def)

lemma read_world_keeps: "all_ok \<Longrightarrow> J s \<Longrightarrow> J (snd (lift_world (read_kv2 env cfg m q v) s))"
  by (intro lift_world_keeps read_kv2_keeps all_okD)

lemma write_world_keeps: "all_ok \<Longrightarrow> J s \<Longrightarrow> J (snd (lift_world (write_kv2 env cfg m q d c) s))"
  by (intro lift_world_keeps write_kv2_keeps all_okD)

lemma vault_command_world_keeps:
  "all_ok \<Longrightarrow> J s \<Longrightarrow> J (snd (lift_world (vault_command env cfg what q b) s))"
  by (intro lift_world_keeps vault_command_keeps all_okD)

lemma write_next_keeps: "all_ok \<Longrightarrow> J st \<Longrightarrow> J (snd (write_next env cfg opt d v st))"
  unfolding write_next_def by (intro J_sum write_world_keeps) (auto simp: Let_def)

lemma dual_window_keeps: "J st \<Longrightarrow> J (snd (dual_window env opt st))"
  unfolding dual_window_def Let_def by (intro J_option) (auto intro: lift_world_keeps waiting)

lemma verify_latest_keeps: "all_ok \<Longrightarrow> J st \<Longrightarrow> J (snd (verify_latest env cfg opt st))"
  unfolding verify_latest_def
  apply (rule J_sum)
    apply (rule read_world_keeps, assumption, simp)
   apply simp
  subgoal for a s by (cases a) (simp add: Let_def)
  done

lemma retire_old_keeps:
  assumes "all_ok" and "J st"
  shows "J (retire_old env cfg opt v st)"
proof -
  have "J s1" if "lift_world (soft_delete_versions env cfg m q vs) (set_phase env k a msg st) = (x, s1)"
    for m q vs k a msg x s1
    using vault_command_world_keeps [OF assms(1) set_phase_keeps [OF assms(2)]] that
    unfolding soft_delete_versions_def by (metis snd_conv)
  then show ?thesis
    using assms(2) by (auto simp: retire_old_def split: prod.split option.split)
qed

lemma rotate_live_keeps:
  assumes a: "all_ok" and st: "J st"
  shows "J (snd (rotate_live env cfg opt pr d ks v st))"
  unfolding rotate_live_def
  by (intro J_option write_next_keeps dual_window_keeps verify_latest_keeps propagate_or_skip_keeps)
     (simp_all add: a st all_okD retire_old_keeps)

lemma rotate_kv2_keeps:
  assumes a: "all_ok" and st: "J st"
  shows "J (snd (rotate_kv2 env cfg opt pr st))"
proof (cases "op_dry opt")
  case True
  with a st show ?thesis by (intro rotate_kv2_dry_keeps all_okD)
next
  case False
  show ?thesis
    unfolding rotate_kv2_def Let_def if_not_P [OF False]
    apply (rule J_pair)
     apply (simp add: read_current_keeps all_okD a st)
    subgoal for x s
      apply (cases x, simp only: prod.case)
      apply (rule J_pair)
       apply (rule lift_world_keeps [OF next_secret_keeps], assumption, assumption)
      subgoal for cur v b s' by (cases b) (simp add: rotate_live_keeps a)
      done
    done
qed

lemma rotate_transit_keeps: "all_ok \<Longrightarrow> J st \<Longrightarrow> J (snd (rotate_transit env cfg opt st))"
  unfolding rotate_transit_def Let_def rotate_transit_key_def
  by (auto intro!: J_option vault_command_world_keeps)

lemma run_rotate_keeps:
  assumes a: "all_ok" and st: "J st"
  shows "J (snd (run_rotate env cfg opt pr st))"
proof -
  have "J (snd (case run_plan env cfg opt s of (Some e, s1) \<Rightarrow> (Some e, s1) | (None, s1) \<Rightarrow> (None, f s1)))"
    if "J s" "\<And>s. J s \<Longrightarrow> J (f s)" for s f
    using that by (intro J_option run_plan_keeps all_okD(2) a) simp_all
  then show ?thesis
    using assms by (simp add: run_rotate_def rotate_transit_keeps rotate_kv2_keeps)
qed

lemma read_previous_keeps:
  assumes "all_ok" and "I w"
  shows "I (snd (read_previous env cfg opt prev w))"
  unfolding read_previous_def undelete_versions_def
  apply (rule I_sum)
    apply (intro read_kv2_keeps all_okD assms)
   apply (rule I_pair)
    apply (intro vault_command_keeps all_okD assms, assumption)
   apply (rule I_sum)
     apply (intro read_kv2_keeps all_okD assms, assumption)
    apply simp
  subgoal for e s a s1 x s2 by (cases x) simp
  subgoal for a s by (cases a) simp
  done

lemma restore_previous_keeps:
  assumes a: "all_ok" and st: "J st"
  shows "J (snd (restore_previous env cfg opt pr cur prev st))"
  unfolding restore_previous_def
  apply (rule J_sum)
    apply (rule lift_world_keeps [OF read_previous_keeps [OF a]], assumption, rule st)
   apply simp
  apply (rule J_sum)
    apply (rule write_world_keeps [OF a], assumption)
   apply simp
  apply (simp add: Let_def propagate_or_skip_keeps all_okD a)
  done

lemma run_rollback_keeps:
  assumes a: "all_ok" and st: "J st"
  shows "J (snd (run_rollback env cfg opt pr st))"
proof (cases "op_dry opt")
  case True
  with a st show ?thesis by (intro run_rollback_dry_keeps all_okD)
next
  case False
  show ?thesis
  proof (cases "op_engine opt = ''kv2''")
    case True
    show ?thesis
      unfolding run_rollback_def Let_def if_not_P [OF False] not_not True
      apply (simp only: simp_thms if_False)
      apply (rule J_sum)
        apply (rule read_world_keeps [OF a], simp add: st)
       apply simp
      subgoal for x s by (cases x) (simp add: restore_previous_keeps a)
      done
  qed (simp add: run_rollback_def st)
qed

lemma execute_mode_keeps:
  assumes "all_ok" and "J st"
  shows "J (snd (execute_mode env cfg opt pr st))"
  using assms
  by (simp add: execute_mode_def run_plan_keeps run_verify_keeps run_rollback_keeps run_rotate_keeps
      all_okD)

lemma execute_keeps:
  assumes a: "all_ok" and w: "I w"
  shows "I (snd (execute env cfg opt w))"
proof -
  define opt' where "opt' = with_defaults opt"
  define cfg' where "cfg' = run_config cfg opt'"
  define st where "st = first_state cfg' opt' w"
  have st: "J st" using w by (simp add: st_def J_def first_state_def)
  obtain x s1 where x: "preflight_targets env cfg' opt' st = (x, s1)"
    by (cases "preflight_targets env cfg' opt' st")
  have s1: "J s1"
    using preflight_targets_keeps [OF kube_reads_okI(1) [OF all_okD(2) [OF a]] st, of cfg' opt'] x
    by simp
  have run: "J (snd (execute_github env opt' pr s1))" "J (snd (execute_vault env cfg' opt' pr s1))" for pr
  proof -
    show "J (snd (execute_github env opt' pr s1))"
      using s1 a by (simp add: execute_github_def Let_def plan_github_keeps rotate_github_keeps all_okD)
    show "J (snd (execute_vault env cfg' opt' pr s1))"
      using a by (intro execute_vault_keeps all_okD s1 execute_mode_keeps)
  qed
  have run': "execute_github env opt' pr s1 = (e, t) \<Longrightarrow> J t"
    "execute_vault env cfg' opt' pr s1 = (e, t) \<Longrightarrow> J t" for pr e t
    using run [of pr] by auto
  have world: "I (rn_world s) = J s" for s by (simp add: J_def)
  show ?thesis
    unfolding execute_def Let_def opt'_def [symmetric] cfg'_def [symmetric] st_def [symmetric] x
    using w st s1 run'
    by (auto simp: world split: option.split sum.split prod.split
        dest: set_phase_keeps [of st "''preflight''" "''failed''"])
qed

end

end
