(* ===== verification/SecretsProps.thy ===== *)
theory SecretsProps
  imports SecretsWorld
begin

text \<open>
  What a secrets rotation promises: a dry run or a plan only reads, the parsed targets are valid
  names, the texts that are stored hide the values, a successful run leaves no phase open.
\<close>

section \<open>The log of a run\<close>

text \<open>The log has grown by admissible requests.\<close>

definition grows :: "(http_req \<Rightarrow> bool) \<Rightarrow> http_entry list \<Rightarrow> 'w \<times> http_entry list \<Rightarrow> bool" where
  "grows ok base wl \<longleftrightarrow> (\<exists>l. snd wl = base @ l \<and> (\<forall>e \<in> set l. ok (fst e)))"

lemma growsE:
  assumes "grows ok base wl"
  obtains l where "snd wl = base @ l" "\<forall>e \<in> set l. ok (fst e)"
  using assms by (auto simp: grows_def)

lemma grows_refl [simp]: "grows ok (snd wl) wl"
  by (simp add: grows_def)

lemma grows_trans:
  "grows ok a (w, b) \<Longrightarrow> grows ok b wl \<Longrightarrow> grows ok a wl"
  by (auto simp: grows_def)

interpretation logged: rot_world "logged_env env" "grows ok base" ok
  for env :: "'w rot_env" and ok base
proof
  show "ok q \<Longrightarrow> grows ok base w \<Longrightarrow> grows ok base (snd (rt_http (logged_env env) q w))" for q w
    by (auto simp: grows_def logged_env_def logged_http_def split: prod.split)
next
  have "grows ok base w \<Longrightarrow> grows ok base (snd (lift_log f w))" for w and f :: "'w \<Rightarrow> 'a \<times> 'w"
    by (auto simp: grows_def lift_log_def split: prod.split)
  then show "grows ok base w \<Longrightarrow> grows ok base (snd (rt_random (logged_env env) w))"
    "grows ok base w \<Longrightarrow> grows ok base (snd (rt_now (logged_env env) w))"
    "grows ok base w \<Longrightarrow> grows ok base (snd (rt_wait (logged_env env) s w))"
    "grows ok base w \<Longrightarrow> grows ok base (snd (rt_polls (logged_env env) w))"
    "grows ok base w \<Longrightarrow> grows ok base (snd (rt_seal (logged_env env) k v w))" for w s k v
    by (auto simp: logged_env_def grows_def lift_log_def split: prod.split)
qed (simp add: grows_def logged_env_def)

text \<open>
  C25: A dry run and a plan only read. Whatever the servers answer, every request of a run whose
  options ask for a dry run or a plan is a GET: no secret is written, deleted, patched or pushed
  and nothing is restarted.
\<close>

theorem dry_run_only_reads:
  assumes "only_reports (with_defaults opt)"
    and "execute (logged_env env) cfg opt (w, []) = (result, (w', reqs))"
  shows "\<forall>e \<in> set reqs. hq_method (fst e) = ''GET''"
proof -
  define get where "get = (\<lambda>q :: http_req. hq_method q = ''GET'')"
  have "logged.reads_ok get"
    by (simp add: logged.reads_ok_def get_def)
  moreover have "grows get [] (w, [])" by (simp add: grows_def)
  ultimately have "grows get [] (snd (execute (logged_env env) cfg opt (w, [])))"
    by (rule logged.execute_reports_keeps [OF _ assms(1)])
  with assms(2) show ?thesis
    by (auto simp: grows_def get_def)
qed


section \<open>A small environment\<close>

text \<open>
  The environment the properties are tried in: a server that answers by method and address, random
  values that are all the same, and no waiting.
\<close>

definition test_env :: "(http_req \<Rightarrow> 'w \<Rightarrow> (go_err + http_resp) \<times> 'w) \<Rightarrow> 'w rot_env" where
  "test_env serve =
     \<lparr>rt_http = serve, rt_random = (\<lambda>w. (''fresh'', w)), rt_now = (\<lambda>w. (0, w)),
      rt_wait = (\<lambda>s w. (None, w)), rt_polls = (\<lambda>w. (0, w)), rt_getenv = (\<lambda>n. []),
      rt_read_file = (\<lambda>n. Inl (True, ErrText ''no file'')), rt_yaml = (\<lambda>t. Inl (ErrText ''no yaml'')),
      rt_ca_ok = (\<lambda>t. True), rt_key_pair = (\<lambda>c k. None), rt_seal = (\<lambda>k v w. (Inr v, w)),
      rt_on_phase = (\<lambda>p w. w)\<rparr>"

definition test_config :: rot_config where
  "test_config =
     \<lparr>cf_addr = ''http://vault'', cf_token = ''t'', cf_namespace = [], cf_ui_login = [],
      cf_docs_url = [], cf_kubeconfig_dir = [], cf_github_token = [], cf_github_api = [],
      cf_rp_url = [], cf_rp_token = [], cf_rp_prod_password = []\<rparr>"

definition test_opts :: "string \<Rightarrow> bool \<Rightarrow> rot_opts" where
  "test_opts mode dry =
     \<lparr>op_mode = mode, op_provider = [], op_addr = [], op_token = [], op_namespace = [],
      op_mount = ''secret'', op_path = ''app'', op_engine = ''kv2'', op_keys = [''a''], op_grace = 0,
      op_retire = True, op_dry = dry, op_new = [],
      op_prop = \<lparr>pp_source = ''vault'', pp_cluster = [], pp_external = [], pp_k8s = [],
        pp_github_repo = [], pp_github_env = [], pp_github_names = [], pp_app = [], pp_rings = [],
        pp_deployments = []\<rparr>, op_run_id = []\<rparr>"

definition reply :: "nat \<Rightarrow> string \<Rightarrow> 'w \<Rightarrow> (go_err + http_resp) \<times> 'w" where
  "reply code body w = (Inr \<lparr>hr_status = code, hr_body = body\<rparr>, w)"

theorem dry_run_only_reads_witness:
  "list_all (\<lambda>e. hq_method (fst e) = ''GET'')
     (snd (snd (execute (logged_env (test_env (\<lambda>q. reply 404 []))) test_config
        (test_opts ''rotate'' True) ((), []))))"
proof -
  let ?run = "execute (logged_env (test_env (\<lambda>q. reply 404 []))) test_config
      (test_opts ''rotate'' True) ((), [])"
  have o: "only_reports (with_defaults (test_opts ''rotate'' True))"
    by (simp add: only_reports_def with_defaults_def test_opts_def)
  obtain result w' reqs where run: "?run = (result, (w', reqs))" by (metis surj_pair)
  show ?thesis
    using dry_run_only_reads [OF o run] by (simp add: run list_all_iff)
qed

end
