(* ===== verification/SecretsOrder.thy ===== *)
theory SecretsOrder
  imports SecretsProps
begin

text \<open>
  The order in which a live rotation talks to the servers: read, write, verify, propagate, retire.
\<close>

section \<open>What a reply means\<close>

definition vault_reply :: "go_err + http_resp \<Rightarrow> nat \<times> go_err option \<times> obj" where
  "vault_reply r =
     (case r of
        Inl e \<Rightarrow> (0, Some e, [])
      | Inr resp \<Rightarrow>
          (let raw = take 1048576 (hr_body resp); code = hr_status resp
           in (code,
               (if code \<ge> 400 \<and> code \<noteq> 404
                then Some (ErrText (''vault HTTP '' @ show_nat code @ '': ''
                       @ cut_at 240 (trim_space raw)))
                else None),
               body_map raw)))"

lemma vault_do_reply:
  "cf_addr cfg \<noteq> [] \<Longrightarrow>
     vault_do env cfg m p b w
       = (case rt_http env (vault_req cfg m p b) w of (r, w1) \<Rightarrow> (vault_reply r, w1))"
  by (auto simp: vault_do_def vault_reply_def Let_def split: prod.split sum.split)

text \<open>The secret a reply to a read holds, or why it holds none.\<close>

definition read_result :: "string \<Rightarrow> string \<Rightarrow> go_err + http_resp \<Rightarrow> go_err + (obj \<times> secret_meta)" where
  "read_result mount path r =
     (case vault_reply r of
        (code, Some e, raw) \<Rightarrow> Inl e
      | (code, None, raw) \<Rightarrow>
          if code = 404 then Inl (not_found_at (trim_slashes mount) (trim_slashes path))
          else if code \<ge> 300 then Inl (ErrText (''read failed: HTTP '' @ show_nat code))
          else Inr (parse_kv2 raw))"

text \<open>What a rotation takes the current secret to be.\<close>

definition current_secret :: "string \<Rightarrow> string \<Rightarrow> go_err + http_resp \<Rightarrow> obj \<times> int" where
  "current_secret mount path r =
     (case read_result mount path r of
        Inl e \<Rightarrow> ([], 0) | Inr (d, meta) \<Rightarrow> (d, sm_version meta))"

definition read_req :: "rot_config \<Rightarrow> rot_opts \<Rightarrow> http_req" where
  "read_req cfg opt = vault_req cfg ''GET'' (data_path (op_mount opt) (op_path opt)) None"

definition write_req :: "rot_config \<Rightarrow> rot_opts \<Rightarrow> obj \<Rightarrow> int \<Rightarrow> http_req" where
  "write_req cfg opt data cas =
     vault_req cfg ''POST'' (data_path (op_mount opt) (op_path opt)) (Some (write_body data cas))"

definition delete_req :: "rot_config \<Rightarrow> rot_opts \<Rightarrow> int \<Rightarrow> http_req" where
  "delete_req cfg opt v =
     vault_req cfg ''POST'' (''/v1/'' @ trim_slashes (op_mount opt) @ ''/delete/''
       @ trim_slashes (op_path opt)) (Some (versions_body [v]))"

section \<open>Logs of the single steps\<close>

definition reqs_of :: "('w \<times> http_entry list) rot_state \<Rightarrow> http_entry list" where
  "reqs_of st = snd (rn_world st)"

lemma reqs_of_updates [simp]:
  "reqs_of (upd_result f st) = reqs_of st" "reqs_of (warn m st) = reqs_of st"
  "reqs_of (st\<lparr>rn_out := d\<rparr>) = reqs_of st"
  by (simp_all add: reqs_of_def upd_result_def warn_def)

lemma reqs_of_set_phase [simp]: "reqs_of (set_phase (logged_env env) k s m st) = reqs_of st"
  by (auto simp: reqs_of_def set_phase_def Let_def logged_env_def split: option.split)

lemma reqs_of_skip_pending [simp]: "reqs_of (skip_pending (logged_env env) r st) = reqs_of st"
proof -
  have "reqs_of (foldl (\<lambda>s p. if ph_status p = ''pending''
      then set_phase (logged_env env) (ph_key p) ''skipped'' r s else s) s ps) = reqs_of s" for s ps
    by (induction ps arbitrary: s) auto
  then show ?thesis by (simp add: skip_pending_def)
qed

text \<open>The replies a server gives to a request.\<close>

definition replies :: "'w rot_env \<Rightarrow> http_req \<Rightarrow> (go_err + http_resp) set" where
  "replies env q = range (\<lambda>w. fst (rt_http env q w))"

lemma logged_http_step:
  "\<exists>r w1. rt_http (logged_env env) q wl = (r, (w1, snd wl @ [(q, r)])) \<and> r \<in> replies env q"
  unfolding replies_def
  by (auto simp: logged_env_def logged_http_def image_iff split: prod.split) (metis fst_conv)

lemma lift_world_log:
  assumes "snd (f (rn_world st)) = (w1, l)"
  obtains x st1 where "lift_world f st = (x, st1)" "reqs_of st1 = l" "x = fst (f (rn_world st))"
    "rn_out st1 = rn_out st" "rn_redact st1 = rn_redact st"
  using assms by (cases "f (rn_world st)") (simp add: lift_world_def reqs_of_def)

lemma read_kv2_reply:
  "cf_addr cfg \<noteq> [] \<Longrightarrow>
     read_kv2 env cfg m p 0 w
       = (case rt_http env (vault_req cfg ''GET'' (data_path m p) None) w of
            (r, w1) \<Rightarrow> (read_result m p r, w1))"
  by (simp add: read_kv2_def vault_do_reply read_result_def Let_def split: prod.split option.split)

lemma read_logged:
  assumes "cf_addr cfg \<noteq> []"
  shows "\<exists>r st'. lift_world (read_kv2 (logged_env env) cfg (op_mount opt) (op_path opt) 0) st
             = (read_result (op_mount opt) (op_path opt) r, st')
           \<and> reqs_of st' = reqs_of st @ [(read_req cfg opt, r)]
           \<and> r \<in> replies env (read_req cfg opt)
           \<and> r = fst (rt_http (logged_env env) (read_req cfg opt) (rn_world st))"
proof -
  obtain r w1 where "rt_http (logged_env env) (read_req cfg opt) (rn_world st)
      = (r, (w1, reqs_of st @ [(read_req cfg opt, r)]))" "r \<in> replies env (read_req cfg opt)"
    using logged_http_step [of env "read_req cfg opt" "rn_world st"] by (auto simp: reqs_of_def)
  then show ?thesis
    using assms by (simp add: lift_world_def read_kv2_reply read_req_def reqs_of_def)
qed

lemma read_current_logged:
  assumes "cf_addr cfg \<noteq> []"
  shows "\<exists>r st'. read_current (logged_env env) cfg opt st
             = (current_secret (op_mount opt) (op_path opt) r, st')
           \<and> reqs_of st' = reqs_of st @ [(read_req cfg opt, r)]
           \<and> r \<in> replies env (read_req cfg opt)
           \<and> r = fst (rt_http (logged_env env) (read_req cfg opt) (rn_world st))"
proof -
  obtain r st1 where 1: "lift_world (read_kv2 (logged_env env) cfg (op_mount opt) (op_path opt) 0) st
      = (read_result (op_mount opt) (op_path opt) r, st1)"
    "reqs_of st1 = reqs_of st @ [(read_req cfg opt, r)]" "r \<in> replies env (read_req cfg opt)"
    "r = fst (rt_http (logged_env env) (read_req cfg opt) (rn_world st))"
    using read_logged [OF assms] by blast
  show ?thesis
    by (rule exI [of _ r])
       (use 1 in \<open>simp add: read_current_def current_secret_def split: sum.split prod.split\<close>)
qed

lemma write_next_logged:
  assumes "cf_addr cfg \<noteq> []"
  shows "\<exists>r err st'. write_next (logged_env env) cfg opt data v st = (err, st')
           \<and> reqs_of st' = reqs_of st @ [(write_req cfg opt data v, r)]"
proof -
  obtain r w1 where "rt_http (logged_env env) (write_req cfg opt data v) (rn_world st)
      = (r, (w1, reqs_of st @ [(write_req cfg opt data v, r)]))"
    using logged_http_step [of env "write_req cfg opt data v" "rn_world st"]
    by (auto simp: reqs_of_def)
  then have w: "snd (write_kv2 (logged_env env) cfg (op_mount opt) (op_path opt) data v (rn_world st))
      = (w1, reqs_of st @ [(write_req cfg opt data v, r)])"
    using assms by (simp add: write_kv2_world vault_do_reply write_req_def)
  obtain x st1 where x: "lift_world (write_kv2 (logged_env env) cfg (op_mount opt) (op_path opt)
      data v) st = (x, st1)" and st1: "reqs_of st1 = reqs_of st @ [(write_req cfg opt data v, r)]"
    using lift_world_log [where st = st and f = "write_kv2 (logged_env env) cfg (op_mount opt)
        (op_path opt) data v", OF w] by blast
  show ?thesis
    by (rule exI [of _ r]) (cases x; simp add: write_next_def x st1 Let_def)
qed

lemma dual_window_logged [simp]:
  "reqs_of (snd (dual_window (logged_env env) opt st)) = reqs_of st"
proof -
  have w: "reqs_of (snd (lift_world (rt_wait (logged_env env) g) s)) = reqs_of s" for g s
    by (simp add: lift_world_def logged_env_def lift_log_def reqs_of_def split: prod.split)
  show ?thesis
    unfolding dual_window_def Let_def
    by (rule keeps_option [where P = "\<lambda>s. reqs_of s = reqs_of st"]) (simp_all add: w)
qed

lemma verify_latest_logged:
  assumes "cf_addr cfg \<noteq> []"
  shows "\<exists>r err st'. verify_latest (logged_env env) cfg opt st = (err, st')
           \<and> reqs_of st' = reqs_of st @ [(read_req cfg opt, r)]"
proof -
  obtain r st1 where 1: "lift_world (read_kv2 (logged_env env) cfg (op_mount opt) (op_path opt) 0)
      (set_phase (logged_env env) ''verify'' ''active'' ''Reading latest'' st)
      = (read_result (op_mount opt) (op_path opt) r, st1)"
    "reqs_of st1 = reqs_of st @ [(read_req cfg opt, r)]"
    using read_logged [OF assms] reqs_of_set_phase by metis
  show ?thesis
    by (rule exI [of _ r])
       (use 1 in \<open>simp add: verify_latest_def Let_def split: sum.split prod.split\<close>)
qed

lemma retire_old_logged:
  assumes "cf_addr cfg \<noteq> []"
  shows "\<exists>r. reqs_of (retire_old (logged_env env) cfg opt v st)
           = reqs_of st @ (if op_retire opt \<and> v > 0 then [(delete_req cfg opt v, r)] else [])"
proof (cases "op_retire opt \<and> v > 0")
  case True
  define s0 where "s0 = set_phase (logged_env env) ''retire_old'' ''active''
      (''Soft-deleting version '' @ show_int v) st"
  obtain r w1 where "rt_http (logged_env env) (delete_req cfg opt v) (rn_world s0)
      = (r, (w1, reqs_of s0 @ [(delete_req cfg opt v, r)]))"
    using logged_http_step [of env "delete_req cfg opt v" "rn_world s0"]
    by (auto simp: reqs_of_def)
  then have w: "snd (soft_delete_versions (logged_env env) cfg (op_mount opt) (op_path opt) [v]
      (rn_world s0)) = (w1, reqs_of s0 @ [(delete_req cfg opt v, r)])"
    using assms by (simp add: soft_delete_versions_def vault_command_world vault_do_reply delete_req_def)
  obtain x st1 where x: "lift_world (soft_delete_versions (logged_env env) cfg (op_mount opt)
      (op_path opt) [v]) s0 = (x, st1)" and st1: "reqs_of st1 = reqs_of s0 @ [(delete_req cfg opt v, r)]"
    using lift_world_log [where st = s0 and f = "soft_delete_versions (logged_env env) cfg
        (op_mount opt) (op_path opt) [v]", OF w] by blast
  have "reqs_of s0 = reqs_of st" by (simp add: s0_def)
  then show ?thesis
    using True st1 unfolding retire_old_def s0_def [symmetric] x
    by (intro exI [of _ r]) (cases x; simp)
next
  case False
  show ?thesis unfolding retire_old_def if_not_P [OF False] by simp
qed

lemma propagate_or_skip_logged:
  assumes "propagate_or_skip (logged_env env) pr values v q st = (err, st')"
  obtains l where "reqs_of st' = reqs_of st @ l" "\<forall>e \<in> set l. hq_to (fst e) \<noteq> ToVault"
proof -
  define push where "push = (\<lambda>q :: http_req. hq_to q \<noteq> ToVault)"
  have "logged.pushes push p" for p
    by (simp add: logged.pushes_def logged.pushes_ok_def push_def)
  then have "logged.J push (reqs_of st) (snd (propagate_or_skip (logged_env env) pr values v q st))"
    by (intro logged.propagate_or_skip_keeps) (simp_all add: logged.J_def reqs_of_def)
  with assms that show thesis
    by (auto simp: logged.J_def grows_def push_def reqs_of_def)
qed

section \<open>The requests of a live rotation\<close>

text \<open>After the write: the dual window, the verification, the propagation and the retirement.\<close>

definition after_write ::
  "rot_config \<Rightarrow> rot_opts \<Rightarrow> int \<Rightarrow> go_err option \<Rightarrow> http_entry list \<Rightarrow> bool" where
  "after_write cfg opt v err l \<longleftrightarrow>
     (l = [] \<and> err \<noteq> None) \<or>
     (\<exists>r pushes retire. l = (read_req cfg opt, r) # pushes @ retire
        \<and> list_all (\<lambda>e. hq_to (fst e) \<noteq> ToVault) pushes
        \<and> map fst retire = (if err = None \<and> op_retire opt \<and> v > 0 then [delete_req cfg opt v] else []))"

lemma rotate_live_logged:
  assumes a: "cf_addr cfg \<noteq> []"
    and live: "rotate_live (logged_env env) cfg opt pr data keys v st = (err, st')"
  shows "\<exists>r l. reqs_of st' = reqs_of st @ (write_req cfg opt data v, r) # l
           \<and> after_write cfg opt v err l"
proof -
  obtain r err1 st1 where 1: "write_next (logged_env env) cfg opt data v st = (err1, st1)"
    "reqs_of st1 = reqs_of st @ [(write_req cfg opt data v, r)]"
    using write_next_logged [OF a] by blast
  obtain err2 st2 where 2: "dual_window (logged_env env) opt st1 = (err2, st2)"
    "reqs_of st2 = reqs_of st1"
    by (metis surj_pair dual_window_logged snd_conv)
  obtain r3 err3 st3 where 3: "verify_latest (logged_env env) cfg opt st2 = (err3, st3)"
    "reqs_of st3 = reqs_of st2 @ [(read_req cfg opt, r3)]"
    using verify_latest_logged [OF a] by blast
  obtain err4 st4 where 4: "propagate_or_skip (logged_env env) pr (string_values data keys)
      (rz_current (ro_result (rn_out st3))) True st3 = (err4, st4)"
    by (metis surj_pair)
  obtain l where l: "reqs_of st4 = reqs_of st3 @ l" "\<forall>e \<in> set l. hq_to (fst e) \<noteq> ToVault"
    by (rule propagate_or_skip_logged [OF 4])
  obtain r5 where 5: "reqs_of (retire_old (logged_env env) cfg opt v st4)
      = reqs_of st4 @ (if op_retire opt \<and> v > 0 then [(delete_req cfg opt v, r5)] else [])"
    using retire_old_logged [OF a] by blast
  show ?thesis
  proof (cases "err1 = None \<and> err2 = None")
    case False
    with live 1 2 have "reqs_of st' = reqs_of st @ [(write_req cfg opt data v, r)]" "err \<noteq> None"
      by (auto simp: rotate_live_def split: option.splits)
    then show ?thesis by (intro exI [of _ r] exI [of _ "[]"]) (simp add: after_write_def)
  next
    case ok: True
    define fin where "fin = (if err3 = None \<and> err4 = None \<and> op_retire opt \<and> v > 0
        then [(delete_req cfg opt v, r5)] else [])"
    define mid where "mid = (if err3 = None then l else [])"
    have err: "err = None \<longleftrightarrow> err3 = None \<and> err4 = None"
      using live 1(1) 2(1) 3(1) 4 ok by (auto simp: rotate_live_def split: option.splits)
    have "reqs_of st' = reqs_of st @ (write_req cfg opt data v, r) # (read_req cfg opt, r3) # mid @ fin"
      using live 1 2 3 4 5 l(1) ok
      by (auto simp: rotate_live_def fin_def mid_def split: option.splits if_splits)
    moreover have "after_write cfg opt v err ((read_req cfg opt, r3) # mid @ fin)"
      unfolding after_write_def
      by (intro disjI2 exI [of _ r3] exI [of _ mid] exI [of _ fin])
         (use l(2) in \<open>simp add: list_all_iff fin_def mid_def err\<close>)
    ultimately show ?thesis by blast
  qed
qed

lemma next_secret_logged:
  "reqs_of (snd (lift_world (next_secret (logged_env env) opt cur) st)) = reqs_of st"
proof -
  have "logged.J (\<lambda>q. False) (reqs_of st) (snd (lift_world (next_secret (logged_env env) opt cur) st))"
    by (intro logged.lift_world_keeps logged.next_secret_keeps)
       (simp_all add: logged.J_def reqs_of_def)
  then obtain l where "reqs_of (snd (lift_world (next_secret (logged_env env) opt cur) st))
      = reqs_of st @ l" "\<forall>e \<in> set l. False"
    unfolding logged.J_def grows_def reqs_of_def by blast
  then show ?thesis by (cases l) auto
qed

lemma map_put_lookup: "map_of (map_put m kv) k = (if k = fst kv then Some (snd kv) else map_of m k)"
  by (cases kv) (simp add: map_put_def update_conv')

lemma foldl_map_put_same:
  "k \<notin> fst ` set kvs \<Longrightarrow> map_of (foldl map_put m kvs) k = map_of m k"
  by (induction kvs arbitrary: m) (auto simp: map_put_lookup)

lemma generate_each_same:
  "k \<notin> set ks \<Longrightarrow> map_of (fst (generate_each env ks m w)) k = map_of m k"
  by (induction ks arbitrary: m w) (auto simp: map_put_lookup split: prod.split)

text \<open>Only the keys that are rotated or given change.\<close>

lemma next_secret_changes:
  "{k. map_of (fst (fst (next_secret env opt cur w))) k \<noteq> map_of cur k}
     \<subseteq> set (rotation_keys (op_keys opt) cur) \<union> fst ` set (op_new opt)"
proof
  fix k
  assume k: "k \<in> {k. map_of (fst (fst (next_secret env opt cur w))) k \<noteq> map_of cur k}"
  show "k \<in> set (rotation_keys (op_keys opt) cur) \<union> fst ` set (op_new opt)"
  proof (rule ccontr)
    assume "\<not> ?thesis"
    then have "map_of (fst (fst (next_secret env opt cur w))) k = map_of cur k"
      using generate_each_same [of k "rotation_keys (op_keys opt) cur" env cur w]
      by (auto simp: next_secret_def Let_def foldl_map_put_same split: prod.split)
    with k show False by simp
  qed
qed

lemma rotate_kv2_logged:
  assumes "cf_addr cfg \<noteq> []" and "\<not> op_dry opt" and "reqs_of st = []"
    and "rotate_kv2 (logged_env env) cfg opt pr st = (err, st')"
  shows "\<exists>r1 cur v data r2 rest.
           reqs_of st' = (read_req cfg opt, r1) # (write_req cfg opt data v, r2) # rest
         \<and> r1 \<in> replies env (read_req cfg opt)
         \<and> current_secret (op_mount opt) (op_path opt) r1 = (cur, v)
         \<and> {k. map_of data k \<noteq> map_of cur k}
             \<subseteq> set (rotation_keys (op_keys opt) cur) \<union> fst ` set (op_new opt)
         \<and> after_write cfg opt v err rest"
proof -
  define s0 where "s0 = set_phase (logged_env env) ''read'' ''active'' ''Reading current secret'' st"
  have s0: "reqs_of s0 = []" using assms(3) by (simp add: s0_def)
  obtain r1 s1 where 1: "read_current (logged_env env) cfg opt s0
      = (current_secret (op_mount opt) (op_path opt) r1, s1)" "reqs_of s1 = [(read_req cfg opt, r1)]"
    "r1 \<in> replies env (read_req cfg opt)"
    using read_current_logged [OF assms(1)] s0 by fastforce
  obtain cur v where cv: "current_secret (op_mount opt) (op_path opt) r1 = (cur, v)"
    by (metis surj_pair)
  obtain data keys s2 where 2: "lift_world (next_secret (logged_env env) opt cur) s1 = ((data, keys), s2)"
    by (metis surj_pair)
  have s2: "reqs_of s2 = [(read_req cfg opt, r1)]"
    using next_secret_logged [of env opt cur s1] 1 2 by simp
  define s3 where "s3 = set_phase (logged_env env) ''write_new'' ''active'' ''Writing next version''
      (upd_result (\<lambda>r. r\<lparr>rz_keys := keys\<rparr>) s2)"
  have live: "rotate_live (logged_env env) cfg opt pr data keys v s3 = (err, st')"
    using assms(2,4) unfolding rotate_kv2_def s0_def [symmetric] 1(1) cv 2 prod.case Let_def
      s3_def [symmetric] by simp
  have "reqs_of s3 = [(read_req cfg opt, r1)]" by (simp add: s3_def s2)
  then obtain r2 rest where "reqs_of st' = (read_req cfg opt, r1) # (write_req cfg opt data v, r2) # rest"
    "after_write cfg opt v err rest"
    using rotate_live_logged [OF assms(1) live] by auto
  moreover have "{k. map_of data k \<noteq> map_of cur k}
      \<subseteq> set (rotation_keys (op_keys opt) cur) \<union> fst ` set (op_new opt)"
    using next_secret_changes [of "logged_env env" opt cur "rn_world s1"] 2
    by (simp add: lift_world_def split: prod.splits)
  ultimately show ?thesis using cv 1(3) by blast
qed

lemma current_secret_cases:
  "current_secret mount path r = (cur, v) \<Longrightarrow>
     (cur = [] \<and> v = 0 \<and> isl (read_result mount path r))
     \<or> (\<exists>meta. read_result mount path r = Inr (cur, meta) \<and> sm_version meta = v)"
  by (auto simp: current_secret_def split: sum.splits)

text \<open>The body of a write: check-and-set for a version that was read, none otherwise.\<close>

lemma write_req_body:
  "hq_body (write_req cfg opt data v) = Some (JObj ((''data'', JObj data) #
     (if v > 0 then [(''options'', JObj [(''cas'', JNum (of_int v))])] else [])))"
  by (simp add: write_req_def vault_req_def write_body_def)

text \<open>
  C23: A live rotation reads, writes the next version, verifies, propagates and only then retires.
  Its first request reads the secret; the second writes the contents it read with no key changed
  but the rotated and given ones. The write carries the version that was read as its check-and-set
  when that is positive, and none otherwise: when the read gave no secret, because there is none or
  because it failed in whatever way, the write is unconditional and starts from no contents. Then it
  reads the secret back, and what follows goes to other services, until, exactly when everything
  before succeeded and there is an old version to retire, the very last request deletes that version.
\<close>

theorem live_rotation_requests:
  assumes "cf_addr cfg \<noteq> []" and "\<not> op_dry opt" and "reqs_of st = []"
    and "rotate_kv2 (logged_env env) cfg opt pr st = (err, st')"
  shows "\<exists>r1 cur v data r2 rest.
           reqs_of st' = (read_req cfg opt, r1) # (write_req cfg opt data v, r2) # rest
         \<and> r1 \<in> replies env (read_req cfg opt)
         \<and> ((cur = [] \<and> v = 0 \<and> isl (read_result (op_mount opt) (op_path opt) r1))
            \<or> (\<exists>meta. read_result (op_mount opt) (op_path opt) r1 = Inr (cur, meta) \<and> sm_version meta = v))
         \<and> {k. map_of data k \<noteq> map_of cur k}
             \<subseteq> set (rotation_keys (op_keys opt) cur) \<union> fst ` set (op_new opt)
         \<and> hq_body (write_req cfg opt data v) = Some (JObj ((''data'', JObj data) #
             (if v > 0 then [(''options'', JObj [(''cas'', JNum (of_int v))])] else [])))
         \<and> after_write cfg opt v err rest"
proof -
  obtain r1 cur v data r2 rest where 1:
    "reqs_of st' = (read_req cfg opt, r1) # (write_req cfg opt data v, r2) # rest"
    "r1 \<in> replies env (read_req cfg opt)"
    "current_secret (op_mount opt) (op_path opt) r1 = (cur, v)"
    "{k. map_of data k \<noteq> map_of cur k} \<subseteq> set (rotation_keys (op_keys opt) cur) \<union> fst ` set (op_new opt)"
    "after_write cfg opt v err rest"
    using rotate_kv2_logged [OF assms] by blast
  show ?thesis
    by (intro exI [of _ r1] exI [of _ cur] exI [of _ v] exI [of _ data] exI [of _ r2] exI [of _ rest])
       (intro conjI 1 current_secret_cases [OF 1(3)] write_req_body)
qed

abbreviation test_start_of :: "rot_opts \<Rightarrow> (unit \<times> http_entry list) rot_state" where
  "test_start_of opt \<equiv> first_state test_config opt ((), [])"

text \<open>A server that has the secret at version 3, and the requests of a rotation of its key.\<close>

definition third_version :: string where
  "third_version = ''{\"data\":{\"data\":{\"a\":\"old\",\"b\":\"keep\"},\"metadata\":{\"version\":3}}}''"

definition third_server :: "unit rot_env" where
  "third_server = test_env (\<lambda>q. reply 200 third_version)"

lemma third_parse:
  "(case parse_kv2 (body_map third_version) of
     (d, meta) \<Rightarrow> d = [(''a'', JStr ''old''), (''b'', JStr ''keep'')] \<and> sm_version meta = 3)"
  by code_simp

lemma third_read:
  assumes "r \<in> replies third_server q"
  shows "\<exists>meta. read_result m p r = Inr ([(''a'', JStr ''old''), (''b'', JStr ''keep'')], meta)
    \<and> sm_version meta = 3"
proof -
  have "r = Inr \<lparr>hr_status = 200, hr_body = third_version\<rparr>"
    using assms by (auto simp: replies_def third_server_def test_env_def reply_def)
  moreover have "length third_version \<le> 1048576" by (simp add: third_version_def)
  ultimately show ?thesis
    using third_parse by (auto simp: read_result_def vault_reply_def Let_def)
qed

theorem live_rotation_requests_witness:
  "\<exists>r1 data r2 rest.
     reqs_of (snd (rotate_kv2 (logged_env third_server) test_config
         (test_opts ''rotate'' False) None (test_start_of (test_opts ''rotate'' False))))
       = (read_req test_config (test_opts ''rotate'' False), r1)
         # (write_req test_config (test_opts ''rotate'' False) data 3, r2) # rest
     \<and> {k. map_of data k \<noteq> map_of [(''a'', JStr ''old''), (''b'', JStr ''keep'')] k} \<subseteq> {''a''}
     \<and> hq_body (write_req test_config (test_opts ''rotate'' False) data 3)
       = Some (JObj [(''data'', JObj data), (''options'', JObj [(''cas'', JNum 3)])])"
proof -
  let ?O = "test_opts ''rotate'' False"
  have pre: "cf_addr test_config \<noteq> []" "\<not> op_dry ?O" "reqs_of (test_start_of ?O) = []"
    by (simp_all add: test_config_def test_opts_def reqs_of_def first_state_def)
  have keys: "rotation_keys (op_keys ?O) cur = [''a'']" "op_new ?O = []" for cur
    by (simp_all add: test_opts_def rotation_keys_def)
  obtain r1 cur v data r2 rest where 1:
    "reqs_of (snd (rotate_kv2 (logged_env third_server) test_config ?O None (test_start_of ?O)))
      = (read_req test_config ?O, r1) # (write_req test_config ?O data v, r2) # rest"
    "r1 \<in> replies third_server (read_req test_config ?O)"
    "(cur = [] \<and> v = 0 \<and> isl (read_result (op_mount ?O) (op_path ?O) r1))
      \<or> (\<exists>meta. read_result (op_mount ?O) (op_path ?O) r1 = Inr (cur, meta) \<and> sm_version meta = v)"
    "{k. map_of data k \<noteq> map_of cur k} \<subseteq> set (rotation_keys (op_keys ?O) cur) \<union> fst ` set (op_new ?O)"
    "hq_body (write_req test_config ?O data v) = Some (JObj ((''data'', JObj data) #
       (if v > 0 then [(''options'', JObj [(''cas'', JNum (of_int v))])] else [])))"
    using live_rotation_requests [OF pre prod.collapse [symmetric], of third_server None] by blast
  have "cur = [(''a'', JStr ''old''), (''b'', JStr ''keep'')] \<and> v = 3"
    using third_read [OF 1(2), of "op_mount ?O" "op_path ?O"] 1(3) by auto
  then show ?thesis using 1(1,4,5) by (auto simp: keys simp del: map_of.simps)
qed

section \<open>A failing read\<close>

lemma current_secret_error:
  "hr_status resp \<ge> 500 \<Longrightarrow> current_secret m p (Inr resp) = ([], 0)"
  by (simp add: current_secret_def read_result_def vault_reply_def Let_def)

text \<open>
  A server error at the first read overwrites the secret. Any error of that read is taken for
  an absent secret, so the rotation goes on to write, without check-and-set, contents that hold
  the rotated and given keys and none of the others the secret may have.
\<close>

lemma read_error_overwrites:
  assumes "cf_addr cfg \<noteq> []" and "\<not> op_dry opt" and "reqs_of st = []"
    and "rotate_kv2 (logged_env env) cfg opt pr st = (err, st')"
    and "reqs_of st' = (q, Inr resp) # l" and "hr_status resp \<ge> 500"
  shows "\<exists>data r2 rest. l = (write_req cfg opt data 0, r2) # rest
           \<and> fst ` set data \<subseteq> set (rotation_keys (op_keys opt) []) \<union> fst ` set (op_new opt)
           \<and> hq_body (write_req cfg opt data 0) = Some (JObj [(''data'', JObj data)])"
proof -
  obtain r1 cur v data r2 rest where 1:
    "reqs_of st' = (read_req cfg opt, r1) # (write_req cfg opt data v, r2) # rest"
    "current_secret (op_mount opt) (op_path opt) r1 = (cur, v)"
    "{k. map_of data k \<noteq> map_of cur k} \<subseteq> set (rotation_keys (op_keys opt) cur) \<union> fst ` set (op_new opt)"
    using rotate_kv2_logged [OF assms(1-4)] by blast
  have c: "cur = [] \<and> v = 0" using 1 assms(5) current_secret_error [OF assms(6)] by simp
  have "fst ` set data = {k. map_of data k \<noteq> map_of cur k}"
    using c dom_map_of_conv_image_fst [of data] by (simp add: dom_def)
  with 1 c assms(5) show ?thesis
    by (auto simp: write_req_def vault_req_def write_body_def)
qed

end
