(* ===== verification/SecretsStore.thy ===== *)
theory SecretsStore
  imports SecretsOrder
begin

text \<open>
  A rotation as a step of the store behind the server: the abstract store of the versions of one
  secret, what a KV v2 server promises about it (any read may fail, and other users may write too),
  and the refinement: a rotation itself adds at most one version, and deletes at most the one it read.
\<close>

section \<open>The abstract store\<close>

text \<open>The versions that were written, the first being version 1, and those that were deleted.\<close>

record kv_store =
  kv_versions :: "obj list"
  kv_gone :: "int list"

definition kv_version :: "kv_store \<Rightarrow> int" where
  "kv_version s = int (length (kv_versions s))"

definition kv_latest :: "kv_store \<Rightarrow> (obj \<times> int) option" where
  "kv_latest s =
     (if kv_versions s = [] \<or> kv_version s \<in> set (kv_gone s) then None
      else Some (last (kv_versions s), kv_version s))"

definition kv_put :: "obj \<Rightarrow> kv_store \<Rightarrow> kv_store" where
  "kv_put d s = s\<lparr>kv_versions := kv_versions s @ [d]\<rparr>"

definition kv_delete :: "int \<Rightarrow> kv_store \<Rightarrow> kv_store" where
  "kv_delete v s = s\<lparr>kv_gone := kv_gone s @ [v]\<rparr>"

section \<open>What a server promises\<close>

definition accepted :: "go_err + http_resp \<Rightarrow> bool" where
  "accepted r \<longleftrightarrow> (case vault_reply r of (code, err, _) \<Rightarrow> err = None \<and> code < 300)"

text \<open>A read that yields no secret: an error or a refusal of any kind, or a reply that holds none.\<close>

definition read_fails :: "rot_opts \<Rightarrow> go_err + http_resp \<Rightarrow> bool" where
  "read_fails opt r \<longleftrightarrow>
     (case read_result (op_mount opt) (op_path opt) r of
        Inl e \<Rightarrow> True | Inr (d, meta) \<Rightarrow> d = [] \<and> sm_version meta = 0)"

text \<open>Any read may fail; one that does not yields the latest version.\<close>

definition reads_as :: "rot_opts \<Rightarrow> kv_store \<Rightarrow> go_err + http_resp \<Rightarrow> bool" where
  "reads_as opt s r \<longleftrightarrow>
     read_fails opt r \<or> kv_latest s = Some (current_secret (op_mount opt) (op_path opt) r)"

text \<open>A write with check-and-set is only done at that version; what is not accepted may be lost.\<close>

definition writes_as :: "kv_store \<Rightarrow> obj \<Rightarrow> int \<Rightarrow> go_err + http_resp \<Rightarrow> kv_store \<Rightarrow> bool" where
  "writes_as s d cas r s' \<longleftrightarrow>
     s' = kv_put d s \<and> (cas \<le> 0 \<or> cas = kv_version s) \<or> s' = s \<and> \<not> accepted r"

definition deletes_as :: "kv_store \<Rightarrow> int \<Rightarrow> go_err + http_resp \<Rightarrow> kv_store \<Rightarrow> bool" where
  "deletes_as s v r s' \<longleftrightarrow> s' = kv_delete v s \<or> s' = s \<and> \<not> accepted r"

text \<open>
  What the other users of the server may do to the secret between two requests: they may write and
  delete versions, and do not take written ones off the list.
\<close>

definition bystanders :: "(kv_store \<Rightarrow> kv_store \<Rightarrow> bool) \<Rightarrow> bool" where
  "bystanders others \<longleftrightarrow>
     (\<forall>a. others a a) \<and> (\<forall>a b c. others a b \<longrightarrow> others b c \<longrightarrow> others a c)
   \<and> (\<forall>a b. others a b \<longrightarrow> (\<exists>ds. kv_versions b = kv_versions a @ ds))"

text \<open>Only the requests to the server itself and the other users concern the store.\<close>

definition serves_kv2 ::
  "'w rot_env \<Rightarrow> rot_config \<Rightarrow> rot_opts \<Rightarrow> (kv_store \<Rightarrow> kv_store \<Rightarrow> bool) \<Rightarrow> ('w \<Rightarrow> kv_store) \<Rightarrow> bool" where
  "serves_kv2 env cfg opt others store \<longleftrightarrow>
     bystanders others
   \<and> (\<forall>s. rot_world env (\<lambda>w. others s (store w)) (\<lambda>q. hq_to q \<noteq> ToVault))
   \<and> (\<forall>w. case rt_http env (read_req cfg opt) w of
            (r, w1) \<Rightarrow> others (store w) (store w1) \<and> reads_as opt (store w1) r)
   \<and> (\<forall>w d c. case rt_http env (write_req cfg opt d c) w of
            (r, w1) \<Rightarrow> \<exists>s. others (store w) s \<and> writes_as s d c r (store w1))
   \<and> (\<forall>w v. case rt_http env (delete_req cfg opt v) w of
            (r, w1) \<Rightarrow> \<exists>s. others (store w) s \<and> deletes_as s v r (store w1))"

section \<open>The single steps on the store\<close>

definition store_of :: "('w \<Rightarrow> kv_store) \<Rightarrow> 'w rot_state \<Rightarrow> kv_store" where
  "store_of store st = store (rn_world st)"

lemma store_of_updates [simp]:
  "store_of store (upd_result f st) = store_of store st"
  "store_of store (warn m st) = store_of store st"
  by (simp_all add: store_of_def upd_result_def warn_def)

lemma serves_others:
  assumes "serves_kv2 env cfg opt others store"
  shows "others a a" and "others a b \<Longrightarrow> others b c \<Longrightarrow> others a c"
    and "others a b \<Longrightarrow> \<exists>ds. kv_versions b = kv_versions a @ ds"
  using assms unfolding serves_kv2_def bystanders_def by blast+

lemma store_quiet:
  assumes "serves_kv2 env cfg opt others store"
  shows "rot_world env (\<lambda>w. others s (store w)) (\<lambda>q. hq_to q \<noteq> ToVault)"
  using assms by (simp add: serves_kv2_def)

lemma store_J:
  assumes "serves_kv2 env cfg opt others store"
  shows "rot_world.J (\<lambda>w. others s (store w)) st \<longleftrightarrow> others s (store_of store st)"
  by (simp add: rot_world.J_def [OF store_quiet [OF assms]] store_of_def)

lemma store_set_phase:
  assumes "serves_kv2 env cfg opt others store" and "others a (store_of store st)"
  shows "others a (store_of store (set_phase env k s m st))"
  using rot_world.set_phase_keeps [OF store_quiet [OF assms(1)], of a st k s m] assms(2)
  by (simp add: store_J [OF assms(1)])

lemma store_propagate:
  assumes "serves_kv2 env cfg opt others store" and "others a (store_of store st)"
  shows "others a (store_of store (snd (propagate_or_skip env pr values v q st)))"
proof -
  note quiet = store_quiet [OF assms(1), of a]
  have "rot_world.pushes (\<lambda>q. hq_to q \<noteq> ToVault) p" for p
    by (simp add: rot_world.pushes_def [OF quiet] rot_world.pushes_ok_def [OF quiet])
  then show ?thesis
    using rot_world.propagate_or_skip_keeps [OF quiet, of pr st] assms(2)
    by (simp add: store_J [OF assms(1)])
qed

lemma store_next_secret:
  assumes "serves_kv2 env cfg opt others store" and "others a (store_of store st)"
  shows "others a (store_of store (snd (lift_world (next_secret env opt cur) st)))"
proof -
  note quiet = store_quiet [OF assms(1), of a]
  have "rot_world.J (\<lambda>w. others a (store w)) (snd (lift_world (next_secret env opt cur) st))"
    by (intro rot_world.lift_world_keeps [OF quiet] rot_world.next_secret_keeps [OF quiet])
       (simp_all add: store_J [OF assms(1)] assms(2))
  then show ?thesis by (simp add: store_J [OF assms(1)])
qed

lemma store_dual_window:
  assumes "serves_kv2 env cfg opt others store" and "others a (store_of store st)"
  shows "others a (store_of store (snd (dual_window env opt' st)))"
proof -
  note quiet = store_quiet [OF assms(1), of a]
  have w: "others a (store_of store (snd (lift_world (rt_wait env g) s)))"
    if "others a (store_of store s)" for g s
    using rot_world.lift_world_keeps [OF quiet, of "rt_wait env g" s] that
      rot_world.waiting [OF quiet]
    by (simp add: store_J [OF assms(1)])
  show ?thesis
    unfolding dual_window_def Let_def
    by (rule keeps_option [where P = "\<lambda>s. others a (store_of store s)"])
       (simp_all add: w store_set_phase [OF assms(1)] assms(2))
qed

lemma serves_kv2_replies:
  assumes "serves_kv2 env cfg opt others store"
  shows "rt_http env (read_req cfg opt) w = (r, w1)
      \<Longrightarrow> others (store w) (store w1) \<and> reads_as opt (store w1) r"
    and "rt_http env (write_req cfg opt d c) w = (r, w1)
      \<Longrightarrow> \<exists>s. others (store w) s \<and> writes_as s d c r (store w1)"
    and "rt_http env (delete_req cfg opt v) w = (r, w1)
      \<Longrightarrow> \<exists>s. others (store w) s \<and> deletes_as s v r (store w1)"
  using assms unfolding serves_kv2_def by (auto split: prod.splits)

lemma store_read:
  assumes sv: "serves_kv2 env cfg opt others store" and a: "cf_addr cfg \<noteq> []"
    and r: "rt_http env (read_req cfg opt) (rn_world st) = (r, w1)"
  shows "fst (read_current env cfg opt st) = current_secret (op_mount opt) (op_path opt) r"
    and "others (store w1) (store_of store (snd (read_current env cfg opt st)))"
proof -
  have l: "lift_world (read_kv2 env cfg (op_mount opt) (op_path opt) 0) st
      = (read_result (op_mount opt) (op_path opt) r, st\<lparr>rn_world := w1\<rparr>)"
    using r by (simp add: lift_world_def read_kv2_reply [OF a] read_req_def)
  have s: "others (store w1) (store_of store (st\<lparr>rn_world := w1\<rparr>))"
    by (simp add: store_of_def serves_others(1) [OF sv])
  show "fst (read_current env cfg opt st) = current_secret (op_mount opt) (op_path opt) r"
    unfolding read_current_def l current_secret_def by (simp split: sum.split prod.split)
  show "others (store w1) (store_of store (snd (read_current env cfg opt st)))"
    using s unfolding read_current_def l
    by (simp add: store_set_phase [OF sv] split: sum.split prod.split)
qed

lemma store_verify:
  assumes sv: "serves_kv2 env cfg opt others store" and a: "cf_addr cfg \<noteq> []"
    and st: "others b (store_of store st)"
  shows "others b (store_of store (snd (verify_latest env cfg opt st)))"
proof -
  define s0 where "s0 = set_phase env ''verify'' ''active'' ''Reading latest'' st"
  obtain r w1 where r: "rt_http env (read_req cfg opt) (rn_world s0) = (r, w1)"
    by (metis surj_pair)
  have "others (store_of store s0) (store w1)"
    using serves_kv2_replies(1) [OF sv r] by (simp add: store_of_def)
  then have 1: "others b (store_of store (s0\<lparr>rn_world := w1\<rparr>))"
    using serves_others(2) [OF sv store_set_phase [OF sv st]] by (simp add: store_of_def s0_def)
  have l: "lift_world (read_kv2 env cfg (op_mount opt) (op_path opt) 0) s0
      = (read_result (op_mount opt) (op_path opt) r, s0\<lparr>rn_world := w1\<rparr>)"
    using r by (simp add: lift_world_def read_kv2_reply [OF a] read_req_def)
  show ?thesis
    using 1 unfolding verify_latest_def s0_def [symmetric] l
    by (simp add: store_set_phase [OF sv] Let_def split: sum.split prod.split)
qed

lemma write_kv2_reply:
  assumes "cf_addr cfg \<noteq> []"
    and "rt_http env (vault_req cfg ''POST'' (data_path m p) (Some (write_body d c))) w = (r, w1)"
  shows "snd (write_kv2 env cfg m p d c w) = w1"
    and "isl (fst (write_kv2 env cfg m p d c w)) \<longleftrightarrow> \<not> accepted r"
  using assms
  by (auto simp: write_kv2_def vault_do_reply accepted_def Let_def split: prod.splits option.splits)

lemma vault_command_reply:
  assumes "cf_addr cfg \<noteq> []"
    and "rt_http env (vault_req cfg ''POST'' p b) w = (r, w1)"
  shows "snd (vault_command env cfg what p b w) = w1"
    and "fst (vault_command env cfg what p b w) = None \<longleftrightarrow> accepted r"
  using assms
  by (auto simp: vault_command_def vault_do_reply accepted_def split: prod.splits option.splits)

lemma store_write:
  assumes sv: "serves_kv2 env cfg opt others store" and a: "cf_addr cfg \<noteq> []"
    and st: "others b (store_of store st)"
    and w: "write_next env cfg opt data v st = (err, st')"
  shows "(\<exists>s. others b s \<and> (v > 0 \<longrightarrow> v = kv_version s) \<and> others (kv_put data s) (store_of store st'))
         \<or> err \<noteq> None \<and> others b (store_of store st')"
proof -
  obtain r w1 where r: "rt_http env (write_req cfg opt data v) (rn_world st) = (r, w1)"
    by (metis surj_pair)
  obtain s where s: "others b s" "writes_as s data v r (store w1)"
    using serves_kv2_replies(2) [OF sv r] serves_others(2) [OF sv st]
    unfolding store_of_def by blast
  obtain x where x: "write_kv2 env cfg (op_mount opt) (op_path opt) data v (rn_world st) = (x, w1)"
    "isl x \<longleftrightarrow> \<not> accepted r"
    using write_kv2_reply [OF a r [unfolded write_req_def]] by (metis prod.collapse)
  have "others (store w1) (store_of store (st\<lparr>rn_world := w1\<rparr>))"
    by (simp add: store_of_def serves_others(1) [OF sv])
  then have "others (store w1) (store_of store st')" and "err = None \<longleftrightarrow> accepted r"
    using w x unfolding write_next_def lift_world_def
    by (auto simp: Let_def store_set_phase [OF sv] split: sum.splits)
  with s show ?thesis unfolding writes_as_def using serves_others(2) [OF sv] by fastforce
qed

lemma store_retire:
  assumes sv: "serves_kv2 env cfg opt others store" and a: "cf_addr cfg \<noteq> []"
    and st: "others b (store_of store st)"
  shows "others b (store_of store (retire_old env cfg opt v st))
         \<or> op_retire opt \<and> v > 0
           \<and> (\<exists>s. others b s \<and> others (kv_delete v s) (store_of store (retire_old env cfg opt v st)))"
proof (cases "op_retire opt \<and> v > 0")
  case True
  define s0 where "s0 = set_phase env ''retire_old'' ''active''
      (''Soft-deleting version '' @ show_int v) st"
  obtain r w1 where r: "rt_http env (delete_req cfg opt v) (rn_world s0) = (r, w1)"
    by (metis surj_pair)
  have s0: "others b (store_of store s0)" by (simp add: s0_def store_set_phase [OF sv st])
  obtain s where s: "others b s" "deletes_as s v r (store w1)"
    using serves_kv2_replies(3) [OF sv r] serves_others(2) [OF sv s0]
    unfolding store_of_def by blast
  obtain x where x: "soft_delete_versions env cfg (op_mount opt) (op_path opt) [v] (rn_world s0)
      = (x, w1)"
    using vault_command_reply(1) [OF a r [unfolded delete_req_def]]
    unfolding soft_delete_versions_def by (metis prod.collapse)
  have "others (store w1) (store_of store (s0\<lparr>rn_world := w1\<rparr>))"
    by (simp add: store_of_def serves_others(1) [OF sv])
  then have "others (store w1) (store_of store (retire_old env cfg opt v st))"
    using True unfolding retire_old_def s0_def [symmetric] lift_world_def x
    by (auto simp: store_set_phase [OF sv] split: option.splits)
  with s True show ?thesis unfolding deletes_as_def using serves_others(2) [OF sv] by fastforce
next
  case False
  show ?thesis unfolding retire_old_def if_not_P [OF False] by (simp add: store_set_phase [OF sv st])
qed

section \<open>The refinement\<close>

text \<open>
  The abstract rotation, from the store that was read to the store at its end: one version is added,
  right after the one that was read where that is positive, and afterwards, by a successful rotation
  that retires, the version that was read may be deleted; a failed one may have added it or not. All
  else is done by the others.
\<close>

definition rotated ::
  "(kv_store \<Rightarrow> kv_store \<Rightarrow> bool) \<Rightarrow> rot_opts \<Rightarrow> obj \<Rightarrow> int \<Rightarrow> go_err option \<Rightarrow> kv_store \<Rightarrow> kv_store
     \<Rightarrow> bool" where
  "rotated others opt data v err s s' \<longleftrightarrow>
     err \<noteq> None \<and> others s s'
   \<or> (\<exists>s2. others s s2 \<and> (v > 0 \<longrightarrow> kv_versions s2 = kv_versions s)
        \<and> (others (kv_put data s2) s'
           \<or> err = None \<and> op_retire opt \<and> v > 0
             \<and> (\<exists>s3. others (kv_put data s2) s3 \<and> others (kv_delete v s3) s')))"

lemma store_rotate_live:
  assumes sv: "serves_kv2 env cfg opt others store" and a: "cf_addr cfg \<noteq> []"
    and st: "others s (store_of store st)" and v: "v > 0 \<longrightarrow> v = kv_version s"
    and live: "rotate_live env cfg opt pr data keys v st = (err, st')"
  shows "rotated others opt data v err s (store_of store st')"
proof -
  obtain err1 st1 where 1: "write_next env cfg opt data v st = (err1, st1)" by (metis surj_pair)
  obtain err2 st2 where 2: "dual_window env opt st1 = (err2, st2)" by (metis surj_pair)
  obtain err3 st3 where 3: "verify_latest env cfg opt st2 = (err3, st3)" by (metis surj_pair)
  obtain err4 st4 where 4: "propagate_or_skip env pr (string_values data keys)
      (rz_current (ro_result (rn_out st3))) True st3 = (err4, st4)" by (metis surj_pair)
  have d2: "others b (store_of store st2)" if "others b (store_of store st1)" for b
    using store_dual_window [OF sv that, of opt] 2 by simp
  have d3: "others b (store_of store st3)" if "others b (store_of store st1)" for b
    using store_verify [OF sv a d2 [OF that]] 3 by simp
  have d4: "others b (store_of store st4)" if "others b (store_of store st1)" for b
    using store_propagate [OF sv d3 [OF that], of pr] 4 by (metis snd_conv)
  have ends: "err = None \<longleftrightarrow> err1 = None \<and> err2 = None \<and> err3 = None \<and> err4 = None"
    using live 1 2 3 4 by (auto simp: rotate_live_def split: option.splits)
  have failed: "others b (store_of store st')" if "others b (store_of store st1)" "err \<noteq> None" for b
    using live 1 2 3 4 that d2 d3 d4 by (auto simp: rotate_live_def split: option.splits)
  have finished: "others b (store_of store st')"
    if "others b (store_of store (retire_old env cfg opt v st4))" "err = None" for b
    using live 1 2 3 4 that ends by (auto simp: rotate_live_def store_set_phase [OF sv])
  from store_write [OF sv a st 1] show ?thesis
  proof
    assume "\<exists>s2. others s s2 \<and> (v > 0 \<longrightarrow> v = kv_version s2)
      \<and> others (kv_put data s2) (store_of store st1)"
    then obtain s2 where s2: "others s s2" "v > 0 \<longrightarrow> v = kv_version s2"
      "others (kv_put data s2) (store_of store st1)" by blast
    have "v > 0 \<longrightarrow> kv_versions s2 = kv_versions s"
      using serves_others(3) [OF sv s2(1)] s2(2) v by (auto simp: kv_version_def)
    moreover have "others (kv_put data s2) (store_of store st')
        \<or> err = None \<and> op_retire opt \<and> v > 0
          \<and> (\<exists>s3. others (kv_put data s2) s3 \<and> others (kv_delete v s3) (store_of store st'))"
      using store_retire [OF sv a d4 [OF s2(3)], of v] failed [OF s2(3)] finished by blast
    ultimately show ?thesis unfolding rotated_def using s2(1) by blast
  next
    assume "err1 \<noteq> None \<and> others s (store_of store st1)"
    then show ?thesis using failed ends by (simp add: rotated_def)
  qed
qed

lemma serves_logged:
  assumes "serves_kv2 env cfg opt others store"
  shows "serves_kv2 (logged_env env) cfg opt others (\<lambda>wl. store (fst wl))"
proof -
  have "rot_world (logged_env env) (\<lambda>wl. others s (store (fst wl))) (\<lambda>q. hq_to q \<noteq> ToVault)" for s
    using store_quiet [OF assms, of s]
    by (simp add: rot_world_def logged_env_def logged_http_def lift_log_def split_def)
  then show ?thesis
    using assms by (auto simp: serves_kv2_def logged_env_def logged_http_def split: prod.splits)
qed

text \<open>
  C24: A rotation refines the abstract rotation of the store, whatever the server answers and
  whatever its other users do meanwhile. The first request reads the secret. Unless that read fails,
  the contents it rotates are those of the latest version; when it fails, in whatever way, they are
  nothing, and the other keys of a secret that exists are gone from its new version. A live rotation
  ends with one version more, whose contents are those with no key changed but the rotated and given
  ones, and it is written on top of the version that was read, none in between, unless there was none
  or the read failed. It has added that version whenever it reports success, and may have when it
  fails; and only after a success, and when asked to, has it deleted a version, the one it read.
\<close>

theorem rotation_refines_store:
  assumes "serves_kv2 env cfg opt others store" and "cf_addr cfg \<noteq> []" and "\<not> op_dry opt"
    and "reqs_of st = []" and "rotate_kv2 (logged_env env) cfg opt pr st = (err, st')"
  shows "\<exists>r reqs w s cur v data.
           reqs_of st' = (read_req cfg opt, r) # reqs \<and> r = fst (rt_http env (read_req cfg opt) w)
         \<and> others (store (fst (rn_world st))) (store w) \<and> others (store w) s
         \<and> (if read_fails opt r then cur = [] \<and> v = 0 else kv_latest s = Some (cur, v))
         \<and> {k. map_of data k \<noteq> map_of cur k}
             \<subseteq> set (rotation_keys (op_keys opt) cur) \<union> fst ` set (op_new opt)
         \<and> rotated others opt data v err s (store (fst (rn_world st')))"
proof -
  let ?E = "logged_env env" and ?S = "\<lambda>wl. store (fst wl)"
  note sv = serves_logged [OF assms(1)] and a = assms(2)
  define s0 where "s0 = set_phase ?E ''read'' ''active'' ''Reading current secret'' st"
  have s0: "others (?S (rn_world st)) (store_of ?S s0)" "reqs_of s0 = []"
    using store_set_phase [OF sv, of "?S (rn_world st)" st] serves_others(1) [OF sv] assms(4)
    by (simp_all add: s0_def store_of_def)
  obtain r w1 where r: "rt_http ?E (read_req cfg opt) (rn_world s0) = (r, w1)" by (metis surj_pair)
  obtain cur v where cv: "current_secret (op_mount opt) (op_path opt) r = (cur, v)" by (metis surj_pair)
  obtain s1 where 1: "read_current ?E cfg opt s0 = ((cur, v), s1)" "others (?S w1) (store_of ?S s1)"
    using store_read [OF sv a r] cv by (metis prod.collapse)
  have log1: "reqs_of s1 = [(read_req cfg opt, r)]"
    using read_current_logged [OF a, of env opt s0] s0(2) 1(1) r by auto
  have reads: "others (store_of ?S s0) (?S w1)" "reads_as opt (?S w1) r"
    using serves_kv2_replies(1) [OF sv r] by (simp_all add: store_of_def)
  obtain data keys s2 where 2: "lift_world (next_secret ?E opt cur) s1 = ((data, keys), s2)"
    by (metis surj_pair)
  define s3 where "s3 = set_phase ?E ''write_new'' ''active'' ''Writing next version''
      (upd_result (\<lambda>r. r\<lparr>rz_keys := keys\<rparr>) s2)"
  have s3: "others (?S w1) (store_of ?S s3)" "reqs_of s3 = [(read_req cfg opt, r)]"
    using store_next_secret [OF sv 1(2), of cur] next_secret_logged [of env opt cur s1] 2 log1
    by (simp_all add: s3_def store_set_phase [OF sv])
  have live: "rotate_live ?E cfg opt pr data keys v s3 = (err, st')"
    using assms(3,5) unfolding rotate_kv2_def s0_def [symmetric] 1(1) 2 prod.case Let_def
      s3_def [symmetric] by simp
  have lv: "if read_fails opt r then cur = [] \<and> v = 0 else kv_latest (?S w1) = Some (cur, v)"
    using reads(2) cv
    by (auto simp: reads_as_def read_fails_def current_secret_def split: sum.splits prod.splits)
  then have v: "v > 0 \<longrightarrow> v = kv_version (?S w1)"
    by (auto simp: kv_latest_def split: if_splits)
  have "{k. map_of data k \<noteq> map_of cur k}
      \<subseteq> set (rotation_keys (op_keys opt) cur) \<union> fst ` set (op_new opt)"
    using next_secret_changes [of ?E opt cur "rn_world s1"] 2
    by (simp add: lift_world_def split: prod.splits)
  moreover obtain l where "reqs_of st' = (read_req cfg opt, r) # l"
    using rotate_live_logged [OF a live] s3(2) by auto
  moreover have "others (store (fst (rn_world st))) (store (fst (rn_world s0)))"
    "others (store (fst (rn_world s0))) (?S w1)"
    using s0(1) reads(1) by (simp_all add: store_of_def)
  moreover have "r = fst (rt_http env (read_req cfg opt) (fst (rn_world s0)))"
    using r by (auto simp: logged_env_def logged_http_def split: prod.splits)
  moreover have "rotated others opt data v err (?S w1) (store (fst (rn_world st')))"
    using store_rotate_live [OF sv a s3(1) v live] by (simp add: store_of_def)
  ultimately show ?thesis using lv by blast
qed

section \<open>A server\<close>

text \<open>
  A KV v2 server that speaks JSON. It refuses with a server error what it could not read back (a
  text of more than a megabyte).
\<close>

definition kv_reply :: "kv_store \<Rightarrow> http_resp" where
  "kv_reply s =
     (case kv_latest s of
        None \<Rightarrow> \<lparr>hr_status = 404, hr_body = []\<rparr>
      | Some (d, v) \<Rightarrow>
          \<lparr>hr_status = 200,
           hr_body = print_json (JObj [(''data'', JObj [(''data'', JObj d),
             (''metadata'', JObj [(''version'', JNum (of_int v))])])])\<rparr>)"

definition kv_readable :: "kv_store \<Rightarrow> bool" where
  "kv_readable s \<longleftrightarrow>
     (let r = Inr (kv_reply s) in
      case kv_latest s of
        None \<Rightarrow> True
      | Some dv \<Rightarrow> \<not> read_fails (test_opts ''rotate'' False) r \<and> current_secret ''secret'' ''app'' r = dv)"

definition kv_valid :: "kv_store \<Rightarrow> kv_store" where
  "kv_valid s = (if kv_readable s then s else \<lparr>kv_versions = [], kv_gone = []\<rparr>)"

definition kv_accept :: "kv_store \<Rightarrow> kv_store \<Rightarrow> (go_err + http_resp) \<times> kv_store" where
  "kv_accept s s' =
     (if kv_readable s' then (Inr \<lparr>hr_status = 200, hr_body = ''{}''\<rparr>, s')
      else (Inr \<lparr>hr_status = 507, hr_body = []\<rparr>, s))"

definition int_field_of :: "string \<Rightarrow> obj \<Rightarrow> int" where
  "int_field_of k m = (case as_int (map_of m k) of Some v \<Rightarrow> v | None \<Rightarrow> 0)"

definition obj_of :: "json option \<Rightarrow> obj" where
  "obj_of b = (case b of Some (JObj ms) \<Rightarrow> ms | _ \<Rightarrow> [])"

definition kv_server :: "http_req \<Rightarrow> kv_store \<Rightarrow> (go_err + http_resp) \<times> kv_store" where
  "kv_server q s0 =
     (let s = kv_valid s0; body = obj_of (hq_body q) in
      if hq_to q \<noteq> ToVault then (Inr \<lparr>hr_status = 404, hr_body = []\<rparr>, s0)
      else if hq_method q = ''GET'' then (Inr (kv_reply s), s0)
      else if hq_url q = ''http://vault/v1/secret/data/app'' then
        (let cas = (case obj_field ''options'' body of Some opts \<Rightarrow> int_field_of ''cas'' opts | None \<Rightarrow> 0)
         in if cas > 0 \<and> cas \<noteq> kv_version s then (Inr \<lparr>hr_status = 400, hr_body = []\<rparr>, s0)
            else kv_accept s (kv_put (obj_of (map_of body ''data'')) s))
      else
        (case map_of body ''versions'' of
           Some (JArr [JNum r]) \<Rightarrow> kv_accept s (kv_delete \<lfloor>r\<rfloor> s)
         | _ \<Rightarrow> (Inr \<lparr>hr_status = 400, hr_body = []\<rparr>, s0)))"

lemma kv_valid_readable [simp]: "kv_readable (kv_valid s)"
  by (simp add: kv_valid_def kv_readable_def kv_latest_def)

lemma kv_readable_reads:
  assumes "kv_readable s"
  shows "reads_as (test_opts ''rotate'' False) s (Inr (kv_reply s))"
proof (cases "kv_latest s")
  case None
  then show ?thesis
    by (simp add: reads_as_def read_fails_def kv_reply_def read_result_def vault_reply_def Let_def)
next
  case (Some dv)
  then show ?thesis
    using assms by (simp add: reads_as_def kv_readable_def Let_def) (simp add: test_opts_def)
qed

lemma kv_valid_id: "kv_readable s \<Longrightarrow> kv_valid s = s"
  by (simp add: kv_valid_def)

lemma kv_accept_valid:
  "kv_readable s \<Longrightarrow> kv_accept s s' = (r, w1)
     \<Longrightarrow> kv_valid w1 = s' \<or> kv_valid w1 = s \<and> \<not> accepted r"
  by (auto simp: kv_accept_def kv_valid_id accepted_def vault_reply_def Let_def split: if_splits)

lemma as_int_of_int [simp]: "as_int (Some (JNum (of_int v))) = Some v"
  by (simp add: as_int_def)

lemma test_paths:
  "data_path ''secret'' ''app'' = ''/v1/secret/data/app''"
  "trim_slashes ''secret'' = ''secret''" "trim_slashes ''app'' = ''app''"
  by code_simp+

lemma kv_server_write:
  "kv_server (write_req test_config (test_opts ''rotate'' False) d c) w =
     (if c > 0 \<and> c \<noteq> kv_version (kv_valid w) then (Inr \<lparr>hr_status = 400, hr_body = []\<rparr>, w)
      else kv_accept (kv_valid w) (kv_put d (kv_valid w)))"
  by (simp add: kv_server_def write_req_def vault_req_def test_config_def test_opts_def test_paths
      write_body_def obj_of_def obj_field_def int_field_of_def Let_def)

lemma kv_server_delete:
  "kv_server (delete_req test_config (test_opts ''rotate'' False) v) w =
     kv_accept (kv_valid w) (kv_delete v (kv_valid w))"
  by (simp add: kv_server_def delete_req_def vault_req_def test_config_def test_opts_def test_paths
      versions_body_def obj_of_def Let_def)

lemma kv_server_serves:
  "serves_kv2 (test_env kv_server) test_config (test_opts ''rotate'' False) (=) kv_valid"
proof -
  have quiet: "rot_world (test_env kv_server) (\<lambda>w. s = kv_valid w) (\<lambda>q. hq_to q \<noteq> ToVault)" for s
    by unfold_locales (simp_all add: test_env_def kv_server_def)
  have rd: "case kv_server (read_req test_config (test_opts ''rotate'' False)) w of
      (r, w1) \<Rightarrow> kv_valid w = kv_valid w1 \<and> reads_as (test_opts ''rotate'' False) (kv_valid w1) r" for w
    using kv_readable_reads [OF kv_valid_readable [of w]]
    by (simp add: kv_server_def read_req_def vault_req_def Let_def)
  have wr: "case kv_server (write_req test_config (test_opts ''rotate'' False) d c) w of
      (r, w1) \<Rightarrow> writes_as (kv_valid w) d c r (kv_valid w1)" for w d c
  proof (cases "c > 0 \<and> c \<noteq> kv_version (kv_valid w)")
    case True
    then show ?thesis
      by (simp add: kv_server_write writes_as_def accepted_def vault_reply_def Let_def)
  next
    case False
    then show ?thesis
      using kv_accept_valid [of "kv_valid w" "kv_put d (kv_valid w)"]
      by (auto simp: kv_server_write writes_as_def split: prod.split)
  qed
  have dl: "case kv_server (delete_req test_config (test_opts ''rotate'' False) v) w of
      (r, w1) \<Rightarrow> deletes_as (kv_valid w) v r (kv_valid w1)" for w v
    using kv_accept_valid [of "kv_valid w" "kv_delete v (kv_valid w)"]
    by (auto simp: kv_server_delete deletes_as_def split: prod.split)
  show ?thesis
    using quiet rd wr dl by (simp add: serves_kv2_def bystanders_def test_env_def)
qed

definition test_store :: kv_store where
  "test_store =
     \<lparr>kv_versions = [[(''a'', JStr ''old''), (''b'', JStr ''keep'')]], kv_gone = []\<rparr>"

lemma read_result_small:
  "length b \<le> 1048576 \<Longrightarrow>
     read_result m p (Inr \<lparr>hr_status = 200, hr_body = b\<rparr>) = Inr (parse_kv2 (body_map b))"
  by (simp add: read_result_def vault_reply_def Let_def)

definition new_store :: kv_store where
  "new_store = kv_put [(''a'', JStr ''fresh''), (''b'', JStr ''keep'')] test_store"

lemma test_replies:
  "hr_body (kv_reply test_store) =
     ''{\"data\":{\"data\":{\"a\":\"old\",\"b\":\"keep\"},\"metadata\":{\"version\":1}}}''"
  "hr_body (kv_reply new_store) =
     ''{\"data\":{\"data\":{\"a\":\"fresh\",\"b\":\"keep\"},\"metadata\":{\"version\":2}}}''"
  by code_simp+

lemma kv_reply_body:
  "kv_latest s = Some dv \<Longrightarrow> Inr (kv_reply s) = Inr \<lparr>hr_status = 200, hr_body = hr_body (kv_reply s)\<rparr>"
  by (cases dv) (simp add: kv_reply_def)

lemma test_latest:
  "kv_latest test_store = Some ([(''a'', JStr ''old''), (''b'', JStr ''keep'')], 1)"
  "kv_latest new_store = Some ([(''a'', JStr ''fresh''), (''b'', JStr ''keep'')], 2)"
  "kv_latest (kv_delete 1 new_store) = Some ([(''a'', JStr ''fresh''), (''b'', JStr ''keep'')], 2)"
  by (simp_all add: kv_latest_def kv_version_def test_store_def new_store_def kv_put_def kv_delete_def)

lemma test_parse:
  "(case parse_kv2 (body_map
      ''{\"data\":{\"data\":{\"a\":\"old\",\"b\":\"keep\"},\"metadata\":{\"version\":1}}}'') of
     (d, meta) \<Rightarrow> d = [(''a'', JStr ''old''), (''b'', JStr ''keep'')] \<and> sm_version meta = 1)"
  "(case parse_kv2 (body_map
      ''{\"data\":{\"data\":{\"a\":\"fresh\",\"b\":\"keep\"},\"metadata\":{\"version\":2}}}'') of
     (d, meta) \<Rightarrow> d = [(''a'', JStr ''fresh''), (''b'', JStr ''keep'')] \<and> sm_version meta = 2)"
  by code_simp+

lemma kv_readable_small:
  assumes "kv_latest s = Some dv" and "length (hr_body (kv_reply s)) \<le> 1048576" and "snd dv \<noteq> 0"
    and "case parse_kv2 (body_map (hr_body (kv_reply s))) of (d, meta) \<Rightarrow> dv = (d, sm_version meta)"
  shows "kv_readable s"
  using assms
  by (cases dv)
     (auto simp: kv_readable_def kv_reply_body [OF assms(1)] read_fails_def current_secret_def
        read_result_small Let_def split: prod.splits)

lemma test_store_readable: "kv_readable test_store"
  using test_parse(1)
  by (intro kv_readable_small [OF test_latest(1)]) (auto simp: test_replies)

lemma new_store_readable: "kv_readable new_store" "kv_readable (kv_delete 1 new_store)"
proof -
  show "kv_readable new_store"
    using test_parse(2)
    by (intro kv_readable_small [OF test_latest(2)]) (auto simp: test_replies)
  moreover have "kv_reply (kv_delete 1 new_store) = kv_reply new_store"
    by (simp add: kv_reply_def test_latest)
  ultimately show "kv_readable (kv_delete 1 new_store)"
    by (simp add: kv_readable_def test_latest)
qed

text \<open>The run starts with no request made.\<close>

definition test_start :: "(kv_store \<times> http_entry list) rot_state" where
  "test_start = first_state test_config (test_opts ''rotate'' False) (test_store, [])"

lemma test_world [simp]:
  "rn_world (set_phase (logged_env (test_env f)) k s m st) = rn_world st"
  "rn_world (upd_result g st) = rn_world st" "rn_world (warn x st) = rn_world st"
  by (auto simp: set_phase_def upd_result_def warn_def test_env_def logged_env_def lift_log_def
      Let_def split: option.split)

lemma test_http:
  "rt_http (logged_env (test_env f)) q wl = (case f q (fst wl) of (r, w) \<Rightarrow> (r, (w, snd wl @ [(q, r)])))"
  by (simp add: logged_env_def logged_http_def test_env_def)

lemma test_addr [simp]: "cf_addr test_config \<noteq> []"
  by (simp add: test_config_def)

lemma kv_server_read:
  "kv_server (read_req test_config (test_opts ''rotate'' False)) w = (Inr (kv_reply (kv_valid w)), w)"
  by (simp add: kv_server_def read_req_def vault_req_def)

text \<open>What is read of a store that can be read.\<close>

lemma test_reading:
  assumes "kv_readable s" and "kv_latest s = Some (d, v)" and "fst (rn_world st) = s"
  obtains meta st1 where
    "lift_world (read_kv2 (logged_env (test_env kv_server)) test_config
       (op_mount (test_opts ''rotate'' False)) (op_path (test_opts ''rotate'' False)) 0) st = (Inr (d, meta), st1)"
    "sm_version meta = v" "fst (rn_world st1) = s"
proof -
  let ?O = "test_opts ''rotate'' False"
  have o: "op_mount ?O = ''secret''" "op_path ?O = ''app''" by (simp_all add: test_opts_def)
  obtain meta where m: "read_result ''secret'' ''app'' (Inr (kv_reply s)) = Inr (d, meta)"
    "sm_version meta = v"
    using assms(1,2)
    by (auto simp: kv_readable_def read_fails_def current_secret_def o Let_def split: sum.splits)
  have "vault_req test_config ''GET'' (data_path ''secret'' ''app'') None = read_req test_config ?O"
    by (simp add: read_req_def o)
  then have "lift_world (read_kv2 (logged_env (test_env kv_server)) test_config ''secret'' ''app'' 0) st
      = (Inr (d, meta), st\<lparr>rn_world := (s, snd (rn_world st) @ [(read_req test_config ?O, Inr (kv_reply s))])\<rparr>)"
    using assms(3)
    by (simp add: lift_world_def read_kv2_reply test_http kv_server_read kv_valid_id [OF assms(1)] m(1))
  then show ?thesis using that m(2) unfolding o by simp
qed

lemma test_run:
  "fst (rotate_kv2 (logged_env (test_env kv_server)) test_config (test_opts ''rotate'' False) None
     test_start) = None"
proof -
  let ?E = "logged_env (test_env kv_server)" and ?O = "test_opts ''rotate'' False"
  have cur: "fst (read_current ?E test_config ?O st)
        = ([(''a'', JStr ''old''), (''b'', JStr ''keep'')], 1)
      \<and> fst (rn_world (snd (read_current ?E test_config ?O st))) = test_store"
    if w: "fst (rn_world st) = test_store" for st
  proof -
    obtain meta st1 where 1: "lift_world (read_kv2 ?E test_config (op_mount ?O) (op_path ?O) 0) st
        = (Inr ([(''a'', JStr ''old''), (''b'', JStr ''keep'')], meta), st1)"
      "sm_version meta = 1" "fst (rn_world st1) = test_store"
      using test_reading [OF test_store_readable test_latest(1) w] by blast
    show ?thesis unfolding read_current_def 1(1) by (simp add: 1(2,3))
  qed
  have nxt: "lift_world (next_secret ?E ?O [(''a'', JStr ''old''), (''b'', JStr ''keep'')]) st
        = (([(''a'', JStr ''fresh''), (''b'', JStr ''keep'')], [''a'']), st)" for st
    by (simp add: lift_world_def next_secret_def rotation_keys_def test_opts_def test_env_def
        logged_env_def lift_log_def map_put_def)
  have live: "fst (rotate_live ?E test_config ?O None
      [(''a'', JStr ''fresh''), (''b'', JStr ''keep'')] ks 1 st) = None"
    if st: "fst (rn_world st) = test_store" for st ks
  proof -
    let ?data = "[(''a'', JStr ''fresh''), (''b'', JStr ''keep'')]"
    have "kv_server (write_req test_config ?O ?data 1) test_store
        = (Inr \<lparr>hr_status = 200, hr_body = ''{}''\<rparr>, new_store)"
      using new_store_readable(1)
      by (simp add: kv_server_write kv_valid_id test_store_readable kv_accept_def new_store_def)
         (simp add: kv_version_def test_store_def)
    then obtain l where rt: "rt_http ?E (vault_req test_config ''POST'' (data_path (op_mount ?O) (op_path ?O))
        (Some (write_body ?data 1))) (rn_world st)
        = (Inr \<lparr>hr_status = 200, hr_body = ''{}''\<rparr>, (new_store, l))"
      using st by (simp add: write_req_def test_http)
    have ok: "accepted (Inr \<lparr>hr_status = 200, hr_body = ''{}''\<rparr>)"
      by (simp add: accepted_def vault_reply_def Let_def)
    obtain meta where w: "write_kv2 ?E test_config (op_mount ?O) (op_path ?O) ?data 1 (rn_world st)
        = (Inr meta, (new_store, l))"
      using write_kv2_reply [OF test_addr rt] ok
      by (metis isl_def obj_sumE prod.collapse)
    obtain st1 where st1: "write_next ?E test_config ?O ?data 1 st = (None, st1)"
      "fst (rn_world st1) = new_store"
      using w by (simp add: write_next_def lift_world_def Let_def)
    obtain st2 where st2: "dual_window ?E ?O st1 = (None, st2)" "fst (rn_world st2) = new_store"
      using st1 by (simp add: dual_window_def Let_def) (simp add: test_opts_def)
    have "fst (rn_world (set_phase ?E ''verify'' ''active'' ''Reading latest'' st2)) = new_store"
      using st2 by simp
    then obtain meta st3 where 3: "lift_world (read_kv2 ?E test_config (op_mount ?O) (op_path ?O) 0)
        (set_phase ?E ''verify'' ''active'' ''Reading latest'' st2)
        = (Inr ([(''a'', JStr ''fresh''), (''b'', JStr ''keep'')], meta), st3)"
      using test_reading [OF new_store_readable(1) test_latest(2)] by blast
    obtain st4 where st3: "verify_latest ?E test_config ?O st2 = (None, st4)"
      unfolding verify_latest_def 3 by (simp add: Let_def)
    show ?thesis
      by (simp add: rotate_live_def st1 st2 st3 propagate_or_skip_def)
  qed
  define s0 where "s0 = set_phase ?E ''read'' ''active'' ''Reading current secret'' test_start"
  have s0: "fst (rn_world s0) = test_store" by (simp add: s0_def test_start_def first_state_def)
  obtain s1 where s1: "read_current ?E test_config ?O s0
      = (([(''a'', JStr ''old''), (''b'', JStr ''keep'')], 1), s1)" "fst (rn_world s1) = test_store"
    using cur [OF s0] by (metis prod.collapse)
  show ?thesis
    unfolding rotate_kv2_def s0_def [symmetric] s1 prod.case nxt Let_def
    using s1 live by (simp add: test_opts_def [of "''rotate''" False])
qed

text \<open>
  A server that never fails a read, and no other users: the secret \<open>test_store\<close> has one new version
  after the rotation, on top of the one that was there.
\<close>

theorem rotation_refines_store_witness:
  "\<exists>data. kv_valid (fst (rn_world (snd (rotate_kv2 (logged_env (test_env kv_server)) test_config
       (test_opts ''rotate'' False) None test_start))))
       \<in> {kv_put data test_store, kv_delete 1 (kv_put data test_store)}
     \<and> {k. map_of data k \<noteq> map_of [(''a'', JStr ''old''), (''b'', JStr ''keep'')] k} \<subseteq> {''a''}"
proof -
  let ?E = "logged_env (test_env kv_server)" and ?O = "test_opts ''rotate'' False"
  have s: "kv_valid (fst (rn_world test_start)) = test_store" "reqs_of test_start = []"
    by (simp_all add: test_start_def first_state_def kv_valid_id test_store_readable reqs_of_def)
  have o: "rotation_keys (op_keys ?O) cur = [''a'']" "op_new ?O = []" "\<not> op_dry ?O" "op_retire ?O" for cur
    by (simp_all add: test_opts_def rotation_keys_def)
  obtain r reqs w t cur v data where 1:
    "reqs_of (snd (rotate_kv2 ?E test_config ?O None test_start)) = (read_req test_config ?O, r) # reqs"
    "r = fst (rt_http (test_env kv_server) (read_req test_config ?O) w)"
    "test_store = kv_valid w" "kv_valid w = t"
    "if read_fails ?O r then cur = [] \<and> v = 0 else kv_latest t = Some (cur, v)"
    "{k. map_of data k \<noteq> map_of cur k} \<subseteq> set (rotation_keys (op_keys ?O) cur) \<union> fst ` set (op_new ?O)"
    "rotated (=) ?O data v (fst (rotate_kv2 ?E test_config ?O None test_start)) t
       (kv_valid (fst (rn_world (snd (rotate_kv2 ?E test_config ?O None test_start)))))"
    using rotation_refines_store [OF kv_server_serves test_addr o(3) s(2) prod.collapse [symmetric], of None]
    unfolding s(1) by blast
  have "r = Inr (kv_reply test_store)"
    using 1(2,3) kv_server_read [of w] by (simp add: test_env_def)
  then have "\<not> read_fails ?O r"
    using test_store_readable by (simp add: kv_readable_def test_latest Let_def)
  then have "cur = [(''a'', JStr ''old''), (''b'', JStr ''keep'')]" "v = 1" "t = test_store"
    using 1(3,4,5) test_latest(1) by auto
  then show ?thesis
    using 1(6,7) by (intro exI [of _ data]) (auto simp: o rotated_def test_run simp del: map_of.simps)
qed

end
