(* ===== verification/SecretsPhases.thy ===== *)
theory SecretsPhases
  imports SecretsProps
begin

text \<open>
  What a run leaves of its phases: a run that succeeds has settled every one of them.
\<close>

section \<open>Open phases\<close>

definition settled :: "string \<Rightarrow> bool" where
  "settled s \<longleftrightarrow> s \<in> {''completed'', ''skipped'', ''failed''}"

definition phase_keys :: "'w rot_state \<Rightarrow> string list" where
  "phase_keys st = map ph_key (ro_phases (rn_out st))"

definition open_keys :: "'w rot_state \<Rightarrow> string set" where
  "open_keys st = {ph_key p | p. p \<in> set (ro_phases (rn_out st)) \<and> \<not> settled (ph_status p)}"

text \<open>At most the phases of \<open>K\<close> are open.\<close>

definition opened :: "string set \<Rightarrow> 'w rot_state \<Rightarrow> bool" where
  "opened K st \<longleftrightarrow> distinct (phase_keys st) \<and> open_keys st \<subseteq> K"

lemma opened_mono: "opened K st \<Longrightarrow> K \<subseteq> L \<Longrightarrow> opened L st"
  by (auto simp: opened_def)

lemma put_phase_keys [simp]: "map ph_key (put_phase k s m ps) = map ph_key ps"
  by (induction ps) auto

lemma set_phase_phases [simp]:
  "ro_phases (rn_out (set_phase env k s m st)) = put_phase k s m (ro_phases (rn_out st))"
  by (simp add: set_phase_def Let_def split: option.split)

lemma put_phase_in:
  "distinct (map ph_key ps) \<Longrightarrow> p \<in> set (put_phase k s m ps) \<Longrightarrow>
     p \<in> set ps \<and> ph_key p \<noteq> k \<or> ph_key p = k \<and> ph_status p = s"
proof (induction ps)
  case (Cons a ps)
  then show ?case by (cases "ph_key a = k") (auto simp: image_iff)
qed simp

lemma opened_set_phase:
  assumes "opened K st"
  shows "opened (if settled s then K - {k} else insert k K) (set_phase env k s m st)"
proof -
  have "open_keys (set_phase env k s m st)
      \<subseteq> (if settled s then open_keys st - {k} else insert k (open_keys st))"
    using put_phase_in [of "ro_phases (rn_out st)" _ k s m] assms
    unfolding open_keys_def opened_def phase_keys_def by auto
  with assms show ?thesis
    by (auto simp: opened_def phase_keys_def split: if_splits)
qed

lemma opened_done:
  "opened (insert k K) st \<Longrightarrow> settled s \<Longrightarrow> opened (K - {k}) (set_phase env k s m st)"
  using opened_set_phase [of "insert k K" st s k env m] by (auto intro: opened_mono)

lemma opened_any: "opened K st \<Longrightarrow> opened (insert k K) (set_phase env k s m st)"
  using opened_set_phase [of K st s k env m] by (auto intro: opened_mono split: if_splits)

lemma opened_drop: "opened K st \<Longrightarrow> settled s \<Longrightarrow> opened (K - {k}) (set_phase env k s m st)"
  by (rule opened_done) (auto intro: opened_mono)

abbreviation phases_of :: "'w rot_state \<Rightarrow> rot_phase list" where
  "phases_of st \<equiv> ro_phases (rn_out st)"

lemma opened_frame: "phases_of st' = phases_of st \<Longrightarrow> opened K st \<Longrightarrow> opened K st'"
  by (simp add: opened_def open_keys_def phase_keys_def)

lemma phases_updates [simp]:
  "phases_of (upd_result g st) = phases_of st" "phases_of (warn msg st) = phases_of st"
  "phases_of (put_summary s st) = phases_of st" "phases_of (add_target p t st) = phases_of st"
  by (simp_all add: upd_result_def warn_def put_summary_def add_target_def Let_def)

lemma phases_add_targets [simp]: "phases_of (add_targets p ts st) = phases_of st"
  by (induction ts arbitrary: st) (simp_all add: add_targets_def)

lemma phases_warn_all [simp]: "phases_of (warn_all ps st) = phases_of st"
  by (induction ps arbitrary: st) (simp_all add: warn_all_def)

lemma phases_pset [simp]: "phases_of (pset env k s m st) = put_phase k s (scrub (rn_redact st) m) (phases_of st)"
  by (simp add: pset_def)

lemma lift_world_phases: "lift_world f st = (x, st') \<Longrightarrow> phases_of st' = phases_of st"
  by (auto simp: lift_world_def split: prod.splits)

lemma opened_updates [simp]:
  "opened K (upd_result g st) = opened K st" "opened K (warn msg st) = opened K st"
  "opened K (put_summary s st) = opened K st" "opened K (add_target p t st) = opened K st"
  "opened K (add_targets p ts st) = opened K st"
  "opened K (st\<lparr>rn_redact := a\<rparr>) = opened K st"
  by (simp_all add: opened_def open_keys_def phase_keys_def)

lemma settled_simps [simp]:
  "settled ''completed''" "settled ''skipped''" "settled ''failed''" "\<not> settled ''pending''"
  "\<not> settled ''active''"
  by (simp_all add: settled_def)

lemma settle_after:
  assumes "opened K st" and "phases_of s1 = put_phase k a m (phases_of st)" and "settled b"
  shows "opened (K - {k}) (set_phase env k b m' s1)"
proof -
  have "opened (insert k K) s1"
    by (rule opened_frame [OF _ opened_any [OF assms(1)]]) (simp add: assms(2))
  then show ?thesis using assms(3) by (rule opened_done)
qed

lemma psettle_after:
  assumes "opened K st" and "phases_of s1 = put_phase k a m (phases_of st)" and "settled b"
  shows "opened (K - {k}) (pset env k b m' s1)"
  unfolding pset_def using assms by (rule settle_after)

section \<open>Propagation\<close>

lemma patch_each_phases:
  "patch_each env pr vs ss st = (None, st') \<Longrightarrow> phases_of st' = phases_of st"
proof (induction ss arbitrary: st)
  case (Cons s ss)
  obtain r st1 where 1: "patch_one env pr vs s st = (r, st1)" by (metis surj_pair)
  have "phases_of st1 = phases_of st"
    using 1 unfolding patch_one_def ebind_def
    by (auto split: prod.splits sum.splits dest!: lift_world_phases)
  with Cons 1 show ?case
    by (cases r) (auto simp: fail_target_def Let_def)
qed simp

lemma sync_one_phases:
  "sync_one env pr q s st = (r, st') \<Longrightarrow> phases_of st' = phases_of st"
  unfolding sync_one_def ebind_def Let_def
  by (auto split: prod.splits sum.splits option.splits dest!: lift_world_phases)

lemma sync_each_phases:
  "sync_each env pr q ss st = (None, st') \<Longrightarrow> phases_of st' = phases_of st"
proof (induction ss arbitrary: st)
  case (Cons s ss)
  obtain r st1 where 1: "sync_one env pr q s st = (r, st1)" by (metis surj_pair)
  with Cons sync_one_phases [OF 1] show ?case
    by (cases r) (auto simp: fail_target_def Let_def)
qed simp

lemma run_k8s_opened:
  assumes "run_k8s env pr vs ks st = (None, st')" and "opened K st"
  shows "opened (K - {phase_k8s}) st'"
  using assms(1) unfolding run_k8s_def Let_def
  by (auto split: if_splits prod.splits option.splits simp: patch_each_phases
      intro!: psettle_after [OF assms(2)])

lemma run_external_opened:
  assumes "run_external env pr q st = (None, st')" and "opened K st"
  shows "opened (K - {phase_external}) st'"
  using assms(1) unfolding run_external_def Let_def
  by (auto split: if_splits prod.splits option.splits simp: sync_each_phases
      intro!: psettle_after [OF assms(2)])

lemma run_github_opened:
  assumes "run_github env pr vs ks st = (None, st')" and "opened K st"
  shows "opened (K - {phase_github}) st'"
  using assms(1) unfolding run_github_def Let_def
  by (auto split: if_splits prod.splits option.splits sum.splits
      intro!: psettle_after [OF assms(2)] dest!: lift_world_phases)

text \<open>Restarting rings sets the phase active again for every ring.\<close>

lemma ring_deployments_phases:
  "ring_deployments env pr r st = (x, st') \<Longrightarrow> phases_of st' = phases_of st"
  unfolding ring_deployments_def ebind_def Let_def
  by (auto split: prod.splits sum.splits option.splits if_splits dest!: lift_world_phases)

lemma restart_each_opened:
  "restart_each env pr reason i c ns rs st = ((None, ns'), st') \<Longrightarrow> phase_rings \<in> K \<Longrightarrow>
     opened K st \<Longrightarrow> opened K st'"
proof (induction rs arbitrary: i ns st)
  case (Cons r rs)
  define s1 where "s1 = pset env phase_rings ''active'' (''Restarting '' @ ring_target (pg_prop pr) r
      @ '' ('' @ show_nat (Suc i) @ ''/'' @ show_nat c @ '')'') st"
  have s1: "opened K s1"
    using opened_any [OF Cons.prems(3), of phase_rings] Cons.prems(2)
    by (simp add: s1_def pset_def insert_absorb)
  obtain x s2 where 2: "ring_deployments env pr r s1 = (x, s2)" by (metis surj_pair)
  have s2: "opened K s2" using opened_frame [OF ring_deployments_phases [OF 2] s1] .
  show ?case
  proof (cases x)
    case (Inl e)
    with Cons.prems(1) 2 show ?thesis
      unfolding restart_each.simps Let_def s1_def [symmetric] by (simp add: fail_ring_def Let_def)
  next
    case (Inr y)
    show ?thesis
    proof (cases y)
      case (Inl skip)
      with Cons.prems(1) 2 \<open>x = Inr y\<close> show ?thesis
        unfolding restart_each.simps Let_def s1_def [symmetric]
        using Cons.IH [OF _ Cons.prems(2)] s2 by fastforce
    next
      case (Inr ds)
      obtain z s3 where 3: "lift_world (restart_ring env pr reason r ds) s2 = (z, s3)"
        by (metis surj_pair)
      have "opened K s3" using opened_frame [OF lift_world_phases [OF 3] s2] .
      with Cons.prems(1) 2 3 \<open>x = Inr y\<close> Inr show ?thesis
        unfolding restart_each.simps Let_def s1_def [symmetric]
        using Cons.IH [OF _ Cons.prems(2)]
        by (cases z) (auto simp: fail_ring_def Let_def)
    qed
  qed
qed simp

lemma run_rings_opened:
  assumes "run_rings env pr st = (None, st')" and "opened K st"
  shows "opened (K - {phase_rings}) st'"
proof -
  have s1: "opened (insert phase_rings K) (pset env phase_rings ''active'' m st)" for m
    using opened_any [OF assms(2)] by (simp add: pset_def)
  show ?thesis
  proof (cases "op_dry (pg_opt pr)")
    case True
    with assms(1) show ?thesis
      unfolding run_rings_def Let_def by (auto intro!: psettle_after [OF assms(2)])
  next
    case False
    with assms(1) show ?thesis
      unfolding run_rings_def Let_def
      by (auto simp: pset_def split: prod.splits option.splits
          intro!: opened_done dest!: restart_each_opened [OF _ _ s1 [unfolded pset_def]])
  qed
qed

lemma run_phase_opened:
  assumes "run_phase env pr vs q ph st = (None, st')" and "opened K st"
    and "ph \<in> {phase_k8s, phase_external, phase_github, phase_rings}"
  shows "opened (K - {ph}) st'"
  using assms unfolding run_phase_def Let_def
  by (auto split: if_splits intro: run_k8s_opened run_external_opened run_github_opened
      run_rings_opened)

lemma run_phases_opened:
  "run_phases env pr vs v q phs st = (None, st') \<Longrightarrow> opened K st \<Longrightarrow>
     set phs \<subseteq> {phase_k8s, phase_external, phase_github, phase_rings} \<Longrightarrow> opened (K - set phs) st'"
proof (induction phs arbitrary: st K)
  case (Cons ph phs)
  obtain st1 where 1: "run_phase env pr vs q ph st = (None, st1)"
    "run_phases env pr vs v q phs st1 = (None, st')"
    using Cons.prems(1) by (auto split: prod.splits option.splits)
  have "opened (K - {ph}) st1"
    using run_phase_opened [OF 1(1) Cons.prems(2)] Cons.prems(3) by simp
  then have "opened (K - {ph} - set phs) st'"
    using Cons.IH [OF 1(2)] Cons.prems(3) by simp
  moreover have "K - {ph} - set phs = K - set (ph # phs)" by auto
  ultimately show ?case by simp
qed simp

lemma phase_order_keys:
  "set (phase_order p) \<subseteq> {phase_k8s, phase_external, phase_github, phase_rings}"
  by (auto simp: phase_order_def)

lemma propagate_opened:
  assumes "propagate env pr vs v q st = (None, st')" and "opened K st"
  shows "opened (K - set (phase_order (pg_prop pr))) st'"
  using assms(1) unfolding propagate_def Let_def
  by (rule run_phases_opened) (simp_all add: assms(2) phase_order_keys)

section \<open>The modes\<close>

text \<open>All phases of \<open>B\<close> are settled; the rules read backwards through an operation.\<close>

definition all_settled :: "string set \<Rightarrow> 'w rot_state \<Rightarrow> bool" where
  "all_settled B st \<longleftrightarrow> opened (- B) st"

lemma all_settled_done [intro]:
  "settled s \<Longrightarrow> all_settled (B - {k}) st \<Longrightarrow> all_settled B (set_phase env k s m st)"
  unfolding all_settled_def
  by (rule opened_mono [OF opened_done [of k "- B"]]) (auto intro: opened_mono)

lemma all_settled_active [intro]:
  "k \<notin> B \<Longrightarrow> all_settled B st \<Longrightarrow> all_settled B (set_phase env k s m st)"
  unfolding all_settled_def using opened_any [of "- B" st k env s m] by (simp add: insert_absorb)

lemma all_settled_updates [simp]:
  "all_settled B (upd_result g st) = all_settled B st" "all_settled B (warn msg st) = all_settled B st"
  "all_settled B (st\<lparr>rn_out := (rn_out st)\<lparr>ro_detected := d\<rparr>\<rparr>) = all_settled B st"
  by (simp_all add: all_settled_def opened_def open_keys_def phase_keys_def)

lemma all_settled_lift:
  "lift_world f st = (x, st') \<Longrightarrow> all_settled B st \<Longrightarrow> all_settled B st'"
  unfolding all_settled_def by (rule opened_frame [OF lift_world_phases])

lemma all_settled_mono: "all_settled B st \<Longrightarrow> A \<subseteq> B \<Longrightarrow> all_settled A st"
  unfolding all_settled_def by (auto intro: opened_mono)

definition reached :: "propagator option \<Rightarrow> string set" where
  "reached pr = (case pr of None \<Rightarrow> {} | Some p \<Rightarrow> set (phase_order (pg_prop p)))"

lemma propagate_dry_settled:
  "propagate_dry env pr vs v st = (None, st') \<Longrightarrow> all_settled (B - reached pr) st \<Longrightarrow> all_settled B st'"
  unfolding all_settled_def propagate_dry_def reached_def
  by (auto split: option.splits dest!: propagate_opened intro: opened_mono)

lemma propagate_or_skip_settled:
  "propagate_or_skip env pr vs v q st = (None, st') \<Longrightarrow> all_settled (B - reached pr) st \<Longrightarrow>
     all_settled B st'"
  unfolding all_settled_def propagate_or_skip_def reached_def
  by (auto split: option.splits prod.splits dest!: propagate_opened intro: opened_mono)

text \<open>One step of a goal \<open>all_settled {...} (set_phase ...)\<close>.\<close>

lemmas settle_rules = all_settled_done all_settled_active

lemma inventory_settled:
  assumes "inventory env cfg opt st = (Inr steps, st')" and "all_settled (B - {''inventory''}) st"
  shows "all_settled B st'"
proof -
  obtain x s1 where 1: "lift_world (metadata_kv2 env cfg (op_mount opt) (op_path opt)) st = (x, s1)"
    by (metis surj_pair)
  note s1 = all_settled_lift [OF 1 assms(2)]
  show ?thesis
    using assms s1 unfolding inventory_def 1
    by (cases x) (auto split: if_splits intro: all_settled_done)
qed

lemma run_plan_settled:
  assumes "run_plan env cfg opt st = (None, st')" and "all_settled (B - {''inventory'', ''plan''}) st"
  shows "all_settled B st'"
proof -
  define s0 where "s0 = set_phase env ''inventory'' ''active'' ''Reading metadata'' st"
  have s0: "all_settled (B - {''plan''} - {''inventory''}) s0"
    unfolding s0_def
    by (rule all_settled_active) (auto intro: all_settled_mono [OF assms(2)])
  obtain steps s1 where 1: "inventory env cfg opt s0 = (Inr steps, s1)"
    using assms(1) unfolding run_plan_def s0_def [symmetric]
    by (auto split: prod.splits sum.splits)
  note s1 = inventory_settled [OF 1 s0]
  with assms(1) 1 show ?thesis
    unfolding run_plan_def s0_def [symmetric]
    by (auto simp: Let_def intro: all_settled_done)
qed

lemma run_verify_settled:
  assumes "run_verify env cfg opt pr st = (None, st')"
    and "all_settled (B - reached pr - {''read'', ''verify''}) st"
    and "op_engine opt = ''transit'' \<longrightarrow> reached pr = {}"
  shows "all_settled B st'"
proof -
  define s0 where "s0 = set_phase env ''read'' ''active'' ''Reading secret metadata'' st"
  have s0: "all_settled (B - reached pr - {''verify''} - {''read''}) s0"
    unfolding s0_def
    by (rule all_settled_active) (auto intro: all_settled_mono [OF assms(2)])
  show ?thesis
  proof (cases "op_engine opt = ''transit''")
    case True
    then show ?thesis
      using assms(1,3) s0 unfolding run_verify_def Let_def s0_def [symmetric]
      by (auto intro!: all_settled_done)
  next
    case False
    obtain data meta s1 where 1: "lift_world (read_kv2 env cfg (op_mount opt) (op_path opt) 0) s0
        = (Inr (data, meta), s1)"
      using assms(1) False unfolding run_verify_def Let_def s0_def [symmetric]
      by (auto split: prod.splits sum.splits)
    have "all_settled (B - reached pr - {''verify''} - {''read''}) s1"
      by (rule all_settled_lift [OF 1 s0])
    with assms(1) False 1 show ?thesis
      unfolding run_verify_def Let_def s0_def [symmetric]
      by (auto elim!: propagate_or_skip_settled intro!: all_settled_done)
  qed
qed

lemma restore_previous_settled:
  assumes "restore_previous env cfg opt pr cur prev st = (None, st')"
    and "all_settled (B - reached pr - {''verify''} - {''rollback''}) st"
  shows "all_settled B st'"
proof -
  obtain old s1 where 1: "lift_world (read_previous env cfg opt prev) st = (Inr old, s1)"
    using assms(1) unfolding restore_previous_def by (auto split: prod.splits sum.splits)
  note s1 = all_settled_lift [OF 1 assms(2)]
  obtain meta s2 where 2: "lift_world (write_kv2 env cfg (op_mount opt) (op_path opt) old cur) s1
      = (Inr meta, s2)"
    using assms(1) 1 unfolding restore_previous_def by (auto split: prod.splits sum.splits)
  note s2 = all_settled_lift [OF 2 s1]
  with assms(1) 1 2 show ?thesis
    unfolding restore_previous_def Let_def
    by (auto elim!: propagate_or_skip_settled intro!: all_settled_done)
qed

lemma run_rollback_settled:
  assumes "run_rollback env cfg opt pr st = (None, st')"
    and "all_settled (B - reached pr - {''read'', ''rollback'', ''verify''}) st"
  shows "all_settled B st'"
proof -
  define s0 where "s0 = set_phase env ''read'' ''active'' ''Reading current version'' st"
  have s0: "all_settled (B - reached pr - {''verify''} - {''rollback''} - {''read''}) s0"
    unfolding s0_def
    by (rule all_settled_active) (auto intro: all_settled_mono [OF assms(2)])
  obtain cur meta s1 where 1: "lift_world (read_kv2 env cfg (op_mount opt) (op_path opt) 0) s0
      = (Inr (cur, meta), s1)"
    using assms(1) unfolding run_rollback_def Let_def s0_def [symmetric]
    by (auto split: prod.splits sum.splits if_splits)
  note s1 = all_settled_lift [OF 1 s0]
  define s2 where "s2 = set_phase env ''rollback'' ''active''
      ''Reading previous version and writing as latest''
      (set_phase env ''read'' ''completed'' (''Current '' @ show_int (sm_version meta) @ '' ''
         @ right_arrow @ '' restore '' @ show_int (sm_version meta - 1))
        (upd_result (\<lambda>r. r\<lparr>rz_current := sm_version meta\<rparr>) s1))"
  have s2: "all_settled (B - reached pr - {''verify''} - {''rollback''}) s2"
    unfolding s2_def by (rule all_settled_active, simp, rule all_settled_done) (simp_all add: s1)
  show ?thesis
  proof (cases "op_dry opt")
    case False
    with assms(1) 1 have "restore_previous env cfg opt pr (sm_version meta) (sm_version meta - 1) s2
        = (None, st')"
      unfolding run_rollback_def Let_def s0_def [symmetric] s2_def by (auto split: if_splits)
    then show ?thesis by (rule restore_previous_settled) (rule s2)
  next
    case True
    have kv: "op_engine opt = ''kv2''" "\<not> sm_version meta - 1 < 1"
      using assms(1) unfolding run_rollback_def Let_def s0_def [symmetric] 1 sum.case prod.case
      by (auto split: if_splits)
    have "propagate_dry env pr (key_only_values (keys_for (op_keys opt) cur)) (sm_version meta + 1)
        (set_phase env ''verify'' ''skipped'' ''Dry-run''
          (upd_result (\<lambda>r. r\<lparr>rz_rolled_back := sm_version meta - 1\<rparr>)
            (set_phase env ''rollback'' ''completed''
              (''Dry-run: would restore version '' @ show_int (sm_version meta - 1)) s2)))
        = (None, st')"
      using assms(1) unfolding run_rollback_def Let_def s0_def [symmetric] 1 sum.case prod.case
        s2_def [symmetric]
      by (simp only: kv True if_True if_False not_True_eq_False simp_thms)
    then show ?thesis
      by (rule propagate_dry_settled) (intro all_settled_done, simp_all add: s2 all_settled_done)
  qed
qed

lemma rotate_transit_settled:
  assumes "rotate_transit env cfg opt st = (None, st')"
    and "all_settled (B - {''rotate'', ''verify'', ''audit''}) st"
  shows "all_settled B st'"
proof -
  define s0 where "s0 = set_phase env ''rotate'' ''active'' ''Rotating transit key'' st"
  have s0: "all_settled (B - {''audit''} - {''verify''} - {''rotate''}) s0"
    unfolding s0_def
    by (rule all_settled_active) (auto intro: all_settled_mono [OF assms(2)])
  obtain x s1 where 1: "lift_world (rotate_transit_key env cfg (op_mount opt) (op_path opt)) s0 = (x, s1)"
    by (metis surj_pair)
  note s1 = all_settled_lift [OF 1 s0]
  show ?thesis
    using assms(1) s0 s1 unfolding rotate_transit_def Let_def s0_def [symmetric] 1
    by (auto split: if_splits option.splits intro!: all_settled_done)
qed

lemma rotate_dry_settled:
  assumes "rotate_dry env opt pr ks v st = (None, st')"
    and "all_settled (B - {''audit''} - {''retire_old''} - reached pr - {''verify''} - {''dual_window''}
           - {''write_new''}) st"
  shows "all_settled B st'"
proof -
  let ?set = "\<lambda>k s m. set_phase env k s m"
  define s3 where "s3 = ?set ''verify'' ''skipped'' ''Dry-run''
      (?set ''dual_window'' ''completed'' (''Dry-run dual window '' @ show_int (op_grace opt) @ ''s'')
        (?set ''write_new'' ''completed''
          (''Dry-run: would write version '' @ show_int (v + 1) @ '' rotating '' @ join '','' ks) st))"
  have s3: "all_settled (B - {''audit''} - {''retire_old''} - reached pr) s3"
    unfolding s3_def by (intro all_settled_done settled_simps assms(2))
  obtain s4 where 4: "propagate_dry env pr (key_only_values ks) (v + 1) s3 = (None, s4)"
    using assms(1) unfolding rotate_dry_def Let_def s3_def [symmetric]
    by (auto split: prod.splits option.splits)
  have s4: "all_settled (B - {''audit''} - {''retire_old''}) s4"
    by (rule propagate_dry_settled [OF 4 s3])
  show ?thesis
    using assms(1) s4 unfolding rotate_dry_def Let_def s3_def [symmetric] 4 prod.case option.case
    by (auto split: if_splits intro!: all_settled_done)
qed

lemma retire_old_settled:
  assumes "all_settled (B - {''retire_old''}) st"
  shows "all_settled B (retire_old env cfg opt v st)"
proof -
  have "all_settled (B - {''retire_old''}) s1"
    if "lift_world f (set_phase env ''retire_old'' ''active'' m st) = (x, s1)" for f m x s1
    by (rule all_settled_lift [OF that all_settled_active]) (simp_all add: assms)
  then show ?thesis
    using assms unfolding retire_old_def
    by (auto split: prod.split option.split intro!: all_settled_done)
qed

lemma dual_window_settled:
  assumes "dual_window env opt st = (None, st')" and "all_settled (B - {''dual_window''}) st"
  shows "all_settled B st'"
proof -
  define s0 where "s0 = set_phase env ''dual_window'' ''active''
      (''Holding '' @ show_int (op_grace opt) @ ''s dual-read window'') st"
  have s0: "all_settled (B - {''dual_window''}) s0"
    unfolding s0_def by (rule all_settled_active) (simp_all add: assms(2))
  obtain x s1 where 1: "(if op_grace opt > 0 then lift_world (rt_wait env (op_grace opt)) s0
      else (None, s0)) = (x, s1)" by (metis surj_pair)
  have "all_settled (B - {''dual_window''}) s1"
    using 1 s0 by (auto split: if_splits intro: all_settled_lift)
  with assms(1) show ?thesis
    unfolding dual_window_def Let_def s0_def [symmetric] 1
    by (auto split: option.splits intro!: all_settled_done)
qed

lemma verify_latest_settled:
  assumes "verify_latest env cfg opt st = (None, st')" and "all_settled (B - {''verify''}) st"
  shows "all_settled B st'"
proof -
  define s0 where "s0 = set_phase env ''verify'' ''active'' ''Reading latest'' st"
  have s0: "all_settled (B - {''verify''}) s0"
    unfolding s0_def by (rule all_settled_active) (simp_all add: assms(2))
  obtain d meta s1 where 1: "lift_world (read_kv2 env cfg (op_mount opt) (op_path opt) 0) s0
      = (Inr (d, meta), s1)"
    using assms(1) unfolding verify_latest_def s0_def [symmetric]
    by (auto split: prod.splits sum.splits)
  note s1 = all_settled_lift [OF 1 s0]
  with assms(1) show ?thesis
    unfolding verify_latest_def s0_def [symmetric] 1
    by (auto simp: Let_def split: if_splits intro!: all_settled_done)
qed

lemma write_next_settled:
  assumes "write_next env cfg opt data v st = (None, st')" and "all_settled (B - {''write_new''}) st"
  shows "all_settled B st'"
proof -
  obtain meta s1 where 1: "lift_world (write_kv2 env cfg (op_mount opt) (op_path opt) data v) st
      = (Inr meta, s1)"
    using assms(1) unfolding write_next_def by (auto split: prod.splits sum.splits)
  note s1 = all_settled_lift [OF 1 assms(2)]
  with assms(1) show ?thesis
    unfolding write_next_def 1 by (auto simp: Let_def intro!: all_settled_done)
qed

lemma rotate_live_settled:
  assumes "rotate_live env cfg opt pr data ks v st = (None, st')"
    and "all_settled (B - {''audit''} - {''retire_old''} - reached pr - {''verify''} - {''dual_window''}
           - {''write_new''}) st"
  shows "all_settled B st'"
proof -
  obtain s1 s2 s3 s4 where 1: "write_next env cfg opt data v st = (None, s1)"
    "dual_window env opt s1 = (None, s2)" "verify_latest env cfg opt s2 = (None, s3)"
    "propagate_or_skip env pr (string_values data ks) (rz_current (ro_result (rn_out s3))) True s3
       = (None, s4)"
    and st': "st' = set_phase env ''audit'' ''completed''
        ''Rotation recorded without plaintext secret values'' (retire_old env cfg opt v s4)"
    using assms(1) unfolding rotate_live_def by (auto split: prod.splits option.splits)
  have "all_settled (B - {''audit''} - {''retire_old''}) s4"
    by (rule propagate_or_skip_settled [OF 1(4)], rule verify_latest_settled [OF 1(3)],
        rule dual_window_settled [OF 1(2)], rule write_next_settled [OF 1(1)], rule assms(2))
  then show ?thesis unfolding st' by (auto intro!: all_settled_done retire_old_settled)
qed

lemma diff_six: "B - {a} - {b} - R - {c} - {d} - {e} - {g} = B - R - {g, e, d, c, b, a}"
  by blast

lemma rotate_kv2_settled:
  assumes "rotate_kv2 env cfg opt pr st = (None, st')"
    and "all_settled (B - reached pr
           - {''read'', ''write_new'', ''dual_window'', ''verify'', ''retire_old'', ''audit''}) st"
  shows "all_settled B st'"
proof -
  let ?C = "B - {''audit''} - {''retire_old''} - reached pr - {''verify''} - {''dual_window''} - {''write_new''}"
  define s0 where "s0 = set_phase env ''read'' ''active'' ''Reading current secret'' st"
  have s0: "all_settled (?C - {''read''}) s0"
    unfolding s0_def
    by (rule all_settled_active, simp only: Diff_iff singleton_iff simp_thms, simp only: diff_six assms(2))
  obtain x s1 where 1: "lift_world (read_kv2 env cfg (op_mount opt) (op_path opt) 0) s0 = (x, s1)"
    by (metis surj_pair)
  obtain cur v s2 where 2: "read_current env cfg opt s0 = ((cur, v), s2)" by (metis surj_pair)
  have s2: "all_settled ?C s2"
    using 2 all_settled_lift [OF 1 s0] unfolding read_current_def 1
    by (auto split: sum.splits intro!: all_settled_done)
  obtain data ks s3 where 3: "lift_world (next_secret env opt cur) s2 = ((data, ks), s3)"
    by (metis surj_pair)
  define s4 where "s4 = set_phase env ''write_new'' ''active'' ''Writing next version''
      (upd_result (\<lambda>r. r\<lparr>rz_keys := ks\<rparr>) s3)"
  have s4: "all_settled ?C s4"
    unfolding s4_def using all_settled_lift [OF 3 s2]
    by (intro all_settled_active) simp_all
  have "(if op_dry opt then rotate_dry env opt pr ks v s4
      else rotate_live env cfg opt pr data ks v s4) = (None, st')"
    using assms(1) unfolding rotate_kv2_def s0_def [symmetric] 2 prod.case 3 Let_def
      s4_def [symmetric] .
  note run = this
  show ?thesis
  proof (cases "op_dry opt")
    case True
    then show ?thesis using rotate_dry_settled [OF _ s4] run by simp
  next
    case False
    then show ?thesis using rotate_live_settled [OF _ s4] run by simp
  qed
qed

lemma run_rotate_settled:
  assumes "run_rotate env cfg opt pr st = (None, st')"
    and "all_settled (B - reached pr - (if op_engine opt = ''transit'' then {''rotate'', ''verify'', ''audit''}
       else {''read'', ''write_new'', ''dual_window'', ''verify'', ''retire_old'', ''audit''})) st"
    and "op_engine opt \<noteq> ''kv2'' \<longrightarrow> reached pr = {}"
  shows "all_settled B st'"
proof -
  consider "op_engine opt = ''transit''" | "op_engine opt = ''database''"
    | "op_engine opt \<noteq> ''transit''" "op_engine opt \<noteq> ''database''" by blast
  then show ?thesis
  proof cases
    case 1
    with assms show ?thesis
      unfolding run_rotate_def by (auto intro: rotate_transit_settled)
  next
    case 2
    let ?C = "B - {''audit''} - {''retire_old''} - {''verify''} - {''dual_window''} - {''write_new''}"
    define s0 where "s0 = set_phase env ''read'' ''skipped'' ''Database rotation is plan-assisted'' st"
    have s0: "all_settled (?C - {''inventory'', ''plan''}) s0"
      unfolding s0_def
      by (rule all_settled_done) (use assms(2,3) 2 in \<open>auto elim: all_settled_mono\<close>)
    obtain s1 where 1: "run_plan env cfg opt s0 = (None, s1)"
      using assms(1) 2 unfolding run_rotate_def s0_def [symmetric]
      by (auto split: prod.splits option.splits)
    have "all_settled ?C s1" by (rule run_plan_settled [OF 1 s0])
    with assms(1) 1 2 show ?thesis
      unfolding run_rotate_def s0_def [symmetric] by (auto intro!: all_settled_done)
  next
    case 3
    have "all_settled (B - reached pr
        - {''read'', ''write_new'', ''dual_window'', ''verify'', ''retire_old'', ''audit''}) st"
      using assms(2) 3 by (auto elim!: all_settled_mono)
    then show ?thesis
      using assms(1) 3 rotate_kv2_settled unfolding run_rotate_def by simp blast
  qed
qed

lemma rotate_github_settled:
  assumes "rotate_github env opt pr st = (None, st')"
    and "all_settled (B - {''audit''} - reached pr - {''generate''}) st"
  shows "all_settled B st'"
proof -
  define s0 where "s0 = set_phase env ''generate'' ''active'' ''Generating new values in memory'' st"
  have s0: "all_settled (B - {''audit''} - reached pr - {''generate''}) s0"
    unfolding s0_def by (rule all_settled_active) (simp_all add: assms(2))
  obtain vs s1 where 1: "lift_world (github_values env (op_new opt) (op_keys opt) []) s0 = (vs, s1)"
    by (metis surj_pair)
  note s1 = all_settled_lift [OF 1 s0]
  show ?thesis
    using assms(1) s1 unfolding rotate_github_def s0_def [symmetric] 1 prod.case Let_def
    by (auto split: prod.splits option.splits elim!: propagate_or_skip_settled
        intro!: all_settled_done)
qed

section \<open>The whole run\<close>

lemma precheck_k8s_phases:
  "precheck_k8s env pr ss st = (ps, st') \<Longrightarrow> phases_of st' = phases_of st"
proof (induction ss arbitrary: st ps)
  case (Cons s ss)
  then show ?case by (auto split: prod.splits dest!: lift_world_phases)
qed simp

lemma precheck_one_phases: "precheck_one env pr s st = (ps, st') \<Longrightarrow> phases_of st' = phases_of st"
  unfolding precheck_one_def Let_def
  by (auto split: prod.splits sum.splits dest!: lift_world_phases)

lemma precheck_eso_phases:
  "precheck_eso env pr ss st = (ps, st') \<Longrightarrow> phases_of st' = phases_of st"
proof (induction ss arbitrary: st ps)
  case (Cons s ss)
  then show ?case by (auto split: prod.splits dest!: precheck_one_phases)
qed simp

lemma precheck_phases: "precheck env pr st = (ps, st') \<Longrightarrow> phases_of st' = phases_of st"
  unfolding precheck_def
  by (auto split: if_splits prod.splits dest!: precheck_k8s_phases precheck_eso_phases)

lemma preflight_targets_phases:
  assumes "preflight_targets env cfg opt st = (Inr pr, st')"
  shows "phases_of st' = phases_of st \<and> reached pr = set (phase_order (op_prop opt))"
proof (cases "has_targets (op_prop opt)")
  case True
  obtain kube problems where c: "check_credentials env cfg (op_prop opt) = (kube, problems)"
    by (metis surj_pair)
  define p where "p = \<lparr>pg_cfg = cfg, pg_opt = opt, pg_kube = kube\<rparr>"
  have r: "x = None \<Longrightarrow> report_or_stop env opt what ps s = (x, s') \<Longrightarrow> phases_of s' = phases_of s"
    for x what ps s s'
    by (auto simp: report_or_stop_def Let_def split: if_splits)
  obtain s1 where 1: "report_or_stop env opt ''Propagation credentials missing: '' problems st = (None, s1)"
    using assms True unfolding preflight_targets_def Let_def c prod.case
    by (auto split: prod.splits option.splits)
  obtain found s2 where 2: "precheck env p s1 = (found, s2)" by (metis surj_pair)
  have 3: "report_or_stop env opt ''Propagation precheck failed (nothing written): '' found s2
      = (None, st')" "pr = Some p"
    using assms True unfolding preflight_targets_def Let_def c prod.case p_def [symmetric] 1 2
    by (auto split: prod.splits option.splits)
  show ?thesis
    using r [OF _ 1] precheck_phases [OF 2] r [OF _ 3(1)] 3(2)
    by (simp add: reached_def p_def)
next
  case False
  with assms show ?thesis
    by (auto simp: preflight_targets_def reached_def has_targets_def phase_order_def)
qed

lemma insert_before_keys:
  "map ph_key (insert_before k ex ps) =
     map ph_key (takeWhile (\<lambda>p. ph_key p \<noteq> k) ps) @ map ph_key ex
     @ map ph_key (dropWhile (\<lambda>p. ph_key p \<noteq> k) ps)"
  by (induction ps) auto

lemma propagation_keys: "map ph_key (propagation_phases p) = phase_order p"
  by (simp add: propagation_phases_def pending_phase_def comp_def)

lemma phase_order_distinct: "distinct (phase_order p)"
  by (simp add: phase_order_def phase_k8s_def phase_external_def phase_github_def phase_rings_def)

lemma mode_keys:
  "distinct (map ph_key (default_phases mode engine))"
  "set (map ph_key (default_phases mode engine)) \<inter> {phase_k8s, phase_external, phase_github, phase_rings} = {}"
  by (simp_all add: default_phases_def pending_phase_def phase_k8s_def phase_external_def
      phase_github_def phase_rings_def)

lemma distinct_between:
  "distinct (xs @ ys) \<Longrightarrow> set (xs @ ys) \<inter> set zs = {} \<Longrightarrow> distinct zs \<Longrightarrow> distinct (xs @ zs @ ys)"
  by auto

lemma build_phases_distinct: "distinct (map ph_key (build_phases opt))"
proof -
  let ?base = "default_phases (op_mode opt) (op_engine opt)" and ?ex = "propagation_phases (op_prop opt)"
  let ?t = "takeWhile (\<lambda>p. ph_key p \<noteq> ''retire_old'') ?base"
    and ?d = "dropWhile (\<lambda>p. ph_key p \<noteq> ''retire_old'') ?base"
  have "distinct (map ph_key (?t @ ?d))" using mode_keys(1) by simp
  moreover have "set (map ph_key (?t @ ?d)) \<inter> set (phase_order (op_prop opt)) = {}"
    using mode_keys(2) [of "op_mode opt" "op_engine opt"] phase_order_keys [of "op_prop opt"]
    unfolding takeWhile_dropWhile_id by blast
  ultimately have "distinct (map ph_key (insert_before ''retire_old'' ?ex ?base))"
    unfolding insert_before_keys propagation_keys map_append
    by (intro distinct_between phase_order_distinct)
  moreover have "''preflight'' \<notin> set (phase_order p)" "''generate'' \<notin> set (phase_order p)"
    "''audit'' \<notin> set (phase_order p)" for p
    using phase_order_keys [of p]
    by (auto simp: phase_k8s_def phase_external_def phase_github_def phase_rings_def)
  then have "distinct (map ph_key ([pending_phase ''preflight'' ''Preflight'',
      pending_phase ''generate'' ''Generate new values''] @ ?ex @ [pending_phase ''audit'' ''Audit'']))"
    using phase_order_distinct by (simp add: propagation_keys pending_phase_def)
  ultimately show ?thesis
    using mode_keys(1) unfolding build_phases_def Let_def
    by (simp add: pending_phase_def)
qed

lemma first_state_opened: "opened (set (map ph_key (build_phases opt))) (first_state cfg opt w)"
  using build_phases_distinct by (auto simp: opened_def open_keys_def phase_keys_def first_state_def)

lemma build_phases_keys:
  assumes "pp_source (op_prop opt) \<noteq> ''github''"
  shows "set (map ph_key (build_phases opt))
    \<subseteq> set (map ph_key (default_phases (op_mode opt) (op_engine opt)))
      \<union> (if op_mode opt = ''plan'' then {} else set (phase_order (op_prop opt)))"
proof -
  have ins: "set (map ph_key (insert_before ''retire_old'' ex ps))
      \<subseteq> set (map ph_key ps) \<union> set (map ph_key ex)" for ex ps
    by (induction ps) auto
  show ?thesis
    using assms ins [of "propagation_phases (op_prop opt)" "default_phases (op_mode opt) (op_engine opt)"]
    by (simp add: build_phases_def propagation_keys Let_def del: set_map list.set_map)
qed

lemma settle_all:
  assumes "\<And>B. all_settled (B - R - X) st \<Longrightarrow> all_settled B st'"
    and "opened K st" and "K \<subseteq> R \<union> X"
  shows "all_settled UNIV st'"
  using assms(1) [of UNIV] opened_mono [OF assms(2,3)] by (simp add: all_settled_def Diff_eq)

lemma default_keys:
  "set (map ph_key (default_phases mode engine)) - {''preflight''} =
     (if mode = ''plan'' then {''inventory'', ''plan''}
      else if mode = ''verify'' then {''read'', ''verify''}
      else if mode = ''rollback'' then {''read'', ''rollback'', ''verify''}
      else if engine = ''transit'' then {''rotate'', ''verify'', ''audit''}
      else {''read'', ''write_new'', ''dual_window'', ''verify'', ''retire_old'', ''audit''})"
  by (simp add: default_phases_def pending_phase_def insert_Diff_if)

lemma execute_mode_settled:
  assumes run: "execute_mode env cfg opt pr st = (None, st')"
    and pr: "reached pr = set (phase_order (op_prop opt))"
    and kv2: "has_targets (op_prop opt) \<longrightarrow> op_engine opt = ''kv2''"
    and src: "pp_source (op_prop opt) \<noteq> ''github''"
    and st: "opened (set (map ph_key (build_phases opt)) - {''preflight''}) st"
  shows "all_settled UNIV st'"
proof -
  have none: "reached pr = {}" if "op_engine opt \<noteq> ''kv2''"
    using that kv2 pr by (auto simp: has_targets_def phase_order_def)
  note keys = opened_mono [OF st Diff_mono [OF build_phases_keys [OF src] subset_refl], unfolded Un_Diff default_keys]
  consider "op_mode opt = ''plan''" | "op_mode opt = ''verify''" | "op_mode opt = ''rollback''"
    | "op_mode opt = ''rotate''"
    using run by (auto simp: execute_mode_def split: if_splits)
  then show ?thesis
  proof cases
    case 1
    show ?thesis
      by (rule settle_all [OF _ keys, where R = "{}" and X = "{''inventory'', ''plan''}"])
         (use run 1 in \<open>auto simp: execute_mode_def elim!: run_plan_settled\<close>)
  next
    case 2
    then have "run_verify env cfg opt pr st = (None, st')" using run by (simp add: execute_mode_def)
    note verify = run_verify_settled [OF this]
    show ?thesis
      by (rule settle_all [OF verify keys]) (use 2 none pr in auto)
  next
    case 3
    then have "run_rollback env cfg opt pr st = (None, st')" using run by (simp add: execute_mode_def)
    note rollback = run_rollback_settled [OF this]
    show ?thesis
      by (rule settle_all [OF rollback keys]) (use 3 pr in auto)
  next
    case 4
    then have "run_rotate env cfg opt pr st = (None, st')" using run by (simp add: execute_mode_def)
    note rotate = run_rotate_settled [OF this]
    show ?thesis
      apply (rule settle_all [OF rotate keys])
        apply assumption
       apply (simp add: none)
      apply (cases "op_engine opt = ''transit''"; simp add: 4 pr; blast)
      done
  qed
qed

lemma opened_detected [simp]:
  "opened K (st\<lparr>rn_out := (rn_out st)\<lparr>ro_detected := d\<rparr>\<rparr>) = opened K st"
  by (simp add: opened_def open_keys_def phase_keys_def)

lemma execute_vault_settled:
  assumes run: "execute_vault env cfg opt pr st = (None, st')"
    and pr: "reached pr = set (phase_order (op_prop opt))"
    and kv2: "has_targets (op_prop opt) \<longrightarrow> op_engine opt = ''kv2''"
    and src: "pp_source (op_prop opt) \<noteq> ''github''"
    and st: "opened (set (map ph_key (build_phases opt))) st"
  shows "all_settled UNIV st'"
proof -
  let ?K = "set (map ph_key (build_phases opt))"
  define s0 where "s0 = set_phase env ''preflight'' ''active'' ''Checking vault reachability'' st"
  have s0: "opened (insert ''preflight'' ?K) s0" unfolding s0_def by (rule opened_any [OF st])
  obtain h s1 where 1: "lift_world (health env cfg) s0 = (h, s1)" by (metis surj_pair)
  have s1: "opened (insert ''preflight'' ?K) s1"
    using opened_frame [OF lift_world_phases [OF 1] s0] .
  have fin: "opened (?K - {''preflight''}) (set_phase env ''preflight'' ''completed'' m s)"
    if "opened (insert ''preflight'' ?K) s" for m s
    by (rule opened_done [OF that]) simp
  obtain m s where "execute_mode env cfg opt pr (set_phase env ''preflight'' ''completed'' m s) = (None, st')"
    "opened (insert ''preflight'' ?K) s"
    using run s1 unfolding execute_vault_def Let_def s0_def [symmetric] 1 prod.case
    by (auto split: sum.splits bool.splits if_splits)
  then show ?thesis
    using execute_mode_settled [OF _ pr kv2 src fin] by blast
qed

lemma execute_github_settled:
  assumes run: "execute_github env opt pr st = (None, st')"
    and src: "pp_source (op_prop opt) = ''github''"
    and pr: "reached pr = set (phase_order (op_prop opt))"
    and st: "opened (set (map ph_key (build_phases opt))) st"
  shows "all_settled UNIV st'"
proof -
  let ?K = "set (map ph_key (build_phases opt))"
  define s2 where "s2 = set_phase env ''preflight'' ''completed''
      (''Source github'' @ middle_dot @ github_target (op_prop opt))
      (upd_result (\<lambda>r. r\<lparr>rz_engine := ''github'', rz_strategy := github_strategy\<rparr>)
         (st\<lparr>rn_out := (rn_out st)\<lparr>ro_detected := ''github''\<rparr>\<rparr>))"
  have s2: "opened (?K - {''preflight''}) s2"
    unfolding s2_def by (rule opened_drop) (use st in simp_all)
  show ?thesis
  proof (cases "op_mode opt = ''plan''")
    case True
    with run have "plan_github env opt s2 = (None, st')"
      unfolding execute_github_def Let_def s2_def [symmetric] by simp
    then have "all_settled B st'" if "all_settled (B - {} - {''plan''}) s2" for B
      using that unfolding plan_github_def Let_def by (auto intro: all_settled_done)
    then show ?thesis
      by (rule settle_all [OF _ s2, where R = "{}" and X = "{''plan''}"])
         (use True src in \<open>simp_all add: build_phases_def pending_phase_def insert_Diff_if\<close>)
  next
    case False
    with run have "rotate_github env opt pr s2 = (None, st')"
      unfolding execute_github_def Let_def s2_def [symmetric] by simp
    note rotate = rotate_github_settled [OF this]
    have "all_settled B st'" if "all_settled (B - reached pr - {''audit'', ''generate''}) s2" for B
      by (rule rotate) (rule all_settled_mono [OF that], blast)
    then show ?thesis
      by (rule settle_all [OF _ s2])
         (use False src pr in \<open>auto simp: build_phases_def pending_phase_def propagation_phases_def\<close>)
  qed
qed

lemma execute_settles:
  assumes "execute env cfg opt w = ((None, Some out), w')"
  shows "list_all (\<lambda>p. settled (ph_status p)) (ro_phases out)"
proof -
  define opt' where "opt' = with_defaults opt"
  define cfg' where "cfg' = run_config cfg opt'"
  define st where "st = first_state cfg' opt' w"
  define K where "K = set (map ph_key (build_phases opt'))"
  have valid: "validate_propagation opt' = None"
    using assms unfolding execute_def Let_def opt'_def [symmetric] cfg'_def [symmetric]
    by (auto split: option.splits if_splits)
  obtain pr s1 where 1: "preflight_targets env cfg' opt' st = (Inr pr, s1)"
    using assms valid unfolding execute_def Let_def opt'_def [symmetric] cfg'_def [symmetric]
      st_def [symmetric]
    by (auto split: sum.splits if_splits prod.splits)
  have pr: "reached pr = set (phase_order (op_prop opt'))" and s1: "opened K s1"
    using preflight_targets_phases [OF 1] first_state_opened [of opt' cfg' w]
    by (auto simp: K_def st_def intro: opened_frame)
  obtain st' where st': "out = rn_out st'"
    "(if pp_source (op_prop opt') = ''github'' then execute_github env opt' pr s1
      else execute_vault env cfg' opt' pr s1) = (None, st')"
    using assms valid unfolding execute_def Let_def opt'_def [symmetric] cfg'_def [symmetric]
      st_def [symmetric] 1
    by (auto split: if_splits prod.splits)
  have "all_settled UNIV st'"
  proof (cases "pp_source (op_prop opt') = ''github''")
    case True
    with st'(2) show ?thesis
      using execute_github_settled [OF _ True pr s1 [unfolded K_def]] by simp
  next
    case False
    have "has_targets (op_prop opt') \<longrightarrow> op_engine opt' = ''kv2''"
      using valid False by (auto simp: validate_propagation_def Let_def split: if_splits)
    with st'(2) False show ?thesis
      using execute_vault_settled [OF _ pr _ False s1 [unfolded K_def]] by simp
  qed
  then show ?thesis
    by (auto simp: all_settled_def opened_def open_keys_def list_all_iff st'(1))
qed

text \<open>
  A successful run has settled every phase. When \<open>Execute\<close> reports no error, every phase of the
  run, whatever its mode, engine and targets, is completed, skipped or failed: none is left pending
  or active.
\<close>

lemma successful_run_settles:
  assumes "execute env cfg opt w = ((None, Some out), w')"
  shows "list_all (\<lambda>p. settled (ph_status p)) (ro_phases out)"
  using assms by (rule execute_settles)

definition github_opts :: rot_opts where
  "github_opts = (test_opts ''plan'' False)
     \<lparr>op_prop := (op_prop (test_opts ''plan'' False))
        \<lparr>pp_source := ''github'', pp_github_repo := ''owner/repo''\<rparr>\<rparr>"

end
