(* ===== verification/SecretsChecks.thy ===== *)
theory SecretsChecks
  imports SecretsProps "HOL-Library.Sublist"
begin

text \<open>
  Two checks of the rotation: the fields of a launch that is accepted are well-formed names, and the
  texts that are stored hide the values.
\<close>

section \<open>Accepted targets are well-formed\<close>

definition valid_target :: "namespaced \<Rightarrow> bool" where
  "valid_target t \<longleftrightarrow>
     valid_dns (fst t) \<and> valid_dns (snd t) \<and> length (fst t) \<le> 63 \<and> length (snd t) \<le> 253"

definition valid_propagation :: "propagation \<Rightarrow> bool" where
  "valid_propagation p \<longleftrightarrow>
     pp_source p \<in> {''vault'', ''github''}
   \<and> (pp_cluster p = [] \<or> valid_cluster_name (pp_cluster p))
   \<and> list_all valid_target (pp_external p @ pp_k8s p)
   \<and> (pp_external p @ pp_k8s p = [] \<or> pp_cluster p \<noteq> [])
   \<and> (pp_github_repo p = [] \<or> valid_github_repo (pp_github_repo p))
   \<and> (pp_github_env p = [] \<or> valid_github_env (pp_github_env p) \<and> pp_github_repo p \<noteq> [])
   \<and> list_all (\<lambda>(k, n). k \<noteq> [] \<and> valid_github_secret_name n = None) (pp_github_names p)
   \<and> distinct (map fst (pp_github_names p))
   \<and> (pp_github_names p = [] \<or> pp_github_repo p \<noteq> [])
   \<and> list_all valid_rp_name (pp_rings p) \<and> distinct (pp_rings p)
   \<and> list_all valid_dns (pp_deployments p)
   \<and> (pp_deployments p = [] \<or> pp_rings p \<noteq> [])
   \<and> (pp_app p = [] \<or> valid_rp_name (pp_app p)) \<and> (pp_rings p = [] \<or> pp_app p \<noteq> [])
   \<and> (pp_source p \<noteq> ''github'' \<or> pp_github_repo p \<noteq> [] \<and> pp_external p = [])"

lemma guard_Inr: "guard b m k = Inr x \<longleftrightarrow> \<not> b \<and> k = Inr x"
  by (simp add: guard_def)

lemma traverse_Inr:
  "traverse f xs = Inr ys \<Longrightarrow> list_all2 (\<lambda>x y. f x = Inr y) xs ys"
  by (induction xs arbitrary: ys) (auto split: sum.splits)

lemma traverse_all:
  assumes "traverse f xs = Inr ys" and "\<And>x y. f x = Inr y \<Longrightarrow> P y"
  shows "list_all P ys"
  using traverse_Inr [OF assms(1)] assms(2)
  by (induction rule: list_all2_induct) auto

lemma parse_namespaced_valid:
  "parse_namespaced field raw = Inr ts \<Longrightarrow> list_all valid_target ts"
  unfolding parse_namespaced_def
  by (erule traverse_all) (auto simp: parse_item_def valid_target_def Let_def split: option.splits if_splits)

lemma check_all_None: "check_all ok what xs = None \<longleftrightarrow> list_all ok xs"
  by (auto simp: check_all_def find_None_iff list_all_iff)

lemma keep_new_distinct: "distinct (keep_new seen ps) \<and> set (keep_new seen ps) \<inter> set seen = {}"
  by (induction seen ps rule: keep_new.induct) (auto simp: Let_def)

lemma aput_all:
  assumes "list_all P kvs" and "list_all P m" and "distinct (map fst m)"
  shows "list_all P (foldl (\<lambda>m kv. aput (fst kv) (snd kv) m) m kvs)
       \<and> distinct (map fst (foldl (\<lambda>m kv. aput (fst kv) (snd kv) m) m kvs))"
  using assms
proof (induction kvs arbitrary: m)
  case (Cons kv kvs)
  have "list_all P (aput (fst kv) (snd kv) m)" "distinct (map fst (aput (fst kv) (snd kv) m))"
    using Cons.prems by (auto simp: aput_def list_all_iff distinct_map_filter)
  then show ?case using Cons by simp
qed simp

lemma parse_github_names_valid:
  assumes "parse_github_names raw = Inr ns"
  shows "list_all (\<lambda>(k, n). k \<noteq> [] \<and> valid_github_secret_name n = None) ns \<and> distinct (map fst ns)"
proof -
  obtain kvs where kvs: "traverse parse_pair (split_list raw) = Inr kvs"
    "ns = foldl (\<lambda>m kv. aput (fst kv) (snd kv) m) [] kvs"
    using assms by (auto simp: parse_github_names_def split: sum.splits)
  have "list_all (\<lambda>(k, n). k \<noteq> [] \<and> valid_github_secret_name n = None) kvs"
    by (rule traverse_all [OF kvs(1)])
       (auto simp: parse_pair_def Let_def split: option.splits if_splits prod.splits)
  then show ?thesis using kvs(2) by (simp add: aput_all)
qed

lemma parsed_targets_valid:
  assumes "parse_propagation inp = Inr p"
  shows "valid_propagation p"
proof -
  define p0 where "p0 = \<lparr>pp_source = (if to_lower (trim_space (pi_source inp)) = [] then ''vault''
        else to_lower (trim_space (pi_source inp))),
      pp_cluster = trim_space (pi_cluster inp), pp_external = [], pp_k8s = [],
      pp_github_repo = trim_space (pi_github_repo inp),
      pp_github_env = trim_space (pi_github_env inp), pp_github_names = [],
      pp_app = trim_space (pi_rp_app inp), pp_rings = [], pp_deployments = []\<rparr>"
  obtain p1 p2 p3 where 1: "parse_k8s_fields inp p0 = Inr p1" and 2: "parse_github_fields inp p1 = Inr p2"
    and 3: "parse_ring_fields inp p2 = Inr p3" and 4: "check_source p3 = Inr p"
    and src: "pp_source p0 = ''vault'' \<or> pp_source p0 = ''github''"
    using assms unfolding parse_propagation_def Let_def p0_def [symmetric]
    by (auto simp: guard_Inr split: sum.splits)
  obtain es ks where k8s: "p1 = p0\<lparr>pp_external := es, pp_k8s := ks\<rparr>"
    "list_all valid_target es" "list_all valid_target ks"
    "pp_cluster p0 = [] \<or> valid_cluster_name (pp_cluster p0)"
    "es = [] \<and> ks = [] \<or> pp_cluster p0 \<noteq> []"
    using 1 by (auto simp: parse_k8s_fields_def guard_Inr split: sum.splits
        dest!: parse_namespaced_valid)
  obtain ns where gh: "p2 = p1\<lparr>pp_github_names := ns\<rparr>"
    "list_all (\<lambda>(k, n). k \<noteq> [] \<and> valid_github_secret_name n = None) ns" "distinct (map fst ns)"
    "pp_github_repo p1 = [] \<or> valid_github_repo (pp_github_repo p1)"
    "pp_github_env p1 = [] \<or> valid_github_env (pp_github_env p1)"
    "pp_github_env p1 = [] \<and> ns = [] \<or> pp_github_repo p1 \<noteq> []"
    using 2 by (auto simp: parse_github_fields_def guard_Inr split: sum.splits
        dest!: parse_github_names_valid)
  define rings where "rings = split_list (pi_rp_rings inp)"
  define ds where "ds = split_list (pi_rp_deployments inp)"
  define app where "app = (if rings \<noteq> [] \<and> pp_app p2 = [] then ''jobshout'' else pp_app p2)"
  have rg: "list_all valid_rp_name rings" "list_all valid_dns ds" "ds = [] \<or> rings \<noteq> []"
    "app = [] \<or> valid_rp_name app" "p3 = p2\<lparr>pp_app := app, pp_rings := rings, pp_deployments := ds\<rparr>"
    using 3 unfolding parse_ring_fields_def Let_def rings_def [symmetric] ds_def [symmetric]
      app_def [symmetric]
    by (auto simp: guard_Inr check_all_None split: option.splits)
  have "distinct rings" "rings = [] \<or> app \<noteq> []"
    using keep_new_distinct by (auto simp: rings_def split_list_def app_def)
  moreover have "p = p3" "pp_source p3 \<noteq> ''github'' \<or> pp_github_repo p3 \<noteq> [] \<and> pp_external p3 = []"
    using 4 by (auto simp: check_source_def guard_Inr split: if_splits)
  ultimately show ?thesis
    using src k8s gh rg unfolding valid_propagation_def by simp blast
qed

text \<open>
  The targets of an accepted launch are well-formed. Whatever text the fields hold, what
  \<open>parse_propagation\<close> accepts names a valid cluster, namespaces, Secrets, repository, GitHub
  secrets and rings, each list without duplicates where the code promises it, with the fields that
  need each other present; a launch from GitHub names a repository and no ExternalSecret.
\<close>

lemma parse_propagation_valid:
  assumes "parse_propagation inp = Inr p"
  shows "valid_propagation p"
  using assms by (rule parsed_targets_valid)

definition test_input :: propagation_input where
  "test_input =
     \<lparr>pi_source = [], pi_cluster = ''ring0'', pi_external = ''prod/app, prod/app'',
      pi_k8s = ''int/app-db'', pi_github_repo = ''owner/repo'', pi_github_env = [],
      pi_github_names = ''password=DB_PASSWORD'', pi_rp_app = [], pi_rp_rings = ''int prod'',
      pi_rp_deployments = []\<rparr>"

definition test_propagation :: propagation where
  "test_propagation =
     \<lparr>pp_source = ''vault'', pp_cluster = ''ring0'', pp_external = [(''prod'', ''app'')],
      pp_k8s = [(''int'', ''app-db'')], pp_github_repo = ''owner/repo'', pp_github_env = [],
      pp_github_names = [(''password'', ''DB_PASSWORD'')], pp_app = ''jobshout'',
      pp_rings = [''int'', ''prod''], pp_deployments = []\<rparr>"

lemma test_input_parses: "parse_propagation test_input = Inr test_propagation"
  by code_simp

section \<open>Scrubbed texts\<close>

definition no_brackets :: "string \<Rightarrow> bool" where
  "no_brackets v \<longleftrightarrow> CHR ''['' \<notin> set v \<and> CHR '']'' \<notin> set v"

lemma has_prefix_prefix: "has_prefix s p \<longleftrightarrow> prefix p s"
  by (induction s p rule: has_prefix.induct) auto

lemma index_of_sublist: "index_of s p \<noteq> None \<longleftrightarrow> sublist p s"
  by (induction s p rule: index_of.induct)
     (auto simp: has_prefix_prefix sublist_Cons_right split: option.splits if_splits)

lemma replace_all_hit:
  "old \<noteq> [] \<and> has_prefix (c # t) old \<Longrightarrow>
     replace_all old new (c # t) = new @ replace_all old new (drop (length old) (c # t))"
  by (simp add: replace_all.simps [of old new "c # t"])

lemma replace_all_miss:
  "\<not> (old \<noteq> [] \<and> has_prefix (c # t) old) \<Longrightarrow>
     replace_all old new (c # t) = c # replace_all old new t"
  by (auto simp add: replace_all.simps [of old new "c # t"])

text \<open>A piece without brackets that starts in the scrubbed text starts in the text.\<close>

lemma prefix_replace_all:
  "prefix v (replace_all old new s) \<Longrightarrow> new = redacted \<Longrightarrow> no_brackets v \<Longrightarrow> prefix v s"
proof (induction old new s arbitrary: v rule: replace_all.induct)
  case (1 old new s)
  show ?case
  proof (cases "v = [] \<or> s = []")
    case True
    with 1 show ?thesis by (auto simp: replace_all.simps)
  next
    case False
    then obtain c t d w where s: "s = c # t" and v: "v = d # w" by (meson neq_Nil_conv)
    have d: "d \<noteq> CHR ''[''" using 1 v by (auto simp: no_brackets_def)
    have miss: "\<not> (old \<noteq> [] \<and> has_prefix (c # t) old)"
      using 1(3,4) d v s replace_all_hit [of old c t new] by (auto simp: redacted_def)
    then have "prefix v (c # replace_all old new t)"
      using 1(3) s by (simp add: replace_all_miss)
    then show ?thesis
      using 1(2) [OF s] miss 1(4,5) s v by (auto simp: no_brackets_def)
  qed
qed

lemma sublist_replace_all:
  assumes "no_brackets v" and "v \<noteq> []" and "\<not> sublist v redacted"
  shows "new = redacted \<Longrightarrow> \<not> sublist v s \<or> v = old \<Longrightarrow> \<not> sublist v (replace_all old new s)"
proof (induction old new s rule: replace_all.induct)
  case (1 old new s)
  show ?case
  proof (cases s)
    case Nil
    with assms show ?thesis by (simp add: replace_all.simps)
  next
    case (Cons c t)
    show ?thesis
    proof (cases "old \<noteq> [] \<and> has_prefix s old")
      case True
      have rest: "\<not> sublist v (replace_all old redacted (drop (length old) s))"
        using 1(1) [OF Cons True] 1(3,4) Cons by (metis sublist_drop sublist_order.order.trans)
      have "\<not> (suffix v1 redacted \<and> prefix v2 b)" if "v = v1 @ v2" "\<not> sublist v b" for v1 v2 b
      proof (cases "v1 = []")
        case False
        then have "last v1 \<in> set v" using that by simp
        then have "last v1 \<noteq> CHR '']''" using assms(1) by (auto simp: no_brackets_def)
        moreover have "suffix v1 redacted \<Longrightarrow> last v1 = CHR '']''"
          using False by (auto simp: suffix_def redacted_def) (metis last.simps last_appendR list.distinct(1))
        ultimately show ?thesis by blast
      qed (use that in auto)
      with rest assms(3) have "\<not> sublist v (redacted @ replace_all old redacted (drop (length old) s))"
        by (auto simp: sublist_append)
      then show ?thesis
        using True Cons 1(3) replace_all_hit [of old c t new] by simp
    next
      case False
      have "\<not> sublist v (replace_all old new t)"
        using 1(2) [OF Cons] False 1(3,4) Cons by (auto simp: sublist_Cons_right)
      moreover have "\<not> prefix v (c # replace_all old new t)"
      proof
        assume "prefix v (c # replace_all old new t)"
        then have "prefix v (replace_all old new s)"
          using False Cons by (simp add: replace_all_miss)
        then have "prefix v s" using prefix_replace_all 1(3) assms(1) by blast
        then show False
          using 1(4) False assms(2) by (auto simp: has_prefix_prefix)
      qed
      ultimately show ?thesis
        using False Cons by (simp add: replace_all_miss sublist_Cons_right)
    qed
  qed
qed

lemma sublist_scrub:
  assumes "no_brackets v" and "v \<noteq> []" and "\<not> sublist v redacted"
  shows "\<not> sublist v s \<or> v \<in> set vs \<Longrightarrow> \<not> sublist v (scrub vs s)"
proof (induction vs arbitrary: s)
  case (Cons x vs)
  have "\<not> sublist v (replace_all x redacted s) \<or> v \<in> set vs"
    using sublist_replace_all [OF assms refl, of s x] Cons.prems by auto
  then show ?case using Cons.IH by (simp add: scrub_def)
qed (simp add: scrub_def)

text \<open>
  C26: Scrubbing hides the values. Of every value of four bytes and more, neither the value nor its
  base64 is left in a scrubbed text, whatever the text and whatever else is scrubbed, unless it
  contains a bracket or is a part of the replacement itself.
\<close>

theorem scrub_hides_values:
  assumes "(k, v) \<in> set vals" and "length v \<ge> 4" and "x \<in> {v, b64_encode v}"
    and "no_brackets x" and "\<not> str_contains redacted x"
  shows "\<not> str_contains (scrub (redact_list vals) s) x"
proof -
  have "x \<in> set (redact_list vals)"
    using assms(1-3) by (force simp: redact_list_def)
  moreover have "x \<noteq> []"
    using assms(5) by (auto simp: str_contains_def redacted_def)
  ultimately show ?thesis
    using sublist_scrub [where v = x and vs = "redact_list vals" and s = s] assms(4,5)
    by (simp add: str_contains_def index_of_sublist [unfolded not_None_eq])
qed

theorem scrub_hides_values_witness:
  "\<not> str_contains (scrub (redact_list [(''password'', ''hunter22'')])
       ''patch failed: value hunter22 (aHVudGVyMjI=) rejected'') ''hunter22''"
  by (rule scrub_hides_values [of "''password''" "''hunter22''"])
     (simp_all add: no_brackets_def str_contains_def redacted_def)

end
