(* ===== verification/SecretsService.thy ===== *)
theory SecretsService
  imports SecretsRotate
begin

text \<open>
  The launch and the life of a rotation run (\<open>service/secrets_rotation_service.go\<close> and the table of
  \<open>repository/secrets_rotation_run_repository.go\<close>): a request becomes a stored run and a goroutine,
  the goroutine keeps the row up to date while \<open>Execute\<close> goes on, and a run can be cancelled. The
  two JSON columns hold the values they encode. The environment of the run acts on the whole state,
  so what others do while it goes on (a cancellation) is part of its effects.
\<close>

section \<open>The table of runs\<close>

record rot_request =
  rl_agent :: uuid
  rl_task :: "uuid option"
  rl_mode :: string
  rl_provider :: string
  rl_addr :: string
  rl_mount :: string
  rl_path :: string
  rl_engine :: string
  rl_keys :: string
  rl_grace :: int
  rl_retire :: bool
  rl_dry :: bool
  rl_new :: string
  rl_instruction :: string
  rl_targets :: propagation_input

record rot_run =
  ru_id :: uuid
  ru_agent :: uuid
  ru_task :: "uuid option"
  ru_org :: uuid
  ru_requested :: "uuid option"
  ru_status :: string
  ru_mode :: string
  ru_provider :: string
  ru_detected :: string
  ru_addr :: string
  ru_mount :: string
  ru_path :: string
  ru_engine :: string
  ru_keys :: string
  ru_grace :: int
  ru_retire :: bool
  ru_dry :: bool
  ru_instruction :: "string option"
  ru_phases :: "rot_phase list"
  ru_result :: "rot_result option"
  ru_error :: "string option"
  ru_targets :: propagation_input
  ru_started :: "int option"
  ru_completed :: "int option"

text \<open>
  The state of the service: its table, the cancel functions it holds (\<open>s.cancels\<close>), and the runs
  whose context has been cancelled.
\<close>

record 'w rot_sys =
  ry_rows :: "uuid \<Rightarrow> rot_run option"
  ry_cancels :: "uuid set"
  ry_cancelled :: "uuid set"
  ry_world :: 'w

record 'w rot_service =
  rs_env :: "'w rot_sys rot_env"
  rs_cfg :: rot_config
  rs_agents :: "'w rot_sys \<Rightarrow> uuid \<Rightarrow> go_err + uuid option"
  rs_now :: "'w rot_sys \<Rightarrow> int"
  rs_fresh :: "'w rot_sys \<Rightarrow> uuid"
  rs_fault :: "'w rot_sys \<Rightarrow> string \<Rightarrow> go_err option"

definition run_not_found :: go_err where
  "run_not_found = ErrSentinel ''secrets rotation run not found''"

definition not_cancellable :: go_err where
  "not_cancellable = ErrSentinel ''secrets rotation run cannot be cancelled''"

definition no_rows :: go_err where
  "no_rows = ErrSentinel ''no rows in result set''"

text \<open>\<open>Update\<close> writes every column but the identity of the run and its targets.\<close>

definition merge_row :: "rot_run \<Rightarrow> rot_run \<Rightarrow> rot_run" where
  "merge_row run old =
     run\<lparr>ru_agent := ru_agent old, ru_task := ru_task old, ru_org := ru_org old,
         ru_requested := ru_requested old, ru_targets := ru_targets old\<rparr>"

definition update_run ::
  "'w rot_service \<Rightarrow> rot_run \<Rightarrow> 'w rot_sys \<Rightarrow> go_err option \<times> 'w rot_sys" where
  "update_run sv run s =
     (case rs_fault sv s ''repo.Update'' of
        Some e \<Rightarrow> (Some e, s)
      | None \<Rightarrow>
          (case ry_rows s (ru_id run) of
             None \<Rightarrow> (Some no_rows, s)
           | Some old \<Rightarrow>
               (None, s\<lparr>ry_rows := (ry_rows s)(ru_id run \<mapsto> merge_row run old)\<rparr>)))"

definition get_by_id :: "'w rot_service \<Rightarrow> uuid \<Rightarrow> 'w rot_sys \<Rightarrow> go_err + rot_run" where
  "get_by_id sv i s =
     (case rs_fault sv s ''repo.GetByID'' of
        Some e \<Rightarrow> Inl e
      | None \<Rightarrow>
          (case ry_rows s i of
             None \<Rightarrow> Inl (ErrText ''secrets rotation run not found'')
           | Some r \<Rightarrow> Inr r))"

section \<open>Launching\<close>

definition or_default :: "string \<Rightarrow> string \<Rightarrow> string" where
  "or_default s d = (if trim_space s = [] then d else trim_space s)"

text \<open>The row keeps the parsed names where there is one, the trimmed text where there is a list.\<close>

definition stored_targets :: "propagation_input \<Rightarrow> propagation \<Rightarrow> propagation_input" where
  "stored_targets inp p =
     \<lparr>pi_source = pp_source p, pi_cluster = pp_cluster p,
      pi_external = trim_space (pi_external inp), pi_k8s = trim_space (pi_k8s inp),
      pi_github_repo = pp_github_repo p, pi_github_env = pp_github_env p,
      pi_github_names = trim_space (pi_github_names inp), pi_rp_app = pp_app p,
      pi_rp_rings = trim_space (pi_rp_rings inp),
      pi_rp_deployments = trim_space (pi_rp_deployments inp)\<rparr>"

definition launch_opts :: "string \<Rightarrow> string \<Rightarrow> string list \<Rightarrow> propagation \<Rightarrow> rot_opts" where
  "launch_opts mode engine keys p =
     \<lparr>op_mode = mode, op_provider = [], op_addr = [], op_token = [], op_namespace = [],
      op_mount = [], op_path = [], op_engine = engine, op_keys = keys, op_grace = 0,
      op_retire = False, op_dry = False, op_new = [], op_prop = p, op_run_id = []\<rparr>"

definition new_run ::
  "'w rot_service \<Rightarrow> rot_request \<Rightarrow> uuid \<Rightarrow> uuid option \<Rightarrow> propagation \<Rightarrow> 'w rot_sys \<Rightarrow> rot_run" where
  "new_run sv rq org by p s =
     \<lparr>ru_id = rs_fresh sv s, ru_agent = rl_agent rq, ru_task = rl_task rq, ru_org = org,
      ru_requested = by, ru_status = ''queued'', ru_mode = or_default (rl_mode rq) ''plan'',
      ru_provider = or_default (rl_provider rq) ''auto'', ru_detected = [],
      ru_addr = or_default (rl_addr rq) (cf_addr (rs_cfg sv)),
      ru_mount = or_default (rl_mount rq) ''secret'', ru_path = trim_space (rl_path rq),
      ru_engine = or_default (rl_engine rq) ''kv2'', ru_keys = trim_space (rl_keys rq),
      ru_grace = (if rl_grace rq < 0 then 0 else rl_grace rq), ru_retire = rl_retire rq,
      ru_dry = rl_dry rq,
      ru_instruction = (if trim_space (rl_instruction rq) \<noteq> []
                        then Some (trim_space (rl_instruction rq)) else None),
      ru_phases = [], ru_result = None, ru_error = None,
      ru_targets = stored_targets (rl_targets rq) p, ru_started = Some (rs_now sv s),
      ru_completed = None\<rparr>"

text \<open>
  \<open>CreateRun\<close>: the run, and (second) what the goroutine it starts is given. The row is stored before
  the new values are parsed.
\<close>

definition create_run ::
  "'w rot_service \<Rightarrow> rot_request \<Rightarrow> uuid \<Rightarrow> uuid option \<Rightarrow> 'w rot_sys
     \<Rightarrow> ((go_err + rot_run) \<times> (rot_run \<times> obj) option) \<times> 'w rot_sys" where
  "create_run sv rq org by s =
     (case rs_agents sv s (rl_agent rq) of
        Inl e \<Rightarrow> ((Inl (ErrWrap ''failed to get agent: '' e), None), s)
      | Inr owner \<Rightarrow>
          if owner \<noteq> Some org then ((Inl (ErrText ''agent not found''), None), s)
          else
            (case parse_propagation (rl_targets rq) of
               Inl e \<Rightarrow> ((Inl e, None), s)
             | Inr p \<Rightarrow>
                 (case validate_launch (launch_opts (or_default (rl_mode rq) ''plan'')
                          (or_default (rl_engine rq) ''kv2'') (parse_keys (rl_keys rq)) p) of
                    Some e \<Rightarrow> ((Inl e, None), s)
                  | None \<Rightarrow>
                      (case rs_fault sv s ''repo.Create'' of
                         Some e \<Rightarrow> ((Inl e, None), s)
                       | None \<Rightarrow>
                           (let run = new_run sv rq org by p s;
                                s1 = s\<lparr>ry_rows := (ry_rows s)(ru_id run \<mapsto> run)\<rparr>
                            in case parse_new_secret (rl_new rq) of
                                 Inl e \<Rightarrow> ((Inl e, None), s1)
                               | Inr new \<Rightarrow>
                                   ((Inr run, Some (run, new)),
                                    s1\<lparr>ry_cancels := insert (ru_id run) (ry_cancels s1)\<rparr>))))))"

section \<open>The goroutine\<close>

text \<open>
  The environment of \<open>Execute\<close> next to the run the goroutine holds: only the callback touches the
  run; its \<open>Update\<close> may fail unnoticed.
\<close>

definition beside :: "('s \<Rightarrow> 'a \<times> 's) \<Rightarrow> rot_run \<times> 's \<Rightarrow> 'a \<times> (rot_run \<times> 's)" where
  "beside f rs = (case f (snd rs) of (x, s) \<Rightarrow> (x, (fst rs, s)))"

fun replace_phase :: "rot_phase \<Rightarrow> rot_phase list \<Rightarrow> rot_phase list" where
  "replace_phase p [] = [p]"
| "replace_phase p (q # qs) = (if ph_key q = ph_key p then p # qs else q # replace_phase p qs)"

definition on_phase :: "'w rot_service \<Rightarrow> rot_phase \<Rightarrow> rot_run \<times> 'w rot_sys \<Rightarrow> rot_run \<times> 'w rot_sys" where
  "on_phase sv p rs =
     (let run = (fst rs)\<lparr>ru_phases := replace_phase p (ru_phases (fst rs))\<rparr>
      in (run, snd (update_run sv run (snd rs))))"

definition run_env :: "'w rot_service \<Rightarrow> (rot_run \<times> 'w rot_sys) rot_env" where
  "run_env sv =
     (let env = rs_env sv in
      \<lparr>rt_http = (\<lambda>q. beside (rt_http env q)), rt_random = beside (rt_random env),
       rt_now = beside (rt_now env), rt_wait = (\<lambda>n. beside (rt_wait env n)),
       rt_polls = beside (rt_polls env), rt_getenv = rt_getenv env,
       rt_read_file = rt_read_file env, rt_yaml = rt_yaml env, rt_ca_ok = rt_ca_ok env,
       rt_key_pair = rt_key_pair env, rt_seal = (\<lambda>k v. beside (rt_seal env k v)),
       rt_on_phase = on_phase sv\<rparr>)"

definition opts_of :: "rot_run \<Rightarrow> obj \<Rightarrow> propagation \<Rightarrow> rot_opts" where
  "opts_of run new p =
     \<lparr>op_mode = ru_mode run, op_provider = ru_provider run, op_addr = ru_addr run, op_token = [],
      op_namespace = [], op_mount = ru_mount run, op_path = ru_path run, op_engine = ru_engine run,
      op_keys = parse_keys (ru_keys run), op_grace = ru_grace run, op_retire = ru_retire run,
      op_dry = ru_dry run, op_new = new, op_prop = p, op_run_id = show_nat (ru_id run)\<rparr>"

definition fail_run :: "'w rot_service \<Rightarrow> string \<Rightarrow> rot_run \<Rightarrow> 'w rot_sys \<Rightarrow> 'w rot_sys" where
  "fail_run sv msg run s =
     snd (update_run sv (run\<lparr>ru_error := Some msg, ru_status := ''failed'',
            ru_completed := Some (rs_now sv s)\<rparr>) s)"

definition with_outcome :: "rot_out option \<Rightarrow> rot_run \<Rightarrow> rot_run" where
  "with_outcome out run =
     (case out of
        None \<Rightarrow> run
      | Some x \<Rightarrow> run\<lparr>ru_phases := ro_phases x, ru_detected := ro_detected x,
                      ru_result := Some (ro_result x)\<rparr>)"

definition finish_run :: "'w rot_service \<Rightarrow> go_err option \<Rightarrow> rot_run \<Rightarrow> 'w rot_sys \<Rightarrow> 'w rot_sys" where
  "finish_run sv err run s =
     (case err of
        Some e \<Rightarrow> fail_run sv (err_text e) run s
      | None \<Rightarrow>
          if ru_id run \<in> ry_cancelled s
          then snd (update_run sv (run\<lparr>ru_status := ''cancelled'', ru_error := Some ''cancelled'',
                      ru_completed := Some (rs_now sv s)\<rparr>) s)
          else snd (update_run sv (run\<lparr>ru_status := ''completed'',
                      ru_completed := Some (rs_now sv s)\<rparr>) s))"

text \<open>\<open>execute\<close>; on the way out its cancel function is dropped.\<close>

definition run_body :: "'w rot_service \<Rightarrow> rot_run \<Rightarrow> obj \<Rightarrow> 'w rot_sys \<Rightarrow> 'w rot_sys" where
  "run_body sv run0 new s0 =
     (let run = run0\<lparr>ru_status := ''running''\<rparr>; s = snd (update_run sv run s0)
      in case parse_propagation (ru_targets run) of
           Inl e \<Rightarrow> fail_run sv (err_text e) run s
         | Inr p \<Rightarrow>
             (case execute (run_env sv) (rs_cfg sv) (opts_of run new p) (run, s) of
                ((err, out), (run1, s1)) \<Rightarrow> finish_run sv err (with_outcome out run1) s1))"

definition execute_run :: "'w rot_service \<Rightarrow> rot_run \<Rightarrow> obj \<Rightarrow> 'w rot_sys \<Rightarrow> 'w rot_sys" where
  "execute_run sv run new s =
     (let s1 = run_body sv run new s in s1\<lparr>ry_cancels := ry_cancels s1 - {ru_id run}\<rparr>)"

section \<open>Reading and cancelling\<close>

definition get_run :: "'w rot_service \<Rightarrow> uuid \<Rightarrow> uuid \<Rightarrow> 'w rot_sys \<Rightarrow> go_err + rot_run" where
  "get_run sv i org s =
     (case get_by_id sv i s of
        Inl e \<Rightarrow> Inl e
      | Inr run \<Rightarrow> if ru_org run \<noteq> org then Inl run_not_found else Inr run)"

definition cancel_run ::
  "'w rot_service \<Rightarrow> uuid \<Rightarrow> uuid \<Rightarrow> 'w rot_sys \<Rightarrow> (go_err + rot_run) \<times> 'w rot_sys" where
  "cancel_run sv i org s =
     (case get_run sv i org s of
        Inl e \<Rightarrow> (Inl e, s)
      | Inr run \<Rightarrow>
          if ru_status run = ''cancelled'' then (Inr run, s)
          else if ru_status run \<in> {''completed'', ''failed''} then (Inl not_cancellable, s)
          else
            (let s1 = (if i \<in> ry_cancels s
                       then s\<lparr>ry_cancelled := insert i (ry_cancelled s)\<rparr> else s);
                 run1 = run\<lparr>ru_status := ''cancelled'', ru_completed := Some (rs_now sv s1),
                            ru_error := Some ''cancelled by operator''\<rparr>
             in case update_run sv run1 s1 of
                  (Some e, s2) \<Rightarrow> (Inl e, s2)
                | (None, s2) \<Rightarrow> (Inr run1, s2)))"

text \<open>\<open>Status\<close>: presence of the credentials, never their values.\<close>

definition rotation_status :: "'w rot_service \<Rightarrow> obj" where
  "rotation_status sv =
     (let cfg = rs_cfg sv in
      [(''enabled'', JBool (client_enabled cfg)), (''vault_addr'', JStr (cf_addr cfg)),
       (''has_token'', JBool (cf_token cfg \<noteq> [])), (''namespace'', JBool (cf_namespace cfg \<noteq> [])),
       (''ui_login_url'', JStr default_ui_login), (''docs_url'', JStr default_docs_url),
       (''kubeconfig_dir'', JStr (cf_kubeconfig_dir cfg)),
       (''has_github_token'', JBool (cf_github_token cfg \<noteq> [])), (''rp_url'', JStr (cf_rp_url cfg)),
       (''has_rp_token'', JBool (cf_rp_token cfg \<noteq> [])),
       (''has_rp_prod_login'', JBool (cf_rp_prod_password cfg \<noteq> [])),
       (''message'', JStr (if client_enabled cfg
          then ''Vault token configured'' @ em_dash @ ''ready to plan/rotate''
          else ''Set SECRETS_VAULT_TOKEN (or VAULT_TOKEN) and optional SECRETS_VAULT_ADDR''))])"

end
