(* ===== verification/SecretsLaunch.thy ===== *)
theory SecretsLaunch
  imports SecretsService SecretsChecks SecretsPhases
begin

text \<open>
  What the service makes of a launch: the stored row is read back as the launch that was accepted,
  rows belong to their organisation, a run ends as it went, and the cases where the row and the run
  part company.
\<close>

section \<open>Lists ignore the space around them\<close>

definition items :: "string list \<Rightarrow> string list" where
  "items fs = filter (\<lambda>q. q \<noteq> []) (map trim_space fs)"

fun new_items :: "string list \<Rightarrow> string list \<Rightarrow> string list" where
  "new_items seen [] = []"
| "new_items seen (q # qs) =
     (if q \<in> set seen then new_items seen qs else q # new_items (q # seen) qs)"

lemma keep_new_items: "keep_new seen fs = new_items seen (items fs)"
  by (induction seen fs rule: keep_new.induct) (auto simp: items_def Let_def)

lemma fields_func_Cons_sep: "p c \<Longrightarrow> fields_func p (c # s) = fields_func p s"
  by (simp add: fields_func.simps [of p "c # s"] fields_func.simps [of p s])

lemma fields_func_Cons:
  "\<not> p c \<Longrightarrow> fields_func p (c # s)
     = (c # takeWhile (\<lambda>x. \<not> p x) s) # fields_func p (dropWhile (\<lambda>x. \<not> p x) s)"
  by (simp add: fields_func.simps [of p "c # s"])

lemma fields_func_Nil [simp]: "fields_func p [] = []"
  by (simp add: fields_func.simps)

lemma items_fields_Cons:
  assumes "is_space c"
  shows "items (fields_func p (c # s)) = items (fields_func p s)"
proof (cases "p c")
  case False
  show ?thesis
  proof (cases s)
    case (Cons d t)
    then show ?thesis
      using False assms
      by (cases "p d") (simp_all add: fields_func_Cons items_def trim_space_Cons trim_space_single)
  qed (use False assms in \<open>simp add: fields_func_Cons items_def trim_space_single\<close>)
qed (simp add: fields_func_Cons_sep)

lemma fields_func_all_sep: "list_all p s \<Longrightarrow> fields_func p s = []"
  by (simp add: fields_func.simps [of p s] dropWhile_eq_Nil_conv [THEN iffD2] list_all_iff)

lemma items_fields_snoc:
  assumes "is_space c"
  shows "items (fields_func p (s @ [c])) = items (fields_func p s)"
proof (induction s rule: length_induct)
  case (1 s)
  show ?case
  proof (cases s)
    case Nil
    then show ?thesis
      using assms items_fields_Cons [OF assms, of p "[]"] by simp
  next
    case (Cons d t)
    show ?thesis
    proof (cases "p d")
      case True
      with 1 Cons show ?thesis by (simp add: fields_func_Cons_sep)
    next
      case False
      let ?n = "\<lambda>x. \<not> p x"
      show ?thesis
      proof (cases "list_all ?n t")
        case True
        then have t: "takeWhile ?n t = t" "dropWhile ?n t = []"
            "takeWhile ?n (t @ [c]) = (if p c then t else t @ [c])"
            "dropWhile ?n (t @ [c]) = (if p c then [c] else [])"
          by (auto simp: takeWhile_eq_all_conv dropWhile_eq_Nil_conv list_all_iff takeWhile_append
              dropWhile_snoc)
        have "trim_space (d # t @ [c]) = trim_space (d # t)"
          using trim_space_snoc [OF assms, of "d # t"] by simp
        moreover have "fields_func p s = [d # t]"
          unfolding Cons fields_func_Cons [of p d, OF False] t by simp
        moreover have "fields_func p (s @ [c]) = [if p c then d # t else d # t @ [c]]"
          unfolding Cons append_Cons fields_func_Cons [of p d, OF False] t
          by (simp add: fields_func_Cons_sep)
        ultimately show ?thesis by (simp add: items_def)
      next
        case some: False
        have "length (dropWhile ?n t) < length s"
          using Cons length_dropWhile_le [of ?n t] by simp
        with 1 have "items (fields_func p (dropWhile ?n t @ [c])) = items (fields_func p (dropWhile ?n t))"
          by blast
        then show ?thesis
          using False Cons some
          by (simp add: fields_func_Cons takeWhile_append dropWhile_snoc items_def list_all_iff)
             (auto simp: list_all_iff)
      qed
    qed
  qed
qed

lemma items_fields_trim: "items (fields_func p (trim_space s)) = items (fields_func p s)"
proof -
  have front: "items (fields_func p (a @ t)) = items (fields_func p t)" if "list_all is_space a" for a t
    using that by (induction a) (simp_all add: items_fields_Cons)
  have behind: "items (fields_func p (t @ b)) = items (fields_func p t)" if "list_all is_space b" for b t
    using that
  proof (induction b arbitrary: t)
    case (Cons c b)
    show ?case using items_fields_snoc [of c p t] Cons.IH [of "t @ [c]"] Cons.prems by simp
  qed simp
  obtain a b where "s = a @ trim_space s @ b" "list_all is_space a" "list_all is_space b"
    using trim_space_ends by blast
  then show ?thesis using front behind by metis
qed

lemma split_list_trim [simp]: "split_list (trim_space s) = split_list s"
  by (simp add: split_list_def keep_new_items items_fields_trim)

lemma parse_keys_trim [simp]: "parse_keys (trim_space s) = parse_keys s"
proof -
  let ?f = "\<lambda>c. if c = CHR '';'' then CHR '','' else c"
  have "is_space (?f c) = is_space c" for c by (auto simp: is_space_def)
  then have "map ?f (trim_space s) = trim_space (map ?f s)" by (rule map_trim_space)
  then show ?thesis
    by (simp add: parse_keys_def keep_new_items items_fields_trim)
qed

section \<open>A stored row parses\<close>

lemma parse_namespaced_trim [simp]: "parse_namespaced f (trim_space s) = parse_namespaced f s"
  by (simp add: parse_namespaced_def)

lemma parse_github_names_trim [simp]: "parse_github_names (trim_space s) = parse_github_names s"
  by (simp add: parse_github_names_def)

lemma guard_eq [simp]: "guard False m k = k" "guard True m k = Inl (ErrText m)"
  by (simp_all add: guard_def)

lemma stored_targets_parse:
  assumes "parse_propagation inp = Inr p"
  shows "parse_propagation (stored_targets inp p) = Inr p"
proof -
  define src where "src = (if to_lower (trim_space (pi_source inp)) = [] then ''vault''
        else to_lower (trim_space (pi_source inp)))"
  define p0 where "p0 = \<lparr>pp_source = src,
      pp_cluster = trim_space (pi_cluster inp), pp_external = [], pp_k8s = [],
      pp_github_repo = trim_space (pi_github_repo inp),
      pp_github_env = trim_space (pi_github_env inp), pp_github_names = [],
      pp_app = trim_space (pi_rp_app inp), pp_rings = [], pp_deployments = []\<rparr>"
  obtain p1 p2 p3 where 1: "parse_k8s_fields inp p0 = Inr p1" and 2: "parse_github_fields inp p1 = Inr p2"
    and 3: "parse_ring_fields inp p2 = Inr p3" and 4: "check_source p3 = Inr p"
    and src: "src = ''vault'' \<or> src = ''github''"
    using assms unfolding parse_propagation_def Let_def src_def [symmetric] p0_def [symmetric]
    by (auto simp: guard_Inr p0_def split: sum.splits)
  obtain es ks where k8s: "p1 = p0\<lparr>pp_external := es, pp_k8s := ks\<rparr>"
    "parse_namespaced ''external_secrets'' (pi_external inp) = Inr es"
    "parse_namespaced ''k8s_secrets'' (pi_k8s inp) = Inr ks"
    using 1 by (auto simp: parse_k8s_fields_def guard_Inr split: sum.splits)
  obtain ns where gh: "p2 = p1\<lparr>pp_github_names := ns\<rparr>"
    "parse_github_names (pi_github_names inp) = Inr ns"
    using 2 by (auto simp: parse_github_fields_def guard_Inr split: sum.splits)
  define rings where "rings = split_list (pi_rp_rings inp)"
  define ds where "ds = split_list (pi_rp_deployments inp)"
  define app where "app = (if rings \<noteq> [] \<and> pp_app p2 = [] then ''jobshout'' else pp_app p2)"
  have p3: "p3 = p2\<lparr>pp_app := app, pp_rings := rings, pp_deployments := ds\<rparr>"
    using 3 unfolding parse_ring_fields_def Let_def rings_def [symmetric] ds_def [symmetric]
      app_def [symmetric]
    by (auto simp: guard_Inr split: option.splits)
  have p: "p = p3" using 4 by (auto simp: check_source_def guard_Inr split: if_splits)
  have fields: "pp_source p = src" "pp_cluster p = pp_cluster p0" "pp_github_repo p = pp_github_repo p0"
    "pp_github_env p = pp_github_env p0" "pp_app p = app"
    by (simp_all add: p p3 gh(1) k8s(1) p0_def)
  have "trim_space ''jobshout'' = ''jobshout''" by code_simp
  then have app: "trim_space app = app" "rings \<noteq> [] \<longrightarrow> app \<noteq> []"
    unfolding app_def gh(1) k8s(1) p0_def by simp_all
  define inp' where "inp' = stored_targets inp p"
  define q0 where "q0 = p0\<lparr>pp_app := app\<rparr>"
  have k8s': "parse_k8s_fields inp' q0 = Inr (p1\<lparr>pp_app := app\<rparr>)"
    using 1 k8s by (auto simp: parse_k8s_fields_def guard_Inr inp'_def stored_targets_def q0_def
        split: sum.splits)
  have gh': "parse_github_fields inp' (p1\<lparr>pp_app := app\<rparr>) = Inr (p2\<lparr>pp_app := app\<rparr>)"
    using 2 gh by (auto simp: parse_github_fields_def guard_Inr inp'_def stored_targets_def
        split: sum.splits)
  have ring': "parse_ring_fields inp' (p2\<lparr>pp_app := app\<rparr>) = Inr p3"
  proof -
    have c: "check_all valid_rp_name ''rp_rings: invalid ring'' rings = None"
      "check_all valid_dns ''rp_deployments: invalid deployment'' ds = None"
      "\<not> (ds \<noteq> [] \<and> rings = [])" "\<not> (app \<noteq> [] \<and> \<not> valid_rp_name app)"
      using 3 unfolding parse_ring_fields_def Let_def rings_def [symmetric] ds_def [symmetric]
        app_def [symmetric]
      by (auto simp: guard_Inr split: option.splits)
    have l: "split_list (pi_rp_rings inp') = rings" "split_list (pi_rp_deployments inp') = ds"
      by (simp_all add: inp'_def stored_targets_def rings_def ds_def)
    have a: "(if rings \<noteq> [] \<and> app = [] then ''jobshout'' else app) = app" using app(2) by auto
    have u: "pp_app (p2\<lparr>pp_app := app\<rparr>) = app" by simp
    show ?thesis
      unfolding parse_ring_fields_def Let_def l c(1,2) option.case u a guard_def
        if_not_P [OF c(3)] if_not_P [OF c(4)] p3 by simp
  qed
  have low: "to_lower (trim_space src) = src"
    using src by (auto simp: to_lower_def to_lower_char_def trim_space_def trim_left_by_def
        trim_right_by_def is_space_def Let_def)
  have "parse_propagation inp' =
      (case parse_k8s_fields inp' q0 of Inl e \<Rightarrow> Inl e
       | Inr p1 \<Rightarrow> (case parse_github_fields inp' p1 of Inl e \<Rightarrow> Inl e
       | Inr p2 \<Rightarrow> (case parse_ring_fields inp' p2 of Inl e \<Rightarrow> Inl e | Inr p3 \<Rightarrow> check_source p3)))"
  proof -
    have "pi_source inp' = src" "trim_space (pi_cluster inp') = pp_cluster q0"
      "trim_space (pi_github_repo inp') = pp_github_repo q0"
      "trim_space (pi_github_env inp') = pp_github_env q0" "trim_space (pi_rp_app inp') = pp_app q0"
      using app(1) by (simp_all add: inp'_def stored_targets_def fields q0_def p0_def)
    moreover have "src \<noteq> []" using src by auto
    moreover have "\<lparr>pp_source = src, pp_cluster = pp_cluster q0, pp_external = [], pp_k8s = [],
        pp_github_repo = pp_github_repo q0, pp_github_env = pp_github_env q0, pp_github_names = [],
        pp_app = pp_app q0, pp_rings = [], pp_deployments = []\<rparr> = q0"
      by (simp add: q0_def p0_def)
    moreover have "\<not> (pp_source q0 \<noteq> ''vault'' \<and> pp_source q0 \<noteq> ''github'')"
      using src by (auto simp: q0_def p0_def)
    ultimately show ?thesis
      unfolding parse_propagation_def Let_def by (simp only: low if_False guard_eq)
  qed
  also have "\<dots> = Inr p" using k8s' gh' ring' 4 p by simp
  finally show ?thesis by (simp add: inp'_def)
qed

text \<open>
  A stored row is read back as the launch that was accepted. The goroutine parses the fields of
  the row it is given, the parsed names and the trimmed lists, and obtains exactly the targets
  \<open>CreateRun\<close> checked: the branch for a row that does not parse is never taken.
\<close>

lemma stored_row_parses:
  assumes "parse_propagation inp = Inr p"
  shows "parse_propagation (stored_targets inp p) = Inr p"
  using assms by (rule stored_targets_parse)

section \<open>What a launch stores\<close>

lemma launch_opts_valid:
  "validate_launch (launch_opts mode engine keys p) = None \<Longrightarrow> engine \<noteq> [] \<Longrightarrow> pp_source p \<noteq> [] \<Longrightarrow>
     op_mode opt = mode \<Longrightarrow> op_engine opt = engine \<Longrightarrow> op_keys opt = keys \<Longrightarrow> op_prop opt = p \<Longrightarrow>
     validate_propagation (with_defaults opt) = None"
  by (auto simp: validate_launch_def launch_opts_def validate_propagation_def with_defaults_def Let_def
      split: if_splits)

lemma or_default_nonempty: "d \<noteq> [] \<Longrightarrow> or_default s d \<noteq> []"
  by (simp add: or_default_def)

text \<open>
  A launch is refused without effect, or stored and started, or stored and lost. When it is
  started, the new row is queued for the caller's own organisation, its cancel function is held,
  and the options the goroutine will run with pass the checks of \<open>Execute\<close>. The third case is that
  of values that do not parse: they are looked at only after the row has been stored, which then
  stays queued with no goroutine behind it.
\<close>

lemma create_run_outcome:
  assumes "create_run sv rq org who s = ((r, job), s')"
  shows "(\<exists>e. r = Inl e \<and> job = None \<and> s' = s)
    \<or> (\<exists>run new p. r = Inr run \<and> job = Some (run, new)
         \<and> s' = s\<lparr>ry_rows := (ry_rows s)(ru_id run \<mapsto> run),
                  ry_cancels := insert (ru_id run) (ry_cancels s)\<rparr>
         \<and> ru_org run = org \<and> rs_agents sv s (ru_agent run) = Inr (Some org)
         \<and> ru_status run = ''queued'' \<and> parse_propagation (ru_targets run) = Inr p
         \<and> validate_propagation (with_defaults (opts_of run new p)) = None)
    \<or> (\<exists>e run. r = Inl e \<and> job = None \<and> parse_new_secret (rl_new rq) = Inl e
         \<and> s' = s\<lparr>ry_rows := (ry_rows s)(ru_id run \<mapsto> run)\<rparr> \<and> ru_status run = ''queued'')"
proof (cases "rs_agents sv s (rl_agent rq) = Inr (Some org)")
  case False
  with assms show ?thesis by (auto simp: create_run_def split: sum.splits if_splits)
next
  case agent: True
  show ?thesis
  proof (cases "parse_propagation (rl_targets rq)")
    case (Inl e)
    with assms agent show ?thesis by (auto simp: create_run_def)
  next
    case p: (Inr p)
    define v where "v = validate_launch (launch_opts (or_default (rl_mode rq) ''plan'')
        (or_default (rl_engine rq) ''kv2'') (parse_keys (rl_keys rq)) p)"
    define run where "run = new_run sv rq org who p s"
    note d = create_run_def [of sv rq org who s] agent p v_def [symmetric] run_def [symmetric]
    show ?thesis
    proof (cases "v = None \<and> rs_fault sv s ''repo.Create'' = None")
      case False
      with assms show ?thesis by (auto simp: d split: option.splits)
    next
      case True
      have "validate_launch (launch_opts (ru_mode run) (ru_engine run) (parse_keys (ru_keys run)) p) = None"
        using True by (simp add: v_def run_def new_run_def)
      moreover have "ru_engine run \<noteq> []" by (simp add: run_def new_run_def or_default_nonempty)
      moreover have "pp_source p \<noteq> []"
        using parsed_targets_valid [OF p] by (auto simp: valid_propagation_def)
      ultimately have valid: "validate_propagation (with_defaults (opts_of run new p)) = None" for new
        by (rule launch_opts_valid) (simp_all add: opts_of_def)
      have "parse_propagation (ru_targets run) = Inr p"
        using stored_targets_parse [OF p] by (simp add: run_def new_run_def)
      moreover have "ru_org run = org" "ru_agent run = rl_agent rq" "ru_status run = ''queued''"
        by (simp_all add: run_def new_run_def)
      ultimately show ?thesis
        using assms True valid agent by (auto simp: d Let_def split: sum.splits)
    qed
  qed
qed

section \<open>How a run ends\<close>

text \<open>Nothing that happens beside a run deletes its row (the service has no operation that does).\<close>

definition keeps_rows :: "'w rot_service \<Rightarrow> uuid \<Rightarrow> bool" where
  "keeps_rows sv i \<longleftrightarrow> rot_world (rs_env sv) (\<lambda>s. ry_rows s i \<noteq> None) (\<lambda>q. True)"

definition no_faults :: "'w rot_service \<Rightarrow> bool" where
  "no_faults sv \<longleftrightarrow> rs_fault sv = (\<lambda>s op. None)"

lemma update_run_row:
  assumes "no_faults sv" and "ry_rows s (ru_id run) = Some old"
  shows "update_run sv run s
    = (None, s\<lparr>ry_rows := (ry_rows s)(ru_id run \<mapsto> merge_row run old)\<rparr>)"
  using assms by (simp add: update_run_def no_faults_def)

lemma update_run_keeps: "ry_rows s i \<noteq> None \<Longrightarrow> ry_rows (snd (update_run sv run s)) i \<noteq> None"
  by (auto simp: update_run_def split: option.split)

lemma beside_keeps:
  assumes "\<And>s. P s \<Longrightarrow> P (snd (f s))" and "fst rs = r \<and> P (snd rs)"
  shows "fst (snd (beside f rs)) = r \<and> P (snd (snd (beside f rs)))"
  using assms by (auto simp: beside_def split: prod.split) (metis snd_conv)

lemma run_env_world:
  assumes "keeps_rows sv i"
  shows "rot_world (run_env sv) (\<lambda>rs. ru_id (fst rs) = i \<and> ry_rows (snd rs) i \<noteq> None) (\<lambda>q. True)"
proof -
  note w = assms [unfolded keeps_rows_def]
  have b: "ru_id (fst (snd (beside f rs))) = i \<and> ry_rows (snd (snd (beside f rs))) i \<noteq> None"
    if "\<And>s. ry_rows s i \<noteq> None \<Longrightarrow> ry_rows (snd (f s)) i \<noteq> None"
      and "ru_id (fst rs) = i \<and> ry_rows (snd rs) i \<noteq> None" for f :: "'a rot_sys \<Rightarrow> 'b \<times> 'a rot_sys" and rs
    using that unfolding beside_def by (cases "f (snd rs)") (metis fst_conv snd_conv case_prod_conv)
  show ?thesis
    by unfold_locales
       (simp_all add: run_env_def Let_def b rot_world.http [OF w] rot_world.random [OF w]
         rot_world.clock [OF w] rot_world.waiting [OF w] rot_world.polls [OF w] rot_world.seal [OF w]
         on_phase_def update_run_keeps)
qed

lemma finish_run_row:
  assumes "no_faults sv" and "ry_rows s (ru_id run) = Some old"
  shows "\<exists>row. ry_rows (finish_run sv err run s) (ru_id run) = Some row
    \<and> ru_status row = (if err \<noteq> None then ''failed''
        else if ru_id run \<in> ry_cancelled s then ''cancelled'' else ''completed'')
    \<and> ru_phases row = ru_phases run \<and> ru_completed row \<noteq> None"
  using assms
  by (auto simp: finish_run_def fail_run_def update_run_def no_faults_def merge_row_def
      split: option.split)

text \<open>
  A run ends as it went. Whatever the row holds when \<open>Execute\<close> returns, the run is stored as
  failed when it returned an error, as cancelled when its context was cancelled, and as completed
  otherwise, with the time it ended; a completed run shows no phase that is pending or active; and
  its cancel function is dropped. In particular a run that was cancelled, and stored as such, is
  stored as failed when the cancellation made it fail.
\<close>

lemma run_ends_as_it_went:
  assumes "no_faults sv" and "keeps_rows sv (ru_id run)" and "ry_rows s (ru_id run) \<noteq> None"
    and "parse_propagation (ru_targets run) = Inr p"
    and "execute (run_env sv) (rs_cfg sv) (opts_of run new p)
           (run\<lparr>ru_status := ''running''\<rparr>, snd (update_run sv (run\<lparr>ru_status := ''running''\<rparr>) s))
         = ((err, Some out), (run1, s1))"
  shows "\<exists>row. ry_rows (execute_run sv run new s) (ru_id run) = Some row
    \<and> ru_status row = (if err \<noteq> None then ''failed''
        else if ru_id run \<in> ry_cancelled s1 then ''cancelled'' else ''completed'')
    \<and> ru_phases row = ro_phases out \<and> ru_completed row \<noteq> None
    \<and> (err \<noteq> None \<or> list_all (\<lambda>p. settled (ph_status p)) (ro_phases out))
    \<and> ru_id run \<notin> ry_cancels (execute_run sv run new s)"
proof -
  let ?run = "run\<lparr>ru_status := ''running''\<rparr>"
  define s0 where "s0 = snd (update_run sv ?run s)"
  note w = run_env_world [OF assms(2)]
  have "rot_world.all_ok (\<lambda>q. True)" by (simp add: rot_world.all_ok_def [OF w])
  then have "ru_id (fst (run1, s1)) = ru_id run \<and> ry_rows (snd (run1, s1)) (ru_id run) \<noteq> None"
    using rot_world.execute_keeps [OF w, of "(?run, s0)" "rs_cfg sv" "opts_of run new p"] assms(5)
      update_run_keeps [OF assms(3), of sv ?run]
    by (simp add: s0_def)
  then obtain old where id: "ru_id run1 = ru_id run" and old: "ry_rows s1 (ru_id run) = Some old"
    by auto
  have o: "ru_id (with_outcome (Some out) run1) = ru_id run"
    "ru_phases (with_outcome (Some out) run1) = ro_phases out"
    by (simp_all add: with_outcome_def id)
  have e: "opts_of ?run new p = opts_of run new p" "ru_targets ?run = ru_targets run"
    by (simp_all add: opts_of_def)
  have body: "run_body sv run new s = finish_run sv err (with_outcome (Some out) run1) s1"
    unfolding run_body_def Let_def e assms(4) sum.case assms(5) prod.case ..
  have "list_all (\<lambda>p. settled (ph_status p)) (ro_phases out)" if "err = None"
    by (rule execute_settles [OF assms(5) [unfolded that]])
  then show ?thesis
    using finish_run_row [OF assms(1), of s1 "with_outcome (Some out) run1" old err] old
    unfolding execute_run_def Let_def body by (auto simp: o)
qed

section \<open>The properties tried\<close>

definition test_service :: "unit rot_service" where
  "test_service =
     \<lparr>rs_env = test_env (\<lambda>q s. reply 404 [] s), rs_cfg = test_config,
      rs_agents = (\<lambda>s a. Inr (Some 7)), rs_now = (\<lambda>s. 0), rs_fresh = (\<lambda>s. 1),
      rs_fault = (\<lambda>s op. None)\<rparr>"

definition empty_sys :: "unit rot_sys" where
  "empty_sys = \<lparr>ry_rows = (\<lambda>i. None), ry_cancels = {}, ry_cancelled = {}, ry_world = ()\<rparr>"

definition github_input :: propagation_input where
  "github_input =
     \<lparr>pi_source = ''github'', pi_cluster = [], pi_external = [], pi_k8s = [],
      pi_github_repo = ''owner/repo'', pi_github_env = [], pi_github_names = [], pi_rp_app = [],
      pi_rp_rings = [], pi_rp_deployments = []\<rparr>"

definition test_request :: "string \<Rightarrow> rot_request" where
  "test_request new =
     \<lparr>rl_agent = 3, rl_task = None, rl_mode = ''rotate'', rl_provider = [], rl_addr = [],
      rl_mount = [], rl_path = ''app'', rl_engine = [], rl_keys = ''password'', rl_grace = 0,
      rl_retire = True, rl_dry = False, rl_new = new, rl_instruction = [],
      rl_targets = github_input\<rparr>"

lemma bad_launch:
  "case create_run test_service (test_request ''{'') 7 None empty_sys of
     ((r, job), s') \<Rightarrow> isl r \<and> ry_rows s' 1 \<noteq> None"
  by code_simp

text \<open>A run whose launch was not checked: \<open>Execute\<close> refuses it, cancelled or not.\<close>

definition keyless_run :: rot_run where
  "keyless_run =
     (new_run test_service (test_request []) 7 None (op_prop github_opts) empty_sys)
       \<lparr>ru_keys := [], ru_targets := github_input\<rparr>"

definition cancelled_sys :: "unit rot_sys" where
  "cancelled_sys =
     empty_sys\<lparr>ry_rows := (ry_rows empty_sys)(1 \<mapsto> keyless_run\<lparr>ru_status := ''cancelled''\<rparr>),
       ry_cancelled := {1}\<rparr>"

definition keyless_result :: "(go_err option \<times> rot_out option) \<times> rot_run \<times> unit rot_sys" where
  "keyless_result =
     execute (run_env test_service) test_config (opts_of keyless_run [] (op_prop github_opts))
       (keyless_run\<lparr>ru_status := ''running''\<rparr>,
        snd (update_run test_service (keyless_run\<lparr>ru_status := ''running''\<rparr>) cancelled_sys))"

lemma keyless_fails: "case keyless_result of ((err, out), _) \<Rightarrow> err \<noteq> None \<and> out \<noteq> None"
  by code_simp

lemma github_input_parses: "parse_propagation github_input = Inr (op_prop github_opts)"
  by code_simp

end
