(* ===== verification/BlogRequest.thy ===== *)
theory BlogRequest
  imports ResumeState
begin

text \<open>
  The request of an article run: \<open>model/blog.go\<close> (\<open>GenerateBlogRequest\<close> with \<open>Normalize\<close> and
  \<open>Validate\<close>), the readers it may name (\<open>audience/audience.go\<close>) and the settings of the writer
  agent that fill what it leaves out (\<open>model/writer_settings.go\<close>). A request is normalised more
  than once on its way to a run, so what a second pass does is part of its meaning.
\<close>

section \<open>Readers\<close>

definition default_audience :: string where "default_audience = ''developer''"
definition insights_key :: string where "insights_key = ''insights''"

definition audience_profiles :: "string list" where
  "audience_profiles = [default_audience, ''technote'', ''business'']"

definition audience_hidden :: "string list" where
  "audience_hidden = [insights_key]"

definition audience_known :: "string \<Rightarrow> bool" where
  "audience_known key =
     (let k = to_lower (trim_space key) in
      k = [] \<or> k \<in> set audience_profiles \<or> k \<in> set audience_hidden)"

definition audience_normalize :: "string \<Rightarrow> string" where
  "audience_normalize key =
     (let k = to_lower (trim_space key) in if k = default_audience then [] else k)"

definition normalize_industry :: "string \<Rightarrow> string" where
  "normalize_industry s = trim_space s"

definition audience_keys :: string where
  "audience_keys = join '', '' audience_profiles"

text \<open>The dash of the error texts is U+2014.\<close>

definition one_of_text :: string where
  "one_of_text = '' '' @ utf8 8212 @ '' one of: ''"

section \<open>The request\<close>

record blog_brief =
  bb_topic :: string
  bb_seeds :: "string list"
  bb_focus :: "string list"
  bb_context :: string
  bb_audience :: string
  bb_industry :: string
  bb_style :: string

record blog_req =
  bq_briefs :: "blog_brief list"
  bq_topics :: "string list"
  bq_model :: string
  bq_trending :: bool
  bq_trending_count :: int
  bq_focus :: "string list"
  bq_max_articles :: int
  bq_task :: "uuid option"
  bq_auto_publish :: bool
  bq_audience :: string
  bq_industry :: string
  bq_writer :: string
  bq_agent :: "uuid option"
  bq_style :: string
  bq_destination :: string

definition article_writer :: string where "article_writer = ''article_writer''"
definition jobshout_writer :: string where "jobshout_writer = ''jobshout_com_writer''"

definition blog_writers :: "(string \<times> string) list" where
  "blog_writers =
     [(article_writer, ''Article Writer''), (jobshout_writer, ''JobShout.com Content Writer'')]"

definition first_filled :: "string list \<Rightarrow> string" where
  "first_filled vs = (case filter (\<lambda>v. v \<noteq> []) (map trim_space vs) of [] \<Rightarrow> [] | v # _ \<Rightarrow> v)"

definition resolve_audience :: "blog_req \<Rightarrow> string \<Rightarrow> string" where
  "resolve_audience r brief =
     (if audience_normalize brief \<noteq> [] then audience_normalize brief
      else if trim_space brief \<noteq> [] then [] else bq_audience r)"

definition resolve_industry :: "blog_req \<Rightarrow> string \<Rightarrow> string" where
  "resolve_industry r brief =
     (if normalize_industry brief \<noteq> [] then normalize_industry brief else bq_industry r)"

section \<open>Normalize\<close>

text \<open>The first part of \<open>Normalize\<close> settles what is said of the whole run.\<close>

definition settle_run :: "blog_req \<Rightarrow> blog_req" where
  "settle_run r =
     (let w0 = to_lower (trim_space (bq_writer r));
          w = (if w0 = article_writer then [] else w0);
          a0 = audience_normalize (bq_audience r);
          a = (if w = jobshout_writer \<and> a0 = [] then insights_key else a0)
      in r\<lparr>bq_writer := w, bq_destination := trim_space (bq_destination r), bq_audience := a,
           bq_industry := normalize_industry (bq_industry r),
           bq_style := trim_space (bq_style r)\<rparr>)"

definition settle_brief :: "blog_req \<Rightarrow> blog_brief \<Rightarrow> blog_brief" where
  "settle_brief r b =
     b\<lparr>bb_topic := trim_space (bb_topic b), bb_context := trim_space (bb_context b),
       bb_audience := resolve_audience r (bb_audience b),
       bb_industry := resolve_industry r (bb_industry b),
       bb_style := first_filled [bb_style b, bq_style r]\<rparr>"

definition topic_brief :: "blog_req \<Rightarrow> string \<Rightarrow> blog_brief" where
  "topic_brief r topic =
     \<lparr>bb_topic = topic, bb_seeds = [], bb_focus = [], bb_context = [],
      bb_audience = bq_audience r, bb_industry = bq_industry r, bb_style = bq_style r\<rparr>"

fun topic_briefs :: "blog_req \<Rightarrow> string list \<Rightarrow> string list \<Rightarrow> blog_brief list" where
  "topic_briefs r covered [] = []"
| "topic_briefs r covered (t # ts) =
     (let topic = trim_space t in
      if topic = [] \<or> topic \<in> set covered then topic_briefs r covered ts
      else topic_brief r topic # topic_briefs r (topic # covered) ts)"

fun clean_focus :: "string list \<Rightarrow> string list \<Rightarrow> string list" where
  "clean_focus seen [] = []"
| "clean_focus seen (f # fs) =
     (let area = trim_space f; key = to_lower area in
      if area = [] \<or> key \<in> set seen then clean_focus seen fs
      else area # clean_focus (key # seen) fs)"

definition normalize_briefs :: "blog_req \<Rightarrow> blog_brief list" where
  "normalize_briefs r =
     (let bs = map (settle_brief r) (filter (\<lambda>b. trim_space (bb_topic b) \<noteq> []) (bq_briefs r))
      in bs @ topic_briefs r (map bb_topic bs) (bq_topics r))"

definition normalize_request :: "blog_req \<Rightarrow> blog_req" where
  "normalize_request r0 =
     (let r = settle_run r0; bs = normalize_briefs r in
      r\<lparr>bq_briefs := bs, bq_topics := map bb_topic bs, bq_focus := clean_focus [] (bq_focus r)\<rparr>)"

section \<open>Validate\<close>

definition max_destination_name :: nat where "max_destination_name = 200"

fun check_briefs :: "nat \<Rightarrow> blog_brief list \<Rightarrow> go_err option" where
  "check_briefs i [] = None"
| "check_briefs i (b # bs) =
     (if audience_known (bb_audience b) then check_briefs (Suc i) bs
      else Some (ErrText (''brief '' @ show_nat (Suc i) @ '': unknown audience ''
             @ quote (bb_audience b) @ one_of_text @ audience_keys)))"

definition validate_request :: "blog_req \<Rightarrow> go_err option" where
  "validate_request r =
     (if length (bq_destination r) > max_destination_name then
        Some (ErrText (''destination name is longer than '' @ show_nat max_destination_name
                @ '' characters''))
      else if bq_writer r \<noteq> [] \<and> map_of blog_writers (bq_writer r) = None then
        Some (ErrText (''unknown writer '' @ quote (bq_writer r)))
      else if \<not> audience_known (bq_audience r) then
        Some (ErrText (''unknown audience '' @ quote (bq_audience r) @ one_of_text
                @ audience_keys))
      else
        (case check_briefs 0 (bq_briefs r) of
           Some e \<Rightarrow> Some e
         | None \<Rightarrow>
             if bq_trending r then
               (if bq_trending_count r < 0 then Some (ErrText ''trending_count cannot be negative'')
                else None)
             else if bq_focus r \<noteq> [] then
               Some (ErrText ''focus areas only apply to a trending run'')
             else if bq_briefs r = [] then
               Some (ErrText ''at least one brief with a topic is required'')
             else None))"

definition default_trending_count :: int where "default_trending_count = 1"

definition resolved_trending_count :: "int \<Rightarrow> blog_req \<Rightarrow> int" where
  "resolved_trending_count hard_max r =
     (let n0 = (if bq_trending_count r \<le> 0 then default_trending_count else bq_trending_count r);
          n1 = (if bq_max_articles r > 0 \<and> n0 > bq_max_articles r then bq_max_articles r else n0)
      in if hard_max > 0 \<and> n1 > hard_max then hard_max else n1)"

section \<open>The settings of the writer agent\<close>

record writer_settings =
  wr_style :: string
  wr_audience :: string
  wr_industry :: string
  wr_focus :: "string list"
  wr_destination :: string

definition string_items :: "json \<Rightarrow> string list" where
  "string_items v =
     filter (\<lambda>s. s \<noteq> []) (map trim_space
       (case v of
          JArr vs \<Rightarrow> List.map_filter json_string vs
        | JStr s \<Rightarrow> split_char (CHR '','') s
        | _ \<Rightarrow> []))"

definition config_string :: "obj \<Rightarrow> string \<Rightarrow> string" where
  "config_string cfg k = (case map_of cfg k of Some (JStr s) \<Rightarrow> trim_space s | _ \<Rightarrow> [])"

definition writer_settings_of :: "obj \<Rightarrow> writer_settings" where
  "writer_settings_of cfg =
     \<lparr>wr_style = config_string cfg ''writer_style'',
      wr_audience = config_string cfg ''writer_audience'',
      wr_industry = config_string cfg ''writer_industry'',
      wr_focus = (case map_of cfg ''writer_focus'' of Some v \<Rightarrow> string_items v | None \<Rightarrow> []),
      wr_destination = config_string cfg ''writer_destination''\<rparr>"

definition apply_writer_settings :: "writer_settings \<Rightarrow> blog_req \<Rightarrow> blog_req" where
  "apply_writer_settings ws r =
     r\<lparr>bq_style := (if bq_style r = [] then wr_style ws else bq_style r),
       bq_audience := (if bq_audience r = [] then wr_audience ws else bq_audience r),
       bq_industry := (if bq_industry r = [] then wr_industry ws else bq_industry r),
       bq_destination := (if bq_destination r = [] then wr_destination ws else bq_destination r),
       bq_focus := (if bq_trending r \<and> bq_focus r = [] \<and> wr_focus ws \<noteq> [] then wr_focus ws
                    else bq_focus r)\<rparr>"

text \<open>
  What \<open>Generate\<close> (\<open>service/blog_service.go\<close>) makes of a request before it creates the run, once the
  writer agent is found and its destination resolved.
\<close>

definition prepare_request :: "writer_settings \<Rightarrow> blog_req \<Rightarrow> go_err + blog_req" where
  "prepare_request ws r =
     (let q = normalize_request (apply_writer_settings ws (normalize_request r)) in
      case validate_request q of
        Some e \<Rightarrow> Inl (ErrWrap ''blog_svc: '' e)
      | None \<Rightarrow> Inr q)"

section \<open>Lemmas\<close>

definition names_default :: "string \<Rightarrow> bool" where
  "names_default s \<longleftrightarrow> to_lower (trim_space s) = default_audience"

lemma to_lower_Nil [simp]: "to_lower s = [] \<longleftrightarrow> s = []" "to_lower [] = []"
  by (simp_all add: to_lower_def)

lemma lower_trim [simp]: "trim_space (to_lower (trim_space s)) = to_lower (trim_space s)"
  by (simp flip: to_lower_trim_space)

lemma audience_normalize_idem [simp]:
  "audience_normalize (audience_normalize a) = audience_normalize a"
  by (simp add: audience_normalize_def Let_def)

lemma audience_normalize_Nil [simp]: "audience_normalize [] = []"
  by (simp add: audience_normalize_def)

lemma audience_blank:
  "audience_normalize a = [] \<longleftrightarrow> trim_space a = [] \<or> names_default a"
  by (auto simp: audience_normalize_def names_default_def Let_def)

lemma names_default_not_blank: "names_default a \<Longrightarrow> trim_space a \<noteq> []"
  by (auto simp: names_default_def default_audience_def)

lemma first_filled_idem [simp]: "first_filled [first_filled [s, trim_space t], trim_space t] = first_filled [s, trim_space t]"
  by (simp add: first_filled_def)

lemma normal_insights [simp]: "audience_normalize insights_key = insights_key" "insights_key \<noteq> []"
  by (code_simp, simp add: insights_key_def)

lemma normal_writers:
  "to_lower (trim_space article_writer) = article_writer"
  "to_lower (trim_space jobshout_writer) = jobshout_writer"
  "article_writer \<noteq> jobshout_writer" "jobshout_writer \<noteq> []" "article_writer \<noteq> []"
  by code_simp+

text \<open>The run's own fields: one pass settles them, and the lists do not matter to it.\<close>

definition settled_run :: "blog_req \<Rightarrow> bool" where
  "settled_run r \<longleftrightarrow> settle_run r = r"

lemma settle_run_settled: "settled_run (settle_run r)"
  using normal_writers unfolding settled_run_def settle_run_def
  by (simp add: Let_def normalize_industry_def)

lemma settle_run_lists [simp]:
  "settle_run (r\<lparr>bq_briefs := bs, bq_topics := ts, bq_focus := fs\<rparr>)
     = (settle_run r)\<lparr>bq_briefs := bs, bq_topics := ts, bq_focus := fs\<rparr>"
  by (simp add: settle_run_def Let_def)

lemma settle_brief_lists [simp]:
  "settle_brief (r\<lparr>bq_briefs := bs, bq_topics := ts, bq_focus := fs\<rparr>) = settle_brief r"
  by (rule ext) (simp add: settle_brief_def resolve_audience_def resolve_industry_def)

lemma settled_run_fields:
  assumes "settled_run r"
  shows "audience_normalize (bq_audience r) = bq_audience r"
    and "trim_space (bq_industry r) = bq_industry r" and "trim_space (bq_style r) = bq_style r"
proof -
  have r: "settle_run r = r" using assms by (simp add: settled_run_def)
  have "bq_audience (settle_run r) = audience_normalize (bq_audience (settle_run r))"
    by (simp add: settle_run_def Let_def)
  then show "audience_normalize (bq_audience r) = bq_audience r" by (simp add: r)
  have "bq_industry (settle_run r) = trim_space (bq_industry r)"
    "bq_style (settle_run r) = trim_space (bq_style r)"
    by (simp_all add: settle_run_def Let_def normalize_industry_def)
  then show "trim_space (bq_industry r) = bq_industry r" "trim_space (bq_style r) = bq_style r"
    by (simp_all add: r)
qed

lemma resolve_audience_twice:
  assumes "settled_run r"
  shows "resolve_audience r (resolve_audience r a) = resolve_audience r a
    \<longleftrightarrow> bq_audience r = [] \<or> \<not> names_default a"
proof -
  have n: "audience_normalize (bq_audience r) = bq_audience r"
    using assms by (rule settled_run_fields)
  consider (key) "audience_normalize a \<noteq> []" | (default) "names_default a" "trim_space a \<noteq> []"
    | (blank) "trim_space a = []" "\<not> names_default a"
    using audience_blank names_default_not_blank by blast
  then show ?thesis
  proof cases
    case key
    then show ?thesis by (auto simp: resolve_audience_def audience_blank)
  next
    case default
    then have "audience_normalize a = []" by (simp add: audience_blank)
    then show ?thesis using default n by (auto simp: resolve_audience_def)
  next
    case blank
    then have "audience_normalize a = []" by (simp add: audience_blank)
    then show ?thesis using blank n by (auto simp: resolve_audience_def)
  qed
qed

lemma settle_brief_twice:
  assumes "settled_run r"
  shows "settle_brief r (settle_brief r b) = settle_brief r b
    \<longleftrightarrow> bq_audience r = [] \<or> \<not> names_default (bb_audience b)"
proof -
  have t: "bq_style r = trim_space (bq_style r)" "bq_industry r = trim_space (bq_industry r)"
    using settled_run_fields [OF assms] by simp_all
  have s: "first_filled [first_filled [bb_style b, bq_style r], bq_style r]
      = first_filled [bb_style b, bq_style r]"
    by (subst (1 2 3) t(1)) (rule first_filled_idem)
  have i: "resolve_industry r (resolve_industry r (bb_industry b)) = resolve_industry r (bb_industry b)"
    using t(2) by (auto simp: resolve_industry_def normalize_industry_def)
  have "settle_brief r (settle_brief r b) = settle_brief r b
      \<longleftrightarrow> resolve_audience r (resolve_audience r (bb_audience b)) = resolve_audience r (bb_audience b)"
    (is "?l = ?r \<longleftrightarrow> ?a = ?b")
  proof
    assume "?l = ?r"
    then have "bb_audience ?l = bb_audience ?r" by simp
    then show "?a = ?b" by (simp add: settle_brief_def)
  qed (simp add: settle_brief_def s i)
  then show ?thesis by (simp add: resolve_audience_twice assms)
qed

lemma topic_brief_settled: "settled_run r \<Longrightarrow> trim_space t = t \<Longrightarrow> settle_brief r (topic_brief r t) = topic_brief r t"
  using settled_run_fields [of r]
  by (auto simp: settle_brief_def topic_brief_def resolve_audience_def resolve_industry_def
      normalize_industry_def first_filled_def)

lemma topic_briefs_in:
  "b \<in> set (topic_briefs r cov ts) \<Longrightarrow> \<exists>t. b = topic_brief r t \<and> trim_space t = t \<and> t \<noteq> []"
  by (induction r cov ts rule: topic_briefs.induct) (auto simp: Let_def split: if_splits)

lemma topic_briefs_covered:
  "\<forall>t \<in> set ts. trim_space t \<in> set cov \<Longrightarrow> topic_briefs r cov ts = []"
  by (induction r cov ts rule: topic_briefs.induct) auto

lemma clean_focus_idem [simp]: "clean_focus seen (clean_focus seen fs) = clean_focus seen fs"
  by (induction seen fs rule: clean_focus.induct) (auto simp: Let_def)

lemma normalize_briefs_topics:
  "b \<in> set (normalize_briefs r) \<Longrightarrow> trim_space (bb_topic b) = bb_topic b \<and> bb_topic b \<noteq> []"
  by (auto simp: normalize_briefs_def Let_def settle_brief_def topic_brief_def dest!: topic_briefs_in)

lemma normalize_request_fields:
  fixes r :: blog_req
  defines "s \<equiv> settle_run r"
  shows "settled_run s"
    and "normalize_request r = s\<lparr>bq_briefs := normalize_briefs s,
      bq_topics := map bb_topic (normalize_briefs s), bq_focus := clean_focus [] (bq_focus s)\<rparr>"
  by (simp_all add: s_def settle_run_settled normalize_request_def Let_def)

text \<open>What a second pass over a normalised request does: it settles the briefs once more.\<close>

lemma normalize_again:
  assumes "settled_run s" and q: "q = s\<lparr>bq_briefs := normalize_briefs s,
      bq_topics := map bb_topic (normalize_briefs s), bq_focus := clean_focus [] (bq_focus s)\<rparr>"
  shows "normalize_request q = q\<lparr>bq_briefs := map (settle_brief s) (normalize_briefs s)\<rparr>"
proof -
  let ?bs = "normalize_briefs s"
  have s: "settle_run s = s" using assms(1) by (simp add: settled_run_def)
  have sq: "settle_run q = q" by (simp add: q s)
  have qf: "bq_briefs q = ?bs" "bq_topics q = map bb_topic ?bs" "settle_brief q = settle_brief s"
    by (simp_all add: q)
  have f: "filter (\<lambda>b. trim_space (bb_topic b) \<noteq> []) ?bs = ?bs"
    using normalize_briefs_topics by (intro filter_True) auto
  have t: "map bb_topic (map (settle_brief s) ?bs) = map bb_topic ?bs"
    using normalize_briefs_topics by (auto simp: settle_brief_def)
  have "topic_briefs q (map bb_topic ?bs) (map bb_topic ?bs) = []"
    using normalize_briefs_topics by (intro topic_briefs_covered) force
  then have "normalize_briefs q = map (settle_brief s) ?bs"
    unfolding normalize_briefs_def [of q] Let_def qf f t by simp
  then have "normalize_request q = q\<lparr>bq_briefs := map (settle_brief s) ?bs,
      bq_topics := map bb_topic ?bs, bq_focus := clean_focus [] (bq_focus q)\<rparr>"
    unfolding normalize_request_def Let_def sq by (simp only: t)
  then show ?thesis by (simp add: q)
qed

lemma settle_normal_brief:
  assumes "settled_run s"
  shows "map (settle_brief s) (normalize_briefs s) = normalize_briefs s
    \<longleftrightarrow> \<not> (bq_audience s \<noteq> [] \<and> list_ex (\<lambda>b. trim_space (bb_topic b) \<noteq> []
          \<and> names_default (bb_audience b)) (bq_briefs s))"
proof -
  let ?kept = "filter (\<lambda>b. trim_space (bb_topic b) \<noteq> []) (bq_briefs s)"
  have "map (settle_brief s) (topic_briefs s cov ts) = topic_briefs s cov ts" for cov ts
    using topic_brief_settled [OF assms] topic_briefs_in by (intro map_idI) blast
  then have "map (settle_brief s) (normalize_briefs s) = normalize_briefs s
      \<longleftrightarrow> map (settle_brief s \<circ> settle_brief s) ?kept = map (settle_brief s) ?kept"
    by (simp add: normalize_briefs_def Let_def)
  also have "\<dots> \<longleftrightarrow> (\<forall>b \<in> set ?kept. bq_audience s = [] \<or> \<not> names_default (bb_audience b))"
    unfolding map_eq_conv o_def settle_brief_twice [OF assms] ..
  finally show ?thesis by (auto simp: list_ex_iff)
qed

text \<open>A brief names the default reader in a run that is written for another one.\<close>

definition overridden_default :: "blog_req \<Rightarrow> bool" where
  "overridden_default r \<longleftrightarrow> bq_audience (settle_run r) \<noteq> []
     \<and> list_ex (\<lambda>b. trim_space (bb_topic b) \<noteq> [] \<and> names_default (bb_audience b)) (bq_briefs r)"

lemma resolved_reader:
  assumes "settled_run s"
  shows "\<not> names_default (resolve_audience s a)"
    and "b \<in> set (normalize_briefs s) \<Longrightarrow> \<not> names_default (bb_audience b)"
proof -
  have n: "\<not> names_default x" if "audience_normalize x = x" for x
  proof
    assume d: "names_default x"
    then have "x = []" using that audience_blank by metis
    then show False using names_default_not_blank [OF d] by simp
  qed
  have "audience_normalize (resolve_audience s x) = resolve_audience s x" for x
    using settled_run_fields(1) [OF assms] by (simp add: resolve_audience_def)
  then show a: "\<not> names_default (resolve_audience s a)" for a by (rule n)
  show "\<not> names_default (bb_audience b)" if "b \<in> set (normalize_briefs s)"
    using that a n [OF settled_run_fields(1) [OF assms]]
    by (auto simp: normalize_briefs_def Let_def settle_brief_def topic_brief_def dest!: topic_briefs_in)
qed

section \<open>Properties\<close>

text \<open>
  C28: normalising a request a second time changes nothing, except in the one case the source does
  not see: a brief that names the default reader in a run written for another reader is given the
  run's reader by the second pass.
\<close>

theorem normalize_twice:
  "normalize_request (normalize_request r) = normalize_request r \<longleftrightarrow> \<not> overridden_default r"
proof -
  define s where "s = settle_run r"
  define q where "q = s\<lparr>bq_briefs := normalize_briefs s,
      bq_topics := map bb_topic (normalize_briefs s), bq_focus := clean_focus [] (bq_focus s)\<rparr>"
  have s: "settled_run s" and r: "normalize_request r = q"
    using normalize_request_fields [of r] by (simp_all add: s_def q_def)
  have "normalize_request q = q \<longleftrightarrow> map (settle_brief s) (normalize_briefs s) = normalize_briefs s"
    unfolding normalize_again [OF s q_def] by (auto simp: q_def dest: arg_cong [of _ _ bq_briefs])
  also have "\<dots> \<longleftrightarrow> \<not> overridden_default r"
    unfolding settle_normal_brief [OF s] by (simp add: overridden_default_def s_def settle_run_def Let_def)
  finally show ?thesis by (simp only: r)
qed

lemma prepare_request_Inr:
  assumes "prepare_request ws r = Inr q"
  obtains s where "settled_run s" and "validate_request q = None"
    and "bq_briefs s = normalize_briefs (settle_run r)"
    and "q = s\<lparr>bq_briefs := normalize_briefs s, bq_topics := map bb_topic (normalize_briefs s),
      bq_focus := clean_focus [] (bq_focus s)\<rparr>"
proof
  let ?q1 = "apply_writer_settings ws (normalize_request r)"
  show "settled_run (settle_run ?q1)" by (rule settle_run_settled)
  from assms show "validate_request q = None"
    by (auto simp: prepare_request_def Let_def split: option.splits)
  from assms have "q = normalize_request ?q1"
    by (auto simp: prepare_request_def Let_def split: option.splits)
  then show "q = (settle_run ?q1)\<lparr>bq_briefs := normalize_briefs (settle_run ?q1),
      bq_topics := map bb_topic (normalize_briefs (settle_run ?q1)),
      bq_focus := clean_focus [] (bq_focus (settle_run ?q1))\<rparr>"
    by (simp add: normalize_request_fields)
  show "bq_briefs (settle_run ?q1) = normalize_briefs (settle_run r)"
    by (simp add: settle_run_def apply_writer_settings_def normalize_request_def Let_def)
qed

lemma check_briefs_None: "check_briefs i bs = None \<longleftrightarrow> list_all (\<lambda>b. audience_known (bb_audience b)) bs"
  by (induction bs arbitrary: i) auto

definition wf_blog_req :: "blog_req \<Rightarrow> bool" where
  "wf_blog_req q \<longleftrightarrow>
     bq_topics q = map bb_topic (bq_briefs q)
     \<and> list_all (\<lambda>b. trim_space (bb_topic b) = bb_topic b \<and> bb_topic b \<noteq> []
          \<and> audience_known (bb_audience b)) (bq_briefs q)
     \<and> audience_known (bq_audience q)
     \<and> (bq_writer q = [] \<or> bq_writer q \<in> fst ` set blog_writers)
     \<and> length (bq_destination q) \<le> max_destination_name
     \<and> (if bq_trending q then bq_trending_count q \<ge> 0 else bq_briefs q \<noteq> [] \<and> bq_focus q = [])"

text \<open>
  C29: the request a run is created from is well-formed: topics and briefs are in step, every
  topic is trimmed and not blank, every reader and the writer are known, the destination name is
  bounded, and there is something to write or a subject to discover.
\<close>

theorem prepared_request_wf:
  assumes "prepare_request ws r = Inr q"
  shows "wf_blog_req q"
proof -
  obtain s where v: "validate_request q = None" and q: "q = s\<lparr>bq_briefs := normalize_briefs s,
      bq_topics := map bb_topic (normalize_briefs s), bq_focus := clean_focus [] (bq_focus s)\<rparr>"
    by (rule prepare_request_Inr [OF assms])
  from q have "bq_topics q = map bb_topic (bq_briefs q)" "bq_briefs q = normalize_briefs s"
    by simp_all
  with v normalize_briefs_topics show ?thesis
    by (auto simp: wf_blog_req_def validate_request_def check_briefs_None list_all_iff
        map_of_eq_None_iff not_less split: if_splits option.splits)
qed

text \<open>
  in a run written for a reader of its own no brief is written for the default reader, not even
  one that names it: the choice of the brief is lost between the two passes of \<open>Generate\<close>.
\<close>

lemma default_reader_lost:
  assumes "prepare_request ws r = Inr q" and "bq_audience q \<noteq> []" and "b \<in> set (bq_briefs q)"
  shows "bb_audience b \<noteq> []"
proof -
  obtain s where s: "settled_run s" "bq_briefs s = normalize_briefs (settle_run r)"
    and q: "q = s\<lparr>bq_briefs := normalize_briefs s,
      bq_topics := map bb_topic (normalize_briefs s), bq_focus := clean_focus [] (bq_focus s)\<rparr>"
    by (rule prepare_request_Inr [OF assms(1)])
  have a: "bq_audience s \<noteq> []" using assms(2) q by simp
  have "b \<in> set (normalize_briefs s)" using assms(3) q by simp
  then consider (brief) c where "b = settle_brief s c" "c \<in> set (bq_briefs s)"
    | (topic) t where "b = topic_brief s t"
    by (auto simp: normalize_briefs_def Let_def dest!: topic_briefs_in)
  then show ?thesis
  proof cases
    case brief
    then have "\<not> names_default (bb_audience c)"
      using resolved_reader(2) [OF settle_run_settled] s(2) by simp
    then have "audience_normalize (bb_audience c) = [] \<longrightarrow> trim_space (bb_audience c) = []"
      by (simp add: audience_blank)
    then show ?thesis using brief(1) a by (simp add: settle_brief_def resolve_audience_def)
  qed (simp add: topic_brief_def a)
qed

definition two_readers :: blog_req where
  "two_readers =
     \<lparr>bq_briefs = [\<lparr>bb_topic = '' Cilium '', bb_seeds = [], bb_focus = [], bb_context = [],
         bb_audience = ''Developer'', bb_industry = [], bb_style = []\<rparr>],
      bq_topics = [''Postgres''], bq_model = [], bq_trending = False, bq_trending_count = 0,
      bq_focus = [], bq_max_articles = 0, bq_task = None, bq_auto_publish = False,
      bq_audience = ''business'', bq_industry = [], bq_writer = [], bq_agent = None,
      bq_style = [], bq_destination = []\<rparr>"

definition no_settings :: writer_settings where
  "no_settings = writer_settings_of []"

definition two_prepared :: blog_req where
  "two_prepared = normalize_request (normalize_request two_readers)"

lemma two_readers_prepared: "prepare_request no_settings two_readers = Inr two_prepared"
  by code_simp

theorem prepared_request_wf_witness: "wf_blog_req two_prepared"
  using prepared_request_wf [OF two_readers_prepared] .

end
