(* ===== verification/SchedStore.thy ===== *)
theory SchedStore
  imports ResumeState Sorting
begin

text \<open>
  The table of scheduled tasks and of their runs: \<open>model/scheduler.go\<close> and
  \<open>repository/scheduler_repository.go\<close>. A statement is a function on the tables, its WHERE clause its
  guard. Times are microseconds, the resolution of the columns; the columns that only audit a row
  (\<open>updated_at\<close>) are left out.
\<close>

record sched_task =
  sk_org :: uuid
  sk_name :: string
  sk_description :: "string option"
  sk_type :: string
  sk_agent :: "uuid option"
  sk_workflow :: "uuid option"
  sk_planner :: "uuid option"
  sk_executor :: "uuid option"
  sk_reviewer :: "uuid option"
  sk_max_review :: int
  sk_prompt :: string
  sk_input :: obj
  sk_provider :: "uuid option"
  sk_model :: "string option"
  sk_schedule :: string
  sk_cron :: "string option"
  sk_interval :: "int option"
  sk_run_at :: "int option"
  sk_preset :: "string option"
  sk_status :: string
  sk_last_run :: "int option"
  sk_next_run :: "int option"
  sk_run_count :: int
  sk_max_runs :: "int option"
  sk_retry :: bool
  sk_max_retries :: int
  sk_priority :: string
  sk_tags :: "string list"
  sk_created_by :: "uuid option"
  sk_created :: int

record sched_run =
  sn_id :: uuid
  sn_task :: uuid
  sn_exec :: "uuid option"
  sn_workflow_run :: "uuid option"
  sn_job :: "uuid option"
  sn_status :: string
  sn_output :: "string option"
  sn_error :: "string option"
  sn_started :: "int option"
  sn_completed :: "int option"
  sn_created :: int

text \<open>The tables a task refers to are the organisation each of their rows belongs to.\<close>

record sched_db =
  sb_tasks :: "(uuid \<times> sched_task) list"
  sb_runs :: "sched_run list"
  sb_agents :: "uuid \<Rightarrow> uuid option"
  sb_workflows :: "uuid \<Rightarrow> uuid option"
  sb_providers :: "uuid \<Rightarrow> uuid option"

definition sc_active :: string where "sc_active = ''active''"
definition sc_paused :: string where "sc_paused = ''paused''"
definition sc_completed :: string where "sc_completed = ''completed''"

definition target_not_found :: go_err where
  "target_not_found = ErrSentinel ''agent or workflow not found''"

definition find_task :: "uuid \<Rightarrow> sched_db \<Rightarrow> sched_task option" where
  "find_task i db = map_of (sb_tasks db) i"

definition task_update :: "uuid \<Rightarrow> (sched_task \<Rightarrow> sched_task) \<Rightarrow> sched_db \<Rightarrow> sched_db" where
  "task_update i f db =
     db\<lparr>sb_tasks := map (\<lambda>(j, t). (j, if j = i then f t else t)) (sb_tasks db)\<rparr>"

section \<open>Statements\<close>

definition in_org :: "(uuid \<Rightarrow> uuid option) \<Rightarrow> uuid \<Rightarrow> uuid option \<Rightarrow> bool" where
  "in_org tab org ref = (case ref of None \<Rightarrow> True | Some i \<Rightarrow> tab i = Some org)"

definition targets_in_org :: "sched_task \<Rightarrow> sched_db \<Rightarrow> bool" where
  "targets_in_org t db \<longleftrightarrow>
     list_all (in_org (sb_agents db) (sk_org t)) [sk_agent t, sk_planner t, sk_executor t, sk_reviewer t]
     \<and> in_org (sb_workflows db) (sk_org t) (sk_workflow t)
     \<and> in_org (sb_providers db) (sk_org t) (sk_provider t)"

definition create_task :: "uuid \<Rightarrow> sched_task \<Rightarrow> int \<Rightarrow> sched_db \<Rightarrow> go_err option \<times> sched_db" where
  "create_task i t now db =
     (if \<not> targets_in_org t db then (Some target_not_found, db)
      else (None, db\<lparr>sb_tasks := sb_tasks db @
        [(i, t\<lparr>sk_last_run := None, sk_run_count := 0, sk_created := now\<rparr>)]\<rparr>))"

record sched_change =
  sx_name :: "string option"
  sx_agent :: "uuid option option"
  sx_workflow :: "uuid option option"
  sx_description :: "string option"
  sx_prompt :: "string option"
  sx_input :: "obj option"
  sx_model :: "string option"
  sx_cron :: "string option"
  sx_interval :: "int option"
  sx_run_at :: "int option"
  sx_status :: "string option"
  sx_max_runs :: "int option"
  sx_retry :: "bool option"
  sx_max_retries :: "int option"
  sx_priority :: "string option"
  sx_tags :: "string list option"

definition no_change :: sched_change where
  "no_change =
     \<lparr>sx_name = None, sx_agent = None, sx_workflow = None, sx_description = None, sx_prompt = None,
      sx_input = None, sx_model = None, sx_cron = None, sx_interval = None, sx_run_at = None,
      sx_status = None, sx_max_runs = None, sx_retry = None, sx_max_retries = None,
      sx_priority = None, sx_tags = None\<rparr>"

text \<open>\<open>COALESCE($n, column)\<close>, for a column that may be null and for one that may not.\<close>

definition coalesce :: "'a option \<Rightarrow> 'a \<Rightarrow> 'a" where
  "coalesce x old = (case x of None \<Rightarrow> old | Some v \<Rightarrow> v)"

definition coalesce_null :: "'a option \<Rightarrow> 'a option \<Rightarrow> 'a option" where
  "coalesce_null x old = (case x of None \<Rightarrow> old | Some v \<Rightarrow> Some v)"

definition change_task :: "sched_change \<Rightarrow> sched_task \<Rightarrow> sched_task" where
  "change_task x t =
     t\<lparr>sk_name := coalesce (sx_name x) (sk_name t),
       sk_description := coalesce_null (sx_description x) (sk_description t),
       sk_prompt := coalesce (sx_prompt x) (sk_prompt t),
       sk_cron := coalesce_null (sx_cron x) (sk_cron t),
       sk_interval := coalesce_null (sx_interval x) (sk_interval t),
       sk_status := coalesce (sx_status x) (sk_status t),
       sk_max_runs := coalesce_null (sx_max_runs x) (sk_max_runs t),
       sk_priority := coalesce (sx_priority x) (sk_priority t),
       sk_model := coalesce_null (sx_model x) (sk_model t),
       sk_input := coalesce (sx_input x) (sk_input t),
       sk_agent := coalesce (sx_agent x) (sk_agent t),
       sk_workflow := coalesce (sx_workflow x) (sk_workflow t),
       sk_run_at := coalesce_null (sx_run_at x) (sk_run_at t),
       sk_retry := coalesce (sx_retry x) (sk_retry t),
       sk_max_retries := coalesce (sx_max_retries x) (sk_max_retries t),
       sk_tags := coalesce (sx_tags x) (sk_tags t)\<rparr>"

definition change_allowed :: "sched_change \<Rightarrow> sched_task \<Rightarrow> sched_db \<Rightarrow> bool" where
  "change_allowed x t db \<longleftrightarrow>
     in_org (sb_agents db) (sk_org t) (coalesce (sx_agent x) None)
     \<and> in_org (sb_workflows db) (sk_org t) (coalesce (sx_workflow x) None)"

text \<open>The row is read back after the update.\<close>

definition update_task ::
  "uuid \<Rightarrow> sched_change \<Rightarrow> sched_db \<Rightarrow> (go_err + sched_task) \<times> sched_db" where
  "update_task i x db =
     (case find_task i db of
        Some t \<Rightarrow>
          if change_allowed x t db then (Inr (change_task x t), task_update i (change_task x) db)
          else (Inl target_not_found, db)
      | None \<Rightarrow> (Inl target_not_found, db))"

definition delete_task :: "uuid \<Rightarrow> sched_db \<Rightarrow> sched_db" where
  "delete_task i db =
     db\<lparr>sb_tasks := filter (\<lambda>p. fst p \<noteq> i) (sb_tasks db),
        sb_runs := filter (\<lambda>r. sn_task r \<noteq> i) (sb_runs db)\<rparr>"

definition task_due :: "int \<Rightarrow> sched_task \<Rightarrow> bool" where
  "task_due now t \<longleftrightarrow>
     sk_status t = sc_active \<and> (case sk_next_run t of None \<Rightarrow> False | Some d \<Rightarrow> d \<le> now)"

text \<open>\<open>ORDER BY priority DESC, next_run_at\<close>: the priority is a text column.\<close>

definition due_before :: "uuid \<times> sched_task \<Rightarrow> uuid \<times> sched_task \<Rightarrow> bool" where
  "due_before x y \<longleftrightarrow>
     str_less (sk_priority (snd y)) (sk_priority (snd x))
     \<or> sk_priority (snd x) = sk_priority (snd y)
        \<and> (case (sk_next_run (snd x), sk_next_run (snd y)) of
             (Some a, Some b) \<Rightarrow> a < b | (Some a, None) \<Rightarrow> True | _ \<Rightarrow> False)"

definition list_due :: "int \<Rightarrow> sched_db \<Rightarrow> (uuid \<times> sched_task) list" where
  "list_due now db = stable_sort due_before (filter (\<lambda>p. task_due now (snd p)) (sb_tasks db))"

definition increment_runs :: "uuid \<Rightarrow> int \<Rightarrow> sched_db \<Rightarrow> sched_db" where
  "increment_runs i now =
     task_update i (\<lambda>t. t\<lparr>sk_run_count := sk_run_count t + 1, sk_last_run := Some now\<rparr>)"

definition set_next_run :: "uuid \<Rightarrow> int \<Rightarrow> sched_db \<Rightarrow> sched_db" where
  "set_next_run i nxt = task_update i (\<lambda>t. t\<lparr>sk_next_run := Some nxt\<rparr>)"

definition claim_task :: "uuid \<Rightarrow> int option \<Rightarrow> int \<Rightarrow> sched_db \<Rightarrow> bool \<times> sched_db" where
  "claim_task i due nxt db =
     (case find_task i db of
        Some t \<Rightarrow>
          if sk_status t = sc_active \<and> sk_next_run t = due then (True, set_next_run i nxt db)
          else (False, db)
      | None \<Rightarrow> (False, db))"

text \<open>A run refers to its task: inserting one for a task that is gone is an error.\<close>

definition add_task_run :: "sched_run \<Rightarrow> int \<Rightarrow> sched_db \<Rightarrow> go_err option \<times> sched_db" where
  "add_task_run r now db =
     (if find_task (sn_task r) db = None
      then (Some (ErrText ''violates foreign key constraint''), db)
      else (None, db\<lparr>sb_runs := sb_runs db @ [r\<lparr>sn_created := now\<rparr>]\<rparr>))"

section \<open>Pages\<close>

text \<open>\<open>PaginationParams\<close> of \<open>model/agent.go\<close>: a page number and the rows of a page.\<close>

definition normalize_page :: "int \<times> int \<Rightarrow> int \<times> int" where
  "normalize_page p =
     (let page = (if fst p < 1 then 1 else fst p);
          per = (if snd p < 1 then 20 else snd p)
      in (page, if per > 200 then 200 else per))"

definition page_offset :: "int \<times> int \<Rightarrow> int" where
  "page_offset p = (fst p - 1) * snd p"

record 'a paginated =
  pg_data :: "'a list"
  pg_total :: int
  pg_page :: int
  pg_per_page :: int
  pg_total_pages :: int

definition paginate :: "int \<times> int \<Rightarrow> 'a list \<Rightarrow> 'a paginated" where
  "paginate p0 xs =
     (let p = normalize_page p0; n = int (length xs) in
      \<lparr>pg_data = take (nat (snd p)) (drop (nat (page_offset p)) xs), pg_total = n, pg_page = fst p,
       pg_per_page = snd p, pg_total_pages = (n + snd p - 1) div snd p\<rparr>)"

definition list_tasks :: "uuid \<Rightarrow> int \<times> int \<Rightarrow> sched_db \<Rightarrow> (uuid \<times> sched_task) paginated" where
  "list_tasks org p db =
     paginate p (stable_sort (\<lambda>x y. sk_created (snd x) > sk_created (snd y))
       (filter (\<lambda>q. sk_org (snd q) = org) (sb_tasks db)))"

definition list_runs :: "uuid \<Rightarrow> int \<times> int \<Rightarrow> sched_db \<Rightarrow> sched_run paginated" where
  "list_runs i p db =
     paginate p (stable_sort (\<lambda>x y. sn_created x > sn_created y)
       (filter (\<lambda>r. sn_task r = i) (sb_runs db)))"

section \<open>Lemmas\<close>

lemma find_task_update [simp]:
  "find_task j (task_update i f db)
     = (if j = i then map_option f (find_task i db) else find_task j db)"
proof -
  have "map_of (map (\<lambda>(j, t). (j, if j = i then f t else t)) ts) j
      = (if j = i then map_option f (map_of ts j) else map_of ts j)" for ts
    by (induction ts) auto
  then show ?thesis by (simp add: find_task_def task_update_def)
qed

lemma task_update_frame [simp]:
  "sb_runs (task_update i f db) = sb_runs db" "sb_agents (task_update i f db) = sb_agents db"
  "sb_workflows (task_update i f db) = sb_workflows db"
  "sb_providers (task_update i f db) = sb_providers db"
  by (simp_all add: task_update_def)

lemma find_task_frame [simp]: "find_task i (db\<lparr>sb_runs := rs\<rparr>) = find_task i db"
  by (simp add: find_task_def)

lemma claim_task_True:
  "claim_task i due nxt db = (True, db') \<longleftrightarrow>
     (\<exists>t. find_task i db = Some t \<and> sk_status t = sc_active \<and> sk_next_run t = due
        \<and> db' = set_next_run i nxt db)"
  by (auto simp: claim_task_def split: option.splits)

lemma claim_task_False: "claim_task i due nxt db = (False, db') \<Longrightarrow> db' = db"
  by (auto simp: claim_task_def split: option.splits if_splits)

lemma list_due_task:
  assumes "(i, t) \<in> set (list_due now db)" and "distinct (map fst (sb_tasks db))"
  shows "find_task i db = Some t \<and> task_due now t"
  using assms by (auto simp: list_due_def find_task_def)

end
