(* ===== verification/MultiAgent.thy ===== *)
theory MultiAgent
  imports Autonomous LoopProps
begin

text \<open>
  Collaboration of three agents (\<open>service/multi_agent_service.go\<close> on the table of
  \<open>repository/multi_agent_repository.go\<close>): a planner's goal gives the plan, then the executor and the
  reviewer take turns until the review approves or the rounds are used up. Every goal is run by the
  goal loop of \<open>Autonomous\<close>; the table of jobs is the second component of the world, so the goals
  run on the same state. Metrics and the read-only listing are left out.
\<close>

record multi_job =
  mj_org :: uuid
  mj_prompt :: string
  mj_planner :: uuid
  mj_executor :: uuid
  mj_reviewer :: uuid
  mj_status :: string
  mj_plan :: "string option"
  mj_exec :: "string option"
  mj_review :: "string option"
  mj_approved :: "bool option"
  mj_iterations :: int
  mj_max_review :: int
  mj_error :: "string option"
  mj_completed :: "int option"

record multi_request =
  mq_prompt :: string
  mq_planner :: uuid
  mq_executor :: uuid
  mq_reviewer :: uuid
  mq_max_review :: int

type_synonym job_db = "uuid \<Rightarrow> multi_job option"

type_synonym 'v job_world = "(job_db \<times> 'v) goal_world"

definition ma_pending :: string where "ma_pending = ''pending''"
definition ma_planning :: string where "ma_planning = ''planning''"
definition ma_executing :: string where "ma_executing = ''executing''"
definition ma_reviewing :: string where "ma_reviewing = ''reviewing''"
definition ma_completed :: string where "ma_completed = ''completed''"
definition ma_failed :: string where "ma_failed = ''failed''"

text \<open>
  \<open>FindByID\<close> of an agent that is gone is no error but a nil pointer. The error of the tool listing
  is dropped and leaves no tools.
\<close>

record 'v multi_env =
  me_goals :: "(job_db \<times> 'v) goal_env"
  me_agent :: "uuid \<Rightarrow> 'v job_world \<Rightarrow> go_err + agent option"
  me_tools :: "uuid \<Rightarrow> 'v job_world \<Rightarrow> string list"
  me_fault :: "'v job_world \<Rightarrow> string \<Rightarrow> go_err option"
  me_fresh :: "'v job_world \<Rightarrow> uuid"

section \<open>The table of jobs\<close>

definition jobs_of :: "'v job_world \<Rightarrow> job_db" where
  "jobs_of w = fst (snd w)"

definition put_job :: "uuid \<Rightarrow> multi_job \<Rightarrow> 'v job_world \<Rightarrow> 'v job_world" where
  "put_job j row w = (fst w, ((jobs_of w)(j \<mapsto> row), snd (snd w)))"

definition job_update ::
  "'v multi_env \<Rightarrow> string \<Rightarrow> uuid \<Rightarrow> (multi_job \<Rightarrow> multi_job) \<Rightarrow> 'v job_world \<Rightarrow> 'v job_world" where
  "job_update env op j f w =
     (case me_fault env w op of
        Some e \<Rightarrow> w
      | None \<Rightarrow> (case jobs_of w j of None \<Rightarrow> w | Some r \<Rightarrow> put_job j (f r) w))"

definition job_status :: "'v multi_env \<Rightarrow> uuid \<Rightarrow> string \<Rightarrow> 'v job_world \<Rightarrow> 'v job_world" where
  "job_status env j st = job_update env ''UpdateStatus'' j (\<lambda>r. r\<lparr>mj_status := st\<rparr>)"

definition job_plan :: "'v multi_env \<Rightarrow> uuid \<Rightarrow> string \<Rightarrow> 'v job_world \<Rightarrow> 'v job_world" where
  "job_plan env j t = job_update env ''UpdatePlanOutput'' j (\<lambda>r. r\<lparr>mj_plan := Some t\<rparr>)"

definition job_exec :: "'v multi_env \<Rightarrow> uuid \<Rightarrow> string \<Rightarrow> 'v job_world \<Rightarrow> 'v job_world" where
  "job_exec env j t = job_update env ''UpdateExecOutput'' j (\<lambda>r. r\<lparr>mj_exec := Some t\<rparr>)"

definition job_review :: "'v multi_env \<Rightarrow> uuid \<Rightarrow> string \<Rightarrow> bool \<Rightarrow> 'v job_world \<Rightarrow> 'v job_world" where
  "job_review env j t ok =
     job_update env ''UpdateReviewOutput'' j (\<lambda>r. r\<lparr>mj_review := Some t, mj_approved := Some ok\<rparr>)"

definition job_iteration :: "'v multi_env \<Rightarrow> uuid \<Rightarrow> 'v job_world \<Rightarrow> 'v job_world" where
  "job_iteration env j =
     job_update env ''IncrementIteration'' j (\<lambda>r. r\<lparr>mj_iterations := mj_iterations r + 1\<rparr>)"

definition job_completed :: "'v multi_env \<Rightarrow> uuid \<Rightarrow> 'v job_world \<Rightarrow> 'v job_world" where
  "job_completed env j w =
     job_update env ''MarkCompleted'' j
       (\<lambda>r. r\<lparr>mj_status := ma_completed, mj_completed := Some (goal_now (me_goals env) w)\<rparr>) w"

definition job_failed :: "'v multi_env \<Rightarrow> uuid \<Rightarrow> string \<Rightarrow> 'v job_world \<Rightarrow> 'v job_world" where
  "job_failed env j msg w =
     job_update env ''MarkFailed'' j
       (\<lambda>r. r\<lparr>mj_status := ma_failed, mj_error := Some msg,
              mj_completed := Some (goal_now (me_goals env) w)\<rparr>) w"

definition get_job :: "'v multi_env \<Rightarrow> uuid \<Rightarrow> 'v job_world \<Rightarrow> go_err + multi_job" where
  "get_job env j w =
     (case me_fault env w ''GetByID'' of
        Some e \<Rightarrow> Inl (ErrWrap ''multi_agent_repo: get_by_id: '' e)
      | None \<Rightarrow>
          (case jobs_of w j of
             None \<Rightarrow> Inl (ErrText ''multi_agent_repo: get_by_id: no rows in result set'')
           | Some r \<Rightarrow> Inr r))"

section \<open>Creating a job\<close>

definition agent_missing :: go_err where
  "agent_missing = ErrSentinel ''agent not found''"

definition own_agent :: "'v multi_env \<Rightarrow> uuid \<Rightarrow> 'v job_world \<Rightarrow> uuid \<Rightarrow> bool" where
  "own_agent env org w i =
     (case me_agent env i w of Inr (Some a) \<Rightarrow> ag_org a = org | _ \<Rightarrow> False)"

definition new_job :: "uuid \<Rightarrow> multi_request \<Rightarrow> multi_job" where
  "new_job org q =
     \<lparr>mj_org = org, mj_prompt = mq_prompt q, mj_planner = mq_planner q, mj_executor = mq_executor q,
      mj_reviewer = mq_reviewer q, mj_status = ma_pending, mj_plan = None, mj_exec = None,
      mj_review = None, mj_approved = None, mj_iterations = 0,
      mj_max_review = (if mq_max_review q \<le> 0 then 2 else mq_max_review q), mj_error = None,
      mj_completed = None\<rparr>"

definition create_job ::
  "'v multi_env \<Rightarrow> uuid \<Rightarrow> multi_request \<Rightarrow> 'v job_world \<Rightarrow> (go_err + uuid \<times> multi_job) \<times> 'v job_world" where
  "create_job env org q w =
     (if \<not> list_all (own_agent env org w) [mq_planner q, mq_executor q, mq_reviewer q]
      then (Inl agent_missing, w)
      else
        (let j = me_fresh env w; job = new_job org q in
         case me_fault env w ''Create'' of
           Some e \<Rightarrow> (Inl (ErrWrap ''multi_agent_svc: create: multi_agent_repo: create: '' e), w)
         | None \<Rightarrow> (Inr (j, job), put_job j job w)))"

section \<open>The review\<close>

text \<open>\<open>extractReviewJSON\<close>: from the first opening to the last closing brace.\<close>

definition extract_review_json :: "string \<Rightarrow> string" where
  "extract_review_json s =
     (let start = (case index_of s ''{'' of Some i \<Rightarrow> i | None \<Rightarrow> 0);
          fin = (case last_index_char s (CHR ''}'') of Some i \<Rightarrow> int i | None \<Rightarrow> int (length s) - 1)
      in if int start < fin then drop start (take (nat fin + 1) s) else s)"

definition dec_decision :: "json \<Rightarrow> (bool \<times> string) option" where
  "dec_decision v =
     (case v of
        JObj ms \<Rightarrow>
          (case (jfield id dec_bool False ''approved'' ms, str_field ''feedback'' ms) of
             (Some a, Some f) \<Rightarrow> Some (a, f)
           | _ \<Rightarrow> None)
      | JNull \<Rightarrow> Some (False, [])
      | _ \<Rightarrow> None)"

definition read_decision :: "string \<Rightarrow> (bool \<times> string) option" where
  "read_decision review =
     (case parse_json (extract_review_json review) of None \<Rightarrow> None | Some v \<Rightarrow> dec_decision v)"

text \<open>What a review decides, and the text kept of it.\<close>

definition review_verdict :: "string \<Rightarrow> bool \<times> string" where
  "review_verdict review =
     (case read_decision review of
        None \<Rightarrow> (True, review)
      | Some (ok, feedback) \<Rightarrow> (ok, if feedback \<noteq> [] then feedback else review))"

section \<open>The collaboration\<close>

definition goal_output :: "goal_result \<Rightarrow> string" where
  "goal_output r =
     (if gr_reflection r = [] \<and> gr_observations r \<noteq> [] then last (gr_observations r)
      else gr_reflection r)"

datatype role_end = NoGoal go_err | NilAgent | RoleRan goal_result

text \<open>A role creates a goal and runs it; a nil agent is dereferenced before anything is stored.\<close>

definition run_role ::
  "'v multi_env \<Rightarrow> go_ctx \<Rightarrow> multi_job \<Rightarrow> agent option \<Rightarrow> string list \<Rightarrow> string \<Rightarrow> int \<Rightarrow> 'v job_world
    \<Rightarrow> role_end \<times> 'v job_world" where
  "run_role env cx job who tools txt max_iter w =
     (case who of
        None \<Rightarrow> (NilAgent, w)
      | Some ag \<Rightarrow>
          (case ge_fault (me_goals env) w ''Create'' of
             Some e \<Rightarrow> (NoGoal (ErrWrap ''goal_repo: create: '' e), w)
           | None \<Rightarrow>
               (let i = me_fresh env w;
                    w1 = ((fst w)(i \<mapsto> new_goal (ag_id ag) (mj_org job) txt None max_iter), snd w);
                    (r, w2) = run_goal (me_goals env) cx i ag tools w1
                in (RoleRan r, w2))))"

definition plan_text :: "multi_job \<Rightarrow> string" where
  "plan_text job = ''Create a detailed step-by-step execution plan for: '' @ mj_prompt job"

definition exec_text :: "multi_job \<Rightarrow> string \<Rightarrow> string" where
  "exec_text job plan =
     ''Execute the following plan for task '' @ quote (mj_prompt job) @ '':'' @ nl @ nl @ plan"

definition review_text :: "multi_job \<Rightarrow> string \<Rightarrow> string \<Rightarrow> string" where
  "review_text job plan out =
     ''Review the execution result for task '' @ quote (mj_prompt job) @ ''.'' @ nl @ nl
     @ ''Plan:'' @ nl @ plan @ nl @ nl @ ''Execution result:'' @ nl @ out @ nl @ nl
     @ ''Respond with a JSON object: {\"approved\": true/false, \"feedback\": \"...\"}''"

definition with_feedback :: "string \<Rightarrow> nat \<Rightarrow> string \<Rightarrow> string" where
  "with_feedback plan k review =
     plan @ nl @ nl @ ''Reviewer feedback (iteration '' @ show_nat (Suc k) @ ''): '' @ review"

text \<open>
  The rounds still to go, the first of them number \<open>k\<close>; the result says whether the function
  returned at all (a nil agent panics).
\<close>

fun review_rounds ::
  "'v multi_env \<Rightarrow> go_ctx \<Rightarrow> uuid \<Rightarrow> multi_job \<Rightarrow> agent option \<Rightarrow> agent option \<Rightarrow> string list \<Rightarrow> nat \<Rightarrow> nat
    \<Rightarrow> string \<Rightarrow> 'v job_world \<Rightarrow> bool \<times> 'v job_world" where
  "review_rounds env cx j job worker critic tools 0 k plan w = (True, job_completed env j w)"
| "review_rounds env cx j job worker critic tools (Suc n) k plan w =
     (let w1 = job_status env j ma_executing (job_iteration env j w) in
      case run_role env cx job worker tools (exec_text job plan) max_goal_iterations w1 of
        (NilAgent, w2) \<Rightarrow> (False, w2)
      | (NoGoal e, w2) \<Rightarrow> (True, job_failed env j (''create exec goal: '' @ err_text e) w2)
      | (RoleRan r, w2) \<Rightarrow>
          (let out = goal_output r;
               w3 = job_status env j ma_reviewing (job_exec env j out w2)
           in case run_role env cx job critic [] (review_text job plan out) 3 w3 of
                (NilAgent, w4) \<Rightarrow> (False, w4)
              | (NoGoal e, w4) \<Rightarrow> (True, job_failed env j (''create review goal: '' @ err_text e) w4)
              | (RoleRan v, w4) \<Rightarrow>
                  (let (approved, review) = review_verdict (goal_output v);
                       w5 = job_review env j review approved w4
                   in if approved then (True, job_completed env j w5)
                      else review_rounds env cx j job worker critic tools n (Suc k)
                             (with_feedback plan k review) w5)))"

definition plan_and_review ::
  "'v multi_env \<Rightarrow> go_ctx \<Rightarrow> uuid \<Rightarrow> multi_job \<Rightarrow> agent option \<Rightarrow> agent option \<Rightarrow> agent option
    \<Rightarrow> 'v job_world \<Rightarrow> bool \<times> 'v job_world" where
  "plan_and_review env cx j job planner worker critic w =
     (let tools = me_tools env (mj_executor job) w;
          w1 = job_status env j ma_planning w
      in case run_role env cx job planner [] (plan_text job) max_goal_iterations w1 of
           (NilAgent, w2) \<Rightarrow> (False, w2)
         | (NoGoal e, w2) \<Rightarrow> (True, job_failed env j (''create plan goal: '' @ err_text e) w2)
         | (RoleRan r, w2) \<Rightarrow>
             (case gr_err r of
                Some e \<Rightarrow> (True, job_failed env j (''planner failed: '' @ err_text e) w2)
              | None \<Rightarrow>
                  (let plan = goal_output r in
                   review_rounds env cx j job worker critic tools (nat (mj_max_review job)) 0 plan
                     (job_plan env j plan w2))))"

definition run_collaboration ::
  "'v multi_env \<Rightarrow> go_ctx \<Rightarrow> uuid \<Rightarrow> multi_job \<Rightarrow> 'v job_world \<Rightarrow> bool \<times> 'v job_world" where
  "run_collaboration env cx j job w =
     (case me_agent env (mj_planner job) w of
        Inl e \<Rightarrow> (True, job_failed env j (''load planner agent: '' @ err_text e) w)
      | Inr planner \<Rightarrow>
     (case me_agent env (mj_executor job) w of
        Inl e \<Rightarrow> (True, job_failed env j (''load executor agent: '' @ err_text e) w)
      | Inr worker \<Rightarrow>
     (case me_agent env (mj_reviewer job) w of
        Inl e \<Rightarrow> (True, job_failed env j (''load reviewer agent: '' @ err_text e) w)
      | Inr critic \<Rightarrow> plan_and_review env cx j job planner worker critic w)))"

text \<open>\<open>RunJobSync\<close>; \<^const>\<open>None\<close> when the collaboration panics. \<open>RunJob\<close> starts the same in a goroutine.\<close>

definition run_job_sync ::
  "'v multi_env \<Rightarrow> go_ctx \<Rightarrow> uuid \<Rightarrow> multi_request \<Rightarrow> 'v job_world
    \<Rightarrow> (go_err + uuid \<times> multi_job) option \<times> 'v job_world" where
  "run_job_sync env cx org q w =
     (case create_job env org q w of
        (Inl e, w1) \<Rightarrow> (Some (Inl e), w1)
      | (Inr (j, job), w1) \<Rightarrow>
          (case run_collaboration env cx j job w1 of
             (False, w2) \<Rightarrow> (None, w2)
           | (True, w2) \<Rightarrow>
               (Some (case get_job env j w2 of Inl e \<Rightarrow> Inl e | Inr r \<Rightarrow> Inr (j, r)), w2)))"

section \<open>What running a goal leaves alone\<close>

text \<open>
  A fact about the world beyond the table of goals that every model call, tool call and other
  effect of the executor keeps is kept by a whole goal.
\<close>

definition goal_effects_keep :: "'w goal_env \<Rightarrow> ('w \<Rightarrow> bool) \<Rightarrow> bool" where
  "goal_effects_keep env P \<longleftrightarrow>
     ge_router env = ex_router (ge_base env)
     \<and> (\<forall>a. agent_world (ge_base env) a (\<lambda>n w. P (snd w)) (\<lambda>rq. True))
     \<and> (\<forall>a t k w. P (snd w) \<longrightarrow> P (snd (snd (ge_search env a t k w))))
     \<and> (\<forall>a b c d w. P (snd w) \<longrightarrow> P (snd (ge_append env a b c d w)))"

lemma goal_ops_frame [simp]:
  "snd (goal_update env op i f w) = snd w" "snd (update_status env i st w) = snd w"
  "snd (update_plan env i plan w) = snd w" "snd (goal_started env i w) = snd w"
  "snd (goal_completed env i rf w) = snd w" "snd (goal_failed env i msg w) = snd w"
  "snd (increment_iteration env i w) = snd w"
  by (simp_all add: goal_update_def update_status_def update_plan_def goal_started_def
      goal_completed_def goal_failed_def increment_iteration_def split: option.split)

lemma goal_effects_run:
  assumes "goal_effects_keep env P" and "P (snd w)"
  shows "P (snd (snd (run_agent (ge_base env) cx e ag p tools w)))"
proof -
  have aw: "agent_world (ge_base env) (ag_id ag) (\<lambda>n w. P (snd w)) (\<lambda>rq. True)"
    using assms(1) unfolding goal_effects_keep_def by blast
  show ?thesis
    by (rule agent_world.run_keeps [OF aw assms(2) refl]) (simp add: agent_world.asks_def [OF aw])
qed

lemma goal_effects_ask:
  assumes "goal_effects_keep env P" and "P (snd w)"
  shows "P (snd (snd (ask_once env cx ag kind prompt mx temp what w)))"
proof -
  have aw: "agent_world (ge_base env) (ag_id ag) (\<lambda>n w. P (snd w)) (\<lambda>rq. True)"
    and r: "ge_router env = ex_router (ge_base env)"
    using assms(1) unfolding goal_effects_keep_def by blast+
  have "P (snd (snd (cl_generate (mc_client ch) cx rq w)))"
    if "resolve_model (ex_router (ge_base env)) sel ag sg = Inr ch" for sel sg ch rq
    using agent_world.resolve_model_good [OF aw that] assms(2)
    unfolding agent_world.good_client_def [OF aw] by blast
  then have k: "resolve_model (ex_router (ge_base env)) sel ag sg = Inr ch
      \<Longrightarrow> cl_generate (mc_client ch) cx rq w = (y, w') \<Longrightarrow> P (snd w')" for sel sg ch rq y w'
    by (metis snd_conv)
  show ?thesis
    unfolding ask_once_def r using assms(2) k by (auto split: sum.split prod.split)
qed

lemma goal_effects_act:
  assumes "goal_effects_keep env P" and "P (snd w)"
  shows "P (snd (snd (act_steps env cx i txt ag tools k steps plan obs w)))"
  using assms(2)
proof (induction steps arbitrary: k plan obs w)
  case (Cons step steps)
  have app: "P (snd v) \<Longrightarrow> P (snd (ge_append env a b c d v))" for a b c d v
    using assms(1) unfolding goal_effects_keep_def by blast
  define w1 where "w1 = increment_iteration env i w"
  obtain r w2 where r: "run_agent (ge_base env) cx (ge_fresh env w1) ag
      (build_step_prompt txt step obs) tools w1 = (r, w2)" by (metis surj_pair)
  have "P (snd w2)"
    using goal_effects_run [OF assms(1), of w1] r Cons.prems by (metis snd_conv w1_def goal_ops_frame(7))
  then show ?case
    using r by (auto simp: w1_def Let_def Cons.prems intro!: Cons.IH app split: option.split)
qed simp

lemma run_goal_keeps:
  assumes "goal_effects_keep env P" and "P (snd w)"
  shows "P (snd (snd (run_goal env cx0 i ag tools w)))"
proof -
  define cx where "cx = cx0\<lparr>cx_trace_org := Some (ag_org ag)\<rparr>"
  have reflect: "P (snd (snd (reflect_goal env cx i t ag plan obs v)))" if "P (snd v)" for t plan obs v
    using goal_effects_ask [OF assms(1), of "update_status env i gs_reflecting v"] that
    by (auto simp: reflect_goal_def generate_reflection_def Let_def split: sum.split prod.split
        dest: sym) (metis snd_conv)+
  have act: "P (snd (snd (act_goal env cx i t ag tools plan v)))" if "P (snd v)" for t plan v
    using goal_effects_act [OF assms(1), of "goal_started env i (update_plan env i plan v)"] that
    by (auto simp: act_goal_def Let_def intro!: reflect split: sum.split prod.split)
       (metis snd_conv)+
  have plan: "P (snd (snd (generate_plan env cx ag t ms v)))" if "P (snd v)" for t ms v
    using goal_effects_ask [OF assms(1) that]
    by (auto simp: generate_plan_def split: sum.split prod.split) (metis snd_conv)+
  have search: "P (snd v) \<Longrightarrow> P (snd (snd (ge_search env a t k v)))" for a t k v
    using assms(1) unfolding goal_effects_keep_def by blast
  show ?thesis
  proof (cases "ge_fault env w ''GetByID''")
    case None
    show ?thesis
    proof (cases "fst w i")
      case (Some g)
      define w1 where "w1 = update_status env i gs_planning w"
      obtain found w2 where f: "ge_search env (ag_id ag) (gl_text g) 5 w1 = (found, w2)" by (metis surj_pair)
      have 2: "P (snd w2)" using search [of w1] f assms(2) by (metis snd_conv w1_def goal_ops_frame(2))
      define ms where "ms = (case found of Inr ms \<Rightarrow> ms | Inl e \<Rightarrow> [])"
      obtain p w3 where p: "generate_plan env cx ag (gl_text g) ms w2 = (p, w3)" by (metis surj_pair)
      have 3: "P (snd w3)" using plan [OF 2] p by (metis snd_conv)
      have "run_goal env cx0 i ag tools w =
          (case p of Inl e \<Rightarrow> (failed_goal [] [] e, goal_failed env i (''planning failed: '' @ err_text e) w3)
           | Inr pl \<Rightarrow> act_goal env cx i (gl_text g) ag tools pl w3)"
        unfolding run_goal_def Let_def cx_def [symmetric] None Some option.case
          w1_def [symmetric] f prod.case ms_def [symmetric] p ..
      then show ?thesis using 3 act [OF 3] by (cases p) simp_all
    qed (use None assms(2) in \<open>simp add: run_goal_def Let_def\<close>)
  qed (use assms(2) in \<open>simp add: run_goal_def Let_def\<close>)
qed

section \<open>Lemmas\<close>

text \<open>
  What the properties ask of the surroundings: the statements on the table of jobs do not fail, and
  no goal touches the row of the job it belongs to.
\<close>

definition no_job_faults :: "'v multi_env \<Rightarrow> bool" where
  "no_job_faults env \<longleftrightarrow> (\<forall>w op. me_fault env w op = None)"

definition goals_keep_job :: "'v multi_env \<Rightarrow> uuid \<Rightarrow> bool" where
  "goals_keep_job env j \<longleftrightarrow>
     (\<forall>cx i ag tools w. jobs_of (snd (run_goal (me_goals env) cx i ag tools w)) j = jobs_of w j)"

text \<open>Nothing the goals do through models, tools and memory touches the row of the job.\<close>

definition effects_keep_job :: "'v multi_env \<Rightarrow> uuid \<Rightarrow> bool" where
  "effects_keep_job env j \<longleftrightarrow> (\<forall>r. goal_effects_keep (me_goals env) (\<lambda>s. fst s j = r))"

lemma effects_keep_job: "effects_keep_job env j \<Longrightarrow> goals_keep_job env j"
  unfolding effects_keep_job_def goals_keep_job_def jobs_of_def
  using run_goal_keeps [of "me_goals env"] by blast

lemma job_update_row:
  assumes "no_job_faults env" and "jobs_of w j = Some r"
  shows "jobs_of (job_update env op j f w) j = Some (f r)"
proof -
  have "me_fault env w op = None" using assms(1) unfolding no_job_faults_def by blast
  with assms(2) show ?thesis by (simp add: job_update_def put_job_def jobs_of_def)
qed

lemmas job_ops = job_status_def job_plan_def job_exec_def job_review_def job_iteration_def
  job_completed_def job_failed_def

lemma run_role_row:
  assumes "goals_keep_job env j"
  shows "jobs_of (snd (run_role env cx job who tools txt n w)) j = jobs_of w j"
proof (cases who)
  case (Some ag)
  define w1 where "w1 = ((fst w)(me_fresh env w \<mapsto> new_goal (ag_id ag) (mj_org job) txt None n), snd w)"
  obtain r w2 where g: "run_goal (me_goals env) cx (me_fresh env w) ag tools w1 = (r, w2)"
    by (metis surj_pair)
  have "jobs_of w2 j = jobs_of w1 j"
    using assms g unfolding goals_keep_job_def by (metis snd_conv)
  moreover have "jobs_of w1 = jobs_of w" by (simp add: w1_def jobs_of_def)
  ultimately show ?thesis
    using Some g unfolding w1_def by (simp add: run_role_def Let_def split: option.split)
qed (simp add: run_role_def)

lemma role_row:
  assumes "goals_keep_job env j" and "run_role env cx job who tools txt n w = (e, w')"
  shows "jobs_of w' j = jobs_of w j"
  using run_role_row [OF assms(1), of cx job who tools "txt" n w] assms(2) by simp

lemma role_ran:
  assumes "run_role env cx job who tools txt n w = (RoleRan v, w')"
  shows "\<exists>c i w0. who = Some c \<and> v = fst (run_goal (me_goals env) cx i c tools w0)"
proof (cases who)
  case (Some c)
  define w1 where "w1 = ((fst w)(me_fresh env w \<mapsto> new_goal (ag_id c) (mj_org job) txt None n), snd w)"
  obtain r w2 where g: "run_goal (me_goals env) cx (me_fresh env w) c tools w1 = (r, w2)"
    by (metis surj_pair)
  have "r = v"
    using assms Some g unfolding w1_def by (simp add: run_role_def Let_def split: option.splits)
  then have "v = fst (run_goal (me_goals env) cx (me_fresh env w) c tools w1)" by (simp add: g)
  then show ?thesis using Some by blast
qed (use assms in \<open>simp add: run_role_def\<close>)

text \<open>How a job ends that had \<open>n\<close> rounds to go.\<close>

definition job_settled :: "int \<Rightarrow> multi_job \<Rightarrow> bool" where
  "job_settled most r \<longleftrightarrow>
     mj_completed r \<noteq> None \<and> mj_iterations r \<le> most
     \<and> (mj_status r = ma_completed \<and> mj_error r = None
          \<and> (mj_approved r = Some True \<or> mj_approved r = Some False \<and> mj_iterations r = most)
        \<or> mj_status r = ma_failed \<and> mj_error r \<noteq> None)"

lemma job_failed_settled:
  assumes "no_job_faults env" and "jobs_of w j = Some r" and "mj_iterations r \<le> most"
  shows "\<exists>r'. jobs_of (job_failed env j msg w) j = Some r' \<and> job_settled most r'"
  using job_update_row [OF assms(1,2)] assms(3) by (auto simp: job_failed_def job_settled_def)

lemma job_completed_settled:
  assumes "no_job_faults env" and "jobs_of w j = Some r" and "mj_iterations r \<le> most"
    and "mj_error r = None"
    and "mj_approved r = Some True \<or> mj_approved r = Some False \<and> mj_iterations r = most"
  shows "\<exists>r'. jobs_of (job_completed env j w) j = Some r' \<and> job_settled most r'"
  using job_update_row [OF assms(1,2)] assms(3-5) by (auto simp: job_completed_def job_settled_def)

text \<open>One round, its effects named.\<close>

lemma review_round_cases:
  assumes ok: "no_job_faults env" and keep: "goals_keep_job env j" and row: "jobs_of w j = Some r"
    and run: "review_rounds env cx j job worker critic tools (Suc n) k plan w = (True, w')"
  obtains (failed) msg w1 r1 where "w' = job_failed env j msg w1" "jobs_of w1 j = Some r1"
      "mj_iterations r1 = mj_iterations r + 1"
    | (approved) w1 r1 where "w' = job_completed env j w1" "jobs_of w1 j = Some r1"
      "mj_iterations r1 = mj_iterations r + 1" "mj_error r1 = mj_error r" "mj_approved r1 = Some True"
    | (rejected) w1 r1 plan' c i w0 where
      "critic = Some c" "read_decision (goal_output (fst (run_goal (me_goals env) cx i c [] w0))) \<noteq> None"
      "review_rounds env cx j job worker critic tools n (Suc k) plan' w1 = (True, w')"
      "jobs_of w1 j = Some r1" "mj_iterations r1 = mj_iterations r + 1" "mj_error r1 = mj_error r"
      "mj_approved r1 = Some False"
proof -
  define w1 where "w1 = job_status env j ma_executing (job_iteration env j w)"
  define r1 where "r1 = r\<lparr>mj_iterations := mj_iterations r + 1, mj_status := ma_executing\<rparr>"
  have r1: "jobs_of w1 j = Some r1"
    using job_update_row [OF ok job_update_row [OF ok row]]
    by (simp add: w1_def job_ops r1_def)
  obtain e w2 where e: "run_role env cx job worker tools (exec_text job plan) max_goal_iterations w1
      = (e, w2)" by (metis surj_pair)
  have r2: "jobs_of w2 j = Some r1" using role_row [OF keep e] r1 by simp
  note unf = review_rounds.simps(2) [of env cx j job worker critic tools n k plan w, unfolded Let_def,
      folded w1_def, unfolded e]
  show thesis
  proof (cases e)
    case (NoGoal err)
    have "w' = job_failed env j (''create exec goal: '' @ err_text err) w2"
      using run unf NoGoal by simp
    then show thesis by (rule failed [OF _ r2]) (simp add: r1_def)
  next
    case NilAgent
    then show thesis using run unf by simp
  next
    case (RoleRan g)
    define out where "out = goal_output g"
    define w3 where "w3 = job_status env j ma_reviewing (job_exec env j out w2)"
    define r3 where "r3 = r1\<lparr>mj_exec := Some out, mj_status := ma_reviewing\<rparr>"
    have r3: "jobs_of w3 j = Some r3"
      using job_update_row [OF ok job_update_row [OF ok r2]] by (simp add: w3_def job_ops r3_def)
    obtain f w4 where f: "run_role env cx job critic [] (review_text job plan out) 3 w3 = (f, w4)"
      by (metis surj_pair)
    have r4: "jobs_of w4 j = Some r3" using role_row [OF keep f] r3 by simp
    note unf2 = unf [unfolded RoleRan prod.case role_end.case, folded out_def, folded w3_def, unfolded f]
    show thesis
    proof (cases f)
      case (NoGoal err)
      have "w' = job_failed env j (''create review goal: '' @ err_text err) w4"
        using run unf2 NoGoal by simp
      then show thesis by (rule failed [OF _ r4]) (simp add: r1_def r3_def)
    next
      case NilAgent
      then show thesis using run unf2 by simp
    next
      case (RoleRan v)
      obtain ok' review where v: "review_verdict (goal_output v) = (ok', review)" by (metis surj_pair)
      define w5 where "w5 = job_review env j review ok' w4"
      have r5: "jobs_of w5 j = Some (r3\<lparr>mj_review := Some review, mj_approved := Some ok'\<rparr>)"
        using job_update_row [OF ok r4] by (simp add: w5_def job_ops)
      note unf3 = unf2 [unfolded RoleRan prod.case role_end.case v, folded w5_def]
      show thesis
      proof (cases ok')
        case True
        then have "w' = job_completed env j w5" using run unf3 by simp
        then show thesis by (rule approved [OF _ r5]) (simp_all add: r1_def r3_def True)
      next
        case False
        then have "review_rounds env cx j job worker critic tools n (Suc k)
            (with_feedback plan k review) w5 = (True, w')"
          using run unf3 by simp
        moreover obtain c i w0 where c: "critic = Some c" "v = fst (run_goal (me_goals env) cx i c [] w0)"
          using role_ran f RoleRan by blast
        moreover have "read_decision (goal_output v) \<noteq> None"
          using v False by (auto simp: review_verdict_def split: option.splits)
        ultimately show thesis
          by (intro rejected [OF c(1) _ _ r5, of i w0]) (simp_all add: r1_def r3_def False)
      qed
    qed
  qed
qed

lemma review_rounds_settled:
  assumes "no_job_faults env" and "goals_keep_job env j"
    and "jobs_of w j = Some r" and "mj_error r = None"
    and "n > 0 \<or> mj_approved r = Some False"
    and "review_rounds env cx j job worker critic tools n k plan w = (True, w')"
  shows "\<exists>r'. jobs_of w' j = Some r' \<and> job_settled (mj_iterations r + int n) r'"
  using assms(3-)
proof (induction n arbitrary: k plan w r)
  case 0
  then have "w' = job_completed env j w" by simp
  then show ?case
    using job_completed_settled [OF assms(1) 0(1), of "mj_iterations r"] 0 by simp
next
  case (Suc n)
  from assms(1,2) Suc.prems(1,4) show ?case
  proof (cases rule: review_round_cases)
    case (failed msg w1 r1)
    then show ?thesis using job_failed_settled [OF assms(1), of w1 j r1] by simp
  next
    case (approved w1 r1)
    then show ?thesis
      using job_completed_settled [OF assms(1), of w1 j r1] Suc.prems(2) by simp
  next
    case (rejected w1 r1 plan' c i w0)
    then show ?thesis
      using Suc.IH [of w1 r1 "Suc k" plan'] Suc.prems(2) by (simp add: add.assoc)
  qed
qed

lemma new_job_rounds: "mj_max_review (new_job org q) > 0"
  by (simp add: new_job_def)

lemma plan_and_review_settled:
  assumes ok: "no_job_faults env" and keep: "goals_keep_job env j"
    and row: "jobs_of w j = Some job" and new: "mj_error job = None" "mj_iterations job = 0"
      "mj_max_review job > 0"
    and run: "plan_and_review env cx j job planner worker critic w = (True, w')"
  shows "\<exists>r. jobs_of w' j = Some r \<and> job_settled (mj_max_review job) r"
proof -
  define w1 where "w1 = job_status env j ma_planning w"
  define r1 where "r1 = job\<lparr>mj_status := ma_planning\<rparr>"
  have r1: "jobs_of w1 j = Some r1"
    using job_update_row [OF ok row] by (simp add: w1_def job_ops r1_def)
  obtain e w2 where e: "run_role env cx job planner [] (plan_text job) max_goal_iterations w1 = (e, w2)"
    by (metis surj_pair)
  have r2: "jobs_of w2 j = Some r1" using role_row [OF keep e] r1 by simp
  have it: "mj_iterations r1 \<le> mj_max_review job" "mj_error r1 = None" "mj_iterations r1 = 0"
    using new by (simp_all add: r1_def)
  note unf = plan_and_review_def [of env cx j job planner worker critic w, unfolded Let_def,
      folded w1_def, unfolded e]
  show ?thesis
  proof (cases e)
    case (NoGoal err)
    then show ?thesis using run unf job_failed_settled [OF ok r2 it(1)] by auto
  next
    case NilAgent
    then show ?thesis using run unf by simp
  next
    case (RoleRan g)
    show ?thesis
    proof (cases "gr_err g")
      case (Some err)
      then show ?thesis using run unf RoleRan job_failed_settled [OF ok r2 it(1)] by auto
    next
      case None
      define w3 where "w3 = job_plan env j (goal_output g) w2"
      have r3: "jobs_of w3 j = Some (r1\<lparr>mj_plan := Some (goal_output g)\<rparr>)"
        using job_update_row [OF ok r2] by (simp add: w3_def job_ops)
      have "review_rounds env cx j job worker critic (me_tools env (mj_executor job) w)
          (nat (mj_max_review job)) 0 (goal_output g) w3 = (True, w')"
        using run unf RoleRan None by (simp add: w3_def)
      from review_rounds_settled [OF ok keep r3 _ _ this] new it show ?thesis by simp
    qed
  qed
qed

lemma run_collaboration_settled:
  assumes ok: "no_job_faults env" and keep: "goals_keep_job env j"
    and row: "jobs_of w j = Some job" and new: "mj_error job = None" "mj_iterations job = 0"
      "mj_max_review job > 0"
    and run: "run_collaboration env cx j job w = (True, w')"
  shows "\<exists>r. jobs_of w' j = Some r \<and> job_settled (mj_max_review job) r"
proof -
  have failed: "\<exists>r. jobs_of (job_failed env j msg w) j = Some r \<and> job_settled (mj_max_review job) r" for msg
    using job_failed_settled [OF ok row] new by simp
  from run consider
      (load) msg where "w' = job_failed env j msg w"
    | (agents) planner worker critic where
        "plan_and_review env cx j job planner worker critic w = (True, w')"
    by (auto simp: run_collaboration_def split: sum.splits)
  then show ?thesis
  proof cases
    case load
    then show ?thesis using failed by simp
  next
    case agents
    from plan_and_review_settled [OF ok keep row new this] show ?thesis .
  qed
qed

lemma run_job_sync_parts:
  assumes "no_job_faults env" and "run_job_sync env cx org q w = (Some (Inr (j, r)), w')"
  obtains w1 where "create_job env org q w = (Inr (j, new_job org q), w1)"
    and "jobs_of w1 j = Some (new_job org q)"
    and "run_collaboration env cx j (new_job org q) w1 = (True, w')" and "jobs_of w' j = Some r"
proof -
  obtain x w1 where c: "create_job env org q w = (x, w1)" by (metis surj_pair)
  have f: "me_fault env w0 op = None" for w0 op
    using assms(1) unfolding no_job_faults_def by blast
  obtain i where x: "x = Inr (i, new_job org q)" "jobs_of w1 i = Some (new_job org q)"
    using assms(2) c f by (cases x)
      (auto simp: run_job_sync_def create_job_def Let_def put_job_def jobs_of_def split: if_splits)
  obtain b w2 where run: "run_collaboration env cx i (new_job org q) w1 = (b, w2)" by (metis surj_pair)
  have "b" "w2 = w'" "(case get_job env i w' of Inl e \<Rightarrow> Inl e | Inr r \<Rightarrow> Inr (i, r)) = Inr (j, r)"
    using assms(2) c x run by (auto simp: run_job_sync_def split: bool.splits)
  moreover from this have "i = j" "jobs_of w' j = Some r"
    using f by (auto simp: get_job_def split: option.splits)
  ultimately show thesis using that c x run by simp
qed

section \<open>Properties\<close>

text \<open>
  C30: a collaboration that returns has settled its job: it is completed with an approval, or completed
  with the last of its rounds rejected and none left, or failed with an error; and never more rounds
  were run than the job allows.
\<close>

theorem collaboration_settles:
  assumes "no_job_faults env" and "effects_keep_job env j"
    and "run_job_sync env cx org q w = (Some (Inr (j, r)), w')"
  shows "job_settled (if mq_max_review q \<le> 0 then 2 else mq_max_review q) r"
proof -
  obtain w1 where "jobs_of w1 j = Some (new_job org q)"
    and "run_collaboration env cx j (new_job org q) w1 = (True, w')" and r: "jobs_of w' j = Some r"
    by (rule run_job_sync_parts [OF assms(1,3)])
  from run_collaboration_settled [OF assms(1) effects_keep_job [OF assms(2)] this(1) _ _ new_job_rounds this(2)] r
  show ?thesis by (simp add: new_job_def)
qed

text \<open>A reviewer whose answers hold no decision that can be read.\<close>

definition never_decides :: "'v multi_env \<Rightarrow> agent \<Rightarrow> bool" where
  "never_decides env critic \<longleftrightarrow>
     (\<forall>cx i w. read_decision (goal_output (fst (run_goal (me_goals env) cx i critic [] w))) = None)"

text \<open>
  a review that cannot be read counts as an approval: with such a reviewer a collaboration that
  does not fail is completed as approved after its first round, whatever the executor did, even when
  the runs of executor and reviewer ended in errors.
\<close>

lemma unreadable_review_approves:
  assumes "no_job_faults env" and "effects_keep_job env j"
    and critic: "\<forall>w. me_agent env (mq_reviewer q) w = Inr (Some critic)" and "never_decides env critic"
    and "run_job_sync env cx org q w = (Some (Inr (j, r)), w')"
  shows "mj_status r = ma_failed \<or> mj_status r = ma_completed \<and> mj_approved r = Some True \<and> mj_iterations r = 1"
proof -
  note ok = assms(1) and keep = effects_keep_job [OF assms(2)]
  let ?job = "new_job org q"
  obtain w1 where row: "jobs_of w1 j = Some ?job"
    and run: "run_collaboration env cx j ?job w1 = (True, w')" and r: "jobs_of w' j = Some r"
    by (rule run_job_sync_parts [OF assms(1,5)])
  have fails: "mj_status r = ma_failed" if "w' = job_failed env j msg v" "jobs_of v j = Some s" for msg v s
    using that job_update_row [OF ok that(2)] r by (auto simp: job_failed_def)
  have rounds: ?thesis
    if "review_rounds env cx j ?job worker (Some critic) tools (Suc n) k plan v = (True, w')"
      "jobs_of v j = Some s" "mj_iterations s = 0" for worker tools n k plan v s
    using ok keep that(2,1)
  proof (cases rule: review_round_cases)
    case (failed msg w2 r2)
    then show ?thesis using fails by blast
  next
    case (approved w2 r2)
    then show ?thesis
      using job_update_row [OF ok approved(2)] that(3) r by (auto simp: job_completed_def)
  next
    case (rejected w2 r2 plan' c i w0)
    then have "c = critic" by simp
    moreover have "read_decision (goal_output (fst (run_goal (me_goals env) cx i critic [] w0))) = None"
      using assms(4) unfolding never_decides_def by (elim allE)
    ultimately show ?thesis using rejected(2) by simp
  qed
  obtain n where n: "nat (mj_max_review ?job) = Suc n"
    using new_job_rounds [of org q] by (cases "nat (mj_max_review ?job)") auto
  have planned: ?thesis if "plan_and_review env cx j ?job planner worker (Some critic) w1 = (True, w')"
    for planner worker
  proof -
    define w2 where "w2 = job_status env j ma_planning w1"
    have r2: "jobs_of w2 j = Some (?job\<lparr>mj_status := ma_planning\<rparr>)"
      using job_update_row [OF ok row] by (simp add: w2_def job_ops)
    obtain e w3 where e: "run_role env cx ?job planner [] (plan_text ?job) max_goal_iterations w2 = (e, w3)"
      by (metis surj_pair)
    have r3: "jobs_of w3 j = Some (?job\<lparr>mj_status := ma_planning\<rparr>)" using role_row [OF keep e] r2 by simp
    note unf = plan_and_review_def [of env cx j ?job planner worker "Some critic" w1, unfolded Let_def,
        folded w2_def, unfolded e n]
    have r4: "jobs_of (job_plan env j t w3) j
        = Some (?job\<lparr>mj_status := ma_planning, mj_plan := Some t\<rparr>)" for t
      using job_update_row [OF ok r3] by (simp add: job_ops)
    show ?thesis
      using that [unfolded unf] fails [OF _ r3] rounds [OF _ r4]
      by (auto simp: new_job_def split: role_end.splits option.splits)
  qed
  have "me_agent env (mj_reviewer ?job) w1 = Inr (Some critic)"
    using critic [rule_format, of w1] by (simp add: new_job_def)
  with run fails [OF _ row] planned show ?thesis
    by (auto simp: run_collaboration_def split: sum.splits)
qed

definition refusal :: string where "refusal = ''Rejected: step two is wrong.''"

definition naysayer :: "'w client" where
  "naysayer =
     \<lparr>cl_provider_name = ''ollama'', cl_supports_tools = Some False,
      cl_generate = (\<lambda>cx rq w. (Inr \<lparr>rs_content = refusal, rs_finish_reason = ''stop'', rs_model = [],
        rs_input_tokens = 3, rs_output_tokens = 4, rs_tool_calls = [], rs_provider_model = [],
        rs_request_id = [], rs_usage = \<lparr>us_input = None, us_output = None, us_total = None,
           us_reasoning = None\<rparr>\<rparr>, w))\<rparr>"

definition nay_router :: "'w router" where
  "nay_router = \<lparr>rt_clients = [(''ollama'', naysayer)], rt_default = ''ollama'',
     rt_ollama_fallback = False, rt_ollama_model = [], rt_ctx_err = (\<lambda>w. None)\<rparr>"

definition nay_goals :: "'w goal_env" where
  "nay_goals =
     \<lparr>ge_base = new_executor nay_router [] (\<lambda>w. 5), ge_router = nay_router, ge_selector = None,
      ge_search = (\<lambda>a t n w. (Inr [], w)), ge_append = (\<lambda>a b c d w. w),
      ge_fault = (\<lambda>w op. None), ge_ctx_err = (\<lambda>w. None), ge_fresh = (\<lambda>w. 6)\<rparr>"

definition nay_env :: "unit multi_env" where
  "nay_env =
     \<lparr>me_goals = nay_goals, me_agent = (\<lambda>i w. Inr (Some goal_agent)), me_tools = (\<lambda>i w. []),
      me_fault = (\<lambda>w op. None), me_fresh = (\<lambda>w. 9)\<rparr>"

definition nay_request :: multi_request where
  "nay_request = \<lparr>mq_prompt = ''tidy'', mq_planner = 3, mq_executor = 3, mq_reviewer = 3, mq_max_review = 2\<rparr>"

definition nay_world :: "unit job_world" where
  "nay_world = (Map.empty, (Map.empty, ()))"

lemma nay_effects: "goal_effects_keep nay_goals P"
proof -
  have "agent_world (ge_base nay_goals) a (\<lambda>n w. P (snd w)) (\<lambda>rq. True)" for a
    by unfold_locales
       (auto simp: nay_goals_def new_executor_def nay_router_def naysayer_def split: if_splits)
  then show ?thesis
    by (simp add: goal_effects_keep_def nay_goals_def new_executor_def)
qed

lemma nay_resolve:
  "resolve_model nay_router None goal_agent sg
     = Inr \<lparr>mc_client = naysayer, mc_provider = ''ollama'', mc_model = [], mc_reason = []\<rparr>"
  by (simp add: resolve_model_def goal_agent_def or_empty_def is_auto_def for_with_fallback_def
      router_for_def nay_router_def Let_def naysayer_def)

lemma nay_ask:
  "\<exists>resp. ask_once nay_goals cx goal_agent kind prompt mx temp what w = (Inr resp, w)
     \<and> rs_content resp = refusal"
  unfolding ask_once_def nay_goals_def goal_env.simps nay_resolve by (simp add: naysayer_def)

lemma nay_run_goal:
  assumes "fst w i = Some g"
  shows "\<exists>r w'. run_goal nay_goals cx i goal_agent [] w = (r, w') \<and> gr_err r = None
    \<and> goal_output r = refusal \<and> snd w' = snd w"
proof -
  obtain r w' where run: "run_goal nay_goals cx i goal_agent [] w = (r, w')" by (metis surj_pair)
  have snd: "snd w' = snd w"
    using run_goal_keeps [OF nay_effects, of "\<lambda>s. s = snd w" w cx i goal_agent "[]"] run by simp
  have plan: "\<exists>p. generate_plan nay_goals cx' goal_agent t ms v = (Inr p, v)" for cx' t ms v
    using nay_ask [of cx' kind_plan "build_planning_prompt (ag_name goal_agent) (ag_role goal_agent) t ms"
        2048 "3 / 10" "''autonomous: plan generation: ''" v]
    by (auto simp: generate_plan_def)
  have refl: "generate_reflection nay_goals cx' goal_agent t obs v = (Inr refusal, v)" for cx' t obs v
  proof -
    have "trim_space refusal = refusal" by code_simp
    then show ?thesis
      using nay_ask [of cx' kind_reflect "build_reflection_prompt (ag_name goal_agent) t obs"
        1024 "4 / 10" "''autonomous: reflection generation: ''" v]
      by (auto simp: generate_reflection_def)
  qed
  have act: "\<exists>y v'. act_steps nay_goals cx' i t goal_agent [] k steps pl obs v = (Inr y, v')"
    for cx' t k steps pl obs v
  proof (induction steps arbitrary: k pl obs v)
    case (Cons step steps)
    have "ge_ctx_err nay_goals v = None" by (simp add: nay_goals_def)
    then obtain r v4 where "act_steps nay_goals cx' i t goal_agent [] k (step # steps) pl obs v
        = act_steps nay_goals cx' i t goal_agent [] (Suc k) steps
            (pl[k := (pl ! k)\<lparr>ps_completed := True, ps_output := cut_text (observation_of r) 2000\<rparr>])
            (obs @ [observation_of r]) v4"
      by (rule act_steps_Cons)
    then show ?case using Cons.IH by metis
  qed simp
  have "gr_err r = None \<and> gr_reflection r = refusal"
  proof -
    define cx2 where "cx2 = cx\<lparr>cx_trace_org := Some (ag_org goal_agent)\<rparr>"
    define v where "v = update_status nay_goals i gs_planning w"
    obtain p where "generate_plan nay_goals cx2 goal_agent (gl_text g) [] v = (Inr p, v)"
      using plan by blast
    moreover have "ge_fault nay_goals w op = None" "ge_search nay_goals a t n v = (Inr [], v)" for op a t n
      by (simp_all add: nay_goals_def)
    ultimately have p: "run_goal nay_goals cx i goal_agent [] w
        = act_goal nay_goals cx2 i (gl_text g) goal_agent [] p v"
      unfolding run_goal_def Let_def cx2_def [symmetric] v_def [symmetric] assms option.case
      by simp
    obtain pl obs v' where a: "act_steps nay_goals cx2 i (gl_text g) goal_agent [] 0 p p []
        (goal_started nay_goals i (update_plan nay_goals i p v)) = (Inr (pl, obs), v')"
      using act by (metis surj_pair)
    have "(r, w') = reflect_goal nay_goals cx2 i (gl_text g) goal_agent pl obs v'"
      using run unfolding p act_goal_def Let_def a by simp
    then show ?thesis
      unfolding reflect_goal_def Let_def refl prod.case sum.case by simp
  qed
  moreover have "refusal \<noteq> []" by (simp add: refusal_def)
  ultimately show ?thesis using run snd by (auto simp: goal_output_def)
qed

lemma nay_never_decides: "never_decides nay_env goal_agent"
proof -
  have t: "read_decision refusal = None" "read_decision [] = None" by code_simp+
  have "read_decision (goal_output (fst (run_goal nay_goals cx i goal_agent [] w))) = None" for cx i w
  proof (cases "fst w i")
    case None
    then have "fst (run_goal nay_goals cx i goal_agent [] w)
        = failed_goal [] [] (ErrWrap ''autonomous: load goal: ''
             (ErrText ''goal_repo: get_by_id: no rows in result set''))"
      by (simp add: run_goal_def nay_goals_def Let_def)
    then show ?thesis using t(2) by (simp add: goal_output_def failed_goal_def)
  next
    case (Some g)
    then show ?thesis using nay_run_goal [OF Some, of cx] t(1) by auto
  qed
  then show ?thesis unfolding never_decides_def nay_env_def multi_env.simps by blast
qed

lemma nay_role:
  "\<exists>r w'. run_role nay_env cx job (Some goal_agent) [] t n w = (RoleRan r, w')
     \<and> gr_err r = None \<and> goal_output r = refusal \<and> snd w' = snd w"
proof -
  define w1 where "w1 = ((fst w)(me_fresh nay_env w \<mapsto> new_goal (ag_id goal_agent) (mj_org job) t None n), snd w)"
  have "fst w1 (me_fresh nay_env w) = Some (new_goal (ag_id goal_agent) (mj_org job) t None n)"
    by (simp add: w1_def)
  from nay_run_goal [OF this, of cx] obtain r w' where
    g: "run_goal nay_goals cx (me_fresh nay_env w) goal_agent [] w1 = (r, w')"
    and r: "gr_err r = None" "goal_output r = refusal" "snd w' = snd w1" by blast
  have "ge_fault (me_goals nay_env) w op = None" "me_goals nay_env = nay_goals" for op
    by (simp_all add: nay_env_def nay_goals_def)
  then have "run_role nay_env cx job (Some goal_agent) [] t n w = (RoleRan r, w')"
    unfolding run_role_def option.case Let_def w1_def [symmetric] by (simp add: g)
  then show ?thesis using r by (simp add: w1_def)
qed

lemma nay_keep: "effects_keep_job nay_env j"
  by (simp add: effects_keep_job_def nay_env_def nay_effects)

lemma nay_run_job:
  "\<exists>r w'. run_job_sync nay_env empty_ctx 1 nay_request nay_world = (Some (Inr (9, r)), w')
     \<and> mj_status r = ma_completed"
proof -
  let ?job = "new_job 1 nay_request"
  have me: "me_agent nay_env i w = Inr (Some goal_agent)" "me_tools nay_env i w = []"
    "me_fault nay_env w op = None" "me_fresh nay_env w = 9" for i w op
    by (simp_all add: nay_env_def)
  have c: "create_job nay_env 1 nay_request nay_world = (Inr (9, ?job), put_job 9 ?job nay_world)"
    by (simp add: create_job_def own_agent_def me goal_agent_def Let_def)
  define w0 where "w0 = put_job 9 ?job nay_world"
  have ok: "no_job_faults nay_env" by (simp add: no_job_faults_def me)
  define w1 where "w1 = job_status nay_env 9 ma_planning w0"
  obtain r w2 where p: "run_role nay_env empty_ctx ?job (Some goal_agent) [] (plan_text ?job)
      max_goal_iterations w1 = (RoleRan r, w2)" "gr_err r = None" "goal_output r = refusal"
    using nay_role by blast
  define w3 where "w3 = job_plan nay_env 9 refusal w2"
  define w4 where "w4 = job_status nay_env 9 ma_executing (job_iteration nay_env 9 w3)"
  obtain x w5 where x: "run_role nay_env empty_ctx ?job (Some goal_agent) [] (exec_text ?job refusal)
      max_goal_iterations w4 = (RoleRan x, w5)" "goal_output x = refusal"
    using nay_role by blast
  define w6 where "w6 = job_status nay_env 9 ma_reviewing (job_exec nay_env 9 refusal w5)"
  obtain y w7 where y: "run_role nay_env empty_ctx ?job (Some goal_agent) [] (review_text ?job refusal refusal)
      3 w6 = (RoleRan y, w7)" "goal_output y = refusal"
    using nay_role by blast
  have v: "review_verdict refusal = (True, refusal)" by code_simp
  have n: "nat (mj_max_review ?job) = Suc 1" by (simp add: new_job_def nay_request_def)
  have run: "run_collaboration nay_env empty_ctx 9 ?job w0
      = (True, job_completed nay_env 9 (job_review nay_env 9 refusal True w7))"
    unfolding run_collaboration_def plan_and_review_def Let_def me sum.case w1_def [symmetric] p
      prod.case role_end.case option.case w3_def [symmetric] n review_rounds.simps
      w4_def [symmetric] x w6_def [symmetric] y v
    by simp
  have keep: "effects_keep_job nay_env 9"
    by (rule nay_keep)
  have "jobs_of w0 9 = Some ?job" by (simp add: w0_def put_job_def jobs_of_def)
  from run_collaboration_settled [OF ok effects_keep_job [OF keep] this _ _ new_job_rounds run]
  obtain r where j: "jobs_of (job_completed nay_env 9 (job_review nay_env 9 refusal True w7)) 9 = Some r"
    by (auto simp: new_job_def)
  moreover from this have "mj_status r = ma_completed"
    by (auto simp: job_completed_def job_update_def me put_job_def jobs_of_def split: option.splits)
  moreover from this have "run_job_sync nay_env empty_ctx 1 nay_request nay_world
      = (Some (Inr (9, r)), job_completed nay_env 9 (job_review nay_env 9 refusal True w7))"
    unfolding run_job_sync_def c prod.case sum.case w0_def [symmetric] run bool.case
    by (simp add: get_job_def me j)
  ultimately show ?thesis by blast
qed

theorem collaboration_settles_witness:
  "\<exists>r. fst (run_job_sync nay_env empty_ctx 1 nay_request nay_world) = Some (Inr (9, r))
     \<and> job_settled 2 r \<and> mj_status r = ma_completed"
proof -
  have "no_job_faults nay_env" by (simp add: no_job_faults_def nay_env_def)
  moreover have "effects_keep_job nay_env 9"
    by (rule nay_keep)
  moreover obtain r w' where "run_job_sync nay_env empty_ctx 1 nay_request nay_world = (Some (Inr (9, r)), w')"
    and "mj_status r = ma_completed"
    using nay_run_job by blast
  ultimately show ?thesis
    using collaboration_settles [of nay_env 9 empty_ctx 1 nay_request nay_world r w']
    by (simp add: nay_request_def)
qed

end
