(* ===== verification/Scheduler.thy ===== *)
theory Scheduler
  imports SchedStore BlogRequest MultiAgent JsonText
begin

text \<open>
  The cron dispatcher (\<open>scheduler/runner.go\<close>): every replica of the server lists the tasks that are
  due, claims each with a compare-and-set of its due time, dispatches what it has won, and then
  records the run and moves the task on. The services a task is dispatched to are functions on the
  world, of which the scheduler's tables are the first component; the cron parser is a parameter
  that turns an expression into its next activation after a given time.
\<close>

type_synonym 'w sched_world = "sched_db \<times> 'w"

record email_brief =
  eb_brief :: string
  eb_audience :: string
  eb_goal :: string
  eb_cta_label :: string
  eb_cta_url :: string
  eb_products :: string
  eb_tone :: string
  eb_destination :: string
  eb_publish :: string
  eb_model :: string

record email_start =
  es_org :: uuid
  es_user :: uuid
  es_agent :: uuid
  es_brief :: email_brief

record scan_request =
  cq_board :: string
  cq_slug :: string
  cq_company :: string
  cq_query :: string

record apply_request =
  ca_limit :: int
  ca_concurrency :: int
  ca_min_score :: rat

record 'w career =
  cr_scan :: "uuid \<Rightarrow> uuid \<Rightarrow> scan_request \<Rightarrow> 'w \<Rightarrow> go_err option \<times> 'w"
  cr_apply :: "uuid \<Rightarrow> uuid \<Rightarrow> apply_request \<Rightarrow> 'w \<Rightarrow> go_err option \<times> 'w"

text \<open>
  A service that is not wired is \<^const>\<open>None\<close>. The multi-agent service answers with the job it ran,
  or panics (\<^const>\<open>None\<close>).
\<close>

record 'w sched_env =
  se_now :: "'w sched_world \<Rightarrow> int"
  se_cron :: "string \<Rightarrow> go_err + (int \<Rightarrow> int)"
  se_fault :: "'w sched_world \<Rightarrow> string \<Rightarrow> go_err option"
  se_fresh :: "'w sched_world \<Rightarrow> uuid"
  se_uuid_text :: "uuid \<Rightarrow> string"
  se_parse_uuid :: "string \<Rightarrow> uuid option"
  se_blog :: "(uuid \<Rightarrow> uuid option \<Rightarrow> blog_req \<Rightarrow> 'w sched_world \<Rightarrow> (go_err + uuid) \<times> 'w sched_world) option"
  se_email :: "(email_start \<Rightarrow> 'w sched_world \<Rightarrow> (go_err + uuid) \<times> 'w sched_world) option"
  se_career :: "'w sched_world career option"
  se_workflow :: "uuid \<Rightarrow> uuid \<Rightarrow> uuid \<Rightarrow> obj \<Rightarrow> 'w sched_world \<Rightarrow> (go_err + uuid) \<times> 'w sched_world"
  se_agent :: "uuid \<Rightarrow> uuid \<Rightarrow> string \<Rightarrow> 'w sched_world \<Rightarrow> (go_err + uuid) \<times> 'w sched_world"
  se_multi :: "(uuid \<Rightarrow> multi_request \<Rightarrow> 'w sched_world
    \<Rightarrow> (go_err + uuid \<times> multi_job) option \<times> 'w sched_world) option"

definition tick_interval :: int where "tick_interval = 30 * 1000000"

definition task_misconfigured :: string where
  "task_misconfigured = ''schedule is not configured''"

section \<open>When a task runs next\<close>

definition compute_next :: "'w sched_env \<Rightarrow> sched_task \<Rightarrow> int \<Rightarrow> go_err + int option" where
  "compute_next env t now =
     (if sk_schedule t = ''cron'' then
        (case sk_cron t of
           None \<Rightarrow> Inl (ErrText ''cron schedule with empty expression'')
         | Some expr \<Rightarrow>
             if expr = [] then Inl (ErrText ''cron schedule with empty expression'')
             else (case se_cron env expr of
                     Inl e \<Rightarrow> Inl (ErrWrap (''parse cron '' @ quote expr @ '': '') e)
                   | Inr nxt \<Rightarrow> Inr (Some (nxt now))))
      else if sk_schedule t = ''interval'' then
        (case sk_interval t of
           None \<Rightarrow> Inl (ErrText ''interval schedule with non-positive interval'')
         | Some n \<Rightarrow>
             if n \<le> 0 then Inl (ErrText ''interval schedule with non-positive interval'')
             else Inr (Some (now + n * 1000000)))
      else if sk_schedule t = ''once'' then Inr None
      else Inl (ErrText (''unknown schedule_type '' @ quote (sk_schedule t))))"

text \<open>\<open>claim\<close>: a task without a next run is held off for one tick; a database error dispatches.\<close>

definition claim_next :: "'w sched_env \<Rightarrow> sched_task \<Rightarrow> int \<Rightarrow> int" where
  "claim_next env t now =
     (case compute_next env t now of Inr (Some n) \<Rightarrow> n | _ \<Rightarrow> now + tick_interval)"

definition claim :: "'w sched_env \<Rightarrow> uuid \<Rightarrow> sched_task \<Rightarrow> 'w sched_world \<Rightarrow> bool \<times> 'w sched_world" where
  "claim env i t w =
     (case se_fault env w ''ClaimTask'' of
        Some e \<Rightarrow> (True, w)
      | None \<Rightarrow>
          (let (won, db) = claim_task i (sk_next_run t) (claim_next env t (se_now env w)) (fst w)
           in (won, (db, snd w))))"

section \<open>What a task asks for\<close>

definition is_blog_task :: "sched_task \<Rightarrow> bool" where
  "is_blog_task t \<longleftrightarrow>
     sk_type t = ''blog'' \<or> ''blog'' \<in> set (sk_tags t)
     \<or> map_of (sk_input t) ''kind'' = Some (JStr ''blog'')"

definition is_email_task :: "sched_task \<Rightarrow> bool" where
  "is_email_task t \<longleftrightarrow>
     sk_type t = ''marketing_email'' \<or> ''marketing_email'' \<in> set (sk_tags t)
     \<or> map_of (sk_input t) ''kind'' = Some (JStr ''marketing_email'')"

definition bool_field :: "string \<Rightarrow> obj \<Rightarrow> bool option" where
  "bool_field k ms = jfield id dec_bool False k ms"

definition uuid_field :: "(string \<Rightarrow> uuid option) \<Rightarrow> string \<Rightarrow> obj \<Rightarrow> uuid option option" where
  "uuid_field parse k ms =
     jfield (\<lambda>_. None) (\<lambda>v. case v of JStr s \<Rightarrow> map_option Some (parse s) | _ \<Rightarrow> None) None k ms"

definition zero_brief :: blog_brief where
  "zero_brief =
     \<lparr>bb_topic = [], bb_seeds = [], bb_focus = [], bb_context = [], bb_audience = [],
      bb_industry = [], bb_style = []\<rparr>"

definition dec_brief :: "json \<Rightarrow> blog_brief option" where
  "dec_brief v =
     (case v of
        JObj ms \<Rightarrow>
          (case (str_field ''topic'' ms, list_field json_string [] ''seeds'' ms,
                 list_field json_string [] ''focus'' ms, str_field ''context'' ms,
                 str_field ''audience'' ms, str_field ''industry'' ms, str_field ''style'' ms) of
             (Some t, Some s, Some f, Some c, Some a, Some d, Some y) \<Rightarrow>
               Some \<lparr>bb_topic = t, bb_seeds = s, bb_focus = f, bb_context = c, bb_audience = a,
                     bb_industry = d, bb_style = y\<rparr>
           | _ \<Rightarrow> None)
      | _ \<Rightarrow> None)"

text \<open>The fields of the request, a group at a time.\<close>

definition dec_request :: "(string \<Rightarrow> uuid option) \<Rightarrow> obj \<Rightarrow> blog_req option" where
  "dec_request parse ms =
     (case (list_field dec_brief zero_brief ''briefs'' ms, list_field json_string [] ''topics'' ms,
            str_field ''model'' ms, bool_field ''trending'' ms, int_field ''trending_count'' ms) of
        (Some bs, Some ts, Some m, Some tr, Some tc) \<Rightarrow>
          (case (list_field json_string [] ''focus'' ms, int_field ''max_articles'' ms,
                 uuid_field parse ''task_id'' ms, bool_field ''auto_publish'' ms,
                 str_field ''audience'' ms) of
             (Some f, Some mx, Some task, Some ap, Some a) \<Rightarrow>
               (case (str_field ''industry'' ms, str_field ''writer'' ms,
                      uuid_field parse ''agent_id'' ms, str_field ''style'' ms,
                      str_field ''destination'' ms) of
                  (Some d, Some wr, Some ag, Some y, Some dest) \<Rightarrow>
                    Some \<lparr>bq_briefs = bs, bq_topics = ts, bq_model = m, bq_trending = tr,
                      bq_trending_count = tc, bq_focus = f, bq_max_articles = mx, bq_task = task,
                      bq_auto_publish = ap, bq_audience = a, bq_industry = d, bq_writer = wr,
                      bq_agent = ag, bq_style = y, bq_destination = dest\<rparr>
                | _ \<Rightarrow> None)
           | _ \<Rightarrow> None)
      | _ \<Rightarrow> None)"

text \<open>
  The input is marshalled, which sorts its keys, and read into the request. The text of a decoding
  error is not modelled.
\<close>

definition blog_request_from_input :: "(string \<Rightarrow> uuid option) \<Rightarrow> obj \<Rightarrow> go_err + blog_req" where
  "blog_request_from_input parse inp =
     (case (case sort_keys (JObj inp) of JObj ms \<Rightarrow> dec_request parse ms | _ \<Rightarrow> None) of
        None \<Rightarrow> Inl (ErrAround [] (ErrSentinel task_misconfigured) '': decode blog input'')
      | Some r0 \<Rightarrow>
          (let r = normalize_request r0 in
           case validate_request r of
             Some e \<Rightarrow>
               Inl (ErrAround [] (ErrSentinel task_misconfigured)
                 ('': this article schedule cannot run: '' @ err_text e
                  @ ''. Edit it and resume it '' @ utf8 8212 @ '' it has been paused. An article ''
                  @ ''schedule needs \"Anything trending\", focus areas or a fixed topic, and a valid ''
                  @ ''audience''))
           | None \<Rightarrow> Inr r))"

definition string_value :: "string \<times> json \<Rightarrow> (string \<times> string) option" where
  "string_value kv =
     (if fst kv = ''kind'' then None
      else (case snd kv of
              JStr s \<Rightarrow> Some (fst kv, s)
            | JNum r \<Rightarrow> Some (fst kv, print_num r)
            | JBool b \<Rightarrow> Some (fst kv, if b then ''true'' else ''false'')
            | JNull \<Rightarrow> None
            | v \<Rightarrow> Some (fst kv, marshal_any v)))"

definition string_map_from_input :: "obj \<Rightarrow> (string \<times> string) list" where
  "string_map_from_input inp = List.map_filter string_value inp"

definition brief_from_values :: "(string \<times> string) list \<Rightarrow> email_brief" where
  "brief_from_values vs =
     (let v = (\<lambda>k. case map_of vs k of Some s \<Rightarrow> s | None \<Rightarrow> []) in
      \<lparr>eb_brief = v ''brief'', eb_audience = v ''audience'', eb_goal = v ''goal'',
       eb_cta_label = v ''primary_cta_label'', eb_cta_url = v ''primary_cta_url'',
       eb_products = v ''products'', eb_tone = v ''tone'', eb_destination = v ''destination'',
       eb_publish = v ''publish'', eb_model = v ''model''\<rparr>)"

section \<open>Dispatch\<close>

text \<open>A dispatch ends with the run's record filled in, an error, or a panic.\<close>

datatype dispatch_end = Dispatched "go_err option" sched_run | Panicked

definition or_nil :: "uuid option \<Rightarrow> uuid" where
  "or_nil i = (case i of None \<Rightarrow> uuid_nil | Some u \<Rightarrow> u)"

definition run_output :: "'w sched_env \<Rightarrow> string \<Rightarrow> uuid \<Rightarrow> string" where
  "run_output env k i = ''{\"'' @ k @ ''\":'' @ quote (se_uuid_text env i) @ ''}''"

definition dispatch_blog ::
  "'w sched_env \<Rightarrow> sched_task \<Rightarrow> sched_run \<Rightarrow> 'w sched_world \<Rightarrow> dispatch_end \<times> 'w sched_world" where
  "dispatch_blog env t r w =
     (case blog_request_from_input (se_parse_uuid env) (sk_input t) of
        Inl e \<Rightarrow> (Dispatched (Some e) r, w)
      | Inr req0 \<Rightarrow>
          (let req = (if sk_agent t \<noteq> None \<and> bq_agent req0 = None then req0\<lparr>bq_agent := sk_agent t\<rparr>
                      else req0)
           in case se_blog env of
                None \<Rightarrow> (Panicked, w)
              | Some generate \<Rightarrow>
                  (case generate (sk_org t) (sk_created_by t) req w of
                     (Inl e, w') \<Rightarrow> (Dispatched (Some e) r, w')
                   | (Inr run, w') \<Rightarrow>
                       (Dispatched None
                          (r\<lparr>sn_workflow_run := None,
                             sn_output := Some (run_output env ''blog_run_id'' run)\<rparr>), w'))))"

definition dispatch_email ::
  "'w sched_env \<Rightarrow> sched_task \<Rightarrow> sched_run \<Rightarrow> 'w sched_world \<Rightarrow> dispatch_end \<times> 'w sched_world" where
  "dispatch_email env t r w =
     (case se_email env of
        None \<Rightarrow> (Dispatched (Some (ErrText ''scheduler: marketing email writer is not configured'')) r, w)
      | Some start \<Rightarrow>
          (let brief = brief_from_values (string_map_from_input (sk_input t)) in
           if trim_space (eb_brief brief) = [] then
             (Dispatched (Some (ErrAround [] (ErrSentinel task_misconfigured)
                ('': this email schedule has no brief '' @ utf8 8212 @ '' edit it and resume''))) r, w)
           else
             (case start \<lparr>es_org = sk_org t, es_user = or_nil (sk_created_by t),
                         es_agent = or_nil (sk_agent t), es_brief = brief\<rparr> w of
                (Inl e, w') \<Rightarrow> (Dispatched (Some e) r, w')
              | (Inr run, w') \<Rightarrow>
                  (Dispatched None
                     (r\<lparr>sn_output := Some (run_output env ''marketing_email_run_id'' run)\<rparr>), w'))))"

definition dispatch_workflow ::
  "'w sched_env \<Rightarrow> uuid \<Rightarrow> sched_task \<Rightarrow> sched_run \<Rightarrow> 'w sched_world \<Rightarrow> dispatch_end \<times> 'w sched_world" where
  "dispatch_workflow env wid t r w =
     (case se_workflow env wid (sk_org t) (or_nil (sk_created_by t)) (sk_input t) w of
        (Inl e, w') \<Rightarrow> (Dispatched (Some e) r, w')
      | (Inr run, w') \<Rightarrow> (Dispatched None (r\<lparr>sn_workflow_run := Some run\<rparr>), w'))"

definition dispatch_agent ::
  "'w sched_env \<Rightarrow> uuid \<Rightarrow> sched_task \<Rightarrow> sched_run \<Rightarrow> 'w sched_world \<Rightarrow> dispatch_end \<times> 'w sched_world" where
  "dispatch_agent env a t r w =
     (case se_agent env (sk_org t) a (sk_prompt t) w of
        (Inl e, w') \<Rightarrow> (Dispatched (Some e) r, w')
      | (Inr run, w') \<Rightarrow> (Dispatched None (r\<lparr>sn_exec := Some run\<rparr>), w'))"

definition multi_request_of :: "sched_task \<Rightarrow> multi_request option" where
  "multi_request_of t =
     (case (sk_planner t, sk_executor t, sk_reviewer t) of
        (Some p, Some e, Some v) \<Rightarrow>
          Some \<lparr>mq_prompt = sk_prompt t, mq_planner = p, mq_executor = e, mq_reviewer = v,
                mq_max_review = sk_max_review t\<rparr>
      | _ \<Rightarrow> None)"

definition dispatch_multi ::
  "'w sched_env \<Rightarrow> sched_task \<Rightarrow> sched_run \<Rightarrow> 'w sched_world \<Rightarrow> dispatch_end \<times> 'w sched_world" where
  "dispatch_multi env t r w =
     (case se_multi env of
        None \<Rightarrow> (Dispatched (Some (ErrText ''scheduler: multi-agent service not configured'')) r, w)
      | Some run_job \<Rightarrow>
     (case multi_request_of t of
        None \<Rightarrow>
          (Dispatched (Some (ErrText ''scheduler: multi-agent task missing planner/executor/reviewer'')) r, w)
      | Some req \<Rightarrow>
     (case run_job (sk_org t) req w of
        (None, w') \<Rightarrow> (Panicked, w')
      | (Some (Inl e), w') \<Rightarrow> (Dispatched (Some e) r, w')
      | (Some (Inr (j, job)), w') \<Rightarrow>
          (Dispatched
             (case mj_error job of
                Some m \<Rightarrow> if mj_status job = ma_failed
                          then Some (ErrText (''multi-agent job failed: '' @ m)) else None
              | None \<Rightarrow> None)
             (r\<lparr>sn_job := Some j\<rparr>), w'))))"

definition input_string :: "obj \<Rightarrow> string \<Rightarrow> string" where
  "input_string inp k = (case map_of inp k of Some (JStr s) \<Rightarrow> s | _ \<Rightarrow> [])"

definition input_number :: "obj \<Rightarrow> string \<Rightarrow> rat" where
  "input_number inp k = (case map_of inp k of Some (JNum n) \<Rightarrow> n | _ \<Rightarrow> 0)"

definition truncate :: "rat \<Rightarrow> int" where
  "truncate r = (if r < 0 then - \<lfloor>- r\<rfloor> else \<lfloor>r\<rfloor>)"

definition owner_of :: "sched_task \<Rightarrow> uuid option" where
  "owner_of t = (case sk_created_by t of Some u \<Rightarrow> if u = uuid_nil then None else Some u | None \<Rightarrow> None)"

definition dispatch_scan ::
  "'w sched_env \<Rightarrow> sched_task \<Rightarrow> sched_run \<Rightarrow> 'w sched_world \<Rightarrow> dispatch_end \<times> 'w sched_world" where
  "dispatch_scan env t r w =
     (case se_career env of
        None \<Rightarrow> (Dispatched (Some (ErrText ''scheduler: career scan is not configured'')) r, w)
      | Some c \<Rightarrow>
     (case owner_of t of
        None \<Rightarrow>
          (Dispatched (Some (ErrText ''scheduler: career scan needs the user who created the schedule'')) r, w)
      | Some u \<Rightarrow>
          (let (e, w') = cr_scan c (sk_org t) u
                 \<lparr>cq_board = input_string (sk_input t) ''board'', cq_slug = input_string (sk_input t) ''slug'',
                  cq_company = input_string (sk_input t) ''company'',
                  cq_query = input_string (sk_input t) ''query''\<rparr> w
           in (Dispatched e r, w'))))"

definition dispatch_apply ::
  "'w sched_env \<Rightarrow> sched_task \<Rightarrow> sched_run \<Rightarrow> 'w sched_world \<Rightarrow> dispatch_end \<times> 'w sched_world" where
  "dispatch_apply env t r w =
     (case se_career env of
        None \<Rightarrow> (Dispatched (Some (ErrText ''scheduler: career apply is not configured'')) r, w)
      | Some c \<Rightarrow>
     (case owner_of t of
        None \<Rightarrow>
          (Dispatched (Some (ErrText ''scheduler: career apply needs the user who created the schedule'')) r, w)
      | Some u \<Rightarrow>
          (let (e, w') = cr_apply c (sk_org t) u
                 \<lparr>ca_limit = truncate (input_number (sk_input t) ''limit''),
                  ca_concurrency = truncate (input_number (sk_input t) ''concurrency''),
                  ca_min_score = input_number (sk_input t) ''min_score''\<rparr> w
           in (Dispatched e r, w'))))"

definition dispatch ::
  "'w sched_env \<Rightarrow> sched_task \<Rightarrow> sched_run \<Rightarrow> 'w sched_world \<Rightarrow> dispatch_end \<times> 'w sched_world" where
  "dispatch env t r w =
     (if is_blog_task t then dispatch_blog env t r w
      else if is_email_task t then dispatch_email env t r w
      else if sk_type t = ''career_scan'' then dispatch_scan env t r w
      else if sk_type t = ''career_apply'' then dispatch_apply env t r w
      else if sk_type t = ''workflow'' \<and> sk_workflow t \<noteq> None then
        dispatch_workflow env (the (sk_workflow t)) t r w
      else if sk_type t = ''multi_agent'' then dispatch_multi env t r w
      else if sk_type t = ''agent'' \<and> sk_agent t \<noteq> None then dispatch_agent env (the (sk_agent t)) t r w
      else (Dispatched (Some (ErrText (''scheduler: task '' @ quote (sk_name t)
              @ '' has no dispatchable target''))) r, w))"

section \<open>After the dispatch\<close>

definition on_sched :: "(sched_db \<Rightarrow> sched_db) \<Rightarrow> 'w sched_world \<Rightarrow> 'w sched_world" where
  "on_sched f w = (f (fst w), snd w)"

definition started_run :: "'w sched_env \<Rightarrow> uuid \<Rightarrow> 'w sched_world \<Rightarrow> sched_run" where
  "started_run env i w =
     \<lparr>sn_id = se_fresh env w, sn_task = i, sn_exec = None, sn_workflow_run = None, sn_job = None,
      sn_status = ''running'', sn_output = None, sn_error = None, sn_started = Some (se_now env w),
      sn_completed = None, sn_created = 0\<rparr>"

definition ended_run :: "'w sched_env \<Rightarrow> go_err option \<Rightarrow> sched_run \<Rightarrow> 'w sched_world \<Rightarrow> sched_run" where
  "ended_run env err r w =
     r\<lparr>sn_completed := Some (se_now env w),
       sn_status := (case err of None \<Rightarrow> ''completed'' | Some e \<Rightarrow> ''failed''),
       sn_error := (case err of None \<Rightarrow> sn_error r | Some e \<Rightarrow> Some (err_text e))\<rparr>"

definition record_run :: "'w sched_env \<Rightarrow> sched_run \<Rightarrow> 'w sched_world \<Rightarrow> 'w sched_world" where
  "record_run env r w =
     (case se_fault env w ''CreateRun'' of
        Some e \<Rightarrow> w
      | None \<Rightarrow> on_sched (\<lambda>db. snd (add_task_run r (se_now env w) db)) w)"

definition count_run :: "'w sched_env \<Rightarrow> uuid \<Rightarrow> 'w sched_world \<Rightarrow> 'w sched_world" where
  "count_run env i w =
     (case se_fault env w ''IncrementRunCount'' of
        Some e \<Rightarrow> w
      | None \<Rightarrow> on_sched (increment_runs i (se_now env w)) w)"

text \<open>\<open>UpdateTask\<close> with only a status: it fails on an error or when there is no row any more.\<close>

definition set_status :: "'w sched_env \<Rightarrow> uuid \<Rightarrow> string \<Rightarrow> 'w sched_world \<Rightarrow> bool \<times> 'w sched_world" where
  "set_status env i st w =
     (case se_fault env w ''UpdateTask'' of
        Some e \<Rightarrow> (False, w)
      | None \<Rightarrow>
          (case update_task i (no_change\<lparr>sx_status := Some st\<rparr>) (fst w) of
             (Inl e, db) \<Rightarrow> (False, (db, snd w))
           | (Inr t, db) \<Rightarrow> (se_fault env (db, snd w) ''GetTask'' = None, (db, snd w))))"

definition schedule_next :: "'w sched_env \<Rightarrow> uuid \<Rightarrow> sched_task \<Rightarrow> 'w sched_world \<Rightarrow> 'w sched_world" where
  "schedule_next env i t w =
     (if (case sk_max_runs t of Some m \<Rightarrow> sk_run_count t + 1 \<ge> m | None \<Rightarrow> False) then
        snd (set_status env i sc_completed w)
      else
        (case compute_next env t (se_now env w) of
           Inl e \<Rightarrow> snd (set_status env i sc_paused w)
         | Inr None \<Rightarrow> snd (set_status env i sc_completed w)
         | Inr (Some nxt) \<Rightarrow>
             (case se_fault env w ''SetNextRunAt'' of
                Some e \<Rightarrow> w
              | None \<Rightarrow> on_sched (set_next_run i nxt) w)))"

definition pause_misconfigured :: "'w sched_env \<Rightarrow> uuid \<Rightarrow> sched_task \<Rightarrow> 'w sched_world \<Rightarrow> 'w sched_world" where
  "pause_misconfigured env i t w =
     (let (ok, w') = set_status env i sc_paused w in if ok then w' else schedule_next env i t w')"

definition misconfigured :: "go_err option \<Rightarrow> bool" where
  "misconfigured err = (case err of None \<Rightarrow> False | Some e \<Rightarrow> err_is task_misconfigured e)"

definition end_run ::
  "'w sched_env \<Rightarrow> uuid \<Rightarrow> sched_task \<Rightarrow> go_err option \<Rightarrow> sched_run \<Rightarrow> 'w sched_world \<Rightarrow> 'w sched_world" where
  "end_run env i t err r w =
     (let w2 = count_run env i (record_run env (ended_run env err r w) w) in
      if misconfigured err then pause_misconfigured env i t w2 else schedule_next env i t w2)"

definition run_one :: "'w sched_env \<Rightarrow> uuid \<Rightarrow> sched_task \<Rightarrow> 'w sched_world \<Rightarrow> 'w sched_world" where
  "run_one env i t w =
     (case dispatch env t (started_run env i w) w of
        (Panicked, w') \<Rightarrow> w'
      | (Dispatched err r, w') \<Rightarrow> end_run env i t err r w')"

text \<open>
  \<open>tick\<close>: the tasks it starts as goroutines, in order, and the world once it has claimed them.
\<close>

fun claim_all :: "'w sched_env \<Rightarrow> (uuid \<times> sched_task) list \<Rightarrow> 'w sched_world
    \<Rightarrow> (uuid \<times> sched_task) list \<times> 'w sched_world" where
  "claim_all env [] w = ([], w)"
| "claim_all env ((i, t) # due) w =
     (let (won, w1) = claim env i t w;
          (rest, w2) = claim_all env due w1
      in (if won then (i, t) # rest else rest, w2))"

definition tick :: "'w sched_env \<Rightarrow> 'w sched_world \<Rightarrow> (uuid \<times> sched_task) list \<times> 'w sched_world" where
  "tick env w =
     (case se_fault env w ''ListDueTasks'' of
        Some e \<Rightarrow> ([], w)
      | None \<Rightarrow> claim_all env (list_due (se_now env w) (fst w)) w)"

end
