(* ===== verification/SchedProps.thy ===== *)
theory SchedProps
  imports Scheduler
begin

text \<open>
  What the dispatcher guarantees. A tick in isolation starts every due task and no other; under any
  interleaving of replicas and of whatever is done to the tables, a due time is dispatched at most as
  often as it was written; the end of a run records it, counts it and moves the task on. A claim
  holds a one-time task off for one tick only.
\<close>

section \<open>Assumptions on the environment\<close>

text \<open>
  The clock is not part of the tables.
\<close>

definition clock_apart :: "'w sched_env \<Rightarrow> bool" where
  "clock_apart env \<longleftrightarrow> (\<forall>db db' x. se_now env (db, x) = se_now env (db', x))"

definition never_fails :: "'w sched_env \<Rightarrow> string \<Rightarrow> bool" where
  "never_fails env what \<longleftrightarrow> (\<forall>w. se_fault env w what = None)"

lemma clock_apartD: "clock_apart env \<Longrightarrow> se_now env (db, x) = se_now env (db', x)"
  by (simp add: clock_apart_def)

lemma never_failsD: "never_fails env what \<Longrightarrow> se_fault env w what = None"
  by (cases w) (simp add: never_fails_def)

definition faultless :: "'w sched_env \<Rightarrow> bool" where
  "faultless env \<longleftrightarrow> (\<forall>w what. se_fault env w what = None)"

lemma faultless_never: "faultless env \<Longrightarrow> never_fails env what"
  by (simp add: faultless_def never_fails_def)

lemma faultlessD: "faultless env \<Longrightarrow> se_fault env w what = None"
  by (cases w) (simp add: faultless_def)

section \<open>A tick\<close>

definition task_ids :: "sched_db \<Rightarrow> uuid list" where
  "task_ids db = map fst (sb_tasks db)"

lemma task_ids_update [simp]: "task_ids (task_update i f db) = task_ids db"
  by (simp add: task_ids_def task_update_def comp_def split_def)

lemma find_task_mem: "distinct (task_ids db) \<Longrightarrow> (i, t) \<in> set (sb_tasks db) \<longleftrightarrow> find_task i db = Some t"
  by (simp add: task_ids_def find_task_def)

lemma claim_wins:
  assumes "never_fails env ''ClaimTask''"
    and "find_task i (fst w) = Some t" and "sk_status t = sc_active"
  shows "claim env i t w = (True, (set_next_run i (claim_next env t (se_now env w)) (fst w), snd w))"
  using assms by (simp add: claim_def never_failsD claim_task_def split_def)

text \<open>The tasks of a list that are all as they were listed are all won.\<close>

lemma claim_all_wins:
  assumes "never_fails env ''ClaimTask''" and "clock_apart env" and "distinct (map fst ts)"
    and "\<And>i t. (i, t) \<in> set ts \<Longrightarrow> find_task i (fst w) = Some t \<and> sk_status t = sc_active"
  shows "\<exists>db. claim_all env ts w = (ts, (db, snd w)) \<and> task_ids db = task_ids (fst w)
    \<and> (\<forall>i. find_task i db = (case map_of ts i of
         Some t \<Rightarrow> Some (t\<lparr>sk_next_run := Some (claim_next env t (se_now env w))\<rparr>)
       | None \<Rightarrow> find_task i (fst w)))"
  using assms(3,4)
proof (induction ts arbitrary: w)
  case Nil
  show ?case by (intro exI [of _ "fst w"]) simp
next
  case (Cons p ts)
  obtain i t where p: "p = (i, t)" by fastforce
  let ?n = "claim_next env t (se_now env w)"
  let ?w = "(set_next_run i ?n (fst w), snd w)"
  have i: "i \<notin> fst ` set ts" and d: "distinct (map fst ts)" using Cons.prems p by auto
  have none: "map_of ts i = None" using i by (simp add: map_of_eq_None_iff)
  have row: "find_task i (fst w) = Some t \<and> sk_status t = sc_active" using Cons.prems(2) [of i t] p by auto
  have won: "claim env i t w = (True, ?w)"
    using claim_wins [OF assms(1)] row by blast
  have now: "se_now env ?w = se_now env w"
    by (metis clock_apartD [OF assms(2)] prod.collapse)
  have keep: "find_task j (fst ?w) = Some u \<and> sk_status u = sc_active" if "(j, u) \<in> set ts" for j u
  proof -
    have "j \<noteq> i" using that i by force
    then show ?thesis using Cons.prems(2) [of j u] that by (simp add: set_next_run_def)
  qed
  obtain db where db: "claim_all env ts ?w = (ts, (db, snd w))" "task_ids db = task_ids (fst ?w)"
      "\<And>j. find_task j db = (case map_of ts j of
         Some u \<Rightarrow> Some (u\<lparr>sk_next_run := Some (claim_next env u (se_now env ?w))\<rparr>)
       | None \<Rightarrow> find_task j (fst ?w))"
    using Cons.IH [OF d keep] by auto
  have "claim_all env (p # ts) w = (p # ts, (db, snd w))"
    by (simp add: p won db(1))
  moreover have "task_ids db = task_ids (fst w)" using db(2) by (simp add: set_next_run_def)
  moreover have "find_task j db = (case map_of (p # ts) j of
         Some u \<Rightarrow> Some (u\<lparr>sk_next_run := Some (claim_next env u (se_now env w))\<rparr>)
       | None \<Rightarrow> find_task j (fst w))" for j
    using db(3) [of j] none row now
    by (cases "j = i") (simp_all add: p set_next_run_def split: option.split)
  ultimately show ?case by blast
qed

lemma list_due_set: "set (list_due now db) = {p \<in> set (sb_tasks db). task_due now (snd p)}"
  by (auto simp: list_due_def)

lemma distinct_list_due:
  assumes "distinct (task_ids db)"
  shows "distinct (map fst (list_due now db))"
proof -
  have "distinct (map fst (filter P (sb_tasks db)))" for P
    using assms by (simp add: task_ids_def distinct_map_filter)
  moreover have "mset (list_due now db) = mset (filter (\<lambda>p. task_due now (snd p)) (sb_tasks db))"
    by (simp add: list_due_def)
  ultimately show ?thesis by (metis mset_eq_imp_distinct_iff mset_map)
qed

lemma tick_wins:
  assumes "never_fails env ''ClaimTask''" and "never_fails env ''ListDueTasks''"
    and "clock_apart env" and "distinct (task_ids (fst w))"
  shows "\<exists>db. tick env w = (list_due (se_now env w) (fst w), (db, snd w))
    \<and> task_ids db = task_ids (fst w)
    \<and> (\<forall>i t. find_task i (fst w) = Some t \<longrightarrow>
         find_task i db = Some (if task_due (se_now env w) t
           then t\<lparr>sk_next_run := Some (claim_next env t (se_now env w))\<rparr> else t))"
proof -
  let ?due = "list_due (se_now env w) (fst w)"
  have row: "find_task i (fst w) = Some t \<and> sk_status t = sc_active" if "(i, t) \<in> set ?due" for i t
    using that assms(4) by (auto simp: list_due_set find_task_mem task_due_def)
  obtain db where db: "claim_all env ?due w = (?due, (db, snd w))" "task_ids db = task_ids (fst w)"
      "\<And>i. find_task i db = (case map_of ?due i of
         Some t \<Rightarrow> Some (t\<lparr>sk_next_run := Some (claim_next env t (se_now env w))\<rparr>)
       | None \<Rightarrow> find_task i (fst w))"
    using claim_all_wins [OF assms(1,3) distinct_list_due [OF assms(4)] row] by auto
  have due: "map_of ?due i = (if task_due (se_now env w) t then Some t else None)"
    if "find_task i (fst w) = Some t" for i t
  proof -
    have "(i, u) \<in> set ?due \<longleftrightarrow> u = t \<and> task_due (se_now env w) t" for u
      using that assms(4) by (auto simp: list_due_set find_task_mem)
    then show ?thesis
      using distinct_list_due [OF assms(4), of "se_now env w"]
      by (auto simp: map_of_eq_None_iff)
  qed
  show ?thesis
    using db due by (auto simp: tick_def never_failsD [OF assms(2)])
qed

text \<open>
  With a database that does not fail and no other replica at work, a tick starts exactly the due
  tasks, by priority, and what is due right after it are those of them whose claim set no later due
  time: a cron expression without an occurrence has the year 1 for its next time.
\<close>

lemma tick_starts_due:
  assumes "never_fails env ''ClaimTask''" and "never_fails env ''ListDueTasks''"
    and "clock_apart env" and "distinct (task_ids (fst w))"
    and "tick env w = (started, w')"
  shows "started = list_due (se_now env w) (fst w)
    \<and> set started = {(i, t). find_task i (fst w) = Some t \<and> task_due (se_now env w) t}
    \<and> (\<forall>i u. find_task i (fst w') = Some u \<and> task_due (se_now env w') u \<longrightarrow>
         (\<exists>t. (i, t) \<in> set started \<and> claim_next env t (se_now env w) \<le> se_now env w))"
proof -
  let ?now = "se_now env w"
  obtain db where db: "tick env w = (list_due ?now (fst w), (db, snd w))" "task_ids db = task_ids (fst w)"
      "\<And>i t. find_task i (fst w) = Some t \<Longrightarrow>
         find_task i db = Some (if task_due ?now t
           then t\<lparr>sk_next_run := Some (claim_next env t ?now)\<rparr> else t)"
    using tick_wins [OF assms(1-4)] by blast
  have w': "w' = (db, snd w)" and st: "started = list_due ?now (fst w)" using assms(5) db(1) by auto
  have now: "se_now env w' = ?now" unfolding w' by (metis clock_apartD [OF assms(3)] prod.collapse)
  have all: "set started = {(i, t). find_task i (fst w) = Some t \<and> task_due ?now t}"
    using assms(4) by (auto simp: st list_due_set find_task_mem)
  have "\<exists>t. (i, t) \<in> set started \<and> claim_next env t ?now \<le> ?now"
    if u: "find_task i db = Some u" "task_due ?now u" for i u
  proof -
    have "i \<in> set (task_ids (fst w))"
      using u(1) db(2) by (metis find_task_def map_of_eq_None_iff not_None_eq list.set_map task_ids_def)
    then obtain t where "find_task i (fst w) = Some t"
      by (metis find_task_def task_ids_def map_of_eq_None_iff not_None_eq list.set_map)
    then show ?thesis
      using db(3) [of i t] u by (auto simp: all task_due_def split: if_splits)
  qed
  then show ?thesis using st all now w' by simp
qed


section \<open>Replicas\<close>

text \<open>
  Any number of replicas on the same tables: the tasks listed by one of them and not yet tried, the
  due times dispatched so far (oldest first), the due times written to the rows so far, and the
  dispatches whose claim failed. Each statement is one step, and each reads a clock of its own:
  nothing relates the times the replicas and the database see.
\<close>

record replicas =
  ry_db :: sched_db
  ry_seen :: "(uuid \<times> sched_task) list"
  ry_log :: "(uuid \<times> int) list"
  ry_set :: "(uuid \<times> int) list"
  ry_blind :: "(uuid \<times> int) list"

definition due_at :: "sched_db \<Rightarrow> uuid \<Rightarrow> int option" where
  "due_at db i = Option.bind (find_task i db) sk_next_run"

text \<open>The due times a change of the tables has written.\<close>

definition new_dues :: "sched_db \<Rightarrow> sched_db \<Rightarrow> (uuid \<times> int) list" where
  "new_dues db db' =
     filter (\<lambda>(i, d). due_at db i \<noteq> Some d)
       (concat (map (\<lambda>i. case due_at db' i of None \<Rightarrow> [] | Some d \<Rightarrow> [(i, d)])
         (map fst (sb_tasks db'))))"

definition empty_db :: "sched_db \<Rightarrow> sched_db" where
  "empty_db db = db\<lparr>sb_tasks := []\<rparr>"

text \<open>
  A claim that is won writes the next due time of the row; a claim whose statement fails dispatches
  and writes nothing. Replicas stop at any point; and between any two of their statements anything
  may happen to the tables: the statements of a run's end, edits (a due time in the past among them),
  creations and deletions.
\<close>

inductive sched_step :: "'w sched_env \<Rightarrow> replicas \<Rightarrow> replicas \<Rightarrow> bool" for env where
  listed: "sched_step env s (s\<lparr>ry_seen := list_due now (ry_db s) @ ry_seen s\<rparr>)"
| claimed: "ry_seen s = xs @ (i, t) # ys \<Longrightarrow> se_fault env (ry_db s, x) ''ClaimTask'' = None \<Longrightarrow>
     claim env i t (ry_db s, x) = (True, (db, x')) \<Longrightarrow> sk_next_run t = Some d \<Longrightarrow>
     sched_step env s (s\<lparr>ry_db := db, ry_seen := xs @ ys, ry_log := ry_log s @ [(i, d)],
       ry_set := ry_set s @ [(i, claim_next env t (se_now env (ry_db s, x)))]\<rparr>)"
| blind: "ry_seen s = xs @ (i, t) # ys \<Longrightarrow> se_fault env (ry_db s, x) ''ClaimTask'' = Some e \<Longrightarrow>
     claim env i t (ry_db s, x) = (True, (db, x')) \<Longrightarrow> sk_next_run t = Some d \<Longrightarrow>
     sched_step env s (s\<lparr>ry_db := db, ry_seen := xs @ ys, ry_log := ry_log s @ [(i, d)],
       ry_blind := ry_blind s @ [(i, d)]\<rparr>)"
| lost: "ry_seen s = xs @ (i, t) # ys \<Longrightarrow> claim env i t (ry_db s, x) = (False, (db, x')) \<Longrightarrow>
     sched_step env s (s\<lparr>ry_db := db, ry_seen := xs @ ys\<rparr>)"
| crashed: "set xs \<subseteq> set (ry_seen s) \<Longrightarrow> sched_step env s (s\<lparr>ry_seen := xs\<rparr>)"
| worked: "sched_step env s (s\<lparr>ry_db := db, ry_set := ry_set s @ new_dues (ry_db s) db\<rparr>)"

inductive_cases sched_stepE: "sched_step env s s'"

definition sched_start :: "sched_db \<Rightarrow> replicas" where
  "sched_start db =
     \<lparr>ry_db = db, ry_seen = [], ry_log = [], ry_set = new_dues (empty_db db) db, ry_blind = []\<rparr>"

inductive sched_reachable :: "'w sched_env \<Rightarrow> replicas \<Rightarrow> bool" for env where
  start: "sched_reachable env (sched_start db)"
| step: "sched_reachable env s \<Longrightarrow> sched_step env s s' \<Longrightarrow> sched_reachable env s'"

lemma due_at_find: "due_at db i = Some d \<Longrightarrow> i \<in> fst ` set (sb_tasks db)"
  by (auto simp: due_at_def find_task_def bind_eq_Some_conv dest!: map_of_SomeD) force

lemma due_at_set_next: "due_at (set_next_run i n db) j
    = (if j = i \<and> find_task i db \<noteq> None then Some n else due_at db j)"
  by (auto simp: due_at_def set_next_run_def)

lemma new_dues_mem: "(i, d) \<in> set (new_dues db db') \<longleftrightarrow> due_at db' i = Some d \<and> due_at db i \<noteq> Some d"
proof -
  have "(i, d) \<in> set (new_dues db db')" if "due_at db' i = Some d" "due_at db i \<noteq> Some d"
    using due_at_find [OF that(1)] that by (auto simp: new_dues_def intro!: rev_image_eqI) force
  then show ?thesis by (auto simp: new_dues_def split: option.splits)
qed

lemma new_dues_count:
  "due_at db' i = Some d \<Longrightarrow> due_at db i \<noteq> Some d \<Longrightarrow> 0 < count_list (new_dues db db') (i, d)"
  using count_list_0_iff [of "new_dues db db'" "(i, d)"] by (simp add: new_dues_mem)

text \<open>
  The invariant: of the times a due time was written to a row, one is left over as long as the row
  still holds it.
\<close>

definition due_left :: "replicas \<Rightarrow> uuid \<times> int \<Rightarrow> nat" where
  "due_left s p = (if due_at (ry_db s) (fst p) = Some (snd p) then 1 else 0)"

definition sched_inv :: "replicas \<Rightarrow> bool" where
  "sched_inv s \<longleftrightarrow> (\<forall>p. count_list (ry_log s) p + due_left s p
     \<le> count_list (ry_set s) p + count_list (ry_blind s) p)"

text \<open>A claim that is won found the due time that was listed in the row, and replaced it.\<close>

lemma claim_won:
  assumes "se_fault env w ''ClaimTask'' = None" and "claim env i t w = (True, w')"
  shows "due_at (fst w) i = sk_next_run t
    \<and> fst w' = set_next_run i (claim_next env t (se_now env w)) (fst w)
    \<and> find_task i (fst w) \<noteq> None"
  using assms by (auto simp: claim_def claim_task_True due_at_def split: prod.splits)

lemma claim_lost: "claim env i t w = (False, w') \<Longrightarrow> w' = w"
  by (cases w) (auto simp: claim_def claim_task_def split: option.splits prod.splits if_splits)

lemma sched_inv_step:
  assumes "sched_step env s s'" and "sched_inv s"
  shows "sched_inv s'"
  using assms(1)
proof cases
  case (claimed xs i t ys x db x' d)
  note won = claim_won [OF claimed(3,4)]
  have "count_list (ry_log s') p + due_left s' p
      \<le> count_list (ry_set s') p + count_list (ry_blind s') p" for p
    using assms(2) [unfolded sched_inv_def, rule_format, of p] won claimed(5)
    by (cases p) (auto simp: claimed(1) due_left_def due_at_set_next split: if_splits)
  then show ?thesis by (simp add: sched_inv_def)
next
  case (blind xs i t ys x e db x' d)
  have "db = ry_db s" using blind(3,4) by (simp add: claim_def)
  then show ?thesis using assms(2) by (auto simp: blind(1) sched_inv_def due_left_def)
next
  case (lost xs i t ys x db x')
  then show ?thesis
    using assms(2) claim_lost [OF lost(3)] by (auto simp: sched_inv_def due_left_def)
next
  case (worked db)
  have "count_list (ry_log s') p + due_left s' p
      \<le> count_list (ry_set s') p + count_list (ry_blind s') p" for p
    using assms(2) [unfolded sched_inv_def, rule_format, of p]
      new_dues_count [of db "fst p" "snd p" "ry_db s"]
    by (auto simp: worked due_left_def split: if_splits)
  then show ?thesis by (simp add: sched_inv_def)
qed (use assms(2) in \<open>auto simp: sched_inv_def due_left_def\<close>)

lemma sched_inv_start: "sched_inv (sched_start db)"
proof -
  have "due_at (empty_db db) i = None" for i by (simp add: due_at_def empty_db_def find_task_def)
  then show ?thesis
    using new_dues_count [of db _ _ "empty_db db"]
    by (auto simp: sched_inv_def sched_start_def due_left_def Suc_leI)
qed

lemma sched_inv_reachable: "sched_reachable env s \<Longrightarrow> sched_inv s"
  by (induction rule: sched_reachable.induct) (blast intro: sched_inv_start sched_inv_step)+

text \<open>
  C31: each due time written to a scheduled task starts it at most once. However many replicas list
  and claim, with whatever clocks and cron expressions, and whatever stops them or is done to the
  tables in between, a task is dispatched for a due time at most as often as that due time was
  written to its row (by the creation, an edit, the end of a run or a claim), plus once for each
  claim whose statement failed, which dispatches. Several replicas that list one due task are the
  case of a due time written once.
\<close>

theorem due_time_claimed_once:
  assumes "sched_reachable env s"
  shows "count_list (ry_log s) (i, d) \<le> count_list (ry_set s) (i, d) + count_list (ry_blind s) (i, d)"
  using sched_inv_reachable [OF assms] unfolding sched_inv_def by (meson add_leD1)


section \<open>The end of a run\<close>

text \<open>What becomes of the row of a task whose run was dispatched on \<open>t\<close>, counted and moved on.\<close>

definition moved_on :: "'w sched_env \<Rightarrow> sched_task \<Rightarrow> go_err option \<Rightarrow> int \<Rightarrow> sched_task \<Rightarrow> sched_task" where
  "moved_on env t err now u =
     (let u' = u\<lparr>sk_run_count := sk_run_count u + 1, sk_last_run := Some now\<rparr> in
      if misconfigured err then u'\<lparr>sk_status := sc_paused\<rparr>
      else if (case sk_max_runs t of Some m \<Rightarrow> sk_run_count t + 1 \<ge> m | None \<Rightarrow> False) then u'\<lparr>sk_status := sc_completed\<rparr>
      else (case compute_next env t now of
              Inl e \<Rightarrow> u'\<lparr>sk_status := sc_paused\<rparr>
            | Inr None \<Rightarrow> u'\<lparr>sk_status := sc_completed\<rparr>
            | Inr (Some n) \<Rightarrow> u'\<lparr>sk_next_run := Some n\<rparr>))"

lemma change_status: "change_task (no_change\<lparr>sx_status := Some st\<rparr>) t = t\<lparr>sk_status := st\<rparr>"
  by (simp add: change_task_def no_change_def coalesce_def coalesce_null_def)

lemma status_allowed: "change_allowed (no_change\<lparr>sx_status := Some st\<rparr>) t db"
  by (simp add: change_allowed_def no_change_def coalesce_def in_org_def)

lemma set_status_eq:
  assumes "faultless env" and "find_task i (fst w) = Some t"
  shows "set_status env i st w = (True, (task_update i (\<lambda>t. t\<lparr>sk_status := st\<rparr>) (fst w), snd w))"
proof -
  have "change_task (no_change\<lparr>sx_status := Some st\<rparr>) = (\<lambda>t. t\<lparr>sk_status := st\<rparr>)"
    by (rule ext) (rule change_status)
  then show ?thesis
    by (simp add: set_status_def faultlessD [OF assms(1)] update_task_def assms(2) status_allowed)
qed

lemma schedule_next_eq:
  assumes "faultless env" and "find_task i (fst w) = Some u"
  shows "schedule_next env i t w = (task_update i
     (if (case sk_max_runs t of Some m \<Rightarrow> sk_run_count t + 1 \<ge> m | None \<Rightarrow> False) then (\<lambda>u. u\<lparr>sk_status := sc_completed\<rparr>)
      else (case compute_next env t (se_now env w) of
              Inl e \<Rightarrow> (\<lambda>u. u\<lparr>sk_status := sc_paused\<rparr>)
            | Inr None \<Rightarrow> (\<lambda>u. u\<lparr>sk_status := sc_completed\<rparr>)
            | Inr (Some n) \<Rightarrow> (\<lambda>u. u\<lparr>sk_next_run := Some n\<rparr>))) (fst w), snd w)"
  using assms by (auto simp: schedule_next_def set_status_eq faultlessD on_sched_def set_next_run_def
      split: sum.split option.split)

text \<open>
  the end of a run adds one run to the table, completed or failed with the error's text, and
  touches no other task; its task is counted, and paused when it is misconfigured or has no next time,
  completed when it is over, and otherwise moved to its next time. A database that fails is excluded.
\<close>

lemma run_moves_task_on:
  assumes "faultless env" and "clock_apart env" and "find_task i (fst w) = Some u" and "sn_task r = i"
    and "end_run env i t err r w = (db, x)"
  shows "x = snd w
    \<and> (\<exists>row. sb_runs db = sb_runs (fst w) @ [row] \<and> sn_task row = i
         \<and> sn_completed row = Some (se_now env w)
         \<and> (sn_status row, sn_error row) = (case err of
              None \<Rightarrow> (''completed'', sn_error r) | Some e \<Rightarrow> (''failed'', Some (err_text e))))
    \<and> (\<forall>j. find_task j db = (if j = i then Some (moved_on env t err (se_now env w) u)
         else find_task j (fst w)))"
proof -
  let ?row = "(ended_run env err r w)\<lparr>sn_created := se_now env w\<rparr>"
  let ?db1 = "(fst w)\<lparr>sb_runs := sb_runs (fst w) @ [?row]\<rparr>"
  let ?u = "u\<lparr>sk_run_count := sk_run_count u + 1, sk_last_run := Some (se_now env w)\<rparr>"
  let ?w2 = "(increment_runs i (se_now env w) ?db1, snd w)"
  have now: "se_now env (d, snd w) = se_now env w" for d
    using clock_apartD [OF assms(2), of d "snd w" "fst w"] by simp
  have rec: "record_run env (ended_run env err r w) w = (?db1, snd w)"
    using assms(3,4)
    by (simp add: record_run_def faultlessD [OF assms(1)] on_sched_def add_task_run_def ended_run_def)
  have cnt: "count_run env i (?db1, snd w) = ?w2"
    by (simp add: count_run_def faultlessD [OF assms(1)] on_sched_def now)
  have u2: "find_task i (fst ?w2) = Some ?u" using assms(3) by (simp add: increment_runs_def)
  have stat: "pause_misconfigured env i t ?w2
      = (task_update i (\<lambda>t. t\<lparr>sk_status := sc_paused\<rparr>) (fst ?w2), snd w)"
    unfolding pause_misconfigured_def set_status_eq [OF assms(1) u2] by simp
  have "end_run env i t err r w = (if misconfigured err
      then pause_misconfigured env i t ?w2 else schedule_next env i t ?w2)"
    unfolding end_run_def Let_def rec cnt ..
  then have eq: "(db, x) = (task_update i (if misconfigured err then (\<lambda>t. t\<lparr>sk_status := sc_paused\<rparr>)
      else (if (case sk_max_runs t of Some m \<Rightarrow> sk_run_count t + 1 \<ge> m | None \<Rightarrow> False)
            then (\<lambda>u. u\<lparr>sk_status := sc_completed\<rparr>)
            else (case compute_next env t (se_now env w) of
                    Inl e \<Rightarrow> (\<lambda>u. u\<lparr>sk_status := sc_paused\<rparr>)
                  | Inr None \<Rightarrow> (\<lambda>u. u\<lparr>sk_status := sc_completed\<rparr>)
                  | Inr (Some n) \<Rightarrow> (\<lambda>u. u\<lparr>sk_next_run := Some n\<rparr>)))) (fst ?w2), snd w)"
    unfolding stat schedule_next_eq [OF assms(1) u2] now assms(5) by simp
  have runs: "sb_runs db = sb_runs (fst w) @ [?row]" using eq by (simp add: increment_runs_def)
  have row: "sn_task ?row = i" "sn_completed ?row = Some (se_now env w)"
      "(sn_status ?row, sn_error ?row) = (case err of
         None \<Rightarrow> (''completed'', sn_error r) | Some e \<Rightarrow> (''failed'', Some (err_text e)))"
    using assms(4) by (simp_all add: ended_run_def split: option.split)
  have "find_task j db = (if j = i then Some (moved_on env t err (se_now env w) u)
      else find_task j (fst w))" for j
    using eq assms(3)
    by (simp add: moved_on_def Let_def increment_runs_def split: option.split sum.split)
  then show ?thesis using eq runs row by blast
qed


section \<open>One-time tasks\<close>

text \<open>
  the claim of a one-time task holds it off for one tick interval only, and nothing but the end
  of its run takes it off the list: while the run is under way the next tick dispatches it again as
  soon as the interval is over, and not before, whatever its limit of runs says.
\<close>

lemma one_shot_overlaps:
  assumes "never_fails env ''ClaimTask''" and "never_fails env ''ListDueTasks''"
    and "clock_apart env" and "distinct (task_ids (fst w))"
    and "find_task i (fst w) = Some t" and "task_due (se_now env w) t" and "sk_schedule t = ''once''"
    and "tick env w = (first, w1)" and "fst w2 = fst w1" and "tick env w2 = (second, w3)"
  shows "i \<in> fst ` set first
    \<and> (i \<in> fst ` set second \<longleftrightarrow> se_now env w + tick_interval \<le> se_now env w2)"
proof -
  obtain db where db: "tick env w = (list_due (se_now env w) (fst w), (db, snd w))"
      "task_ids db = task_ids (fst w)"
      "\<And>i t. find_task i (fst w) = Some t \<Longrightarrow>
         find_task i db = Some (if task_due (se_now env w) t
           then t\<lparr>sk_next_run := Some (claim_next env t (se_now env w))\<rparr> else t)"
    using tick_wins [OF assms(1-4)] by blast
  have w2: "fst w2 = db" and f: "first = list_due (se_now env w) (fst w)"
    using db(1) assms(8,9) by simp_all
  have ids: "distinct (task_ids (fst w2))" using assms(4) db(2) w2 by simp
  have sec: "second = list_due (se_now env w2) (fst w2)"
    using tick_wins [OF assms(1-3) ids] assms(10) by auto
  have "claim_next env t (se_now env w) = se_now env w + tick_interval"
    by (simp add: claim_next_def compute_next_def assms(7))
  then have t': "find_task i (fst w2)
      = Some (t\<lparr>sk_next_run := Some (se_now env w + tick_interval)\<rparr>)"
    using db(3) [OF assms(5)] assms(6) w2 by simp
  have mem: "(i \<in> fst ` set (list_due n d) \<longleftrightarrow> task_due n u)"
    if "distinct (task_ids d)" "find_task i d = Some u" for n d u
  proof -
    have "i \<in> fst ` set (list_due n d) \<longleftrightarrow> (\<exists>v. find_task i d = Some v \<and> task_due n v)"
      using find_task_mem [OF that(1)] by (auto simp: list_due_set image_iff)
    then show ?thesis using that(2) by simp
  qed
  show ?thesis
    using mem [OF assms(4,5)] mem [OF ids t'] assms(6)
    by (simp add: f sec task_due_def)
qed

section \<open>A one-time task on two replicas\<close>

text \<open>The world is the clock; nothing is wired but the agents, which answer at once.\<close>

definition clock_env :: "int sched_env" where
  "clock_env =
     \<lparr>se_now = snd, se_cron = (\<lambda>_. Inr (\<lambda>now. now + 60000000)), se_fault = (\<lambda>_ _. None),
      se_fresh = (\<lambda>w. length (sb_runs (fst w))), se_uuid_text = (\<lambda>_. []),
      se_parse_uuid = (\<lambda>_. None), se_blog = None, se_email = None, se_career = None,
      se_workflow = (\<lambda>_ _ _ _ w. (Inr 1, w)), se_agent = (\<lambda>_ _ _ w. (Inr 1, w)), se_multi = None\<rparr>"

definition once_task :: sched_task where
  "once_task =
     \<lparr>sk_org = 1, sk_name = ''report'', sk_description = None, sk_type = ''agent'', sk_agent = Some 2,
      sk_workflow = None, sk_planner = None, sk_executor = None, sk_reviewer = None,
      sk_max_review = 0, sk_prompt = ''write it'', sk_input = [], sk_provider = None, sk_model = None,
      sk_schedule = ''once'', sk_cron = None, sk_interval = None, sk_run_at = Some 5, sk_preset = None,
      sk_status = ''active'', sk_last_run = None, sk_next_run = Some 5, sk_run_count = 0,
      sk_max_runs = Some 1, sk_retry = False, sk_max_retries = 0, sk_priority = ''medium'',
      sk_tags = [], sk_created_by = None, sk_created = 0\<rparr>"

definition once_world :: "int \<Rightarrow> int sched_world" where
  "once_world d =
     (\<lparr>sb_tasks = [(3, once_task\<lparr>sk_next_run := Some d\<rparr>)], sb_runs = [], sb_agents = (\<lambda>_. Some 1),
       sb_workflows = (\<lambda>_. None), sb_providers = (\<lambda>_. None)\<rparr>, 10)"

lemma clock_env_ok:
  "faultless clock_env" "clock_apart clock_env"
  by (auto simp: faultless_def clock_apart_def clock_env_def)

lemma once_find [simp]: "find_task i (fst (once_world d))
    = (if i = 3 then Some (once_task\<lparr>sk_next_run := Some d\<rparr>) else None)"
  by (simp add: find_task_def once_world_def)

lemma once_ids: "distinct (task_ids (fst (once_world d)))"
  by (simp add: task_ids_def once_world_def)

lemma once_now [simp]: "se_now clock_env (once_world d) = 10" "se_now clock_env (db, n) = n"
  by (simp_all add: clock_env_def once_world_def)

lemma once_due: "list_due n (fst (once_world d))
    = (if d \<le> n then [(3, once_task\<lparr>sk_next_run := Some d\<rparr>)] else [])"
  by (simp add: list_due_def once_world_def task_due_def once_task_def sc_active_def)

lemma once_claim: "claim clock_env 3 (once_task\<lparr>sk_next_run := Some 5\<rparr>) (once_world 5)
    = (True, once_world 30000010)"
  by (simp add: claim_def faultlessD [OF clock_env_ok(1)] claim_task_def claim_next_def
      compute_next_def set_next_run_def task_update_def tick_interval_def once_world_def
      find_task_def once_task_def sc_active_def clock_env_def)

lemma once_claim_late: "claim clock_env 3 (once_task\<lparr>sk_next_run := Some 5\<rparr>) (once_world 30000010)
    = (False, once_world 30000010)"
  by (simp add: claim_def faultlessD [OF clock_env_ok(1)] claim_task_def once_world_def find_task_def
      sc_active_def)

lemma once_claimed: "claim clock_env 3 (once_task\<lparr>sk_next_run := Some 5\<rparr>) (fst (once_world 5), 10)
    = (True, (fst (once_world 30000010), 10))"
  using once_claim by (simp add: once_world_def)

lemma once_claimed_late:
  "claim clock_env 3 (once_task\<lparr>sk_next_run := Some 5\<rparr>) (fst (once_world 30000010), 10)
    = (False, (fst (once_world 30000010), 10))"
  using once_claim_late by (simp add: once_world_def)

text \<open>Both replicas list the task, one wins it and the other does not.\<close>

definition two_replicas :: replicas where
  "two_replicas =
     \<lparr>ry_db = fst (once_world 30000010), ry_seen = [], ry_log = [(3, 5)],
      ry_set = [(3, 5), (3, 30000010)], ry_blind = []\<rparr>"

lemma once_start: "sched_start (fst (once_world 5))
    = \<lparr>ry_db = fst (once_world 5), ry_seen = [], ry_log = [], ry_set = [(3, 5)], ry_blind = []\<rparr>"
proof -
  have "find_task i (empty_db db) = None" for i db by (simp add: empty_db_def find_task_def)
  moreover have "map fst (sb_tasks (fst (once_world 5))) = [3]" by (simp add: once_world_def)
  ultimately show ?thesis by (simp add: sched_start_def new_dues_def due_at_def)
qed

lemma two_replicas_reachable: "sched_reachable clock_env two_replicas"
proof -
  let ?t = "once_task\<lparr>sk_next_run := Some 5\<rparr>"
  let ?s0 = "sched_start (fst (once_world 5))"
  let ?s1 = "?s0\<lparr>ry_seen := [(3, ?t)]\<rparr>"
  let ?s2 = "?s0\<lparr>ry_seen := [(3, ?t), (3, ?t)]\<rparr>"
  let ?s3 = "two_replicas\<lparr>ry_seen := [(3, ?t)]\<rparr>"
  have nf: "se_fault clock_env w e = None" for w e by (rule faultlessD [OF clock_env_ok(1)])
  have next5: "claim_next clock_env ?t (se_now clock_env (db, 10)) = 30000010" for db
    by (simp add: claim_next_def compute_next_def tick_interval_def once_task_def)
  have "sched_step clock_env ?s0 ?s1"
    using sched_step.listed [of clock_env ?s0 10] by (simp add: once_start once_due)
  moreover have "sched_step clock_env ?s1 ?s2"
    using sched_step.listed [of clock_env ?s1 10] by (simp add: once_start once_due)
  moreover have "sched_step clock_env ?s2 ?s3"
    using sched_step.claimed [of ?s2 "[]" 3 ?t "[(3, ?t)]" clock_env 10 "fst (once_world 30000010)" 10 5]
      once_claimed nf next5
    by (simp add: once_start two_replicas_def)
  moreover have "sched_step clock_env ?s3 two_replicas"
    using sched_step.lost [of ?s3 "[]" 3 ?t "[]" clock_env 10 "fst (once_world 30000010)" 10]
      once_claimed_late
    by (simp add: two_replicas_def)
  ultimately show ?thesis
    using sched_reachable.start sched_reachable.step by metis
qed

theorem due_time_claimed_once_witness:
  "sched_reachable clock_env two_replicas \<and> count_list (ry_log two_replicas) (3, 5) \<le> 1
     \<and> ry_log two_replicas = [(3, 5)]"
  using due_time_claimed_once [OF two_replicas_reachable, of 3 5] two_replicas_reachable
  by (simp add: two_replicas_def)

end
