(* ===== verification/LlmJson.thy ===== *)
theory LlmJson
  imports JsonText
begin

text \<open>
  Reading JSON out of a model's reply (\<open>llm/json.go\<close>): the value is cut out of fences and prose, and
  when it does not decode a repaired form is tried, without trailing commas and with what was left
  open closed. The decoder of the target type is a parameter, as \<open>json.Unmarshal\<close>'s is the type of
  its argument; the text of its error is not modelled. Labels for telemetry are left out.
\<close>

section \<open>Scanning for the closing bracket\<close>

text \<open>
  The scan shared by \<open>matchingBracket\<close> and \<open>balancedBraceEnd\<close> of the chat agent: the depth, whether
  the position is inside a string or after a backslash there, and the position itself.
\<close>

fun scan_close :: "string \<Rightarrow> string \<Rightarrow> int \<Rightarrow> bool \<Rightarrow> bool \<Rightarrow> nat \<Rightarrow> string \<Rightarrow> nat option" where
  "scan_close op cl d ins esc i [] = None"
| "scan_close op cl d ins esc i (c # s) =
     (if esc then scan_close op cl d ins False (Suc i) s
      else if c = CHR 0x5C \<and> ins then scan_close op cl d ins True (Suc i) s
      else if c = CHR 0x22 then scan_close op cl d (\<not> ins) False (Suc i) s
      else if ins then scan_close op cl d ins False (Suc i) s
      else if c \<in> set op then scan_close op cl (d + 1) ins False (Suc i) s
      else if c \<in> set cl then
        (if d - 1 = 0 then Some i else scan_close op cl (d - 1) ins False (Suc i) s)
      else scan_close op cl d ins False (Suc i) s)"

definition matching_bracket :: "string \<Rightarrow> nat \<Rightarrow> nat option" where
  "matching_bracket s start = scan_close ''{['' ''}]'' 0 False False start (drop start s)"

text \<open>\<open>strings.IndexAny\<close>.\<close>

fun index_any :: "string \<Rightarrow> string \<Rightarrow> nat option" where
  "index_any [] cs = None"
| "index_any (c # s) cs = (if c \<in> set cs then Some 0 else map_option Suc (index_any s cs))"

definition extract_json :: "string \<Rightarrow> string" where
  "extract_json s0 =
     (let s = trim_space (trim_suffix (trim_prefix (trim_prefix (trim_space s0) ''```json'') ''```'') ''```'')
      in case index_any s ''{['' of
           None \<Rightarrow> s
         | Some start \<Rightarrow>
             (case matching_bracket s start of
                Some e \<Rightarrow> take (e + 1 - start) (drop start s)
              | None \<Rightarrow> drop start s))"

section \<open>Repair\<close>

text \<open>\<open>\s\<close> of a regular expression, and the cut set of the trimming.\<close>

definition re_space :: "char \<Rightarrow> bool" where
  "re_space c \<longleftrightarrow> c \<in> {CHR '' '', CHR 0x09, CHR 0x0A, CHR 0x0C, CHR 0x0D}"

definition json_trim_right :: "string \<Rightarrow> string" where
  "json_trim_right s = trim_right_by json_ws s"

text \<open>\<open>,(\s*[}\]])\<close> replaced by its group, from left to right.\<close>

fun drop_trailing_commas :: "string \<Rightarrow> string" where
  "drop_trailing_commas [] = []"
| "drop_trailing_commas (c # s) =
     (if c = CHR '','' \<and> (case dropWhile re_space s of d # t \<Rightarrow> d \<in> set ''}]'' | [] \<Rightarrow> False)
      then drop_trailing_commas s else c # drop_trailing_commas s)"

text \<open>The brackets left open, innermost first, and whether the text ends inside a string.\<close>

fun open_brackets :: "string \<Rightarrow> bool \<Rightarrow> bool \<Rightarrow> string \<Rightarrow> string \<times> bool" where
  "open_brackets st ins esc [] = (st, ins)"
| "open_brackets st ins esc (c # s) =
     (if esc then open_brackets st ins False s
      else if c = CHR 0x5C \<and> ins then open_brackets st ins True s
      else if c = CHR 0x22 then open_brackets st (\<not> ins) False s
      else if ins then open_brackets st ins False s
      else if c \<in> set ''{['' then open_brackets (c # st) ins False s
      else if c \<in> set ''}]'' then open_brackets (tl st) ins False s
      else open_brackets st ins False s)"

text \<open>The opening quote of the key that ends at position \<open>n\<close>.\<close>

fun key_start :: "string \<Rightarrow> nat \<Rightarrow> nat option" where
  "key_start s 0 = (if s ! 0 = CHR 0x22 then Some 0 else None)"
| "key_start s (Suc n) =
     (if s ! Suc n = CHR 0x22 \<and> s ! n \<noteq> CHR 0x5C then Some (Suc n) else key_start s n)"

definition trim_dangling_key :: "string \<Rightarrow> string" where
  "trim_dangling_key s0 =
     (let s = json_trim_right (trim_suffix s0 '':'') in
      if \<not> has_suffix s [CHR 0x22] \<or> length s < 2 then s
      else (case key_start s (length s - 2) of
              None \<Rightarrow> s
            | Some i \<Rightarrow> json_trim_right (trim_suffix (json_trim_right (take i s)) '','')))"

lemma length_json_trim_right: "length (json_trim_right s) \<le> length s"
  by (simp add: json_trim_right_def trim_right_by_def) (metis length_dropWhile_le length_rev)

lemma length_trim_suffix: "length (trim_suffix s p) \<le> length s"
  by (simp add: trim_suffix_def)

lemma length_trim_suffix_less: "has_suffix s p \<Longrightarrow> p \<noteq> [] \<Longrightarrow> length (trim_suffix s p) < length s"
  by (auto simp: trim_suffix_def has_suffix_iff)

lemma length_trim_dangling_key: "has_suffix s '':'' \<Longrightarrow> length (trim_dangling_key s) < length s"
proof -
  assume s: "has_suffix s '':''"
  let ?t = "json_trim_right (trim_suffix s '':'')"
  have t: "length ?t < length s"
    using length_json_trim_right [of "trim_suffix s '':''"] length_trim_suffix_less [OF s] by simp
  have "length (json_trim_right (trim_suffix (json_trim_right (take i ?t)) '','')) \<le> length ?t" for i
    using length_json_trim_right [of "trim_suffix (json_trim_right (take i ?t)) '',''"]
      length_trim_suffix [of "json_trim_right (take i ?t)" "'',''"] length_json_trim_right [of "take i ?t"]
    by simp
  with t show ?thesis by (auto simp: trim_dangling_key_def Let_def split: option.split intro: le_less_trans)
qed

function trim_dangling :: "string \<Rightarrow> string" where
  "trim_dangling out =
     (if has_suffix out '','' \<or> has_suffix out '':'' then
        (let o2 = json_trim_right (trim_suffix out '','') in
         trim_dangling (if has_suffix o2 '':'' then trim_dangling_key o2 else o2))
      else out)"
  by pat_completeness auto
termination
proof (relation "measure length")
  fix out o2 :: string
  assume cut: "has_suffix out '','' \<or> has_suffix out '':''" and o2: "o2 = json_trim_right (trim_suffix out '','')"
  have le: "length o2 \<le> length out"
    using o2 length_json_trim_right [of "trim_suffix out '',''"] length_trim_suffix [of out "'',''"] by simp
  have less: "length o2 < length out" if "has_suffix out '',''"
    using o2 length_json_trim_right [of "trim_suffix out '',''"] length_trim_suffix_less [OF that] by simp
  have colon: "o2 = out" if "\<not> has_suffix out '',''" "has_suffix out '':''"
  proof -
    have "out = t @ '':'' \<Longrightarrow> json_trim_right out = out" for t
      by (simp add: json_trim_right_def trim_right_by_def json_ws_def)
    with that show ?thesis by (auto simp: o2 trim_suffix_def has_suffix_iff)
  qed
  show "((if has_suffix o2 '':'' then trim_dangling_key o2 else o2), out) \<in> measure length"
    using length_trim_dangling_key [of o2] le less colon cut by (auto intro: less_le_trans)
qed simp

declare trim_dangling.simps [simp del]

definition close_unterminated :: "string \<Rightarrow> string" where
  "close_unterminated s =
     (case open_brackets [] False False s of
        (stack, ins) \<Rightarrow>
          if \<not> ins \<and> stack = [] then s
          else trim_dangling (json_trim_right (if ins then s @ [CHR 0x22] else s))
            @ map (\<lambda>c. if c = CHR ''{'' then CHR ''}'' else CHR '']'') stack)"

definition repair_json :: "string \<Rightarrow> string" where
  "repair_json s0 =
     (let s = trim_space s0 in if s = [] then s else close_unterminated (drop_trailing_commas s))"

section \<open>Decoding\<close>

definition json_error :: go_err where
  "json_error = ErrText ''invalid JSON''"

definition unmarshal :: "(json \<Rightarrow> 'a option) \<Rightarrow> string \<Rightarrow> 'a option" where
  "unmarshal dec s = Option.bind (parse_json s) dec"

definition decode_json :: "(json \<Rightarrow> 'a option) \<Rightarrow> string \<Rightarrow> go_err + 'a" where
  "decode_json dec reply =
     (let extracted = extract_json reply; repaired = repair_json extracted in
      case unmarshal dec extracted of
        Some v \<Rightarrow> Inr v
      | None \<Rightarrow>
          if repaired \<noteq> extracted then
            (case unmarshal dec repaired of Some v \<Rightarrow> Inr v | None \<Rightarrow> Inl json_error)
          else Inl json_error)"

definition json_retry_instruction :: string where
  "json_retry_instruction =
     [CHR 0x0A, CHR 0x0A] @ ''Your previous reply could not be parsed as JSON. ''
     @ ''Reply with the JSON value only '' @ utf8 8212 @ '' no explanation, no code fence, no trailing text ''
     @ utf8 8212 @ '' and make sure every bracket and quote is closed.''"

definition reply_snippet :: "string \<Rightarrow> nat \<Rightarrow> string" where
  "reply_snippet s0 n =
     (let s = trim_space (replace_all [CHR 0x0A] '' '' s0) in
      if length s \<le> n then s else take n s @ utf8 8230)"

definition decode_error :: "string \<Rightarrow> go_err \<Rightarrow> string \<Rightarrow> go_err" where
  "decode_error stage e reply =
     ErrAround (stage @ '': parse response: '') e ('' (reply began: '' @ reply_snippet reply 120 @ '')'')"

text \<open>The stage's own way of asking is a function of the attempt and the prompt.\<close>

definition generate_json ::
  "string \<Rightarrow> string \<Rightarrow> (json \<Rightarrow> 'a option) \<Rightarrow> (nat \<Rightarrow> string \<Rightarrow> 'w \<Rightarrow> (go_err + string) \<times> 'w)
     \<Rightarrow> 'w \<Rightarrow> (go_err + 'a) \<times> 'w" where
  "generate_json stage prompt dec generate w =
     (case generate 1 prompt w of
        (Inl e, w') \<Rightarrow> (Inl e, w')
      | (Inr reply, w') \<Rightarrow>
          (case decode_json dec reply of
             Inr v \<Rightarrow> (Inr v, w')
           | Inl e \<Rightarrow>
               (case generate 2 (prompt @ json_retry_instruction) w' of
                  (Inl e2, w2) \<Rightarrow> (Inl e2, w2)
                | (Inr again, w2) \<Rightarrow>
                    (case decode_json dec again of
                       Inr v \<Rightarrow> (Inr v, w2)
                     | Inl e2 \<Rightarrow> (Inl (decode_error stage e2 again), w2)))))"


section \<open>A value is found in any prose\<close>

text \<open>A text the scan passes over: at depth \<open>d\<close> and outside strings before and after it.\<close>

definition skips :: "int \<Rightarrow> string \<Rightarrow> bool" where
  "skips d s \<longleftrightarrow> (\<forall>i t. scan_close ''{['' ''}]'' d False False i (s @ t)
     = scan_close ''{['' ''}]'' d False False (i + length s) t)"

lemma skips_Nil [simp]: "skips d []"
  by (simp add: skips_def)

lemma skips_append: "skips d s \<Longrightarrow> skips d t \<Longrightarrow> skips d (s @ t)"
  by (simp add: skips_def add.assoc)

lemma skips_char: "c \<notin> set [CHR 0x22, CHR 0x5C, CHR ''{'', CHR ''['', CHR ''}'', CHR '']''] \<Longrightarrow> skips d [c]"
  by (simp add: skips_def)

lemma skips_plain:
  "list_all (\<lambda>c. c \<notin> set [CHR 0x22, CHR 0x5C, CHR ''{'', CHR ''['', CHR ''}'', CHR '']'']) s \<Longrightarrow> skips d s"
proof (induction s)
  case (Cons c s)
  then show ?case using skips_append [OF skips_char [of c d] Cons.IH] by simp
qed simp

lemma skips_join: "skips d sep \<Longrightarrow> list_all (skips d) xs \<Longrightarrow> skips d (join sep xs)"
  by (induction sep xs rule: join.induct) (auto intro: skips_append)

lemma skips_bracket:
  assumes "op \<in> {CHR ''{'', CHR ''[''}" and "cl \<in> {CHR ''}'', CHR '']''}"
    and "skips (d + 1) s" and "d \<noteq> 0"
  shows "skips d (op # s @ [cl])"
  using assms by (auto simp: skips_def)

lemma hex_char_skip: "n < 16 \<Longrightarrow> hex_char n \<notin> {CHR 0x22, CHR 0x5C}"
  by (cases "n < 10") (simp_all add: hex_char_def char_of_eq_iff take_bit_eq_mod)

lemma scan_escape_char:
  "scan_close op cl d True False i (escape_char c @ t)
     = scan_close op cl d True False (i + length (escape_char c)) t"
  using hex_char_skip by (simp add: escape_char_def u_escape_def)

lemma scan_escape_text:
  "scan_close op cl d True False i (escape_text s @ t)
     = scan_close op cl d True False (i + length (escape_text s)) t"
proof (induction s arbitrary: i rule: escape_text.induct)
  case (1 a b c s)
  then show ?case
    using hex_char_skip
    by (auto simp: scan_escape_char u_escape_def add.assoc simp del: escape_char_def)
qed (simp_all add: scan_escape_char add.assoc)

lemma skips_print_str: "skips d (print_str s)"
  by (simp add: skips_def print_str_def scan_escape_text)

lemma digit_char_plain: "n < 10 \<Longrightarrow> digit_char n \<notin> set [CHR 0x22, CHR 0x5C, CHR ''{'', CHR ''['', CHR ''}'', CHR '']'']"
  by (simp add: digit_char_def char_of_eq_iff take_bit_eq_mod)

lemma skips_show_nat: "skips d (show_nat n)"
proof (induction n rule: show_nat.induct)
  case (1 n)
  then show ?case
    using skips_char [OF digit_char_plain] skips_append
    by (cases "n < 10") (simp_all add: show_nat.simps [of n])
qed

lemma skips_print_num: "skips d (print_num r)"
proof -
  have minus: "skips d ''-''" and dot: "skips d ''.''" and zeros: "skips d (replicate n (CHR ''0''))" for n
    by (rule skips_plain, simp add: list_all_iff)+
  have int: "skips d (show_int k)" for k
    using skips_append [OF minus skips_show_nat] skips_show_nat by (simp add: show_int_def)
  have "skips d (show_fixed n r)" for n
    unfolding show_fixed_def pad_zeros_def Let_def
    by (intro skips_append skips_show_nat dot zeros) (simp add: minus)
  with int show ?thesis by (simp add: print_num_def)
qed

lemma skips_print: "d \<noteq> 0 \<Longrightarrow> d > 0 \<Longrightarrow> skips d (print_json v)"
proof (induction v arbitrary: d rule: print_json.induct)
  case (5 vs)
  have "skips (d + 1) (join '','' (map print_json vs))"
    by (rule skips_join) (use 5 in \<open>auto simp: list_all_iff intro: skips_char\<close>)
  then show ?case using 5 by (auto intro: skips_bracket)
next
  case (6 ms)
  have "skips (d + 1) (print_str k @ CHR '':'' # print_json v)" if "(k, v) \<in> set ms" for k v
    using skips_append [OF skips_print_str skips_append [OF skips_char [of "CHR '':''"]]]
      6(1) [OF that refl, of "d + 1"] 6(3) by fastforce
  then have "skips (d + 1) (join '','' (map (\<lambda>(k, v). print_str k @ CHR '':'' # print_json v) ms))"
    by (intro skips_join) (auto simp: list_all_iff intro: skips_char)
  then show ?case using 6 by (auto intro: skips_bracket)
qed (auto intro: skips_plain skips_print_num skips_print_str)


lemma scan_bracketed:
  assumes "op \<in> {CHR ''{'', CHR ''[''}" and "cl \<in> {CHR ''}'', CHR '']''}" and "skips 1 s"
  shows "scan_close ''{['' ''}]'' 0 False False i (op # s @ cl # t) = Some (i + Suc (length s))"
  using assms by (auto simp: skips_def)

text \<open>An array or object as it is printed.\<close>

definition bracketed :: "string \<Rightarrow> bool" where
  "bracketed p \<longleftrightarrow> (\<exists>op s cl. p = op # s @ [cl] \<and> op \<in> {CHR ''{'', CHR ''[''}
     \<and> cl \<in> {CHR ''}'', CHR '']''} \<and> skips 1 s)"

fun composite :: "json \<Rightarrow> bool" where
  "composite (JArr vs) = True"
| "composite (JObj ms) = True"
| "composite v = False"

lemma bracketed_print:
  assumes "composite v"
  shows "bracketed (print_json v)"
proof (cases v)
  case (JArr vs)
  have "skips 1 (join '','' (map print_json vs))"
    by (intro skips_join) (auto simp: list_all_iff intro: skips_char skips_print)
  then show ?thesis by (fastforce simp: bracketed_def JArr)
next
  case (JObj ms)
  have "skips 1 (print_str k @ CHR '':'' # print_json v)" for k v
    using skips_append [OF skips_print_str skips_append [OF skips_char [of "CHR '':''"]
      skips_print [of 1 v]], of k] by simp
  then have "skips 1 (join '','' (map (\<lambda>(k, v). print_str k @ CHR '':'' # print_json v) ms))"
    by (intro skips_join) (auto simp: list_all_iff intro: skips_char)
  then show ?thesis by (fastforce simp: bracketed_def JObj)
qed (use assms in simp_all)

definition no_opening :: "string \<Rightarrow> bool" where
  "no_opening b \<longleftrightarrow> CHR ''{'' \<notin> set b \<and> CHR ''['' \<notin> set b"

text \<open>\<open>s\<close> holds \<open>p\<close>, with no opening bracket before it.\<close>

definition holds_value :: "string \<Rightarrow> string \<Rightarrow> bool" where
  "holds_value p s \<longleftrightarrow> (\<exists>b a. s = b @ p @ a \<and> no_opening b)"

lemma trim_left_holds:
  assumes "bracketed p" and "holds_value p s"
  shows "holds_value p (trim_left_by is_space s)"
proof -
  obtain b a where s: "s = b @ p @ a" and b: "no_opening b" using assms(2) by (auto simp: holds_value_def)
  obtain op r where p: "p = op # r" "\<not> is_space op" using assms(1) by (force simp: bracketed_def is_space_def)
  have "dropWhile is_space (b @ p @ a) = dropWhile is_space b @ p @ a"
    using p by (induction b) auto
  moreover have "no_opening (dropWhile is_space b)"
    using b set_dropWhileD by (fastforce simp: no_opening_def)
  ultimately show ?thesis by (auto simp: holds_value_def trim_left_by_def s)
qed

lemma trim_right_holds:
  assumes "bracketed p" and "holds_value p s"
  shows "holds_value p (trim_right_by is_space s)"
proof -
  obtain b a where s: "s = b @ p @ a" and b: "no_opening b" using assms(2) by (auto simp: holds_value_def)
  obtain r cl where p: "p = r @ [cl]" "\<not> is_space cl"
    using assms(1) by (force simp: bracketed_def is_space_def)
  have "dropWhile is_space (u @ rev p @ rev b) = dropWhile is_space u @ rev p @ rev b" for u
    using p by (induction u) auto
  then have "trim_right_by is_space s = b @ p @ rev (dropWhile is_space (rev a))"
    by (simp add: trim_right_by_def s)
  with b show ?thesis by (auto simp: holds_value_def)
qed

lemma trim_space_holds: "bracketed p \<Longrightarrow> holds_value p s \<Longrightarrow> holds_value p (trim_space s)"
  by (simp add: trim_space_def trim_left_holds trim_right_holds)

lemma trim_prefix_holds:
  assumes "bracketed p" and "holds_value p s" and "no_opening q"
  shows "holds_value p (trim_prefix s q)"
proof (cases "has_prefix s q")
  case True
  obtain b a where s: "s = b @ p @ a" and b: "no_opening b" using assms(2) by (auto simp: holds_value_def)
  obtain t where t: "s = q @ t" using True by (auto simp: has_prefix_iff)
  obtain op r where p: "p = op # r" "op \<in> {CHR ''{'', CHR ''[''}" using assms(1) by (auto simp: bracketed_def)
  have "length q \<le> length b"
  proof (rule ccontr)
    assume "\<not> length q \<le> length b"
    then have "q ! length b = s ! length b" by (simp add: t nth_append)
    also have "\<dots> = op" by (simp add: s p)
    finally have "op \<in> set q" using \<open>\<not> length q \<le> length b\<close> nth_mem [of "length b" q] by simp
    with p(2) assms(3) show False by (auto simp: no_opening_def)
  qed
  then have "trim_prefix s q = drop (length q) b @ p @ a" using True by (simp add: trim_prefix_def s)
  moreover have "no_opening (drop (length q) b)"
    using b set_drop_subset by (fastforce simp: no_opening_def)
  ultimately show ?thesis by (auto simp: holds_value_def)
qed (simp add: trim_prefix_def assms(2))

lemma trim_suffix_holds:
  assumes "bracketed p" and "holds_value p s" and "CHR ''}'' \<notin> set q" and "CHR '']'' \<notin> set q"
  shows "holds_value p (trim_suffix s q)"
proof (cases "has_suffix s q")
  case True
  obtain b a where s: "s = b @ p @ a" and b: "no_opening b" using assms(2) by (auto simp: holds_value_def)
  obtain t where t: "s = t @ q" using True by (auto simp: has_suffix_iff)
  obtain r cl where p: "p = r @ [cl]" "cl \<in> {CHR ''}'', CHR '']''}" using assms(1) by (fastforce simp: bracketed_def)
  have "length q \<le> length a"
  proof (rule ccontr)
    assume "\<not> length q \<le> length a"
    then have "(rev q) ! length a = (rev s) ! length a" by (simp add: t nth_append)
    also have "\<dots> = cl" by (simp add: s p nth_append)
    finally have "cl \<in> set (rev q)"
      using \<open>\<not> length q \<le> length a\<close> nth_mem [of "length a" "rev q"] by simp
    with p(2) assms(3,4) show False by auto
  qed
  then have "trim_suffix s q = b @ p @ take (length a - length q) a"
    using True by (simp add: trim_suffix_def s)
  with b show ?thesis by (auto simp: holds_value_def)
qed (simp add: trim_suffix_def assms(2))

lemma index_any_first:
  "no_opening b \<Longrightarrow> c \<in> {CHR ''{'', CHR ''[''} \<Longrightarrow> index_any (b @ c # t) ''{['' = Some (length b)"
  by (induction b) (auto simp: no_opening_def)

lemma extract_holds:
  assumes "bracketed p" and "holds_value p s"
  shows "extract_json s = p"
proof -
  let ?t = "trim_space (trim_suffix (trim_prefix (trim_prefix (trim_space s) ''```json'') ''```'') ''```'')"
  have "holds_value p ?t"
    by (intro trim_space_holds trim_suffix_holds trim_prefix_holds assms) (simp_all add: no_opening_def)
  then obtain b a where t: "?t = b @ p @ a" and b: "no_opening b" by (auto simp: holds_value_def)
  obtain op r cl where p: "p = op # r @ [cl]" "op \<in> {CHR ''{'', CHR ''[''}" "cl \<in> {CHR ''}'', CHR '']''}"
      "skips 1 r" using assms(1) by (auto simp: bracketed_def)
  have i: "index_any ?t ''{['' = Some (length b)"
    unfolding t using index_any_first [OF b p(2)] by (simp add: p(1))
  have "matching_bracket ?t (length b) = Some (length b + Suc (length r))"
    unfolding t matching_bracket_def using scan_bracketed [OF p(2-4)] by (simp add: p(1))
  then have "extract_json s = take (length b + Suc (length r) + 1 - length b) (drop (length b) ?t)"
    unfolding extract_json_def Let_def i by simp
  then show ?thesis unfolding t by (simp add: p(1))
qed

text \<open>
  an array or object in the form \<open>json.Marshal\<close> writes is cut out whole and decoded from any reply
  that holds it, whatever fences or prose, with brackets or without, come after it, and whatever
  without an opening bracket comes before.
\<close>

lemma decode_json_embedded:
  assumes "composite v" and "int_json v" and "dec v = Some x"
    and "CHR ''{'' \<notin> set before" and "CHR ''['' \<notin> set before"
  shows "extract_json (before @ print_json v @ behind) = print_json v
    \<and> decode_json dec (before @ print_json v @ behind) = Inr x"
proof -
  have "holds_value (print_json v) (before @ print_json v @ behind)"
    using assms(4,5) by (auto simp: holds_value_def no_opening_def)
  from extract_holds [OF bracketed_print [OF assms(1)] this] show ?thesis
    by (simp add: decode_json_def unmarshal_def parse_print_json [OF assms(2)] assms(3))
qed

section \<open>What the repair does to replies that were cut off\<close>

text \<open>
  A reply that ends inside a value keeps what arrived; one that ends inside a key is lost as a whole;
  and the comma before a bracket is removed inside a string as well.
\<close>

lemma cut_in_value: "decode_json Some ''{\"a\":1,\"b\":\"two'' = Inr (JObj [(''a'', JNum 1), (''b'', JStr ''two'')])"
  by code_simp

lemma cut_after_key: "decode_json Some ''{\"a\":1,\"b\":'' = Inr (JObj [(''a'', JNum 1)])"
  by code_simp

lemma cut_in_key: "decode_json Some ''{\"a\":1,\"b'' = Inl json_error"
  by code_simp

lemma comma_in_string_lost: "decode_json Some ''{\"a\":\"x,]y'' = Inr (JObj [(''a'', JStr ''x]y'')])"
  by code_simp

end
