(* ===== verification/PlatformTools.thy ===== *)
theory PlatformTools
  imports ChatText LlmTypes
begin

text \<open>
  The tools a chat may call and the guard in front of them: \<open>platformtools/tool.go\<close>, \<open>catalog.go\<close>,
  \<open>guard.go\<close>, \<open>wrap.go\<close>, \<open>match.go\<close> and the records of \<open>model/chat_envelope.go\<close>. What a tool does
  is any function on the world. A registry is an association list; the order in which Go ranges over
  the map is that of the list. The values a context carries are the record \<open>chat_ctx\<close>.
\<close>

record entity_ref =
  er_kind :: string
  er_id :: string
  er_label :: string
  er_href :: string
  er_url :: string

record clarify_option =
  co_label :: string
  co_value :: string

record session_entity =
  sy_id :: string
  sy_label :: string
  sy_kind :: string
  sy_href :: string
  sy_at :: int

record identity =
  dn_org :: uuid
  dn_user :: uuid
  dn_session :: uuid

text \<open>A nil permission set, \<^const>\<open>None\<close>, allows every tool to be seen.\<close>

record chat_ctx =
  hx_ident :: "identity option"
  hx_perms :: "string list option"
  hx_entities :: "(string \<times> session_entity) list"
  hx_memories :: "string list"

text \<open>The data of a result: none, a \<open>map[string]any\<close>, or anything else that is serialised.\<close>

datatype tool_data = NoData | MapData obj | OtherData json

record tool_result =
  rz_data :: tool_data
  rz_entity :: "entity_ref option"
  rz_entities :: "entity_ref list"
  rz_missing :: "string list"
  rz_options :: "clarify_option list"
  rz_question :: string
  rz_effect :: string

definition data_result :: "tool_data \<Rightarrow> tool_result" where
  "data_result d =
     \<lparr>rz_data = d, rz_entity = None, rz_entities = [], rz_missing = [], rz_options = [],
      rz_question = [], rz_effect = []\<rparr>"

text \<open>
  \<open>PlatformTool\<close>, with the optional \<open>EffectDescriber\<close>: a tool that is none has \<^const>\<open>None\<close> there.
\<close>

record 'w platform_tool =
  pl_name :: string
  pl_desc :: string
  pl_domain :: string
  pl_perm :: string
  pl_destructive :: bool
  pl_read_only :: bool
  pl_schema :: obj
  pl_effect :: "(chat_ctx \<Rightarrow> obj \<Rightarrow> 'w \<Rightarrow> string) option"
  pl_run :: "chat_ctx \<Rightarrow> obj \<Rightarrow> 'w \<Rightarrow> (go_err + tool_result option) \<times> 'w"

type_synonym 'w tool_registry = "(string \<times> 'w platform_tool) list"

section \<open>The registry\<close>

text \<open>\<open>Register\<close> panics on a duplicate name: \<^const>\<open>None\<close>.\<close>

definition register_platform :: "'w platform_tool \<Rightarrow> 'w tool_registry \<Rightarrow> 'w tool_registry option" where
  "register_platform t reg = (if map_of reg (pl_name t) \<noteq> None then None else Some (reg @ [(pl_name t, t)]))"

definition get_platform :: "'w tool_registry \<Rightarrow> string \<Rightarrow> 'w platform_tool option" where
  "get_platform reg n = map_of reg n"

definition filter_by_permissions :: "string list option \<Rightarrow> 'w tool_registry \<Rightarrow> 'w platform_tool list" where
  "filter_by_permissions allowed reg =
     filter (\<lambda>t. pl_perm t = [] \<or> (case allowed of None \<Rightarrow> True | Some ps \<Rightarrow> pl_perm t \<in> set ps))
       (map snd reg)"

definition always_load :: "string list" where
  "always_load =
     [''catalog_search'', ''help'', ''remember'', ''agent_list'', ''agent_execute'', ''task_list'',
      ''task_create'', ''task_get'', ''workflow_list'', ''workflow_run'', ''schedule_create'',
      ''schedule_list'', ''execution_get'', ''usage_summary'', ''my_permissions'', ''agent_board'',
      ''image_generate'', ''review_pull_request'', ''review_run_get'', ''research_run'',
      ''article_generate'', ''pentest_start'', ''mail_sync'', ''mail_list_drafts'', ''career_evaluate'',
      ''career_scan'']"

definition in_always_load :: "string \<Rightarrow> bool" where
  "in_always_load n \<longleftrightarrow> n \<in> set always_load"

definition select_for_turn :: "string list option \<Rightarrow> string list \<Rightarrow> 'w tool_registry \<Rightarrow> 'w platform_tool list" where
  "select_for_turn allowed extra reg =
     filter (\<lambda>t. pl_name t \<in> set (always_load @ extra)) (filter_by_permissions allowed reg)"

definition tool_defs :: "'w platform_tool list \<Rightarrow> tool_def list" where
  "tool_defs ts = map (\<lambda>t. \<lparr>td_name = pl_name t, td_description = pl_desc t, td_parameters = pl_schema t\<rparr>) ts"

definition human_labels :: "(string \<times> string) list" where
  "human_labels =
     [(''catalog_search'', ''Looking up what I can do''), (''help'', ''Checking what I can help with''),
      (''remember'', ''Saving that''), (''agent_list'', ''Looking up your agents''),
      (''agent_get'', ''Opening the agent''), (''agent_create'', ''Creating the agent''),
      (''agent_update'', ''Updating the agent''), (''agent_set_status'', ''Changing agent status''),
      (''agent_delete'', ''Deleting the agent''), (''agent_execute'', ''Running the agent''),
      (''execution_get'', ''Checking that run''), (''execution_cancel'', ''Stopping the run''),
      (''execution_list'', ''Listing past runs''), (''goal_create'', ''Setting a goal''),
      (''goal_get'', ''Checking the goal''), (''agent_set_manager'', ''Updating the org chart''),
      (''task_list'', ''Looking up tasks''), (''task_create'', ''Creating the task''),
      (''task_get'', ''Checking the task''), (''task_update'', ''Updating the task''),
      (''task_transition'', ''Moving the task''), (''task_comment'', ''Adding a comment''),
      (''task_delete'', ''Deleting the task''), (''project_list'', ''Looking up projects''),
      (''project_create'', ''Creating the project''), (''sprint_list'', ''Looking up sprints''),
      (''sprint_create'', ''Creating the sprint''), (''sprint_add_job'', ''Adding work to the sprint''),
      (''workflow_list'', ''Looking up workflows''), (''workflow_get'', ''Opening the workflow''),
      (''workflow_run'', ''Starting the workflow''),
      (''workflow_run_get'', ''Checking the workflow run''),
      (''workflow_create'', ''Creating the workflow''),
      (''multi_agent_run'', ''Starting the collaboration''),
      (''agent_board'', ''Checking who is working on what''), (''research_run'', ''Researching''),
      (''trending_topics'', ''Checking what'' @ [CHR 0x27] @ ''s trending''),
      (''article_generate'', ''Starting the article''),
      (''article_run_get'', ''Checking the article run''),
      (''article_publish'', ''Publishing the article''),
      (''article_run_cancel'', ''Cancelling the article''),
      (''pentest_start'', ''Starting the security test''),
      (''pentest_findings'', ''Reading the findings''), (''pentest_cancel'', ''Cancelling the pentest''),
      (''image_generate'', ''Generating the image''),
      (''review_pull_request'', ''Queueing the PR review''),
      (''review_run_get'', ''Checking the PR review''), (''review_run_list'', ''Listing PR reviews''),
      (''review_allowed_repos'', ''Checking which repos I can review''),
      (''mail_sync'', ''Syncing the mailbox''), (''mail_list_drafts'', ''Looking up mail drafts''),
      (''career_evaluate'', ''Evaluating the role''), (''career_triage'', ''Triaging the posting''),
      (''career_scan'', ''Scanning job boards''), (''career_pipeline_list'', ''Looking up the pipeline''),
      (''career_tracker_list'', ''Looking up the tracker''),
      (''career_set_status'', ''Updating tracker status''),
      (''career_profile_get'', ''Opening the career profile''),
      (''career_profile_update'', ''Updating the career profile''),
      (''career_intake'', ''Reading the document''), (''career_doctor'', ''Checking career health''),
      (''career_blacklist_add'', ''Updating the blacklist''),
      (''career_cover_letter'', ''Drafting the cover letter''),
      (''career_tailor_cv'', ''Tailoring the CV''),
      (''career_email_draft'', ''Drafting the application email''),
      (''career_followup'', ''Drafting a follow-up''),
      (''career_interview_prep'', ''Preparing interview notes''),
      (''career_story_match'', ''Matching STAR stories''), (''career_offer_prep'', ''Walking the offer''),
      (''career_salary_gap'', ''Comparing compensation''), (''career_upskill'', ''Finding skill gaps''),
      (''career_contact'', ''Drafting a contact note''), (''career_batch'', ''Evaluating the pipeline''),
      (''career_deep'', ''Researching the company''), (''career_patterns'', ''Checking career patterns''),
      (''usage_summary'', ''Checking usage''), (''agent_analytics'', ''Checking agent analytics''),
      (''leaderboard'', ''Checking the leaderboard''), (''anomalies'', ''Looking for anomalies''),
      (''budget_status'', ''Checking budgets''), (''policy_list'', ''Listing policies''),
      (''audit_search'', ''Searching the audit log''), (''task_metrics'', ''Checking delivery metrics''),
      (''my_permissions'', ''Checking your permissions''), (''role_list'', ''Listing roles''),
      (''role_assign'', ''Updating roles'')]"

definition human_label :: "string \<Rightarrow> string" where
  "human_label n = (case map_of human_labels n of Some s \<Rightarrow> s | None \<Rightarrow> ''Working'') @ utf8 8230"

section \<open>Searching the catalogue\<close>

definition catalog_stop :: "string list" where
  "catalog_stop =
     [''a'', ''an'', ''the'', ''of'', ''to'', ''for'', ''and'', ''or'', ''in'', ''on'', ''my'', ''me'', ''i'',
      ''you'', ''we'', ''from'', ''with'', ''that'', ''this'', ''it'', ''is'', ''be'', ''do'', ''can'', ''please'',
      ''want'', ''need'']"

definition catalog_score :: "string \<Rightarrow> string \<Rightarrow> nat" where
  "catalog_score query0 blob =
     (let query = trim_space (to_lower query0) in
      if query = [] then 1
      else if str_contains blob query then 100
      else length (filter (\<lambda>tok. \<not> (length tok < 3 \<or> tok \<in> set catalog_stop) \<and> str_contains blob tok)
        (fields_func is_space (map (\<lambda>c. if lower_char c \<or> is_digit c then c else CHR '' '') query))))"

definition catalog_better :: "'w platform_tool \<times> nat \<Rightarrow> 'w platform_tool \<times> nat \<Rightarrow> bool" where
  "catalog_better x y \<longleftrightarrow>
     (if snd x \<noteq> snd y then snd x > snd y else str_less (pl_name (fst x)) (pl_name (fst y)))"

definition catalog_matches :: "string list option \<Rightarrow> string \<Rightarrow> 'w tool_registry \<Rightarrow> 'w platform_tool list" where
  "catalog_matches perms query reg =
     (let scored = map (\<lambda>t. (t, catalog_score query
            (to_lower (pl_name t @ '' '' @ pl_desc t @ '' '' @ pl_domain t))))
            (filter (\<lambda>t. \<not> in_always_load (pl_name t)) (filter_by_permissions perms reg))
      in map fst (take 12 (stable_sort catalog_better (filter (\<lambda>x. snd x > 0) scored))))"

text \<open>\<open>fmt.Sprint\<close> of a decoded value.\<close>

fun sprint :: "json \<Rightarrow> string" where
  "sprint JNull = ''<nil>''"
| "sprint (JBool b) = (if b then ''true'' else ''false'')"
| "sprint (JNum r) = print_num r"
| "sprint (JStr s) = s"
| "sprint (JArr vs) = ''['' @ join '' '' (map sprint vs) @ '']''"
| "sprint (JObj ms) =
     ''map['' @ join '' '' (map (\<lambda>(k, s). k @ '':'' @ s)
        (stable_sort (\<lambda>a b. str_less (fst a) (fst b)) (map (\<lambda>(k, v). (k, sprint v)) ms))) @ '']''"

definition str_arg :: "obj \<Rightarrow> string \<Rightarrow> string" where
  "str_arg inp k =
     (case map_of inp k of None \<Rightarrow> [] | Some JNull \<Rightarrow> [] | Some v \<Rightarrow> trim_space (sprint v))"

definition bool_arg :: "obj \<Rightarrow> string \<Rightarrow> bool \<Rightarrow> bool" where
  "bool_arg inp k fallback =
     (case map_of inp k of
        Some (JBool b) \<Rightarrow> b
      | Some (JStr s) \<Rightarrow>
          (let l = to_lower (trim_space s) in
           if l \<in> {''true'', ''1'', ''yes''} then True
           else if l \<in> {''false'', ''0'', ''no''} then False else fallback)
      | _ \<Rightarrow> fallback)"

definition catalog_entry :: "'w platform_tool \<Rightarrow> json" where
  "catalog_entry t =
     JObj [(''name'', JStr (pl_name t)), (''description'', JStr (pl_desc t)),
       (''domain'', JStr (pl_domain t)), (''schema'', JObj (pl_schema t))]"

definition catalog_search :: "'w tool_registry \<Rightarrow> chat_ctx \<Rightarrow> obj \<Rightarrow> tool_result" where
  "catalog_search reg cx inp =
     (let found = catalog_matches (hx_perms cx) (to_lower (str_arg inp ''query'')) reg in
      data_result (MapData
        [(''tools'', JArr (map catalog_entry found)), (''names'', JArr (map (JStr \<circ> pl_name) found))]))"

section \<open>Names\<close>

datatype 'a name_match = Unique 'a | Candidates "'a list"

definition by_name :: "'a list \<Rightarrow> string \<Rightarrow> ('a \<Rightarrow> string) \<Rightarrow> 'a name_match" where
  "by_name items query name_of =
     (let q = trim_space query;
          exact = filter (\<lambda>x. equal_fold (name_of x) q) items;
          partial = filter (\<lambda>x. \<not> equal_fold (name_of x) q
            \<and> str_contains (to_lower (name_of x)) (to_lower q)) items
      in if q = [] then Candidates []
         else case exact of [x] \<Rightarrow> Unique x | [] \<Rightarrow> Candidates partial | _ \<Rightarrow> Candidates exact)"

definition clarify_from_match ::
  "string \<Rightarrow> string \<Rightarrow> string \<Rightarrow> 'a list \<Rightarrow> ('a \<Rightarrow> string) \<Rightarrow> tool_result" where
  "clarify_from_match kind query slot candidates name_of =
     (let q = quote (if query = [] then kind else query);
          names = map name_of candidates in
      (data_result (MapData [(''candidates'', JArr (map JStr names))]))
        \<lparr>rz_missing := [if slot = [] then kind else slot],
         rz_options := map (\<lambda>n. \<lparr>co_label = n, co_value = n\<rparr>) names,
         rz_question :=
           (if candidates = []
            then ''I couldn'' @ [CHR 0x27] @ ''t find a '' @ kind @ '' named '' @ q
              @ ''. Pick one of these, or tell me another name.''
            else ''I found more than one '' @ kind @ '' matching '' @ q @ ''. Which did you mean?'')\<rparr>)"

definition not_found_clarify :: "string \<Rightarrow> string \<Rightarrow> string \<Rightarrow> clarify_option list \<Rightarrow> tool_result" where
  "not_found_clarify kind query slot options =
     (let q = trim_space query in
      (data_result NoData)
        \<lparr>rz_missing := [if slot = [] then kind else slot], rz_options := options,
         rz_question :=
           (if q = [] then ''Which '' @ kind @ '' should I use?''
            else ''I couldn'' @ [CHR 0x27] @ ''t find a '' @ kind @ '' named '' @ quote q @ ''.'')
           @ (if options = [] then [] else '' Here are the ones I can see.'')\<rparr>)"

section \<open>Arguments and results\<close>

definition strip_org_args :: "obj \<Rightarrow> obj" where
  "strip_org_args inp =
     filter (\<lambda>(k, v). to_lower k \<notin> {''org_id'', ''orgid'', ''organization_id'', ''organisation_id''}) inp"

definition wrap_untrusted :: "string \<Rightarrow> json \<Rightarrow> string" where
  "wrap_untrusted tool payload =
     begin_mark @ '' name='' @ tool @ [CHR 0x0A] @ marshal_any payload @ [CHR 0x0A] @ end_mark
     @ [CHR 0x0A] @ scaffold_trailer"

section \<open>The guard\<close>

definition err_denied :: string where "err_denied = ''permission denied''"
definition err_needs_confirm :: string where "err_needs_confirm = ''confirmation required''"
definition err_policy :: string where "err_policy = ''blocked by policy''"
definition err_unknown_tool :: string where "err_unknown_tool = ''unknown tool''"
definition err_no_identity :: string where "err_no_identity = ''not authenticated''"

text \<open>
  \<open>UserHasPermission\<close>, \<open>UserPermissions\<close> and \<open>EnforcePolicy\<close> of the services behind the guard; one
  that is not wired is \<^const>\<open>None\<close>. \<open>Policies\<close> and its cache are used by no code.
\<close>

record 'w guard =
  gd_has :: "(uuid \<Rightarrow> uuid \<Rightarrow> string \<Rightarrow> 'w \<Rightarrow> (go_err + bool) \<times> 'w) option"
  gd_perms :: "(uuid \<Rightarrow> uuid \<Rightarrow> 'w \<Rightarrow> (go_err + string list) \<times> 'w) option"
  gd_enforce :: "(uuid \<Rightarrow> uuid \<Rightarrow> string \<Rightarrow> string \<Rightarrow> 'w \<Rightarrow> go_err option \<times> 'w) option"

definition permissions_for :: "'w guard \<Rightarrow> identity \<Rightarrow> 'w \<Rightarrow> (go_err + string list option) \<times> 'w" where
  "permissions_for g ident w =
     (case gd_perms g of
        None \<Rightarrow> (Inr None, w)
      | Some perms \<Rightarrow>
          (case perms (dn_user ident) (dn_org ident) w of
             (Inl e, w') \<Rightarrow> (Inl e, w')
           | (Inr ps, w') \<Rightarrow> (Inr (Some ps), w')))"

definition guard_error_text :: "go_err \<Rightarrow> string" where
  "guard_error_text e =
     trim_prefix (trim_prefix (err_text e) ''execution blocked by policy: '') ''budget limit exceeded: ''"

definition check_guard_policy :: "'w guard \<Rightarrow> identity \<Rightarrow> 'w platform_tool \<Rightarrow> 'w \<Rightarrow> go_err option \<times> 'w" where
  "check_guard_policy g ident t w =
     (case gd_enforce g of
        None \<Rightarrow> (None, w)
      | Some enforce \<Rightarrow>
          if pl_name t \<in> {''agent_execute'', ''workflow_run'', ''multi_agent_run'', ''goal_create''} then
            (case enforce (dn_org ident) uuid_nil [] [] w of
               (None, w') \<Rightarrow> (None, w')
             | (Some e, w') \<Rightarrow>
                 (Some (ErrAround [] (ErrSentinel err_policy) ('': '' @ guard_error_text e)), w'))
          else (None, w))"

definition check_rbac :: "'w guard \<Rightarrow> identity \<Rightarrow> 'w platform_tool \<Rightarrow> 'w \<Rightarrow> go_err option \<times> 'w" where
  "check_rbac g ident t w =
     (case gd_has g of
        None \<Rightarrow> (None, w)
      | Some has \<Rightarrow>
          if pl_perm t = [] then (None, w)
          else (case has (dn_user ident) (dn_org ident) (pl_perm t) w of
                  (Inl e, w') \<Rightarrow> (Some e, w')
                | (Inr True, w') \<Rightarrow> (None, w')
                | (Inr False, w') \<Rightarrow>
                    (Some (ErrAround [] (ErrSentinel err_denied)
                       ('': you need the '' @ pl_perm t
                        @ '' permission. Ask an organisation admin to grant it'')), w')))"

definition check_guard ::
  "'w guard \<Rightarrow> chat_ctx \<Rightarrow> 'w platform_tool \<Rightarrow> bool \<Rightarrow> 'w \<Rightarrow> go_err option \<times> 'w" where
  "check_guard g cx t confirmed w =
     (case hx_ident cx of
        None \<Rightarrow> (Some (ErrSentinel err_no_identity), w)
      | Some ident \<Rightarrow>
          if dn_org ident = uuid_nil then (Some (ErrSentinel err_no_identity), w)
          else
            (case check_guard_policy g ident t w of
               (Some e, w1) \<Rightarrow> (Some e, w1)
             | (None, w1) \<Rightarrow>
                 (case check_rbac g ident t w1 of
                    (Some e, w2) \<Rightarrow> (Some e, w2)
                  | (None, w2) \<Rightarrow>
                      if pl_destructive t \<and> \<not> confirmed then
                        (Some (ErrAround [] (ErrSentinel err_needs_confirm) ('': '' @ pl_name t)), w2)
                      else (None, w2))))"

section \<open>Lemmas\<close>

text \<open>
  The block that is to hold a result as data does not hold it: its end mark is not escaped, so a
  result that contains the mark, say in the title of a task, ends the block where it likes.
\<close>

lemma wrap_ends_early:
  "wrap_untrusted tool (JObj [(''data'', JStr (end_mark @ s))])
     = begin_mark @ '' name='' @ tool @ [CHR 0x0A] @ ''{\"data\":\"'' @ end_mark @ escape_text s @ ''\"}''
       @ [CHR 0x0A] @ end_mark @ [CHR 0x0A] @ scaffold_trailer"
proof -
  have "escape_text (end_mark @ s) = end_mark @ escape_text s"
    by (cases s; cases "tl s") (simp_all add: end_mark_def escape_char_def)
  then show ?thesis
    by (simp add: wrap_untrusted_def marshal_any_def print_str_def escape_char_def)
qed

lemma select_for_turn_allowed:
  "t \<in> set (select_for_turn (Some ps) extra reg) \<Longrightarrow> pl_perm t = [] \<or> pl_perm t \<in> set ps"
  by (auto simp: select_for_turn_def filter_by_permissions_def)

lemma check_guard_confirms:
  "check_guard g cx t confirmed w = (None, w') \<Longrightarrow> pl_destructive t \<Longrightarrow> confirmed"
  by (auto simp: check_guard_def split: option.splits if_splits prod.splits)

end
