(* ===== verification/ChatMemory.thy ===== *)
theory ChatMemory
  imports PlatformTools GoEncoding
begin

text \<open>
  What a chat remembers between turns (\<open>chatagent/memory.go\<close>, \<open>model/chat.go\<close>): the transcript, of which
  a window fits the model's context, and the session's metadata, a JSON object that holds the summary,
  the entities talked about, the call that waits for a missing detail, the destructive call that waits
  for an approval, and the tools found so far. Times are milliseconds; how one is written (in the
  server's zone) is a parameter \<open>stamp\<close>, how it is read is \<^const>\<open>parse_rfc3339\<close>.
\<close>

record chat_message =
  ch_id :: uuid
  ch_session :: uuid
  ch_org :: uuid
  ch_role :: string
  ch_source :: string
  ch_content :: string
  ch_meta :: obj

record pending_action =
  pa_tool :: string
  pa_args :: obj
  pa_missing :: "string list"
  pa_question :: string

text \<open>The zero time, of an expiry that cannot be read, is \<^const>\<open>None\<close>.\<close>

record pending_confirmation =
  pc_token :: string
  pc_tool :: string
  pc_args :: obj
  pc_summary :: string
  pc_effect :: string
  pc_expires :: "int option"

definition as_string :: "json option \<Rightarrow> string" where
  "as_string v =
     (case v of
        None \<Rightarrow> [] | Some JNull \<Rightarrow> [] | Some (JStr s) \<Rightarrow> s | Some x \<Rightarrow> trim_space (sprint x))"

section \<open>The window\<close>

definition window_budget :: int where "window_budget = 6000"

definition estimate_tokens :: "string \<Rightarrow> int" where
  "estimate_tokens s = (let n = (int (length s) + 3) div 4 in if n < 1 then 1 else n)"

text \<open>How many messages are kept, from the newest on, \<open>k\<close> of \<open>u\<close> tokens being kept already.\<close>

fun window_keep :: "int \<Rightarrow> int \<Rightarrow> nat \<Rightarrow> chat_message list \<Rightarrow> nat" where
  "window_keep b u k [] = k"
| "window_keep b u k (m # ms) =
     (if u + estimate_tokens (ch_content m) > b \<and> k \<ge> 4 then k
      else window_keep b (u + estimate_tokens (ch_content m)) (Suc k) ms)"

definition drop_orphan_tools :: "chat_message list \<Rightarrow> chat_message list" where
  "drop_orphan_tools ms = dropWhile (\<lambda>m. ch_role m = ''tool'') ms"

definition window :: "chat_message list \<Rightarrow> int \<Rightarrow> chat_message list \<times> chat_message list" where
  "window history budget0 =
     (let budget = (if budget0 \<le> 0 then window_budget else budget0) in
      if length history \<le> 4 then (drop_orphan_tools history, [])
      else (let cut = length history - window_keep budget 0 0 (rev history)
            in (drop_orphan_tools (drop cut history), take cut history)))"

section \<open>Messages for the model\<close>

definition call_of_json :: "json \<Rightarrow> tool_call option" where
  "call_of_json v =
     (case v of
        JObj ms \<Rightarrow>
          Some \<lparr>tc_id = as_string (map_of ms ''id''), tc_name = as_string (map_of ms ''name''),
                tc_arguments = Some (case map_of ms ''arguments'' of Some (JObj args) \<Rightarrow> args | _ \<Rightarrow> [])\<rparr>
      | _ \<Rightarrow> None)"

definition tool_calls_from_meta :: "obj \<Rightarrow> tool_call list" where
  "tool_calls_from_meta meta =
     (case map_of meta ''tool_calls'' of Some (JArr vs) \<Rightarrow> List.map_filter call_of_json vs | _ \<Rightarrow> [])"

definition llm_role_of :: "string \<Rightarrow> string" where
  "llm_role_of r =
     (if r = ''agent'' then role_assistant else if r = ''system'' then role_system
      else if r = ''tool'' then role_tool else role_user)"

definition to_llm_history :: "chat_message list \<Rightarrow> llm_message list" where
  "to_llm_history ms =
     map (\<lambda>m. \<lparr>msg_role = llm_role_of (ch_role m), msg_content = ch_content m,
               msg_tool_calls = tool_calls_from_meta (ch_meta m),
               msg_tool_call_id = as_string (map_of (ch_meta m) ''tool_call_id'')\<rparr>) ms"

text \<open>\<open>stripSecretArgs\<close> of \<open>agent.go\<close>.\<close>

definition secret_key :: "string \<Rightarrow> bool" where
  "secret_key k \<longleftrightarrow>
     (let lk = to_lower k in
      str_contains lk ''token'' \<or> str_contains lk ''secret'' \<or> str_contains lk ''password''
      \<or> lk = ''api_key'' \<or> has_suffix lk ''_key'')"

definition strip_secret_args :: "obj \<Rightarrow> obj" where
  "strip_secret_args args = filter (\<lambda>(k, v). \<not> secret_key k) args"

definition call_args :: "tool_call \<Rightarrow> obj" where
  "call_args c = (case tc_arguments c of None \<Rightarrow> [] | Some args \<Rightarrow> args)"

definition tool_calls_meta :: "tool_call list \<Rightarrow> json list" where
  "tool_calls_meta cs =
     map (\<lambda>c. JObj [(''id'', JStr (tc_id c)), (''name'', JStr (tc_name c)),
                    (''arguments'', JObj (strip_secret_args (call_args c)))]) cs"

section \<open>Metadata\<close>

definition read_summary :: "obj \<Rightarrow> string" where
  "read_summary meta = (case map_of meta ''summary'' of Some (JStr s) \<Rightarrow> s | _ \<Rightarrow> [])"

definition entity_idle :: int where "entity_idle = 24 * 3600000"
definition confirm_ttl :: int where "confirm_ttl = 600000"

definition read_entity :: "int \<Rightarrow> string \<times> json \<Rightarrow> (string \<times> session_entity) option" where
  "read_entity now kv =
     (case snd kv of
        JObj ms \<Rightarrow>
          (let s = (\<lambda>k. as_string (map_of ms k));
               stored = (case parse_rfc3339 (s ''at'') of Some t \<Rightarrow> t * 1000 | None \<Rightarrow> now)
           in if now - stored > entity_idle then None
              else Some (fst kv, \<lparr>sy_id = s ''id'', sy_label = s ''label'', sy_kind = s ''kind'',
                                  sy_href = s ''href'', sy_at = stored\<rparr>))
      | _ \<Rightarrow> None)"

definition read_entities :: "int \<Rightarrow> obj \<Rightarrow> (string \<times> session_entity) list" where
  "read_entities now meta =
     (case map_of meta ''entities'' of Some (JObj raw) \<Rightarrow> List.map_filter (read_entity now) raw | _ \<Rightarrow> [])"

definition write_entities :: "(int \<Rightarrow> string) \<Rightarrow> (string \<times> session_entity) list \<Rightarrow> obj \<Rightarrow> obj" where
  "write_entities stamp ents meta =
     aput ''entities'' (JObj (map (\<lambda>(k, e). (k, JObj
       [(''id'', JStr (sy_id e)), (''label'', JStr (sy_label e)), (''kind'', JStr (sy_kind e)),
        (''href'', JStr (sy_href e)), (''at'', JStr (stamp (sy_at e)))])) ents)) meta"

definition upsert_entities ::
  "int \<Rightarrow> entity_ref list \<Rightarrow> (string \<times> session_entity) list \<Rightarrow> (string \<times> session_entity) list" where
  "upsert_entities now refs ents =
     fold (\<lambda>r. aput (''last_'' @ er_kind r)
       \<lparr>sy_id = er_id r, sy_label = er_label r, sy_kind = er_kind r, sy_href = er_href r, sy_at = now\<rparr>)
       refs ents"

definition read_pending :: "obj \<Rightarrow> pending_action option" where
  "read_pending meta =
     (case map_of meta ''pending_action'' of
        Some (JObj raw) \<Rightarrow>
          (let tool = as_string (map_of raw ''tool'') in
           if tool = [] then None
           else Some
             \<lparr>pa_tool = tool, pa_args = (case map_of raw ''args'' of Some (JObj args) \<Rightarrow> args | _ \<Rightarrow> []),
              pa_missing = (case map_of raw ''missing'' of
                 Some (JArr vs) \<Rightarrow> map (\<lambda>v. as_string (Some v)) vs | _ \<Rightarrow> []),
              pa_question = as_string (map_of raw ''question'')\<rparr>)
      | _ \<Rightarrow> None)"

text \<open>The time a question was asked is written as the present one: no caller has another.\<close>

definition write_pending :: "(int \<Rightarrow> string) \<Rightarrow> int \<Rightarrow> pending_action option \<Rightarrow> obj \<Rightarrow> obj" where
  "write_pending stamp now p meta =
     (case p of
        None \<Rightarrow> adel ''pending_action'' meta
      | Some a \<Rightarrow> aput ''pending_action'' (JObj
          [(''tool'', JStr (pa_tool a)), (''args'', JObj (pa_args a)),
           (''missing'', JArr (map JStr (pa_missing a))), (''asked_at'', JStr (stamp now)),
           (''question'', JStr (pa_question a))]) meta)"

definition zero_time_secs :: int where "zero_time_secs = - 62135596800"

definition read_expiry :: "obj \<Rightarrow> int option" where
  "read_expiry raw =
     (case parse_rfc3339 (as_string (map_of raw ''expires_at'')) of
        None \<Rightarrow> None
      | Some s \<Rightarrow> if s = zero_time_secs then None else Some (s * 1000))"

definition read_confirm :: "int \<Rightarrow> obj \<Rightarrow> pending_confirmation option" where
  "read_confirm now meta =
     (case map_of meta ''pending_confirmation'' of
        Some (JObj raw) \<Rightarrow>
          (let s = (\<lambda>k. as_string (map_of raw k)); expiry = read_expiry raw in
           if (case expiry of Some t \<Rightarrow> now > t | None \<Rightarrow> False) then None
           else Some
             \<lparr>pc_token = s ''token'', pc_tool = s ''tool'',
              pc_args = (case map_of raw ''args'' of Some (JObj args) \<Rightarrow> args | _ \<Rightarrow> []),
              pc_summary = s ''summary'', pc_effect = s ''effect'', pc_expires = expiry\<rparr>)
      | _ \<Rightarrow> None)"

definition zero_stamp :: string where "zero_stamp = ''0001-01-01T00:00:00Z''"

definition write_confirm :: "(int \<Rightarrow> string) \<Rightarrow> pending_confirmation option \<Rightarrow> obj \<Rightarrow> obj" where
  "write_confirm stamp c meta =
     (case c of
        None \<Rightarrow> adel ''pending_confirmation'' meta
      | Some p \<Rightarrow> aput ''pending_confirmation'' (JObj
          [(''token'', JStr (pc_token p)), (''tool'', JStr (pc_tool p)), (''args'', JObj (pc_args p)),
           (''summary'', JStr (pc_summary p)), (''effect'', JStr (pc_effect p)),
           (''expires_at'', JStr (case pc_expires p of Some t \<Rightarrow> stamp t | None \<Rightarrow> zero_stamp))]) meta)"

definition read_disclosed :: "obj \<Rightarrow> string list" where
  "read_disclosed meta =
     (case map_of meta ''disclosed_tools'' of
        Some (JArr vs) \<Rightarrow> filter (\<lambda>s. s \<noteq> []) (map (\<lambda>v. as_string (Some v)) vs) | _ \<Rightarrow> [])"

definition add_disclosed :: "string list \<Rightarrow> obj \<Rightarrow> obj" where
  "add_disclosed names meta =
     aput ''disclosed_tools'' (JArr (map JStr
       (remdups (read_disclosed meta @ filter (\<lambda>n. n \<noteq> []) names)))) meta"

section \<open>Lemmas\<close>

lemma estimate_pos: "estimate_tokens s \<ge> 1"
  by (simp add: estimate_tokens_def Let_def)

definition tokens_of :: "chat_message list \<Rightarrow> int" where
  "tokens_of ms = sum_list (map (\<lambda>m. estimate_tokens (ch_content m)) ms)"

lemma tokens_of_simps [simp]:
  "tokens_of [] = 0" "tokens_of (m # ms) = estimate_tokens (ch_content m) + tokens_of ms"
  "tokens_of (xs @ ys) = tokens_of xs + tokens_of ys"
  by (simp_all add: tokens_of_def)

lemma tokens_of_rev [simp]: "tokens_of (rev ms) = tokens_of ms"
  by (simp add: tokens_of_def rev_map [symmetric])

text \<open>What \<^const>\<open>window_keep\<close> takes of the rest: as many as fit, but four in any case.\<close>

lemma window_keep_spec:
  assumes "u \<le> b \<or> k \<le> 4"
  shows "\<exists>n. window_keep b u k ms = k + n \<and> n \<le> length ms
    \<and> (u + tokens_of (take n ms) \<le> b \<or> k + n \<le> 4)
    \<and> (n < length ms \<longrightarrow> k + n \<ge> 4 \<and> u + tokens_of (take (Suc n) ms) > b)"
  using assms
proof (induction b u k ms rule: window_keep.induct)
  case (2 b u k m ms)
  show ?case
  proof (cases "u + estimate_tokens (ch_content m) > b \<and> k \<ge> 4")
    case True
    then show ?thesis using 2(2) by (intro exI [of _ 0]) auto
  next
    case False
    then have "u + estimate_tokens (ch_content m) \<le> b \<or> Suc k \<le> 4" by linarith
    from 2(1) [OF False this] obtain n where
      n: "window_keep b (u + estimate_tokens (ch_content m)) (Suc k) ms = Suc k + n" "n \<le> length ms"
      "u + estimate_tokens (ch_content m) + tokens_of (take n ms) \<le> b \<or> Suc k + n \<le> 4"
      "n < length ms \<longrightarrow> Suc k + n \<ge> 4 \<and> u + estimate_tokens (ch_content m) + tokens_of (take (Suc n) ms) > b"
      by blast
    show ?thesis using n False by (intro exI [of _ "Suc n"]) auto
  qed
qed simp

text \<open>
  the window is what is left of the transcript's end without the tool results whose call was cut
  off; all the rest is evicted. It fits the budget or is the last four messages, and one message more
  would not fit.
\<close>

lemma window_fits:
  assumes "window history budget = (kept, evicted)" and "budget > 0"
  shows "\<exists>recent. history = evicted @ recent \<and> kept = drop_orphan_tools recent
    \<and> (tokens_of recent \<le> budget \<or> length recent \<le> 4)
    \<and> (evicted \<noteq> [] \<longrightarrow> length recent \<ge> 4 \<and> tokens_of (last evicted # recent) > budget)"
proof (cases "length history \<le> 4")
  case True
  then show ?thesis using assms(1) by (intro exI [of _ history]) (auto simp: window_def Let_def)
next
  case False
  obtain n where n: "window_keep budget 0 0 (rev history) = n" "n \<le> length history"
      "tokens_of (take n (rev history)) \<le> budget \<or> n \<le> 4"
      "n < length history \<longrightarrow> n \<ge> 4 \<and> tokens_of (take (Suc n) (rev history)) > budget"
    using window_keep_spec [of 0 budget 0 "rev history"] by auto
  define cut where "cut = length history - n"
  have kept: "kept = drop_orphan_tools (drop cut history)" "evicted = take cut history"
    using assms False n(1) by (auto simp: window_def Let_def cut_def)
  have recent: "take n (rev history) = rev (drop cut history)"
    using n(2) by (simp add: take_rev cut_def)
  have "tokens_of (last evicted # drop cut history) > budget" if "evicted \<noteq> []"
  proof -
    have c: "cut \<ge> 1" "cut \<le> length history" using that kept(2) by (auto simp: cut_def Suc_le_eq)
    have "last evicted = history ! (cut - 1)"
      using that c kept(2) by (simp add: last_conv_nth min_def)
    then have "last evicted # drop cut history = drop (cut - 1) history"
      using c Cons_nth_drop_Suc [of "cut - 1" history] by simp
    moreover have "take (Suc n) (rev history) = rev (drop (cut - 1) history)"
      using c by (simp add: take_rev cut_def Suc_diff_le)
    moreover have "n < length history" using c by (simp add: cut_def)
    ultimately show ?thesis using n(4) by simp
  qed
  moreover have "length (drop cut history) = n" using n(2) by (simp add: cut_def)
  moreover have "n < length history" if "evicted \<noteq> []"
    using that kept(2) by (auto simp: cut_def)
  ultimately show ?thesis
    using kept n(3,4) recent by (intro exI [of _ "drop cut history"]) auto
qed

definition long_message :: chat_message where
  "long_message =
     \<lparr>ch_id = 1, ch_session = 1, ch_org = 1, ch_role = ''user'', ch_source = [],
      ch_content = replicate 40 (CHR ''x''), ch_meta = []\<rparr>"

end
