(* ===== verification/ChatProps.thy ===== *)
theory ChatProps
  imports ChatAgent
begin

text \<open>
  What a chat guarantees about destructive tools: none runs before the user has approved exactly that
  call, and an approval is good for one run. The locale holds what a turn keeps of the world whatever
  the model answers; it is interpreted on an agent that logs the tools it runs.
\<close>

section \<open>What a turn keeps\<close>

lemma run_tool_world: "snd (run_tool cx t args act w) = snd (pl_run t cx (strip_org_args args) w)"
  by (simp add: run_tool_def split: prod.split sum.split)

locale chat_world =
  fixes ag :: "'w chat_agent" and g :: "'w guard" and I :: "'w \<Rightarrow> bool"
  assumes guarded: "ga_guard ag = Some g"
    and client_keeps: "ga_client ag = Some c \<Longrightarrow> I w \<Longrightarrow> I (snd (cl_generate c gx rq w))"
    and recall_keeps: "ga_memory ag = Some f \<Longrightarrow> I w \<Longrightarrow> I (snd (f user msg w))"
    and has_keeps: "gd_has g = Some h \<Longrightarrow> I w \<Longrightarrow> I (snd (h user org perm w))"
    and perms_keeps: "gd_perms g = Some p \<Longrightarrow> I w \<Longrightarrow> I (snd (p user org w))"
    and enforce_keeps: "gd_enforce g = Some e \<Longrightarrow> I w \<Longrightarrow> I (snd (e org agent prov mdl w))"
    and safe_keeps: "get_platform (ga_reg ag) n = Some t \<Longrightarrow> \<not> pl_destructive t \<Longrightarrow> I w \<Longrightarrow>
      I (snd (pl_run t cx args w))"
begin

lemma policy_keeps: "I w \<Longrightarrow> I (snd (check_guard_policy g ident t w))"
proof -
  have "snd (check_guard_policy g ident t w) = (case gd_enforce g of
      Some e \<Rightarrow> if pl_name t \<in> {''agent_execute'', ''workflow_run'', ''multi_agent_run'', ''goal_create''}
        then snd (e (dn_org ident) uuid_nil [] [] w) else w
    | None \<Rightarrow> w)"
    by (auto simp: check_guard_policy_def split: option.splits prod.splits)
  then show "I w \<Longrightarrow> I (snd (check_guard_policy g ident t w))"
    using enforce_keeps by (simp split: option.split)
qed

lemma rbac_keeps: "I w \<Longrightarrow> I (snd (check_rbac g ident t w))"
proof -
  have "snd (check_rbac g ident t w) = (case gd_has g of
      Some h \<Rightarrow> if pl_perm t = [] then w else snd (h (dn_user ident) (dn_org ident) (pl_perm t) w)
    | None \<Rightarrow> w)"
    by (auto simp: check_rbac_def split: option.splits prod.splits sum.splits bool.splits)
  then show "I w \<Longrightarrow> I (snd (check_rbac g ident t w))"
    using has_keeps by (simp split: option.split)
qed

lemma guard_keeps:
  assumes "I w" and "check_guard g cx t confirmed w = (e, w')"
  shows "I w'"
proof (cases "hx_ident cx")
  case None
  then show ?thesis using assms by (simp add: check_guard_def)
next
  case (Some ident)
  obtain e1 w1 where p: "check_guard_policy g ident t w = (e1, w1)" by (metis surj_pair)
  obtain e2 w2 where r: "check_rbac g ident t w1 = (e2, w2)" by (metis surj_pair)
  have "I w1" using policy_keeps [OF assms(1)] p by (metis snd_conv)
  moreover from this have "I w2" using rbac_keeps r by (metis snd_conv)
  ultimately show ?thesis
    using assms Some p r by (auto simp: check_guard_def split: option.splits if_splits)
qed

text \<open>What a call that is not confirmed keeps, and what a confirmed one adds.\<close>

lemma execute_keeps:
  assumes "I w"
  shows "I (snd (execute_chat_tool ag cx n args False w))"
proof (cases "get_platform (ga_reg ag) n")
  case None
  then show ?thesis using assms by (simp add: execute_chat_tool_def Let_def)
next
  case (Some t)
  obtain e w1 where c: "check_guard g cx t False w = (e, w1)" by (metis surj_pair)
  have I1: "I w1" by (rule guard_keeps [OF assms c])
  show ?thesis
  proof (cases e)
    case None
    then have "\<not> pl_destructive t" using check_guard_confirms [of g cx t False w w1] c by auto
    then show ?thesis
      using safe_keeps [OF Some] I1 c None
      by (simp add: execute_chat_tool_def Let_def Some guarded run_tool_world)
  next
    case (Some e')
    then show ?thesis
      using I1 c \<open>get_platform (ga_reg ag) n = Some t\<close>
      by (simp add: execute_chat_tool_def Let_def guarded)
  qed
qed

lemma execute_confirmed:
  assumes "I w"
  shows "I (snd (execute_chat_tool ag cx n args True w))
    \<or> (\<exists>t w1. I w1 \<and> get_platform (ga_reg ag) n = Some t
        \<and> snd (execute_chat_tool ag cx n args True w) = snd (pl_run t cx (strip_org_args args) w1))"
proof (cases "get_platform (ga_reg ag) n")
  case None
  then show ?thesis using assms by (simp add: execute_chat_tool_def Let_def)
next
  case (Some t)
  obtain e w1 where c: "check_guard g cx t True w = (e, w1)" by (metis surj_pair)
  have I1: "I w1" by (rule guard_keeps [OF assms c])
  show ?thesis
    using I1 c Some
    by (cases e) (auto simp: execute_chat_tool_def Let_def guarded run_tool_world)
qed

lemma react_keeps:
  assumes "ga_client ag = Some c" and "I w"
  shows "I (snd (react_next c gx ms defs w))"
proof -
  let ?msgs = "react_messages ms defs"
  let ?again = "chat_request (?msgs @ [plain_message role_system react_retry_nudge]) []"
  obtain o1 w1 where g1: "cl_generate c gx (chat_request ?msgs []) w = (o1, w1)" by (metis surj_pair)
  obtain o2 w2 where g2: "cl_generate c gx ?again w1 = (o2, w2)" by (metis surj_pair)
  have "I w1" using client_keeps [OF assms] g1 by (metis snd_conv)
  moreover from this have "I w2" using client_keeps [OF assms(1)] g2 by (metis snd_conv)
  ultimately show ?thesis
    by (simp add: react_next_def Let_def g1 g2 split: sum.split option.split)
qed

lemma next_keeps: "ga_client ag = Some c \<Longrightarrow> I w \<Longrightarrow> I (snd (next_step c gx ms defs w))"
  using client_keeps [of c] react_keeps [of c] by (simp add: next_step_def)

lemma calls_keep: "I w \<Longrightarrow> I (snd (run_calls ag cx rq cs st w))"
proof (induction cs arbitrary: st w)
  case (Cons c cs)
  obtain act refs ask res w' where e:
    "execute_chat_tool ag (cx\<lparr>hx_entities := lo_ents st\<rparr>) (tc_name c) (call_args c) False w
       = ((act, refs, ask, res), w')" by (metis surj_pair)
  have "I w'" using execute_keeps [OF Cons.prems, of "cx\<lparr>hx_entities := lo_ents st\<rparr>"] e by (metis snd_conv)
  then show ?case using Cons.IH by (simp add: e Let_def split: option.split)
qed simp

lemma loop_keeps: "ga_client ag = Some c \<Longrightarrow> I w \<Longrightarrow> I (snd (chat_loop_run n ag c cx rq st w))"
proof (induction n arbitrary: st w)
  case (Suc n)
  define defs where "defs = tool_defs (select_for_turn (hx_perms cx) (lo_disclosed st) (ga_reg ag))"
  define gx where "gx = empty_ctx\<lparr>cx_trace_org := Some (dn_org (tq_ident rq))\<rparr>"
  obtain o1 w1 where s: "next_step c gx (lo_messages st) defs w = (o1, w1)" by (metis surj_pair)
  have I1: "I w1" using next_keeps [OF Suc.prems] s by (metis snd_conv)
  show ?case
  proof (cases o1)
    case (Inl e)
    then show ?thesis using I1 s by (simp add: Let_def defs_def gx_def)
  next
    case (Inr r)
    show ?thesis
    proof (cases "rs_tool_calls r = []")
      case True
      then show ?thesis using I1 s Inr by (simp add: Let_def defs_def gx_def)
    next
      case False
      define msg where "msg = \<lparr>msg_role = role_assistant, msg_content = rs_content r,
        msg_tool_calls = rs_tool_calls r, msg_tool_call_id = []\<rparr>"
      define st2 where "st2 = (heard r st)\<lparr>lo_messages := lo_messages (heard r st) @ [msg],
        lo_transcript := record_transcript ag rq msg w1 (lo_transcript (heard r st))\<rparr>"
      obtain o2 w2 where k: "run_calls ag cx rq (rs_tool_calls r) st2 w1 = (o2, w2)" by (metis surj_pair)
      have "I w2" using calls_keep [OF I1] k by (metis snd_conv)
      then show ?thesis
        using s Inr False k Suc.IH [OF Suc.prems(1)]
        by (simp add: Let_def defs_def gx_def msg_def st2_def split: sum.split)
    qed
  qed
qed simp

lemma recall_memories_keeps: "I w \<Longrightarrow> I (snd (recall_memories ag user msg w))"
proof -
  have "snd (recall_memories ag user msg w)
      = (case ga_memory ag of Some f \<Rightarrow> if msg = [] then w else snd (f user msg w) | None \<Rightarrow> w)"
    by (auto simp: recall_memories_def split: option.splits prod.splits sum.splits)
  then show "I w \<Longrightarrow> I (snd (recall_memories ag user msg w))"
    using recall_keeps by (simp split: option.split)
qed

lemma agent_loop_keeps:
  assumes "I w"
  shows "I (snd (agent_loop ag cx rq meta msg w))"
proof (cases "ga_client ag")
  case None
  then show ?thesis using assms by (simp add: agent_loop_def)
next
  case (Some c)
  obtain ms w1 where r: "recall_memories ag (dn_user (tq_ident rq)) msg w = (ms, w1)" by (metis surj_pair)
  have "I w1" using recall_memories_keeps [OF assms] r by (metis snd_conv)
  then show ?thesis
    using loop_keeps [OF Some] by (simp add: agent_loop_def Some Let_def split_def r)
qed

lemma permissions_keep: "I w \<Longrightarrow> I (snd (turn_permissions ag ident w))"
proof -
  have "snd (turn_permissions ag ident w)
      = (case gd_perms g of Some p \<Rightarrow> snd (p (dn_user ident) (dn_org ident) w) | None \<Rightarrow> w)"
    by (auto simp: turn_permissions_def permissions_for_def guarded
        split: option.splits prod.splits sum.splits)
  then show "I w \<Longrightarrow> I (snd (turn_permissions ag ident w))"
    using perms_keeps by (simp split: option.split)
qed

lemma pending_keeps: "I w \<Longrightarrow> I (snd (handle_pending ag cx rq meta p w))"
proof -
  assume I: "I w"
  let ?args = "merge_pending_args p (tq_message rq)"
  obtain act refs ask res w' where e:
    "execute_chat_tool ag cx (pa_tool p) ?args False w = ((act, refs, ask, res), w')" by (metis surj_pair)
  have "I w'" using execute_keeps [OF I] e by (metis snd_conv)
  with I show ?thesis by (simp add: handle_pending_def Let_def e split: option.split)
qed

lemma confirmation_keeps:
  assumes "I w"
  shows "I (snd (handle_confirmation ag cx rq meta p w))
    \<or> approves rq p \<and> (\<exists>t w1. I w1 \<and> get_platform (ga_reg ag) (pc_tool p) = Some t
        \<and> snd (handle_confirmation ag cx rq meta p w) = snd (pl_run t cx (strip_org_args (pc_args p)) w1))"
proof -
  obtain act refs ask res w' where e:
    "execute_chat_tool ag cx (pc_tool p) (pc_args p) True w = ((act, refs, ask, res), w')" by (metis surj_pair)
  have w': "snd (execute_chat_tool ag cx (pc_tool p) (pc_args p) True w) = w'" by (simp add: e)
  have "snd (handle_confirmation ag cx rq meta p w) = (if approves rq p then w' else w)"
    by (auto simp: handle_confirmation_def approves_def Let_def e split: option.split)
  then show ?thesis
    using execute_confirmed [OF assms, of cx "pc_tool p" "pc_args p"] assms
    unfolding w' by (cases "approves rq p") (simp_all only: if_True if_False, blast+)
qed

text \<open>
  A turn runs nothing destructive, but for the one call that waits for the user's approval, which the
  user gives with this turn.
\<close>

lemma turn_keeps:
  assumes "I w" and "turn_permissions ag (tq_ident rq) w = (perms, w1)"
  shows "I (snd (run_turn ag rq w))
    \<or> (\<exists>p t cx w2. read_confirm (ga_now ag w1) (tq_meta rq) = Some p \<and> approves rq p
        \<and> I w2 \<and> get_platform (ga_reg ag) (pc_tool p) = Some t
        \<and> snd (run_turn ag rq w) = snd (pl_run t cx (strip_org_args (pc_args p)) w2))"
proof -
  have I1: "I w1" using permissions_keep [OF assms(1), of "tq_ident rq"] assms(2) by simp
  define cx where "cx = \<lparr>hx_ident = Some (tq_ident rq), hx_perms = perms,
    hx_entities = read_entities (ga_now ag w) (tq_meta rq), hx_memories = []\<rparr>"
  show ?thesis
  proof (cases "trim_space (tq_message rq) = [] \<and> tq_token rq = [] \<and> read_pending (tq_meta rq) = None
      \<and> read_confirm (ga_now ag w) (tq_meta rq) = None")
    case True
    then show ?thesis using assms(1) by (simp add: run_turn_def)
  next
    case False
    then have turn: "run_turn ag rq w = (case read_confirm (ga_now ag w1) (tq_meta rq) of
        Some p \<Rightarrow> handle_confirmation ag cx rq (tq_meta rq) p w1
      | None \<Rightarrow>
          (case read_pending (tq_meta rq) of
             Some p \<Rightarrow>
               if is_abandon (trim_space (tq_message rq)) \<or> looks_like_new_request (trim_space (tq_message rq)) then
                 agent_loop ag cx rq (write_pending (ga_stamp ag) (ga_now ag w1) None (tq_meta rq))
                   (trim_space (tq_message rq)) w1
               else handle_pending ag cx rq (tq_meta rq) p w1
           | None \<Rightarrow> agent_loop ag cx rq (tq_meta rq) (trim_space (tq_message rq)) w1))"
      unfolding run_turn_def Let_def assms(2) prod.case cx_def by (simp only: if_False)
    show ?thesis
    proof (cases "read_confirm (ga_now ag w1) (tq_meta rq)")
      case None
      then show ?thesis
        using turn agent_loop_keeps [OF I1] pending_keeps [OF I1] by (simp split: option.split)
    next
      case (Some p)
      then show ?thesis
        using turn confirmation_keeps [OF I1, of cx rq "tq_meta rq" p] by fastforce
    qed
  qed
qed

end


section \<open>The call that is held\<close>

text \<open>The call a session's metadata holds for approval, whether it has expired or not.\<close>

definition stored_call :: "obj \<Rightarrow> (string \<times> obj) option" where
  "stored_call meta =
     (case map_of meta ''pending_confirmation'' of
        Some (JObj raw) \<Rightarrow>
          Some (as_string (map_of raw ''tool''), case map_of raw ''args'' of Some (JObj args) \<Rightarrow> args | _ \<Rightarrow> [])
      | _ \<Rightarrow> None)"

lemma stored_read: "read_confirm now m = Some p \<Longrightarrow> stored_call m = Some (pc_tool p, pc_args p)"
  by (auto simp: read_confirm_def stored_call_def Let_def split: option.splits json.splits if_splits)

lemma stored_simps [simp]:
  "stored_call (write_confirm st None m) = None"
  "stored_call (write_confirm st (Some p) m) = Some (pc_tool p, pc_args p)"
  "stored_call (write_pending st now a m) = stored_call m"
  "stored_call (write_entities st ents m) = stored_call m"
  "stored_call (add_disclosed names m) = stored_call m"
  "stored_call (aput ''summary'' v m) = stored_call m"
  by (simp_all add: stored_call_def write_confirm_def write_pending_def write_entities_def
      add_disclosed_def as_string_def split: option.split)

text \<open>A result that asks for an approval stores the call it is for; no other stores one.\<close>

definition holds :: "obj \<Rightarrow> turn_result \<Rightarrow> bool" where
  "holds m r \<longleftrightarrow>
     (if cz_confirmation (tz_response r) = None then stored_call (tz_meta r) = stored_call m
      else stored_call (tz_meta r) \<noteq> None)"

lemma note_call_meta [simp]: "stored_call (lo_meta (note_call n out now st)) = stored_call (lo_meta st)"
  by (cases out) (simp add: note_call_def Let_def)

lemma calls_hold:
  "run_calls ag cx rq cs st w = (o1, w') \<Longrightarrow>
     (case o1 of Inl r \<Rightarrow> holds (lo_meta st) r | Inr st' \<Rightarrow> stored_call (lo_meta st') = stored_call (lo_meta st))"
proof (induction cs arbitrary: st w)
  case (Cons c cs)
  obtain act refs ask res w1 where e:
    "execute_chat_tool ag (cx\<lparr>hx_entities := lo_ents st\<rparr>) (tc_name c) (call_args c) False w
       = ((act, refs, ask, res), w1)" by (metis surj_pair)
  define st1 where "st1 = note_call (tc_name c) (act, refs, ask, res) (ga_now ag w1) st"
  define msg where "msg = \<lparr>msg_role = role_tool, msg_content = wrap_tool_result (tc_name c) act res refs,
    msg_tool_calls = [], msg_tool_call_id = tc_id c\<rparr>"
  define st2 where "st2 = st1\<lparr>lo_transcript := record_transcript ag rq msg w1 (lo_transcript st1)\<rparr>"
  have m: "stored_call (lo_meta st2) = stored_call (lo_meta st)" by (simp add: st2_def st1_def)
  have run: "run_calls ag cx rq (c # cs) st w =
     (if ac_status act = action_pending then (Inl (hold_call ag (tc_name c) (call_args c) act st2 w1), w1)
      else (case ask of
              Some q \<Rightarrow> (Inl (ask_back ag (tc_name c) (call_args c) q st2 w1), w1)
            | None \<Rightarrow> run_calls ag cx rq cs (st2\<lparr>lo_messages := lo_messages st2 @ [msg]\<rparr>) w1))"
    unfolding run_calls.simps e prod.case Let_def st1_def [symmetric] msg_def [symmetric]
      st2_def [symmetric] ..
  have "holds (lo_meta st) (hold_call ag n args act st2 w1)" for n args
    by (simp add: holds_def hold_call_def hold_confirmation_def saved_meta_def Let_def)
  moreover have "holds (lo_meta st) (ask_back ag n args q st2 w1)" for n args q
    using m by (simp add: holds_def ask_back_def saved_meta_def)
  moreover have "case o1 of Inl r \<Rightarrow> holds (lo_meta st) r
      | Inr st' \<Rightarrow> stored_call (lo_meta st') = stored_call (lo_meta st)"
    if "run_calls ag cx rq cs (st2\<lparr>lo_messages := lo_messages st2 @ [msg]\<rparr>) w1 = (o1, w')"
    using Cons.IH [OF that] m by (cases o1) (auto simp: holds_def split: if_splits)
  ultimately show ?case
    using Cons.prems [unfolded run] by (cases ask) (auto split: if_splits)
qed auto

lemma loop_holds: "holds (lo_meta st) (fst (chat_loop_run n ag c cx rq st w))"
proof (induction n arbitrary: st w)
  case 0
  show ?case by (simp add: holds_def loop_end_def saved_meta_def)
next
  case (Suc n)
  define defs where "defs = tool_defs (select_for_turn (hx_perms cx) (lo_disclosed st) (ga_reg ag))"
  define gx where "gx = empty_ctx\<lparr>cx_trace_org := Some (dn_org (tq_ident rq))\<rparr>"
  obtain o1 w1 where s: "next_step c gx (lo_messages st) defs w = (o1, w1)" by (metis surj_pair)
  show ?case
  proof (cases o1)
    case (Inl e)
    then show ?thesis
      using s by (simp add: Let_def defs_def gx_def holds_def said_def fail_response_def plain_response_def)
  next
    case (Inr r)
    show ?thesis
    proof (cases "rs_tool_calls r = []")
      case True
      then show ?thesis
        using s Inr by (simp add: Let_def defs_def gx_def holds_def loop_end_def saved_meta_def heard_def)
    next
      case False
      define msg where "msg = \<lparr>msg_role = role_assistant, msg_content = rs_content r,
        msg_tool_calls = rs_tool_calls r, msg_tool_call_id = []\<rparr>"
      define st2 where "st2 = (heard r st)\<lparr>lo_messages := lo_messages (heard r st) @ [msg],
        lo_transcript := record_transcript ag rq msg w1 (lo_transcript (heard r st))\<rparr>"
      have m: "lo_meta st2 = lo_meta st" by (simp add: st2_def heard_def)
      obtain o2 w2 where k: "run_calls ag cx rq (rs_tool_calls r) st2 w1 = (o2, w2)" by (metis surj_pair)
      show ?thesis
      proof (cases o2)
        case (Inl res)
        then show ?thesis
          using calls_hold [OF k] s Inr False k m
          by (simp add: Let_def defs_def gx_def msg_def st2_def)
      next
        case (Inr st3)
        define st4 where "st4 = (if lo_failed st3 then st3\<lparr>lo_messages := lo_messages st3
          @ [plain_message role_system never_claim_success]\<rparr> else st3)"
        have "stored_call (lo_meta st4) = stored_call (lo_meta st)"
          using calls_hold [OF k] Inr m by (simp add: st4_def)
        then have "holds (lo_meta st) (fst (chat_loop_run n ag c cx rq st4 w2))"
          using Suc.IH [of st4 w2] by (simp add: holds_def split: if_splits)
        then show ?thesis
          using s \<open>o1 = Inr r\<close> False k Inr
          by (simp add: Let_def defs_def gx_def msg_def st2_def st4_def)
      qed
    qed
  qed
qed

lemma holds_cong: "holds m r \<Longrightarrow> stored_call m = stored_call meta \<Longrightarrow> holds meta r"
  by (simp add: holds_def split: if_splits)

lemma agent_loop_holds: "holds meta (fst (agent_loop ag cx rq meta msg w))"
proof (cases "ga_client ag")
  case None
  then show ?thesis
    by (simp add: agent_loop_def holds_def said_def fail_response_def plain_response_def)
next
  case (Some c)
  obtain kept evicted where k: "window (tq_history rq) window_budget = (kept, evicted)" by (metis surj_pair)
  obtain ms w1 where m: "recall_memories ag (dn_user (tq_ident rq)) msg w = (ms, w1)" by (metis surj_pair)
  let ?meta = "if evicted = [] then meta
    else aput ''summary'' (JStr (roll_summary (read_summary meta) evicted)) meta"
  have meta: "stored_call ?meta = stored_call meta" by simp
  obtain n cx' st where "agent_loop ag cx rq meta msg w = chat_loop_run n ag c cx' rq st w1"
    "lo_meta st = ?meta"
    by (simp add: agent_loop_def Some k m Let_def)
  with holds_cong [OF loop_holds, of st meta n ag c cx' rq w1] meta show ?thesis by simp
qed

lemma pending_holds: "holds meta (fst (handle_pending ag cx rq meta p w))"
proof -
  obtain act refs ask res w' where
    "execute_chat_tool ag cx (pa_tool p) (merge_pending_args p (tq_message rq)) False w
       = ((act, refs, ask, res), w')" by (metis surj_pair)
  then show ?thesis
    by (simp add: handle_pending_def Let_def holds_def said_def plain_response_def hold_confirmation_def
        tell_outcome_def split: option.split)
qed

lemma confirmation_holds:
  "fst (handle_confirmation ag cx rq meta p w) = said (still_waiting (ga_stamp ag) p) meta
     \<and> \<not> approves rq p
   \<or> stored_call (tz_meta (fst (handle_confirmation ag cx rq meta p w))) = None
     \<and> cz_confirmation (tz_response (fst (handle_confirmation ag cx rq meta p w))) = None"
proof -
  obtain act refs ask res w' where
    "execute_chat_tool ag cx (pc_tool p) (pc_args p) True w = ((act, refs, ask, res), w')" by (metis surj_pair)
  then show ?thesis
    by (simp add: handle_confirmation_def Let_def said_def plain_response_def tell_outcome_def
        approves_def split: option.split)
qed


section \<open>An agent that logs what it runs\<close>

text \<open>A run is logged with the tool, whether it is destructive, and the arguments it gets.\<close>

record tool_run =
  xr_tool :: string
  xr_destructive :: bool
  xr_args :: obj

definition logged_platform :: "string \<Rightarrow> 'w platform_tool \<Rightarrow> ('w \<times> tool_run list) platform_tool" where
  "logged_platform n t =
     \<lparr>pl_name = pl_name t, pl_desc = pl_desc t, pl_domain = pl_domain t, pl_perm = pl_perm t,
      pl_destructive = pl_destructive t, pl_read_only = pl_read_only t, pl_schema = pl_schema t,
      pl_effect = map_option (\<lambda>f cx args wl. f cx args (fst wl)) (pl_effect t),
      pl_run = (\<lambda>cx args. log_op (\<lambda>w. \<lparr>xr_tool = n, xr_destructive = pl_destructive t, xr_args = args\<rparr>)
                  (pl_run t cx args))\<rparr>"

definition logged_guard :: "'w guard \<Rightarrow> ('w \<times> tool_run list) guard" where
  "logged_guard g =
     \<lparr>gd_has = map_option (\<lambda>f u org p. lift_op (f u org p)) (gd_has g),
      gd_perms = map_option (\<lambda>f u org. lift_op (f u org)) (gd_perms g),
      gd_enforce = map_option (\<lambda>f org a p m. lift_op (f org a p m)) (gd_enforce g)\<rparr>"

definition logged_agent :: "'w chat_agent \<Rightarrow> ('w \<times> tool_run list) chat_agent" where
  "logged_agent ag =
     \<lparr>ga_client = map_option (\<lambda>c. \<lparr>cl_provider_name = cl_provider_name c,
        cl_supports_tools = cl_supports_tools c,
        cl_generate = (\<lambda>gx rq. lift_op (cl_generate c gx rq))\<rparr>) (ga_client ag),
      ga_model = ga_model ag,
      ga_reg = map (\<lambda>(n, t). (n, logged_platform n t)) (ga_reg ag),
      ga_guard = map_option logged_guard (ga_guard ag),
      ga_memory = map_option (\<lambda>f u m. lift_op (f u m)) (ga_memory ag),
      ga_max_iter = ga_max_iter ag, ga_extra = ga_extra ag, ga_hints = ga_hints ag,
      ga_now = (\<lambda>wl. ga_now ag (fst wl)), ga_stamp = ga_stamp ag,
      ga_token = (\<lambda>wl. ga_token ag (fst wl)), ga_row_id = (\<lambda>wl. ga_row_id ag (fst wl))\<rparr>"

definition destructive_runs :: "tool_run list \<Rightarrow> (string \<times> obj) list" where
  "destructive_runs l = map (\<lambda>x. (xr_tool x, xr_args x)) (filter xr_destructive l)"

lemma destructive_runs_append [simp]: "destructive_runs (l @ l') = destructive_runs l @ destructive_runs l'"
  by (simp add: destructive_runs_def)

lemma get_logged:
  "get_platform (ga_reg (logged_agent ag)) n = map_option (logged_platform n) (get_platform (ga_reg ag) n)"
proof -
  have "map_of (map (\<lambda>(n, t). (n, logged_platform n t)) xs) n = map_option (logged_platform n) (map_of xs n)"
    for xs :: "'w tool_registry"
    by (induction xs) auto
  then show ?thesis by (simp add: get_platform_def logged_agent_def)
qed

text \<open>Nothing destructive in the log beyond \<open>base\<close>.\<close>

definition ran_only :: "(string \<times> obj) list \<Rightarrow> 'w \<times> tool_run list \<Rightarrow> bool" where
  "ran_only base wl \<longleftrightarrow> destructive_runs (snd wl) = base"

lemma chat_world_logged:
  fixes ag :: "'w chat_agent" and base :: "(string \<times> obj) list"
  assumes "ga_guard ag = Some g"
  shows "chat_world (logged_agent ag) (logged_guard g) (ran_only base)"
proof unfold_locales
  fix n t cx args and w :: "'w \<times> tool_run list"
  assume "get_platform (ga_reg (logged_agent ag)) n = Some t" "\<not> pl_destructive t" "ran_only base w"
  then show "ran_only base (snd (pl_run t cx args w))"
    by (auto simp: get_logged logged_platform_def ran_only_def destructive_runs_def)
qed (use assms in \<open>auto simp: logged_agent_def logged_guard_def ran_only_def\<close>)

text \<open>The same for an agent whose guard is spelled out.\<close>

definition guarded_agent :: "'w chat_agent \<Rightarrow> 'w guard \<Rightarrow> 'w chat_agent" where
  "guarded_agent ag g = ag\<lparr>ga_guard := Some g\<rparr>"

interpretation logged_chat: chat_world "logged_agent (guarded_agent ag g)" "logged_guard g" "ran_only base"
  for ag :: "'w chat_agent" and g :: "'w guard" and base :: "(string \<times> obj) list"
  by (rule chat_world_logged) (simp add: guarded_agent_def)

text \<open>The call that is approved by a turn, at the time the turn looks.\<close>

definition waiting_call :: "'w chat_agent \<Rightarrow> turn_request \<Rightarrow> 'w \<Rightarrow> pending_confirmation option" where
  "waiting_call ag rq w =
     read_confirm (ga_now ag (snd (turn_permissions ag (tq_ident rq) w))) (tq_meta rq)"

lemma logged_permissions:
  "turn_permissions (logged_agent ag) ident (w, l)
     = (fst (turn_permissions ag ident w), (snd (turn_permissions ag ident w), l))"
  by (auto simp: turn_permissions_def permissions_for_def logged_agent_def logged_guard_def lift_op_def
      split: option.splits prod.splits sum.splits)

lemma waiting_logged: "waiting_call (logged_agent ag) rq (w, l) = waiting_call ag rq w"
  by (simp add: waiting_call_def logged_permissions) (simp add: logged_agent_def)

lemma turn_runs:
  assumes "ga_guard ag = Some g" and "run_turn (logged_agent ag) rq (w, []) = (r, (w', l))"
  shows "destructive_runs l = []
    \<or> (\<exists>p. waiting_call ag rq w = Some p \<and> approves rq p
         \<and> destructive_runs l = [(pc_tool p, strip_org_args (pc_args p))])"
proof -
  let ?ag = "logged_agent (guarded_agent ag g)"
  have ag: "guarded_agent ag g = ag" using assms(1) by (simp add: guarded_agent_def)
  have start: "ran_only [] (w, [] :: tool_run list)" by (simp add: ran_only_def destructive_runs_def)
  obtain ps w1 where ps: "turn_permissions ?ag (tq_ident rq) (w, []) = (ps, w1)" by (metis surj_pair)
  have look: "read_confirm (ga_now ?ag w1) (tq_meta rq) = waiting_call ag rq w"
    using waiting_logged [of ag rq w "[]"] ps by (simp add: waiting_call_def ag)
  from logged_chat.turn_keeps [OF start ps] show ?thesis
  proof (elim disjE exE conjE)
    assume "ran_only [] (snd (run_turn ?ag rq (w, [])))"
    then show ?thesis using assms(2) by (simp add: ag ran_only_def)
  next
    fix p t cx w2
    assume p: "read_confirm (ga_now ?ag w1) (tq_meta rq) = Some p" "approves rq p"
      and t: "ran_only [] w2" "get_platform (ga_reg ?ag) (pc_tool p) = Some t"
        "snd (run_turn ?ag rq (w, [])) = snd (pl_run t cx (strip_org_args (pc_args p)) w2)"
    have "l = snd w2 @ [\<lparr>xr_tool = pc_tool p, xr_destructive = pl_destructive t,
        xr_args = strip_org_args (pc_args p)\<rparr>]"
      using t(2,3) assms(2) by (auto simp: ag get_logged logged_platform_def dest: arg_cong [of _ _ snd])
    then show ?thesis
      using t(1) p look by (auto simp: ran_only_def destructive_runs_def)
  qed
qed

lemma turn_holds:
  assumes "run_turn ag rq w = (r, w')"
  shows "(case waiting_call ag rq w of
      None \<Rightarrow> holds (tq_meta rq) r
    | Some p \<Rightarrow> \<not> approves rq p \<and> tz_meta r = tq_meta rq
        \<or> stored_call (tz_meta r) = None \<and> cz_confirmation (tz_response r) = None)"
proof -
  obtain ps w1 where ps: "turn_permissions ag (tq_ident rq) w = (ps, w1)" by (metis surj_pair)
  define cx where "cx = \<lparr>hx_ident = Some (tq_ident rq), hx_perms = ps,
    hx_entities = read_entities (ga_now ag w) (tq_meta rq), hx_memories = []\<rparr>"
  have wc: "waiting_call ag rq w = read_confirm (ga_now ag w1) (tq_meta rq)"
    by (simp add: waiting_call_def ps)
  show ?thesis
  proof (cases "trim_space (tq_message rq) = [] \<and> tq_token rq = [] \<and> read_pending (tq_meta rq) = None
      \<and> read_confirm (ga_now ag w) (tq_meta rq) = None")
    case True
    then have r: "r = said (plain_response ''Please send a non-empty message.'') (tq_meta rq)"
      using assms by (simp add: run_turn_def)
    have "\<not> is_affirmative (tq_message rq)" using True by (simp add: is_affirmative_def to_lower_def)
    then show ?thesis
      using True r by (auto simp: holds_def said_def plain_response_def approves_def split: option.split)
  next
    case False
    then have turn: "run_turn ag rq w = (case read_confirm (ga_now ag w1) (tq_meta rq) of
        Some p \<Rightarrow> handle_confirmation ag cx rq (tq_meta rq) p w1
      | None \<Rightarrow>
          (case read_pending (tq_meta rq) of
             Some p \<Rightarrow>
               if is_abandon (trim_space (tq_message rq)) \<or> looks_like_new_request (trim_space (tq_message rq)) then
                 agent_loop ag cx rq (write_pending (ga_stamp ag) (ga_now ag w1) None (tq_meta rq))
                   (trim_space (tq_message rq)) w1
               else handle_pending ag cx rq (tq_meta rq) p w1
           | None \<Rightarrow> agent_loop ag cx rq (tq_meta rq) (trim_space (tq_message rq)) w1))"
      unfolding run_turn_def Let_def ps prod.case cx_def by (simp only: if_False)
    show ?thesis
    proof (cases "read_confirm (ga_now ag w1) (tq_meta rq)")
      case None
      have "holds (tq_meta rq) (fst (agent_loop ag cx rq (write_pending st n None (tq_meta rq)) m w1))" for st n m
        by (rule holds_cong [OF agent_loop_holds]) simp
      then have "holds (tq_meta rq) (fst (run_turn ag rq w))"
        unfolding turn None option.case
        using agent_loop_holds [of "tq_meta rq" ag cx rq] pending_holds [of "tq_meta rq" ag cx rq]
        by (simp split: option.split)
      then show ?thesis using assms by (simp add: wc None)
    next
      case (Some p)
      then show ?thesis
        using confirmation_holds [of ag cx rq "tq_meta rq" p w1] assms turn
        by (auto simp: wc said_def)
    qed
  qed
qed


section \<open>Sessions\<close>

text \<open>
  A session: turns one after the other, each on the metadata the last one left, the world changing in
  between. \<open>held\<close> is what the user was newly asked to approve and \<open>executed\<close> the destructive calls that
  ran, with their arguments as a tool gets them.
\<close>

definition newly_held :: "'w chat_agent \<Rightarrow> turn_request \<Rightarrow> 'w \<Rightarrow> turn_result \<Rightarrow> (string \<times> obj) list" where
  "newly_held ag rq w r =
     (case (waiting_call ag rq w, cz_confirmation (tz_response r), stored_call (tz_meta r)) of
        (None, Some c, Some (tool, args)) \<Rightarrow> [(tool, strip_org_args args)]
      | _ \<Rightarrow> [])"

inductive chat_session ::
  "'w chat_agent \<Rightarrow> obj \<Rightarrow> 'w \<Rightarrow> (string \<times> obj) list \<Rightarrow> (string \<times> obj) list \<Rightarrow> bool" for ag where
  begun: "stored_call m = None \<Longrightarrow> chat_session ag m w [] []"
| turn: "chat_session ag m w held executed \<Longrightarrow> tq_meta rq = m \<Longrightarrow>
     run_turn (logged_agent ag) rq (w, []) = (r, (w', l)) \<Longrightarrow>
     chat_session ag (tz_meta r) w' (held @ newly_held ag rq w r) (executed @ destructive_runs l)"
| elsewhere: "chat_session ag m w held executed \<Longrightarrow> chat_session ag m w' held executed"

text \<open>The approval that is still open is one of those asked for.\<close>

definition open_approval :: "obj \<Rightarrow> (string \<times> obj) multiset" where
  "open_approval m =
     (case stored_call m of None \<Rightarrow> {#} | Some (tool, args) \<Rightarrow> {#(tool, strip_org_args args)#})"

lemma waiting_stored: "waiting_call ag rq w = Some p \<Longrightarrow> stored_call (tq_meta rq) = Some (pc_tool p, pc_args p)"
  unfolding waiting_call_def by (rule stored_read)

lemma session_invariant:
  assumes "chat_session ag m w held executed" and "ga_guard ag = Some g"
  shows "mset executed + open_approval m \<subseteq># mset held"
  using assms(1)
proof induction
  case (begun m w)
  then show ?case by (simp add: open_approval_def)
next
  case (turn m w held executed rq r w' l)
  have runs: "destructive_runs l = []
      \<or> (\<exists>p. waiting_call ag rq w = Some p \<and> approves rq p
           \<and> destructive_runs l = [(pc_tool p, strip_org_args (pc_args p))])"
    by (rule turn_runs [OF assms(2) turn.hyps(3)])
  have look: "waiting_call (logged_agent ag) rq (w, []) = waiting_call ag rq w" by (rule waiting_logged)
  note after = turn_holds [OF turn.hyps(3), unfolded look]
  show ?case
  proof (cases "waiting_call ag rq w")
    case None
    then have "destructive_runs l = []" using runs by simp
    then show ?thesis
      using after None turn.IH turn.hyps(2)
      by (cases "cz_confirmation (tz_response r)")
        (auto simp: holds_def newly_held_def open_approval_def split: option.splits
           dest: subset_mset.order_trans [OF mset_subset_eq_add_left])
  next
    case (Some p)
    have m: "open_approval m = {#(pc_tool p, strip_org_args (pc_args p))#}"
      using waiting_stored [OF Some] turn.hyps(2) by (simp add: open_approval_def)
    have new: "newly_held ag rq w r = []" by (simp add: newly_held_def Some)
    from after Some have "\<not> approves rq p \<and> tz_meta r = m \<or> open_approval (tz_meta r) = {#}"
      using turn.hyps(2) by (auto simp: open_approval_def)
    then show ?thesis
      using runs turn.IH Some m new
      by (auto dest: mset_subset_eq_insertD subset_mset.less_imp_le)
  qed
qed

text \<open>
  C5: a turn runs a destructive tool only when the session holds an unexpired confirmation for exactly
  that tool and those arguments, and the user approves it with this turn, by its token or in so many
  words; then it runs that call once and nothing else destructive. It holds for every model, tool, guard,
  history and metadata.
\<close>

theorem destructive_run_approved:
  assumes "ga_guard ag = Some g" and "run_turn (logged_agent ag) rq (w, []) = (r, (w', l))"
  shows "destructive_runs l = []
    \<or> (\<exists>p. waiting_call ag rq w = Some p \<and> approves rq p
         \<and> destructive_runs l = [(pc_tool p, strip_org_args (pc_args p))])"
  using turn_runs [OF assms] by blast

text \<open>
  When the turns of a session follow one another, each on the metadata the last one left, every
  destructive call that ran was put to the user before, with the same tool and arguments, and as often
  as it ran. Turns of two replicas do not follow one another (\<open>approval_raced\<close> in \<open>ChatService\<close>).
\<close>

lemma approval_used_once:
  assumes "chat_session ag m w held executed" and "ga_guard ag = Some g"
  shows "mset executed + open_approval m \<subseteq># mset held"
  using session_invariant [OF assms] .


section \<open>A deletion\<close>

text \<open>
  The user gives the missing name of the agent to delete, the deletion is held, and the user says yes.
  The world counts the deletions.
\<close>

definition delete_tool :: "nat platform_tool" where
  "delete_tool =
     \<lparr>pl_name = ''agent_delete'', pl_desc = [], pl_domain = [], pl_perm = [], pl_destructive = True,
      pl_read_only = False, pl_schema = [], pl_effect = None,
      pl_run = (\<lambda>cx args w. (Inr (Some (data_result NoData)), Suc w))\<rparr>"

definition open_guard :: "'w guard" where
  "open_guard = \<lparr>gd_has = None, gd_perms = None, gd_enforce = None\<rparr>"

definition demo_chat :: "nat chat_agent" where
  "demo_chat =
     \<lparr>ga_client = None, ga_model = [], ga_reg = [(''agent_delete'', delete_tool)],
      ga_guard = Some open_guard, ga_memory = None, ga_max_iter = 0, ga_extra = [], ga_hints = [],
      ga_now = (\<lambda>_. 0), ga_stamp = (\<lambda>_. ''2100-01-01T00:00:00Z''), ga_token = (\<lambda>_. ''4f1c''),
      ga_row_id = (\<lambda>_ n. n)\<rparr>"

definition demo_turn :: "string \<Rightarrow> obj \<Rightarrow> turn_request" where
  "demo_turn msg meta =
     \<lparr>tq_ident = \<lparr>dn_org = 1, dn_user = 2, dn_session = 3\<rparr>, tq_message = msg, tq_token = [],
      tq_history = [], tq_meta = meta, tq_source = ''web''\<rparr>"

definition asked_name :: obj where
  "asked_name =
     [(''pending_action'', JObj [(''tool'', JStr ''agent_delete''), (''args'', JObj []),
        (''missing'', JArr [JStr ''name'']), (''question'', JStr ''Which one?'')])]"

definition name_given :: "turn_result \<times> (nat \<times> tool_run list)" where
  "name_given = run_turn (logged_agent demo_chat) (demo_turn ''Bob'' asked_name) (0, [])"

definition approved :: "turn_result \<times> (nat \<times> tool_run list)" where
  "approved = run_turn (logged_agent demo_chat) (demo_turn ''Yes'' (tz_meta (fst name_given))) (0, [])"

definition bob :: obj where "bob = [(''name'', JStr ''Bob'')]"

lemma bob_words:
  "trim_space ''Bob'' = ''Bob''" "\<not> is_abandon ''Bob''" "\<not> looks_like_new_request ''Bob''"
  "trim_space ''Yes'' = ''Yes''" "is_affirmative ''Yes''" "\<not> is_negative ''Yes''" "\<not> equal_fold ''Yes'' ''cancel''"
  by code_simp+

lemma asked_read:
  "read_pending asked_name = Some \<lparr>pa_tool = ''agent_delete'', pa_args = [], pa_missing = [''name''],
     pa_question = ''Which one?''\<rparr>"
  "read_confirm n asked_name = None"
  by (simp_all add: read_pending_def read_confirm_def asked_name_def as_string_def)

lemma demo_merge:
  "merge_pending_args \<lparr>pa_tool = ''agent_delete'', pa_args = [], pa_missing = [''name''],
     pa_question = ''Which one?''\<rparr> ''Bob'' = bob"
  by (simp add: merge_pending_args_def bob_words bob_def aput_def)

lemma demo_missing:
  "\<not> still_missing \<lparr>pa_tool = ''agent_delete'', pa_args = [], pa_missing = [''name''],
     pa_question = ''Which one?''\<rparr> bob"
  by (simp add: still_missing_def bob_def as_string_def)

lemma demo_get: "get_platform (ga_reg (logged_agent demo_chat)) ''agent_delete''
    = Some (logged_platform ''agent_delete'' delete_tool)"
  by (simp add: get_logged) (simp add: get_platform_def demo_chat_def)

lemma demo_guard: "ga_guard (logged_agent demo_chat) = Some (logged_guard open_guard)"
  "ga_guard demo_chat = Some open_guard"
  by (simp_all add: logged_agent_def demo_chat_def)

lemma demo_check:
  "hx_ident cx = Some \<lparr>dn_org = 1, dn_user = 2, dn_session = 3\<rparr> \<Longrightarrow>
   check_guard (logged_guard open_guard) cx (logged_platform ''agent_delete'' delete_tool) c w
     = (if c then None else Some (ErrAround [] (ErrSentinel err_needs_confirm) '': agent_delete''), w)"
  by (simp add: check_guard_def check_guard_policy_def check_rbac_def logged_guard_def open_guard_def
      uuid_nil_def logged_platform_def delete_tool_def)

lemma demo_unconfirmed:
  "hx_ident cx = Some \<lparr>dn_org = 1, dn_user = 2, dn_session = 3\<rparr> \<Longrightarrow>
   \<exists>act. ac_status act = action_pending \<and>
     execute_chat_tool (logged_agent demo_chat) cx ''agent_delete'' args False w = ((act, [], None, None), w)"
  by (simp add: execute_chat_tool_def Let_def demo_get demo_guard demo_check refused_action_def)

lemma demo_run:
  "run_tool cx (logged_platform ''agent_delete'' delete_tool) args act (w, l)
     = (result_outcome act (Some (data_result NoData)),
        (Suc w, l @ [\<lparr>xr_tool = ''agent_delete'', xr_destructive = True, xr_args = strip_org_args args\<rparr>]))"
  by (simp add: run_tool_def logged_platform_def delete_tool_def log_op_def)

lemma demo_confirmed:
  "hx_ident cx = Some \<lparr>dn_org = 1, dn_user = 2, dn_session = 3\<rparr> \<Longrightarrow>
   execute_chat_tool (logged_agent demo_chat) cx ''agent_delete'' bob True (w, l)
     = (result_outcome (action_of ''agent_delete'' bob) (Some (data_result NoData)), (Suc w, l @ [\<lparr>xr_tool = ''agent_delete'', xr_destructive = True, xr_args = bob\<rparr>]))"
proof -
  have "strip_org_args bob = bob" by code_simp
  then show "hx_ident cx = Some \<lparr>dn_org = 1, dn_user = 2, dn_session = 3\<rparr> \<Longrightarrow> ?thesis"
    by (simp add: execute_chat_tool_def Let_def demo_get demo_guard demo_check demo_run)
qed

lemma demo_permissions: "turn_permissions (logged_agent demo_chat) ident w = (None, w)"
  "turn_permissions demo_chat ident n = (None, n)"
  by (simp_all add: turn_permissions_def permissions_for_def demo_guard logged_guard_def open_guard_def)

lemma name_given_eq:
  "\<exists>act meta. name_given = (hold_confirmation (logged_agent demo_chat) meta ''agent_delete'' bob act (0, []), (0, []))"
proof -
  define cx where "cx = \<lparr>hx_ident = Some \<lparr>dn_org = Suc 0, dn_user = 2, dn_session = 3\<rparr>, hx_perms = None,
    hx_entities = read_entities (ga_now (logged_agent demo_chat) (0, [])) asked_name, hx_memories = []\<rparr>"
  obtain act where "ac_status act = action_pending"
    "execute_chat_tool (logged_agent demo_chat) cx ''agent_delete'' bob False (0, []) = ((act, [], None, None), (0, []))"
    using demo_unconfirmed [of cx bob "(0, [])"] by (auto simp: cx_def)
  then show ?thesis
    by (simp add: name_given_def run_turn_def demo_turn_def Let_def demo_permissions asked_read bob_words
        handle_pending_def demo_merge demo_missing cx_def [symmetric]) blast
qed

lemma name_given_world: "snd name_given = (0, [])"
proof -
  obtain act meta where n: "name_given
      = (hold_confirmation (logged_agent demo_chat) meta ''agent_delete'' bob act (0, []), (0, []))"
    using name_given_eq by blast
  show ?thesis unfolding n by simp
qed

lemma name_given_stored:
  "read_confirm 0 (tz_meta (fst name_given)) = Some p \<Longrightarrow> pc_tool p = ''agent_delete'' \<and> pc_args p = bob"
  "stored_call (tz_meta (fst name_given)) = Some (''agent_delete'', bob)"
  "cz_confirmation (tz_response (fst name_given)) \<noteq> None"
proof -
  obtain act meta where n: "name_given
      = (hold_confirmation (logged_agent demo_chat) meta ''agent_delete'' bob act (0, []), (0, []))"
    using name_given_eq by blast
  show s: "stored_call (tz_meta (fst name_given)) = Some (''agent_delete'', bob)"
    unfolding n by (simp add: hold_confirmation_def Let_def)
  show "read_confirm 0 (tz_meta (fst name_given)) = Some p \<Longrightarrow> pc_tool p = ''agent_delete'' \<and> pc_args p = bob"
    using s stored_read by fastforce
  show "cz_confirmation (tz_response (fst name_given)) \<noteq> None"
    unfolding n by (simp add: hold_confirmation_def Let_def)
qed

lemma name_given_waits: "read_confirm 0 (tz_meta (fst name_given)) \<noteq> None"
proof -
  obtain act meta where n: "name_given
      = (hold_confirmation (logged_agent demo_chat) meta ''agent_delete'' bob act (0, []), (0, []))"
    using name_given_eq by blast
  have "parse_rfc3339 ''2100-01-01T00:00:00Z'' = Some 4102444800" by code_simp
  then show ?thesis
    unfolding n
    by (simp add: hold_confirmation_def Let_def read_confirm_def write_confirm_def read_expiry_def
        as_string_def logged_agent_def demo_chat_def zero_time_secs_def)
qed

lemma demo_waiting:
  "waiting_call demo_chat (demo_turn ''Bob'' asked_name) 0 = None"
  "waiting_call demo_chat (demo_turn ''Yes'' (tz_meta (fst name_given))) 0
     = read_confirm 0 (tz_meta (fst name_given))"
  by (simp_all add: waiting_call_def demo_permissions asked_read demo_turn_def demo_chat_def)

lemma name_given_held:
  "newly_held demo_chat (demo_turn ''Bob'' asked_name) 0 (fst name_given) = [(''agent_delete'', bob)]"
proof -
  have "strip_org_args bob = bob" by code_simp
  then show ?thesis
    using name_given_stored(2,3) by (auto simp: newly_held_def demo_waiting)
qed

lemma approved_world: "fst (snd approved) = 1" "destructive_runs (snd (snd approved)) = [(''agent_delete'', bob)]"
proof -
  obtain p where p: "read_confirm 0 (tz_meta (fst name_given)) = Some p" "pc_tool p = ''agent_delete''"
      "pc_args p = bob"
    using name_given_waits name_given_stored(1) by auto
  define cx where "cx = \<lparr>hx_ident = Some \<lparr>dn_org = Suc 0, dn_user = 2, dn_session = 3\<rparr>, hx_perms = None,
    hx_entities = read_entities (ga_now (logged_agent demo_chat) (0, [])) (tz_meta (fst name_given)),
    hx_memories = []\<rparr>"
  obtain act refs ask res where oc: "result_outcome (action_of ''agent_delete'' bob) (Some (data_result NoData))
      = (act, refs, ask, res)" by (metis surj_pair)
  have "hx_ident cx = Some \<lparr>dn_org = 1, dn_user = 2, dn_session = 3\<rparr>" by (simp add: cx_def)
  from demo_confirmed [OF this, of 0 "[]"]
  have e: "execute_chat_tool (logged_agent demo_chat) cx ''agent_delete'' bob True (0, [])
      = ((act, refs, ask, res), (Suc 0, [\<lparr>xr_tool = ''agent_delete'', xr_destructive = True, xr_args = bob\<rparr>]))"
    by (simp add: oc)
  have now: "ga_now (logged_agent demo_chat) w = 0" for w by (simp add: logged_agent_def demo_chat_def)
  have "snd approved = (Suc 0, [\<lparr>xr_tool = ''agent_delete'', xr_destructive = True, xr_args = bob\<rparr>])"
    using e p
    by (simp add: approved_def run_turn_def demo_turn_def Let_def demo_permissions bob_words now
        handle_confirmation_def cx_def [symmetric, unfolded now] split: option.split)
  then show "fst (snd approved) = 1" "destructive_runs (snd (snd approved)) = [(''agent_delete'', bob)]"
    by (simp_all add: destructive_runs_def)
qed

lemma approved_held:
  "newly_held demo_chat (demo_turn ''Yes'' (tz_meta (fst name_given))) 0 (fst approved) = []"
  using name_given_waits by (auto simp: newly_held_def demo_waiting)

theorem destructive_run_approved_witness:
  "\<exists>p. waiting_call demo_chat (demo_turn ''Yes'' (tz_meta (fst name_given))) 0 = Some p
     \<and> approves (demo_turn ''Yes'' (tz_meta (fst name_given))) p
     \<and> destructive_runs (snd (snd approved)) = [(pc_tool p, strip_org_args (pc_args p))]"
proof -
  have g: "ga_guard demo_chat = Some open_guard" by (simp add: demo_chat_def)
  have "run_turn (logged_agent demo_chat) (demo_turn ''Yes'' (tz_meta (fst name_given))) (0, [])
      = (fst approved, (fst (snd approved), snd (snd approved)))" by (simp add: approved_def)
  from destructive_run_approved [OF g this] approved_world(2) show ?thesis by simp
qed

end
