(* ===== verification/ChatService.thy ===== *)
theory ChatService
  imports ChatProps SchedStore
begin

text \<open>
  Chat sessions (\<open>chatsvc/service.go\<close>, \<open>chatsvc/router.go\<close>, \<open>repository/chat_repository.go\<close>): the tables of
  sessions and messages, and a turn of a session from the user's message to the stored reply. A
  statement of the database that fails is a parameter; the tables are the first component of the
  world the agent runs on. Times are milliseconds; durations are not stored.
\<close>

section \<open>Tables\<close>

record chat_row =
  cs_id :: uuid
  cs_org :: uuid
  cs_user :: uuid
  cs_agent :: "uuid option"
  cs_source :: string
  cs_meta :: obj
  cs_updated :: int

record chat_db =
  cd_sessions :: "chat_row list"
  cd_messages :: "chat_message list"

text \<open>
  Messages are kept in the order they were inserted, which is that of \<open>created_at\<close>; one of a session
  that is gone is not inserted.
\<close>

definition find_session :: "uuid \<Rightarrow> chat_db \<Rightarrow> chat_row option" where
  "find_session i db = List.find (\<lambda>s. cs_id s = i) (cd_sessions db)"

definition insert_session :: "chat_row \<Rightarrow> chat_db \<Rightarrow> chat_db" where
  "insert_session s db = db\<lparr>cd_sessions := cd_sessions db @ [s]\<rparr>"

definition update_session :: "uuid \<Rightarrow> (chat_row \<Rightarrow> chat_row) \<Rightarrow> chat_db \<Rightarrow> chat_db" where
  "update_session i f db =
     db\<lparr>cd_sessions := map (\<lambda>s. if cs_id s = i then f s else s) (cd_sessions db)\<rparr>"

definition update_session_metadata :: "uuid \<Rightarrow> obj \<Rightarrow> int \<Rightarrow> chat_db \<Rightarrow> chat_db" where
  "update_session_metadata i meta now = update_session i (\<lambda>s. s\<lparr>cs_meta := meta, cs_updated := now\<rparr>)"

definition update_session_agent :: "uuid \<Rightarrow> uuid option \<Rightarrow> int \<Rightarrow> chat_db \<Rightarrow> chat_db" where
  "update_session_agent i agent now = update_session i (\<lambda>s. s\<lparr>cs_agent := agent, cs_updated := now\<rparr>)"

definition append_message :: "chat_message \<Rightarrow> chat_db \<Rightarrow> chat_db" where
  "append_message m db =
     (if find_session (ch_session m) db = None then db else db\<lparr>cd_messages := cd_messages db @ [m]\<rparr>)"

definition list_messages :: "uuid \<Rightarrow> int \<Rightarrow> chat_db \<Rightarrow> chat_message list" where
  "list_messages i limit0 db =
     (let limit = (if limit0 \<le> 0 then 50 else limit0);
          ms = filter (\<lambda>m. ch_session m = i) (cd_messages db)
      in drop (length ms - nat limit) ms)"

definition delete_session :: "uuid \<Rightarrow> chat_db \<Rightarrow> chat_db" where
  "delete_session i db =
     \<lparr>cd_sessions = filter (\<lambda>s. cs_id s \<noteq> i) (cd_sessions db),
      cd_messages = filter (\<lambda>m. ch_session m \<noteq> i) (cd_messages db)\<rparr>"

definition list_sessions :: "uuid \<Rightarrow> uuid \<Rightarrow> int \<times> int \<Rightarrow> chat_db \<Rightarrow> chat_row paginated" where
  "list_sessions org user p db =
     (paginate p (stable_sort (\<lambda>x y. cs_updated x > cs_updated y)
       (filter (\<lambda>s. cs_org s = org \<and> cs_user s = user) (cd_sessions db))))\<lparr>pg_total_pages := 0\<rparr>"

section \<open>Sessions\<close>

type_synonym 'w chat_world = "chat_db \<times> 'w"

record 'w chat_env =
  ce_agent :: "'w chat_world chat_agent option"
  ce_fault :: "'w chat_world \<Rightarrow> string \<Rightarrow> go_err option"
  ce_fresh :: "'w chat_world \<Rightarrow> uuid"
  ce_now :: "'w chat_world \<Rightarrow> int"
  ce_stamp :: "int \<Rightarrow> string"
  ce_parse_uuid :: "string \<Rightarrow> uuid option"

text \<open>A statement whose error is returned, with the repository's prefix, and one whose error is logged.\<close>

definition chat_try ::
  "'w chat_env \<Rightarrow> string \<Rightarrow> string \<Rightarrow> (chat_db \<Rightarrow> chat_db) \<Rightarrow> 'w chat_world \<Rightarrow> go_err option \<times> 'w chat_world" where
  "chat_try env what prefix f w =
     (case ce_fault env w what of
        Some e \<Rightarrow> (Some (ErrWrap prefix e), w)
      | None \<Rightarrow> (None, (f (fst w), snd w)))"

definition chat_do :: "'w chat_env \<Rightarrow> string \<Rightarrow> (chat_db \<Rightarrow> chat_db) \<Rightarrow> 'w chat_world \<Rightarrow> 'w chat_world" where
  "chat_do env what f w = snd (chat_try env what [] f w)"

definition start_session ::
  "'w chat_env \<Rightarrow> uuid \<Rightarrow> uuid \<Rightarrow> uuid option \<Rightarrow> string \<Rightarrow> 'w chat_world
     \<Rightarrow> (go_err + chat_row) \<times> 'w chat_world" where
  "start_session env org user agent source w =
     (let s = \<lparr>cs_id = ce_fresh env w, cs_org = org, cs_user = user, cs_agent = agent,
               cs_source = (if source = [] then ''web'' else source), cs_meta = [],
               cs_updated = ce_now env w\<rparr>
      in case chat_try env ''CreateSession'' ''chat_svc: create session: chat_repo: create_session: ''
                (insert_session s) w of
           (Some e, w') \<Rightarrow> (Inl e, w')
         | (None, w') \<Rightarrow> (Inr s, w'))"

definition create_session ::
  "'w chat_env \<Rightarrow> chat_row \<Rightarrow> 'w chat_world \<Rightarrow> go_err option \<times> 'w chat_world" where
  "create_session env s w =
     (let s' = (if cs_id s = uuid_nil then s\<lparr>cs_id := ce_fresh env w\<rparr> else s)
      in chat_try env ''CreateSession'' ''chat_repo: create_session: '' (insert_session s') w)"

definition session_not_found :: go_err where
  "session_not_found = ErrText ''chat_svc: session not found''"

definition get_session ::
  "'w chat_env \<Rightarrow> uuid \<Rightarrow> uuid \<Rightarrow> uuid \<Rightarrow> 'w chat_world \<Rightarrow> go_err + chat_row" where
  "get_session env org user i w =
     (case ce_fault env w ''GetSession'' of
        Some e \<Rightarrow> Inl (ErrWrap ''chat_repo: get_session: '' e)
      | None \<Rightarrow>
          (case find_session i (fst w) of
             None \<Rightarrow> Inl (ErrWrap ''chat_repo: get_session: '' (ErrText ''no rows in result set''))
           | Some s \<Rightarrow> if cs_org s \<noteq> org \<or> cs_user s \<noteq> user then Inl session_not_found else Inr s))"

definition remove_session ::
  "'w chat_env \<Rightarrow> uuid \<Rightarrow> uuid \<Rightarrow> uuid \<Rightarrow> 'w chat_world \<Rightarrow> go_err option \<times> 'w chat_world" where
  "remove_session env org user i w =
     (case get_session env org user i w of
        Inl e \<Rightarrow> (Some e, w)
      | Inr s \<Rightarrow> chat_try env ''DeleteSession'' ''chat_repo: delete_session: '' (delete_session i) w)"

definition get_history ::
  "'w chat_env \<Rightarrow> uuid \<Rightarrow> uuid \<Rightarrow> uuid \<Rightarrow> int \<Rightarrow> 'w chat_world \<Rightarrow> go_err + chat_message list" where
  "get_history env org user i limit w =
     (case get_session env org user i w of
        Inl e \<Rightarrow> Inl e
      | Inr s \<Rightarrow>
          (case ce_fault env w ''ListMessages'' of
             Some e \<Rightarrow> Inl (ErrWrap ''chat_repo: list_messages: '' e)
           | None \<Rightarrow> Inr (list_messages i limit (fst w))))"

section \<open>A turn\<close>

definition drop_trailing_user :: "chat_message list \<Rightarrow> uuid \<Rightarrow> chat_message list" where
  "drop_trailing_user ms wrote =
     (if ms \<noteq> [] \<and> ch_id (last ms) = wrote then butlast ms else ms)"

definition title_from :: "string \<Rightarrow> string" where
  "title_from content =
     (let s = trim_space (replace_all nl '' '' content) in
      if s = [] then ''New chat''
      else if length s > 80 then trim_space (take 80 s) @ utf8 8230 else s)"

text \<open>
  The reply as it is stored: the envelope, and the ids a card needs. An empty list is written as null,
  where the source has \<open>[]\<close> for some.
\<close>

definition opt_field :: "string \<Rightarrow> string \<Rightarrow> obj" where
  "opt_field k s = (if s = [] then [] else [(k, JStr s)])"

definition json_entity :: "entity_ref \<Rightarrow> json" where
  "json_entity e =
     JObj ([(''kind'', JStr (er_kind e)), (''id'', JStr (er_id e)), (''label'', JStr (er_label e))]
       @ opt_field ''href'' (er_href e) @ opt_field ''url'' (er_url e))"

definition json_action :: "action_record \<Rightarrow> json" where
  "json_action a =
     JObj ([(''tool'', JStr (ac_tool a)), (''args'', JObj (ac_args a)), (''status'', JStr (ac_status a))]
       @ (case ac_ref a of None \<Rightarrow> [] | Some e \<Rightarrow> [(''result_ref'', json_entity e)])
       @ opt_field ''error'' (ac_error a))"

definition json_list :: "('a \<Rightarrow> json) \<Rightarrow> 'a list \<Rightarrow> json" where
  "json_list f xs = (if xs = [] then JNull else JArr (map f xs))"

definition json_confirm :: "confirm_request \<Rightarrow> json" where
  "json_confirm c =
     JObj ([(''token'', JStr (cf_token c)), (''tool'', JStr (cf_tool c)), (''summary'', JStr (cf_summary c)),
            (''effect'', JStr (cf_effect c))] @ opt_field ''expires_at'' (cf_expires c))"

definition json_clarify :: "clarify_request \<Rightarrow> json" where
  "json_clarify c =
     JObj ((''question'', JStr (cl_question c)) # opt_field ''slot'' (cl_slot c)
       @ (if cl_options c = [] then []
          else [(''options'', JArr (map (\<lambda>x. JObj [(''label'', JStr (co_label x)),
            (''value'', JStr (co_value x))]) (cl_options c)))]))"

definition json_usage :: "chat_usage \<Rightarrow> json" where
  "json_usage u =
     JObj (opt_field ''model'' (cu_model u)
       @ [(''input_tokens'', JNum (of_int (cu_input u))), (''output_tokens'', JNum (of_int (cu_output u)))])"

definition json_response :: "chat_response \<Rightarrow> json" where
  "json_response r =
     JObj ([(''message'', JStr (cz_message r)), (''actions'', json_list json_action (cz_actions r)),
            (''entities'', json_list json_entity (cz_entities r))]
       @ (case cz_confirmation r of None \<Rightarrow> [] | Some c \<Rightarrow> [(''confirmation'', json_confirm c)])
       @ (case cz_clarify r of None \<Rightarrow> [] | Some c \<Rightarrow> [(''clarify'', json_clarify c)])
       @ (case cz_usage r of None \<Rightarrow> [] | Some u \<Rightarrow> [(''usage'', json_usage u)]))"

definition agent_id_from_href :: "(string \<Rightarrow> uuid option) \<Rightarrow> string \<Rightarrow> string" where
  "agent_id_from_href parse href =
     (if \<not> has_prefix href ''/agents/'' then []
      else (let t = trim_prefix href ''/agents/'';
                i = (case index_any t ''/?'' of Some n \<Rightarrow> take n t | None \<Rightarrow> t)
            in if parse i = None then [] else i))"

definition put_text :: "string \<Rightarrow> string \<Rightarrow> obj \<Rightarrow> obj" where
  "put_text k s meta = (if s = [] then meta else aput k (JStr s) meta)"

definition card_entity :: "(string \<Rightarrow> uuid option) \<Rightarrow> entity_ref \<Rightarrow> obj \<Rightarrow> obj" where
  "card_entity parse e meta =
     (if er_kind e = ''execution'' then
        put_text ''agent_id'' (agent_id_from_href parse (er_href e))
          ((if er_label e = ''execution'' then id else put_text ''agent_name'' (er_label e))
            (put_text ''execution_id'' (er_id e) meta))
      else if er_kind e = ''workflow_run'' then put_text ''workflow_run_id'' (er_id e) meta
      else if er_kind e = ''agent'' then put_text ''agent_name'' (er_label e) (put_text ''agent_id'' (er_id e) meta)
      else meta)"

definition agent_card_meta :: "(string \<Rightarrow> uuid option) \<Rightarrow> chat_response \<Rightarrow> obj" where
  "agent_card_meta parse r =
     fold (card_entity parse) (cz_entities r)
       [(''response'', json_response r), (''actions'', json_list json_action (cz_actions r))]"

record turn_input =
  ti_org :: uuid
  ti_user :: uuid
  ti_session :: uuid
  ti_content :: string
  ti_display :: string
  ti_source :: string
  ti_token :: string

definition source_of :: "turn_input \<Rightarrow> string" where
  "source_of inp = (if ti_source inp = [] then ''web'' else ti_source inp)"

definition user_message :: "turn_input \<Rightarrow> uuid \<Rightarrow> chat_message" where
  "user_message inp i =
     (let display = trim_space (ti_display inp); shown = (display \<noteq> [] \<and> display \<noteq> ti_content inp) in
      \<lparr>ch_id = i, ch_session = ti_session inp, ch_org = ti_org inp, ch_role = ''user'',
       ch_source = source_of inp, ch_content = (if shown then display else ti_content inp),
       ch_meta = (if shown then [(''submitted_value'', JStr (ti_content inp))] else [])\<rparr>)"

definition reply_message :: "turn_input \<Rightarrow> uuid \<Rightarrow> string \<Rightarrow> obj \<Rightarrow> chat_message" where
  "reply_message inp i content meta =
     \<lparr>ch_id = i, ch_session = ti_session inp, ch_org = ti_org inp, ch_role = ''agent'',
      ch_source = source_of inp, ch_content = content, ch_meta = meta\<rparr>"

definition turn_meta :: "(int \<Rightarrow> string) \<Rightarrow> int \<Rightarrow> chat_message \<Rightarrow> obj \<Rightarrow> obj" where
  "turn_meta stamp now m meta =
     aput ''turn_started_at'' (JStr (stamp now))
       (if map_of meta ''title'' = None then aput ''title'' (JStr (title_from (ch_content m))) meta else meta)"

text \<open>
  \<open>SendTurn\<close> up to the agent's run: the user's message is stored and the turn is marked as in flight.
  The lock on the session is one of this process.
\<close>

definition begin_turn ::
  "'w chat_env \<Rightarrow> turn_input \<Rightarrow> 'w chat_world
     \<Rightarrow> (go_err + chat_message \<times> turn_request) \<times> 'w chat_world" where
  "begin_turn env inp w =
     (case get_session env (ti_org inp) (ti_user inp) (ti_session inp) w of
        Inl e \<Rightarrow> (Inl e, w)
      | Inr s \<Rightarrow>
          (let m = user_message inp (ce_fresh env w) in
           case chat_try env ''AppendMessage'' ''chat_svc: persist user message: chat_repo: append_message: ''
                  (append_message m) w of
             (Some e, w1) \<Rightarrow> (Inl e, w1)
           | (None, w1) \<Rightarrow>
               (let history = (case ce_fault env w1 ''ListMessages'' of
                      Some e \<Rightarrow> []
                    | None \<Rightarrow> drop_trailing_user (list_messages (ti_session inp) 80 (fst w1)) (ch_id m));
                    meta = turn_meta (ce_stamp env) (ce_now env w1) m (cs_meta s)
                in (Inr (m, \<lparr>tq_ident = \<lparr>dn_org = ti_org inp, dn_user = ti_user inp,
                                         dn_session = ti_session inp\<rparr>,
                             tq_message = ti_content inp, tq_token = ti_token inp, tq_history = history,
                             tq_meta = meta, tq_source = source_of inp\<rparr>),
                    chat_do env ''UpdateSessionMetadata''
                      (update_session_metadata (ti_session inp) meta (ce_now env w1)) w1))))"

definition fallback_turn ::
  "'w chat_env \<Rightarrow> turn_input \<Rightarrow> string \<Rightarrow> 'w chat_world \<Rightarrow> (chat_message \<times> chat_response) \<times> 'w chat_world" where
  "fallback_turn env inp msg w =
     (let m = reply_message inp (ce_fresh env w) msg [] in
      ((m, plain_response msg), chat_do env ''AppendMessage'' (append_message m) w))"

definition transcript_row :: "turn_input \<Rightarrow> uuid \<Rightarrow> chat_message \<Rightarrow> chat_message" where
  "transcript_row inp i m =
     m\<lparr>ch_id := (if ch_id m = uuid_nil then i else ch_id m), ch_session := ti_session inp, ch_org := ti_org inp,
       ch_source := (if ch_source m = [] then source_of inp else ch_source m)\<rparr>"

definition finish_turn ::
  "'w chat_env \<Rightarrow> turn_input \<Rightarrow> turn_result \<Rightarrow> 'w chat_world
     \<Rightarrow> (chat_message \<times> chat_response) \<times> 'w chat_world" where
  "finish_turn env inp tr w =
     (let resp = (tz_response tr)\<lparr>cz_message := sanitise_message (cz_message (tz_response tr))\<rparr>;
          meta = adel ''turn_started_at'' (tz_meta tr);
          w1 = chat_do env ''UpdateSessionMetadata''
                 (update_session_metadata (ti_session inp) meta (ce_now env w)) w;
          w2 = fold (\<lambda>m w. chat_do env ''AppendMessage'' (append_message (transcript_row inp (ce_fresh env w) m)) w)
                 (tz_transcript tr) w1;
          m = reply_message inp (ce_fresh env w2) (cz_message resp)
                (agent_card_meta (ce_parse_uuid env) resp)
      in ((m, resp), chat_do env ''AppendMessage'' (append_message m) w2))"

definition send_turn ::
  "'w chat_env \<Rightarrow> turn_input \<Rightarrow> 'w chat_world
     \<Rightarrow> (go_err + chat_message \<times> chat_message \<times> chat_response) \<times> 'w chat_world" where
  "send_turn env inp w =
     (case begin_turn env inp w of
        (Inl e, w1) \<Rightarrow> (Inl e, w1)
      | (Inr (m, rq), w1) \<Rightarrow>
          (case ce_agent env of
             None \<Rightarrow>
               (let w2 = chat_do env ''UpdateSessionMetadata'' (update_session_metadata (ti_session inp)
                      (adel ''turn_started_at'' (tq_meta rq)) (ce_now env w1)) w1;
                    (r, w3) = fallback_turn env inp ''Chat is not configured.'' w2
                in (Inr (m, r), w3))
           | Some ag \<Rightarrow>
               (let (tr, w2) = run_turn ag rq w1; (r, w3) = finish_turn env inp tr w2
                in (Inr (m, r), w3))))"

section \<open>The stateless route\<close>

record route_result =
  rx_intent :: string
  rx_message :: string
  rx_question :: string
  rx_response :: chat_response

definition intent_from :: "chat_response \<Rightarrow> string" where
  "intent_from r =
     (if cz_confirmation r \<noteq> None then ''confirm''
      else if cz_clarify r \<noteq> None then ''clarify''
      else (case cz_actions r of a # as \<Rightarrow> ac_tool a | [] \<Rightarrow> ''chat''))"

definition route_chat ::
  "'w chat_agent option \<Rightarrow> identity \<Rightarrow> string \<Rightarrow> chat_message list \<Rightarrow> 'w \<Rightarrow> route_result \<times> 'w" where
  "route_chat agent ident msg0 history w =
     (let msg = trim_space msg0;
          plain = (\<lambda>intent m. \<lparr>rx_intent = intent, rx_message = m, rx_question = [],
                               rx_response = plain_response m\<rparr>)
      in if msg = [] then (plain ''clarify'' ''Please send a non-empty message.'', w)
         else (case agent of
                 None \<Rightarrow> (plain ''chat'' ''Chat is not configured.'', w)
               | Some ag \<Rightarrow>
                   (let (tr, w') = run_turn ag \<lparr>tq_ident = ident, tq_message = msg, tq_token = [],
                          tq_history = history, tq_meta = [], tq_source = []\<rparr> w;
                        r = tz_response tr
                    in (\<lparr>rx_intent = intent_from r, rx_message = cz_message r,
                         rx_question = (case cz_clarify r of None \<Rightarrow> [] | Some c \<Rightarrow> cl_question c),
                         rx_response = r\<rparr>, w'))))"


section \<open>Two replicas\<close>

definition confirm_key :: string where "confirm_key = ''pending_confirmation''"

lemma read_confirm_cong:
  "map_of m confirm_key = map_of m' confirm_key \<Longrightarrow> read_confirm now m = read_confirm now m'"
  by (simp add: read_confirm_def confirm_key_def)

lemma turn_meta_keeps: "map_of (turn_meta stamp now msg m) confirm_key = map_of m confirm_key"
  by (simp add: turn_meta_def confirm_key_def)

lemma chat_do_find:
  "find_session i (fst (chat_do env what (update_session_metadata i meta now) w))
     = (case find_session i (fst w) of
          None \<Rightarrow> None
        | Some s \<Rightarrow> Some (if ce_fault env w what = None then s\<lparr>cs_meta := meta, cs_updated := now\<rparr> else s))"
proof -
  have "List.find (\<lambda>s. cs_id s = i) (map (\<lambda>s. if cs_id s = i then s\<lparr>cs_meta := meta, cs_updated := now\<rparr> else s) xs)
      = map_option (\<lambda>s. s\<lparr>cs_meta := meta, cs_updated := now\<rparr>) (List.find (\<lambda>s. cs_id s = i) xs)"
    for xs :: "chat_row list"
    by (induction xs) auto
  then show ?thesis
    by (auto simp: chat_do_def chat_try_def update_session_metadata_def update_session_def find_session_def
        split: option.split)
qed

lemma find_append_message [simp]: "find_session i (append_message m db) = find_session i db"
  by (simp add: append_message_def find_session_def)

text \<open>What a turn that begins gives the agent, and what it leaves in the session's row.\<close>

lemma begin_turn_meta:
  assumes "begin_turn env inp w = (Inr (m, rq), w1)"
  shows "\<exists>s s'. find_session (ti_session inp) (fst w) = Some s
    \<and> find_session (ti_session inp) (fst w1) = Some s'
    \<and> map_of (tq_meta rq) confirm_key = map_of (cs_meta s) confirm_key
    \<and> map_of (cs_meta s') confirm_key = map_of (cs_meta s) confirm_key
    \<and> dn_org (tq_ident rq) = ti_org inp \<and> dn_user (tq_ident rq) = ti_user inp
    \<and> tq_message rq = ti_content inp \<and> tq_token rq = ti_token inp"
proof -
  obtain s where g: "get_session env (ti_org inp) (ti_user inp) (ti_session inp) w = Inr s"
    using assms by (auto simp: begin_turn_def split: sum.splits)
  then have s: "find_session (ti_session inp) (fst w) = Some s"
    by (auto simp: get_session_def split: option.splits if_splits)
  have a: "ce_fault env w ''AppendMessage'' = None"
    using assms g by (auto simp: begin_turn_def chat_try_def Let_def split: option.splits)
  define u where "u = (append_message (user_message inp (ce_fresh env w)) (fst w), snd w)"
  have u: "find_session (ti_session inp) (fst u) = Some s" using s by (simp add: u_def)
  have "m = user_message inp (ce_fresh env w)
      \<and> tq_meta rq = turn_meta (ce_stamp env) (ce_now env u) m (cs_meta s)
      \<and> w1 = chat_do env ''UpdateSessionMetadata''
          (update_session_metadata (ti_session inp) (tq_meta rq) (ce_now env u)) u
      \<and> dn_org (tq_ident rq) = ti_org inp \<and> dn_user (tq_ident rq) = ti_user inp
      \<and> tq_message rq = ti_content inp \<and> tq_token rq = ti_token inp"
    using assms g a by (auto simp: begin_turn_def chat_try_def Let_def u_def)
  then show ?thesis
    using s u chat_do_find [of "ti_session inp" env "''UpdateSessionMetadata''"]
    by (auto simp: turn_meta_keeps)
qed

text \<open>The guard lets the user run the tool once it is confirmed.\<close>

definition admits :: "'w guard \<Rightarrow> identity \<Rightarrow> 'w platform_tool \<Rightarrow> bool" where
  "admits g ident t \<longleftrightarrow>
     (\<forall>cx w. hx_ident cx = Some ident \<longrightarrow> fst (check_guard g cx t True w) = None)"

lemma logged_policy: "check_guard_policy (logged_guard g) ident (logged_platform n t) (w, l)
    = (fst (check_guard_policy g ident t w), (snd (check_guard_policy g ident t w), l))"
  by (auto simp: check_guard_policy_def logged_guard_def logged_platform_def lift_op_def
      split: option.splits prod.splits)

lemma logged_rbac: "check_rbac (logged_guard g) ident (logged_platform n t) (w, l)
    = (fst (check_rbac g ident t w), (snd (check_rbac g ident t w), l))"
  by (auto simp: check_rbac_def logged_guard_def logged_platform_def lift_op_def
      split: option.splits prod.splits sum.splits bool.splits)

lemma logged_check: "check_guard (logged_guard g) cx (logged_platform n t) c (w, l)
    = (fst (check_guard g cx t c w), (snd (check_guard g cx t c w), l))"
  by (auto simp: check_guard_def logged_policy logged_rbac split: option.splits prod.splits)
    (simp_all add: logged_platform_def)

lemma approved_turn_runs:
  assumes "ga_guard ag = Some g" and "get_platform (ga_reg ag) (pc_tool p) = Some t" and "pl_destructive t"
    and "admits g (tq_ident rq) t" and "waiting_call ag rq w = Some p" and "approves rq p"
    and "run_turn (logged_agent ag) rq (w, []) = (r, (w', l))"
  shows "destructive_runs l = [(pc_tool p, strip_org_args (pc_args p))]"
proof -
  let ?ag = "logged_agent ag"
  obtain ps w1 where ps: "turn_permissions ag (tq_ident rq) w = (ps, w1)" by (metis surj_pair)
  define cx where "cx = \<lparr>hx_ident = Some (tq_ident rq), hx_perms = ps,
    hx_entities = read_entities (ga_now ?ag (w, [])) (tq_meta rq), hx_memories = []\<rparr>"
  have rc: "read_confirm (ga_now ?ag (w1, [])) (tq_meta rq) = Some p"
    using assms(5) ps by (simp add: waiting_call_def logged_agent_def)
  have "trim_space (tq_message rq) \<noteq> [] \<or> tq_token rq \<noteq> []"
    using assms(6) by (auto simp: approves_def is_affirmative_def to_lower_def)
  then have turn: "run_turn ?ag rq (w, []) = handle_confirmation ?ag cx rq (tq_meta rq) p (w1, [])"
    by (auto simp: run_turn_def Let_def logged_permissions ps rc cx_def)
  obtain e w2 where c: "check_guard g cx t True w1 = (e, w2)" by (metis surj_pair)
  have e: "e = None" using assms(4) c by (simp add: admits_def cx_def) (metis chat_ctx.select_convs(1) fst_conv)
  have "execute_chat_tool ?ag cx (pc_tool p) (pc_args p) True (w1, [])
      = run_tool cx (logged_platform (pc_tool p) t) (pc_args p) (action_of (pc_tool p) (pc_args p)) (w2, [])"
    by (simp add: execute_chat_tool_def Let_def get_logged assms(2) logged_check c e)
      (simp add: logged_agent_def assms(1) logged_check c e)
  moreover obtain out where "run_tool cx (logged_platform (pc_tool p) t) (pc_args p)
      (action_of (pc_tool p) (pc_args p)) (w2, []) = (out, snd (pl_run (logged_platform (pc_tool p) t) cx
        (strip_org_args (pc_args p)) (w2, [])))"
    by (metis prod.collapse run_tool_world)
  moreover have "snd (snd (pl_run (logged_platform (pc_tool p) t) cx (strip_org_args (pc_args p)) (w2, [])))
      = [\<lparr>xr_tool = pc_tool p, xr_destructive = True, xr_args = strip_org_args (pc_args p)\<rparr>]"
    using assms(3) by (simp add: logged_platform_def)
  ultimately have "snd (snd (handle_confirmation ?ag cx rq (tq_meta rq) p (w1, [])))
      = [\<lparr>xr_tool = pc_tool p, xr_destructive = True, xr_args = strip_org_args (pc_args p)\<rparr>]"
    using assms(6) by (cases out) (simp add: handle_confirmation_def approves_def Let_def split: option.split)
  then show ?thesis using assms(7) turn by (simp add: destructive_runs_def)
qed

text \<open>What a session's row holds when a turn begins is what the turn finds waiting.\<close>

lemma waiting_call_stored:
  assumes "begin_turn env inp w = (Inr (m, rq), w1)" and "find_session (ti_session inp) (fst w) = Some row"
    and "\<And>u. read_confirm (ga_now ag u) (cs_meta row) = Some p"
  shows "waiting_call ag rq u = Some p"
    and "\<exists>row'. find_session (ti_session inp) (fst w1) = Some row'
      \<and> map_of (cs_meta row') confirm_key = map_of (cs_meta row) confirm_key"
proof -
  have "map_of (tq_meta rq) confirm_key = map_of (cs_meta row) confirm_key"
    using begin_turn_meta [OF assms(1)] assms(2) by auto
  from read_confirm_cong [OF this] show "waiting_call ag rq u = Some p"
    using assms(3) by (simp add: waiting_call_def)
  show "\<exists>row'. find_session (ti_session inp) (fst w1) = Some row'
      \<and> map_of (cs_meta row') confirm_key = map_of (cs_meta row) confirm_key"
    using begin_turn_meta [OF assms(1)] assms(2) by auto
qed

text \<open>
  C6: the lock of a session is a mutex of one process, and nothing in the tables replaces it. Two
  replicas that begin a turn of a session before either has stored its outcome both read the held
  destructive call, and when both turns approve it (a double click, a retry) the call runs twice, the
  second time although the first turn has stored that nothing is held any more.
\<close>

theorem approval_raced:
  assumes one: "begin_turn env i1 w = (Inr (m1, rq1), w1)" and two: "begin_turn env i2 w1 = (Inr (m2, rq2), w2)"
    and session: "ti_session i2 = ti_session i1" "find_session (ti_session i1) (fst w) = Some row"
    and held: "\<And>u. read_confirm (ga_now ag u) (cs_meta row) = Some p"
    and tool: "ga_guard ag = Some g" "get_platform (ga_reg ag) (pc_tool p) = Some t" "pl_destructive t"
    and may: "admits g (tq_ident rq1) t" "admits g (tq_ident rq2) t"
    and yes: "approves rq1 p" "approves rq2 p"
    and run1: "run_turn (logged_agent ag) rq1 (w2, []) = (r1, (w3, l1))"
    and run2: "run_turn (logged_agent ag) rq2 (snd (finish_turn env i1 r1 w3), []) = (r2, (w4, l2))"
  shows "destructive_runs l1 = [(pc_tool p, strip_org_args (pc_args p))]
    \<and> destructive_runs l2 = [(pc_tool p, strip_org_args (pc_args p))]"
proof
  obtain row' where row': "find_session (ti_session i2) (fst w1) = Some row'"
      "map_of (cs_meta row') confirm_key = map_of (cs_meta row) confirm_key"
    using waiting_call_stored(2) [OF one session(2) held] session(1) by auto
  have held': "read_confirm (ga_now ag u) (cs_meta row') = Some p" for u
    using held read_confirm_cong [OF row'(2)] by simp
  show "destructive_runs l1 = [(pc_tool p, strip_org_args (pc_args p))]"
    by (rule approved_turn_runs [OF tool may(1) waiting_call_stored(1) [OF one session(2) held] yes(1) run1])
  show "destructive_runs l2 = [(pc_tool p, strip_org_args (pc_args p))]"
    by (rule approved_turn_runs [OF tool may(2) waiting_call_stored(1) [OF two row'(1) held'] yes(2) run2])
qed

text \<open>Two replicas, one clock that stands still, and a session that holds the deletion of Bob.\<close>

definition race_tool :: "nat chat_world platform_tool" where
  "race_tool =
     \<lparr>pl_name = ''agent_delete'', pl_desc = [], pl_domain = [], pl_perm = [], pl_destructive = True,
      pl_read_only = False, pl_schema = [], pl_effect = None,
      pl_run = (\<lambda>cx args (db, n). (Inr (Some (data_result NoData)), (db, Suc n)))\<rparr>"

definition race_agent :: "nat chat_world chat_agent" where
  "race_agent =
     \<lparr>ga_client = None, ga_model = [], ga_reg = [(''agent_delete'', race_tool)],
      ga_guard = Some open_guard, ga_memory = None, ga_max_iter = 0, ga_extra = [], ga_hints = [],
      ga_now = (\<lambda>_. 0), ga_stamp = (\<lambda>_. ''2100-01-01T00:00:00Z''), ga_token = (\<lambda>_. ''4f1c''),
      ga_row_id = (\<lambda>_ n. n)\<rparr>"

definition race_env :: "nat chat_env" where
  "race_env =
     \<lparr>ce_agent = Some race_agent, ce_fault = (\<lambda>w what. None), ce_fresh = (\<lambda>w. 7), ce_now = (\<lambda>w. 0),
      ce_stamp = (\<lambda>t. ''2100-01-01T00:00:00Z''), ce_parse_uuid = (\<lambda>s. None)\<rparr>"

definition race_row :: chat_row where
  "race_row =
     \<lparr>cs_id = 3, cs_org = 1, cs_user = 2, cs_agent = None, cs_source = ''web'',
      cs_meta = [(''title'', JStr ''Bob''), (''pending_confirmation'', JObj [(''token'', JStr ''4f1c''),
        (''tool'', JStr ''agent_delete''), (''args'', JObj bob), (''expires_at'', JStr ''2100-01-01T00:00:00Z'')])],
      cs_updated = 0\<rparr>"

definition race_yes :: turn_input where
  "race_yes =
     \<lparr>ti_org = 1, ti_user = 2, ti_session = 3, ti_content = ''Yes'', ti_display = [], ti_source = [], ti_token = []\<rparr>"

definition race_db :: "nat chat_world" where
  "race_db = (\<lparr>cd_sessions = [race_row], cd_messages = []\<rparr>, 0)"

lemma race_admits: "admits open_guard ident race_tool" if "dn_user ident = 2" "dn_org ident = 1"
  using that by (auto simp: admits_def check_guard_def check_guard_policy_def check_rbac_def open_guard_def race_tool_def
      uuid_nil_def)

lemma race_begins:
  "\<exists>m rq w'. begin_turn race_env race_yes w = (Inr (m, rq), w')" if "get_session race_env 1 2 3 w = Inr s"
  using that by (simp add: begin_turn_def race_yes_def chat_try_def race_env_def Let_def)

lemma race_session: "get_session race_env 1 2 3 w = Inr s" if "find_session 3 (fst w) = Some s" "cs_org s = 1" "cs_user s = 2"
  using that by (simp add: get_session_def race_env_def)

theorem approval_raced_witness:
  "\<exists>r1 w3 l1 r2 w4 l2 m1 rq1 w1 m2 rq2 w2.
     begin_turn race_env race_yes race_db = (Inr (m1, rq1), w1)
     \<and> begin_turn race_env race_yes w1 = (Inr (m2, rq2), w2)
     \<and> run_turn (logged_agent race_agent) rq1 (w2, []) = (r1, (w3, l1))
     \<and> run_turn (logged_agent race_agent) rq2 (snd (finish_turn race_env race_yes r1 w3), []) = (r2, (w4, l2))
     \<and> destructive_runs l1 = [(''agent_delete'', bob)] \<and> destructive_runs l2 = [(''agent_delete'', bob)]"
proof -
  have row: "find_session 3 (fst race_db) = Some race_row"
    by (simp add: find_session_def race_db_def race_row_def)
  obtain m1 rq1 w1 where one: "begin_turn race_env race_yes race_db = (Inr (m1, rq1), w1)"
    using race_begins [OF race_session [OF row]] by (auto simp: race_row_def)
  have "find_session 3 (fst w1) \<noteq> None \<and> (\<forall>s. find_session 3 (fst w1) = Some s \<longrightarrow> cs_org s = 1 \<and> cs_user s = 2)"
    using one row by (auto simp: begin_turn_def race_yes_def chat_try_def race_env_def get_session_def chat_do_find
        Let_def race_row_def)
  then obtain s1 where "find_session 3 (fst w1) = Some s1" "cs_org s1 = 1" "cs_user s1 = 2" by auto
  then obtain m2 rq2 w2 where two: "begin_turn race_env race_yes w1 = (Inr (m2, rq2), w2)"
    using race_begins [OF race_session] by blast
  obtain r1 w3 l1 where run1: "run_turn (logged_agent race_agent) rq1 (w2, []) = (r1, (w3, l1))"
    by (metis surj_pair)
  obtain r2 w4 l2 where run2: "run_turn (logged_agent race_agent) rq2
      (snd (finish_turn race_env race_yes r1 w3), []) = (r2, (w4, l2))"
    by (metis surj_pair)
  have rq: "dn_org (tq_ident rq1) = 1" "dn_user (tq_ident rq1) = 2" "tq_message rq1 = ''Yes''"
    "dn_org (tq_ident rq2) = 1" "dn_user (tq_ident rq2) = 2" "tq_message rq2 = ''Yes''"
    using begin_turn_meta [OF one] begin_turn_meta [OF two] by (auto simp: race_yes_def)
  define p where "p = \<lparr>pc_token = ''4f1c'', pc_tool = ''agent_delete'', pc_args = bob, pc_summary = [],
      pc_effect = [], pc_expires = Some 4102444800000\<rparr>"
  have "parse_rfc3339 ''2100-01-01T00:00:00Z'' = Some 4102444800" by code_simp
  then have held: "read_confirm (ga_now race_agent u) (cs_meta race_row) = Some p" for u
    by (simp add: read_confirm_def race_row_def race_agent_def p_def read_expiry_def as_string_def
        zero_time_secs_def)
  have yes: "approves rq1 p" "approves rq2 p"
    using rq bob_words by (simp_all add: approves_def)
  have tool: "ga_guard race_agent = Some open_guard" "get_platform (ga_reg race_agent) (pc_tool p) = Some race_tool"
    "pl_destructive race_tool"
    by (simp_all add: race_agent_def get_platform_def p_def race_tool_def)
  have "find_session (ti_session race_yes) (fst race_db) = Some race_row"
    using row by (simp add: race_yes_def)
  from approval_raced [OF one two refl this held tool race_admits race_admits yes run1 run2] rq
  have "destructive_runs l1 = [(pc_tool p, strip_org_args (pc_args p))]
      \<and> destructive_runs l2 = [(pc_tool p, strip_org_args (pc_args p))]" by simp
  moreover have "strip_org_args bob = bob" by code_simp
  ultimately show ?thesis
    using one two run1 run2
    by (intro exI [of _ r1] exI [of _ w3] exI [of _ l1] exI [of _ r2] exI [of _ w4] exI [of _ l2] exI [of _ m1]
        exI [of _ rq1] exI [of _ w1] exI [of _ m2] exI [of _ rq2] exI [of _ w2]) (simp add: p_def)
qed

end
