(* ===== verification/GoRunes.thy ===== *)
theory GoRunes
  imports GoJson
begin

text \<open>
  Strings as runes: \<open>utf8.DecodeRune\<close>, \<open>utf8.RuneCountInString\<close> and the conversion to \<open>[]rune\<close> and back.
  A byte that starts no rune counts as one and is read as U+FFFD. Every rune is read back as
  \<^const>\<open>utf8\<close> writes it.
\<close>

definition byte :: "string \<Rightarrow> nat \<Rightarrow> nat" where
  "byte s i = (if i < length s then of_char (s ! i) else 0)"

definition tail_byte :: "string \<Rightarrow> nat \<Rightarrow> bool" where
  "tail_byte s i \<longleftrightarrow> 128 \<le> byte s i \<and> byte s i \<le> 191"

text \<open>The rune at the start of a non-empty string and its width; the second byte has the range its first byte allows.\<close>

definition decode_rune :: "string \<Rightarrow> nat \<times> nat" where
  "decode_rune s =
     (let b0 = byte s 0; b1 = byte s 1; b2 = byte s 2; b3 = byte s 3 in
      if b0 < 128 then (b0, 1)
      else if 194 \<le> b0 \<and> b0 \<le> 223 \<and> tail_byte s 1 then ((b0 - 192) * 64 + (b1 - 128), 2)
      else if 224 \<le> b0 \<and> b0 \<le> 239 \<and> (if b0 = 224 then 160 else 128) \<le> b1
           \<and> b1 \<le> (if b0 = 237 then 159 else 191) \<and> tail_byte s 2 then
        ((b0 - 224) * 4096 + (b1 - 128) * 64 + (b2 - 128), 3)
      else if 240 \<le> b0 \<and> b0 \<le> 244 \<and> (if b0 = 240 then 144 else 128) \<le> b1
           \<and> b1 \<le> (if b0 = 244 then 143 else 191) \<and> tail_byte s 2 \<and> tail_byte s 3 then
        ((b0 - 240) * 262144 + (b1 - 128) * 4096 + (b2 - 128) * 64 + (b3 - 128), 4)
      else (65533, 1))"

lemma rune_width: "0 < snd (decode_rune s)"
  by (simp add: decode_rune_def Let_def)

function runes :: "string \<Rightarrow> nat list" where
  "runes s = (if s = [] then [] else fst (decode_rune s) # runes (drop (snd (decode_rune s)) s))"
  by pat_completeness auto
termination
  by (relation "measure length") (auto simp: rune_width)

declare runes.simps [simp del]

definition rune_count :: "string \<Rightarrow> nat" where
  "rune_count s = length (runes s)"

definition of_runes :: "nat list \<Rightarrow> string" where
  "of_runes rs = concat (map utf8 rs)"

section \<open>Reading back\<close>

definition valid_rune :: "nat \<Rightarrow> bool" where
  "valid_rune r \<longleftrightarrow> r < 55296 \<or> 57344 \<le> r \<and> r < 1114112"

lemma code_char: "n < 256 \<Longrightarrow> (of_char (char_of n :: char) :: nat) = n"
  by (simp add: take_bit_eq_mod)

lemma decode_utf8:
  assumes "valid_rune r"
  shows "decode_rune (utf8 r @ s) = (r, length (utf8 r))"
proof -
  consider "r < 128" | "128 \<le> r" "r < 2048" | "2048 \<le> r" "r < 65536" | "65536 \<le> r" by linarith
  then show ?thesis
  proof cases
    case 1
    then show ?thesis by (simp add: utf8_def decode_rune_def byte_def Let_def code_char)
  next
    case 2
    then have d: "r div 64 < 32" "2 \<le> r div 64" by (auto simp: less_mult_imp_div_less div_le_mono [of 128 r 64, simplified])
    have m: "r mod 64 < 64" by simp
    have "(192 + r div 64 - 192) * 64 + (128 + r mod 64 - 128) = r" by simp
    with 2 d m show ?thesis
      by (simp add: utf8_def decode_rune_def byte_def tail_byte_def Let_def code_char)
  next
    case 3
    define y a b c where abc: "y = r div 64" "a = y div 64" "b = y mod 64" "c = r mod 64"
    have "r = y * 64 + c" "y = a * 64 + b" by (simp_all only: abc div_mult_mod_eq)
    then have r: "r = a * 4096 + b * 64 + c" by linarith
    have bc: "b < 64" "c < 64" by (simp_all add: abc)
    from 3 r bc have a: "a < 16" and b: "a = 0 \<longrightarrow> 32 \<le> b" by auto
    from assms 3 r bc have e: "a = 13 \<longrightarrow> b < 32" by (auto simp: valid_rune_def)
    have "utf8 r = [char_of (224 + a), char_of (128 + b), char_of (128 + c)]"
      using 3 by (simp add: utf8_def abc div_mult2_eq [symmetric])
    with a b e bc show ?thesis
      by (auto simp: decode_rune_def byte_def tail_byte_def Let_def code_char r)
  next
    case 4
    define y z a b c d where abc: "y = r div 64" "z = y div 64" "a = z div 64" "b = z mod 64" "c = y mod 64"
      "d = r mod 64"
    have "r = y * 64 + d" "y = z * 64 + c" "z = a * 64 + b" by (simp_all only: abc div_mult_mod_eq)
    then have r: "r = a * 262144 + b * 4096 + c * 64 + d" by linarith
    have bcd: "b < 64" "c < 64" "d < 64" by (simp_all add: abc)
    from assms 4 have "r < 1114112" by (auto simp: valid_rune_def)
    with 4 r bcd have a: "a < 5" and b: "a = 0 \<longrightarrow> 16 \<le> b" and e: "a = 4 \<longrightarrow> b < 16" by auto
    have "utf8 r = [char_of (240 + a), char_of (128 + b), char_of (128 + c), char_of (128 + d)]"
      using 4 by (simp add: utf8_def abc div_mult2_eq [symmetric])
    with a b e bcd show ?thesis
      by (auto simp: decode_rune_def byte_def tail_byte_def Let_def code_char r)
  qed
qed

lemma decode_valid: "valid_rune (fst (decode_rune s))"
proof -
  have "byte s i < 256" for i by (simp add: byte_def)
  then show ?thesis
    by (auto simp: decode_rune_def Let_def valid_rune_def tail_byte_def)
qed

lemma runes_valid: "r \<in> set (runes s) \<Longrightarrow> valid_rune r"
  by (induction s rule: runes.induct) (subst (asm) (2) runes.simps, auto simp: decode_valid split: if_splits)

lemma utf8_nonempty: "utf8 r \<noteq> []"
  by (simp add: utf8_def)

lemma runes_append: "valid_rune r \<Longrightarrow> runes (utf8 r @ s) = r # runes s"
  by (subst runes.simps) (simp add: utf8_nonempty decode_utf8)

lemma runes_of_runes: "list_all valid_rune rs \<Longrightarrow> runes (of_runes rs) = rs"
  by (induction rs) (simp_all add: of_runes_def runes_append runes.simps [of "[]"])

section \<open>Clipping\<close>

definition clip_string :: "string \<Rightarrow> int \<Rightarrow> string" where
  "clip_string s m =
     (if m \<le> 0 \<or> int (rune_count s) \<le> m then s else of_runes (take (nat m) (runes s)))"

definition optional_clipped :: "string \<Rightarrow> int \<Rightarrow> string option" where
  "optional_clipped s0 m =
     (let s = trim_space s0 in if s = [] \<or> int (rune_count s) > m then None else Some s)"

lemma runes_clip:
  assumes "0 < m"
  shows "runes (clip_string s m) = take (nat m) (runes s)"
proof (cases "int (rune_count s) \<le> m")
  case False
  have "list_all valid_rune (take (nat m) (runes s))"
    using runes_valid by (auto simp: list_all_iff dest: in_set_takeD)
  with False show ?thesis using assms by (simp add: clip_string_def runes_of_runes)
qed (use assms in \<open>simp add: clip_string_def rune_count_def\<close>)

lemma clip_bounded: "0 < m \<Longrightarrow> int (rune_count (clip_string s m)) \<le> m"
  by (simp add: rune_count_def runes_clip)

lemma clip_idem: "clip_string (clip_string s m) m = clip_string s m"
proof (cases "0 < m")
  case True
  then show ?thesis using clip_bounded [of m s] by (simp add: clip_string_def [of "clip_string s m"])
qed (simp add: clip_string_def)

end
