(* ===== verification/SecretBox.thy ===== *)
theory SecretBox
  imports GoEncoding JsonText
begin

text \<open>
  \<open>secretbox/secretbox.go\<close>: how the secrets of tenants are sealed for the database. The cipher and the
  hash of the Go library are parameters, the source of random bytes is what it draws.
\<close>

record aead =
  cp_nonce_size :: nat
  cp_seal :: "string \<Rightarrow> string \<Rightarrow> string"
  cp_open :: "string \<Rightarrow> string \<Rightarrow> go_err + string"

definition seal_prefix :: string where
  "seal_prefix = ''enc:v1:''"

definition is_sealed :: "string \<Rightarrow> bool" where
  "is_sealed s = has_prefix s seal_prefix"

definition no_box_key :: go_err where
  "no_box_key = ErrSentinel ''secretbox: value is encrypted but SECRETS_ENCRYPTION_KEY is not set''"

fun hex_bytes :: "string \<Rightarrow> string option" where
  "hex_bytes [] = Some []"
| "hex_bytes [c] = None"
| "hex_bytes (c # d # s) =
     (case (hex_val c, hex_val d, hex_bytes s) of
        (Some x, Some y, Some t) \<Rightarrow> Some (char_of (x * 16 + y) # t)
      | _ \<Rightarrow> None)"

definition hex_encode :: "string \<Rightarrow> string" where
  "hex_encode s = concat (map (\<lambda>c. [hex_char (of_char c div 16), hex_char (of_char c mod 16)]) s)"

text \<open>\<open>New\<close>: a key of 64 hexadecimal digits is taken as it is, any other text is hashed.\<close>

definition box_key :: "(string \<Rightarrow> string) \<Rightarrow> string \<Rightarrow> string option" where
  "box_key sha s0 =
     (let s = trim_space s0 in
      if s = [] then None
      else case (if length s = 64 then hex_bytes s else None) of Some b \<Rightarrow> Some b | None \<Rightarrow> Some (sha s))"

definition new_box :: "(string \<Rightarrow> string) \<Rightarrow> (string \<Rightarrow> go_err + aead) \<Rightarrow> string \<Rightarrow> go_err + aead option" where
  "new_box sha gcm s =
     (case box_key sha s of
        None \<Rightarrow> Inr None
      | Some k \<Rightarrow> (case gcm k of Inl e \<Rightarrow> Inl (ErrWrap ''secretbox: cipher: '' e) | Inr c \<Rightarrow> Inr (Some c)))"

text \<open>\<open>drawn\<close> is what reading a nonce gives.\<close>

definition seal_secret :: "aead option \<Rightarrow> go_err + string \<Rightarrow> string \<Rightarrow> go_err + string" where
  "seal_secret box drawn plain =
     (case box of
        None \<Rightarrow> Inr plain
      | Some c \<Rightarrow>
          if plain = [] \<or> is_sealed plain then Inr plain
          else case drawn of
            Inl e \<Rightarrow> Inl (ErrWrap ''secretbox: nonce: '' e)
          | Inr nonce \<Rightarrow> Inr (seal_prefix @ b64_encode (nonce @ cp_seal c nonce plain)))"

definition open_secret :: "aead option \<Rightarrow> string \<Rightarrow> go_err + string" where
  "open_secret box stored =
     (if \<not> is_sealed stored then Inr stored
      else case box of
        None \<Rightarrow> Inl no_box_key
      | Some c \<Rightarrow>
          (case b64_decode (trim_prefix stored seal_prefix) of
             None \<Rightarrow> Inl (ErrText ''secretbox: decode: illegal base64 data'')
           | Some blob \<Rightarrow>
               if length blob < cp_nonce_size c then Inl (ErrText ''secretbox: ciphertext too short'')
               else case cp_open c (take (cp_nonce_size c) blob) (drop (cp_nonce_size c) blob) of
                 Inl e \<Rightarrow> Inl (ErrWrap ''secretbox: decrypt: '' e)
               | Inr plain \<Rightarrow> Inr plain))"

section \<open>Lemmas\<close>

lemma hex_bytes_encode: "hex_bytes (hex_encode s) = Some s"
proof (induction s)
  case (Cons c s)
  have "(of_char c :: nat) div 16 < 16" using byte_less [of c] by (simp only: less_mult_imp_div_less)
  then show ?case using Cons by (simp add: hex_encode_def hex_val_char)
qed (simp add: hex_encode_def)

text \<open>What the cipher promises: what was sealed with a nonce opens with it.\<close>

definition opens_sealed :: "aead option \<Rightarrow> go_err + string \<Rightarrow> bool" where
  "opens_sealed box drawn \<longleftrightarrow>
     (case (box, drawn) of
        (Some c, Inr nonce) \<Rightarrow> length nonce = cp_nonce_size c
          \<and> (\<forall>plain. cp_open c nonce (cp_seal c nonce plain) = Inr plain)
      | _ \<Rightarrow> True)"

lemma is_sealed_prefixed [simp]: "is_sealed (seal_prefix @ s)"
  by (simp add: is_sealed_def has_prefix_append)

lemma open_seal:
  assumes "seal_secret box drawn plain = Inr stored" and "opens_sealed box drawn" and "\<not> is_sealed plain"
  shows "open_secret box stored = Inr plain"
proof (cases "box = None \<or> plain = []")
  case True
  then have "stored = plain" using assms(1) by (auto simp: seal_secret_def split: option.splits)
  then show ?thesis using assms(3) by (simp add: open_secret_def)
next
  case False
  then obtain c where c: "box = Some c" by auto
  with False assms(1,3) obtain nonce where n: "drawn = Inr nonce"
    and st: "stored = seal_prefix @ b64_encode (nonce @ cp_seal c nonce plain)"
    by (auto simp: seal_secret_def split: sum.splits)
  have len: "length nonce = cp_nonce_size c" and op: "cp_open c nonce (cp_seal c nonce plain) = Inr plain"
    using assms(2) by (auto simp: opens_sealed_def c n)
  show ?thesis
    by (simp add: open_secret_def st c trim_prefix_append b64_decode_encode len [symmetric] op)
qed

text \<open>With a key a secret is never stored as it is, unless it already looks sealed.\<close>

lemma sealed_is_sealed:
  assumes "seal_secret (Some c) drawn plain = Inr stored" and "plain \<noteq> []"
  shows "is_sealed stored"
  using assms by (auto simp: seal_secret_def split: sum.splits if_splits)

text \<open>A secret that begins with the mark itself is stored as it is and cannot be read again.\<close>

lemma marked_secret_unreadable:
  assumes "b64_decode s = None"
  shows "seal_secret (Some c) drawn (seal_prefix @ s) = Inr (seal_prefix @ s)
    \<and> (\<exists>e. open_secret (Some c) (seal_prefix @ s) = Inl e)"
  by (simp add: seal_secret_def open_secret_def trim_prefix_append assms)

lemma marked_secret_without_key:
  "seal_secret None drawn (seal_prefix @ s) = Inr (seal_prefix @ s)
   \<and> open_secret None (seal_prefix @ s) = Inl no_box_key"
  by (simp add: seal_secret_def open_secret_def)

end
