(* ===== verification/AuthStore.thy ===== *)
theory AuthStore
  imports GoRunes Sorting SecretBox
begin

text \<open>
  The tables of accounts and access rights: users, organisations, refresh tokens, devices, linked
  identities, sign-in states and tickets, roles and their grants, API keys and single sign-on
  configurations (\<open>repository/user_repository.go\<close>, \<open>organization_repository.go\<close>, \<open>token_repository.go\<close>,
  \<open>device_repository.go\<close>, \<open>identity_repository.go\<close>, \<open>rbac_repository.go\<close>, \<open>api_key_repository.go\<close>,
  \<open>sso_repository.go\<close>). A statement is a function on the tables; an insertion that a key or a foreign
  key of the schema rejects is an error. Rows are in the order of insertion. Times are milliseconds.
  Columns that only audit a row are left out.
\<close>

section \<open>Rows\<close>

record user_row =
  us_id :: uuid
  us_email :: string
  us_password :: string
  us_name :: string
  us_avatar :: "string option"
  us_role :: string
  us_org :: "uuid option"
  us_google :: "string option"

record org_row =
  og_id :: uuid
  og_name :: string
  og_slug :: string
  og_owner :: "uuid option"

record refresh_row =
  tk_id :: uuid
  tk_user :: uuid
  tk_hash :: string
  tk_expires :: int
  tk_device :: "uuid option"

record device_row =
  dv_id :: uuid
  dv_user :: uuid
  dv_platform :: string
  dv_name :: string
  dv_version :: string
  dv_push :: "string option"
  dv_push_env :: "string option"
  dv_seen :: int

record identity_row =
  il_provider :: string
  il_subject :: string
  il_user :: uuid
  il_email :: "string option"

record oauth_state =
  os_state :: string
  os_intent :: string
  os_org :: string
  os_expires :: int

record oauth_ticket =
  ot_ticket :: string
  ot_user :: uuid
  ot_expires :: int

record role_row =
  rl_id :: uuid
  rl_org :: uuid
  rl_name :: string
  rl_desc :: "string option"
  rl_perms :: "string list"
  rl_system :: bool

record grant_row =
  gr_user :: uuid
  gr_role :: uuid
  gr_org :: uuid
  gr_by :: "uuid option"

record api_key =
  ak_id :: uuid
  ak_org :: uuid
  ak_name :: string
  ak_prefix :: string
  ak_hash :: string
  ak_scopes :: "string list"
  ak_by :: "uuid option"
  ak_used :: "int option"
  ak_expires :: "int option"
  ak_revoked :: "int option"

record sso_config =
  sc_id :: uuid
  sc_org :: uuid
  sc_provider :: string
  sc_client :: string
  sc_secret :: string
  sc_issuer :: string
  sc_redirect :: string
  sc_scopes :: "string list"
  sc_provision :: bool
  sc_role :: string
  sc_domain :: "string option"
  sc_enabled :: bool

record auth_db =
  ad_users :: "user_row list"
  ad_orgs :: "org_row list"
  ad_tokens :: "refresh_row list"
  ad_devices :: "device_row list"
  ad_identities :: "identity_row list"
  ad_states :: "oauth_state list"
  ad_tickets :: "oauth_ticket list"
  ad_roles :: "role_row list"
  ad_grants :: "grant_row list"
  ad_keys :: "api_key list"
  ad_sso :: "sso_config list"

definition violated :: go_err where
  "violated = ErrText ''constraint violated''"

definition no_rows :: go_err where
  "no_rows = ErrText ''no rows in result set''"

section \<open>Users and organisations\<close>

definition user_with :: "(user_row \<Rightarrow> bool) \<Rightarrow> auth_db \<Rightarrow> user_row option" where
  "user_with p db = List.find p (ad_users db)"

definition find_by_email :: "string \<Rightarrow> auth_db \<Rightarrow> user_row option" where
  "find_by_email email = user_with (\<lambda>u. us_email u = email)"

definition find_by_email_fold :: "string \<Rightarrow> auth_db \<Rightarrow> user_row option" where
  "find_by_email_fold email = user_with (\<lambda>u. to_lower (us_email u) = to_lower email)"

definition find_user :: "uuid \<Rightarrow> auth_db \<Rightarrow> user_row option" where
  "find_user i = user_with (\<lambda>u. us_id u = i)"

definition find_by_google :: "string \<Rightarrow> auth_db \<Rightarrow> user_row option" where
  "find_by_google sub = user_with (\<lambda>u. us_google u = Some sub)"

definition org_exists :: "uuid \<Rightarrow> auth_db \<Rightarrow> bool" where
  "org_exists i db \<longleftrightarrow> i \<in> og_id ` set (ad_orgs db)"

definition user_exists :: "uuid \<Rightarrow> auth_db \<Rightarrow> bool" where
  "user_exists i db \<longleftrightarrow> i \<in> us_id ` set (ad_users db)"

definition create_user :: "user_row \<Rightarrow> auth_db \<Rightarrow> go_err + unit \<times> auth_db" where
  "create_user u db =
     (if us_id u \<in> us_id ` set (ad_users db) \<or> us_email u \<in> us_email ` set (ad_users db)
        \<or> us_google u \<noteq> None \<and> us_google u \<in> us_google ` set (ad_users db)
        \<or> (\<exists>i \<in> set_option (us_org u). \<not> org_exists i db)
      then Inl violated else Inr ((), db\<lparr>ad_users := ad_users db @ [u]\<rparr>))"

definition change_user :: "uuid \<Rightarrow> (user_row \<Rightarrow> user_row) \<Rightarrow> auth_db \<Rightarrow> auth_db" where
  "change_user i f db = db\<lparr>ad_users := map (\<lambda>u. if us_id u = i then f u else u) (ad_users db)\<rparr>"

definition update_user_profile :: "user_row \<Rightarrow> auth_db \<Rightarrow> go_err + unit \<times> auth_db" where
  "update_user_profile v db =
     (if user_exists (us_id v) db
      then Inr ((), change_user (us_id v) (\<lambda>u. u\<lparr>us_name := us_name v, us_avatar := us_avatar v\<rparr>) db)
      else Inl no_rows)"

definition update_user_org :: "uuid \<Rightarrow> uuid \<Rightarrow> auth_db \<Rightarrow> go_err + unit \<times> auth_db" where
  "update_user_org i org db =
     (if user_exists i db \<and> \<not> org_exists org db then Inl violated
      else Inr ((), change_user i (\<lambda>u. u\<lparr>us_org := Some org\<rparr>) db))"

text \<open>\<open>COALESCE(NULLIF(avatar_url, ''), $2)\<close>.\<close>

definition avatar_or :: "string option \<Rightarrow> string option \<Rightarrow> string option" where
  "avatar_or old new = (if old = None \<or> old = Some [] then new else old)"

definition link_google :: "uuid \<Rightarrow> string \<Rightarrow> string option \<Rightarrow> auth_db \<Rightarrow> go_err + unit \<times> auth_db" where
  "link_google i sub avatar db =
     (if user_exists i db \<and> (\<exists>u \<in> set (ad_users db). us_id u \<noteq> i \<and> us_google u = Some sub) then Inl violated
      else Inr ((), change_user i
        (\<lambda>u. u\<lparr>us_google := Some sub, us_avatar := avatar_or (us_avatar u) avatar\<rparr>) db))"

definition create_org :: "org_row \<Rightarrow> auth_db \<Rightarrow> go_err + unit \<times> auth_db" where
  "create_org g db =
     (if og_id g \<in> og_id ` set (ad_orgs db) \<or> og_slug g \<in> og_slug ` set (ad_orgs db) then Inl violated
      else Inr ((), db\<lparr>ad_orgs := ad_orgs db @ [g]\<rparr>))"

definition find_org :: "uuid \<Rightarrow> auth_db \<Rightarrow> org_row option" where
  "find_org i db = List.find (\<lambda>g. og_id g = i) (ad_orgs db)"

definition find_org_by_slug :: "string \<Rightarrow> auth_db \<Rightarrow> org_row option" where
  "find_org_by_slug slug db = List.find (\<lambda>g. og_slug g = slug) (ad_orgs db)"

definition update_org :: "org_row \<Rightarrow> auth_db \<Rightarrow> go_err + unit \<times> auth_db" where
  "update_org g db =
     (if find_org (og_id g) db = None then Inl no_rows
      else if \<exists>h \<in> set (ad_orgs db). og_id h \<noteq> og_id g \<and> og_slug h = og_slug g then Inl violated
      else Inr ((), db\<lparr>ad_orgs := map (\<lambda>h. if og_id h = og_id g
        then h\<lparr>og_name := og_name g, og_slug := og_slug g\<rparr> else h) (ad_orgs db)\<rparr>))"

section \<open>Sessions and devices\<close>

definition device_exists :: "uuid \<Rightarrow> auth_db \<Rightarrow> bool" where
  "device_exists i db \<longleftrightarrow> i \<in> dv_id ` set (ad_devices db)"

definition save_token :: "refresh_row \<Rightarrow> auth_db \<Rightarrow> go_err + unit \<times> auth_db" where
  "save_token t db =
     (if tk_id t \<in> tk_id ` set (ad_tokens db) \<or> tk_hash t \<in> tk_hash ` set (ad_tokens db)
        \<or> \<not> user_exists (tk_user t) db \<or> (\<exists>i \<in> set_option (tk_device t). \<not> device_exists i db)
      then Inl violated else Inr ((), db\<lparr>ad_tokens := ad_tokens db @ [t]\<rparr>))"

definition find_token :: "string \<Rightarrow> auth_db \<Rightarrow> refresh_row option" where
  "find_token h db = List.find (\<lambda>t. tk_hash t = h) (ad_tokens db)"

definition drop_tokens :: "(refresh_row \<Rightarrow> bool) \<Rightarrow> auth_db \<Rightarrow> auth_db" where
  "drop_tokens p db = db\<lparr>ad_tokens := filter (\<lambda>t. \<not> p t) (ad_tokens db)\<rparr>"

definition delete_token :: "uuid \<Rightarrow> auth_db \<Rightarrow> auth_db" where
  "delete_token i = drop_tokens (\<lambda>t. tk_id t = i)"

definition delete_user_tokens :: "uuid \<Rightarrow> auth_db \<Rightarrow> auth_db" where
  "delete_user_tokens u = drop_tokens (\<lambda>t. tk_user t = u)"

definition create_device :: "device_row \<Rightarrow> auth_db \<Rightarrow> go_err + unit \<times> auth_db" where
  "create_device d db =
     (if device_exists (dv_id d) db \<or> \<not> user_exists (dv_user d) db then Inl violated
      else Inr ((), db\<lparr>ad_devices := ad_devices db @ [d\<lparr>dv_push := None, dv_push_env := None\<rparr>]\<rparr>))"

definition find_device :: "uuid \<Rightarrow> uuid \<Rightarrow> auth_db \<Rightarrow> device_row option" where
  "find_device i u db = List.find (\<lambda>d. dv_id d = i \<and> dv_user d = u) (ad_devices db)"

definition change_device :: "uuid \<Rightarrow> uuid \<Rightarrow> (device_row \<Rightarrow> device_row) \<Rightarrow> auth_db \<Rightarrow> auth_db" where
  "change_device i u f db =
     db\<lparr>ad_devices := map (\<lambda>d. if dv_id d = i \<and> dv_user d = u then f d else d) (ad_devices db)\<rparr>"

definition touch_device_row :: "device_row \<Rightarrow> int \<Rightarrow> auth_db \<Rightarrow> go_err + unit \<times> auth_db" where
  "touch_device_row e now db =
     (if find_device (dv_id e) (dv_user e) db = None then Inl no_rows
      else Inr ((), change_device (dv_id e) (dv_user e) (\<lambda>d. d\<lparr>dv_platform := dv_platform e,
        dv_name := dv_name e, dv_version := dv_version e, dv_seen := now\<rparr>) db))"

definition list_user_devices :: "uuid \<Rightarrow> auth_db \<Rightarrow> device_row list" where
  "list_user_devices u db =
     stable_sort (\<lambda>x y. dv_seen x > dv_seen y) (filter (\<lambda>d. dv_user d = u) (ad_devices db))"

text \<open>A device takes its tokens with it (\<open>ON DELETE CASCADE\<close>).\<close>

definition drop_devices :: "(device_row \<Rightarrow> bool) \<Rightarrow> auth_db \<Rightarrow> auth_db" where
  "drop_devices p db =
     drop_tokens (\<lambda>t. \<exists>d \<in> set (ad_devices db). p d \<and> tk_device t = Some (dv_id d))
       (db\<lparr>ad_devices := filter (\<lambda>d. \<not> p d) (ad_devices db)\<rparr>)"

definition delete_device_row :: "uuid \<Rightarrow> uuid \<Rightarrow> auth_db \<Rightarrow> bool \<times> auth_db" where
  "delete_device_row i u db =
     (find_device i u db \<noteq> None, drop_devices (\<lambda>d. dv_id d = i \<and> dv_user d = u) db)"

definition delete_user_devices :: "uuid \<Rightarrow> auth_db \<Rightarrow> auth_db" where
  "delete_user_devices u = drop_devices (\<lambda>d. dv_user d = u)"

definition release_push :: "string \<Rightarrow> uuid \<Rightarrow> auth_db \<Rightarrow> auth_db" where
  "release_push token i db =
     db\<lparr>ad_devices := map (\<lambda>d. if dv_push d = Some token \<and> dv_id d \<noteq> i
       then d\<lparr>dv_push := None, dv_push_env := None\<rparr> else d) (ad_devices db)\<rparr>"

definition set_push_row :: "uuid \<Rightarrow> uuid \<Rightarrow> string \<Rightarrow> string \<Rightarrow> int \<Rightarrow> auth_db \<Rightarrow> bool \<times> auth_db" where
  "set_push_row i u token penv now db =
     (let db1 = (if token = [] then db else release_push token i db);
          (t, e) = (if token = [] then (None, None) else (Some token, Some penv))
      in (find_device i u db1 \<noteq> None,
          change_device i u (\<lambda>d. d\<lparr>dv_push := t, dv_push_env := e, dv_seen := now\<rparr>) db1))"

section \<open>External sign-in\<close>

definition find_identity :: "string \<Rightarrow> string \<Rightarrow> auth_db \<Rightarrow> uuid" where
  "find_identity provider subject db =
     (case List.find (\<lambda>l. il_provider l = provider \<and> il_subject l = subject) (ad_identities db) of
        None \<Rightarrow> uuid_nil | Some l \<Rightarrow> il_user l)"

definition link_identity :: "string \<Rightarrow> string \<Rightarrow> uuid \<Rightarrow> string \<Rightarrow> auth_db \<Rightarrow> go_err + unit \<times> auth_db" where
  "link_identity provider subject u email db =
     (if \<exists>l \<in> set (ad_identities db). il_provider l = provider \<and> il_subject l = subject then Inr ((), db)
      else if \<not> user_exists u db then Inl violated
      else Inr ((), db\<lparr>ad_identities := ad_identities db @ [\<lparr>il_provider = provider, il_subject = subject,
        il_user = u, il_email = (if email = [] then None else Some email)\<rparr>]\<rparr>))"

definition put_state :: "oauth_state \<Rightarrow> auth_db \<Rightarrow> go_err + unit \<times> auth_db" where
  "put_state s db =
     (if os_state s \<in> os_state ` set (ad_states db) then Inl violated
      else Inr ((), db\<lparr>ad_states := ad_states db @ [s]\<rparr>))"

definition take_state :: "string \<Rightarrow> auth_db \<Rightarrow> oauth_state option \<times> auth_db" where
  "take_state s db =
     (List.find (\<lambda>r. os_state r = s) (ad_states db),
      db\<lparr>ad_states := filter (\<lambda>r. os_state r \<noteq> s) (ad_states db)\<rparr>)"

definition put_ticket :: "oauth_ticket \<Rightarrow> auth_db \<Rightarrow> go_err + unit \<times> auth_db" where
  "put_ticket t db =
     (if ot_ticket t \<in> ot_ticket ` set (ad_tickets db) \<or> \<not> user_exists (ot_user t) db then Inl violated
      else Inr ((), db\<lparr>ad_tickets := ad_tickets db @ [t]\<rparr>))"

definition take_ticket :: "string \<Rightarrow> auth_db \<Rightarrow> oauth_ticket option \<times> auth_db" where
  "take_ticket s db =
     (List.find (\<lambda>t. ot_ticket t = s) (ad_tickets db),
      db\<lparr>ad_tickets := filter (\<lambda>t. ot_ticket t \<noteq> s) (ad_tickets db)\<rparr>)"

section \<open>Roles and grants\<close>

definition role_with :: "(role_row \<Rightarrow> bool) \<Rightarrow> auth_db \<Rightarrow> role_row option" where
  "role_with p db = List.find p (ad_roles db)"

definition create_role_row :: "role_row \<Rightarrow> auth_db \<Rightarrow> go_err + role_row \<times> auth_db" where
  "create_role_row r db =
     (if (\<exists>q \<in> set (ad_roles db). rl_id q = rl_id r \<or> rl_org q = rl_org r \<and> rl_name q = rl_name r)
        \<or> \<not> org_exists (rl_org r) db then Inl violated
      else Inr (r, db\<lparr>ad_roles := ad_roles db @ [r]\<rparr>))"

definition ensure_role :: "role_row \<Rightarrow> auth_db \<Rightarrow> go_err + unit \<times> auth_db" where
  "ensure_role r db =
     (if \<exists>q \<in> set (ad_roles db). rl_org q = rl_org r \<and> rl_name q = rl_name r then Inr ((), db)
      else map_sum id (map_prod (\<lambda>_. ()) id) (create_role_row r db))"

definition find_role :: "uuid \<Rightarrow> auth_db \<Rightarrow> role_row option" where
  "find_role i = role_with (\<lambda>r. rl_id r = i)"

definition find_role_by_name :: "uuid \<Rightarrow> string \<Rightarrow> auth_db \<Rightarrow> role_row option" where
  "find_role_by_name org name = role_with (\<lambda>r. rl_org r = org \<and> rl_name r = name)"

text \<open>Strings are compared byte by byte, the order of the C collation.\<close>

fun string_less :: "string \<Rightarrow> string \<Rightarrow> bool" where
  "string_less s [] = False"
| "string_less [] (d # t) = True"
| "string_less (c # s) (d # t) =
     ((of_char c :: nat) < of_char d \<or> c = d \<and> string_less s t)"

definition list_org_roles :: "uuid \<Rightarrow> auth_db \<Rightarrow> role_row list" where
  "list_org_roles org db =
     stable_sort (\<lambda>x y. rl_system x \<and> \<not> rl_system y \<or> rl_system x = rl_system y \<and> string_less (rl_name x) (rl_name y))
       (filter (\<lambda>r. rl_org r = org) (ad_roles db))"

definition delete_role_row :: "uuid \<Rightarrow> auth_db \<Rightarrow> auth_db" where
  "delete_role_row i db =
     (let gone = (\<lambda>r. rl_id r = i \<and> \<not> rl_system r) in
      db\<lparr>ad_roles := filter (\<lambda>r. \<not> gone r) (ad_roles db),
         ad_grants := filter (\<lambda>g. \<not> (\<exists>r \<in> set (ad_roles db). gone r \<and> gr_role g = rl_id r)) (ad_grants db)\<rparr>)"

definition same_grant :: "grant_row \<Rightarrow> grant_row \<Rightarrow> bool" where
  "same_grant g h \<longleftrightarrow> gr_user g = gr_user h \<and> gr_role g = gr_role h \<and> gr_org g = gr_org h"

definition assign_role_row :: "grant_row \<Rightarrow> auth_db \<Rightarrow> go_err + unit \<times> auth_db" where
  "assign_role_row g db =
     (if \<exists>h \<in> set (ad_grants db). same_grant g h then Inr ((), db)
      else if \<not> user_exists (gr_user g) db \<or> find_role (gr_role g) db = None \<or> \<not> org_exists (gr_org g) db
      then Inl violated
      else Inr ((), db\<lparr>ad_grants := ad_grants db @ [g]\<rparr>))"

definition remove_role_row :: "uuid \<Rightarrow> uuid \<Rightarrow> uuid \<Rightarrow> auth_db \<Rightarrow> auth_db" where
  "remove_role_row user role org db =
     db\<lparr>ad_grants := filter (\<lambda>g. \<not> (gr_user g = user \<and> gr_role g = role \<and> gr_org g = org)) (ad_grants db)\<rparr>"

definition list_user_role_rows :: "uuid \<Rightarrow> uuid \<Rightarrow> auth_db \<Rightarrow> role_row list" where
  "list_user_role_rows user org db =
     stable_sort (\<lambda>x y. string_less (rl_name x) (rl_name y))
       (concat (map (\<lambda>r. map (\<lambda>g. r)
          (filter (\<lambda>g. gr_role g = rl_id r \<and> gr_user g = user \<and> gr_org g = org) (ad_grants db))) (ad_roles db)))"

section \<open>API keys\<close>

definition create_key_row :: "api_key \<Rightarrow> auth_db \<Rightarrow> go_err + unit \<times> auth_db" where
  "create_key_row k db =
     (if ak_id k \<in> ak_id ` set (ad_keys db) \<or> ak_hash k \<in> ak_hash ` set (ad_keys db)
        \<or> \<not> org_exists (ak_org k) db \<or> (\<exists>u \<in> set_option (ak_by k). \<not> user_exists u db)
      then Inl violated else Inr ((), db\<lparr>ad_keys := ad_keys db @ [k]\<rparr>))"

definition list_key_rows :: "uuid \<Rightarrow> auth_db \<Rightarrow> api_key list" where
  "list_key_rows org db = rev (filter (\<lambda>k. ak_org k = org) (ad_keys db))"

definition revoke_key_row :: "uuid \<Rightarrow> uuid \<Rightarrow> int \<Rightarrow> auth_db \<Rightarrow> bool \<times> auth_db" where
  "revoke_key_row org i now db =
     (let hit = (\<lambda>k. ak_id k = i \<and> ak_org k = org \<and> ak_revoked k = None) in
      (list_ex hit (ad_keys db),
       db\<lparr>ad_keys := map (\<lambda>k. if hit k then k\<lparr>ak_revoked := Some now\<rparr> else k) (ad_keys db)\<rparr>))"

text \<open>A key counts while it is neither revoked nor expired and its creator is a user of its organisation.\<close>

definition key_alive :: "auth_db \<Rightarrow> int \<Rightarrow> api_key \<Rightarrow> bool" where
  "key_alive db now k \<longleftrightarrow>
     ak_revoked k = None \<and> (case ak_expires k of None \<Rightarrow> True | Some t \<Rightarrow> t > now)
     \<and> (\<exists>u \<in> set (ad_users db). ak_by k = Some (us_id u) \<and> us_org u = Some (ak_org k))"

definition live_key :: "string \<Rightarrow> int \<Rightarrow> auth_db \<Rightarrow> api_key option" where
  "live_key h now db = List.find (\<lambda>k. ak_hash k = h \<and> key_alive db now k) (ad_keys db)"

definition stamp_key :: "uuid \<Rightarrow> int \<Rightarrow> auth_db \<Rightarrow> auth_db" where
  "stamp_key i now db =
     db\<lparr>ad_keys := map (\<lambda>k. if ak_id k = i \<and> (case ak_used k of None \<Rightarrow> True | Some t \<Rightarrow> t < now - 60000)
       then k\<lparr>ak_used := Some now\<rparr> else k) (ad_keys db)\<rparr>"

section \<open>Single sign-on configurations\<close>

definition upsert_sso :: "sso_config \<Rightarrow> auth_db \<Rightarrow> go_err + sso_config \<times> auth_db" where
  "upsert_sso c db =
     (let same = (\<lambda>d. sc_org d = sc_org c \<and> sc_provider d = sc_provider c) in
      if \<not> org_exists (sc_org c) db then Inl violated
      else (case List.find same (ad_sso db) of
              Some d \<Rightarrow>
                (let c' = c\<lparr>sc_id := sc_id d\<rparr>
                 in Inr (c'\<lparr>sc_secret := []\<rparr>, db\<lparr>ad_sso := map (\<lambda>e. if same e then c' else e) (ad_sso db)\<rparr>))
            | None \<Rightarrow> Inr (c\<lparr>sc_secret := []\<rparr>, db\<lparr>ad_sso := ad_sso db @ [c]\<rparr>)))"

definition enabled_sso :: "uuid \<Rightarrow> string \<Rightarrow> auth_db \<Rightarrow> sso_config option" where
  "enabled_sso org provider db =
     List.find (\<lambda>c. sc_org c = org \<and> sc_provider c = provider \<and> sc_enabled c) (ad_sso db)"

definition list_sso :: "uuid \<Rightarrow> auth_db \<Rightarrow> sso_config list" where
  "list_sso org db =
     stable_sort (\<lambda>x y. string_less (sc_provider x) (sc_provider y))
       (map (\<lambda>c. c\<lparr>sc_secret := []\<rparr>) (filter (\<lambda>c. sc_org c = org) (ad_sso db)))"

definition delete_sso :: "uuid \<Rightarrow> auth_db \<Rightarrow> auth_db" where
  "delete_sso i db = db\<lparr>ad_sso := filter (\<lambda>c. sc_id c \<noteq> i) (ad_sso db)\<rparr>"

section \<open>Statements and effects\<close>

text \<open>
  An operation acts on the tables and on a world \<^typ>\<open>'w\<close>, which holds the clock, the random numbers, the
  database's mood and everything outside. An error ends it, as an early return does.
\<close>

type_synonym 'w auth_world = "auth_db \<times> 'w"

type_synonym ('w, 'a) auth = "'w auth_world \<Rightarrow> (go_err + 'a) \<times> 'w auth_world"

definition ret_ok :: "'a \<Rightarrow> ('w, 'a) auth" where
  "ret_ok a s = (Inr a, s)"

definition fail_with :: "go_err \<Rightarrow> ('w, 'a) auth" where
  "fail_with e s = (Inl e, s)"

definition and_then :: "('w, 'a) auth \<Rightarrow> ('a \<Rightarrow> ('w, 'b) auth) \<Rightarrow> ('w, 'b) auth" where
  "and_then m k s = (case m s of (Inl e, s') \<Rightarrow> (Inl e, s') | (Inr a, s') \<Rightarrow> k a s')"

definition with_prefix :: "string \<Rightarrow> ('w, 'a) auth \<Rightarrow> ('w, 'a) auth" where
  "with_prefix p m s = (case m s of (Inl e, s') \<Rightarrow> (Inl (ErrWrap p e), s') | (Inr a, s') \<Rightarrow> (Inr a, s'))"

text \<open>The error of an operation as a value, for code that looks at it and goes on.\<close>

definition outcome :: "('w, 'a) auth \<Rightarrow> ('w, go_err + 'a) auth" where
  "outcome m s = (Inr (fst (m s)), snd (m s))"

definition draw :: "('w \<Rightarrow> 'a \<times> 'w) \<Rightarrow> ('w, 'a) auth" where
  "draw f s = (let (a, w) = f (snd s) in (Inr a, (fst s, w)))"

definition draw_or_fail :: "('w \<Rightarrow> (go_err + 'a) \<times> 'w) \<Rightarrow> ('w, 'a) auth" where
  "draw_or_fail f s = (let (r, w) = f (snd s) in (r, (fst s, w)))"

text \<open>The database may fail any statement before it does anything.\<close>

definition db_stmt ::
  "('w \<Rightarrow> go_err option \<times> 'w) \<Rightarrow> string \<Rightarrow> (auth_db \<Rightarrow> go_err + 'a \<times> auth_db) \<Rightarrow> ('w, 'a) auth" where
  "db_stmt fault prefix f s =
     (case fault (snd s) of
        (Some e, w) \<Rightarrow> (Inl (ErrWrap prefix e), (fst s, w))
      | (None, w) \<Rightarrow>
          (case f (fst s) of
             Inl e \<Rightarrow> (Inl (ErrWrap prefix e), (fst s, w))
           | Inr (a, db) \<Rightarrow> (Inr a, (db, w))))"

definition db_read :: "('w \<Rightarrow> go_err option \<times> 'w) \<Rightarrow> string \<Rightarrow> (auth_db \<Rightarrow> 'a) \<Rightarrow> ('w, 'a) auth" where
  "db_read fault prefix f = db_stmt fault prefix (\<lambda>db. Inr (f db, db))"

definition db_write :: "('w \<Rightarrow> go_err option \<times> 'w) \<Rightarrow> string \<Rightarrow> (auth_db \<Rightarrow> auth_db) \<Rightarrow> ('w, unit) auth" where
  "db_write fault prefix f = db_stmt fault prefix (\<lambda>db. Inr ((), f db))"

text \<open>What the operations use of the standard library and the machine.\<close>

record 'w auth_env =
  ae_fault :: "string \<Rightarrow> 'w \<Rightarrow> go_err option \<times> 'w"
  ae_now :: "'w \<Rightarrow> int \<times> 'w"
  ae_uuid :: "'w \<Rightarrow> uuid \<times> 'w"
  ae_rand :: "nat \<Rightarrow> 'w \<Rightarrow> (go_err + string) \<times> 'w"
  ae_sha256 :: "string \<Rightarrow> string"
  ae_show_uuid :: "uuid \<Rightarrow> string"
  ae_parse_uuid :: "string \<Rightarrow> uuid option"

section \<open>Lemmas\<close>

lemmas auth_op_defs = ret_ok_def fail_with_def and_then_def with_prefix_def outcome_def draw_def draw_or_fail_def
  db_stmt_def db_read_def db_write_def

lemma and_then_ok: "and_then m k s = (Inr b, s'') \<longleftrightarrow> (\<exists>a s'. m s = (Inr a, s') \<and> k a s' = (Inr b, s''))"
  by (auto simp: and_then_def split: prod.splits sum.splits)

lemma with_prefix_ok: "with_prefix p m s = (Inr a, s') \<longleftrightarrow> m s = (Inr a, s')"
  by (auto simp: with_prefix_def split: prod.splits sum.splits)

lemma db_read_ok:
  "db_read fault p f s = (Inr a, s') \<longleftrightarrow> a = f (fst s) \<and> (\<exists>w. fault (snd s) = (None, w) \<and> s' = (fst s, w))"
  by (auto simp: db_read_def db_stmt_def split: prod.splits option.splits)

lemma db_stmt_ok:
  "db_stmt fault p f s = (Inr a, s')
     \<longleftrightarrow> (\<exists>db w. fault (snd s) = (None, w) \<and> f (fst s) = Inr (a, db) \<and> s' = (db, w))"
  by (auto simp: db_stmt_def split: prod.splits option.splits sum.splits)

lemma draw_ok: "draw f s = (Inr a, s') \<longleftrightarrow> (\<exists>w. f (snd s) = (a, w) \<and> s' = (fst s, w))"
  by (auto simp: draw_def split: prod.splits)

lemma draw_or_fail_ok: "draw_or_fail f s = (Inr a, s') \<longleftrightarrow> (\<exists>w. f (snd s) = (Inr a, w) \<and> s' = (fst s, w))"
  by (auto simp: draw_or_fail_def split: prod.splits)

lemma outcome_ok: "outcome m s = (Inr r, s') \<longleftrightarrow> m s = (r, s')"
  by (auto simp: outcome_def)

lemma ret_ok_ok: "ret_ok a s = (Inr b, s') \<longleftrightarrow> a = b \<and> s = s'"
  by (auto simp: ret_ok_def)

lemma fail_not_ok: "fail_with e s \<noteq> (Inr b, s')"
  by (simp add: fail_with_def)

lemmas op_ok = and_then_ok with_prefix_ok db_read_ok db_stmt_ok draw_ok draw_or_fail_ok outcome_ok ret_ok_ok fail_not_ok

end
