(* ===== verification/AccessControl.thy ===== *)
theory AccessControl
  imports AuthStore GoEncoding
begin

text \<open>
  Who may do what: roles and permissions (\<open>service/rbac_service.go\<close>, \<open>handler/rbac_handler.go\<close>,
  \<open>model/rbac.go\<close>), API keys (\<open>apikey/apikey.go\<close>, \<open>handler/api_key_handler.go\<close>) and the middleware in front
  of the handlers (\<open>middleware\<close>). A handler's reply is a status with its text, or what it answers on
  success; its request is the decoded body.
\<close>

section \<open>Roles\<close>

definition user_actions :: "string \<Rightarrow> string list" where
  "user_actions res = map (\<lambda>a. res @ '':'' @ a) [''create'', ''read'', ''update'', ''delete'']"

definition system_role_permissions :: "(string \<times> string list) list" where
  "system_role_permissions =
     [(''admin'', user_actions ''agents'' @ [''agents:execute''] @ user_actions ''tasks'' @ user_actions ''projects''
         @ user_actions ''workflows'' @ [''workflows:execute'', ''budgets:read'', ''budgets:manage'', ''policies:read'',
           ''policies:manage'', ''analytics:read'', ''cost:read'', ''audit:read'', ''users:manage'', ''roles:manage'',
           ''sso:manage'', ''org:manage'']),
      (''operator'', [''agents:create'', ''agents:read'', ''agents:update'', ''agents:execute'',
         ''tasks:create'', ''tasks:read'', ''tasks:update'', ''projects:create'', ''projects:read'', ''projects:update'',
         ''workflows:create'', ''workflows:read'', ''workflows:update'', ''workflows:execute'', ''analytics:read'']),
      (''viewer'', [''agents:read'', ''tasks:read'', ''projects:read'', ''workflows:read'', ''analytics:read'']),
      (''finance'', [''budgets:read'', ''budgets:manage'', ''analytics:read'', ''cost:read'', ''audit:read'',
         ''policies:read''])]"

record role_request =
  rq_name :: string
  rq_desc :: "string option"
  rq_perms :: "string list"

definition list_user_roles :: "'w auth_env \<Rightarrow> uuid \<Rightarrow> uuid \<Rightarrow> ('w, role_row list) auth" where
  "list_user_roles env user org =
     db_read (ae_fault env ''ListUserRoles'') ''rbac_repo: list user roles: '' (list_user_role_rows user org)"

definition user_has_permission :: "'w auth_env \<Rightarrow> uuid \<Rightarrow> uuid \<Rightarrow> string \<Rightarrow> ('w, bool) auth" where
  "user_has_permission env user org perm =
     and_then (list_user_roles env user org)
       (\<lambda>roles. ret_ok (list_ex (\<lambda>r. list_ex (\<lambda>p. p = perm) (rl_perms r)) roles))"

fun keep_new :: "'a list \<Rightarrow> 'a list \<Rightarrow> 'a list" where
  "keep_new seen [] = []"
| "keep_new seen (x # xs) = (if x \<in> set seen then keep_new seen xs else x # keep_new (x # seen) xs)"

definition user_permissions :: "'w auth_env \<Rightarrow> uuid \<Rightarrow> uuid \<Rightarrow> ('w, string list) auth" where
  "user_permissions env user org =
     and_then (list_user_roles env user org) (\<lambda>roles. ret_ok (keep_new [] (concat (map rl_perms roles))))"

definition create_role :: "'w auth_env \<Rightarrow> uuid \<Rightarrow> role_request \<Rightarrow> ('w, role_row) auth" where
  "create_role env org rq =
     and_then (draw (ae_uuid env))
       (\<lambda>i. db_stmt (ae_fault env ''CreateRole'') ''rbac_repo: create role: ''
          (create_role_row \<lparr>rl_id = i, rl_org = org, rl_name = rq_name rq, rl_desc = rq_desc rq,
            rl_perms = rq_perms rq, rl_system = False\<rparr>))"

definition list_roles :: "'w auth_env \<Rightarrow> uuid \<Rightarrow> ('w, role_row list) auth" where
  "list_roles env org = db_read (ae_fault env ''ListRoles'') ''rbac_repo: list roles: '' (list_org_roles org)"

definition delete_role :: "'w auth_env \<Rightarrow> uuid \<Rightarrow> ('w, unit) auth" where
  "delete_role env i =
     and_then (db_read (ae_fault env ''GetRole'') ''rbac_repo: get role: '' (find_role i))
       (\<lambda>r. if (case r of None \<Rightarrow> False | Some q \<Rightarrow> rl_system q) then fail_with (ErrText ''cannot delete system role'')
            else db_write (ae_fault env ''DeleteRole'') [] (delete_role_row i))"

definition assign_role :: "'w auth_env \<Rightarrow> uuid \<Rightarrow> uuid option \<Rightarrow> uuid \<Rightarrow> uuid \<Rightarrow> ('w, unit) auth" where
  "assign_role env org granted_by user role =
     db_stmt (ae_fault env ''AssignRole'') ''rbac_repo: assign role: ''
       (assign_role_row \<lparr>gr_user = user, gr_role = role, gr_org = org, gr_by = granted_by\<rparr>)"

definition remove_role :: "'w auth_env \<Rightarrow> uuid \<Rightarrow> uuid \<Rightarrow> uuid \<Rightarrow> ('w, unit) auth" where
  "remove_role env user role org =
     db_write (ae_fault env ''RemoveRole'') [] (remove_role_row user role org)"

text \<open>The map of system roles is read in one of the orders Go may choose.\<close>

fun ensure_roles :: "'w auth_env \<Rightarrow> uuid \<Rightarrow> (string \<times> string list) list \<Rightarrow> ('w, unit) auth" where
  "ensure_roles env org [] = ret_ok ()"
| "ensure_roles env org ((name, perms) # rest) =
     and_then (draw (ae_uuid env))
       (\<lambda>i. and_then (db_stmt (ae_fault env ''EnsureSystemRoles'')
              (''rbac_repo: ensure system role '' @ quote name @ '': '')
              (ensure_role \<lparr>rl_id = i, rl_org = org, rl_name = name, rl_desc = None, rl_perms = perms,
                rl_system = True\<rparr>))
          (\<lambda>_. ensure_roles env org rest))"

definition ensure_system_roles :: "'w auth_env \<Rightarrow> uuid \<Rightarrow> ('w, unit) auth" where
  "ensure_system_roles env org = ensure_roles env org system_role_permissions"

section \<open>Handlers\<close>

record http_ctx =
  hc_user :: string
  hc_email :: string
  hc_org :: string
  hc_role :: string
  hc_key :: string
  hc_principal :: string

type_synonym reply = "nat \<times> string"

type_synonym ('w, 'a) handler = "'w auth_world \<Rightarrow> (reply + 'a) \<times> 'w auth_world"

definition refuse :: "nat \<Rightarrow> string \<Rightarrow> ('w, 'a) handler" where
  "refuse code msg s = (Inl (code, msg), s)"

definition answer :: "(go_err \<Rightarrow> reply) \<Rightarrow> ('w, 'a) auth \<Rightarrow> ('w, 'a) handler" where
  "answer f m s = (case m s of (Inl e, s') \<Rightarrow> (Inl (f e), s') | (Inr a, s') \<Rightarrow> (Inr a, s'))"

definition parsed :: "'w auth_env \<Rightarrow> nat \<Rightarrow> string \<Rightarrow> string \<Rightarrow> (uuid \<Rightarrow> ('w, 'a) handler) \<Rightarrow> ('w, 'a) handler" where
  "parsed env code msg s k = (case ae_parse_uuid env s of None \<Rightarrow> refuse code msg | Some i \<Rightarrow> k i)"

definition bad_org :: string where "bad_org = ''invalid org_id in token''"

definition bad_user :: string where "bad_user = ''invalid user_id in token''"

text \<open>The validator's tags: \<open>required\<close>, \<open>min\<close> and \<open>max\<close> of a string count runes, \<open>min\<close> of a list its elements.\<close>

definition valid_role_request :: "role_request \<Rightarrow> bool" where
  "valid_role_request rq \<longleftrightarrow> 2 \<le> rune_count (rq_name rq) \<and> rune_count (rq_name rq) \<le> 50 \<and> rq_perms rq \<noteq> []"

definition list_roles_h :: "'w auth_env \<Rightarrow> http_ctx \<Rightarrow> ('w, role_row list) handler" where
  "list_roles_h env cx =
     parsed env 400 bad_org (hc_org cx) (\<lambda>org. answer (\<lambda>e. (500, ''failed to list roles'')) (list_roles env org))"

definition create_role_h :: "'w auth_env \<Rightarrow> http_ctx \<Rightarrow> role_request \<Rightarrow> ('w, role_row) handler" where
  "create_role_h env cx rq =
     parsed env 400 bad_org (hc_org cx) (\<lambda>org.
       if \<not> valid_role_request rq then refuse 400 ''validation failed''
       else answer (\<lambda>e. (500, ''failed to create role: '' @ err_text e)) (create_role env org rq))"

definition delete_role_h :: "'w auth_env \<Rightarrow> string \<Rightarrow> ('w, unit) handler" where
  "delete_role_h env i =
     parsed env 400 ''invalid role ID'' i (\<lambda>role. answer (\<lambda>e. (400, err_text e)) (delete_role env role))"

definition assign_role_h :: "'w auth_env \<Rightarrow> http_ctx \<Rightarrow> uuid \<Rightarrow> uuid \<Rightarrow> ('w, unit) handler" where
  "assign_role_h env cx user role =
     parsed env 400 bad_org (hc_org cx) (\<lambda>org. parsed env 400 bad_user (hc_user cx) (\<lambda>by.
       if user = uuid_nil \<or> role = uuid_nil then refuse 400 ''validation failed''
       else answer (\<lambda>e. (500, ''failed to assign role: '' @ err_text e)) (assign_role env org (Some by) user role)))"

definition remove_role_h :: "'w auth_env \<Rightarrow> http_ctx \<Rightarrow> string \<Rightarrow> string \<Rightarrow> ('w, unit) handler" where
  "remove_role_h env cx u r =
     parsed env 400 bad_org (hc_org cx) (\<lambda>org. parsed env 400 ''invalid user ID'' u (\<lambda>user.
       parsed env 400 ''invalid role ID'' r (\<lambda>role.
         answer (\<lambda>e. (500, ''failed to remove role: '' @ err_text e)) (remove_role env user role org))))"

definition list_user_roles_h :: "'w auth_env \<Rightarrow> http_ctx \<Rightarrow> string \<Rightarrow> ('w, role_row list) handler" where
  "list_user_roles_h env cx u =
     parsed env 400 bad_org (hc_org cx) (\<lambda>org. parsed env 400 ''invalid user ID'' u (\<lambda>user.
       answer (\<lambda>e. (500, ''failed to list user roles'')) (list_user_roles env user org)))"

definition my_permissions_h :: "'w auth_env \<Rightarrow> http_ctx \<Rightarrow> ('w, string list) handler" where
  "my_permissions_h env cx =
     parsed env 400 bad_org (hc_org cx) (\<lambda>org. parsed env 400 bad_user (hc_user cx) (\<lambda>user.
       answer (\<lambda>e. (500, ''failed to get permissions'')) (user_permissions env user org)))"

section \<open>API keys\<close>

definition key_prefix :: string where "key_prefix = ''jsk_''"

definition key_scopes :: "string list" where
  "key_scopes = [''runs'', ''approvals'', ''agents:read'', ''knowledge'']"

definition raw_url_b64 :: "string \<Rightarrow> string" where
  "raw_url_b64 s =
     map (\<lambda>c. if c = CHR ''+'' then CHR ''-'' else if c = CHR ''/'' then CHR ''_'' else c)
       (filter (\<lambda>c. c \<noteq> CHR ''='') (b64_encode s))"

definition key_hash :: "'w auth_env \<Rightarrow> string \<Rightarrow> string" where
  "key_hash env raw = hex_encode (ae_sha256 env raw)"

definition generate_key :: "'w auth_env \<Rightarrow> ('w, string \<times> string \<times> string) auth" where
  "generate_key env =
     and_then (draw_or_fail (ae_rand env 4)) (\<lambda>i. and_then (draw_or_fail (ae_rand env 32)) (\<lambda>secret.
       let prefix = key_prefix @ hex_encode i; raw = prefix @ ''_'' @ raw_url_b64 secret
       in ret_ok (raw, prefix, key_hash env raw)))"

definition looks_like_key :: "string \<Rightarrow> bool" where
  "looks_like_key token \<longleftrightarrow> has_prefix token key_prefix"

record key_request =
  kq_name :: string
  kq_scopes :: "string list"
  kq_expires :: "int option"

definition clean_scopes :: "string list \<Rightarrow> string list" where
  "clean_scopes xs = keep_new [] (filter (\<lambda>s. s \<noteq> []) (map trim_space xs))"

definition create_key :: "'w auth_env \<Rightarrow> uuid \<Rightarrow> uuid \<Rightarrow> key_request \<Rightarrow> ('w, api_key \<times> string) auth" where
  "create_key env org creator rq =
     and_then (case kq_expires rq of None \<Rightarrow> ret_ok True
               | Some t \<Rightarrow> and_then (draw (ae_now env)) (\<lambda>now. ret_ok (t > now)))
       (\<lambda>later. if \<not> later then fail_with (ErrText ''expires_at must be in the future'')
          else (let scopes = clean_scopes (kq_scopes rq) in
            case List.find (\<lambda>s. s \<notin> set key_scopes) scopes of
              Some s \<Rightarrow> fail_with (ErrText (''unknown scope '' @ quote s))
            | None \<Rightarrow>
                and_then (with_prefix ''generate api key: '' (generate_key env)) (\<lambda>(raw, prefix, h).
                  and_then (draw (ae_uuid env)) (\<lambda>i.
                    let k = \<lparr>ak_id = i, ak_org = org, ak_name = trim_space (kq_name rq), ak_prefix = prefix,
                             ak_hash = h, ak_scopes = scopes, ak_by = Some creator, ak_used = None,
                             ak_expires = kq_expires rq, ak_revoked = None\<rparr>
                    in and_then (db_stmt (ae_fault env ''CreateKey'') ''store api key: '' (create_key_row k))
                         (\<lambda>_. ret_ok (k, raw))))))"

definition list_keys :: "'w auth_env \<Rightarrow> uuid \<Rightarrow> ('w, api_key list) auth" where
  "list_keys env org = db_read (ae_fault env ''ListKeys'') ''api_key_repo: list: '' (list_key_rows org)"

definition key_not_found :: go_err where
  "key_not_found = ErrSentinel ''api key not found''"

definition revoke_key :: "'w auth_env \<Rightarrow> uuid \<Rightarrow> uuid \<Rightarrow> ('w, unit) auth" where
  "revoke_key env org i =
     and_then (draw (ae_now env)) (\<lambda>now.
       and_then (db_stmt (ae_fault env ''RevokeKey'') ''api_key_repo: revoke: '' (\<lambda>db. Inr (revoke_key_row org i now db)))
         (\<lambda>hit. if hit then ret_ok () else fail_with key_not_found))"

record principal =
  pi_key :: uuid
  pi_org :: uuid
  pi_user :: uuid
  pi_scopes :: "string list"

definition invalid_key :: go_err where
  "invalid_key = ErrSentinel ''invalid api key''"

text \<open>The query finds the key and its creator; that the key was used is noted, and a failure to note it ignored.\<close>

definition find_principal :: "string \<Rightarrow> int \<Rightarrow> auth_db \<Rightarrow> principal option" where
  "find_principal h now db =
     (case live_key h now db of
        None \<Rightarrow> None
      | Some k \<Rightarrow> Some \<lparr>pi_key = ak_id k, pi_org = ak_org k, pi_user = the (ak_by k), pi_scopes = ak_scopes k\<rparr>)"

definition authenticate_key :: "'w auth_env \<Rightarrow> string \<Rightarrow> ('w, principal) auth" where
  "authenticate_key env raw =
     (if \<not> looks_like_key raw \<or> length raw < 20 then fail_with invalid_key
      else and_then (draw (ae_now env)) (\<lambda>now.
        and_then (db_read (ae_fault env ''Authenticate'') ''api_key_repo: authenticate: ''
                    (find_principal (key_hash env raw) now))
          (\<lambda>p. case p of
             None \<Rightarrow> fail_with invalid_key
           | Some q \<Rightarrow> and_then (outcome (db_write (ae_fault env ''StampKey'') [] (stamp_key (pi_key q) now)))
               (\<lambda>_. ret_ok q))))"

definition valid_key_request :: "key_request \<Rightarrow> bool" where
  "valid_key_request rq \<longleftrightarrow>
     2 \<le> rune_count (kq_name rq) \<and> rune_count (kq_name rq) \<le> 100
     \<and> kq_scopes rq \<noteq> [] \<and> list_all (\<lambda>s. s \<in> set key_scopes) (kq_scopes rq)"

definition list_keys_h :: "'w auth_env \<Rightarrow> http_ctx \<Rightarrow> ('w, api_key list) handler" where
  "list_keys_h env cx =
     parsed env 400 ''invalid org_id'' (hc_org cx)
       (\<lambda>org. answer (\<lambda>e. (500, ''failed to list api keys'')) (list_keys env org))"

definition create_key_h :: "'w auth_env \<Rightarrow> http_ctx \<Rightarrow> key_request \<Rightarrow> ('w, api_key \<times> string) handler" where
  "create_key_h env cx rq =
     parsed env 400 ''invalid org_id'' (hc_org cx) (\<lambda>org. parsed env 400 ''invalid user id'' (hc_user cx) (\<lambda>user.
       if \<not> valid_key_request rq then refuse 400 ''validation''
       else answer (\<lambda>e. (400, err_text e)) (create_key env org user rq)))"

definition revoke_key_h :: "'w auth_env \<Rightarrow> http_ctx \<Rightarrow> string \<Rightarrow> ('w, unit) handler" where
  "revoke_key_h env cx i =
     parsed env 400 ''invalid org_id'' (hc_org cx) (\<lambda>org. parsed env 400 ''invalid key id'' i (\<lambda>key.
       answer (\<lambda>e. if err_is ''api key not found'' e then (404, ''api key not found'')
                   else (500, ''failed to revoke api key'')) (revoke_key env org key)))"

end
