(* ===== verification/AccessMiddleware.thy ===== *)
theory AccessMiddleware
  imports AccessControl
begin

text \<open>
  Access tokens (\<open>service/jwt_service.go\<close>) and the middleware that puts the caller's identity on a request
  or refuses it (\<open>middleware/auth_middleware.go\<close>, \<open>apikey_auth.go\<close>, \<open>rbac_middleware.go\<close>). Signing and
  parsing of a token are the JWT library's and SHA-256 is the standard library's; both are parameters.
\<close>

section \<open>Access tokens\<close>

record jwt_claims =
  jc_sub :: string
  jc_email :: string
  jc_org :: string
  jc_role :: string
  jc_exp :: int
  jc_iat :: int
  jc_nbf :: int
  jc_iss :: string

record 'w jwt_service =
  jv_env :: "'w auth_env"
  jv_sign :: "jwt_claims \<Rightarrow> go_err + string"
  jv_parse :: "(bool \<Rightarrow> go_err option) \<Rightarrow> string \<Rightarrow> int \<Rightarrow> go_err + jwt_claims \<times> bool"
  jv_expiry :: int
  jv_days :: int

definition generate_access_token ::
  "'w jwt_service \<Rightarrow> uuid \<Rightarrow> string \<Rightarrow> uuid option \<Rightarrow> string \<Rightarrow> ('w, string) auth" where
  "generate_access_token jv user email org role =
     and_then (draw (ae_now (jv_env jv))) (\<lambda>now.
       case jv_sign jv \<lparr>jc_sub = ae_show_uuid (jv_env jv) user, jc_email = email,
              jc_org = (case org of None \<Rightarrow> [] | Some i \<Rightarrow> ae_show_uuid (jv_env jv) i), jc_role = role,
              jc_exp = (now + jv_expiry jv) div 1000, jc_iat = now div 1000, jc_nbf = now div 1000,
              jc_iss = ''jobshout''\<rparr> of
         Inl e \<Rightarrow> fail_with (ErrWrap ''signing access token: '' e)
       | Inr t \<Rightarrow> ret_ok t)"

definition hash_token :: "'w jwt_service \<Rightarrow> string \<Rightarrow> string" where
  "hash_token jv t = hex_encode (ae_sha256 (jv_env jv) t)"

definition generate_refresh_token :: "'w jwt_service \<Rightarrow> ('w, string \<times> string \<times> int) auth" where
  "generate_refresh_token jv =
     and_then (draw (ae_uuid (jv_env jv))) (\<lambda>i.
       and_then (draw (ae_now (jv_env jv))) (\<lambda>now.
         let plain = ae_show_uuid (jv_env jv) i
         in ret_ok (plain, hash_token jv plain, now + jv_days jv * 24 * 3600 * 1000)))"

text \<open>The library asks for the key with the signing method of the token and says whether the token is valid.\<close>

definition hmac_only :: "bool \<Rightarrow> go_err option" where
  "hmac_only hmac = (if hmac then None else Some (ErrText ''unexpected signing method''))"

definition parse_access_token :: "'w jwt_service \<Rightarrow> string \<Rightarrow> ('w, jwt_claims) auth" where
  "parse_access_token jv t =
     and_then (draw (ae_now (jv_env jv))) (\<lambda>now.
       case jv_parse jv hmac_only t now of
         Inl e \<Rightarrow> fail_with (ErrWrap ''parsing token: '' e)
       | Inr (c, valid) \<Rightarrow> if valid then ret_ok c else fail_with (ErrText ''invalid token claims''))"

section \<open>Middleware\<close>

record incoming =
  in_header :: string
  in_method :: string
  in_path :: string

definition bearer_token :: "string \<Rightarrow> string" where
  "bearer_token h =
     (if CHR '' '' \<in> set h \<and> equal_fold (takeWhile (\<lambda>c. c \<noteq> CHR '' '') h) ''bearer''
      then drop 1 (dropWhile (\<lambda>c. c \<noteq> CHR '' '') h) else [])"

definition unauthorized :: "string \<Rightarrow> reply" where "unauthorized msg = (401, msg)"

definition forbidden :: "string \<Rightarrow> reply" where "forbidden msg = (403, msg)"

definition require_auth :: "'w jwt_service \<Rightarrow> incoming \<Rightarrow> ('w, http_ctx) handler" where
  "require_auth jv rq =
     (let t = bearer_token (in_header rq) in
      if t = [] then refuse 401 ''missing authorization token''
      else answer (\<lambda>e. unauthorized ''invalid or expired token'')
        (and_then (parse_access_token jv t) (\<lambda>c.
           ret_ok \<lparr>hc_user = jc_sub c, hc_email = jc_email c, hc_org = jc_org c, hc_role = jc_role c,
                   hc_key = [], hc_principal = []\<rparr>)))"

text \<open>The routes an API key may call. A segment of a path is a literal, a UUID or an external id.\<close>

datatype segment = Lit string | AnyId | ExternalId

definition hex_run :: "nat \<Rightarrow> string \<Rightarrow> bool" where
  "hex_run n s \<longleftrightarrow> length s = n \<and>
     list_all (\<lambda>c. c \<in> set ''0123456789abcdefABCDEF'') s"

definition uuid_shaped :: "string \<Rightarrow> bool" where
  "uuid_shaped s \<longleftrightarrow>
     (case split_char (CHR ''-'') s of
        [a, b, c, d, e] \<Rightarrow> hex_run 8 a \<and> hex_run 4 b \<and> hex_run 4 c \<and> hex_run 4 d \<and> hex_run 12 e
      | _ \<Rightarrow> False)"

definition alnum :: "char \<Rightarrow> bool" where
  "alnum c \<longleftrightarrow> (let n = of_char c :: nat in 48 \<le> n \<and> n \<le> 57 \<or> 65 \<le> n \<and> n \<le> 90 \<or> 97 \<le> n \<and> n \<le> 122)"

definition external_id :: "string \<Rightarrow> bool" where
  "external_id s \<longleftrightarrow>
     (case s of [] \<Rightarrow> False
      | c # t \<Rightarrow> alnum c \<and> length t \<le> 99 \<and> list_all (\<lambda>d. alnum d \<or> d \<in> set ''._-'') t)"

fun segment_matches :: "segment \<Rightarrow> string \<Rightarrow> bool" where
  "segment_matches (Lit l) s = (s = l)"
| "segment_matches AnyId s = uuid_shaped s"
| "segment_matches ExternalId s = external_id s"

definition path_matches :: "segment list \<Rightarrow> string \<Rightarrow> bool" where
  "path_matches segs p \<longleftrightarrow>
     has_prefix p ''/api/v1/''
     \<and> list_all2 segment_matches segs (split_char (CHR ''/'') (trim_suffix (drop 8 p) ''/''))"

record key_route =
  kr_methods :: string
  kr_path :: "segment list"
  kr_scope :: string

definition key_route :: "string \<Rightarrow> segment list \<Rightarrow> string \<Rightarrow> key_route" where
  "key_route methods path scope = \<lparr>kr_methods = '' '' @ methods @ '' '', kr_path = path, kr_scope = scope\<rparr>"

definition api_key_routes :: "key_route list" where
  "api_key_routes =
     [key_route ''POST'' [Lit ''tasks'', Lit ''launch''] ''runs'',
      key_route ''POST'' [Lit ''tasks'', AnyId, Lit ''run''] ''runs'',
      key_route ''GET'' [Lit ''tasks'', AnyId, Lit ''runs''] ''runs'',
      key_route ''GET'' [Lit ''task-runs'', AnyId] ''runs'',
      key_route ''GET'' [Lit ''approvals''] ''approvals'',
      key_route ''GET'' [Lit ''approvals'', AnyId] ''approvals'',
      key_route ''POST'' [Lit ''approvals'', AnyId, Lit ''decide''] ''approvals'',
      key_route ''GET'' [Lit ''agents''] ''agents:read'',
      key_route ''GET'' [Lit ''agents'', AnyId] ''agents:read'',
      key_route ''GET'' [Lit ''agent-schemas''] ''agents:read'',
      key_route ''GET'' [Lit ''agent-schemas'', Lit ''generic''] ''agents:read'',
      key_route ''GET POST'' [Lit ''agents'', AnyId, Lit ''knowledge''] ''knowledge'',
      key_route ''GET PUT DELETE'' [Lit ''agents'', AnyId, Lit ''knowledge'', AnyId] ''knowledge'',
      key_route ''PUT DELETE'' [Lit ''agents'', AnyId, Lit ''knowledge'', Lit ''external'', ExternalId] ''knowledge'',
      key_route ''GET'' [Lit ''property-pa'', Lit ''agents''] ''agents:read'']"

definition api_key_route_scope :: "string \<Rightarrow> string \<Rightarrow> string option" where
  "api_key_route_scope m p =
     map_option kr_scope (List.find (\<lambda>r. str_contains (kr_methods r) ('' '' @ m @ '' '') \<and> path_matches (kr_path r) p)
       api_key_routes)"

definition has_scope :: "principal \<Rightarrow> string \<Rightarrow> bool" where
  "has_scope p scope \<longleftrightarrow> list_ex (\<lambda>s. s = scope) (pi_scopes p)"

definition require_auth_or_api_key ::
  "'w jwt_service \<Rightarrow> 'w auth_env option \<Rightarrow> incoming \<Rightarrow> ('w, http_ctx) handler" where
  "require_auth_or_api_key jv keys rq =
     (let token = bearer_token (in_header rq) in
      case keys of
        None \<Rightarrow> require_auth jv rq
      | Some env \<Rightarrow>
          if \<not> has_prefix token key_prefix then require_auth jv rq
          else (\<lambda>s. case authenticate_key env token s of
                  (Inl e, s') \<Rightarrow> (Inl (unauthorized ''invalid, revoked or expired api key''), s')
                | (Inr p, s') \<Rightarrow>
                    (case api_key_route_scope (in_method rq) (in_path rq) of
                       None \<Rightarrow> (Inl (forbidden ''api keys cannot access this endpoint''), s')
                     | Some scope \<Rightarrow>
                         if \<not> has_scope p scope then (Inl (forbidden (''api key lacks scope: '' @ scope)), s')
                         else (Inr \<lparr>hc_user = ae_show_uuid env (pi_user p), hc_email = [],
                                   hc_org = ae_show_uuid env (pi_org p), hc_role = ''service'',
                                   hc_key = ae_show_uuid env (pi_key p), hc_principal = ''api_key''\<rparr>, s'))))"

definition require_permission :: "'w auth_env \<Rightarrow> string \<Rightarrow> http_ctx \<Rightarrow> ('w, unit) handler" where
  "require_permission env perm cx =
     parsed env 403 ''invalid user identity'' (hc_user cx) (\<lambda>user.
       parsed env 403 ''invalid org identity'' (hc_org cx) (\<lambda>org. \<lambda>s.
         case user_has_permission env user org perm s of
           (Inl e, s') \<Rightarrow> (Inl (forbidden ''permission check failed''), s')
         | (Inr ok, s') \<Rightarrow>
             if ok then (Inr (), s') else (Inl (forbidden (''insufficient permissions: '' @ perm)), s')))"

fun any_permission :: "'w auth_env \<Rightarrow> uuid \<Rightarrow> uuid \<Rightarrow> string list \<Rightarrow> 'w auth_world \<Rightarrow> bool \<times> 'w auth_world" where
  "any_permission env user org [] s = (False, s)"
| "any_permission env user org (p # ps) s =
     (case user_has_permission env user org p s of
        (Inl e, s') \<Rightarrow> any_permission env user org ps s'
      | (Inr ok, s') \<Rightarrow> if ok then (True, s') else any_permission env user org ps s')"

definition require_any_permission :: "'w auth_env \<Rightarrow> string list \<Rightarrow> http_ctx \<Rightarrow> ('w, unit) handler" where
  "require_any_permission env perms cx =
     parsed env 403 ''invalid user identity'' (hc_user cx) (\<lambda>user.
       parsed env 403 ''invalid org identity'' (hc_org cx) (\<lambda>org. \<lambda>s.
         case any_permission env user org perms s of
           (ok, s') \<Rightarrow> if ok then (Inr (), s')
                       else (Inl (forbidden (''insufficient permissions: '' @ join '' or '' perms)), s')))"

end
