(* ===== verification/AuthService.thy ===== *)
theory AuthService
  imports AccessMiddleware
begin

text \<open>
  Sign-in (\<open>service/auth_service.go\<close>, \<open>auth_service_google.go\<close>, \<open>auth_service_mobile.go\<close>,
  \<open>sso_service.go\<close>): registration, passwords, refresh tokens, devices, Google, Apple and the single
  sign-on of an organisation. bcrypt, the providers' verification of a code or token and the catalogue of
  built-in agents are parameters. A field that may be nil in the source is an option or a flag.
\<close>

section \<open>The service\<close>

record google_profile =
  gp_sub :: string
  gp_email :: string
  gp_name :: string
  gp_picture :: string

record apple_identity =
  ai_subject :: string
  ai_email :: string
  ai_verified :: bool

record 'w auth_svc =
  av_env :: "'w auth_env"
  av_jwt :: "'w jwt_service"
  av_hash_password :: "string \<Rightarrow> 'w \<Rightarrow> (go_err + string) \<times> 'w"
  av_password_ok :: "string \<Rightarrow> string \<Rightarrow> bool"
  av_rbac :: bool
  av_seeds :: "(uuid \<Rightarrow> string option) list option"
  av_create_agent :: "string \<Rightarrow> uuid \<Rightarrow> uuid \<Rightarrow> 'w \<Rightarrow> go_err option \<times> 'w"
  av_google :: "(string \<Rightarrow> 'w \<Rightarrow> (go_err + google_profile) \<times> 'w) option"
  av_google_url :: "string \<Rightarrow> string"
  av_devices :: bool
  av_identities :: bool
  av_apple :: "(string \<Rightarrow> string \<Rightarrow> 'w \<Rightarrow> (go_err + apple_identity) \<times> 'w) option"

record device_info =
  di_id :: string
  di_platform :: string
  di_name :: string
  di_version :: string

record auth_response =
  ar_access :: string
  ar_refresh :: string
  ar_user :: user_row
  ar_device :: "uuid option"

definition auth_error :: "string \<Rightarrow> go_err" where
  "auth_error s = ErrSentinel s"

definition email_exists :: string where "email_exists = ''email already exists''"
definition invalid_credentials :: string where "invalid_credentials = ''invalid email or password''"
definition invalid_refresh :: string where "invalid_refresh = ''invalid refresh token''"
definition refresh_expired :: string where "refresh_expired = ''refresh token expired''"
definition user_not_found :: string where "user_not_found = ''user not found''"
definition google_off :: string where "google_off = ''google sign-in is not configured''"
definition bad_google_state :: string where "bad_google_state = ''invalid or expired google sign-in state''"
definition bad_google_ticket :: string where "bad_google_ticket = ''invalid or expired google sign-in ticket''"
definition google_unverified :: string where "google_unverified = ''google email is not verified''"
definition apple_off :: string where "apple_off = ''sign in with apple is not configured''"
definition bad_apple_token :: string where "bad_apple_token = ''invalid sign in with apple token''"
definition apple_needs_email :: string where "apple_needs_email = ''apple did not share a verified email''"
definition device_not_found :: string where "device_not_found = ''device not found''"

text \<open>A statement of the service's database, and one whose error is returned as it is.\<close>

definition sv_read :: "'w auth_svc \<Rightarrow> string \<Rightarrow> string \<Rightarrow> (auth_db \<Rightarrow> 'a) \<Rightarrow> ('w, 'a) auth" where
  "sv_read sv what prefix f = db_read (ae_fault (av_env sv) what) prefix f"

definition sv_stmt :: "'w auth_svc \<Rightarrow> string \<Rightarrow> string \<Rightarrow> (auth_db \<Rightarrow> go_err + 'a \<times> auth_db) \<Rightarrow> ('w, 'a) auth" where
  "sv_stmt sv what prefix f = db_stmt (ae_fault (av_env sv) what) prefix f"

definition sv_write :: "'w auth_svc \<Rightarrow> string \<Rightarrow> string \<Rightarrow> (auth_db \<Rightarrow> auth_db) \<Rightarrow> ('w, unit) auth" where
  "sv_write sv what prefix f = db_write (ae_fault (av_env sv) what) prefix f"

section \<open>Tokens\<close>

definition issue_tokens :: "'w auth_svc \<Rightarrow> user_row \<Rightarrow> uuid option \<Rightarrow> ('w, auth_response) auth" where
  "issue_tokens sv u device =
     and_then (with_prefix ''generating access token: ''
         (generate_access_token (av_jwt sv) (us_id u) (us_email u) (us_org u) (us_role u)))
       (\<lambda>access. and_then (generate_refresh_token (av_jwt sv)) (\<lambda>(plain, h, expires).
          and_then (draw (ae_uuid (av_env sv))) (\<lambda>i.
            and_then (sv_stmt sv ''SaveToken'' ''saving refresh token: ''
                (save_token \<lparr>tk_id = i, tk_user = us_id u, tk_hash = h, tk_expires = expires, tk_device = device\<rparr>))
              (\<lambda>_. ret_ok \<lparr>ar_access = access, ar_refresh = plain, ar_user = u, ar_device = device\<rparr>))))"

definition resolve_device :: "'w auth_svc \<Rightarrow> uuid \<Rightarrow> device_info option \<Rightarrow> ('w, uuid option) auth" where
  "resolve_device sv user info =
     (case info of
        None \<Rightarrow> ret_ok None
      | Some di \<Rightarrow>
          if \<not> av_devices sv then ret_ok None
          else (let d = (\<lambda>i now. \<lparr>dv_id = i, dv_user = user, dv_platform = to_lower (trim_space (di_platform di)),
                         dv_name = clip_string (trim_space (di_name di)) 255,
                         dv_version = clip_string (trim_space (di_version di)) 64,
                         dv_push = None, dv_push_env = None, dv_seen = now\<rparr>)
            in and_then (case ae_parse_uuid (av_env sv) (trim_space (di_id di)) of
                   None \<Rightarrow> ret_ok None
                 | Some i \<Rightarrow> sv_read sv ''FindForUser'' ''finding device: '' (find_device i user))
               (\<lambda>existing. and_then (draw (ae_now (av_env sv))) (\<lambda>now.
                  case existing of
                    Some e \<Rightarrow> and_then (sv_stmt sv ''TouchDevice'' ''touching device: '' (touch_device_row (d (dv_id e) now) now))
                      (\<lambda>_. ret_ok (Some (dv_id e)))
                  | None \<Rightarrow> and_then (draw (ae_uuid (av_env sv))) (\<lambda>i.
                      and_then (sv_stmt sv ''CreateDevice'' ''creating device: '' (create_device (d i now)))
                        (\<lambda>_. ret_ok (Some i)))))))"

definition auth_response_for_device ::
  "'w auth_svc \<Rightarrow> user_row \<Rightarrow> device_info option \<Rightarrow> ('w, auth_response) auth" where
  "auth_response_for_device sv u info =
     and_then (outcome (resolve_device sv (us_id u) info))
       (\<lambda>r. issue_tokens sv u (case r of Inl e \<Rightarrow> None | Inr device \<Rightarrow> device))"

definition touch_device :: "'w auth_svc \<Rightarrow> uuid \<Rightarrow> uuid \<Rightarrow> ('w, unit) auth" where
  "touch_device sv user device =
     (if \<not> av_devices sv then ret_ok ()
      else and_then (outcome (sv_read sv ''FindForUser'' ''finding device: '' (find_device device user)))
        (\<lambda>r. case r of
           Inr (Some d) \<Rightarrow> and_then (draw (ae_now (av_env sv))) (\<lambda>now.
               and_then (outcome (sv_stmt sv ''TouchDevice'' ''touching device: '' (touch_device_row d now)))
                 (\<lambda>_. ret_ok ()))
         | _ \<Rightarrow> ret_ok ()))"

section \<open>Registration and passwords\<close>

definition slug_char :: "char \<Rightarrow> bool" where
  "slug_char c \<longleftrightarrow> (let n = of_char c :: nat in 97 \<le> n \<and> n \<le> 122 \<or> 48 \<le> n \<and> n \<le> 57)"

definition slugify :: "string \<Rightarrow> string" where
  "slugify name = join ''-'' (fields_func (\<lambda>c. \<not> slug_char c) (to_lower name))"

definition seed_owner_role :: "'w auth_svc \<Rightarrow> uuid \<Rightarrow> uuid \<Rightarrow> ('w, unit) auth" where
  "seed_owner_role sv org user =
     (if \<not> av_rbac sv then ret_ok ()
      else and_then (outcome (ensure_system_roles (av_env sv) org)) (\<lambda>r1. case r1 of
             Inl e \<Rightarrow> ret_ok ()
           | Inr _ \<Rightarrow> and_then (outcome (sv_read sv ''GetRoleByName'' ''rbac_repo: get role by name: ''
                 (find_role_by_name org ''admin'')))
               (\<lambda>r2. case r2 of
                  Inr (Some role) \<Rightarrow> and_then (outcome (assign_role (av_env sv) org (Some user) user (rl_id role)))
                    (\<lambda>_. ret_ok ())
                | _ \<Rightarrow> ret_ok ())))"

fun seed_agents :: "'w auth_svc \<Rightarrow> uuid \<Rightarrow> uuid \<Rightarrow> (uuid \<Rightarrow> string option) list \<Rightarrow> 'w \<Rightarrow> 'w" where
  "seed_agents sv org user [] w = w"
| "seed_agents sv org user (seed # seeds) w =
     seed_agents sv org user seeds
       (case seed org of None \<Rightarrow> w | Some name \<Rightarrow> snd (av_create_agent sv name org user w))"

definition seed_builtin_agents :: "'w auth_svc \<Rightarrow> uuid \<Rightarrow> uuid \<Rightarrow> ('w, unit) auth" where
  "seed_builtin_agents sv org user =
     (case av_seeds sv of None \<Rightarrow> ret_ok ()
      | Some seeds \<Rightarrow> draw (\<lambda>w. ((), seed_agents sv org user seeds w)))"

record register_request =
  rr_email :: string
  rr_password :: string
  rr_name :: string
  rr_org :: string
  rr_device :: "device_info option"

definition new_owner :: "'w auth_svc \<Rightarrow> org_row \<Rightarrow> (uuid \<Rightarrow> user_row) \<Rightarrow> ('w, user_row) auth" where
  "new_owner sv org mk =
     and_then (sv_stmt sv ''CreateOrg'' ''creating organization: '' (create_org org)) (\<lambda>_.
       and_then (draw (ae_uuid (av_env sv))) (\<lambda>i.
         and_then (sv_stmt sv ''CreateUser'' ''creating user: '' (create_user (mk i))) (\<lambda>_.
           and_then (seed_owner_role sv (og_id org) i) (\<lambda>_.
             and_then (seed_builtin_agents sv (og_id org) i) (\<lambda>_. ret_ok (mk i))))))"

definition register :: "'w auth_svc \<Rightarrow> register_request \<Rightarrow> ('w, auth_response) auth" where
  "register sv rq =
     and_then (with_prefix ''checking existing user: ''
         (sv_read sv ''FindByEmail'' ''finding user by email: '' (find_by_email (rr_email rq))))
       (\<lambda>existing. if existing \<noteq> None then fail_with (auth_error email_exists)
          else and_then (with_prefix ''hashing password: '' (draw_or_fail (av_hash_password sv (rr_password rq)))) (\<lambda>h.
            and_then (draw (ae_uuid (av_env sv))) (\<lambda>o_id.
              and_then (new_owner sv \<lparr>og_id = o_id, og_name = rr_org rq, og_slug = slugify (rr_org rq), og_owner = None\<rparr>
                  (\<lambda>i. \<lparr>us_id = i, us_email = rr_email rq, us_password = h, us_name = rr_name rq, us_avatar = None,
                        us_role = ''admin'', us_org = Some o_id, us_google = None\<rparr>))
                (\<lambda>u. auth_response_for_device sv u (rr_device rq)))))"

definition login :: "'w auth_svc \<Rightarrow> string \<Rightarrow> string \<Rightarrow> device_info option \<Rightarrow> ('w, auth_response) auth" where
  "login sv email password device =
     and_then (with_prefix ''finding user: ''
         (sv_read sv ''FindByEmail'' ''finding user by email: '' (find_by_email email)))
       (\<lambda>found. case found of
          None \<Rightarrow> fail_with (auth_error invalid_credentials)
        | Some u \<Rightarrow>
            if us_password u = [] \<or> \<not> av_password_ok sv (us_password u) password
            then fail_with (auth_error invalid_credentials)
            else auth_response_for_device sv u device)"

text \<open>A refresh is a look-up and the rotation of what was found, with other requests between the two.\<close>

definition refresh_lookup :: "'w auth_svc \<Rightarrow> string \<Rightarrow> ('w, refresh_row) auth" where
  "refresh_lookup sv token =
     and_then (with_prefix ''finding refresh token: ''
         (sv_read sv ''FindByHash'' ''finding refresh token: '' (find_token (hash_token (av_jwt sv) token))))
       (\<lambda>stored. case stored of None \<Rightarrow> fail_with (auth_error invalid_refresh) | Some t \<Rightarrow> ret_ok t)"

definition refresh_rotate :: "'w auth_svc \<Rightarrow> refresh_row \<Rightarrow> ('w, auth_response) auth" where
  "refresh_rotate sv t =
     and_then (draw (ae_now (av_env sv))) (\<lambda>now.
       if now > tk_expires t then
         and_then (outcome (sv_write sv ''DeleteToken'' ''deleting refresh token: '' (delete_token (tk_id t))))
           (\<lambda>_. fail_with (auth_error refresh_expired))
       else and_then (with_prefix ''deleting old refresh token: ''
           (sv_write sv ''DeleteToken'' ''deleting refresh token: '' (delete_token (tk_id t)))) (\<lambda>_.
         and_then (with_prefix ''finding user: ''
             (sv_read sv ''FindByID'' ''finding user by id: '' (find_user (tk_user t)))) (\<lambda>found. case found of
           None \<Rightarrow> fail_with (auth_error invalid_refresh)
         | Some u \<Rightarrow> and_then (case tk_device t of None \<Rightarrow> ret_ok () | Some d \<Rightarrow> touch_device sv (us_id u) d)
             (\<lambda>_. issue_tokens sv u (tk_device t)))))"

definition refresh_tokens :: "'w auth_svc \<Rightarrow> string \<Rightarrow> ('w, auth_response) auth" where
  "refresh_tokens sv token = and_then (refresh_lookup sv token) (refresh_rotate sv)"

definition get_me :: "'w auth_svc \<Rightarrow> uuid \<Rightarrow> ('w, user_row) auth" where
  "get_me sv i =
     and_then (with_prefix ''finding user: '' (sv_read sv ''FindByID'' ''finding user by id: '' (find_user i)))
       (\<lambda>found. case found of None \<Rightarrow> fail_with (auth_error user_not_found) | Some u \<Rightarrow> ret_ok u)"

definition update_profile :: "'w auth_svc \<Rightarrow> uuid \<Rightarrow> string option \<Rightarrow> string option \<Rightarrow> ('w, user_row) auth" where
  "update_profile sv i name avatar =
     and_then (get_me sv i) (\<lambda>u.
       let v = u\<lparr>us_name := (case name of None \<Rightarrow> us_name u | Some n \<Rightarrow> n),
                 us_avatar := (if avatar = None then us_avatar u else avatar)\<rparr>
       in and_then (sv_stmt sv ''UpdateProfile'' ''updating profile: '' (update_user_profile v)) (\<lambda>_. ret_ok v))"

end
