(* ===== verification/AuthSignIn.thy ===== *)
theory AuthSignIn
  imports AuthService
begin

text \<open>
  Sign-in through others and the sessions of installed apps: Google, Apple, the single sign-on of an
  organisation, logging out, devices (\<open>service/auth_service_google.go\<close>, \<open>auth_service_mobile.go\<close>,
  \<open>sso_service.go\<close>, \<open>handler/sso_handler.go\<close>).
\<close>

section \<open>Intents\<close>

definition normalize_intent :: "string \<Rightarrow> string" where
  "normalize_intent i = (if equal_fold (trim_space i) ''signup'' then ''signup'' else ''login'')"

definition native_prefix :: string where "native_prefix = ''native_''"

definition encode_intent :: "string \<Rightarrow> bool \<Rightarrow> string" where
  "encode_intent i native = (if native then native_prefix @ normalize_intent i else normalize_intent i)"

definition decode_intent :: "string \<Rightarrow> string \<times> bool" where
  "decode_intent raw0 =
     (let raw = trim_space raw0 in
      if has_prefix raw native_prefix then (normalize_intent (trim_prefix raw native_prefix), True)
      else (normalize_intent raw, False))"

lemma intent_round_trip: "decode_intent (encode_intent i native) = (normalize_intent i, native)"
proof -
  have "normalize_intent i = ''signup'' \<or> normalize_intent i = ''login''" by (simp add: normalize_intent_def)
  then show ?thesis by (cases native; elim disjE; simp add: encode_intent_def; code_simp)
qed

section \<open>New accounts\<close>

text \<open>The tail a taken slug gets is the first eight characters of a UUID.\<close>

definition tailed_slug :: "'w auth_svc \<Rightarrow> string \<Rightarrow> uuid \<Rightarrow> string" where
  "tailed_slug sv base i = base @ ''-'' @ take 8 (ae_show_uuid (av_env sv) i)"

fun free_slug :: "'w auth_svc \<Rightarrow> string \<Rightarrow> nat \<Rightarrow> string \<Rightarrow> ('w, string) auth" where
  "free_slug sv base 0 slug = ret_ok slug"
| "free_slug sv base (Suc n) slug =
     and_then (outcome (sv_read sv ''FindBySlug'' ''finding organization by slug: '' (find_org_by_slug slug)))
       (\<lambda>r. case r of
          Inl e \<Rightarrow> and_then (draw (ae_uuid (av_env sv))) (\<lambda>i. ret_ok (tailed_slug sv base i))
        | Inr None \<Rightarrow> ret_ok slug
        | Inr (Some g) \<Rightarrow> and_then (draw (ae_uuid (av_env sv))) (\<lambda>i. free_slug sv base n (tailed_slug sv base i)))"

definition unique_org_slug :: "'w auth_svc \<Rightarrow> string \<Rightarrow> ('w, string) auth" where
  "unique_org_slug sv name =
     (let base = (if slugify name = [] then ''workspace'' else slugify name) in free_slug sv base 8 base)"

definition external_name :: "string \<Rightarrow> string \<Rightarrow> string" where
  "external_name full email =
     (let n = clip_string (trim_space full) 255 in if n = [] then hd (split_char (CHR ''@'') email) else n)"

definition register_external_user ::
  "'w auth_svc \<Rightarrow> string \<Rightarrow> string \<Rightarrow> string \<Rightarrow> string option \<Rightarrow> string option \<Rightarrow> ('w, user_row) auth" where
  "register_external_user sv email full org0 avatar sub =
     (let name = external_name full email;
          org = clip_string (if trim_space org0 = [] then name @ [CHR 0x27] @ ''s workspace'' else org0) 255
      in and_then (draw (ae_uuid (av_env sv))) (\<lambda>o_id.
           and_then (unique_org_slug sv org) (\<lambda>slug.
             new_owner sv \<lparr>og_id = o_id, og_name = org, og_slug = slug, og_owner = None\<rparr>
               (\<lambda>i. \<lparr>us_id = i, us_email = email, us_password = [], us_name = name, us_avatar = avatar,
                     us_role = ''admin'', us_org = Some o_id, us_google = sub\<rparr>))))"

section \<open>Google\<close>

definition put_oauth_state :: "'w auth_svc \<Rightarrow> oauth_state \<Rightarrow> ('w, unit) auth" where
  "put_oauth_state sv st = sv_stmt sv ''PutState'' ''put google oauth state: '' (put_state st)"

definition consume_state :: "'w auth_svc \<Rightarrow> string \<Rightarrow> ('w, oauth_state option) auth" where
  "consume_state sv s =
     and_then (sv_stmt sv ''ConsumeState'' ''consume google oauth state: '' (\<lambda>db. Inr (take_state s db)))
       (\<lambda>r. case r of None \<Rightarrow> ret_ok None
          | Some st \<Rightarrow> and_then (draw (ae_now (av_env sv)))
              (\<lambda>now. ret_ok (if now > os_expires st then None else Some st)))"

definition consume_ticket :: "'w auth_svc \<Rightarrow> string \<Rightarrow> ('w, oauth_ticket option) auth" where
  "consume_ticket sv s =
     and_then (sv_stmt sv ''ConsumeTicket'' ''consume google oauth ticket: '' (\<lambda>db. Inr (take_ticket s db)))
       (\<lambda>r. case r of None \<Rightarrow> ret_ok None
          | Some t \<Rightarrow> and_then (draw (ae_now (av_env sv)))
              (\<lambda>now. ret_ok (if now > ot_expires t then None else Some t)))"

definition start_google :: "'w auth_svc \<Rightarrow> string \<Rightarrow> string \<Rightarrow> bool \<Rightarrow> ('w, string) auth" where
  "start_google sv intent org native =
     (if av_google sv = None then fail_with (auth_error google_off)
      else and_then (with_prefix ''google oauth state: '' (draw_or_fail (ae_rand (av_env sv) 16))) (\<lambda>b.
        and_then (draw (ae_now (av_env sv))) (\<lambda>now.
          and_then (put_oauth_state sv \<lparr>os_state = hex_encode b, os_intent = encode_intent intent native,
              os_org = clip_string (trim_space org) 255, os_expires = now + 600000\<rparr>)
            (\<lambda>_. ret_ok (av_google_url sv (hex_encode b))))))"

definition abandon_google :: "'w auth_svc \<Rightarrow> string \<Rightarrow> ('w, string \<times> bool) auth" where
  "abandon_google sv state =
     (if trim_space state = [] then ret_ok (''login'', False)
      else and_then (outcome (consume_state sv state)) (\<lambda>r. case r of
             Inr (Some st) \<Rightarrow> ret_ok (decode_intent (os_intent st))
           | _ \<Rightarrow> ret_ok (''login'', False)))"

definition refreshed_user :: "google_profile \<Rightarrow> string option \<Rightarrow> user_row \<Rightarrow> user_row" where
  "refreshed_user p avatar u =
     u\<lparr>us_name := (if gp_name p \<noteq> [] \<and> us_name u \<noteq> gp_name p then clip_string (gp_name p) 255 else us_name u),
       us_avatar := (if avatar \<noteq> None then avatar_or (us_avatar u) avatar else us_avatar u)\<rparr>"

definition maybe_refresh_profile ::
  "'w auth_svc \<Rightarrow> user_row \<Rightarrow> google_profile \<Rightarrow> string option \<Rightarrow> ('w, user_row) auth" where
  "maybe_refresh_profile sv u p avatar =
     (let v = refreshed_user p avatar u;
          changed = (gp_name p \<noteq> [] \<and> us_name u \<noteq> gp_name p
             \<or> avatar \<noteq> None \<and> (us_avatar u = None \<or> us_avatar u = Some []))
      in if \<not> changed then ret_ok v
         else and_then (outcome (sv_stmt sv ''UpdateProfile'' [] (update_user_profile v))) (\<lambda>_. ret_ok v))"

definition user_from_google :: "'w auth_svc \<Rightarrow> google_profile \<Rightarrow> string \<Rightarrow> ('w, user_row) auth" where
  "user_from_google sv p org =
     (let avatar = optional_clipped (gp_picture p) 500 in
      and_then (with_prefix ''finding user by google_sub: ''
          (sv_read sv ''FindByGoogleSub'' ''finding user by google_sub: '' (find_by_google (gp_sub p))))
        (\<lambda>linked. case linked of
           Some u \<Rightarrow> maybe_refresh_profile sv u p avatar
         | None \<Rightarrow>
             and_then (with_prefix ''finding user by email: ''
                 (sv_read sv ''FindByEmailFold'' ''finding user by email fold: '' (find_by_email_fold (gp_email p))))
               (\<lambda>same. case same of
                  Some u \<Rightarrow> and_then (sv_stmt sv ''LinkGoogleSub'' ''linking google_sub: ''
                      (link_google (us_id u) (gp_sub p) avatar))
                    (\<lambda>_. ret_ok (u\<lparr>us_google := Some (gp_sub p), us_avatar := avatar_or (us_avatar u) avatar\<rparr>))
                | None \<Rightarrow> register_external_user sv (gp_email p) (gp_name p) org avatar (Some (gp_sub p)))))"

text \<open>The intent and whether the client is native are answered with an error too, for the redirect.\<close>

definition complete_google ::
  "'w auth_svc \<Rightarrow> string \<Rightarrow> string \<Rightarrow> ('w, (string \<times> bool) \<times> (go_err + string)) auth" where
  "complete_google sv state code =
     (case av_google sv of
        None \<Rightarrow> ret_ok ((''login'', False), Inl (auth_error google_off))
      | Some profile_from \<Rightarrow>
          and_then (outcome (consume_state sv state)) (\<lambda>r. case r of
            Inl e \<Rightarrow> ret_ok ((''login'', False), Inl e)
          | Inr None \<Rightarrow> ret_ok ((''login'', False), Inl (auth_error bad_google_state))
          | Inr (Some st) \<Rightarrow> and_then (outcome (and_then (outcome (draw_or_fail (profile_from code))) (\<lambda>pr. case pr of
                Inl e \<Rightarrow> fail_with (if err_is ''googleauth: email is not verified'' e then auth_error google_unverified
                                   else ErrText ''google sign-in failed'')
              | Inr p \<Rightarrow> and_then (user_from_google sv p (os_org st)) (\<lambda>u.
                  and_then (with_prefix ''google oauth ticket: '' (draw_or_fail (ae_rand (av_env sv) 32))) (\<lambda>b.
                    and_then (draw (ae_now (av_env sv))) (\<lambda>now.
                      and_then (sv_stmt sv ''PutTicket'' ''put google oauth ticket: ''
                          (put_ticket \<lparr>ot_ticket = hex_encode b, ot_user = us_id u, ot_expires = now + 120000\<rparr>))
                        (\<lambda>_. ret_ok (hex_encode b))))))))
              (\<lambda>res. ret_ok (decode_intent (os_intent st), res))))"

definition exchange_google_ticket ::
  "'w auth_svc \<Rightarrow> string \<Rightarrow> device_info option \<Rightarrow> ('w, auth_response) auth" where
  "exchange_google_ticket sv ticket device =
     (if trim_space ticket = [] then fail_with (auth_error bad_google_ticket)
      else and_then (consume_ticket sv ticket) (\<lambda>stored. case stored of
             None \<Rightarrow> fail_with (auth_error bad_google_ticket)
           | Some t \<Rightarrow> and_then (get_me sv (ot_user t)) (\<lambda>u.
               if device \<noteq> None then auth_response_for_device sv u device else issue_tokens sv u None)))"

section \<open>Devices\<close>

definition logout :: "'w auth_svc \<Rightarrow> string \<Rightarrow> ('w, unit) auth" where
  "logout sv token =
     and_then (with_prefix ''finding refresh token: ''
         (sv_read sv ''FindByHash'' ''finding refresh token: '' (find_token (hash_token (av_jwt sv) token))))
       (\<lambda>stored. case stored of
          None \<Rightarrow> ret_ok ()
        | Some t \<Rightarrow>
            and_then (case tk_device t of
                Some d \<Rightarrow> if av_devices sv
                  then and_then (sv_stmt sv ''DeleteDevice'' ''deleting device: '' (\<lambda>db. Inr (delete_device_row d (tk_user t) db)))
                         (\<lambda>_. ret_ok ())
                  else ret_ok ()
              | None \<Rightarrow> ret_ok ())
            (\<lambda>_. sv_write sv ''DeleteToken'' ''deleting refresh token: '' (delete_token (tk_id t))))"

definition logout_all :: "'w auth_svc \<Rightarrow> uuid \<Rightarrow> ('w, unit) auth" where
  "logout_all sv user =
     and_then (if av_devices sv then sv_write sv ''DeleteAllDevices'' ''deleting devices: '' (delete_user_devices user)
               else ret_ok ())
       (\<lambda>_. sv_write sv ''DeleteAllForUser'' ''deleting all refresh tokens for user: '' (delete_user_tokens user))"

definition list_devices :: "'w auth_svc \<Rightarrow> uuid \<Rightarrow> ('w, device_row list) auth" where
  "list_devices sv user =
     (if av_devices sv then sv_read sv ''ListDevices'' ''listing devices: '' (list_user_devices user) else ret_ok [])"

definition revoke_device :: "'w auth_svc \<Rightarrow> uuid \<Rightarrow> uuid \<Rightarrow> ('w, unit) auth" where
  "revoke_device sv user device =
     (if \<not> av_devices sv then fail_with (auth_error device_not_found)
      else and_then (sv_stmt sv ''DeleteDevice'' ''deleting device: '' (\<lambda>db. Inr (delete_device_row device user db)))
        (\<lambda>ok. if ok then ret_ok () else fail_with (auth_error device_not_found)))"

definition set_device_push :: "'w auth_svc \<Rightarrow> uuid \<Rightarrow> uuid \<Rightarrow> string \<Rightarrow> string \<Rightarrow> ('w, unit) auth" where
  "set_device_push sv user device token penv =
     (if \<not> av_devices sv then fail_with (auth_error device_not_found)
      else and_then (draw (ae_now (av_env sv))) (\<lambda>now.
        and_then (sv_stmt sv ''SetPush'' [] (\<lambda>db. Inr (set_push_row device user (trim_space token)
            (if penv = [] then ''production'' else penv) now db)))
          (\<lambda>ok. if ok then ret_ok () else fail_with (auth_error device_not_found))))"

section \<open>Apple\<close>

definition apple_intent :: string where "apple_intent = ''apple''"

definition apple_enabled :: "'w auth_svc \<Rightarrow> bool" where
  "apple_enabled sv \<longleftrightarrow> av_apple sv \<noteq> None \<and> av_identities sv"

definition apple_nonce :: "'w auth_svc \<Rightarrow> ('w, string \<times> int) auth" where
  "apple_nonce sv =
     (if \<not> apple_enabled sv then fail_with (auth_error apple_off)
      else and_then (with_prefix ''apple nonce: '' (draw_or_fail (ae_rand (av_env sv) 32))) (\<lambda>b.
        and_then (draw (ae_now (av_env sv))) (\<lambda>now.
          and_then (put_oauth_state sv \<lparr>os_state = hex_encode b, os_intent = apple_intent, os_org = [],
              os_expires = now + 600000\<rparr>)
            (\<lambda>_. ret_ok (hex_encode b, now + 600000)))))"

definition user_from_apple :: "'w auth_svc \<Rightarrow> apple_identity \<Rightarrow> string \<Rightarrow> string \<Rightarrow> ('w, user_row) auth" where
  "user_from_apple sv ident full org =
     and_then (sv_read sv ''FindUserID'' ''finding identity: '' (find_identity ''apple'' (ai_subject ident)))
       (\<lambda>linked. if linked \<noteq> uuid_nil then get_me sv linked
          else if ai_email ident = [] \<or> \<not> ai_verified ident then fail_with (auth_error apple_needs_email)
          else and_then (with_prefix ''finding user by email: ''
              (sv_read sv ''FindByEmailFold'' ''finding user by email fold: '' (find_by_email_fold (ai_email ident))))
            (\<lambda>same. and_then (case same of
                Some u \<Rightarrow> ret_ok u | None \<Rightarrow> register_external_user sv (ai_email ident) full org None None)
              (\<lambda>u. and_then (sv_stmt sv ''LinkIdentity'' ''linking identity: ''
                  (link_identity ''apple'' (ai_subject ident) (us_id u) (ai_email ident)))
                (\<lambda>_. ret_ok u))))"

record apple_request =
  aq_token :: string
  aq_nonce :: string
  aq_name :: string
  aq_org :: string
  aq_device :: "device_info option"

definition sign_in_with_apple :: "'w auth_svc \<Rightarrow> apple_request \<Rightarrow> ('w, auth_response) auth" where
  "sign_in_with_apple sv rq =
     (case (av_apple sv, av_identities sv) of
        (Some verify, True) \<Rightarrow>
          and_then (consume_state sv (aq_nonce rq)) (\<lambda>st.
            if (case st of None \<Rightarrow> True | Some r \<Rightarrow> os_intent r \<noteq> apple_intent)
            then fail_with (auth_error bad_apple_token)
            else and_then (outcome (draw_or_fail (verify (aq_token rq) (aq_nonce rq)))) (\<lambda>v. case v of
                Inl e \<Rightarrow> fail_with (if err_is ''invalid apple identity token'' e then auth_error bad_apple_token
                                   else ErrWrap ''verifying apple token: '' e)
              | Inr ident \<Rightarrow> and_then (user_from_apple sv ident (aq_name rq) (aq_org rq))
                  (\<lambda>u. auth_response_for_device sv u (aq_device rq))))
      | _ \<Rightarrow> fail_with (auth_error apple_off))"

section \<open>Single sign-on of an organisation\<close>

record sso_request =
  so_provider :: string
  so_client :: string
  so_secret :: string
  so_issuer :: string
  so_redirect :: string
  so_scopes :: "string list"
  so_provision :: "bool option"
  so_role :: string
  so_domain :: "string option"

record sso_profile =
  sp_email :: string
  sp_name :: string
  sp_sub :: string

definition create_sso_config :: "'w auth_svc \<Rightarrow> uuid \<Rightarrow> sso_request \<Rightarrow> ('w, sso_config) auth" where
  "create_sso_config sv org rq =
     and_then (draw (ae_uuid (av_env sv))) (\<lambda>i.
       sv_stmt sv ''CreateSSO'' ''sso_repo: create: '' (upsert_sso
         \<lparr>sc_id = i, sc_org = org, sc_provider = so_provider rq, sc_client = so_client rq, sc_secret = so_secret rq,
          sc_issuer = so_issuer rq, sc_redirect = so_redirect rq,
          sc_scopes = (if so_scopes rq = [] then [''openid'', ''profile'', ''email''] else so_scopes rq),
          sc_provision = (case so_provision rq of None \<Rightarrow> True | Some b \<Rightarrow> b),
          sc_role = (if so_role rq = [] then ''viewer'' else so_role rq), sc_domain = so_domain rq,
          sc_enabled = True\<rparr>))"

definition delete_sso_config :: "'w auth_svc \<Rightarrow> uuid \<Rightarrow> ('w, unit) auth" where
  "delete_sso_config sv i = sv_write sv ''DeleteSSO'' [] (delete_sso i)"

definition list_sso_configs :: "'w auth_svc \<Rightarrow> uuid \<Rightarrow> ('w, sso_config list) auth" where
  "list_sso_configs sv org = sv_read sv ''ListSSO'' ''sso_repo: list: '' (list_sso org)"

text \<open>
  An email without an \<open>@\<close> ends in a panic when the domain is restricted, as its message reads the missing
  part; the panic is the error of that text here.
\<close>

definition domain_refused :: "string option \<Rightarrow> string \<Rightarrow> go_err option" where
  "domain_refused domain email =
     (case domain of
        None \<Rightarrow> None
      | Some d \<Rightarrow>
          if d = [] then None
          else if CHR ''@'' \<notin> set email then Some (ErrText ''panic: index out of range'')
          else (let part = drop 1 (dropWhile (\<lambda>c. c \<noteq> CHR ''@'') email)
                in if part = d then None
                   else Some (ErrText (''sso: email domain '' @ quote part @ '' not allowed''))))"

text \<open>
  The requests to an identity provider. What is at the other end of the network is a parameter: the
  answer to a form posted to an address is a status and a body, and that to a request with a bearer
  token its body, whose status the code does not look at. The texts of decoding errors are not modelled.
\<close>

record 'w sso_http =
  sh_post :: "string \<Rightarrow> (string \<times> string) list \<Rightarrow> 'w \<Rightarrow> (go_err + nat \<times> string) \<times> 'w"
  sh_get :: "string \<Rightarrow> string \<Rightarrow> 'w \<Rightarrow> (go_err + string) \<times> 'w"

definition authorize_endpoint :: "sso_config \<Rightarrow> string" where
  "authorize_endpoint cfg =
     trim_suffix (sc_issuer cfg) ''/''
       @ (if sc_provider cfg = ''azure_ad'' then ''/oauth2/v2.0/authorize'' else ''/authorize'')"

definition token_endpoint :: "sso_config \<Rightarrow> string" where
  "token_endpoint cfg =
     trim_suffix (sc_issuer cfg) ''/''
       @ (if sc_provider cfg = ''azure_ad'' then ''/oauth2/v2.0/token'' else ''/token'')"

definition userinfo_endpoint :: "sso_config \<Rightarrow> string" where
  "userinfo_endpoint cfg =
     (if sc_provider cfg = ''azure_ad'' then ''https://graph.microsoft.com/oidc/userinfo''
      else trim_suffix (sc_issuer cfg) ''/'' @ ''/userinfo'')"

definition sso_form :: "sso_config \<Rightarrow> string \<Rightarrow> (string \<times> string) list" where
  "sso_form cfg code =
     [(''grant_type'', ''authorization_code''), (''client_id'', sc_client cfg),
      (''client_secret'', sc_secret cfg), (''code'', code), (''redirect_uri'', sc_redirect cfg)]"

text \<open>The members of a decoded body; \<open>null\<close> leaves the struct as it is.\<close>

definition body_members :: "string \<Rightarrow> obj option" where
  "body_members body =
     (case parse_json body of Some (JObj ms) \<Rightarrow> Some ms | Some JNull \<Rightarrow> Some [] | _ \<Rightarrow> None)"

definition read_token :: "string \<Rightarrow> string option" where
  "read_token body =
     (case body_members body of
        None \<Rightarrow> None
      | Some ms \<Rightarrow>
          (case (str_field ''access_token'' ms, str_field ''id_token'' ms) of
             (Some access, Some ident) \<Rightarrow> Some access
           | _ \<Rightarrow> None))"

definition read_profile :: "string \<Rightarrow> sso_profile option" where
  "read_profile body =
     (case body_members body of
        None \<Rightarrow> None
      | Some ms \<Rightarrow>
          (case (str_field ''email'' ms, str_field ''name'' ms, str_field ''sub'' ms) of
             (Some e, Some n, Some s) \<Rightarrow> Some \<lparr>sp_email = e, sp_name = n, sp_sub = s\<rparr>
           | _ \<Rightarrow> None))"

definition fetch_profile ::
  "'w sso_http \<Rightarrow> sso_config \<Rightarrow> string \<Rightarrow> 'w \<Rightarrow> (go_err + sso_profile) \<times> 'w" where
  "fetch_profile http cfg code w =
     (case sh_post http (token_endpoint cfg) (sso_form cfg code) w of
        (Inl e, w1) \<Rightarrow> (Inl (ErrWrap ''sso: token exchange: '' e), w1)
      | (Inr (status, body), w1) \<Rightarrow>
          if status \<noteq> 200 then (Inl (ErrText (''sso: token exchange failed: '' @ body)), w1)
          else (case read_token body of
             None \<Rightarrow> (Inl (ErrWrap ''sso: parse token response: '' (ErrText ''invalid JSON'')), w1)
           | Some token \<Rightarrow>
               (case sh_get http (userinfo_endpoint cfg) token w1 of
                  (Inl e, w2) \<Rightarrow> (Inl (ErrWrap ''sso: userinfo: '' e), w2)
                | (Inr info, w2) \<Rightarrow>
                    (case read_profile info of
                       None \<Rightarrow> (Inl (ErrWrap ''sso: parse userinfo: '' (ErrText ''invalid JSON'')), w2)
                     | Some p \<Rightarrow> (Inr p, w2)))))"

definition authorization_target :: "sso_config \<Rightarrow> string \<Rightarrow> string \<times> (string \<times> string) list" where
  "authorization_target cfg state =
     (authorize_endpoint cfg,
      [(''client_id'', sc_client cfg), (''redirect_uri'', sc_redirect cfg), (''response_type'', ''code''),
       (''scope'', join '' '' (sc_scopes cfg)), (''state'', state)])"

text \<open>Where the browser is sent, with the parameters before their encoding.\<close>

definition get_authorization_url ::
  "'w auth_svc \<Rightarrow> uuid \<Rightarrow> string \<Rightarrow> string \<Rightarrow> ('w, string \<times> (string \<times> string) list) auth" where
  "get_authorization_url sv org provider state =
     and_then (with_prefix ''sso: get config: ''
         (sv_read sv ''GetSSO'' ''sso_repo: get by org and provider: '' (enabled_sso org provider)))
       (\<lambda>c. case c of
          None \<Rightarrow> fail_with (ErrText (''sso: no config found for provider '' @ quote provider))
        | Some cfg \<Rightarrow> ret_ok (authorization_target cfg state))"


definition exchange_code ::
  "'w auth_svc \<Rightarrow> 'w sso_http \<Rightarrow> uuid \<Rightarrow> string \<Rightarrow> string
     \<Rightarrow> ('w, user_row) auth" where
  "exchange_code sv http org provider code =
     and_then (outcome (sv_read sv ''GetSSO'' ''sso_repo: get by org and provider: '' (enabled_sso org provider)))
       (\<lambda>r. case r of
          Inr (Some cfg) \<Rightarrow> and_then (draw_or_fail (fetch_profile http cfg code)) (\<lambda>p.
            if sp_email p = [] then fail_with (ErrText ''sso: no email in userinfo'')
            else (case domain_refused (sc_domain cfg) (sp_email p) of
               Some e \<Rightarrow> fail_with e
             | None \<Rightarrow>
                 and_then (with_prefix ''sso: lookup user: ''
                     (sv_read sv ''FindByEmail'' ''finding user by email: '' (find_by_email (sp_email p))))
                   (\<lambda>found. case found of
                      Some u \<Rightarrow> ret_ok u
                    | None \<Rightarrow>
                        if \<not> sc_provision cfg
                        then fail_with (ErrText ''sso: user not found and auto-provisioning disabled'')
                        else and_then (draw (ae_uuid (av_env sv))) (\<lambda>i.
                          let u = \<lparr>us_id = i, us_email = sp_email p, us_password = [], us_name = sp_name p,
                                   us_avatar = None, us_role = sc_role cfg, us_org = Some org, us_google = None\<rparr>
                          in and_then (sv_stmt sv ''CreateUser'' ''sso: create user: '' (create_user u)) (\<lambda>_.
                            and_then (outcome (sv_read sv ''GetRoleByName'' [] (find_role_by_name org (sc_role cfg))))
                              (\<lambda>role. case role of
                                 Inr (Some q) \<Rightarrow> and_then (outcome (assign_role (av_env sv) org None i (rl_id q)))
                                   (\<lambda>_. ret_ok u)
                               | _ \<Rightarrow> ret_ok u))))))
        | _ \<Rightarrow> fail_with (ErrText ''sso: config not found''))"

section \<open>The handlers of single sign-on\<close>

definition valid_sso_request :: "(string \<Rightarrow> bool) \<Rightarrow> sso_request \<Rightarrow> bool" where
  "valid_sso_request is_url rq \<longleftrightarrow>
     so_provider rq \<in> {''azure_ad'', ''okta'', ''google''} \<and> so_client rq \<noteq> [] \<and> so_secret rq \<noteq> []
     \<and> so_issuer rq \<noteq> [] \<and> is_url (so_issuer rq) \<and> so_redirect rq \<noteq> [] \<and> is_url (so_redirect rq)
     \<and> (so_role rq = [] \<or> so_role rq \<in> {''admin'', ''operator'', ''viewer'', ''finance''})"

definition create_sso_h ::
  "'w auth_svc \<Rightarrow> (string \<Rightarrow> bool) \<Rightarrow> http_ctx \<Rightarrow> sso_request \<Rightarrow> ('w, sso_config) handler" where
  "create_sso_h sv is_url cx rq =
     parsed (av_env sv) 400 bad_org (hc_org cx) (\<lambda>org.
       if \<not> valid_sso_request is_url rq then refuse 400 ''validation failed''
       else answer (\<lambda>e. (500, ''failed to create SSO config: '' @ err_text e)) (create_sso_config sv org rq))"

definition delete_sso_h :: "'w auth_svc \<Rightarrow> string \<Rightarrow> ('w, unit) handler" where
  "delete_sso_h sv i =
     parsed (av_env sv) 400 ''invalid config ID'' i
       (\<lambda>c. answer (\<lambda>e. (500, ''failed to delete SSO config'')) (delete_sso_config sv c))"

definition sso_callback_h ::
  "'w auth_svc \<Rightarrow> 'w sso_http \<Rightarrow> http_ctx \<Rightarrow> string \<Rightarrow> string
     \<Rightarrow> string \<Rightarrow> ('w, user_row \<times> string) handler" where
  "sso_callback_h sv http cx provider code state =
     parsed (av_env sv) 400 bad_org (hc_org cx) (\<lambda>org.
       if code = [] \<or> state = [] then refuse 400 ''validation failed''
       else if provider = [] then refuse 400 ''provider query param required''
       else (\<lambda>s. case answer (\<lambda>e. (401, err_text e)) (exchange_code sv http org provider code) s of
               (Inl r, s') \<Rightarrow> (Inl r, s')
             | (Inr u, s') \<Rightarrow> answer (\<lambda>e. (500, ''failed to generate token''))
                 (and_then (generate_access_token (av_jwt sv) (us_id u) (us_email u) (us_org u) (us_role u))
                   (\<lambda>t. ret_ok (u, t))) s'))"

end
