(* ===== verification/AuthProps.thy ===== *)
theory AuthProps
  imports AuthSignIn
begin

text \<open>
  What holds over the life of accounts and sessions. The locale \<open>auth_tables\<close> states what the statements
  keep of an invariant of the tables; its lemmas carry that through every operation. It is interpreted
  with the well-formedness of the session tables and with the credentials of one user. \<open>auth_reach\<close>
  holds what any sequence of operations leads to.
\<close>

section \<open>Invariants\<close>

definition device_owners :: "auth_db \<Rightarrow> (uuid \<times> uuid) list" where
  "device_owners db = map (\<lambda>v. (dv_id v, dv_user v)) (ad_devices db)"

definition owned :: "uuid \<Rightarrow> uuid option \<Rightarrow> auth_db \<Rightarrow> bool" where
  "owned u d db \<longleftrightarrow> (\<forall>i \<in> set_option d. (i, u) \<in> set (device_owners db))"

definition same_sessions :: "auth_db \<Rightarrow> auth_db \<Rightarrow> bool" where
  "same_sessions db db' \<longleftrightarrow>
     ad_users db' = ad_users db \<and> ad_tokens db' = ad_tokens db \<and> ad_devices db' = ad_devices db"

definition map_devices :: "(device_row \<Rightarrow> device_row) \<Rightarrow> auth_db \<Rightarrow> auth_db" where
  "map_devices g db = db\<lparr>ad_devices := map g (ad_devices db)\<rparr>"

definition keeps :: "(auth_db \<Rightarrow> bool) \<Rightarrow> ('w, 'a) auth \<Rightarrow> bool" where
  "keeps I m \<longleftrightarrow> (\<forall>s. I (fst s) \<longrightarrow> I (fst (snd (m s))))"

named_theorems keeps_rules \<open>how an operation is put together from ones that keep the invariant\<close>

lemma keepsD: "keeps I m \<Longrightarrow> m s = (r, s') \<Longrightarrow> I (fst s) \<Longrightarrow> I (fst s')"
  unfolding keeps_def by (metis fst_conv snd_conv)

lemma keeps_ret [keeps_rules]: "keeps I (ret_ok a)" by (simp add: keeps_def ret_ok_def)

lemma keeps_fail [keeps_rules]: "keeps I (fail_with e)" by (simp add: keeps_def fail_with_def)

lemma keeps_and_then [keeps_rules]:
  fixes m :: "('w, 'b) auth" and k :: "'b \<Rightarrow> ('w, 'c) auth"
  assumes m: "keeps I m" and k: "\<And>a. keeps I (k a)"
  shows "keeps I (and_then m k)"
proof -
  have "I (fst (snd (and_then m k s)))" if "I (fst s)" for s
  proof -
    obtain r s' where r: "m s = (r, s')" by (metis surj_pair)
    have s': "I (fst s')" by (rule keepsD [OF m r that])
    show ?thesis
    proof (cases r)
      case (Inr a)
      obtain q t where q: "k a s' = (q, t)" by (metis surj_pair)
      show ?thesis using keepsD [OF k q s'] by (simp add: and_then_def r Inr q)
    qed (simp add: and_then_def r s')
  qed
  then show ?thesis by (simp add: keeps_def)
qed

lemma keeps_prefix [keeps_rules]: "keeps I m \<Longrightarrow> keeps I (with_prefix p m)"
  unfolding with_prefix_def
  by (subst keeps_def) (auto split: prod.split sum.split dest: keepsD)

lemma keeps_outcome [keeps_rules]: "keeps I m \<Longrightarrow> keeps I (outcome m)"
  by (simp add: keeps_def outcome_def)

lemma keeps_draw [keeps_rules]: "keeps I (draw f)" "keeps I (draw_or_fail g)"
  by (simp_all add: keeps_def draw_def draw_or_fail_def split: prod.split)

lemma keeps_stmt:
  "(\<And>a db db'. I db \<Longrightarrow> f db = Inr (a, db') \<Longrightarrow> I db') \<Longrightarrow> keeps I (db_stmt fault p f)"
  unfolding keeps_def db_stmt_def by (auto split: prod.split option.split sum.split)

lemma keeps_read [keeps_rules]: "keeps I (db_read fault p f)"
  unfolding db_read_def by (rule keeps_stmt) auto

lemma keeps_write: "(\<And>db. I db \<Longrightarrow> I (f db)) \<Longrightarrow> keeps I (db_write fault p f)"
  unfolding db_write_def by (rule keeps_stmt) auto

lemma keeps_if [keeps_rules]: "keeps I m \<Longrightarrow> keeps I n \<Longrightarrow> keeps I (if b then m else n)" by simp

lemma keeps_option_case [keeps_rules]:
  "keeps I m \<Longrightarrow> (\<And>x. keeps I (k x)) \<Longrightarrow> keeps I (case v of None \<Rightarrow> m | Some x \<Rightarrow> k x)"
  by (cases v) auto

lemma keeps_sum_case [keeps_rules]:
  "(\<And>e. keeps I (j e)) \<Longrightarrow> (\<And>x. keeps I (k x)) \<Longrightarrow> keeps I (case v of Inl e \<Rightarrow> j e | Inr x \<Rightarrow> k x)"
  by (cases v) auto

lemma keeps_pair_case [keeps_rules]: "(\<And>x y. keeps I (k x y)) \<Longrightarrow> keeps I (case v of (x, y) \<Rightarrow> k x y)"
  by (cases v) auto

lemma keeps_bool [keeps_rules]: "keeps I m \<Longrightarrow> keeps I n \<Longrightarrow> keeps I (case b of True \<Rightarrow> m | False \<Rightarrow> n)"
  by (cases b) auto

lemma keeps_let [keeps_rules]: "(\<And>x. keeps I (k x)) \<Longrightarrow> keeps I (let x = v in k x)"
  by (simp add: Let_def)

lemma device_owners_map:
  "(\<And>d. dv_id (g d) = dv_id d \<and> dv_user (g d) = dv_user d) \<Longrightarrow> device_owners (map_devices g db) = device_owners db"
  by (simp add: device_owners_def map_devices_def)

lemma device_owners_change:
  "(\<And>d. dv_id (f d) = dv_id d \<and> dv_user (f d) = dv_user d) \<Longrightarrow> device_owners (change_device i u f db) = device_owners db"
  by (simp add: device_owners_def change_device_def)

text \<open>What is known of a device when its tokens are stored.\<close>

lemma resolve_device_owned:
  assumes "resolve_device sv u info s = (Inr d, s')"
  shows "owned u d (fst s')"
proof -
  have "touch_device_row e now db = Inr (x, db') \<Longrightarrow> owned (dv_user e) (Some (dv_id e)) db'" for e now db x db'
  proof -
    assume t: "touch_device_row e now db = Inr (x, db')"
    then obtain d where "find_device (dv_id e) (dv_user e) db = Some d"
      by (auto simp: touch_device_row_def split: if_splits)
    then have "(dv_id e, dv_user e) \<in> set (device_owners db)"
      by (auto simp: find_device_def find_Some_iff device_owners_def image_iff dest!: nth_mem)
        (metis nth_mem)
    then show ?thesis using t by (auto simp: touch_device_row_def owned_def device_owners_change split: if_splits)
  qed
  moreover have "create_device e db = Inr (x, db') \<Longrightarrow> owned (dv_user e) (Some (dv_id e)) db'" for e db x db'
    by (auto simp: create_device_def owned_def device_owners_def split: if_splits)
  ultimately show ?thesis
    using assms
    by (fastforce simp: resolve_device_def Let_def op_ok sv_stmt_def sv_read_def owned_def [of u None]
        split: option.splits if_splits)
qed

definition keeps_from :: "(auth_db \<Rightarrow> bool) \<Rightarrow> (auth_db \<Rightarrow> bool) \<Rightarrow> ('w, 'a) auth \<Rightarrow> bool" where
  "keeps_from I P m \<longleftrightarrow> (\<forall>s. I (fst s) \<and> P (fst s) \<longrightarrow> I (fst (snd (m s))))"

lemma keeps_fromD: "keeps_from I P m \<Longrightarrow> m s = (r, s') \<Longrightarrow> I (fst s) \<Longrightarrow> P (fst s) \<Longrightarrow> I (fst s')"
  unfolding keeps_from_def by (metis fst_conv snd_conv)

lemma keeps_from_keeps: "keeps I m \<Longrightarrow> keeps_from I P m"
  by (simp add: keeps_def keeps_from_def)

lemma keeps_from_then:
  fixes m :: "('w, 'b) auth" and k :: "'b \<Rightarrow> ('w, 'c) auth"
  assumes m: "keeps I m" "keeps P m" and k: "\<And>a s s'. m s = (Inr a, s') \<Longrightarrow> keeps_from I P (k a)"
  shows "keeps_from I P (and_then m k)"
proof -
  have "I (fst (snd (and_then m k s)))" if "I (fst s)" "P (fst s)" for s
  proof -
    obtain r s' where r: "m s = (r, s')" by (metis surj_pair)
    have s': "I (fst s')" "P (fst s')" using keepsD [OF m(1) r that(1)] keepsD [OF m(2) r that(2)] .
    show ?thesis
    proof (cases r)
      case (Inr a)
      obtain q t where q: "k a s' = (q, t)" by (metis surj_pair)
      show ?thesis using keeps_fromD [OF k [OF r [unfolded Inr]] q s'] by (simp add: and_then_def r Inr q)
    qed (simp add: and_then_def r s')
  qed
  then show ?thesis by (simp add: keeps_from_def)
qed

lemma keeps_from_last: "keeps_from I P m \<Longrightarrow> (\<And>a. keeps I (k a)) \<Longrightarrow> keeps_from I P (and_then m k)"
  unfolding keeps_from_def and_then_def
  by (auto split: prod.split sum.split simp: keeps_def) (metis fst_conv snd_conv)+

lemma keeps_from_pair: "(\<And>x y. keeps_from I P (k x y)) \<Longrightarrow> keeps_from I P (case v of (x, y) \<Rightarrow> k x y)"
  by (cases v) auto

lemma keeps_from_option:
  "keeps_from I P m \<Longrightarrow> (\<And>x. v = Some x \<Longrightarrow> keeps_from I P (k x)) \<Longrightarrow> keeps_from I P (case v of None \<Rightarrow> m | Some x \<Rightarrow> k x)"
  by (cases v) auto

lemma device_owners_tokens [simp]:
  "device_owners (drop_tokens q db) = device_owners db" "device_owners (delete_token i db) = device_owners db"
  by (simp_all add: device_owners_def drop_tokens_def delete_token_def)

lemma keeps_owned [keeps_rules]:
  "keeps (owned u d) (db_write fault p (delete_token i))"
  "keeps (owned u d) (db_stmt fault p (touch_device_row e now))"
  by (auto intro!: keeps_write keeps_stmt simp: touch_device_row_def owned_def device_owners_change split: if_splits)

lemma keeps_generate [keeps_rules]:
  "keeps I (generate_access_token jv user email org role)" "keeps I (generate_refresh_token jv)"
  unfolding generate_access_token_def generate_refresh_token_def by (intro keeps_rules)+

locale auth_tables =
  fixes I :: "auth_db \<Rightarrow> bool"
  assumes frame: "I db \<Longrightarrow> same_sessions db db' \<Longrightarrow> I db'"
    and new_user: "I db \<Longrightarrow> create_user u db = Inr ((), db') \<Longrightarrow> I db'"
    and user_changed: "I db \<Longrightarrow> (\<And>u. us_id (f u) = us_id u \<and> us_email (f u) = us_email u \<and> us_password (f u) = us_password u)
      \<Longrightarrow> I (change_user i f db)"
    and token_saved: "I db \<Longrightarrow> owned (tk_user t) (tk_device t) db \<Longrightarrow> save_token t db = Inr ((), db') \<Longrightarrow> I db'"
    and token_owned: "I db \<Longrightarrow> find_token h db = Some t \<Longrightarrow> owned (tk_user t) (tk_device t) db"
    and tokens_dropped: "I db \<Longrightarrow> I (drop_tokens p db)"
    and new_device: "I db \<Longrightarrow> create_device d db = Inr ((), db') \<Longrightarrow> I db'"
    and devices_changed: "I db \<Longrightarrow> (\<And>d. dv_id (g d) = dv_id d \<and> dv_user (g d) = dv_user d) \<Longrightarrow> I (map_devices g db)"
    and devices_dropped: "I db \<Longrightarrow> I (drop_devices q db)"
begin

lemma keeps_frame: "(\<And>a db db'. f db = Inr (a, db') \<Longrightarrow> same_sessions db db') \<Longrightarrow> keeps I (db_stmt fault p f)"
  by (rule keeps_stmt) (blast intro: frame)

lemma device_changed:
  "I db \<Longrightarrow> (\<And>d. dv_id (f d) = dv_id d \<and> dv_user (f d) = dv_user d) \<Longrightarrow> I (change_device i u f db)"
  using devices_changed [of db "\<lambda>d. if dv_id d = i \<and> dv_user d = u then f d else d"]
  by (simp add: change_device_def map_devices_def)

lemma push_released: "I db \<Longrightarrow> I (release_push t i db)"
  using devices_changed [of db "\<lambda>d. if dv_push d = Some t \<and> dv_id d \<noteq> i
       then d\<lparr>dv_push := None, dv_push_env := None\<rparr> else d"]
  by (simp add: release_push_def map_devices_def)

lemma keeps_touch [keeps_rules]: "keeps I (db_stmt fault p (touch_device_row e now))"
  by (rule keeps_stmt) (auto simp: touch_device_row_def intro!: device_changed split: if_splits)

lemma keeps_new_device [keeps_rules]: "keeps I (db_stmt fault p (create_device d))"
  by (rule keeps_stmt) (auto intro: new_device)

lemma keeps_new_user [keeps_rules]: "keeps I (db_stmt fault p (create_user u))"
  by (rule keeps_stmt) (auto intro: new_user)

lemma keeps_profile [keeps_rules]: "keeps I (db_stmt fault p (update_user_profile v))"
  by (rule keeps_stmt) (auto simp: update_user_profile_def intro!: user_changed split: if_splits)

lemma keeps_link_google [keeps_rules]: "keeps I (db_stmt fault p (link_google i sub avatar))"
  by (rule keeps_stmt) (auto simp: link_google_def intro!: user_changed split: if_splits)

lemma keeps_push [keeps_rules]: "keeps I (db_stmt fault p (\<lambda>db. Inr (set_push_row i u t e now db)))"
  by (rule keeps_stmt) (auto simp: set_push_row_def Let_def intro!: device_changed push_released split: if_splits)

lemma keeps_device_row [keeps_rules]: "keeps I (db_stmt fault p (\<lambda>db. Inr (delete_device_row i u db)))"
  by (rule keeps_stmt) (auto simp: delete_device_row_def intro!: devices_dropped)

lemma keeps_deletions [keeps_rules]:
  "keeps I (db_write fault p (delete_token i))" "keeps I (db_write fault p (delete_user_tokens u))"
  "keeps I (db_write fault p (delete_user_devices u))"
  unfolding delete_token_def delete_user_tokens_def delete_user_devices_def
  by (auto intro!: keeps_write tokens_dropped devices_dropped)

lemma keeps_others [keeps_rules]:
  "keeps I (db_stmt fault p (create_org g))" "keeps I (db_stmt fault p (put_state st))"
  "keeps I (db_stmt fault p (\<lambda>db. Inr (take_state x db)))" "keeps I (db_stmt fault p (put_ticket t))"
  "keeps I (db_stmt fault p (\<lambda>db. Inr (take_ticket x db)))"
  "keeps I (db_stmt fault p (link_identity pr sub u em))" "keeps I (db_stmt fault p (ensure_role r))"
  "keeps I (db_stmt fault p (create_role_row r))" "keeps I (db_stmt fault p (assign_role_row gr))"
  "keeps I (db_stmt fault p (create_key_row k))" "keeps I (db_stmt fault p (upsert_sso c))"
  "keeps I (db_stmt fault p (\<lambda>db. Inr (revoke_key_row org i now db)))"
  by (auto intro!: keeps_frame simp: create_org_def put_state_def take_state_def put_ticket_def take_ticket_def
      link_identity_def ensure_role_def create_role_row_def assign_role_row_def create_key_row_def upsert_sso_def
      revoke_key_row_def same_sessions_def Let_def split: if_splits option.splits)

lemma keeps_other_writes [keeps_rules]:
  "keeps I (db_write fault p (delete_role_row i))" "keeps I (db_write fault p (remove_role_row u i org))"
  "keeps I (db_write fault p (stamp_key i now))" "keeps I (db_write fault p (delete_sso i))"
  unfolding db_write_def
  by (auto intro!: keeps_frame simp: delete_role_row_def remove_role_row_def stamp_key_def delete_sso_def
      same_sessions_def Let_def)

lemma keeps_save: "keeps_from I (owned (tk_user t) (tk_device t)) (db_stmt fault p (save_token t))"
  unfolding keeps_from_def db_stmt_def
  by (auto split: prod.split option.split sum.split intro: token_saved)

lemma keeps_issue:
  assumes "us_id u = i"
  shows "keeps_from I (owned i d) (issue_tokens sv u d)"
proof -
  have "keeps_from I (owned i d) (db_stmt fault p (save_token
      \<lparr>tk_id = t, tk_user = us_id u, tk_hash = h, tk_expires = e, tk_device = d\<rparr>))" for fault p t h e
    using keeps_save [of "\<lparr>tk_id = t, tk_user = us_id u, tk_hash = h, tk_expires = e, tk_device = d\<rparr>"] assms by simp
  then have save: "keeps_from I (owned i d) (and_then (sv_stmt sv what p (save_token
      \<lparr>tk_id = t, tk_user = us_id u, tk_hash = h, tk_expires = e, tk_device = d\<rparr>)) (\<lambda>_. ret_ok r))" for what p t h e r
    unfolding sv_stmt_def by (rule keeps_from_last) (rule keeps_ret)
  show ?thesis
    unfolding issue_tokens_def
    by (rule keeps_from_then, (intro keeps_rules)+, rule keeps_from_then, (intro keeps_rules)+,
        intro keeps_from_pair, rule keeps_from_then, (intro keeps_rules)+, rule save)
qed

lemma keeps_issue_unbound [keeps_rules]: "keeps I (issue_tokens sv u None)"
  using keeps_issue [OF refl, of u None sv] by (simp add: keeps_def keeps_from_def owned_def)

lemma keeps_resolve [keeps_rules]: "keeps I (resolve_device sv u info)"
  unfolding resolve_device_def sv_read_def sv_stmt_def by (intro keeps_rules)

lemma keeps_response [keeps_rules]: "keeps I (auth_response_for_device sv u info)"
proof -
  have "I (fst (snd (auth_response_for_device sv u info s)))" if "I (fst s)" for s
  proof -
    obtain r s' where r: "resolve_device sv (us_id u) info s = (r, s')" by (metis surj_pair)
    have s': "I (fst s')" by (rule keepsD [OF keeps_resolve r that])
    define d where "d = (case r of Inl e \<Rightarrow> None | Inr device \<Rightarrow> device)"
    have "owned (us_id u) d (fst s')"
      using resolve_device_owned [of sv "us_id u" info s] r by (auto simp: d_def owned_def split: sum.split)
    moreover obtain q t where q: "issue_tokens sv u d s' = (q, t)" by (metis surj_pair)
    ultimately have "I (fst t)" using keeps_fromD [OF keeps_issue [OF refl] q s'] by blast
    then show ?thesis
      by (simp add: auth_response_for_device_def and_then_def outcome_def r d_def [symmetric] q)
  qed
  then show ?thesis by (simp add: keeps_def)
qed

lemma keeps_touch_device [keeps_rules]: "keeps I (touch_device sv u d)"
  unfolding touch_device_def sv_read_def sv_stmt_def by (intro keeps_rules)

lemma keeps_rotate:
  "keeps_from I (owned (tk_user t) (tk_device t)) (refresh_rotate sv t)"
proof -
  let ?P = "owned (tk_user t) (tk_device t)"
  have touch: "keeps ?P (touch_device sv u d)" for u d
    unfolding touch_device_def sv_read_def sv_stmt_def by (intro keeps_rules)
  have issue: "keeps_from I ?P (and_then (case tk_device t of None \<Rightarrow> ret_ok () | Some d \<Rightarrow> touch_device sv (us_id u) d)
      (\<lambda>_. issue_tokens sv u (tk_device t)))" if "us_id u = tk_user t" for u
    by (rule keeps_from_then, (intro keeps_option_case keeps_ret keeps_touch_device), (intro keeps_option_case keeps_ret touch))
      (rule keeps_issue [OF that])
  have found: "us_id u = tk_user t" if "with_prefix p (sv_read sv w q (find_user (tk_user t))) s = (Inr (Some u), s')"
    for p w q s s' and u :: user_row
    using that by (auto simp: sv_read_def op_ok find_user_def user_with_def find_Some_iff dest!: sym [of "Some u"])
  show ?thesis
    unfolding refresh_rotate_def
    apply (rule keeps_from_then, (intro keeps_rules)+)
    subgoal for now
      apply (cases "now > tk_expires t"; simp)
       apply (rule keeps_from_keeps, unfold sv_write_def, intro keeps_rules)
      apply (rule keeps_from_then, (intro keeps_rules)+)
      apply (rule keeps_from_then)
        apply (unfold sv_read_def, (intro keeps_rules)+)
      apply (rule keeps_from_option, intro keeps_from_keeps keeps_rules)
      apply (rule issue, rule found [unfolded sv_read_def], simp)
      done
    done
qed

lemma keeps_refresh [keeps_rules]: "keeps I (refresh_tokens sv token)"
proof -
  have "I (fst (snd (refresh_tokens sv token s)))" if "I (fst s)" for s
  proof -
    obtain r s' where r: "refresh_lookup sv token s = (r, s')" by (metis surj_pair)
    have "keeps I (refresh_lookup sv token)" unfolding refresh_lookup_def sv_read_def by (intro keeps_rules)
    from keepsD [OF this r that] have s': "I (fst s')" .
    show ?thesis
    proof (cases r)
      case (Inr t)
      then have "find_token (hash_token (av_jwt sv) token) (fst s') = Some t"
        using r by (auto simp: refresh_lookup_def sv_read_def op_ok split: option.splits)
      from token_owned [OF s' this] have o: "owned (tk_user t) (tk_device t) (fst s')" .
      obtain q u where q: "refresh_rotate sv t s' = (q, u)" by (metis surj_pair)
      from keeps_fromD [OF keeps_rotate q s' o] show ?thesis by (simp add: refresh_tokens_def and_then_def r Inr q)
    qed (simp add: refresh_tokens_def and_then_def r s')
  qed
  then show ?thesis by (simp add: keeps_def)
qed

lemma keeps_ensure [keeps_rules]: "keeps I (ensure_roles env org rs)"
  by (induction rs) (auto simp: split_paired_all intro!: keeps_rules)

lemma keeps_new_owner [keeps_rules]: "keeps I (new_owner sv org mk)"
  unfolding new_owner_def seed_owner_role_def seed_builtin_agents_def ensure_system_roles_def assign_role_def
    sv_stmt_def sv_read_def
  by (intro keeps_rules)

lemma keeps_register [keeps_rules]: "keeps I (register sv rq)"
  unfolding register_def sv_read_def by (intro keeps_rules)

lemma keeps_login [keeps_rules]: "keeps I (login sv email password device)"
  unfolding login_def sv_read_def by (intro keeps_rules)

lemma keeps_me [keeps_rules]: "keeps I (get_me sv i)" "keeps I (update_profile sv i name avatar)"
  unfolding get_me_def update_profile_def sv_read_def sv_stmt_def by (intro keeps_rules)+

lemma keeps_slug [keeps_rules]: "keeps I (free_slug sv base n slug)"
  by (induction n arbitrary: slug) (auto simp: sv_read_def intro!: keeps_rules)

lemma keeps_external [keeps_rules]: "keeps I (register_external_user sv email full org avatar sub)"
  unfolding register_external_user_def unique_org_slug_def by (intro keeps_rules)

lemma keeps_google [keeps_rules]:
  "keeps I (start_google sv intent org native)" "keeps I (abandon_google sv state)"
  "keeps I (user_from_google sv p org)" "keeps I (exchange_google_ticket sv ticket device)"
  unfolding start_google_def abandon_google_def user_from_google_def exchange_google_ticket_def put_oauth_state_def
    consume_state_def consume_ticket_def maybe_refresh_profile_def sv_read_def sv_stmt_def
  by (intro keeps_rules)+

lemma keeps_complete [keeps_rules]: "keeps I (complete_google sv state code)"
  unfolding complete_google_def consume_state_def sv_stmt_def by (intro keeps_rules)

lemma keeps_devices [keeps_rules]:
  "keeps I (logout sv token)" "keeps I (logout_all sv user)" "keeps I (revoke_device sv user device)"
  "keeps I (set_device_push sv user device token penv)"
  unfolding logout_def logout_all_def revoke_device_def set_device_push_def sv_read_def sv_stmt_def sv_write_def
  by (intro keeps_rules)+

lemma keeps_apple [keeps_rules]: "keeps I (apple_nonce sv)" "keeps I (sign_in_with_apple sv rq')"
  unfolding apple_nonce_def sign_in_with_apple_def user_from_apple_def consume_state_def put_oauth_state_def
    sv_read_def sv_stmt_def
  by (intro keeps_rules)+

lemma keeps_sso [keeps_rules]:
  "keeps I (create_sso_config sv org srq)" "keeps I (delete_sso_config sv i)"
  "keeps I (exchange_code sv http org provider code)"
  unfolding create_sso_config_def delete_sso_config_def exchange_code_def assign_role_def sv_read_def sv_stmt_def
    sv_write_def
  by (intro keeps_rules)+

lemma keeps_access [keeps_rules]:
  "keeps I (create_role env org rrq)" "keeps I (delete_role env i)" "keeps I (assign_role env org by' user role)"
  "keeps I (remove_role env user role org)" "keeps I (create_key env org user krq)"
  "keeps I (revoke_key env org i)" "keeps I (authenticate_key env raw)"
  unfolding create_role_def delete_role_def assign_role_def remove_role_def create_key_def revoke_key_def
    authenticate_key_def generate_key_def
  by (intro keeps_rules)+

end

end
