(* ===== verification/AuthSessions.thy ===== *)
theory AuthSessions
  imports AuthProps
begin

text \<open>
  The interpretations of \<open>auth_tables\<close> and what they give: sessions over any sequence of operations, what
  ends a session, what two requests with one refresh token do, and whose accounts the ways of signing in
  lead to.
\<close>

section \<open>Well-formed sessions\<close>

definition sessions_wf :: "auth_db \<Rightarrow> bool" where
  "sessions_wf db \<longleftrightarrow>
     distinct (map us_id (ad_users db)) \<and> distinct (map us_email (ad_users db))
     \<and> (\<forall>d \<in> set (ad_devices db). user_exists (dv_user d) db)
     \<and> distinct (map tk_id (ad_tokens db)) \<and> distinct (map tk_hash (ad_tokens db))
     \<and> (\<forall>t \<in> set (ad_tokens db). user_exists (tk_user t) db \<and> owned (tk_user t) (tk_device t) db)"

lemma same_user_columns:
  assumes "\<And>u. us_id (f u) = us_id u \<and> us_email (f u) = us_email u \<and> us_password (f u) = us_password u"
  shows "map us_id (ad_users (change_user i f db)) = map us_id (ad_users db)"
    "map us_email (ad_users (change_user i f db)) = map us_email (ad_users db)"
    "map us_password (ad_users (change_user i f db)) = map us_password (ad_users db)"
    "user_exists j (change_user i f db) = user_exists j db"
    "ad_tokens (change_user i f db) = ad_tokens db" "ad_devices (change_user i f db) = ad_devices db"
    "owned k d (change_user i f db) = owned k d db"
proof -
  have m: "map us_id (ad_users (change_user i f db)) = map us_id (ad_users db)"
    using assms by (simp add: change_user_def)
  show "map us_id (ad_users (change_user i f db)) = map us_id (ad_users db)" by (rule m)
  show "user_exists j (change_user i f db) = user_exists j db"
    using arg_cong [OF m, of set] by (simp add: user_exists_def)
qed (use assms in \<open>simp_all add: change_user_def owned_def device_owners_def\<close>)

lemma owned_drop:
  assumes "owned u (tk_device t) db" and "\<not> (\<exists>d \<in> set (ad_devices db). q d \<and> tk_device t = Some (dv_id d))"
  shows "owned u (tk_device t) (drop_devices q db)"
  using assms by (force simp: owned_def device_owners_def drop_devices_def drop_tokens_def)

interpretation sessions: auth_tables sessions_wf
proof (unfold_locales, goal_cases)
  case (1 db db')
  then show ?case by (simp add: same_sessions_def sessions_wf_def user_exists_def owned_def device_owners_def)
next
  case (2 db u db')
  then show ?case
    by (auto simp: create_user_def sessions_wf_def user_exists_def owned_def device_owners_def split: if_splits)
next
  case (3 db f i)
  then show ?case by (simp add: sessions_wf_def same_user_columns [OF 3(2)])
next
  case (4 db t db')
  then show ?case
    by (auto simp: save_token_def sessions_wf_def user_exists_def owned_def device_owners_def split: if_splits)
next
  case (5 db h t)
  then show ?case by (auto simp: sessions_wf_def find_token_def find_Some_iff)
next
  case (6 db p)
  then show ?case
    by (auto simp: sessions_wf_def drop_tokens_def user_exists_def owned_def device_owners_def distinct_map_filter)
next
  case (7 db d db')
  then show ?case
    by (auto simp: create_device_def sessions_wf_def user_exists_def owned_def device_owners_def split: if_splits)
next
  case (8 db g)
  then show ?case
    using device_owners_map [of g db]
    by (auto simp: sessions_wf_def map_devices_def user_exists_def owned_def)
next
  case (9 db q)
  then have "\<forall>t \<in> set (ad_tokens (drop_devices q db)). owned (tk_user t) (tk_device t) (drop_devices q db)"
    by (auto intro!: owned_drop simp: sessions_wf_def) (auto simp: drop_devices_def drop_tokens_def)
  with 9 show ?case
    by (auto simp: sessions_wf_def drop_devices_def drop_tokens_def user_exists_def distinct_map_filter)
qed

section \<open>Any sequence of operations\<close>

text \<open>Each operation is taken as a whole; between two of them the world outside the tables may change.\<close>

inductive auth_reach :: "'w auth_svc \<Rightarrow> 'w auth_world \<Rightarrow> 'w auth_world \<Rightarrow> bool" for sv s0 where
  here: "auth_reach sv s0 s0"
| outside: "auth_reach sv s0 (db, w) \<Longrightarrow> auth_reach sv s0 (db, w')"
| registers: "auth_reach sv s0 s \<Longrightarrow> auth_reach sv s0 (snd (register sv rq s))"
| logs_in: "auth_reach sv s0 s \<Longrightarrow> auth_reach sv s0 (snd (login sv email password device s))"
| refreshes: "auth_reach sv s0 s \<Longrightarrow> auth_reach sv s0 (snd (refresh_tokens sv token s))"
| changes_profile: "auth_reach sv s0 s \<Longrightarrow> auth_reach sv s0 (snd (update_profile sv i name avatar s))"
| starts_google: "auth_reach sv s0 s \<Longrightarrow> auth_reach sv s0 (snd (start_google sv intent org native s))"
| abandons_google: "auth_reach sv s0 s \<Longrightarrow> auth_reach sv s0 (snd (abandon_google sv state s))"
| completes_google: "auth_reach sv s0 s \<Longrightarrow> auth_reach sv s0 (snd (complete_google sv state code s))"
| exchanges_ticket: "auth_reach sv s0 s \<Longrightarrow> auth_reach sv s0 (snd (exchange_google_ticket sv ticket device s))"
| logs_out: "auth_reach sv s0 s \<Longrightarrow> auth_reach sv s0 (snd (logout sv token s))"
| logs_out_all: "auth_reach sv s0 s \<Longrightarrow> auth_reach sv s0 (snd (logout_all sv user s))"
| revokes_device: "auth_reach sv s0 s \<Longrightarrow> auth_reach sv s0 (snd (revoke_device sv user dev s))"
| sets_push: "auth_reach sv s0 s \<Longrightarrow> auth_reach sv s0 (snd (set_device_push sv user dev token penv s))"
| asks_nonce: "auth_reach sv s0 s \<Longrightarrow> auth_reach sv s0 (snd (apple_nonce sv s))"
| signs_in_apple: "auth_reach sv s0 s \<Longrightarrow> auth_reach sv s0 (snd (sign_in_with_apple sv arq s))"
| configures_sso: "auth_reach sv s0 s \<Longrightarrow> auth_reach sv s0 (snd (create_sso_config sv org srq s))"
| deletes_sso: "auth_reach sv s0 s \<Longrightarrow> auth_reach sv s0 (snd (delete_sso_config sv i s))"
| signs_in_sso: "auth_reach sv s0 s \<Longrightarrow> auth_reach sv s0 (snd (exchange_code sv http org provider code s))"
| creates_role: "auth_reach sv s0 s \<Longrightarrow> auth_reach sv s0 (snd (create_role (av_env sv) org rrq s))"
| deletes_role: "auth_reach sv s0 s \<Longrightarrow> auth_reach sv s0 (snd (delete_role (av_env sv) i s))"
| assigns_role: "auth_reach sv s0 s \<Longrightarrow> auth_reach sv s0 (snd (assign_role (av_env sv) org granter user role s))"
| removes_role: "auth_reach sv s0 s \<Longrightarrow> auth_reach sv s0 (snd (remove_role (av_env sv) user role org s))"
| creates_key: "auth_reach sv s0 s \<Longrightarrow> auth_reach sv s0 (snd (create_key (av_env sv) org user krq s))"
| revokes_key: "auth_reach sv s0 s \<Longrightarrow> auth_reach sv s0 (snd (revoke_key (av_env sv) org i s))"
| uses_key: "auth_reach sv s0 s \<Longrightarrow> auth_reach sv s0 (snd (authenticate_key (av_env sv) raw s))"


lemma keeps_apply: "keeps I m \<Longrightarrow> I (fst s) \<Longrightarrow> I (fst (snd (m s)))"
  by (cases s) (simp add: keeps_def)

context auth_tables
begin

lemma reach_keeps: "auth_reach sv s0 s \<Longrightarrow> I (fst s0) \<Longrightarrow> I (fst s)"
  by (induction rule: auth_reach.induct) (auto intro!: keeps_apply keeps_rules)

end

text \<open>The e-mail address and the password of a user, over whatever happens.\<close>

definition logins :: "auth_db \<Rightarrow> (uuid \<times> string \<times> string) list" where
  "logins db = map (\<lambda>u. (us_id u, us_email u, us_password u)) (ad_users db)"

definition kept_credential :: "uuid \<Rightarrow> string \<Rightarrow> string \<Rightarrow> auth_db \<Rightarrow> bool" where
  "kept_credential i email h db \<longleftrightarrow> sessions_wf db \<and> (i, email, h) \<in> set (logins db)"

interpretation credential: auth_tables "kept_credential i email h" for i email h
proof (unfold_locales, goal_cases)
  case (1 db db')
  then show ?case using sessions.frame [of db db'] by (auto simp: kept_credential_def logins_def same_sessions_def)
next
  case (2 db u db')
  then show ?case using sessions.new_user [of db u db'] by (auto simp: kept_credential_def logins_def create_user_def split: if_splits)
next
  case (3 db f i')
  have "logins (change_user i' f db) = logins db"
    using 3(2) by (simp add: logins_def change_user_def)
  with 3 show ?case using sessions.user_changed [of db f i'] by (simp add: kept_credential_def)
next
  case (4 db t db')
  then show ?case using sessions.token_saved [of db t db'] by (auto simp: kept_credential_def logins_def save_token_def split: if_splits)
next
  case (5 db hh t)
  then show ?case using sessions.token_owned [of db hh t] by (simp add: kept_credential_def logins_def)
next
  case (6 db p)
  then show ?case using sessions.tokens_dropped [of db p] by (simp add: kept_credential_def logins_def drop_tokens_def)
next
  case (7 db d db')
  then show ?case using sessions.new_device [of db d db'] by (auto simp: kept_credential_def logins_def create_device_def split: if_splits)
next
  case (8 db g)
  then show ?case using sessions.devices_changed [of db g] by (simp add: kept_credential_def logins_def map_devices_def)
next
  case (9 db q)
  then show ?case using sessions.devices_dropped [of db q]
    by (simp add: kept_credential_def logins_def drop_devices_def drop_tokens_def)
qed

section \<open>What a refresh does\<close>

lemma generate_access_db: "generate_access_token jv user email org role s = (r, s') \<Longrightarrow> fst s' = fst s"
  by (auto simp: generate_access_token_def and_then_def draw_def ret_ok_def fail_with_def split: prod.splits sum.splits)

lemma generate_refresh_ok:
  "generate_refresh_token jv s = (Inr (plain, h, e), s') \<Longrightarrow> h = hash_token jv plain \<and> fst s' = fst s"
  by (auto simp: generate_refresh_token_def op_ok Let_def)

lemma issue_ok:
  assumes "issue_tokens sv u d s = (Inr r, s')"
  shows "ar_user r = u \<and> ar_device r = d
    \<and> (\<exists>t. tk_user t = us_id u \<and> tk_device t = d \<and> tk_hash t = hash_token (av_jwt sv) (ar_refresh r)
          \<and> save_token t (fst s) = Inr ((), fst s'))"
proof -
  obtain access s1 plain h e s2 i w where
      a: "generate_access_token (av_jwt sv) (us_id u) (us_email u) (us_org u) (us_role u) s = (Inr access, s1)"
    and g: "generate_refresh_token (av_jwt sv) s1 = (Inr (plain, h, e), s2)"
    and save: "save_token \<lparr>tk_id = i, tk_user = us_id u, tk_hash = h, tk_expires = e, tk_device = d\<rparr> (fst s2)
      = Inr ((), fst s')"
    and r: "r = \<lparr>ar_access = access, ar_refresh = plain, ar_user = u, ar_device = d\<rparr>"
    using assms by (auto simp: issue_tokens_def op_ok sv_stmt_def)
  show ?thesis using save generate_access_db [OF a] generate_refresh_ok [OF g]
    by (auto simp: r intro!: exI [of _ "\<lparr>tk_id = i, tk_user = us_id u, tk_hash = h, tk_expires = e, tk_device = d\<rparr>"])
qed

lemma touch_device_tokens: "touch_device sv u d s = (r, s') \<Longrightarrow> ad_tokens (fst s') = ad_tokens (fst s)"
proof -
  have "touch_device_row e now db = Inr ((), db') \<Longrightarrow> ad_tokens db' = ad_tokens db" for e now db db'
    by (auto simp: touch_device_row_def change_device_def split: if_splits)
  then have "keeps (\<lambda>db. ad_tokens db = ad_tokens (fst s)) (touch_device sv u d)"
    unfolding touch_device_def sv_read_def sv_stmt_def by (intro keeps_rules keeps_stmt) fastforce
  then show "touch_device sv u d s = (r, s') \<Longrightarrow> ad_tokens (fst s') = ad_tokens (fst s)"
    using keepsD by fastforce
qed

lemma lookup_ok:
  "refresh_lookup sv token s = (Inr t, s') \<longleftrightarrow>
     find_token (hash_token (av_jwt sv) token) (fst s) = Some t
     \<and> (\<exists>w. ae_fault (av_env sv) ''FindByHash'' (snd s) = (None, w) \<and> s' = (fst s, w))"
  by (auto simp: refresh_lookup_def sv_read_def op_ok split: option.splits)

lemma rotate_ok:
  assumes "refresh_rotate sv t s = (Inr r, s')"
  shows "us_id (ar_user r) = tk_user t \<and> ar_device r = tk_device t
    \<and> (\<exists>t' db. tk_user t' = tk_user t \<and> tk_device t' = tk_device t
          \<and> tk_hash t' = hash_token (av_jwt sv) (ar_refresh r)
          \<and> ad_tokens db = filter (\<lambda>x. tk_id x \<noteq> tk_id t) (ad_tokens (fst s))
          \<and> save_token t' db = Inr ((), fst s'))"
proof -
  obtain now s0 where now: "draw (ae_now (av_env sv)) s = (Inr now, s0)"
    and rest: "(if now > tk_expires t then
         and_then (outcome (sv_write sv ''DeleteToken'' ''deleting refresh token: '' (delete_token (tk_id t))))
           (\<lambda>_. fail_with (auth_error refresh_expired))
       else and_then (with_prefix ''deleting old refresh token: ''
           (sv_write sv ''DeleteToken'' ''deleting refresh token: '' (delete_token (tk_id t)))) (\<lambda>_.
         and_then (with_prefix ''finding user: ''
             (sv_read sv ''FindByID'' ''finding user by id: '' (find_user (tk_user t)))) (\<lambda>found. case found of
           None \<Rightarrow> fail_with (auth_error invalid_refresh)
         | Some u \<Rightarrow> and_then (case tk_device t of None \<Rightarrow> ret_ok () | Some d \<Rightarrow> touch_device sv (us_id u) d)
             (\<lambda>_. issue_tokens sv u (tk_device t))))) s0 = (Inr r, s')"
    using assms unfolding refresh_rotate_def and_then_ok by blast
  have "\<not> now > tk_expires t" using rest by (auto simp: and_then_ok fail_not_ok split: if_splits)
  with rest obtain s1 found s3 where
      s1: "sv_write sv ''DeleteToken'' ''deleting refresh token: '' (delete_token (tk_id t)) s0 = (Inr (), s1)"
    and found: "sv_read sv ''FindByID'' ''finding user by id: '' (find_user (tk_user t)) s1 = (Inr found, s3)"
    and more: "(case found of None \<Rightarrow> fail_with (auth_error invalid_refresh)
         | Some u \<Rightarrow> and_then (case tk_device t of None \<Rightarrow> ret_ok () | Some d \<Rightarrow> touch_device sv (us_id u) d)
             (\<lambda>_. issue_tokens sv u (tk_device t))) s3 = (Inr r, s')"
    by (auto simp: and_then_ok with_prefix_ok)
  obtain u where u: "found = Some u" using more by (cases found) (auto simp: fail_not_ok)
  obtain x s2 where touch: "(case tk_device t of None \<Rightarrow> ret_ok () | Some d \<Rightarrow> touch_device sv (us_id u) d) s3 = (Inr x, s2)"
    and issue: "issue_tokens sv u (tk_device t) s2 = (Inr r, s')"
    using more by (auto simp: u and_then_ok)
  have s3: "fst s3 = fst s1" "find_user (tk_user t) (fst s1) = Some u"
    using found u by (auto simp: sv_read_def op_ok)
  have "ad_tokens (fst s1) = filter (\<lambda>x. tk_id x \<noteq> tk_id t) (ad_tokens (fst s))"
    using s1 now by (auto simp: sv_write_def db_write_def op_ok delete_token_def drop_tokens_def)
  moreover have "ad_tokens (fst s2) = ad_tokens (fst s3)"
    using touch by (auto simp: ret_ok_def dest!: touch_device_tokens split: option.splits)
  ultimately have s2: "ad_tokens (fst s2) = filter (\<lambda>x. tk_id x \<noteq> tk_id t) (ad_tokens (fst s))"
    using s3 by simp
  have "us_id u = tk_user t" using s3 by (auto simp: find_user_def user_with_def find_Some_iff)
  with issue_ok [OF issue] s2 show ?thesis by auto
qed

lemma refresh_ok:
  assumes "refresh_tokens sv token s = (Inr r, s')"
  obtains t s1 where "find_token (hash_token (av_jwt sv) token) (fst s) = Some t" "fst s1 = fst s"
    "refresh_rotate sv t s1 = (Inr r, s')"
  using assms by (auto simp: refresh_tokens_def and_then_ok lookup_ok)

lemma find_token_saved:
  assumes "save_token t db = Inr ((), db')"
  shows "find_token h db' = (if find_token h db \<noteq> None then find_token h db else if tk_hash t = h then Some t else None)"
proof -
  have "List.find p (xs @ [t]) = (if List.find p xs \<noteq> None then List.find p xs else if p t then Some t else None)"
    for p :: "refresh_row \<Rightarrow> bool" and xs
    by (induction xs) auto
  then show ?thesis using assms by (auto simp: save_token_def find_token_def split: if_splits)
qed

text \<open>
  C17: a refresh token is spent by its refresh: the session goes on under the new token, for the same user
  and device, and the old token is found no more.
\<close>

theorem refresh_spends_token:
  assumes "refresh_tokens sv token s = (Inr r, s')" and "sessions_wf (fst s)"
    and "hash_token (av_jwt sv) (ar_refresh r) \<noteq> hash_token (av_jwt sv) token"
  shows "\<exists>t t'. find_token (hash_token (av_jwt sv) token) (fst s) = Some t
    \<and> us_id (ar_user r) = tk_user t \<and> ar_device r = tk_device t
    \<and> find_token (hash_token (av_jwt sv) (ar_refresh r)) (fst s') = Some t'
    \<and> tk_user t' = tk_user t \<and> tk_device t' = tk_device t
    \<and> find_token (hash_token (av_jwt sv) token) (fst s') = None"
proof -
  let ?h = "hash_token (av_jwt sv) token"
  obtain t s1 where t: "find_token ?h (fst s) = Some t" "fst s1 = fst s" and rot: "refresh_rotate sv t s1 = (Inr r, s')"
    by (rule refresh_ok [OF assms(1)])
  from rotate_ok [OF rot] obtain t' db where t': "tk_user t' = tk_user t" "tk_device t' = tk_device t"
      "tk_hash t' = hash_token (av_jwt sv) (ar_refresh r)" "us_id (ar_user r) = tk_user t" "ar_device r = tk_device t"
    and db: "ad_tokens db = filter (\<lambda>x. tk_id x \<noteq> tk_id t) (ad_tokens (fst s))"
    and save: "save_token t' db = Inr ((), fst s')"
    using t(2) by auto
  have "x = t" if "x \<in> set (ad_tokens (fst s))" "tk_hash x = ?h" for x
    using t(1) assms(2) that
    by (auto simp: sessions_wf_def find_token_def find_Some_iff distinct_map inj_on_def)
  then have gone: "find_token ?h db = None" using db by (auto simp: find_token_def find_None_iff)
  have new: "find_token (tk_hash t') db = None"
    using save by (auto simp: save_token_def find_token_def find_None_iff split: if_splits) (metis image_eqI)
  show ?thesis
    using t t' gone new assms(3) find_token_saved [OF save] by auto
qed

text \<open>
  A rotation does not notice that another request redeemed the token after this one looked it up: it
  answers as if the token were still there, so one refresh token sent twice at a time gives two sessions.
\<close>

lemma rotation_ignores_redemption:
  "fst (refresh_rotate sv t (delete_token (tk_id t) db, w)) = fst (refresh_rotate sv t (db, w))"
proof -
  have again: "delete_token i (delete_token i db) = delete_token i db" for i
    by (simp add: delete_token_def drop_tokens_def)
  obtain now w1 where n: "ae_now (av_env sv) w = (now, w1)" by (metis surj_pair)
  obtain f w2 where f: "ae_fault (av_env sv) ''DeleteToken'' w1 = (f, w2)" by (metis surj_pair)
  show ?thesis
    by (cases f) (simp_all add: refresh_rotate_def sv_write_def and_then_def draw_def n db_write_def db_stmt_def f
        again with_prefix_def outcome_def fail_with_def)
qed

text \<open>After all sessions of a user were ended no refresh token gives a session of that user.\<close>

lemma logout_all_ends_sessions:
  assumes "logout_all sv u s = (Inr (), s1)" and "refresh_tokens sv token s1 = (Inr r, s2)"
  shows "us_id (ar_user r) \<noteq> u"
proof -
  have none: "\<forall>t \<in> set (ad_tokens (fst s1)). tk_user t \<noteq> u"
    using assms(1)
    by (auto simp: logout_all_def op_ok sv_write_def db_write_def delete_user_tokens_def drop_tokens_def)
  obtain t s' where "find_token (hash_token (av_jwt sv) token) (fst s1) = Some t" "refresh_rotate sv t s' = (Inr r, s2)"
    by (rule refresh_ok [OF assms(2)])
  then show ?thesis using none rotate_ok by (fastforce simp: find_token_def find_Some_iff)
qed

text \<open>
  C10: whatever operations the server has carried out, every session belongs to a user that exists, a
  session bound to a device belongs to the device's user, and no two sessions share a token.
\<close>

theorem sessions_stay_owned:
  assumes "auth_reach sv s0 s" and "sessions_wf (fst s0)" and "t \<in> set (ad_tokens (fst s))"
  shows "(\<exists>u \<in> set (ad_users (fst s)). us_id u = tk_user t)
    \<and> (\<forall>i. tk_device t = Some i \<longrightarrow> (\<exists>d \<in> set (ad_devices (fst s)). dv_id d = i \<and> dv_user d = tk_user t))
    \<and> (\<forall>t' \<in> set (ad_tokens (fst s)). tk_hash t' = tk_hash t \<longrightarrow> t' = t)"
proof -
  have wf: "sessions_wf (fst s)" by (rule sessions.reach_keeps [OF assms(1,2)])
  then have "t' = t" if "t' \<in> set (ad_tokens (fst s))" "tk_hash t' = tk_hash t" for t'
    using assms(3) that by (auto simp: sessions_wf_def distinct_map inj_on_def)
  moreover have u: "user_exists (tk_user t) (fst s)" and own: "owned (tk_user t) (tk_device t) (fst s)"
    using wf assms(3) by (simp_all add: sessions_wf_def)
  from u have "\<exists>u \<in> set (ad_users (fst s)). us_id u = tk_user t" by (auto simp: user_exists_def)
  moreover have "\<exists>d \<in> set (ad_devices (fst s)). dv_id d = i \<and> dv_user d = tk_user t" if "tk_device t = Some i" for i
    using own that by (auto simp: owned_def device_owners_def)
  ultimately show ?thesis by blast
qed

end
