(* ===== verification/AuthRoutes.thy ===== *)
theory AuthRoutes
  imports AuthSignIn
begin

text \<open>
  The routes of \<open>cmd/server/main.go\<close> to the handlers of roles, API keys and single sign-on: all stand
  behind the authentication of the group, those of API keys behind the permission to manage the
  organisation as well.
\<close>

definition and_handle :: "('w, 'a) handler \<Rightarrow> ('a \<Rightarrow> ('w, 'b) handler) \<Rightarrow> ('w, 'b) handler" where
  "and_handle m k s = (case m s of (Inl r, s') \<Rightarrow> (Inl r, s') | (Inr a, s') \<Rightarrow> k a s')"

definition protected_route ::
  "'w jwt_service \<Rightarrow> 'w auth_env option \<Rightarrow> incoming \<Rightarrow> (http_ctx \<Rightarrow> ('w, 'a) handler) \<Rightarrow> ('w, 'a) handler" where
  "protected_route jv keys rq h = and_handle (require_auth_or_api_key jv keys rq) h"

definition create_role_route ::
  "'w jwt_service \<Rightarrow> 'w auth_env \<Rightarrow> incoming \<Rightarrow> role_request \<Rightarrow> ('w, role_row) handler" where
  "create_role_route jv env rq body = protected_route jv (Some env) rq (\<lambda>cx. create_role_h env cx body)"

definition delete_role_route :: "'w jwt_service \<Rightarrow> 'w auth_env \<Rightarrow> incoming \<Rightarrow> string \<Rightarrow> ('w, unit) handler" where
  "delete_role_route jv env rq i = protected_route jv (Some env) rq (\<lambda>cx. delete_role_h env i)"

definition assign_role_route ::
  "'w jwt_service \<Rightarrow> 'w auth_env \<Rightarrow> incoming \<Rightarrow> uuid \<Rightarrow> uuid \<Rightarrow> ('w, unit) handler" where
  "assign_role_route jv env rq user role =
     protected_route jv (Some env) rq (\<lambda>cx. assign_role_h env cx user role)"

definition create_key_route ::
  "'w jwt_service \<Rightarrow> 'w auth_env \<Rightarrow> incoming \<Rightarrow> key_request \<Rightarrow> ('w, api_key \<times> string) handler" where
  "create_key_route jv env rq body =
     protected_route jv (Some env) rq (\<lambda>cx.
       and_handle (require_permission env ''org:manage'' cx) (\<lambda>_. create_key_h env cx body))"

definition revoke_key_route :: "'w jwt_service \<Rightarrow> 'w auth_env \<Rightarrow> incoming \<Rightarrow> string \<Rightarrow> ('w, unit) handler" where
  "revoke_key_route jv env rq i =
     protected_route jv (Some env) rq (\<lambda>cx.
       and_handle (require_permission env ''org:manage'' cx) (\<lambda>_. revoke_key_h env cx i))"

definition create_sso_route ::
  "'w auth_svc \<Rightarrow> (string \<Rightarrow> bool) \<Rightarrow> incoming \<Rightarrow> sso_request \<Rightarrow> ('w, sso_config) handler" where
  "create_sso_route sv is_url rq body =
     protected_route (av_jwt sv) (Some (av_env sv)) rq (\<lambda>cx. create_sso_h sv is_url cx body)"

definition sso_callback_route ::
  "'w auth_svc \<Rightarrow> 'w sso_http \<Rightarrow> incoming \<Rightarrow> string \<Rightarrow> string
     \<Rightarrow> string \<Rightarrow> ('w, user_row \<times> string) handler" where
  "sso_callback_route sv http rq provider code state =
     protected_route (av_jwt sv) (Some (av_env sv)) rq (\<lambda>cx. sso_callback_h sv http cx provider code state)"

section \<open>Lemmas\<close>

lemma and_handle_ok: "and_handle m k s = (Inr b, s'') \<longleftrightarrow> (\<exists>a s'. m s = (Inr a, s') \<and> k a s' = (Inr b, s''))"
  by (auto simp: and_handle_def split: prod.splits sum.splits)

lemma answer_ok: "answer f m s = (Inr a, s') \<longleftrightarrow> m s = (Inr a, s')"
  by (auto simp: answer_def split: prod.splits sum.splits)

lemma refuse_not_ok: "refuse c m s \<noteq> (Inr a, s')" by (simp add: refuse_def)

lemma parsed_ok: "parsed env c m x k s = (Inr a, s') \<longleftrightarrow> (\<exists>i. ae_parse_uuid env x = Some i \<and> k i s = (Inr a, s'))"
  by (auto simp: parsed_def refuse_def split: option.split)

lemmas handler_ok = and_handle_ok answer_ok refuse_not_ok parsed_ok

lemma find_SomeD: "List.find p xs = Some x \<Longrightarrow> x \<in> set xs \<and> p x"
  by (auto simp: find_Some_iff)

lemma find_principal_alive:
  assumes "find_principal h now db = Some p"
  obtains k where "k \<in> set (ad_keys db)" "ak_hash k = h" "key_alive db now k" "ak_by k = Some (pi_user p)"
    "pi_key p = ak_id k" "pi_org p = ak_org k" "pi_scopes p = ak_scopes k"
proof -
  obtain k where l: "live_key h now db = Some k"
      and p: "p = \<lparr>pi_key = ak_id k, pi_org = ak_org k, pi_user = the (ak_by k), pi_scopes = ak_scopes k\<rparr>"
    using assms by (auto simp: find_principal_def split: option.splits)
  from find_SomeD [OF l [unfolded live_key_def]] have k: "k \<in> set (ad_keys db)" "ak_hash k = h" "key_alive db now k"
    by auto
  then have by_user: "ak_by k = Some (pi_user p)" by (auto simp: key_alive_def p)
  have "pi_key p = ak_id k" "pi_org p = ak_org k" "pi_scopes p = ak_scopes k" by (simp_all add: p)
  then show ?thesis by (rule that [OF k by_user])
qed

lemma authenticate_ok:
  assumes "authenticate_key env raw s = (Inr p, s')"
  shows "find_principal (key_hash env raw) (fst (ae_now env (snd s))) (fst s) = Some p
    \<and> fst s' \<in> {fst s, stamp_key (pi_key p) (fst (ae_now env (snd s))) (fst s)}"
proof -
  have "db_write fault p (stamp_key i now) s = (r, s') \<Longrightarrow> fst s' \<in> {fst s, stamp_key i now (fst s)}"
    for fault p i now and s s' :: "'a auth_world" and r
    by (auto simp: db_write_def db_stmt_def split: prod.splits option.splits)
  then show ?thesis
    using assms by (fastforce simp: authenticate_key_def op_ok split: if_splits option.splits)
qed

text \<open>
  C9: a request with an API key gets through only while the key is neither revoked nor expired and its
  creator is still a user of its organisation, only to a route of the list and with the scope that
  route needs; it then acts as that user in that organisation, and nothing but the key's last use is noted.
\<close>

theorem key_request_admitted:
  assumes "require_auth_or_api_key jv (Some env) rq s = (Inr cx, s')"
    and "has_prefix (bearer_token (in_header rq)) key_prefix"
  shows "\<exists>k sc u. k \<in> set (ad_keys (fst s)) \<and> ak_hash k = key_hash env (bearer_token (in_header rq))
    \<and> key_alive (fst s) (fst (ae_now env (snd s))) k
    \<and> api_key_route_scope (in_method rq) (in_path rq) = Some sc \<and> sc \<in> set (ak_scopes k)
    \<and> ak_by k = Some u
    \<and> cx = \<lparr>hc_user = ae_show_uuid env u, hc_email = [], hc_org = ae_show_uuid env (ak_org k),
            hc_role = ''service'', hc_key = ae_show_uuid env (ak_id k), hc_principal = ''api_key''\<rparr>
    \<and> fst s' \<in> {fst s, stamp_key (ak_id k) (fst (ae_now env (snd s))) (fst s)}"
proof -
  obtain p sc where p: "authenticate_key env (bearer_token (in_header rq)) s = (Inr p, s')"
    and sc: "api_key_route_scope (in_method rq) (in_path rq) = Some sc" "has_scope p sc"
    and cx: "cx = \<lparr>hc_user = ae_show_uuid env (pi_user p), hc_email = [], hc_org = ae_show_uuid env (pi_org p),
            hc_role = ''service'', hc_key = ae_show_uuid env (pi_key p), hc_principal = ''api_key''\<rparr>"
    using assms by (auto simp: require_auth_or_api_key_def Let_def split: prod.splits sum.splits option.splits if_splits)
  from authenticate_ok [OF p] obtain k where "k \<in> set (ad_keys (fst s))"
      "ak_hash k = key_hash env (bearer_token (in_header rq))" "key_alive (fst s) (fst (ae_now env (snd s))) k"
      "ak_by k = Some (pi_user p)" "pi_key p = ak_id k" "pi_org p = ak_org k" "pi_scopes p = ak_scopes k"
    using find_principal_alive by metis
  with sc cx authenticate_ok [OF p] show ?thesis by (auto simp: has_scope_def list_ex_iff)
qed

section \<open>Permissions\<close>

lemma permission_iff:
  "user_has_permission env u org perm s = (Inr b, s') \<Longrightarrow>
     b \<longleftrightarrow> (\<exists>r \<in> set (ad_roles (fst s)). perm \<in> set (rl_perms r)
        \<and> (\<exists>g \<in> set (ad_grants (fst s)). gr_role g = rl_id r \<and> gr_user g = u \<and> gr_org g = org))"
  by (auto simp: user_has_permission_def list_user_roles_def op_ok list_user_role_rows_def list_ex_iff)
    (blast+)?

definition no_faults :: "'w auth_env \<Rightarrow> bool" where
  "no_faults env \<longleftrightarrow> (\<forall>what w. fst (ae_fault env what w) = None)"

lemma quiet_stmt:
  assumes "no_faults env" and "f (fst s) = Inr (a, db)"
  shows "\<exists>w. db_stmt (ae_fault env what) p f s = (Inr a, (db, w))"
  using assms by (cases "ae_fault env what (snd s)") (auto simp: db_stmt_def no_faults_def dest!: spec [of _ what] spec [of _ "snd s"])

lemma quiet_read:
  assumes "no_faults env"
  shows "\<exists>w. db_read (ae_fault env what) p f s = (Inr (f (fst s)), (fst s, w))"
  unfolding db_read_def by (rule quiet_stmt [OF assms]) simp

text \<open>
  A request that carries an access token of the user, one that is accepted whenever the server's clock is
  read; nothing is asked of it at the times the clock does not show, as after its expiry.
\<close>

definition carries :: "'w jwt_service \<Rightarrow> incoming \<Rightarrow> jwt_claims \<Rightarrow> bool" where
  "carries jv rq c \<longleftrightarrow>
     bearer_token (in_header rq) \<noteq> [] \<and> \<not> has_prefix (bearer_token (in_header rq)) key_prefix
     \<and> (\<forall>w. jv_parse jv hmac_only (bearer_token (in_header rq)) (fst (ae_now (jv_env jv) w)) = Inr (c, True))"

definition ctx_of :: "jwt_claims \<Rightarrow> http_ctx" where
  "ctx_of c = \<lparr>hc_user = jc_sub c, hc_email = jc_email c, hc_org = jc_org c, hc_role = jc_role c,
     hc_key = [], hc_principal = []\<rparr>"

lemma carries_passes:
  assumes "carries jv rq c"
  shows "\<exists>w. require_auth_or_api_key jv keys rq s = (Inr (ctx_of c), (fst s, w))"
proof -
  obtain now w where now: "ae_now (jv_env jv) (snd s) = (now, w)" by (metis surj_pair)
  then have "jv_parse jv hmac_only (bearer_token (in_header rq)) now = Inr (c, True)"
    using assms unfolding carries_def by (metis fst_conv)
  with assms now show ?thesis
    by (auto simp: carries_def require_auth_or_api_key_def require_auth_def Let_def answer_def and_then_def
        parse_access_token_def draw_def ret_ok_def ctx_of_def split: option.splits)
qed

text \<open>
  C11: nothing but the authentication stands before the routes of roles: any user of an organisation can
  create a role with whatever permission he likes, grant it to himself, and holds the permission.
\<close>

theorem member_grants_himself:
  assumes "no_faults env" and "carries jv rq c"
    and "ae_parse_uuid env (jc_sub c) = Some u" and "ae_parse_uuid env (jc_org c) = Some org" and "u \<noteq> uuid_nil"
    and "user_exists u (fst s)" and "org_exists org (fst s)"
    and "valid_role_request body" and "perm \<in> set (rq_perms body)"
    and "\<forall>r \<in> set (ad_roles (fst s)). \<not> (rl_org r = org \<and> rl_name r = rq_name body)"
    and "\<forall>w. fst (ae_uuid env w) \<noteq> uuid_nil \<and> fst (ae_uuid env w) \<notin> rl_id ` set (ad_roles (fst s))"
  shows "\<exists>role s1 s2 s3. create_role_route jv env rq body s = (Inr role, s1)
    \<and> assign_role_route jv env rq u (rl_id role) s1 = (Inr (), s2)
    \<and> require_permission env perm (ctx_of c) s2 = (Inr (), s3)"
proof -
  obtain w0 where auth: "require_auth_or_api_key jv (Some env) rq s = (Inr (ctx_of c), (fst s, w0))"
    using carries_passes [OF assms(2)] by blast
  obtain i w1 where i: "ae_uuid env w0 = (i, w1)" by (metis surj_pair)
  then have fresh: "i \<noteq> uuid_nil" "i \<notin> rl_id ` set (ad_roles (fst s))" using assms(11) by (metis fst_conv)+
  define role where "role = \<lparr>rl_id = i, rl_org = org, rl_name = rq_name body, rl_desc = rq_desc body,
      rl_perms = rq_perms body, rl_system = False\<rparr>"
  define db1 where "db1 = (fst s)\<lparr>ad_roles := ad_roles (fst s) @ [role]\<rparr>"
  have "create_role_row role (fst s) = Inr (role, db1)"
    using assms(7,10) fresh(2) by (auto simp: create_role_row_def role_def db1_def)
  from quiet_stmt [OF assms(1), of "create_role_row role" "(fst s, w1)" role db1] this
  obtain w2 where "db_stmt (ae_fault env ''CreateRole'') ''rbac_repo: create role: '' (create_role_row role) (fst s, w1)
      = (Inr role, (db1, w2))" by auto
  then have create: "create_role_route jv env rq body s = (Inr role, (db1, w2))"
    using assms(4,8)
    by (simp add: create_role_route_def protected_route_def and_handle_def auth create_role_h_def parsed_def
        ctx_of_def answer_def create_role_def and_then_def draw_def i role_def)
  obtain w3 where auth2: "require_auth_or_api_key jv (Some env) rq (db1, w2) = (Inr (ctx_of c), (db1, w3))"
    using carries_passes [OF assms(2), of "Some env" "(db1, w2)"] by auto
  define g where "g = \<lparr>gr_user = u, gr_role = i, gr_org = org, gr_by = Some u\<rparr>"
  obtain db2 where grant: "assign_role_row g db1 = Inr ((), db2)" and roles: "ad_roles db2 = ad_roles db1"
    and granted: "\<exists>h \<in> set (ad_grants db2). same_grant g h"
  proof (cases "\<exists>h \<in> set (ad_grants db1). same_grant g h")
    case False
    have "role \<in> set (ad_roles db1)" "rl_id role = i" by (simp_all add: db1_def role_def)
    then have "List.find (\<lambda>r. rl_id r = i) (ad_roles db1) \<noteq> None"
      unfolding find_None_iff by blast
    with False assms(6,7) have "assign_role_row g db1 = Inr ((), db1\<lparr>ad_grants := ad_grants db1 @ [g]\<rparr>)"
      by (simp add: assign_role_row_def g_def find_role_def role_with_def user_exists_def org_exists_def db1_def)
    then show ?thesis by (rule that) (simp_all add: same_grant_def)
  next
    case True
    then have "assign_role_row g db1 = Inr ((), db1)" by (simp add: assign_role_row_def)
    with True that show ?thesis by blast
  qed
  from quiet_stmt [OF assms(1), of "assign_role_row g" "(db1, w3)" "()" db2] grant
  obtain w4 where "db_stmt (ae_fault env ''AssignRole'') ''rbac_repo: assign role: '' (assign_role_row g) (db1, w3)
      = (Inr (), (db2, w4))" by auto
  then have assign: "assign_role_route jv env rq u (rl_id role) (db1, w2) = (Inr (), (db2, w4))"
    using assms(3,4,5) fresh(1)
    by (simp add: assign_role_route_def protected_route_def and_handle_def auth2 assign_role_h_def parsed_def
        ctx_of_def answer_def assign_role_def role_def g_def)
  obtain w5 where "list_user_roles env u org (db2, w4) = (Inr (list_user_role_rows u org db2), (db2, w5))"
    using quiet_read [OF assms(1), of "''ListUserRoles''" _ "list_user_role_rows u org" "(db2, w4)"]
    by (auto simp: list_user_roles_def)
  then obtain b where b: "user_has_permission env u org perm (db2, w4) = (Inr b, (db2, w5))"
    by (simp add: user_has_permission_def and_then_def ret_ok_def)
  have "role \<in> set (ad_roles db2)" "perm \<in> set (rl_perms role)"
    using roles assms(9) by (simp_all add: db1_def role_def)
  moreover have "\<exists>h \<in> set (ad_grants db2). gr_role h = rl_id role \<and> gr_user h = u \<and> gr_org h = org"
    using granted by (auto simp: same_grant_def g_def role_def)
  ultimately have "b" using permission_iff [OF b] by auto
  then have "require_permission env perm (ctx_of c) (db2, w4) = (Inr (), (db2, w5))"
    using assms(3,4) b by (simp add: require_permission_def parsed_def ctx_of_def)
  with create assign show ?thesis by blast
qed

end
