(* ===== verification/AuthAccounts.thy ===== *)
theory AuthAccounts
  imports AuthSessions AuthRoutes
begin

text \<open>
  Whose account a sign-in leads to, and the witnesses of the theorems about accounts, sessions and access
  rights, on a server whose statements never fail.
\<close>

section \<open>Accounts\<close>

lemma find_user_unique:
  assumes "distinct (map us_email (ad_users db))" and "v \<in> set (ad_users db)"
  shows "find_by_email (us_email v) db = Some v"
proof (cases "find_by_email (us_email v) db")
  case None
  then show ?thesis using assms(2) by (auto simp: find_by_email_def user_with_def find_None_iff)
next
  case (Some u)
  then have "u \<in> set (ad_users db)" "us_email u = us_email v"
    using find_SomeD by (fastforce simp: find_by_email_def user_with_def)+
  then show ?thesis using assms Some by (auto simp: distinct_map inj_on_def)
qed

lemma new_owner_ok:
  assumes "new_owner sv org mk s = (Inr u, s')" and "sessions_wf (fst s)"
  shows "(\<exists>i. u = mk i) \<and> kept_credential (us_id u) (us_email u) (us_password u) (fst s')"
proof -
  obtain i s1 s2 s3 where u: "u = mk i"
    and s1: "sv_stmt sv ''CreateOrg'' ''creating organization: '' (create_org org) s = (Inr (), s1)"
    and s2: "draw (ae_uuid (av_env sv)) s1 = (Inr i, s2)"
    and s3: "sv_stmt sv ''CreateUser'' ''creating user: '' (create_user (mk i)) s2 = (Inr (), s3)"
    and rest: "and_then (seed_owner_role sv (og_id org) i)
        (\<lambda>_. and_then (seed_builtin_agents sv (og_id org) i) (\<lambda>_. ret_ok (mk i))) s3 = (Inr (mk i), s')"
    using assms(1) by (auto simp: new_owner_def and_then_ok ret_ok_ok)
  have k1: "keeps sessions_wf (sv_stmt sv ''CreateOrg'' ''creating organization: '' (create_org org))"
    unfolding sv_stmt_def by (intro sessions.keeps_others)
  have wf2: "sessions_wf (fst s2)" using keepsD [OF k1 s1 assms(2)] s2 by (auto simp: draw_ok)
  have k3: "keeps sessions_wf (sv_stmt sv ''CreateUser'' ''creating user: '' (create_user (mk i)))"
    unfolding sv_stmt_def by (intro sessions.keeps_new_user)
  have "kept_credential (us_id u) (us_email u) (us_password u) (fst s3)"
    using keepsD [OF k3 s3 wf2] s3
    by (auto simp: kept_credential_def logins_def u sv_stmt_def op_ok create_user_def split: if_splits)
  moreover have k: "keeps (kept_credential (us_id u) (us_email u) (us_password u))
      (and_then (seed_owner_role sv (og_id org) i)
        (\<lambda>_. and_then (seed_builtin_agents sv (og_id org) i) (\<lambda>_. ret_ok (mk i))))"
    unfolding seed_owner_role_def seed_builtin_agents_def ensure_system_roles_def assign_role_def sv_stmt_def sv_read_def
    by (intro keeps_rules credential.keeps_ensure credential.keeps_others)
  ultimately show ?thesis using keepsD [OF k rest] u by blast
qed

lemma response_user: "auth_response_for_device sv u info s = (Inr r, s') \<Longrightarrow> ar_user r = u"
  by (auto simp: auth_response_for_device_def op_ok dest!: issue_ok)

lemma register_credential:
  assumes "register sv rq s = (Inr r, s1)" and "sessions_wf (fst s)"
  shows "\<exists>h w w'. av_hash_password sv (rr_password rq) w = (Inr h, w')
    \<and> kept_credential (us_id (ar_user r)) (rr_email rq) h (fst s1)"
proof -
  obtain h w w' o_id u s2 s3 where h: "av_hash_password sv (rr_password rq) w = (Inr h, w')"
    and s2: "fst s2 = fst s"
    and owner: "new_owner sv \<lparr>og_id = o_id, og_name = rr_org rq, og_slug = slugify (rr_org rq), og_owner = None\<rparr>
        (\<lambda>i. \<lparr>us_id = i, us_email = rr_email rq, us_password = h, us_name = rr_name rq, us_avatar = None,
              us_role = ''admin'', us_org = Some o_id, us_google = None\<rparr>) s2 = (Inr u, s3)"
    and resp: "auth_response_for_device sv u (rr_device rq) s3 = (Inr r, s1)"
    using assms(1)
    by (auto simp: register_def op_ok sv_read_def split: if_splits)
  from new_owner_ok [OF owner] assms(2) s2
  have "us_email u = rr_email rq" "us_password u = h" "kept_credential (us_id u) (rr_email rq) h (fst s3)" by auto
  then have "kept_credential (us_id u) (rr_email rq) h (fst s1)"
    using keepsD [OF credential.keeps_response resp] by simp
  with h response_user [OF resp] show ?thesis by auto
qed

lemma google_finds_same:
  assumes "user_from_google sv p org s = (Inr u, s')"
    and "find_by_google (gp_sub p) (fst s) = None" and "find_by_email_fold (gp_email p) (fst s) = Some v"
  shows "us_id u = us_id v"
  using assms by (auto simp: user_from_google_def Let_def op_ok sv_read_def)

text \<open>
  registration does not check the address. When someone has registered with the address of another
  person, who then signs in with Google, both share the account: Google is linked to it, whatever
  happened in between, and the password of the one who registered is still accepted.
\<close>

lemma preregistered_account_shared:
  assumes "register sv rq s = (Inr r, s1)" and "sessions_wf (fst s)" and "auth_reach sv s1 s2"
    and "user_from_google sv p org s2 = (Inr u, s3)" and "find_by_google (gp_sub p) (fst s2) = None"
    and "to_lower (gp_email p) = to_lower (rr_email rq)"
    and "\<forall>v \<in> set (ad_users (fst s2)). to_lower (us_email v) = to_lower (rr_email rq) \<longrightarrow> us_email v = rr_email rq"
    and "\<forall>h w w'. av_hash_password sv (rr_password rq) w = (Inr h, w') \<longrightarrow> h \<noteq> [] \<and> av_password_ok sv h (rr_password rq)"
    and "no_faults (av_env sv)"
  shows "us_id u = us_id (ar_user r)
    \<and> (\<exists>v w. us_id v = us_id u
         \<and> login sv (rr_email rq) (rr_password rq) device s3 = auth_response_for_device sv v device (fst s3, w))"
proof -
  obtain h where h: "h \<noteq> []" "av_password_ok sv h (rr_password rq)"
      and c1: "kept_credential (us_id (ar_user r)) (rr_email rq) h (fst s1)"
    using register_credential [OF assms(1,2)] assms(8) by blast
  have c2: "kept_credential (us_id (ar_user r)) (rr_email rq) h (fst s2)"
    by (rule credential.reach_keeps [OF assms(3) c1])
  have c3: "kept_credential (us_id (ar_user r)) (rr_email rq) h (fst s3)"
    by (rule keepsD [OF credential.keeps_google(3) assms(4) c2])
  have owner: "\<exists>v. v \<in> set (ad_users db) \<and> us_id v = us_id (ar_user r) \<and> us_email v = rr_email rq \<and> us_password v = h
      \<and> find_by_email (rr_email rq) db = Some v"
    if "kept_credential (us_id (ar_user r)) (rr_email rq) h db" for db
    using that find_user_unique [of db] by (fastforce simp: kept_credential_def logins_def sessions_wf_def)
  obtain v2 where v2: "v2 \<in> set (ad_users (fst s2))" "us_id v2 = us_id (ar_user r)" "us_email v2 = rr_email rq"
      "find_by_email (rr_email rq) (fst s2) = Some v2" using owner [OF c2] by blast
  obtain x where x: "find_by_email_fold (gp_email p) (fst s2) = Some x"
    using v2(1,3) assms(6)
    by (cases "find_by_email_fold (gp_email p) (fst s2)") (auto simp: find_by_email_fold_def user_with_def find_None_iff)
  then have "x \<in> set (ad_users (fst s2))" "us_email x = rr_email rq"
    using find_SomeD [OF x [unfolded find_by_email_fold_def user_with_def]] assms(6,7) by auto
  then have "x = v2"
    using v2(4) find_user_unique [of "fst s2" x] c2 by (simp add: kept_credential_def sessions_wf_def)
  then have u: "us_id u = us_id (ar_user r)" using google_finds_same [OF assms(4,5) x] v2(2) by simp
  obtain v where v: "us_id v = us_id (ar_user r)" "us_password v = h" "find_by_email (rr_email rq) (fst s3) = Some v"
    using owner [OF c3] by blast
  obtain w where "db_read (ae_fault (av_env sv) ''FindByEmail'') ''finding user by email: ''
      (find_by_email (rr_email rq)) s3 = (Inr (Some v), (fst s3, w))"
    using quiet_read [OF assms(9)] v(3) by metis
  then have "login sv (rr_email rq) (rr_password rq) device s3 = auth_response_for_device sv v device (fst s3, w)"
    using h v(2) by (simp add: login_def sv_read_def and_then_def with_prefix_def)
  with u v(1) show ?thesis by auto
qed

section \<open>Single sign-on\<close>

lemma upsert_enabled:
  assumes "upsert_sso c db = Inr (out, db')" and "sc_enabled c"
  shows "(\<exists>i. enabled_sso (sc_org c) (sc_provider c) db' = Some (c\<lparr>sc_id := i\<rparr>)) \<and> ad_users db' = ad_users db"
proof -
  let ?same = "\<lambda>d. sc_org d = sc_org c \<and> sc_provider d = sc_provider c"
  have new: "List.find (\<lambda>d. ?same d \<and> sc_enabled d) (xs @ [c]) = Some c" if "List.find ?same xs = None" for xs
    using that assms(2) by (induction xs) (auto split: if_splits)
  have old: "List.find (\<lambda>d. ?same d \<and> sc_enabled d) (map (\<lambda>e. if ?same e then c\<lparr>sc_id := i\<rparr> else e) xs)
      = Some (c\<lparr>sc_id := i\<rparr>)" if "List.find ?same xs = Some d" for xs d i
    using that assms(2) by (induction xs) (auto split: if_splits)
  show ?thesis
  proof (cases "List.find ?same (ad_sso db)")
    case None
    with assms(1) new [OF None] show ?thesis
      by (auto simp: upsert_sso_def enabled_sso_def conj_assoc split: if_splits intro!: exI [of _ "sc_id c"])
  next
    case (Some d)
    with assms(1) old [OF Some] show ?thesis
      by (auto simp: upsert_sso_def enabled_sso_def conj_assoc Let_def split: if_splits intro!: exI [of _ "sc_id d"])
  qed
qed

text \<open>An identity provider at an issuer: whatever it is asked, it answers with a token, and names the address.\<close>

definition issuer_names :: "'w sso_http \<Rightarrow> string \<Rightarrow> string \<Rightarrow> bool" where
  "issuer_names http issuer email \<longleftrightarrow>
     (\<forall>form w. \<exists>body token w'.
        sh_post http (trim_suffix issuer ''/'' @ ''/token'') form w = (Inr (200, body), w')
        \<and> read_token body = Some token)
     \<and> (\<forall>token w. \<exists>body p w'.
        sh_get http (trim_suffix issuer ''/'' @ ''/userinfo'') token w = (Inr body, w')
        \<and> read_profile body = Some p \<and> sp_email p = email)"

lemma issuer_profile:
  assumes "issuer_names http (sc_issuer d) email" and "sc_provider d \<noteq> ''azure_ad''"
  shows "\<exists>p w'. fetch_profile http d code w = (Inr p, w') \<and> sp_email p = email"
proof -
  have "\<forall>form w. \<exists>body token w'.
        sh_post http (token_endpoint d) form w = (Inr (200, body), w') \<and> read_token body = Some token"
    and get: "\<forall>token w. \<exists>body p w'.
        sh_get http (userinfo_endpoint d) token w = (Inr body, w') \<and> read_profile body = Some p \<and> sp_email p = email"
    using assms unfolding issuer_names_def token_endpoint_def userinfo_endpoint_def by simp_all
  then obtain body token w1 where "sh_post http (token_endpoint d) (sso_form d code) w = (Inr (200, body), w1)"
    "read_token body = Some token"
    by meson
  moreover obtain info p w2 where "sh_get http (userinfo_endpoint d) token w1 = (Inr info, w2)"
    "read_profile info = Some p" "sp_email p = email"
    using get by meson
  ultimately show ?thesis by (simp add: fetch_profile_def)
qed

text \<open>
  C12: the single sign-on of an organisation hands out the accounts of all others: any user may configure
  an identity provider of his own, unless as \<open>azure_ad\<close> (whose addresses are asked of Microsoft, not of the
  configured issuer), and the user whose address that provider then names, of whatever organisation, is
  answered with an access token for his organisation and role. The configuration is one without a domain
  filter, and no statement fails.
\<close>

theorem sso_hands_out_accounts:
  assumes "create_sso_route sv is_url rq body s = (Inr cfg, s1)" and "so_domain body = None"
    and "so_provider body \<noteq> ''azure_ad''"
    and "carries (av_jwt sv) rq c" and "ae_parse_uuid (av_env sv) (jc_org c) = Some org" and "no_faults (av_env sv)"
    and "v \<in> set (ad_users (fst s))" and "distinct (map us_email (ad_users (fst s)))" and "us_email v \<noteq> []"
    and "issuer_names http (so_issuer body) (us_email v)"
    and "\<forall>cl. \<exists>t. jv_sign (av_jwt sv) cl = Inr t" and "code \<noteq> []" and "state \<noteq> []"
  shows "\<exists>t s2 cl. sso_callback_route sv http rq (so_provider body) code state s1 = (Inr (v, t), s2)
    \<and> jv_sign (av_jwt sv) cl = Inr t \<and> jc_sub cl = ae_show_uuid (jv_env (av_jwt sv)) (us_id v)
    \<and> jc_org cl = (case us_org v of None \<Rightarrow> [] | Some i \<Rightarrow> ae_show_uuid (jv_env (av_jwt sv)) i)
    \<and> jc_role cl = us_role v"
proof -
  obtain w0 where auth: "require_auth_or_api_key (av_jwt sv) (Some (av_env sv)) rq s = (Inr (ctx_of c), (fst s, w0))"
    using carries_passes [OF assms(4)] by blast
  have ctx: "hc_org (ctx_of c) = jc_org c" by (simp add: ctx_of_def)
  obtain s0 where valid: "valid_sso_request is_url body"
    and config: "create_sso_config sv org body s0 = (Inr cfg, s1)" and s0: "fst s0 = fst s"
    using assms(1,5) auth
    by (auto simp: create_sso_route_def protected_route_def create_sso_h_def handler_ok ctx split: if_splits)
  have "\<exists>d. enabled_sso org (so_provider body) (fst s1) = Some d \<and> sc_issuer d = so_issuer body \<and> sc_domain d = None
      \<and> sc_provider d = so_provider body
      \<and> ad_users (fst s1) = ad_users (fst s)"
    using config s0 assms(2)
    by (auto simp: create_sso_config_def op_ok sv_stmt_def dest!: upsert_enabled)
  then obtain d where d: "sc_issuer d = so_issuer body" "sc_domain d = None"
      "enabled_sso org (so_provider body) (fst s1) = Some d" "ad_users (fst s1) = ad_users (fst s)"
      "sc_provider d = so_provider body" by blast
  obtain w1 where auth1: "require_auth_or_api_key (av_jwt sv) (Some (av_env sv)) rq s1 = (Inr (ctx_of c), (fst s1, w1))"
    using carries_passes [OF assms(4)] by blast
  obtain w2 where cfg: "db_read (ae_fault (av_env sv) ''GetSSO'') ''sso_repo: get by org and provider: ''
      (enabled_sso org (so_provider body)) (fst s1, w1) = (Inr (Some d), (fst s1, w2))"
    using quiet_read [OF assms(6)] d(3) by (metis fst_conv)
  obtain p w3 where p: "fetch_profile http d code w2 = (Inr p, w3)" "sp_email p = us_email v"
    using issuer_profile [of http d "us_email v" code w2] assms(3,10) d(1,5) by auto
  have "find_by_email (us_email v) (fst s1) = Some v"
    using find_user_unique [of "fst s1" v] assms(7,8) d(4) by simp
  then obtain w4 where found: "db_read (ae_fault (av_env sv) ''FindByEmail'') ''finding user by email: ''
      (find_by_email (us_email v)) (fst s1, w3) = (Inr (Some v), (fst s1, w4))"
    using quiet_read [OF assms(6)] by (metis fst_conv)
  have user: "exchange_code sv http org (so_provider body) code (fst s1, w1) = (Inr v, (fst s1, w4))"
    using cfg p found assms(9)
    by (simp add: exchange_code_def and_then_def outcome_def sv_read_def draw_or_fail_def with_prefix_def
        domain_refused_def d(2) ret_ok_def)
  obtain now w5 where now: "ae_now (jv_env (av_jwt sv)) w4 = (now, w5)" by (metis surj_pair)
  define cl where "cl = \<lparr>jc_sub = ae_show_uuid (jv_env (av_jwt sv)) (us_id v), jc_email = us_email v,
      jc_org = (case us_org v of None \<Rightarrow> [] | Some i \<Rightarrow> ae_show_uuid (jv_env (av_jwt sv)) i), jc_role = us_role v,
      jc_exp = (now + jv_expiry (av_jwt sv)) div 1000, jc_iat = now div 1000, jc_nbf = now div 1000,
      jc_iss = ''jobshout''\<rparr>"
  obtain t where t: "jv_sign (av_jwt sv) cl = Inr t" using assms(11) by blast
  have "generate_access_token (av_jwt sv) (us_id v) (us_email v) (us_org v) (us_role v) (fst s1, w4)
      = (Inr t, (fst s1, w5))"
    using t by (simp add: generate_access_token_def and_then_def draw_def now cl_def ret_ok_def)
  moreover have "so_provider body \<noteq> []" using valid by (auto simp: valid_sso_request_def)
  ultimately have "sso_callback_route sv http rq (so_provider body) code state s1 = (Inr (v, t), (fst s1, w5))"
    using assms(5,12,13) user
    by (simp add: sso_callback_route_def protected_route_def and_handle_def auth1 sso_callback_h_def parsed_def ctx
        answer_def and_then_def ret_ok_def)
  with t show ?thesis by (intro exI [of _ t] exI [of _ "(fst s1, w5)"] exI [of _ cl]) (simp add: cl_def)
qed

section \<open>Witnesses\<close>

text \<open>The world counts the ids it has given out; a user's id is shown as so many ones.\<close>

definition demo_auth :: "nat auth_env" where
  "demo_auth = \<lparr>ae_fault = \<lambda>what w. (None, w), ae_now = \<lambda>w. (0, w), ae_uuid = \<lambda>w. (Suc w, Suc w),
     ae_rand = \<lambda>n w. (Inr (replicate n (CHR ''r'')), w), ae_sha256 = \<lambda>s. s,
     ae_show_uuid = \<lambda>i. replicate i (CHR ''1''),
     ae_parse_uuid = \<lambda>s. if s = [] then None else Some (length s)\<rparr>"

definition demo_claims :: jwt_claims where
  "demo_claims = \<lparr>jc_sub = ''1'', jc_email = ''alice@a.com'', jc_org = ''11'', jc_role = ''viewer'',
     jc_exp = 900, jc_iat = 0, jc_nbf = 0, jc_iss = ''jobshout''\<rparr>"

definition demo_jwt :: "nat jwt_service" where
  "demo_jwt = \<lparr>jv_env = demo_auth, jv_sign = \<lambda>c. Inr (jc_sub c @ ''.'' @ jc_org c),
     jv_parse = \<lambda>k t now. if now < 900000 then Inr (demo_claims, True) else Inl (ErrText ''token is expired''), jv_expiry = 900000, jv_days = 7\<rparr>"

definition demo_svc :: "nat auth_svc" where
  "demo_svc = \<lparr>av_env = demo_auth, av_jwt = demo_jwt, av_hash_password = \<lambda>p w. (Inr (''h'' @ p), w),
     av_password_ok = \<lambda>h p. h = ''h'' @ p, av_rbac = False, av_seeds = None,
     av_create_agent = \<lambda>n org u w. (None, w), av_google = None, av_google_url = \<lambda>s. s, av_devices = True,
     av_identities = False, av_apple = None\<rparr>"

definition alice_row :: user_row where
  "alice_row = \<lparr>us_id = 1, us_email = ''alice@a.com'', us_password = [], us_name = ''Alice'', us_avatar = None,
     us_role = ''viewer'', us_org = Some 2, us_google = None\<rparr>"

definition bob_row :: user_row where
  "bob_row = \<lparr>us_id = 3, us_email = ''bob@b.com'', us_password = ''hsecret'', us_name = ''Bob'', us_avatar = None,
     us_role = ''admin'', us_org = Some 4, us_google = None\<rparr>"

definition demo_key :: api_key where
  "demo_key = \<lparr>ak_id = 5, ak_org = 2, ak_name = ''ops'', ak_prefix = ''jsk_01234567'',
     ak_hash = key_hash demo_auth ''jsk_0123456789abcdef'', ak_scopes = [''agents:read''], ak_by = Some 1,
     ak_used = None, ak_expires = None, ak_revoked = None\<rparr>"

definition demo_db :: auth_db where
  "demo_db = \<lparr>ad_users = [alice_row, bob_row],
     ad_orgs = [\<lparr>og_id = 2, og_name = ''A'', og_slug = ''a'', og_owner = None\<rparr>,
                \<lparr>og_id = 4, og_name = ''B'', og_slug = ''b'', og_owner = None\<rparr>],
     ad_tokens = [\<lparr>tk_id = 6, tk_user = 3, tk_hash = hash_token demo_jwt ''tok'', tk_expires = 10, tk_device = None\<rparr>],
     ad_devices = [], ad_identities = [], ad_states = [], ad_tickets = [], ad_roles = [], ad_grants = [],
     ad_keys = [demo_key], ad_sso = []\<rparr>"

definition demo_call :: "string \<Rightarrow> incoming" where
  "demo_call h = \<lparr>in_header = h, in_method = ''GET'', in_path = ''/api/v1/agents''\<rparr>"

lemma demo_quiet: "no_faults demo_auth" by (simp add: no_faults_def demo_auth_def)

lemma demo_wf: "sessions_wf demo_db"
  by (simp add: sessions_wf_def demo_db_def alice_row_def bob_row_def user_exists_def owned_def)

lemma demo_carries: "carries demo_jwt (demo_call ''Bearer xyz'') demo_claims"
proof -
  have "bearer_token (in_header (demo_call ''Bearer xyz'')) = ''xyz''" by code_simp
  then show ?thesis by (simp add: carries_def demo_jwt_def demo_auth_def key_prefix_def)
qed

lemma demo_agents_route: "api_key_route_scope ''GET'' ''/api/v1/agents'' = Some ''agents:read''"
  by code_simp

lemma demo_bearer: "bearer_token ''Bearer jsk_0123456789abcdef'' = ''jsk_0123456789abcdef''"
  by code_simp

theorem key_request_admitted_witness:
  "\<exists>k \<in> set (ad_keys demo_db). key_alive demo_db 0 k \<and> ''agents:read'' \<in> set (ak_scopes k)"
proof -
  have p: "has_prefix ''jsk_0123456789abcdef'' key_prefix" by (simp add: key_prefix_def)
  have l: "find_principal (key_hash demo_auth ''jsk_0123456789abcdef'') 0 demo_db
      = Some \<lparr>pi_key = 5, pi_org = 2, pi_user = 1, pi_scopes = [''agents:read'']\<rparr>"
    by (simp add: find_principal_def live_key_def demo_db_def demo_key_def key_alive_def alice_row_def)
  have "\<exists>cx s'. require_auth_or_api_key demo_jwt (Some demo_auth) (demo_call ''Bearer jsk_0123456789abcdef'') (demo_db, 10)
      = (Inr cx, s')"
    using p l demo_agents_route
    by (simp add: require_auth_or_api_key_def demo_call_def demo_bearer authenticate_key_def looks_like_key_def
        and_then_def draw_def db_read_def db_write_def db_stmt_def outcome_def ret_ok_def demo_auth_def has_scope_def Let_def)
  then obtain cx s' where r: "require_auth_or_api_key demo_jwt (Some demo_auth)
      (demo_call ''Bearer jsk_0123456789abcdef'') (demo_db, 10) = (Inr cx, s')" by blast
  have "has_prefix (bearer_token (in_header (demo_call ''Bearer jsk_0123456789abcdef''))) key_prefix"
    using p by (simp add: demo_call_def demo_bearer)
  from key_request_admitted [OF r this] demo_agents_route show ?thesis
    by (auto simp: demo_call_def demo_auth_def)
qed

lemma demo_claims_parse:
  "ae_parse_uuid demo_auth (jc_sub demo_claims) = Some 1" "ae_parse_uuid demo_auth (jc_org demo_claims) = Some 2"
  by (simp_all add: demo_auth_def demo_claims_def)

theorem member_grants_himself_witness:
  "\<exists>role s1 s2 s3.
     create_role_route demo_jwt demo_auth (demo_call ''Bearer xyz'')
       \<lparr>rq_name = ''owner'', rq_desc = None, rq_perms = [''org:manage'']\<rparr> (demo_db, 10) = (Inr role, s1)
     \<and> assign_role_route demo_jwt demo_auth (demo_call ''Bearer xyz'') 1 (rl_id role) s1 = (Inr (), s2)
     \<and> require_permission demo_auth ''org:manage'' (ctx_of demo_claims) s2 = (Inr (), s3)"
proof (rule member_grants_himself [OF demo_quiet demo_carries demo_claims_parse])
  show "valid_role_request \<lparr>rq_name = ''owner'', rq_desc = None, rq_perms = [''org:manage'']\<rparr>" by code_simp
qed (simp_all add: uuid_nil_def user_exists_def org_exists_def demo_db_def alice_row_def demo_auth_def)

lemma length_hex_encode: "length (hex_encode s) = 2 * length s"
  by (induction s) (simp_all add: hex_encode_def)

lemma hex_neq: "length s \<noteq> length t \<Longrightarrow> hex_encode s \<noteq> hex_encode t"
  by (auto dest: arg_cong [of _ _ length] simp: length_hex_encode)

lemmas demo_defs = demo_svc_def demo_jwt_def demo_auth_def

lemma demo_refresh:
  "\<exists>r s'. refresh_tokens demo_svc ''tok'' (demo_db, 10) = (Inr r, s') \<and> ar_refresh r = replicate 11 (CHR ''1'')"
  by (simp add: refresh_tokens_def refresh_lookup_def refresh_rotate_def sv_read_def sv_write_def sv_stmt_def
      issue_tokens_def generate_access_token_def generate_refresh_token_def auth_op_defs demo_defs demo_db_def
      find_token_def find_user_def user_with_def alice_row_def bob_row_def delete_token_def drop_tokens_def
      save_token_def user_exists_def Let_def numeral_eq_Suc)

theorem refresh_spends_token_witness:
  "\<exists>r s'. refresh_tokens demo_svc ''tok'' (demo_db, 10) = (Inr r, s') \<and> us_id (ar_user r) = 3
     \<and> find_token (hash_token demo_jwt ''tok'') (fst s') = None"
proof -
  obtain r s' where r: "refresh_tokens demo_svc ''tok'' (demo_db, 10) = (Inr r, s')"
    and new: "ar_refresh r = replicate 11 (CHR ''1'')" using demo_refresh by blast
  have "length (hash_token (av_jwt demo_svc) (ar_refresh r)) \<noteq> length (hash_token (av_jwt demo_svc) ''tok'')"
    by (simp add: hash_token_def length_hex_encode demo_defs new)
  then have h: "hash_token (av_jwt demo_svc) (ar_refresh r) \<noteq> hash_token (av_jwt demo_svc) ''tok''" by auto
  have "sessions_wf (fst (demo_db, 10))" using demo_wf by simp
  from refresh_spends_token [OF r this h] r show ?thesis
    by (auto simp: demo_svc_def demo_db_def find_token_def)
qed

theorem sessions_stay_owned_witness:
  "\<exists>t \<in> set (ad_tokens (fst (snd (login demo_svc ''bob@b.com'' ''secret'' None (demo_db, 10))))).
     \<exists>u \<in> set (ad_users (fst (snd (login demo_svc ''bob@b.com'' ''secret'' None (demo_db, 10))))). us_id u = tk_user t"
proof -
  let ?s = "snd (login demo_svc ''bob@b.com'' ''secret'' None (demo_db, 10))"
  have reach: "auth_reach demo_svc (demo_db, 10) ?s" by (intro auth_reach.logs_in auth_reach.here)
  have wf: "sessions_wf (fst (demo_db, 10))" using demo_wf by simp
  have "ad_tokens (fst ?s) \<noteq> []"
    by (simp add: login_def auth_response_for_device_def resolve_device_def sv_read_def sv_stmt_def
        issue_tokens_def generate_access_token_def generate_refresh_token_def auth_op_defs demo_defs demo_db_def
        find_by_email_def user_with_def alice_row_def bob_row_def save_token_def Let_def user_exists_def)
  then obtain t where "t \<in> set (ad_tokens (fst ?s))" by (cases "ad_tokens (fst ?s)") auto
  with sessions_stay_owned [OF reach wf this] show ?thesis by blast
qed

definition eve_request :: register_request where
  "eve_request = \<lparr>rr_email = ''carol@c.com'', rr_password = ''eve'', rr_name = ''Carol'', rr_org = ''evil'',
     rr_device = None\<rparr>"

definition carol_profile :: google_profile where
  "carol_profile = \<lparr>gp_sub = ''g1'', gp_email = ''carol@c.com'', gp_name = ''Carol'', gp_picture = []\<rparr>"

lemma demo_slug: "slugify ''evil'' = ''evil''" by code_simp

lemma demo_register:
  "\<exists>r s1 i o_id. register demo_svc eve_request (demo_db, 10) = (Inr r, s1)
     \<and> ad_users (fst s1) = [alice_row, bob_row, \<lparr>us_id = i, us_email = ''carol@c.com'', us_password = ''heve'',
         us_name = ''Carol'', us_avatar = None, us_role = ''admin'', us_org = Some o_id, us_google = None\<rparr>]
     \<and> i \<noteq> 1 \<and> i \<noteq> 3"
  by (simp add: register_def new_owner_def seed_owner_role_def seed_builtin_agents_def auth_response_for_device_def
      resolve_device_def sv_read_def sv_stmt_def issue_tokens_def generate_access_token_def
      generate_refresh_token_def auth_op_defs demo_defs demo_db_def eve_request_def find_by_email_def user_with_def
      alice_row_def bob_row_def save_token_def Let_def user_exists_def create_org_def create_user_def org_exists_def
      demo_slug hash_token_def hex_neq)

definition demo_sso :: sso_request where
  "demo_sso = \<lparr>so_provider = ''okta'', so_client = ''c'', so_secret = ''s'', so_issuer = ''https://evil'',
     so_redirect = ''https://r'', so_scopes = [], so_provision = None, so_role = [], so_domain = None\<rparr>"

definition demo_idp :: "nat sso_http" where
  "demo_idp =
     \<lparr>sh_post = (\<lambda>url form w. if url = ''https://evil/token'' then (Inr (200, ''{\"access_token\":\"t\"}''), w)
                   else (Inl (ErrText ''no such host''), w)),
      sh_get = (\<lambda>url token w. if url = ''https://evil/userinfo'' then (Inr ''{\"email\":\"bob@b.com\"}'', w)
                   else (Inl (ErrText ''no such host''), w))\<rparr>"

lemma demo_idp_names: "issuer_names demo_idp ''https://evil'' ''bob@b.com''"
proof -
  have "trim_suffix ''https://evil'' ''/'' = ''https://evil''" by code_simp
  moreover have "read_token ''{\"access_token\":\"t\"}'' = Some ''t''" by code_simp
  moreover have "read_profile ''{\"email\":\"bob@b.com\"}''
      = Some \<lparr>sp_email = ''bob@b.com'', sp_name = [], sp_sub = []\<rparr>" by code_simp
  ultimately show ?thesis by (simp add: issuer_names_def demo_idp_def)
qed

theorem sso_hands_out_accounts_witness:
  "\<exists>cfg s1 t s2. create_sso_route demo_svc (\<lambda>u. True) (demo_call ''Bearer xyz'') demo_sso (demo_db, 10) = (Inr cfg, s1)
     \<and> sso_callback_route demo_svc demo_idp (demo_call ''Bearer xyz'') ''okta'' ''code'' ''state'' s1
       = (Inr (bob_row, t), s2)"
proof -
  have carry: "carries (av_jwt demo_svc) (demo_call ''Bearer xyz'') demo_claims"
    using demo_carries by (simp add: demo_svc_def)
  have org: "ae_parse_uuid (av_env demo_svc) (jc_org demo_claims) = Some 2"
    using demo_claims_parse(2) by (simp add: demo_svc_def)
  obtain w0 where auth: "require_auth_or_api_key (av_jwt demo_svc) (Some (av_env demo_svc)) (demo_call ''Bearer xyz'')
      (demo_db, 10) = (Inr (ctx_of demo_claims), (demo_db, w0))"
    using carries_passes [OF carry, of "Some (av_env demo_svc)" "(demo_db, 10)"] by auto
  have "\<exists>cfg s1. create_sso_config demo_svc 2 demo_sso (demo_db, w0) = (Inr cfg, s1)"
    by (simp add: create_sso_config_def auth_op_defs sv_stmt_def demo_defs upsert_sso_def org_exists_def demo_db_def)
  then obtain cfg s1 where c: "create_sso_config demo_svc 2 demo_sso (demo_db, w0) = (Inr cfg, s1)" by blast
  have "hc_org (ctx_of demo_claims) = jc_org demo_claims" by (simp add: ctx_of_def)
  then have create: "create_sso_route demo_svc (\<lambda>u. True) (demo_call ''Bearer xyz'') demo_sso (demo_db, 10) = (Inr cfg, s1)"
    using c org by (simp add: create_sso_route_def protected_route_def and_handle_def auth create_sso_h_def parsed_def
        answer_def valid_sso_request_def demo_sso_def)
  have "\<exists>t s2 cl. sso_callback_route demo_svc demo_idp (demo_call ''Bearer xyz'') (so_provider demo_sso) ''code'' ''state'' s1
      = (Inr (bob_row, t), s2)
    \<and> jv_sign (av_jwt demo_svc) cl = Inr t \<and> jc_sub cl = ae_show_uuid (jv_env (av_jwt demo_svc)) (us_id bob_row)
    \<and> jc_org cl = (case us_org bob_row of None \<Rightarrow> [] | Some i \<Rightarrow> ae_show_uuid (jv_env (av_jwt demo_svc)) i)
    \<and> jc_role cl = us_role bob_row"
    by (rule sso_hands_out_accounts [OF create _ _ carry org])
      (use demo_quiet demo_idp_names in \<open>auto simp: demo_sso_def demo_defs demo_db_def alice_row_def bob_row_def\<close>)
  with create show ?thesis by (auto simp: demo_sso_def)
qed

end
