(* ===== verification/Webhooks.thy ===== *)
theory Webhooks
  imports SecretBox JsonText Sorting
begin

text \<open>
  Webhooks of an organisation: the tables of \<open>repository/webhook_repository.go\<close> and the dispatcher of
  \<open>webhook/dispatcher.go\<close>. A delivery is attempted on a goroutine of its own when it is written and by
  the polling worker afterwards; what is started on a goroutine is handed back by the operation that
  starts it. The HTTP client, the digest and the database's own failures are parameters.
\<close>

section \<open>Tables\<close>

record webhook_endpoint =
  we_org :: uuid
  we_url :: string
  we_secret :: string
  we_events :: "string list"
  we_description :: string
  we_enabled :: bool
  we_by :: "uuid option"
  we_created :: int

record webhook_delivery =
  wd_endpoint :: uuid
  wd_org :: uuid
  wd_event :: uuid
  wd_type :: string
  wd_payload :: string
  wd_status :: string
  wd_attempts :: int
  wd_code :: "int option"
  wd_error :: "string option"
  wd_next :: "int option"
  wd_delivered :: "int option"
  wd_created :: int

text \<open>Secrets are kept sealed in the table; rows are in the order of their insertion.\<close>

record webhook_db =
  wh_endpoints :: "(uuid \<times> webhook_endpoint) list"
  wh_deliveries :: "(uuid \<times> webhook_delivery) list"

definition wd_pending :: string where "wd_pending = ''pending''"
definition wd_succeeded :: string where "wd_succeeded = ''succeeded''"
definition wd_failed :: string where "wd_failed = ''failed''"

lemmas delivery_status_defs = wd_pending_def wd_succeeded_def wd_failed_def

definition webhook_events :: "string list" where
  "webhook_events = [''run.completed'', ''run.failed'', ''approval.requested'', ''approval.decided'']"

definition webhook_not_found :: go_err where
  "webhook_not_found = ErrSentinel ''webhook endpoint not found''"

text \<open>The columns of an endpoint with its secret opened.\<close>

definition scan_endpoint ::
  "aead option \<Rightarrow> uuid \<times> webhook_endpoint \<Rightarrow> go_err + uuid \<times> webhook_endpoint" where
  "scan_endpoint box x =
     (case open_secret box (we_secret (snd x)) of
        Inl e \<Rightarrow> Inl (ErrWrap ''webhook_repo: open secret: '' e)
      | Inr plain \<Rightarrow> Inr (fst x, (snd x)\<lparr>we_secret := plain\<rparr>))"

fun scan_endpoints ::
  "aead option \<Rightarrow> (uuid \<times> webhook_endpoint) list \<Rightarrow> go_err + (uuid \<times> webhook_endpoint) list" where
  "scan_endpoints box [] = Inr []"
| "scan_endpoints box (x # xs) =
     (case scan_endpoint box x of
        Inl e \<Rightarrow> Inl e
      | Inr y \<Rightarrow> (case scan_endpoints box xs of Inl e \<Rightarrow> Inl e | Inr ys \<Rightarrow> Inr (y # ys)))"

definition find_endpoint :: "uuid \<Rightarrow> webhook_db \<Rightarrow> webhook_endpoint option" where
  "find_endpoint i db = map_of (wh_endpoints db) i"

definition create_endpoint ::
  "aead option \<Rightarrow> go_err + string \<Rightarrow> uuid \<Rightarrow> webhook_endpoint \<Rightarrow> int \<Rightarrow> webhook_db \<Rightarrow> go_err + unit \<times> webhook_db" where
  "create_endpoint box drawn i ep now db =
     (case seal_secret box drawn (we_secret ep) of
        Inl e \<Rightarrow> Inl (ErrWrap ''webhook_repo: seal secret: '' e)
      | Inr sealed \<Rightarrow>
          if find_endpoint i db \<noteq> None then Inl (ErrText ''constraint violation'')
          else Inr ((), db\<lparr>wh_endpoints := wh_endpoints db @ [(i, ep\<lparr>we_secret := sealed, we_created := now\<rparr>)]\<rparr>))"

definition get_endpoint :: "aead option \<Rightarrow> uuid \<Rightarrow> uuid \<Rightarrow> webhook_db \<Rightarrow> go_err + webhook_endpoint" where
  "get_endpoint box org i db =
     (case find_endpoint i db of
        None \<Rightarrow> Inl webhook_not_found
      | Some ep \<Rightarrow> if we_org ep \<noteq> org then Inl webhook_not_found else map_sum id snd (scan_endpoint box (i, ep)))"

definition endpoint_for_delivery :: "aead option \<Rightarrow> uuid \<Rightarrow> webhook_db \<Rightarrow> go_err + webhook_endpoint" where
  "endpoint_for_delivery box i db =
     (case find_endpoint i db of
        None \<Rightarrow> Inl webhook_not_found
      | Some ep \<Rightarrow> map_sum id snd (scan_endpoint box (i, ep)))"

definition older_endpoint :: "uuid \<times> webhook_endpoint \<Rightarrow> uuid \<times> webhook_endpoint \<Rightarrow> bool" where
  "older_endpoint x y \<longleftrightarrow> we_created (snd x) < we_created (snd y)"

definition list_endpoints :: "aead option \<Rightarrow> uuid \<Rightarrow> webhook_db \<Rightarrow> go_err + (uuid \<times> webhook_endpoint) list" where
  "list_endpoints box org db =
     scan_endpoints box (stable_sort older_endpoint (filter (\<lambda>(i, ep). we_org ep = org) (wh_endpoints db)))"

definition subscribed :: "string \<Rightarrow> webhook_endpoint \<Rightarrow> bool" where
  "subscribed ty ep \<longleftrightarrow> ty \<in> set (we_events ep) \<or> ''*'' \<in> set (we_events ep)"

definition list_subscribed ::
  "aead option \<Rightarrow> uuid \<Rightarrow> string \<Rightarrow> webhook_db \<Rightarrow> go_err + (uuid \<times> webhook_endpoint) list" where
  "list_subscribed box org ty db =
     scan_endpoints box (stable_sort older_endpoint
       (filter (\<lambda>(i, ep). we_org ep = org \<and> we_enabled ep \<and> subscribed ty ep) (wh_endpoints db)))"

definition update_endpoint ::
  "aead option \<Rightarrow> go_err + string \<Rightarrow> uuid \<Rightarrow> webhook_endpoint \<Rightarrow> webhook_db \<Rightarrow> go_err + unit \<times> webhook_db" where
  "update_endpoint box drawn i ep db =
     (case seal_secret box drawn (we_secret ep) of
        Inl e \<Rightarrow> Inl (ErrWrap ''webhook_repo: seal secret: '' e)
      | Inr sealed \<Rightarrow>
          (case find_endpoint i db of
             None \<Rightarrow> Inl webhook_not_found
           | Some old \<Rightarrow>
               if we_org old \<noteq> we_org ep then Inl webhook_not_found
               else Inr ((), db\<lparr>wh_endpoints := map (\<lambda>(j, x). (j, if j = i then
                   x\<lparr>we_url := we_url ep, we_secret := sealed, we_events := we_events ep,
                     we_description := we_description ep, we_enabled := we_enabled ep\<rparr> else x)) (wh_endpoints db)\<rparr>)))"

text \<open>The deliveries of an endpoint go with it.\<close>

definition delete_endpoint :: "uuid \<Rightarrow> uuid \<Rightarrow> webhook_db \<Rightarrow> go_err + unit \<times> webhook_db" where
  "delete_endpoint org i db =
     (case find_endpoint i db of
        None \<Rightarrow> Inl webhook_not_found
      | Some ep \<Rightarrow>
          if we_org ep \<noteq> org then Inl webhook_not_found
          else Inr ((), db\<lparr>wh_endpoints := filter (\<lambda>(j, x). j \<noteq> i) (wh_endpoints db),
                         wh_deliveries := filter (\<lambda>(j, d). wd_endpoint d \<noteq> i) (wh_deliveries db)\<rparr>))"

definition find_delivery :: "uuid \<Rightarrow> webhook_db \<Rightarrow> webhook_delivery option" where
  "find_delivery i db = map_of (wh_deliveries db) i"

text \<open>
  The payload column is a \<open>jsonb\<close>: \<open>jsonb\<close> says what the database gives back for a text that it takes.
\<close>

definition create_delivery ::
  "(string \<Rightarrow> go_err + string) \<Rightarrow> uuid \<Rightarrow> webhook_delivery \<Rightarrow> int \<Rightarrow> webhook_db \<Rightarrow> go_err + unit \<times> webhook_db" where
  "create_delivery jsonb i d now db =
     (case jsonb (wd_payload d) of
        Inl e \<Rightarrow> Inl e
      | Inr payload \<Rightarrow>
          if find_delivery i db \<noteq> None \<or> find_endpoint (wd_endpoint d) db = None
          then Inl (ErrText ''constraint violation'')
          else Inr ((), db\<lparr>wh_deliveries := wh_deliveries db @ [(i, d\<lparr>wd_payload := payload, wd_attempts := 0,
                 wd_code := None, wd_error := None, wd_delivered := None, wd_created := now\<rparr>)]\<rparr>))"

definition delivery_due :: "int \<Rightarrow> webhook_delivery \<Rightarrow> bool" where
  "delivery_due now d \<longleftrightarrow> wd_status d = wd_pending \<and> (case wd_next d of None \<Rightarrow> False | Some t \<Rightarrow> t \<le> now)"

definition next_before :: "uuid \<times> webhook_delivery \<Rightarrow> uuid \<times> webhook_delivery \<Rightarrow> bool" where
  "next_before x y \<longleftrightarrow> the (wd_next (snd x)) < the (wd_next (snd y))"

definition due_deliveries :: "nat \<Rightarrow> int \<Rightarrow> webhook_db \<Rightarrow> uuid list" where
  "due_deliveries limit now db =
     map fst (take limit (stable_sort next_before (filter (\<lambda>(i, d). delivery_due now d) (wh_deliveries db))))"

definition claim_due ::
  "nat \<Rightarrow> int \<Rightarrow> int \<Rightarrow> webhook_db \<Rightarrow> (uuid \<times> webhook_delivery) list \<times> webhook_db" where
  "claim_due limit lease now db =
     (let due = due_deliveries limit now db;
          rows = map (\<lambda>(j, d). (j, if j \<in> set due then d\<lparr>wd_next := Some (now + lease)\<rparr> else d)) (wh_deliveries db)
      in (filter (\<lambda>(j, d). j \<in> set due) rows, db\<lparr>wh_deliveries := rows\<rparr>))"

record attempt_outcome =
  ao_status :: string
  ao_attempts :: int
  ao_code :: "int option"
  ao_error :: "string option"
  ao_next :: "int option"

definition note_attempt :: "attempt_outcome \<Rightarrow> int \<Rightarrow> webhook_delivery \<Rightarrow> webhook_delivery" where
  "note_attempt out now d =
     d\<lparr>wd_status := ao_status out, wd_attempts := ao_attempts out, wd_code := ao_code out,
       wd_error := ao_error out, wd_next := ao_next out,
       wd_delivered := (if ao_status out = wd_succeeded then Some now else wd_delivered d)\<rparr>"

definition record_attempt :: "uuid \<Rightarrow> attempt_outcome \<Rightarrow> int \<Rightarrow> webhook_db \<Rightarrow> webhook_db" where
  "record_attempt i out now db =
     db\<lparr>wh_deliveries := map (\<lambda>(j, d). (j, if j = i then note_attempt out now d else d)) (wh_deliveries db)\<rparr>"

definition newer_delivery :: "uuid \<times> webhook_delivery \<Rightarrow> uuid \<times> webhook_delivery \<Rightarrow> bool" where
  "newer_delivery x y \<longleftrightarrow> wd_created (snd x) > wd_created (snd y)"

definition list_deliveries :: "uuid \<Rightarrow> uuid \<Rightarrow> int \<Rightarrow> webhook_db \<Rightarrow> (uuid \<times> webhook_delivery) list" where
  "list_deliveries org i limit db =
     take (nat (if limit \<le> 0 \<or> limit > 200 then 50 else limit))
       (stable_sort newer_delivery
         (filter (\<lambda>(j, d). wd_org d = org \<and> wd_endpoint d = i) (wh_deliveries db)))"

end
