(* ===== verification/WebhookDispatch.thy ===== *)
theory WebhookDispatch
  imports Webhooks
begin

text \<open>
  The dispatcher of \<open>webhook/dispatcher.go\<close>: an event becomes one delivery for each subscribed endpoint,
  attempted at once on a goroutine and again by the polling worker until it succeeds or has no attempts
  left. The operations are those of one process; their interleavings are in \<open>WebhookProps\<close>.
\<close>

type_synonym 'w hooks = "webhook_db \<times> 'w"

record webhook_request =
  wq_url :: string
  wq_headers :: "(string \<times> string) list"
  wq_body :: string

text \<open>
  \<open>he_post\<close> is the HTTP client, which answers with an error or a status; \<open>he_hmac\<close> is the digest;
  \<open>he_fault\<close> says which repository calls fail; \<open>he_time_text\<close> and \<open>he_uuid_text\<close> print.
\<close>

record 'w hook_env =
  he_box :: "aead option"
  he_nonce :: "'w hooks \<Rightarrow> go_err + string"
  he_backoff :: "int list"
  he_lease :: int
  he_now :: "'w hooks \<Rightarrow> int"
  he_event_id :: "'w hooks \<Rightarrow> uuid"
  he_delivery_id :: "'w hooks \<Rightarrow> uuid"
  he_jsonb :: "string \<Rightarrow> go_err + string"
  he_hmac :: "string \<Rightarrow> string \<Rightarrow> string"
  he_post :: "webhook_request \<Rightarrow> 'w hooks \<Rightarrow> (go_err + int) \<times> 'w hooks"
  he_fault :: "'w hooks \<Rightarrow> string \<Rightarrow> go_err option"
  he_time_text :: "int \<Rightarrow> string"
  he_uuid_text :: "uuid \<Rightarrow> string"

text \<open>\<open>NewDispatcher\<close> puts these in the place of options that are not given.\<close>

definition default_backoff :: "int list" where
  "default_backoff = [30000, 120000, 600000, 1800000, 7200000]"

definition default_lease :: int where "default_lease = 60000"
definition default_timeout :: int where "default_timeout = 10000"

definition with_hook_defaults :: "'w hook_env \<Rightarrow> 'w hook_env" where
  "with_hook_defaults env =
     env\<lparr>he_backoff := (if he_backoff env = [] then default_backoff else he_backoff env),
         he_lease := (if he_lease env \<le> 0 then default_lease else he_lease env)\<rparr>"

definition max_attempts :: "'w hook_env \<Rightarrow> int" where
  "max_attempts env = int (length (he_backoff env)) + 1"

definition hook_read :: "'w hook_env \<Rightarrow> string \<Rightarrow> (webhook_db \<Rightarrow> go_err + 'a) \<Rightarrow> 'w hooks \<Rightarrow> go_err + 'a" where
  "hook_read env op f s = (case he_fault env s op of Some e \<Rightarrow> Inl e | None \<Rightarrow> f (fst s))"

definition hook_write ::
  "'w hook_env \<Rightarrow> string \<Rightarrow> (webhook_db \<Rightarrow> go_err + unit \<times> webhook_db) \<Rightarrow> 'w hooks \<Rightarrow> (go_err + unit) \<times> 'w hooks" where
  "hook_write env op f s =
     (case he_fault env s op of
        Some e \<Rightarrow> (Inl e, s)
      | None \<Rightarrow> (case f (fst s) of Inl e \<Rightarrow> (Inl e, s) | Inr (u, db) \<Rightarrow> (Inr (), (db, snd s))))"

section \<open>One attempt\<close>

definition sign :: "'w hook_env \<Rightarrow> string \<Rightarrow> int \<Rightarrow> string \<Rightarrow> string" where
  "sign env secret ts body = ''sha256='' @ hex_encode (he_hmac env secret (show_int ts @ ''.'' @ body))"

definition verify_signature :: "'w hook_env \<Rightarrow> string \<Rightarrow> int \<Rightarrow> string \<Rightarrow> string \<Rightarrow> bool" where
  "verify_signature env secret ts body header \<longleftrightarrow> sign env secret ts body = header"

definition delivery_request ::
  "'w hook_env \<Rightarrow> int \<Rightarrow> uuid \<Rightarrow> webhook_endpoint \<Rightarrow> webhook_delivery \<Rightarrow> webhook_request" where
  "delivery_request env ts i ep d =
     \<lparr>wq_url = we_url ep,
      wq_headers = [(''Content-Type'', ''application/json''), (''User-Agent'', ''JobShout-Webhooks/1''),
        (''X-JobShout-Event'', wd_type d), (''X-JobShout-Event-Id'', he_uuid_text env (wd_event d)),
        (''X-JobShout-Delivery'', he_uuid_text env i), (''X-JobShout-Timestamp'', show_int ts),
        (''X-JobShout-Signature'', sign env (we_secret ep) ts (wd_payload d))],
      wq_body = wd_payload d\<rparr>"

text \<open>\<open>n\<close> is the number of the attempt, from 1.\<close>

definition attempt_result :: "'w hook_env \<Rightarrow> int \<Rightarrow> int \<Rightarrow> go_err + int \<Rightarrow> attempt_outcome" where
  "attempt_result env now n res =
     (case res of
        Inr code \<Rightarrow>
          if 200 \<le> code \<and> code < 300 then
            \<lparr>ao_status = wd_succeeded, ao_attempts = n, ao_code = Some code, ao_error = None, ao_next = None\<rparr>
          else
            \<lparr>ao_status = (if n \<ge> max_attempts env then wd_failed else wd_pending), ao_attempts = n,
             ao_code = (if code = 0 then None else Some code),
             ao_error = Some (take 500 (''HTTP '' @ show_int code)),
             ao_next = (if n \<ge> max_attempts env then None else Some (now + he_backoff env ! nat (n - 1)))\<rparr>
      | Inl e \<Rightarrow>
          \<lparr>ao_status = (if n \<ge> max_attempts env then wd_failed else wd_pending), ao_attempts = n,
           ao_code = None, ao_error = Some (take 500 (err_text e)),
           ao_next = (if n \<ge> max_attempts env then None else Some (now + he_backoff env ! nat (n - 1)))\<rparr>)"

definition disabled_result :: "int \<Rightarrow> attempt_outcome" where
  "disabled_result n =
     \<lparr>ao_status = wd_failed, ao_attempts = n, ao_code = None, ao_error = Some ''endpoint disabled'', ao_next = None\<rparr>"

definition note_outcome :: "'w hook_env \<Rightarrow> uuid \<Rightarrow> attempt_outcome \<Rightarrow> 'w hooks \<Rightarrow> 'w hooks" where
  "note_outcome env i out s =
     snd (hook_write env ''RecordAttempt'' (\<lambda>db. Inr ((), record_attempt i out (he_now env s) db)) s)"

definition attempt ::
  "'w hook_env \<Rightarrow> uuid \<Rightarrow> webhook_delivery \<Rightarrow> webhook_endpoint \<Rightarrow> 'w hooks \<Rightarrow> attempt_outcome \<times> 'w hooks" where
  "attempt env i d ep s =
     (let n = wd_attempts d + 1 in
      if \<not> we_enabled ep then (disabled_result n, note_outcome env i (disabled_result n) s)
      else
        (let (res, s1) = he_post env (delivery_request env (he_now env s div 1000) i ep d) s;
             out = attempt_result env (he_now env s1) n res
         in (out, note_outcome env i out s1)))"

section \<open>Events\<close>

definition envelope :: "'w hook_env \<Rightarrow> uuid \<Rightarrow> string \<Rightarrow> int \<Rightarrow> uuid \<Rightarrow> json \<Rightarrow> json" where
  "envelope env event ty now org data =
     JObj [(''id'', JStr (he_uuid_text env event)), (''type'', JStr ty),
           (''created_at'', JStr (he_time_text env now)), (''org_id'', JStr (he_uuid_text env org)), (''data'', data)]"

definition new_delivery :: "'w hook_env \<Rightarrow> uuid \<Rightarrow> webhook_endpoint \<Rightarrow> uuid \<Rightarrow> string \<Rightarrow> string \<Rightarrow> int \<Rightarrow> webhook_delivery" where
  "new_delivery env j ep event ty body now =
     \<lparr>wd_endpoint = j, wd_org = we_org ep, wd_event = event, wd_type = ty, wd_payload = body,
      wd_status = wd_pending, wd_attempts = 0, wd_code = None, wd_error = None,
      wd_next = Some (now + he_lease env), wd_delivered = None, wd_created = now\<rparr>"

definition prepare ::
  "'w hook_env \<Rightarrow> uuid \<Rightarrow> webhook_endpoint \<Rightarrow> uuid \<Rightarrow> string \<Rightarrow> string \<Rightarrow> 'w hooks
    \<Rightarrow> (go_err + uuid \<times> webhook_delivery) \<times> 'w hooks" where
  "prepare env j ep event ty body s =
     (let i = he_delivery_id env s;
          d = new_delivery env j ep event ty body (he_now env s)
      in case hook_write env ''CreateDelivery'' (create_delivery (he_jsonb env) i d (he_now env s)) s of
           (Inl e, s') \<Rightarrow> (Inl e, s') | (Inr u, s') \<Rightarrow> (Inr (i, d), s'))"

text \<open>An endpoint whose delivery cannot be written is passed over; the others get theirs.\<close>

fun enqueue_all ::
  "'w hook_env \<Rightarrow> uuid \<Rightarrow> string \<Rightarrow> string \<Rightarrow> (uuid \<times> webhook_endpoint) list \<Rightarrow> 'w hooks
    \<Rightarrow> (uuid \<times> webhook_delivery \<times> webhook_endpoint) list \<times> 'w hooks" where
  "enqueue_all env event ty body [] s = ([], s)"
| "enqueue_all env event ty body ((j, ep) # eps) s =
     (case prepare env j ep event ty body s of
        (Inl e, s1) \<Rightarrow> enqueue_all env event ty body eps s1
      | (Inr (i, d), s1) \<Rightarrow>
          (let (started, s2) = enqueue_all env event ty body eps s1 in ((i, d, ep) # started, s2)))"

text \<open>\<open>Emit\<close>, with the attempts it starts on goroutines.\<close>

definition emit_event ::
  "'w hook_env \<Rightarrow> uuid \<Rightarrow> string \<Rightarrow> json \<Rightarrow> 'w hooks
    \<Rightarrow> (uuid \<times> webhook_delivery \<times> webhook_endpoint) list \<times> 'w hooks" where
  "emit_event env org ty data s =
     (if org = uuid_nil then ([], s)
      else case hook_read env ''ListSubscribed'' (list_subscribed (he_box env) org ty) s of
        Inl e \<Rightarrow> ([], s)
      | Inr eps \<Rightarrow>
          (let event = he_event_id env s
           in enqueue_all env event ty (print_json (envelope env event ty (he_now env s) org data)) eps s))"

definition ping ::
  "'w hook_env \<Rightarrow> uuid \<Rightarrow> webhook_endpoint \<Rightarrow> 'w hooks \<Rightarrow> (go_err + attempt_outcome) \<times> 'w hooks" where
  "ping env j ep s =
     (let event = he_event_id env s;
          data = JObj [(''endpoint_id'', JStr (he_uuid_text env j)), (''message'', JStr ''JobShout webhook test'')]
      in case prepare env j ep event ''ping'' (print_json (envelope env event ''ping'' (he_now env s) (we_org ep) data)) s of
           (Inl e, s1) \<Rightarrow> (Inl e, s1)
         | (Inr (i, d), s1) \<Rightarrow> (let (out, s2) = attempt env i d ep s1 in (Inr out, s2)))"

section \<open>Retries\<close>

definition claim_batch :: nat where "claim_batch = 50"

definition lost_result :: "webhook_delivery \<Rightarrow> attempt_outcome" where
  "lost_result d =
     \<lparr>ao_status = wd_failed, ao_attempts = wd_attempts d, ao_code = None, ao_error = Some ''endpoint deleted'',
      ao_next = None\<rparr>"

fun retry_each :: "'w hook_env \<Rightarrow> (uuid \<times> webhook_delivery) list \<Rightarrow> 'w hooks \<Rightarrow> 'w hooks" where
  "retry_each env [] s = s"
| "retry_each env ((i, d) # due) s =
     retry_each env due
       (case hook_read env ''GetEndpointForDelivery'' (endpoint_for_delivery (he_box env) (wd_endpoint d)) s of
          Inl e \<Rightarrow> note_outcome env i (lost_result d) s
        | Inr ep \<Rightarrow> snd (attempt env i d ep s))"

definition retry_due :: "'w hook_env \<Rightarrow> 'w hooks \<Rightarrow> nat \<times> 'w hooks" where
  "retry_due env s =
     (case he_fault env s ''ClaimDue'' of
        Some e \<Rightarrow> (0, s)
      | None \<Rightarrow>
          (let (due, db) = claim_due claim_batch (he_lease env) (he_now env s) (fst s)
           in (length due, retry_each env due (db, snd s))))"

section \<open>Endpoints\<close>

definition known_event :: "string \<Rightarrow> bool" where
  "known_event ev \<longleftrightarrow> ev = ''*'' \<or> ev \<in> set webhook_events"

fun check_events :: "string list \<Rightarrow> string list \<Rightarrow> go_err + string list" where
  "check_events seen [] = Inr []"
| "check_events seen (ev # evs) =
     (if \<not> known_event ev then Inl (ErrText (''unknown event '' @ quote ev))
      else if ev \<in> set seen then check_events seen evs
      else case check_events (ev # seen) evs of Inl e \<Rightarrow> Inl e | Inr out \<Rightarrow> Inr (ev # out))"

definition validate_webhook_events :: "string list \<Rightarrow> go_err + string list" where
  "validate_webhook_events evs =
     (case check_events [] evs of
        Inl e \<Rightarrow> Inl e
      | Inr [] \<Rightarrow> Inl (ErrText ''events: subscribe to at least one event'')
      | Inr out \<Rightarrow> Inr out)"

end
