(* ===== verification/WebhookProps.thy ===== *)
theory WebhookProps
  imports WebhookDispatch
begin

text \<open>
  The life of deliveries under any number of workers, replicas and crashes: a step is one statement of
  the database or one POST. \<open>timely\<close> says that workers finish within the lease of what they hold.
\<close>

section \<open>Statements\<close>

lemma find_delivery_map:
  "map_of (map (\<lambda>(j, d). (j, f j d)) ds) i = map_option (f i) (map_of ds i)"
  by (induction ds) auto

lemma find_record [simp]:
  "find_delivery j (record_attempt i out now db)
     = (if j = i then map_option (note_attempt out now) (find_delivery i db) else find_delivery j db)"
  by (simp add: find_delivery_def record_attempt_def find_delivery_map option.map_ident)

lemma delivery_keys_record [simp]:
  "map fst (wh_deliveries (record_attempt i out now db)) = map fst (wh_deliveries db)"
  by (auto simp: record_attempt_def)

lemma due_deliveries_due:
  assumes "distinct (map fst (wh_deliveries db))" and "i \<in> set (due_deliveries k now db)"
  shows "\<exists>d. find_delivery i db = Some d \<and> delivery_due now d"
proof -
  let ?due = "filter (\<lambda>(i, d). delivery_due now d) (wh_deliveries db)"
  have "i \<in> fst ` set (take k (stable_sort next_before ?due))" using assms(2) by (simp add: due_deliveries_def)
  then have "i \<in> fst ` set ?due" using set_take_subset set_stable_sort by fastforce
  then show ?thesis using assms(1) by (auto simp: find_delivery_def)
qed

lemma claim_due_cases:
  assumes "claim_due k lease now db = (due, db')" and "distinct (map fst (wh_deliveries db))"
  shows "map fst (wh_deliveries db') = map fst (wh_deliveries db) \<and> distinct (map fst due)
    \<and> (\<forall>i d. (i, d) \<in> set due \<longleftrightarrow> find_delivery i db' = Some d \<and> i \<in> fst ` set due)
    \<and> (\<forall>i. find_delivery i db' = (if i \<in> fst ` set due
         then map_option (\<lambda>d. d\<lparr>wd_next := Some (now + lease)\<rparr>) (find_delivery i db) else find_delivery i db))
    \<and> (\<forall>i \<in> fst ` set due. \<exists>d. find_delivery i db = Some d \<and> delivery_due now d)"
proof -
  let ?ids = "due_deliveries k now db"
  define rows where "rows = map (\<lambda>(j, d). (j, if j \<in> set ?ids then d\<lparr>wd_next := Some (now + lease)\<rparr> else d)) (wh_deliveries db)"
  have due: "due = filter (\<lambda>(j, d). j \<in> set ?ids) rows" and db': "db' = db\<lparr>wh_deliveries := rows\<rparr>"
    using assms(1) by (auto simp: claim_due_def Let_def rows_def)
  have keys: "map fst rows = map fst (wh_deliveries db)" by (auto simp: rows_def)
  then have dist: "distinct (map fst rows)" using assms(2) by simp
  have "set ?ids \<subseteq> fst ` set (wh_deliveries db)"
    using due_deliveries_due [OF assms(2)] by (force simp: find_delivery_def dest: map_of_SomeD)
  moreover have "fst ` set rows = fst ` set (wh_deliveries db)" using arg_cong [OF keys, of set] by simp
  moreover have "fst ` set due = fst ` set rows \<inter> set ?ids" by (force simp: due)
  ultimately have ids: "fst ` set due = set ?ids" by blast
  have "distinct (map fst due)" using dist by (simp add: due distinct_map_filter)
  moreover have "(i, d) \<in> set due \<longleftrightarrow> find_delivery i db' = Some d \<and> i \<in> set ?ids" for i d
    using dist by (auto simp: due db' find_delivery_def)
  moreover have "find_delivery i db' = (if i \<in> set ?ids
      then map_option (\<lambda>d. d\<lparr>wd_next := Some (now + lease)\<rparr>) (find_delivery i db) else find_delivery i db)" for i
    unfolding db' find_delivery_def rows_def by (simp add: find_delivery_map option.map_ident)
  ultimately show ?thesis using keys due_deliveries_due [OF assms(2)] by (auto simp: ids db')
qed

section \<open>Workers\<close>

text \<open>
  A worker holds one delivery until the end of the lease; once it has posted, or has given the delivery
  up, it has an outcome to record. \<open>hk_used\<close> are the ids the database has handed out, \<open>hk_posts\<close> the
  requests sent and \<open>hk_lost\<close> the workers that ended without recording.
\<close>

datatype hook_worker = Holding uuid webhook_delivery int | Posted uuid attempt_outcome int

fun worker_id :: "hook_worker \<Rightarrow> uuid" where
  "worker_id (Holding i d t) = i"
| "worker_id (Posted i out t) = i"

fun worker_end :: "hook_worker \<Rightarrow> int" where
  "worker_end (Holding i d t) = t"
| "worker_end (Posted i out t) = t"

record hook_state =
  hk_now :: int
  hk_db :: webhook_db
  hk_workers :: "hook_worker list"
  hk_used :: "uuid list"
  hk_posts :: "uuid list"
  hk_lost :: "uuid list"

definition idle_hooks :: "int \<Rightarrow> (uuid \<times> webhook_endpoint) list \<Rightarrow> hook_state" where
  "idle_hooks now eps =
     \<lparr>hk_now = now, hk_db = \<lparr>wh_endpoints = eps, wh_deliveries = []\<rparr>, hk_workers = [], hk_used = [],
      hk_posts = [], hk_lost = []\<rparr>"

inductive hook_step :: "'w hook_env \<Rightarrow> bool \<Rightarrow> hook_state \<Rightarrow> hook_state \<Rightarrow> bool" for env timely where
  create: "create_delivery (he_jsonb env) i (new_delivery env j ep event ty body (hk_now s)) (hk_now s) (hk_db s)
      = Inr ((), db) \<Longrightarrow> i \<notin> set (hk_used s) \<Longrightarrow>
    hook_step env timely s (s\<lparr>hk_db := db, hk_used := i # hk_used s,
      hk_workers := Holding i (new_delivery env j ep event ty body (hk_now s)) (hk_now s + he_lease env) # hk_workers s\<rparr>)"
| claim: "claim_due claim_batch (he_lease env) (hk_now s) (hk_db s) = (due, db) \<Longrightarrow>
    hook_step env timely s (s\<lparr>hk_db := db,
      hk_workers := map (\<lambda>(i, d). Holding i d (hk_now s + he_lease env)) due @ hk_workers s\<rparr>)"
| post: "hk_workers s = ws @ Holding i d t # ws' \<Longrightarrow>
    hook_step env timely s (s\<lparr>hk_posts := i # hk_posts s,
      hk_workers := ws @ Posted i (attempt_result env (hk_now s) (wd_attempts d + 1) res) t # ws'\<rparr>)"
| give_up: "hk_workers s = ws @ Holding i d t # ws' \<Longrightarrow>
    out = disabled_result (wd_attempts d + 1) \<or> out = lost_result d \<Longrightarrow>
    hook_step env timely s (s\<lparr>hk_workers := ws @ Posted i out t # ws'\<rparr>)"
| note_it: "hk_workers s = ws @ Posted i out t # ws' \<Longrightarrow>
    hook_step env timely s (s\<lparr>hk_db := record_attempt i out (hk_now s) (hk_db s), hk_workers := ws @ ws'\<rparr>)"
| lose: "hk_workers s = ws @ w # ws' \<Longrightarrow>
    hook_step env timely s (s\<lparr>hk_workers := ws @ ws', hk_lost := worker_id w # hk_lost s\<rparr>)"
| drop_endpoint: "delete_endpoint org j (hk_db s) = Inr ((), db) \<Longrightarrow>
    hook_step env timely s (s\<lparr>hk_db := db\<rparr>)"
| pass: "hk_now s \<le> now \<Longrightarrow> timely \<longrightarrow> (\<forall>w \<in> set (hk_workers s). now < worker_end w) \<Longrightarrow>
    hook_step env timely s (s\<lparr>hk_now := now\<rparr>)"

inductive hook_reach :: "'w hook_env \<Rightarrow> bool \<Rightarrow> hook_state \<Rightarrow> hook_state \<Rightarrow> bool" for env timely s where
  start: "hook_reach env timely s s"
| step: "hook_reach env timely s s1 \<Longrightarrow> hook_step env timely s1 s2 \<Longrightarrow> hook_reach env timely s s2"

lemmas hook_reach_steps = hook_reach.start hook_reach.step

section \<open>Invariant\<close>

text \<open>The row of a delivery that a worker holds is the one that the worker read.\<close>

definition row_held :: "webhook_db \<Rightarrow> hook_worker \<Rightarrow> bool" where
  "row_held db w \<longleftrightarrow>
     (case find_delivery (worker_id w) db of
        None \<Rightarrow> True
      | Some r \<Rightarrow> wd_status r = wd_pending \<and> wd_next r = Some (worker_end w)
          \<and> (case w of Holding i d t \<Rightarrow> wd_attempts r = wd_attempts d
               | Posted i out t \<Rightarrow> ao_attempts out \<le> wd_attempts r + 1))"

definition posts_counted :: "'w hook_env \<Rightarrow> hook_state \<Rightarrow> hook_worker \<Rightarrow> bool" where
  "posts_counted env s w \<longleftrightarrow>
     (case w of
        Holding i d t \<Rightarrow> int (count_list (hk_posts s) i) \<le> wd_attempts d + int (count_list (hk_lost s) i)
          \<and> wd_attempts d < max_attempts env
      | Posted i out t \<Rightarrow> int (count_list (hk_posts s) i) \<le> ao_attempts out + int (count_list (hk_lost s) i)
          \<and> ao_attempts out \<le> max_attempts env \<and> (ao_status out = wd_pending \<longrightarrow> ao_attempts out < max_attempts env))"

definition row_counted :: "'w hook_env \<Rightarrow> hook_state \<Rightarrow> uuid \<Rightarrow> webhook_delivery \<Rightarrow> bool" where
  "row_counted env s i d \<longleftrightarrow>
     (wd_status d = wd_pending \<longrightarrow> wd_attempts d < max_attempts env)
     \<and> (i \<notin> worker_id ` set (hk_workers s)
          \<longrightarrow> int (count_list (hk_posts s) i) \<le> wd_attempts d + int (count_list (hk_lost s) i))"

definition hooks_ok :: "'w hook_env \<Rightarrow> hook_state \<Rightarrow> bool" where
  "hooks_ok env s \<longleftrightarrow>
     distinct (map fst (wh_deliveries (hk_db s))) \<and> distinct (map worker_id (hk_workers s))
     \<and> fst ` set (wh_deliveries (hk_db s)) \<union> worker_id ` set (hk_workers s) \<union> set (hk_posts s) \<subseteq> set (hk_used s)
     \<and> (\<forall>w \<in> set (hk_workers s). hk_now s < worker_end w \<and> row_held (hk_db s) w \<and> posts_counted env s w)
     \<and> (\<forall>i d. find_delivery i (hk_db s) = Some d \<longrightarrow> row_counted env s i d)
     \<and> (\<forall>i. int (count_list (hk_posts s) i) \<le> max_attempts env + int (count_list (hk_lost s) i))"

lemma hooks_okD:
  assumes "hooks_ok env s"
  shows "distinct (map fst (wh_deliveries (hk_db s)))" and "distinct (map worker_id (hk_workers s))"
    and "fst ` set (wh_deliveries (hk_db s)) \<subseteq> set (hk_used s)"
    and "worker_id ` set (hk_workers s) \<subseteq> set (hk_used s)" and "set (hk_posts s) \<subseteq> set (hk_used s)"
    and "w \<in> set (hk_workers s) \<Longrightarrow> hk_now s < worker_end w"
    and "w \<in> set (hk_workers s) \<Longrightarrow> row_held (hk_db s) w"
    and "w \<in> set (hk_workers s) \<Longrightarrow> posts_counted env s w"
    and "find_delivery i (hk_db s) = Some d \<Longrightarrow> row_counted env s i d"
    and "int (count_list (hk_posts s) i) \<le> max_attempts env + int (count_list (hk_lost s) i)"
  using assms by (auto simp: hooks_ok_def)

lemma hooks_okI:
  assumes "distinct (map fst (wh_deliveries (hk_db s)))" and "distinct (map worker_id (hk_workers s))"
    and "fst ` set (wh_deliveries (hk_db s)) \<subseteq> set (hk_used s)"
    and "worker_id ` set (hk_workers s) \<subseteq> set (hk_used s)" and "set (hk_posts s) \<subseteq> set (hk_used s)"
    and "\<And>w. w \<in> set (hk_workers s) \<Longrightarrow> hk_now s < worker_end w \<and> row_held (hk_db s) w \<and> posts_counted env s w"
    and "\<And>i d. find_delivery i (hk_db s) = Some d \<Longrightarrow> row_counted env s i d"
    and "\<And>i. int (count_list (hk_posts s) i) \<le> max_attempts env + int (count_list (hk_lost s) i)"
  shows "hooks_ok env s"
  using assms by (simp add: hooks_ok_def)

lemma find_delivery_used:
  "hooks_ok env s \<Longrightarrow> find_delivery i (hk_db s) = Some d \<Longrightarrow> i \<in> set (hk_used s)"
  using hooks_okD(3) by (fastforce simp: find_delivery_def dest: map_of_SomeD)

lemma posts_unused: "hooks_ok env s \<Longrightarrow> i \<notin> set (hk_used s) \<Longrightarrow> count_list (hk_posts s) i = 0"
  using hooks_okD(5) by (fastforce simp: count_list_0_iff)

lemma create_delivery_cases:
  assumes "create_delivery jsonb i d now db = Inr ((), db')"
  shows "\<exists>body. jsonb (wd_payload d) = Inr body \<and> find_delivery i db = None
    \<and> wh_endpoints db' = wh_endpoints db
    \<and> wh_deliveries db' = wh_deliveries db @ [(i, d\<lparr>wd_payload := body, wd_attempts := 0, wd_code := None,
        wd_error := None, wd_delivered := None, wd_created := now\<rparr>)]"
  using assms by (auto simp: create_delivery_def split: sum.splits if_splits)

lemma find_delivery_append:
  "wh_deliveries db' = wh_deliveries db @ [(i, d)] \<Longrightarrow> find_delivery i db = None \<Longrightarrow>
   find_delivery j db' = (if j = i then Some d else find_delivery j db)"
  by (auto simp: find_delivery_def map_add_def split: option.splits)

lemma hooks_ok_create:
  assumes "hooks_ok env s" and "0 < he_lease env" and "i \<notin> set (hk_used s)"
    and "create_delivery (he_jsonb env) i (new_delivery env j ep event ty body (hk_now s)) (hk_now s) (hk_db s) = Inr ((), db)"
  shows "hooks_ok env (s\<lparr>hk_db := db, hk_used := i # hk_used s,
      hk_workers := Holding i (new_delivery env j ep event ty body (hk_now s)) (hk_now s + he_lease env) # hk_workers s\<rparr>)"
proof -
  let ?d = "new_delivery env j ep event ty body (hk_now s)"
  obtain payload where n: "find_delivery i (hk_db s) = None"
    and rows: "wh_deliveries db = wh_deliveries (hk_db s) @ [(i, ?d\<lparr>wd_payload := payload, wd_attempts := 0,
        wd_code := None, wd_error := None, wd_delivered := None, wd_created := hk_now s\<rparr>)]"
    using create_delivery_cases [OF assms(4)] by auto
  have find: "find_delivery k db = (if k = i then Some (?d\<lparr>wd_payload := payload, wd_attempts := 0,
        wd_code := None, wd_error := None, wd_delivered := None, wd_created := hk_now s\<rparr>) else find_delivery k (hk_db s))" for k
    using find_delivery_append [OF rows n] .
  have z: "count_list (hk_posts s) i = 0" by (rule posts_unused [OF assms(1,3)])
  have fresh: "i \<notin> worker_id ` set (hk_workers s)" "i \<notin> fst ` set (wh_deliveries (hk_db s))"
    using hooks_okD(3,4) [OF assms(1)] assms(3) by auto
  have held: "hk_now s < worker_end w \<and> row_held db w \<and> posts_counted env s w" if "w \<in> set (hk_workers s)" for w
  proof -
    have "worker_id w \<noteq> i" using fresh(1) that by auto
    then show ?thesis using hooks_okD(6,7,8) [OF assms(1) that] by (simp add: row_held_def find)
  qed
  let ?s = "s\<lparr>hk_db := db, hk_used := i # hk_used s,
      hk_workers := Holding i ?d (hk_now s + he_lease env) # hk_workers s\<rparr>"
  have counted: "posts_counted env ?s w = posts_counted env s w" for w
    by (simp add: posts_counted_def split: hook_worker.splits)
  show ?thesis
  proof (rule hooks_okI)
    fix w assume "w \<in> set (hk_workers ?s)"
    then consider "w = Holding i ?d (hk_now s + he_lease env)" | "w \<in> set (hk_workers s)" by auto
    then show "hk_now ?s < worker_end w \<and> row_held (hk_db ?s) w \<and> posts_counted env ?s w"
    proof cases
      case 1
      then show ?thesis using assms(2) z by (simp add: row_held_def find posts_counted_def new_delivery_def max_attempts_def)
    next
      case 2
      then show ?thesis using held counted by simp
    qed
  next
    fix k x assume k: "find_delivery k (hk_db ?s) = Some x"
    show "row_counted env ?s k x"
    proof (cases "k = i")
      case True
      then show ?thesis using k by (auto simp: find new_delivery_def row_counted_def max_attempts_def)
    next
      case False
      then have "row_counted env s k x" using k hooks_okD(9) [OF assms(1)] by (simp add: find)
      then show ?thesis using False by (simp add: row_counted_def)
    qed
  qed (use hooks_okD(1-5,10) [OF assms(1)] fresh in \<open>auto simp: rows\<close>)
qed

lemma worker_split:
  assumes "hooks_ok env s" and "hk_workers s = ws @ w # ws'"
  shows "worker_id w \<notin> worker_id ` set (ws @ ws')" and "worker_id w \<in> set (hk_used s)"
    and "hk_now s < worker_end w" and "row_held (hk_db s) w" and "posts_counted env s w"
    and "distinct (map worker_id (ws @ ws'))"
  using hooks_okD(2) [OF assms(1)] hooks_okD(4) [OF assms(1)] hooks_okD(6,7,8) [OF assms(1), of w]
  by (auto simp: assms(2))

lemma worker_other:
  assumes "hooks_ok env s" and "hk_workers s = ws @ w # ws'" and "x \<in> set ws \<or> x \<in> set ws'"
  shows "worker_id x \<noteq> worker_id w"
proof
  assume "worker_id x = worker_id w"
  moreover have "worker_id x \<in> worker_id ` set (ws @ ws')" using assms(3) by auto
  ultimately show False using worker_split(1) [OF assms(1,2)] by simp
qed

text \<open>A step that changes one worker, or ends it, and the counts of its own delivery.\<close>

lemma hooks_ok_worker:
  assumes ok: "hooks_ok env s" and ws: "hk_workers s = ws @ w # ws'" and r: "hk_workers s' = ws @ rest @ ws'"
    and same: "hk_now s' = hk_now s" "hk_used s' = hk_used s" "hk_db s' = hk_db s"
    and rest: "\<And>v. v \<in> set rest \<Longrightarrow> worker_id v = worker_id w \<and> worker_end v = worker_end w
      \<and> row_held (hk_db s) v \<and> posts_counted env s' v" and one: "length rest \<le> 1"
    and posts: "set (hk_posts s') \<subseteq> insert (worker_id w) (set (hk_posts s))"
    and others: "\<And>i. i \<noteq> worker_id w \<Longrightarrow> count_list (hk_posts s') i = count_list (hk_posts s) i
      \<and> count_list (hk_lost s') i = count_list (hk_lost s) i"
    and bound: "int (count_list (hk_posts s') (worker_id w)) \<le> max_attempts env + int (count_list (hk_lost s') (worker_id w))"
    and row: "\<And>d. rest = [] \<Longrightarrow> find_delivery (worker_id w) (hk_db s) = Some d \<Longrightarrow>
      int (count_list (hk_posts s') (worker_id w)) \<le> wd_attempts d + int (count_list (hk_lost s') (worker_id w))"
  shows "hooks_ok env s'"
proof (rule hooks_okI)
  note W = worker_split [OF ok ws]
  have ids: "worker_id ` set rest \<subseteq> {worker_id w}" using rest by auto
  have "rest = [] \<or> (\<exists>v. rest = [v])" using one by (cases rest) auto
  moreover have "worker_id x \<noteq> worker_id w" if "x \<in> set ws \<union> set ws'" for x
    using worker_other [OF ok ws] that by blast
  ultimately show "distinct (map worker_id (hk_workers s'))" using W(6) ids by (auto simp: r)
  show "worker_id ` set (hk_workers s') \<subseteq> set (hk_used s')"
    using hooks_okD(4) [OF ok] ids by (auto simp: r ws same)
  show "set (hk_posts s') \<subseteq> set (hk_used s')" using posts hooks_okD(5) [OF ok] W(2) by (auto simp: same)
  show "int (count_list (hk_posts s') i) \<le> max_attempts env + int (count_list (hk_lost s') i)" for i
    using bound others [of i] hooks_okD(10) [OF ok, of i] by (cases "i = worker_id w") simp_all
  fix v assume v: "v \<in> set (hk_workers s')"
  show "hk_now s' < worker_end v \<and> row_held (hk_db s') v \<and> posts_counted env s' v"
  proof (cases "v \<in> set rest")
    case True
    then show ?thesis using rest W(3) by (simp add: same)
  next
    case False
    then have old: "v \<in> set (ws @ ws')" using v by (auto simp: r)
    then have "v \<in> set (hk_workers s)" by (auto simp: ws)
    note V = hooks_okD(6,7,8) [OF ok this]
    have "worker_id v \<noteq> worker_id w" using worker_other [OF ok ws] old by auto
    then have "posts_counted env s' v"
      using V(3) others [of "worker_id v"] by (cases v) (simp_all add: posts_counted_def)
    then show ?thesis using V by (simp add: same)
  qed
next
  note W = worker_split [OF ok ws]
  fix i d assume "find_delivery i (hk_db s') = Some d"
  then have f: "find_delivery i (hk_db s) = Some d" by (simp add: same)
  note R = hooks_okD(9) [OF ok f, unfolded row_counted_def]
  show "row_counted env s' i d"
  proof (cases "i = worker_id w")
    case True
    have "rest = [] \<or> i \<in> worker_id ` set rest" using rest True by (cases rest) auto
    then show ?thesis using R row f True by (auto simp: row_counted_def r)
  next
    case False
    have "worker_id ` set rest \<subseteq> {worker_id w}" using rest by auto
    then show ?thesis using R others [OF False] False by (auto simp: row_counted_def r ws)
  qed
qed (use hooks_okD(1,3) [OF ok] in \<open>simp_all add: same\<close>)

lemma hooks_ok_post:
  assumes ok: "hooks_ok env s" and ws: "hk_workers s = ws @ Holding i d t # ws'"
  shows "hooks_ok env (s\<lparr>hk_posts := i # hk_posts s,
      hk_workers := ws @ Posted i (attempt_result env (hk_now s) (wd_attempts d + 1) res) t # ws'\<rparr>)"
proof (rule hooks_ok_worker [OF ok ws])
  let ?out = "attempt_result env (hk_now s) (wd_attempts d + 1) res"
  note W = worker_split [OF ok ws]
  have n: "ao_attempts ?out = wd_attempts d + 1" and m: "ao_status ?out = wd_pending \<longrightarrow> wd_attempts d + 1 < max_attempts env"
    by (auto simp: attempt_result_def delivery_status_defs split: sum.splits)
  have c: "int (count_list (hk_posts s) i) \<le> wd_attempts d + int (count_list (hk_lost s) i)" "wd_attempts d < max_attempts env"
    using W(5) by (simp_all add: posts_counted_def)
  fix v assume "v \<in> set [Posted i ?out t]"
  then have v: "v = Posted i ?out t" by simp
  show "worker_id v = worker_id (Holding i d t) \<and> worker_end v = worker_end (Holding i d t) \<and> row_held (hk_db s) v
      \<and> posts_counted env (s\<lparr>hk_posts := i # hk_posts s, hk_workers := ws @ Posted i ?out t # ws'\<rparr>) v"
    using W(4) c m by (auto simp: v row_held_def posts_counted_def n split: option.splits)
next
  have "int (count_list (hk_posts s) i) \<le> wd_attempts d + int (count_list (hk_lost s) i)" "wd_attempts d < max_attempts env"
    using worker_split(5) [OF ok ws] by (simp_all add: posts_counted_def)
  then show "int (count_list (hk_posts (s\<lparr>hk_posts := i # hk_posts s,
      hk_workers := ws @ Posted i (attempt_result env (hk_now s) (wd_attempts d + 1) res) t # ws'\<rparr>)) (worker_id (Holding i d t)))
    \<le> max_attempts env + int (count_list (hk_lost (s\<lparr>hk_posts := i # hk_posts s,
      hk_workers := ws @ Posted i (attempt_result env (hk_now s) (wd_attempts d + 1) res) t # ws'\<rparr>)) (worker_id (Holding i d t)))"
    by simp
qed auto

lemma hooks_ok_give_up:
  assumes ok: "hooks_ok env s" and ws: "hk_workers s = ws @ Holding i d t # ws'"
    and out: "out = disabled_result (wd_attempts d + 1) \<or> out = lost_result d"
  shows "hooks_ok env (s\<lparr>hk_workers := ws @ Posted i out t # ws'\<rparr>)"
proof (rule hooks_ok_worker [OF ok ws])
  note W = worker_split [OF ok ws]
  have c: "int (count_list (hk_posts s) i) \<le> wd_attempts d + int (count_list (hk_lost s) i)" "wd_attempts d < max_attempts env"
    using W(5) by (simp_all add: posts_counted_def)
  fix v assume "v \<in> set [Posted i out t]"
  then have v: "v = Posted i out t" by simp
  show "worker_id v = worker_id (Holding i d t) \<and> worker_end v = worker_end (Holding i d t) \<and> row_held (hk_db s) v
      \<and> posts_counted env (s\<lparr>hk_workers := ws @ Posted i out t # ws'\<rparr>) v"
    using W(4) c out
    by (auto simp: v row_held_def posts_counted_def disabled_result_def lost_result_def delivery_status_defs split: option.splits)
qed (use hooks_okD(10) [OF ok] in auto)

lemma held_posts:
  assumes "row_held (hk_db s) w" and "posts_counted env s w" and "find_delivery (worker_id w) (hk_db s) = Some r"
  shows "int (count_list (hk_posts s) (worker_id w)) \<le> wd_attempts r + 1 + int (count_list (hk_lost s) (worker_id w))"
  using assms by (cases w) (auto simp: row_held_def posts_counted_def)

lemma hooks_ok_lose:
  assumes ok: "hooks_ok env s" and ws: "hk_workers s = ws @ w # ws'"
  shows "hooks_ok env (s\<lparr>hk_workers := ws @ ws', hk_lost := worker_id w # hk_lost s\<rparr>)"
proof (rule hooks_ok_worker [OF ok ws, where rest = "[]"])
  note W = worker_split [OF ok ws]
  fix d assume "find_delivery (worker_id w) (hk_db s) = Some d"
  then show "int (count_list (hk_posts (s\<lparr>hk_workers := ws @ ws', hk_lost := worker_id w # hk_lost s\<rparr>)) (worker_id w))
      \<le> wd_attempts d + int (count_list (hk_lost (s\<lparr>hk_workers := ws @ ws', hk_lost := worker_id w # hk_lost s\<rparr>)) (worker_id w))"
    using held_posts [OF W(4,5)] by simp
next
  show "int (count_list (hk_posts (s\<lparr>hk_workers := ws @ ws', hk_lost := worker_id w # hk_lost s\<rparr>)) (worker_id w))
      \<le> max_attempts env + int (count_list (hk_lost (s\<lparr>hk_workers := ws @ ws', hk_lost := worker_id w # hk_lost s\<rparr>)) (worker_id w))"
    using hooks_okD(10) [OF ok, of "worker_id w"] by simp
qed auto

text \<open>A statement on the rows, with the workers as they are or less one.\<close>

lemma hooks_ok_rows:
  assumes ok: "hooks_ok env s"
    and same: "hk_now s' = hk_now s" "hk_used s' = hk_used s" "hk_posts s' = hk_posts s" "hk_lost s' = hk_lost s"
    and ws: "set (hk_workers s') \<subseteq> set (hk_workers s)" "distinct (map worker_id (hk_workers s'))"
    and keys: "distinct (map fst (wh_deliveries (hk_db s')))"
      "fst ` set (wh_deliveries (hk_db s')) \<subseteq> fst ` set (wh_deliveries (hk_db s))"
    and held: "\<And>w. w \<in> set (hk_workers s') \<Longrightarrow> row_held (hk_db s) w \<Longrightarrow> row_held (hk_db s') w"
    and rows: "\<And>i d. find_delivery i (hk_db s') = Some d \<Longrightarrow> row_counted env s' i d"
  shows "hooks_ok env s'"
proof (rule hooks_okI)
  fix w assume w: "w \<in> set (hk_workers s')"
  then have "w \<in> set (hk_workers s)" using ws by auto
  note W = hooks_okD(6,7,8) [OF ok this]
  have "posts_counted env s' w = posts_counted env s w" by (cases w) (simp_all add: posts_counted_def same)
  then show "hk_now s' < worker_end w \<and> row_held (hk_db s') w \<and> posts_counted env s' w"
    using W held [OF w] by (simp add: same)
next
  show "worker_id ` set (hk_workers s') \<subseteq> set (hk_used s')"
    using hooks_okD(4) [OF ok] image_mono [OF ws(1), of worker_id] by (simp add: same)
qed (use hooks_okD(1-5,10) [OF ok] ws keys rows in \<open>auto simp: same\<close>)

lemma hooks_ok_note:
  assumes ok: "hooks_ok env s" and ws: "hk_workers s = ws @ Posted i out t # ws'"
  shows "hooks_ok env (s\<lparr>hk_db := record_attempt i out (hk_now s) (hk_db s), hk_workers := ws @ ws'\<rparr>)"
proof (rule hooks_ok_rows [OF ok])
  note W = worker_split [OF ok ws]
  let ?s = "s\<lparr>hk_db := record_attempt i out (hk_now s) (hk_db s), hk_workers := ws @ ws'\<rparr>"
  show "row_held (hk_db ?s) w" if "w \<in> set (hk_workers ?s)" "row_held (hk_db s) w" for w
    using that W(1) by (auto simp: row_held_def)
  fix k x assume k: "find_delivery k (hk_db ?s) = Some x"
  show "row_counted env ?s k x"
  proof (cases "k = i")
    case True
    then show ?thesis using k W(5) by (auto simp: posts_counted_def row_counted_def note_attempt_def)
  next
    case False
    then have "row_counted env s k x" using k hooks_okD(9) [OF ok] by simp
    then show ?thesis using False by (auto simp: row_counted_def ws)
  qed
next
  let ?s = "s\<lparr>hk_db := record_attempt i out (hk_now s) (hk_db s), hk_workers := ws @ ws'\<rparr>"
  have keys: "map fst (wh_deliveries (hk_db ?s)) = map fst (wh_deliveries (hk_db s))" by simp
  show "distinct (map fst (wh_deliveries (hk_db ?s)))" unfolding keys by (rule hooks_okD(1) [OF ok])
  show "fst ` set (wh_deliveries (hk_db ?s)) \<subseteq> fst ` set (wh_deliveries (hk_db s))"
    using arg_cong [OF keys, of set] unfolding list.set_map by (rule equalityD1)
qed (use worker_split(6) [OF ok ws] in \<open>auto simp: ws\<close>)

lemma hooks_ok_drop:
  assumes ok: "hooks_ok env s" and "delete_endpoint org j (hk_db s) = Inr ((), db)"
  shows "hooks_ok env (s\<lparr>hk_db := db\<rparr>)"
proof (rule hooks_ok_rows [OF ok])
  have rows: "wh_deliveries db = filter (\<lambda>(i, d). wd_endpoint d \<noteq> j) (wh_deliveries (hk_db s))"
    using assms(2) by (auto simp: delete_endpoint_def split: option.splits if_splits)
  show dist: "distinct (map fst (wh_deliveries (hk_db (s\<lparr>hk_db := db\<rparr>))))"
    using hooks_okD(1) [OF ok] by (simp add: rows distinct_map_filter)
  have sub: "find_delivery i (hk_db s) = Some d" if "find_delivery i db = Some d" for i d
  proof -
    have "(i, d) \<in> set (wh_deliveries (hk_db s))" using that by (auto simp: find_delivery_def rows dest: map_of_SomeD)
    then show ?thesis using hooks_okD(1) [OF ok] by (simp add: find_delivery_def)
  qed
  show "row_held (hk_db (s\<lparr>hk_db := db\<rparr>)) w" if "row_held (hk_db s) w" for w
    using that sub by (auto simp: row_held_def split: option.splits)
  show "row_counted env (s\<lparr>hk_db := db\<rparr>) i d" if "find_delivery i (hk_db (s\<lparr>hk_db := db\<rparr>)) = Some d" for i d
    using hooks_okD(9) [OF ok sub] that by (simp add: row_counted_def)
  show "fst ` set (wh_deliveries (hk_db (s\<lparr>hk_db := db\<rparr>))) \<subseteq> fst ` set (wh_deliveries (hk_db s))"
    by (auto simp: rows)
qed (use hooks_okD(2) [OF ok] in auto)

lemma hooks_ok_claim:
  assumes ok: "hooks_ok env s" and lease: "0 < he_lease env"
    and claim: "claim_due claim_batch (he_lease env) (hk_now s) (hk_db s) = (due, db)"
  shows "hooks_ok env (s\<lparr>hk_db := db,
      hk_workers := map (\<lambda>(i, d). Holding i d (hk_now s + he_lease env)) due @ hk_workers s\<rparr>)"
proof -
  let ?t = "hk_now s + he_lease env"
  let ?s = "s\<lparr>hk_db := db, hk_workers := map (\<lambda>(i, d). Holding i d ?t) due @ hk_workers s\<rparr>"
  have keys: "map fst (wh_deliveries db) = map fst (wh_deliveries (hk_db s))" and dist: "distinct (map fst due)"
    and due: "\<And>i d. (i, d) \<in> set due \<longleftrightarrow> find_delivery i db = Some d \<and> i \<in> fst ` set due"
    and find: "\<And>i. find_delivery i db = (if i \<in> fst ` set due
         then map_option (\<lambda>d. d\<lparr>wd_next := Some ?t\<rparr>) (find_delivery i (hk_db s)) else find_delivery i (hk_db s))"
    and old: "\<And>i. i \<in> fst ` set due \<Longrightarrow> \<exists>d. find_delivery i (hk_db s) = Some d \<and> delivery_due (hk_now s) d"
    using claim_due_cases [OF claim hooks_okD(1) [OF ok]] by auto
  have free: "i \<notin> fst ` set due" if w: "w \<in> set (hk_workers s)" "i = worker_id w" for i w
  proof
    assume "i \<in> fst ` set due"
    then obtain d where d: "find_delivery i (hk_db s) = Some d" "delivery_due (hk_now s) d" using old by auto
    then have "wd_next d = Some (worker_end w)" using hooks_okD(7) [OF ok w(1)] w(2) by (simp add: row_held_def)
    then show False using d(2) hooks_okD(6) [OF ok w(1)] by (simp add: delivery_due_def)
  qed
  have ids: "worker_id ` set (hk_workers ?s) = fst ` set due \<union> worker_id ` set (hk_workers s)" by force
  have keys_set: "fst ` set (wh_deliveries db) = fst ` set (wh_deliveries (hk_db s))"
    using arg_cong [OF keys, of set] by simp
  have claimed: "\<exists>r. find_delivery i (hk_db s) = Some r \<and> wd_status r = wd_pending
      \<and> d = r\<lparr>wd_next := Some ?t\<rparr> \<and> find_delivery i db = Some d \<and> row_counted env s i r
      \<and> i \<notin> worker_id ` set (hk_workers s)" if id: "(i, d) \<in> set due" for i d
  proof -
    have i: "i \<in> fst ` set due" using id by force
    obtain r where r: "find_delivery i (hk_db s) = Some r" "delivery_due (hk_now s) r" using old [OF i] by auto
    have "find_delivery i db = Some d" using due id by blast
    moreover from this have "d = r\<lparr>wd_next := Some ?t\<rparr>" using find [of i] i r(1) by simp
    moreover have "i \<notin> worker_id ` set (hk_workers s)" using free [of _ i] i by blast
    ultimately show ?thesis using r hooks_okD(9) [OF ok r(1)] by (simp add: delivery_due_def)
  qed
  show ?thesis
  proof (rule hooks_okI)
    show "distinct (map fst (wh_deliveries (hk_db ?s)))" using keys hooks_okD(1) [OF ok] by simp
    have "map worker_id (map (\<lambda>(i, d). Holding i d ?t) due) = map fst due" by (simp add: split_def)
    moreover have "fst ` set due \<inter> worker_id ` set (hk_workers s) = {}" using free by blast
    ultimately show "distinct (map worker_id (hk_workers ?s))"
      using dist hooks_okD(2) [OF ok] by (simp add: image_comp comp_def split_def)
    have "fst ` set due \<subseteq> fst ` set (wh_deliveries (hk_db s))"
      using old by (force simp: find_delivery_def dest: map_of_SomeD)
    then show "worker_id ` set (hk_workers ?s) \<subseteq> set (hk_used ?s)"
      using hooks_okD(3,4) [OF ok] unfolding ids by auto
    show "fst ` set (wh_deliveries (hk_db ?s)) \<subseteq> set (hk_used ?s)" using hooks_okD(3) [OF ok] keys_set by simp
    show "set (hk_posts ?s) \<subseteq> set (hk_used ?s)" using hooks_okD(5) [OF ok] by simp
    show "int (count_list (hk_posts ?s) i) \<le> max_attempts env + int (count_list (hk_lost ?s) i)" for i
      using hooks_okD(10) [OF ok, of i] by simp
    fix w assume "w \<in> set (hk_workers ?s)"
    then consider i d where "(i, d) \<in> set due" "w = Holding i d ?t" | "w \<in> set (hk_workers s)" by auto
    then show "hk_now ?s < worker_end w \<and> row_held (hk_db ?s) w \<and> posts_counted env ?s w"
    proof cases
      case 1
      then show ?thesis using claimed [OF 1(1)] lease by (auto simp: row_held_def posts_counted_def row_counted_def)
    next
      case 2
      have "find_delivery (worker_id w) db = find_delivery (worker_id w) (hk_db s)" using find free [OF 2 refl] by simp
      moreover have "posts_counted env ?s w = posts_counted env s w" by (cases w) (simp_all add: posts_counted_def)
      ultimately show ?thesis using hooks_okD(6,7,8) [OF ok 2] by (simp add: row_held_def)
    qed
  next
    fix i d assume d: "find_delivery i (hk_db ?s) = Some d"
    show "row_counted env ?s i d"
    proof (cases "i \<in> fst ` set due")
      case True
      then have "(i, d) \<in> set due" using due d by auto
      then show ?thesis using claimed [of i d] True ids by (auto simp: row_counted_def)
    next
      case False
      then have "row_counted env s i d" using find d hooks_okD(9) [OF ok] by simp
      then show ?thesis using ids False by (auto simp: row_counted_def)
    qed
  qed
qed

lemma hooks_ok_step:
  assumes "hook_step env True s s'" and "hooks_ok env s" and "0 < he_lease env"
  shows "hooks_ok env s'"
  using assms
proof (cases rule: hook_step.cases)
  case (pass now)
  have "posts_counted env (s\<lparr>hk_now := now\<rparr>) w = posts_counted env s w" for w
    by (cases w) (simp_all add: posts_counted_def)
  then show ?thesis using assms(2) pass by (simp add: hooks_ok_def row_counted_def)
qed (use assms in \<open>auto intro: hooks_ok_create hooks_ok_claim hooks_ok_post hooks_ok_give_up hooks_ok_note
       hooks_ok_lose hooks_ok_drop\<close>)

lemma hooks_ok_reach:
  assumes "hook_reach env True s s'" and "hooks_ok env s" and "0 < he_lease env"
  shows "hooks_ok env s'"
  using assms by (induction rule: hook_reach.induct) (auto intro: hooks_ok_step)

lemma hooks_ok_idle: "hooks_ok env (idle_hooks now eps)"
  by (simp add: hooks_ok_def idle_hooks_def find_delivery_def max_attempts_def)

lemma row_held_pending:
  assumes "hooks_ok env s" and "hk_workers s = ws @ w # ws'" and "find_delivery i (hk_db s) = Some d"
    and "wd_status d \<noteq> wd_pending"
  shows "worker_id w \<noteq> i"
  using worker_split(4) [OF assms(1,2)] assms(3,4) by (auto simp: row_held_def)

lemma settled_step:
  assumes "hook_step env timely s s'" and ok: "hooks_ok env s" and f: "find_delivery i (hk_db s) = Some d"
    and settled: "wd_status d \<noteq> wd_pending"
  shows "find_delivery i (hk_db s') \<in> {None, Some d} \<and> count_list (hk_posts s') i = count_list (hk_posts s) i"
  using assms(1)
proof (cases rule: hook_step.cases)
  case (create k j ep event ty body db)
  have "i \<noteq> k" using find_delivery_used [OF ok f] create(3) by auto
  then have "find_delivery i db = Some d"
    using create_delivery_cases [OF create(2)] find_delivery_append [of db "hk_db s" k] f by auto
  then show ?thesis using create by simp
next
  case (claim due db)
  note C = claim_due_cases [OF claim(2) hooks_okD(1) [OF ok]]
  have "i \<notin> fst ` set due" using C f settled by (auto simp: delivery_due_def)
  then have "find_delivery i db = Some d" using C f by simp
  then show ?thesis using claim by simp
next
  case (post ws k x t ws' res)
  then show ?thesis using row_held_pending [OF ok post(2) f settled] f by simp
next
  case (note_it ws k out t ws')
  then show ?thesis using row_held_pending [OF ok note_it(2) f settled] f by simp
next
  case (drop_endpoint org j db)
  have rows: "wh_deliveries db = filter (\<lambda>(i, d). wd_endpoint d \<noteq> j) (wh_deliveries (hk_db s))"
    using drop_endpoint(2) by (auto simp: delete_endpoint_def split: option.splits if_splits)
  have "x = d" if "find_delivery i db = Some x" for x
  proof -
    have "(i, x) \<in> set (wh_deliveries (hk_db s))" using that by (auto simp: find_delivery_def rows dest: map_of_SomeD)
    then show ?thesis using hooks_okD(1) [OF ok] f by (simp add: find_delivery_def)
  qed
  then show ?thesis using drop_endpoint by (cases "find_delivery i db") auto
qed (use f in auto)

text \<open>
  C36: while every worker ends within the lease of what it holds, a delivery is sent at most
  \<open>MaxAttempts\<close> times and once more for each worker that was stopped before it recorded its attempt,
  whatever the order of claims, attempts, deletions and new events; and a delivery that succeeded or
  failed for good keeps its row as it is and is never sent again.
\<close>

theorem delivery_attempts_bounded:
  assumes "0 < he_lease env" and "hook_reach env True (idle_hooks now eps) s"
  shows "int (count_list (hk_posts s) i) \<le> max_attempts env + int (count_list (hk_lost s) i)
    \<and> (\<forall>d s'. find_delivery i (hk_db s) = Some d \<longrightarrow> wd_status d \<noteq> wd_pending \<longrightarrow> hook_step env True s s' \<longrightarrow>
          find_delivery i (hk_db s') \<in> {None, Some d} \<and> count_list (hk_posts s') i = count_list (hk_posts s) i)"
proof -
  have ok: "hooks_ok env s" by (rule hooks_ok_reach [OF assms(2) hooks_ok_idle assms(1)])
  show ?thesis using hooks_okD(10) [OF ok] settled_step [OF _ ok] by blast
qed

section \<open>A lease that is outrun\<close>

text \<open>The rows of one delivery and what the statements make of them.\<close>

definition one_row :: "(uuid \<times> webhook_endpoint) list \<Rightarrow> uuid \<Rightarrow> webhook_delivery \<Rightarrow> webhook_db" where
  "one_row eps i d = \<lparr>wh_endpoints = eps, wh_deliveries = [(i, d)]\<rparr>"

lemma one_row_simps [simp]:
  "find_delivery i (one_row eps i d) = Some d"
  "record_attempt i out now (one_row eps i d) = one_row eps i (note_attempt out now d)"
  "delivery_due now d \<Longrightarrow>
     claim_due claim_batch lease now (one_row eps i d)
       = ([(i, d\<lparr>wd_next := Some (now + lease)\<rparr>)], one_row eps i (d\<lparr>wd_next := Some (now + lease)\<rparr>))"
  by (simp_all add: one_row_def find_delivery_def record_attempt_def claim_due_def due_deliveries_def claim_batch_def)

definition one_delivery ::
  "(uuid \<times> webhook_endpoint) list \<Rightarrow> uuid \<Rightarrow> int \<Rightarrow> webhook_delivery \<Rightarrow> hook_worker list \<Rightarrow> uuid list \<Rightarrow> hook_state" where
  "one_delivery eps i t d ws posts =
     \<lparr>hk_now = t, hk_db = one_row eps i d, hk_workers = ws, hk_used = [i], hk_posts = posts, hk_lost = []\<rparr>"

lemma one_post:
  "hook_step env timely (one_delivery eps i t d (Holding i x u # ws) posts)
     (one_delivery eps i t d (Posted i (attempt_result env t (wd_attempts x + 1) res) u # ws) (i # posts))"
  using hook_step.post [of "one_delivery eps i t d (Holding i x u # ws) posts" "[]" i x u ws env timely res]
  by (simp add: one_delivery_def)

lemma one_note:
  "hook_step env timely (one_delivery eps i t d (Posted i out u # ws) posts)
     (one_delivery eps i t (note_attempt out t d) ws posts)"
  using hook_step.note_it [of "one_delivery eps i t d (Posted i out u # ws) posts" "[]" i out u ws env timely]
  by (simp add: one_delivery_def)

lemma one_pass:
  "t \<le> t' \<Longrightarrow> hook_step env False (one_delivery eps i t d ws posts) (one_delivery eps i t' d ws posts)"
  using hook_step.pass [of "one_delivery eps i t d ws posts" t' False env] by (simp add: one_delivery_def)

lemma one_claim:
  assumes "delivery_due t d"
  shows "hook_step env timely (one_delivery eps i t d ws posts)
     (one_delivery eps i t (d\<lparr>wd_next := Some (t + he_lease env)\<rparr>)
       (Holding i (d\<lparr>wd_next := Some (t + he_lease env)\<rparr>) (t + he_lease env) # ws) posts)"
  using hook_step.claim [of env "one_delivery eps i t d ws posts" "[(i, d\<lparr>wd_next := Some (t + he_lease env)\<rparr>)]"
      "one_row eps i (d\<lparr>wd_next := Some (t + he_lease env)\<rparr>)" timely] assms
  by (simp add: one_delivery_def)

lemma one_create:
  assumes "he_jsonb env body = Inr payload"
  shows "hook_step env timely (idle_hooks now [(j, ep)])
     (one_delivery [(j, ep)] i now ((new_delivery env j ep event ty body now)\<lparr>wd_payload := payload\<rparr>)
       [Holding i (new_delivery env j ep event ty body now) (now + he_lease env)] [])"
  using hook_step.create [of env i j ep event ty body "idle_hooks now [(j, ep)]"
      "one_row [(j, ep)] i ((new_delivery env j ep event ty body now)\<lparr>wd_payload := payload\<rparr>)" timely] assms
  by (simp add: idle_hooks_def one_delivery_def create_delivery_def find_delivery_def find_endpoint_def one_row_def
      new_delivery_def)

text \<open>
  C37: nothing keeps a worker within its lease: \<open>RetryDue\<close> takes fifty deliveries and attempts them one
  after the other, each for as long as the timeout allows, and \<open>RecordAttempt\<close> does not look at the row
  it writes. A second worker then takes a delivery that the first still holds, delivers it and marks it
  succeeded; the first one's failure afterwards makes it pending again, to be sent once more to a
  receiver that has taken it. No worker was stopped on the way.
\<close>

theorem delivered_row_reopened:
  assumes lease: "0 < he_lease env" and jsonb: "he_jsonb env body = Inr payload"
    and cap: "2 < max_attempts env" and wait: "0 \<le> he_backoff env ! 0"
  shows "\<exists>s s' d d'. hook_reach env False (idle_hooks now [(j, ep)]) s \<and> hook_step env False s s'
    \<and> find_delivery i (hk_db s) = Some d \<and> wd_status d = wd_succeeded
    \<and> find_delivery i (hk_db s') = Some d' \<and> wd_status d' = wd_pending
    \<and> count_list (hk_posts s') i = 3 \<and> hk_lost s' = []"
proof -
  let ?R = "hook_reach env False (idle_hooks now [(j, ep)])" and ?S = "one_delivery [(j, ep)] i"
  define L where "L = he_lease env"
  define t where "t = now + he_backoff env ! 0"
  define bad :: "go_err + int" where "bad = Inl (ErrText ''timeout'')"
  define d where "d = new_delivery env j ep uuid_nil [] body now"
  define d1 where "d1 = note_attempt (attempt_result env now 1 bad) now (d\<lparr>wd_payload := payload\<rparr>)"
  define d2 where "d2 = d1\<lparr>wd_next := Some (t + L)\<rparr>"
  define d3 where "d3 = d2\<lparr>wd_next := Some (t + L + L)\<rparr>"
  define late where "late = attempt_result env (t + L) 2 bad"
  define taken where "taken = attempt_result env (t + L) 2 (Inr 200)"
  have due: "delivery_due t d1" and n: "wd_attempts d1 = 1"
    using cap by (simp_all add: d1_def d_def bad_def note_attempt_def attempt_result_def delivery_due_def t_def)
  then have due2: "delivery_due (t + L) d2" and n2: "wd_attempts d2 = 1" "wd_attempts d3 = 1"
    by (simp_all add: d2_def d3_def delivery_due_def)
  have "?R (?S now (d\<lparr>wd_payload := payload\<rparr>) [Holding i d (now + L)] [])"
    using hook_reach.step [OF hook_reach.start one_create [OF jsonb]] by (simp add: d_def L_def)
  from hook_reach.step [OF this one_post [where res = bad]]
  have "?R (?S now (d\<lparr>wd_payload := payload\<rparr>) [Posted i (attempt_result env now 1 bad) (now + L)] [i])"
    by (simp add: d_def new_delivery_def)
  from hook_reach.step [OF hook_reach.step [OF this one_note] one_pass [where t' = t]] wait
  have "?R (?S t d1 [] [i])" by (simp add: d1_def t_def)
  from hook_reach.step [OF hook_reach.step [OF this one_claim [OF due]] one_pass [where t' = "t + L"]] lease
  have "?R (?S (t + L) d2 [Holding i d2 (t + L)] [i])" by (simp add: d2_def L_def)
  from hook_reach.step [OF this one_claim [OF due2]]
  have "?R (?S (t + L) d3 [Holding i d3 (t + L + L), Holding i d2 (t + L)] [i])" by (simp add: d3_def L_def)
  from hook_reach.step [OF hook_reach.step [OF this one_post [where res = "Inr 200"]] one_note]
  have "?R (?S (t + L) (note_attempt taken (t + L) d3) [Holding i d2 (t + L)] [i, i])" by (simp add: taken_def n2)
  from hook_reach.step [OF this one_post [where res = bad]]
  have "?R (?S (t + L) (note_attempt taken (t + L) d3) [Posted i late (t + L)] [i, i, i])" by (simp add: late_def n2)
  moreover note one_note [of env False "[(j, ep)]" i "t + L" "note_attempt taken (t + L) d3" late "t + L" "[]" "[i, i, i]"]
  moreover have "wd_status (note_attempt taken (t + L) d3) = wd_succeeded"
    and "wd_status (note_attempt late (t + L) (note_attempt taken (t + L) d3)) = wd_pending"
    using cap by (simp_all add: note_attempt_def taken_def late_def bad_def attempt_result_def)
  ultimately show ?thesis by (intro exI conjI) (auto simp: one_delivery_def)
qed

section \<open>Events\<close>

lemma prepare_cases:
  assumes "prepare env j ep event ty body s = (res, s')"
  shows "case res of
         Inl e \<Rightarrow> s' = s
       | Inr (i, d) \<Rightarrow> d = new_delivery env j ep event ty body (he_now env s)
           \<and> (\<exists>payload. he_jsonb env body = Inr payload
               \<and> s' = ((fst s)\<lparr>wh_deliveries := wh_deliveries (fst s) @ [(i, d\<lparr>wd_payload := payload\<rparr>)]\<rparr>, snd s))"
  using assms
  by (auto simp: prepare_def hook_write_def Let_def create_delivery_def new_delivery_def split: option.splits sum.splits if_splits)

text \<open>The state that the enqueuing of an event has reached once it has written the first rows.\<close>

definition with_rows :: "'w hooks \<Rightarrow> (uuid \<times> webhook_delivery) list \<Rightarrow> 'w hooks" where
  "with_rows s rows = ((fst s)\<lparr>wh_deliveries := wh_deliveries (fst s) @ rows\<rparr>, snd s)"

lemma with_rows_Nil [simp]: "with_rows s [] = s"
  by (cases s) (simp add: with_rows_def)

lemma with_rows_append [simp]: "with_rows (with_rows s xs) ys = with_rows s (xs @ ys)"
  by (simp add: with_rows_def)

lemma with_rows_simps [simp]:
  "snd (with_rows s rows) = snd s" "wh_endpoints (fst (with_rows s rows)) = wh_endpoints (fst s)"
  "wh_deliveries (fst (with_rows s rows)) = wh_deliveries (fst s) @ rows"
  by (simp_all add: with_rows_def)

text \<open>The row of a delivery that was started: what the database keeps of the delivery.\<close>

definition row_of ::
  "'w hook_env \<Rightarrow> uuid \<times> webhook_delivery \<times> webhook_endpoint \<Rightarrow> uuid \<times> webhook_delivery \<Rightarrow> bool" where
  "row_of env x row \<longleftrightarrow>
     (\<exists>payload. he_jsonb env (wd_payload (fst (snd x))) = Inr payload
        \<and> row = (fst x, (fst (snd x))\<lparr>wd_payload := payload\<rparr>))"

text \<open>The database refused the delivery of an endpoint, in one of the states the enqueuing went through.\<close>

definition delivery_refused ::
  "'w hook_env \<Rightarrow> uuid \<times> webhook_endpoint \<Rightarrow> uuid \<Rightarrow> string \<Rightarrow> string \<Rightarrow> 'w hooks
    \<Rightarrow> (uuid \<times> webhook_delivery) list \<Rightarrow> bool" where
  "delivery_refused env x event ty body s rows \<longleftrightarrow>
     (\<exists>k e. prepare env (fst x) (snd x) event ty body (with_rows s (take k rows))
         = (Inl e, with_rows s (take k rows)))"

lemma enqueue_all_spec:
  assumes "enqueue_all env event ty body eps s = (started, s')"
  shows "\<exists>rows. s' = with_rows s rows \<and> list_all2 (row_of env) started rows
    \<and> (\<forall>(i, d, ep) \<in> set started. (wd_endpoint d, ep) \<in> set eps
         \<and> d = new_delivery env (wd_endpoint d) ep event ty body (wd_created d))
    \<and> (\<forall>x \<in> set eps. (\<exists>(i, d, ep) \<in> set started. x = (wd_endpoint d, ep))
         \<or> delivery_refused env x event ty body s rows)"
  using assms
proof (induction eps arbitrary: s started s')
  case (Cons x eps)
  obtain j ep where x: "x = (j, ep)" by (cases x)
  obtain res s1 where p: "prepare env j ep event ty body s = (res, s1)"
    by (cases "prepare env j ep event ty body s") auto
  obtain more s2 where m: "enqueue_all env event ty body eps s1 = (more, s2)"
    by (cases "enqueue_all env event ty body eps s1") auto
  from Cons.IH [OF m] obtain rows where rows: "s2 = with_rows s1 rows" "list_all2 (row_of env) more rows"
    and sound: "\<forall>(i, d, ep) \<in> set more. (wd_endpoint d, ep) \<in> set eps
         \<and> d = new_delivery env (wd_endpoint d) ep event ty body (wd_created d)"
    and full: "\<forall>x \<in> set eps. (\<exists>(i, d, ep) \<in> set more. x = (wd_endpoint d, ep))
         \<or> delivery_refused env x event ty body s1 rows"
    by blast
  show ?case
  proof (cases res)
    case (Inl e)
    then have eq: "s1 = s" "started = more" "s' = s2" using prepare_cases [OF p] Cons.prems p m by (simp_all add: x)
    have "delivery_refused env x event ty body s rows"
      unfolding delivery_refused_def using p Inl eq(1) by (intro exI [of _ 0] exI [of _ e]) (simp add: x)
    then show ?thesis using rows sound full eq by (intro exI [of _ rows]) auto
  next
    case (Inr id)
    obtain i d where id: "id = (i, d)" by (cases id)
    obtain payload where d: "d = new_delivery env j ep event ty body (he_now env s)" "he_jsonb env body = Inr payload"
      "s1 = with_rows s [(i, d\<lparr>wd_payload := payload\<rparr>)]"
      using prepare_cases [OF p] by (auto simp: Inr id with_rows_def)
    let ?row = "(i, d\<lparr>wd_payload := payload\<rparr>)"
    have eq: "started = (i, d, ep) # more" "s' = s2" using Cons.prems p m Inr id by (simp_all add: x)
    have row: "row_of env (i, d, ep) ?row" using d(1,2) by (simp add: row_of_def new_delivery_def)
    have self: "d = new_delivery env (wd_endpoint d) ep event ty body (wd_created d)" "wd_endpoint d = j"
      using d(1) by (simp_all add: new_delivery_def)
    have later: "delivery_refused env y event ty body s (?row # rows)"
      if r: "delivery_refused env y event ty body s1 rows" for y
    proof -
      obtain k e where "prepare env (fst y) (snd y) event ty body (with_rows s1 (take k rows))
          = (Inl e, with_rows s1 (take k rows))"
        using r by (auto simp: delivery_refused_def)
      then show ?thesis
        unfolding delivery_refused_def d(3) by (intro exI [of _ "Suc k"] exI [of _ e]) simp
    qed
    have "s' = with_rows s (?row # rows)" using eq(2) rows(1) d(3) by simp
    moreover have "list_all2 (row_of env) started (?row # rows)" using eq(1) row rows(2) by simp
    moreover have "\<forall>(i, d, ep) \<in> set started. (wd_endpoint d, ep) \<in> set (x # eps)
         \<and> d = new_delivery env (wd_endpoint d) ep event ty body (wd_created d)"
      using sound self eq(1) by (auto simp: x)
    moreover have "\<forall>y \<in> set (x # eps). (\<exists>(i, d, ep) \<in> set started. y = (wd_endpoint d, ep))
         \<or> delivery_refused env y event ty body s (?row # rows)"
      using full later self(2) eq(1) by (auto simp: x)
    ultimately show ?thesis by blast
  qed
qed simp

lemma scan_endpoints_elem:
  "scan_endpoints box xs = Inr ys \<Longrightarrow> y \<in> set ys \<Longrightarrow> \<exists>x \<in> set xs. scan_endpoint box x = Inr y"
  by (induction xs arbitrary: ys) (auto split: sum.splits)

lemma scan_endpoints_fails:
  "x \<in> set xs \<Longrightarrow> scan_endpoint box x = Inl e \<Longrightarrow> \<exists>e. scan_endpoints box xs = Inl e"
  by (induction xs) (auto split: sum.splits)

lemma scan_endpoint_keeps:
  "scan_endpoint box (j, raw) = Inr (k, ep) \<Longrightarrow>
   k = j \<and> (\<exists>plain. open_secret box (we_secret raw) = Inr plain \<and> ep = raw\<lparr>we_secret := plain\<rparr>)"
  by (auto simp: scan_endpoint_def split: sum.splits)

lemma scan_endpoints_all:
  "scan_endpoints box xs = Inr ys \<Longrightarrow> x \<in> set xs \<Longrightarrow> \<exists>y \<in> set ys. scan_endpoint box x = Inr y"
  by (induction xs arbitrary: ys) (auto split: sum.splits)

lemma scan_endpoints_error:
  "scan_endpoints box xs = Inl e \<Longrightarrow> \<exists>x \<in> set xs. \<exists>e'. scan_endpoint box x = Inl e'"
  by (induction xs) (auto split: sum.splits)

definition wants :: "uuid \<Rightarrow> string \<Rightarrow> webhook_endpoint \<Rightarrow> bool" where
  "wants org ty ep \<longleftrightarrow> we_org ep = org \<and> we_enabled ep \<and> (ty \<in> set (we_events ep) \<or> ''*'' \<in> set (we_events ep))"

text \<open>Reading the endpoints of an event opens the secrets of all of them, or fails.\<close>

lemma list_subscribed_error:
  "(\<exists>e. list_subscribed box org ty db = Inl e)
     \<longleftrightarrow> (\<exists>(j, raw) \<in> set (wh_endpoints db). wants org ty raw \<and> (\<exists>e. open_secret box (we_secret raw) = Inl e))"
    (is "?l \<longleftrightarrow> ?r")
proof
  assume ?l
  then obtain e where "scan_endpoints box (stable_sort older_endpoint
      (filter (\<lambda>(i, ep). we_org ep = org \<and> we_enabled ep \<and> subscribed ty ep) (wh_endpoints db))) = Inl e"
    by (auto simp: list_subscribed_def)
  from scan_endpoints_error [OF this] obtain j raw e' where
    "(j, raw) \<in> set (wh_endpoints db)" "we_org raw = org" "we_enabled raw" "subscribed ty raw"
    "scan_endpoint box (j, raw) = Inl e'"
    by auto
  moreover from this(5) obtain e0 where "open_secret box (we_secret raw) = Inl e0"
    by (cases "open_secret box (we_secret raw)") (simp_all add: scan_endpoint_def)
  ultimately show ?r
    by (intro bexI [of _ "(j, raw)"]) (simp_all add: wants_def subscribed_def)
next
  assume ?r
  then obtain j raw e where r: "(j, raw) \<in> set (wh_endpoints db)" "wants org ty raw"
    "open_secret box (we_secret raw) = Inl e" by blast
  then have scan: "scan_endpoint box (j, raw) = Inl (ErrWrap ''webhook_repo: open secret: '' e)"
    by (simp add: scan_endpoint_def)
  have "(j, raw) \<in> set (stable_sort older_endpoint
      (filter (\<lambda>(i, ep). we_org ep = org \<and> we_enabled ep \<and> subscribed ty ep) (wh_endpoints db)))"
    using r by (auto simp: wants_def subscribed_def)
  from scan_endpoints_fails [OF this scan] show ?l by (simp only: list_subscribed_def)
qed

lemma list_subscribed_iff:
  assumes "list_subscribed box org ty db = Inr eps"
  shows "(j, ep) \<in> set eps \<longleftrightarrow> (\<exists>raw plain. (j, raw) \<in> set (wh_endpoints db) \<and> wants org ty raw
    \<and> open_secret box (we_secret raw) = Inr plain \<and> ep = raw\<lparr>we_secret := plain\<rparr>)" (is "?l \<longleftrightarrow> ?r")
proof
  assume ?l
  from scan_endpoints_elem [OF assms [unfolded list_subscribed_def] this] scan_endpoint_keeps show ?r
    by (fastforce simp: wants_def subscribed_def)
next
  assume ?r
  then obtain raw plain where r: "(j, raw) \<in> set (wh_endpoints db)" "wants org ty raw"
    "open_secret box (we_secret raw) = Inr plain" "ep = raw\<lparr>we_secret := plain\<rparr>" by blast
  then have "scan_endpoint box (j, raw) = Inr (j, ep)" by (simp add: scan_endpoint_def)
  moreover have "(j, raw) \<in> set (stable_sort older_endpoint
      (filter (\<lambda>(i, ep). we_org ep = org \<and> we_enabled ep \<and> subscribed ty ep) (wh_endpoints db)))"
    using r by (auto simp: wants_def subscribed_def)
  ultimately show ?l
    using scan_endpoints_all [OF assms [unfolded list_subscribed_def]] by fastforce
qed

text \<open>
  C38: an event of an organisation reaches the endpoints that want it: those of that organisation, enabled
  and subscribed to its type or to every type. When they can be read, each of them has a delivery started
  with its opened secret, or else the database refused that very delivery; an endpoint whose delivery is
  refused keeps no other from its own. What is started goes to such endpoints only, carries the event's
  envelope, is pending with no attempt counted and due when the first worker's lease ends, and is what is
  written to the table, where nothing else changes. When the event has no organisation, or the statement
  that reads the endpoints fails, or one secret of theirs cannot be opened, nothing is started for any.
\<close>

theorem emit_reaches_subscribers:
  assumes "emit_event env org ty data s = (started, s')"
    and "body = print_json (envelope env (he_event_id env s) ty (he_now env s) org data)"
  shows "if org = uuid_nil \<or> he_fault env s ''ListSubscribed'' \<noteq> None
      \<or> (\<exists>(j, raw) \<in> set (wh_endpoints (fst s)). wants org ty raw
           \<and> (\<exists>e. open_secret (he_box env) (we_secret raw) = Inl e))
    then started = [] \<and> s' = s
    else \<exists>rows. s' = with_rows s rows \<and> list_all2 (row_of env) started rows
      \<and> (\<forall>(i, d, ep) \<in> set started.
           (\<exists>raw plain. (wd_endpoint d, raw) \<in> set (wh_endpoints (fst s)) \<and> wants org ty raw
              \<and> open_secret (he_box env) (we_secret raw) = Inr plain \<and> ep = raw\<lparr>we_secret := plain\<rparr>)
           \<and> wd_org d = org \<and> wd_type d = ty \<and> wd_event d = he_event_id env s \<and> wd_payload d = body
           \<and> wd_status d = wd_pending \<and> wd_attempts d = 0 \<and> wd_code d = None \<and> wd_error d = None
           \<and> wd_delivered d = None \<and> wd_next d = Some (wd_created d + he_lease env))
      \<and> (\<forall>(j, raw) \<in> set (wh_endpoints (fst s)). wants org ty raw \<longrightarrow>
           (\<exists>plain. open_secret (he_box env) (we_secret raw) = Inr plain
              \<and> ((\<exists>(i, d, ep) \<in> set started. wd_endpoint d = j \<and> ep = raw\<lparr>we_secret := plain\<rparr>)
                 \<or> delivery_refused env (j, raw\<lparr>we_secret := plain\<rparr>) (he_event_id env s) ty body s rows)))"
proof (cases "org = uuid_nil \<or> he_fault env s ''ListSubscribed'' \<noteq> None
    \<or> (\<exists>e. list_subscribed (he_box env) org ty (fst s) = Inl e)")
  case True
  then show ?thesis
    using assms(1) unfolding list_subscribed_error [symmetric]
    by (auto simp: emit_event_def hook_read_def split: option.splits if_splits)
next
  case False
  then obtain eps where eps: "list_subscribed (he_box env) org ty (fst s) = Inr eps"
    by (cases "list_subscribed (he_box env) org ty (fst s)") auto
  with False assms have "enqueue_all env (he_event_id env s) ty body eps s = (started, s')"
    by (simp add: emit_event_def hook_read_def Let_def)
  from enqueue_all_spec [OF this] obtain rows where rows: "s' = with_rows s rows" "list_all2 (row_of env) started rows"
    and sound: "\<And>i d ep. (i, d, ep) \<in> set started \<Longrightarrow> (wd_endpoint d, ep) \<in> set eps
         \<and> d = new_delivery env (wd_endpoint d) ep (he_event_id env s) ty body (wd_created d)"
    and full: "\<And>x. x \<in> set eps \<Longrightarrow> (\<exists>(i, d, ep) \<in> set started. x = (wd_endpoint d, ep))
         \<or> delivery_refused env x (he_event_id env s) ty body s rows"
    by blast
  note iff = list_subscribed_iff [OF eps]
  have open_ok: "\<exists>plain. open_secret (he_box env) (we_secret raw) = Inr plain"
    if "(j, raw) \<in> set (wh_endpoints (fst s))" "wants org ty raw" for j raw
    using that False list_subscribed_error [of "he_box env" org ty "fst s"]
    by (cases "open_secret (he_box env) (we_secret raw)") auto
  have started_ok: "(\<exists>raw plain. (wd_endpoint d, raw) \<in> set (wh_endpoints (fst s)) \<and> wants org ty raw
              \<and> open_secret (he_box env) (we_secret raw) = Inr plain \<and> ep = raw\<lparr>we_secret := plain\<rparr>)
           \<and> wd_org d = org \<and> wd_type d = ty \<and> wd_event d = he_event_id env s \<and> wd_payload d = body
           \<and> wd_status d = wd_pending \<and> wd_attempts d = 0 \<and> wd_code d = None \<and> wd_error d = None
           \<and> wd_delivered d = None \<and> wd_next d = Some (wd_created d + he_lease env)"
    if id: "(i, d, ep) \<in> set started" for i d ep
  proof -
    obtain raw plain where r: "(wd_endpoint d, raw) \<in> set (wh_endpoints (fst s))" "wants org ty raw"
      "open_secret (he_box env) (we_secret raw) = Inr plain" "ep = raw\<lparr>we_secret := plain\<rparr>"
      using sound [OF id] iff by blast
    have d: "d = new_delivery env (wd_endpoint d) ep (he_event_id env s) ty body (wd_created d)"
      using sound [OF id] by blast
    have "we_org ep = org" using r(2,4) by (simp add: wants_def)
    moreover obtain j c where "d = new_delivery env j ep (he_event_id env s) ty body c" using d by blast
    then have "wd_org d = we_org ep \<and> wd_type d = ty \<and> wd_event d = he_event_id env s \<and> wd_payload d = body
           \<and> wd_status d = wd_pending \<and> wd_attempts d = 0 \<and> wd_code d = None \<and> wd_error d = None
           \<and> wd_delivered d = None \<and> wd_next d = Some (wd_created d + he_lease env)"
      by (simp add: new_delivery_def)
    ultimately show ?thesis using r by blast
  qed
  have "\<exists>plain. open_secret (he_box env) (we_secret raw) = Inr plain
      \<and> ((\<exists>(i, d, ep) \<in> set started. wd_endpoint d = j \<and> ep = raw\<lparr>we_secret := plain\<rparr>)
         \<or> delivery_refused env (j, raw\<lparr>we_secret := plain\<rparr>) (he_event_id env s) ty body s rows)"
    if w: "(j, raw) \<in> set (wh_endpoints (fst s))" "wants org ty raw" for j raw
  proof -
    obtain plain where p: "open_secret (he_box env) (we_secret raw) = Inr plain" using open_ok [OF w] by blast
    then have "(j, raw\<lparr>we_secret := plain\<rparr>) \<in> set eps" using w iff by blast
    from full [OF this] p show ?thesis by auto
  qed
  with started_ok rows False show ?thesis
    unfolding list_subscribed_error [symmetric] by (simp add: list_subscribed_error) blast
qed

section \<open>Concrete instances\<close>

definition plain_cipher :: aead where
  "plain_cipher = \<lparr>cp_nonce_size = 1, cp_seal = (\<lambda>nonce plain. rev plain), cp_open = (\<lambda>nonce text. Inr (rev text))\<rparr>"

definition sample_env :: "unit hook_env" where
  "sample_env = with_hook_defaults
     \<lparr>he_box = Some plain_cipher, he_nonce = (\<lambda>s. Inr ''n''), he_backoff = [], he_lease = 0, he_now = (\<lambda>s. 1000),
      he_event_id = (\<lambda>s. 70), he_delivery_id = (\<lambda>s. 80 + length (wh_deliveries (fst s))), he_jsonb = Inr,
      he_hmac = (\<lambda>k m. k), he_post = (\<lambda>q s. (Inr 200, s)), he_fault = (\<lambda>s op. None),
      he_time_text = show_int, he_uuid_text = (\<lambda>u. show_int (int u))\<rparr>"

definition sample_endpoint :: "string \<Rightarrow> string list \<Rightarrow> webhook_endpoint" where
  "sample_endpoint secret evs =
     \<lparr>we_org = 5, we_url = ''https://a.example/hook'', we_secret = secret, we_events = evs, we_description = [],
      we_enabled = True, we_by = None, we_created = 0\<rparr>"

definition sample_db :: webhook_db where
  "sample_db = \<lparr>wh_endpoints = [(1, sample_endpoint ''k1'' [''run.failed'']), (2, sample_endpoint ''k2'' [''*'']),
      (3, sample_endpoint ''k3'' [''run.completed''])], wh_deliveries = []\<rparr>"

lemma sample_env_simps [simp]:
  "he_lease sample_env = 60000" "he_backoff sample_env = [30000, 120000, 600000, 1800000, 7200000]"
  "he_jsonb sample_env = Inr" "max_attempts sample_env = 6" "he_box sample_env = Some plain_cipher"
  "he_now sample_env s = 1000" "he_event_id sample_env s = 70" "he_fault sample_env s op = None"
  "he_delivery_id sample_env s = 80 + length (wh_deliveries (fst s))"
  by (simp_all add: sample_env_def with_hook_defaults_def default_lease_def default_backoff_def max_attempts_def)

text \<open>A first attempt that times out, and the delivery's row after it.\<close>

theorem delivery_attempts_bounded_witness:
  "\<exists>s. hook_reach sample_env True (idle_hooks 0 [(2, sample_endpoint ''k2'' [''*''])]) s
     \<and> count_list (hk_posts s) 9 = 1 \<and> hk_lost s = []
     \<and> int (count_list (hk_posts s) 9) \<le> max_attempts sample_env + int (count_list (hk_lost s) 9)"
proof -
  let ?s0 = "idle_hooks 0 [(2, sample_endpoint ''k2'' [''*''])]"
  have "hook_reach sample_env True ?s0 (one_delivery [(2, sample_endpoint ''k2'' [''*''])] 9 0
      ((new_delivery sample_env 2 (sample_endpoint ''k2'' [''*'']) 70 ''run.failed'' ''{}'' 0)\<lparr>wd_payload := ''{}''\<rparr>)
      [Holding 9 (new_delivery sample_env 2 (sample_endpoint ''k2'' [''*'']) 70 ''run.failed'' ''{}'' 0) (0 + he_lease sample_env)] [])"
    by (rule hook_reach.step [OF hook_reach.start one_create]) simp
  from hook_reach.step [OF this one_post [where res = "Inl (ErrText ''timeout'')"]]
  obtain s where s: "hook_reach sample_env True ?s0 s" "hk_posts s = [9]" "hk_lost s = []"
    by (auto simp: one_delivery_def)
  then show ?thesis
    using delivery_attempts_bounded [of sample_env 0 "[(2, sample_endpoint ''k2'' [''*''])]" s 9] by (intro exI [of _ s]) simp
qed

theorem delivered_row_reopened_witness:
  "\<exists>s s' d d'. hook_reach sample_env False (idle_hooks 0 [(2, sample_endpoint ''k2'' [''*''])]) s
    \<and> hook_step sample_env False s s'
    \<and> find_delivery 9 (hk_db s) = Some d \<and> wd_status d = ''succeeded''
    \<and> find_delivery 9 (hk_db s') = Some d' \<and> wd_status d' = ''pending''
    \<and> count_list (hk_posts s') 9 = 3 \<and> hk_lost s' = []"
  using delivered_row_reopened [of sample_env "''{}''" "''{}''" 0 2 "sample_endpoint ''k2'' [''*'']" 9]
  by (simp add: delivery_status_defs)

theorem emit_reaches_subscribers_witness:
  "\<exists>s'. emit_event sample_env 5 ''run.failed'' JNull (sample_db, ())
      = ([(80, new_delivery sample_env 1 (sample_endpoint ''k1'' [''run.failed'']) 70 ''run.failed''
             (print_json (envelope sample_env 70 ''run.failed'' 1000 5 JNull)) 1000, sample_endpoint ''k1'' [''run.failed'']),
          (81, new_delivery sample_env 2 (sample_endpoint ''k2'' [''*'']) 70 ''run.failed''
             (print_json (envelope sample_env 70 ''run.failed'' 1000 5 JNull)) 1000, sample_endpoint ''k2'' [''*''])], s')
    \<and> length (wh_deliveries (fst s')) = 2"
proof -
  obtain started s' where e: "emit_event sample_env 5 ''run.failed'' JNull (sample_db, ()) = (started, s')"
    by (cases "emit_event sample_env 5 ''run.failed'' JNull (sample_db, ())") auto
  have "\<not> (\<exists>(j, raw) \<in> set (wh_endpoints sample_db). wants 5 ''run.failed'' raw
      \<and> (\<exists>e. open_secret (he_box sample_env) (we_secret raw) = Inl e))"
    by (simp add: sample_db_def sample_endpoint_def open_secret_def is_sealed_def seal_prefix_def)
  then obtain rows where rows: "s' = with_rows (sample_db, ()) rows" "list_all2 (row_of sample_env) started rows"
    using emit_reaches_subscribers [OF e refl] by (auto simp: uuid_nil_def)
  have n: "length (wh_deliveries (fst s')) = length started"
    using rows(1) list_all2_lengthD [OF rows(2)] by (simp add: sample_db_def)
  define body where "body = print_json (envelope sample_env 70 ''run.failed'' 1000 5 JNull)"
  have "fst (emit_event sample_env 5 ''run.failed'' JNull (sample_db, ()))
      = [(80, new_delivery sample_env 1 (sample_endpoint ''k1'' [''run.failed'']) 70 ''run.failed'' body 1000,
            sample_endpoint ''k1'' [''run.failed'']),
         (81, new_delivery sample_env 2 (sample_endpoint ''k2'' [''*'']) 70 ''run.failed'' body 1000,
            sample_endpoint ''k2'' [''*''])]"
    by (simp add: emit_event_def sample_db_def hook_read_def list_subscribed_def scan_endpoint_def
        subscribed_def open_secret_def is_sealed_def seal_prefix_def sample_endpoint_def older_endpoint_def
        prepare_def hook_write_def create_delivery_def find_delivery_def find_endpoint_def Let_def uuid_nil_def
        new_delivery_def body_def [symmetric])
  then show ?thesis using e n by (simp add: body_def)
qed

end
