(* ===== verification/WebhookEndpoints.thy ===== *)
theory WebhookEndpoints
  imports WebhookProps AccessControl
begin

text \<open>
  \<open>handler/webhook_endpoint_handler.go\<close>: the routes of an organisation's webhook endpoints. The ids of
  the caller's token and of the path come parsed; the parser of URLs, the validator of a URL tag and the
  random bytes of a secret are parameters.
\<close>

record 'w endpoint_env =
  ee_hooks :: "'w hook_env"
  ee_parse_url :: "string \<Rightarrow> go_err + string \<times> string"
  ee_url_tag :: "string \<Rightarrow> bool"
  ee_invalid_text :: string
  ee_random :: "'w hooks \<Rightarrow> go_err + string"
  ee_id :: "'w hooks \<Rightarrow> uuid"

record endpoint_caller =
  ec_org :: "uuid option"
  ec_user :: "uuid option"

record endpoint_request =
  eq_url :: string
  eq_secret :: string
  eq_events :: "string list"
  eq_description :: string

text \<open>A list that the body does not give is \<open>nil\<close>.\<close>

record endpoint_patch =
  pq_url :: "string option"
  pq_events :: "string list option"
  pq_description :: "string option"
  pq_enabled :: "bool option"
  pq_rotate :: bool

type_synonym ('w, 'a) hook_handler = "'w hooks \<Rightarrow> (reply + 'a) \<times> 'w hooks"

definition new_webhook_secret :: "'w endpoint_env \<Rightarrow> 'w hooks \<Rightarrow> go_err + string" where
  "new_webhook_secret ee s =
     (case ee_random ee s of Inl e \<Rightarrow> Inl e | Inr b \<Rightarrow> Inr (''whsec_'' @ raw_url_b64 b))"

definition validate_webhook_url :: "'w endpoint_env \<Rightarrow> string \<Rightarrow> string option" where
  "validate_webhook_url ee url =
     (case ee_parse_url ee url of
        Inl e \<Rightarrow> Some ''url must be an absolute http(s) URL''
      | Inr (scheme, host) \<Rightarrow>
          if scheme \<noteq> ''http'' \<and> scheme \<noteq> ''https'' \<or> host = [] then Some ''url must be an absolute http(s) URL''
          else None)"

definition valid_endpoint_request :: "'w endpoint_env \<Rightarrow> endpoint_request \<Rightarrow> bool" where
  "valid_endpoint_request ee rq \<longleftrightarrow> eq_url rq \<noteq> [] \<and> ee_url_tag ee (eq_url rq)
     \<and> (eq_secret rq = [] \<or> 16 \<le> rune_count (eq_secret rq)) \<and> eq_events rq \<noteq> []"

definition owned_endpoint ::
  "'w endpoint_env \<Rightarrow> endpoint_caller \<Rightarrow> uuid option \<Rightarrow> 'w hooks \<Rightarrow> reply + uuid \<times> webhook_endpoint" where
  "owned_endpoint ee cl j s =
     (case ec_org cl of
        None \<Rightarrow> Inl (400, ''invalid org_id'')
      | Some org \<Rightarrow>
          (case j of
             None \<Rightarrow> Inl (400, ''invalid endpoint id'')
           | Some i \<Rightarrow>
               (case hook_read (ee_hooks ee) ''GetEndpoint'' (get_endpoint (he_box (ee_hooks ee)) org i) s of
                  Inl e \<Rightarrow>
                    if err_is ''webhook endpoint not found'' e then Inl (404, ''webhook endpoint not found'')
                    else Inl (500, ''failed to load webhook endpoint'')
                | Inr ep \<Rightarrow> Inr (i, ep))))"

definition list_endpoints_h ::
  "'w endpoint_env \<Rightarrow> endpoint_caller \<Rightarrow> ('w, (uuid \<times> webhook_endpoint) list) hook_handler" where
  "list_endpoints_h ee cl s =
     (case ec_org cl of
        None \<Rightarrow> (Inl (400, ''invalid org_id''), s)
      | Some org \<Rightarrow>
          (case hook_read (ee_hooks ee) ''ListEndpoints'' (list_endpoints (he_box (ee_hooks ee)) org) s of
             Inl e \<Rightarrow> (Inl (500, ''failed to list webhook endpoints''), s)
           | Inr eps \<Rightarrow> (Inr (map (\<lambda>(i, ep). (i, ep\<lparr>we_secret := []\<rparr>)) eps), s)))"

definition given_secret :: "'w endpoint_env \<Rightarrow> string \<Rightarrow> 'w hooks \<Rightarrow> go_err + string" where
  "given_secret ee given s = (if given = [] then new_webhook_secret ee s else Inr given)"

definition create_endpoint_h ::
  "'w endpoint_env \<Rightarrow> endpoint_caller \<Rightarrow> endpoint_request \<Rightarrow> ('w, uuid \<times> webhook_endpoint) hook_handler" where
  "create_endpoint_h ee cl rq s =
     (case ec_org cl of
        None \<Rightarrow> (Inl (400, ''invalid org_id''), s)
      | Some org \<Rightarrow>
          if \<not> valid_endpoint_request ee rq then (Inl (400, ''validation: '' @ ee_invalid_text ee), s)
          else case validate_webhook_url ee (eq_url rq) of
            Some msg \<Rightarrow> (Inl (400, msg), s)
          | None \<Rightarrow>
              (case validate_webhook_events (eq_events rq) of
                 Inl e \<Rightarrow> (Inl (400, err_text e), s)
               | Inr evs \<Rightarrow>
                   (case given_secret ee (eq_secret rq) s of
                      Inl e \<Rightarrow> (Inl (500, ''failed to generate secret''), s)
                    | Inr secret \<Rightarrow>
                        (let env = ee_hooks ee; i = ee_id ee s;
                             ep = \<lparr>we_org = org, we_url = eq_url rq, we_secret = secret, we_events = evs,
                               we_description = eq_description rq, we_enabled = True, we_by = ec_user cl,
                               we_created = he_now env s\<rparr>
                         in case hook_write env ''CreateEndpoint''
                                (create_endpoint (he_box env) (he_nonce env s) i ep (he_now env s)) s of
                              (Inl e, s') \<Rightarrow> (Inl (500, ''failed to create webhook endpoint''), s')
                            | (Inr u, s') \<Rightarrow> (Inr (i, ep), s')))))"

definition get_endpoint_h ::
  "'w endpoint_env \<Rightarrow> endpoint_caller \<Rightarrow> uuid option \<Rightarrow> ('w, uuid \<times> webhook_endpoint) hook_handler" where
  "get_endpoint_h ee cl j s =
     (case owned_endpoint ee cl j s of
        Inl r \<Rightarrow> (Inl r, s) | Inr (i, ep) \<Rightarrow> (Inr (i, ep\<lparr>we_secret := []\<rparr>), s))"

text \<open>What a patch makes of the endpoint that \<open>owned\<close> has read, before it is written.\<close>

definition patch_url :: "'w endpoint_env \<Rightarrow> endpoint_patch \<Rightarrow> webhook_endpoint \<Rightarrow> reply + webhook_endpoint" where
  "patch_url ee pq ep =
     (case pq_url pq of
        None \<Rightarrow> Inr ep
      | Some url \<Rightarrow> (case validate_webhook_url ee url of Some msg \<Rightarrow> Inl (400, msg) | None \<Rightarrow> Inr (ep\<lparr>we_url := url\<rparr>)))"

definition patch_events :: "endpoint_patch \<Rightarrow> webhook_endpoint \<Rightarrow> reply + webhook_endpoint" where
  "patch_events pq ep =
     (case pq_events pq of
        None \<Rightarrow> Inr ep
      | Some evs \<Rightarrow>
          (case validate_webhook_events evs of Inl e \<Rightarrow> Inl (400, err_text e) | Inr out \<Rightarrow> Inr (ep\<lparr>we_events := out\<rparr>)))"

definition patch_rest :: "endpoint_patch \<Rightarrow> webhook_endpoint \<Rightarrow> webhook_endpoint" where
  "patch_rest pq ep =
     ep\<lparr>we_description := (case pq_description pq of None \<Rightarrow> we_description ep | Some d \<Rightarrow> d),
        we_enabled := (case pq_enabled pq of None \<Rightarrow> we_enabled ep | Some b \<Rightarrow> b)\<rparr>"

definition patch_secret ::
  "'w endpoint_env \<Rightarrow> endpoint_patch \<Rightarrow> webhook_endpoint \<Rightarrow> 'w hooks \<Rightarrow> reply + webhook_endpoint" where
  "patch_secret ee pq ep s =
     (if \<not> pq_rotate pq then Inr ep
      else case new_webhook_secret ee s of
        Inl e \<Rightarrow> Inl (500, ''failed to generate secret'') | Inr new \<Rightarrow> Inr (ep\<lparr>we_secret := new\<rparr>))"

definition patched_endpoint ::
  "'w endpoint_env \<Rightarrow> endpoint_patch \<Rightarrow> webhook_endpoint \<Rightarrow> 'w hooks \<Rightarrow> reply + webhook_endpoint" where
  "patched_endpoint ee pq ep s =
     (case patch_url ee pq ep of
        Inl r \<Rightarrow> Inl r
      | Inr ep1 \<Rightarrow> (case patch_events pq ep1 of
            Inl r \<Rightarrow> Inl r
          | Inr ep2 \<Rightarrow> patch_secret ee pq (patch_rest pq ep2) s))"

text \<open>The write comes with what was read before it; in between other requests write too.\<close>

definition write_patched ::
  "'w endpoint_env \<Rightarrow> endpoint_patch \<Rightarrow> uuid \<Rightarrow> webhook_endpoint \<Rightarrow> ('w, uuid \<times> webhook_endpoint) hook_handler" where
  "write_patched ee pq i ep s =
     (let env = ee_hooks ee in
      case hook_write env ''UpdateEndpoint'' (update_endpoint (he_box env) (he_nonce env s) i ep) s of
        (Inl e, s') \<Rightarrow> (Inl (500, ''failed to update webhook endpoint''), s')
      | (Inr u, s') \<Rightarrow> (Inr (i, if pq_rotate pq then ep else ep\<lparr>we_secret := []\<rparr>), s'))"

definition update_endpoint_h ::
  "'w endpoint_env \<Rightarrow> endpoint_caller \<Rightarrow> uuid option \<Rightarrow> endpoint_patch \<Rightarrow> ('w, uuid \<times> webhook_endpoint) hook_handler" where
  "update_endpoint_h ee cl j pq s =
     (case owned_endpoint ee cl j s of
        Inl r \<Rightarrow> (Inl r, s)
      | Inr (i, ep) \<Rightarrow>
          (case patched_endpoint ee pq ep s of Inl r \<Rightarrow> (Inl r, s) | Inr ep' \<Rightarrow> write_patched ee pq i ep' s))"

definition delete_endpoint_h :: "'w endpoint_env \<Rightarrow> endpoint_caller \<Rightarrow> uuid option \<Rightarrow> ('w, unit) hook_handler" where
  "delete_endpoint_h ee cl j s =
     (case owned_endpoint ee cl j s of
        Inl r \<Rightarrow> (Inl r, s)
      | Inr (i, ep) \<Rightarrow>
          (case hook_write (ee_hooks ee) ''DeleteEndpoint'' (delete_endpoint (we_org ep) i) s of
             (Inl e, s') \<Rightarrow> (Inl (500, ''failed to delete webhook endpoint''), s')
           | (Inr u, s') \<Rightarrow> (Inr (), s')))"

text \<open>\<open>limit\<close> is what \<open>strconv.Atoi\<close> makes of the query, 0 for what is no number.\<close>

definition deliveries_h ::
  "'w endpoint_env \<Rightarrow> endpoint_caller \<Rightarrow> uuid option \<Rightarrow> int \<Rightarrow> ('w, (uuid \<times> webhook_delivery) list) hook_handler" where
  "deliveries_h ee cl j limit s =
     (case owned_endpoint ee cl j s of
        Inl r \<Rightarrow> (Inl r, s)
      | Inr (i, ep) \<Rightarrow>
          (case hook_read (ee_hooks ee) ''ListDeliveries'' (\<lambda>db. Inr (list_deliveries (we_org ep) i limit db)) s of
             Inl e \<Rightarrow> (Inl (500, ''failed to list deliveries''), s) | Inr ds \<Rightarrow> (Inr ds, s)))"

definition test_endpoint_h ::
  "'w endpoint_env \<Rightarrow> endpoint_caller \<Rightarrow> uuid option \<Rightarrow> ('w, attempt_outcome) hook_handler" where
  "test_endpoint_h ee cl j s =
     (case owned_endpoint ee cl j s of
        Inl r \<Rightarrow> (Inl r, s)
      | Inr (i, ep) \<Rightarrow>
          (case ping (ee_hooks ee) i ep s of
             (Inl e, s') \<Rightarrow> (Inl (500, ''failed to send test event''), s') | (Inr out, s') \<Rightarrow> (Inr out, s')))"

section \<open>Properties\<close>

lemma owned_cases:
  assumes "owned_endpoint ee cl j s = Inr (i, ep)"
  shows "j = Some i \<and> ec_org cl = Some (we_org ep)
    \<and> (\<exists>raw plain. find_endpoint i (fst s) = Some raw \<and> we_org raw = we_org ep
         \<and> open_secret (he_box (ee_hooks ee)) (we_secret raw) = Inr plain \<and> ep = raw\<lparr>we_secret := plain\<rparr>)"
  using assms
  by (auto simp: owned_endpoint_def hook_read_def get_endpoint_def scan_endpoint_def
      split: option.splits sum.splits if_splits)

lemma owned_refused:
  assumes "owned_endpoint ee cl j s = Inl r"
  shows "get_endpoint_h ee cl j s = (Inl r, s)" and "update_endpoint_h ee cl j pq s = (Inl r, s)"
    and "delete_endpoint_h ee cl j s = (Inl r, s)" and "deliveries_h ee cl j limit s = (Inl r, s)"
    and "test_endpoint_h ee cl j s = (Inl r, s)"
  using assms by (simp_all add: get_endpoint_h_def update_endpoint_h_def delete_endpoint_h_def deliveries_h_def
      test_endpoint_h_def)

text \<open>
  an endpoint of another organisation cannot be read, changed, deleted, listed with its deliveries or
  tested: each of these answers with an error and leaves the tables and the outside world as they are,
  whichever statements of the database fail.
\<close>

lemma foreign_endpoint_untouched:
  assumes "find_endpoint i (fst s) = Some raw" and "ec_org cl \<noteq> Some (we_org raw)"
  shows "\<exists>r. get_endpoint_h ee cl (Some i) s = (Inl r, s) \<and> update_endpoint_h ee cl (Some i) pq s = (Inl r, s)
    \<and> delete_endpoint_h ee cl (Some i) s = (Inl r, s) \<and> deliveries_h ee cl (Some i) limit s = (Inl r, s)
    \<and> test_endpoint_h ee cl (Some i) s = (Inl r, s)"
proof -
  have "owned_endpoint ee cl (Some i) s \<noteq> Inr x" for x
    using assms owned_cases [of ee cl "Some i" s "fst x" "snd x"] by auto
  then obtain r where "owned_endpoint ee cl (Some i) s = Inl r" by (cases "owned_endpoint ee cl (Some i) s") auto
  then show ?thesis using owned_refused by metis
qed

lemma create_h_cases:
  assumes "create_endpoint_h ee cl rq s = (Inr (i, ep), s')"
  shows "ec_org cl = Some (we_org ep) \<and> we_enabled ep \<and> we_url ep = eq_url rq \<and> we_events ep \<noteq> []
    \<and> (eq_secret rq \<noteq> [] \<longrightarrow> we_secret ep = eq_secret rq)
    \<and> (eq_secret rq = [] \<longrightarrow> (\<exists>b. ee_random ee s = Inr b \<and> we_secret ep = ''whsec_'' @ raw_url_b64 b))
    \<and> validate_webhook_events (eq_events rq) = Inr (we_events ep)
    \<and> (\<exists>stored. seal_secret (he_box (ee_hooks ee)) (he_nonce (ee_hooks ee) s) (we_secret ep) = Inr stored
         \<and> find_endpoint i (fst s) = None \<and> wh_deliveries (fst s') = wh_deliveries (fst s)
         \<and> wh_endpoints (fst s') = wh_endpoints (fst s) @ [(i, ep\<lparr>we_secret := stored\<rparr>)])"
  using assms
  by (auto simp: create_endpoint_h_def hook_write_def create_endpoint_def Let_def given_secret_def new_webhook_secret_def
      validate_webhook_events_def split: option.splits sum.splits if_splits list.splits)

lemma find_endpoint_append:
  "wh_endpoints db' = wh_endpoints db @ [(i, ep)] \<Longrightarrow> find_endpoint i db = None \<Longrightarrow> find_endpoint i db' = Some ep"
  by (auto simp: find_endpoint_def map_add_def)

lemma whsec_not_sealed [simp]: "\<not> is_sealed (CHR ''w'' # s)"
  by (simp add: is_sealed_def seal_prefix_def)

text \<open>What the responses of the other routes show of a secret, in any state.\<close>

lemma list_shows_no_secret:
  "list_endpoints_h ee cl t = (Inr eps, t') \<Longrightarrow> (k, x) \<in> set eps \<Longrightarrow> we_secret x = []"
  by (auto simp: list_endpoints_h_def split: option.splits sum.splits)

lemma get_shows_no_secret: "get_endpoint_h ee cl j t = (Inr x, t') \<Longrightarrow> we_secret (snd x) = []"
  by (auto simp: get_endpoint_h_def split: sum.splits prod.splits)

lemma update_shows_new_secret:
  assumes "update_endpoint_h ee cl j pq t = (Inr x, t')"
  shows "if pq_rotate pq then \<exists>b. ee_random ee t = Inr b \<and> we_secret (snd x) = ''whsec_'' @ raw_url_b64 b
    else we_secret (snd x) = []"
proof -
  obtain i ep ep' where "owned_endpoint ee cl j t = Inr (i, ep)" and p: "patched_endpoint ee pq ep t = Inr ep'"
    and "write_patched ee pq i ep' t = (Inr x, t')"
    using assms by (auto simp: update_endpoint_h_def split: sum.splits prod.splits)
  then have "snd x = (if pq_rotate pq then ep' else ep'\<lparr>we_secret := []\<rparr>)"
    by (auto simp: write_patched_def Let_def split: sum.splits prod.splits)
  moreover have "\<exists>b. ee_random ee t = Inr b \<and> we_secret ep' = ''whsec_'' @ raw_url_b64 b" if "pq_rotate pq"
    using p that by (auto simp: patched_endpoint_def patch_secret_def new_webhook_secret_def split: sum.splits)
  ultimately show ?thesis by simp
qed

text \<open>
  C39: the secret that the response to a create shows is the one that signs the endpoint's deliveries as
  long as its row is not changed: a retry opens the row to it, and an attempt with it on an enabled
  endpoint posts a request signed with it. With a key the table holds it sealed. In whatever state, no
  list and no read of an endpoint shows a secret, nor does an update, which at most shows the new one that
  it has just drawn. It rests on the cipher opening what it sealed, and on a given secret that does not
  begin with the mark \<open>enc:v1:\<close> of a sealed one: such a secret is accepted too, and the next property says
  what becomes of it.
\<close>

theorem created_secret_signs:
  assumes cipher: "opens_sealed (he_box (ee_hooks ee)) (he_nonce (ee_hooks ee) s)"
    and plain: "\<not> is_sealed (eq_secret rq)" and made: "create_endpoint_h ee cl rq s = (Inr (i, ep), s')"
  shows "(\<forall>db. find_endpoint i db = find_endpoint i (fst s') \<longrightarrow>
         endpoint_for_delivery (he_box (ee_hooks ee)) i db = Inr ep)
    \<and> (\<forall>k d t. attempt (ee_hooks ee) k d ep t
         = (let (res, t1) = he_post (ee_hooks ee) \<lparr>wq_url = eq_url rq,
                  wq_headers = [(''Content-Type'', ''application/json''), (''User-Agent'', ''JobShout-Webhooks/1''),
                    (''X-JobShout-Event'', wd_type d), (''X-JobShout-Event-Id'', he_uuid_text (ee_hooks ee) (wd_event d)),
                    (''X-JobShout-Delivery'', he_uuid_text (ee_hooks ee) k),
                    (''X-JobShout-Timestamp'', show_int (he_now (ee_hooks ee) t div 1000)),
                    (''X-JobShout-Signature'',
                      sign (ee_hooks ee) (we_secret ep) (he_now (ee_hooks ee) t div 1000) (wd_payload d))],
                  wq_body = wd_payload d\<rparr> t;
                out = attempt_result (ee_hooks ee) (he_now (ee_hooks ee) t1) (wd_attempts d + 1) res
            in (out, note_outcome (ee_hooks ee) k out t1)))
    \<and> (he_box (ee_hooks ee) \<noteq> None \<longrightarrow>
         (\<exists>raw. find_endpoint i (fst s') = Some raw \<and> is_sealed (we_secret raw)))
    \<and> (\<forall>cl' eps t t'. list_endpoints_h ee cl' t = (Inr eps, t') \<longrightarrow> (\<forall>(k, x) \<in> set eps. we_secret x = []))
    \<and> (\<forall>cl' j x t t'. get_endpoint_h ee cl' j t = (Inr x, t') \<longrightarrow> we_secret (snd x) = [])
    \<and> (\<forall>cl' j pq x t t'. update_endpoint_h ee cl' j pq t = (Inr x, t') \<longrightarrow>
         (if pq_rotate pq then \<exists>b. ee_random ee t = Inr b \<and> we_secret (snd x) = ''whsec_'' @ raw_url_b64 b
          else we_secret (snd x) = []))"
proof -
  let ?box = "he_box (ee_hooks ee)"
  obtain stored where seal: "seal_secret ?box (he_nonce (ee_hooks ee) s) (we_secret ep) = Inr stored"
    and new: "find_endpoint i (fst s) = None"
    and rows: "wh_endpoints (fst s') = wh_endpoints (fst s) @ [(i, ep\<lparr>we_secret := stored\<rparr>)]"
    using create_h_cases [OF made] by blast
  have sec: "\<not> is_sealed (we_secret ep) \<and> we_secret ep \<noteq> []" using create_h_cases [OF made] plain by auto
  have row: "find_endpoint i (fst s') = Some (ep\<lparr>we_secret := stored\<rparr>)" by (rule find_endpoint_append [OF rows new])
  have "open_secret ?box stored = Inr (we_secret ep)" using open_seal [OF seal cipher] sec by blast
  then have "\<forall>db. find_endpoint i db = find_endpoint i (fst s') \<longrightarrow> endpoint_for_delivery ?box i db = Inr ep"
    by (simp add: endpoint_for_delivery_def row scan_endpoint_def)
  moreover have "is_sealed stored" if "?box \<noteq> None" using that seal sealed_is_sealed sec by auto
  moreover have "we_enabled ep" "we_url ep = eq_url rq" using create_h_cases [OF made] by auto
  moreover have "\<forall>cl' j pq x t t'. update_endpoint_h ee cl' j pq t = (Inr x, t') \<longrightarrow>
      (if pq_rotate pq then \<exists>b. ee_random ee t = Inr b \<and> we_secret (snd x) = ''whsec_'' @ raw_url_b64 b
       else we_secret (snd x) = [])"
    by (intro allI impI update_shows_new_secret)
  moreover have "\<forall>cl' eps t t'. list_endpoints_h ee cl' t = (Inr eps, t') \<longrightarrow> (\<forall>(k, x) \<in> set eps. we_secret x = [])"
    using list_shows_no_secret by blast
  moreover have "\<forall>cl' j x t t'. get_endpoint_h ee cl' j t = (Inr x, t') \<longrightarrow> we_secret (snd x) = []"
    by (intro allI impI get_shows_no_secret)
  ultimately show ?thesis
    by (intro conjI) (simp_all add: attempt_def delivery_request_def row)
qed

text \<open>A create whose every check passes and whose statement does not fail.\<close>

lemma create_h_accepts:
  assumes "ec_org cl = Some org" and "valid_endpoint_request ee rq" and "validate_webhook_url ee (eq_url rq) = None"
    and "validate_webhook_events (eq_events rq) = Inr evs" and "eq_secret rq \<noteq> []"
    and "he_fault (ee_hooks ee) s ''CreateEndpoint'' = None"
    and "seal_secret (he_box (ee_hooks ee)) (he_nonce (ee_hooks ee) s) (eq_secret rq) = Inr stored"
    and "find_endpoint (ee_id ee s) (fst s) = None"
  shows "\<exists>ep s'. create_endpoint_h ee cl rq s = (Inr (ee_id ee s, ep), s') \<and> we_org ep = org \<and> we_events ep = evs"
  using assms by (simp add: create_endpoint_h_def given_secret_def hook_write_def create_endpoint_def Let_def)

lemma unreadable_row:
  assumes row: "find_endpoint i (fst t) = Some raw" "open_secret (he_box (ee_hooks ee)) (we_secret raw) = Inl e0"
  shows "ec_org cl = Some (we_org raw) \<Longrightarrow> list_endpoints_h ee cl t = (Inl (500, ''failed to list webhook endpoints''), t)"
    and "we_enabled raw \<Longrightarrow> subscribed ty raw \<Longrightarrow> emit_event (ee_hooks ee) (we_org raw) ty data t = ([], t)"
    and "\<exists>r. update_endpoint_h ee cl (Some i) pq t = (Inl r, t) \<and> delete_endpoint_h ee cl (Some i) t = (Inl r, t)"
proof -
  have mem: "(i, raw) \<in> set (wh_endpoints (fst t))" using row(1) by (simp add: find_endpoint_def map_of_SomeD)
  obtain e where e: "scan_endpoint (he_box (ee_hooks ee)) (i, raw) = Inl e" using row(2) by (simp add: scan_endpoint_def)
  have "\<exists>e. list_endpoints (he_box (ee_hooks ee)) (we_org raw) (fst t) = Inl e"
    unfolding list_endpoints_def by (rule scan_endpoints_fails [OF _ e]) (use mem in auto)
  then show "ec_org cl = Some (we_org raw) \<Longrightarrow>
      list_endpoints_h ee cl t = (Inl (500, ''failed to list webhook endpoints''), t)"
    by (auto simp: list_endpoints_h_def hook_read_def split: option.splits)
  have "\<exists>e. list_subscribed (he_box (ee_hooks ee)) (we_org raw) ty (fst t) = Inl e" if "we_enabled raw" "subscribed ty raw"
    unfolding list_subscribed_def by (rule scan_endpoints_fails [OF _ e]) (use that mem in auto)
  then show "we_enabled raw \<Longrightarrow> subscribed ty raw \<Longrightarrow> emit_event (ee_hooks ee) (we_org raw) ty data t = ([], t)"
    by (auto simp: emit_event_def hook_read_def split: option.splits)
  have "owned_endpoint ee cl (Some i) t \<noteq> Inr x" for x
  proof
    assume "owned_endpoint ee cl (Some i) t = Inr x"
    then show False using owned_cases [of ee cl "Some i" t "fst x" "snd x"] row by auto
  qed
  then obtain r where "owned_endpoint ee cl (Some i) t = Inl r" by (cases "owned_endpoint ee cl (Some i) t") auto
  then show "\<exists>r. update_endpoint_h ee cl (Some i) pq t = (Inl r, t) \<and> delete_endpoint_h ee cl (Some i) t = (Inl r, t)"
    using owned_refused by metis
qed

text \<open>
  C40: a given secret that begins with the mark of a sealed one, followed by text that is not base64, passes
  the checks of a create like any other of its length, and is stored as it is. In every state in which the
  row is as the create stored it, the organisation's endpoints cannot be listed, no event of a type that
  the endpoint subscribes to starts a delivery for any endpoint of the organisation, and the endpoint can
  be neither changed nor deleted through the API, by whomever.
\<close>

theorem marked_secret_silences_org:
  assumes bad: "b64_decode junk = None" and key: "he_box (ee_hooks ee) = Some c"
    and marked: "eq_secret rq = seal_prefix @ junk"
    and caller: "ec_org cl = Some org"
    and valid: "valid_endpoint_request ee rq" "validate_webhook_url ee (eq_url rq) = None"
      "validate_webhook_events (eq_events rq) = Inr evs"
    and works: "he_fault (ee_hooks ee) s ''CreateEndpoint'' = None" "find_endpoint (ee_id ee s) (fst s) = None"
  shows "\<exists>ep s'. create_endpoint_h ee cl rq s = (Inr (ee_id ee s, ep), s')
    \<and> (\<forall>t. find_endpoint (ee_id ee s) (fst t) = find_endpoint (ee_id ee s) (fst s') \<longrightarrow>
        list_endpoints_h ee cl t = (Inl (500, ''failed to list webhook endpoints''), t)
        \<and> (\<forall>ty data. subscribed ty ep \<longrightarrow> emit_event (ee_hooks ee) org ty data t = ([], t))
        \<and> (\<forall>cl' pq. \<exists>r. update_endpoint_h ee cl' (Some (ee_id ee s)) pq t = (Inl r, t)
             \<and> delete_endpoint_h ee cl' (Some (ee_id ee s)) t = (Inl r, t)))"
proof -
  have seal: "seal_secret (he_box (ee_hooks ee)) (he_nonce (ee_hooks ee) s) (eq_secret rq) = Inr (seal_prefix @ junk)"
    and bad_row: "\<exists>e. open_secret (he_box (ee_hooks ee)) (seal_prefix @ junk) = Inl e"
    using marked_secret_unreadable [OF bad, of c "he_nonce (ee_hooks ee) s"] by (simp_all add: key marked)
  have "eq_secret rq \<noteq> []" by (simp add: marked seal_prefix_def)
  from create_h_accepts [OF caller valid this works(1) seal works(2)] obtain ep s' where
    made: "create_endpoint_h ee cl rq s = (Inr (ee_id ee s, ep), s')" "we_org ep = org" by blast
  obtain stored where st: "seal_secret (he_box (ee_hooks ee)) (he_nonce (ee_hooks ee) s) (we_secret ep) = Inr stored"
    "wh_endpoints (fst s') = wh_endpoints (fst s) @ [(ee_id ee s, ep\<lparr>we_secret := stored\<rparr>)]"
    and sec: "we_secret ep = eq_secret rq" "we_enabled ep"
    using create_h_cases [OF made(1)] \<open>eq_secret rq \<noteq> []\<close> by blast
  then have "stored = seal_prefix @ junk" using seal by simp
  then have row: "find_endpoint (ee_id ee s) (fst s') = Some (ep\<lparr>we_secret := seal_prefix @ junk\<rparr>)"
    using find_endpoint_append [OF st(2) works(2)] by simp
  obtain e where e: "open_secret (he_box (ee_hooks ee)) (seal_prefix @ junk) = Inl e" using bad_row by blast
  have "list_endpoints_h ee cl t = (Inl (500, ''failed to list webhook endpoints''), t)
      \<and> (\<forall>ty data. subscribed ty ep \<longrightarrow> emit_event (ee_hooks ee) org ty data t = ([], t))
      \<and> (\<forall>cl' pq. \<exists>r. update_endpoint_h ee cl' (Some (ee_id ee s)) pq t = (Inl r, t)
           \<and> delete_endpoint_h ee cl' (Some (ee_id ee s)) t = (Inl r, t))"
    if t: "find_endpoint (ee_id ee s) (fst t) = find_endpoint (ee_id ee s) (fst s')" for t
    using unreadable_row [of "ee_id ee s" t "ep\<lparr>we_secret := seal_prefix @ junk\<rparr>" ee e] t row e made(2) sec(2) caller
    by (simp add: subscribed_def)
  with made(1) show ?thesis by blast
qed

lemma update_endpoint_plain:
  assumes "find_endpoint i db = Some old" and "we_org ep = we_org old"
  shows "\<exists>db'. update_endpoint None drawn i ep db = Inr ((), db')
    \<and> find_endpoint i db' = Some (old\<lparr>we_url := we_url ep, we_secret := we_secret ep, we_events := we_events ep,
        we_description := we_description ep, we_enabled := we_enabled ep\<rparr>)"
proof -
  have "map_of (map (\<lambda>(j, x). (j, if j = i then f x else x)) eps) i = map_option f (map_of eps i)"
    for f :: "webhook_endpoint \<Rightarrow> webhook_endpoint" and eps by (induction eps) auto
  then show ?thesis using assms by (simp add: update_endpoint_def seal_secret_def find_endpoint_def)
qed

text \<open>
  An update reads the endpoint, changes it and writes all its columns: one that was read before a
  rotation and is written after it puts the old secret back, while the caller of the rotation has been
  given the new one.
\<close>

lemma rotation_undone:
  assumes box: "he_box (ee_hooks ee) = None" and faults: "he_fault (ee_hooks ee) = (\<lambda>s op. None)"
    and old: "find_endpoint i (fst s) = Some raw" "ec_org cl = Some (we_org raw)" "\<not> is_sealed (we_secret raw)"
    and rotate: "pq_rotate pq" "pq_url pq = None" "pq_events pq = None"
    and rand: "ee_random ee s = Inr b" "we_secret raw \<noteq> ''whsec_'' @ raw_url_b64 b"
    and plainly: "\<not> pq_rotate pq'" "pq_url pq' = None" "pq_events pq' = None"
  shows "\<exists>ep x s1 y s2. owned_endpoint ee cl (Some i) s = Inr (i, raw) \<and> patched_endpoint ee pq' raw s = Inr ep
    \<and> update_endpoint_h ee cl (Some i) pq s = (Inr x, s1) \<and> we_secret (snd x) = ''whsec_'' @ raw_url_b64 b
    \<and> write_patched ee pq' i ep s1 = (Inr y, s2)
    \<and> (\<exists>now. find_endpoint i (fst s2) = Some now \<and> we_secret now = we_secret raw)"
proof -
  have read: "owned_endpoint ee cl (Some i) s = Inr (i, raw)"
    using old by (simp add: owned_endpoint_def hook_read_def get_endpoint_def scan_endpoint_def open_secret_def box faults)
  define new where "new = (patch_rest pq raw)\<lparr>we_secret := ''whsec_'' @ raw_url_b64 b\<rparr>"
  have new: "patched_endpoint ee pq raw s = Inr new" and late: "patched_endpoint ee pq' raw s = Inr (patch_rest pq' raw)"
    using rotate plainly rand
    by (simp_all add: patched_endpoint_def patch_url_def patch_events_def patch_secret_def new_webhook_secret_def new_def)
  have orgs: "we_org new = we_org raw" "we_org (patch_rest pq' raw) = we_org raw"
    and secrets: "we_secret new = ''whsec_'' @ raw_url_b64 b" "we_secret (patch_rest pq' raw) = we_secret raw"
    by (simp_all add: new_def patch_rest_def)
  obtain db1 row1 where d1: "update_endpoint None (he_nonce (ee_hooks ee) s) i new (fst s) = Inr ((), db1)"
    "find_endpoint i db1 = Some row1" "we_org row1 = we_org raw"
    using update_endpoint_plain [OF old(1) orgs(1)] by fastforce
  have first: "update_endpoint_h ee cl (Some i) pq s = (Inr (i, new), (db1, snd s))"
    using d1(1) rotate(1) by (simp add: update_endpoint_h_def read new write_patched_def hook_write_def faults box Let_def)
  obtain db2 row2 where d2: "update_endpoint None (he_nonce (ee_hooks ee) (db1, snd s)) i (patch_rest pq' raw) db1 = Inr ((), db2)"
    "find_endpoint i db2 = Some row2" "we_secret row2 = we_secret raw"
    using update_endpoint_plain [OF d1(2), of "patch_rest pq' raw"] orgs d1(3) secrets by fastforce
  have "write_patched ee pq' i (patch_rest pq' raw) (db1, snd s)
      = (Inr (i, (patch_rest pq' raw)\<lparr>we_secret := []\<rparr>), (db2, snd s))"
    using d2(1) plainly(1) by (simp add: write_patched_def hook_write_def faults box Let_def)
  then show ?thesis using read late first secrets d2 by fastforce
qed

section \<open>Concrete instances\<close>

definition sample_ee :: "unit endpoint_env" where
  "sample_ee = \<lparr>ee_hooks = sample_env, ee_parse_url = (\<lambda>u. Inr (''https'', ''a.example'')), ee_url_tag = (\<lambda>u. True),
     ee_invalid_text = ''invalid'', ee_random = (\<lambda>s. Inr ''abc''), ee_id = (\<lambda>s. 4)\<rparr>"

definition admin_5 :: endpoint_caller where
  "admin_5 = \<lparr>ec_org = Some 5, ec_user = Some 6\<rparr>"

definition sample_request :: "string \<Rightarrow> endpoint_request" where
  "sample_request secret =
     \<lparr>eq_url = ''https://a.example/hook'', eq_secret = secret, eq_events = [''*''], eq_description = []\<rparr>"

definition shown_endpoint :: "string \<Rightarrow> webhook_endpoint" where
  "shown_endpoint secret =
     \<lparr>we_org = 5, we_url = ''https://a.example/hook'', we_secret = secret, we_events = [''*''], we_description = [],
      we_enabled = True, we_by = Some 6, we_created = 1000\<rparr>"

lemma he_nonce_sample [simp]: "he_nonce sample_env s = Inr ''n''"
  by (simp add: sample_env_def with_hook_defaults_def)

lemma sample_create:
  assumes "secret = [] \<or> 16 \<le> rune_count secret"
  shows "\<exists>s'. create_endpoint_h sample_ee admin_5 (sample_request secret) (sample_db, ())
    = (Inr (4, shown_endpoint (if secret = [] then ''whsec_'' @ raw_url_b64 ''abc'' else secret)), s')"
proof -
  define given where "given = (if secret = [] then ''whsec_'' @ raw_url_b64 ''abc'' else secret)"
  have "given_secret sample_ee secret (sample_db, ()) = Inr given"
    by (simp add: given_secret_def new_webhook_secret_def sample_ee_def given_def)
  moreover have "\<exists>x. seal_secret (Some plain_cipher) (Inr ''n'') given = Inr x" by (simp add: seal_secret_def)
  moreover have "find_endpoint 4 sample_db = None" by (simp add: find_endpoint_def sample_db_def)
  moreover have "eq_secret (sample_request secret) = secret" by (simp add: sample_request_def)
  ultimately show ?thesis
    using assms unfolding given_def [symmetric]
    by (auto simp: create_endpoint_h_def admin_5_def valid_endpoint_request_def validate_webhook_url_def
        validate_webhook_events_def known_event_def hook_write_def create_endpoint_def sample_request_def
        shown_endpoint_def sample_ee_def Let_def)
qed

theorem created_secret_signs_witness:
  "\<exists>s'. create_endpoint_h sample_ee admin_5 (sample_request []) (sample_db, ())
      = (Inr (4, shown_endpoint (''whsec_'' @ raw_url_b64 ''abc'')), s')
    \<and> endpoint_for_delivery (Some plain_cipher) 4 (fst s') = Inr (shown_endpoint (''whsec_'' @ raw_url_b64 ''abc''))"
proof -
  obtain s' where made: "create_endpoint_h sample_ee admin_5 (sample_request []) (sample_db, ())
      = (Inr (4, shown_endpoint (''whsec_'' @ raw_url_b64 ''abc'')), s')"
    using sample_create [of "[]"] by auto
  have "opens_sealed (he_box (ee_hooks sample_ee)) (he_nonce (ee_hooks sample_ee) (sample_db, ()))"
    by (simp add: sample_ee_def opens_sealed_def plain_cipher_def)
  moreover have "\<not> is_sealed (eq_secret (sample_request []))"
    by (simp add: sample_request_def is_sealed_def seal_prefix_def)
  ultimately show ?thesis using created_secret_signs [OF _ _ made] made by (simp add: sample_ee_def)
qed

theorem marked_secret_silences_org_witness:
  "\<exists>ep s'. create_endpoint_h sample_ee admin_5 (sample_request ''enc:v1:!!!!!!!!!'') (sample_db, ()) = (Inr (4, ep), s')
    \<and> (\<forall>data. subscribed ''run.failed'' ep \<longrightarrow> emit_event sample_env 5 ''run.failed'' data s' = ([], s'))
    \<and> (\<exists>r. delete_endpoint_h sample_ee admin_5 (Some 4) s' = (Inl r, s'))"
proof -
  have len: "rune_count ''enc:v1:!!!!!!!!!'' = 16" by code_simp
  have bad: "b64_decode ''!!!!!!!!!'' = None" by code_simp
  have key: "he_box (ee_hooks sample_ee) = Some plain_cipher" by (simp add: sample_ee_def)
  have marked: "eq_secret (sample_request ''enc:v1:!!!!!!!!!'') = seal_prefix @ ''!!!!!!!!!''"
    by (simp add: sample_request_def seal_prefix_def)
  have caller: "ec_org admin_5 = Some 5" by (simp add: admin_5_def)
  have valid: "valid_endpoint_request sample_ee (sample_request ''enc:v1:!!!!!!!!!'')"
    "validate_webhook_url sample_ee (eq_url (sample_request ''enc:v1:!!!!!!!!!'')) = None"
    "validate_webhook_events (eq_events (sample_request ''enc:v1:!!!!!!!!!'')) = Inr [''*'']"
    using len by (simp_all add: valid_endpoint_request_def validate_webhook_url_def validate_webhook_events_def
        known_event_def sample_request_def sample_ee_def)
  have works: "he_fault (ee_hooks sample_ee) (sample_db, ()) ''CreateEndpoint'' = None"
    "find_endpoint (ee_id sample_ee (sample_db, ())) (fst (sample_db, ())) = None"
    by (simp_all add: sample_ee_def find_endpoint_def sample_db_def)
  from marked_secret_silences_org [OF bad key marked caller valid works] obtain ep s' where
    made: "create_endpoint_h sample_ee admin_5 (sample_request ''enc:v1:!!!!!!!!!'') (sample_db, ())
        = (Inr (ee_id sample_ee (sample_db, ()), ep), s')"
    and later: "\<forall>t. find_endpoint (ee_id sample_ee (sample_db, ())) (fst t)
          = find_endpoint (ee_id sample_ee (sample_db, ())) (fst s') \<longrightarrow>
        (\<forall>ty data. subscribed ty ep \<longrightarrow> emit_event (ee_hooks sample_ee) 5 ty data t = ([], t))
        \<and> (\<forall>cl' pq. \<exists>r. delete_endpoint_h sample_ee cl' (Some (ee_id sample_ee (sample_db, ()))) t = (Inl r, t))"
    by blast
  have "ee_id sample_ee (sample_db, ()) = 4" "ee_hooks sample_ee = sample_env" by (simp_all add: sample_ee_def)
  then show ?thesis
    using made later [rule_format, of s'] by (intro exI [of _ ep] exI [of _ s']) auto
qed

end
