(* ===== verification/AgentSelect.thy ===== *)
theory AgentSelect
  imports ExecStore Sorting
begin

text \<open>
  \<open>selector/selector.go\<close>: the agent an organisation's past executions speak for. The queries are
  functions on the rows they read; averages are exact where the database has numerics and the code
  floats. Agents are in the order of their first row where a query leaves the order open.
\<close>

section \<open>Rows\<close>

record exec_fact =
  xf_org :: uuid
  xf_agent :: uuid
  xf_status :: string
  xf_latency :: int
  xf_cost :: rat
  xf_created :: int

record score_row =
  sw_org :: uuid
  sw_agent :: uuid
  sw_type :: string
  sw_rate :: rat
  sw_latency :: int
  sw_cost :: rat
  sw_runs :: int

record agent_candidate =
  cd_agent :: uuid
  cd_name :: string
  cd_rate :: rat
  cd_latency :: int
  cd_cost :: rat
  cd_runs :: int
  cd_score :: rat

record select_db =
  sd_facts :: "exec_fact list"
  sd_scores :: "score_row list"
  sd_names :: "uuid \<Rightarrow> string option"

definition lookback :: int where "lookback = 30 * 24 * 3600 * 1000"

text \<open>Halves are rounded away from zero, by \<open>math.Round\<close> as by the casts of the database.\<close>

definition round_half :: "rat \<Rightarrow> int" where
  "round_half r = (if 0 \<le> r then \<lfloor>r + 1 / 2\<rfloor> else - \<lfloor>- r + 1 / 2\<rfloor>)"

definition round_places :: "nat \<Rightarrow> rat \<Rightarrow> rat" where
  "round_places n r = of_int (round_half (r * 10 ^ n)) / 10 ^ n"

definition mean :: "rat list \<Rightarrow> rat" where
  "mean xs = (if xs = [] then 0 else sum_list xs / of_nat (length xs))"

definition recent_facts :: "uuid \<Rightarrow> int \<Rightarrow> select_db \<Rightarrow> exec_fact list" where
  "recent_facts org now db =
     filter (\<lambda>f. xf_org f = org \<and> xf_created f \<ge> now - lookback) (sd_facts db)"

definition facts_of :: "uuid \<Rightarrow> exec_fact list \<Rightarrow> exec_fact list" where
  "facts_of a fs = filter (\<lambda>f. xf_agent f = a) fs"

definition success_rate :: "exec_fact list \<Rightarrow> rat" where
  "success_rate fs =
     (if fs = [] then 0
      else of_nat (length (filter (\<lambda>f. xf_status f = st_completed) fs)) / of_nat (length fs))"

definition average_latency :: "exec_fact list \<Rightarrow> int" where
  "average_latency fs = round_half (mean (map (\<lambda>f. of_int (xf_latency f)) fs))"

definition average_cost :: "exec_fact list \<Rightarrow> rat" where
  "average_cost fs = mean (map xf_cost fs)"

fun first_seen :: "uuid list \<Rightarrow> exec_fact list \<Rightarrow> uuid list" where
  "first_seen seen [] = []"
| "first_seen seen (f # fs) =
     (if xf_agent f \<in> set seen then first_seen seen fs else xf_agent f # first_seen (xf_agent f # seen) fs)"

section \<open>The table of scores\<close>

text \<open>The columns of the table keep four and eight decimals.\<close>

definition score_of :: "uuid \<Rightarrow> exec_fact list \<Rightarrow> uuid \<Rightarrow> score_row" where
  "score_of org fs a =
     \<lparr>sw_org = org, sw_agent = a, sw_type = ''general'', sw_rate = round_places 4 (success_rate (facts_of a fs)),
      sw_latency = average_latency (facts_of a fs), sw_cost = round_places 8 (average_cost (facts_of a fs)),
      sw_runs = int (length (facts_of a fs))\<rparr>"

definition same_score_key :: "score_row \<Rightarrow> score_row \<Rightarrow> bool" where
  "same_score_key x y \<longleftrightarrow> sw_org x = sw_org y \<and> sw_agent x = sw_agent y \<and> sw_type x = sw_type y"

definition put_score :: "score_row \<Rightarrow> score_row list \<Rightarrow> score_row list" where
  "put_score new rows =
     (if \<exists>r \<in> set rows. same_score_key r new then map (\<lambda>r. if same_score_key r new then new else r) rows
      else rows @ [new])"

definition update_scores :: "uuid \<Rightarrow> int \<Rightarrow> select_db \<Rightarrow> select_db" where
  "update_scores org now db =
     (let fs = recent_facts org now db
      in db\<lparr>sd_scores := fold put_score (map (score_of org fs) (first_seen [] fs)) (sd_scores db)\<rparr>)"

section \<open>Candidates\<close>

definition eligible :: "uuid list \<Rightarrow> uuid \<Rightarrow> bool" where
  "eligible ids a \<longleftrightarrow> ids = [] \<or> a \<in> set ids"

definition agent_name :: "select_db \<Rightarrow> uuid \<Rightarrow> string" where
  "agent_name db a = (case sd_names db a of None \<Rightarrow> [] | Some n \<Rightarrow> n)"

definition more_runs :: "agent_candidate \<Rightarrow> agent_candidate \<Rightarrow> bool" where
  "more_runs x y \<longleftrightarrow> cd_runs x > cd_runs y"

definition from_scores_table :: "uuid \<Rightarrow> string \<Rightarrow> uuid list \<Rightarrow> select_db \<Rightarrow> agent_candidate list" where
  "from_scores_table org ty ids db =
     take 50 (stable_sort more_runs
       (map (\<lambda>r. \<lparr>cd_agent = sw_agent r, cd_name = agent_name db (sw_agent r), cd_rate = sw_rate r,
                 cd_latency = sw_latency r, cd_cost = sw_cost r, cd_runs = sw_runs r, cd_score = 0\<rparr>)
         (filter (\<lambda>r. sw_org r = org \<and> sw_type r = ty \<and> eligible ids (sw_agent r)) (sd_scores db))))"

definition from_live_data :: "uuid \<Rightarrow> uuid list \<Rightarrow> int \<Rightarrow> select_db \<Rightarrow> agent_candidate list" where
  "from_live_data org ids now db =
     (let fs = filter (\<lambda>f. eligible ids (xf_agent f)) (recent_facts org now db)
      in take 50 (stable_sort more_runs
        (map (\<lambda>a. \<lparr>cd_agent = a, cd_name = agent_name db a,
                  cd_rate = round_places 4 (success_rate (facts_of a fs)),
                  cd_latency = average_latency (facts_of a fs), cd_cost = average_cost (facts_of a fs),
                  cd_runs = int (length (facts_of a fs)), cd_score = 0\<rparr>)
          (first_seen [] fs))))"

text \<open>\<open>table\<close> and \<open>live\<close> are the errors of the two queries.\<close>

definition load_candidates ::
  "go_err option \<Rightarrow> go_err option \<Rightarrow> uuid \<Rightarrow> string \<Rightarrow> uuid list \<Rightarrow> int \<Rightarrow> select_db \<Rightarrow> go_err + agent_candidate list" where
  "load_candidates table live org ty ids now db =
     (if table = None \<and> from_scores_table org ty ids db \<noteq> [] then Inr (from_scores_table org ty ids db)
      else case live of Some e \<Rightarrow> Inl e | None \<Rightarrow> Inr (from_live_data org ids now db))"

section \<open>Selection\<close>

definition weight_success :: rat where "weight_success = 5 / 10"
definition weight_latency :: rat where "weight_latency = 2 / 10"
definition weight_cost :: rat where "weight_cost = 3 / 10"

definition largest :: "('a \<Rightarrow> rat) \<Rightarrow> 'a list \<Rightarrow> rat" where
  "largest f xs = foldl (\<lambda>m x. if f x > m then f x else m) 1 xs"

definition scored :: "rat \<Rightarrow> rat \<Rightarrow> agent_candidate \<Rightarrow> agent_candidate" where
  "scored max_latency max_cost c =
     c\<lparr>cd_score := cd_rate c * weight_success - of_int (cd_latency c) / max_latency * weight_latency
         - cd_cost c / max_cost * weight_cost\<rparr>"

definition score_all :: "agent_candidate list \<Rightarrow> agent_candidate list" where
  "score_all cs = map (scored (largest (\<lambda>c. of_int (cd_latency c)) cs) (largest cd_cost cs)) cs"

text \<open>The two nested loops that sort in place: \<open>sink\<close> moves one agent_candidate up while it is better.\<close>

fun sink :: "nat \<Rightarrow> agent_candidate list \<Rightarrow> agent_candidate list" where
  "sink 0 xs = xs"
| "sink (Suc j) xs =
     (if cd_score (xs ! Suc j) > cd_score (xs ! j) then sink j (xs[j := xs ! Suc j, Suc j := xs ! j]) else xs)"

definition sort_in_place :: "agent_candidate list \<Rightarrow> agent_candidate list" where
  "sort_in_place xs = fold sink [1..<length xs] xs"

record selection =
  sl_selected :: "agent_candidate option"
  sl_fallback :: "agent_candidate option"
  sl_candidates :: "agent_candidate list"
  sl_reason :: string

definition show_score :: "rat \<Rightarrow> string" where
  "show_score r = (if r < 0 then ''-'' @ show_fixed 4 (- r) else show_fixed 4 r)"

definition select_agent ::
  "go_err option \<Rightarrow> go_err option \<Rightarrow> uuid \<Rightarrow> string \<Rightarrow> uuid list \<Rightarrow> int \<Rightarrow> select_db \<Rightarrow> go_err + selection" where
  "select_agent table live org ty ids now db =
     (case load_candidates table live org ty ids now db of
        Inl e \<Rightarrow> Inl (ErrWrap ''selector: load candidates: '' e)
      | Inr cs \<Rightarrow>
          (case sort_in_place (score_all cs) of
             [] \<Rightarrow> Inr \<lparr>sl_selected = None, sl_fallback = None, sl_candidates = [], sl_reason = ''no candidates found''\<rparr>
           | best # rest \<Rightarrow> Inr \<lparr>sl_selected = Some best, sl_fallback = (case rest of [] \<Rightarrow> None | c # others \<Rightarrow> Some c),
               sl_candidates = best # rest,
               sl_reason = ''selected '' @ cd_name best @ '' with score '' @ show_score (cd_score best)\<rparr>))"

section \<open>The sort\<close>

definition lower_score :: "agent_candidate \<Rightarrow> agent_candidate \<Rightarrow> bool" where
  "lower_score x y \<longleftrightarrow> cd_score x < cd_score y"

interpretation score_order: weak_order lower_score
  by (rule weak_order_key [where key = cd_score]) (simp add: lower_score_def)

lemma sink_inserts:
  "j < length xs \<Longrightarrow> sink j xs = rev (insort_by lower_score (xs ! j) (rev (take j xs))) @ drop (Suc j) xs"
proof (induction j arbitrary: xs)
  case 0
  then show ?case by (simp add: Cons_nth_drop_Suc)
next
  case (Suc j)
  have t: "rev (take (Suc j) xs) = xs ! j # rev (take j xs)" using Suc.prems by (simp add: take_Suc_conv_app_nth)
  show ?case
  proof (cases "cd_score (xs ! Suc j) > cd_score (xs ! j)")
    case True
    let ?ys = "xs[j := xs ! Suc j, Suc j := xs ! j]"
    have drop_tail: "drop (Suc j) ?ys = xs ! j # drop (Suc (Suc j)) xs"
      using Suc.prems by (subst Cons_nth_drop_Suc [symmetric]) simp_all
    have "sink j ?ys = rev (insort_by lower_score (?ys ! j) (rev (take j ?ys))) @ drop (Suc j) ?ys"
      by (rule Suc.IH) (use Suc.prems in simp)
    moreover have "?ys ! j = xs ! Suc j" "take j ?ys = take j xs" "drop (Suc j) ?ys = xs ! j # drop (Suc (Suc j)) xs"
      using Suc.prems by (simp_all add: take_update_cancel drop_tail)
    moreover have "lower_score (xs ! j) (xs ! Suc j)" using True by (simp add: lower_score_def)
    ultimately show ?thesis using True by (simp add: t)
  next
    case False
    then have "\<not> lower_score (xs ! j) (xs ! Suc j)" by (simp add: lower_score_def)
    moreover have "xs = take j xs @ xs ! j # xs ! Suc j # drop (Suc (Suc j)) xs"
      using Suc.prems by (simp add: Cons_nth_drop_Suc)
    ultimately show ?thesis using False by (simp add: t)
  qed
qed

lemma sort_in_place_prefix:
  "0 < n \<Longrightarrow> n \<le> length xs \<Longrightarrow>
   fold sink [1..<n] xs = rev (stable_sort lower_score (rev (take n xs))) @ drop n xs"
proof (induction n)
  case (Suc n)
  show ?case
  proof (cases "n = 0")
    case True
    then show ?thesis using Suc.prems by (cases xs) simp_all
  next
    case False
    let ?ys = "rev (stable_sort lower_score (rev (take n xs))) @ drop n xs"
    have ys: "fold sink [1..<n] xs = ?ys" using Suc False by simp
    have len: "length (rev (stable_sort lower_score (rev (take n xs)))) = n" using Suc.prems by simp
    then have "?ys ! n = xs ! n" "take n ?ys = rev (stable_sort lower_score (rev (take n xs)))"
      "drop (Suc n) ?ys = drop (Suc n) xs"
      using Suc.prems by (simp_all add: nth_append)
    moreover have "n < length ?ys" using Suc.prems by simp
    ultimately have "sink n ?ys = rev (insort_by lower_score (xs ! n) (stable_sort lower_score (rev (take n xs)))) @ drop (Suc n) xs"
      using sink_inserts [of n ?ys] by simp
    moreover have "[1..<Suc n] = [1..<n] @ [n]" using False by simp
    then have "fold sink [1..<Suc n] xs = sink n ?ys" by (simp only: fold_append ys fold.simps o_apply id_apply)
    ultimately show ?thesis using Suc.prems by (simp add: take_Suc_conv_app_nth)
  qed
qed simp

text \<open>
  The loops sort the candidates by descending score and leave those of equal score in the order of the
  query.
\<close>

lemma sort_in_place_sorts: "sort_in_place xs = sort_key (\<lambda>c. - cd_score c) xs"
proof -
  let ?ys = "rev (stable_sort lower_score (rev xs))"
  have "sort_in_place xs = ?ys"
    using sort_in_place_prefix [of "length xs" xs] by (cases xs) (simp_all add: sort_in_place_def)
  moreover have "sort_key (\<lambda>c. - cd_score c) xs = ?ys"
  proof (rule properties_for_sort_key)
    show "mset ?ys = mset xs" by simp
    show "filter (\<lambda>x. - cd_score k = - cd_score x) ?ys = filter (\<lambda>x. - cd_score k = - cd_score x) xs" for k
      using score_order.stable_sort_stable [of "\<lambda>x. - cd_score k = - cd_score x" "rev xs"]
      by (simp add: rev_filter [symmetric] lower_score_def)
    have "sorted_wrt (\<lambda>a b. \<not> lower_score b a) (stable_sort lower_score (rev xs))"
      by (rule score_order.stable_sort_sorted)
    then show "sorted (map (\<lambda>c. - cd_score c) ?ys)"
      by (simp add: sorted_map sorted_wrt_rev lower_score_def not_less)
  qed
  ultimately show ?thesis by simp
qed

section \<open>What is selected\<close>

lemma largest_ge: "x \<in> set xs \<Longrightarrow> f x \<le> largest f xs" and largest_one: "1 \<le> largest f xs"
proof -
  have "m \<le> foldl (\<lambda>m x. if f x > m then f x else m) m xs
      \<and> (\<forall>x \<in> set xs. f x \<le> foldl (\<lambda>m x. if f x > m then f x else m) m xs)" for m
    by (induction xs arbitrary: m) (auto simp: not_less dest: order_trans intro: order_trans [OF less_imp_le])
  then show "x \<in> set xs \<Longrightarrow> f x \<le> largest f xs" and "1 \<le> largest f xs" by (auto simp: largest_def)
qed

definition sane_candidate :: "agent_candidate \<Rightarrow> bool" where
  "sane_candidate c \<longleftrightarrow> 0 \<le> cd_rate c \<and> cd_rate c \<le> 1 \<and> 0 \<le> cd_latency c \<and> 0 \<le> cd_cost c"

lemma share_bounds: "0 \<le> x \<Longrightarrow> x \<le> m \<Longrightarrow> 1 \<le> m \<Longrightarrow> 0 \<le> x / m \<and> x / m \<le> (1 :: rat)"
  by (auto simp: divide_simps)

lemma score_bounds:
  assumes "\<forall>c \<in> set cs. sane_candidate c" and "c \<in> set (score_all cs)"
  shows "- 1 / 2 \<le> cd_score c \<and> cd_score c \<le> 1 / 2"
proof -
  obtain d where d: "d \<in> set cs" and c: "c = scored (largest (\<lambda>c. of_int (cd_latency c)) cs) (largest cd_cost cs) d"
    using assms(2) by (auto simp: score_all_def)
  let ?l = "of_int (cd_latency d) / largest (\<lambda>c. of_int (cd_latency c)) cs" and ?c = "cd_cost d / largest cd_cost cs"
  have "sane_candidate d" using assms(1) d by blast
  then have "0 \<le> ?l \<and> ?l \<le> 1" and "0 \<le> ?c \<and> ?c \<le> 1" and "0 \<le> cd_rate d \<and> cd_rate d \<le> 1"
    using share_bounds [OF _ largest_ge [OF d] largest_one, of "\<lambda>c. of_int (cd_latency c)"]
      share_bounds [OF _ largest_ge [OF d] largest_one, of cd_cost] by (simp_all add: sane_candidate_def)
  then show ?thesis by (simp add: c scored_def weight_success_def weight_latency_def weight_cost_def)
qed

lemma sort_in_place_facts:
  "mset (sort_in_place xs) = mset xs \<and> sorted_wrt (\<lambda>a b. cd_score b \<le> cd_score a) (sort_in_place xs)"
  using sorted_sort_key [of "\<lambda>c. - cd_score c" xs] by (simp add: sort_in_place_sorts sorted_map)

text \<open>
  The selected agent has the highest score of all that were loaded and the fallback the next; nobody
  is lost or made up on the way, and scores of sane figures lie between minus one half and one half.
\<close>

lemma selects_best_agent:
  assumes "load_candidates table live org ty ids now db = Inr cs" and "\<forall>c \<in> set cs. sane_candidate c"
    and "select_agent table live org ty ids now db = Inr sel"
  shows "mset (sl_candidates sel) = mset (score_all cs)
    \<and> sorted_wrt (\<lambda>a b. cd_score b \<le> cd_score a) (sl_candidates sel)
    \<and> (case sl_candidates sel of
         [] \<Rightarrow> sl_selected sel = None \<and> sl_fallback sel = None
       | best # others \<Rightarrow> sl_selected sel = Some best
           \<and> sl_fallback sel = (case others of [] \<Rightarrow> None | c # _ \<Rightarrow> Some c)
           \<and> (\<forall>c \<in> set (score_all cs). cd_score c \<le> cd_score best))
    \<and> (\<forall>c \<in> set (sl_candidates sel). - 1 / 2 \<le> cd_score c \<and> cd_score c \<le> 1 / 2)"
proof -
  let ?ys = "sort_in_place (score_all cs)"
  have ys: "sl_candidates sel = ?ys" using assms(1,3) by (auto simp: select_agent_def split: list.splits)
  have m: "mset ?ys = mset (score_all cs)" and o: "sorted_wrt (\<lambda>a b. cd_score b \<le> cd_score a) ?ys"
    using sort_in_place_facts by auto
  have set: "set ?ys = set (score_all cs)" using m by (rule mset_eq_setD)
  have "case ?ys of [] \<Rightarrow> sl_selected sel = None \<and> sl_fallback sel = None
     | best # others \<Rightarrow> sl_selected sel = Some best \<and> sl_fallback sel = (case others of [] \<Rightarrow> None | c # _ \<Rightarrow> Some c)
         \<and> (\<forall>c \<in> set (score_all cs). cd_score c \<le> cd_score best)"
    using assms(1,3) o unfolding set [symmetric] by (auto simp: select_agent_def split: list.splits)
  then show ?thesis using m o score_bounds [OF assms(2)] unfolding ys set by blast
qed

text \<open>
  Once the table of scores has one row for the organisation and the type of task, only the table
  counts: an agent that is not in it is not considered, whatever its executions say.
\<close>

lemma live_data_ignored:
  assumes "from_scores_table org ty ids db \<noteq> []"
  shows "select_agent None live org ty ids now (db\<lparr>sd_facts := fs\<rparr>) = select_agent None live org ty ids now db"
  using assms by (simp add: select_agent_def load_candidates_def from_scores_table_def agent_name_def)

end
