(* ===== verification/TaskRunStore.thy ===== *)
theory TaskRunStore
  imports ApprovalService SchedStore PlatformTools
begin

text \<open>
  The board: tasks with the history of their columns (\<open>repository/task_repository.go\<close>) and the runs of
  tasks by agents (\<open>repository/task_run_repository.go\<close>, \<open>repository/task_run_context_repository.go\<close>).
  A statement is a function on the tables, its WHERE clause its guard. Of a task the columns that
  these statements and the runs read are kept; the audit column \<open>updated_at\<close> is left out.
\<close>

section \<open>Tables\<close>

text \<open>\<open>RunContext\<close>: for whom and as what an agent acts in a run.\<close>

record run_context =
  rc_role :: string
  rc_user :: string
  rc_workspace :: string

definition normalize_context :: "run_context option \<Rightarrow> run_context option" where
  "normalize_context c =
     (case c of None \<Rightarrow> None
      | Some c \<Rightarrow>
          (let d = \<lparr>rc_role = trim_space (rc_role c), rc_user = trim_space (rc_user c),
                    rc_workspace = trim_space (rc_workspace c)\<rparr>
           in if d = \<lparr>rc_role = [], rc_user = [], rc_workspace = []\<rparr> then None else Some d))"

definition put_text :: "string \<Rightarrow> string \<Rightarrow> obj \<Rightarrow> obj" where
  "put_text k v m = (if v = [] then m else aput k (JStr v) m)"

definition merge_context :: "run_context option \<Rightarrow> obj \<Rightarrow> obj" where
  "merge_context c inputs =
     (case c of None \<Rightarrow> inputs
      | Some c \<Rightarrow> put_text ''workspace_ref'' (rc_workspace c)
          (put_text ''user_ref'' (rc_user c) (put_text ''role'' (rc_role c) inputs)))"

record board_task =
  bt_project :: uuid
  bt_title :: string
  bt_description :: "string option"
  bt_status :: string
  bt_agent :: "uuid option"
  bt_position :: int
  bt_completed :: "int option"
  bt_metadata :: obj

record task_run =
  jr_task :: uuid
  jr_agent :: uuid
  jr_org :: uuid
  jr_exec :: "uuid option"
  jr_status :: string
  jr_prompt :: string
  jr_engine :: "string option"
  jr_provider :: "string option"
  jr_model :: "string option"
  jr_skills :: "string list"
  jr_inputs :: obj
  jr_context :: "run_context option"
  jr_debug :: bool
  jr_output :: "string option"
  jr_error :: "string option"
  jr_tokens :: int
  jr_cost :: rat
  jr_latency :: int
  jr_iterations :: int
  jr_by :: "uuid option"
  jr_pending :: "uuid option"
  jr_started :: "int option"
  jr_completed :: "int option"
  jr_created :: int

record status_change =
  sh_task :: uuid
  sh_old :: string
  sh_new :: string
  sh_by :: "uuid option"
  sh_at :: int

text \<open>A project is known by its organisation; runs and tasks are kept in the order of their insertion.\<close>

record board_db =
  bd_projects :: "uuid \<Rightarrow> uuid option"
  bd_tasks :: "(uuid \<times> board_task) list"
  bd_runs :: "(uuid \<times> task_run) list"
  bd_history :: "status_change list"

definition jr_queued :: string where "jr_queued = ''queued''"
definition jr_running :: string where "jr_running = ''running''"
definition jr_done :: string where "jr_done = ''completed''"
definition jr_failed :: string where "jr_failed = ''failed''"
definition jr_awaiting :: string where "jr_awaiting = ''awaiting_approval''"

lemmas run_status_defs = jr_queued_def jr_running_def jr_done_def jr_failed_def jr_awaiting_def

definition no_rows :: go_err where
  "no_rows = ErrSentinel ''no rows in result set''"

section \<open>Tasks\<close>

definition find_board_task :: "uuid \<Rightarrow> board_db \<Rightarrow> board_task option" where
  "find_board_task i db = map_of (bd_tasks db) i"

text \<open>\<open>nextCompletedAt\<close>: a task that was done before keeps the time it was done at.\<close>

definition next_completed :: "string \<Rightarrow> int option \<Rightarrow> int \<Rightarrow> int option" where
  "next_completed status current now =
     (if status \<noteq> ''done'' then None else case current of Some t \<Rightarrow> Some t | None \<Rightarrow> Some now)"

definition next_position :: "uuid \<Rightarrow> string \<Rightarrow> board_db \<Rightarrow> int" where
  "next_position project status db =
     foldr max (map (bt_position \<circ> snd)
       (filter (\<lambda>(j, t). bt_project t = project \<and> bt_status t = status) (bd_tasks db))) (- 1) + 1"

definition set_board_task :: "uuid \<Rightarrow> (board_task \<Rightarrow> board_task) \<Rightarrow> board_db \<Rightarrow> board_db" where
  "set_board_task i f db =
     db\<lparr>bd_tasks := map (\<lambda>(j, t). (j, if j = i then f t else t)) (bd_tasks db)\<rparr>"

definition note_change :: "uuid \<Rightarrow> string \<Rightarrow> string \<Rightarrow> uuid option \<Rightarrow> int \<Rightarrow> board_db \<Rightarrow> board_db" where
  "note_change i old new by_user now db =
     db\<lparr>bd_history := bd_history db @ [\<lparr>sh_task = i, sh_old = old, sh_new = new, sh_by = by_user, sh_at = now\<rparr>]\<rparr>"

definition transition_status ::
  "uuid \<Rightarrow> string \<Rightarrow> uuid option \<Rightarrow> int \<Rightarrow> board_db \<Rightarrow> go_err + unit \<times> board_db" where
  "transition_status i status by_user now db =
     (case find_board_task i db of
        None \<Rightarrow> Inl (ErrWrap ''finding task: '' no_rows)
      | Some t \<Rightarrow>
          if bt_status t = status then Inr ((), db)
          else Inr ((), note_change i (bt_status t) status by_user now
            (set_board_task i (\<lambda>t. t\<lparr>bt_status := status, bt_position := next_position (bt_project t) status db,
               bt_completed := next_completed status (bt_completed t) now\<rparr>) db)))"

definition create_board_task :: "uuid \<Rightarrow> board_task \<Rightarrow> int \<Rightarrow> board_db \<Rightarrow> go_err + board_task \<times> board_db" where
  "create_board_task i t now db =
     (if find_board_task i db \<noteq> None \<or> bd_projects db (bt_project t) = None
      then Inl (ErrText ''constraint violation'')
      else (let t' = t\<lparr>bt_position := next_position (bt_project t) (bt_status t) db,
                       bt_completed := (if bt_status t = ''done'' \<and> bt_completed t = None then Some now
                                        else bt_completed t)\<rparr>
            in Inr (t', db\<lparr>bd_tasks := bd_tasks db @ [(i, t')]\<rparr>)))"

text \<open>
  \<open>Reorder\<close> makes room at the position and puts the task there; a status that does not change leaves
  the time of completion and the history alone.
\<close>

definition reorder_task ::
  "uuid \<Rightarrow> string \<Rightarrow> int \<Rightarrow> uuid option \<Rightarrow> int \<Rightarrow> board_db \<Rightarrow> go_err + unit \<times> board_db" where
  "reorder_task i status pos by_user now db =
     (case find_board_task i db of
        None \<Rightarrow> Inl (ErrWrap ''finding task for reorder: '' no_rows)
      | Some t \<Rightarrow>
          (let moved = db\<lparr>bd_tasks := map (\<lambda>(j, u). (j,
                   if bt_project u = bt_project t \<and> bt_status u = status \<and> bt_position u \<ge> pos \<and> j \<noteq> i
                   then u\<lparr>bt_position := bt_position u + 1\<rparr> else u)) (bd_tasks db)\<rparr>;
               db' = set_board_task i (\<lambda>u. u\<lparr>bt_status := status, bt_position := pos,
                   bt_completed := (if bt_status t = status then bt_completed t
                                    else next_completed status (bt_completed t) now)\<rparr>) moved
           in Inr ((), if bt_status t = status then db' else note_change i (bt_status t) status by_user now db')))"

section \<open>Runs\<close>

definition create_run_row :: "uuid \<Rightarrow> task_run \<Rightarrow> int \<Rightarrow> board_db \<Rightarrow> go_err + task_run \<times> board_db" where
  "create_run_row i r now db =
     (if i \<in> fst ` set (bd_runs db) \<or> find_board_task (jr_task r) db = None
      then Inl (ErrText ''constraint violation'')
      else Inr (r\<lparr>jr_created := now\<rparr>,
                db\<lparr>bd_runs := bd_runs db @ [(i, r\<lparr>jr_created := now, jr_context := None\<rparr>)]\<rparr>))"

definition set_run_row :: "uuid \<Rightarrow> (task_run \<Rightarrow> task_run) \<Rightarrow> board_db \<Rightarrow> board_db" where
  "set_run_row i f db = db\<lparr>bd_runs := map (\<lambda>(j, r). (j, if j = i then f r else r)) (bd_runs db)\<rparr>"

definition store_context :: "uuid \<Rightarrow> run_context \<Rightarrow> board_db \<Rightarrow> go_err + unit \<times> board_db" where
  "store_context i c db = Inr ((), set_run_row i (\<lambda>r. r\<lparr>jr_context := Some c\<rparr>) db)"

definition run_row :: "uuid \<Rightarrow> board_db \<Rightarrow> task_run option" where
  "run_row i db = map_of (bd_runs db) i"

text \<open>The columns of \<open>taskRunColumns\<close>, of which the context is none.\<close>

definition scan_run :: "task_run \<Rightarrow> task_run" where
  "scan_run r = r\<lparr>jr_context := None\<rparr>"

definition get_run_row :: "uuid \<Rightarrow> board_db \<Rightarrow> go_err + task_run" where
  "get_run_row i db =
     (case run_row i db of None \<Rightarrow> Inl (ErrText ''task run not found'') | Some r \<Rightarrow> Inr (scan_run r))"

text \<open>What \<open>Update\<close> writes: not whose run of which task by which agent it is, nor its context.\<close>

definition merge_run_row :: "task_run \<Rightarrow> task_run \<Rightarrow> task_run" where
  "merge_run_row r old =
     r\<lparr>jr_task := jr_task old, jr_agent := jr_agent old, jr_org := jr_org old, jr_by := jr_by old,
       jr_created := jr_created old, jr_context := jr_context old\<rparr>"

definition update_run_row :: "uuid \<Rightarrow> task_run \<Rightarrow> board_db \<Rightarrow> go_err + unit \<times> board_db" where
  "update_run_row i r db =
     (case run_row i db of
        None \<Rightarrow> Inl no_rows
      | Some old \<Rightarrow> Inr ((), set_run_row i (merge_run_row r) db))"

definition newer_run :: "uuid \<times> task_run \<Rightarrow> uuid \<times> task_run \<Rightarrow> bool" where
  "newer_run x y \<longleftrightarrow> jr_created (snd x) > jr_created (snd y)"

definition run_by_execution :: "uuid \<Rightarrow> board_db \<Rightarrow> (uuid \<times> task_run) option" where
  "run_by_execution x db =
     (case stable_sort newer_run (filter (\<lambda>(i, r). jr_exec r = Some x) (bd_runs db)) of
        [] \<Rightarrow> None
      | (i, r) # rest \<Rightarrow> Some (i, scan_run r))"

definition active_run :: "task_run \<Rightarrow> bool" where
  "active_run r \<longleftrightarrow> jr_status r \<in> {jr_queued, jr_running, jr_awaiting}"

definition count_active :: "uuid \<Rightarrow> board_db \<Rightarrow> nat" where
  "count_active task db = length (filter (\<lambda>(i, r). jr_task r = task \<and> active_run r) (bd_runs db))"

text \<open>The lists, newest first; the context is filled in by a second query when that one succeeds.\<close>

definition fill_context :: "bool \<Rightarrow> uuid \<times> task_run \<Rightarrow> uuid \<times> task_run" where
  "fill_context ok x = (if ok then x else (fst x, scan_run (snd x)))"

definition list_runs_of_task ::
  "bool \<Rightarrow> uuid \<Rightarrow> int \<times> int \<Rightarrow> board_db \<Rightarrow> (uuid \<times> task_run) paginated" where
  "list_runs_of_task ok task p db =
     paginate p (stable_sort newer_run
       (map (fill_context ok) (filter (\<lambda>(i, r). jr_task r = task) (bd_runs db))))"

definition list_runs_of_org ::
  "bool \<Rightarrow> uuid \<Rightarrow> string \<Rightarrow> uuid option \<Rightarrow> int \<times> int \<Rightarrow> board_db \<Rightarrow> (uuid \<times> task_run) paginated" where
  "list_runs_of_org ok org status agent p db =
     paginate p (stable_sort newer_run
       (map (fill_context ok) (filter (\<lambda>(i, r). jr_org r = org \<and> (status = [] \<or> jr_status r = status)
         \<and> (agent = None \<or> agent = Some (jr_agent r))) (bd_runs db))))"

end
