(* ===== verification/TaskRuns.thy ===== *)
theory TaskRuns
  imports TaskRunStore
begin

text \<open>
  \<open>service/task_run_service.go\<close>: runs of board tasks by agents, on the repositories as
  \<open>cmd/server/main.go\<close> decorates them: with the context of a run
  (\<open>repository/task_run_context_repository.go\<close>) and the webhook events (\<open>webhook/hooks.go\<close>). The board's
  tables stand beside those of the approvals in the world of the execution service, so that a run's
  execution, its approvals and its row are one state.
\<close>

type_synonym 'w board_sys = "(board_db \<times> 'w) sys"

definition board :: "'w board_sys \<Rightarrow> board_db" where
  "board s = fst (snd (xs_world s))"

definition on_board :: "(board_db \<Rightarrow> board_db) \<Rightarrow> 'w board_sys \<Rightarrow> 'w board_sys" where
  "on_board f s = s\<lparr>xs_world := (fst (xs_world s), f (board s), snd (snd (xs_world s)))\<rparr>"

section \<open>Events\<close>

text \<open>\<open>RunData\<close>, what a webhook tells of a run.\<close>

record run_event =
  ev_run :: uuid
  ev_task :: uuid
  ev_agent :: uuid
  ev_exec :: "uuid option"
  ev_status :: string
  ev_output :: "string option"
  ev_truncated :: bool
  ev_error :: "string option"
  ev_context :: "run_context option"
  ev_skills :: "string list"
  ev_inputs :: obj
  ev_provider :: "string option"
  ev_model :: "string option"
  ev_version :: string
  ev_tokens :: int
  ev_cost :: rat
  ev_latency :: int
  ev_started :: "int option"
  ev_completed :: "int option"

text \<open>\<open>tv_emit\<close> is the dispatcher's \<open>Emit\<close>, which never fails its caller.\<close>

record 'w run_service =
  tv_exec :: "(appr_db \<times> board_db \<times> 'w) exec_service"
  tv_emit :: "(uuid \<Rightarrow> string \<Rightarrow> run_event \<Rightarrow> 'w board_sys \<Rightarrow> 'w board_sys) option"

abbreviation tv_now :: "'w run_service \<Rightarrow> 'w board_sys \<Rightarrow> int" where
  "tv_now rv \<equiv> sv_now (tv_exec rv)"

definition board_read ::
  "'w run_service \<Rightarrow> string \<Rightarrow> (board_db \<Rightarrow> go_err + 'a) \<Rightarrow> 'w board_sys \<Rightarrow> go_err + 'a" where
  "board_read rv op f s = (case sv_fault (tv_exec rv) s op of Some e \<Rightarrow> Inl e | None \<Rightarrow> f (board s))"

definition board_write ::
  "'w run_service \<Rightarrow> string \<Rightarrow> (board_db \<Rightarrow> go_err + 'a \<times> board_db) \<Rightarrow> 'w board_sys
    \<Rightarrow> (go_err + 'a) \<times> 'w board_sys" where
  "board_write rv op f s =
     (case sv_fault (tv_exec rv) s op of
        Some e \<Rightarrow> (Inl e, s)
      | None \<Rightarrow> (case f (board s) of Inl e \<Rightarrow> (Inl e, s) | Inr (a, db) \<Rightarrow> (Inr a, on_board (\<lambda>_. db) s)))"

definition max_event_output :: nat where "max_event_output = 65536"

definition event_of :: "uuid \<Rightarrow> task_run \<Rightarrow> run_event" where
  "event_of i r =
     \<lparr>ev_run = i, ev_task = jr_task r, ev_agent = jr_agent r, ev_exec = jr_exec r, ev_status = jr_status r,
      ev_output = map_option (take max_event_output) (jr_output r),
      ev_truncated = (case jr_output r of None \<Rightarrow> False | Some out \<Rightarrow> length out > max_event_output),
      ev_error = jr_error r, ev_context = jr_context r, ev_skills = jr_skills r, ev_inputs = jr_inputs r,
      ev_provider = jr_provider r, ev_model = jr_model r, ev_version = [], ev_tokens = jr_tokens r,
      ev_cost = jr_cost r, ev_latency = jr_latency r, ev_started = jr_started r,
      ev_completed = jr_completed r\<rparr>"

text \<open>The version of the agent's prompt is read when the event is emitted.\<close>

definition prompt_version :: "'w run_service \<Rightarrow> task_run \<Rightarrow> 'w board_sys \<Rightarrow> string" where
  "prompt_version rv r s =
     (if jr_agent r = uuid_nil then []
      else case sv_fault (tv_exec rv) s ''agentRepo.FindByID'' of
        Some e \<Rightarrow> []
      | None \<Rightarrow> (case xs_agents s (jr_agent r) of
            None \<Rightarrow> []
          | Some ag \<Rightarrow> if ag_org ag \<noteq> jr_org r then []
              else case map_of (ag_metadata ag) ''prompt_version'' of Some (JStr v) \<Rightarrow> v | _ \<Rightarrow> []))"

definition run_data :: "'w run_service \<Rightarrow> uuid \<Rightarrow> task_run \<Rightarrow> 'w board_sys \<Rightarrow> run_event" where
  "run_data rv i r s = (event_of i r)\<lparr>ev_version := prompt_version rv r s\<rparr>"

definition run_event_type :: "string \<Rightarrow> string option" where
  "run_event_type status =
     (if status = jr_done then Some ''run.completed''
      else if status = jr_failed then Some ''run.failed'' else None)"

text \<open>\<open>Update\<close> as the webhook decorator has it: an event when the stored status becomes terminal.\<close>

definition update_task_run ::
  "'w run_service \<Rightarrow> uuid \<Rightarrow> task_run \<Rightarrow> 'w board_sys \<Rightarrow> (go_err + unit) \<times> 'w board_sys" where
  "update_task_run rv i r s =
     (let prev = (case board_read rv ''taskRunRepo.GetByID'' (get_run_row i) s of
                    Inl e \<Rightarrow> [] | Inr b \<Rightarrow> jr_status b)
      in case board_write rv ''taskRunRepo.Update'' (update_run_row i r) s of
           (Inl e, s') \<Rightarrow> (Inl e, s')
         | (Inr u, s') \<Rightarrow> (Inr (), case tv_emit rv of
               None \<Rightarrow> s'
             | Some emit \<Rightarrow> if jr_status r = prev then s'
                 else case run_event_type (jr_status r) of
                   None \<Rightarrow> s' | Some ty \<Rightarrow> emit (jr_org r) ty (run_data rv i r s') s'))"

section \<open>The board\<close>

definition board_status :: "string \<Rightarrow> string option" where
  "board_status status =
     (if status \<in> {jr_queued, jr_running, jr_awaiting} then Some ''in_progress''
      else if status = jr_done then Some ''done'' else None)"

definition move_card ::
  "'w run_service \<Rightarrow> uuid \<Rightarrow> string \<Rightarrow> uuid option \<Rightarrow> 'w board_sys \<Rightarrow> 'w board_sys" where
  "move_card rv task status by_user s =
     snd (board_write rv ''taskRepo.TransitionStatus'' (transition_status task status by_user (tv_now rv s)) s)"

text \<open>A card is not moved to done while another run of its task is active.\<close>

definition card_held :: "'w run_service \<Rightarrow> uuid \<Rightarrow> 'w board_sys \<Rightarrow> bool" where
  "card_held rv task s =
     (case board_read rv ''taskRunRepo.CountActiveByTask'' (\<lambda>db. Inr (count_active task db)) s of
        Inl e \<Rightarrow> True | Inr n \<Rightarrow> n > 0)"

definition sync_board_status ::
  "'w run_service \<Rightarrow> uuid \<Rightarrow> string \<Rightarrow> uuid option \<Rightarrow> 'w board_sys \<Rightarrow> 'w board_sys" where
  "sync_board_status rv task status by_user s =
     (case board_status status of
        None \<Rightarrow> s
      | Some c \<Rightarrow> if c = ''done'' \<and> card_held rv task s then s else move_card rv task c by_user s)"

section \<open>Launching\<close>

record run_request =
  cq_agent :: "uuid option"
  cq_prompt :: "string option"
  cq_engine :: "string option"
  cq_provider :: "string option"
  cq_model :: "string option"
  cq_skills :: "string list"
  cq_inputs :: obj
  cq_debug :: bool
  cq_context :: "run_context option"

definition run_not_found :: go_err where
  "run_not_found = ErrSentinel ''task run not found''"

text \<open>
  \<open>FindByID\<close> of a task that does not exist is no error but a nil pointer, whose project is then read:
  the panic is the error of its text.
\<close>

definition nil_task :: go_err where
  "nil_task = ErrText ''panic: invalid memory address or nil pointer dereference''"

abbreviation newline :: string where
  "newline \<equiv> [CHR 0x0A]"

definition resolve_run_agent :: "uuid option \<Rightarrow> uuid option \<Rightarrow> go_err + uuid" where
  "resolve_run_agent override assigned =
     (if override \<noteq> None \<and> override \<noteq> Some uuid_nil then Inr (the override)
      else if assigned \<noteq> None \<and> assigned \<noteq> Some uuid_nil then Inr (the assigned)
      else Inl (ErrText ''no agent to run this task: assign an agent or pass agent_id''))"

definition filled :: "string option \<Rightarrow> bool" where
  "filled v \<longleftrightarrow> (case v of None \<Rightarrow> False | Some t \<Rightarrow> trim_space t \<noteq> [])"

definition input_lines :: "obj \<Rightarrow> string" where
  "input_lines m =
     concat (map (\<lambda>(k, v). ''- '' @ k @ '': '' @ sprint v @ newline)
       (stable_sort (\<lambda>x y. str_less (fst x) (fst y)) m))"

definition build_run_prompt :: "board_task \<Rightarrow> run_request \<Rightarrow> string" where
  "build_run_prompt t rq =
     (let text = (if filled (cq_prompt rq) then trim_space (the (cq_prompt rq))
                  else trim_space (bt_title t)
                    @ (if filled (bt_description t) then newline @ newline @ trim_space (the (bt_description t))
                       else []));
          given = (if cq_inputs rq = [] then []
                   else newline @ newline @ ''## Inputs'' @ newline @ input_lines (cq_inputs rq))
      in trim_space (text @ given))"

fun slugs_from :: "string list \<Rightarrow> string list \<Rightarrow> string list" where
  "slugs_from seen [] = []"
| "slugs_from seen (s # ss) =
     (let t = to_lower (trim_space s) in
      if t = [] \<or> t \<in> set seen then slugs_from seen ss else t # slugs_from (t # seen) ss)"

definition normalize_slugs :: "string list \<Rightarrow> string list" where
  "normalize_slugs ss = slugs_from [] ss"

definition text_field :: "obj \<Rightarrow> string \<Rightarrow> string" where
  "text_field m k = (case map_of m k of Some (JStr v) \<Rightarrow> trim_space v | _ \<Rightarrow> [])"

definition model_override :: "obj \<Rightarrow> (string \<times> string) option" where
  "model_override meta =
     (case map_of meta ''model_override'' of
        Some (JObj raw) \<Rightarrow>
          (let p = text_field raw ''provider''; m = text_field raw ''model''
           in if p = [] \<and> m = [] then None else Some (p, m))
      | _ \<Rightarrow> None)"

definition run_model :: "board_task \<Rightarrow> run_request \<Rightarrow> string option \<times> string option" where
  "run_model t rq =
     (if cq_provider rq \<noteq> None \<or> cq_model rq \<noteq> None then (cq_provider rq, cq_model rq)
      else case model_override (bt_metadata t) of
        Some (p, m) \<Rightarrow> (Some p, Some m) | None \<Rightarrow> (None, None))"

text \<open>What is checked before a run is written: the task, the agent that runs it and its prompt.\<close>

definition task_in_org :: "'w run_service \<Rightarrow> uuid \<Rightarrow> uuid \<Rightarrow> 'w board_sys \<Rightarrow> go_err + board_task" where
  "task_in_org rv task org s =
     (case board_read rv ''taskRepo.FindByID'' (\<lambda>db. Inr (find_board_task task db)) s of
        Inl e \<Rightarrow> Inl run_not_found
      | Inr None \<Rightarrow> Inl nil_task
      | Inr (Some t) \<Rightarrow>
          (case board_read rv ''projectRepo.FindByID'' (\<lambda>db. Inr (bd_projects db (bt_project t))) s of
             Inl e \<Rightarrow> Inl run_not_found
           | Inr p \<Rightarrow> if p = Some org then Inr t else Inl run_not_found))"

definition check_run ::
  "'w run_service \<Rightarrow> uuid \<Rightarrow> run_request \<Rightarrow> uuid \<Rightarrow> 'w board_sys \<Rightarrow> go_err + board_task \<times> uuid \<times> string" where
  "check_run rv task rq org s =
     (case task_in_org rv task org s of
        Inl e \<Rightarrow> Inl e
      | Inr t \<Rightarrow>
     (case resolve_run_agent (cq_agent rq) (bt_agent t) of
        Inl e \<Rightarrow> Inl e
      | Inr aid \<Rightarrow>
     (case sv_fault (tv_exec rv) s ''agentRepo.FindByID'' of
        Some e \<Rightarrow> Inl (ErrWrap ''failed to load agent: '' e)
      | None \<Rightarrow>
     (case xs_agents s aid of
        None \<Rightarrow> Inl (ErrText ''agent not found'')
      | Some ag \<Rightarrow>
          if ag_org ag \<noteq> org then Inl (ErrText ''agent does not belong to organization'')
          else if trim_space (build_run_prompt t rq) = [] then
            Inl (ErrText ''nothing to run: the task has no description and no prompt was provided'')
          else Inr (t, aid, build_run_prompt t rq)))))"

definition new_task_run ::
  "uuid \<Rightarrow> uuid \<Rightarrow> uuid \<Rightarrow> string \<Rightarrow> board_task \<Rightarrow> run_request \<Rightarrow> uuid option \<Rightarrow> task_run" where
  "new_task_run task agent org prompt t rq by_user =
     \<lparr>jr_task = task, jr_agent = agent, jr_org = org, jr_exec = None, jr_status = jr_queued,
      jr_prompt = prompt, jr_engine = cq_engine rq, jr_provider = fst (run_model t rq),
      jr_model = snd (run_model t rq), jr_skills = normalize_slugs (cq_skills rq),
      jr_inputs = cq_inputs rq, jr_context = None, jr_debug = cq_debug rq, jr_output = None,
      jr_error = None, jr_tokens = 0, jr_cost = 0, jr_latency = 0, jr_iterations = 0, jr_by = by_user,
      jr_pending = None, jr_started = None, jr_completed = None, jr_created = 0\<rparr>"

text \<open>\<open>Create\<close> as the context decorator has it; \<open>carried\<close> is the context the request carries.\<close>

definition create_with_context ::
  "'w run_service \<Rightarrow> run_context option \<Rightarrow> uuid \<Rightarrow> task_run \<Rightarrow> 'w board_sys
    \<Rightarrow> (go_err + task_run) \<times> 'w board_sys" where
  "create_with_context rv carried i r0 s =
     (let r = (if jr_context r0 = None then r0\<lparr>jr_context := normalize_context carried\<rparr> else r0)
      in case board_write rv ''taskRunRepo.Create'' (create_run_row i r (tv_now rv s)) s of
           (Inl e, s1) \<Rightarrow> (Inl e, s1)
         | (Inr r', s1) \<Rightarrow>
             (case jr_context r' of
                None \<Rightarrow> (Inr r', s1)
              | Some c \<Rightarrow> (case board_write rv ''taskRunRepo.StoreContext'' (store_context i c) s1 of
                    (Inl e, s2) \<Rightarrow> (Inl (ErrWrap ''task_run_context: store: '' e), s2)
                  | (Inr u, s2) \<Rightarrow> (Inr r', s2))))"

text \<open>\<open>CreateRun\<close>; the run it returns is the one its goroutine then executes.\<close>

definition create_task_run ::
  "'w run_service \<Rightarrow> run_context option \<Rightarrow> uuid \<Rightarrow> run_request \<Rightarrow> uuid \<Rightarrow> uuid option \<Rightarrow> 'w board_sys
    \<Rightarrow> (go_err + uuid \<times> task_run) \<times> 'w board_sys" where
  "create_task_run rv carried task rq org by_user s =
     (case check_run rv task rq org s of
        Inl e \<Rightarrow> (Inl e, s)
      | Inr (t, aid, prompt) \<Rightarrow>
          (let i = sv_fresh (tv_exec rv) s
           in case create_with_context rv carried i (new_task_run task aid org prompt t rq by_user) s of
                (Inl e, s1) \<Rightarrow> (Inl (ErrWrap ''failed to create task run: '' e), s1)
              | (Inr r, s1) \<Rightarrow> (Inr (i, r), sync_board_status rv task (jr_status r) by_user s1)))"

text \<open>The handler's part: the normalised context goes into the inputs and along with the request.\<close>

definition launch_task_run ::
  "'w run_service \<Rightarrow> uuid \<Rightarrow> run_request \<Rightarrow> uuid \<Rightarrow> uuid option \<Rightarrow> 'w board_sys
    \<Rightarrow> (go_err + uuid \<times> task_run) \<times> 'w board_sys" where
  "launch_task_run rv task rq org by_user s =
     (case normalize_context (cq_context rq) of
        None \<Rightarrow> create_task_run rv None task rq org by_user s
      | Some c \<Rightarrow> create_task_run rv (Some c) task
          (rq\<lparr>cq_context := Some c, cq_inputs := merge_context (Some c) (cq_inputs rq)\<rparr>) org by_user s)"

section \<open>Executing\<close>

definition finalize_run :: "'w run_service \<Rightarrow> uuid \<Rightarrow> task_run \<Rightarrow> 'w board_sys \<Rightarrow> 'w board_sys" where
  "finalize_run rv i r s =
     sync_board_status rv (jr_task r) (jr_status r) None (snd (update_task_run rv i r s))"

definition completed_at :: "stored_exec \<Rightarrow> int \<Rightarrow> int option" where
  "completed_at so now =
     (case xe_completed (so_exec so) of Some t \<Rightarrow> Some t | None \<Rightarrow> Some now)"

definition apply_execution :: "stored_exec \<Rightarrow> int \<Rightarrow> task_run \<Rightarrow> task_run" where
  "apply_execution so now r0 =
     (let x = so_exec so;
          r = r0\<lparr>jr_exec := Some (so_id so), jr_output := xe_output x, jr_error := xe_error x,
                 jr_tokens := xe_total x, jr_cost := xe_cost x, jr_latency := xe_latency x,
                 jr_iterations := xe_iterations x, jr_pending := None\<rparr>
      in if xe_status x = st_awaiting then
           r\<lparr>jr_status := jr_awaiting, jr_pending := so_pending so, jr_completed := None\<rparr>
         else if xe_status x = st_running \<or> xe_status x = st_pending then
           r\<lparr>jr_status := jr_running, jr_completed := None\<rparr>
         else if xe_status x = st_failed \<or> xe_status x = st_cancelled \<or> xe_error x \<noteq> None then
           r\<lparr>jr_status := jr_failed, jr_completed := completed_at so now\<rparr>
         else r\<lparr>jr_status := jr_done, jr_completed := completed_at so now\<rparr>)"

definition exec_request_of :: "task_run \<Rightarrow> exec_request" where
  "exec_request_of r =
     \<lparr>rq_prompt = jr_prompt r, rq_provider = jr_provider r, rq_model = jr_model r, rq_engine = jr_engine r,
      rq_skills = jr_skills r\<rparr>"

definition started_task_run :: "int \<Rightarrow> task_run \<Rightarrow> task_run" where
  "started_task_run now r = r\<lparr>jr_status := jr_running, jr_started := Some now\<rparr>"

definition ended_task_run :: "go_err + stored_exec \<Rightarrow> int \<Rightarrow> task_run \<Rightarrow> task_run" where
  "ended_task_run res now r =
     (case res of
        Inl e \<Rightarrow> r\<lparr>jr_completed := Some now, jr_status := jr_failed, jr_error := Some (err_text e)\<rparr>
      | Inr so \<Rightarrow> apply_execution so now r)"

text \<open>\<open>execute\<close>, on its own goroutine and context; the labels of its traces are left out.\<close>

definition execute_task_run :: "'w run_service \<Rightarrow> uuid \<Rightarrow> task_run \<Rightarrow> 'w board_sys \<Rightarrow> 'w board_sys" where
  "execute_task_run rv i r0 s =
     (let r = started_task_run (tv_now rv s) r0;
          s1 = snd (update_task_run rv i r s);
          (res, s2) = execute_request (tv_exec rv) empty_ctx (jr_org r) (jr_agent r) (exec_request_of r) s1
      in finalize_run rv i (ended_task_run res (tv_now rv s2) r) s2)"

definition sync_from_execution ::
  "'w run_service \<Rightarrow> stored_exec \<Rightarrow> 'w board_sys \<Rightarrow> go_err option \<times> 'w board_sys" where
  "sync_from_execution rv so s =
     (case board_read rv ''taskRunRepo.GetByExecutionID'' (\<lambda>db. Inr (run_by_execution (so_id so) db)) s of
        Inl e \<Rightarrow> (Some (ErrWrap (''task_run_svc: find run for execution '' @ show_nat (so_id so) @ '': '') e), s)
      | Inr None \<Rightarrow> (None, s)
      | Inr (Some (i, r)) \<Rightarrow> (None, finalize_run rv i (apply_execution so (tv_now rv s) r) s))"

section \<open>Reading\<close>

text \<open>\<open>GetByID\<close> with the context, which a failing second query leaves out.\<close>

definition context_read :: "'w run_service \<Rightarrow> 'w board_sys \<Rightarrow> bool" where
  "context_read rv s = (sv_fault (tv_exec rv) s ''taskRunRepo.ReadContext'' = None)"

definition get_task_run :: "'w run_service \<Rightarrow> uuid \<Rightarrow> uuid \<Rightarrow> 'w board_sys \<Rightarrow> go_err + task_run" where
  "get_task_run rv i org s =
     (case board_read rv ''taskRunRepo.GetByID'' (get_run_row i) s of
        Inl e \<Rightarrow> Inl run_not_found
      | Inr r \<Rightarrow> if jr_org r \<noteq> org then Inl run_not_found
          else Inr (if context_read rv s then the (run_row i (board s)) else r))"

definition list_task_runs ::
  "'w run_service \<Rightarrow> uuid \<Rightarrow> uuid \<Rightarrow> int \<times> int \<Rightarrow> 'w board_sys \<Rightarrow> go_err + (uuid \<times> task_run) paginated" where
  "list_task_runs rv task org p s =
     (case task_in_org rv task org s of
        Inl e \<Rightarrow> Inl e
      | Inr t \<Rightarrow> board_read rv ''taskRunRepo.ListByTask''
          (\<lambda>db. Inr (list_runs_of_task (context_read rv s) task p db)) s)"

definition list_org_runs ::
  "'w run_service \<Rightarrow> uuid \<Rightarrow> int \<times> int \<Rightarrow> string \<Rightarrow> uuid option \<Rightarrow> 'w board_sys
    \<Rightarrow> go_err + (uuid \<times> task_run) paginated" where
  "list_org_runs rv org p status agent s =
     board_read rv ''taskRunRepo.ListByOrg''
       (\<lambda>db. Inr (list_runs_of_org (context_read rv s) org (trim_space status) agent p db)) s"

section \<open>Events of approvals\<close>

text \<open>
  The \<open>Approvals\<close> decorator: the repository of approvals with the events \<open>approval.requested\<close> and
  \<open>approval.decided\<close>. \<open>emit\<close> is the dispatcher's \<open>Emit\<close>.
\<close>

record approval_event =
  qe_approval :: uuid
  qe_exec :: uuid
  qe_agent :: uuid
  qe_run :: "uuid option"
  qe_tool :: string
  qe_input :: obj
  qe_status :: string
  qe_reason :: "string option"
  qe_requested :: int
  qe_decided_by :: "uuid option"
  qe_decided_at :: "int option"

type_synonym 'w approval_emit = "(uuid \<Rightarrow> string \<Rightarrow> approval_event \<Rightarrow> 'w board_sys \<Rightarrow> 'w board_sys) option"

definition run_of_execution :: "'w run_service \<Rightarrow> uuid \<Rightarrow> 'w board_sys \<Rightarrow> uuid option" where
  "run_of_execution rv x s =
     (if x = uuid_nil then None
      else case board_read rv ''taskRunRepo.GetByExecutionID'' (\<lambda>db. Inr (run_by_execution x db)) s of
        Inl e \<Rightarrow> None | Inr found \<Rightarrow> map_option fst found)"

definition approval_data :: "'w run_service \<Rightarrow> uuid \<Rightarrow> appr_row \<Rightarrow> 'w board_sys \<Rightarrow> approval_event" where
  "approval_data rv i r s =
     \<lparr>qe_approval = i, qe_exec = aw_exec r, qe_agent = aw_agent r, qe_run = run_of_execution rv (aw_exec r) s,
      qe_tool = aw_tool r, qe_input = aw_input r, qe_status = aw_status r, qe_reason = aw_reason r,
      qe_requested = aw_requested_at r, qe_decided_by = aw_decided_by r, qe_decided_at = aw_decided_at r\<rparr>"

text \<open>The approval that is announced is the caller's, which the insert has completed.\<close>

definition create_announced ::
  "(board_db \<times> 'w) approval_service \<Rightarrow> 'w run_service \<Rightarrow> 'w approval_emit \<Rightarrow> uuid \<Rightarrow> uuid \<Rightarrow> uuid \<Rightarrow> string \<Rightarrow> obj \<Rightarrow> json
    \<Rightarrow> 'w board_sys \<Rightarrow> (go_err + uuid) \<times> 'w board_sys" where
  "create_announced a rv emit exec agent org tool input state s =
     (case create_pending a exec agent org tool input state s of
        (Inl e, s') \<Rightarrow> (Inl e, s')
      | (Inr i, s') \<Rightarrow> (Inr i, case emit of
            None \<Rightarrow> s'
          | Some f \<Rightarrow> (case find_row i (approvals s') of
                None \<Rightarrow> s' | Some r \<Rightarrow> f org ''approval.requested'' (approval_data rv i r s') s')))"

definition decision_announced ::
  "(board_db \<times> 'w) approval_service \<Rightarrow> 'w run_service \<Rightarrow> 'w approval_emit \<Rightarrow> uuid \<Rightarrow> string \<Rightarrow> string \<Rightarrow> uuid
    \<Rightarrow> 'w board_sys \<Rightarrow> go_err option \<times> 'w board_sys" where
  "decision_announced a rv emit i status reason decider s =
     (case as_fault a s ''approvalRepo.UpdateDecision'' of
        Some e \<Rightarrow> (Some e, s)
      | None \<Rightarrow>
          (case update_decision i status reason decider (as_now a s) (approvals s) of
             (Some e, db) \<Rightarrow> (Some e, s)
           | (None, db) \<Rightarrow>
               (let s' = on_approvals (\<lambda>_. db) s in
                (None, case emit of
                   None \<Rightarrow> s'
                 | Some f \<Rightarrow> (case get_approval a i s' of
                       Inl e \<Rightarrow> s' | Inr r \<Rightarrow> f (aw_org r) ''approval.decided'' (approval_data rv i r s') s')))))"

end
