(* ===== verification/LaunchSchema.thy ===== *)
theory LaunchSchema
  imports Prelude
begin

text \<open>
  \<open>agentschema\<close>: the launch fields of a specialist, what is still missing of them, their defaults, and
  the title and description of the task they make. Values are a Go map as an association list; the
  order in which \<open>expand\<close> goes through it is the parameter \<open>shuffle\<close>, as the language leaves it open.
\<close>

type_synonym values_map = "(string \<times> string) list"

record schema_field =
  lf_key :: string
  lf_label :: string
  lf_question :: string
  lf_required :: bool
  lf_min :: int
  lf_default :: string
  lf_options :: "(string \<times> string) list"

record title_rule =
  tr_if :: string
  tr_prefix :: string
  tr_from :: string
  tr_from_keys :: "string list"
  tr_format :: string
  tr_literal :: string
  tr_truncate :: int
  tr_fallback :: string
  tr_suffix_if :: string
  tr_suffix :: string

record desc_rule =
  dr_prefix :: string
  dr_key :: string
  dr_truncate :: int
  dr_literal :: string
  dr_format :: string
  dr_suffix_if :: string
  dr_suffix :: string

record require_group =
  rg_keys :: "string list"
  rg_slot :: string
  rg_question :: string

record launch_schema =
  ls_fields :: "schema_field list"
  ls_titles :: "title_rule list"
  ls_descs :: "desc_rule list"
  ls_require_any :: "require_group list"

definition value_of :: "values_map \<Rightarrow> string \<Rightarrow> string" where
  "value_of v k = (case map_of v k of None \<Rightarrow> [] | Some x \<Rightarrow> x)"

definition trimmed :: "values_map \<Rightarrow> string \<Rightarrow> string" where
  "trimmed v k = trim_space (value_of v k)"

definition generic_schema :: launch_schema where
  "generic_schema =
     \<lparr>ls_fields = [\<lparr>lf_key = ''prompt'', lf_label = ''Prompt'', lf_question = ''What should the agent do?'',
        lf_required = True, lf_min = 3, lf_default = [], lf_options = []\<rparr>],
      ls_titles = [], ls_descs = [], ls_require_any = []\<rparr>"

definition schema_for :: "(string \<Rightarrow> launch_schema option) \<Rightarrow> string \<Rightarrow> launch_schema" where
  "schema_for reg builtin =
     (if builtin = [] then generic_schema
      else case reg builtin of None \<Rightarrow> generic_schema | Some s \<Rightarrow> s)"

section \<open>The interview\<close>

type_synonym missing_slot = "string \<times> string \<times> (string \<times> string) list"

definition field_lacks :: "values_map \<Rightarrow> schema_field \<Rightarrow> bool" where
  "field_lacks v f \<longleftrightarrow> lf_required f
     \<and> \<not> (trimmed v (lf_key f) = [] \<and> lf_default f \<noteq> [])
     \<and> (trimmed v (lf_key f) = [] \<or> lf_min f > 0 \<and> int (length (trimmed v (lf_key f))) < lf_min f)"

definition field_question :: "schema_field \<Rightarrow> string" where
  "field_question f =
     (if lf_question f = [] then ''I need '' @ to_lower (lf_label f) @ '' to continue.'' else lf_question f)"

definition group_empty :: "values_map \<Rightarrow> require_group \<Rightarrow> bool" where
  "group_empty v g \<longleftrightarrow> (\<forall>k \<in> set (rg_keys g). trimmed v k = [])"

definition group_slot :: "require_group \<Rightarrow> string" where
  "group_slot g = (if rg_slot g = [] \<and> rg_keys g \<noteq> [] then hd (rg_keys g) else rg_slot g)"

definition require_any_missing :: "launch_schema \<Rightarrow> values_map \<Rightarrow> missing_slot" where
  "require_any_missing s v =
     (case find (group_empty v) (ls_require_any s) of
        None \<Rightarrow> ([], [], [])
      | Some g \<Rightarrow> (group_slot g,
          if rg_question g = [] then ''I need more detail to continue.'' else rg_question g, []))"

definition next_missing :: "launch_schema \<Rightarrow> values_map \<Rightarrow> missing_slot" where
  "next_missing s v =
     (case find (field_lacks v) (ls_fields s) of
        Some f \<Rightarrow> (lf_key f, field_question f, lf_options f)
      | None \<Rightarrow> require_any_missing s v)"

definition default_field :: "schema_field \<Rightarrow> values_map \<Rightarrow> values_map" where
  "default_field f v =
     (if trimmed v (lf_key f) = [] \<and> lf_default f \<noteq> [] then aput (lf_key f) (lf_default f) v else v)"

definition apply_defaults :: "launch_schema \<Rightarrow> values_map \<Rightarrow> values_map" where
  "apply_defaults s v = fold default_field (ls_fields s) v"

definition looks_like_url :: "string \<Rightarrow> bool" where
  "looks_like_url s \<longleftrightarrow> has_prefix (trim_space s) ''http://'' \<or> has_prefix (trim_space s) ''https://''"

definition compact_text :: "string \<Rightarrow> string" where
  "compact_text s = join '' '' (fields_func is_space (to_lower (trim_space s)))"

fun strip_lead :: "string list \<Rightarrow> string \<Rightarrow> string" where
  "strip_lead [] s = s"
| "strip_lead (p # ps) s = (if has_prefix s p then trim_space (drop (length p) s) else strip_lead ps s)"

definition thin_core :: "string \<Rightarrow> string" where
  "thin_core p0 =
     (let p1 = strip_lead [''please '', ''can you '', ''could you '', ''would you ''] p0;
          p2 = strip_lead [''run '', ''start '', ''launch '', ''execute '', ''use ''] p1;
          p3 = trim_space (trim_prefix p2 ''the '')
      in trim_space (trim_suffix p3 '' agent''))"

definition is_thin_prompt :: "string \<Rightarrow> string \<Rightarrow> bool" where
  "is_thin_prompt prompt agent_name =
     (let p0 = compact_text prompt; p = thin_core p0;
          name = trim_space (trim_suffix (compact_text agent_name) '' agent'')
      in p0 = [] \<or> p = [] \<or> (name \<noteq> [] \<and> p = name))"

section \<open>Titles\<close>

definition first_value :: "values_map \<Rightarrow> string \<Rightarrow> string list \<Rightarrow> string \<Rightarrow> string" where
  "first_value v key keys fallback =
     (case find (\<lambda>k. trimmed v k \<noteq> []) ((if key = [] then [] else [key]) @ keys) of
        Some k \<Rightarrow> trimmed v k | None \<Rightarrow> fallback)"

definition expand_format :: "string \<Rightarrow> values_map \<Rightarrow> string" where
  "expand_format fmt v = fold (\<lambda>(k, x) out. replace_all (''{'' @ k @ ''}'') (trim_space x) out) v fmt"

definition cut_bytes :: "int \<Rightarrow> string \<Rightarrow> string" where
  "cut_bytes n s = (if n > 0 \<and> int (length s) > n then take (nat n) s else s)"

definition suffix_applies :: "values_map \<Rightarrow> string \<Rightarrow> bool" where
  "suffix_applies v k \<longleftrightarrow> k \<noteq> [] \<and> (value_of v k = ''true'' \<or> value_of v k = [] \<and> k = ''dry_run'')"

definition rule_part :: "title_rule \<Rightarrow> values_map \<Rightarrow> string" where
  "rule_part r v = cut_bytes (tr_truncate r) (first_value v (tr_from r) (tr_from_keys r) (tr_fallback r))"

definition rule_title :: "(values_map \<Rightarrow> values_map) \<Rightarrow> title_rule \<Rightarrow> values_map \<Rightarrow> string" where
  "rule_title shuffle r v =
     tr_prefix r @ (if tr_format r \<noteq> [] then expand_format (tr_format r) (shuffle v) else rule_part r v)
       @ (if suffix_applies v (tr_suffix_if r) then tr_suffix r else [])"

fun apply_title :: "(values_map \<Rightarrow> values_map) \<Rightarrow> title_rule list \<Rightarrow> values_map \<Rightarrow> string" where
  "apply_title shuffle [] v = []"
| "apply_title shuffle (r # rs) v =
     (if tr_if r \<noteq> [] \<and> trimmed v (tr_if r) = [] then apply_title shuffle rs v
      else if tr_literal r \<noteq> [] then tr_literal r
      else if trim_space (rule_title shuffle r v) \<noteq> tr_prefix r \<or> rule_part r v \<noteq> [] \<or> tr_format r \<noteq> []
        then rule_title shuffle r v
        else apply_title shuffle rs v)"

definition desc_part :: "(values_map \<Rightarrow> values_map) \<Rightarrow> values_map \<Rightarrow> desc_rule \<Rightarrow> string option" where
  "desc_part shuffle v r =
     (if dr_literal r \<noteq> [] then Some (dr_literal r)
      else if dr_format r \<noteq> [] then
        Some (expand_format (dr_format r) (shuffle v) @ (if suffix_applies v (dr_suffix_if r) then dr_suffix r else []))
      else if trimmed v (dr_key r) = [] then None
      else Some (dr_prefix r @ cut_bytes (dr_truncate r) (trimmed v (dr_key r))))"

definition apply_desc :: "(values_map \<Rightarrow> values_map) \<Rightarrow> desc_rule list \<Rightarrow> values_map \<Rightarrow> string" where
  "apply_desc shuffle rs v = join [CHR 0x0A, CHR 0x0A] (List.map_filter (desc_part shuffle v) rs)"

definition title_from :: "(values_map \<Rightarrow> values_map) \<Rightarrow> launch_schema \<Rightarrow> values_map \<Rightarrow> string \<times> string" where
  "title_from shuffle s v =
     (if ls_titles s = [] then
        (if trimmed v ''title'' \<noteq> [] then trimmed v ''title''
         else if trimmed v ''prompt'' \<noteq> [] then trimmed v ''prompt'' else ''Untitled task'',
         trimmed v ''description'')
      else
        (let title = apply_title shuffle (ls_titles s) v
         in (if title = [] then ''Untitled task'' else title, apply_desc shuffle (ls_descs s) v)))"

section \<open>Lemmas\<close>

lemma title_never_empty: "fst (title_from shuffle s v) \<noteq> []"
  by (simp add: title_from_def Let_def)

lemma value_of_aput [simp]: "value_of (aput k x v) j = (if j = k then x else value_of v j)"
  by (auto simp: value_of_def map_of_aput)

lemma default_field_keeps:
  "trimmed v k \<noteq> [] \<Longrightarrow> value_of (default_field f v) k = value_of v k"
  by (auto simp: default_field_def trimmed_def)

lemma defaults_keep:
  "trimmed v k \<noteq> [] \<Longrightarrow> value_of (fold default_field fs v) k = value_of v k"
proof (induction fs arbitrary: v)
  case (Cons f fs)
  have "value_of (default_field f v) k = value_of v k" by (rule default_field_keeps [OF Cons.prems])
  moreover from this have "trimmed (default_field f v) k \<noteq> []" using Cons.prems by (simp add: trimmed_def)
  ultimately show ?case using Cons.IH [of "default_field f v"] by simp
qed simp

text \<open>What the caller has given stays, and every field with a default has a value.\<close>

lemma defaults_fill:
  assumes "f \<in> set fs" and "trim_space (lf_default f) \<noteq> []"
  shows "trimmed (fold default_field fs v) (lf_key f) \<noteq> []"
  using assms(1)
proof (induction fs arbitrary: v)
  case (Cons g fs)
  show ?case
  proof (cases "f \<in> set fs")
    case True
    then show ?thesis using Cons.IH by simp
  next
    case False
    then have g: "g = f" using Cons.prems by simp
    have "trimmed (default_field f v) (lf_key f) \<noteq> []"
      using assms(2) by (auto simp: default_field_def trimmed_def)
    moreover from this have "trimmed (fold default_field fs (default_field f v)) (lf_key f) \<noteq> []"
      using defaults_keep by (simp add: trimmed_def)
    ultimately show ?thesis by (simp add: g)
  qed
qed simp

lemma found_in_list: "find P xs = Some x \<Longrightarrow> x \<in> set xs"
  by (auto simp: find_Some_iff)

lemma next_missing_none:
  assumes "next_missing s v = ([], q, opts)" and "\<forall>f \<in> set (ls_fields s). lf_key f \<noteq> []"
    and "\<forall>g \<in> set (ls_require_any s). group_slot g \<noteq> []"
  shows "(\<forall>f \<in> set (ls_fields s). lf_required f \<longrightarrow> trimmed v (lf_key f) \<noteq> [] \<or> lf_default f \<noteq> [])
    \<and> (\<forall>g \<in> set (ls_require_any s). \<exists>k \<in> set (rg_keys g). trimmed v k \<noteq> [])"
proof -
  have fields: "find (field_lacks v) (ls_fields s) = None"
    using assms(1,2) by (auto simp: next_missing_def split: option.splits dest!: found_in_list)
  moreover have "find (group_empty v) (ls_require_any s) = None"
    using assms(1,3) fields
    by (auto simp: next_missing_def require_any_missing_def split: option.splits dest!: found_in_list)
  ultimately show ?thesis
    by (auto simp: find_None_iff field_lacks_def group_empty_def)
qed

text \<open>A format whose values mention other keys comes out as the language happens to order the map.\<close>

lemma format_order_matters:
  "expand_format ''{a}'' [(''a'', ''{b}''), (''b'', ''x'')] = ''x''
   \<and> expand_format ''{a}'' [(''b'', ''x''), (''a'', ''{b}'')] = ''{b}''"
  by code_simp

end
