(* ===== verification/TaskLaunch.thy ===== *)
theory TaskLaunch
  imports TaskRuns LaunchSchema GoRunes
begin

text \<open>
  \<open>tasklaunch\<close>: starting an agent from the board or the chat, over the task service
  (\<open>service/task_service.go\<close>) and the runs of \<open>TaskRuns\<close>. The registry of specialists, which is filled
  when the server starts, and the project service are parameters; of a launch's result the fields of
  single specialists are left out.
\<close>

section \<open>The task service\<close>

text \<open>Of an update the columns of the model's tasks; the agent comes parsed.\<close>

record task_update =
  tu_title :: "string option"
  tu_description :: "string option"
  tu_agent :: "uuid option option"
  tu_metadata :: "obj option"
  tu_status :: "string option"

definition no_update :: task_update where
  "no_update = \<lparr>tu_title = None, tu_description = None, tu_agent = None, tu_metadata = None, tu_status = None\<rparr>"

definition task_not_found :: go_err where
  "task_not_found = ErrSentinel ''task not found''"

definition get_task :: "'w run_service \<Rightarrow> uuid \<Rightarrow> 'w board_sys \<Rightarrow> go_err + board_task" where
  "get_task rv i s =
     (case board_read rv ''taskRepo.FindByID'' (\<lambda>db. Inr (find_board_task i db)) s of
        Inl e \<Rightarrow> Inl (ErrWrap ''getting task: '' e)
      | Inr None \<Rightarrow> Inl task_not_found
      | Inr (Some t) \<Rightarrow> Inr t)"

definition svc_create_task ::
  "'w run_service \<Rightarrow> board_task \<Rightarrow> 'w board_sys \<Rightarrow> (go_err + uuid \<times> board_task) \<times> 'w board_sys" where
  "svc_create_task rv t s =
     (let i = sv_fresh (tv_exec rv) s in
      case board_write rv ''taskRepo.Create'' (create_board_task i t (tv_now rv s)) s of
        (Inl e, s') \<Rightarrow> (Inl (ErrWrap ''creating task: '' e), s')
      | (Inr t', s') \<Rightarrow> (Inr (i, t'), s'))"

definition patched_task :: "task_update \<Rightarrow> board_task \<Rightarrow> board_task" where
  "patched_task u t =
     t\<lparr>bt_title := (case tu_title u of None \<Rightarrow> bt_title t | Some x \<Rightarrow> x),
       bt_description := (case tu_description u of None \<Rightarrow> bt_description t | Some x \<Rightarrow> Some x),
       bt_agent := (case tu_agent u of None \<Rightarrow> bt_agent t | Some x \<Rightarrow> x),
       bt_metadata := (case tu_metadata u of None \<Rightarrow> bt_metadata t | Some x \<Rightarrow> x)\<rparr>"

text \<open>The statement writes the columns of the task that was read, not its column on the board.\<close>

definition save_task :: "uuid \<Rightarrow> board_task \<Rightarrow> board_db \<Rightarrow> go_err + unit \<times> board_db" where
  "save_task i t db =
     (case find_board_task i db of
        None \<Rightarrow> Inl no_rows
      | Some old \<Rightarrow> Inr ((), set_board_task i (\<lambda>u. u\<lparr>bt_title := bt_title t, bt_description := bt_description t,
          bt_agent := bt_agent t, bt_metadata := bt_metadata t\<rparr>) db))"

definition next_status :: "task_update \<Rightarrow> string" where
  "next_status u = (case tu_status u of None \<Rightarrow> [] | Some x \<Rightarrow> trim_space x)"

definition board_columns :: "string list" where
  "board_columns = [''backlog'', ''todo'', ''in_progress'', ''review'', ''done'']"

definition svc_update_task ::
  "'w run_service \<Rightarrow> uuid \<Rightarrow> task_update \<Rightarrow> 'w board_sys \<Rightarrow> (go_err + board_task) \<times> 'w board_sys" where
  "svc_update_task rv i u s =
     (case board_read rv ''taskRepo.FindByID'' (\<lambda>db. Inr (find_board_task i db)) s of
        Inl e \<Rightarrow> (Inl (ErrWrap ''finding task: '' e), s)
      | Inr None \<Rightarrow> (Inl task_not_found, s)
      | Inr (Some t0) \<Rightarrow>
          (let t = patched_task u t0; status = next_status u in
           if status \<noteq> [] \<and> status \<notin> set board_columns then (Inl (ErrSentinel ''invalid status''), s)
           else case board_write rv ''taskRepo.Update'' (save_task i t) s of
             (Inl e, s1) \<Rightarrow> (Inl (ErrWrap ''updating task: '' e), s1)
           | (Inr x, s1) \<Rightarrow>
               if status = [] \<or> status = bt_status t then (Inr t, s1)
               else case board_write rv ''taskRepo.TransitionStatus'' (transition_status i status None (tv_now rv s1)) s1 of
                 (Inl e, s2) \<Rightarrow> (Inl (ErrWrap ''updating status: '' e), s2)
               | (Inr y, s2) \<Rightarrow> (get_task rv i s2, s2)))"

section \<open>Launching\<close>

record launch_input =
  li_org :: uuid
  li_user :: uuid
  li_agent :: agent
  li_task :: "uuid \<times> board_task"
  li_values :: values_map
  li_source :: string

record launch_output =
  mo_run :: "uuid option"
  mo_sync :: bool
  mo_message :: string
  mo_description :: string
  mo_status :: string
  mo_meta :: obj

record launch_request =
  lq_org :: uuid
  lq_user :: uuid
  lq_agent :: uuid
  lq_project :: uuid
  lq_task :: "uuid option"
  lq_values :: values_map
  lq_source :: string
  lq_context :: "run_context option"
  lq_skills :: "string list"

record board_launch =
  lr_task :: "uuid \<times> board_task"
  lr_kind :: string
  lr_run :: "uuid option"
  lr_sync :: bool
  lr_message :: string

type_synonym 'w module_launch =
  "launch_input \<Rightarrow> 'w board_sys \<Rightarrow> (go_err + launch_output option) \<times> 'w board_sys"

text \<open>\<open>le_module\<close> is \<open>Lookup\<close> where the module has a \<open>Launch\<close>; \<open>le_org\<close> makes a text of a run's id.\<close>

record 'w launch_env =
  le_runs :: "'w run_service"
  le_schemas :: "string \<Rightarrow> launch_schema option"
  le_module :: "string \<Rightarrow> 'w module_launch option"
  le_shuffle :: "values_map \<Rightarrow> values_map"
  le_uuid_text :: "uuid \<Rightarrow> string"

definition builtin_of :: "agent \<Rightarrow> string" where
  "builtin_of a = (case map_of (ag_metadata a) ''builtin'' of Some (JStr v) \<Rightarrow> v | _ \<Rightarrow> [])"

definition merge_meta :: "obj \<Rightarrow> obj \<Rightarrow> obj" where
  "merge_meta existing extra = fold (\<lambda>(k, v) m. aput k v m) extra existing"

definition values_as_any :: "values_map \<Rightarrow> json" where
  "values_as_any v = JObj (map (\<lambda>(k, x). (k, JStr x)) v)"

definition project_in_org :: "'w launch_env \<Rightarrow> uuid \<Rightarrow> uuid \<Rightarrow> 'w board_sys \<Rightarrow> bool" where
  "project_in_org le project org s \<longleftrightarrow> project \<noteq> uuid_nil
     \<and> board_read (le_runs le) ''projectRepo.FindByID'' (\<lambda>db. Inr (bd_projects db project)) s = Inr (Some org)"

definition launch_agent :: "'w launch_env \<Rightarrow> launch_request \<Rightarrow> 'w board_sys \<Rightarrow> agent option" where
  "launch_agent le rq s =
     (case sv_fault (tv_exec (le_runs le)) s ''agentRepo.FindByID'' of
        Some e \<Rightarrow> None
      | None \<Rightarrow> (case xs_agents s (lq_agent rq) of
            None \<Rightarrow> None | Some a \<Rightarrow> if ag_org a \<noteq> lq_org rq then None else Some a))"

definition text_option :: "string \<Rightarrow> string option" where
  "text_option t = (if t = [] then None else Some t)"

text \<open>The task that the launch is on: the one it names, rewritten, or a new one.\<close>

definition launch_task ::
  "'w launch_env \<Rightarrow> launch_request \<Rightarrow> string \<Rightarrow> string \<Rightarrow> obj \<Rightarrow> 'w board_sys
    \<Rightarrow> (go_err + uuid \<times> board_task) \<times> 'w board_sys" where
  "launch_task le rq title desc meta s =
     (case lq_task rq of
        Some i \<Rightarrow>
          (case get_task (le_runs le) i s of
             Inl e \<Rightarrow> (Inl e, s)
           | Inr t \<Rightarrow>
               if \<not> project_in_org le (bt_project t) (lq_org rq) s then (Inl (ErrText ''task not found''), s)
               else case svc_update_task (le_runs le) i (no_update\<lparr>tu_title := Some title, tu_description := text_option desc,
                   tu_agent := Some (Some (lq_agent rq)), tu_metadata := Some (merge_meta (bt_metadata t) meta)\<rparr>) s of
                 (Inl e, s1) \<Rightarrow> (Inl e, s1)
               | (Inr t1, s1) \<Rightarrow> (Inr (i, t1), s1))
      | None \<Rightarrow>
          if lq_project rq = uuid_nil then (Inl (ErrText ''project is required''), s)
          else if \<not> project_in_org le (lq_project rq) (lq_org rq) s then (Inl (ErrText ''project not found''), s)
          else svc_create_task (le_runs le)
            \<lparr>bt_project = lq_project rq, bt_title = title, bt_description = text_option desc, bt_status = ''backlog'',
             bt_agent = Some (lq_agent rq), bt_position = 0, bt_completed = None, bt_metadata = meta\<rparr> s)"

definition launch_prompt :: "values_map \<Rightarrow> string" where
  "launch_prompt v =
     (if trimmed v ''prompt'' \<noteq> [] then trimmed v ''prompt''
      else if trimmed v ''description'' = [] then trimmed v ''title''
      else if trimmed v ''title'' = [] then trimmed v ''description''
      else trimmed v ''title'' @ newline @ newline @ trimmed v ''description'')"

text \<open>\<open>task\<close> is the caller's copy, in progress; the stored one is read again by the update.\<close>

definition apply_launch ::
  "'w launch_env \<Rightarrow> uuid \<times> board_task \<Rightarrow> obj \<Rightarrow> board_launch \<Rightarrow> launch_output \<Rightarrow> 'w board_sys
    \<Rightarrow> board_launch \<times> 'w board_sys" where
  "apply_launch le task meta0 out lo s =
     (let meta1 = merge_meta meta0 (mo_meta lo);
          meta = (case mo_run lo of None \<Rightarrow> meta1 | Some r \<Rightarrow> aput ''run_id'' (JStr (le_uuid_text le r)) meta1);
          (upd, s1) = svc_update_task (le_runs le) (fst task)
            (no_update\<lparr>tu_metadata := Some (merge_meta (bt_metadata (snd task)) meta),
               tu_description := (if trim_space (mo_description lo) = [] then None else Some (mo_description lo))\<rparr>) s;
          status = (if mo_status lo = [] then ''in_progress'' else mo_status lo);
          s2 = move_card (le_runs le) (fst task) status None s1;
          t = (case upd of Inl e \<Rightarrow> snd task | Inr t \<Rightarrow> t)
      in (out\<lparr>lr_task := (fst task, t\<lparr>bt_status := status\<rparr>), lr_run := mo_run lo, lr_sync := mo_sync lo,
              lr_message := mo_message lo\<rparr>, s2))"

definition launch_generic ::
  "'w launch_env \<Rightarrow> launch_request \<Rightarrow> values_map \<Rightarrow> uuid \<times> board_task \<Rightarrow> obj \<Rightarrow> 'w board_sys
    \<Rightarrow> (go_err + board_launch) \<times> 'w board_sys" where
  "launch_generic le rq vals task meta s =
     (let rc = normalize_context (lq_context rq) in
      case create_task_run (le_runs le) rc (fst task)
          \<lparr>cq_agent = Some (lq_agent rq), cq_prompt = Some (launch_prompt vals), cq_engine = None, cq_provider = None,
           cq_model = None, cq_skills = lq_skills rq, cq_inputs = merge_context rc [], cq_debug = False, cq_context = rc\<rparr>
          (lq_org rq) (Some (lq_user rq)) s of
        (Inl e, s1) \<Rightarrow> (Inl e, s1)
      | (Inr (i, r), s1) \<Rightarrow>
          (let (upd, s2) = svc_update_task (le_runs le) (fst task)
             (no_update\<lparr>tu_metadata := Some (merge_meta (bt_metadata (snd task))
                (aput ''run_id'' (JStr (le_uuid_text le i)) meta))\<rparr>) s1
           in (Inr \<lparr>lr_task = (fst task, case upd of Inl e \<Rightarrow> snd task | Inr t \<Rightarrow> t), lr_kind = ''task_run'',
                 lr_run = Some i, lr_sync = False, lr_message = ''Agent run started''\<rparr>, s2)))"

definition launch_kind :: "agent \<Rightarrow> string" where
  "launch_kind a = (if builtin_of a = [] then ''task_run'' else builtin_of a)"

definition launch_meta :: "values_map \<Rightarrow> string \<Rightarrow> obj" where
  "launch_meta vals kind = [(''launch_values'', values_as_any vals), (''launch_kind'', JStr kind)]"

definition launch ::
  "'w launch_env \<Rightarrow> launch_request \<Rightarrow> 'w board_sys \<Rightarrow> (go_err + board_launch) \<times> 'w board_sys" where
  "launch le rq s =
     (case launch_agent le rq s of
        None \<Rightarrow> (Inl (ErrText ''agent not found''), s)
      | Some a \<Rightarrow>
          (let kind = launch_kind a; schema = schema_for (le_schemas le) (builtin_of a);
               vals = apply_defaults schema (lq_values rq);
               (title, desc) = title_from (le_shuffle le) schema vals;
               meta = launch_meta vals kind
           in case launch_task le rq title desc meta s of
                (Inl e, s1) \<Rightarrow> (Inl e, s1)
              | (Inr (i, t0), s1) \<Rightarrow>
                  (let s2 = move_card (le_runs le) i ''in_progress'' None s1;
                       t = t0\<lparr>bt_status := ''in_progress''\<rparr>
                   in case le_module le kind of
                        Some f \<Rightarrow>
                          (case f \<lparr>li_org = lq_org rq, li_user = lq_user rq, li_agent = a, li_task = (i, t), li_values = vals,
                                li_source = (if lq_source rq = [] then ''task_manager'' else lq_source rq)\<rparr> s2 of
                             (Inl e, s3) \<Rightarrow> (Inl e, s3)
                           | (Inr lo, s3) \<Rightarrow>
                               (let out = \<lparr>lr_task = (i, t), lr_kind = kind, lr_run = None, lr_sync = False, lr_message = []\<rparr>
                                in case lo of
                                     None \<Rightarrow> (Inr out, s3)
                                   | Some lo \<Rightarrow> (let (res, s4) = apply_launch le (i, t) meta out lo s3 in (Inr res, s4))))
                      | None \<Rightarrow> launch_generic le rq vals (i, t) meta s2)))"

section \<open>Projects in the chat\<close>

text \<open>\<open>pe_list\<close> is the first page of the organisation's projects, \<open>pe_create\<close> makes one of a name.\<close>

record 'w project_env =
  pe_list :: "uuid \<Rightarrow> 'w board_sys \<Rightarrow> go_err + (uuid \<times> string) list"
  pe_create :: "uuid \<Rightarrow> uuid \<Rightarrow> string \<Rightarrow> 'w board_sys \<Rightarrow> (go_err + uuid option) \<times> 'w board_sys"
  pe_parse_uuid :: "string \<Rightarrow> uuid option"
  pe_uuid_text :: "uuid \<Rightarrow> string"

datatype project_decision =
  Project uuid
| AskProject string "(string \<times> string) list"

definition new_project_prefix :: string where "new_project_prefix = ''new:''"

definition that_project_hint :: "string \<Rightarrow> bool" where
  "that_project_hint hint \<longleftrightarrow> to_lower (trim_space hint)
     \<in> {[], ''that'', ''that project'', ''the same'', ''the same project'', ''same'', ''it''}"

definition new_project_name :: "'w project_env \<Rightarrow> string \<Rightarrow> string" where
  "new_project_name pe hint0 =
     (let hint = trim_space hint0 in
      if has_prefix (to_lower hint) new_project_prefix then
        (let name = trim_space (drop (length new_project_prefix) hint) in if name \<noteq> [] then name else ''General'')
      else if that_project_hint hint \<or> pe_parse_uuid pe hint \<noteq> None \<or> rune_count hint < 2 then []
      else hint)"

definition first_project_question :: project_decision where
  "first_project_question =
     AskProject (''There is no project yet. I can create one and carry straight on '' @ map char_of [226, 128, 148 :: nat]
         @ '' take the default name, or tell me what to call it.'')
       [(''Create '' @ [CHR 0x22] @ ''General'' @ [CHR 0x22] @ '' and continue'', new_project_prefix @ ''General'')]"

definition names_project :: "string \<Rightarrow> uuid \<times> string \<Rightarrow> bool" where
  "names_project hint p \<longleftrightarrow> equal_fold (snd p) hint \<or> str_contains (to_lower (snd p)) (to_lower hint)"

definition project_by_id :: "'w project_env \<Rightarrow> string \<Rightarrow> (uuid \<times> string) list \<Rightarrow> uuid option" where
  "project_by_id pe txt ps =
     (case pe_parse_uuid pe txt of
        None \<Rightarrow> None | Some i \<Rightarrow> map_option fst (find (\<lambda>p. fst p = i) ps))"

definition project_by_hint :: "'w project_env \<Rightarrow> string \<Rightarrow> (uuid \<times> string) list \<Rightarrow> uuid option" where
  "project_by_hint pe hint ps =
     (if hint = [] then None
      else case project_by_id pe hint ps of
        Some i \<Rightarrow> Some i
      | None \<Rightarrow> (case filter (names_project hint) ps of [p] \<Rightarrow> Some (fst p) | _ \<Rightarrow> None))"

definition choose_project ::
  "'w project_env \<Rightarrow> string \<Rightarrow> string \<Rightarrow> (uuid \<times> string) list \<Rightarrow> project_decision" where
  "choose_project pe hint last_id ps =
     (case project_by_hint pe hint ps of
        Some i \<Rightarrow> Project i
      | None \<Rightarrow>
          (case (if last_id \<noteq> [] \<and> that_project_hint hint then project_by_id pe last_id ps else None) of
             Some i \<Rightarrow> Project i
           | None \<Rightarrow> AskProject ''Which project should this task go on?''
               (map (\<lambda>p. (snd p, pe_uuid_text pe (fst p))) ps)))"

definition resolve_project ::
  "'w project_env \<Rightarrow> uuid \<Rightarrow> uuid \<Rightarrow> string \<Rightarrow> string \<Rightarrow> 'w board_sys
    \<Rightarrow> (go_err + project_decision) \<times> 'w board_sys" where
  "resolve_project pe org user hint last_id s =
     (case pe_list pe org s of
        Inl e \<Rightarrow> (Inl e, s)
      | Inr [] \<Rightarrow>
          (if new_project_name pe hint = [] then (Inr first_project_question, s)
           else case pe_create pe org user (new_project_name pe hint) s of
             (Inl e, s1) \<Rightarrow> (Inl e, s1)
           | (Inr None, s1) \<Rightarrow> (Inr first_project_question, s1)
           | (Inr (Some i), s1) \<Rightarrow> (Inr (Project i), s1))
      | Inr [p] \<Rightarrow> (Inr (Project (fst p)), s)
      | Inr ps \<Rightarrow> (Inr (choose_project pe (trim_space hint) last_id ps), s))"

definition launch_from_chat ::
  "'w launch_env \<Rightarrow> 'w project_env \<Rightarrow> uuid \<Rightarrow> uuid \<Rightarrow> uuid \<Rightarrow> values_map \<Rightarrow> string \<Rightarrow> 'w board_sys
    \<Rightarrow> (go_err + board_launch + project_decision) \<times> 'w board_sys" where
  "launch_from_chat le pe org user agent vals last_id s =
     (case resolve_project pe org user (trimmed vals ''project'') last_id s of
        (Inl e, s1) \<Rightarrow> (Inl e, s1)
      | (Inr (AskProject q opts), s1) \<Rightarrow> (Inr (Inr (AskProject q opts)), s1)
      | (Inr (Project p), s1) \<Rightarrow>
          (case launch le \<lparr>lq_org = org, lq_user = user, lq_agent = agent, lq_project = p, lq_task = None,
               lq_values = vals, lq_source = ''chat'', lq_context = None, lq_skills = []\<rparr> s1 of
             (Inl e, s2) \<Rightarrow> (Inl e, s2) | (Inr out, s2) \<Rightarrow> (Inr (Inl out), s2)))"

end
