(* ===== verification/TaskRunProps.thy ===== *)
theory TaskRunProps
  imports TaskRuns
begin

text \<open>
  What launching, executing and synchronising a run of a task leaves in its row and on the board.
\<close>

section \<open>Statements\<close>

named_theorems board_simps

lemma board_on_board [simp, board_simps]: "board (on_board f s) = f (board s)"
  by (simp add: board_def on_board_def)

lemma on_board_frame [simp, board_simps]:
  "xs_db (on_board f s) = xs_db s" "xs_agents (on_board f s) = xs_agents s"
  "fst (xs_world (on_board f s)) = fst (xs_world s)"
  by (simp_all add: on_board_def)

lemma run_row_set [simp, board_simps]:
  "run_row j (set_run_row i f db) = (if j = i then map_option f (run_row i db) else run_row j db)"
proof -
  have "map_of (map (\<lambda>(j, r). (j, if j = i then f r else r)) rs) j
      = (if j = i then map_option f (map_of rs i) else map_of rs j)" for rs
    by (induction rs) auto
  then show ?thesis by (simp add: run_row_def set_run_row_def)
qed

lemma set_run_frame [simp, board_simps]:
  "bd_tasks (set_run_row i f db) = bd_tasks db" "bd_projects (set_run_row i f db) = bd_projects db"
  "bd_history (set_run_row i f db) = bd_history db" "find_board_task t (set_run_row i f db) = find_board_task t db"
  by (simp_all add: set_run_row_def find_board_task_def)

lemma find_board_task_set [simp, board_simps]:
  "find_board_task j (set_board_task i f db)
     = (if j = i then map_option f (find_board_task i db) else find_board_task j db)"
proof -
  have "map_of (map (\<lambda>(j, t). (j, if j = i then f t else t)) ts) j
      = (if j = i then map_option f (map_of ts i) else map_of ts j)" for ts
    by (induction ts) auto
  then show ?thesis by (simp add: find_board_task_def set_board_task_def)
qed

lemma set_board_task_frame [simp, board_simps]:
  "bd_runs (set_board_task i f db) = bd_runs db" "bd_projects (set_board_task i f db) = bd_projects db"
  by (simp_all add: set_board_task_def)

lemma note_change_frame [simp, board_simps]:
  "bd_runs (note_change i a b c n db) = bd_runs db" "bd_projects (note_change i a b c n db) = bd_projects db"
  "bd_tasks (note_change i a b c n db) = bd_tasks db"
  "find_board_task j (note_change i a b c n db) = find_board_task j db"
  by (simp_all add: note_change_def find_board_task_def)

lemma transition_frame:
  "transition_status i status u now db = Inr (x, db') \<Longrightarrow> bd_runs db' = bd_runs db \<and> bd_projects db' = bd_projects db"
  by (auto simp: transition_status_def split: option.splits if_splits)

lemma transition_task:
  "find_board_task i db = Some t \<Longrightarrow> \<exists>db' t'. transition_status i status u now db = Inr ((), db')
     \<and> find_board_task i db' = Some t' \<and> bt_status t' = status \<and> bt_project t' = bt_project t"
  by (auto simp: transition_status_def)

lemma board_write_Inr:
  "board_write tv op f s = (Inr a, s') \<Longrightarrow>
     \<exists>db. f (board s) = Inr (a, db) \<and> s' = on_board (\<lambda>_. db) s \<and> sv_fault (tv_exec tv) s op = None"
  by (auto simp: board_write_def split: option.splits sum.splits prod.splits)

lemma board_write_Inl: "board_write tv op f s = (Inl e, s') \<Longrightarrow> s' = s"
  by (auto simp: board_write_def split: option.splits sum.splits prod.splits)

lemma board_write_frame:
  "xs_db (snd (board_write tv op f s)) = xs_db s" "xs_agents (snd (board_write tv op f s)) = xs_agents s"
  by (auto simp: board_write_def split: option.splits sum.splits prod.splits)

lemma board_read_Inr: "board_read tv op f s = Inr a \<longleftrightarrow> sv_fault (tv_exec tv) s op = None \<and> f (board s) = Inr a"
  by (auto simp: board_read_def split: option.splits)

lemma run_row_cong: "bd_runs db' = bd_runs db \<Longrightarrow> run_row j db' = run_row j db"
  by (simp add: run_row_def)

lemma move_card_frame [simp]:
  "bd_runs (board (move_card tv t st u s)) = bd_runs (board s)"
  "bd_projects (board (move_card tv t st u s)) = bd_projects (board s)"
  "xs_db (move_card tv t st u s) = xs_db s" "xs_agents (move_card tv t st u s) = xs_agents s"
proof -
  show "bd_runs (board (move_card tv t st u s)) = bd_runs (board s)"
    "bd_projects (board (move_card tv t st u s)) = bd_projects (board s)"
    by (auto simp: move_card_def board_write_def split: option.splits sum.splits prod.splits dest: transition_frame)
qed (simp_all add: move_card_def board_write_frame)

lemma sync_frame [simp]:
  "bd_runs (board (sync_board_status tv t st u s)) = bd_runs (board s)"
  "bd_projects (board (sync_board_status tv t st u s)) = bd_projects (board s)"
  "xs_db (sync_board_status tv t st u s) = xs_db s" "xs_agents (sync_board_status tv t st u s) = xs_agents s"
  by (simp_all add: sync_board_status_def split: option.split)

section \<open>Launching\<close>

lemma create_run_row_Inr:
  assumes "create_run_row i r now db = Inr (r', db')"
  shows "r' = r\<lparr>jr_created := now\<rparr> \<and> run_row i db = None \<and> run_row i db' = Some (r'\<lparr>jr_context := None\<rparr>)
    \<and> (\<forall>j. j \<noteq> i \<longrightarrow> run_row j db' = run_row j db) \<and> bd_tasks db' = bd_tasks db \<and> bd_projects db' = bd_projects db"
proof -
  have new: "i \<notin> fst ` set (bd_runs db)" using assms by (auto simp: create_run_row_def split: if_splits)
  then have "map_of (bd_runs db) i = None" by (simp add: map_of_eq_None_iff)
  then show ?thesis using assms
    by (auto simp: create_run_row_def run_row_def map_add_def split: if_splits option.splits)
qed

lemma create_with_context_Inr:
  assumes "create_with_context tv carried i r0 s = (Inr r, s')"
  shows "run_row i (board s) = None \<and> run_row i (board s') = Some r
    \<and> (\<forall>j. j \<noteq> i \<longrightarrow> run_row j (board s') = run_row j (board s))
    \<and> r = r0\<lparr>jr_context := jr_context r, jr_created := tv_now tv s\<rparr> \<and> xs_db s' = xs_db s
    \<and> bd_tasks (board s') = bd_tasks (board s)"
proof -
  define q where "q = (if jr_context r0 = None then r0\<lparr>jr_context := normalize_context carried\<rparr> else r0)"
  obtain c1 s1 where c1: "board_write tv ''taskRunRepo.Create'' (create_run_row i q (tv_now tv s)) s = (c1, s1)"
    by (metis surj_pair)
  obtain r' where "c1 = Inr r'"
    using assms by (cases c1) (auto simp: create_with_context_def q_def [symmetric] c1 Let_def)
  then have "board_write tv ''taskRunRepo.Create'' (create_run_row i q (tv_now tv s)) s = (Inr r', s1)"
    by (simp add: c1)
  from board_write_Inr [OF this]
  obtain db where db: "create_run_row i q (tv_now tv s) (board s) = Inr (r', db)" and s1: "s1 = on_board (\<lambda>_. db) s"
    by auto
  note row = create_run_row_Inr [OF db]
  have "r' = r \<and> run_row i (board s') = Some r \<and> (\<forall>j. j \<noteq> i \<longrightarrow> run_row j (board s') = run_row j (board s1))
      \<and> xs_db s' = xs_db s1 \<and> bd_tasks (board s') = bd_tasks (board s1)"
  proof (cases "jr_context r'")
    case None
    then have "r'\<lparr>jr_context := None\<rparr> = r'" by (cases r') simp
    then show ?thesis using assms None row \<open>c1 = Inr r'\<close>
      by (auto simp: create_with_context_def q_def [symmetric] c1 Let_def s1)
  next
    case (Some c)
    then have full: "r'\<lparr>jr_context := Some c\<rparr> = r'" by (cases r') simp
    obtain c2 s2 where c2: "board_write tv ''taskRunRepo.StoreContext'' (store_context i c) s1 = (c2, s2)"
      by (metis surj_pair)
    with assms Some \<open>c1 = Inr r'\<close> obtain u where "c2 = Inr u" and r: "r' = r" "s2 = s'"
      by (cases c2) (auto simp: create_with_context_def q_def [symmetric] c1 Let_def)
    with c2 have "s' = on_board (\<lambda>_. set_run_row i (\<lambda>r. r\<lparr>jr_context := Some c\<rparr>) db) s1"
      using board_write_Inr [of tv "''taskRunRepo.StoreContext''" "store_context i c" s1 u s2]
      by (auto simp: store_context_def s1)
    then show ?thesis using row full r by (simp add: s1)
  qed
  moreover have "r' = r0\<lparr>jr_context := jr_context r', jr_created := tv_now tv s\<rparr>"
    using row by (cases r0) (simp add: q_def)
  ultimately show ?thesis using row by (auto simp: s1)
qed

lemma task_in_org_Inr:
  "task_in_org tv task org s = Inr t \<Longrightarrow>
     find_board_task task (board s) = Some t \<and> bd_projects (board s) (bt_project t) = Some org"
  by (auto simp: task_in_org_def board_read_def split: option.splits sum.splits if_splits)

lemma check_run_Inr:
  "check_run tv task rq org s = Inr (t, aid, prompt) \<Longrightarrow>
     task_in_org tv task org s = Inr t \<and> resolve_run_agent (cq_agent rq) (bt_agent t) = Inr aid
     \<and> (\<exists>ag. xs_agents s aid = Some ag \<and> ag_org ag = org) \<and> prompt = build_run_prompt t rq
     \<and> trim_space prompt \<noteq> []"
  by (auto simp: check_run_def split: option.splits sum.splits if_splits)

text \<open>
  A launch that succeeds stores one queued run, and only for a task of the caller's organisation
  and an agent of it, with a prompt; no other run and no execution changes, and the card is in
  progress.
\<close>

lemma launched_run:
  assumes "create_task_run tv carried task rq org by_user s = (Inr (i, r), s')"
    and "\<forall>s op. sv_fault (tv_exec tv) s op = None"
  shows "\<exists>t ag t'. find_board_task task (board s) = Some t \<and> bd_projects (board s) (bt_project t) = Some org
    \<and> xs_agents s (jr_agent r) = Some ag \<and> ag_org ag = org
    \<and> jr_task r = task \<and> jr_org r = org \<and> jr_status r = jr_queued \<and> jr_prompt r = build_run_prompt t rq
    \<and> trim_space (jr_prompt r) \<noteq> []
    \<and> run_row i (board s) = None \<and> run_row i (board s') = Some r
    \<and> (\<forall>j. j \<noteq> i \<longrightarrow> run_row j (board s') = run_row j (board s)) \<and> xs_db s' = xs_db s
    \<and> find_board_task task (board s') = Some t' \<and> bt_status t' = ''in_progress''
    \<and> resolve_run_agent (cq_agent rq) (bt_agent t) = Inr (jr_agent r)"
proof -
  obtain t aid prompt where ck: "check_run tv task rq org s = Inr (t, aid, prompt)"
    using assms(1) by (cases "check_run tv task rq org s") (auto simp: create_task_run_def)
  note checked = check_run_Inr [OF ck]
  note found = task_in_org_Inr [OF conjunct1 [OF checked]]
  obtain s1 where cr: "create_with_context tv carried i (new_task_run task aid org prompt t rq by_user) s = (Inr r, s1)"
    and s': "s' = sync_board_status tv task (jr_status r) by_user s1"
    using assms(1) by (auto simp: create_task_run_def ck Let_def split: sum.splits prod.splits)
  note row = create_with_context_Inr [OF cr]
  then obtain c n where "r = (new_task_run task aid org prompt t rq by_user)\<lparr>jr_context := c, jr_created := n\<rparr>"
    by blast
  then have r: "jr_task r = task" "jr_org r = org" "jr_status r = jr_queued" "jr_prompt r = prompt" "jr_agent r = aid"
    by (simp_all add: new_task_run_def)
  have "find_board_task task (board s1) = Some t" using row found by (simp add: find_board_task_def)
  from transition_task [OF this, of "''in_progress''" by_user "tv_now tv s1"] obtain db' t' where
    tr: "transition_status task ''in_progress'' by_user (tv_now tv s1) (board s1) = Inr ((), db')"
    and t': "find_board_task task db' = Some t'" "bt_status t' = ''in_progress''" by blast
  have "s' = move_card tv task ''in_progress'' by_user s1"
    by (simp add: s' r sync_board_status_def board_status_def)
  then have "board s' = db'" by (simp add: move_card_def board_write_def assms(2) tr)
  with t' have card: "find_board_task task (board s') = Some t'" by simp
  have same: "run_row j (board s') = run_row j (board s1)" for j by (simp add: s' run_row_def)
  obtain ag where "xs_agents s aid = Some ag" "ag_org ag = org" using checked by blast
  moreover have "xs_db s' = xs_db s" using row by (simp add: s')
  moreover have "trim_space (build_run_prompt t rq) \<noteq> []" "prompt = build_run_prompt t rq" using checked by auto
  moreover have "resolve_run_agent (cq_agent rq) (bt_agent t) = Inr aid" using checked by blast
  ultimately show ?thesis using found row r t'(2) card same
    by - (rule exI [of _ t], rule exI [of _ ag], rule exI [of _ t'], simp)
qed

section \<open>Executing\<close>

lemma try_write_world [simp]:
  "(\<And>s. xs_world (f s) = xs_world s) \<Longrightarrow> xs_world (try_write sv op f s) = xs_world s"
  by (simp add: try_write_def split: option.split)

lemma usage_status:
  assumes "\<forall>s op. sv_fault sv s op = None"
  shows "map_option xe_status (xd_execs (xs_db (snd (apply_usage sv g u s))) j)
    = map_option xe_status (xd_execs (xs_db s) j)"
proof -
  have fold_db: "xs_db (fold (\<lambda>ro. try_write sv (f ro) (\<lambda>t. t\<lparr>xs_rollups := xs_rollups t @ [ro]\<rparr>)) rs t) = xs_db t" for f rs t
    by (induction rs arbitrary: t) (simp_all add: try_write_def assms)
  show ?thesis
    by (auto simp: apply_usage_def Let_def fold_db try_write_def assms on_db_def update_cost_fields_def update_exec_def
        option.map_comp comp_def split: option.splits)
qed

lemma merge_stored_fields [simp]:
  "so_id (merge_stored r c so) = so_id so"
  "xe_status (so_exec (merge_stored r c so)) = (if is_paused r then st_awaiting else xe_status (so_exec so))"
  by (simp_all add: merge_stored_def Let_def)

text \<open>Without faults of the database an execution is handed over paused, failed or completed.\<close>

lemma persisted_settled:
  assumes ok: "\<forall>s op. sv_fault sv s op = None"
    and "persist_outcome sv i base r s = (so, s')" and "so_id base = i"
  shows "so_id so = i \<and> xe_status (so_exec so) \<in> {st_awaiting, st_failed, st_completed}"
proof -
  define s1 where "s1 = set_agent_status (xe_agent (so_exec base)) ''idle'' s"
  define s2 where "s2 = on_db (persist_result i r (sv_now sv s1)) s1"
  define c where "c = (case sv_gov sv of
      Some g \<Rightarrow> if is_paused r then (0, s2)
        else apply_usage sv g (usage_of i (xe_agent (so_exec base)) (xe_org (so_exec base)) r) s2
    | None \<Rightarrow> (0, s2))"
  have po: "persist_outcome sv i base r s = (case read_exec sv i (snd c) of
      Inr so \<Rightarrow> merge_stored r (fst c) so | Inl e \<Rightarrow> fallback_stored r (fst c) (sv_now sv (snd c)) base, snd c)"
  proof -
    have "try_write sv ''agentRepo.UpdateStatus'' (set_agent_status (xe_agent (so_exec base)) ''idle'') s = s1"
      and "try_write sv ''execRepo.PersistResult'' (on_db (persist_result i r (sv_now sv s1))) s1 = s2"
      by (simp_all add: try_write_def ok s1_def s2_def)
    then show ?thesis unfolding persist_outcome_def Let_def c_def by (simp only: case_prod_beta)
  qed
  have st: "map_option xe_status (xd_execs (xs_db (snd c)) i) = exec_status i (xs_db s2)"
    using usage_status [OF ok] by (auto simp: c_def exec_status_def split: option.split)
  show ?thesis
  proof (cases "xd_execs (xs_db (snd c)) i")
    case None
    then have "read_exec sv i (snd c) = Inl (ErrText ''execution_repo: get by id: no rows in result set'')"
      by (simp add: read_exec_def ok)
    then show ?thesis using assms(2,3) po
      by (auto simp: fallback_stored_def Let_def split: option.splits)
  next
    case (Some x)
    then have "read_exec sv i (snd c)
        = Inr \<lparr>so_id = i, so_exec = x, so_calls = load_tool_calls i (xs_db (snd c)), so_pending = None\<rparr>"
      by (simp add: read_exec_def ok)
    moreover obtain y where y: "xd_execs (xs_db s1) i = Some y"
      using st Some
      by (cases "xd_execs (xs_db s1) i")
         (auto simp: s2_def on_db_def exec_status_def persist_result_def fold_record_calls mark_awaiting_def
            mark_failed_def mark_completed_def update_exec_def split: option.splits if_splits)
    moreover have "xe_status x \<in> {st_awaiting, st_failed, st_completed}"
      using st Some persist_status [OF y, of r "sv_now sv s1"] by (auto simp: s2_def on_db_def split: if_splits)
    ultimately show ?thesis using assms(2) po by (auto split: if_splits)
  qed
qed

lemma executed_settled:
  assumes "\<forall>s op. sv_fault sv s op = None" and "execute_request sv cx org aid req s = (Inr so, s')"
  shows "xe_status (so_exec so) \<in> {st_awaiting, st_failed, st_completed}"
proof -
  obtain st s1 where st: "begin_exec sv org aid req s = (Inr st, s1)" and f: "finish_exec sv cx st s1 = (so, s')"
    using assms(2) by (auto simp: execute_request_def split: sum.splits prod.splits)
  obtain r s2 where "runner_for (sv_router sv) (se_engine st) (run_context st cx) (se_id st)
      (se_agent st) (rq_prompt (se_request st)) (se_tools st) s1 = (r, s2)" by (metis surj_pair)
  with f have "persist_outcome sv (se_id st) (started_record st) (measured (sv_now sv s2 - sv_now sv s1) r) s2 = (so, s')"
    by (simp add: finish_exec_def)
  from persisted_settled [OF assms(1) this] show ?thesis by (simp add: started_record_def)
qed

text \<open>The webhook tables are not the board's: emitting an event leaves the board alone.\<close>

definition emits_beside :: "'w run_service \<Rightarrow> bool" where
  "emits_beside tv \<longleftrightarrow>
     (\<forall>emit org ty ev s. tv_emit tv = Some emit \<longrightarrow> board (emit org ty ev s) = board s)"

lemma update_task_run_board:
  assumes "\<forall>s op. sv_fault (tv_exec tv) s op = None" and "emits_beside tv" and "run_row i (board s) = Some old"
  shows "board (snd (update_task_run tv i r s)) = set_run_row i (merge_run_row r) (board s)"
proof -
  have "board_write tv ''taskRunRepo.Update'' (update_run_row i r) s
      = (Inr (), on_board (\<lambda>_. set_run_row i (merge_run_row r) (board s)) s)"
    by (simp add: board_write_def update_run_row_def assms(1,3))
  moreover have "board (emit org ty ev t) = board t" if "tv_emit tv = Some emit" for emit org ty ev t
    using assms(2) that by (auto simp: emits_beside_def)
  ultimately show ?thesis by (auto simp: update_task_run_def Let_def split: option.split)
qed

lemma finalized_row:
  assumes "\<forall>s op. sv_fault (tv_exec tv) s op = None" and "emits_beside tv" and "run_row i (board s) = Some old"
  shows "run_row i (board (finalize_run tv i r s)) = Some (merge_run_row r old)"
proof -
  have "run_row i (board (finalize_run tv i r s)) = run_row i (board (snd (update_task_run tv i r s)))"
    by (rule run_row_cong) (simp add: finalize_run_def)
  then show ?thesis by (simp add: update_task_run_board [OF assms] assms(3))
qed

lemma merge_run_row_fields [simp]:
  "jr_status (merge_run_row r old) = jr_status r" "jr_exec (merge_run_row r old) = jr_exec r"
  "jr_output (merge_run_row r old) = jr_output r" "jr_error (merge_run_row r old) = jr_error r"
  "jr_tokens (merge_run_row r old) = jr_tokens r" "jr_cost (merge_run_row r old) = jr_cost r"
  "jr_pending (merge_run_row r old) = jr_pending r" "jr_completed (merge_run_row r old) = jr_completed r"
  "jr_task (merge_run_row r old) = jr_task old" "jr_org (merge_run_row r old) = jr_org old"
  "jr_context (merge_run_row r old) = jr_context old" "jr_agent (merge_run_row r old) = jr_agent old"
  by (simp_all add: merge_run_row_def)

text \<open>A run as its execution, settled, leaves it.\<close>

definition mirrors :: "stored_exec \<Rightarrow> task_run \<Rightarrow> bool" where
  "mirrors so r \<longleftrightarrow>
     jr_exec r = Some (so_id so) \<and> jr_output r = xe_output (so_exec so) \<and> jr_error r = xe_error (so_exec so)
     \<and> jr_tokens r = xe_total (so_exec so) \<and> jr_cost r = xe_cost (so_exec so)
     \<and> (if xe_status (so_exec so) = st_awaiting
        then jr_status r = jr_awaiting \<and> jr_pending r = so_pending so \<and> jr_completed r = None
        else jr_status r = (if xe_status (so_exec so) = st_completed \<and> xe_error (so_exec so) = None
                            then jr_done else jr_failed)
          \<and> jr_pending r = None \<and> jr_completed r \<noteq> None)"

lemma apply_execution_mirrors:
  assumes "xe_status (so_exec so) \<in> {st_awaiting, st_failed, st_completed}"
  shows "mirrors so (apply_execution so now r)"
  using assms by (auto simp: mirrors_def apply_execution_def Let_def completed_at_def status_defs split: option.split)

lemma mirrors_merge [simp]: "mirrors so (merge_run_row r old) = mirrors so r"
  by (simp add: mirrors_def)

lemma ended_settled:
  assumes "\<forall>s op. sv_fault sv s op = None" and "execute_request sv cx org aid req s1 = (res, s2)"
  shows "case res of
      Inl e \<Rightarrow> jr_status (ended_task_run res now r) = jr_failed \<and> jr_error (ended_task_run res now r) = Some (err_text e)
    | Inr so \<Rightarrow> mirrors so (ended_task_run res now r)"
  using executed_settled [OF assms(1)] assms(2) apply_execution_mirrors
  by (auto simp: ended_task_run_def split: sum.split)

text \<open>What goes out when a run's stored status changes: an event when the new one is completed or failed.\<close>

definition announced ::
  "'w run_service \<Rightarrow> uuid \<Rightarrow> string \<Rightarrow> string \<Rightarrow> run_event \<Rightarrow> 'w board_sys \<Rightarrow> 'w board_sys" where
  "announced tv org was becomes ev s =
     (case tv_emit tv of
        None \<Rightarrow> s
      | Some emit \<Rightarrow>
          if becomes = was then s
          else if becomes = jr_done then emit org ''run.completed'' ev s
          else if becomes = jr_failed then emit org ''run.failed'' ev s
          else s)"

lemma update_announces:
  assumes "\<forall>s op. sv_fault (tv_exec tv) s op = None" and "run_row i (board s) = Some old"
    and "t = on_board (\<lambda>_. set_run_row i (merge_run_row r) (board s)) s"
  shows "snd (update_task_run tv i r s) = announced tv (jr_org r) (jr_status old) (jr_status r) (run_data tv i r t) t"
proof -
  have "board_write tv ''taskRunRepo.Update'' (update_run_row i r) s = (Inr (), t)"
    by (simp add: board_write_def update_run_row_def assms)
  moreover have "board_read tv ''taskRunRepo.GetByID'' (get_run_row i) s = Inr (scan_run old)"
    by (simp add: board_read_def get_run_row_def assms(1,2))
  moreover have "jr_status (scan_run old) = jr_status old" by (simp add: scan_run_def)
  ultimately show ?thesis
    by (auto simp: update_task_run_def announced_def run_event_type_def run_status_defs split: option.split)
qed

text \<open>
  C35: when no statement of the database fails, a run does not stay queued or running once its goroutine
  ends. Its row is failed with the error when the execution was refused, and otherwise mirrors the
  execution, which is paused, failed or completed; it stays the same run of the same task. Between the
  write of the row and the move of the card the run's event goes out, to its organisation and with its
  outcome, exactly when the write has made the stored status completed or failed. What the emitter of
  events does, it does beside the board.
\<close>

theorem task_run_settles:
  assumes "\<forall>s op. sv_fault (tv_exec tv) s op = None" and "emits_beside tv"
    and "s1 = snd (update_task_run tv i (started_task_run (tv_now tv s) r) s)"
    and "execute_request (tv_exec tv) empty_ctx (jr_org r) (jr_agent r) (exec_request_of r) s1 = (res, s2)"
    and "run_row i (board s2) = Some old"
  shows "\<exists>r' t ev. run_row i (board (execute_task_run tv i r s)) = Some r'
    \<and> (case res of Inl e \<Rightarrow> jr_status r' = jr_failed \<and> jr_error r' = Some (err_text e) | Inr so \<Rightarrow> mirrors so r')
    \<and> jr_status r' \<in> {jr_done, jr_failed, jr_awaiting}
    \<and> jr_task r' = jr_task old \<and> jr_org r' = jr_org old \<and> jr_context r' = jr_context old
    \<and> execute_task_run tv i r s = sync_board_status tv (jr_task r) (jr_status r') None
        (announced tv (jr_org r) (jr_status old) (jr_status r') ev t)
    \<and> run_row i (board t) = Some r' \<and> xs_db t = xs_db s2
    \<and> ev_run ev = i \<and> ev_task ev = jr_task r \<and> ev_status ev = jr_status r' \<and> ev_error ev = jr_error r'
    \<and> ev_output ev = map_option (take max_event_output) (jr_output r') \<and> ev_context ev = jr_context r"
proof -
  define r1 where "r1 = started_task_run (tv_now tv s) r"
  have same: "jr_org r1 = jr_org r" "jr_agent r1 = jr_agent r" "exec_request_of r1 = exec_request_of r"
    "jr_task r1 = jr_task r" "jr_context r1 = jr_context r"
    by (simp_all add: r1_def started_task_run_def exec_request_of_def)
  define e where "e = ended_task_run res (tv_now tv s2) r1"
  have kept: "jr_org e = jr_org r" "jr_task e = jr_task r" "jr_context e = jr_context r"
    using same by (auto simp: e_def ended_task_run_def apply_execution_def Let_def split: sum.splits)
  have run: "execute_task_run tv i r s = finalize_run tv i e s2"
    using assms(3,4) by (simp add: execute_task_run_def Let_def r1_def [symmetric] same e_def)
  then have row: "run_row i (board (execute_task_run tv i r s)) = Some (merge_run_row e old)"
    using finalized_row [OF assms(1,2,5)] by simp
  define t where "t = on_board (\<lambda>_. set_run_row i (merge_run_row e) (board s2)) s2"
  have out: "execute_task_run tv i r s = sync_board_status tv (jr_task r) (jr_status e) None
      (announced tv (jr_org r) (jr_status old) (jr_status e) (run_data tv i e t) t)"
    by (simp add: run finalize_run_def update_announces [OF assms(1,5) t_def] kept)
  have t: "run_row i (board t) = Some (merge_run_row e old)" "xs_db t = xs_db s2"
    using assms(5) by (simp_all add: t_def)
  have "case res of Inl e' \<Rightarrow> jr_status e = jr_failed \<and> jr_error e = Some (err_text e') | Inr so \<Rightarrow> mirrors so e"
    unfolding e_def by (rule ended_settled [OF assms(1,4)])
  moreover from this have "jr_status e \<in> {jr_done, jr_failed, jr_awaiting}"
    by (auto simp: mirrors_def split: sum.splits if_splits)
  ultimately show ?thesis using row out t kept
    by (intro exI [of _ "merge_run_row e old"] exI [of _ t] exI [of _ "run_data tv i e t"])
      (simp add: run_data_def event_of_def split: sum.splits)
qed

text \<open>
  the event of a run that ends after an approval goes out without the run's context, although its
  row still has it: the row is looked up by its execution, which leaves the context out.
\<close>

lemma resumed_event_lacks_context:
  assumes "\<forall>s op. sv_fault (tv_exec tv) s op = None" and "tv_emit tv = Some emit"
    and "run_row i (board s) = Some q" and "run_by_execution (so_id so) (board s) = Some (i, scan_run q)"
    and "jr_status q \<noteq> jr_done" and "xe_status (so_exec so) = st_completed" and "xe_error (so_exec so) = None"
  shows "\<exists>s1 r1 ev. snd (sync_from_execution tv so s)
        = sync_board_status tv (jr_task q) jr_done None (emit (jr_org q) ''run.completed'' ev s1)
    \<and> run_row i (board s1) = Some r1 \<and> jr_context r1 = jr_context q \<and> ev_run ev = i \<and> ev_context ev = None"
proof -
  define r where "r = apply_execution so (tv_now tv s) (scan_run q)"
  have r: "jr_status r = jr_done" "jr_task r = jr_task q" "jr_org r = jr_org q" "jr_context r = None"
    using assms(6,7) by (simp_all add: r_def apply_execution_def Let_def scan_run_def status_defs)
  define s1 where "s1 = on_board (\<lambda>_. set_run_row i (merge_run_row r) (board s)) s"
  have "board_write tv ''taskRunRepo.Update'' (update_run_row i r) s = (Inr (), s1)"
    by (simp add: board_write_def update_run_row_def assms(1,3) s1_def)
  moreover have "board_read tv ''taskRunRepo.GetByID'' (get_run_row i) s = Inr (scan_run q)"
    by (simp add: board_read_def get_run_row_def assms(1,3))
  ultimately have "snd (update_task_run tv i r s) = emit (jr_org q) ''run.completed'' (run_data tv i r s1) s1"
    using assms(2,5) r by (simp add: update_task_run_def run_event_type_def scan_run_def)
  then have "snd (sync_from_execution tv so s)
      = sync_board_status tv (jr_task q) jr_done None (emit (jr_org q) ''run.completed'' (run_data tv i r s1) s1)"
    using assms(1,4) by (simp add: sync_from_execution_def board_read_def finalize_run_def r_def [symmetric] r)
  moreover have "run_row i (board s1) = Some (merge_run_row r q)" by (simp add: s1_def assms(3))
  moreover have "ev_run (run_data tv i r s1) = i" "ev_context (run_data tv i r s1) = None"
    by (simp_all add: run_data_def event_of_def r)
  ultimately show ?thesis by fastforce
qed

section \<open>Events of approvals\<close>

lemma run_by_execution_None:
  "run_by_execution x db = None \<longleftrightarrow> (\<forall>(i, r) \<in> set (bd_runs db). jr_exec r \<noteq> Some x)"
proof -
  have "run_by_execution x db = None \<longleftrightarrow> stable_sort newer_run (filter (\<lambda>(i, r). jr_exec r = Some x) (bd_runs db)) = []"
    by (auto simp: run_by_execution_def split: list.splits)
  then show ?thesis by (auto simp: filter_empty_conv)
qed

text \<open>
  A run's row has no execution before \<open>Execute\<close> has returned, so the approvals that its first execution
  asks for are announced without the run that they are of.
\<close>

lemma first_request_without_run:
  assumes "\<forall>(i, r) \<in> set (bd_runs (board s)). jr_exec r \<noteq> Some exec"
  shows "run_of_execution rv exec s = None"
  using assms run_by_execution_None [of exec "board s"]
  by (auto simp: run_of_execution_def board_read_def split: option.splits)

text \<open>A decision that is refused, or that comes second, announces nothing and changes nothing.\<close>

lemma refused_decision_silent:
  assumes "decision_announced a rv emit i status reason decider s = (Some e, s')"
  shows "s' = s"
  using assms by (auto simp: decision_announced_def Let_def split: option.splits prod.splits)

lemma second_decision_silent:
  assumes "find_row i (approvals s) = Some r" and "aw_status r \<noteq> ap_pending"
  shows "\<exists>e. decision_announced a rv emit i status reason decider s = (Some e, s)"
  using assms by (auto simp: decision_announced_def update_decision_def split: option.splits)

end
