(* ===== verification/TaskBoard.thy ===== *)
theory TaskBoard
  imports TaskRunProps
begin

text \<open>
  The goroutines of the runs of tasks and their statements on the board, in any order: a run is
  launched, announced on the board, started, perhaps paused and continued, ended, and its card moved.
  A step is one statement; no step is taken for what the run itself does. A paused run continues
  once its goroutine has told the board of the pause.
\<close>

text \<open>
  Where a goroutine stands. \<open>Telling\<close> is before the card is put in progress, after the run was stored
  as queued, paused or continued; \<open>Counting\<close> and \<open>Moving\<close> are the end of a completed run.
\<close>

datatype run_worker =
    Telling uuid task_run
  | Running uuid task_run
  | Counting uuid
  | Moving uuid

record board_state =
  bq_db :: board_db
  bq_workers :: "run_worker list"
  bq_last :: "uuid \<Rightarrow> string option"

fun live_run :: "run_worker \<Rightarrow> (uuid \<times> task_run) option" where
  "live_run (Telling i r) = Some (i, r)"
| "live_run (Running i r) = Some (i, r)"
| "live_run _ = None"

definition moved_card :: "uuid \<Rightarrow> string \<Rightarrow> uuid option \<Rightarrow> int \<Rightarrow> board_db \<Rightarrow> board_db" where
  "moved_card task status u now db =
     (case transition_status task status u now db of Inl e \<Rightarrow> db | Inr (x, db') \<Rightarrow> db')"

text \<open>\<open>bq_last\<close> notes, of the runs of a task that have ended, how the last one did.\<close>

inductive board_step :: "board_state \<Rightarrow> board_state \<Rightarrow> bool" where
  launch: "create_run_row i r now (bq_db b) = Inr (r', db) \<Longrightarrow> jr_status r = jr_queued \<Longrightarrow>
     board_step b (b\<lparr>bq_db := db, bq_workers := bq_workers b @ [Telling i r']\<rparr>)"
| tell: "bq_workers b = ws @ Telling i r # ws' \<Longrightarrow> board_status (jr_status r) = Some c \<Longrightarrow>
     board_step b (b\<lparr>bq_db := moved_card (jr_task r) c u now (bq_db b), bq_workers := ws @ Running i r # ws'\<rparr>)"
| run: "bq_workers b = ws @ Running i r # ws' \<Longrightarrow> update_run_row i r' (bq_db b) = Inr (x, db) \<Longrightarrow>
     jr_status r' = jr_running \<Longrightarrow> jr_task r' = jr_task r \<Longrightarrow>
     board_step b (b\<lparr>bq_db := db, bq_workers := ws @ Running i r' # ws'\<rparr>)"
| continue: "bq_workers b = ws @ Running i r # ws' \<Longrightarrow> update_run_row i r' (bq_db b) = Inr (x, db) \<Longrightarrow>
     active_run r' \<Longrightarrow> jr_task r' = jr_task r \<Longrightarrow>
     board_step b (b\<lparr>bq_db := db, bq_workers := ws @ Telling i r' # ws'\<rparr>)"
| fail: "bq_workers b = ws @ Running i r # ws' \<Longrightarrow> update_run_row i r' (bq_db b) = Inr (x, db) \<Longrightarrow>
     jr_status r' = jr_failed \<Longrightarrow> jr_task r' = jr_task r \<Longrightarrow>
     board_step b (b\<lparr>bq_db := db, bq_workers := ws @ ws', bq_last := (bq_last b)(jr_task r := Some jr_failed)\<rparr>)"
| complete: "bq_workers b = ws @ Running i r # ws' \<Longrightarrow> update_run_row i r' (bq_db b) = Inr (x, db) \<Longrightarrow>
     jr_status r' = jr_done \<Longrightarrow> jr_task r' = jr_task r \<Longrightarrow>
     board_step b (b\<lparr>bq_db := db, bq_workers := ws @ Counting (jr_task r) # ws',
       bq_last := (bq_last b)(jr_task r := Some jr_done)\<rparr>)"
| hold: "bq_workers b = ws @ Counting t # ws' \<Longrightarrow> count_active t (bq_db b) > 0 \<Longrightarrow>
     board_step b (b\<lparr>bq_workers := ws @ ws'\<rparr>)"
| release: "bq_workers b = ws @ Counting t # ws' \<Longrightarrow> count_active t (bq_db b) = 0 \<Longrightarrow>
     board_step b (b\<lparr>bq_workers := ws @ Moving t # ws'\<rparr>)"
| move: "bq_workers b = ws @ Moving t # ws' \<Longrightarrow> board_status jr_done = Some c \<Longrightarrow>
     board_step b (b\<lparr>bq_db := moved_card t c None now (bq_db b), bq_workers := ws @ ws'\<rparr>)"

inductive_cases board_stepE: "board_step b b'"

inductive board_reach :: "board_state \<Rightarrow> board_state \<Rightarrow> bool" for b0 where
  start: "board_reach b0 b0"
| step: "board_reach b0 b \<Longrightarrow> board_step b b' \<Longrightarrow> board_reach b0 b'"


section \<open>Invariant\<close>

definition live_runs :: "run_worker list \<Rightarrow> (uuid \<times> uuid) list" where
  "live_runs ws = List.map_filter (\<lambda>w. map_option (\<lambda>(i, r). (i, jr_task r)) (live_run w)) ws"

definition active_rows :: "board_db \<Rightarrow> (uuid \<times> uuid) set" where
  "active_rows db = {(i, jr_task r) | i r. run_row i db = Some r \<and> active_run r}"

definition card_done :: "uuid \<Rightarrow> board_db \<Rightarrow> bool" where
  "card_done t db \<longleftrightarrow> (\<forall>c. find_board_task t db = Some c \<longrightarrow> bt_status c = ''done'')"




lemma live_runs_simps [simp]:
  "live_runs [] = []" "live_runs (Telling i r # ws) = (i, jr_task r) # live_runs ws"
  "live_runs (Running i r # ws) = (i, jr_task r) # live_runs ws"
  "live_runs (Counting t # ws) = live_runs ws" "live_runs (Moving t # ws) = live_runs ws"
  by (simp_all add: live_runs_def map_filter_simps)

lemma live_runs_append [simp]: "live_runs (ws @ ws') = live_runs ws @ live_runs ws'"
  by (simp add: live_runs_def List.map_filter_def)


lemma moved_card_runs [simp]:
  "bd_runs (moved_card t c u n db) = bd_runs db" "active_rows (moved_card t c u n db) = active_rows db"
proof -
  show "bd_runs (moved_card t c u n db) = bd_runs db"
    by (auto simp: moved_card_def dest: transition_frame split: sum.split)
  then show "active_rows (moved_card t c u n db) = active_rows db" by (simp add: active_rows_def run_row_def)
qed

lemma moved_card_tasks:
  "find_board_task t' (moved_card t c u n db)
     = (if t' = t then map_option (\<lambda>b. if bt_status b = c then b else b\<lparr>bt_status := c,
          bt_position := next_position (bt_project b) c db, bt_completed := next_completed c (bt_completed b) n\<rparr>)
          (find_board_task t db)
        else find_board_task t' db)"
  by (auto simp: moved_card_def transition_status_def split: option.split)

lemma moved_card_done [simp]:
  "card_done t' (moved_card t ''done'' u n db) \<longleftrightarrow> t' = t \<or> card_done t' db"
proof (cases "t' = t")
  case True
  have "bt_status c = ''done''" if "find_board_task t (moved_card t ''done'' u n db) = Some c" for c
    using that by (cases "find_board_task t db") (auto simp: moved_card_tasks split: if_splits)
  then show ?thesis using True by (simp add: card_done_def)
qed (simp add: card_done_def moved_card_tasks)




lemma set_run_keys [simp]: "map fst (bd_runs (set_run_row i f db)) = map fst (bd_runs db)"
  by (auto simp: set_run_row_def)

lemma active_merge [simp]: "active_run (merge_run_row r old) = active_run r"
  by (simp add: active_run_def)

lemma card_done_set [simp]: "card_done t (set_run_row i f db) = card_done t db"
  by (simp add: card_done_def)








section \<open>A task with two runs\<close>

definition demo_card :: board_task where
  "demo_card = \<lparr>bt_project = 1, bt_title = ''Report'', bt_description = None, bt_status = ''todo'', bt_agent = None,
     bt_position = 0, bt_completed = None, bt_metadata = []\<rparr>"

definition demo_queued :: task_run where
  "demo_queued = new_task_run 4 2 9 ''Report'' demo_card
     \<lparr>cq_agent = Some 2, cq_prompt = None, cq_engine = None, cq_provider = None, cq_model = None,
      cq_skills = [], cq_inputs = [], cq_debug = False, cq_context = None\<rparr> None"

definition demo_board :: board_db where
  "demo_board = \<lparr>bd_projects = (\<lambda>p. Some 9), bd_tasks = [(4, demo_card)], bd_runs = [], bd_history = []\<rparr>"

definition demo_idle :: board_state where
  "demo_idle = \<lparr>bq_db = demo_board, bq_workers = [], bq_last = (\<lambda>_. None)\<rparr>"

definition demo_launched :: "uuid \<Rightarrow> board_db \<Rightarrow> board_db" where
  "demo_launched i db = moved_card 4 ''in_progress'' None 0 (db\<lparr>bd_runs := bd_runs db @ [(i, demo_queued)]\<rparr>)"

definition demo_ended :: "uuid \<Rightarrow> board_db \<Rightarrow> board_db" where
  "demo_ended i db = set_run_row i (merge_run_row (demo_queued\<lparr>jr_status := jr_done\<rparr>)) db"

lemma moved_card_row [simp]: "run_row i (moved_card t c u n db) = run_row i db"
  by (simp add: run_row_def)

lemma demo_queued_fields [simp]:
  "jr_status demo_queued = jr_queued" "jr_task demo_queued = 4" "demo_queued\<lparr>jr_created := 0\<rparr> = demo_queued"
  "demo_queued\<lparr>jr_context := None\<rparr> = demo_queued"
  by (simp_all add: demo_queued_def new_task_run_def)

lemma demo_fields [simp]:
  "bq_db demo_idle = demo_board" "bq_workers demo_idle = []" "bq_last demo_idle = (\<lambda>_. None)"
  "bd_runs demo_board = []" "find_board_task 4 demo_board = Some demo_card"
  by (simp_all add: demo_idle_def demo_board_def find_board_task_def)

lemma demo_launch:
  assumes "board_reach b0 b" and "i \<notin> fst ` set (bd_runs (bq_db b))" and "find_board_task 4 (bq_db b) \<noteq> None"
  shows "board_reach b0 (b\<lparr>bq_db := demo_launched i (bq_db b), bq_workers := bq_workers b @ [Running i demo_queued]\<rparr>)"
proof -
  have "create_run_row i demo_queued 0 (bq_db b)
      = Inr (demo_queued, (bq_db b)\<lparr>bd_runs := bd_runs (bq_db b) @ [(i, demo_queued)]\<rparr>)"
    using assms(2,3) by (simp add: create_run_row_def)
  from board_reach.step [OF assms(1) board_step.launch [OF this]]
  have "board_reach b0 (b\<lparr>bq_db := (bq_db b)\<lparr>bd_runs := bd_runs (bq_db b) @ [(i, demo_queued)]\<rparr>,
      bq_workers := bq_workers b @ [Telling i demo_queued]\<rparr>)" by simp
  from board_reach.step [OF this board_step.tell [where ws = "bq_workers b" and ws' = "[]" and c = "''in_progress''"
      and i = i and r = demo_queued and u = None and now = 0]]
  show ?thesis by (simp add: demo_launched_def board_status_def)
qed

lemma demo_first_ended:
  "board_reach demo_idle \<lparr>bq_db = demo_ended 7 (demo_launched 7 demo_board), bq_workers = [Moving 4],
     bq_last = (\<lambda>_. None)(4 := Some jr_done)\<rparr>"
proof -
  let ?db = "demo_ended 7 (demo_launched 7 demo_board)"
  have "board_reach demo_idle (demo_idle\<lparr>bq_db := demo_launched 7 demo_board, bq_workers := [Running 7 demo_queued]\<rparr>)"
    using demo_launch [OF board_reach.start [of demo_idle], where i = 7] by simp
  moreover have "update_run_row 7 (demo_queued\<lparr>jr_status := jr_done\<rparr>) (demo_launched 7 demo_board) = Inr ((), ?db)"
    by (simp add: update_run_row_def demo_ended_def demo_launched_def demo_board_def run_row_def)
  ultimately have r: "board_reach demo_idle \<lparr>bq_db = ?db, bq_workers = [Counting 4],
      bq_last = (\<lambda>_. None)(4 := Some jr_done)\<rparr>"
    using board_reach.step [OF _ board_step.complete [where ws = "[]" and ws' = "[]" and i = 7 and r = demo_queued]]
    by (fastforce simp: demo_idle_def)
  have "count_active 4 ?db = 0"
    by (simp add: count_active_def demo_ended_def set_run_row_def demo_launched_def demo_board_def active_run_def
        run_status_defs)
  with board_reach.step [OF r board_step.release [where ws = "[]" and ws' = "[]" and t = 4]] show ?thesis by simp
qed

text \<open>
  The count and the move are two statements: a run that is launched between them is active on a card
  that is done.
\<close>

lemma card_done_while_active:
  "\<exists>b c r. board_reach demo_idle b \<and> find_board_task 4 (bq_db b) = Some c \<and> bt_status c = ''done''
     \<and> run_row 8 (bq_db b) = Some r \<and> jr_task r = 4 \<and> active_run r"
proof -
  let ?db = "demo_launched 8 (demo_ended 7 (demo_launched 7 demo_board))"
  have "board_reach demo_idle \<lparr>bq_db = ?db, bq_workers = [Moving 4, Running 8 demo_queued],
      bq_last = (\<lambda>_. None)(4 := Some jr_done)\<rparr>"
    using demo_launch [OF demo_first_ended, of 8]
    by (simp add: demo_ended_def set_run_row_def demo_launched_def demo_board_def find_board_task_def
        moved_card_tasks [unfolded find_board_task_def])
  from board_reach.step [OF this board_step.move [where ws = "[]" and t = 4 and c = "''done''" and now = 0]]
  have r: "board_reach demo_idle \<lparr>bq_db = moved_card 4 ''done'' None 0 ?db, bq_workers = [Running 8 demo_queued],
      bq_last = (\<lambda>_. None)(4 := Some jr_done)\<rparr>"
    by (simp add: board_status_def run_status_defs)
  have "card_done 4 (moved_card 4 ''done'' None 0 ?db)" by simp
  moreover obtain c where "find_board_task 4 (moved_card 4 ''done'' None 0 ?db) = Some c"
    by (auto simp: moved_card_tasks demo_launched_def demo_ended_def demo_board_def find_board_task_def
        set_run_row_def moved_card_tasks [unfolded find_board_task_def])
  moreover have "run_row 8 (moved_card 4 ''done'' None 0 ?db) = Some demo_queued"
    by (simp add: demo_launched_def demo_ended_def demo_board_def run_row_def set_run_row_def)
  ultimately show ?thesis using r by (fastforce simp: card_done_def active_run_def)
qed


section \<open>A service\<close>

definition demo_worker :: agent where
  "demo_worker = \<lparr>ag_id = 2, ag_org = 9, ag_name = ''Writer'', ag_role = [], ag_description = None, ag_status = ''idle'',
     ag_model_provider = None, ag_model_name = None, ag_system_prompt = None, ag_performance = 0,
     ag_engine_type = [], ag_metadata = []\<rparr>"

definition demo_runs :: "unit run_service" where
  "demo_runs = \<lparr>tv_exec = \<lparr>sv_router = \<lparr>er_go_native = (\<lambda>cx e ag task tools w. (resumed_result, w)),
         er_langchain = None, er_langgraph = None, er_gate = None\<rparr>,
       sv_gov = None, sv_prices = [], sv_now = (\<lambda>s. 0), sv_fresh = (\<lambda>s. 7), sv_fault = (\<lambda>s op. None)\<rparr>,
     tv_emit = Some (\<lambda>org ty ev s. s)\<rparr>"

definition demo_board_sys :: "board_db \<Rightarrow> unit board_sys" where
  "demo_board_sys db = \<lparr>xs_db = demo_db, xs_rollups = [], xs_alerts = [],
     xs_agents = (\<lambda>i. if i = 2 then Some demo_worker else None), xs_tools = (\<lambda>_. []),
     xs_world = (demo_appr_db, db, ())\<rparr>"

definition demo_run_request :: run_request where
  "demo_run_request = \<lparr>cq_agent = Some 2, cq_prompt = None, cq_engine = None, cq_provider = None, cq_model = None,
     cq_skills = [], cq_inputs = [], cq_debug = False, cq_context = None\<rparr>"

lemma demo_runs_ok [simp]:
  "sv_fault (tv_exec demo_runs) s op = None" "tv_now demo_runs s = 0" "tv_emit demo_runs = Some (\<lambda>org ty ev s. s)"
  "sv_gov (tv_exec demo_runs) = None" "sv_fresh (tv_exec demo_runs) s = 7" "emits_beside demo_runs"
  by (simp_all add: demo_runs_def emits_beside_def)

lemma demo_board_sys_fields [simp]:
  "board (demo_board_sys db) = db" "xs_agents (demo_board_sys db) 2 = Some demo_worker"
  by (simp_all add: demo_board_sys_def board_def)

lemma sync_row [simp]: "run_row i (board (sync_board_status tv t st u s)) = run_row i (board s)"
  by (simp add: run_row_def)

lemma demo_created:
  "\<exists>r s'. create_task_run demo_runs None 4 demo_run_request 9 None (demo_board_sys demo_board) = (Inr (7, r), s')
     \<and> run_row 7 (board s') = Some r"
proof -
  have "build_run_prompt demo_card demo_run_request = ''Report''" by code_simp
  moreover have "trim_space ''Report'' \<noteq> []" by code_simp
  moreover have "bd_projects demo_board (bt_project demo_card) = Some 9" by (simp add: demo_board_def)
  ultimately have "check_run demo_runs 4 demo_run_request 9 (demo_board_sys demo_board) = Inr (demo_card, 2, ''Report'')"
    by (simp add: check_run_def task_in_org_def board_read_def resolve_run_agent_def demo_run_request_def uuid_nil_def
        demo_worker_def)
  then show ?thesis
    by (auto simp: create_task_run_def create_with_context_def Let_def new_task_run_def board_write_def create_run_row_def
        normalize_context_def run_row_def split: sum.split)
qed

lemma persisted_world: "xs_world (snd (persist_outcome sv i base r s)) = xs_world s"
proof -
  have fold_world: "xs_world (fold (\<lambda>ro. try_write sv (f ro) (\<lambda>t. t\<lparr>xs_rollups := xs_rollups t @ [ro]\<rparr>)) rs t) = xs_world t"
    for f rs t by (induction rs arbitrary: t) simp_all
  have "xs_world (snd (apply_usage sv g u t)) = xs_world t" for g u t
    by (simp add: apply_usage_def Let_def fold_world on_db_def)
  then show ?thesis
    by (simp add: persist_outcome_def Let_def case_prod_beta on_db_def set_agent_status_def split: option.split)
qed

lemma demo_exec_world: "xs_world (snd (execute_request (tv_exec demo_runs) cx org aid req s)) = xs_world s"
proof -
  have run: "snd (runner_for (sv_router (tv_exec demo_runs)) en c i ag p ts w) = w" for en c i ag p ts w
    by (simp add: demo_runs_def runner_for_def unavailable_runner_def)
  have fin: "xs_world (snd (finish_exec (tv_exec demo_runs) cx st t)) = xs_world t" for st t
    by (simp add: finish_exec_def case_prod_beta persisted_world run)
  show ?thesis
  proof (cases rule: begin_exec_cases [of "tv_exec demo_runs" org aid req s])
    case (refused e)
    then show ?thesis by (simp add: execute_request_def)
  next
    case (started st s' found)
    then have "xs_world s' = xs_world s" by (simp add: on_db_def set_agent_status_def)
    then show ?thesis using started(1) fin [of st s'] by (simp add: execute_request_def case_prod_beta)
  qed
qed

theorem task_run_settles_witness:
  "\<exists>r s' r'. create_task_run demo_runs None 4 demo_run_request 9 None (demo_board_sys demo_board) = (Inr (7, r), s')
     \<and> run_row 7 (board (execute_task_run demo_runs 7 r s')) = Some r' \<and> jr_status r' \<in> {jr_done, jr_failed, jr_awaiting}"
proof -
  obtain r s where c: "create_task_run demo_runs None 4 demo_run_request 9 None (demo_board_sys demo_board) = (Inr (7, r), s)"
    and row: "run_row 7 (board s) = Some r" using demo_created by blast
  have ok: "\<forall>s op. sv_fault (tv_exec demo_runs) s op = None" and em: "emits_beside demo_runs" by simp_all
  define s1 where "s1 = snd (update_task_run demo_runs 7 (started_task_run (tv_now demo_runs s) r) s)"
  obtain res s2 where ex: "execute_request (tv_exec demo_runs) empty_ctx (jr_org r) (jr_agent r) (exec_request_of r) s1 = (res, s2)"
    by (metis surj_pair)
  have "board s2 = board s1" using demo_exec_world [of empty_ctx "jr_org r" "jr_agent r" "exec_request_of r" s1] ex
    by (simp add: board_def)
  then obtain old where "run_row 7 (board s2) = Some old"
    using update_task_run_board [OF ok em row] row by (simp add: s1_def)
  from task_run_settles [OF ok em s1_def ex this] c show ?thesis by blast
qed

end
