(* ===== verification/TaskLaunchProps.thy ===== *)
theory TaskLaunchProps
  imports TaskLaunch TaskBoard
begin

text \<open>
  Launches of \<open>TaskLaunch\<close>: what they are allowed to touch, what they leave on the board when they
  succeed and when they fail, and which project the chat picks.
\<close>

section \<open>Lemmas\<close>

lemma launch_agent_Some:
  "launch_agent le rq s = Some a \<Longrightarrow> xs_agents s (lq_agent rq) = Some a \<and> ag_org a = lq_org rq"
  by (auto simp: launch_agent_def split: option.splits if_splits)

lemma project_in_org_D:
  "project_in_org le p org s \<Longrightarrow> bd_projects (board s) p = Some org"
  by (auto simp: project_in_org_def board_read_Inr)

lemma get_task_Inr: "get_task rv i s = Inr t \<Longrightarrow> find_board_task i (board s) = Some t"
  by (auto simp: get_task_def board_read_def split: option.splits sum.splits)

lemma svc_update_task_fails: "svc_update_task rv i (u\<lparr>tu_status := None\<rparr>) s = (Inl e, s') \<Longrightarrow> s' = s"
  by (auto simp: svc_update_task_def next_status_def Let_def split: option.splits sum.splits prod.splits if_splits
      dest: board_write_Inl)

lemma svc_create_task_fails: "svc_create_task rv t s = (Inl e, s') \<Longrightarrow> s' = s"
  by (auto simp: svc_create_task_def Let_def split: sum.splits prod.splits dest: board_write_Inl)

text \<open>The task a launch may be on: one of a project of the organisation, or a new one in such a project.\<close>

definition launchable :: "launch_request \<Rightarrow> 'w board_sys \<Rightarrow> bool" where
  "launchable rq s \<longleftrightarrow>
     (\<exists>a. xs_agents s (lq_agent rq) = Some a \<and> ag_org a = lq_org rq)
     \<and> (case lq_task rq of
          None \<Rightarrow> bd_projects (board s) (lq_project rq) = Some (lq_org rq)
        | Some i \<Rightarrow> \<exists>t. find_board_task i (board s) = Some t \<and> bd_projects (board s) (bt_project t) = Some (lq_org rq))"

lemma launch_task_cases:
  assumes "launch_task le rq title desc meta s = (res, s')" and "xs_agents s (lq_agent rq) = Some a" "ag_org a = lq_org rq"
  shows "(\<exists>e. res = Inl e) \<and> s' = s \<or> launchable rq s"
proof (cases "lq_task rq")
  case None
  then show ?thesis using assms
    by (auto simp: launch_task_def launchable_def split: if_splits dest: project_in_org_D)
next
  case (Some i)
  show ?thesis
  proof (cases "get_task (le_runs le) i s")
    case (Inl e)
    then show ?thesis using assms(1) Some by (auto simp: launch_task_def)
  next
    case (Inr t)
    then show ?thesis using assms Some get_task_Inr [OF Inr]
      by (cases "project_in_org le (bt_project t) (lq_org rq) s")
        (auto simp: launch_task_def launchable_def dest: project_in_org_D)
  qed
qed

text \<open>
  C33: a launch changes nothing, on the board or elsewhere, unless its agent is of the caller's
  organisation and its task, or the project of its new task, is too; otherwise it is refused with
  everything as it was, whatever specialist it is for and whichever statements fail.
\<close>

theorem foreign_launch_refused:
  assumes "launch le rq s = (res, s')" and "\<not> launchable rq s"
  shows "(\<exists>e. res = Inl e) \<and> s' = s"
proof (cases "launch_agent le rq s")
  case None
  then show ?thesis using assms(1) by (auto simp: launch_def)
next
  case (Some a)
  note agent = launch_agent_Some [OF Some]
  define vals where "vals = apply_defaults (schema_for (le_schemas le) (builtin_of a)) (lq_values rq)"
  obtain title desc where td: "title_from (le_shuffle le) (schema_for (le_schemas le) (builtin_of a)) vals = (title, desc)"
    by (cases "title_from (le_shuffle le) (schema_for (le_schemas le) (builtin_of a)) vals") auto
  obtain r1 s1 where lt: "launch_task le rq title desc (launch_meta vals (launch_kind a)) s = (r1, s1)"
    by (cases "launch_task le rq title desc (launch_meta vals (launch_kind a)) s") auto
  from launch_task_cases [OF lt conjunct1 [OF agent] conjunct2 [OF agent]] assms(2)
  obtain e where "r1 = Inl e" "s1 = s" by blast
  then show ?thesis using assms(1) Some lt by (auto simp: launch_def Let_def vals_def [symmetric] td)
qed

lemma move_card_task:
  assumes "\<forall>s op. sv_fault (tv_exec rv) s op = None" and "find_board_task i (board s) = Some t"
  shows "\<exists>t'. find_board_task i (board (move_card rv i status u s)) = Some t' \<and> bt_status t' = status
    \<and> bt_agent t' = bt_agent t \<and> bt_project t' = bt_project t \<and> bt_metadata t' = bt_metadata t"
  using assms by (simp add: move_card_def board_write_def transition_status_def)

lemma svc_create_task_Inr:
  assumes "svc_create_task rv t s = (Inr (i, t'), s')"
  shows "find_board_task i (board s) = None \<and> find_board_task i (board s') = Some t' \<and> bd_runs (board s') = bd_runs (board s)
    \<and> xs_db s' = xs_db s \<and> xs_agents s' = xs_agents s \<and> bd_projects (board s') = bd_projects (board s)
    \<and> t' = t\<lparr>bt_position := bt_position t', bt_completed := bt_completed t'\<rparr>"
proof -
  have w: "board_write rv ''taskRepo.Create'' (create_board_task i t (tv_now rv s)) s = (Inr t', s')"
    using assms by (auto simp: svc_create_task_def Let_def split: sum.splits prod.splits)
  then obtain db where c: "create_board_task i t (tv_now rv s) (board s) = Inr (t', db)" and s': "s' = on_board (\<lambda>_. db) s"
    using board_write_Inr [OF w] by blast
  then show ?thesis
    by (auto simp: create_board_task_def find_board_task_def map_add_def Let_def split: if_splits option.splits)
qed

text \<open>
  a specialist's launch that fails leaves its task behind: the new card is on the board, in
  progress, with no run, although the caller is told that nothing was launched.
\<close>

lemma failed_launch_strands_card:
  assumes ok: "\<forall>s op. sv_fault (tv_exec (le_runs le)) s op = None"
    and agent: "xs_agents s (lq_agent rq) = Some a" "ag_org a = lq_org rq"
    and project: "lq_task rq = None" "lq_project rq \<noteq> uuid_nil" "bd_projects (board s) (lq_project rq) = Some (lq_org rq)"
    and fresh: "find_board_task (sv_fresh (tv_exec (le_runs le)) s) (board s) = None"
    and fails: "le_module le (launch_kind a) = Some f" "\<And>input t. f input t = (Inl e, t)"
  shows "\<exists>s' i t. launch le rq s = (Inl e, s') \<and> find_board_task i (board s) = None
    \<and> find_board_task i (board s') = Some t \<and> bt_status t = ''in_progress'' \<and> bt_agent t = Some (lq_agent rq)
    \<and> bd_runs (board s') = bd_runs (board s)"
proof -
  have la: "launch_agent le rq s = Some a" using agent by (simp add: launch_agent_def ok)
  define vals where "vals = apply_defaults (schema_for (le_schemas le) (builtin_of a)) (lq_values rq)"
  obtain title desc where td: "title_from (le_shuffle le) (schema_for (le_schemas le) (builtin_of a)) vals = (title, desc)"
    by (cases "title_from (le_shuffle le) (schema_for (le_schemas le) (builtin_of a)) vals") auto
  have pin: "project_in_org le (lq_project rq) (lq_org rq) s"
    using project by (simp add: project_in_org_def board_read_def ok)
  define t0 where "t0 = \<lparr>bt_project = lq_project rq, bt_title = title, bt_description = text_option desc,
    bt_status = ''backlog'', bt_agent = Some (lq_agent rq), bt_position = 0, bt_completed = None,
    bt_metadata = launch_meta vals (launch_kind a)\<rparr>"
  have lt: "launch_task le rq title desc (launch_meta vals (launch_kind a)) s = svc_create_task (le_runs le) t0 s"
    using project(1,2) pin by (simp add: launch_task_def t0_def)
  define i where "i = sv_fresh (tv_exec (le_runs le)) s"
  obtain t1 db where c: "create_board_task i t0 (tv_now (le_runs le) s) (board s) = Inr (t1, db)"
    using fresh project(3) by (simp add: create_board_task_def i_def t0_def Let_def)
  then have made: "svc_create_task (le_runs le) t0 s = (Inr (i, t1), on_board (\<lambda>_. db) s)"
    by (simp add: svc_create_task_def Let_def i_def board_write_def ok)
  note new = svc_create_task_Inr [OF made]
  let ?s2 = "move_card (le_runs le) i ''in_progress'' None (on_board (\<lambda>_. db) s)"
  have "find_board_task i (board (on_board (\<lambda>_. db) s)) = Some t1" using new by blast
  from move_card_task [OF ok this, of "''in_progress''" None]
  obtain t where t: "find_board_task i (board ?s2) = Some t" "bt_status t = ''in_progress''" "bt_agent t = bt_agent t1"
    by blast
  have "bt_agent t1 = Some (lq_agent rq)"
  proof -
    obtain p c where "t1 = t0\<lparr>bt_position := p, bt_completed := c\<rparr>" using new by blast
    then show ?thesis by (simp add: t0_def)
  qed
  moreover have "launch le rq s = (Inl e, ?s2)"
    by (simp add: launch_def la Let_def vals_def [symmetric] td lt made fails)
  moreover have "bd_runs (board ?s2) = bd_runs (board s)" using new by simp
  ultimately show ?thesis using new t by (intro exI [of _ ?s2] exI [of _ i] exI [of _ t]) simp
qed

lemma svc_update_task_meta:
  assumes "\<forall>s op. sv_fault (tv_exec rv) s op = None" and "find_board_task i (board s) = Some t"
  shows "\<exists>s' t'. svc_update_task rv i (no_update\<lparr>tu_metadata := Some m\<rparr>) s = (Inr (t\<lparr>bt_metadata := m\<rparr>), s')
    \<and> find_board_task i (board s') = Some t' \<and> bt_metadata t' = m \<and> bt_status t' = bt_status t
    \<and> bd_runs (board s') = bd_runs (board s)"
  using assms
  by (simp add: svc_update_task_def board_read_def board_write_def next_status_def no_update_def patched_task_def
      save_task_def Let_def)

lemma run_id_noted:
  "map_of (merge_meta old (aput ''run_id'' x (launch_meta vals kind))) ''run_id'' = Some x"
  by (simp add: merge_meta_def launch_meta_def aput_def)

lemma launch_task_keeps_runs:
  assumes "launch_task le rq title desc meta s = (Inr (i, t), s')"
  shows "bd_runs (board s') = bd_runs (board s)"
proof (cases "lq_task rq")
  case None
  then show ?thesis using assms svc_create_task_Inr
    by (fastforce simp: launch_task_def split: if_splits)
next
  case (Some j)
  have keeps: "svc_update_task rv j u s = (Inr x, s1) \<Longrightarrow> tu_status u = None \<Longrightarrow> bd_runs (board s1) = bd_runs (board s)" for rv u x s1
    by (auto simp: svc_update_task_def next_status_def save_task_def Let_def
        split: option.splits sum.splits prod.splits if_splits dest!: board_write_Inr)
  obtain t1 where "get_task (le_runs le) j s = Inr t1" using assms Some by (cases "get_task (le_runs le) j s") (auto simp: launch_task_def)
  then obtain u where "svc_update_task (le_runs le) j u s = (Inr t, s')" "tu_status u = None"
    using assms Some by (auto simp: launch_task_def no_update_def split: sum.splits prod.splits if_splits)
  then show ?thesis by (rule keeps)
qed

text \<open>
  C34: a launch of an agent without a specialist that succeeds has queued one new run of its task by that
  agent, in the caller's organisation; the task's card is in progress and its metadata name the run.
\<close>

theorem generic_launch_queues_run:
  assumes ok: "\<forall>s op. sv_fault (tv_exec (le_runs le)) s op = None" and "lq_agent rq \<noteq> uuid_nil"
    and agent: "xs_agents s (lq_agent rq) = Some a" and none: "le_module le (launch_kind a) = None"
    and launched: "launch le rq s = (Inr out, s')"
  shows "\<exists>i r t. lr_run out = Some i \<and> run_row i (board s) = None \<and> run_row i (board s') = Some r
    \<and> jr_task r = fst (lr_task out) \<and> jr_org r = lq_org rq \<and> jr_agent r = lq_agent rq \<and> jr_status r = jr_queued
    \<and> find_board_task (fst (lr_task out)) (board s') = Some t \<and> bt_status t = ''in_progress''
    \<and> map_of (bt_metadata t) ''run_id'' = Some (JStr (le_uuid_text le i))"
proof -
  have "launch_agent le rq s \<noteq> None" using launched by (cases "launch_agent le rq s") (simp_all add: launch_def)
  then have la: "launch_agent le rq s = Some a" using launch_agent_Some agent by fastforce
  define vals where "vals = apply_defaults (schema_for (le_schemas le) (builtin_of a)) (lq_values rq)"
  define meta where "meta = launch_meta vals (launch_kind a)"
  obtain title desc where td: "title_from (le_shuffle le) (schema_for (le_schemas le) (builtin_of a)) vals = (title, desc)"
    by (cases "title_from (le_shuffle le) (schema_for (le_schemas le) (builtin_of a)) vals") auto
  obtain task t0 s1 where lt: "launch_task le rq title desc meta s = (Inr (task, t0), s1)"
    and g: "launch_generic le rq vals (task, t0\<lparr>bt_status := ''in_progress''\<rparr>) meta
        (move_card (le_runs le) task ''in_progress'' None s1) = (Inr out, s')"
    using launched by (auto simp: launch_def la Let_def vals_def [symmetric] td meta_def [symmetric] none
        split: sum.splits prod.splits)
  define s2 where "s2 = move_card (le_runs le) task ''in_progress'' None s1"
  define rc where "rc = normalize_context (lq_context rq)"
  define cq where "cq = \<lparr>cq_agent = Some (lq_agent rq), cq_prompt = Some (launch_prompt vals), cq_engine = None,
    cq_provider = None, cq_model = None, cq_skills = lq_skills rq, cq_inputs = merge_context rc [], cq_debug = False,
    cq_context = rc\<rparr>"
  obtain i r s3 where cr: "create_task_run (le_runs le) rc task cq (lq_org rq) (Some (lq_user rq)) s2 = (Inr (i, r), s3)"
    using g by (auto simp: launch_generic_def Let_def rc_def [symmetric] cq_def [symmetric] s2_def [symmetric]
        split: sum.splits prod.splits)
  obtain bt t' :: board_task where run: "jr_task r = task" "jr_org r = lq_org rq" "jr_status r = jr_queued"
    "run_row i (board s2) = None" "run_row i (board s3) = Some r" "find_board_task task (board s3) = Some t'"
    "bt_status t' = ''in_progress''" "resolve_run_agent (cq_agent cq) (bt_agent bt) = Inr (jr_agent r)"
    using launched_run [OF cr ok] by blast
  define m where "m = merge_meta (bt_metadata t0) (aput ''run_id'' (JStr (le_uuid_text le i)) meta)"
  obtain s4 t4 where up: "svc_update_task (le_runs le) task (no_update\<lparr>tu_metadata := Some m\<rparr>) s3 = (Inr (t'\<lparr>bt_metadata := m\<rparr>), s4)"
    and t4: "find_board_task task (board s4) = Some t4" "bt_metadata t4 = m" "bt_status t4 = bt_status t'"
    and runs: "bd_runs (board s4) = bd_runs (board s3)"
    using svc_update_task_meta [OF ok run(6), of m] by blast
  have "s' = s4" and out: "lr_run out = Some i" "fst (lr_task out) = task"
    using g by (auto simp: launch_generic_def Let_def rc_def [symmetric] cq_def [symmetric] s2_def [symmetric] cr
        m_def [symmetric] up)
  moreover have "jr_agent r = lq_agent rq" using run(8) assms(2) by (simp add: resolve_run_agent_def cq_def)
  moreover have "bd_runs (board s2) = bd_runs (board s)" using launch_task_keeps_runs [OF lt] by (simp add: s2_def)
  then have "run_row i (board s) = None" using run(4) by (simp add: run_row_def)
  moreover have "run_row i (board s4) = Some r" using run(5) runs by (simp add: run_row_def)
  moreover have "map_of m ''run_id'' = Some (JStr (le_uuid_text le i))" unfolding m_def meta_def by (rule run_id_noted)
  ultimately show ?thesis using run t4 by (intro exI [of _ i] exI [of _ r] exI [of _ t4]) simp
qed

text \<open>The chat's project is one of the organisation's first page, or the one that was just made.\<close>

lemma project_by_id_mem: "project_by_id pe txt ps = Some i \<Longrightarrow> i \<in> fst ` set ps"
  by (auto simp: project_by_id_def split: option.splits dest!: found_in_list intro: rev_image_eqI)

lemma project_by_hint_mem:
  assumes "project_by_hint pe hint ps = Some i"
  shows "i \<in> fst ` set ps"
proof (cases "project_by_id pe hint ps")
  case (Some j)
  then show ?thesis using assms project_by_id_mem [OF Some] by (auto simp: project_by_hint_def split: if_splits)
next
  case None
  then obtain p where p: "filter (names_project hint) ps = [p]" "i = fst p"
    using assms by (auto simp: project_by_hint_def split: if_splits list.splits)
  have "p \<in> set (filter (names_project hint) ps)" by (simp add: p(1))
  then show ?thesis using p(2) by simp
qed

lemma resolved_project_known:
  assumes "resolve_project pe org user hint last_id s = (Inr (Project i), s')"
  shows "(\<exists>ps. pe_list pe org s = Inr ps \<and> i \<in> fst ` set ps \<and> s' = s)
    \<or> (pe_list pe org s = Inr [] \<and> pe_create pe org user (new_project_name pe hint) s = (Inr (Some i), s'))"
proof (cases "pe_list pe org s")
  case (Inl e)
  then show ?thesis using assms by (simp add: resolve_project_def)
next
  case (Inr ps)
  consider "ps = []" | p where "ps = [p]" | p q qs where "ps = p # q # qs" by (metis list.exhaust)
  then show ?thesis
  proof cases
    case 1
    then show ?thesis using assms Inr
      by (auto simp: resolve_project_def first_project_question_def split: if_splits prod.splits sum.splits option.splits)
  next
    case 2
    then show ?thesis using assms Inr by (simp add: resolve_project_def)
  next
    case 3
    then have "choose_project pe (trim_space hint) last_id ps = Project i" and s': "s' = s"
      using assms Inr by (auto simp: resolve_project_def)
    then have "i \<in> fst ` set ps"
      by (auto simp: choose_project_def split: option.splits if_splits dest: project_by_hint_mem project_by_id_mem)
    then show ?thesis using Inr s' by blast
  qed
qed

section \<open>Concrete instances\<close>

definition demo_launcher :: "unit module_launch option \<Rightarrow> unit launch_env" where
  "demo_launcher f = \<lparr>le_runs = demo_runs, le_schemas = (\<lambda>_. None), le_module = (\<lambda>_. f), le_shuffle = (\<lambda>v. v),
     le_uuid_text = show_nat\<rparr>"

definition demo_launch_request :: "uuid \<Rightarrow> launch_request" where
  "demo_launch_request org = \<lparr>lq_org = org, lq_user = 6, lq_agent = 2, lq_project = 1, lq_task = None,
     lq_values = [(''prompt'', ''Summarise'')], lq_source = [], lq_context = None, lq_skills = []\<rparr>"

definition bare_board :: board_db where
  "bare_board = \<lparr>bd_projects = (\<lambda>p. if p = 1 then Some 9 else None), bd_tasks = [], bd_runs = [], bd_history = []\<rparr>"

text \<open>An agent and a project of another organisation.\<close>

theorem foreign_launch_refused_witness:
  "\<exists>e. launch (demo_launcher None) (demo_launch_request 8) (demo_board_sys bare_board)
     = (Inl e, demo_board_sys bare_board)"
proof -
  have "\<not> launchable (demo_launch_request 8) (demo_board_sys bare_board)"
    by (simp add: launchable_def demo_launch_request_def bare_board_def)
  moreover obtain res s' where "launch (demo_launcher None) (demo_launch_request 8) (demo_board_sys bare_board) = (res, s')"
    by (metis surj_pair)
  ultimately show ?thesis using foreign_launch_refused by metis
qed

definition demo_new_card :: board_task where
  "demo_new_card = \<lparr>bt_project = 1, bt_title = ''Summarise'', bt_description = None, bt_status = ''backlog'',
     bt_agent = Some 2, bt_position = 0, bt_completed = None,
     bt_metadata = launch_meta [(''prompt'', ''Summarise'')] ''task_run''\<rparr>"

lemma demo_launched:
  "\<exists>out s'. launch (demo_launcher None) (demo_launch_request 9) (demo_board_sys bare_board) = (Inr out, s')"
proof -
  let ?le = "demo_launcher None" and ?rq = "demo_launch_request 9" and ?s = "demo_board_sys bare_board"
  let ?vals = "[(''prompt'', ''Summarise'')]"
  let ?db = "bare_board\<lparr>bd_tasks := [(7, demo_new_card)]\<rparr>"
  have la: "launch_agent ?le ?rq ?s = Some demo_worker"
    by (simp add: launch_agent_def demo_launcher_def demo_launch_request_def demo_worker_def)
  have vals: "apply_defaults generic_schema ?vals = ?vals" by code_simp
  have td: "title_from (\<lambda>v. v) generic_schema ?vals = (''Summarise'', [])" by code_simp
  have builtin: "builtin_of demo_worker = []" by (simp add: builtin_of_def demo_worker_def)
  have lt: "launch_task ?le ?rq ''Summarise'' [] (launch_meta ?vals ''task_run'') ?s
      = (Inr (7, demo_new_card), on_board (\<lambda>_. ?db) ?s)"
    by (simp add: launch_task_def demo_launch_request_def demo_launcher_def project_in_org_def board_read_def uuid_nil_def
        svc_create_task_def create_board_task_def find_board_task_def board_write_def bare_board_def next_position_def
        demo_new_card_def text_option_def Let_def)
  define s2 where "s2 = move_card demo_runs 7 ''in_progress'' None (on_board (\<lambda>_. ?db) ?s)"
  have "find_board_task 7 ?db = Some demo_new_card" by (simp add: find_board_task_def)
  then obtain t where t: "find_board_task 7 (board s2) = Some t" "bt_agent t = Some 2" "bt_project t = 1"
    using move_card_task [of demo_runs 7 "on_board (\<lambda>_. ?db) ?s" demo_new_card "''in_progress''" None]
    by (auto simp: s2_def demo_new_card_def)
  have s2: "xs_agents s2 2 = Some demo_worker" "bd_projects (board s2) 1 = Some 9" "bd_runs (board s2) = []"
    by (simp_all add: s2_def bare_board_def)
  define cq where "cq = \<lparr>cq_agent = Some 2, cq_prompt = Some ''Summarise'', cq_engine = None, cq_provider = None,
    cq_model = None, cq_skills = [], cq_inputs = [], cq_debug = False, cq_context = None\<rparr>"
  have trim: "trim_space ''Summarise'' = ''Summarise''" by code_simp
  then have "build_run_prompt t cq = ''Summarise''" by (simp add: build_run_prompt_def cq_def filled_def)
  then have "check_run demo_runs 7 cq 9 s2 = Inr (t, 2, ''Summarise'')"
    using t s2 trim by (simp add: check_run_def task_in_org_def board_read_def resolve_run_agent_def cq_def uuid_nil_def
        demo_worker_def)
  then obtain r s3 where "create_task_run demo_runs None 7 cq 9 (Some 6) s2 = (Inr (7, r), s3)"
    using s2(3) t(1) by (auto simp: create_task_run_def create_with_context_def Let_def new_task_run_def board_write_def
        create_run_row_def normalize_context_def split: sum.split)
  moreover have "launch_prompt ?vals = ''Summarise''" by code_simp
  ultimately have "\<exists>out s'. launch_generic ?le ?rq ?vals (7, demo_new_card\<lparr>bt_status := ''in_progress''\<rparr>)
      (launch_meta ?vals ''task_run'') s2 = (Inr out, s')"
    by (simp add: launch_generic_def demo_launch_request_def demo_launcher_def normalize_context_def merge_context_def
        cq_def [symmetric] Let_def split: prod.split)
  moreover have "lq_values ?rq = ?vals" "le_schemas ?le = (\<lambda>_. None)" "le_shuffle ?le = (\<lambda>v. v)" "le_module ?le = (\<lambda>_. None)"
    "le_runs ?le = demo_runs"
    by (simp_all add: demo_launch_request_def demo_launcher_def)
  ultimately show ?thesis
    by (simp add: launch_def la builtin launch_kind_def schema_for_def vals td lt s2_def [symmetric] Let_def)
qed

theorem generic_launch_queues_run_witness:
  "\<exists>out s' i r. launch (demo_launcher None) (demo_launch_request 9) (demo_board_sys bare_board) = (Inr out, s')
     \<and> lr_run out = Some i \<and> run_row i (board s') = Some r \<and> jr_agent r = 2 \<and> jr_status r = jr_queued"
proof -
  obtain out s' where l: "launch (demo_launcher None) (demo_launch_request 9) (demo_board_sys bare_board) = (Inr out, s')"
    using demo_launched by blast
  have ok: "\<forall>s op. sv_fault (tv_exec (le_runs (demo_launcher None))) s op = None" by (simp add: demo_launcher_def)
  have "lq_agent (demo_launch_request 9) \<noteq> uuid_nil"
    and "xs_agents (demo_board_sys bare_board) (lq_agent (demo_launch_request 9)) = Some demo_worker"
    and "le_module (demo_launcher None) (launch_kind demo_worker) = None"
    by (simp_all add: demo_launch_request_def demo_launcher_def uuid_nil_def)
  from generic_launch_queues_run [OF ok this l] obtain i r where "lr_run out = Some i" "run_row i (board s') = Some r"
    "jr_agent r = lq_agent (demo_launch_request 9)" "jr_status r = jr_queued" by blast
  then show ?thesis using l by (auto simp: demo_launch_request_def)
qed

end
