(* ===== verification/Spec2Isabelle.thy ===== *)
theory Spec2Isabelle
  imports RunLog RunResults ApprovalRecovery WorkflowProps Autonomous ModelSelect OrgRoute Governance
    SecretsOrder SecretsStore SecretsPhases SecretsChecks SecretsLaunch BlogRequest
    SchedProps ChatService AuthAccounts WebhookEndpoints AgentSelect TaskLaunchProps
begin

text \<open>
  The Go server of JobShout (\<open>src/server/internal\<close>): agents that work through language models and
  tools, with human approval of gated tools, governance of what runs may do and spend, workflows of
  agents and autonomous goals. The theories model the packages below; paths are relative to
  \<open>src/server/internal\<close>.

  \<^bold>\<open>How the program is modelled.\<close> State is passed explicitly: an operation takes a world and
  returns its result and the new world. The world's type is a parameter, so whatever a model client,
  a tool or another goroutine does is part of it; a Go interface is a record of functions on that
  world (\<open>client\<close>, \<open>tool\<close>, \<open>gate\<close>, \<open>skill_provider\<close>). An error is the \<open>Inl\<close> of a sum, of type
  \<open>go_err\<close>, which keeps the wrapping that \<open>errors.Is\<close> and \<open>errors.As\<close> look through. Strings are byte
  lists; prices are rationals where the source has floats; times are integers in milliseconds; token
  counts and the other ints are unbounded, as no modelled count comes near the machine's width. A
  table of the database is a map or a list of rows, a statement a function on it whose guard is its
  WHERE clause. Context values are the record \<open>go_ctx\<close>. Logging, tracing and streaming are left out.

  \<^bold>\<open>Model calls.\<close>
  \<^item> \<open>Prelude\<close>: strings, formatting and errors of the Go library, the classified provider error of
    \<open>llm/hosted.go\<close>.
  \<^item> \<open>GoJson\<close>: \<open>encoding/json\<close> values and parser; its fuel, the length of the input, is proved enough.
  \<^item> \<open>LlmTypes\<close> (\<open>llm/client.go\<close>, \<open>llm/hosted.go\<close>): requests, replies and the retry loop of a hosted
    call. The HTTP transport is a parameter.
  \<^item> \<open>Prompts\<close> (\<open>llm/prompt.go\<close>), \<open>LlmRouter\<close> (\<open>llm/router.go\<close>), \<open>CostEngine\<close> (\<open>costengine\<close>).
  \<^item> \<open>Sorting\<close>, \<open>ModelSelect\<close> (\<open>modelselect\<close>): which model a task gets. \<open>Sorting\<close> states what a
    comparison must satisfy as the locale \<open>weak_order\<close>; the selector's comparison interprets it.
  \<^item> \<open>AgentSelect\<close> (\<open>selector\<close>): which agent a task gets from past executions; its loops that sort in
    place are proved equal to the library's \<open>sort_key\<close>.
  \<^item> \<open>OrgRoute\<close> (\<open>orgroute\<close>): an organisation's own provider chain.

  \<^bold>\<open>Runs.\<close>
  \<^item> \<open>Tools\<close> (\<open>tools/tool.go\<close>), \<open>Executor\<close> and \<open>AgentLoop\<close> (\<open>executor\<close>): the ReAct and the native
    tool-calling loop, the caps, the pause on a gated tool and the resumption. A loop is the function
    \<open>turns\<close>, which ends because its iteration count grows to \<open>max_iterations\<close>.
  \<^item> \<open>ResumeState\<close>: the JSON form of a paused run, with the proof that it is read back as written.
  \<^item> \<open>LoopProps\<close>, \<open>RunLog\<close>, \<open>RunResults\<close>: what runs do and report. The locale \<open>agent_world\<close> states what
    each effect of an executor keeps of the world; its lemmas carry that through a whole run and a
    whole resumption. \<open>RunLog\<close> interprets it on any executor instrumented with a log of its calls.
  \<^item> \<open>Autonomous\<close> (\<open>executor/autonomous.go\<close>, \<open>repository/goal_repository.go\<close>): goals.

  \<^bold>\<open>Services.\<close>
  \<^item> \<open>EngineRouter\<close> (\<open>engine/router.go\<close>): the runtime of an agent.
  \<^item> \<open>Governance\<close> (\<open>service/governance_service.go\<close>): admission, caps, usage, alerts.
  \<^item> \<open>ExecStore\<close>, \<open>ExecService\<close> (\<open>repository/execution_repository.go\<close>, \<open>service/execution_service.go\<close>):
    the life of an execution. The runner acts on the whole state of the service.
  \<^item> \<open>ApprovalStore\<close>, \<open>ApprovalService\<close>, \<open>ApprovalRecovery\<close> (\<open>repository/approval_repository.go\<close>,
    \<open>service/approval_service.go\<close>): gate rules, decisions, resumptions. \<open>ApprovalRecovery\<close> is a step
    relation: each step is one database statement or one event of a worker, time passes while every
    live worker is within its timeouts, and workers may die anywhere.
  \<^item> \<open>Workflow\<close>, \<open>WorkflowProps\<close> (\<open>workflow/dag.go\<close>, \<open>service/workflow_service.go\<close>): the scheduler of a
    workflow as a step relation over its goroutines, with its invariant, progress and termination. Names
    that several steps share are accepted; what then goes wrong is lemma \<open>shared_name_misdirects\<close>.

  \<^bold>\<open>Jobs.\<close>
  \<^item> \<open>BlogRequest\<close> (\<open>model/blog.go\<close>): an article request, how it is normalised and what is accepted.
  \<^item> \<open>SchedStore\<close>, \<open>Scheduler\<close>, \<open>SchedProps\<close> (\<open>repository/scheduler_repository.go\<close>, \<open>scheduler/runner.go\<close>):
    scheduled tasks, the tick that claims and dispatches what is due and the end of a run. Replicas that
    list and claim are a step relation whose steps are single statements, each with a clock of its own,
    and between which anything may be done to the tables. The cron parser and the services a run is
    dispatched to are parameters.
  \<^item> \<open>MultiAgent\<close> (\<open>service/multi_agent_service.go\<close>): planner, executor and reviewer, on the goal loop of
    \<open>Autonomous\<close>.

  \<^bold>\<open>Task runs and webhooks.\<close>
  \<^item> \<open>TaskRunStore\<close> (\<open>repository/task_repository.go\<close>, \<open>task_run_repository.go\<close>,
    \<open>task_run_context_repository.go\<close>), \<open>TaskRuns\<close> (\<open>service/task_run_service.go\<close>, \<open>webhook/hooks.go\<close>):
    runs of board tasks. Their tables stand beside the approvals in the world of \<open>ExecService\<close>.
  \<^item> \<open>TaskRunProps\<close>: launching and ending one run. \<open>TaskBoard\<close>: many runs of a task as a step relation
    whose steps are single statements, and when the card of the task reaches done.
  \<^item> \<open>LaunchSchema\<close> (\<open>agentschema\<close>), \<open>TaskLaunch\<close>, \<open>TaskLaunchProps\<close> (\<open>tasklaunch\<close>, \<open>service/task_service.go\<close>):
    how the board and the chat make a task and start its agent.
  \<^item> \<open>SecretBox\<close> (\<open>secretbox\<close>), \<open>Webhooks\<close> (\<open>repository/webhook_repository.go\<close>), \<open>WebhookDispatch\<close>
    (\<open>webhook/dispatcher.go\<close>), \<open>WebhookEndpoints\<close> (\<open>handler/webhook_endpoint_handler.go\<close>):
    endpoints, their sealed secrets and deliveries.
    \<open>WebhookProps\<close> has the life of deliveries under replicas and crashes as a step relation; its flag
    \<open>timely\<close> says that workers end within their leases, without which a delivered row can be reopened.

  \<^bold>\<open>Chat.\<close>
  \<^item> \<open>LlmJson\<close> (\<open>llm/json.go\<close>): JSON found in a reply, and its repair.
  \<^item> \<open>ChatText\<close> (\<open>chatagent/sanitise.go\<close>): the regular expressions as functions, and what a reply loses.
  \<^item> \<open>PlatformTools\<close> (\<open>platformtools\<close>): registry, catalogue, guard and name matching; what a tool does is
    a function of the record \<open>platform_tool\<close>.
  \<^item> \<open>ChatMemory\<close>, \<open>ChatAgent\<close> (\<open>chatagent\<close>): history, the metadata of a session and a turn with its
    confirmations and both ways of calling tools, at most fifteen model calls.
  \<^item> \<open>ChatProps\<close>: the locale \<open>chat_world\<close> states what the effects of a chat agent keep, interpreted on an
    agent that logs the tools it runs; a session is the inductive \<open>chat_session\<close>.
    Its turns follow one another; the ones that replicas begin at the same time are in \<open>ChatService\<close>.
  \<^item> \<open>ChatService\<close> (\<open>chatsvc\<close>, \<open>repository/chat_repository.go\<close>): sessions, messages and stored turns.

  \<^bold>\<open>Accounts and access.\<close>
  \<^item> \<open>GoRunes\<close>: Go's conversion between strings and runes, with which texts are clipped.
  \<^item> \<open>AuthStore\<close> (\<open>repository\<close>: users, refresh tokens, devices, roles, keys, single sign-on): the tables
    with their constraints and cascades, and the combinators of which operations are built: \<open>db_stmt\<close> is
    one statement, which may also fail as the parameter \<open>ae_fault\<close> says.
  \<^item> \<open>AccessControl\<close> (\<open>service/rbac_service.go\<close>, \<open>apikey\<close>, their handlers), \<open>AccessMiddleware\<close>
    (\<open>middleware\<close>, JWT claims, the routes of keys), \<open>AuthRoutes\<close> (\<open>cmd/server/main.go\<close>): who gets where.
  \<^item> \<open>AuthService\<close>, \<open>AuthSignIn\<close> (\<open>service/auth_service*.go\<close>, \<open>service/sso_service.go\<close>): registration, login,
    refresh, Google, Apple, devices and single sign-on. bcrypt, the signatures of tokens and
    the clients of Google and Apple are functions of the record \<open>auth_svc\<close>; of single sign-on the requests
    to the provider and the reading of its replies are modelled, and what it replies is a parameter.
  \<^item> \<open>AuthProps\<close> has the locale \<open>auth_tables\<close>: an invariant of the tables kept by each statement is kept by
    every operation and by \<open>auth_reach\<close>, the runs of operations, each of them taken as a whole: two
    operations whose statements alternate are outside it. \<open>AuthSessions\<close> interprets it with the ownership of sessions and
    with a user's credentials; \<open>AuthAccounts\<close> holds what sign-in makes of accounts, and the concrete
    service the witnesses of these theories run on.

  \<^bold>\<open>Secrets rotation\<close> (\<open>secretsrot\<close>, \<open>service/secrets_rotation_service.go\<close>).
  \<^item> \<open>GoMap\<close>, \<open>JsonText\<close>, \<open>GoEncoding\<close>: Go maps and struct decoding, \<open>json.Marshal\<close>, base64 and
    RFC 3339, each with the proof that what is written is read back.
  \<^item> \<open>SecretsEnv\<close>, \<open>SecretsVault\<close>, \<open>SecretsKube\<close>, \<open>SecretsTargets\<close>: configuration and the clients of Vault,
    Kubernetes, GitHub and Ring Promoter. Every request goes through one parameter that answers it.
  \<^item> \<open>SecretsPropagation\<close>, \<open>SecretsPropagator\<close>, \<open>SecretsRotate\<close>: launch fields, propagation and the modes
    of \<open>Execute\<close>; \<open>SecretsService\<close>: launching, running and cancelling a run.
  \<^item> \<open>SecretsWorld\<close> has the locale \<open>rot_world\<close>: an invariant of the world kept by the admissible
    requests is kept by a whole run. \<open>SecretsProps\<close> interprets it on environments that log their
    requests, \<open>SecretsOrder\<close> reads the order of a rotation from the log, \<open>SecretsStore\<close> relates it to
    the abstract store of a KV v2 server, any read of which may fail and which others may write between
    any two requests, \<open>SecretsPhases\<close>, \<open>SecretsChecks\<close> and \<open>SecretsLaunch\<close> hold what
    a run leaves in its phases, its texts and its row. Polls run as often as the environment says
    fit before the deadline (\<open>rt_polls\<close>).

  \<^bold>\<open>What the properties show.\<close> Gated tools run only when approved, and once; an approval is decided
  once and its run resumed once, and once more per lost worker; a paused run is stored, restored,
  metered and its tool calls recorded without loss or repetition; admission, caps and cost are what
  the policy says for the first segment of a run; selection, routing and retries are sound and
  bounded; workflows respect the dependencies of steps with names of their own and end when acyclic; a
  due time written to a scheduled task starts it at most once; a task's card is done when its last run
  has completed; a webhook is sent a bounded number of times; a turn of a chat runs a destructive tool
  only on an approval, once, though turns that race on two replicas may use one approval twice; an API key opens its routes only, a session stays
  with its user and is spent by its refresh. Properties of kind error state where the code does
  something else than it means to.

  \<^bold>\<open>Not modelled.\<close> The wire formats of the providers, HTTP handlers, the built-in specialists, the
  implementations of the platform tools, CRUD repositories, mail and the user interfaces: transport,
  external services and glue. Live events are not modelled.
\<close>

end
